(* ===== verification/Hermes_Prelude.thy ===== *)
theory Hermes_Prelude
  imports Main "HOL-Library.Word"
begin

text \<open>
  Shared vocabulary of the development: the Rust integer types, the checked and saturating
  arithmetic of the standard library, bounds-checked slice access, little-endian byte codecs,
  and the result type with its recorded findings.

  \<^item> \<open>u8\<close>, \<open>u16\<close>, \<open>u32\<close> are words of that width.
  \<^item> \<open>u64\<close> and \<open>usize\<close> (64-bit targets) are natural numbers; every operation of the source that
    can leave the range \<open>[0, 2^64)\<close> is written with \<open>checked_add64\<close>, \<open>sat_add64\<close> and the like,
    and the plain \<open>+\<close> and \<open>*\<close> of the source stay below \<open>2^64\<close> because a slice has at most
    \<open>2^63 - 1\<close> bytes and the other operands are widened \<open>u32\<close> values.
  \<^item> an \<open>f64\<close> is kept as its 64-bit pattern.
\<close>

unbundle bit_operations_syntax

named_theorems bits "bit-level characterisations of the byte and bit-field operations"
named_theorems slices "bounds-checked slice access in range"

section \<open>Integer types\<close>

type_synonym u8 = "8 word"
type_synonym u16 = "16 word"
type_synonym u32 = "32 word"
type_synonym f64 = "64 word"
type_synonym u64 = nat
type_synonym usize = nat
type_synonym i32 = int
type_synonym i64 = int

definition u32_max :: nat where
  "u32_max = 2 ^ 32 - 1"

definition u64_max :: nat where
  "u64_max = 2 ^ 64 - 1"

definition checked_add64 :: "nat \<Rightarrow> nat \<Rightarrow> nat option" where
  "checked_add64 a b = (if a + b \<le> u64_max then Some (a + b) else None)"

definition checked_mul64 :: "nat \<Rightarrow> nat \<Rightarrow> nat option" where
  "checked_mul64 a b = (if a * b \<le> u64_max then Some (a * b) else None)"

definition sat_add64 :: "nat \<Rightarrow> nat \<Rightarrow> nat" where
  "sat_add64 a b = min (a + b) u64_max"

definition sat_mul64 :: "nat \<Rightarrow> nat \<Rightarrow> nat" where
  "sat_mul64 a b = min (a * b) u64_max"

definition sat_add32 :: "u32 \<Rightarrow> u32 \<Rightarrow> u32" where
  "sat_add32 a b = (if unat a + unat b \<le> u32_max then a + b else -1)"

definition checked_add32 :: "u32 \<Rightarrow> u32 \<Rightarrow> u32 option" where
  "checked_add32 a b = (if unat a + unat b \<le> u32_max then Some (a + b) else None)"

text \<open>\<open>u32::try_from(n).unwrap_or(u32::MAX)\<close>\<close>

definition u32_of_usize_or_max :: "nat \<Rightarrow> u32" where
  "u32_of_usize_or_max n = (if n \<le> u32_max then of_nat n else -1)"

text \<open>\<open>v & !3u64\<close>, the low two bits cleared.\<close>

definition clear_low2 :: "nat \<Rightarrow> nat" where
  "clear_low2 v = 4 * (v div 4)"

lemma clear_low2_word: "v \<le> u64_max \<Longrightarrow> unat (word_of_nat v AND NOT 3 :: 64 word) = clear_low2 v"
proof -
  assume le: "v \<le> u64_max"
  have "(word_of_nat v AND NOT 3 :: 64 word) = word_of_nat v AND NOT (mask 2)"
    by (simp add: mask_eq_exp_minus_1)
  also have "\<dots> = push_bit 2 (drop_bit 2 (word_of_nat v))"
  proof (rule bit_word_eqI)
    fix n assume n: "n < LENGTH(64)"
    show "bit (word_of_nat v AND NOT (mask 2) :: 64 word) n
        = bit (push_bit 2 (drop_bit 2 (word_of_nat v :: 64 word))) n"
    proof (cases "n < 2")
      case False
      then have "2 + (n - 2) = n" by simp
      with False n show ?thesis by (simp add: bit_simps del: add_2_eq_Suc)
    qed (simp add: bit_simps)
  qed
  also have "unat \<dots> = 4 * (v div 4) mod 2 ^ 64"
    using le by (simp add: push_bit_eq_mult drop_bit_eq_div unat_word_ariths unat_of_nat
        u64_max_def unat_div)
  finally show ?thesis using le by (simp add: clear_low2_def u64_max_def)
qed

lemma clear_low2_le [simp]: "clear_low2 v \<le> v"
  by (simp add: clear_low2_def)

lemma clear_low2_dvd [simp]: "4 dvd clear_low2 v"
  by (simp add: clear_low2_def)

lemma clear_low2_add3: "v \<le> clear_low2 (v + 3)"
  by (simp add: clear_low2_def)

lemma unat_u8: "unat (b :: u8) < 256"
  using unsigned_less [of b, where ?'a = nat] by simp

lemma unat_u16: "unat (b :: u16) < 65536"
  using unsigned_less [of b, where ?'a = nat] by simp

lemma unat_u32: "unat (w :: u32) < 2 ^ 32"
  using unsigned_less [of w, where ?'a = nat] by simp

section \<open>Slices\<close>

definition get_at :: "'a list \<Rightarrow> usize \<Rightarrow> 'a option" where
  "get_at xs i = (if i < length xs then Some (xs ! i) else None)"

definition get_from :: "'a list \<Rightarrow> usize \<Rightarrow> 'a list option" where
  "get_from xs a = (if a \<le> length xs then Some (drop a xs) else None)"

definition get_range :: "'a list \<Rightarrow> usize \<Rightarrow> usize \<Rightarrow> 'a list option" where
  "get_range xs a b = (if a \<le> b \<and> b \<le> length xs then Some (take (b - a) (drop a xs)) else None)"

definition first_chunk :: "nat \<Rightarrow> 'a list \<Rightarrow> 'a list option" where
  "first_chunk n xs = (if n \<le> length xs then Some (take n xs) else None)"

text \<open>\<open>xs[a .. a + n]\<close> where the source has checked the bound.\<close>

definition slice :: "'a list \<Rightarrow> usize \<Rightarrow> nat \<Rightarrow> 'a list" where
  "slice xs a n = take n (drop a xs)"

lemma length_slice [simp]: "length (slice xs a n) = min n (length xs - a)"
  by (simp add: slice_def min.commute)

lemma nth_slice [simp]: "i < n \<Longrightarrow> a + i < length xs \<Longrightarrow> slice xs a n ! i = xs ! (a + i)"
  by (simp add: slice_def)

lemma slice_0 [simp]: "slice xs a 0 = []"
  by (simp add: slice_def)

lemma slice_append: "slice xs a m @ slice xs (a + m) n = slice xs a (m + n)"
  by (simp add: slice_def take_add add.commute)

lemma slice_drop: "slice xs a n @ drop (a + n) xs = drop a xs"
  by (simp add: slice_def) (metis add.commute append_take_drop_id drop_drop)

lemma slice_slice: "i + m \<le> n \<Longrightarrow> slice (slice xs a n) i m = slice xs (a + i) m"
  by (simp add: slice_def drop_take min_def add.commute)

lemma get_range_Some [slices]:
  "a \<le> b \<Longrightarrow> b \<le> length xs \<Longrightarrow> get_range xs a b = Some (slice xs a (b - a))"
  by (simp add: get_range_def slice_def)

lemma get_range_SomeD: "get_range xs a b = Some ys \<Longrightarrow>
    a \<le> b \<and> b \<le> length xs \<and> ys = slice xs a (b - a) \<and> length ys = b - a"
  by (auto simp: get_range_def slice_def split: if_splits)

lemma get_range_plus [slices]:
  "a + n \<le> length xs \<Longrightarrow> get_range xs a (a + n) = Some (slice xs a n)"
  by (simp add: get_range_def slice_def)

lemma get_at_Some [slices]: "i < length xs \<Longrightarrow> get_at xs i = Some (xs ! i)"
  by (simp add: get_at_def)

text \<open>A span is an offset and a size.\<close>

abbreviation span_end :: "usize \<times> usize \<Rightarrow> usize" where
  "span_end s \<equiv> fst s + snd s"

section \<open>Little-endian codecs\<close>

fun le_nat :: "u8 list \<Rightarrow> nat" where
  "le_nat [] = 0"
| "le_nat (b # bs) = unat b + 256 * le_nat bs"

fun le_bytes :: "nat \<Rightarrow> nat \<Rightarrow> u8 list" where
  "le_bytes 0 v = []"
| "le_bytes (Suc n) v = word_of_nat v # le_bytes n (v div 256)"

definition u32_from_le :: "u8 list \<Rightarrow> u32" where
  "u32_from_le bs = word_of_nat (le_nat bs)"

definition u32_to_le :: "u32 \<Rightarrow> u8 list" where
  "u32_to_le w = le_bytes 4 (unat w)"

definition u16_from_le :: "u8 list \<Rightarrow> u16" where
  "u16_from_le bs = word_of_nat (le_nat bs)"

definition f64_from_le :: "u8 list \<Rightarrow> f64" where
  "f64_from_le bs = word_of_nat (le_nat bs)"

lemma length_le_bytes [simp]: "length (le_bytes n v) = n"
  by (induction n arbitrary: v) auto

lemma le_bytes_numeral:
  "le_bytes (numeral k) v = word_of_nat v # le_bytes (pred_numeral k) (v div 256)"
  unfolding numeral_eq_Suc [of k] by (rule le_bytes.simps)

lemma length_u32_to_le [simp]: "length (u32_to_le w) = 4"
  by (simp add: u32_to_le_def)

lemma le_nat_bound: "le_nat bs < 256 ^ length bs"
proof (induction bs)
  case (Cons b bs)
  have "unat b < 256" using unsigned_less [of b] by simp
  with Cons show ?case by simp
qed simp

lemma le_bytes_le_nat: "le_bytes (length bs) (le_nat bs) = bs"
proof (induction bs)
  case (Cons b bs)
  have lt: "unat b < 256" using unsigned_less [of b] by simp
  have "(256 :: u8) = 0" by simp
  then have "(word_of_nat (256 * le_nat bs) :: u8) = 0" by (simp only: of_nat_mult of_nat_numeral mult_zero_left)
  then have "(word_of_nat (unat b + 256 * le_nat bs) :: u8) = b" by (simp only: of_nat_add) simp
  with lt Cons show ?case by simp
qed simp

lemma le_nat_le_bytes: "le_nat (le_bytes n v) = v mod 256 ^ n"
proof (induction n arbitrary: v)
  case (Suc n)
  have "le_nat (le_bytes (Suc n) v) = v mod 256 + 256 * (v div 256 mod 256 ^ n)"
    using Suc by (simp add: unsigned_of_nat take_bit_eq_mod)
  also have "\<dots> = v mod 256 ^ Suc n"
    by (simp add: mod_mult2_eq)
  finally show ?case .
qed simp

lemma unat_u32_from_le: "length bs \<le> 4 \<Longrightarrow> unat (u32_from_le bs) = le_nat bs"
proof -
  assume len: "length bs \<le> 4"
  have "le_nat bs < 256 ^ length bs" by (rule le_nat_bound)
  also have "\<dots> \<le> 256 ^ 4" using len by (intro power_increasing) auto
  finally show ?thesis
    by (simp add: u32_from_le_def unsigned_of_nat take_bit_nat_eq_self)
qed

lemma u32_to_from_le: "length bs = 4 \<Longrightarrow> u32_to_le (u32_from_le bs) = bs"
  using le_bytes_le_nat [of bs] by (simp add: u32_to_le_def unat_u32_from_le)

lemma u32_from_to_le [simp]: "u32_from_le (u32_to_le w) = w"
proof -
  have "unat w < 2 ^ 32" using unsigned_less [of w] by simp
  then show ?thesis by (simp add: u32_from_le_def u32_to_le_def le_nat_le_bytes)
qed

section \<open>Reads that return zero out of bounds\<close>

text \<open>
  \<open>read_u32\<close>, \<open>read_u16\<close> and \<open>read_f64\<close> of \<open>parser/mod.rs\<close> (\<open>header.rs\<close> and
  \<open>parser_oracle.rs\<close> carry the same reader as \<open>read_u32_le\<close> and \<open>read_u32_oob0\<close>):
  \<open>buf.get(offset..).and_then(first_chunk).map_or(0, from_le_bytes)\<close>.
\<close>

definition read_u32 :: "u8 list \<Rightarrow> usize \<Rightarrow> u32" where
  "read_u32 buf offset =
     (case Option.bind (get_from buf offset) (first_chunk 4) of
        None \<Rightarrow> 0 | Some a \<Rightarrow> u32_from_le a)"

definition read_u16 :: "u8 list \<Rightarrow> usize \<Rightarrow> u16" where
  "read_u16 buf offset =
     (case Option.bind (get_from buf offset) (first_chunk 2) of
        None \<Rightarrow> 0 | Some a \<Rightarrow> u16_from_le a)"

definition read_f64 :: "u8 list \<Rightarrow> usize \<Rightarrow> f64" where
  "read_f64 buf offset =
     (case Option.bind (get_from buf offset) (first_chunk 8) of
        None \<Rightarrow> 0 | Some a \<Rightarrow> f64_from_le a)"

lemma read_u32_in [slices]:
  "offset + 4 \<le> length buf \<Longrightarrow> read_u32 buf offset = u32_from_le (slice buf offset 4)"
  using le_diff_conv2 [of offset "length buf" 4]
  by (simp add: read_u32_def get_from_def first_chunk_def slice_def)

lemma read_u32_out: "length buf < offset + 4 \<Longrightarrow> read_u32 buf offset = 0"
  by (auto simp: read_u32_def get_from_def first_chunk_def)

lemma u32_to_le_read_u32:
  "offset + 4 \<le> length buf \<Longrightarrow> u32_to_le (read_u32 buf offset) = slice buf offset 4"
  by (simp add: read_u32_in u32_to_from_le)

section \<open>Results and recorded findings\<close>

text \<open>
  A fallible operation returns \<open>'e + 'a\<close>. An operation that may also record findings on the
  thread's channel returns the findings beside its value, in the order it emits them; the
  channel itself is modelled in \<open>Hermes_Findings\<close>.
\<close>

definition ebind :: "'e + 'a \<Rightarrow> ('a \<Rightarrow> 'e + 'b) \<Rightarrow> 'e + 'b" where
  "ebind m f = (case m of Inl e \<Rightarrow> Inl e | Inr x \<Rightarrow> f x)"

definition ok_or :: "'a option \<Rightarrow> 'e \<Rightarrow> 'e + 'a" where
  "ok_or m e = (case m of None \<Rightarrow> Inl e | Some x \<Rightarrow> Inr x)"

definition require :: "bool \<Rightarrow> 'e \<Rightarrow> 'e + unit" where
  "require b e = (if b then Inr () else Inl e)"

type_synonym ('e, 'w, 'a) logged = "('e + 'a) \<times> 'w list"

definition lret :: "'a \<Rightarrow> ('e, 'w, 'a) logged" where
  "lret x = (Inr x, [])"

definition lfail :: "'e \<Rightarrow> ('e, 'w, 'a) logged" where
  "lfail e = (Inl e, [])"

definition llift :: "'e + 'a \<Rightarrow> ('e, 'w, 'a) logged" where
  "llift r = (r, [])"

definition lemit :: "'w list \<Rightarrow> ('e, 'w, unit) logged" where
  "lemit w = (Inr (), w)"

definition lbind :: "('e, 'w, 'a) logged \<Rightarrow> ('a \<Rightarrow> ('e, 'w, 'b) logged) \<Rightarrow> ('e, 'w, 'b) logged"
  where
  "lbind m f = (case m of
       (Inl e, w) \<Rightarrow> (Inl e, w)
     | (Inr x, w) \<Rightarrow> (case f x of (r, w') \<Rightarrow> (r, w @ w')))"

lemma ebind_Inl [simp]: "ebind (Inl e) f = Inl e"
  and ebind_Inr [simp]: "ebind (Inr x) f = f x"
  by (simp_all add: ebind_def)

lemma ebind_eq_Inr: "ebind m f = Inr y \<longleftrightarrow> (\<exists>x. m = Inr x \<and> f x = Inr y)"
  by (auto simp: ebind_def split: sum.splits)

lemma ebind_eq_Inl: "ebind m f = Inl e \<longleftrightarrow> m = Inl e \<or> (\<exists>x. m = Inr x \<and> f x = Inl e)"
  by (auto simp: ebind_def split: sum.splits)

lemma ok_or_simps [simp]: "ok_or None e = Inl e" "ok_or (Some x) e = Inr x"
  by (simp_all add: ok_or_def)

lemma ok_or_eq_Inr: "ok_or m e = Inr x \<longleftrightarrow> m = Some x"
  by (cases m) auto

lemma require_eq_Inr: "require b e = Inr u \<longleftrightarrow> b"
  by (simp add: require_def)

lemma lbind_simps [simp]:
  "lbind (Inl e, w) f = (Inl e, w)"
  "lbind (Inr x, w) f = (case f x of (r, w') \<Rightarrow> (r, w @ w'))"
  by (simp_all add: lbind_def)

lemma lbind_lret [simp]: "lbind (lret x) f = f x"
  by (simp add: lret_def split: prod.splits)

lemma lbind_lfail [simp]: "lbind (lfail e) f = lfail e"
  by (simp add: lfail_def)

lemma lbind_llift [simp]:
  "lbind (llift (Inr x)) f = f x" "lbind (llift (Inl e)) f = lfail e"
  by (simp_all add: llift_def lfail_def split: prod.splits)

lemma lbind_eq_Inr:
  "fst (lbind m f) = Inr y \<longleftrightarrow> (\<exists>x. fst m = Inr x \<and> fst (f x) = Inr y)"
  by (cases m; cases "fst m") (auto split: prod.splits)

lemma fst_llift [simp]: "fst (llift r) = r"
  by (simp add: llift_def)

lemma fst_lret [simp]: "fst (lret x) = Inr x"
  by (simp add: lret_def)

lemma fst_lfail [simp]: "fst (lfail e) = Inl e"
  by (simp add: lfail_def)

lemma fst_lemit [simp]: "fst (lemit w) = Inr ()"
  by (simp add: lemit_def)

end
