(* ===== verification/Hermes_Findings.thy ===== *)
theory Hermes_Findings
  imports Hermes_Prelude
begin

text \<open>
  The error type of \<open>error.rs\<close> and the finding channel of \<open>finding.rs\<close>.

  \<open>HermesError\<close> keeps the constructors and field order of the source. The payloads of \<open>Ssa\<close>,
  \<open>BoundCountExceeded\<close> and \<open>Budget\<close> are values of the crate \<open>droidsaw_common\<close>, which is not
  part of this repository, so these three constructors carry none.

  The channel is the pair of thread-local cells \<open>FINDINGS\<close> and \<open>SEEN\<close>; \<open>emit_finding\<close>,
  \<open>drain_findings\<close> and \<open>discard_findings\<close> are state transformers on it. (A \<open>try_borrow_mut\<close>
  that fails because of a re-entrant borrow is not modelled: no function here emits while it
  holds the cell.)
\<close>

section \<open>Errors\<close>

datatype (plugins only: code size) hermes_error =
    HeaderTooSmall usize
  | InvalidMagic "u8 list"
  | UnsupportedVersion u32 u32 u32
  | SectionSizeOverflow string u64
  | SectionExceedsBounds string u64 u64 usize
  | SectionCursorOverflow string
  | Ssa
  | InvalidExceptionLayout u32 u32
  | CountExceedsInput u32 usize string
  | BoundCountExceeded
  | ArithmeticOverflow string
  | Budget
  | OverflowIndexOutOfRange u32 u32
  | StringStorageEndExceedsBuffer u32 usize usize usize
  | ZeroLengthAfterOverflow u32
  | ZeroOffsetWithLength u32 u32
  | OverflowStringCountExceedsStringCount u32 u32
  | FunctionIdOutOfRange u32 u32
  | FunctionBodyExceedsBuffer u32 u32 usize
  | UnknownOpcode usize u8 usize
  | TruncatedInstructionStream usize u8
  | TruncatedLiteralBuffer u8 usize usize
  | InconsistentDebugHeader u32 u32
  | ExceptionCountCap u32 u32 u32
  | OverflowedHeaderOutOfBounds u32 u64 usize
  | OverflowedHeaderOverlapsSynthesizedRegion u32 u64
  | ExceptionTableOverlapsSynthesizedRegion u32 u32
  | LargeHeaderLayoutAmbiguous u32 u64
  | AmbiguousV98Form u8 u8
  | FunctionHeaderEntryOutOfBounds u32 usize u32 usize
  | FunctionBodyOutOfBytecodeRegion u32 u32 u32 u32 u32
  | FunctionBodyOverlap u32 u32 u32 u32 u32 u32
  | FunctionBodyDedupOverflow u32 u32 u32 u32 u32 u32
  | InvalidExceptionHandlerTarget u32
  | ExceptionHandlerOutOfFunctionRange u32 u32 u32 u32 u32 u32

section \<open>Findings\<close>

datatype (plugins only: code size) hermes_finding =
    F_OverflowIndexOutOfRange u32 u32
  | F_FileLengthDisagreement u32 u64
  | F_ObjectShapeNumPropsExceeded u32 u32
  | F_BigIntTooLarge u32 u32 u32
  | F_ExceptionCountCap u32 u32 u32
  | F_OverflowedHeaderOutOfBounds u32 u64 usize
  | F_OverflowedHeaderOverlapsSynthesizedRegion u32 u64
  | F_ExceptionTableOverlapsSynthesizedRegion u32 u32
  | F_V98FormAmbiguous u8 u8 u32 u32 u32 bool
  | F_V98LargeHeaderLayoutAmbiguous u32 u32 u32 u32 bool
  | F_ExceptionHandlerOutOfFunctionRange u32 u32 u32 u32 u32 u32

type_synonym 'a hermes = "(hermes_error, hermes_finding, 'a) logged"
type_synonym 'a with_findings = "'a \<times> hermes_finding list"

definition MAX_EXCEPTION_HANDLERS :: u32 where
  "MAX_EXCEPTION_HANDLERS = 10000"

definition MAX_BIGINT_BYTES :: u32 where
  "MAX_BIGINT_BYTES = 4096"

section \<open>The channel\<close>

record channel =
  FINDINGS :: "hermes_finding list"
  SEEN :: "hermes_finding set"

definition emit_finding :: "hermes_finding \<Rightarrow> channel \<Rightarrow> channel" where
  "emit_finding f ch =
     (if f \<in> SEEN ch then ch
      else ch\<lparr>FINDINGS := FINDINGS ch @ [f], SEEN := insert f (SEEN ch)\<rparr>)"

definition drain_findings :: "channel \<Rightarrow> hermes_finding list \<times> channel" where
  "drain_findings ch = (FINDINGS ch, ch\<lparr>FINDINGS := [], SEEN := {}\<rparr>)"

definition discard_findings :: "channel \<Rightarrow> channel" where
  "discard_findings ch = ch\<lparr>FINDINGS := [], SEEN := {}\<rparr>"

text \<open>What an operation does to the channel, from the list of findings it emits.\<close>

definition emit_all :: "hermes_finding list \<Rightarrow> channel \<Rightarrow> channel" where
  "emit_all ws ch = fold emit_finding ws ch"

definition channel_ok :: "channel \<Rightarrow> bool" where
  "channel_ok ch \<longleftrightarrow> SEEN ch = set (FINDINGS ch) \<and> distinct (FINDINGS ch)"

lemma emit_all_append: "emit_all (ws @ vs) ch = emit_all vs (emit_all ws ch)"
  by (simp add: emit_all_def)

lemma emit_finding_ok: "channel_ok ch \<Longrightarrow> channel_ok (emit_finding f ch)"
  by (auto simp: channel_ok_def emit_finding_def)

lemma emit_all_ok: "channel_ok ch \<Longrightarrow> channel_ok (emit_all ws ch)"
  unfolding emit_all_def by (induction ws arbitrary: ch) (auto intro: emit_finding_ok)

lemma discard_ok: "channel_ok (discard_findings ch)"
  by (simp add: channel_ok_def discard_findings_def)

lemma drain_ok: "channel_ok (snd (drain_findings ch))"
  by (simp add: channel_ok_def drain_findings_def)

text \<open>The first occurrences of a list's elements, in order.\<close>

fun firsts :: "'a set \<Rightarrow> 'a list \<Rightarrow> 'a list" where
  "firsts seen [] = []"
| "firsts seen (x # xs) = (if x \<in> seen then firsts seen xs else x # firsts (insert x seen) xs)"

lemma emit_all_firsts:
  "FINDINGS (emit_all ws ch) = FINDINGS ch @ firsts (SEEN ch) ws
   \<and> SEEN (emit_all ws ch) = SEEN ch \<union> set ws"
  unfolding emit_all_def
  by (induction ws arbitrary: ch) (auto simp: emit_finding_def)

text \<open>
  The finding channel after a discard, a run that emits the findings \<open>ws\<close>, and a drain
  hands out exactly the distinct findings of \<open>ws\<close>, each once and in the order of its first
  emission, and leaves the channel empty, so the next run reports its own findings again.
\<close>

theorem drain_after_run:
  "drain_findings (emit_all ws (discard_findings ch)) = (firsts {} ws, discard_findings ch)
   \<and> distinct (firsts {} ws) \<and> set (firsts {} ws) = set ws"
proof -
  have "channel_ok (emit_all ws (discard_findings ch))"
    by (intro emit_all_ok discard_ok)
  moreover have "FINDINGS (emit_all ws (discard_findings ch)) = firsts {} ws"
    "SEEN (emit_all ws (discard_findings ch)) = set ws"
    using emit_all_firsts [of ws "discard_findings ch"] by (auto simp: discard_findings_def)
  moreover have "channel.more (emit_all ws (discard_findings ch)) = channel.more ch"
    by simp
  ultimately show ?thesis
    by (auto simp: drain_findings_def channel_ok_def discard_findings_def)
qed

end
