(* ===== verification/Hermes_Header.thy ===== *)
theory Hermes_Header
  imports Hermes_Findings
begin

text \<open>
  The 128-byte header (\<open>header.rs\<close>): the five layout variants, their constructors, the
  version dispatch of \<open>parse_hbc_header\<close> and the disambiguation of the two v98 forms.

  The fields of the five records carry the prefix of their variant (\<open>h83\<close>, \<open>h84\<close>, \<open>h87\<close>,
  \<open>h97\<close>, \<open>h98\<close>); the accessors of \<open>impl HbcHeader\<close> carry the prefix \<open>hdr\<close>.
\<close>

section \<open>Constants\<close>

definition HBC_MAGIC :: nat where
  "HBC_MAGIC = 0x1F1903C103BC1FC6"

definition HEADER_SIZE :: usize where
  "HEADER_SIZE = 128"

definition MIN_SUPPORTED_VERSION :: u32 where
  "MIN_SUPPORTED_VERSION = 40"

definition MAX_SUPPORTED_VERSION :: u32 where
  "MAX_SUPPORTED_VERSION = 100"

definition BYTECODE_OPTIONS_EARLY :: usize where
  "BYTECODE_OPTIONS_EARLY = 108"

definition BYTECODE_OPTIONS_LATE :: usize where
  "BYTECODE_OPTIONS_LATE = 112"

definition BYTECODE_OPTIONS_VALID_MASK :: u8 where
  "BYTECODE_OPTIONS_VALID_MASK = 0xF8"

definition read_u32_le :: "u8 list \<Rightarrow> usize \<Rightarrow> u32" where
  "read_u32_le buf offset =
     (case Option.bind (get_from buf offset) (first_chunk 4) of
        None \<Rightarrow> 0 | Some a \<Rightarrow> u32_from_le a)"

lemma read_u32_le_eq [simp]: "read_u32_le = read_u32"
  by (intro ext) (simp add: read_u32_le_def read_u32_def)

section \<open>The five layouts\<close>

record PreV84Header =
  h83_version :: u32
  h83_file_length :: u32
  h83_global_code_index :: u32
  h83_function_count :: u32
  h83_string_kind_count :: u32
  h83_identifier_count :: u32
  h83_string_count :: u32
  h83_overflow_string_count :: u32
  h83_string_storage_size :: u32
  h83_reg_exp_count :: u32
  h83_reg_exp_storage_size :: u32
  h83_array_buffer_size :: u32
  h83_obj_key_buffer_size :: u32
  h83_obj_value_buffer_size :: u32
  h83_segment_id :: u32
  h83_cjs_module_count :: u32
  h83_debug_info_offset :: u32

record V84to86Header =
  h84_version :: u32
  h84_file_length :: u32
  h84_global_code_index :: u32
  h84_function_count :: u32
  h84_string_kind_count :: u32
  h84_identifier_count :: u32
  h84_string_count :: u32
  h84_overflow_string_count :: u32
  h84_string_storage_size :: u32
  h84_reg_exp_count :: u32
  h84_reg_exp_storage_size :: u32
  h84_array_buffer_size :: u32
  h84_obj_key_buffer_size :: u32
  h84_obj_value_buffer_size :: u32
  h84_segment_id :: u32
  h84_cjs_module_count :: u32
  h84_function_source_count :: u32
  h84_debug_info_offset :: u32

record V87to96Header =
  h87_version :: u32
  h87_file_length :: u32
  h87_global_code_index :: u32
  h87_function_count :: u32
  h87_string_kind_count :: u32
  h87_identifier_count :: u32
  h87_string_count :: u32
  h87_overflow_string_count :: u32
  h87_string_storage_size :: u32
  h87_big_int_count :: u32
  h87_big_int_storage_size :: u32
  h87_reg_exp_count :: u32
  h87_reg_exp_storage_size :: u32
  h87_array_buffer_size :: u32
  h87_obj_key_buffer_size :: u32
  h87_obj_value_buffer_size :: u32
  h87_segment_id :: u32
  h87_cjs_module_count :: u32
  h87_function_source_count :: u32
  h87_debug_info_offset :: u32

record V97toV98EarlyHeader =
  h97_version :: u32
  h97_file_length :: u32
  h97_global_code_index :: u32
  h97_function_count :: u32
  h97_string_kind_count :: u32
  h97_identifier_count :: u32
  h97_string_count :: u32
  h97_overflow_string_count :: u32
  h97_string_storage_size :: u32
  h97_big_int_count :: u32
  h97_big_int_storage_size :: u32
  h97_reg_exp_count :: u32
  h97_reg_exp_storage_size :: u32
  h97_array_buffer_size :: u32
  h97_obj_key_buffer_size :: u32
  h97_obj_shape_table_count :: u32
  h97_segment_id :: u32
  h97_cjs_module_count :: u32
  h97_function_source_count :: u32
  h97_debug_info_offset :: u32

record V98LateToV99Header =
  h98_version :: u32
  h98_file_length :: u32
  h98_global_code_index :: u32
  h98_function_count :: u32
  h98_string_kind_count :: u32
  h98_identifier_count :: u32
  h98_string_count :: u32
  h98_overflow_string_count :: u32
  h98_string_storage_size :: u32
  h98_big_int_count :: u32
  h98_big_int_storage_size :: u32
  h98_reg_exp_count :: u32
  h98_reg_exp_storage_size :: u32
  h98_array_buffer_size :: u32
  h98_obj_key_buffer_size :: u32
  h98_obj_shape_table_count :: u32
  h98_num_string_switch_imms :: u32
  h98_segment_id :: u32
  h98_cjs_module_count :: u32
  h98_function_source_count :: u32
  h98_debug_info_offset :: u32

datatype (plugins only: code size) HbcHeader =
    PreV84 PreV84Header
  | V84to86 V84to86Header
  | V87to96 V87to96Header
  | V97toV98Early V97toV98EarlyHeader
  | V98LateToV99 V98LateToV99Header

section \<open>Accessors\<close>

fun hdr_version :: "HbcHeader \<Rightarrow> u32" where
  "hdr_version (PreV84 h) = h83_version h"
| "hdr_version (V84to86 h) = h84_version h"
| "hdr_version (V87to96 h) = h87_version h"
| "hdr_version (V97toV98Early h) = h97_version h"
| "hdr_version (V98LateToV99 h) = h98_version h"

fun hdr_func_header_size :: "HbcHeader \<Rightarrow> u32" where
  "hdr_func_header_size (PreV84 h) = 16"
| "hdr_func_header_size (V84to86 h) = 16"
| "hdr_func_header_size (V87to96 h) = 16"
| "hdr_func_header_size (V97toV98Early h) = 12"
| "hdr_func_header_size (V98LateToV99 h) = 12"

fun hdr_use_v99_func_header :: "HbcHeader \<Rightarrow> bool" where
  "hdr_use_v99_func_header (V98LateToV99 h) = True"
| "hdr_use_v99_func_header h = False"

fun hdr_has_num_string_switch_imms :: "HbcHeader \<Rightarrow> bool" where
  "hdr_has_num_string_switch_imms (V98LateToV99 h) = True"
| "hdr_has_num_string_switch_imms h = False"

fun hdr_file_length :: "HbcHeader \<Rightarrow> u32" where
  "hdr_file_length (PreV84 h) = h83_file_length h"
| "hdr_file_length (V84to86 h) = h84_file_length h"
| "hdr_file_length (V87to96 h) = h87_file_length h"
| "hdr_file_length (V97toV98Early h) = h97_file_length h"
| "hdr_file_length (V98LateToV99 h) = h98_file_length h"

fun hdr_function_count :: "HbcHeader \<Rightarrow> u32" where
  "hdr_function_count (PreV84 h) = h83_function_count h"
| "hdr_function_count (V84to86 h) = h84_function_count h"
| "hdr_function_count (V87to96 h) = h87_function_count h"
| "hdr_function_count (V97toV98Early h) = h97_function_count h"
| "hdr_function_count (V98LateToV99 h) = h98_function_count h"

fun hdr_string_kind_count :: "HbcHeader \<Rightarrow> u32" where
  "hdr_string_kind_count (PreV84 h) = h83_string_kind_count h"
| "hdr_string_kind_count (V84to86 h) = h84_string_kind_count h"
| "hdr_string_kind_count (V87to96 h) = h87_string_kind_count h"
| "hdr_string_kind_count (V97toV98Early h) = h97_string_kind_count h"
| "hdr_string_kind_count (V98LateToV99 h) = h98_string_kind_count h"

fun hdr_identifier_count :: "HbcHeader \<Rightarrow> u32" where
  "hdr_identifier_count (PreV84 h) = h83_identifier_count h"
| "hdr_identifier_count (V84to86 h) = h84_identifier_count h"
| "hdr_identifier_count (V87to96 h) = h87_identifier_count h"
| "hdr_identifier_count (V97toV98Early h) = h97_identifier_count h"
| "hdr_identifier_count (V98LateToV99 h) = h98_identifier_count h"

fun hdr_string_count :: "HbcHeader \<Rightarrow> u32" where
  "hdr_string_count (PreV84 h) = h83_string_count h"
| "hdr_string_count (V84to86 h) = h84_string_count h"
| "hdr_string_count (V87to96 h) = h87_string_count h"
| "hdr_string_count (V97toV98Early h) = h97_string_count h"
| "hdr_string_count (V98LateToV99 h) = h98_string_count h"

fun hdr_overflow_string_count :: "HbcHeader \<Rightarrow> u32" where
  "hdr_overflow_string_count (PreV84 h) = h83_overflow_string_count h"
| "hdr_overflow_string_count (V84to86 h) = h84_overflow_string_count h"
| "hdr_overflow_string_count (V87to96 h) = h87_overflow_string_count h"
| "hdr_overflow_string_count (V97toV98Early h) = h97_overflow_string_count h"
| "hdr_overflow_string_count (V98LateToV99 h) = h98_overflow_string_count h"

fun hdr_string_storage_size :: "HbcHeader \<Rightarrow> u32" where
  "hdr_string_storage_size (PreV84 h) = h83_string_storage_size h"
| "hdr_string_storage_size (V84to86 h) = h84_string_storage_size h"
| "hdr_string_storage_size (V87to96 h) = h87_string_storage_size h"
| "hdr_string_storage_size (V97toV98Early h) = h97_string_storage_size h"
| "hdr_string_storage_size (V98LateToV99 h) = h98_string_storage_size h"

fun hdr_reg_exp_count :: "HbcHeader \<Rightarrow> u32" where
  "hdr_reg_exp_count (PreV84 h) = h83_reg_exp_count h"
| "hdr_reg_exp_count (V84to86 h) = h84_reg_exp_count h"
| "hdr_reg_exp_count (V87to96 h) = h87_reg_exp_count h"
| "hdr_reg_exp_count (V97toV98Early h) = h97_reg_exp_count h"
| "hdr_reg_exp_count (V98LateToV99 h) = h98_reg_exp_count h"

fun hdr_reg_exp_storage_size :: "HbcHeader \<Rightarrow> u32" where
  "hdr_reg_exp_storage_size (PreV84 h) = h83_reg_exp_storage_size h"
| "hdr_reg_exp_storage_size (V84to86 h) = h84_reg_exp_storage_size h"
| "hdr_reg_exp_storage_size (V87to96 h) = h87_reg_exp_storage_size h"
| "hdr_reg_exp_storage_size (V97toV98Early h) = h97_reg_exp_storage_size h"
| "hdr_reg_exp_storage_size (V98LateToV99 h) = h98_reg_exp_storage_size h"

fun hdr_array_buffer_size :: "HbcHeader \<Rightarrow> u32" where
  "hdr_array_buffer_size (PreV84 h) = h83_array_buffer_size h"
| "hdr_array_buffer_size (V84to86 h) = h84_array_buffer_size h"
| "hdr_array_buffer_size (V87to96 h) = h87_array_buffer_size h"
| "hdr_array_buffer_size (V97toV98Early h) = h97_array_buffer_size h"
| "hdr_array_buffer_size (V98LateToV99 h) = h98_array_buffer_size h"

fun hdr_obj_key_buffer_size :: "HbcHeader \<Rightarrow> u32" where
  "hdr_obj_key_buffer_size (PreV84 h) = h83_obj_key_buffer_size h"
| "hdr_obj_key_buffer_size (V84to86 h) = h84_obj_key_buffer_size h"
| "hdr_obj_key_buffer_size (V87to96 h) = h87_obj_key_buffer_size h"
| "hdr_obj_key_buffer_size (V97toV98Early h) = h97_obj_key_buffer_size h"
| "hdr_obj_key_buffer_size (V98LateToV99 h) = h98_obj_key_buffer_size h"

fun hdr_cjs_module_count :: "HbcHeader \<Rightarrow> u32" where
  "hdr_cjs_module_count (PreV84 h) = h83_cjs_module_count h"
| "hdr_cjs_module_count (V84to86 h) = h84_cjs_module_count h"
| "hdr_cjs_module_count (V87to96 h) = h87_cjs_module_count h"
| "hdr_cjs_module_count (V97toV98Early h) = h97_cjs_module_count h"
| "hdr_cjs_module_count (V98LateToV99 h) = h98_cjs_module_count h"

fun hdr_debug_info_offset :: "HbcHeader \<Rightarrow> u32" where
  "hdr_debug_info_offset (PreV84 h) = h83_debug_info_offset h"
| "hdr_debug_info_offset (V84to86 h) = h84_debug_info_offset h"
| "hdr_debug_info_offset (V87to96 h) = h87_debug_info_offset h"
| "hdr_debug_info_offset (V97toV98Early h) = h97_debug_info_offset h"
| "hdr_debug_info_offset (V98LateToV99 h) = h98_debug_info_offset h"

fun hdr_function_source_count :: "HbcHeader \<Rightarrow> u32" where
  "hdr_function_source_count (PreV84 h) = 0"
| "hdr_function_source_count (V84to86 h) = h84_function_source_count h"
| "hdr_function_source_count (V87to96 h) = h87_function_source_count h"
| "hdr_function_source_count (V97toV98Early h) = h97_function_source_count h"
| "hdr_function_source_count (V98LateToV99 h) = h98_function_source_count h"

fun hdr_big_int_count :: "HbcHeader \<Rightarrow> u32" where
  "hdr_big_int_count (PreV84 h) = 0"
| "hdr_big_int_count (V84to86 h) = 0"
| "hdr_big_int_count (V87to96 h) = h87_big_int_count h"
| "hdr_big_int_count (V97toV98Early h) = h97_big_int_count h"
| "hdr_big_int_count (V98LateToV99 h) = h98_big_int_count h"

fun hdr_big_int_storage_size :: "HbcHeader \<Rightarrow> u32" where
  "hdr_big_int_storage_size (PreV84 h) = 0"
| "hdr_big_int_storage_size (V84to86 h) = 0"
| "hdr_big_int_storage_size (V87to96 h) = h87_big_int_storage_size h"
| "hdr_big_int_storage_size (V97toV98Early h) = h97_big_int_storage_size h"
| "hdr_big_int_storage_size (V98LateToV99 h) = h98_big_int_storage_size h"

fun hdr_obj_value_buffer_size :: "HbcHeader \<Rightarrow> u32" where
  "hdr_obj_value_buffer_size (PreV84 h) = h83_obj_value_buffer_size h"
| "hdr_obj_value_buffer_size (V84to86 h) = h84_obj_value_buffer_size h"
| "hdr_obj_value_buffer_size (V87to96 h) = h87_obj_value_buffer_size h"
| "hdr_obj_value_buffer_size (V97toV98Early h) = 0"
| "hdr_obj_value_buffer_size (V98LateToV99 h) = 0"

fun hdr_obj_shape_table_count :: "HbcHeader \<Rightarrow> u32" where
  "hdr_obj_shape_table_count (PreV84 h) = 0"
| "hdr_obj_shape_table_count (V84to86 h) = 0"
| "hdr_obj_shape_table_count (V87to96 h) = 0"
| "hdr_obj_shape_table_count (V97toV98Early h) = h97_obj_shape_table_count h"
| "hdr_obj_shape_table_count (V98LateToV99 h) = h98_obj_shape_table_count h"

section \<open>Reading a layout\<close>

definition parse_pre_v84 :: "u8 list \<Rightarrow> u32 \<Rightarrow> PreV84Header" where
  "parse_pre_v84 buf v = \<lparr>
     h83_version = v,
     h83_file_length = read_u32_le buf 32,
     h83_global_code_index = read_u32_le buf 36,
     h83_function_count = read_u32_le buf 40,
     h83_string_kind_count = read_u32_le buf 44,
     h83_identifier_count = read_u32_le buf 48,
     h83_string_count = read_u32_le buf 52,
     h83_overflow_string_count = read_u32_le buf 56,
     h83_string_storage_size = read_u32_le buf 60,
     h83_reg_exp_count = read_u32_le buf 64,
     h83_reg_exp_storage_size = read_u32_le buf 68,
     h83_array_buffer_size = read_u32_le buf 72,
     h83_obj_key_buffer_size = read_u32_le buf 76,
     h83_obj_value_buffer_size = read_u32_le buf 80,
     h83_segment_id = read_u32_le buf 84,
     h83_cjs_module_count = read_u32_le buf 88,
     h83_debug_info_offset = read_u32_le buf 92\<rparr>"

definition parse_v84_to_86 :: "u8 list \<Rightarrow> u32 \<Rightarrow> V84to86Header" where
  "parse_v84_to_86 buf v = \<lparr>
     h84_version = v,
     h84_file_length = read_u32_le buf 32,
     h84_global_code_index = read_u32_le buf 36,
     h84_function_count = read_u32_le buf 40,
     h84_string_kind_count = read_u32_le buf 44,
     h84_identifier_count = read_u32_le buf 48,
     h84_string_count = read_u32_le buf 52,
     h84_overflow_string_count = read_u32_le buf 56,
     h84_string_storage_size = read_u32_le buf 60,
     h84_reg_exp_count = read_u32_le buf 64,
     h84_reg_exp_storage_size = read_u32_le buf 68,
     h84_array_buffer_size = read_u32_le buf 72,
     h84_obj_key_buffer_size = read_u32_le buf 76,
     h84_obj_value_buffer_size = read_u32_le buf 80,
     h84_segment_id = read_u32_le buf 84,
     h84_cjs_module_count = read_u32_le buf 88,
     h84_function_source_count = read_u32_le buf 92,
     h84_debug_info_offset = read_u32_le buf 96\<rparr>"

definition parse_v87_to_96 :: "u8 list \<Rightarrow> u32 \<Rightarrow> V87to96Header" where
  "parse_v87_to_96 buf v = \<lparr>
     h87_version = v,
     h87_file_length = read_u32_le buf 32,
     h87_global_code_index = read_u32_le buf 36,
     h87_function_count = read_u32_le buf 40,
     h87_string_kind_count = read_u32_le buf 44,
     h87_identifier_count = read_u32_le buf 48,
     h87_string_count = read_u32_le buf 52,
     h87_overflow_string_count = read_u32_le buf 56,
     h87_string_storage_size = read_u32_le buf 60,
     h87_big_int_count = read_u32_le buf 64,
     h87_big_int_storage_size = read_u32_le buf 68,
     h87_reg_exp_count = read_u32_le buf 72,
     h87_reg_exp_storage_size = read_u32_le buf 76,
     h87_array_buffer_size = read_u32_le buf 80,
     h87_obj_key_buffer_size = read_u32_le buf 84,
     h87_obj_value_buffer_size = read_u32_le buf 88,
     h87_segment_id = read_u32_le buf 92,
     h87_cjs_module_count = read_u32_le buf 96,
     h87_function_source_count = read_u32_le buf 100,
     h87_debug_info_offset = read_u32_le buf 104\<rparr>"

definition parse_v97_to_v98_early :: "u8 list \<Rightarrow> u32 \<Rightarrow> V97toV98EarlyHeader" where
  "parse_v97_to_v98_early buf v = \<lparr>
     h97_version = v,
     h97_file_length = read_u32_le buf 32,
     h97_global_code_index = read_u32_le buf 36,
     h97_function_count = read_u32_le buf 40,
     h97_string_kind_count = read_u32_le buf 44,
     h97_identifier_count = read_u32_le buf 48,
     h97_string_count = read_u32_le buf 52,
     h97_overflow_string_count = read_u32_le buf 56,
     h97_string_storage_size = read_u32_le buf 60,
     h97_big_int_count = read_u32_le buf 64,
     h97_big_int_storage_size = read_u32_le buf 68,
     h97_reg_exp_count = read_u32_le buf 72,
     h97_reg_exp_storage_size = read_u32_le buf 76,
     h97_array_buffer_size = read_u32_le buf 80,
     h97_obj_key_buffer_size = read_u32_le buf 84,
     h97_obj_shape_table_count = read_u32_le buf 88,
     h97_segment_id = read_u32_le buf 92,
     h97_cjs_module_count = read_u32_le buf 96,
     h97_function_source_count = read_u32_le buf 100,
     h97_debug_info_offset = read_u32_le buf 104\<rparr>"

definition parse_v98_late_to_v99 :: "u8 list \<Rightarrow> u32 \<Rightarrow> V98LateToV99Header" where
  "parse_v98_late_to_v99 buf v = \<lparr>
     h98_version = v,
     h98_file_length = read_u32_le buf 32,
     h98_global_code_index = read_u32_le buf 36,
     h98_function_count = read_u32_le buf 40,
     h98_string_kind_count = read_u32_le buf 44,
     h98_identifier_count = read_u32_le buf 48,
     h98_string_count = read_u32_le buf 52,
     h98_overflow_string_count = read_u32_le buf 56,
     h98_string_storage_size = read_u32_le buf 60,
     h98_big_int_count = read_u32_le buf 64,
     h98_big_int_storage_size = read_u32_le buf 68,
     h98_reg_exp_count = read_u32_le buf 72,
     h98_reg_exp_storage_size = read_u32_le buf 76,
     h98_array_buffer_size = read_u32_le buf 80,
     h98_obj_key_buffer_size = read_u32_le buf 84,
     h98_obj_shape_table_count = read_u32_le buf 88,
     h98_num_string_switch_imms = read_u32_le buf 92,
     h98_segment_id = read_u32_le buf 96,
     h98_cjs_module_count = read_u32_le buf 100,
     h98_function_source_count = read_u32_le buf 104,
     h98_debug_info_offset = read_u32_le buf 108\<rparr>"

section \<open>The two forms of v98\<close>

definition disambiguate_both_options_valid :: "u8 list \<Rightarrow> bool hermes" where
  "disambiguate_both_options_valid buf =
     (let base = 92;
          debug_with = read_u32_le buf (base + 16);
          debug_without = read_u32_le buf (base + 12);
          buf_len_u32 = u32_of_usize_or_max (length buf);
          HEADER_END = 128;
          late_debug_plausible = (HEADER_END \<le> debug_with \<and> debug_with < buf_len_u32);
          early_debug_plausible = (HEADER_END \<le> debug_without \<and> debug_without < buf_len_u32)
      in if late_debug_plausible \<and> \<not> early_debug_plausible then lret True
         else if \<not> late_debug_plausible \<and> early_debug_plausible then lret False
         else
           let function_count = read_u32_le buf 40;
               early_options = (case get_at buf BYTECODE_OPTIONS_EARLY of None \<Rightarrow> 0 | Some b \<Rightarrow> b);
               late_options = (case get_at buf BYTECODE_OPTIONS_LATE of None \<Rightarrow> 0 | Some b \<Rightarrow> b)
           in if 0 < function_count then lfail (AmbiguousV98Form early_options late_options)
              else lbind (lemit [F_V98FormAmbiguous early_options late_options function_count
                                   debug_with debug_without False])
                     (\<lambda>_. lret False))"

definition detect_late_v98_form :: "u8 list \<Rightarrow> bool hermes" where
  "detect_late_v98_form buf =
     (case get_at buf BYTECODE_OPTIONS_EARLY of
        None \<Rightarrow> lret False
      | Some opt_early \<Rightarrow>
          (case get_at buf BYTECODE_OPTIONS_LATE of
             None \<Rightarrow> lret False
           | Some opt_late \<Rightarrow>
               let early_valid = (opt_early AND BYTECODE_OPTIONS_VALID_MASK = 0);
                   late_valid = (opt_late AND BYTECODE_OPTIONS_VALID_MASK = 0)
               in (case (early_valid, late_valid) of
                     (False, False) \<Rightarrow> lfail (AmbiguousV98Form opt_early opt_late)
                   | (True, False) \<Rightarrow> lret False
                   | (False, True) \<Rightarrow> lret True
                   | (True, True) \<Rightarrow> disambiguate_both_options_valid buf)))"

section \<open>The version dispatch\<close>

definition unsupported_version :: "u32 \<Rightarrow> hermes_error" where
  "unsupported_version v = UnsupportedVersion v MIN_SUPPORTED_VERSION MAX_SUPPORTED_VERSION"

definition dispatch_version :: "u8 list \<Rightarrow> u32 \<Rightarrow> HbcHeader hermes" where
  "dispatch_version buf v =
     (if v < MIN_SUPPORTED_VERSION then lfail (unsupported_version v)
      else if v \<le> 83 then lret (PreV84 (parse_pre_v84 buf v))
      else if v \<le> 86 then lret (V84to86 (parse_v84_to_86 buf v))
      else if v \<le> 96 then lret (V87to96 (parse_v87_to_96 buf v))
      else if v = 97 then lret (V97toV98Early (parse_v97_to_v98_early buf 97))
      else if v = 98 then
        lbind (detect_late_v98_form buf) (\<lambda>late.
          if late then lret (V98LateToV99 (parse_v98_late_to_v99 buf 98))
          else lret (V97toV98Early (parse_v97_to_v98_early buf 98)))
      else if v \<le> MAX_SUPPORTED_VERSION then lret (V98LateToV99 (parse_v98_late_to_v99 buf v))
      else lfail (unsupported_version v))"

definition parse_hbc_header :: "u8 list \<Rightarrow> HbcHeader hermes" where
  "parse_hbc_header buf =
     (if length buf < HEADER_SIZE then lfail (HeaderTooSmall (length buf))
      else case first_chunk 8 buf of
        None \<Rightarrow> lfail (HeaderTooSmall (length buf))
      | Some magic_bytes \<Rightarrow>
          if le_nat magic_bytes \<noteq> HBC_MAGIC then lfail (InvalidMagic magic_bytes)
          else dispatch_version buf (read_u32_le buf 8))"

section \<open>What the dispatch accepts\<close>

text \<open>
  The debug offset a layout would give is plausible when it lies past the header and inside the
  buffer; a v98 file is ambiguous when neither the option bytes nor the debug offsets single
  out one layout and there are function bodies to misread.
\<close>

definition debug_plausible :: "u8 list \<Rightarrow> u32 \<Rightarrow> bool" where
  "debug_plausible buf off \<longleftrightarrow> 128 \<le> off \<and> off < u32_of_usize_or_max (length buf)"

definition v98_option_valid :: "u8 \<Rightarrow> bool" where
  "v98_option_valid b \<longleftrightarrow> b AND 0xF8 = 0"

definition v98_ambiguous :: "u8 list \<Rightarrow> bool" where
  "v98_ambiguous buf \<longleftrightarrow>
     (\<not> v98_option_valid (buf ! 108) \<and> \<not> v98_option_valid (buf ! 112)) \<or>
     (v98_option_valid (buf ! 108) \<and> v98_option_valid (buf ! 112)
      \<and> (debug_plausible buf (read_u32 buf 108) \<longleftrightarrow> debug_plausible buf (read_u32 buf 104))
      \<and> 0 < read_u32 buf 40)"

definition v98_late :: "u8 list \<Rightarrow> bool" where
  "v98_late buf \<longleftrightarrow> v98_option_valid (buf ! 112)
     \<and> (v98_option_valid (buf ! 108) \<longrightarrow>
          debug_plausible buf (read_u32 buf 108) \<and> \<not> debug_plausible buf (read_u32 buf 104))"

lemma detect_late_v98_form_cases:
  assumes "128 \<le> length buf"
  shows "fst (detect_late_v98_form buf) =
    (if v98_ambiguous buf then Inl (AmbiguousV98Form (buf ! 108) (buf ! 112))
     else Inr (v98_late buf))"
  using assms
  by (auto simp: detect_late_v98_form_def disambiguate_both_options_valid_def Let_def
      BYTECODE_OPTIONS_EARLY_def BYTECODE_OPTIONS_LATE_def BYTECODE_OPTIONS_VALID_MASK_def
      v98_ambiguous_def v98_late_def v98_option_valid_def debug_plausible_def get_at_Some
      lemit_def lret_def split: bool.splits)

lemma detect_late_v98_form_findings:
  "snd (detect_late_v98_form buf) = [] \<or>
   (fst (detect_late_v98_form buf) = Inr False \<and>
    snd (detect_late_v98_form buf) = [F_V98FormAmbiguous (buf ! 108) (buf ! 112) 0
      (read_u32 buf 108) (read_u32 buf 104) False])"
  by (auto simp: detect_late_v98_form_def disambiguate_both_options_valid_def Let_def
      BYTECODE_OPTIONS_EARLY_def BYTECODE_OPTIONS_LATE_def get_at_def
      lemit_def lret_def lfail_def word_greater_zero_iff split: bool.splits if_splits)

text \<open>The variant of a header, as the version range it stands for.\<close>

fun variant_versions :: "HbcHeader \<Rightarrow> u32 set" where
  "variant_versions (PreV84 h) = {40..83}"
| "variant_versions (V84to86 h) = {84..86}"
| "variant_versions (V87to96 h) = {87..96}"
| "variant_versions (V97toV98Early h) = {97..98}"
| "variant_versions (V98LateToV99 h) = {98..100}"

lemmas parse_layout_defs = parse_pre_v84_def parse_v84_to_86_def parse_v87_to_96_def
  parse_v97_to_v98_early_def parse_v98_late_to_v99_def

lemma word_between: "\<not> v \<le> 96 \<Longrightarrow> v \<noteq> 97 \<Longrightarrow> v \<noteq> 98 \<Longrightarrow> (99 :: u32) \<le> v"
  by (simp add: word_le_nat_alt word_unat_eq_iff)

lemma word_gap: "\<not> v \<le> (83 :: u32) \<Longrightarrow> 84 \<le> v" "\<not> v \<le> (86 :: u32) \<Longrightarrow> 87 \<le> v"
  by (simp_all add: word_le_nat_alt)

lemma dispatch_version_cases:
  assumes "fst (dispatch_version buf v) = Inr h"
  obtains (pre_v84) "40 \<le> v" "v \<le> 83" "h = PreV84 (parse_pre_v84 buf v)"
    | (v84_86) "84 \<le> v" "v \<le> 86" "h = V84to86 (parse_v84_to_86 buf v)"
    | (v87_96) "87 \<le> v" "v \<le> 96" "h = V87to96 (parse_v87_to_96 buf v)"
    | (early) "v = 97 \<or> v = 98 \<and> fst (detect_late_v98_form buf) = Inr False"
        "h = V97toV98Early (parse_v97_to_v98_early buf v)"
    | (late) "v = 98 \<and> fst (detect_late_v98_form buf) = Inr True \<or> 99 \<le> v \<and> v \<le> 100"
        "h = V98LateToV99 (parse_v98_late_to_v99 buf v)"
  using assms
  unfolding dispatch_version_def MIN_SUPPORTED_VERSION_def MAX_SUPPORTED_VERSION_def
  by (auto simp: lbind_eq_Inr word_between word_gap not_less split: if_splits)

lemma parse_hbc_header_Inr:
  "fst (parse_hbc_header buf) = Inr h \<longleftrightarrow>
     128 \<le> length buf \<and> le_nat (take 8 buf) = HBC_MAGIC \<and>
     fst (dispatch_version buf (read_u32 buf 8)) = Inr h"
  by (auto simp: parse_hbc_header_def HEADER_SIZE_def first_chunk_def)

text \<open>Every projection of an accepted header is a word of the buffer at the layout's offset.\<close>

fun bigint_pair :: "HbcHeader \<Rightarrow> usize" where
  "bigint_pair (PreV84 h) = 0"
| "bigint_pair (V84to86 h) = 0"
| "bigint_pair h = 8"

fun imms_word :: "HbcHeader \<Rightarrow> usize" where
  "imms_word (V98LateToV99 h) = 4"
| "imms_word h = 0"

fun source_word :: "HbcHeader \<Rightarrow> usize" where
  "source_word (PreV84 h) = 0"
| "source_word h = 4"

definition header_at :: "u8 list \<Rightarrow> HbcHeader \<Rightarrow> bool" where
  "header_at buf h \<longleftrightarrow>
     hdr_version h = read_u32 buf 8 \<and>
     hdr_file_length h = read_u32 buf 32 \<and>
     hdr_function_count h = read_u32 buf 40 \<and>
     hdr_string_kind_count h = read_u32 buf 44 \<and>
     hdr_identifier_count h = read_u32 buf 48 \<and>
     hdr_string_count h = read_u32 buf 52 \<and>
     hdr_overflow_string_count h = read_u32 buf 56 \<and>
     hdr_string_storage_size h = read_u32 buf 60 \<and>
     hdr_big_int_count h = (if bigint_pair h = 0 then 0 else read_u32 buf 64) \<and>
     hdr_big_int_storage_size h = (if bigint_pair h = 0 then 0 else read_u32 buf 68) \<and>
     hdr_reg_exp_count h = read_u32 buf (64 + bigint_pair h) \<and>
     hdr_reg_exp_storage_size h = read_u32 buf (68 + bigint_pair h) \<and>
     hdr_array_buffer_size h = read_u32 buf (72 + bigint_pair h) \<and>
     hdr_obj_key_buffer_size h = read_u32 buf (76 + bigint_pair h) \<and>
     (if hdr_func_header_size h = 16
      then hdr_obj_value_buffer_size h = read_u32 buf (80 + bigint_pair h) \<and> hdr_obj_shape_table_count h = 0
      else hdr_obj_shape_table_count h = read_u32 buf 88 \<and> hdr_obj_value_buffer_size h = 0) \<and>
     hdr_cjs_module_count h = read_u32 buf (88 + bigint_pair h + imms_word h) \<and>
     hdr_function_source_count h = (if source_word h = 0 then 0
        else read_u32 buf (92 + bigint_pair h + imms_word h)) \<and>
     hdr_debug_info_offset h = read_u32 buf (92 + bigint_pair h + imms_word h + source_word h)"

lemma dispatch_version_header_at:
  "fst (dispatch_version buf (read_u32 buf 8)) = Inr h \<Longrightarrow> header_at buf h"
  by (erule dispatch_version_cases) (auto simp: header_at_def parse_layout_defs)

lemma dispatch_version_variant:
  "fst (dispatch_version buf v) = Inr h \<Longrightarrow> v \<in> variant_versions h"
  by (erule dispatch_version_cases) (auto simp: word_le_nat_alt)

lemma parse_hbc_header_facts:
  assumes "fst (parse_hbc_header buf) = Inr h"
  shows "128 \<le> length buf \<and> le_nat (take 8 buf) = HBC_MAGIC
    \<and> hdr_version h \<in> variant_versions h \<and> header_at buf h"
proof -
  have "header_at buf h" "read_u32 buf 8 \<in> variant_versions h"
    using assms by (auto simp: parse_hbc_header_Inr dispatch_version_header_at dispatch_version_variant)
  then show ?thesis using assms by (auto simp: parse_hbc_header_Inr header_at_def)
qed

text \<open>
  C31. An accepted header: the buffer holds the 128 bytes and the magic, the version is in the
  supported range and belongs to the variant that was chosen, and every projection of the
  header is the little-endian word of the buffer at the offset its layout gives it.
\<close>

theorem parse_hbc_header_accepted:
  assumes "fst (parse_hbc_header buf) = Inr h"
  shows "128 \<le> length buf \<and> le_nat (take 8 buf) = HBC_MAGIC
    \<and> hdr_version h \<in> variant_versions h \<and> header_at buf h"
  by (rule parse_hbc_header_facts [OF assms])

text \<open>
  C32. Which buffers are accepted: exactly those with 128 bytes, the magic, a supported version
  and, for v98, an unambiguous form; a v98 file is read in the late layout exactly when the
  option bytes and debug offsets say so.
\<close>

theorem parse_hbc_header_complete:
  "(\<exists>h. fst (parse_hbc_header buf) = Inr h) \<longleftrightarrow>
     (128 \<le> length buf \<and> le_nat (take 8 buf) = HBC_MAGIC
      \<and> read_u32 buf 8 \<in> {40..100} \<and> \<not> (read_u32 buf 8 = 98 \<and> v98_ambiguous buf))"
  (is "?L \<longleftrightarrow> ?R")
proof -
  let ?v = "read_u32 buf 8"
  have "(\<exists>h. fst (dispatch_version buf ?v) = Inr h) \<longleftrightarrow>
      ?v \<in> {40..100} \<and> \<not> (?v = 98 \<and> v98_ambiguous buf)" if len: "128 \<le> length buf"
    unfolding dispatch_version_def MIN_SUPPORTED_VERSION_def MAX_SUPPORTED_VERSION_def
    using detect_late_v98_form_cases [OF len]
    by (auto simp: lbind_eq_Inr not_less not_le elim: less_le_trans order_trans)
  then show ?thesis by (auto simp: parse_hbc_header_Inr)
qed


end
