(* ===== verification/Hermes_Sections.thy ===== *)
theory Hermes_Sections
  imports Hermes_Header
begin

text \<open>
  The section walk of \<open>HbcFile::parse_inner\<close> (\<open>parser/mod.rs\<close>): the \<open>section!\<close> and
  \<open>section_opt!\<close> macros as operations on the pair of the cursor and the section list, and the
  sequence of sections of each header layout.
\<close>

section \<open>The cursor\<close>

type_synonym sections = "(string \<times> u32 \<times> u32) list"
type_synonym walk = "u32 \<times> sections"
type_synonym 'a walker = "walk \<Rightarrow> hermes_error + ('a \<times> walk)"

definition wret :: "'a \<Rightarrow> 'a walker" where
  "wret x w = Inr (x, w)"

definition wbind :: "'a walker \<Rightarrow> ('a \<Rightarrow> 'b walker) \<Rightarrow> 'b walker" where
  "wbind m f w = (case m w of Inl e \<Rightarrow> Inl e | Inr (x, w') \<Rightarrow> f x w')"

text \<open>The macro \<open>section!\<close>.\<close>

definition hbc_section :: "usize \<Rightarrow> string \<Rightarrow> u64 \<Rightarrow> (usize \<times> usize) walker" where
  "hbc_section buf_len name sz64 w =
     (case w of (cursor, secs) \<Rightarrow>
        if u32_max < sz64 then Inl (SectionSizeOverflow name sz64)
        else
          let sz = (of_nat sz64 :: u32) in
          if buf_len < unat cursor + unat sz
          then Inl (SectionExceedsBounds name (unat cursor) (unat sz) buf_len)
          else
            let start = unat cursor;
                next_pos = sat_add64 (unat cursor) (unat sz);
                aligned = clear_low2 (sat_add64 next_pos 3)
            in if u32_max < aligned then Inl (SectionCursorOverflow name)
               else Inr ((start, unat sz), (of_nat aligned, secs @ [(name, cursor, sz)])))"

text \<open>The macro \<open>section_opt!\<close>; its \<open>$size as u32\<close> keeps the low 32 bits.\<close>

definition section_opt :: "usize \<Rightarrow> string \<Rightarrow> u64 \<Rightarrow> (usize \<times> usize) walker" where
  "section_opt buf_len name size64 =
     (let sz = (of_nat size64 :: u32)
      in if 0 < sz then hbc_section buf_len name (unat sz) else wret (0, 0))"

section \<open>The sequence of sections\<close>

record string_spans =
  sp_func_headers :: "usize \<times> usize"
  sp_string_kinds :: "usize \<times> usize"
  sp_small_string_table :: "usize \<times> usize"
  sp_overflow_string_table :: "usize \<times> usize"
  sp_string_storage :: "usize \<times> usize"

definition string_sections :: "usize \<Rightarrow> HbcHeader \<Rightarrow> string_spans walker" where
  "string_sections buf_len h =
     wbind (hbc_section buf_len ''FunctionHeaders''
              (unat (hdr_function_count h) * unat (hdr_func_header_size h))) (\<lambda>func_headers.
     wbind (hbc_section buf_len ''StringKinds'' (unat (hdr_string_kind_count h) * 4)) (\<lambda>string_kinds.
     wbind (hbc_section buf_len ''IdentifierHashes'' (unat (hdr_identifier_count h) * 4)) (\<lambda>_.
     wbind (hbc_section buf_len ''SmallStringTable'' (unat (hdr_string_count h) * 4)) (\<lambda>small_string_table.
     wbind (hbc_section buf_len ''OverflowStringTable'' (unat (hdr_overflow_string_count h) * 8))
       (\<lambda>overflow_string_table.
     wbind (hbc_section buf_len ''StringStorage'' (unat (hdr_string_storage_size h))) (\<lambda>string_storage.
     wret \<lparr>sp_func_headers = func_headers, sp_string_kinds = string_kinds,
           sp_small_string_table = small_string_table,
           sp_overflow_string_table = overflow_string_table,
           sp_string_storage = string_storage\<rparr>))))))"

record literal_spans =
  sp_array_buffer :: "usize \<times> usize"
  sp_obj_key_buffer :: "usize \<times> usize"
  sp_obj_value_buffer :: "usize \<times> usize"
  sp_obj_shape_table :: "usize \<times> usize"

text \<open>The test \<open>matches!(header, PreV84 | V84to86 | V87to96)\<close>, and that for the big-int pair.\<close>

fun has_obj_value_buffer :: "HbcHeader \<Rightarrow> bool" where
  "has_obj_value_buffer (PreV84 h) = True"
| "has_obj_value_buffer (V84to86 h) = True"
| "has_obj_value_buffer (V87to96 h) = True"
| "has_obj_value_buffer (V97toV98Early h) = False"
| "has_obj_value_buffer (V98LateToV99 h) = False"

fun has_big_ints :: "HbcHeader \<Rightarrow> bool" where
  "has_big_ints (PreV84 h) = False"
| "has_big_ints (V84to86 h) = False"
| "has_big_ints (V87to96 h) = True"
| "has_big_ints (V97toV98Early h) = True"
| "has_big_ints (V98LateToV99 h) = True"

fun is_pre_v84 :: "HbcHeader \<Rightarrow> bool" where
  "is_pre_v84 (PreV84 h) = True"
| "is_pre_v84 h = False"

definition literal_sections :: "usize \<Rightarrow> HbcHeader \<Rightarrow> literal_spans walker" where
  "literal_sections buf_len h =
     wbind (section_opt buf_len ''ArrayBuffer'' (unat (hdr_array_buffer_size h))) (\<lambda>array_buffer.
     wbind (section_opt buf_len ''ObjKeyBuffer'' (unat (hdr_obj_key_buffer_size h))) (\<lambda>obj_key_buffer.
     if has_obj_value_buffer h then
       wbind (section_opt buf_len ''ObjValueBuffer'' (unat (hdr_obj_value_buffer_size h)))
         (\<lambda>obj_value_buffer.
       wret \<lparr>sp_array_buffer = array_buffer, sp_obj_key_buffer = obj_key_buffer,
             sp_obj_value_buffer = obj_value_buffer, sp_obj_shape_table = (0, 0)\<rparr>)
     else
       wbind (if 0 < hdr_obj_shape_table_count h
              then hbc_section buf_len ''ObjShapeTable'' (unat (hdr_obj_shape_table_count h) * 8)
              else wret (0, 0)) (\<lambda>obj_shape_table.
       wret \<lparr>sp_array_buffer = array_buffer, sp_obj_key_buffer = obj_key_buffer,
             sp_obj_value_buffer = (0, 0), sp_obj_shape_table = obj_shape_table\<rparr>)))"

definition bigint_sections :: "usize \<Rightarrow> HbcHeader \<Rightarrow> ((usize \<times> usize) \<times> (usize \<times> usize)) walker" where
  "bigint_sections buf_len h =
     (if has_big_ints h \<and> 0 < hdr_big_int_count h then
        wbind (hbc_section buf_len ''BigIntTable'' (unat (hdr_big_int_count h) * 8)) (\<lambda>tbl.
        wbind (hbc_section buf_len ''BigIntStorage'' (unat (hdr_big_int_storage_size h))) (\<lambda>sto.
        wret (tbl, sto)))
      else wret ((0, 0), (0, 0)))"

definition tail_sections :: "usize \<Rightarrow> HbcHeader \<Rightarrow> ((usize \<times> usize) \<times> (usize \<times> usize)) walker" where
  "tail_sections buf_len h =
     wbind (section_opt buf_len ''RegExpTable'' (unat (hdr_reg_exp_count h) * 8)) (\<lambda>regexp_table.
     wbind (section_opt buf_len ''RegExpStorage''
              (if 0 < hdr_reg_exp_count h then unat (hdr_reg_exp_storage_size h) else 0)) (\<lambda>_.
     wbind (section_opt buf_len ''CJSModules'' (unat (hdr_cjs_module_count h) * 8)) (\<lambda>cjs_modules.
     if \<not> is_pre_v84 h \<and> 0 < hdr_function_source_count h then
       wbind (hbc_section buf_len ''FunctionSourceTable'' (unat (hdr_function_source_count h) * 8)) (\<lambda>_.
       wret (regexp_table, cjs_modules))
     else wret (regexp_table, cjs_modules))))"

definition initial_walk :: walk where
  "initial_walk = (128, [(''Header'', 0, 128)])"

text \<open>The bytecode region between the last section and the debug info (or the end).\<close>

definition bytecode_region_of :: "usize \<Rightarrow> u32 \<Rightarrow> u32 \<Rightarrow> u32 \<times> u32" where
  "bytecode_region_of buf_len cursor debug_info_offset =
     (let body_region_start = cursor;
          buf_len_u32 = u32_of_usize_or_max buf_len;
          body_region_end =
            (if 0 < debug_info_offset \<and> debug_info_offset \<le> buf_len_u32 then debug_info_offset
             else buf_len_u32)
      in if body_region_start \<le> body_region_end then (body_region_start, body_region_end)
         else (body_region_start, body_region_start))"

section \<open>What a walk leaves behind\<close>

lemma wbind_Inr:
  "wbind m f w = Inr (y, w'') \<longleftrightarrow> (\<exists>x w'. m w = Inr (x, w') \<and> f x w' = Inr (y, w''))"
  by (auto simp: wbind_def split: sum.splits)

lemma wret_Inr: "wret x w = Inr (y, w') \<longleftrightarrow> y = x \<and> w' = w"
  by (auto simp: wret_def)

text \<open>The next cursor of the walk, over the natural numbers.\<close>

definition after :: "nat \<Rightarrow> nat \<Rightarrow> nat" where
  "after cur sz = clear_low2 (cur + sz + 3)"

lemma after_ge: "cur + sz \<le> after cur sz" and after_lt: "after cur sz < cur + sz + 4"
  and after_dvd: "4 dvd after cur sz"
  by (auto simp: after_def clear_low2_def)

lemma after_trans: "x \<le> cur \<Longrightarrow> x \<le> after cur sz"
  using after_ge [of cur sz] by simp

lemma unat_of_nat_u32: "n \<le> u32_max \<Longrightarrow> unat (of_nat n :: u32) = n"
  by (simp add: u32_max_def unsigned_of_nat take_bit_nat_eq_self)

lemma hbc_section_Inr:
  "hbc_section buf_len name sz w = Inr (sp, w') \<longleftrightarrow>
     sz \<le> u32_max \<and> unat (fst w) + sz \<le> buf_len \<and> after (unat (fst w)) sz \<le> u32_max
     \<and> sp = (unat (fst w), sz)
     \<and> w' = (of_nat (after (unat (fst w)) sz), snd w @ [(name, fst w, of_nat sz)])"
proof -
  have "unat (fst w) < 2 ^ 32" by (rule unat_u32)
  then have "sz \<le> u32_max \<Longrightarrow> sat_add64 (sat_add64 (unat (fst w)) sz) 3 = unat (fst w) + sz + 3"
    by (simp add: sat_add64_def u32_max_def u64_max_def)
  then show ?thesis
    by (cases w) (auto simp: hbc_section_def Let_def unat_of_nat_u32 after_def not_le not_less)
qed

lemma section_opt_Inr:
  "section_opt buf_len name sz w = Inr (sp, w') \<longleftrightarrow>
     (if (of_nat sz :: u32) = 0 then sp = (0, 0) \<and> w' = w
      else hbc_section buf_len name (sz mod 2 ^ 32) w = Inr (sp, w'))"
  by (auto simp: section_opt_def Let_def wret_Inr unsigned_of_nat take_bit_eq_mod word_greater_zero_iff)

definition all_sections ::
  "usize \<Rightarrow> HbcHeader \<Rightarrow>
     (string_spans \<times> literal_spans \<times> ((usize \<times> usize) \<times> (usize \<times> usize)) \<times> ((usize \<times> usize) \<times> (usize \<times> usize))) walker"
  where
  "all_sections buf_len h =
     wbind (string_sections buf_len h) (\<lambda>s.
     wbind (literal_sections buf_len h) (\<lambda>l.
     wbind (bigint_sections buf_len h) (\<lambda>b.
     wbind (tail_sections buf_len h) (\<lambda>t.
     wret (s, l, b, t)))))"

section \<open>The layout as a list of sizes\<close>

text \<open>The sections a list of named sizes occupies from a cursor on, and whether they fit.\<close>

fun lay :: "nat \<Rightarrow> (string \<times> nat) list \<Rightarrow> sections" where
  "lay cur [] = []"
| "lay cur ((n, sz) # xs) = (n, of_nat cur, of_nat sz) # lay (after cur sz) xs"

fun lay_end :: "nat \<Rightarrow> (string \<times> nat) list \<Rightarrow> nat" where
  "lay_end cur [] = cur"
| "lay_end cur ((n, sz) # xs) = lay_end (after cur sz) xs"

fun fits :: "usize \<Rightarrow> nat \<Rightarrow> (string \<times> nat) list \<Rightarrow> bool" where
  "fits len cur [] \<longleftrightarrow> True"
| "fits len cur ((n, sz) # xs) \<longleftrightarrow> sz \<le> u32_max \<and> cur + sz \<le> len \<and> after cur sz \<le> u32_max
     \<and> fits len (after cur sz) xs"

definition runs :: "usize \<Rightarrow> 'a walker \<Rightarrow> (string \<times> nat) list \<Rightarrow> bool" where
  "runs len m xs \<longleftrightarrow> (\<forall>w. if fits len (unat (fst w)) xs
     then \<exists>x. m w = Inr (x, (of_nat (lay_end (unat (fst w)) xs), snd w @ lay (unat (fst w)) xs))
     else \<exists>e. m w = Inl e)"

lemma lay_append: "lay cur (xs @ ys) = lay cur xs @ lay (lay_end cur xs) ys"
  by (induction cur xs rule: lay.induct) auto

lemma lay_end_append: "lay_end cur (xs @ ys) = lay_end (lay_end cur xs) ys"
  by (induction cur xs rule: lay_end.induct) auto

lemma fits_append: "fits len cur (xs @ ys) \<longleftrightarrow> fits len cur xs \<and> fits len (lay_end cur xs) ys"
  by (induction cur xs rule: lay_end.induct) auto

lemma lay_end_u32: "cur \<le> u32_max \<Longrightarrow> fits len cur xs \<Longrightarrow> lay_end cur xs \<le> u32_max"
  by (induction cur xs rule: lay_end.induct) auto

lemma unat_le_u32_max: "unat (w :: u32) \<le> u32_max"
  using unat_u32 [of w] by (simp add: u32_max_def)

lemma runs_wret: "runs len (wret x) []"
  by (simp add: runs_def wret_def)

lemma runs_wbind:
  assumes m: "runs len m xs" and f: "\<And>x. runs len (f x) ys"
  shows "runs len (wbind m f) (xs @ ys)"
  unfolding runs_def
proof
  fix w :: walk
  let ?c = "unat (fst w)"
  show "if fits len ?c (xs @ ys)
     then \<exists>x. wbind m f w = Inr (x, (of_nat (lay_end ?c (xs @ ys)), snd w @ lay ?c (xs @ ys)))
     else \<exists>e. wbind m f w = Inl e"
  proof (cases "fits len ?c xs")
    case False
    then have "\<exists>e. m w = Inl e" using m unfolding runs_def by presburger
    with False show ?thesis by (auto simp: fits_append wbind_def)
  next
    case True
    then obtain x where x: "m w = Inr (x, (of_nat (lay_end ?c xs), snd w @ lay ?c xs))"
      using m unfolding runs_def by presburger
    have "unat (of_nat (lay_end ?c xs) :: u32) = lay_end ?c xs"
      using lay_end_u32 [OF unat_le_u32_max True] by (rule unat_of_nat_u32)
    then show ?thesis
      using f [of x, unfolded runs_def, rule_format, of "(of_nat (lay_end ?c xs), snd w @ lay ?c xs)"] True
      by (auto simp: fits_append wbind_def x lay_append lay_end_append)
  qed
qed

lemma runs_section: "runs len (hbc_section len n sz) [(n, sz)]"
  unfolding runs_def
proof
  fix w :: walk
  let ?c = "unat (fst w)"
  let ?w = "(of_nat (after ?c sz), snd w @ [(n, fst w, of_nat sz)])"
  show "if fits len ?c [(n, sz)]
     then \<exists>x. hbc_section len n sz w = Inr (x, (of_nat (lay_end ?c [(n, sz)]), snd w @ lay ?c [(n, sz)]))
     else \<exists>e. hbc_section len n sz w = Inl e"
  proof (cases "fits len ?c [(n, sz)]")
    case True
    then have "hbc_section len n sz w = Inr ((?c, sz), ?w)" by (subst hbc_section_Inr) simp
    then show ?thesis using True by simp
  next
    case False
    then have "hbc_section len n sz w \<noteq> Inr (sp, w')" for sp w' by (auto simp: hbc_section_Inr)
    then show ?thesis using False by (metis old.sum.exhaust surj_pair)
  qed
qed

definition opt_entry :: "string \<Rightarrow> nat \<Rightarrow> (string \<times> nat) list" where
  "opt_entry n sz = (if sz mod 2 ^ 32 = 0 then [] else [(n, sz mod 2 ^ 32)])"

lemma runs_section_opt: "runs len (section_opt len n sz) (opt_entry n sz)"
proof -
  have "(of_nat sz :: u32) = 0 \<longleftrightarrow> sz mod 2 ^ 32 = 0"
    by (simp add: word_of_nat_eq_0_iff dvd_eq_mod_eq_0)
  then show ?thesis
    using runs_section [of len n "sz mod 2 ^ 32"]
    by (auto simp: opt_entry_def section_opt_def Let_def runs_wret word_greater_zero_iff
        unsigned_of_nat take_bit_eq_mod)
qed

lemma runs_if: "(b \<Longrightarrow> runs len m xs) \<Longrightarrow> (\<not> b \<Longrightarrow> runs len m' ys)
    \<Longrightarrow> runs len (if b then m else m') (if b then xs else ys)"
  by simp

text \<open>The sections of a header, with their sizes, in file order.\<close>

definition string_section_list :: "HbcHeader \<Rightarrow> (string \<times> nat) list" where
  "string_section_list h =
     [(''FunctionHeaders'', unat (hdr_function_count h) * unat (hdr_func_header_size h)),
      (''StringKinds'', unat (hdr_string_kind_count h) * 4),
      (''IdentifierHashes'', unat (hdr_identifier_count h) * 4),
      (''SmallStringTable'', unat (hdr_string_count h) * 4),
      (''OverflowStringTable'', unat (hdr_overflow_string_count h) * 8),
      (''StringStorage'', unat (hdr_string_storage_size h))]"

definition literal_section_list :: "HbcHeader \<Rightarrow> (string \<times> nat) list" where
  "literal_section_list h =
     opt_entry ''ArrayBuffer'' (unat (hdr_array_buffer_size h))
     @ opt_entry ''ObjKeyBuffer'' (unat (hdr_obj_key_buffer_size h))
     @ (if has_obj_value_buffer h then opt_entry ''ObjValueBuffer'' (unat (hdr_obj_value_buffer_size h))
        else if 0 < hdr_obj_shape_table_count h
        then [(''ObjShapeTable'', unat (hdr_obj_shape_table_count h) * 8)] else [])"

definition bigint_section_list :: "HbcHeader \<Rightarrow> (string \<times> nat) list" where
  "bigint_section_list h =
     (if has_big_ints h \<and> 0 < hdr_big_int_count h
      then [(''BigIntTable'', unat (hdr_big_int_count h) * 8),
            (''BigIntStorage'', unat (hdr_big_int_storage_size h))] else [])"

definition tail_section_list :: "HbcHeader \<Rightarrow> (string \<times> nat) list" where
  "tail_section_list h =
     opt_entry ''RegExpTable'' (unat (hdr_reg_exp_count h) * 8)
     @ opt_entry ''RegExpStorage'' (if 0 < hdr_reg_exp_count h then unat (hdr_reg_exp_storage_size h) else 0)
     @ opt_entry ''CJSModules'' (unat (hdr_cjs_module_count h) * 8)
     @ (if \<not> is_pre_v84 h \<and> 0 < hdr_function_source_count h
        then [(''FunctionSourceTable'', unat (hdr_function_source_count h) * 8)] else [])"

definition section_list :: "HbcHeader \<Rightarrow> (string \<times> nat) list" where
  "section_list h = string_section_list h @ literal_section_list h @ bigint_section_list h
     @ tail_section_list h"

lemma runs_wbind_Nil: "runs len m xs \<Longrightarrow> (\<And>x. runs len (f x) []) \<Longrightarrow> runs len (wbind m f) xs"
  using runs_wbind [of len m xs f "[]"] by simp

lemma runs_Cons: "runs len m [e] \<Longrightarrow> (\<And>x. runs len (f x) ys) \<Longrightarrow> runs len (wbind m f) (e # ys)"
  using runs_wbind [of len m "[e]" f ys] by simp

lemmas runs_intros = runs_wret runs_section runs_section_opt runs_Cons runs_wbind

lemma runs_string_sections: "runs len (string_sections len h) (string_section_list h)"
  unfolding string_sections_def string_section_list_def by (intro runs_intros)

lemma runs_literal_sections: "runs len (literal_sections len h) (literal_section_list h)"
  unfolding literal_sections_def literal_section_list_def
  by (intro runs_intros runs_if runs_wbind_Nil)

lemma runs_bigint_sections: "runs len (bigint_sections len h) (bigint_section_list h)"
  unfolding bigint_sections_def bigint_section_list_def by (intro runs_intros runs_if)

lemma runs_tail_sections: "runs len (tail_sections len h) (tail_section_list h)"
  unfolding tail_sections_def tail_section_list_def by (intro runs_intros runs_if)

lemma runs_all_sections: "runs len (all_sections len h) (section_list h)"
  unfolding all_sections_def section_list_def
  by (intro runs_wbind runs_wbind_Nil runs_string_sections runs_literal_sections
      runs_bigint_sections runs_tail_sections runs_wret)

section \<open>Disjointness, order and alignment\<close>

definition sec_off :: "string \<times> u32 \<times> u32 \<Rightarrow> nat" where
  "sec_off s = unat (fst (snd s))"

definition sec_end :: "string \<times> u32 \<times> u32 \<Rightarrow> nat" where
  "sec_end s = unat (fst (snd s)) + unat (snd (snd s))"

lemma lay_sections:
  "cur \<le> u32_max \<Longrightarrow> 4 dvd cur \<Longrightarrow> fits len cur xs \<Longrightarrow>
     map (\<lambda>(n, off, sz). (n, unat sz)) (lay cur xs) = xs
     \<and> (\<forall>s \<in> set (lay cur xs). cur \<le> sec_off s \<and> 4 dvd sec_off s \<and> sec_end s \<le> len
          \<and> sec_end s \<le> lay_end cur xs)
     \<and> cur \<le> lay_end cur xs
     \<and> sorted_wrt (\<lambda>a b. sec_end a \<le> sec_off b) (lay cur xs)"
proof (induction cur xs rule: lay.induct)
  case (2 cur n sz xs)
  let ?c = "after cur sz" and ?l = "lay (after cur sz) xs"
  have c: "?c \<le> u32_max" "4 dvd ?c" "cur + sz \<le> ?c" "fits len ?c xs" "sz \<le> u32_max" "cur + sz \<le> len"
    using 2(4) by (auto simp: after_ge after_dvd)
  have off: "sec_off (n, of_nat cur, of_nat sz) = cur" "sec_end (n, of_nat cur, of_nat sz) = cur + sz"
    using c 2(2) by (simp_all add: sec_off_def sec_end_def unat_of_nat_u32)
  note IH = 2(1) [OF c(1,2,4)]
  have head: "\<forall>s \<in> set ?l. cur + sz \<le> sec_off s"
    using IH c(3) by (meson le_trans)
  have rest: "\<forall>s \<in> set ?l. cur \<le> sec_off s" "cur + sz \<le> lay_end ?c xs"
    using head IH c(3) by (meson le_trans le_add1)+
  then have "cur \<le> lay_end ?c xs" by simp
  with IH c(5,6) head rest 2(3) show ?case
    by (simp add: off unat_of_nat_u32)
qed simp

lemma walk_sections:
  assumes "all_sections len h initial_walk = Inr (sp, cursor, secs)"
  shows "fits len 128 (section_list h)
    \<and> map (\<lambda>(n, off, sz). (n, unat sz)) secs = (''Header'', 128) # section_list h
    \<and> (\<forall>s \<in> set (tl secs). 4 dvd sec_off s \<and> sec_end s \<le> len \<and> sec_end s \<le> unat cursor)
    \<and> sorted_wrt (\<lambda>a b. sec_end a \<le> sec_off b) secs"
proof -
  let ?l = "lay 128 (section_list h)" and ?e = "lay_end 128 (section_list h)"
  have fits: "fits len 128 (section_list h)" and walk: "secs = (''Header'', 0, 128) # ?l" "cursor = of_nat ?e"
    using runs_all_sections [of len h, unfolded runs_def, rule_format, of initial_walk] assms
    by (auto simp: initial_walk_def split: if_splits)
  have L: "map (\<lambda>(n, off, sz). (n, unat sz)) ?l = section_list h"
    "\<forall>s \<in> set ?l. 128 \<le> sec_off s \<and> 4 dvd sec_off s \<and> sec_end s \<le> len \<and> sec_end s \<le> ?e"
    "sorted_wrt (\<lambda>a b. sec_end a \<le> sec_off b) ?l"
    using lay_sections [OF _ _ fits] by (simp_all add: u32_max_def)
  have hd: "sec_end (''Header'', 0, 128) = 128" by (simp add: sec_end_def)
  have "?e \<le> u32_max" using lay_end_u32 [OF _ fits] by (simp add: u32_max_def)
  then have "unat (of_nat ?e :: u32) = ?e" by (rule unat_of_nat_u32)
  with L fits show ?thesis by (simp add: walk hd)
qed

text \<open>
  C29. The section walk succeeds exactly when every section of the layout fits: its size and the
  next cursor fit a \<open>u32\<close> and it ends inside the buffer. It then records the header and the
  sections of the layout in file order with their sizes; the sections are 4-aligned, inside
  the buffer and pairwise disjoint, and the cursor ends past the last one.
\<close>

theorem section_walk:
  "(if fits len 128 (section_list h)
    then \<exists>sp cursor secs. all_sections len h initial_walk = Inr (sp, cursor, secs)
      \<and> map (\<lambda>(n, off, sz). (n, unat sz)) secs = (''Header'', 128) # section_list h
      \<and> (\<forall>s \<in> set (tl secs). 4 dvd sec_off s \<and> sec_end s \<le> len \<and> sec_end s \<le> unat cursor)
      \<and> sorted_wrt (\<lambda>a b. sec_end a \<le> sec_off b) secs
    else \<exists>e. all_sections len h initial_walk = Inl e)"
proof (cases "fits len 128 (section_list h)")
  case False
  then show ?thesis
    using runs_all_sections [of len h] by (simp add: runs_def initial_walk_def)
next
  case True
  then obtain sp cursor secs where sp: "all_sections len h initial_walk = Inr (sp, cursor, secs)"
    using runs_all_sections [of len h, unfolded runs_def, rule_format, of initial_walk]
    by (auto simp: initial_walk_def)
  show ?thesis unfolding if_P [OF True] 
    using walk_sections [OF sp] by (intro exI [of _ sp] exI [of _ cursor] exI [of _ secs]) (simp add: sp)
qed

section \<open>Where the tables are\<close>

text \<open>A span that was skipped is \<open>(0, 0)\<close>; any other starts at or after the cursor and ends in
  the buffer before the next cursor.\<close>

definition placed :: "usize \<Rightarrow> nat \<Rightarrow> nat \<Rightarrow> nat \<Rightarrow> usize \<times> usize \<Rightarrow> bool" where
  "placed len lo hi n sp \<longleftrightarrow>
     (sp = (0, 0) \<and> n = 0) \<or> (lo \<le> fst sp \<and> snd sp = n \<and> fst sp + n \<le> len \<and> fst sp + n \<le> hi)"

lemma placed_mono: "placed len lo hi n sp \<Longrightarrow> lo' \<le> lo \<Longrightarrow> hi \<le> hi' \<Longrightarrow> placed len lo' hi' n sp"
  by (auto simp: placed_def)

lemma hbc_section_placed:
  assumes "hbc_section len name sz w = Inr (sp, w')"
  shows "sp = (unat (fst w), sz) \<and> unat (fst w) + sz \<le> len \<and> unat (fst w') = after (unat (fst w)) sz
     \<and> unat (fst w) \<le> unat (fst w') \<and> placed len (unat (fst w)) (unat (fst w')) sz sp"
  using assms after_ge [of "unat (fst w)" sz]
  by (auto simp: hbc_section_Inr unat_of_nat_u32 placed_def)

lemma hbc_section_at:
  "hbc_section len name sz w = Inr (sp, w') \<Longrightarrow>
     fst sp = unat (fst w) \<and> snd sp = sz \<and> unat (fst w) + sz \<le> len
     \<and> unat (fst w) + sz \<le> unat (fst w')"
  using after_ge [of "unat (fst w)" sz] by (auto simp: hbc_section_Inr unat_of_nat_u32)

lemma section_opt_placed:
  assumes "section_opt len name sz w = Inr (sp, w')"
  shows "unat (fst w) \<le> unat (fst w') \<and> placed len (unat (fst w)) (unat (fst w')) (sz mod 2 ^ 32) sp"
proof -
  have "(of_nat sz :: u32) = 0 \<longleftrightarrow> sz mod 2 ^ 32 = 0"
    by (simp add: word_of_nat_eq_0_iff dvd_eq_mod_eq_0)
  with assms show ?thesis
    using hbc_section_placed [of len name "sz mod 2 ^ 32" w sp w']
    by (auto simp: section_opt_Inr placed_def split: if_splits)
qed

section \<open>The spans are the recorded sections\<close>

text \<open>The span of a section of a list: its offset and size, or \<open>(0, 0)\<close> for one not in the list.\<close>

definition span_of :: "(u32 \<times> u32) option \<Rightarrow> usize \<times> usize" where
  "span_of v = (case v of None \<Rightarrow> (0, 0) | Some (off, sz) \<Rightarrow> (unat off, unat sz))"

definition section_span :: "sections \<Rightarrow> string \<Rightarrow> usize \<times> usize" where
  "section_span secs name = span_of (map_of secs name)"

lemma hbc_section_records:
  assumes "hbc_section len n sz w = Inr (sp, w')" "map_of (snd w) n = None"
  obtains v where "map_of (snd w') = (map_of (snd w))(n := v)" "sp = span_of v"
proof
  let ?v = "Some (fst w, of_nat sz :: u32)"
  have w': "sz \<le> u32_max" "sp = (unat (fst w), sz)" "snd w' = snd w @ [(n, fst w, of_nat sz)]"
    using assms(1) by (auto simp: hbc_section_Inr)
  show "map_of (snd w') = (map_of (snd w))(n := ?v)"
    using assms(2) by (auto simp: w'(3) map_add_def fun_eq_iff split: option.split)
  show "sp = span_of ?v" using w'(1,2) by (simp add: span_of_def unat_of_nat_u32)
qed

lemma skipped_records: "map_of secs n = None \<Longrightarrow> map_of secs = (map_of secs)(n := None) \<and> (0, 0) = span_of None"
  by (auto simp: span_of_def)

lemma section_opt_records:
  assumes "section_opt len n sz w = Inr (sp, w')" "map_of (snd w) n = None"
  obtains v where "map_of (snd w') = (map_of (snd w))(n := v)" "sp = span_of v"
proof (cases "(of_nat sz :: u32) = 0")
  case True
  then show ?thesis using that [of None] assms skipped_records [OF assms(2)] by (simp add: section_opt_Inr)
next
  case False
  then have "hbc_section len n (sz mod 2 ^ 32) w = Inr (sp, w')" using assms(1) by (simp only: section_opt_Inr if_False)
  from hbc_section_records [OF this assms(2)] that show ?thesis by blast
qed

lemma section_if_records:
  assumes "(if b then hbc_section len n sz else wret (0, 0)) w = Inr (sp, w')" "map_of (snd w) n = None"
  obtains v where "map_of (snd w') = (map_of (snd w))(n := v)" "sp = span_of v"
proof (cases b)
  case True
  then have "hbc_section len n sz w = Inr (sp, w')" using assms(1) by simp
  from hbc_section_records [OF this assms(2)] that show ?thesis by blast
next
  case False
  then show ?thesis using that [of None] assms skipped_records [OF assms(2)] by (simp add: wret_Inr)
qed

lemma string_sections_record:
  assumes "string_sections len h w = Inr (s, w')"
    "\<forall>n\<in>set (map fst (string_section_list h)). map_of (snd w) n = None"
  obtains a b i c d e where
    "map_of (snd w') = (map_of (snd w))(''FunctionHeaders'' := a, ''StringKinds'' := b,
      ''IdentifierHashes'' := i, ''SmallStringTable'' := c, ''OverflowStringTable'' := d, ''StringStorage'' := e)"
    "s = \<lparr>sp_func_headers = span_of a, sp_string_kinds = span_of b, sp_small_string_table = span_of c,
      sp_overflow_string_table = span_of d, sp_string_storage = span_of e\<rparr>"
proof -
  have new: "map_of (snd w) ''FunctionHeaders'' = None" "map_of (snd w) ''StringKinds'' = None"
    "map_of (snd w) ''IdentifierHashes'' = None" "map_of (snd w) ''SmallStringTable'' = None"
    "map_of (snd w) ''OverflowStringTable'' = None" "map_of (snd w) ''StringStorage'' = None"
    using assms(2) by (simp_all add: string_section_list_def)
  obtain w1 w2 w3 w4 w5 i where steps:
    "hbc_section len ''FunctionHeaders''
       (unat (hdr_function_count h) * unat (hdr_func_header_size h)) w = Inr (sp_func_headers s, w1)"
    "hbc_section len ''StringKinds'' (unat (hdr_string_kind_count h) * 4) w1 = Inr (sp_string_kinds s, w2)"
    "hbc_section len ''IdentifierHashes'' (unat (hdr_identifier_count h) * 4) w2 = Inr (i, w3)"
    "hbc_section len ''SmallStringTable'' (unat (hdr_string_count h) * 4) w3
       = Inr (sp_small_string_table s, w4)"
    "hbc_section len ''OverflowStringTable'' (unat (hdr_overflow_string_count h) * 8) w4
       = Inr (sp_overflow_string_table s, w5)"
    "hbc_section len ''StringStorage'' (unat (hdr_string_storage_size h)) w5
       = Inr (sp_string_storage s, w')"
    using assms(1) unfolding string_sections_def by (auto simp: wbind_Inr wret_Inr)
  obtain a where a: "map_of (snd w1) = (map_of (snd w))(''FunctionHeaders'' := a)" "sp_func_headers s = span_of a"
    by (rule hbc_section_records [OF steps(1) new(1)])
  obtain b where b: "map_of (snd w2) = (map_of (snd w1))(''StringKinds'' := b)" "sp_string_kinds s = span_of b"
    by (rule hbc_section_records [OF steps(2)]) (simp_all add: a new)
  obtain iv where i: "map_of (snd w3) = (map_of (snd w2))(''IdentifierHashes'' := iv)"
    by (rule hbc_section_records [OF steps(3)]) (simp_all add: a b new)
  obtain c where c: "map_of (snd w4) = (map_of (snd w3))(''SmallStringTable'' := c)" "sp_small_string_table s = span_of c"
    by (rule hbc_section_records [OF steps(4)]) (simp_all add: a b i new)
  obtain d where d: "map_of (snd w5) = (map_of (snd w4))(''OverflowStringTable'' := d)" "sp_overflow_string_table s = span_of d"
    by (rule hbc_section_records [OF steps(5)]) (simp_all add: a b i c new)
  obtain e where e: "map_of (snd w') = (map_of (snd w5))(''StringStorage'' := e)" "sp_string_storage s = span_of e"
    by (rule hbc_section_records [OF steps(6)]) (simp_all add: a b i c d new)
  show ?thesis
    by (rule that [of a b iv c d e]) (simp_all only: e(1) d(1) c(1) i b(1) a(1), simp add: a b c d e)
qed

lemma literal_sections_record:
  assumes "literal_sections len h w = Inr (l, w')"
    "\<forall>n\<in>{''ArrayBuffer'', ''ObjKeyBuffer'', ''ObjValueBuffer'', ''ObjShapeTable''}. map_of (snd w) n = None"
  obtains a k v t where
    "map_of (snd w') = (map_of (snd w))(''ArrayBuffer'' := a, ''ObjKeyBuffer'' := k, ''ObjValueBuffer'' := v,
      ''ObjShapeTable'' := t)"
    "l = \<lparr>sp_array_buffer = span_of a, sp_obj_key_buffer = span_of k, sp_obj_value_buffer = span_of v,
      sp_obj_shape_table = span_of t\<rparr>"
proof -
  have new: "map_of (snd w) ''ArrayBuffer'' = None" "map_of (snd w) ''ObjKeyBuffer'' = None"
    "map_of (snd w) ''ObjValueBuffer'' = None" "map_of (snd w) ''ObjShapeTable'' = None"
    using assms(2) by simp_all
  obtain w1 w2 where
    1: "section_opt len ''ArrayBuffer'' (unat (hdr_array_buffer_size h)) w = Inr (sp_array_buffer l, w1)" and
    2: "section_opt len ''ObjKeyBuffer'' (unat (hdr_obj_key_buffer_size h)) w1 = Inr (sp_obj_key_buffer l, w2)" and
    3: "if has_obj_value_buffer h
        then sp_obj_shape_table l = (0, 0) \<and>
          section_opt len ''ObjValueBuffer'' (unat (hdr_obj_value_buffer_size h)) w2
            = Inr (sp_obj_value_buffer l, w')
        else sp_obj_value_buffer l = (0, 0) \<and>
          (if 0 < hdr_obj_shape_table_count h
           then hbc_section len ''ObjShapeTable'' (unat (hdr_obj_shape_table_count h) * 8)
           else wret (0, 0)) w2 = Inr (sp_obj_shape_table l, w')"
    using assms(1) unfolding literal_sections_def
    by (auto simp: wbind_Inr wret_Inr split: if_splits)
  obtain a where a: "map_of (snd w1) = (map_of (snd w))(''ArrayBuffer'' := a)" "sp_array_buffer l = span_of a"
    by (rule section_opt_records [OF 1 new(1)])
  obtain k where k: "map_of (snd w2) = (map_of (snd w1))(''ObjKeyBuffer'' := k)" "sp_obj_key_buffer l = span_of k"
    by (rule section_opt_records [OF 2]) (simp_all add: a new)
  show ?thesis
  proof (cases "has_obj_value_buffer h")
    case True
    with 3 have val: "section_opt len ''ObjValueBuffer'' (unat (hdr_obj_value_buffer_size h)) w2
        = Inr (sp_obj_value_buffer l, w')" and shape: "sp_obj_shape_table l = (0, 0)" by simp_all
    obtain v where v: "map_of (snd w') = (map_of (snd w2))(''ObjValueBuffer'' := v)"
      "sp_obj_value_buffer l = span_of v"
      by (rule section_opt_records [OF val]) (simp_all add: a k new)
    have "map_of (snd w') = (map_of (snd w))(''ArrayBuffer'' := a, ''ObjKeyBuffer'' := k,
        ''ObjValueBuffer'' := v, ''ObjShapeTable'' := None)"
      by (auto simp: v a k new fun_eq_iff)
    then show ?thesis by (rule that) (simp add: a k v shape span_of_def)
  next
    case False
    with 3 have tbl: "(if 0 < hdr_obj_shape_table_count h
           then hbc_section len ''ObjShapeTable'' (unat (hdr_obj_shape_table_count h) * 8)
           else wret (0, 0)) w2 = Inr (sp_obj_shape_table l, w')"
      and val: "sp_obj_value_buffer l = (0, 0)" by simp_all
    obtain t where t: "map_of (snd w') = (map_of (snd w2))(''ObjShapeTable'' := t)"
      "sp_obj_shape_table l = span_of t"
      by (rule section_if_records [OF tbl]) (simp_all add: a k new)
    have "map_of (snd w') = (map_of (snd w))(''ArrayBuffer'' := a, ''ObjKeyBuffer'' := k,
        ''ObjValueBuffer'' := None, ''ObjShapeTable'' := t)"
      by (auto simp: t a k new fun_eq_iff)
    then show ?thesis by (rule that) (simp add: a k t val span_of_def)
  qed
qed

lemma bigint_sections_record:
  assumes "bigint_sections len h w = Inr ((tbl, sto), w')"
    "\<forall>n\<in>{''BigIntTable'', ''BigIntStorage''}. map_of (snd w) n = None"
  obtains t u where "map_of (snd w') = (map_of (snd w))(''BigIntTable'' := t, ''BigIntStorage'' := u)"
    "tbl = span_of t" "sto = span_of u"
proof (cases "has_big_ints h \<and> 0 < hdr_big_int_count h")
  case True
  then obtain w1 where
    1: "hbc_section len ''BigIntTable'' (unat (hdr_big_int_count h) * 8) w = Inr (tbl, w1)" and
    2: "hbc_section len ''BigIntStorage'' (unat (hdr_big_int_storage_size h)) w1 = Inr (sto, w')"
    using assms(1) by (auto simp: bigint_sections_def wbind_Inr wret_Inr)
  obtain t where t: "map_of (snd w1) = (map_of (snd w))(''BigIntTable'' := t)" "tbl = span_of t"
    by (rule hbc_section_records [OF 1]) (use assms(2) in simp_all)
  obtain u where u: "map_of (snd w') = (map_of (snd w1))(''BigIntStorage'' := u)" "sto = span_of u"
    by (rule hbc_section_records [OF 2]) (use assms(2) in \<open>simp_all add: t\<close>)
  show ?thesis by (rule that [OF _ t(2) u(2)]) (simp add: t u)
next
  case False
  then have none: "tbl = (0, 0)" "sto = (0, 0)" "w' = w"
    using assms(1) by (auto simp: bigint_sections_def wret_Inr split: if_splits)
  have "map_of (snd w') = (map_of (snd w))(''BigIntTable'' := None, ''BigIntStorage'' := None)"
    using assms(2) by (auto simp: none fun_eq_iff)
  then show ?thesis by (rule that) (simp_all add: none span_of_def)
qed

lemma tail_sections_record:
  assumes "tail_sections len h w = Inr ((re, cjs), w')"
    "\<forall>n\<in>{''RegExpTable'', ''RegExpStorage'', ''CJSModules'', ''FunctionSourceTable''}. map_of (snd w) n = None"
  obtains r rs c fs where
    "map_of (snd w') = (map_of (snd w))(''RegExpTable'' := r, ''RegExpStorage'' := rs, ''CJSModules'' := c,
      ''FunctionSourceTable'' := fs)"
    "re = span_of r" "cjs = span_of c"
proof -
  have new: "map_of (snd w) ''RegExpTable'' = None" "map_of (snd w) ''RegExpStorage'' = None"
    "map_of (snd w) ''CJSModules'' = None" "map_of (snd w) ''FunctionSourceTable'' = None"
    using assms(2) by simp_all
  let ?last = "if \<not> is_pre_v84 h \<and> 0 < hdr_function_source_count h
         then hbc_section len ''FunctionSourceTable'' (unat (hdr_function_source_count h) * 8)
         else wret (0, 0)"
  obtain w1 w2 w3 s1 where
    1: "section_opt len ''RegExpTable'' (unat (hdr_reg_exp_count h) * 8) w = Inr (re, w1)" and
    2: "section_opt len ''RegExpStorage''
       (if 0 < hdr_reg_exp_count h then unat (hdr_reg_exp_storage_size h) else 0) w1 = Inr (s1, w2)" and
    3: "section_opt len ''CJSModules'' (unat (hdr_cjs_module_count h) * 8) w2 = Inr (cjs, w3)" and
    last: "\<exists>s2. ?last w3 = Inr (s2, w')"
    using assms(1) unfolding tail_sections_def wbind_Inr
    by (elim exE conjE) (auto simp: wbind_Inr wret_Inr split: if_split_asm)
  obtain s2 where 4: "?last w3 = Inr (s2, w')" using last ..
  obtain r where r: "map_of (snd w1) = (map_of (snd w))(''RegExpTable'' := r)" "re = span_of r"
    by (rule section_opt_records [OF 1 new(1)])
  obtain rs where rs: "map_of (snd w2) = (map_of (snd w1))(''RegExpStorage'' := rs)"
    by (rule section_opt_records [OF 2]) (simp_all add: r new)
  obtain c where c: "map_of (snd w3) = (map_of (snd w2))(''CJSModules'' := c)" "cjs = span_of c"
    by (rule section_opt_records [OF 3]) (simp_all add: r rs new)
  obtain fs where fs: "map_of (snd w') = (map_of (snd w3))(''FunctionSourceTable'' := fs)"
    by (rule section_if_records [OF 4]) (simp_all add: r rs c new)
  show ?thesis by (rule that [OF _ r(2) c(2)]) (simp add: r rs c fs)
qed

text \<open>Each span of a walk is that of the section recorded under its name.\<close>

lemma all_sections_record:
  assumes "all_sections len h initial_walk = Inr ((s, l, (tbl, sto), (re, cjs)), cursor, secs)"
  shows "sp_func_headers s = section_span secs ''FunctionHeaders''"
    "sp_string_kinds s = section_span secs ''StringKinds''"
    "sp_small_string_table s = section_span secs ''SmallStringTable''"
    "sp_overflow_string_table s = section_span secs ''OverflowStringTable''"
    "sp_string_storage s = section_span secs ''StringStorage''"
    "sp_array_buffer l = section_span secs ''ArrayBuffer''"
    "sp_obj_key_buffer l = section_span secs ''ObjKeyBuffer''"
    "sp_obj_value_buffer l = section_span secs ''ObjValueBuffer''"
    "sp_obj_shape_table l = section_span secs ''ObjShapeTable''"
    "tbl = section_span secs ''BigIntTable''" "sto = section_span secs ''BigIntStorage''"
    "re = section_span secs ''RegExpTable''" "cjs = section_span secs ''CJSModules''"
proof -
  obtain c1 c2 c3 where
    1: "string_sections len h initial_walk = Inr (s, c1)" and
    2: "literal_sections len h c1 = Inr (l, c2)" and
    3: "bigint_sections len h c2 = Inr ((tbl, sto), c3)" and
    4: "tail_sections len h c3 = Inr ((re, cjs), (cursor, secs))"
    using assms unfolding all_sections_def by (auto simp: wbind_Inr wret_Inr)
  have start: "map_of (snd initial_walk) = [''Header'' \<mapsto> (0, 128)]" by (simp add: initial_walk_def)
  obtain a b i c d e where s: "map_of (snd c1) = [''Header'' \<mapsto> (0, 128)](''FunctionHeaders'' := a, ''StringKinds'' := b,
      ''IdentifierHashes'' := i, ''SmallStringTable'' := c, ''OverflowStringTable'' := d, ''StringStorage'' := e)"
    "s = \<lparr>sp_func_headers = span_of a, sp_string_kinds = span_of b, sp_small_string_table = span_of c,
      sp_overflow_string_table = span_of d, sp_string_storage = span_of e\<rparr>"
    by (rule string_sections_record [OF 1, unfolded start]) (simp_all add: string_section_list_def)
  obtain ab k v t where l: "map_of (snd c2) = (map_of (snd c1))(''ArrayBuffer'' := ab, ''ObjKeyBuffer'' := k,
      ''ObjValueBuffer'' := v, ''ObjShapeTable'' := t)"
    "l = \<lparr>sp_array_buffer = span_of ab, sp_obj_key_buffer = span_of k, sp_obj_value_buffer = span_of v,
      sp_obj_shape_table = span_of t\<rparr>"
    by (rule literal_sections_record [OF 2]) (simp_all add: s(1))
  obtain bt bs where bi: "map_of (snd c3) = (map_of (snd c2))(''BigIntTable'' := bt, ''BigIntStorage'' := bs)"
    "tbl = span_of bt" "sto = span_of bs"
    by (rule bigint_sections_record [OF 3]) (simp_all add: s(1) l(1))
  obtain r rs cj fs where tl: "map_of secs = (map_of (snd c3))(''RegExpTable'' := r, ''RegExpStorage'' := rs,
      ''CJSModules'' := cj, ''FunctionSourceTable'' := fs)" "re = span_of r" "cjs = span_of cj"
    by (rule tail_sections_record [OF 4, unfolded snd_conv]) (simp_all add: s(1) l(1) bi(1))
  show "sp_func_headers s = section_span secs ''FunctionHeaders''"
    "sp_string_kinds s = section_span secs ''StringKinds''"
    "sp_small_string_table s = section_span secs ''SmallStringTable''"
    "sp_overflow_string_table s = section_span secs ''OverflowStringTable''"
    "sp_string_storage s = section_span secs ''StringStorage''"
    "sp_array_buffer l = section_span secs ''ArrayBuffer''"
    "sp_obj_key_buffer l = section_span secs ''ObjKeyBuffer''"
    "sp_obj_value_buffer l = section_span secs ''ObjValueBuffer''"
    "sp_obj_shape_table l = section_span secs ''ObjShapeTable''"
    "tbl = section_span secs ''BigIntTable''" "sto = section_span secs ''BigIntStorage''"
    "re = section_span secs ''RegExpTable''" "cjs = section_span secs ''CJSModules''"
    by (simp_all add: section_span_def tl bi s l)
qed

lemma string_sections_placed:
  assumes "string_sections len h w = Inr (s, w')"
  shows "sp_func_headers s = (unat (fst w), unat (hdr_function_count h) * unat (hdr_func_header_size h))
    \<and> span_end (sp_func_headers s) \<le> fst (sp_string_kinds s)
    \<and> snd (sp_string_kinds s) = unat (hdr_string_kind_count h) * 4
    \<and> span_end (sp_string_kinds s) \<le> fst (sp_small_string_table s)
    \<and> snd (sp_small_string_table s) = unat (hdr_string_count h) * 4
    \<and> span_end (sp_small_string_table s) \<le> fst (sp_overflow_string_table s)
    \<and> snd (sp_overflow_string_table s) = unat (hdr_overflow_string_count h) * 8
    \<and> span_end (sp_overflow_string_table s) \<le> fst (sp_string_storage s)
    \<and> snd (sp_string_storage s) = unat (hdr_string_storage_size h)
    \<and> span_end (sp_string_storage s) \<le> len
    \<and> span_end (sp_string_storage s) \<le> unat (fst w')"
proof -
  obtain w1 w2 w3 w4 w5 i where steps:
    "hbc_section len ''FunctionHeaders''
       (unat (hdr_function_count h) * unat (hdr_func_header_size h)) w = Inr (sp_func_headers s, w1)"
    "hbc_section len ''StringKinds'' (unat (hdr_string_kind_count h) * 4) w1 = Inr (sp_string_kinds s, w2)"
    "hbc_section len ''IdentifierHashes'' (unat (hdr_identifier_count h) * 4) w2 = Inr (i, w3)"
    "hbc_section len ''SmallStringTable'' (unat (hdr_string_count h) * 4) w3
       = Inr (sp_small_string_table s, w4)"
    "hbc_section len ''OverflowStringTable'' (unat (hdr_overflow_string_count h) * 8) w4
       = Inr (sp_overflow_string_table s, w5)"
    "hbc_section len ''StringStorage'' (unat (hdr_string_storage_size h)) w5
       = Inr (sp_string_storage s, w')"
    using assms unfolding string_sections_def by (auto simp: wbind_Inr wret_Inr)
  show ?thesis
    using steps [THEN hbc_section_at] by (simp add: prod_eq_iff)
qed

lemma literal_sections_placed:
  assumes "literal_sections len h w = Inr (l, w')"
  shows "unat (fst w) \<le> unat (fst w')
    \<and> placed len (unat (fst w)) (unat (fst w')) (unat (hdr_array_buffer_size h)) (sp_array_buffer l)
    \<and> placed len (unat (fst w)) (unat (fst w')) (unat (hdr_obj_key_buffer_size h)) (sp_obj_key_buffer l)
    \<and> placed len (unat (fst w)) (unat (fst w'))
        (if has_obj_value_buffer h then unat (hdr_obj_value_buffer_size h) else 0) (sp_obj_value_buffer l)
    \<and> placed len (unat (fst w)) (unat (fst w'))
        (if has_obj_value_buffer h then 0 else unat (hdr_obj_shape_table_count h) * 8) (sp_obj_shape_table l)"
proof -
  have small: "unat (x :: u32) mod 2 ^ 32 = unat x" for x
    using unat_u32 [of x] by (rule mod_less)
  obtain w1 w2 a k where
    1: "section_opt len ''ArrayBuffer'' (unat (hdr_array_buffer_size h)) w = Inr (a, w1)" and
    2: "section_opt len ''ObjKeyBuffer'' (unat (hdr_obj_key_buffer_size h)) w1 = Inr (k, w2)" and
    l: "sp_array_buffer l = a" "sp_obj_key_buffer l = k" and
    3: "if has_obj_value_buffer h
        then sp_obj_shape_table l = (0, 0) \<and>
          section_opt len ''ObjValueBuffer'' (unat (hdr_obj_value_buffer_size h)) w2
            = Inr (sp_obj_value_buffer l, w')
        else sp_obj_value_buffer l = (0, 0) \<and>
          (if 0 < hdr_obj_shape_table_count h
           then hbc_section len ''ObjShapeTable'' (unat (hdr_obj_shape_table_count h) * 8) w2
             = Inr (sp_obj_shape_table l, w')
           else sp_obj_shape_table l = (0, 0) \<and> w' = w2)"
    using assms unfolding literal_sections_def
    by (auto simp: wbind_Inr wret_Inr split: if_splits)
  note p = section_opt_placed [OF 1, unfolded small] section_opt_placed [OF 2, unfolded small]
  show ?thesis
  proof (cases "has_obj_value_buffer h")
    case True
    with 3 have "section_opt len ''ObjValueBuffer'' (unat (hdr_obj_value_buffer_size h)) w2
        = Inr (sp_obj_value_buffer l, w')" and z: "sp_obj_shape_table l = (0, 0)" by simp_all
    note section_opt_placed [OF this(1), unfolded small]
    with p True show ?thesis unfolding l z by (auto intro: placed_mono simp: placed_def)
  next
    case False
    with 3 have z: "sp_obj_value_buffer l = (0, 0)"
      "unat (fst w2) \<le> unat (fst w') \<and> placed len (unat (fst w2)) (unat (fst w'))
         (unat (hdr_obj_shape_table_count h) * 8) (sp_obj_shape_table l)"
      using hbc_section_placed [of len "''ObjShapeTable''"
          "unat (hdr_obj_shape_table_count h) * 8" w2 "sp_obj_shape_table l" w']
      by (auto simp: word_greater_zero_iff placed_def split: if_splits)
    with p False show ?thesis unfolding l by (auto intro: placed_mono simp: placed_def)
  qed
qed

lemma bigint_sections_placed:
  assumes "bigint_sections len h w = Inr ((tbl, sto), w')"
  shows "unat (fst w) \<le> unat (fst w')
    \<and> placed len (unat (fst w)) (unat (fst w'))
        (if has_big_ints h then unat (hdr_big_int_count h) * 8 else 0) tbl
    \<and> placed len (unat (fst w)) (unat (fst w'))
        (if has_big_ints h \<and> 0 < hdr_big_int_count h then unat (hdr_big_int_storage_size h) else 0) sto
    \<and> span_end tbl \<le> fst sto"
proof (cases "has_big_ints h \<and> 0 < hdr_big_int_count h")
  case True
  then obtain w1 where
    "hbc_section len ''BigIntTable'' (unat (hdr_big_int_count h) * 8) w = Inr (tbl, w1)"
    "hbc_section len ''BigIntStorage'' (unat (hdr_big_int_storage_size h)) w1 = Inr (sto, w')"
    using assms by (auto simp: bigint_sections_def wbind_Inr wret_Inr)
  from this [THEN hbc_section_at] True show ?thesis by (simp add: placed_def)
next
  case False
  with assms show ?thesis
    by (auto simp: bigint_sections_def wret_Inr placed_def word_greater_zero_iff split: if_splits)
qed

lemma tail_sections_placed:
  assumes "tail_sections len h w = Inr ((re, cjs), w')"
  shows "unat (fst w) \<le> unat (fst w')
    \<and> placed len (unat (fst w)) (unat (fst w')) (unat (hdr_reg_exp_count h) * 8 mod 2 ^ 32) re
    \<and> placed len (unat (fst w)) (unat (fst w')) (unat (hdr_cjs_module_count h) * 8 mod 2 ^ 32) cjs"
proof -
  obtain w1 w2 w3 rs where
    1: "section_opt len ''RegExpTable'' (unat (hdr_reg_exp_count h) * 8) w = Inr (re, w1)" and
    2: "section_opt len ''RegExpStorage''
       (if 0 < hdr_reg_exp_count h then unat (hdr_reg_exp_storage_size h) else 0) w1 = Inr (rs, w2)" and
    3: "section_opt len ''CJSModules'' (unat (hdr_cjs_module_count h) * 8) w2 = Inr (cjs, w3)" and
    4: "(\<exists>x. hbc_section len ''FunctionSourceTable'' (unat (hdr_function_source_count h) * 8) w3
          = Inr (x, w')) \<or> w' = w3"
    using assms by (auto simp: tail_sections_def wbind_Inr wret_Inr split: if_splits)
  have "unat (fst w3) \<le> unat (fst w')"
    using 4
  proof
    assume "\<exists>x. hbc_section len ''FunctionSourceTable'' (unat (hdr_function_source_count h) * 8) w3
        = Inr (x, w')"
    then obtain x where
      "hbc_section len ''FunctionSourceTable'' (unat (hdr_function_source_count h) * 8) w3 = Inr (x, w')" ..
    from hbc_section_at [OF this] show ?thesis by simp
  qed simp
  then show ?thesis
    using section_opt_placed [OF 1] section_opt_placed [OF 2] section_opt_placed [OF 3]
    by (auto intro: placed_mono)
qed

lemma fst_initial_walk: "unat (fst initial_walk) = 128"
  by (simp add: initial_walk_def)

lemma all_sections_fits:
  "(\<exists>r w. all_sections len h initial_walk = Inr (r, w)) \<longleftrightarrow> fits len 128 (section_list h)"
  using runs_all_sections [of len h, unfolded runs_def, rule_format, of initial_walk]
  by (auto simp: fst_initial_walk split: if_splits)

text \<open>All of it: the string tables in order, then the literal tables, the big integers, and the
  regular expressions and modules, each after the one before.\<close>

lemma all_sections_placed:
  assumes "all_sections len h initial_walk = Inr ((s, l, (tbl, sto), (re, cjs)), cursor, secs)"
  shows "\<exists>c1 c2 c3. sp_func_headers s = (128, unat (hdr_function_count h) * unat (hdr_func_header_size h))
    \<and> string_sections len h initial_walk = Inr (s, c1)
    \<and> literal_sections len h c1 = Inr (l, c2)
    \<and> bigint_sections len h c2 = Inr ((tbl, sto), c3)
    \<and> tail_sections len h c3 = Inr ((re, cjs), cursor, secs)
    \<and> span_end (sp_string_storage s) \<le> unat (fst c1) \<and> unat (fst c1) \<le> unat (fst c2)
    \<and> unat (fst c2) \<le> unat (fst c3) \<and> unat (fst c3) \<le> unat cursor"
proof -
  obtain c1 c2 c3 where
    1: "string_sections len h initial_walk = Inr (s, c1)" and
    2: "literal_sections len h c1 = Inr (l, c2)" and
    3: "bigint_sections len h c2 = Inr ((tbl, sto), c3)" and
    4: "tail_sections len h c3 = Inr ((re, cjs), cursor, secs)"
    using assms unfolding all_sections_def by (auto simp: wbind_Inr wret_Inr)
  show ?thesis
    using string_sections_placed [OF 1] literal_sections_placed [OF 2] bigint_sections_placed [OF 3]
      tail_sections_placed [OF 4]
    by (intro exI [of _ c1] exI [of _ c2] exI [of _ c3]) (simp add: 1 2 3 4 fst_initial_walk)
qed

end
