(* ===== verification/Hermes_DebugInfo.thy ===== *)
theory Hermes_DebugInfo
  imports Hermes_Header
begin

text \<open>
  The debug-info section (\<open>parser/debug_info.rs\<close>): the 20-byte header and the spans it
  declares (\<open>debug_info_v96_parse\<close>), and the delta-encoded source-location stream
  (\<open>decode_source_locations\<close>). The signed LEB128 reader comes from the crate
  \<open>droidsaw_common\<close>; it is the argument \<open>read_sleb128\<close> of the decoder.
\<close>

section \<open>Data\<close>

record DebugInfoHeaderV96 =
  di_filename_count :: u32
  di_filename_storage_size :: u32
  di_file_region_count :: u32
  di_lexical_data_offset :: u32
  di_debug_data_size :: u32

record DebugInfoV96 =
  di_header :: DebugInfoHeaderV96
  di_file_region_table :: "usize \<times> usize"
  di_filename_storage :: "usize \<times> usize"
  di_source_locations_data :: "usize \<times> usize"
  di_lexical_data :: "usize \<times> usize"

record SourceLocation =
  sl_address :: u32
  sl_line :: u32
  sl_column :: u32
  sl_statement :: u32

record FunctionSourceInfo =
  fsi_function_index :: u32
  fsi_start_line :: u32
  fsi_start_column :: u32
  fsi_locations :: "SourceLocation list"
  fsi_corrupt :: bool

definition DEBUG_INFO_V96_MIN :: u32 where
  "DEBUG_INFO_V96_MIN = 94"

definition DEBUG_INFO_V96_MAX :: u32 where
  "DEBUG_INFO_V96_MAX = 99"

definition SOURCE_LOCATIONS_MAX_PC_ENTRIES :: usize where
  "SOURCE_LOCATIONS_MAX_PC_ENTRIES = 2 ^ 20"

definition SOURCE_LOCATIONS_MAX_FUNCTIONS :: usize where
  "SOURCE_LOCATIONS_MAX_FUNCTIONS = 2 ^ 22"

section \<open>The section header\<close>

definition read_debug_header :: "u8 list \<Rightarrow> usize \<Rightarrow> DebugInfoHeaderV96" where
  "read_debug_header buf dbg_off = \<lparr>
     di_filename_count = read_u32 buf dbg_off,
     di_filename_storage_size = read_u32 buf (dbg_off + 4),
     di_file_region_count = read_u32 buf (dbg_off + 8),
     di_lexical_data_offset = read_u32 buf (dbg_off + 12),
     di_debug_data_size = read_u32 buf (dbg_off + 16)\<rparr>"

text \<open>The spans, each end checked with \<open>checked_add\<close> and against the buffer.\<close>

definition debug_spans :: "usize \<Rightarrow> u64 \<Rightarrow> DebugInfoHeaderV96 \<Rightarrow> DebugInfoV96 option" where
  "debug_spans buf_len header_end dh =
     Option.bind (checked_mul64 (unat (di_file_region_count dh)) 12) (\<lambda>table_size.
     Option.bind (checked_add64 header_end table_size) (\<lambda>table_end.
     if buf_len < table_end then None else
     Option.bind (checked_add64 table_end 4) (\<lambda>storage_start.
     Option.bind (checked_add64 storage_start (unat (di_filename_storage_size dh))) (\<lambda>storage_end.
     if buf_len < storage_end then None else
     Option.bind (checked_add64 storage_end (unat (di_lexical_data_offset dh))) (\<lambda>source_locations_end.
     if buf_len < source_locations_end then None else
     Option.bind (checked_add64 storage_end (unat (di_debug_data_size dh))) (\<lambda>data_total_end.
     let lexical_data_end = min data_total_end buf_len;
         lexical_data_size = lexical_data_end - source_locations_end
     in Some \<lparr>
       di_header = dh,
       di_file_region_table = (header_end, table_size),
       di_filename_storage = (storage_start, unat (di_filename_storage_size dh)),
       di_source_locations_data = (storage_end, unat (di_lexical_data_offset dh)),
       di_lexical_data = (source_locations_end, lexical_data_size)\<rparr>))))))"

definition debug_info_v96_parse :: "u8 list \<Rightarrow> u32 \<Rightarrow> u32 \<Rightarrow> hermes_error + DebugInfoV96 option"
  where
  "debug_info_v96_parse buf debug_info_offset v =
     (if debug_info_offset = 0 then Inr None
      else if \<not> (DEBUG_INFO_V96_MIN \<le> v \<and> v \<le> DEBUG_INFO_V96_MAX) then Inr None
      else if debug_info_offset < of_nat HEADER_SIZE then Inr None
      else
        let dbg_off = unat debug_info_offset in
        case checked_add64 dbg_off 20 of
          None \<Rightarrow> Inr None
        | Some header_end \<Rightarrow>
            if length buf < header_end then Inr None
            else
              let dh = read_debug_header buf dbg_off
              in if di_debug_data_size dh = 0 then Inr None
                 else if di_debug_data_size dh < di_lexical_data_offset dh
                 then Inl (InconsistentDebugHeader (di_lexical_data_offset dh) (di_debug_data_size dh))
                 else Inr (debug_spans (length buf) header_end dh))"

section \<open>The source-location stream\<close>

type_synonym sleb_reader = "u8 list \<Rightarrow> usize \<Rightarrow> (i32 \<times> usize) option"

definition sat_add_i32 :: "i32 \<Rightarrow> i32 \<Rightarrow> i32" where
  "sat_add_i32 a b = max (- (2 ^ 31)) (min (2 ^ 31 - 1) (a + b))"

definition sat_add_i64 :: "i64 \<Rightarrow> i64 \<Rightarrow> i64" where
  "sat_add_i64 a b = max (- (2 ^ 63)) (min (2 ^ 63 - 1) (a + b))"

text \<open>\<open>u32::try_from(x.clamp(0, u32::MAX))\<close> and \<open>u32::try_from(i32::max(x, 0))\<close>\<close>

definition clamp_u32 :: "i64 \<Rightarrow> u32" where
  "clamp_u32 x = of_int (max 0 (min (2 ^ 32 - 1) x))"

record loc_state =
  ls_pos :: usize
  ls_line :: i32
  ls_column :: i32
  ls_address :: i64
  ls_statement :: i64

datatype loc_step = LocEnd usize | LocCorrupt | LocNext SourceLocation loc_state

text \<open>The version-dependent operands that are skipped: two for v94 to v96, one from v99 on.\<close>

fun skip_sleb :: "sleb_reader \<Rightarrow> u8 list \<Rightarrow> nat \<Rightarrow> usize \<Rightarrow> usize option" where
  "skip_sleb rd data 0 pos = Some pos"
| "skip_sleb rd data (Suc n) pos =
     (case rd data pos of
        None \<Rightarrow> None
      | Some (_, c) \<Rightarrow> skip_sleb rd data n (sat_add64 pos c))"

definition skipped_operands :: "u32 \<Rightarrow> nat" where
  "skipped_operands v = (if 94 \<le> v \<and> v < 97 then 2 else if 99 \<le> v then 1 else 0)"

definition read_statement :: "sleb_reader \<Rightarrow> u8 list \<Rightarrow> i32 \<Rightarrow> usize \<Rightarrow> (i32 \<times> usize) option" where
  "read_statement rd data line_delta_raw pos =
     (if odd line_delta_raw
      then (case rd data pos of None \<Rightarrow> None | Some (sd, c) \<Rightarrow> Some (sd, sat_add64 pos c))
      else Some (0, pos))"

definition next_location :: "loc_state \<Rightarrow> i32 \<Rightarrow> i32 \<Rightarrow> i32 \<Rightarrow> i32 \<Rightarrow> usize \<Rightarrow> loc_step" where
  "next_location st address_delta line_delta_raw column_delta statement_delta pos =
     (let a = sat_add_i64 (ls_address st) address_delta;
          l = sat_add_i32 (ls_line st) (line_delta_raw div 2);
          c = sat_add_i32 (ls_column st) column_delta;
          s = sat_add_i64 (ls_statement st) statement_delta
      in LocNext
          \<lparr>sl_address = clamp_u32 a, sl_line = of_int (max l 0), sl_column = of_int (max c 0),
           sl_statement = clamp_u32 s\<rparr>
          \<lparr>ls_pos = pos, ls_line = l, ls_column = c, ls_address = a, ls_statement = s\<rparr>)"

definition read_location :: "sleb_reader \<Rightarrow> u8 list \<Rightarrow> u32 \<Rightarrow> loc_state \<Rightarrow> loc_step" where
  "read_location rd data v st =
     (case rd data (ls_pos st) of
        None \<Rightarrow> LocCorrupt
      | Some (address_delta, c1) \<Rightarrow>
          let pos1 = sat_add64 (ls_pos st) c1 in
          if address_delta < 0 then LocEnd pos1
          else case rd data pos1 of
            None \<Rightarrow> LocCorrupt
          | Some (line_delta_raw, c2) \<Rightarrow>
              let pos2 = sat_add64 pos1 c2 in
              (case rd data pos2 of
                 None \<Rightarrow> LocCorrupt
               | Some (column_delta, c3) \<Rightarrow>
                   let pos3 = sat_add64 pos2 c3 in
                   (case skip_sleb rd data (skipped_operands v) pos3 of
                      None \<Rightarrow> LocCorrupt
                    | Some pos4 \<Rightarrow>
                        (case read_statement rd data line_delta_raw pos4 of
                           None \<Rightarrow> LocCorrupt
                         | Some (statement_delta, pos5) \<Rightarrow>
                             next_location st address_delta line_delta_raw column_delta
                               statement_delta pos5))))"

text \<open>The inner loop: the locations read so far, newest last. The position after a corrupt
  record is never used, because the outer loop stops there.\<close>

function read_locations ::
  "sleb_reader \<Rightarrow> u8 list \<Rightarrow> u32 \<Rightarrow> loc_state \<Rightarrow> SourceLocation list \<Rightarrow> SourceLocation list \<times> bool \<times> usize"
  where
  "read_locations rd data v st locs =
     (if SOURCE_LOCATIONS_MAX_PC_ENTRIES \<le> length locs then (locs, False, ls_pos st)
      else case read_location rd data v st of
        LocCorrupt \<Rightarrow> (locs, True, ls_pos st)
      | LocEnd pos \<Rightarrow> (locs, False, pos)
      | LocNext loc st' \<Rightarrow> read_locations rd data v st' (locs @ [loc]))"
  by pat_completeness auto
termination
  by (relation "measure (\<lambda>(rd, data, v, st, locs). SOURCE_LOCATIONS_MAX_PC_ENTRIES - length locs)") auto

declare read_locations.simps [simp del]

text \<open>One function record: its three leading numbers, then its locations.\<close>

definition read_function ::
  "sleb_reader \<Rightarrow> u8 list \<Rightarrow> u32 \<Rightarrow> usize \<Rightarrow> (FunctionSourceInfo \<times> usize) option" where
  "read_function rd data v pos =
     Option.bind (rd data pos) (\<lambda>(function_index, c1).
     if function_index < 0 then None else
     let pos1 = sat_add64 pos c1 in
     Option.bind (rd data pos1) (\<lambda>(start_line, c2).
     let pos2 = sat_add64 pos1 c2 in
     Option.bind (rd data pos2) (\<lambda>(start_column, c3).
     let pos3 = sat_add64 pos2 c3;
         (locations, corrupt, pos4) = read_locations rd data v
           \<lparr>ls_pos = pos3, ls_line = max start_line 0, ls_column = max start_column 0,
            ls_address = 0, ls_statement = 0\<rparr> []
     in Some (\<lparr>fsi_function_index = of_int function_index,
               fsi_start_line = of_int (max start_line 0),
               fsi_start_column = of_int (max start_column 0),
               fsi_locations = locations, fsi_corrupt = corrupt\<rparr>, pos4))))"

function read_functions ::
  "sleb_reader \<Rightarrow> u8 list \<Rightarrow> u32 \<Rightarrow> usize \<Rightarrow> FunctionSourceInfo list \<Rightarrow> FunctionSourceInfo list" where
  "read_functions rd data v pos functions =
     (if pos < length data \<and> length functions < SOURCE_LOCATIONS_MAX_FUNCTIONS
      then case read_function rd data v pos of
          None \<Rightarrow> functions
        | Some (fi, pos') \<Rightarrow>
            if fsi_corrupt fi then functions @ [fi]
            else read_functions rd data v pos' (functions @ [fi])
      else functions)"
  by pat_completeness auto
termination
  by (relation "measure (\<lambda>(rd, data, v, pos, functions). SOURCE_LOCATIONS_MAX_FUNCTIONS - length functions)")
    auto

declare read_functions.simps [simp del]

definition decode_source_locations ::
  "sleb_reader \<Rightarrow> u8 list \<Rightarrow> u32 \<Rightarrow> FunctionSourceInfo list option" where
  "decode_source_locations rd data v =
     (if data = [] then None
      else let functions = read_functions rd data v 0 []
           in if functions = [] then None else Some functions)"

section \<open>The spans lie in the buffer\<close>

text \<open>
  A decomposed debug-info section: the version and offset are in their ranges, the header
  is the 20 bytes at the offset, and the file-region table, filename storage, source locations
  and lexical data follow each other (with the 4-byte prefix before the storage), in this
  order and without overlap, all inside the buffer.
\<close>

theorem debug_info_spans:
  assumes "debug_info_v96_parse buf off v = Inr (Some d)"
  shows "94 \<le> v \<and> v \<le> 99 \<and> 128 \<le> unat off \<and> di_header d = read_debug_header buf (unat off)
    \<and> fst (di_file_region_table d) = unat off + 20
    \<and> snd (di_file_region_table d) = 12 * unat (di_file_region_count (di_header d))
    \<and> fst (di_filename_storage d) = span_end (di_file_region_table d) + 4
    \<and> fst (di_source_locations_data d) = span_end (di_filename_storage d)
    \<and> fst (di_lexical_data d) = span_end (di_source_locations_data d)
    \<and> span_end (di_lexical_data d) \<le> length buf
    \<and> snd (di_source_locations_data d) + snd (di_lexical_data d)
        \<le> unat (di_debug_data_size (di_header d))"
  using assms
  by (auto simp: debug_info_v96_parse_def debug_spans_def Let_def checked_add64_def checked_mul64_def
      DEBUG_INFO_V96_MIN_def DEBUG_INFO_V96_MAX_def HEADER_SIZE_def word_le_nat_alt word_less_nat_alt
      bind_eq_Some_conv split: if_splits)

section \<open>What the stream decoder returns\<close>

lemma clamp_u32_mono: "a \<le> b \<Longrightarrow> clamp_u32 a \<le> clamp_u32 b"
proof -
  have clamp: "unat (clamp_u32 x) = nat (max 0 (min (2 ^ 32 - 1) x))" for x
    by (simp add: clamp_u32_def unat_eq_nat_uint uint_word_of_int_eq take_bit_int_eq_self)
  show "a \<le> b \<Longrightarrow> clamp_u32 a \<le> clamp_u32 b"
    unfolding word_le_nat_alt clamp by (rule nat_mono) auto
qed

definition addresses_ok :: "i64 \<Rightarrow> SourceLocation list \<Rightarrow> bool" where
  "addresses_ok a locs \<longleftrightarrow> sorted (map sl_address locs) \<and> (\<forall>l \<in> set locs. sl_address l \<le> clamp_u32 a)"

lemma read_location_address:
  "read_location rd data v st = LocNext loc st' \<Longrightarrow> 0 \<le> ls_address st \<Longrightarrow> ls_address st \<le> 2 ^ 63 - 1 \<Longrightarrow>
     ls_address st \<le> ls_address st' \<and> ls_address st' \<le> 2 ^ 63 - 1
     \<and> sl_address loc = clamp_u32 (ls_address st')"
  by (auto simp: read_location_def next_location_def Let_def sat_add_i64_def
      split: option.splits if_splits)

lemma read_locations_ok:
  "length locs \<le> SOURCE_LOCATIONS_MAX_PC_ENTRIES \<Longrightarrow> addresses_ok (ls_address st) locs \<Longrightarrow>
   0 \<le> ls_address st \<Longrightarrow> ls_address st \<le> 2 ^ 63 - 1 \<Longrightarrow>
   (case read_locations rd data v st locs of (locs', _, _) \<Rightarrow>
      length locs' \<le> SOURCE_LOCATIONS_MAX_PC_ENTRIES \<and> sorted (map sl_address locs'))"
proof (induction rd data v st locs rule: read_locations.induct)
  case (1 rd data v st locs)
  show ?case
  proof (cases "SOURCE_LOCATIONS_MAX_PC_ENTRIES \<le> length locs")
    case True
    then show ?thesis
      using 1 by (simp add: read_locations.simps [of rd data v st locs] addresses_ok_def)
  next
    case room: False
    show ?thesis
    proof (cases "read_location rd data v st")
      case (LocNext loc st')
      note step = read_location_address [OF LocNext 1(4,5)]
      have "addresses_ok (ls_address st') (locs @ [loc])"
        using 1(3) step clamp_u32_mono [of "ls_address st" "ls_address st'"]
        by (auto simp: addresses_ok_def sorted_append)
      then show ?thesis
        using 1(1) [OF room LocNext] 1(2-5) room LocNext step
        by (simp add: read_locations.simps [of rd data v st locs])
    qed (use 1 room in \<open>simp_all add: read_locations.simps [of rd data v st locs] addresses_ok_def\<close>)
  qed
qed

definition function_ok :: "FunctionSourceInfo \<Rightarrow> bool" where
  "function_ok fi \<longleftrightarrow> length (fsi_locations fi) \<le> SOURCE_LOCATIONS_MAX_PC_ENTRIES
     \<and> sorted (map sl_address (fsi_locations fi))"

lemma read_locations_init:
  "ls_address st = 0 \<Longrightarrow> length (fst (read_locations rd data v st [])) \<le> SOURCE_LOCATIONS_MAX_PC_ENTRIES
     \<and> sorted (map sl_address (fst (read_locations rd data v st [])))"
  using read_locations_ok [of "[]" st rd data v] by (simp add: addresses_ok_def split_beta)

lemma read_function_ok: "read_function rd data v pos = Some (fi, pos') \<Longrightarrow> function_ok fi"
  by (auto simp: read_function_def function_ok_def Let_def bind_eq_Some_conv split_beta
      read_locations_init split: if_split_asm)

lemma read_functions_ok:
  "length fs \<le> SOURCE_LOCATIONS_MAX_FUNCTIONS \<Longrightarrow> \<forall>f \<in> set fs. function_ok f \<and> \<not> fsi_corrupt f \<Longrightarrow>
   length (read_functions rd data v pos fs) \<le> SOURCE_LOCATIONS_MAX_FUNCTIONS
   \<and> (\<forall>f \<in> set (read_functions rd data v pos fs). function_ok f)
   \<and> (\<forall>f \<in> set (butlast (read_functions rd data v pos fs)). \<not> fsi_corrupt f)"
proof (induction rd data v pos fs rule: read_functions.induct)
  case (1 rd data v pos fs)
  show ?case
  proof (cases "pos < length data \<and> length fs < SOURCE_LOCATIONS_MAX_FUNCTIONS")
    case False
    then show ?thesis
      using 1(2,3) by (auto simp: read_functions.simps [of rd data v pos fs] dest: in_set_butlastD)
  next
    case room: True
    show ?thesis
    proof (cases "read_function rd data v pos")
      case None
      then show ?thesis
        using 1(2,3) room by (auto simp: read_functions.simps [of rd data v pos fs] dest: in_set_butlastD)
    next
      case (Some r)
      obtain fi pos' where r: "r = (fi, pos')" by (cases r)
      have ok: "function_ok fi" using read_function_ok Some r by blast
      show ?thesis
      proof (cases "fsi_corrupt fi")
        case True
        then show ?thesis
          using 1(2,3) room Some r ok
          by (simp add: read_functions.simps [of rd data v pos fs] ball_Un)
      next
        case False
        have "read_functions rd data v pos fs = read_functions rd data v pos' (fs @ [fi])"
          using room Some r False by (simp add: read_functions.simps [of rd data v pos fs])
        then show ?thesis using 1(1) [OF room Some r [symmetric] False] 1(2,3) room ok False by auto
      qed
    qed
  qed
qed

text \<open>
  C36. The decoded stream: at least one function, at most \<open>2^22\<close>; each has at most \<open>2^20\<close>
  locations, with addresses that never decrease; and only the last function can be marked
  corrupt, because the decoder resynchronises no further.
\<close>

theorem decode_source_locations_ok:
  assumes "decode_source_locations rd data v = Some fs"
  shows "fs \<noteq> [] \<and> length fs \<le> 2 ^ 22
    \<and> (\<forall>f \<in> set fs. length (fsi_locations f) \<le> 2 ^ 20 \<and> sorted (map sl_address (fsi_locations f)))
    \<and> (\<forall>f \<in> set (butlast fs). \<not> fsi_corrupt f)"
  using assms read_functions_ok [of "[]" rd data v 0]
  by (auto simp: decode_source_locations_def Let_def function_ok_def SOURCE_LOCATIONS_MAX_PC_ENTRIES_def
      SOURCE_LOCATIONS_MAX_FUNCTIONS_def split: if_splits)

end
