(* ===== verification/Hermes_Bitfields.thy ===== *)
theory Hermes_Bitfields
  imports Hermes_Prelude
begin

text \<open>
  The bit-field reader \<open>read_bitfield\<close> of \<open>parser/mod.rs\<close>, its writer \<open>bit_pack_u32\<close> of
  \<open>emit.rs\<close> and the flag packer \<open>pack_flags\<close>, with their bit-level characterisation: bit \<open>i\<close>
  of the value is bit \<open>start + i\<close> of the byte array. The counters \<open>start_bit\<close>, \<open>num_bits\<close>,
  \<open>bit_idx\<close> and \<open>written\<close> are \<open>u32\<close> in the source; every caller passes
  \<open>start_bit + num_bits \<le> 128\<close>, so they are kept as natural numbers.
\<close>

section \<open>Reading\<close>

function read_bitfield_loop :: "u8 list \<Rightarrow> nat \<Rightarrow> u32 \<Rightarrow> nat \<Rightarrow> nat \<Rightarrow> u32" where
  "read_bitfield_loop bytes num_bits acc written bit_idx =
     (if written < num_bits then
        (case get_at bytes (bit_idx div 8) of
           None \<Rightarrow> acc
         | Some b \<Rightarrow>
             (let bits_in_byte = 8 - bit_idx mod 8;
                  bits_to_read = min bits_in_byte (num_bits - written);
                  mask = push_bit bits_to_read 1 - 1;
                  shift = bit_idx mod 8;
                  byte_value = ucast (drop_bit shift b)
              in read_bitfield_loop bytes num_bits
                   (acc OR push_bit written (byte_value AND mask))
                   (written + bits_to_read) (bit_idx + bits_to_read)))
      else acc)"
  by pat_completeness auto
termination
  by (relation "measure (\<lambda>(bytes, num_bits, acc, written, bit_idx). num_bits - written)")
    (auto simp: Let_def)

declare read_bitfield_loop.simps [simp del]

definition read_bitfield :: "u8 list \<Rightarrow> nat \<Rightarrow> nat \<Rightarrow> u32" where
  "read_bitfield bytes start_bit num_bits = read_bitfield_loop bytes num_bits 0 0 start_bit"

lemma byte_index: "i div 8 < n \<longleftrightarrow> i < 8 * (n :: nat)"
  by (simp add: div_less_iff_less_mult mult.commute)

text \<open>Bit \<open>i\<close> of a byte array, least significant bit of the first byte first.\<close>

definition bytes_bit :: "u8 list \<Rightarrow> nat \<Rightarrow> bool" where
  "bytes_bit bs i \<longleftrightarrow> i < 8 * length bs \<and> bit (bs ! (i div 8)) (i mod 8)"

lemma push_bit_1_minus_1: "push_bit n (1 :: 'a :: len word) - 1 = mask n"
  by (simp add: mask_eq_exp_minus_1 push_bit_eq_mult)

lemma read_bitfield_loop_step:
  assumes "written < num_bits" "get_at bytes (k div 8) = Some b"
    "n = min (8 - k mod 8) (num_bits - written)"
  shows "read_bitfield_loop bytes num_bits acc written k
    = read_bitfield_loop bytes num_bits
        (acc OR push_bit written (ucast (drop_bit (k mod 8) b) AND mask n)) (written + n) (k + n)"
  using assms
  by (subst read_bitfield_loop.simps) (simp only: Let_def if_True option.case push_bit_1_minus_1)

lemma chunk_index:
  fixes k j :: nat
  assumes "j < 8 - k mod 8"
  shows "(k + j) div 8 = k div 8" and "(k + j) mod 8 = k mod 8 + j"
proof -
  obtain q r where k: "k = 8 * q + r" and r: "r < 8"
    using mult_div_mod_eq [of 8 k] by (metis mod_less_divisor zero_less_numeral)
  then have "r + j < 8" using assms by simp
  then show "(k + j) div 8 = k div 8" "(k + j) mod 8 = k mod 8 + j"
    using r by (simp_all add: k add.assoc)
qed

lemma read_chunk_bit:
  assumes b: "get_at bytes (k div 8) = Some b" and n: "n \<le> 8 - k mod 8"
  shows "bit (ucast (drop_bit (k mod 8) b) AND mask n :: u32) j \<longleftrightarrow> j < n \<and> bytes_bit bytes (k + j)"
proof (cases "j < n")
  case True
  then have j: "j < 8 - k mod 8" using n by simp
  have len: "k div 8 < length bytes" and b_eq: "b = bytes ! (k div 8)"
    using b by (auto simp: get_at_def split: if_splits)
  from len chunk_index(1) [OF j] have "k + j < 8 * length bytes"
    by (metis less_mult_imp_div_less mult.commute div_less_iff_less_mult zero_less_numeral)
  moreover have "k mod 8 + j < 8" using j by simp
  ultimately show ?thesis
    using True n by (simp add: bytes_bit_def bit_simps chunk_index [OF j] b_eq)
qed (simp add: bit_simps)

lemma read_bitfield_loop_bit:
  assumes "num_bits \<le> 32" "written \<le> num_bits" "bit_idx = start + written"
    "\<And>i. bit acc i \<longleftrightarrow> i < written \<and> bytes_bit bytes (start + i)"
  shows "bit (read_bitfield_loop bytes num_bits acc written bit_idx) i
    \<longleftrightarrow> i < num_bits \<and> bytes_bit bytes (start + i)"
  using assms
proof (induction bytes num_bits acc written bit_idx rule: read_bitfield_loop.induct)
  case (1 bytes num_bits acc written bit_idx)
  show ?case
  proof (cases "written < num_bits")
    case False
    with "1.prems" show ?thesis by (simp add: read_bitfield_loop.simps)
  next
    case True
    show ?thesis
    proof (cases "get_at bytes (bit_idx div 8)")
      case None
      then have "\<not> bytes_bit bytes (start + i)" if "written \<le> i"
        using that "1.prems"(3) by (auto simp: bytes_bit_def get_at_def split: if_splits)
      moreover have "read_bitfield_loop bytes num_bits acc written bit_idx = acc"
        using None True by (subst read_bitfield_loop.simps) simp
      ultimately show ?thesis
        using "1.prems"(2) "1.prems"(4) by (metis less_le_trans not_le)
    next
      case (Some b)
      define n where "n = min (8 - bit_idx mod 8) (num_bits - written)"
      have n: "n \<le> 8 - bit_idx mod 8" "n \<le> num_bits - written" by (auto simp: n_def)
      let ?v = "acc OR push_bit written (ucast (drop_bit (bit_idx mod 8) b) AND mask n)"
      have "bit (read_bitfield_loop bytes num_bits ?v (written + n) (bit_idx + n)) i
          \<longleftrightarrow> i < num_bits \<and> bytes_bit bytes (start + i)"
      proof (rule "1.IH" [OF True Some refl refl refl refl refl, folded n_def,
            unfolded push_bit_1_minus_1])
        show "written + n \<le> num_bits" using n True by simp
        show "bit_idx + n = start + (written + n)" using "1.prems"(3) by simp
        fix i
        show "bit ?v i \<longleftrightarrow> i < written + n \<and> bytes_bit bytes (start + i)"
        proof (cases "i < written")
          case True
          with "1.prems"(4) show ?thesis by (simp add: bit_simps)
        next
          case False
          then have eq: "bit_idx + (i - written) = start + i" using "1.prems"(3) by simp
          have lt: "i - written < n \<longleftrightarrow> i < written + n" using False by linarith
          have "i < 32" if "i < written + n" using that n "1.prems"(1,2) by simp
          moreover have "\<not> bit acc i" using False "1.prems"(4) by blast
          moreover note read_chunk_bit [OF Some n(1), of "i - written", unfolded eq lt]
          ultimately show ?thesis
            using False by (auto simp: bit_or_iff bit_push_bit_iff not_less simp del: push_bit_and bit_and_iff)
        qed
      qed (rule "1.prems"(1))
      moreover have "read_bitfield_loop bytes num_bits acc written bit_idx
          = read_bitfield_loop bytes num_bits ?v (written + n) (bit_idx + n)"
        by (rule read_bitfield_loop_step [OF True Some n_def])
      ultimately show ?thesis by simp
    qed
  qed
qed

text \<open>The closed form every use of the reader rests on.\<close>

lemma read_bitfield_bit [bits]:
  "num_bits \<le> 32 \<Longrightarrow>
    bit (read_bitfield bytes start num_bits) i \<longleftrightarrow> i < num_bits \<and> bytes_bit bytes (start + i)"
  unfolding read_bitfield_def by (rule read_bitfield_loop_bit) auto

lemma read_bitfield_bound: "num_bits < 32 \<Longrightarrow> unat (read_bitfield bytes start num_bits) < 2 ^ num_bits"
proof -
  assume n: "num_bits < 32"
  have "read_bitfield bytes start num_bits = take_bit num_bits (read_bitfield bytes start num_bits)"
    using n by (intro bit_word_eqI) (auto simp: bit_simps bits)
  then have "unat (read_bitfield bytes start num_bits)
      = take_bit num_bits (unat (read_bitfield bytes start num_bits))"
    by (metis unsigned_take_bit_eq)
  then show ?thesis by (metis take_bit_nat_less_exp)
qed


section \<open>Writing\<close>

text \<open>
  \<open>bit_pack_u32\<close> ORs \<open>num_bits\<close> bits of the value into the output, stopping silently at the
  end of the slice. The \<open>debug_assert\<close>s that the value fits its field are not part of a release
  build; the characterisation below does not need them.
\<close>

function bit_pack_loop :: "u8 list \<Rightarrow> nat \<Rightarrow> u32 \<Rightarrow> nat \<Rightarrow> nat \<Rightarrow> u8 list" where
  "bit_pack_loop out num_bits val written bit_idx =
     (if written < num_bits then
        (let byte_idx = bit_idx div 8;
             bits_in_byte = 8 - bit_idx mod 8;
             bits_to_write = min bits_in_byte (num_bits - written);
             mask = (if bits_to_write = 32 then -1 else push_bit bits_to_write 1 - 1);
             shift = bit_idx mod 8;
             value_chunk = ucast (drop_bit written val AND mask)
         in (case get_at out byte_idx of
               None \<Rightarrow> out
             | Some slot \<Rightarrow>
                 bit_pack_loop (out[byte_idx := slot OR push_bit shift value_chunk]) num_bits val
                   (written + bits_to_write) (bit_idx + bits_to_write)))
      else out)"
  by pat_completeness auto
termination
  by (relation "measure (\<lambda>(out, num_bits, val, written, bit_idx). num_bits - written)")
    (auto simp: Let_def)

declare bit_pack_loop.simps [simp del]

definition bit_pack_u32 :: "nat \<Rightarrow> nat \<Rightarrow> u32 \<Rightarrow> u8 list \<Rightarrow> u8 list" where
  "bit_pack_u32 start_bit num_bits val out = bit_pack_loop out num_bits val 0 start_bit"

lemma bit_pack_loop_stop:
  "\<not> written < num_bits \<or> get_at out (k div 8) = None \<Longrightarrow>
    bit_pack_loop out num_bits val written k = out"
  by (subst bit_pack_loop.simps) (auto simp: Let_def)

lemma bit_pack_loop_step:
  assumes "written < num_bits" "get_at out (k div 8) = Some slot"
    "n = min (8 - k mod 8) (num_bits - written)"
  shows "bit_pack_loop out num_bits val written k
    = bit_pack_loop
        (out[k div 8 := slot OR push_bit (k mod 8) (ucast (drop_bit written val AND mask n))])
        num_bits val (written + n) (k + n)"
proof -
  have "n \<noteq> 32" using assms(3) by simp
  with assms show ?thesis
    by (subst bit_pack_loop.simps)
      (simp only: Let_def if_True if_False option.case push_bit_1_minus_1)
qed

text \<open>Induction along the writer, with its step in closed form.\<close>

lemma bit_pack_loop_induct [consumes 0, case_names stop step]:
  assumes stop: "\<And>out written k. \<not> written < num_bits \<or> get_at out (k div 8) = None \<Longrightarrow> P out written k"
    and step: "\<And>out written k slot n. written < num_bits \<Longrightarrow> get_at out (k div 8) = Some slot \<Longrightarrow>
      n = min (8 - k mod 8) (num_bits - written) \<Longrightarrow>
      P (out[k div 8 := slot OR push_bit (k mod 8) (ucast (drop_bit written val AND mask n))])
        (written + n) (k + n) \<Longrightarrow> P out written k"
  shows "P out written k"
proof (induction "num_bits - written" arbitrary: out written k rule: less_induct)
  case (less written out k)
  show ?case
  proof (cases "written < num_bits \<and> get_at out (k div 8) \<noteq> None")
    case False
    show ?thesis by (rule stop) (use False in auto)
  next
    case True
    then obtain slot where slot: "get_at out (k div 8) = Some slot" by auto
    show ?thesis
      by (rule step [OF conjunct1 [OF True] slot refl], rule less) (use True in auto)
  qed
qed

lemma length_bit_pack_loop [simp]:
  "length (bit_pack_loop out num_bits val written k) = length out"
  by (induction out written k rule: bit_pack_loop_induct [of num_bits _ val])
    (simp_all add: bit_pack_loop_stop bit_pack_loop_step)

lemma length_bit_pack_u32 [simp]: "length (bit_pack_u32 s n v out) = length out"
  by (simp add: bit_pack_u32_def)

lemma bytes_bit_update:
  assumes "k < length bs"
  shows "bytes_bit (bs[k := x]) i \<longleftrightarrow> (if i div 8 = k then bit x (i mod 8) else bytes_bit bs i)"
proof (cases "i div 8 = k")
  case True
  then have "i < 8 * length bs" using assms by (simp add: byte_index)
  with True assms show ?thesis by (simp add: bytes_bit_def)
qed (simp add: bytes_bit_def)

lemma chunk_range: "(a :: nat) \<le> b \<Longrightarrow> b - a < n \<longleftrightarrow> b < a + n"
  by linarith

lemma write_chunk_bit:
  assumes slot: "get_at out (k div 8) = Some slot" and n: "n \<le> 8 - k mod 8"
  shows "bytes_bit (out[k div 8 := slot OR push_bit (k mod 8) (ucast (drop_bit w val AND mask n))]) i
    \<longleftrightarrow> bytes_bit out i \<or> (k \<le> i \<and> i < k + n \<and> bit (val :: u32) (w + (i - k)))"
proof -
  have len: "k div 8 < length out" and slot_eq: "slot = out ! (k div 8)"
    using slot by (auto simp: get_at_def split: if_splits)
  show ?thesis
  proof (cases "i div 8 = k div 8")
    case False
    then have "\<not> (k \<le> i \<and> i < k + n)"
      using n chunk_index(1) [of "i - k" k] by (metis le_add_diff_inverse less_diff_conv2 less_le_trans
          add.commute add_less_cancel_left)
    with False len show ?thesis by (auto simp: bytes_bit_update)
  next
    case True
    then have "i < 8 * length out" using len by (simp add: byte_index [symmetric])
    with True have "bytes_bit out i \<longleftrightarrow> bit slot (i mod 8)" by (simp add: bytes_bit_def slot_eq)
    moreover obtain q where q: "i = q + i mod 8" "k = q + k mod 8"
      using True by (metis mult_div_mod_eq)
    then have ord: "k \<le> i \<longleftrightarrow> k mod 8 \<le> i mod 8" "i - k = i mod 8 - k mod 8"
      "i < k + n \<longleftrightarrow> i mod 8 < k mod 8 + n" by linarith+
    define x :: u8 where "x = ucast (drop_bit w val AND mask n)"
    have x: "bit x j \<longleftrightarrow> j < 8 \<and> j < n \<and> bit val (w + j)" for j
      by (auto simp: x_def bit_simps)
    have low: "possible_bit TYPE(8 word) (i mod 8)" "i mod 8 - k mod 8 < 8"
      by (simp_all add: possible_bit_def less_imp_diff_less)
    have "bit (push_bit (k mod 8) x) (i mod 8)
        \<longleftrightarrow> k mod 8 \<le> i mod 8 \<and> i mod 8 < k mod 8 + n \<and> bit val (w + (i mod 8 - k mod 8))"
      using chunk_range [of "k mod 8" "i mod 8" n] low unfolding bit_push_bit_iff x by blast
    then have "bit (slot OR push_bit (k mod 8) x) (i mod 8) \<longleftrightarrow> bit slot (i mod 8)
        \<or> (k mod 8 \<le> i mod 8 \<and> i mod 8 < k mod 8 + n \<and> bit val (w + (i mod 8 - k mod 8)))"
      by (simp only: bit_or_iff)
    ultimately show ?thesis
      using True len by (simp only: bytes_bit_update if_True ord x_def [symmetric] refl)
  qed
qed

lemma bit_pack_loop_bit:
  assumes "num_bits \<le> 32" "written \<le> num_bits" "bit_idx = start + written"
    "start + num_bits \<le> 8 * length out"
  shows "bytes_bit (bit_pack_loop out num_bits val written bit_idx) i
    \<longleftrightarrow> bytes_bit out i \<or> (start + written \<le> i \<and> i < start + num_bits \<and> bit val (i - start))"
  using assms
proof (induction out written bit_idx rule: bit_pack_loop_induct [of num_bits _ val])
  case (stop out written k)
  then have "\<not> written < num_bits"
    by (auto simp: get_at_def byte_index split: if_splits)
  with stop show ?case by (auto simp: bit_pack_loop_stop)
next
  case (step out written k slot n)
  let ?o = "out[k div 8 := slot OR push_bit (k mod 8) (ucast (drop_bit written val AND mask n))]"
  have n: "n \<le> 8 - k mod 8" "n \<le> num_bits - written" "written + n \<le> num_bits"
    using step.hyps(1,3) by auto
  have k: "k = start + written" by (rule step.prems(3))
  have rec: "bytes_bit (bit_pack_loop ?o num_bits val (written + n) (k + n)) i
      \<longleftrightarrow> bytes_bit ?o i \<or> (start + (written + n) \<le> i \<and> i < start + num_bits \<and> bit val (i - start))"
    using step.IH step.prems n k by simp
  have upd: "bytes_bit ?o i
      \<longleftrightarrow> bytes_bit out i \<or> (k \<le> i \<and> i < k + n \<and> bit val (written + (i - k)))"
    by (rule write_chunk_bit [OF step.hyps(2) n(1)])
  show ?case
  proof (cases "k \<le> i")
    case True
    then have idx: "written + (i - k) = i - start" using k by simp
    show ?thesis
      unfolding bit_pack_loop_step [OF step.hyps] rec upd idx using n(3) k True by auto
  next
    case False
    then show ?thesis
      unfolding bit_pack_loop_step [OF step.hyps] rec upd using k by auto
  qed
qed

lemma bit_pack_u32_bit [bits]:
  "num_bits \<le> 32 \<Longrightarrow> start + num_bits \<le> 8 * length out \<Longrightarrow>
    bytes_bit (bit_pack_u32 start num_bits val out) i
      \<longleftrightarrow> bytes_bit out i \<or> (start \<le> i \<and> i < start + num_bits \<and> bit val (i - start))"
  unfolding bit_pack_u32_def using bit_pack_loop_bit [of num_bits 0 start start out val i] by simp

text \<open>Byte arrays of the same length with the same bits are equal.\<close>

lemma bytes_eqI:
  assumes "length bs = length cs" and "\<And>i. i < 8 * length bs \<Longrightarrow> bytes_bit bs i = bytes_bit cs i"
  shows "bs = cs"
proof (rule nth_equalityI)
  fix k assume k: "k < length bs"
  show "bs ! k = cs ! k"
  proof (rule bit_word_eqI)
    fix j assume j: "j < LENGTH(8)"
    with k have "8 * k + j < 8 * length bs" by simp
    moreover have "(8 * k + j) div 8 = k" "(8 * k + j) mod 8 = j" using j by simp_all
    ultimately show "bit (bs ! k) j = bit (cs ! k) j"
      using assms(2) [of "8 * k + j"] assms(1) by (simp add: bytes_bit_def)
  qed
qed (rule assms(1))

lemma bytes_bit_zeros [simp]: "\<not> bytes_bit (replicate n 0) i"
  by (auto simp: bytes_bit_def byte_index)

section \<open>Flags\<close>

definition pack_flags :: "u8 \<Rightarrow> u8" where
  "pack_flags raw =
     (raw AND 0x03)
     OR push_bit 2 (drop_bit 2 raw AND 1)
     OR push_bit 3 (drop_bit 3 raw AND 1)
     OR push_bit 4 (drop_bit 4 raw AND 1)
     OR push_bit 5 (drop_bit 6 raw AND 3)"

text \<open>Bit \<open>n\<close> of a flags byte, \<open>(b >> n) & 1 != 0\<close>.\<close>

definition flag_bit :: "nat \<Rightarrow> u8 \<Rightarrow> bool" where
  "flag_bit n b \<longleftrightarrow> drop_bit n b AND 1 \<noteq> 0"

lemma flag_bit_iff [bits]: "flag_bit n b \<longleftrightarrow> bit b n"
  by (simp add: flag_bit_def and_one_eq odd_iff_mod_2_eq_one [symmetric] bit_iff_odd_drop_bit)

end
