(* ===== verification/Hermes_File.thy ===== *)
theory Hermes_File
  imports Hermes_Sections Hermes_DebugInfo Hermes_Bitfields
begin

text \<open>
  The parsed file (\<open>HbcFile\<close>) and \<open>HbcFile::parse_inner\<close> of \<open>parser/mod.rs\<close>: header, count
  guards, section walk, bytecode region, expansion of the string kinds, the legacy debug
  filename table and the debug-info decomposition.

  The guard \<open>droidsaw_common::guard::bound_count\<close> is not part of the repository: it is the
  argument \<open>guard\<close>, true when it accepts a count. The digest of the input that \<open>parse\<close> passes
  on for diagnostics is the argument \<open>input_hash\<close>; the diagnostic \<open>stage_dump\<close> is left out.
\<close>

section \<open>Data\<close>

datatype LargeHeaderLayout = Shape36 | Shape40

fun header_size :: "LargeHeaderLayout \<Rightarrow> u64" where
  "header_size Shape36 = 36"
| "header_size Shape40 = 40"

fun flags_offset :: "LargeHeaderLayout \<Rightarrow> u64" where
  "flags_offset Shape36 = 35"
| "flags_offset Shape40 = 36"

text \<open>\<open>ExceptionHandlerOutOfFunctionRange\<close> carries the handler index, the triple start, end,
  target, and the size of the function.\<close>

datatype (plugins only: code size) UnrecognizedReason =
    UR_OverflowedHeaderOutOfBounds u64 usize
  | UR_OverflowedHeaderOverlapsSynthesizedRegion u64
  | UR_ExceptionTableOverlapsSynthesizedRegion u32
  | UR_LargeHeaderLayoutAmbiguous u64
  | UR_ExceptionHandlerOutOfFunctionRange u32 u32 u32 u32 u32

record UnrecognizedFunction =
  uf_func_idx :: u32
  uf_reason :: UnrecognizedReason

record HbcFile =
  hf_buf :: "u8 list"
  hf_header :: HbcHeader
  hf_version :: u32
  hf_function_count :: u32
  hf_string_kind_count :: u32
  hf_identifier_count :: u32
  hf_string_count :: u32
  hf_overflow_string_count :: u32
  hf_string_storage_size :: u32
  hf_cjs_module_count :: u32
  hf_reg_exp_count :: u32
  hf_reg_exp_storage_size :: u32
  hf_function_source_count :: u32
  hf_func_header_size :: u32
  hf_debug_info_offset :: u32
  hf_obj_shape_table_count :: u32
  hf_use_v99_func_header :: bool
  hf_func_headers :: "usize \<times> usize"
  hf_small_string_table :: "usize \<times> usize"
  hf_overflow_string_table :: "usize \<times> usize"
  hf_string_storage :: "usize \<times> usize"
  hf_string_kinds :: "usize \<times> usize"
  hf_cjs_modules :: "usize \<times> usize"
  hf_regexp_table :: "usize \<times> usize"
  hf_array_buffer :: "usize \<times> usize"
  hf_obj_key_buffer :: "usize \<times> usize"
  hf_obj_value_buffer :: "usize \<times> usize"
  hf_obj_shape_table :: "usize \<times> usize"
  hf_big_int_count :: u32
  hf_big_int_table :: "usize \<times> usize"
  hf_big_int_storage :: "usize \<times> usize"
  hf_debug_filename_count :: u32
  hf_debug_filename_table :: "usize \<times> usize"
  hf_debug_filename_storage :: "usize \<times> usize"
  hf_debug_info_v96 :: "DebugInfoV96 option"
  hf_string_kind_map :: "u8 list"
  hf_bytecode_region :: "u32 \<times> u32"
  hf_sections :: sections
  hf_input_hash :: string
  hf_unrecognized_functions :: "UnrecognizedFunction list"
  hf_large_header_layout :: "LargeHeaderLayout option"

section \<open>Count guards\<close>

type_synonym count_guard = "u64 \<Rightarrow> usize \<Rightarrow> usize \<Rightarrow> string \<Rightarrow> bool"

definition bound_count ::
  "count_guard \<Rightarrow> u32 \<Rightarrow> usize \<Rightarrow> usize \<Rightarrow> string \<Rightarrow> hermes_error + unit" where
  "bound_count guard got stride data_len item =
     require (guard (unat got) stride data_len item) BoundCountExceeded"

definition header_guards :: "count_guard \<Rightarrow> usize \<Rightarrow> HbcHeader \<Rightarrow> hermes_error + unit" where
  "header_guards guard buf_len h =
     (if hdr_string_count h < hdr_overflow_string_count h
      then Inl (OverflowStringCountExceedsStringCount (hdr_overflow_string_count h) (hdr_string_count h))
      else
        ebind (bound_count guard (hdr_function_count h) (unat (hdr_func_header_size h)) buf_len
                 ''function_headers'') (\<lambda>_.
        ebind (bound_count guard (hdr_string_count h) 4 buf_len ''small_string_table'') (\<lambda>_.
        ebind (bound_count guard (hdr_overflow_string_count h) 8 buf_len ''overflow_string_table'') (\<lambda>_.
        ebind (bound_count guard (hdr_reg_exp_count h) 8 buf_len ''regexp_table'') (\<lambda>_.
        ebind (bound_count guard (hdr_string_kind_count h) 4 buf_len ''string_kinds'') (\<lambda>_.
        ebind (bound_count guard (hdr_identifier_count h) 4 buf_len ''identifier_hashes'') (\<lambda>_.
        ebind (bound_count guard (hdr_obj_shape_table_count h) 8 buf_len ''obj_shape_table'') (\<lambda>_.
        ebind (bound_count guard (hdr_big_int_count h) 8 buf_len ''big_int_table'') (\<lambda>_.
        ebind (bound_count guard (hdr_cjs_module_count h) 8 buf_len ''cjs_modules'') (\<lambda>_.
        bound_count guard (hdr_function_source_count h) 8 buf_len ''function_source_table''))))))))))"

section \<open>The string kinds\<close>

text \<open>\<open>for _ in 0..count { let Some(slot) = map.get_mut(idx) else { break }; *slot = kind; idx += 1; }\<close>\<close>

fun fill_kind :: "nat \<Rightarrow> u8 \<Rightarrow> u8 list \<times> usize \<Rightarrow> u8 list \<times> usize" where
  "fill_kind 0 kind st = st"
| "fill_kind (Suc n) kind (kmap, idx) =
     (case get_at kmap idx of
        None \<Rightarrow> (kmap, idx)
      | Some _ \<Rightarrow> fill_kind n kind (kmap[idx := kind], idx + 1))"

definition kind_entry :: "u32 \<Rightarrow> u8 list \<Rightarrow> u32 \<times> u8" where
  "kind_entry v entry =
     (if 72 \<le> v then (read_bitfield entry 0 31, ucast (read_bitfield entry 31 1))
      else (read_bitfield entry 0 30, ucast (read_bitfield entry 30 2)))"

fun kind_entries :: "u8 list \<Rightarrow> u32 \<Rightarrow> usize \<Rightarrow> nat \<Rightarrow> nat \<Rightarrow> u8 list \<times> usize \<Rightarrow> u8 list \<times> usize"
  where
  "kind_entries buf v table i 0 st = st"
| "kind_entries buf v table i (Suc n) st =
     (case get_range buf (table + i * 4) (table + i * 4 + 4) of
        None \<Rightarrow> st
      | Some entry \<Rightarrow>
          (case kind_entry v entry of
             (count, kind) \<Rightarrow> kind_entries buf v table (i + 1) n (fill_kind (unat count) kind st)))"

definition expand_string_kinds :: "u8 list \<Rightarrow> u32 \<Rightarrow> usize \<times> usize \<Rightarrow> u32 \<Rightarrow> u32 \<Rightarrow> u8 list" where
  "expand_string_kinds buf v string_kinds string_kind_count string_count =
     fst (kind_entries buf v (fst string_kinds) 0 (unat string_kind_count)
            (replicate (unat string_count) 0, 0))"

section \<open>The legacy debug filename table\<close>

definition debug_filename_layout ::
  "u8 list \<Rightarrow> u32 \<Rightarrow> u32 \<times> (usize \<times> usize) \<times> (usize \<times> usize)" where
  "debug_filename_layout buf debug_info_offset =
     (let absent = (0, (0, 0), (0, 0)) in
      if 0 < debug_info_offset \<and> of_nat HEADER_SIZE \<le> debug_info_offset then
        (let dbg_off = unat debug_info_offset in
         case checked_add64 dbg_off 16 of
           None \<Rightarrow> absent
         | Some end_pos \<Rightarrow>
             if end_pos \<le> length buf then
               let raw_count = read_u32 buf dbg_off;
                   storage_size = read_u32 buf (dbg_off + 4)
               in (case
                    Option.bind (checked_add64 dbg_off 16) (\<lambda>table_start.
                    Option.bind (checked_mul64 (unat raw_count) 8) (\<lambda>table_size.
                    Option.bind (checked_add64 table_start table_size) (\<lambda>storage_start.
                    Option.bind (checked_add64 storage_start (unat storage_size)) (\<lambda>storage_end.
                    if storage_end \<le> length buf
                    then Some (table_start, table_size, storage_start, unat storage_size)
                    else None))))
                  of None \<Rightarrow> absent
                   | Some (table_start, table_size, storage_start, storage_size_us) \<Rightarrow>
                       (raw_count, (table_start, table_size), (storage_start, storage_size_us)))
             else absent)
      else absent)"

section \<open>Parsing\<close>

text \<open>The cross-check of the declared file length, which only records a finding.\<close>

definition file_length_check :: "u8 list \<Rightarrow> HbcHeader \<Rightarrow> unit hermes" where
  "file_length_check buf h =
     lemit (if unat (hdr_file_length h) \<noteq> length buf
            then [F_FileLengthDisagreement (hdr_file_length h) (length buf)] else [])"

definition build_file ::
  "u8 list \<Rightarrow> string \<Rightarrow> HbcHeader \<Rightarrow> string_spans \<Rightarrow> literal_spans \<Rightarrow>
     ((usize \<times> usize) \<times> (usize \<times> usize)) \<Rightarrow> ((usize \<times> usize) \<times> (usize \<times> usize)) \<Rightarrow> walk \<Rightarrow>
     DebugInfoV96 option \<Rightarrow> HbcFile" where
  "build_file buf input_hash h s l b t w dbg =
     (let (count, table, storage) = debug_filename_layout buf (hdr_debug_info_offset h) in
      \<lparr>hf_buf = buf,
       hf_header = h,
       hf_version = hdr_version h,
       hf_function_count = hdr_function_count h,
       hf_string_kind_count = hdr_string_kind_count h,
       hf_identifier_count = hdr_identifier_count h,
       hf_string_count = hdr_string_count h,
       hf_overflow_string_count = hdr_overflow_string_count h,
       hf_string_storage_size = hdr_string_storage_size h,
       hf_cjs_module_count = hdr_cjs_module_count h,
       hf_reg_exp_count = hdr_reg_exp_count h,
       hf_reg_exp_storage_size = hdr_reg_exp_storage_size h,
       hf_function_source_count = hdr_function_source_count h,
       hf_func_header_size = hdr_func_header_size h,
       hf_debug_info_offset = hdr_debug_info_offset h,
       hf_obj_shape_table_count = hdr_obj_shape_table_count h,
       hf_use_v99_func_header = hdr_use_v99_func_header h,
       hf_func_headers = sp_func_headers s,
       hf_small_string_table = sp_small_string_table s,
       hf_overflow_string_table = sp_overflow_string_table s,
       hf_string_storage = sp_string_storage s,
       hf_string_kinds = sp_string_kinds s,
       hf_cjs_modules = snd t,
       hf_regexp_table = fst t,
       hf_array_buffer = sp_array_buffer l,
       hf_obj_key_buffer = sp_obj_key_buffer l,
       hf_obj_value_buffer = sp_obj_value_buffer l,
       hf_obj_shape_table = sp_obj_shape_table l,
       hf_big_int_count = hdr_big_int_count h,
       hf_big_int_table = fst b,
       hf_big_int_storage = snd b,
       hf_debug_filename_count = count,
       hf_debug_filename_table = table,
       hf_debug_filename_storage = storage,
       hf_debug_info_v96 = dbg,
       hf_string_kind_map = expand_string_kinds buf (hdr_version h) (sp_string_kinds s)
          (hdr_string_kind_count h) (hdr_string_count h),
       hf_bytecode_region = bytecode_region_of (length buf) (fst w) (hdr_debug_info_offset h),
       hf_sections = snd w,
       hf_input_hash = input_hash,
       hf_unrecognized_functions = [],
       hf_large_header_layout = Some Shape36\<rparr>)"

definition parse_inner :: "count_guard \<Rightarrow> u8 list \<Rightarrow> string \<Rightarrow> HbcFile hermes" where
  "parse_inner guard buf input_hash =
     lbind (parse_hbc_header buf) (\<lambda>h.
     lbind (file_length_check buf h) (\<lambda>_.
     lbind (llift (header_guards guard (length buf) h)) (\<lambda>_.
     lbind (llift (all_sections (length buf) h initial_walk)) (\<lambda>((s, l, b, t), w).
     lbind (llift (debug_info_v96_parse buf (hdr_debug_info_offset h) (hdr_version h))) (\<lambda>dbg.
     lret (build_file buf input_hash h s l b t w dbg))))))"

section \<open>The expansion is the run-length decoding\<close>

definition kind_runs :: "u8 list \<Rightarrow> u32 \<Rightarrow> usize \<Rightarrow> nat \<Rightarrow> (u32 \<times> u8) list" where
  "kind_runs buf v table n = map (\<lambda>i. kind_entry v (slice buf (table + i * 4) 4)) [0..<n]"

definition decode_runs :: "(u32 \<times> u8) list \<Rightarrow> u8 list" where
  "decode_runs rs = concat (map (\<lambda>(count, kind). replicate (unat count) kind) rs)"

text \<open>The state of the loop after the kinds \<open>acc\<close>: clipped to the map, zeros behind.\<close>

definition kind_state :: "nat \<Rightarrow> u8 list \<Rightarrow> u8 list \<times> usize" where
  "kind_state n acc = (take n (acc @ replicate n 0), min n (length acc))"

lemma fill_kind_step: "fill_kind 1 kind (kind_state n acc) = kind_state n (acc @ [kind])"
proof (cases "length acc < n")
  case True
  then obtain m where "n - length acc = Suc m" by (metis Suc_diff_Suc)
  then have "(take n (acc @ replicate n 0))[length acc := kind] = take n ((acc @ [kind]) @ replicate n 0)"
    using True by (simp add: list_update_append)
  with True show ?thesis by (simp add: kind_state_def get_at_def)
next
  case False
  then show ?thesis by (simp add: kind_state_def get_at_def)
qed

lemma fill_kind_Suc: "fill_kind (Suc k) kind st = fill_kind k kind (fill_kind 1 kind st)"
proof (cases st)
  case (Pair kmap idx)
  then show ?thesis
  proof (cases "get_at kmap idx")
    case None
    then have "fill_kind k kind (kmap, idx) = (kmap, idx)" by (cases k) simp_all
    with None Pair show ?thesis by simp
  qed simp
qed

lemma fill_kind_state: "fill_kind k kind (kind_state n acc) = kind_state n (acc @ replicate k kind)"
proof (induction k arbitrary: acc)
  case (Suc k)
  have "fill_kind (Suc k) kind (kind_state n acc) = fill_kind k kind (kind_state n (acc @ [kind]))"
    by (simp only: fill_kind_Suc fill_kind_step)
  then show ?case by (simp add: Suc)
qed simp

lemma kind_entries_state:
  "table + (i + k) * 4 \<le> length buf \<Longrightarrow>
     kind_entries buf v table i k (kind_state n acc)
     = kind_state n (acc @ decode_runs (map (\<lambda>i. kind_entry v (slice buf (table + i * 4) 4)) [i..<i + k]))"
proof (induction k arbitrary: i acc)
  case (Suc k)
  have get: "get_range buf (table + i * 4) (table + i * 4 + 4) = Some (slice buf (table + i * 4) 4)"
    using Suc.prems by (intro get_range_plus) simp
  have "[i..<i + Suc k] = i # [Suc i..<Suc i + k]" by (simp add: upt_rec)
  then show ?case
    using Suc.IH [of "Suc i"] Suc.prems
    by (simp add: get fill_kind_state decode_runs_def split_beta)
qed (simp add: decode_runs_def)

text \<open>
  C35. The expanded string-kind map: when the run table lies in the buffer (which the section
  walk guarantees), the map has one entry per string and is the run-length decoding of the
  table, cut off at the number of strings and padded with kind 0.
\<close>

theorem expand_string_kinds_rle:
  assumes "span_end string_kinds \<le> length buf" "snd string_kinds = unat string_kind_count * 4"
  shows "expand_string_kinds buf v string_kinds string_kind_count string_count =
     take (unat string_count)
       (decode_runs (kind_runs buf v (fst string_kinds) (unat string_kind_count))
        @ replicate (unat string_count) 0)"
proof -
  have "(replicate (unat string_count) 0, 0) = kind_state (unat string_count) []"
    by (simp add: kind_state_def)
  then show ?thesis
    using kind_entries_state [of "fst string_kinds" 0 "unat string_kind_count" buf v
        "unat string_count" "[]"] assms
    by (simp add: expand_string_kinds_def kind_runs_def) (simp add: kind_state_def)
qed

section \<open>What a parsed file satisfies\<close>

lemma parse_inner_Inr:
  "fst (parse_inner guard buf ih) = Inr f \<longleftrightarrow>
     (\<exists>h s l b t w dbg. fst (parse_hbc_header buf) = Inr h
        \<and> header_guards guard (length buf) h = Inr ()
        \<and> all_sections (length buf) h initial_walk = Inr ((s, l, b, t), w)
        \<and> debug_info_v96_parse buf (hdr_debug_info_offset h) (hdr_version h) = Inr dbg
        \<and> f = build_file buf ih h s l b t w dbg)"
  unfolding parse_inner_def
  by (auto simp: lbind_eq_Inr file_length_check_def)

text \<open>The fields that copy the header, and the tables in file order inside the buffer.\<close>

definition header_fields_ok :: "HbcFile \<Rightarrow> bool" where
  "header_fields_ok f \<longleftrightarrow> (let h = hf_header f in
     header_at (hf_buf f) h \<and> 128 \<le> length (hf_buf f)
     \<and> le_nat (take 8 (hf_buf f)) = HBC_MAGIC \<and> hdr_version h \<in> variant_versions h
     \<and> hf_version f = hdr_version h \<and> hf_function_count f = hdr_function_count h
     \<and> hf_string_kind_count f = hdr_string_kind_count h \<and> hf_identifier_count f = hdr_identifier_count h
     \<and> hf_string_count f = hdr_string_count h \<and> hf_overflow_string_count f = hdr_overflow_string_count h
     \<and> hf_string_storage_size f = hdr_string_storage_size h \<and> hf_cjs_module_count f = hdr_cjs_module_count h
     \<and> hf_reg_exp_count f = hdr_reg_exp_count h \<and> hf_reg_exp_storage_size f = hdr_reg_exp_storage_size h
     \<and> hf_function_source_count f = hdr_function_source_count h
     \<and> hf_func_header_size f = hdr_func_header_size h \<and> hf_debug_info_offset f = hdr_debug_info_offset h
     \<and> hf_obj_shape_table_count f = hdr_obj_shape_table_count h
     \<and> hf_use_v99_func_header f = hdr_use_v99_func_header h
     \<and> hf_big_int_count f = hdr_big_int_count h)"

definition string_tables_ok :: "HbcFile \<Rightarrow> bool" where
  "string_tables_ok f \<longleftrightarrow>
     hf_func_headers f = (128, unat (hf_function_count f) * unat (hf_func_header_size f))
     \<and> span_end (hf_func_headers f) \<le> fst (hf_string_kinds f)
     \<and> snd (hf_string_kinds f) = unat (hf_string_kind_count f) * 4
     \<and> span_end (hf_string_kinds f) \<le> fst (hf_small_string_table f)
     \<and> snd (hf_small_string_table f) = unat (hf_string_count f) * 4
     \<and> span_end (hf_small_string_table f) \<le> fst (hf_overflow_string_table f)
     \<and> snd (hf_overflow_string_table f) = unat (hf_overflow_string_count f) * 8
     \<and> span_end (hf_overflow_string_table f) \<le> fst (hf_string_storage f)
     \<and> snd (hf_string_storage f) = unat (hf_string_storage_size f)
     \<and> span_end (hf_string_storage f) \<le> length (hf_buf f)"

definition data_tables_ok :: "HbcFile \<Rightarrow> bool" where
  "data_tables_ok f \<longleftrightarrow> (let len = length (hf_buf f); h = hf_header f in
     \<exists>c1 c2 c3 c4. span_end (hf_string_storage f) \<le> c1 \<and> c1 \<le> c2 \<and> c2 \<le> c3 \<and> c3 \<le> c4
     \<and> placed len c1 c2 (unat (hdr_array_buffer_size h)) (hf_array_buffer f)
     \<and> placed len c1 c2 (unat (hdr_obj_key_buffer_size h)) (hf_obj_key_buffer f)
     \<and> placed len c1 c2 (if has_obj_value_buffer h then unat (hdr_obj_value_buffer_size h) else 0)
         (hf_obj_value_buffer f)
     \<and> placed len c1 c2 (if has_obj_value_buffer h then 0 else unat (hf_obj_shape_table_count f) * 8)
         (hf_obj_shape_table f)
     \<and> placed len c2 c3 (if has_big_ints h then unat (hf_big_int_count f) * 8 else 0) (hf_big_int_table f)
     \<and> placed len c2 c3 (if has_big_ints h \<and> 0 < hf_big_int_count f
          then unat (hdr_big_int_storage_size h) else 0) (hf_big_int_storage f)
     \<and> placed len c3 c4 (unat (hf_reg_exp_count f) * 8 mod 2 ^ 32) (hf_regexp_table f)
     \<and> placed len c3 c4 (unat (hf_cjs_module_count f) * 8 mod 2 ^ 32) (hf_cjs_modules f)
     \<and> c4 \<le> unat (fst (hf_bytecode_region f)))"

lemma build_file_fields:
  "hf_buf (build_file buf ih h s l b t w dbg) = buf"
  "hf_header (build_file buf ih h s l b t w dbg) = h"
  "hf_unrecognized_functions (build_file buf ih h s l b t w dbg) = []"
  "hf_large_header_layout (build_file buf ih h s l b t w dbg) = Some Shape36"
  "hf_sections (build_file buf ih h s l b t w dbg) = snd w"
  "hf_debug_info_v96 (build_file buf ih h s l b t w dbg) = dbg"
  "hf_bytecode_region (build_file buf ih h s l b t w dbg)
     = bytecode_region_of (length buf) (fst w) (hdr_debug_info_offset h)"
  "hf_string_kind_map (build_file buf ih h s l b t w dbg) = expand_string_kinds buf (hdr_version h)
     (sp_string_kinds s) (hdr_string_kind_count h) (hdr_string_count h)"
  by (simp_all add: build_file_def Let_def split_beta)

lemma build_file_header_fields:
  "fst (parse_hbc_header buf) = Inr h \<Longrightarrow> header_fields_ok (build_file buf ih h s l b t w dbg)"
  using parse_hbc_header_facts [of buf h]
  by (simp add: header_fields_ok_def build_file_def Let_def split_beta)

lemma bytecode_region_fst [simp]: "fst (bytecode_region_of len cursor off) = cursor"
  by (simp add: bytecode_region_of_def Let_def)

lemma build_file_tables:
  assumes "all_sections (length buf) h initial_walk = Inr ((s, l, b, t), w)"
  shows "string_tables_ok (build_file buf ih h s l b t w dbg)
    \<and> data_tables_ok (build_file buf ih h s l b t w dbg)"
proof -
  obtain tbl sto re cjs cursor secs where bt: "b = (tbl, sto)" "t = (re, cjs)" "w = (cursor, secs)"
    by (metis surj_pair)
  note walk = assms [unfolded bt]
  obtain c1 c2 c3 where c:
    "string_sections (length buf) h initial_walk = Inr (s, c1)"
    "literal_sections (length buf) h c1 = Inr (l, c2)"
    "bigint_sections (length buf) h c2 = Inr ((tbl, sto), c3)"
    "tail_sections (length buf) h c3 = Inr ((re, cjs), cursor, secs)"
    "span_end (sp_string_storage s) \<le> unat (fst c1)"
    using all_sections_placed [OF walk] by blast
  note s = string_sections_placed [OF c(1), unfolded fst_initial_walk]
    and l = literal_sections_placed [OF c(2)] and b = bigint_sections_placed [OF c(3)]
    and t = tail_sections_placed [OF c(4)]
  have "string_tables_ok (build_file buf ih h s l b t w dbg)"
    using s by (elim conjE) (simp add: string_tables_ok_def build_file_def Let_def split_beta)
  moreover have "data_tables_ok (build_file buf ih h s l b t w dbg)"
    unfolding data_tables_ok_def Let_def bt build_file_def split_beta
    unfolding HbcFile.select_convs fst_conv snd_conv bytecode_region_fst
    by (intro exI [of _ "unat (fst c1)"] exI [of _ "unat (fst c2)"] exI [of _ "unat (fst c3)"]
        exI [of _ "unat cursor"]) (use l b t c(5) in \<open>simp only: fst_conv, simp\<close>)
  ultimately show ?thesis ..
qed

text \<open>A file that \<open>parse_inner\<close> returns.\<close>

definition parsed_ok :: "HbcFile \<Rightarrow> bool" where
  "parsed_ok f \<longleftrightarrow> header_fields_ok f \<and> string_tables_ok f \<and> data_tables_ok f
     \<and> hf_string_kind_map f = expand_string_kinds (hf_buf f) (hf_version f) (hf_string_kinds f)
         (hf_string_kind_count f) (hf_string_count f)
     \<and> hf_overflow_string_count f \<le> hf_string_count f"

lemma parse_inner_parsed_ok:
  assumes "fst (parse_inner guard buf ih) = Inr f"
  shows "hf_buf f = buf \<and> parsed_ok f \<and> hf_unrecognized_functions f = []
    \<and> hf_large_header_layout f = Some Shape36"
proof -
  obtain h s l b t w dbg where h: "fst (parse_hbc_header buf) = Inr h"
    and g: "header_guards guard (length buf) h = Inr ()"
    and a: "all_sections (length buf) h initial_walk = Inr ((s, l, b, t), w)"
    and f: "f = build_file buf ih h s l b t w dbg"
    using assms by (auto simp: parse_inner_Inr)
  have "hdr_overflow_string_count h \<le> hdr_string_count h"
    using g by (auto simp: header_guards_def not_less split: if_splits)
  then show ?thesis
    using build_file_tables [OF a] build_file_header_fields [OF h]
    by (simp add: f parsed_ok_def build_file_fields)
      (simp add: build_file_def Let_def split_beta)
qed

lemma unat_buf_len: "unat (u32_of_usize_or_max n) = min n u32_max"
  using unat_of_nat_u32 [of n] by (auto simp: u32_of_usize_or_max_def u32_max_def min_def
      unsigned_minus_1_eq_mask mask_eq_exp_minus_1)

lemma bytecode_region_ordered:
  "fst (bytecode_region_of len cursor off) \<le> snd (bytecode_region_of len cursor off) \<and>
   (fst (bytecode_region_of len cursor off) < snd (bytecode_region_of len cursor off) \<longrightarrow>
      unat (snd (bytecode_region_of len cursor off)) \<le> len)"
  by (auto simp: bytecode_region_of_def Let_def unat_buf_len word_le_nat_alt)

text \<open>A buffer whose header, counts, layout and debug header are in order is accepted.\<close>

lemma parse_inner_accepts:
  assumes "fst (parse_hbc_header buf) = Inr h" "header_guards guard (length buf) h = Inr ()"
    "fits (length buf) 128 (section_list h)"
    "debug_info_v96_parse buf (hdr_debug_info_offset h) (hdr_version h) = Inr dbg"
  shows "\<exists>f. fst (parse_inner guard buf ih) = Inr f \<and> hf_version f = hdr_version h"
proof -
  obtain s l b t w where "all_sections (length buf) h initial_walk = Inr ((s, l, b, t), w)"
    using all_sections_fits [of "length buf" h] assms(3) by (metis surj_pair)
  then have "fst (parse_inner guard buf ih) = Inr (build_file buf ih h s l b t w dbg)"
    unfolding parse_inner_Inr using assms by metis
  then show ?thesis by (auto simp: build_file_def Let_def split_beta)
qed

text \<open>
  The recorded sections: the header, then the sections the header's counts give, in file order with
  their sizes; from the second on they are 4-aligned, inside the buffer and before the bytecode
  region, and each ends before the next starts. And every table of the file is the section recorded
  under its name, or \<open>(0, 0)\<close> when there is none.
\<close>

definition sections_ok :: "HbcFile \<Rightarrow> bool" where
  "sections_ok f \<longleftrightarrow> map (\<lambda>(n, off, sz). (n, unat sz)) (hf_sections f) = (''Header'', 128) # section_list (hf_header f)
     \<and> (\<forall>s \<in> set (tl (hf_sections f)). 4 dvd sec_off s \<and> sec_end s \<le> length (hf_buf f)
          \<and> sec_end s \<le> unat (fst (hf_bytecode_region f)))
     \<and> sorted_wrt (\<lambda>a b. sec_end a \<le> sec_off b) (hf_sections f)"

definition tables_recorded :: "HbcFile \<Rightarrow> bool" where
  "tables_recorded f \<longleftrightarrow> (let span = section_span (hf_sections f) in
     hf_func_headers f = span ''FunctionHeaders'' \<and> hf_string_kinds f = span ''StringKinds''
     \<and> hf_small_string_table f = span ''SmallStringTable''
     \<and> hf_overflow_string_table f = span ''OverflowStringTable''
     \<and> hf_string_storage f = span ''StringStorage'' \<and> hf_array_buffer f = span ''ArrayBuffer''
     \<and> hf_obj_key_buffer f = span ''ObjKeyBuffer'' \<and> hf_obj_value_buffer f = span ''ObjValueBuffer''
     \<and> hf_obj_shape_table f = span ''ObjShapeTable'' \<and> hf_big_int_table f = span ''BigIntTable''
     \<and> hf_big_int_storage f = span ''BigIntStorage'' \<and> hf_regexp_table f = span ''RegExpTable''
     \<and> hf_cjs_modules f = span ''CJSModules'')"

lemma build_file_sections:
  assumes "all_sections (length buf) h initial_walk = Inr ((s, l, b, t), w)"
  shows "sections_ok (build_file buf ih h s l b t w dbg)" "tables_recorded (build_file buf ih h s l b t w dbg)"
proof -
  obtain tbl sto re cjs cursor secs where bt: "b = (tbl, sto)" "t = (re, cjs)" "w = (cursor, secs)"
    by (metis surj_pair)
  note walk = assms [unfolded bt]
  show "sections_ok (build_file buf ih h s l b t w dbg)"
    using walk_sections [OF walk] unfolding sections_ok_def build_file_fields bytecode_region_fst bt by simp
  show "tables_recorded (build_file buf ih h s l b t w dbg)"
    using all_sections_record [OF walk]
    by (simp add: tables_recorded_def build_file_def Let_def split_beta bt)
qed

text \<open>
  C28. What \<open>parse_inner\<close> returns: the fields copy the header of the buffer; the function
  headers start at byte 128 and the string tables follow in order inside the buffer with the
  sizes their counts give; the literal, shape, big-int, regexp and module tables follow, each
  inside the buffer or absent. The file records the header and the sections its counts give, in
  file order with their sizes, 4-aligned, pairwise disjoint and in increasing order, and every
  table is the section recorded under its name. The bytecode region starts after all of them and,
  unless it is empty, ends inside the buffer.
\<close>

theorem parse_inner_layout:
  assumes "fst (parse_inner guard buf ih) = Inr f"
  shows "hf_buf f = buf \<and> header_fields_ok f \<and> string_tables_ok f \<and> data_tables_ok f
    \<and> sections_ok f \<and> tables_recorded f
    \<and> hf_overflow_string_count f \<le> hf_string_count f
    \<and> fst (hf_bytecode_region f) \<le> snd (hf_bytecode_region f)
    \<and> (fst (hf_bytecode_region f) < snd (hf_bytecode_region f) \<longrightarrow>
         unat (snd (hf_bytecode_region f)) \<le> length buf)"
proof -
  obtain h s l b t w dbg where walk: "all_sections (length buf) h initial_walk = Inr ((s, l, b, t), w)"
    and f: "f = build_file buf ih h s l b t w dbg"
    using assms by (auto simp: parse_inner_Inr)
  have "hf_bytecode_region f = bytecode_region_of (length buf) (fst w) (hdr_debug_info_offset h)"
    by (simp add: f build_file_fields)
  moreover have "sections_ok f" "tables_recorded f" unfolding f by (rule build_file_sections [OF walk])+
  ultimately show ?thesis
    using parse_inner_parsed_ok [OF assms]
      bytecode_region_ordered [of "length buf" "fst w" "hdr_debug_info_offset h"]
    by (simp add: parsed_ok_def)
qed

text \<open>
  The declared file length is only cross-checked: once the header is accepted, the
  disagreement finding is recorded exactly when the declared length differs from the length of
  the buffer, whatever the rest of the parse does.
\<close>

theorem file_length_finding:
  assumes "fst (parse_hbc_header buf) = Inr h"
  shows "F_FileLengthDisagreement d n \<in> set (snd (parse_inner guard buf ih)) \<longleftrightarrow>
    d = hdr_file_length h \<and> n = length buf \<and> unat d \<noteq> n"
proof -
  obtain ws where ws: "parse_hbc_header buf = (Inr h, ws)" using assms by (metis prod.collapse)
  have quiet: "F_FileLengthDisagreement d n \<notin> set ws"
    using ws detect_late_v98_form_findings [of buf]
    by (auto simp: parse_hbc_header_def dispatch_version_def lret_def lfail_def lbind_def
        split: if_splits option.splits prod.splits sum.splits)
  show ?thesis
    using quiet
    by (auto simp: parse_inner_def ws file_length_check_def lemit_def llift_def lret_def lbind_def
        split: sum.splits prod.splits if_splits)
qed

end
