(* ===== verification/Hermes_Raw.thy ===== *)
theory Hermes_Raw
  imports Hermes_File
begin

text \<open>
  The raw table entries of a parsed file (\<open>raw_small_func_header_v96\<close>, \<open>\<dots>_v98\<close>,
  \<open>raw_small_string_table_entry\<close>, \<open>raw_obj_shape_table_entry_v98\<close> and the 8-byte
  \<open>(offset, length)\<close> tables of \<open>parser/mod.rs\<close>), their byte encodings in \<open>emit.rs\<close>, and the
  contract that ties the two: a fixed-size entry codec, stated as a locale and interpreted on
  each of the five entry formats.
\<close>

section \<open>Entries\<close>

record SmallStringTableEntryV96Raw =
  sst_is_utf16 :: bool
  sst_str_offset :: u32
  sst_str_length :: u32

record SmallFuncHeaderV96Raw =
  f96_raw_offset :: u32
  f96_raw_param_count :: u32
  f96_raw_byte_size :: u32
  f96_raw_func_name :: u32
  f96_raw_info_offset :: u32
  f96_raw_uncharacterized_mid :: u32
  f96_raw_flags_byte :: u8

text \<open>\<open>EarlyV98\<close>: offset, param count, byte size, name, mid, flags. \<open>LateV98\<close>: offset, param
  count, loop depth, byte size, name, low and high mid, flags.\<close>

datatype SmallFuncHeaderV98Raw =
    EarlyV98 u32 u32 u32 u32 u32 u8
  | LateV98 u32 u32 u32 u32 u32 u32 u32 u8

fun overflowed_and_large_off :: "SmallFuncHeaderV98Raw \<Rightarrow> bool \<times> u64" where
  "overflowed_and_large_off (EarlyV98 raw_offset _ _ raw_func_name _ raw_flags_byte) =
     (flag_bit 5 raw_flags_byte, push_bit 16 (unat raw_func_name) OR unat raw_offset)"
| "overflowed_and_large_off (LateV98 raw_offset _ _ _ raw_func_name _ _ raw_flags_byte) =
     (flag_bit 5 raw_flags_byte, push_bit 24 (unat raw_func_name) OR unat raw_offset)"

record ObjShapeTableEntryV98Raw =
  os_key_buffer_offset :: u32
  os_num_props :: u32

section \<open>Decoding an entry\<close>

definition decode_func_header_v96 :: "u8 list \<Rightarrow> SmallFuncHeaderV96Raw" where
  "decode_func_header_v96 entry = \<lparr>
     f96_raw_offset = read_bitfield entry 0 25,
     f96_raw_param_count = read_bitfield entry 25 7,
     f96_raw_byte_size = read_bitfield entry 32 15,
     f96_raw_func_name = read_bitfield entry 47 17,
     f96_raw_info_offset = read_bitfield entry 64 25,
     f96_raw_uncharacterized_mid = read_bitfield entry 89 31,
     f96_raw_flags_byte = entry ! 15\<rparr>"

definition decode_func_header_early :: "u8 list \<Rightarrow> SmallFuncHeaderV98Raw" where
  "decode_func_header_early entry = EarlyV98
     (read_bitfield entry 0 25) (read_bitfield entry 25 7) (read_bitfield entry 32 15)
     (read_bitfield entry 47 17) (read_bitfield entry 64 24) (entry ! 11)"

definition decode_func_header_late :: "u8 list \<Rightarrow> SmallFuncHeaderV98Raw" where
  "decode_func_header_late entry = LateV98
     (read_bitfield entry 0 25) (read_bitfield entry 25 5) (read_bitfield entry 30 2)
     (read_bitfield entry 32 14) (read_bitfield entry 46 8) (read_bitfield entry 54 32)
     (read_bitfield entry 86 2) (entry ! 11)"

definition decode_small_string :: "u8 list \<Rightarrow> SmallStringTableEntryV96Raw" where
  "decode_small_string entry = \<lparr>
     sst_is_utf16 = (read_bitfield entry 0 1 \<noteq> 0),
     sst_str_offset = read_bitfield entry 1 23,
     sst_str_length = read_bitfield entry 24 8\<rparr>"

definition decode_pair :: "u8 list \<Rightarrow> u32 \<times> u32" where
  "decode_pair entry = (u32_from_le (take 4 entry), u32_from_le (drop 4 entry))"

section \<open>Accessors of the parsed file\<close>

definition raw_small_func_header_v96 :: "HbcFile \<Rightarrow> u32 \<Rightarrow> SmallFuncHeaderV96Raw option" where
  "raw_small_func_header_v96 f index =
     (if \<not> has_obj_value_buffer (hf_header f) then None
      else if hf_function_count f \<le> index then None
      else
        let entry_off = fst (hf_func_headers f) + unat index * 16
        in map_option decode_func_header_v96 (get_range (hf_buf f) entry_off (entry_off + 16)))"

text \<open>The version test of \<open>raw_small_func_header_v98\<close>: whether the layout is the late one.\<close>

fun v98_raw_form :: "HbcHeader \<Rightarrow> bool option" where
  "v98_raw_form (V97toV98Early h) = (if h97_version h = 98 then Some False else None)"
| "v98_raw_form (V98LateToV99 h) =
     (if h98_version h = 98 \<or> h98_version h = 99 then Some True else None)"
| "v98_raw_form h = None"

definition raw_small_func_header_v98 :: "HbcFile \<Rightarrow> u32 \<Rightarrow> SmallFuncHeaderV98Raw option" where
  "raw_small_func_header_v98 f index =
     (case v98_raw_form (hf_header f) of
        None \<Rightarrow> None
      | Some late \<Rightarrow>
          if hf_function_count f \<le> index then None
          else
            let entry_off = fst (hf_func_headers f) + unat index * 12
            in map_option (if late then decode_func_header_late else decode_func_header_early)
                 (get_range (hf_buf f) entry_off (entry_off + 12)))"

text \<open>The two little-endian words at \<open>off\<close>, \<open>None\<close> when either is out of bounds.\<close>

definition read_pair :: "u8 list \<Rightarrow> usize \<Rightarrow> (u32 \<times> u32) option" where
  "read_pair buf off =
     Option.bind (get_range buf off (off + 4)) (\<lambda>a.
     Option.bind (get_range buf (off + 4) (off + 8)) (\<lambda>b.
     Some (u32_from_le a, u32_from_le b)))"

definition raw_obj_shape_table_entry_v98 :: "HbcFile \<Rightarrow> u32 \<Rightarrow> ObjShapeTableEntryV98Raw option" where
  "raw_obj_shape_table_entry_v98 f index =
     (if hf_obj_shape_table_count f \<le> index \<or> snd (hf_obj_shape_table f) = 0 then None
      else map_option (\<lambda>(k, n). \<lparr>os_key_buffer_offset = k, os_num_props = n\<rparr>)
             (read_pair (hf_buf f) (fst (hf_obj_shape_table f) + unat index * 8)))"

definition raw_small_string_table_entry :: "HbcFile \<Rightarrow> u32 \<Rightarrow> SmallStringTableEntryV96Raw option" where
  "raw_small_string_table_entry f index =
     (if hf_string_count f \<le> index \<or> snd (hf_small_string_table f) = 0 then None
      else
        let off = fst (hf_small_string_table f) + unat index * 4
        in map_option decode_small_string (get_range (hf_buf f) off (off + 4)))"

definition raw_overflow_string_table_entry_v96 :: "HbcFile \<Rightarrow> u32 \<Rightarrow> (u32 \<times> u32) option" where
  "raw_overflow_string_table_entry_v96 f index =
     (if hf_overflow_string_count f \<le> index \<or> snd (hf_overflow_string_table f) = 0 then None
      else read_pair (hf_buf f) (fst (hf_overflow_string_table f) + unat index * 8))"

definition regexp_table_entry_raw :: "HbcFile \<Rightarrow> u32 \<Rightarrow> (u32 \<times> u32) option" where
  "regexp_table_entry_raw f index =
     (if hf_reg_exp_count f \<le> index \<or> snd (hf_regexp_table f) = 0 then None
      else read_pair (hf_buf f) (fst (hf_regexp_table f) + unat index * 8))"

definition bigint_table_entry_raw :: "HbcFile \<Rightarrow> u32 \<Rightarrow> (u32 \<times> u32) option" where
  "bigint_table_entry_raw f index =
     (if hf_big_int_count f \<le> index \<or> snd (hf_big_int_table f) = 0 then None
      else read_pair (hf_buf f) (fst (hf_big_int_table f) + unat index * 8))"

text \<open>The getters the emitter reads section sizes through, \<open>self.span.1 as u32\<close>.\<close>

definition big_int_storage_size :: "HbcFile \<Rightarrow> u32" where
  "big_int_storage_size f = of_nat (snd (hf_big_int_storage f))"

definition array_buffer_size :: "HbcFile \<Rightarrow> u32" where
  "array_buffer_size f = of_nat (snd (hf_array_buffer f))"

definition obj_key_buffer_size :: "HbcFile \<Rightarrow> u32" where
  "obj_key_buffer_size f = of_nat (snd (hf_obj_key_buffer f))"

definition obj_value_buffer_size :: "HbcFile \<Rightarrow> u32" where
  "obj_value_buffer_size f = of_nat (snd (hf_obj_value_buffer f))"

section \<open>Encoding an entry\<close>

definition emit_one_small_func_header_v96 :: "SmallFuncHeaderV96Raw \<Rightarrow> u8 list" where
  "emit_one_small_func_header_v96 raw =
     (let entry = replicate 16 0;
          entry = bit_pack_u32 0 25 (f96_raw_offset raw) entry;
          entry = bit_pack_u32 25 7 (f96_raw_param_count raw) entry;
          entry = bit_pack_u32 32 15 (f96_raw_byte_size raw) entry;
          entry = bit_pack_u32 47 17 (f96_raw_func_name raw) entry;
          entry = bit_pack_u32 64 25 (f96_raw_info_offset raw) entry;
          entry = bit_pack_u32 89 31 (f96_raw_uncharacterized_mid raw) entry
      in entry[15 := f96_raw_flags_byte raw])"

fun emit_one_small_func_header_v98 :: "SmallFuncHeaderV98Raw \<Rightarrow> u8 list" where
  "emit_one_small_func_header_v98
     (EarlyV98 raw_offset raw_param_count raw_byte_size raw_func_name raw_mid raw_flags_byte) =
     (let entry = replicate 12 0;
          entry = bit_pack_u32 0 25 raw_offset entry;
          entry = bit_pack_u32 25 7 raw_param_count entry;
          entry = bit_pack_u32 32 15 raw_byte_size entry;
          entry = bit_pack_u32 47 17 raw_func_name entry;
          entry = bit_pack_u32 64 24 raw_mid entry
      in entry[11 := raw_flags_byte])"
| "emit_one_small_func_header_v98
     (LateV98 raw_offset raw_param_count raw_loop_depth raw_byte_size raw_func_name
        raw_mid_lo raw_mid_hi raw_flags_byte) =
     (let entry = replicate 12 0;
          entry = bit_pack_u32 0 25 raw_offset entry;
          entry = bit_pack_u32 25 5 raw_param_count entry;
          entry = bit_pack_u32 30 2 raw_loop_depth entry;
          entry = bit_pack_u32 32 14 raw_byte_size entry;
          entry = bit_pack_u32 46 8 raw_func_name entry;
          entry = bit_pack_u32 54 32 raw_mid_lo entry;
          entry = bit_pack_u32 86 2 raw_mid_hi entry
      in entry[11 := raw_flags_byte])"

definition emit_one_small_string_table_entry_v96 :: "SmallStringTableEntryV96Raw \<Rightarrow> u8 list" where
  "emit_one_small_string_table_entry_v96 raw =
     (let entry = replicate 4 0;
          entry = bit_pack_u32 0 1 (of_bool (sst_is_utf16 raw)) entry;
          entry = bit_pack_u32 1 23 (sst_str_offset raw) entry;
          entry = bit_pack_u32 24 8 (sst_str_length raw) entry
      in entry)"

definition emit_pair :: "u32 \<times> u32 \<Rightarrow> u8 list" where
  "emit_pair p = u32_to_le (fst p) @ u32_to_le (snd p)"

definition emit_one_obj_shape_table_entry_v98 :: "ObjShapeTableEntryV98Raw \<Rightarrow> u8 list" where
  "emit_one_obj_shape_table_entry_v98 raw =
     u32_to_le (os_key_buffer_offset raw) @ u32_to_le (os_num_props raw)"

section \<open>The contract of an entry codec\<close>

locale entry_codec =
  fixes rd :: "u8 list \<Rightarrow> 'e" and wr :: "'e \<Rightarrow> u8 list" and entry_len :: nat
  assumes wr_rd: "length bs = entry_len \<Longrightarrow> wr (rd bs) = bs"
begin

lemma table_step:
  "start + Suc n * entry_len \<le> length buf \<Longrightarrow>
     slice buf start (n * entry_len) @ wr (rd (slice buf (start + n * entry_len) entry_len))
       = slice buf start (Suc n * entry_len)"
  by (simp add: wr_rd slice_append [symmetric] add.commute [of entry_len])

lemma table:
  "start + n * entry_len \<le> length buf \<Longrightarrow>
     concat (map (\<lambda>i. wr (rd (slice buf (start + i * entry_len) entry_len))) [0..<n]) = slice buf start (n * entry_len)"
proof (induction n)
  case (Suc n)
  then have "start + n * entry_len \<le> length buf" by simp
  with Suc show ?case using table_step [of start n buf] by simp
qed simp

end

section \<open>The five formats\<close>

text \<open>A field that is read and packed again contributes exactly its own bits.\<close>

lemma repack_bit:
  assumes "n \<le> 32" "s + n \<le> 8 * length out"
  shows "bytes_bit (bit_pack_u32 s n (read_bitfield bs s n) out) i
    \<longleftrightarrow> bytes_bit out i \<or> (s \<le> i \<and> i < s + n \<and> bytes_bit bs i)"
  using assms by (auto simp: bits)

lemma codec_v96: "length bs = 16 \<Longrightarrow> emit_one_small_func_header_v96 (decode_func_header_v96 bs) = bs"
proof (rule bytes_eqI)
  fix i assume len: "length bs = 16"
    and i: "i < 8 * length (emit_one_small_func_header_v96 (decode_func_header_v96 bs))"
  then have "i < 128" by (simp add: emit_one_small_func_header_v96_def Let_def)
  then have "i div 8 = 15 \<longleftrightarrow> 120 \<le> i" by linarith
  then show "bytes_bit (emit_one_small_func_header_v96 (decode_func_header_v96 bs)) i = bytes_bit bs i"
    using \<open>i < 128\<close> len
    by (simp add: emit_one_small_func_header_v96_def decode_func_header_v96_def Let_def
        bytes_bit_update repack_bit) (auto simp: bytes_bit_def)
qed (simp add: emit_one_small_func_header_v96_def Let_def)

lemma codec_early: "length bs = 12 \<Longrightarrow> emit_one_small_func_header_v98 (decode_func_header_early bs) = bs"
proof (rule bytes_eqI)
  fix i assume len: "length bs = 12"
    and i: "i < 8 * length (emit_one_small_func_header_v98 (decode_func_header_early bs))"
  then have "i < 96" by (simp add: decode_func_header_early_def Let_def)
  then have "i div 8 = 11 \<longleftrightarrow> 88 \<le> i" by linarith
  then show "bytes_bit (emit_one_small_func_header_v98 (decode_func_header_early bs)) i = bytes_bit bs i"
    using \<open>i < 96\<close> len
    by (simp add: decode_func_header_early_def Let_def bytes_bit_update repack_bit)
      (auto simp: bytes_bit_def)
qed (simp add: decode_func_header_early_def Let_def)

lemma codec_late: "length bs = 12 \<Longrightarrow> emit_one_small_func_header_v98 (decode_func_header_late bs) = bs"
proof (rule bytes_eqI)
  fix i assume len: "length bs = 12"
    and i: "i < 8 * length (emit_one_small_func_header_v98 (decode_func_header_late bs))"
  then have "i < 96" by (simp add: decode_func_header_late_def Let_def)
  then have "i div 8 = 11 \<longleftrightarrow> 88 \<le> i" by linarith
  then show "bytes_bit (emit_one_small_func_header_v98 (decode_func_header_late bs)) i = bytes_bit bs i"
    using \<open>i < 96\<close> len
    by (simp add: decode_func_header_late_def Let_def bytes_bit_update repack_bit)
      (auto simp: bytes_bit_def)
qed (simp add: decode_func_header_late_def Let_def)

lemma read_one_bit: "read_bitfield bs s 1 = of_bool (bytes_bit bs s)"
  by (rule bit_word_eqI) (auto simp: bits bit_of_bool_iff)

lemma codec_small_string:
  "length bs = 4 \<Longrightarrow> emit_one_small_string_table_entry_v96 (decode_small_string bs) = bs"
proof (rule bytes_eqI)
  fix i assume len: "length bs = 4"
    and i: "i < 8 * length (emit_one_small_string_table_entry_v96 (decode_small_string bs))"
  then have "i < 32" by (simp add: emit_one_small_string_table_entry_v96_def Let_def)
  moreover have "bytes_bit (bit_pack_u32 0 1 (of_bool (bytes_bit bs 0)) (replicate 4 0)) i
      \<longleftrightarrow> i = 0 \<and> bytes_bit bs 0"
    by (subst bit_pack_u32_bit) (auto simp: bit_of_bool_iff)
  ultimately show "bytes_bit (emit_one_small_string_table_entry_v96 (decode_small_string bs)) i
      = bytes_bit bs i"
    using len
    by (simp add: emit_one_small_string_table_entry_v96_def decode_small_string_def Let_def
        read_one_bit [simplified] repack_bit) (cases "i = 0"; auto)
qed (simp add: emit_one_small_string_table_entry_v96_def Let_def)

lemma codec_pair: "length bs = 8 \<Longrightarrow> emit_pair (decode_pair bs) = bs"
  by (simp add: emit_pair_def decode_pair_def u32_to_from_le)

definition decode_shape :: "u8 list \<Rightarrow> ObjShapeTableEntryV98Raw" where
  "decode_shape entry = (case decode_pair entry of (k, n) \<Rightarrow>
     \<lparr>os_key_buffer_offset = k, os_num_props = n\<rparr>)"

lemma codec_shape: "length bs = 8 \<Longrightarrow> emit_one_obj_shape_table_entry_v98 (decode_shape bs) = bs"
  by (simp add: decode_shape_def emit_one_obj_shape_table_entry_v98_def decode_pair_def u32_to_from_le)

interpretation fh96: entry_codec decode_func_header_v96 emit_one_small_func_header_v96 16
  by unfold_locales (rule codec_v96)

interpretation fh98e: entry_codec decode_func_header_early emit_one_small_func_header_v98 12
  by unfold_locales (rule codec_early)

interpretation fh98l: entry_codec decode_func_header_late emit_one_small_func_header_v98 12
  by unfold_locales (rule codec_late)

interpretation sstr: entry_codec decode_small_string emit_one_small_string_table_entry_v96 4
  by unfold_locales (rule codec_small_string)

interpretation pair8: entry_codec decode_pair emit_pair 8
  by unfold_locales (rule codec_pair)

interpretation shape8: entry_codec decode_shape emit_one_obj_shape_table_entry_v98 8
  by unfold_locales (rule codec_shape)

end
