(* ===== verification/Hermes_Functions.thy ===== *)
theory Hermes_Functions
  imports Hermes_Raw
begin

text \<open>
  The function accessors of \<open>HbcFile\<close> (\<open>parser/mod.rs\<close>): \<open>function_get\<close> and
  \<open>function_get_checked\<close> with the resolution of overflowed headers, the predicate that guards
  the regions the emitter recomputes, the exception tables, and the small table getters.
  A getter that records findings returns them beside its value.
\<close>

section \<open>Data\<close>

record FunctionData =
  fd_name_id :: u32
  fd_param_count :: u32
  fd_offset :: u32
  fd_size :: u32
  fd_flags :: u8
  fd_frame_size :: u32

record ExceptionHandlerData =
  eh_start :: u32
  eh_end :: u32
  eh_target :: u32

definition empty_function :: FunctionData where
  "empty_function = \<lparr>fd_name_id = 0, fd_param_count = 0, fd_offset = 0, fd_size = 0,
     fd_flags = 0, fd_frame_size = 0\<rparr>"

definition empty_handler :: ExceptionHandlerData where
  "empty_handler = \<lparr>eh_start = 0, eh_end = 0, eh_target = 0\<rparr>"

definition LARGE_FUNCTION_HEADER_SIZE :: usize where
  "LARGE_FUNCTION_HEADER_SIZE = 40"

section \<open>The small function header\<close>

text \<open>The bytes of entry \<open>index\<close> of the function header table, if they lie in the buffer.\<close>

definition func_entry_off :: "HbcFile \<Rightarrow> u32 \<Rightarrow> usize" where
  "func_entry_off f index = fst (hf_func_headers f) + unat index * unat (hf_func_header_size f)"

definition func_entry :: "HbcFile \<Rightarrow> u32 \<Rightarrow> u8 list option" where
  "func_entry f index =
     (let entry_off = func_entry_off f index; fh_size = unat (hf_func_header_size f) in
      if length (hf_buf f) < entry_off + fh_size then None
      else Some (slice (hf_buf f) entry_off fh_size))"

text \<open>Offset, parameter count, byte size, name and flag byte, per header layout.\<close>

fun small_fields :: "HbcHeader \<Rightarrow> u8 list \<Rightarrow> u32 \<times> u32 \<times> u32 \<times> u32 \<times> u8" where
  "small_fields (V98LateToV99 _) entry =
     (read_bitfield entry 0 25, read_bitfield entry 25 5, read_bitfield entry 32 14,
      read_bitfield entry 46 8, entry ! 11)"
| "small_fields (V97toV98Early _) entry =
     (read_bitfield entry 0 25, read_bitfield entry 25 7, read_bitfield entry 32 15,
      read_bitfield entry 47 17, entry ! 11)"
| "small_fields _ entry =
     (read_bitfield entry 0 25, read_bitfield entry 25 7, read_bitfield entry 32 15,
      read_bitfield entry 47 17, entry ! 15)"

fun small_frame_size :: "HbcHeader \<Rightarrow> u8 list \<Rightarrow> u32" where
  "small_frame_size (V98LateToV99 _) entry = (if 8 < length entry then ucast (entry ! 8) else 0)"
| "small_frame_size (V97toV98Early _) entry = (if 8 < length entry then ucast (entry ! 8) else 0)"
| "small_frame_size _ entry = 0"

text \<open>The offset of the large header that an overflowed small header composes.\<close>

fun large_off_of :: "HbcHeader \<Rightarrow> u8 list \<Rightarrow> u64" where
  "large_off_of (V98LateToV99 _) entry =
     (push_bit 24 (unat (read_bitfield entry 46 8)) OR unat (read_bitfield entry 0 25))"
| "large_off_of (V97toV98Early _) entry =
     (push_bit 16 (unat (read_bitfield entry 47 17)) OR unat (read_bitfield entry 0 25))"
| "large_off_of _ entry =
     (push_bit 16 (unat (read_bitfield entry 64 25)) OR unat (read_bitfield entry 0 25))"

fun flags_of :: "HbcHeader \<Rightarrow> u8 list \<Rightarrow> u8" where
  "flags_of (V98LateToV99 _) entry = entry ! 11"
| "flags_of (V97toV98Early _) entry = entry ! 11"
| "flags_of _ entry = entry ! 15"

section \<open>Overflowed headers\<close>

definition overflow_header_is_oob :: "u64 \<Rightarrow> usize \<Rightarrow> bool" where
  "overflow_header_is_oob large_off buf_len =
     (case checked_add64 large_off LARGE_FUNCTION_HEADER_SIZE of
        Some e \<Rightarrow> buf_len < e
      | None \<Rightarrow> True)"

definition read_large_header :: "HbcFile \<Rightarrow> LargeHeaderLayout \<Rightarrow> usize \<Rightarrow> u8 \<Rightarrow> FunctionData" where
  "read_large_header f layout lo flags =
     (let size_off = 8 + (if hf_use_v99_func_header f then 4 else 0);
          name_off = size_off + 4;
          frame_off = name_off + 4 + 8;
          flags_off = frame_off + 4 + 3 + (if layout = Shape40 then 1 else 0)
      in \<lparr>fd_name_id = read_u32 (hf_buf f) (lo + name_off),
          fd_param_count = read_u32 (hf_buf f) (lo + 4),
          fd_offset = read_u32 (hf_buf f) lo,
          fd_size = read_u32 (hf_buf f) (lo + size_off),
          fd_flags = (if lo + flags_off < length (hf_buf f)
                      then pack_flags (hf_buf f ! (lo + flags_off)) else flags),
          fd_frame_size = read_u32 (hf_buf f) (lo + frame_off)\<rparr>)"

definition function_get :: "HbcFile \<Rightarrow> u32 \<Rightarrow> FunctionData with_findings" where
  "function_get f index =
     (if hf_function_count f \<le> index then (empty_function, [])
      else case func_entry f index of
        None \<Rightarrow> (empty_function, [])
      | Some entry \<Rightarrow>
          (case small_fields (hf_header f) entry of
             (offset, param_count, byte_size, func_name, flags_byte) \<Rightarrow>
          let flags = pack_flags flags_byte;
              small = \<lparr>fd_name_id = func_name, fd_param_count = param_count, fd_offset = offset,
                fd_size = byte_size, fd_flags = flags,
                fd_frame_size = small_frame_size (hf_header f) entry\<rparr>
          in if flag_bit 5 flags_byte then
               (let large_off = large_off_of (hf_header f) entry in
                if \<not> overflow_header_is_oob large_off (length (hf_buf f)) then
                  (case hf_large_header_layout f of
                     None \<Rightarrow> (empty_function, [])
                   | Some layout \<Rightarrow> (read_large_header f layout large_off flags, []))
                else (small, [F_OverflowedHeaderOutOfBounds index large_off (length (hf_buf f))]))
             else (small, [])))"

section \<open>The regions the emitter recomputes\<close>

definition spans_intersect :: "u64 \<Rightarrow> u64 \<Rightarrow> u64 \<Rightarrow> u64 \<Rightarrow> bool" where
  "spans_intersect a_start a_len b_start b_len =
     (if a_len = 0 \<or> b_len = 0 then False
      else
        let a_end = sat_add64 a_start a_len; b_end = sat_add64 b_start b_len
        in a_start < b_end \<and> b_start < a_end)"

definition EMIT_SYNTHESIZED_SECTIONS :: "string list" where
  "EMIT_SYNTHESIZED_SECTIONS =
     [''FunctionHeaders'', ''SmallStringTable'', ''OverflowStringTable'', ''RegExpTable'',
      ''ObjShapeTable'']"

definition synthesized_section_span_by_name :: "HbcFile \<Rightarrow> string \<Rightarrow> usize \<times> usize" where
  "synthesized_section_span_by_name f name =
     (if name = ''FunctionHeaders'' then hf_func_headers f
      else if name = ''SmallStringTable'' then hf_small_string_table f
      else if name = ''OverflowStringTable'' then hf_overflow_string_table f
      else if name = ''RegExpTable'' then hf_regexp_table f
      else if name = ''ObjShapeTable'' then hf_obj_shape_table f
      else (0, 0))"

definition span_overlaps_synthesized :: "HbcFile \<Rightarrow> u64 \<Rightarrow> u64 \<Rightarrow> bool" where
  "span_overlaps_synthesized f span_start span_len =
     (if spans_intersect span_start span_len 0 HEADER_SIZE then True
      else list_ex (\<lambda>name. case synthesized_section_span_by_name f name of
             (start, n) \<Rightarrow> spans_intersect span_start span_len start n)
           EMIT_SYNTHESIZED_SECTIONS)"

definition overflow_header_overlaps_synthesized :: "HbcFile \<Rightarrow> u64 \<Rightarrow> bool" where
  "overflow_header_overlaps_synthesized f large_off =
     span_overlaps_synthesized f large_off LARGE_FUNCTION_HEADER_SIZE"

definition function_get_checked :: "HbcFile \<Rightarrow> u32 \<Rightarrow> FunctionData hermes" where
  "function_get_checked f index =
     (if hf_function_count f \<le> index then lret empty_function
      else case func_entry f index of
        None \<Rightarrow> lfail (FunctionHeaderEntryOutOfBounds index (func_entry_off f index)
                        (hf_func_header_size f) (length (hf_buf f)))
      | Some entry \<Rightarrow>
          if \<not> flag_bit 5 (flags_of (hf_header f) entry)
          then map_prod Inr id (function_get f index)
          else
            let large_off = large_off_of (hf_header f) entry in
            if overflow_header_is_oob large_off (length (hf_buf f))
            then lfail (OverflowedHeaderOutOfBounds index large_off (length (hf_buf f)))
            else if overflow_header_overlaps_synthesized f large_off
            then lfail (OverflowedHeaderOverlapsSynthesizedRegion index large_off)
            else if hf_large_header_layout f = None
            then lfail (LargeHeaderLayoutAmbiguous index large_off)
            else map_prod Inr id (function_get f index))"

section \<open>Exception tables\<close>

definition align4_u64 :: "u64 \<Rightarrow> u64" where
  "align4_u64 v = clear_low2 (sat_add64 v 3)"

text \<open>The closure \<open>narrow_align4\<close>: an aligned offset beyond \<open>u32\<close> becomes 0.\<close>

definition narrow_align4 :: "u64 \<Rightarrow> u32" where
  "narrow_align4 v =
     (let aligned = clear_low2 (sat_add64 v 3) in
      if u32_max < aligned then 0 else of_nat aligned)"

fun large_size_of :: "HbcHeader \<Rightarrow> LargeHeaderLayout option \<Rightarrow> u64 option" where
  "large_size_of (V98LateToV99 _) layout = map_option header_size layout"
| "large_size_of _ layout = Some 32"

text \<open>
  Where the exception table of a function that is not overflowed starts: behind the body from
  v97 on (\<open>function_get\<close> records no finding for such a function), at the info offset before.
\<close>

fun plain_exc_offset :: "HbcHeader \<Rightarrow> FunctionData \<Rightarrow> u8 list \<Rightarrow> u32" where
  "plain_exc_offset (V98LateToV99 _) fd entry = narrow_align4 (unat (fd_offset fd) + unat (fd_size fd))"
| "plain_exc_offset (V97toV98Early _) fd entry = narrow_align4 (unat (fd_offset fd) + unat (fd_size fd))"
| "plain_exc_offset _ fd entry = narrow_align4 (unat (read_bitfield entry 64 25))"

definition get_exc_table_offset :: "HbcFile \<Rightarrow> u32 \<Rightarrow> u32" where
  "get_exc_table_offset f func_idx =
     (case func_entry f func_idx of
        None \<Rightarrow> 0
      | Some entry \<Rightarrow>
          if flag_bit 5 (flags_of (hf_header f) entry) then
            (let large_off = large_off_of (hf_header f) entry in
             case large_size_of (hf_header f) (hf_large_header_layout f) of
               None \<Rightarrow> 0
             | Some large_size \<Rightarrow>
                 if length (hf_buf f) < large_off + large_size then 0
                 else narrow_align4 (large_off + large_size))
          else plain_exc_offset (hf_header f) (fst (function_get f func_idx)) entry)"

definition exception_count_is_capped :: "u32 \<Rightarrow> bool" where
  "exception_count_is_capped declared \<longleftrightarrow> MAX_EXCEPTION_HANDLERS < declared"

definition exc_table_overlaps_synthesized :: "HbcFile \<Rightarrow> u32 \<Rightarrow> u32 option with_findings" where
  "exc_table_overlaps_synthesized f func_idx =
     (case function_get f func_idx of (fd, ws) \<Rightarrow>
      if \<not> flag_bit 3 (fd_flags fd) then (None, ws)
      else
        let exc_offset = get_exc_table_offset f func_idx;
            off = unat exc_offset;
            count_capped =
              (if off + 4 \<le> length (hf_buf f) then
                 (let c = read_u32 (hf_buf f) off in
                  if MAX_EXCEPTION_HANDLERS < c then 0 else unat c)
               else 0);
            span_len = sat_add64 (sat_mul64 count_capped 12) 4
        in (if span_overlaps_synthesized f off span_len then Some exc_offset else None, ws))"

definition function_exception_count :: "HbcFile \<Rightarrow> u32 \<Rightarrow> u32 with_findings" where
  "function_exception_count f func_idx =
     (if hf_function_count f \<le> func_idx then (0, [])
      else case function_get f func_idx of (fd, ws) \<Rightarrow>
        if \<not> flag_bit 3 (fd_flags fd) then (0, ws)
        else
          let exc_offset = get_exc_table_offset f func_idx in
          if length (hf_buf f) < unat exc_offset + 4 then (0, ws)
          else
            let count = read_u32 (hf_buf f) (unat exc_offset) in
            if exception_count_is_capped count
            then (0, ws @ [F_ExceptionCountCap func_idx count MAX_EXCEPTION_HANDLERS])
            else (count, ws))"

definition function_exception_count_checked :: "HbcFile \<Rightarrow> u32 \<Rightarrow> u32 hermes" where
  "function_exception_count_checked f func_idx =
     (if hf_function_count f \<le> func_idx then lret 0
      else case function_get f func_idx of (fd, ws) \<Rightarrow>
        if \<not> flag_bit 3 (fd_flags fd) then (Inr 0, ws)
        else
          let exc_offset = get_exc_table_offset f func_idx in
          if length (hf_buf f) < unat exc_offset + 4 then (Inr 0, ws)
          else
            let count = read_u32 (hf_buf f) (unat exc_offset) in
            if exception_count_is_capped count
            then (Inl (ExceptionCountCap func_idx count MAX_EXCEPTION_HANDLERS), ws)
            else (Inr count, ws))"

definition function_exception_get :: "HbcFile \<Rightarrow> u32 \<Rightarrow> u32 \<Rightarrow> ExceptionHandlerData with_findings" where
  "function_exception_get f func_idx handler_idx =
     (let exc_offset = get_exc_table_offset f func_idx in
      if length (hf_buf f) < unat exc_offset + 4 then (empty_handler, [])
      else
        let count = read_u32 (hf_buf f) (unat exc_offset) in
        if MAX_EXCEPTION_HANDLERS < count
        then (empty_handler, [F_ExceptionCountCap func_idx count MAX_EXCEPTION_HANDLERS])
        else if count \<le> handler_idx then (empty_handler, [])
        else
          let handler_off = unat exc_offset + 4 + unat handler_idx * 12 in
          if length (hf_buf f) < handler_off + 12 then (empty_handler, [])
          else (\<lparr>eh_start = read_u32 (hf_buf f) handler_off,
                 eh_end = read_u32 (hf_buf f) (handler_off + 4),
                 eh_target = read_u32 (hf_buf f) (handler_off + 8)\<rparr>, []))"

section \<open>Reading a header before the file is built\<close>

definition parse_func_header_raw :: "u8 list \<Rightarrow> usize \<Rightarrow> usize \<Rightarrow> HbcHeader \<Rightarrow> FunctionData" where
  "parse_func_header_raw buf headers_off fh_size h =
     (if length buf < headers_off + fh_size then empty_function
      else
        let entry = slice buf headers_off fh_size;
            offset = read_bitfield entry 0 25;
            v99_layout = (case h of V98LateToV99 _ \<Rightarrow> True | _ \<Rightarrow> False);
            byte_size = (if v99_layout then read_bitfield entry 32 14 else read_bitfield entry 32 15)
        in if flag_bit 5 (flags_of h entry) then
             let func_name = (if v99_layout then read_bitfield entry 46 8 else read_bitfield entry 47 17);
                 shift = (if v99_layout then 24 else 16);
                 large_off = push_bit shift (unat func_name) OR unat offset
             in if large_off + 12 \<le> length buf
                then empty_function\<lparr>fd_offset := read_u32 buf large_off,
                       fd_size := read_u32 buf (large_off + 8)\<rparr>
                else empty_function
           else empty_function\<lparr>fd_offset := offset, fd_size := byte_size\<rparr>)"

section \<open>Facts\<close>

lemma flags_of_small_fields: "snd (snd (snd (snd (small_fields h entry)))) = flags_of h entry"
  by (cases h) simp_all

lemma func_entry_in:
  assumes "string_tables_ok f" "index < hf_function_count f"
  shows "func_entry f index
      = Some (slice (hf_buf f) (func_entry_off f index) (unat (hf_func_header_size f)))
    \<and> func_entry_off f index + unat (hf_func_header_size f) \<le> length (hf_buf f)"
proof -
  let ?s = "unat (hf_func_header_size f)"
  have "Suc (unat index) \<le> unat (hf_function_count f)" using assms(2) by (simp add: word_less_nat_alt)
  then have "Suc (unat index) * ?s \<le> unat (hf_function_count f) * ?s" by (rule mult_le_mono1)
  moreover have "128 + unat (hf_function_count f) * ?s \<le> length (hf_buf f)"
    using assms(1) by (auto simp: string_tables_ok_def)
  ultimately show ?thesis
    using assms(1) by (simp add: func_entry_def func_entry_off_def string_tables_ok_def Let_def)
qed

text \<open>How \<open>function_get\<close> resolves an entry.\<close>

definition overflowed :: "HbcFile \<Rightarrow> u8 list \<Rightarrow> bool" where
  "overflowed f entry \<longleftrightarrow> flag_bit 5 (flags_of (hf_header f) entry)"

definition large_oob :: "HbcFile \<Rightarrow> u8 list \<Rightarrow> bool" where
  "large_oob f entry \<longleftrightarrow>
     overflow_header_is_oob (large_off_of (hf_header f) entry) (length (hf_buf f))"

lemma function_get_quiet:
  "snd (function_get f index) = [] \<or>
     (\<exists>entry. index < hf_function_count f \<and> func_entry f index = Some entry \<and> overflowed f entry
        \<and> large_oob f entry)"
  using flags_of_small_fields [of "hf_header f"]
  by (auto simp: function_get_def Let_def overflowed_def large_oob_def not_le
      split: option.splits prod.splits) (metis snd_conv)+

lemma function_get_checked_Inr:
  assumes "function_get_checked f index = (Inr fd, ws)"
  shows "function_get f index = (fd, []) \<and> ws = []"
proof (cases "func_entry f index")
  case (Some entry)
  have fg: "function_get f index = (fd, ws)"
    using assms by (auto simp: function_get_checked_def function_get_def lret_def lfail_def Let_def Some
        split: if_splits)
      (auto simp: map_prod_def split: prod.splits)
  moreover have "ws = []"
    using function_get_quiet [of f index] assms fg Some
    by (auto simp: function_get_checked_def overflowed_def large_oob_def lret_def lfail_def Let_def
        split: if_splits)
  ultimately show ?thesis by simp
qed (use assms in \<open>auto simp: function_get_checked_def function_get_def lret_def lfail_def split: if_splits\<close>)

lemma function_get_checked_quiet: "snd (function_get_checked f index) = []"
proof (cases "fst (function_get_checked f index)")
  case (Inr fd)
  then show ?thesis using function_get_checked_Inr by (metis prod.collapse)
qed (auto simp: function_get_checked_def lret_def lfail_def map_prod_def Let_def
      split: option.splits prod.splits if_splits)

end
