(* ===== verification/Hermes_Layout.thy ===== *)
theory Hermes_Layout
  imports Hermes_Functions
begin

text \<open>
  The choice of the large-header layout of version-98 late-form files
  (\<open>select_v98_large_header_layout\<close> of \<open>parser/mod.rs\<close>): every overflowed header is scored under
  both layouts, exception tables are summarised once per position, and the work is bounded by
  a budget of handler triples.

  A step that ends with \<open>?\<close> because the budget is used up returns \<open>None\<close>; the scratch is
  threaded explicitly and dropped then, because the selection stops.
\<close>

section \<open>Budget and scratch\<close>

definition exc_table_pos_outside_runtime_domain :: "u64 \<Rightarrow> bool" where
  "exc_table_pos_outside_runtime_domain table \<longleftrightarrow> u32_max < table"

definition selection_triple_budget :: "usize \<Rightarrow> u64" where
  "selection_triple_budget len = sat_mul64 (len div 12) 4"

record SelectionScratch =
  per_off :: "u64 \<Rightarrow> (bool \<times> bool \<times> bool) option"
  per_table :: "u64 \<Rightarrow> u32 option option"
  budget :: u64

definition new_scratch :: "u64 \<Rightarrow> SelectionScratch" where
  "new_scratch b = \<lparr>per_off = (\<lambda>_. None), per_table = (\<lambda>_. None), budget = b\<rparr>"

section \<open>Scoring\<close>

definition byte_at_u64 :: "HbcFile \<Rightarrow> u64 \<Rightarrow> u8 option" where
  "byte_at_u64 f pos = get_at (hf_buf f) pos"

text \<open>The loop over the handler triples: the least function size that covers them.\<close>

fun summary_loop :: "u8 list \<Rightarrow> usize \<Rightarrow> nat \<Rightarrow> nat \<Rightarrow> u32 \<Rightarrow> u64 \<Rightarrow> (u32 option \<times> u64) option"
  where
  "summary_loop buf count_end h_idx 0 required b = Some (Some required, b)"
| "summary_loop buf count_end h_idx (Suc n) required b =
     (if b = 0 then None
      else
        let b = b - 1 in
        case checked_add64 count_end (sat_mul64 h_idx 12) of
          None \<Rightarrow> Some (None, b)
        | Some h_off \<Rightarrow>
            let start = read_u32 buf h_off;
                end = read_u32 buf (sat_add64 h_off 4);
                target = read_u32 buf (sat_add64 h_off 8)
            in if end \<le> start then Some (None, b)
               else case checked_add32 target 1 of
                 None \<Rightarrow> Some (None, b)
               | Some target_floor \<Rightarrow>
                   summary_loop buf count_end (h_idx + 1) n (max (max required end) target_floor) b)"

definition exc_table_summary_uncached :: "HbcFile \<Rightarrow> u64 \<Rightarrow> u64 \<Rightarrow> (u32 option \<times> u64) option" where
  "exc_table_summary_uncached f table b =
     (if exc_table_pos_outside_runtime_domain table then Some (None, b)
      else case checked_add64 table 4 of
        None \<Rightarrow> Some (None, b)
      | Some count_end \<Rightarrow>
          if length (hf_buf f) < count_end then Some (None, b)
          else
            let count = read_u32 (hf_buf f) table in
            if MAX_EXCEPTION_HANDLERS < count then Some (None, b)
            else
              let span = sat_add64 (sat_mul64 (unat count) 12) 4 in
              case checked_add64 table span of
                None \<Rightarrow> Some (None, b)
              | Some e \<Rightarrow>
                  if e \<le> length (hf_buf f)
                  then summary_loop (hf_buf f) count_end 0 (unat count) 0 b
                  else Some (None, b))"

definition exc_table_summary ::
  "HbcFile \<Rightarrow> u64 \<Rightarrow> SelectionScratch \<Rightarrow> (u32 option \<times> SelectionScratch) option" where
  "exc_table_summary f table s =
     (case per_table s table of
        Some summary \<Rightarrow> Some (summary, s)
      | None \<Rightarrow>
          Option.bind (exc_table_summary_uncached f table (budget s)) (\<lambda>(summary, b).
          Some (summary, s\<lparr>budget := b, per_table := (per_table s)(table := Some summary)\<rparr>)))"

definition large_header_shape_violation ::
  "HbcFile \<Rightarrow> u64 \<Rightarrow> LargeHeaderLayout \<Rightarrow> SelectionScratch \<Rightarrow> (bool \<times> SelectionScratch) option" where
  "large_header_shape_violation f large_off shape s =
     (case byte_at_u64 f (sat_add64 large_off (flags_offset shape)) of
        None \<Rightarrow> Some (True, s)
      | Some flags \<Rightarrow>
          if flags AND 3 = 3 then Some (True, s)
          else if flag_bit 5 flags then Some (True, s)
          else if \<not> flag_bit 3 flags then Some (False, s)
          else case checked_add64 large_off 12 of
            None \<Rightarrow> Some (True, s)
          | Some size_pos \<Rightarrow>
              let fn_size = read_u32 (hf_buf f) size_pos;
                  table = align4_u64 (sat_add64 large_off (header_size shape))
              in Option.bind (exc_table_summary f table s) (\<lambda>(summary, s').
                 Some (case summary of None \<Rightarrow> True | Some required \<Rightarrow> fn_size < required, s')))"

definition large_header_shapes_decode_equal ::
  "HbcFile \<Rightarrow> u64 \<Rightarrow> SelectionScratch \<Rightarrow> (bool \<times> SelectionScratch) option" where
  "large_header_shapes_decode_equal f large_off s =
     (case (byte_at_u64 f (sat_add64 large_off (flags_offset Shape36)),
            byte_at_u64 f (sat_add64 large_off (flags_offset Shape40))) of
        (Some f36, Some f40) \<Rightarrow>
          if f36 \<noteq> f40 then Some (False, s)
          else if \<not> flag_bit 3 f36 then Some (True, s)
          else
            let t36 = align4_u64 (sat_add64 large_off (header_size Shape36));
                t40 = align4_u64 (sat_add64 large_off (header_size Shape40));
                c36 = read_u32 (hf_buf f) t36;
                c40 = read_u32 (hf_buf f) t40
            in if c36 \<noteq> c40 then Some (False, s)
               else
                 let cost = unat c36 in
                 if budget s < cost then None
                 else
                   let s' = s\<lparr>budget := budget s - cost\<rparr>;
                       len = sat_add64 (sat_mul64 (unat c36) 12) 4
                   in case (checked_add64 t36 len, checked_add64 t40 len) of
                        (Some e36, Some e40) \<Rightarrow>
                          (case (get_range (hf_buf f) t36 e36, get_range (hf_buf f) t40 e40) of
                             (Some a, Some b) \<Rightarrow> Some (a = b, s')
                           | _ \<Rightarrow> Some (False, s'))
                      | _ \<Rightarrow> Some (False, s')
      | _ \<Rightarrow> Some (False, s))"

definition score_large_header ::
  "HbcFile \<Rightarrow> u64 \<Rightarrow> SelectionScratch \<Rightarrow> ((bool \<times> bool \<times> bool) \<times> SelectionScratch) option" where
  "score_large_header f large_off s =
     (case per_off s large_off of
        Some cached \<Rightarrow> Some (cached, s)
      | None \<Rightarrow>
          Option.bind (large_header_shape_violation f large_off Shape36 s) (\<lambda>(v36, s).
          Option.bind (large_header_shape_violation f large_off Shape40 s) (\<lambda>(v40, s).
          Option.bind (if \<not> v36 \<and> \<not> v40 then large_header_shapes_decode_equal f large_off s
                       else Some (True, s)) (\<lambda>(decode_eq, s).
          Some ((v36, v40, decode_eq),
                s\<lparr>per_off := (per_off s)(large_off := Some (v36, v40, decode_eq))\<rparr>)))))"

text \<open>The large-header offset of an overflowed late-form entry.\<close>

definition overflowed_large_off_v98late :: "HbcFile \<Rightarrow> u32 \<Rightarrow> u64 option" where
  "overflowed_large_off_v98late f index =
     (let fh_size = unat (hf_func_header_size f) in
      Option.bind (checked_mul64 (unat index) fh_size) (\<lambda>n.
      Option.bind (checked_add64 (fst (hf_func_headers f)) n) (\<lambda>entry_off.
      Option.bind (checked_add64 entry_off fh_size) (\<lambda>e.
      Option.bind (get_range (hf_buf f) entry_off e) (\<lambda>entry.
      Option.bind (get_at entry 11) (\<lambda>flags_byte.
      if \<not> flag_bit 5 flags_byte then None
      else Some (push_bit 24 (unat (read_bitfield entry 46 8)) OR unat (read_bitfield entry 0 25))))))))"

section \<open>The selection\<close>

record tally =
  ta_scored :: u32
  ta_violations36 :: u32
  ta_violations40 :: u32
  ta_disagreements :: u32
  ta_exhausted :: bool

definition count_score :: "bool \<times> bool \<times> bool \<Rightarrow> tally \<Rightarrow> tally" where
  "count_score sc t = (case sc of (v36, v40, decode_eq) \<Rightarrow>
     t\<lparr>ta_violations36 := (if v36 then sat_add32 (ta_violations36 t) 1 else ta_violations36 t),
       ta_violations40 := (if v40 then sat_add32 (ta_violations40 t) 1 else ta_violations40 t),
       ta_disagreements := (if \<not> v36 \<and> \<not> v40 \<and> \<not> decode_eq
          then sat_add32 (ta_disagreements t) 1 else ta_disagreements t)\<rparr>)"

fun selection_loop :: "HbcFile \<Rightarrow> u32 list \<Rightarrow> tally \<Rightarrow> SelectionScratch \<Rightarrow> tally" where
  "selection_loop f [] t s = t"
| "selection_loop f (idx # idxs) t s =
     (case overflowed_large_off_v98late f idx of
        None \<Rightarrow> selection_loop f idxs t s
      | Some large_off \<Rightarrow>
          if overflow_header_is_oob large_off (length (hf_buf f))
             \<or> overflow_header_overlaps_synthesized f large_off
          then selection_loop f idxs t s
          else
            let t = t\<lparr>ta_scored := sat_add32 (ta_scored t) 1\<rparr> in
            case score_large_header f large_off s of
              None \<Rightarrow> t\<lparr>ta_exhausted := True\<rparr>
            | Some (sc, s') \<Rightarrow> selection_loop f idxs (count_score sc t) s')"

text \<open>\<open>for idx in 0..n\<close>\<close>

definition u32_range :: "u32 \<Rightarrow> u32 list" where
  "u32_range n = map of_nat [0..<unat n]"

definition function_indices :: "HbcFile \<Rightarrow> u32 list" where
  "function_indices f = u32_range (hf_function_count f)"

definition is_v98_late :: "HbcFile \<Rightarrow> bool" where
  "is_v98_late f \<longleftrightarrow> (case hf_header f of V98LateToV99 _ \<Rightarrow> True | _ \<Rightarrow> False) \<and> hf_version f = 98"

definition selection_tally :: "HbcFile \<Rightarrow> tally" where
  "selection_tally f = selection_loop f (function_indices f)
     \<lparr>ta_scored = 0, ta_violations36 = 0, ta_violations40 = 0, ta_disagreements = 0,
      ta_exhausted = False\<rparr>
     (new_scratch (selection_triple_budget (length (hf_buf f))))"

definition select_v98_large_header_layout :: "HbcFile \<Rightarrow> HbcFile with_findings" where
  "select_v98_large_header_layout f =
     (if \<not> is_v98_late f then (f, [])
      else
        let t = selection_tally f;
            coherent36 = (ta_violations36 t = 0);
            coherent40 = (ta_violations40 t = 0)
        in if \<not> ta_exhausted t \<and> coherent36 \<and> \<not> coherent40
           then (f\<lparr>hf_large_header_layout := Some Shape36\<rparr>, [])
           else if \<not> ta_exhausted t \<and> \<not> coherent36 \<and> coherent40
           then (f\<lparr>hf_large_header_layout := Some Shape40\<rparr>, [])
           else if \<not> ta_exhausted t \<and> coherent36 \<and> coherent40 \<and> ta_disagreements t = 0
           then (f\<lparr>hf_large_header_layout := Some Shape36\<rparr>, [])
           else (f\<lparr>hf_large_header_layout := None\<rparr>,
                 [F_V98LargeHeaderLayoutAmbiguous (ta_scored t) (ta_violations36 t)
                    (ta_violations40 t) (ta_disagreements t) (ta_exhausted t)]))"

lemma set_u32_range: "set (u32_range n) = {i. i < n}"
proof -
  have "i \<in> of_nat ` {0..<unat n} \<longleftrightarrow> i < n" for i :: u32
  proof
    assume "i \<in> of_nat ` {0..<unat n}"
    then obtain k where k: "i = of_nat k" "k < unat n" by auto
    then have "unat i = k" using unat_u32 [of n] by (simp add: unsigned_of_nat take_bit_nat_eq_self)
    then show "i < n" using k by (simp add: word_less_nat_alt)
  next
    assume "i < n"
    then show "i \<in> of_nat ` {0..<unat n}"
      by (intro image_eqI [of _ _ "unat i"]) (auto simp: word_less_nat_alt)
  qed
  then show ?thesis by (auto simp: u32_range_def)
qed

lemma sorted_u32_range: "sorted_wrt (<) (u32_range n)"
proof -
  have "sorted_wrt (\<lambda>a b. (of_nat a :: u32) < of_nat b) [0..<m]" if "m < 2 ^ 32" for m
    using that
  proof (induction m)
    case (Suc m)
    have "(of_nat a :: u32) < of_nat m" if "a < m" for a
      using that Suc.prems by (simp add: word_less_nat_alt unsigned_of_nat take_bit_nat_eq_self)
    then show ?case using Suc by (simp add: sorted_wrt_append)
  qed simp
  then show ?thesis using unat_u32 [of n] by (simp add: u32_range_def sorted_wrt_map)
qed

lemma set_function_indices: "set (function_indices f) = {i. i < hf_function_count f}"
  by (simp add: function_indices_def set_u32_range)

section \<open>What a score means\<close>

text \<open>The handler triples of the table at \<open>table\<close>, and when a function of size \<open>n\<close> contains them.\<close>

definition handlers :: "u8 list \<Rightarrow> usize \<Rightarrow> nat \<Rightarrow> nat \<Rightarrow> (u32 \<times> u32 \<times> u32) list" where
  "handlers buf table i n = map (\<lambda>k. let off = table + 4 + k * 12 in
     (read_u32 buf off, read_u32 buf (off + 4), read_u32 buf (off + 8))) [i..<i + n]"

definition in_function :: "u32 \<Rightarrow> u32 \<times> u32 \<times> u32 \<Rightarrow> bool" where
  "in_function n h \<longleftrightarrow> (case h of (start, end, target) \<Rightarrow> start < end \<and> end \<le> n \<and> target < n)"

definition table_fits :: "u8 list \<Rightarrow> u64 \<Rightarrow> bool" where
  "table_fits buf table \<longleftrightarrow> table \<le> u32_max \<and> table + 4 \<le> length buf
     \<and> read_u32 buf table \<le> MAX_EXCEPTION_HANDLERS
     \<and> table + 4 + unat (read_u32 buf table) * 12 \<le> length buf"

definition table_in_function :: "u8 list \<Rightarrow> u64 \<Rightarrow> u32 \<Rightarrow> bool" where
  "table_in_function buf table n \<longleftrightarrow> table_fits buf table
     \<and> list_all (in_function n) (handlers buf table 0 (unat (read_u32 buf table)))"

definition covers :: "u32 option \<Rightarrow> u32 \<Rightarrow> bool" where
  "covers r n \<longleftrightarrow> (\<exists>q. r = Some q \<and> q \<le> n)"

lemma covers_simps [simp]: "covers None n \<longleftrightarrow> False" "covers (Some q) n \<longleftrightarrow> q \<le> n"
  by (simp_all add: covers_def)

lemma handlers_Suc:
  "handlers buf table i (Suc n) = (let off = table + 4 + i * 12 in
     (read_u32 buf off, read_u32 buf (off + 4), read_u32 buf (off + 8))) # handlers buf table (Suc i) n"
proof -
  have "[i..<i + Suc n] = i # [Suc i..<Suc i + n]" by (simp add: upt_rec)
  then show ?thesis by (simp add: handlers_def)
qed

lemma checked_add32_1:
  "checked_add32 t 1 = (if t = -1 then None else Some (t + 1))"
proof -
  have "unat t + 1 \<le> u32_max \<longleftrightarrow> t \<noteq> -1"
  proof
    assume "unat t + 1 \<le> u32_max"
    then show "t \<noteq> -1" by (auto simp: u32_max_def unsigned_minus_1_eq_mask mask_eq_exp_minus_1)
  next
    assume "t \<noteq> -1"
    then have "t < -1" by (simp add: word_order.not_eq_extremum)
    then have "unat t < unat (-1 :: u32)" by (simp add: word_less_nat_alt)
    then show "unat t + 1 \<le> u32_max"
      by (simp add: u32_max_def unsigned_minus_1_eq_mask mask_eq_exp_minus_1)
  qed
  then show ?thesis by (simp add: checked_add32_def)
qed

lemma target_floor_le: "t \<noteq> (-1 :: u32) \<Longrightarrow> t + 1 \<le> n \<longleftrightarrow> t < n"
proof -
  assume "t \<noteq> -1"
  then have "1 + t \<noteq> 0" by (metis add_eq_0_iff)
  then have "unat (1 + t) = Suc (unat t)" by (rule unatSuc)
  then show ?thesis by (simp add: word_le_nat_alt word_less_nat_alt add.commute Suc_le_eq)
qed

lemma summary_loop_covers:
  "summary_loop buf (table + 4) i n req b = Some (r, b') \<Longrightarrow> table + 12 + (i + n) * 12 \<le> u64_max \<Longrightarrow>
     b' \<le> b \<and> (covers r m \<longleftrightarrow> req \<le> m \<and> list_all (in_function m) (handlers buf table i n))"
proof (induction n arbitrary: i req b)
  case 0
  then show ?case by (auto simp: handlers_def)
next
  case (Suc n)
  define off where "off = table + 4 + i * 12"
  have arith: "checked_add64 (table + 4) (sat_mul64 i 12) = Some off"
    "sat_add64 off 4 = off + 4" "sat_add64 off 8 = off + 8"
    using Suc.prems(2) by (simp_all add: checked_add64_def sat_mul64_def sat_add64_def off_def)
  note [simp] = handlers_Suc off_def [symmetric] arith
  show ?case
    using Suc.IH [of "Suc i" "max (max req (read_u32 buf (off + 4))) (read_u32 buf (off + 8) + 1)"
        "b - 1"] Suc.prems
    by (auto simp: Let_def in_function_def checked_add32_1 target_floor_le split: if_splits)
qed

lemma exc_table_summary_uncached_covers:
  assumes "exc_table_summary_uncached f table b = Some (r, b')"
  shows "b' \<le> b \<and> (covers r m \<longleftrightarrow> table_in_function (hf_buf f) table m)"
proof (cases "table_fits (hf_buf f) table")
  case True
  define c where "c = unat (read_u32 (hf_buf f) table)"
  have fit: "table \<le> 2 ^ 32 - 1" "c \<le> 10000" "table + 4 + c * 12 \<le> length (hf_buf f)"
    "table + 4 \<le> length (hf_buf f)" "\<not> MAX_EXCEPTION_HANDLERS < read_u32 (hf_buf f) table"
    using True
    by (auto simp: table_fits_def c_def u32_max_def MAX_EXCEPTION_HANDLERS_def word_le_nat_alt not_less)
  have "sat_add64 (sat_mul64 c 12) 4 = c * 12 + 4"
    using fit(2) by (simp add: sat_add64_def sat_mul64_def u64_max_def)
  moreover have "checked_add64 table (c * 12 + 4) = Some (table + (c * 12 + 4))"
    "checked_add64 table 4 = Some (table + 4)"
    using fit(1,2) by (simp_all add: checked_add64_def u64_max_def)
  moreover have "\<not> exc_table_pos_outside_runtime_domain table" "\<not> length (hf_buf f) < table + 4"
    "table + (c * 12 + 4) \<le> length (hf_buf f)"
    using fit by (simp_all add: exc_table_pos_outside_runtime_domain_def u32_max_def)
  ultimately have "summary_loop (hf_buf f) (table + 4) 0 c 0 b = Some (r, b')"
    using assms fit(5) by (simp add: exc_table_summary_uncached_def Let_def c_def)
  then show ?thesis
    using summary_loop_covers [of "hf_buf f" table 0 c 0 b r b' m] fit(1,2) True
    by (simp add: table_in_function_def c_def u64_max_def)
next
  case False
  have bounds: "sat_mul64 (unat (read_u32 (hf_buf f) table)) 12 = unat (read_u32 (hf_buf f) table) * 12"
    "sat_add64 (unat (read_u32 (hf_buf f) table) * 12) 4 = unat (read_u32 (hf_buf f) table) * 12 + 4"
    using unat_u32 [of "read_u32 (hf_buf f) table"]
    by (simp_all add: sat_mul64_def sat_add64_def u64_max_def)
  show ?thesis
    using assms False unfolding table_in_function_def
    by (auto simp: exc_table_summary_uncached_def table_fits_def Let_def checked_add64_def bounds
        exc_table_pos_outside_runtime_domain_def not_less not_le split: if_splits)
qed

text \<open>A layout fits the large header at \<open>off\<close>: legal flags, and a table inside the function.\<close>

definition shape_fits :: "HbcFile \<Rightarrow> LargeHeaderLayout \<Rightarrow> u64 \<Rightarrow> bool" where
  "shape_fits f shape off \<longleftrightarrow>
     (case get_at (hf_buf f) (off + flags_offset shape) of
        None \<Rightarrow> False
      | Some flags \<Rightarrow> flags AND 3 \<noteq> 3 \<and> \<not> flag_bit 5 flags
          \<and> (flag_bit 3 flags \<longrightarrow> table_in_function (hf_buf f) (align4_u64 (off + header_size shape))
               (read_u32 (hf_buf f) (off + 12))))"

text \<open>Both layouts read the same flags and the same table.\<close>

definition same_decode :: "HbcFile \<Rightarrow> u64 \<Rightarrow> bool" where
  "same_decode f off \<longleftrightarrow> (let buf = hf_buf f;
       t36 = align4_u64 (off + 36); t40 = align4_u64 (off + 40); n = unat (read_u32 buf t36) * 12 + 4
     in case (get_at buf (off + 35), get_at buf (off + 36)) of
          (Some a, Some b) \<Rightarrow> a = b \<and> (flag_bit 3 a \<longrightarrow> read_u32 buf t36 = read_u32 buf t40
             \<and> t40 + n \<le> length buf \<and> slice buf t36 n = slice buf t40 n)
        | _ \<Rightarrow> False)"

definition score_spec :: "HbcFile \<Rightarrow> u64 \<Rightarrow> bool \<times> bool \<times> bool" where
  "score_spec f off = (\<not> shape_fits f Shape36 off, \<not> shape_fits f Shape40 off,
     shape_fits f Shape36 off \<and> shape_fits f Shape40 off \<longrightarrow> same_decode f off)"

text \<open>The scratch caches true scores and true table summaries.\<close>

definition scratch_ok :: "HbcFile \<Rightarrow> SelectionScratch \<Rightarrow> bool" where
  "scratch_ok f s \<longleftrightarrow>
     (\<forall>table r. per_table s table = Some r \<longrightarrow>
        (\<forall>m. covers r m \<longleftrightarrow> table_in_function (hf_buf f) table m))
     \<and> (\<forall>off sc. per_off s off = Some sc \<longrightarrow> sc = score_spec f off)"

lemma new_scratch_ok: "scratch_ok f (new_scratch b)"
  by (simp add: scratch_ok_def new_scratch_def)

lemma not_oob: "\<not> overflow_header_is_oob off len \<longleftrightarrow> off + 40 \<le> len \<and> off + 40 \<le> u64_max"
  by (auto simp: overflow_header_is_oob_def checked_add64_def LARGE_FUNCTION_HEADER_SIZE_def)

lemma sat_add64_eq: "a + b \<le> u64_max \<Longrightarrow> sat_add64 a b = a + b"
  by (simp add: sat_add64_def)

lemma checked_add64_eq: "a + b \<le> u64_max \<Longrightarrow> checked_add64 a b = Some (a + b)"
  by (simp add: checked_add64_def)

lemma layout_bounds: "flags_offset shape \<le> 36" "header_size shape \<le> 40"
  by (cases shape; simp)+

lemma exc_table_summary_ok:
  assumes "exc_table_summary f table s = Some (r, s')" "scratch_ok f s"
  shows "scratch_ok f s' \<and> (covers r m \<longleftrightarrow> table_in_function (hf_buf f) table m)"
proof (cases "per_table s table")
  case None
  then obtain b where b: "exc_table_summary_uncached f table (budget s) = Some (r, b)"
    and s': "s' = s\<lparr>budget := b, per_table := (per_table s)(table := Some r)\<rparr>"
    using assms(1) by (auto simp: exc_table_summary_def bind_eq_Some_conv)
  have "covers r m \<longleftrightarrow> table_in_function (hf_buf f) table m" for m
    using exc_table_summary_uncached_covers [OF b] by blast
  then show ?thesis using assms(2) by (simp add: scratch_ok_def s')
qed (use assms in \<open>auto simp: exc_table_summary_def scratch_ok_def\<close>)

lemma shape_violation_ok:
  assumes "large_header_shape_violation f off shape s = Some (v, s')" "scratch_ok f s"
    "off + 40 \<le> u64_max"
  shows "scratch_ok f s' \<and> (v \<longleftrightarrow> \<not> shape_fits f shape off)"
proof -
  have le: "off + flags_offset shape \<le> u64_max" "off + header_size shape \<le> u64_max" "off + 12 \<le> u64_max"
    using layout_bounds [of shape] assms(3) by linarith+
  note arith = sat_add64_eq [OF le(1)] sat_add64_eq [OF le(2)] checked_add64_eq [OF le(3)]
  have "(case r of None \<Rightarrow> True | Some required \<Rightarrow> n < required) \<longleftrightarrow> \<not> covers r n" for r n
    by (cases r) auto
  note viol = this
  show ?thesis
    using assms(1,2) exc_table_summary_ok
    unfolding large_header_shape_violation_def shape_fits_def byte_at_u64_def Let_def arith viol
    by (auto simp: bind_eq_Some_conv split: option.splits if_splits)
qed

lemma align4_le: "align4_u64 v \<le> v + 3"
  using clear_low2_le [of "sat_add64 v 3"] by (simp add: align4_u64_def sat_add64_def)

lemma align4_mono: "v \<le> w \<Longrightarrow> align4_u64 v \<le> align4_u64 w"
  by (simp add: align4_u64_def clear_low2_def sat_add64_def div_le_mono min_le_iff_disj)

lemma decode_equal_ok:
  assumes "large_header_shapes_decode_equal f off s = Some (e, s')" "scratch_ok f s"
    "off < 2 ^ 40"
  shows "scratch_ok f s' \<and> (e \<longleftrightarrow> same_decode f off)"
proof -
  define t36 t40 c where t: "t36 = align4_u64 (off + 36)" "t40 = align4_u64 (off + 40)"
    "c = unat (read_u32 (hf_buf f) t36)"
  have "t36 \<le> t40" unfolding t by (rule align4_mono) simp
  have small: "off + 43 \<le> u64_max" using assms(3) by (simp add: u64_max_def)
  have sat: "sat_add64 off (flags_offset Shape36) = off + 35" "sat_add64 off (flags_offset Shape40) = off + 36"
    "sat_add64 off (header_size Shape36) = off + 36" "sat_add64 off (header_size Shape40) = off + 40"
    using small by (simp_all add: sat_add64_def)
  have c: "c < 2 ^ 32" using unat_u32 by (simp add: t)
  have "t40 \<le> off + 43" using align4_le [of "off + 40"] by (simp add: t)
  with c \<open>t36 \<le> t40\<close> assms(3)
  have add: "checked_add64 t36 (c * 12 + 4) = Some (t36 + (c * 12 + 4))"
    "checked_add64 t40 (c * 12 + 4) = Some (t40 + (c * 12 + 4))"
    by (simp_all add: checked_add64_def u64_max_def)
  have len: "sat_add64 (sat_mul64 c 12) 4 = c * 12 + 4"
    using c by (simp add: sat_add64_def sat_mul64_def u64_max_def)
  have budget: "scratch_ok f (s\<lparr>budget := b\<rparr>)" for b
    using assms(2) by (simp add: scratch_ok_def)
  show ?thesis
    using assms(1,2) budget \<open>t36 \<le> t40\<close>
    unfolding large_header_shapes_decode_equal_def same_decode_def byte_at_u64_def Let_def sat
      t(1,2) [symmetric] t(3) [symmetric] len
    by (auto simp: add get_range_def slice_def split: option.splits if_splits)
qed

lemma score_ok:
  assumes "score_large_header f off s = Some (sc, s')" "scratch_ok f s" "off < 2 ^ 40"
  shows "scratch_ok f s' \<and> sc = score_spec f off"
proof (cases "per_off s off")
  case (Some c)
  then have "sc = c" "s' = s" using assms(1) by (simp_all add: score_large_header_def)
  then show ?thesis using assms(2) Some unfolding scratch_ok_def by blast
next
  case None
  have small: "off + 40 \<le> u64_max" using assms(3) by (simp add: u64_max_def)
  obtain v36 v40 e s1 s2 s3 where
    1: "large_header_shape_violation f off Shape36 s = Some (v36, s1)"
    and 2: "large_header_shape_violation f off Shape40 s1 = Some (v40, s2)"
    and 3: "(if \<not> v36 \<and> \<not> v40 then large_header_shapes_decode_equal f off s2 else Some (True, s2))
      = Some (e, s3)"
    and sc: "sc = (v36, v40, e)" "s' = s3\<lparr>per_off := (per_off s3)(off := Some (v36, v40, e))\<rparr>"
    using assms(1) None by (auto simp: score_large_header_def bind_eq_Some_conv)
  note v = shape_violation_ok [OF 1 assms(2) small]
    and w = shape_violation_ok [OF 2 conjunct1 [OF shape_violation_ok [OF 1 assms(2) small]] small]
  have "scratch_ok f s3 \<and> (e \<longleftrightarrow> (\<not> v36 \<and> \<not> v40 \<longrightarrow> same_decode f off))"
    using 3 w decode_equal_ok [OF _ conjunct1 [OF w] assms(3)]
    by (auto split: if_splits)
  then show ?thesis
    using v w by (auto simp: sc score_spec_def scratch_ok_def)
qed

text \<open>The large headers that are scored.\<close>

definition scored_off :: "HbcFile \<Rightarrow> u32 \<Rightarrow> u64 option" where
  "scored_off f idx =
     (case overflowed_large_off_v98late f idx of
        None \<Rightarrow> None
      | Some off \<Rightarrow>
          if overflow_header_is_oob off (length (hf_buf f)) \<or> overflow_header_overlaps_synthesized f off
          then None else Some off)"

lemma late_off_bound:
  "push_bit 24 (unat (read_bitfield e 46 8)) OR unat (read_bitfield e 0 25) < (2 :: nat) ^ 40"
proof -
  have a: "unat (read_bitfield e 46 8) < 2 ^ 8" "unat (read_bitfield e 0 25) < 2 ^ 25"
    by (rule read_bitfield_bound, simp)+
  have "push_bit 24 (unat (read_bitfield e 46 8)) < 2 ^ 40" using a(1) by (simp add: push_bit_eq_mult)
  moreover have "unat (read_bitfield e 0 25) < 2 ^ 40" using a(2) by simp
  ultimately have "take_bit 40 (push_bit 24 (unat (read_bitfield e 46 8)) OR unat (read_bitfield e 0 25))
      = push_bit 24 (unat (read_bitfield e 46 8)) OR unat (read_bitfield e 0 25)"
    by (simp only: take_bit_or take_bit_nat_eq_self)
  then show ?thesis using take_bit_nat_less_exp [of 40] by metis
qed

lemma scored_off_bound: "scored_off f idx = Some off \<Longrightarrow> off < 2 ^ 40"
  using late_off_bound
  by (auto simp: scored_off_def overflowed_large_off_v98late_def bind_eq_Some_conv Let_def
      split: option.splits if_splits)

lemma sat_add32_1_neq_0 [simp]: "sat_add32 x 1 \<noteq> 0"
proof -
  have "1 + unat x \<le> u32_max \<Longrightarrow> 1 + x \<noteq> 0"
  proof
    assume le: "1 + unat x \<le> u32_max" and "1 + x = 0"
    then have "x = -1" by (simp add: add_eq_0_iff)
    with le show False by (simp add: u32_max_def unsigned_minus_1_eq_mask mask_eq_exp_minus_1)
  qed
  then show ?thesis by (simp add: sat_add32_def add.commute)
qed

lemma selection_loop_ok:
  assumes "scratch_ok f s" "\<not> ta_exhausted (selection_loop f idxs t s)"
  shows "(ta_violations36 (selection_loop f idxs t s) = 0 \<longleftrightarrow> ta_violations36 t = 0 \<and>
      (\<forall>off \<in> set (List.map_filter (scored_off f) idxs). shape_fits f Shape36 off))
    \<and> (ta_violations40 (selection_loop f idxs t s) = 0 \<longleftrightarrow> ta_violations40 t = 0 \<and>
      (\<forall>off \<in> set (List.map_filter (scored_off f) idxs). shape_fits f Shape40 off))
    \<and> (ta_disagreements (selection_loop f idxs t s) = 0 \<longleftrightarrow> ta_disagreements t = 0 \<and>
      (\<forall>off \<in> set (List.map_filter (scored_off f) idxs).
         shape_fits f Shape36 off \<and> shape_fits f Shape40 off \<longrightarrow> same_decode f off))"
  using assms
proof (induction idxs arbitrary: t s)
  case Nil
  then show ?case by (simp add: List.map_filter_simps)
next
  case (Cons idx idxs)
  show ?case
  proof (cases "scored_off f idx")
    case None
    then have "selection_loop f (idx # idxs) t s = selection_loop f idxs t s"
      by (auto simp: scored_off_def split: option.splits if_splits)
    then show ?thesis using Cons None by (simp add: List.map_filter_simps)
  next
    case (Some off)
    define t' where "t' = t\<lparr>ta_scored := sat_add32 (ta_scored t) 1\<rparr>"
    have step: "selection_loop f (idx # idxs) t s = (case score_large_header f off s of
          None \<Rightarrow> t'\<lparr>ta_exhausted := True\<rparr>
        | Some (sc, s') \<Rightarrow> selection_loop f idxs (count_score sc t') s')"
      using Some by (auto simp: scored_off_def t'_def split: option.splits if_splits)
    then obtain sc s' where sc: "score_large_header f off s = Some (sc, s')"
      using Cons.prems(2) by (auto split: option.splits)
    note ok = score_ok [OF sc Cons.prems(1) scored_off_bound [OF Some]]
    have "\<not> ta_exhausted (selection_loop f idxs (count_score sc t') s')"
      using Cons.prems(2) step sc by simp
    note IH = Cons.IH [OF conjunct1 [OF ok] this]
    have "ta_violations36 (count_score sc t') = 0 \<longleftrightarrow> ta_violations36 t = 0 \<and> shape_fits f Shape36 off"
      "ta_violations40 (count_score sc t') = 0 \<longleftrightarrow> ta_violations40 t = 0 \<and> shape_fits f Shape40 off"
      "ta_disagreements (count_score sc t') = 0 \<longleftrightarrow> ta_disagreements t = 0 \<and>
         (shape_fits f Shape36 off \<and> shape_fits f Shape40 off \<longrightarrow> same_decode f off)"
      using ok by (auto simp: count_score_def score_spec_def t'_def)
    then show ?thesis
      using IH step sc Some by (auto simp: List.map_filter_simps)
  qed
qed

section \<open>The choice\<close>

definition scored_offs :: "HbcFile \<Rightarrow> u64 list" where
  "scored_offs f = List.map_filter (scored_off f) (function_indices f)"

definition coherent :: "HbcFile \<Rightarrow> LargeHeaderLayout \<Rightarrow> bool" where
  "coherent f shape \<longleftrightarrow> list_all (shape_fits f shape) (scored_offs f)"

definition layout_spec :: "HbcFile \<Rightarrow> LargeHeaderLayout option" where
  "layout_spec f =
     (if coherent f Shape36 \<and> (coherent f Shape40 \<longrightarrow> list_all (same_decode f) (scored_offs f))
      then Some Shape36
      else if coherent f Shape40 \<and> \<not> coherent f Shape36 then Some Shape40
      else None)"

lemma tally_ok:
  assumes "\<not> ta_exhausted (selection_tally f)"
  shows "ta_violations36 (selection_tally f) = 0 \<longleftrightarrow> coherent f Shape36"
    "ta_violations40 (selection_tally f) = 0 \<longleftrightarrow> coherent f Shape40"
    "coherent f Shape36 \<Longrightarrow> coherent f Shape40 \<Longrightarrow>
       ta_disagreements (selection_tally f) = 0 \<longleftrightarrow> list_all (same_decode f) (scored_offs f)"
  using selection_loop_ok [OF new_scratch_ok assms [unfolded selection_tally_def]]
  by (auto simp: selection_tally_def coherent_def scored_offs_def list_all_iff)

lemma selected_coherent:
  "hf_large_header_layout (fst (select_v98_large_header_layout f)) = Some shape \<Longrightarrow> is_v98_late f \<Longrightarrow>
     coherent f shape"
  using tally_ok [of f]
  by (auto simp: select_v98_large_header_layout_def Let_def split: if_splits)

text \<open>
  C3. The choice of the large-header layout of a version-98 late-form file, whatever its caches
  answer: a layout is chosen exactly when the work budget was not used up and the whole
  population of overflowed headers fits one layout only, or fits both with the same decoding;
  otherwise no layout is chosen and one finding records why. No other field changes.
\<close>

theorem select_layout_refines:
  "case select_v98_large_header_layout f of (f', ws) \<Rightarrow>
     f' = f\<lparr>hf_large_header_layout := hf_large_header_layout f'\<rparr>
     \<and> (if \<not> is_v98_late f then f' = f \<and> ws = []
        else if ta_exhausted (selection_tally f)
        then hf_large_header_layout f' = None \<and> length ws = 1
        else hf_large_header_layout f' = layout_spec f
          \<and> length ws = (if layout_spec f = None then 1 else 0))"
proof (cases "is_v98_late f \<and> \<not> ta_exhausted (selection_tally f)")
  case True
  then have "\<not> ta_exhausted (selection_tally f)" by simp
  from tally_ok [OF this] True show ?thesis
    unfolding select_v98_large_header_layout_def Let_def
    by (cases "coherent f Shape36"; cases "coherent f Shape40")
      (auto simp: layout_spec_def split: if_splits)
qed (auto simp: select_v98_large_header_layout_def Let_def)

end
