(* ===== verification/Hermes_Regions.thy ===== *)
theory Hermes_Regions
  imports Hermes_Layout
begin

text \<open>
  The validation of the function bodies (\<open>validate_function_regions\<close> of \<open>parser/mod.rs\<close>): the
  first pass resolves every function and collects the body spans, the second looks for overlaps,
  the third checks the exception handlers. Functions whose metadata cannot be trusted are marked
  unrecognized.
\<close>

definition MAX_FUNCTION_BODY_DEDUPS :: u32 where
  "MAX_FUNCTION_BODY_DEDUPS = 65535"

section \<open>Unrecognized functions\<close>

text \<open>\<open>slice::binary_search_by_key\<close> of the standard library.\<close>

function search_base :: "u32 list \<Rightarrow> u32 \<Rightarrow> nat \<Rightarrow> nat \<Rightarrow> nat" where
  "search_base ks k base n =
     (if n \<le> 1 then base
      else
        let half = n div 2; mid = base + half
        in search_base ks k (if k < ks ! mid then base else mid) (n - half))"
  by pat_completeness auto
termination
  by (relation "measure (\<lambda>(ks, k, base, n). n)") auto

declare search_base.simps [simp del]

definition binary_search_ok :: "u32 list \<Rightarrow> u32 \<Rightarrow> bool" where
  "binary_search_ok ks k = (if ks = [] then False else ks ! search_base ks k 0 (length ks) = k)"

definition is_function_unrecognized :: "HbcFile \<Rightarrow> u32 \<Rightarrow> bool" where
  "is_function_unrecognized f idx = binary_search_ok (map uf_func_idx (hf_unrecognized_functions f)) idx"

fun merge_sorted_unrecognized ::
  "UnrecognizedFunction list \<Rightarrow> UnrecognizedFunction list \<Rightarrow> UnrecognizedFunction list" where
  "merge_sorted_unrecognized [] b = b"
| "merge_sorted_unrecognized a [] = a"
| "merge_sorted_unrecognized (x # a) (y # b) =
     (if uf_func_idx x \<le> uf_func_idx y then x # merge_sorted_unrecognized a (y # b)
      else y # merge_sorted_unrecognized (x # a) b)"

section \<open>Pass 1: resolve every function\<close>

type_synonym body_span = "u32 \<times> u32 \<times> u32"

text \<open>The errors that mark a function, with the finding the pass records.\<close>

fun unresolved :: "hermes_error \<Rightarrow> (UnrecognizedFunction \<times> hermes_finding list) option" where
  "unresolved (OverflowedHeaderOutOfBounds func_idx large_off buf_len) =
     Some (\<lparr>uf_func_idx = func_idx, uf_reason = UR_OverflowedHeaderOutOfBounds large_off buf_len\<rparr>,
           [F_OverflowedHeaderOutOfBounds func_idx large_off buf_len])"
| "unresolved (OverflowedHeaderOverlapsSynthesizedRegion func_idx large_off) =
     Some (\<lparr>uf_func_idx = func_idx, uf_reason = UR_OverflowedHeaderOverlapsSynthesizedRegion large_off\<rparr>,
           [F_OverflowedHeaderOverlapsSynthesizedRegion func_idx large_off])"
| "unresolved (LargeHeaderLayoutAmbiguous func_idx large_off) =
     Some (\<lparr>uf_func_idx = func_idx, uf_reason = UR_LargeHeaderLayoutAmbiguous large_off\<rparr>, [])"
| "unresolved _ = None"

datatype pass1_step = Mark UnrecognizedFunction | NoBody | Body body_span

definition region_pass1_step :: "HbcFile \<Rightarrow> u32 \<Rightarrow> pass1_step hermes" where
  "region_pass1_step f idx =
     (case function_get_checked f idx of
        (Inl e, ws) \<Rightarrow>
          (case unresolved e of
             Some (u, vs) \<Rightarrow> (Inr (Mark u), ws @ vs)
           | None \<Rightarrow> (Inl e, ws))
      | (Inr fd, ws) \<Rightarrow>
          (case exc_table_overlaps_synthesized f idx of
             (Some exc_offset, vs) \<Rightarrow>
               (Inr (Mark \<lparr>uf_func_idx = idx,
                           uf_reason = UR_ExceptionTableOverlapsSynthesizedRegion exc_offset\<rparr>),
                ws @ vs @ [F_ExceptionTableOverlapsSynthesizedRegion idx exc_offset])
           | (None, vs) \<Rightarrow>
               if fd_size fd = 0 then (Inr NoBody, ws @ vs)
               else
                 (case checked_add64 (unat (fd_offset fd)) (unat (fd_size fd)) of
                    None \<Rightarrow> (Inl (ArithmeticOverflow
                      ''function_offset_u64 + function_size_u64 in validate_function_regions''), ws @ vs)
                  | Some end_off \<Rightarrow>
                      if fd_offset fd < fst (hf_bytecode_region f)
                         \<or> unat (snd (hf_bytecode_region f)) < end_off
                      then (Inl (FunctionBodyOutOfBytecodeRegion idx (fd_offset fd) (fd_size fd)
                              (fst (hf_bytecode_region f)) (snd (hf_bytecode_region f))), ws @ vs)
                      else (Inr (Body (idx, fd_offset fd, fd_size fd)), ws @ vs))))"

fun region_pass1 ::
  "HbcFile \<Rightarrow> u32 list \<Rightarrow> UnrecognizedFunction list \<Rightarrow> body_span list \<Rightarrow>
     (UnrecognizedFunction list \<times> body_span list) hermes" where
  "region_pass1 f [] unrecognized spans = lret (unrecognized, spans)"
| "region_pass1 f (idx # idxs) unrecognized spans =
     lbind (region_pass1_step f idx) (\<lambda>step. case step of
         Mark u \<Rightarrow> region_pass1 f idxs (unrecognized @ [u]) spans
       | NoBody \<Rightarrow> region_pass1 f idxs unrecognized spans
       | Body b \<Rightarrow> region_pass1 f idxs unrecognized (spans @ [b]))"

section \<open>Pass 2: overlaps\<close>

definition span_off :: "body_span \<Rightarrow> u32" where
  "span_off s = fst (snd s)"

text \<open>\<open>spans.windows(2)\<close>, with the count of identical neighbours and the first of them.\<close>

fun region_pass2 ::
  "body_span list \<Rightarrow> u32 \<Rightarrow> (u32 \<times> u32 \<times> u32 \<times> u32) option \<Rightarrow>
     hermes_error + u32 \<times> (u32 \<times> u32 \<times> u32 \<times> u32) option" where
  "region_pass2 ((a_idx, a_off, a_size) # (b_idx, b_off, b_size) # rest) dedup_count first_dedup =
     (if a_off = b_off \<and> a_size = b_size
      then region_pass2 ((b_idx, b_off, b_size) # rest) (sat_add32 dedup_count 1)
             (case first_dedup of None \<Rightarrow> Some (a_off, a_size, a_idx, b_idx) | Some d \<Rightarrow> Some d)
      else case checked_add32 a_off a_size of
          None \<Rightarrow> Inl (ArithmeticOverflow
            ''a_off + a_size in validate_function_regions Pass 2 (proven safe by Pass 1)'')
        | Some a_end \<Rightarrow>
            if unat b_off < unat a_end
            then Inl (FunctionBodyOverlap a_idx a_off a_size b_idx b_off b_size)
            else region_pass2 ((b_idx, b_off, b_size) # rest) dedup_count first_dedup)"
| "region_pass2 _ dedup_count first_dedup = Inr (dedup_count, first_dedup)"

definition dedup_check :: "u32 \<times> (u32 \<times> u32 \<times> u32 \<times> u32) option \<Rightarrow> hermes_error + unit" where
  "dedup_check d =
     (case d of
        (dedup_count, Some (first_offset, first_size, first_a_idx, first_b_idx)) \<Rightarrow>
          if MAX_FUNCTION_BODY_DEDUPS < dedup_count
          then Inl (FunctionBodyDedupOverflow dedup_count MAX_FUNCTION_BODY_DEDUPS first_offset
                      first_size first_a_idx first_b_idx)
          else Inr ()
      | (_, None) \<Rightarrow> Inr ())"

section \<open>Pass 3: exception handlers\<close>

fun handler_scan ::
  "HbcFile \<Rightarrow> u32 \<Rightarrow> u32 \<Rightarrow> u32 list \<Rightarrow> UnrecognizedFunction option with_findings" where
  "handler_scan f idx fn_size [] = (None, [])"
| "handler_scan f idx fn_size (h_idx # hs) =
     (case function_exception_get f idx h_idx of (eh, ws) \<Rightarrow>
      if eh_start eh < eh_end eh \<and> eh_end eh \<le> fn_size \<and> eh_target eh < fn_size
      then (case handler_scan f idx fn_size hs of (r, vs) \<Rightarrow> (r, ws @ vs))
      else (Some \<lparr>uf_func_idx = idx, uf_reason = UR_ExceptionHandlerOutOfFunctionRange h_idx
                   (eh_start eh) (eh_end eh) (eh_target eh) fn_size\<rparr>,
            ws @ [F_ExceptionHandlerOutOfFunctionRange idx h_idx (eh_start eh) (eh_end eh)
                    (eh_target eh) fn_size]))"

fun region_pass3 ::
  "HbcFile \<Rightarrow> UnrecognizedFunction list \<Rightarrow> u32 list \<Rightarrow> UnrecognizedFunction list \<Rightarrow>
     UnrecognizedFunction list hermes" where
  "region_pass3 f unrecognized [] out = lret out"
| "region_pass3 f unrecognized (idx # idxs) out =
     (if binary_search_ok (map uf_func_idx unrecognized) idx
      then region_pass3 f unrecognized idxs out
      else case function_get_checked f idx of
          (Inl e, ws) \<Rightarrow>
            if unresolved e \<noteq> None
            then lbind (lemit ws) (\<lambda>_. region_pass3 f unrecognized idxs out)
            else (Inl e, ws)
        | (Inr fd, ws) \<Rightarrow>
            (case function_exception_count f idx of (count, vs) \<Rightarrow>
             case handler_scan f idx (fd_size fd) (u32_range count) of (r, us) \<Rightarrow>
             lbind (lemit (ws @ vs @ us)) (\<lambda>_. region_pass3 f unrecognized idxs
               (case r of None \<Rightarrow> out | Some u \<Rightarrow> out @ [u]))))"

section \<open>The whole validation\<close>

definition validate_function_regions :: "HbcFile \<Rightarrow> HbcFile hermes" where
  "validate_function_regions f =
     lbind (region_pass1 f (function_indices f) [] []) (\<lambda>(unrecognized, spans).
     lbind (llift (region_pass2 (sort_key span_off spans) 0 None)) (\<lambda>d.
     lbind (llift (dedup_check d)) (\<lambda>_.
     lbind (region_pass3 f unrecognized (function_indices f) []) (\<lambda>pass3_unrecognized.
     lret (f\<lparr>hf_unrecognized_functions :=
                merge_sorted_unrecognized unrecognized pass3_unrecognized\<rparr>)))))"

section \<open>The list of unrecognized functions\<close>

lemma search_base_bounds:
  assumes "0 < n"
  shows "base \<le> search_base ks k base n \<and> search_base ks k base n < base + n"
  using assms
proof (induction ks k base n rule: search_base.induct)
  case (1 ks k base n)
  show ?case
    by (subst (1 2) search_base.simps) (use 1 in \<open>force simp: Let_def split: if_splits\<close>)
qed

lemma search_base_finds:
  assumes "sorted ks" "0 < n" "base + n \<le> length ks" "i < length ks" "ks ! i = k"
    "base \<le> i" "i < base + n"
    "base + n < length ks \<Longrightarrow> k < ks ! (base + n)"
  shows "ks ! search_base ks k base n = k"
  using assms
proof (induction ks k base n arbitrary: i rule: search_base.induct)
  case (1 ks k base n)
  show ?case
  proof (cases "n \<le> 1")
    case True
    then have "i = base" using "1.prems"(6,7) by linarith
    then show ?thesis using "1.prems"(5) True by (subst search_base.simps) simp
  next
    case False
    define mid where "mid = base + n div 2"
    have mid: "base < mid" "mid < base + n" "n div 2 < n" using False by (auto simp: mid_def)
    note IH = "1.IH" [OF False refl refl, folded mid_def]
    have step: "search_base ks k base n
        = search_base ks k (if k < ks ! mid then base else mid) (n - n div 2)"
      using False by (subst search_base.simps) (simp add: Let_def mid_def)
    show ?thesis
    proof (cases "k < ks ! mid")
      case True
      then have "i < mid"
        using "1.prems" mid sorted_nth_mono [of ks mid i] by (metis leD leI)
      then have i: "i < base + (n - n div 2)" by (simp add: mid_def)
      have half: "mid \<le> base + (n - n div 2)" unfolding mid_def by presburger
      have up: "k < ks ! (base + (n - n div 2))" if "base + (n - n div 2) < length ks"
        using True sorted_nth_mono [OF "1.prems"(1) half that] by simp
      show ?thesis
        unfolding step using IH [of i] True "1.prems" i up False by simp
    next
      case False
      then have "ks ! mid \<le> k" by simp
      obtain j where j: "mid \<le> j" "j < base + n" "ks ! j = k"
      proof (cases "mid \<le> i")
        case False
        then have "ks ! i \<le> ks ! mid"
          using sorted_nth_mono [OF "1.prems"(1), of i mid] "1.prems"(3) mid by simp
        with \<open>ks ! mid \<le> k\<close> "1.prems"(5) have "ks ! mid = k" by simp
        then show thesis using mid by (intro that [of mid]) auto
      qed (use "1.prems" that in blast)
      have n: "mid + (n - n div 2) = base + n" by (simp add: mid_def)
      show ?thesis
        unfolding step using IH [of j] False "1.prems" j n mid by simp
    qed
  qed
qed

text \<open>On a sorted list the search finds exactly the members.\<close>

lemma binary_search_sorted: "sorted ks \<Longrightarrow> binary_search_ok ks k \<longleftrightarrow> k \<in> set ks"
  using search_base_bounds [of "length ks" 0 ks k] search_base_finds [of ks "length ks" 0 _ k]
  by (auto simp: binary_search_ok_def in_set_conv_nth)

lemma set_merge: "set (merge_sorted_unrecognized a b) = set a \<union> set b"
  by (induction a b rule: merge_sorted_unrecognized.induct) auto

lemma length_merge: "length (merge_sorted_unrecognized a b) = length a + length b"
  by (induction a b rule: merge_sorted_unrecognized.induct) auto

lemma sorted_merge:
  "sorted_wrt (<) (map uf_func_idx a) \<Longrightarrow> sorted_wrt (<) (map uf_func_idx b) \<Longrightarrow>
     uf_func_idx ` set a \<inter> uf_func_idx ` set b = {} \<Longrightarrow>
     sorted_wrt (<) (map uf_func_idx (merge_sorted_unrecognized a b))"
proof (induction a b rule: merge_sorted_unrecognized.induct)
  case (3 x a y b)
  then show ?case
    by (auto simp: set_merge)
qed simp_all

section \<open>What pass 1 finds\<close>

definition marked :: "HbcFile \<Rightarrow> u32 \<Rightarrow> UnrecognizedFunction option" where
  "marked f i = (case fst (region_pass1_step f i) of Inr (Mark u) \<Rightarrow> Some u | _ \<Rightarrow> None)"

definition body :: "HbcFile \<Rightarrow> u32 \<Rightarrow> body_span option" where
  "body f i = (case fst (region_pass1_step f i) of Inr (Body b) \<Rightarrow> Some b | _ \<Rightarrow> None)"

lemma region_pass1_Inr:
  "fst (region_pass1 f idxs un sp) = Inr (un', sp') \<longleftrightarrow>
     (\<forall>i \<in> set idxs. \<exists>x. fst (region_pass1_step f i) = Inr x)
     \<and> un' = un @ List.map_filter (marked f) idxs \<and> sp' = sp @ List.map_filter (body f) idxs"
proof (induction idxs arbitrary: un sp)
  case (Cons i idxs)
  show ?case
  proof (cases "fst (region_pass1_step f i)")
    case (Inr x)
    then show ?thesis
      by (cases x) (auto simp: lbind_eq_Inr Cons List.map_filter_simps marked_def body_def)
  qed (simp add: lbind_eq_Inr)
qed (auto simp: List.map_filter_simps)

lemma lbind_eq_Inl:
  "fst (lbind m f) = Inl e \<longleftrightarrow> fst m = Inl e \<or> (\<exists>x. fst m = Inr x \<and> fst (f x) = Inl e)"
  by (cases m; cases "fst m") (auto split: prod.splits)

lemma region_pass1_Inl:
  "fst (region_pass1 f idxs un sp) = Inl e \<Longrightarrow> \<exists>i \<in> set idxs. fst (region_pass1_step f i) = Inl e"
proof (induction idxs arbitrary: un sp)
  case (Cons i idxs)
  then show ?case
    by (cases "fst (region_pass1_step f i)") (auto simp: lbind_eq_Inl split: pass1_step.splits)
qed (simp add: lret_def)

lemma function_get_checked_Inl:
  assumes "fst (function_get_checked f i) = Inl e" "string_tables_ok f"
  shows "\<exists>u vs. unresolved e = Some (u, vs) \<and> uf_func_idx u = i"
proof (cases "i < hf_function_count f")
  case True
  then show ?thesis
    using assms(1) func_entry_in [OF assms(2) True]
    by (auto simp: function_get_checked_def lfail_def lret_def Let_def split: if_splits)
qed (use assms(1) in \<open>simp add: function_get_checked_def lret_def not_less\<close>)

text \<open>A function whose body pass 1 accepts for placement.\<close>

definition located :: "HbcFile \<Rightarrow> u32 \<Rightarrow> FunctionData \<Rightarrow> bool" where
  "located f i fd \<longleftrightarrow> i < hf_function_count f \<and> fst (function_get_checked f i) = Inr fd
     \<and> fst (exc_table_overlaps_synthesized f i) = None \<and> fd_size fd \<noteq> 0"

definition in_bytecode_region :: "HbcFile \<Rightarrow> FunctionData \<Rightarrow> bool" where
  "in_bytecode_region f fd \<longleftrightarrow> fst (hf_bytecode_region f) \<le> fd_offset fd
     \<and> unat (fd_offset fd) + unat (fd_size fd) \<le> unat (snd (hf_bytecode_region f))"

lemma body_end_fits [simp]: "checked_add64 (unat (a :: u32)) (unat (b :: u32)) = Some (unat a + unat b)"
  using unat_u32 [of a] unat_u32 [of b] by (simp add: checked_add64_def u64_max_def)

lemma pass1_step_Inl:
  assumes "string_tables_ok f" "i < hf_function_count f"
  shows "fst (region_pass1_step f i) = Inl e \<longleftrightarrow>
    (\<exists>fd. located f i fd \<and> \<not> in_bytecode_region f fd
      \<and> e = FunctionBodyOutOfBytecodeRegion i (fd_offset fd) (fd_size fd)
              (fst (hf_bytecode_region f)) (snd (hf_bytecode_region f)))"
  using function_get_checked_Inl [of f i, OF _ assms(1)] assms(2)
  by (auto simp: region_pass1_step_def located_def in_bytecode_region_def not_le not_less
      split: prod.splits sum.splits option.splits if_splits)

lemma body_iff:
  "body f i = Some b \<longleftrightarrow> (\<exists>fd. fst (function_get_checked f i) = Inr fd
     \<and> fst (exc_table_overlaps_synthesized f i) = None \<and> fd_size fd \<noteq> 0
     \<and> in_bytecode_region f fd \<and> b = (i, fd_offset fd, fd_size fd))"
  by (auto simp: body_def region_pass1_step_def in_bytecode_region_def not_le not_less
      split: prod.splits sum.splits option.splits if_splits)

lemma marked_idx:
  assumes "marked f i = Some u" "string_tables_ok f"
  shows "uf_func_idx u = i"
  using assms function_get_checked_Inl [of f i, OF _ assms(2)]
  by (auto simp: marked_def region_pass1_step_def split: prod.splits sum.splits option.splits if_splits)

lemma not_marked:
  assumes "marked f i = None" "string_tables_ok f"
  shows "\<exists>fd. fst (function_get_checked f i) = Inr fd \<and> fst (exc_table_overlaps_synthesized f i) = None"
  using assms function_get_checked_Inl [of f i, OF _ assms(2)]
  by (auto simp: marked_def region_pass1_step_def split: prod.splits sum.splits option.splits if_splits)

section \<open>What pass 2 decides\<close>

definition span_stop :: "body_span \<Rightarrow> nat" where
  "span_stop s = unat (span_off s) + unat (snd (snd s))"

definition span_real :: "body_span \<Rightarrow> bool" where
  "span_real s \<longleftrightarrow> snd (snd s) \<noteq> 0 \<and> span_stop s < 2 ^ 32"

text \<open>Identical bodies, or \<open>a\<close> ends before \<open>b\<close> starts.\<close>

definition before :: "body_span \<Rightarrow> body_span \<Rightarrow> bool" where
  "before a b \<longleftrightarrow> snd a = snd b \<or> span_stop a \<le> unat (span_off b)"

lemma before_transp: "transp before"
  by (auto simp: transp_def before_def span_stop_def span_off_def)

fun adjacent_dups :: "body_span list \<Rightarrow> nat" where
  "adjacent_dups (a # b # rest) = (if snd a = snd b then 1 else 0) + adjacent_dups (b # rest)"
| "adjacent_dups _ = 0"

lemma checked_add32_real:
  "span_real (a_idx, a_off, a_size) \<Longrightarrow> checked_add32 a_off a_size = Some (a_off + a_size)
     \<and> unat (a_off + a_size) = unat a_off + unat a_size"
  by (simp add: span_real_def span_stop_def span_off_def checked_add32_def u32_max_def unat_add_lem [THEN iffD1])

lemma unat_sat_add32_1: "unat (sat_add32 n 1) = min (unat n + 1) u32_max"
proof (cases "unat n + 1 \<le> u32_max")
  case True
  then have "unat (n + 1) = unat n + 1"
    using unat_add_lem [of n 1] by (simp add: u32_max_def)
  then show ?thesis using True by (simp add: sat_add32_def)
qed (simp add: sat_add32_def unsigned_minus_1_eq_mask mask_eq_exp_minus_1 u32_max_def)

lemma ends_before:
  assumes "span_real (a_idx, a_off, a_size)"
  shows "unat b_off < unat (a_off + a_size) \<longleftrightarrow>
    \<not> span_stop (a_idx, a_off, a_size) \<le> unat (span_off (b_idx, b_off, b_size))"
  using checked_add32_real [OF assms] by (simp add: span_stop_def span_off_def not_le)

lemma region_pass2_step:
  assumes "span_real a"
  shows "region_pass2 (a # b # rest) n first =
    (if snd a = snd b
     then region_pass2 (b # rest) (sat_add32 n 1)
            (case first of None \<Rightarrow> Some (fst (snd a), snd (snd a), fst a, fst b) | Some d \<Rightarrow> Some d)
     else if before a b then region_pass2 (b # rest) n first
     else Inl (FunctionBodyOverlap (fst a) (fst (snd a)) (snd (snd a)) (fst b) (fst (snd b)) (snd (snd b))))"
proof -
  obtain ai ao as bi bo bs where ab: "a = (ai, ao, as)" "b = (bi, bo, bs)" by (metis surj_pair)
  show ?thesis
    using checked_add32_real [of ai ao as] ends_before [of ai ao as bo bi bs] assms
    unfolding ab by (auto simp: before_def cong: option.case_cong)
qed

lemma region_pass2_accepts:
  "\<forall>s \<in> set spans. span_real s \<Longrightarrow>
     (\<exists>d. region_pass2 spans n first = Inr d) \<longleftrightarrow> successively before spans"
proof (induction spans arbitrary: n first rule: induct_list012)
  case (3 a b rest)
  then show ?case
    by (simp add: region_pass2_step) (auto simp: before_def)
qed auto

lemma region_pass2_Inr:
  "region_pass2 spans n first = Inr (n', first') \<Longrightarrow> \<forall>s \<in> set spans. span_real s \<Longrightarrow>
     unat n' = min (unat n + adjacent_dups spans) u32_max
     \<and> (first' = None \<longleftrightarrow> first = None \<and> adjacent_dups spans = 0)"
proof (induction spans arbitrary: n first rule: induct_list012)
  case (3 a b rest)
  then have "region_pass2 (b # rest) (if snd a = snd b then sat_add32 n 1 else n)
      (if snd a = snd b then case first of None \<Rightarrow> Some (fst (snd a), snd (snd a), fst a, fst b)
         | Some d \<Rightarrow> Some d else first) = Inr (n', first')"
    by (simp add: region_pass2_step split: if_splits)
  note IH = "3.IH"(2) [OF this]
  show ?case
  proof (cases "snd a = snd b")
    case True
    then show ?thesis using IH "3.prems"(2)
      by (cases first) (auto simp: unat_sat_add32_1 min_def)
  qed (use IH "3.prems"(2) in simp)
qed (use unat_u32 [of n'] in \<open>auto simp: u32_max_def min_def not_le\<close>)

text \<open>The duplicate reported is the first pair of bodies that are the same span.\<close>

lemma region_pass2_first_kept:
  "region_pass2 spans n (Some d) = Inr (n', first) \<Longrightarrow> \<forall>s \<in> set spans. span_real s \<Longrightarrow> first = Some d"
  by (induction spans arbitrary: n rule: induct_list012) (auto simp: region_pass2_step split: if_splits)

lemma region_pass2_first:
  assumes "region_pass2 spans n None = Inr (n', Some (off, sz, a, b))" "\<forall>s \<in> set spans. span_real s"
    "sorted (map span_off spans)" "distinct (map fst spans)"
  shows "(a, off, sz) \<in> set spans \<and> (b, off, sz) \<in> set spans \<and> a \<noteq> b
    \<and> (\<forall>x \<in> set spans. \<forall>y \<in> set spans. x \<noteq> y \<longrightarrow> snd x = snd y \<longrightarrow> off \<le> span_off x)"
  using assms
proof (induction spans arbitrary: n rule: induct_list012)
  case (3 x y rest)
  show ?case
  proof (cases "snd x = snd y")
    case True
    then have "region_pass2 (y # rest) (sat_add32 n 1) (Some (fst (snd x), snd (snd x), fst x, fst y))
        = Inr (n', Some (off, sz, a, b))"
      using "3.prems"(1,2) by (simp add: region_pass2_step)
    from region_pass2_first_kept [OF this] have "off = fst (snd x)" "sz = snd (snd x)" "a = fst x" "b = fst y"
      using "3.prems"(2) by auto
    moreover have "(fst y, fst (snd x), snd (snd x)) = y" by (simp add: True)
    ultimately show ?thesis using "3.prems"(3,4) by (auto simp: span_off_def)
  next
    case False
    then have before: "before x y" and rest: "region_pass2 (y # rest) n None = Inr (n', Some (off, sz, a, b))"
      using "3.prems"(1,2) by (simp_all add: region_pass2_step split: if_splits)
    have tail: "\<forall>s \<in> set (y # rest). span_real s" "sorted (map span_off (y # rest))" "distinct (map fst (y # rest))"
      using "3.prems"(2-4) by auto
    have apart: "snd z \<noteq> snd x" if "z \<in> set (y # rest)" for z
    proof
      assume z: "snd z = snd x"
      have "span_off y \<le> span_off z" using that tail(2) by auto
      then have "span_stop x \<le> unat (span_off x)"
        using before False z by (auto simp: before_def span_off_def word_le_nat_alt)
      moreover have "0 < unat (snd (snd x))" using "3.prems"(2) by (simp add: span_real_def unat_gt_0)
      ultimately show False by (simp add: span_stop_def)
    qed
    note IH = "3.IH"(2) [OF rest tail]
    have "off \<le> span_off v" if "v \<in> set (x # y # rest)" "w \<in> set (x # y # rest)" "v \<noteq> w" "snd v = snd w" for v w
    proof -
      have "v \<in> set (y # rest)" "w \<in> set (y # rest)" using that apart by (metis set_ConsD)+
      then show ?thesis using IH that(3,4) by blast
    qed
    then show ?thesis using IH by (meson list.set_intros(2))
  qed
qed simp_all

text \<open>Two different bodies overlap, and the error that reports it.\<close>

definition clash :: "body_span \<Rightarrow> body_span \<Rightarrow> hermes_error \<Rightarrow> bool" where
  "clash a b e \<longleftrightarrow> fst a \<noteq> fst b \<and> snd a \<noteq> snd b \<and> span_off a \<le> span_off b
     \<and> unat (span_off b) < span_stop a
     \<and> e = FunctionBodyOverlap (fst a) (fst (snd a)) (snd (snd a)) (fst b) (fst (snd b)) (snd (snd b))"

lemma region_pass2_Inl:
  "region_pass2 spans n first = Inl e \<Longrightarrow> \<forall>s \<in> set spans. span_real s \<Longrightarrow>
     sorted (map span_off spans) \<Longrightarrow> distinct (map fst spans) \<Longrightarrow>
     \<exists>a \<in> set spans. \<exists>b \<in> set spans. clash a b e"
proof (induction spans arbitrary: n first rule: induct_list012)
  case (3 a b rest)
  show ?case
  proof (cases "snd a = snd b \<or> before a b")
    case True
    then obtain n' first' where "region_pass2 (b # rest) n' first' = Inl e"
      using "3.prems"(1,2) by (simp add: region_pass2_step split: if_splits)
    then have "\<exists>a \<in> set (b # rest). \<exists>b \<in> set (b # rest). clash a b e"
      by (rule "3.IH"(2)) (use "3.prems"(2-4) in auto)
    then show ?thesis by (meson list.set_intros(2))
  next
    case False
    then have "clash a b e"
      using "3.prems" by (auto simp: region_pass2_step before_def clash_def not_le)
    then show ?thesis by auto
  qed
qed auto

text \<open>Sorted by offset, acceptance is pairwise and the duplicates are counted by their spans.\<close>

lemma successively_before_iff:
  assumes "sorted (map span_off spans)" "\<forall>s \<in> set spans. span_real s" "distinct spans"
  shows "successively before spans \<longleftrightarrow>
    (\<forall>a \<in> set spans. \<forall>b \<in> set spans. a \<noteq> b \<longrightarrow> before a b \<or> before b a)"
proof -
  have "sorted_wrt before spans \<longleftrightarrow>
    (\<forall>a \<in> set spans. \<forall>b \<in> set spans. a \<noteq> b \<longrightarrow> before a b \<or> before b a)"
    using assms
  proof (induction spans)
    case (Cons a spans)
    have flip: "before b a \<longleftrightarrow> snd a = snd b" if "b \<in> set spans" for b
    proof -
      have "span_off a \<le> span_off b" "span_real b" using Cons.prems that by auto
      then have "unat (span_off a) \<le> unat (span_off b)" "0 < unat (snd (snd b))"
        by (simp_all add: span_real_def word_le_nat_alt unat_gt_0)
      then have "unat (span_off a) < span_stop b" by (simp add: span_stop_def)
      then show ?thesis by (auto simp: before_def)
    qed
    have "before a b \<or> before b a \<longleftrightarrow> before a b" if "b \<in> set spans" for b
      using flip [OF that] by (auto simp: before_def)
    then show ?case using Cons by auto
  qed simp
  then show ?thesis by (simp add: successively_conv_sorted_wrt [OF before_transp])
qed

lemma adjacent_dups_card:
  "sorted_wrt before spans \<Longrightarrow> \<forall>s \<in> set spans. span_real s \<Longrightarrow>
     adjacent_dups spans + card (snd ` set spans) = length spans"
proof (induction spans rule: induct_list012)
  case (3 a b rest)
  have IH: "adjacent_dups (b # rest) + card (snd ` set (b # rest)) = length (b # rest)"
    using 3 by simp
  show ?case
  proof (cases "snd a = snd b")
    case False
    have "snd a \<noteq> snd c" if "c \<in> set rest" for c
    proof
      assume eq: "snd a = snd c"
      have "before a b" "before b c" using "3.prems"(1) that by auto
      then have "unat (span_off a) + unat (snd (snd a)) \<le> unat (span_off b)"
        "unat (span_off b) \<le> unat (span_off c)"
        using False eq by (auto simp: before_def span_stop_def)
      moreover have "0 < unat (snd (snd a))"
        using "3.prems"(2) by (simp add: span_real_def unat_gt_0)
      ultimately show False using eq by (simp add: span_off_def)
    qed
    with False IH show ?thesis by (simp add: card_insert_if image_iff)
  qed (use IH in simp)
qed auto

section \<open>What pass 3 marks\<close>

definition handler_in_range :: "u32 \<Rightarrow> ExceptionHandlerData \<Rightarrow> bool" where
  "handler_in_range n eh \<longleftrightarrow> eh_start eh < eh_end eh \<and> eh_end eh \<le> n \<and> eh_target eh < n"

lemma handler_scan_result:
  "(fst (handler_scan f i n hs) = None \<longleftrightarrow>
      (\<forall>h \<in> set hs. handler_in_range n (fst (function_exception_get f i h))))
   \<and> (\<forall>u. fst (handler_scan f i n hs) = Some u \<longrightarrow> uf_func_idx u = i)"
  by (induction hs) (auto simp: handler_in_range_def split: prod.splits)

definition bad_handlers :: "HbcFile \<Rightarrow> UnrecognizedFunction list \<Rightarrow> u32 \<Rightarrow> UnrecognizedFunction option" where
  "bad_handlers f unrecognized i =
     (if binary_search_ok (map uf_func_idx unrecognized) i then None
      else case fst (function_get_checked f i) of
        Inl _ \<Rightarrow> None
      | Inr fd \<Rightarrow> fst (handler_scan f i (fd_size fd) (u32_range (fst (function_exception_count f i)))))"

lemma region_pass3_total:
  assumes "string_tables_ok f"
  shows "fst (region_pass3 f un idxs out) = Inr (out @ List.map_filter (bad_handlers f un) idxs)"
proof (induction idxs arbitrary: out)
  case (Cons i idxs)
  note step = Cons [of out] Cons [of "out @ [u]" for u]
  show ?case
  proof (cases "binary_search_ok (map uf_func_idx un) i")
    case False
    show ?thesis
    proof (cases "function_get_checked f i")
      case (Pair r ws)
      then show ?thesis
        using function_get_checked_Inl [of f i, OF _ assms] False
        by (cases r) (auto simp: List.map_filter_simps bad_handlers_def lbind_eq_Inr Cons
            split: prod.split option.split)
    qed
  qed (simp add: List.map_filter_simps bad_handlers_def Cons)
qed (simp add: List.map_filter_simps)

text \<open>Marks collected in index order form a strictly sorted list of the indices that have one.\<close>

lemma marks_sorted:
  assumes "\<forall>i \<in> set idxs. \<forall>u. g i = Some u \<longrightarrow> uf_func_idx u = i" "sorted_wrt (<) idxs"
  shows "sorted_wrt (<) (map uf_func_idx (List.map_filter g idxs))
    \<and> uf_func_idx ` set (List.map_filter g idxs) = {i \<in> set idxs. g i \<noteq> None}"
  using assms
  by (induction idxs) (auto simp: List.map_filter_simps split: option.splits)

section \<open>The validation as a whole\<close>

abbreviation marks :: "HbcFile \<Rightarrow> UnrecognizedFunction list" where
  "marks f \<equiv> List.map_filter (marked f) (function_indices f)"

abbreviation bodies :: "HbcFile \<Rightarrow> body_span list" where
  "bodies f \<equiv> List.map_filter (body f) (function_indices f)"

lemma marks_ok:
  assumes "string_tables_ok f"
  shows "sorted_wrt (<) (map uf_func_idx (marks f))"
    and "uf_func_idx ` set (marks f) = {i. i < hf_function_count f \<and> marked f i \<noteq> None}"
proof -
  have "sorted_wrt (<) (function_indices f)" by (simp add: function_indices_def sorted_u32_range)
  note ms = marks_sorted [of "function_indices f" "marked f", OF _ this]
  show "sorted_wrt (<) (map uf_func_idx (marks f))"
    "uf_func_idx ` set (marks f) = {i. i < hf_function_count f \<and> marked f i \<noteq> None}"
    using ms marked_idx [OF _ assms] by (simp_all add: set_function_indices)
qed

lemma marks_search:
  assumes "string_tables_ok f"
  shows "binary_search_ok (map uf_func_idx (marks f)) i \<longleftrightarrow> i < hf_function_count f \<and> marked f i \<noteq> None"
  using marks_ok [OF assms]
  by (subst binary_search_sorted) (auto simp: strict_sorted_iff)

lemma map_filter_set: "set (List.map_filter g xs) = {y. \<exists>x \<in> set xs. g x = Some y}"
  by (induction xs) (auto simp: List.map_filter_simps split: option.splits)

lemma bodies_ok:
  assumes "string_tables_ok f"
  shows "(\<forall>s \<in> set (bodies f). span_real s) \<and> distinct (map fst (bodies f))"
proof -
  have "distinct (map fst (List.map_filter (body f) idxs))
      \<and> fst ` set (List.map_filter (body f) idxs) \<subseteq> set idxs" if "distinct idxs" for idxs
    using that by (induction idxs) (auto simp: List.map_filter_simps body_iff split: option.splits)
  then have "distinct (map fst (bodies f))"
    using strict_sorted_iff [of "function_indices f"]
    by (simp add: function_indices_def sorted_u32_range)
  moreover have "span_real s" if "s \<in> set (bodies f)" for s
    using that unat_u32 [of "snd (hf_bytecode_region f)"]
    by (auto simp: map_filter_set body_iff span_real_def span_stop_def span_off_def in_bytecode_region_def)
  ultimately show ?thesis by blast
qed

lemma validate_Inr:
  assumes "string_tables_ok f"
  shows "fst (validate_function_regions f) = Inr g \<longleftrightarrow>
    (\<forall>i. i < hf_function_count f \<longrightarrow> (\<exists>x. fst (region_pass1_step f i) = Inr x))
    \<and> (\<exists>d. region_pass2 (sort_key span_off (bodies f)) 0 None = Inr d \<and> dedup_check d = Inr ())
    \<and> g = f\<lparr>hf_unrecognized_functions := merge_sorted_unrecognized (marks f)
         (List.map_filter (bad_handlers f (marks f)) (function_indices f))\<rparr>"
  unfolding validate_function_regions_def
  by (auto simp: lbind_eq_Inr region_pass1_Inr region_pass3_total [OF assms] set_function_indices
      simp del: fst_conv)

text \<open>No accessor reads the list of unrecognized functions.\<close>

lemma accessors_unrecognized [simp]:
  "function_get (f\<lparr>hf_unrecognized_functions := u\<rparr>) = function_get f"
  "function_get_checked (f\<lparr>hf_unrecognized_functions := u\<rparr>) = function_get_checked f"
  "get_exc_table_offset (f\<lparr>hf_unrecognized_functions := u\<rparr>) = get_exc_table_offset f"
  "function_exception_count (f\<lparr>hf_unrecognized_functions := u\<rparr>) = function_exception_count f"
  "function_exception_get (f\<lparr>hf_unrecognized_functions := u\<rparr>) = function_exception_get f"
proof -
  have entry: "func_entry (f\<lparr>hf_unrecognized_functions := u\<rparr>) = func_entry f"
    "func_entry_off (f\<lparr>hf_unrecognized_functions := u\<rparr>) = func_entry_off f"
    by (intro ext; simp add: func_entry_def func_entry_off_def cong: if_cong)+
  have large: "read_large_header (f\<lparr>hf_unrecognized_functions := u\<rparr>) = read_large_header f"
    by (intro ext) (simp add: read_large_header_def Let_def)
  have overlaps: "overflow_header_overlaps_synthesized (f\<lparr>hf_unrecognized_functions := u\<rparr>)
      = overflow_header_overlaps_synthesized f"
    by (rule ext) (simp add: overflow_header_overlaps_synthesized_def span_overlaps_synthesized_def
        synthesized_section_span_by_name_def EMIT_SYNTHESIZED_SECTIONS_def)
  note congs = option.case_cong prod.case_cong if_cong
  show get: "function_get (f\<lparr>hf_unrecognized_functions := u\<rparr>) = function_get f"
    by (rule ext) (simp add: function_get_def entry large Let_def cong: congs)
  show "function_get_checked (f\<lparr>hf_unrecognized_functions := u\<rparr>) = function_get_checked f"
    by (rule ext) (simp add: function_get_checked_def entry overlaps get Let_def cong: congs)
  show exc: "get_exc_table_offset (f\<lparr>hf_unrecognized_functions := u\<rparr>) = get_exc_table_offset f"
    by (rule ext) (simp add: get_exc_table_offset_def entry get Let_def cong: congs)
  show "function_exception_count (f\<lparr>hf_unrecognized_functions := u\<rparr>) = function_exception_count f"
    by (rule ext) (simp add: function_exception_count_def get exc Let_def cong: congs)
  show "function_exception_get (f\<lparr>hf_unrecognized_functions := u\<rparr>) = function_exception_get f"
    by (intro ext) (simp add: function_exception_get_def exc Let_def cong: congs)
qed

definition same_or_disjoint :: "FunctionData \<Rightarrow> FunctionData \<Rightarrow> bool" where
  "same_or_disjoint fi fj \<longleftrightarrow> fd_offset fi = fd_offset fj \<and> fd_size fi = fd_size fj
     \<or> unat (fd_offset fi) + unat (fd_size fi) \<le> unat (fd_offset fj)
     \<or> unat (fd_offset fj) + unat (fd_size fj) \<le> unat (fd_offset fi)"

definition two_bodies_ok :: "HbcFile \<Rightarrow> u32 \<Rightarrow> u32 \<Rightarrow> bool" where
  "two_bodies_ok f i j \<longleftrightarrow>
     (\<forall>fi fj. located f i fi \<longrightarrow> located f j fj \<longrightarrow> same_or_disjoint fi fj)"

definition regions_in :: "HbcFile \<Rightarrow> bool" where
  "regions_in f \<longleftrightarrow> (\<forall>i fd. located f i fd \<longrightarrow> in_bytecode_region f fd)"

definition duplicate_bodies :: "HbcFile \<Rightarrow> nat" where
  "duplicate_bodies f = card {i. \<exists>fd. located f i fd}
     - card {(fd_offset fd, fd_size fd) |fd. \<exists>i. located f i fd}"

lemma steps_ok_iff:
  assumes "string_tables_ok f"
  shows "(\<forall>i. i < hf_function_count f \<longrightarrow> (\<exists>x. fst (region_pass1_step f i) = Inr x)) \<longleftrightarrow> regions_in f"
proof -
  have "(\<exists>x. fst (region_pass1_step f i) = Inr x) \<longleftrightarrow>
      \<not> (\<exists>fd. located f i fd \<and> \<not> in_bytecode_region f fd)" if "i < hf_function_count f" for i
    using pass1_step_Inl [OF assms that] by (cases "fst (region_pass1_step f i)") auto
  moreover have "located f i fd \<Longrightarrow> i < hf_function_count f" for i fd by (simp add: located_def)
  ultimately show ?thesis unfolding regions_in_def by blast
qed

lemma set_bodies:
  assumes "regions_in f"
  shows "set (bodies f) = {(i, fd_offset fd, fd_size fd) |i fd. located f i fd}"
  using assms by (auto simp: map_filter_set body_iff set_function_indices regions_in_def located_def)

lemma bodies_before:
  assumes "regions_in f"
  shows "(\<forall>a \<in> set (bodies f). \<forall>b \<in> set (bodies f). a \<noteq> b \<longrightarrow> before a b \<or> before b a) \<longleftrightarrow>
    (\<forall>i j. i \<noteq> j \<longrightarrow> two_bodies_ok f i j)"
proof -
  have same: "fi = fj" if "located f i fi" "located f i fj" for i fi fj
    using that by (simp add: located_def)
  show ?thesis
    unfolding set_bodies [OF assms] two_bodies_ok_def same_or_disjoint_def before_def
    by (auto simp: span_stop_def span_off_def dest: same) (metis same)+
qed

lemma bodies_dups:
  assumes "string_tables_ok f" "regions_in f"
  shows "length (bodies f) - card (snd ` set (bodies f)) = duplicate_bodies f"
proof -
  have "length (bodies f) = card (fst ` set (bodies f))"
    using bodies_ok [OF assms(1)] by (metis distinct_card length_map set_map)
  also have "fst ` set (bodies f) = {i. \<exists>fd. located f i fd}"
    by (auto simp: set_bodies [OF assms(2)] image_iff)
  finally have "length (bodies f) = card {i. \<exists>fd. located f i fd}" .
  moreover have "snd ` set (bodies f) = {(fd_offset fd, fd_size fd) |fd. \<exists>i. located f i fd}"
    by (force simp: set_bodies [OF assms(2)] image_iff)
  ultimately show ?thesis by (simp add: duplicate_bodies_def)
qed

lemma sorted_bodies:
  assumes "string_tables_ok f"
  shows "sorted (map span_off (sort_key span_off (bodies f)))"
    "\<forall>s \<in> set (sort_key span_off (bodies f)). span_real s"
    "distinct (map fst (sort_key span_off (bodies f)))"
    "set (sort_key span_off (bodies f)) = set (bodies f)"
proof -
  show "distinct (map fst (sort_key span_off (bodies f)))"
    using bodies_ok [OF assms] by (simp add: distinct_map)
qed (use bodies_ok [OF assms] in simp_all)

lemma pass2_of_bodies:
  assumes "string_tables_ok f" "regions_in f"
  shows "(\<exists>d. region_pass2 (sort_key span_off (bodies f)) 0 None = Inr d) \<longleftrightarrow>
      (\<forall>i j. i \<noteq> j \<longrightarrow> two_bodies_ok f i j)"
    and "region_pass2 (sort_key span_off (bodies f)) 0 None = Inr (n, first) \<Longrightarrow>
      unat n = min (duplicate_bodies f) u32_max \<and> (first = None \<longleftrightarrow> duplicate_bodies f = 0)"
proof -
  let ?s = "sort_key span_off (bodies f)"
  note s = sorted_bodies [OF assms(1)]
  have dist: "distinct ?s" using s(3) by (simp add: distinct_map)
  show acc: "(\<exists>d. region_pass2 ?s 0 None = Inr d) \<longleftrightarrow> (\<forall>i j. i \<noteq> j \<longrightarrow> two_bodies_ok f i j)"
    using region_pass2_accepts [OF s(2)] successively_before_iff [OF s(1,2) dist]
      bodies_before [OF assms(2)] by (simp add: s(4))
  assume d: "region_pass2 ?s 0 None = Inr (n, first)"
  then have "sorted_wrt before ?s"
    using region_pass2_accepts [OF s(2)] by (metis successively_conv_sorted_wrt before_transp)
  from adjacent_dups_card [OF this s(2)] have "adjacent_dups ?s = duplicate_bodies f"
    using bodies_dups [OF assms] by (simp add: s(4))
  then show "unat n = min (duplicate_bodies f) u32_max \<and> (first = None \<longleftrightarrow> duplicate_bodies f = 0)"
    using region_pass2_Inr [OF d s(2)] by simp
qed

lemma dedup_check_iff:
  assumes "unat n = min m u32_max" "first = None \<longleftrightarrow> m = 0"
  shows "dedup_check (n, first) = Inr () \<longleftrightarrow> m \<le> 65535"
proof -
  have "MAX_FUNCTION_BODY_DEDUPS < n \<longleftrightarrow> 65535 < m"
    using assms(1) by (auto simp: word_less_nat_alt MAX_FUNCTION_BODY_DEDUPS_def u32_max_def min_def)
  then show ?thesis using assms(2) by (auto simp: dedup_check_def not_less split: option.splits)
qed

text \<open>
  What the region validation accepts: it succeeds exactly when every located body lies in the
  bytecode region, any two located bodies are the same span or disjoint, and at most 65535
  functions share the body of another one. The two checks its arithmetic guards for
  (\<open>checked_add\<close>) and the entry bound never decide the outcome.
\<close>

lemma validate_regions_accepts:
  assumes "string_tables_ok f"
  shows "(\<exists>g. fst (validate_function_regions f) = Inr g) \<longleftrightarrow>
    regions_in f \<and> (\<forall>i j. i \<noteq> j \<longrightarrow> two_bodies_ok f i j) \<and> duplicate_bodies f \<le> 65535"
proof (cases "regions_in f")
  case True
  have "(\<exists>d. region_pass2 (sort_key span_off (bodies f)) 0 None = Inr d \<and> dedup_check d = Inr ())
      \<longleftrightarrow> (\<forall>i j. i \<noteq> j \<longrightarrow> two_bodies_ok f i j) \<and> duplicate_bodies f \<le> 65535"
    using pass2_of_bodies [OF assms True] dedup_check_iff by fastforce
  then show ?thesis
    using True by (simp add: validate_Inr [OF assms] steps_ok_iff [OF assms])
qed (simp add: validate_Inr [OF assms] steps_ok_iff [OF assms])

text \<open>
  C27. The errors of the region validation: a located body outside the bytecode region, two
  located bodies that overlap without being the same span, or more than 65535 shared bodies,
  each reported with the data of the functions concerned: for the last, the number of shared bodies
  and two functions with the same body, the body at the lowest offset of those that are shared. No
  other error is possible.
\<close>

theorem validate_regions_errors:
  assumes "string_tables_ok f" "fst (validate_function_regions f) = Inl e"
  shows "(\<exists>i fd. located f i fd \<and> \<not> in_bytecode_region f fd
        \<and> e = FunctionBodyOutOfBytecodeRegion i (fd_offset fd) (fd_size fd)
            (fst (hf_bytecode_region f)) (snd (hf_bytecode_region f)))
    \<or> (\<exists>i j fi fj. located f i fi \<and> located f j fj \<and> i \<noteq> j
        \<and> fd_offset fi \<le> fd_offset fj \<and> unat (fd_offset fj) < unat (fd_offset fi) + unat (fd_size fi)
        \<and> (fd_offset fi, fd_size fi) \<noteq> (fd_offset fj, fd_size fj)
        \<and> e = FunctionBodyOverlap i (fd_offset fi) (fd_size fi) j (fd_offset fj) (fd_size fj))
    \<or> (65535 < duplicate_bodies f
        \<and> (\<exists>n i j fi fj. located f i fi \<and> located f j fj \<and> i \<noteq> j
            \<and> fd_offset fi = fd_offset fj \<and> fd_size fi = fd_size fj
            \<and> (\<forall>k l fk fl. located f k fk \<longrightarrow> located f l fl \<longrightarrow> k \<noteq> l \<longrightarrow>
                 fd_offset fk = fd_offset fl \<longrightarrow> fd_size fk = fd_size fl \<longrightarrow> fd_offset fi \<le> fd_offset fk)
            \<and> unat n = min (duplicate_bodies f) u32_max
            \<and> e = FunctionBodyDedupOverflow n 65535 (fd_offset fi) (fd_size fi) i j))"
proof (cases "regions_in f")
  case False
  let ?p = "region_pass1 f (function_indices f) [] []"
  have "\<nexists>x. fst ?p = Inr x"
  proof
    assume "\<exists>x. fst ?p = Inr x"
    then obtain un sp where "fst ?p = Inr (un, sp)" by auto
    then have "regions_in f"
      unfolding region_pass1_Inr set_function_indices steps_ok_iff [OF assms(1), symmetric] by blast
    with False show False ..
  qed
  then obtain e' where e': "fst ?p = Inl e'" by (cases "fst ?p") auto
  moreover from this assms(2) have "e' = e"
    by (simp add: validate_function_regions_def lbind_eq_Inl)
  ultimately obtain k where k: "k < hf_function_count f" "fst (region_pass1_step f k) = Inl e"
    using region_pass1_Inl [of f "function_indices f" "[]" "[]" e] by (auto simp: set_function_indices)
  obtain fd where "located f k fd \<and> \<not> in_bytecode_region f fd
      \<and> e = FunctionBodyOutOfBytecodeRegion k (fd_offset fd) (fd_size fd)
            (fst (hf_bytecode_region f)) (snd (hf_bytecode_region f))"
    using pass1_step_Inl [OF assms(1) k(1), THEN iffD1, OF k(2)] by (rule exE)
  then show ?thesis by (intro disjI1 exI)
next
  case True
  let ?s = "sort_key span_off (bodies f)"
  have p1: "fst (region_pass1 f (function_indices f) [] []) = Inr (marks f, bodies f)"
    using True steps_ok_iff [OF assms(1)] by (simp add: region_pass1_Inr set_function_indices)
  consider "region_pass2 ?s 0 None = Inl e"
    | n first where "region_pass2 ?s 0 None = Inr (n, first)" "dedup_check (n, first) = Inl e"
    using assms(2)
    by (auto simp: validate_function_regions_def lbind_eq_Inl p1 region_pass3_total [OF assms(1)])
  then show ?thesis
  proof cases
    case 1
    note s = sorted_bodies [OF assms(1)]
    obtain a b where "a \<in> set (bodies f)" "b \<in> set (bodies f)" "clash a b e"
      using region_pass2_Inl [OF 1 s(2,1,3)] s(4) by auto
    then obtain i fi j fj where "located f i fi" "located f j fj"
      "a = (i, fd_offset fi, fd_size fi)" "b = (j, fd_offset fj, fd_size fj)"
      by (auto simp: set_bodies [OF True])
    then show ?thesis
      using \<open>clash a b e\<close> by (auto simp: clash_def span_off_def span_stop_def)
  next
    case 2
    then have "65535 < duplicate_bodies f"
      using pass2_of_bodies(2) [OF assms(1) True 2(1)] dedup_check_iff [of n "duplicate_bodies f" first]
      by auto
    obtain off sz i j where first: "first = Some (off, sz, i, j)"
      and e: "e = FunctionBodyDedupOverflow n 65535 off sz i j"
      using 2(2) by (auto simp: dedup_check_def MAX_FUNCTION_BODY_DEDUPS_def split: option.splits if_splits)
    note s = sorted_bodies [OF assms(1)]
    have "(i, off, sz) \<in> set (bodies f) \<and> (j, off, sz) \<in> set (bodies f) \<and> i \<noteq> j
        \<and> (\<forall>x \<in> set (bodies f). \<forall>y \<in> set (bodies f). x \<noteq> y \<longrightarrow> snd x = snd y \<longrightarrow> off \<le> span_off x)"
      using region_pass2_first [OF 2(1) [unfolded first] s(2,1,3)] unfolding s(4) .
    moreover from this obtain fi fj where "located f i fi" "located f j fj" "off = fd_offset fi" "sz = fd_size fi"
      "off = fd_offset fj" "sz = fd_size fj"
      by (auto simp: set_bodies [OF True])
    moreover have "fd_offset fi \<le> fd_offset fk"
      if "located f k fk" "located f l fl" "k \<noteq> l" "fd_offset fk = fd_offset fl" "fd_size fk = fd_size fl" for k l fk fl
    proof -
      have "(k, fd_offset fk, fd_size fk) \<in> set (bodies f)" "(l, fd_offset fl, fd_size fl) \<in> set (bodies f)"
        using that(1,2) by (auto simp: set_bodies [OF True])
      then have "off \<le> span_off (k, fd_offset fk, fd_size fk)" using calculation(1) that(3-5) by auto
      then show ?thesis using \<open>off = fd_offset fi\<close> by (simp add: span_off_def)
    qed
    moreover have "unat n = min (duplicate_bodies f) u32_max" using pass2_of_bodies(2) [OF assms(1) True 2(1)] by simp
    ultimately have "\<exists>n i j fi fj. located f i fi \<and> located f j fj \<and> i \<noteq> j
            \<and> fd_offset fi = fd_offset fj \<and> fd_size fi = fd_size fj
            \<and> (\<forall>k l fk fl. located f k fk \<longrightarrow> located f l fl \<longrightarrow> k \<noteq> l \<longrightarrow>
                 fd_offset fk = fd_offset fl \<longrightarrow> fd_size fk = fd_size fl \<longrightarrow> fd_offset fi \<le> fd_offset fk)
            \<and> unat n = min (duplicate_bodies f) u32_max
            \<and> e = FunctionBodyDedupOverflow n 65535 (fd_offset fi) (fd_size fi) i j"
      using e by (intro exI [of _ n] exI [of _ i] exI [of _ j] exI [of _ fi] exI [of _ fj]) simp
    then show ?thesis using \<open>65535 < duplicate_bodies f\<close> by blast
  qed
qed

lemma unrecognized_of_validate:
  assumes "string_tables_ok f" "fst (validate_function_regions f) = Inr g"
  shows "sorted_wrt (<) (map uf_func_idx (hf_unrecognized_functions g))
    \<and> (\<forall>i. is_function_unrecognized g i \<longleftrightarrow> i \<in> uf_func_idx ` set (hf_unrecognized_functions g))
    \<and> (\<forall>i < hf_function_count f. \<not> is_function_unrecognized g i \<longrightarrow>
         marked f i = None \<and> bad_handlers f (marks f) i = None)
    \<and> g = f\<lparr>hf_unrecognized_functions := hf_unrecognized_functions g\<rparr>"
proof -
  let ?bad = "List.map_filter (bad_handlers f (marks f)) (function_indices f)"
  have g: "g = f\<lparr>hf_unrecognized_functions := merge_sorted_unrecognized (marks f) ?bad\<rparr>"
    using assms(2) by (simp add: validate_Inr [OF assms(1)])
  have "uf_func_idx u = i" if "bad_handlers f (marks f) i = Some u" for i u
    using that handler_scan_result
    by (auto simp: bad_handlers_def split: if_splits sum.splits)
  then have bad: "sorted_wrt (<) (map uf_func_idx ?bad)
      \<and> uf_func_idx ` set ?bad = {i. i < hf_function_count f \<and> bad_handlers f (marks f) i \<noteq> None}"
    using marks_sorted [of "function_indices f" "bad_handlers f (marks f)"]
    by (simp add: set_function_indices) (simp add: function_indices_def sorted_u32_range)
  note ms = marks_ok [OF assms(1)]
  have "bad_handlers f (marks f) i = None" if "i < hf_function_count f" "marked f i \<noteq> None" for i
    using that by (simp add: bad_handlers_def marks_search [OF assms(1)])
  then have "uf_func_idx ` set (marks f) \<inter> uf_func_idx ` set ?bad = {}"
    using bad ms(2) by auto
  then have sorted: "sorted_wrt (<) (map uf_func_idx (merge_sorted_unrecognized (marks f) ?bad))"
    using sorted_merge ms(1) bad by blast
  then have "is_function_unrecognized g i \<longleftrightarrow> i \<in> uf_func_idx ` set (hf_unrecognized_functions g)" for i
    unfolding is_function_unrecognized_def g
    by (subst binary_search_sorted) (auto simp: strict_sorted_iff)
  then show ?thesis
    using sorted bad ms(2) by (auto simp: g set_merge image_Un)
qed

text \<open>
  A function that resolves without error or finding, whose body, unless empty, lies in the
  bytecode region, and that contains all the handlers it declares.
\<close>

definition sound_function :: "HbcFile \<Rightarrow> u32 \<Rightarrow> bool" where
  "sound_function g i \<longleftrightarrow> (case function_get g i of (fd, ws) \<Rightarrow>
     ws = [] \<and> function_get_checked g i = (Inr fd, [])
     \<and> (fd_size fd \<noteq> 0 \<longrightarrow> in_bytecode_region g fd)
     \<and> (\<forall>h < fst (function_exception_count g i).
          handler_in_range (fd_size fd) (fst (function_exception_get g i h))))"

text \<open>
  What a validated file promises. The unrecognized functions are recorded in index order,
  once each, and the binary search of \<open>is_function_unrecognized\<close> finds exactly them. Every other
  function resolves without error or finding; its body, unless empty, lies in the bytecode
  region; the bodies of two of them are the same span or disjoint; and every exception handler
  it declares lies inside it. Nothing else of the file changes.
\<close>

lemma validate_regions_sound:
  assumes "string_tables_ok f" "fst (validate_function_regions f) = Inr g"
  shows "g = f\<lparr>hf_unrecognized_functions := hf_unrecognized_functions g\<rparr>
    \<and> sorted_wrt (<) (map uf_func_idx (hf_unrecognized_functions g))
    \<and> (\<forall>i. is_function_unrecognized g i \<longleftrightarrow> i \<in> uf_func_idx ` set (hf_unrecognized_functions g))
    \<and> (\<forall>i < hf_function_count g. \<not> is_function_unrecognized g i \<longrightarrow> sound_function g i)
    \<and> (\<forall>i < hf_function_count g. \<forall>j < hf_function_count g.
         i \<noteq> j \<longrightarrow> \<not> is_function_unrecognized g i \<longrightarrow> \<not> is_function_unrecognized g j \<longrightarrow>
         fd_size (fst (function_get g i)) \<noteq> 0 \<longrightarrow> fd_size (fst (function_get g j)) \<noteq> 0 \<longrightarrow>
         same_or_disjoint (fst (function_get g i)) (fst (function_get g j)))"
proof -
  note un = unrecognized_of_validate [OF assms]
  define u where "u = hf_unrecognized_functions g"
  have g: "g = f\<lparr>hf_unrecognized_functions := u\<rparr>" using un u_def by blast
  have acc: "function_get g = function_get f" "function_get_checked g = function_get_checked f"
    "function_exception_count g = function_exception_count f"
    "function_exception_get g = function_exception_get f"
    "in_bytecode_region g = in_bytecode_region f" "hf_function_count g = hf_function_count f"
    unfolding g by (simp_all add: in_bytecode_region_def fun_eq_iff)
  have ok: "regions_in f" "i \<noteq> j \<Longrightarrow> two_bodies_ok f i j" for i j
    using validate_regions_accepts [OF assms(1)] assms(2) by blast+
  have rec: "sound_function g i \<and> (fd_size (fst (function_get g i)) \<noteq> 0 \<longrightarrow> located f i (fst (function_get g i)))"
    if i: "i < hf_function_count g" "\<not> is_function_unrecognized g i" for i
  proof -
    have none: "marked f i = None" "bad_handlers f (marks f) i = None"
      using un i by (simp_all add: acc)
    from not_marked [OF this(1) assms(1)] obtain fd where
      fd: "fst (function_get_checked f i) = Inr fd" "fst (exc_table_overlaps_synthesized f i) = None"
      by blast
    then have checked: "function_get_checked f i = (Inr fd, [])"
      using function_get_checked_quiet [of f i] by (metis prod.collapse)
    have "fst (handler_scan f i (fd_size fd) (u32_range (fst (function_exception_count f i)))) = None"
      using none fd(1) by (simp add: bad_handlers_def marks_search [OF assms(1)])
    then have "\<forall>h < fst (function_exception_count f i).
        handler_in_range (fd_size fd) (fst (function_exception_get f i h))"
      using handler_scan_result by (simp add: set_u32_range)
    moreover have "fd_size fd \<noteq> 0 \<longrightarrow> located f i fd"
      using fd i(1) by (simp add: located_def acc)
    ultimately show ?thesis
      using checked function_get_checked_Inr [OF checked] ok(1)
      by (auto simp: sound_function_def acc regions_in_def)
  qed
  have pair: "same_or_disjoint fi fj" if "located f i fi" "located f j fj" "i \<noteq> j" for i j fi fj
    using ok(2) [of i j] that unfolding two_bodies_ok_def by blast
  show ?thesis
  proof (intro conjI)
    show "\<forall>i < hf_function_count g. \<not> is_function_unrecognized g i \<longrightarrow> sound_function g i"
      using rec by blast
    show "\<forall>i < hf_function_count g. \<forall>j < hf_function_count g.
         i \<noteq> j \<longrightarrow> \<not> is_function_unrecognized g i \<longrightarrow> \<not> is_function_unrecognized g j \<longrightarrow>
         fd_size (fst (function_get g i)) \<noteq> 0 \<longrightarrow> fd_size (fst (function_get g j)) \<noteq> 0 \<longrightarrow>
         same_or_disjoint (fst (function_get g i)) (fst (function_get g j))"
      by (intro allI impI) (rule pair, use rec in blast, use rec in blast, assumption)
  qed (rule un [THEN conjunct1] un [THEN conjunct2, THEN conjunct1]
      un [THEN conjunct2, THEN conjunct2, THEN conjunct2])+
qed

end
