(* ===== verification/Hermes_Emit.thy ===== *)
theory Hermes_Emit
  imports Hermes_Raw
begin

text \<open>
  The emitters of \<open>emit.rs\<close>: v96, v98 and v99 (one body), and v84. Each writes the header from
  the parsed fields, re-encodes the function headers and the string tables (and the shape table
  for v98/v99, the regexp table for v84) entry by entry, and copies the bytes between and after
  them from the input. The output buffer is threaded as \<open>out\<close>.
\<close>

section \<open>Errors and guards\<close>

datatype (plugins only: code size) HermesEmitError =
    SizeOverflow string u64 u64
  | OffsetOverflow string
  | UnrepresentableIR string
  | VersionMismatch u32 u32
  | InputTooShort usize

type_synonym 'a emit = "HermesEmitError + 'a"

definition V84 :: u32 where "V84 = 84"
definition V96 :: u32 where "V96 = 96"
definition V98 :: u32 where "V98 = 98"
definition V99 :: u32 where "V99 = 99"

definition require_shared_table_format :: "HbcFile \<Rightarrow> unit emit" where
  "require_shared_table_format f =
     require (hf_version f = V84 \<or> hf_version f = V96 \<or> hf_version f = V98 \<or> hf_version f = V99)
       (VersionMismatch V96 (hf_version f))"

definition require_v84_or_v96 :: "HbcFile \<Rightarrow> unit emit" where
  "require_v84_or_v96 f = require (hf_version f = V84 \<or> hf_version f = V96)
     (VersionMismatch V96 (hf_version f))"

definition require_v98_or_v99 :: "HbcFile \<Rightarrow> unit emit" where
  "require_v98_or_v99 f = require (hf_version f = V98 \<or> hf_version f = V99)
     (VersionMismatch V98 (hf_version f))"

definition reject_if_unrecognized :: "HbcFile \<Rightarrow> unit emit" where
  "reject_if_unrecognized f = require (hf_unrecognized_functions f = [])
     (UnrepresentableIR ''file contains functions whose headers could not be honestly resolved (recover-and-mark); a faithful round-trip is not guaranteed'')"

definition section_bytes_usize :: "string \<Rightarrow> u32 \<Rightarrow> u32 \<Rightarrow> usize emit" where
  "section_bytes_usize name count stride =
     ok_or (checked_mul64 (unat count) (unat stride)) (SizeOverflow name (unat count) u32_max)"

section \<open>Copying and re-encoding\<close>

definition emit_gap :: "u8 list \<Rightarrow> usize \<Rightarrow> usize \<Rightarrow> u8 list \<Rightarrow> u8 list emit" where
  "emit_gap src a b out =
     ebind (ok_or (get_range src a b) (InputTooShort (length src))) (\<lambda>gap. Inr (out @ gap))"

definition emit_rest :: "u8 list \<Rightarrow> usize \<Rightarrow> u8 list \<Rightarrow> u8 list emit" where
  "emit_rest src a out =
     ebind (ok_or (get_from src a) (InputTooShort (length src))) (\<lambda>rest. Inr (out @ rest))"

text \<open>\<open>for i in 0..count { let raw = get(i).ok_or(err)?; write(out, raw); }\<close>\<close>

fun emit_entries ::
  "(u32 \<Rightarrow> 'e option) \<Rightarrow> HermesEmitError \<Rightarrow> ('e \<Rightarrow> u8 list) \<Rightarrow> nat \<Rightarrow> nat \<Rightarrow> u8 list \<Rightarrow> u8 list emit" where
  "emit_entries get err wr i 0 out = Inr out"
| "emit_entries get err wr i (Suc n) out =
     (case get (of_nat i) of
        None \<Rightarrow> Inl err
      | Some raw \<Rightarrow> emit_entries get err wr (Suc i) n (out @ wr raw))"

text \<open>\<open>NonDecreasing<FunctionId>\<close>: \<open>start\<close> for the first id, \<open>advance\<close> afterwards.\<close>

definition advance_seq :: "u32 option \<Rightarrow> u32 \<Rightarrow> u32 option" where
  "advance_seq s fid =
     (case s of None \<Rightarrow> Some fid | Some prev \<Rightarrow> if prev \<le> fid then Some fid else None)"

fun emit_function_entries ::
  "(u32 \<Rightarrow> 'e option) \<Rightarrow> HermesEmitError \<Rightarrow> ('e \<Rightarrow> u8 list) \<Rightarrow> u32 option \<Rightarrow> nat \<Rightarrow> nat \<Rightarrow> u8 list \<Rightarrow> u8 list emit"
  where
  "emit_function_entries get err wr s i 0 out = Inr out"
| "emit_function_entries get err wr s i (Suc n) out =
     (case advance_seq s (of_nat i) of
        None \<Rightarrow> Inl (UnrepresentableIR ''FunctionId sequence not non-decreasing'')
      | Some s' \<Rightarrow>
          (case get (of_nat i) of
             None \<Rightarrow> Inl err
           | Some raw \<Rightarrow> emit_function_entries get err wr (Some s') (Suc i) n (out @ wr raw)))"

section \<open>The tables\<close>

definition emit_function_headers_v96 :: "HbcFile \<Rightarrow> u8 list \<Rightarrow> u8 list emit" where
  "emit_function_headers_v96 f out =
     ebind (require_v84_or_v96 f) (\<lambda>_.
     if hf_func_header_size f \<noteq> 16 then Inl (UnrepresentableIR ''pre-v97 SmallFuncHeader size != 16'')
     else emit_function_entries (raw_small_func_header_v96 f)
            (UnrepresentableIR ''missing raw SmallFuncHeader for in-range function index'')
            emit_one_small_func_header_v96 None 0 (unat (hf_function_count f)) out)"

definition emit_function_headers_v98 :: "HbcFile \<Rightarrow> u8 list \<Rightarrow> u8 list emit" where
  "emit_function_headers_v98 f out =
     ebind (require_v98_or_v99 f) (\<lambda>_.
     if hf_func_header_size f \<noteq> 12 then Inl (UnrepresentableIR ''v98 SmallFuncHeader size != 12'')
     else emit_function_entries (raw_small_func_header_v98 f)
            (UnrepresentableIR ''missing raw SmallFuncHeader for in-range v98 index'')
            emit_one_small_func_header_v98 None 0 (unat (hf_function_count f)) out)"

definition emit_small_string_table_v96 :: "HbcFile \<Rightarrow> u8 list \<Rightarrow> u8 list emit" where
  "emit_small_string_table_v96 f out =
     ebind (require_shared_table_format f) (\<lambda>_.
     emit_entries (raw_small_string_table_entry f)
       (UnrepresentableIR ''missing raw SmallStringTable entry for in-range index'')
       emit_one_small_string_table_entry_v96 0 (unat (hf_string_count f)) out)"

definition emit_overflow_string_table_v96 :: "HbcFile \<Rightarrow> u8 list \<Rightarrow> u8 list emit" where
  "emit_overflow_string_table_v96 f out =
     ebind (require_shared_table_format f) (\<lambda>_.
     emit_entries (raw_overflow_string_table_entry_v96 f)
       (UnrepresentableIR ''missing raw OverflowStringTable entry for in-range index'')
       emit_pair 0 (unat (hf_overflow_string_count f)) out)"

definition emit_regexp_table_v96 :: "HbcFile \<Rightarrow> u8 list \<Rightarrow> u8 list emit" where
  "emit_regexp_table_v96 f out =
     ebind (require_shared_table_format f) (\<lambda>_.
     emit_entries (regexp_table_entry_raw f) (OffsetOverflow ''regexp_table entry'')
       emit_pair 0 (unat (hf_reg_exp_count f)) out)"

definition emit_bigint_table_v96 :: "HbcFile \<Rightarrow> u8 list \<Rightarrow> u8 list emit" where
  "emit_bigint_table_v96 f out =
     ebind (require_shared_table_format f) (\<lambda>_.
     emit_entries (bigint_table_entry_raw f) (OffsetOverflow ''bigint_table entry'')
       emit_pair 0 (unat (hf_big_int_count f)) out)"

definition emit_obj_shape_table_v98 :: "HbcFile \<Rightarrow> u8 list \<Rightarrow> u8 list emit" where
  "emit_obj_shape_table_v98 f out =
     ebind (require_v98_or_v99 f) (\<lambda>_.
     emit_entries (raw_obj_shape_table_entry_v98 f)
       (UnrepresentableIR ''missing raw ObjShapeTable entry for in-range v98 index'')
       emit_one_obj_shape_table_entry_v98 0 (unat (hf_obj_shape_table_count f)) out)"

section \<open>The headers\<close>

definition header_range :: "u8 list \<Rightarrow> usize \<Rightarrow> usize \<Rightarrow> u8 list emit" where
  "header_range src a b = ok_or (get_range src a b) (InputTooShort (length src))"

text \<open>The counts all three headers write after the global code index.\<close>

definition emit_string_counts :: "HbcFile \<Rightarrow> u8 list" where
  "emit_string_counts f =
     u32_to_le (hf_function_count f) @ u32_to_le (hf_string_kind_count f)
     @ u32_to_le (hf_identifier_count f) @ u32_to_le (hf_string_count f)
     @ u32_to_le (hf_overflow_string_count f) @ u32_to_le (hf_string_storage_size f)"

definition emit_header_v96 :: "HbcFile \<Rightarrow> u8 list \<Rightarrow> u32 \<Rightarrow> u8 list \<Rightarrow> u8 list emit" where
  "emit_header_v96 f src file_length out =
     ebind (header_range src 12 32) (\<lambda>source_hash.
     ebind (header_range src 36 40) (\<lambda>global_code_index.
     ebind (header_range src 92 96) (\<lambda>segment_cjs.
     ebind (header_range src 108 128) (\<lambda>options_and_padding.
     Inr (out @ le_bytes 8 HBC_MAGIC @ u32_to_le V96 @ source_hash @ u32_to_le file_length
       @ global_code_index @ emit_string_counts f
       @ u32_to_le (hf_big_int_count f) @ u32_to_le (big_int_storage_size f)
       @ u32_to_le (hf_reg_exp_count f) @ u32_to_le (hf_reg_exp_storage_size f)
       @ u32_to_le (array_buffer_size f) @ u32_to_le (obj_key_buffer_size f)
       @ u32_to_le (obj_value_buffer_size f) @ segment_cjs
       @ u32_to_le (hf_cjs_module_count f) @ u32_to_le (hf_function_source_count f)
       @ u32_to_le (hf_debug_info_offset f) @ options_and_padding)))))"

definition emit_header_v98 :: "HbcFile \<Rightarrow> u8 list \<Rightarrow> u32 \<Rightarrow> u8 list \<Rightarrow> u8 list emit" where
  "emit_header_v98 f src file_length out =
     (let ssi_present = hdr_has_num_string_switch_imms (hf_header f);
          cursor = (if ssi_present then 96 else 92);
          opts_start = (if ssi_present then 112 else 108) in
     ebind (header_range src 12 32) (\<lambda>source_hash.
     ebind (header_range src 36 40) (\<lambda>global_code_index.
     ebind (if ssi_present then header_range src 92 96 else Inr []) (\<lambda>ssi_bytes.
     ebind (header_range src cursor (cursor + 4)) (\<lambda>segment_cjs.
     ebind (header_range src opts_start 128) (\<lambda>options_and_padding.
     Inr (out @ le_bytes 8 HBC_MAGIC @ u32_to_le (hf_version f) @ source_hash @ u32_to_le file_length
       @ global_code_index @ emit_string_counts f
       @ u32_to_le (hf_big_int_count f) @ u32_to_le (big_int_storage_size f)
       @ u32_to_le (hf_reg_exp_count f) @ u32_to_le (hf_reg_exp_storage_size f)
       @ u32_to_le (array_buffer_size f) @ u32_to_le (obj_key_buffer_size f)
       @ u32_to_le (hf_obj_shape_table_count f) @ ssi_bytes @ segment_cjs
       @ u32_to_le (hf_cjs_module_count f) @ u32_to_le (hf_function_source_count f)
       @ u32_to_le (hf_debug_info_offset f) @ options_and_padding)))))))"

definition emit_header_v84 :: "HbcFile \<Rightarrow> u8 list \<Rightarrow> u32 \<Rightarrow> u8 list \<Rightarrow> u8 list emit" where
  "emit_header_v84 f src file_length out =
     ebind (header_range src 12 32) (\<lambda>source_hash.
     ebind (header_range src 36 40) (\<lambda>global_code_index.
     ebind (header_range src 84 88) (\<lambda>segment_cjs.
     ebind (header_range src 100 128) (\<lambda>options_and_padding.
     Inr (out @ le_bytes 8 HBC_MAGIC @ u32_to_le (hf_version f) @ source_hash @ u32_to_le file_length
       @ global_code_index @ emit_string_counts f
       @ u32_to_le (hf_reg_exp_count f) @ u32_to_le (hf_reg_exp_storage_size f)
       @ u32_to_le (array_buffer_size f) @ u32_to_le (obj_key_buffer_size f)
       @ u32_to_le (obj_value_buffer_size f) @ segment_cjs
       @ u32_to_le (hf_cjs_module_count f) @ u32_to_le (hf_function_source_count f)
       @ u32_to_le (hf_debug_info_offset f) @ options_and_padding)))))"

section \<open>The emitters\<close>

definition file_length_of :: "u8 list \<Rightarrow> u32 emit" where
  "file_length_of src =
     (if length src \<le> u32_max then Inr (of_nat (length src))
      else Inl (SizeOverflow ''file_length'' (length src) u32_max))"

definition table_end :: "string \<Rightarrow> usize \<Rightarrow> u32 \<Rightarrow> u32 \<Rightarrow> usize emit" where
  "table_end name start count stride =
     ebind (section_bytes_usize name count stride) (\<lambda>size_bytes.
     ok_or (checked_add64 start size_bytes) (OffsetOverflow (name @ '' end'')))"

text \<open>A table that is there only when its count is positive ends where the one before it does.\<close>

definition opt_table_end :: "string \<Rightarrow> usize \<Rightarrow> u32 \<Rightarrow> u32 \<Rightarrow> usize \<Rightarrow> usize emit" where
  "opt_table_end name start count stride prev_end =
     (if 0 < count then table_end name start count stride else Inr prev_end)"

definition emit_opt_table ::
  "u32 \<Rightarrow> u8 list \<Rightarrow> usize \<Rightarrow> usize \<Rightarrow> (u8 list \<Rightarrow> u8 list emit) \<Rightarrow> u8 list \<Rightarrow> u8 list emit" where
  "emit_opt_table count src prev_end start emit_table out =
     (if 0 < count then ebind (emit_gap src prev_end start out) emit_table else Inr out)"

definition base_layout_bad :: "HbcFile \<Rightarrow> usize \<Rightarrow> usize \<Rightarrow> usize \<Rightarrow> bool" where
  "base_layout_bad f fh_end sst_end ost_end \<longleftrightarrow>
     fst (hf_func_headers f) < HEADER_SIZE
     \<or> length (hf_buf f) < fh_end
     \<or> fst (hf_small_string_table f) < fh_end
     \<or> length (hf_buf f) < sst_end
     \<or> (0 < hf_overflow_string_count f \<and>
          (fst (hf_overflow_string_table f) < sst_end \<or> length (hf_buf f) < ost_end))"

definition emit_hbc :: "HbcFile \<Rightarrow> u8 list emit" where
  "emit_hbc f =
     (let src = hf_buf f in
      if hf_version f \<noteq> V96 then Inl (VersionMismatch V96 (hf_version f)) else
      ebind (reject_if_unrecognized f) (\<lambda>_.
      if length src < HEADER_SIZE then Inl (InputTooShort (length src)) else
      ebind (file_length_of src) (\<lambda>file_length.
      ebind (emit_header_v96 f src file_length []) (\<lambda>out.
      let fh_start = fst (hf_func_headers f);
          sst_start = fst (hf_small_string_table f);
          ost_start = fst (hf_overflow_string_table f) in
      ebind (table_end ''FunctionHeaders'' fh_start (hf_function_count f) (hf_func_header_size f)) (\<lambda>fh_end.
      ebind (table_end ''SmallStringTable'' sst_start (hf_string_count f) 4) (\<lambda>sst_end.
      ebind (opt_table_end ''OverflowStringTable'' ost_start (hf_overflow_string_count f) 8 sst_end) (\<lambda>ost_end.
      if base_layout_bad f fh_end sst_end ost_end
      then Inl (UnrepresentableIR ''section layout inconsistent with buffer'') else
      ebind (emit_gap src HEADER_SIZE fh_start out) (\<lambda>out.
      ebind (emit_function_headers_v96 f out) (\<lambda>out.
      ebind (emit_gap src fh_end sst_start out) (\<lambda>out.
      ebind (emit_small_string_table_v96 f out) (\<lambda>out.
      ebind (emit_opt_table (hf_overflow_string_count f) src sst_end ost_start
               (emit_overflow_string_table_v96 f) out) (\<lambda>out.
      emit_rest src ost_end out))))))))))))"

definition emit_hbc_v98_or_v99 :: "HbcFile \<Rightarrow> u8 list emit" where
  "emit_hbc_v98_or_v99 f =
     (let src = hf_buf f in
      ebind (require_v98_or_v99 f) (\<lambda>_.
      ebind (reject_if_unrecognized f) (\<lambda>_.
      if length src < HEADER_SIZE then Inl (InputTooShort (length src)) else
      ebind (file_length_of src) (\<lambda>file_length.
      ebind (emit_header_v98 f src file_length []) (\<lambda>out.
      let fh_start = fst (hf_func_headers f);
          sst_start = fst (hf_small_string_table f);
          ost_start = fst (hf_overflow_string_table f);
          shape_start = fst (hf_obj_shape_table f) in
      ebind (table_end ''FunctionHeaders'' fh_start (hf_function_count f) (hf_func_header_size f)) (\<lambda>fh_end.
      ebind (table_end ''SmallStringTable'' sst_start (hf_string_count f) 4) (\<lambda>sst_end.
      ebind (opt_table_end ''OverflowStringTable'' ost_start (hf_overflow_string_count f) 8 sst_end) (\<lambda>ost_end.
      ebind (opt_table_end ''ObjShapeTable'' shape_start (hf_obj_shape_table_count f) 8 ost_end) (\<lambda>shape_end.
      if base_layout_bad f fh_end sst_end ost_end
         \<or> (0 < hf_obj_shape_table_count f \<and> (shape_start < ost_end \<or> length src < shape_end))
      then Inl (UnrepresentableIR ''v98 section layout inconsistent with buffer'') else
      ebind (emit_gap src HEADER_SIZE fh_start out) (\<lambda>out.
      ebind (emit_function_headers_v98 f out) (\<lambda>out.
      ebind (emit_gap src fh_end sst_start out) (\<lambda>out.
      ebind (emit_small_string_table_v96 f out) (\<lambda>out.
      ebind (emit_opt_table (hf_overflow_string_count f) src sst_end ost_start
               (emit_overflow_string_table_v96 f) out) (\<lambda>out.
      ebind (emit_opt_table (hf_obj_shape_table_count f) src ost_end shape_start
               (emit_obj_shape_table_v98 f) out) (\<lambda>out.
      emit_rest src shape_end out)))))))))))))))"

definition emit_hbc_v98 :: "HbcFile \<Rightarrow> u8 list emit" where
  "emit_hbc_v98 f =
     (if hf_version f \<noteq> V98 then Inl (VersionMismatch V98 (hf_version f)) else emit_hbc_v98_or_v99 f)"

definition emit_hbc_v99 :: "HbcFile \<Rightarrow> u8 list emit" where
  "emit_hbc_v99 f =
     (if hf_version f \<noteq> V99 then Inl (VersionMismatch V99 (hf_version f)) else emit_hbc_v98_or_v99 f)"

definition emit_hbc_v84 :: "HbcFile \<Rightarrow> u8 list emit" where
  "emit_hbc_v84 f =
     (let src = hf_buf f in
      if hf_version f \<noteq> V84 then Inl (VersionMismatch V84 (hf_version f)) else
      ebind (reject_if_unrecognized f) (\<lambda>_.
      if length src < HEADER_SIZE then Inl (InputTooShort (length src)) else
      ebind (file_length_of src) (\<lambda>file_length.
      ebind (emit_header_v84 f src file_length []) (\<lambda>out.
      let fh_start = fst (hf_func_headers f);
          sst_start = fst (hf_small_string_table f);
          ost_start = fst (hf_overflow_string_table f);
          regexp_start = fst (hf_regexp_table f) in
      ebind (table_end ''FunctionHeaders'' fh_start (hf_function_count f) (hf_func_header_size f)) (\<lambda>fh_end.
      ebind (table_end ''SmallStringTable'' sst_start (hf_string_count f) 4) (\<lambda>sst_end.
      ebind (opt_table_end ''OverflowStringTable'' ost_start (hf_overflow_string_count f) 8 sst_end) (\<lambda>ost_end.
      ebind (opt_table_end ''RegExpTable'' regexp_start (hf_reg_exp_count f) 8 ost_end) (\<lambda>regexp_end.
      if base_layout_bad f fh_end sst_end ost_end
         \<or> (0 < hf_reg_exp_count f \<and> (regexp_start < ost_end \<or> length src < regexp_end))
      then Inl (UnrepresentableIR ''v84 section layout inconsistent with buffer'') else
      ebind (emit_gap src HEADER_SIZE fh_start out) (\<lambda>out.
      ebind (emit_function_headers_v96 f out) (\<lambda>out.
      ebind (emit_gap src fh_end sst_start out) (\<lambda>out.
      ebind (emit_small_string_table_v96 f out) (\<lambda>out.
      ebind (emit_opt_table (hf_overflow_string_count f) src sst_end ost_start
               (emit_overflow_string_table_v96 f) out) (\<lambda>out.
      ebind (emit_opt_table (hf_reg_exp_count f) src ost_end regexp_start
               (emit_regexp_table_v96 f) out) (\<lambda>out.
      emit_rest src regexp_end out))))))))))))))"

end
