(* ===== verification/Hermes_Roundtrip.thy ===== *)
theory Hermes_Roundtrip
  imports Hermes_Emit
begin

text \<open>
  Parsing and emitting: on a file that \<open>parse_inner\<close> returned, each emitter rebuilds the input
  from the parsed entries, up to the declared file length and the size word of an absent
  big-int storage.
\<close>

section \<open>An output that has reached a position of the input\<close>

definition copied :: "u8 list \<Rightarrow> u8 list \<Rightarrow> usize \<Rightarrow> u8 list" where
  "copied hdr src p = hdr @ slice src 128 (p - 128)"

lemma copied_step: "128 \<le> a \<Longrightarrow> a \<le> b \<Longrightarrow> copied hdr src a @ slice src a (b - a) = copied hdr src b"
  using slice_append [of src 128 "a - 128" "b - a"] by (simp add: copied_def)

lemma emit_gap_copied:
  "128 \<le> a \<Longrightarrow> a \<le> b \<Longrightarrow> b \<le> length src \<Longrightarrow> emit_gap src a b (copied hdr src a) = Inr (copied hdr src b)"
  by (simp add: emit_gap_def slices copied_step)

lemma emit_rest_copied:
  "128 \<le> a \<Longrightarrow> a \<le> length src \<Longrightarrow> emit_rest src a (copied hdr src a) = Inr (hdr @ drop 128 src)"
  using slice_drop [of src 128 "a - 128"] by (simp add: emit_rest_def get_from_def copied_def)

lemma copied_start: "copied hdr src 128 = hdr"
  by (simp add: copied_def)

text \<open>The sequence check of the function headers never fires on ascending ids.\<close>

lemma emit_function_entries_eq:
  "i + n \<le> 2 ^ 32 \<Longrightarrow> (\<forall>p. s = Some p \<longrightarrow> unat p \<le> i) \<Longrightarrow>
     emit_function_entries get err wr s i n out = emit_entries get err wr i n out"
proof (induction n arbitrary: s i out)
  case (Suc n)
  then have "unat (of_nat i :: u32) = i" by (intro unat_of_nat_u32) (simp add: u32_max_def)
  with Suc.prems have "advance_seq s (of_nat i) = Some (of_nat i)"
    by (auto simp: advance_seq_def word_le_nat_alt split: option.splits)
  moreover have "unat (of_nat i :: u32) \<le> Suc i" using \<open>unat (of_nat i :: u32) = i\<close> by simp
  ultimately show ?case using Suc by (simp split: option.splits)
qed simp

context entry_codec begin

lemma emit_entries_copied:
  "(\<And>j. j < i + n \<Longrightarrow> get (of_nat j) = Some (rd (slice src (a + j * entry_len) entry_len))) \<Longrightarrow>
   128 \<le> a \<Longrightarrow> a + (i + n) * entry_len \<le> length src \<Longrightarrow>
   emit_entries get err wr i n (copied hdr src (a + i * entry_len))
     = Inr (copied hdr src (a + (i + n) * entry_len))"
proof (induction n arbitrary: i)
  case (Suc n)
  let ?p = "a + i * entry_len"
  have "Suc i * entry_len \<le> (i + Suc n) * entry_len" by (rule mult_right_mono) simp_all
  then have fits: "?p + entry_len \<le> length src"
    using Suc.prems(3) unfolding mult_Suc by linarith
  have "copied hdr src ?p @ wr (rd (slice src ?p entry_len)) = copied hdr src (?p + entry_len)"
    using copied_step [of ?p "?p + entry_len"] Suc.prems(2) fits by (simp add: wr_rd)
  moreover have "?p + entry_len = a + Suc i * entry_len" by simp
  ultimately show ?case
    using Suc.IH [of "Suc i"] Suc.prems by simp
qed simp

lemma emit_table:
  "(\<And>j. j < n \<Longrightarrow> get (of_nat j) = Some (rd (slice src (a + j * entry_len) entry_len))) \<Longrightarrow>
   128 \<le> a \<Longrightarrow> a + n * entry_len \<le> length src \<Longrightarrow>
   emit_entries get err wr 0 n (copied hdr src a) = Inr (copied hdr src (a + n * entry_len))"
  using emit_entries_copied [of 0 n get src a err hdr] by simp

end

section \<open>The entries of a parsed file\<close>

lemma of_nat_less_count: "j < unat (n :: u32) \<Longrightarrow> unat (of_nat j :: u32) = j \<and> \<not> n \<le> of_nat j"
  using unat_of_nat_u32 [of j] unat_le_u32_max [of n] by (simp add: word_le_nat_alt)

lemma read_pair_slice: "off + 8 \<le> length buf \<Longrightarrow> read_pair buf off = Some (decode_pair (slice buf off 8))"
proof -
  assume "off + 8 \<le> length buf"
  then have "get_range buf off (off + 4) = Some (slice buf off 4)"
    "get_range buf (off + 4) (off + 8) = Some (slice buf (off + 4) 4)"
    by (simp_all add: get_range_def slice_def)
  moreover have "take 4 (slice buf off 8) = slice buf off 4" "drop 4 (slice buf off 8) = slice buf (off + 4) 4"
    by (simp_all add: slice_def drop_take add.commute min_def)
  ultimately show ?thesis by (simp add: read_pair_def decode_pair_def)
qed

text \<open>Entry \<open>j\<close> of a table that lies in the buffer.\<close>

lemma entry_fits: "j < n \<Longrightarrow> a + n * k \<le> len \<Longrightarrow> a + j * k + k \<le> (len :: nat)"
proof -
  assume "j < n" "a + n * k \<le> len"
  have "Suc j * k \<le> n * k" using \<open>j < n\<close> by (intro mult_right_mono) simp_all
  with \<open>a + n * k \<le> len\<close> show ?thesis by simp
qed

lemma raw_v96_slice:
  assumes "has_obj_value_buffer (hf_header f)" "j < unat (hf_function_count f)"
    "fst (hf_func_headers f) + unat (hf_function_count f) * 16 \<le> length (hf_buf f)"
  shows "raw_small_func_header_v96 f (of_nat j)
    = Some (decode_func_header_v96 (slice (hf_buf f) (fst (hf_func_headers f) + j * 16) 16))"
  using assms of_nat_less_count [OF assms(2)] entry_fits [OF assms(2,3)]
  by (simp add: raw_small_func_header_v96_def Let_def slices)

lemma raw_v98_slice:
  assumes "v98_raw_form (hf_header f) = Some late" "j < unat (hf_function_count f)"
    "fst (hf_func_headers f) + unat (hf_function_count f) * 12 \<le> length (hf_buf f)"
  shows "raw_small_func_header_v98 f (of_nat j)
    = Some ((if late then decode_func_header_late else decode_func_header_early)
        (slice (hf_buf f) (fst (hf_func_headers f) + j * 12) 12))"
  using assms of_nat_less_count [OF assms(2)] entry_fits [OF assms(2,3)]
  by (simp add: raw_small_func_header_v98_def Let_def slices)

lemma raw_string_slice:
  assumes "j < unat (hf_string_count f)" "snd (hf_small_string_table f) = unat (hf_string_count f) * 4"
    "span_end (hf_small_string_table f) \<le> length (hf_buf f)"
  shows "raw_small_string_table_entry f (of_nat j)
    = Some (decode_small_string (slice (hf_buf f) (fst (hf_small_string_table f) + j * 4) 4))"
  using assms of_nat_less_count [OF assms(1)]
    entry_fits [OF assms(1), of "fst (hf_small_string_table f)" 4 "length (hf_buf f)"]
  by (simp add: raw_small_string_table_entry_def Let_def slices)

lemma raw_overflow_slice:
  assumes "j < unat (hf_overflow_string_count f)"
    "snd (hf_overflow_string_table f) = unat (hf_overflow_string_count f) * 8"
    "span_end (hf_overflow_string_table f) \<le> length (hf_buf f)"
  shows "raw_overflow_string_table_entry_v96 f (of_nat j)
    = Some (decode_pair (slice (hf_buf f) (fst (hf_overflow_string_table f) + j * 8) 8))"
  using assms of_nat_less_count [OF assms(1)]
    entry_fits [OF assms(1), of "fst (hf_overflow_string_table f)" 8 "length (hf_buf f)"]
  by (simp add: raw_overflow_string_table_entry_v96_def read_pair_slice)

lemma raw_regexp_slice:
  assumes "j < unat (hf_reg_exp_count f)" "snd (hf_regexp_table f) = unat (hf_reg_exp_count f) * 8"
    "span_end (hf_regexp_table f) \<le> length (hf_buf f)"
  shows "regexp_table_entry_raw f (of_nat j)
    = Some (decode_pair (slice (hf_buf f) (fst (hf_regexp_table f) + j * 8) 8))"
  using assms of_nat_less_count [OF assms(1)]
    entry_fits [OF assms(1), of "fst (hf_regexp_table f)" 8 "length (hf_buf f)"]
  by (simp add: regexp_table_entry_raw_def read_pair_slice)

lemma raw_shape_slice:
  assumes "j < unat (hf_obj_shape_table_count f)"
    "snd (hf_obj_shape_table f) = unat (hf_obj_shape_table_count f) * 8"
    "span_end (hf_obj_shape_table f) \<le> length (hf_buf f)"
  shows "raw_obj_shape_table_entry_v98 f (of_nat j)
    = Some (decode_shape (slice (hf_buf f) (fst (hf_obj_shape_table f) + j * 8) 8))"
  using assms of_nat_less_count [OF assms(1)]
    entry_fits [OF assms(1), of "fst (hf_obj_shape_table f)" 8 "length (hf_buf f)"]
  by (simp add: raw_obj_shape_table_entry_v98_def read_pair_slice decode_shape_def)

section \<open>Whole tables\<close>

text \<open>Where a parsed file's string tables are, as the emitters use it.\<close>

lemma string_tables_bounds:
  assumes "string_tables_ok f"
  defines "fh_end \<equiv> 128 + unat (hf_function_count f) * unat (hf_func_header_size f)"
    and "sst \<equiv> fst (hf_small_string_table f)" and "ost \<equiv> fst (hf_overflow_string_table f)"
  shows "fst (hf_func_headers f) = 128" "fh_end \<le> sst"
    "sst + unat (hf_string_count f) * 4 \<le> ost"
    "ost + unat (hf_overflow_string_count f) * 8 \<le> length (hf_buf f)"
    "snd (hf_small_string_table f) = unat (hf_string_count f) * 4"
    "snd (hf_overflow_string_table f) = unat (hf_overflow_string_count f) * 8"
  using assms by (auto simp: string_tables_ok_def)

lemma table_end_ok: "start + unat count * unat stride \<le> len \<Longrightarrow> len \<le> u32_max \<Longrightarrow>
    table_end name start count stride = Inr (start + unat count * unat stride)"
  by (simp add: table_end_def section_bytes_usize_def checked_mul64_def checked_add64_def
      u32_max_def u64_max_def)

lemma emit_function_headers_v96_copied:
  assumes "string_tables_ok f" "has_obj_value_buffer (hf_header f)" "hf_func_header_size f = 16"
    "hf_version f = 84 \<or> hf_version f = 96"
  shows "emit_function_headers_v96 f (copied hdr (hf_buf f) 128)
    = Inr (copied hdr (hf_buf f) (128 + unat (hf_function_count f) * 16))"
proof -
  note b = string_tables_bounds [OF assms(1)]
  have len: "128 + unat (hf_function_count f) * 16 \<le> length (hf_buf f)" using b(2-4) assms(3) by simp
  have "unat (hf_function_count f) \<le> 2 ^ 32" using unat_u32 [of "hf_function_count f"] by simp
  then show ?thesis
    using fh96.emit_table [of "unat (hf_function_count f)" "raw_small_func_header_v96 f" "hf_buf f" 128]
      raw_v96_slice [OF assms(2)] b(1) len assms(3,4)
    by (simp add: emit_function_headers_v96_def require_v84_or_v96_def require_def V84_def V96_def
        emit_function_entries_eq)
qed

lemma emit_function_headers_v98_copied:
  assumes "string_tables_ok f" "v98_raw_form (hf_header f) = Some late" "hf_func_header_size f = 12"
    "hf_version f = 98 \<or> hf_version f = 99"
  shows "emit_function_headers_v98 f (copied hdr (hf_buf f) 128)
    = Inr (copied hdr (hf_buf f) (128 + unat (hf_function_count f) * 12))"
proof -
  note b = string_tables_bounds [OF assms(1)]
  have len: "128 + unat (hf_function_count f) * 12 \<le> length (hf_buf f)" using b(2-4) assms(3) by simp
  have "unat (hf_function_count f) \<le> 2 ^ 32" using unat_u32 [of "hf_function_count f"] by simp
  then show ?thesis
    using fh98l.emit_table [of "unat (hf_function_count f)" "raw_small_func_header_v98 f" "hf_buf f" 128]
      fh98e.emit_table [of "unat (hf_function_count f)" "raw_small_func_header_v98 f" "hf_buf f" 128]
      raw_v98_slice [OF assms(2)] b(1) len assms(3,4)
    by (cases late) (simp_all add: emit_function_headers_v98_def require_v98_or_v99_def require_def
        V98_def V99_def emit_function_entries_eq)
qed

definition emits_tables :: "HbcFile \<Rightarrow> bool" where
  "emits_tables f \<longleftrightarrow> hf_version f \<in> {84, 96, 98, 99}"

lemma require_shared_ok: "emits_tables f \<Longrightarrow> require_shared_table_format f = Inr ()"
  by (auto simp: emits_tables_def require_shared_table_format_def require_def V84_def V96_def
      V98_def V99_def)

lemma emit_small_string_table_copied:
  assumes "string_tables_ok f" "emits_tables f"
  shows "emit_small_string_table_v96 f (copied hdr (hf_buf f) (fst (hf_small_string_table f)))
    = Inr (copied hdr (hf_buf f) (fst (hf_small_string_table f) + unat (hf_string_count f) * 4))"
proof -
  note b = string_tables_bounds [OF assms(1)]
  have "span_end (hf_small_string_table f) \<le> length (hf_buf f)" "128 \<le> fst (hf_small_string_table f)"
    using b by simp_all
  then show ?thesis
    using sstr.emit_table [of "unat (hf_string_count f)" "raw_small_string_table_entry f" "hf_buf f"
        "fst (hf_small_string_table f)"] raw_string_slice [OF _ b(5)] b(5)
    by (simp add: emit_small_string_table_v96_def require_shared_ok [OF assms(2)])
qed

lemma emit_overflow_table_copied:
  assumes "string_tables_ok f" "emits_tables f"
  shows "emit_overflow_string_table_v96 f (copied hdr (hf_buf f) (fst (hf_overflow_string_table f)))
    = Inr (copied hdr (hf_buf f)
        (fst (hf_overflow_string_table f) + unat (hf_overflow_string_count f) * 8))"
proof -
  note b = string_tables_bounds [OF assms(1)]
  have "span_end (hf_overflow_string_table f) \<le> length (hf_buf f)" "128 \<le> fst (hf_overflow_string_table f)"
    using b by simp_all
  then show ?thesis
    using pair8.emit_table [of "unat (hf_overflow_string_count f)" "raw_overflow_string_table_entry_v96 f"
        "hf_buf f" "fst (hf_overflow_string_table f)"] raw_overflow_slice [OF _ b(6)] b(6)
    by (simp add: emit_overflow_string_table_v96_def require_shared_ok [OF assms(2)])
qed

lemma emit_regexp_table_copied:
  assumes "emits_tables f" "snd (hf_regexp_table f) = unat (hf_reg_exp_count f) * 8"
    "span_end (hf_regexp_table f) \<le> length (hf_buf f)" "128 \<le> fst (hf_regexp_table f)"
  shows "emit_regexp_table_v96 f (copied hdr (hf_buf f) (fst (hf_regexp_table f)))
    = Inr (copied hdr (hf_buf f) (fst (hf_regexp_table f) + unat (hf_reg_exp_count f) * 8))"
  using pair8.emit_table [of "unat (hf_reg_exp_count f)" "regexp_table_entry_raw f"
      "hf_buf f" "fst (hf_regexp_table f)"] raw_regexp_slice [OF _ assms(2,3)] assms(2-4)
  by (simp add: emit_regexp_table_v96_def require_shared_ok [OF assms(1)])

lemma emit_shape_table_copied:
  assumes "hf_version f = 98 \<or> hf_version f = 99"
    "snd (hf_obj_shape_table f) = unat (hf_obj_shape_table_count f) * 8"
    "span_end (hf_obj_shape_table f) \<le> length (hf_buf f)" "128 \<le> fst (hf_obj_shape_table f)"
  shows "emit_obj_shape_table_v98 f (copied hdr (hf_buf f) (fst (hf_obj_shape_table f)))
    = Inr (copied hdr (hf_buf f) (fst (hf_obj_shape_table f) + unat (hf_obj_shape_table_count f) * 8))"
  using shape8.emit_table [of "unat (hf_obj_shape_table_count f)" "raw_obj_shape_table_entry_v98 f"
      "hf_buf f" "fst (hf_obj_shape_table f)"] raw_shape_slice [OF _ assms(2,3)] assms
  by (simp add: emit_obj_shape_table_v98_def require_v98_or_v99_def require_def V98_def V99_def)

section \<open>Headers\<close>

text \<open>Adjacent slices, in a right-nested concatenation.\<close>

lemma slice_join: "b = a + m \<Longrightarrow> slice xs a m @ slice xs b n = slice xs a (m + n)"
  by (simp add: slice_append)

lemma slice_join_append: "b = a + m \<Longrightarrow> slice xs a m @ slice xs b n @ ys = slice xs a (m + n) @ ys"
  by (simp add: slice_append [symmetric])

lemma placed_size: "placed len lo hi n sp \<Longrightarrow> snd sp = n"
  by (auto simp: placed_def)

lemma data_sizes:
  assumes "data_tables_ok f"
  shows "array_buffer_size f = hdr_array_buffer_size (hf_header f)"
    "obj_key_buffer_size f = hdr_obj_key_buffer_size (hf_header f)"
    "obj_value_buffer_size f = (if has_obj_value_buffer (hf_header f)
       then hdr_obj_value_buffer_size (hf_header f) else 0)"
    "big_int_storage_size f = (if has_big_ints (hf_header f) \<and> 0 < hf_big_int_count f
       then hdr_big_int_storage_size (hf_header f) else 0)"
  using assms
  by (auto simp: data_tables_ok_def Let_def array_buffer_size_def obj_key_buffer_size_def
      obj_value_buffer_size_def big_int_storage_size_def dest!: placed_size)

lemma variant_v96: "hdr_version h \<in> variant_versions h \<Longrightarrow> hdr_version h = 96 \<Longrightarrow> \<exists>x. h = V87to96 x"
  by (cases h) simp_all

lemma variant_v84: "hdr_version h \<in> variant_versions h \<Longrightarrow> hdr_version h = 84 \<Longrightarrow> \<exists>x. h = V84to86 x"
  by (cases h) simp_all

lemma variant_v98:
  "hdr_version h \<in> variant_versions h \<Longrightarrow> hdr_version h = 98 \<Longrightarrow>
     (\<exists>x. h = V97toV98Early x \<and> h97_version x = 98) \<or> (\<exists>x. h = V98LateToV99 x \<and> h98_version x = 98)"
  by (cases h) simp_all

lemma variant_v99:
  "hdr_version h \<in> variant_versions h \<Longrightarrow> hdr_version h = 99 \<Longrightarrow> \<exists>x. h = V98LateToV99 x \<and> h98_version x = 99"
  by (cases h) simp_all

lemma magic_bytes: "128 \<le> length buf \<Longrightarrow> le_nat (take 8 buf) = HBC_MAGIC \<Longrightarrow> le_bytes 8 HBC_MAGIC = slice buf 0 8"
  using le_bytes_le_nat [of "take 8 buf"] by (simp add: slice_def)

lemma header_range_slice: "a \<le> b \<Longrightarrow> b \<le> length src \<Longrightarrow> header_range src a b = Inr (slice src a (b - a))"
  by (simp add: header_range_def slices)

text \<open>The input with the declared length replaced by \<open>file_length\<close> and, at \<open>68\<close>, the size word
  of the big-int storage replaced by what the emitter writes there.\<close>

definition canonical_bigint :: "u32 \<Rightarrow> u8 list \<Rightarrow> u8 list" where
  "canonical_bigint file_length buf =
     take 32 buf @ u32_to_le file_length @ slice buf 36 32
     @ (if read_u32 buf 64 = 0 then u32_to_le 0 else slice buf 68 4) @ drop 72 buf"

definition canonical_plain :: "u32 \<Rightarrow> u8 list \<Rightarrow> u8 list" where
  "canonical_plain file_length buf = take 32 buf @ u32_to_le file_length @ drop 36 buf"

text \<open>Words of the header that the emitter writes back.\<close>

lemma word_slice:
  "w = read_u32 buf n \<Longrightarrow> n + 4 \<le> length buf \<Longrightarrow> u32_to_le w = slice buf n 4"
  by (simp add: u32_to_le_read_u32)

lemma drop_slice: "n \<le> m \<Longrightarrow> slice buf n (m - n) @ drop m buf = drop n buf"
  using slice_drop [of buf n "m - n"] by simp

text \<open>The fields of a parsed file that sit at the same offset in every layout.\<close>

lemma parsed_common:
  assumes "header_fields_ok f"
  shows "hf_version f = read_u32 (hf_buf f) 8" "hf_function_count f = read_u32 (hf_buf f) 40"
    "hf_string_kind_count f = read_u32 (hf_buf f) 44" "hf_identifier_count f = read_u32 (hf_buf f) 48"
    "hf_string_count f = read_u32 (hf_buf f) 52" "hf_overflow_string_count f = read_u32 (hf_buf f) 56"
    "hf_string_storage_size f = read_u32 (hf_buf f) 60"
    "128 \<le> length (hf_buf f)" "le_nat (take 8 (hf_buf f)) = HBC_MAGIC"
    "hdr_version (hf_header f) = hf_version f" "hf_func_header_size f = hdr_func_header_size (hf_header f)"
    "hdr_version (hf_header f) \<in> variant_versions (hf_header f)"
  using assms by (auto simp: header_fields_ok_def header_at_def Let_def)

text \<open>The remaining fields, at the offsets of a layout with its big-int pair (\<open>bp\<close>), its
  string-switch word (\<open>iw\<close>) and its function-source word (\<open>sw\<close>).\<close>

lemma parsed_layout:
  assumes "header_fields_ok f" "bigint_pair (hf_header f) = bp" "imms_word (hf_header f) = iw"
    "source_word (hf_header f) = 4"
  shows "hf_reg_exp_count f = read_u32 (hf_buf f) (64 + bp)"
    "hf_reg_exp_storage_size f = read_u32 (hf_buf f) (68 + bp)"
    "hdr_array_buffer_size (hf_header f) = read_u32 (hf_buf f) (72 + bp)"
    "hdr_obj_key_buffer_size (hf_header f) = read_u32 (hf_buf f) (76 + bp)"
    "hf_cjs_module_count f = read_u32 (hf_buf f) (88 + bp + iw)"
    "hf_function_source_count f = read_u32 (hf_buf f) (92 + bp + iw)"
    "hf_debug_info_offset f = read_u32 (hf_buf f) (92 + bp + iw + 4)"
    "hdr_func_header_size (hf_header f) = 16 \<Longrightarrow>
       hdr_obj_value_buffer_size (hf_header f) = read_u32 (hf_buf f) (80 + bp)"
    "hdr_func_header_size (hf_header f) \<noteq> 16 \<Longrightarrow> hf_obj_shape_table_count f = read_u32 (hf_buf f) 88"
    "bp \<noteq> 0 \<Longrightarrow> hf_big_int_count f = read_u32 (hf_buf f) 64"
    "bp \<noteq> 0 \<Longrightarrow> hdr_big_int_storage_size (hf_header f) = read_u32 (hf_buf f) 68"
  using assms by (auto simp: header_fields_ok_def header_at_def Let_def)

lemma header_v96:
  assumes ok: "parsed_ok f" and v: "hf_version f = 96"
  shows "\<exists>hdr. emit_header_v96 f (hf_buf f) fl [] = Inr hdr
    \<and> hdr @ drop 128 (hf_buf f) = canonical_bigint fl (hf_buf f)"
proof -
  let ?b = "hf_buf f" and ?h = "hf_header f"
  have hf: "header_fields_ok f" and dt: "data_tables_ok f" using ok by (simp_all add: parsed_ok_def)
  note c = parsed_common [OF hf]
  obtain x where x: "?h = V87to96 x" using variant_v96 [of ?h] c(10,12) v by auto
  note l = parsed_layout [OF hf, of 8 0, unfolded x, simplified, folded x]
  have "V96 = read_u32 ?b 8" using c(1) v by (simp add: V96_def)
  note w = this [THEN word_slice] c(2-7) [THEN word_slice]
    l(1-8,10) [THEN word_slice]
  note d = data_sizes [OF dt, unfolded x, simplified, unfolded l(10)]
  have take32: "take 32 ?b = slice ?b 0 32" by (simp add: slice_def)
  have drop72: "drop 72 ?b = slice ?b 72 56 @ drop 128 ?b" using drop_slice [of 72 128 ?b] by simp
  show ?thesis
    unfolding canonical_bigint_def emit_header_v96_def take32 drop72
    using c(8)
    by (simp add: header_range_slice magic_bytes [OF c(8,9)] emit_string_counts_def d w
        l(11) u32_to_le_read_u32 word_greater_zero_iff slice_join_append slice_join)
qed

lemma header_v98:
  assumes ok: "parsed_ok f" and v: "hf_version f = 98 \<or> hf_version f = 99"
  shows "\<exists>hdr late. emit_header_v98 f (hf_buf f) fl [] = Inr hdr
    \<and> hdr @ drop 128 (hf_buf f) = canonical_bigint fl (hf_buf f)
    \<and> v98_raw_form (hf_header f) = Some late \<and> hf_func_header_size f = 12
    \<and> \<not> has_obj_value_buffer (hf_header f)"
proof -
  let ?b = "hf_buf f" and ?h = "hf_header f"
  have hf: "header_fields_ok f" and dt: "data_tables_ok f" using ok by (simp_all add: parsed_ok_def)
  note c = parsed_common [OF hf]
  note w = c(1-7) [THEN word_slice]
  have take32: "take 32 ?b = slice ?b 0 32" by (simp add: slice_def)
  have drop72: "drop 72 ?b = slice ?b 72 56 @ drop 128 ?b" using drop_slice [of 72 128 ?b] by simp
  consider (early) x where "?h = V97toV98Early x" "h97_version x = 98"
    | (late) x where "?h = V98LateToV99 x" "h98_version x = 98 \<or> h98_version x = 99"
    using variant_v98 [of ?h] variant_v99 [of ?h] c(10,12) v by auto
  then show ?thesis
  proof cases
    case x: early
    note l = parsed_layout [OF hf, of 8 0, unfolded x(1), simplified, folded x(1)]
    note d = data_sizes [OF dt, unfolded x(1), simplified, unfolded l(10)]
    show ?thesis
      unfolding canonical_bigint_def emit_header_v98_def take32 drop72
      using c(8) x
      by (simp add: header_range_slice magic_bytes [OF c(8,9)] emit_string_counts_def d w
          l(1-7,9,10) [THEN word_slice] l(11) u32_to_le_read_u32 word_greater_zero_iff
          slice_join_append slice_join c(11) Let_def) (rule exI [of _ False], simp)
  next
    case x: late
    note l = parsed_layout [OF hf, of 8 4, unfolded x(1), simplified, folded x(1)]
    note d = data_sizes [OF dt, unfolded x(1), simplified, unfolded l(10)]
    show ?thesis
      unfolding canonical_bigint_def emit_header_v98_def take32 drop72
      using c(8) x
      by (simp add: header_range_slice magic_bytes [OF c(8,9)] emit_string_counts_def d w
          l(1-7,9,10) [THEN word_slice] l(11) u32_to_le_read_u32 word_greater_zero_iff
          slice_join_append slice_join c(11) Let_def) (rule exI [of _ True], simp)
  qed
qed

lemma header_v84:
  assumes ok: "parsed_ok f" and v: "hf_version f = 84"
  shows "\<exists>hdr. emit_header_v84 f (hf_buf f) fl [] = Inr hdr
    \<and> hdr @ drop 128 (hf_buf f) = canonical_plain fl (hf_buf f)"
proof -
  let ?b = "hf_buf f" and ?h = "hf_header f"
  have hf: "header_fields_ok f" and dt: "data_tables_ok f" using ok by (simp_all add: parsed_ok_def)
  note c = parsed_common [OF hf]
  obtain x where x: "?h = V84to86 x" using variant_v84 [of ?h] c(10,12) v by auto
  note l = parsed_layout [OF hf, of 0 0, unfolded x, simplified, folded x]
  note w = c(1-7) [THEN word_slice] l(1-8) [THEN word_slice]
  note d = data_sizes [OF dt, unfolded x, simplified]
  have take32: "take 32 ?b = slice ?b 0 32" by (simp add: slice_def)
  have drop36: "drop 36 ?b = slice ?b 36 92 @ drop 128 ?b" using drop_slice [of 36 128 ?b] by simp
  show ?thesis
    unfolding canonical_plain_def emit_header_v84_def take32 drop36
    using c(8)
    by (simp add: header_range_slice magic_bytes [OF c(8,9)] emit_string_counts_def d w
        slice_join_append slice_join)
qed

lemma variant_facts:
  "hf_version f = 96 \<Longrightarrow> header_fields_ok f \<Longrightarrow>
     has_obj_value_buffer (hf_header f) \<and> hf_func_header_size f = 16"
  "hf_version f = 84 \<Longrightarrow> header_fields_ok f \<Longrightarrow>
     has_obj_value_buffer (hf_header f) \<and> hf_func_header_size f = 16"
  using variant_v96 [of "hf_header f"] variant_v84 [of "hf_header f"] parsed_common(10-12) [of f]
  by auto

section \<open>The round trips\<close>

text \<open>The middle part that the emitters share: gap, function headers, gap, strings, gap, overflow.\<close>

lemma emit_opt_table_copied:
  assumes "128 \<le> prev" "prev \<le> length src" "0 < count \<Longrightarrow> prev \<le> start \<and> start \<le> length src"
    "0 < count \<Longrightarrow> emit_table (copied hdr src start) = Inr (copied hdr src (start + unat count * 8))"
  shows "emit_opt_table count src prev start emit_table (copied hdr src prev)
    = Inr (copied hdr src (if 0 < count then start + unat count * 8 else prev))"
  using assms by (simp add: emit_opt_table_def emit_gap_copied)

lemma opt_table_end_ok:
  "(0 < count \<Longrightarrow> start + unat count * unat stride \<le> len) \<Longrightarrow> len \<le> u32_max \<Longrightarrow>
     opt_table_end name start count stride prev
       = Inr (if 0 < count then start + unat count * unat stride else prev)"
  by (auto simp: opt_table_end_def intro: table_end_ok)

text \<open>The ends of the string tables as all three emitters compute them.\<close>

definition sst_end_of :: "HbcFile \<Rightarrow> usize" where
  "sst_end_of f = fst (hf_small_string_table f) + unat (hf_string_count f) * 4"

definition ost_end_of :: "HbcFile \<Rightarrow> usize" where
  "ost_end_of f = (if 0 < hf_overflow_string_count f
     then fst (hf_overflow_string_table f) + unat (hf_overflow_string_count f) * 8 else sst_end_of f)"

definition fh_end_of :: "HbcFile \<Rightarrow> usize" where
  "fh_end_of f = 128 + unat (hf_function_count f) * unat (hf_func_header_size f)"

lemma layout_ends:
  assumes "string_tables_ok f" "length (hf_buf f) \<le> u32_max"
  shows "table_end n1 (fst (hf_func_headers f)) (hf_function_count f) (hf_func_header_size f)
      = Inr (fh_end_of f)"
    "table_end n2 (fst (hf_small_string_table f)) (hf_string_count f) 4 = Inr (sst_end_of f)"
    "opt_table_end n3 (fst (hf_overflow_string_table f)) (hf_overflow_string_count f) 8 (sst_end_of f)
      = Inr (ost_end_of f)"
    "\<not> base_layout_bad f (fh_end_of f) (sst_end_of f) (ost_end_of f)"
    "128 \<le> fh_end_of f" "fh_end_of f \<le> fst (hf_small_string_table f)" "sst_end_of f \<le> ost_end_of f"
    "fst (hf_small_string_table f) \<le> sst_end_of f" "sst_end_of f \<le> fst (hf_overflow_string_table f)"
    "ost_end_of f \<le> length (hf_buf f)" "ost_end_of f \<le> fst (hf_string_storage f)"
    "fst (hf_overflow_string_table f) \<le> length (hf_buf f)"
proof -
  note b = string_tables_bounds [OF assms(1)]
  show "table_end n1 (fst (hf_func_headers f)) (hf_function_count f) (hf_func_header_size f)
      = Inr (fh_end_of f)"
    unfolding b(1) fh_end_of_def by (rule table_end_ok [OF _ assms(2)]) (use b in simp)
  show "table_end n2 (fst (hf_small_string_table f)) (hf_string_count f) 4 = Inr (sst_end_of f)"
    using table_end_ok [of "fst (hf_small_string_table f)" "hf_string_count f" 4, OF _ assms(2)] b
    by (simp add: sst_end_of_def)
  show "opt_table_end n3 (fst (hf_overflow_string_table f)) (hf_overflow_string_count f) 8 (sst_end_of f)
      = Inr (ost_end_of f)"
    using opt_table_end_ok [of "hf_overflow_string_count f" "fst (hf_overflow_string_table f)" 8,
        OF _ assms(2)] b
    by (simp add: ost_end_of_def)
  show "\<not> base_layout_bad f (fh_end_of f) (sst_end_of f) (ost_end_of f)"
    using b by (simp add: base_layout_bad_def HEADER_SIZE_def fh_end_of_def sst_end_of_def ost_end_of_def)
  show "128 \<le> fh_end_of f" "fh_end_of f \<le> fst (hf_small_string_table f)" "sst_end_of f \<le> ost_end_of f"
    "fst (hf_small_string_table f) \<le> sst_end_of f" "sst_end_of f \<le> fst (hf_overflow_string_table f)"
    "ost_end_of f \<le> length (hf_buf f)" "fst (hf_overflow_string_table f) \<le> length (hf_buf f)"
    using b by (simp_all add: fh_end_of_def sst_end_of_def ost_end_of_def)
  show "ost_end_of f \<le> fst (hf_string_storage f)"
    using assms(1) by (simp add: string_tables_ok_def fh_end_of_def sst_end_of_def ost_end_of_def)
qed

lemma overflow_copied:
  assumes "string_tables_ok f" "length (hf_buf f) \<le> u32_max" "emits_tables f"
  shows "emit_opt_table (hf_overflow_string_count f) (hf_buf f) (sst_end_of f)
      (fst (hf_overflow_string_table f)) (emit_overflow_string_table_v96 f) (copied hdr (hf_buf f) (sst_end_of f))
    = Inr (copied hdr (hf_buf f) (ost_end_of f))"
  using emit_opt_table_copied [of "sst_end_of f" "hf_buf f" "hf_overflow_string_count f"
      "fst (hf_overflow_string_table f)" "emit_overflow_string_table_v96 f" hdr]
    emit_overflow_table_copied [OF assms(1,3)] layout_ends [OF assms(1,2)]
  by (simp add: ost_end_of_def)

text \<open>The steps up to the end of the overflow table, which the emitters share.\<close>

lemma middle_steps:
  assumes "string_tables_ok f" "length (hf_buf f) \<le> u32_max" "emits_tables f"
  shows "fst (hf_func_headers f) = 128"
    "emit_gap (hf_buf f) 128 128 (copied hdr (hf_buf f) 128) = Inr (copied hdr (hf_buf f) 128)"
    "emit_gap (hf_buf f) (fh_end_of f) (fst (hf_small_string_table f)) (copied hdr (hf_buf f) (fh_end_of f))
      = Inr (copied hdr (hf_buf f) (fst (hf_small_string_table f)))"
    "emit_small_string_table_v96 f (copied hdr (hf_buf f) (fst (hf_small_string_table f)))
      = Inr (copied hdr (hf_buf f) (sst_end_of f))"
    "emit_opt_table (hf_overflow_string_count f) (hf_buf f) (sst_end_of f)
      (fst (hf_overflow_string_table f)) (emit_overflow_string_table_v96 f) (copied hdr (hf_buf f) (sst_end_of f))
      = Inr (copied hdr (hf_buf f) (ost_end_of f))"
    "128 \<le> ost_end_of f"
proof -
  note e = layout_ends [OF assms(1,2)]
  show "fst (hf_func_headers f) = 128" by (rule string_tables_bounds(1) [OF assms(1)])
  show "emit_gap (hf_buf f) 128 128 (copied hdr (hf_buf f) 128) = Inr (copied hdr (hf_buf f) 128)"
    using e(5-10) by (intro emit_gap_copied) linarith+
  show "emit_gap (hf_buf f) (fh_end_of f) (fst (hf_small_string_table f)) (copied hdr (hf_buf f) (fh_end_of f))
      = Inr (copied hdr (hf_buf f) (fst (hf_small_string_table f)))"
    using e(5-10) by (intro emit_gap_copied) linarith+
  show "emit_small_string_table_v96 f (copied hdr (hf_buf f) (fst (hf_small_string_table f)))
      = Inr (copied hdr (hf_buf f) (sst_end_of f))"
    using emit_small_string_table_copied [OF assms(1,3)] by (simp add: sst_end_of_def)
  show "emit_opt_table (hf_overflow_string_count f) (hf_buf f) (sst_end_of f)
      (fst (hf_overflow_string_table f)) (emit_overflow_string_table_v96 f) (copied hdr (hf_buf f) (sst_end_of f))
      = Inr (copied hdr (hf_buf f) (ost_end_of f))"
    by (rule overflow_copied [OF assms])
  show "128 \<le> ost_end_of f" using e(5-8) by linarith
qed

lemma emit_v96:
  assumes ok: "parsed_ok f" and v: "hf_version f = 96" and len: "length (hf_buf f) \<le> u32_max"
    and unrec: "hf_unrecognized_functions f = []"
  shows "emit_hbc f = Inr (canonical_bigint (of_nat (length (hf_buf f))) (hf_buf f))"
proof -
  let ?b = "hf_buf f"
  have hf: "header_fields_ok f" and st: "string_tables_ok f" using ok by (simp_all add: parsed_ok_def)
  obtain hdr where hdr: "emit_header_v96 f ?b (of_nat (length ?b)) [] = Inr hdr"
    "hdr @ drop 128 ?b = canonical_bigint (of_nat (length ?b)) ?b"
    using header_v96 [OF ok v] by blast
  have start: "emit_header_v96 f ?b (of_nat (length ?b)) [] = Inr (copied hdr ?b 128)"
    using hdr(1) by (simp add: copied_start)
  have tables: "emits_tables f" by (simp add: emits_tables_def v)
  note e = layout_ends [OF st len] and m = middle_steps [OF st len tables]
  have heads: "emit_function_headers_v96 f (copied hdr ?b 128) = Inr (copied hdr ?b (fh_end_of f))"
    using emit_function_headers_v96_copied [OF st] variant_facts(1) [OF v hf] v
    by (simp add: fh_end_of_def)
  show ?thesis
    unfolding emit_hbc_def Let_def
    using unrec len parsed_common(8) [OF hf]
    by (simp add: v V96_def reject_if_unrecognized_def require_def HEADER_SIZE_def file_length_of_def
        start e(1) [unfolded m(1)] e(2-4) m heads emit_rest_copied e(10) hdr(2))
qed

lemma emit_v84:
  assumes ok: "parsed_ok f" and v: "hf_version f = 84" and len: "length (hf_buf f) \<le> u32_max"
    and unrec: "hf_unrecognized_functions f = []"
    and re: "unat (hf_reg_exp_count f) * 8 \<le> length (hf_buf f)"
  shows "emit_hbc_v84 f = Inr (canonical_plain (of_nat (length (hf_buf f))) (hf_buf f))"
proof -
  let ?b = "hf_buf f"
  have hf: "header_fields_ok f" and st: "string_tables_ok f" and dt: "data_tables_ok f"
    using ok by (simp_all add: parsed_ok_def)
  obtain hdr where hdr: "emit_header_v84 f ?b (of_nat (length ?b)) [] = Inr hdr"
    "hdr @ drop 128 ?b = canonical_plain (of_nat (length ?b)) ?b"
    using header_v84 [OF ok v] by blast
  have start: "emit_header_v84 f ?b (of_nat (length ?b)) [] = Inr (copied hdr ?b 128)"
    using hdr(1) by (simp add: copied_start)
  have tables: "emits_tables f" by (simp add: emits_tables_def v)
  note e = layout_ends [OF st len] and m = middle_steps [OF st len tables]
  have heads: "emit_function_headers_v96 f (copied hdr ?b 128) = Inr (copied hdr ?b (fh_end_of f))"
    using emit_function_headers_v96_copied [OF st] variant_facts(2) [OF v hf] v
    by (simp add: fh_end_of_def)
  have "unat (hf_reg_exp_count f) * 8 < 2 ^ 32" using re len by (simp add: u32_max_def)
  then have pl: "\<exists>lo hi. span_end (hf_string_storage f) \<le> lo
      \<and> placed (length ?b) lo hi (unat (hf_reg_exp_count f) * 8) (hf_regexp_table f)"
    using dt unfolding data_tables_ok_def Let_def by (metis le_trans mod_less)
  let ?n = "unat (hf_reg_exp_count f)" and ?s = "fst (hf_regexp_table f)"
  have re: "ost_end_of f \<le> ?s \<and> ?s + ?n * 8 \<le> length ?b \<and> snd (hf_regexp_table f) = ?n * 8"
    if "0 < hf_reg_exp_count f"
    using pl e(11) that by (auto simp: placed_def unat_eq_0 word_greater_zero_iff)
  have step: "emit_opt_table (hf_reg_exp_count f) ?b (ost_end_of f) ?s (emit_regexp_table_v96 f)
      (copied hdr ?b (ost_end_of f))
    = Inr (copied hdr ?b (if 0 < hf_reg_exp_count f then ?s + ?n * 8 else ost_end_of f))"
  proof (rule emit_opt_table_copied [OF m(6) e(10)])
    show "0 < hf_reg_exp_count f \<Longrightarrow> ost_end_of f \<le> ?s \<and> ?s \<le> length ?b" using re by auto
    show "0 < hf_reg_exp_count f \<Longrightarrow>
        emit_regexp_table_v96 f (copied hdr ?b ?s) = Inr (copied hdr ?b (?s + ?n * 8))"
      using re m(6) by (intro emit_regexp_table_copied [OF tables]) auto
  qed
  have r_end: "opt_table_end n ?s (hf_reg_exp_count f) 8 (ost_end_of f)
      = Inr (if 0 < hf_reg_exp_count f then ?s + ?n * 8 else ost_end_of f)" for n
    using opt_table_end_ok [of "hf_reg_exp_count f" ?s 8, OF _ len] re by simp
  let ?r = "if 0 < hf_reg_exp_count f then ?s + ?n * 8 else ost_end_of f"
  have r: "128 \<le> ?r" "?r \<le> length ?b" "\<not> (0 < hf_reg_exp_count f \<and> (?s < ost_end_of f \<or> length ?b < ?r))"
    using re m(6) e(10) by auto
  show ?thesis
    unfolding emit_hbc_v84_def Let_def
    using unrec len parsed_common(8) [OF hf] r(3)
    by (simp add: v V84_def reject_if_unrecognized_def require_def HEADER_SIZE_def file_length_of_def
        start e(1) [unfolded m(1)] e(2-4) m heads step r_end emit_rest_copied [OF r(1,2)] hdr(2)
        del: if_split)
qed

lemma emit_v98_v99:
  assumes ok: "parsed_ok f" and v: "hf_version f = 98 \<or> hf_version f = 99"
    and len: "length (hf_buf f) \<le> u32_max" and unrec: "hf_unrecognized_functions f = []"
  shows "emit_hbc_v98_or_v99 f = Inr (canonical_bigint (of_nat (length (hf_buf f))) (hf_buf f))"
proof -
  let ?b = "hf_buf f"
  have hf: "header_fields_ok f" and st: "string_tables_ok f" and dt: "data_tables_ok f"
    using ok by (simp_all add: parsed_ok_def)
  obtain hdr late where hdr: "emit_header_v98 f ?b (of_nat (length ?b)) [] = Inr hdr"
    "hdr @ drop 128 ?b = canonical_bigint (of_nat (length ?b)) ?b"
    "v98_raw_form (hf_header f) = Some late" "hf_func_header_size f = 12"
    "\<not> has_obj_value_buffer (hf_header f)"
    using header_v98 [OF ok v] by blast
  have start: "emit_header_v98 f ?b (of_nat (length ?b)) [] = Inr (copied hdr ?b 128)"
    using hdr(1) by (simp add: copied_start)
  have tables: "emits_tables f" using v by (auto simp: emits_tables_def)
  note e = layout_ends [OF st len] and m = middle_steps [OF st len tables]
  have heads: "emit_function_headers_v98 f (copied hdr ?b 128) = Inr (copied hdr ?b (fh_end_of f))"
    using emit_function_headers_v98_copied [OF st hdr(3,4) v] hdr(4) by (simp add: fh_end_of_def)
  let ?n = "unat (hf_obj_shape_table_count f)" and ?s = "fst (hf_obj_shape_table f)"
  have pl: "\<exists>lo hi. span_end (hf_string_storage f) \<le> lo
      \<and> placed (length ?b) lo hi (?n * 8) (hf_obj_shape_table f)"
    using dt hdr(5) unfolding data_tables_ok_def Let_def by auto
  have sh: "ost_end_of f \<le> ?s \<and> ?s + ?n * 8 \<le> length ?b \<and> snd (hf_obj_shape_table f) = ?n * 8"
    if "0 < hf_obj_shape_table_count f"
    using pl e(11) that by (auto simp: placed_def unat_eq_0 word_greater_zero_iff)
  have step: "emit_opt_table (hf_obj_shape_table_count f) ?b (ost_end_of f) ?s (emit_obj_shape_table_v98 f)
      (copied hdr ?b (ost_end_of f))
    = Inr (copied hdr ?b (if 0 < hf_obj_shape_table_count f then ?s + ?n * 8 else ost_end_of f))"
  proof (rule emit_opt_table_copied [OF m(6) e(10)])
    show "0 < hf_obj_shape_table_count f \<Longrightarrow> ost_end_of f \<le> ?s \<and> ?s \<le> length ?b" using sh by auto
    show "0 < hf_obj_shape_table_count f \<Longrightarrow>
        emit_obj_shape_table_v98 f (copied hdr ?b ?s) = Inr (copied hdr ?b (?s + ?n * 8))"
      using sh m(6) by (intro emit_shape_table_copied [OF v]) auto
  qed
  have s_end: "opt_table_end n ?s (hf_obj_shape_table_count f) 8 (ost_end_of f)
      = Inr (if 0 < hf_obj_shape_table_count f then ?s + ?n * 8 else ost_end_of f)" for n
    using opt_table_end_ok [of "hf_obj_shape_table_count f" ?s 8, OF _ len] sh by simp
  let ?r = "if 0 < hf_obj_shape_table_count f then ?s + ?n * 8 else ost_end_of f"
  have r: "128 \<le> ?r" "?r \<le> length ?b"
    "\<not> (0 < hf_obj_shape_table_count f \<and> (?s < ost_end_of f \<or> length ?b < ?r))"
    using sh m(6) e(10) by auto
  show ?thesis
    unfolding emit_hbc_v98_or_v99_def Let_def
    using unrec len parsed_common(8) [OF hf] r(3) v
    by (simp add: require_v98_or_v99_def V98_def V99_def reject_if_unrecognized_def require_def
        HEADER_SIZE_def file_length_of_def
        start e(1) [unfolded m(1)] e(2-4) m heads step s_end emit_rest_copied [OF r(1,2)] hdr(2)
        del: if_split)
qed

section \<open>Parse, then emit\<close>

text \<open>
  C30. Round trip for v84, whose header has no big-int words: only the declared file length
  can differ. The guard is assumed to do what it documents, to accept a count only when the
  counted entries fit the buffer.
\<close>

theorem emit_hbc_v84_roundtrip:
  assumes "fst (parse_inner guard buf ih) = Inr f" "hf_version f = 84" "length buf \<le> u32_max"
    and guard: "\<And>got stride len item. guard got stride len item \<Longrightarrow> got * stride \<le> len"
  shows "emit_hbc_v84 f = Inr (canonical_plain (of_nat (length buf)) buf)"
proof -
  have "unat (hf_reg_exp_count f) * 8 \<le> length buf"
    using assms(1) guard [of "unat (hf_reg_exp_count f)" 8 "length buf"]
    by (auto simp: parse_inner_Inr header_guards_def bound_count_def ebind_eq_Inr require_eq_Inr
        build_file_def Let_def split_beta split: if_splits)
  then show ?thesis
    using emit_v84 [of f] parse_inner_parsed_ok [OF assms(1)] assms(2,3) by simp
qed

text \<open>
  Byte identity: when the declared file length is the true one and a file without big
  ints declares no big-int storage, the emitters return exactly the input.
\<close>

theorem emit_byte_identical:
  assumes "fst (parse_inner guard buf ih) = Inr f" "hf_version f \<in> {96, 98, 99}"
    "unat (read_u32 buf 32) = length buf" "read_u32 buf 64 = 0 \<Longrightarrow> read_u32 buf 68 = 0"
  shows "(if hf_version f = 96 then emit_hbc f else if hf_version f = 98 then emit_hbc_v98 f
     else emit_hbc_v99 f) = Inr buf"
proof -
  note ok = parse_inner_parsed_ok [OF assms(1)]
  have len: "length buf \<le> u32_max" using assms(3) unat_le_u32_max [of "read_u32 buf 32"] by simp
  have long: "128 \<le> length buf" using ok by (auto simp: parsed_ok_def header_fields_ok_def Let_def)
  have "u32_to_le (of_nat (length buf)) = slice buf 32 4"
    using long by (simp flip: assms(3) add: u32_to_le_read_u32)
  moreover have "(if read_u32 buf 64 = 0 then u32_to_le 0 else slice buf 68 4) = slice buf 68 4"
  proof (cases "read_u32 buf 64 = 0")
    case True
    then have "u32_to_le 0 = u32_to_le (read_u32 buf 68)" using assms(4) by simp
    with True long show ?thesis by (simp add: u32_to_le_read_u32)
  qed simp
  moreover have "take 32 buf @ slice buf 32 4 @ slice buf 36 32 @ slice buf 68 4 @ drop 72 buf = buf"
  proof -
    have "slice buf 32 4 @ slice buf 36 32 @ slice buf 68 4 @ drop 72 buf = drop 32 buf"
      using slice_drop [of buf 32 40] by (simp add: slice_join_append)
    then show ?thesis by simp
  qed
  ultimately have "canonical_bigint (of_nat (length buf)) buf = buf"
    by (simp add: canonical_bigint_def)
  then show ?thesis
    using emit_v96 [of f] emit_v98_v99 [of f] ok len assms(2)
    by (auto simp: emit_hbc_v98_def emit_hbc_v99_def V98_def V99_def)
qed

end
