(* ===== verification/Hermes_Parse.thy ===== *)
theory Hermes_Parse
  imports Hermes_Regions Hermes_Roundtrip
begin

text \<open>
  \<open>HbcFile::parse\<close> of \<open>parser/mod.rs\<close>: \<open>parse_inner\<close>, the layout selection and the region
  validation in sequence, and the properties that span the three.
\<close>

section \<open>The entry point\<close>

text \<open>
  \<open>HbcFile::parse\<close>. The resource budget and the input digest come from outside: \<open>charge\<close> says
  whether the budget, when there is one, admits the input, and \<open>digest\<close> is its hash.
\<close>

definition parse ::
  "count_guard \<Rightarrow> (usize \<Rightarrow> usize \<Rightarrow> string \<Rightarrow> bool) option \<Rightarrow> (u8 list \<Rightarrow> string) \<Rightarrow> u8 list \<Rightarrow> HbcFile hermes"
  where
  "parse guard charge digest buf =
     lbind (case charge of
              None \<Rightarrow> lret ()
            | Some c \<Rightarrow> if c (length buf) 0 ''hermes-parse-input'' then lret () else lfail Budget) (\<lambda>_.
     lbind (parse_inner guard buf (digest buf)) (\<lambda>file.
     case select_v98_large_header_layout file of (file, ws) \<Rightarrow>
     lbind (lemit ws) (\<lambda>_. validate_function_regions file)))"


section \<open>What selection and validation leave alone\<close>

lemma string_tables_layout [simp]:
  "string_tables_ok (f\<lparr>hf_large_header_layout := l\<rparr>) \<longleftrightarrow> string_tables_ok f"
  by (simp add: string_tables_ok_def)

lemma select_layout_only:
  assumes "select_v98_large_header_layout f = (f', ws)"
  shows "f' = f\<lparr>hf_large_header_layout := hf_large_header_layout f'\<rparr>
    \<and> (\<not> is_v98_late f \<longrightarrow> f' = f)"
  using assms by (auto simp: select_v98_large_header_layout_def Let_def split: if_splits)

lemma parse_Inr:
  assumes "fst (parse guard charge digest buf) = Inr g"
  shows "\<exists>f f' ws. fst (parse_inner guard buf (digest buf)) = Inr f
    \<and> select_v98_large_header_layout f = (f', ws)
    \<and> fst (validate_function_regions f') = Inr g \<and> string_tables_ok f'
    \<and> g = f\<lparr>hf_large_header_layout := hf_large_header_layout g,
              hf_unrecognized_functions := hf_unrecognized_functions g\<rparr>
    \<and> (\<not> is_v98_late f \<longrightarrow> hf_large_header_layout g = hf_large_header_layout f)"
proof -
  obtain f where f: "fst (parse_inner guard buf (digest buf)) = Inr f"
    and rest: "fst (case select_v98_large_header_layout f of (file, ws) \<Rightarrow>
        lbind (lemit ws) (\<lambda>_. validate_function_regions file)) = Inr g"
    using assms by (auto simp: parse_def lbind_eq_Inr)
  obtain f' ws where sel: "select_v98_large_header_layout f = (f', ws)" by (metis surj_pair)
  with rest have val: "fst (validate_function_regions f') = Inr g" by (simp add: lbind_eq_Inr)
  obtain l where f': "f' = f\<lparr>hf_large_header_layout := l\<rparr>" using select_layout_only [OF sel] by blast
  have st: "string_tables_ok f'"
    using parse_inner_parsed_ok [OF f] by (simp add: f' parsed_ok_def)
  obtain u where g: "g = f'\<lparr>hf_unrecognized_functions := u\<rparr>"
    using validate_Inr [OF st, of g] val by blast
  have "hf_large_header_layout f' = l" by (simp add: f')
  then have l: "\<not> is_v98_late f \<Longrightarrow> l = hf_large_header_layout f"
    using select_layout_only [OF sel] by metis
  have "g = f\<lparr>hf_large_header_layout := hf_large_header_layout g,
            hf_unrecognized_functions := hf_unrecognized_functions g\<rparr>"
    "hf_large_header_layout g = l" by (simp_all add: g f')
  then show ?thesis using f sel val st l by blast
qed

lemma fields_kept:
  assumes "g = f\<lparr>hf_large_header_layout := l, hf_unrecognized_functions := u\<rparr>"
  shows "header_fields_ok g \<longleftrightarrow> header_fields_ok f" "string_tables_ok g \<longleftrightarrow> string_tables_ok f"
    "data_tables_ok g \<longleftrightarrow> data_tables_ok f" "hf_buf g = hf_buf f"
  by (simp_all add: assms header_fields_ok_def string_tables_ok_def data_tables_ok_def Let_def)

text \<open>
  C1. What \<open>parse\<close> promises. The file has the header and the tables of the buffer; the
  unrecognized functions are recorded in index order, once each, and the binary search of
  \<open>is_function_unrecognized\<close> finds exactly them. Every other function resolves without error or
  finding, its body, unless empty, lies in the bytecode region, and every exception handler it
  declares lies inside it; the bodies of two such functions are the same span or disjoint.
\<close>

theorem parse_sound:
  assumes "fst (parse guard charge digest buf) = Inr g"
  shows "hf_buf g = buf \<and> header_fields_ok g \<and> string_tables_ok g \<and> data_tables_ok g
    \<and> sorted_wrt (<) (map uf_func_idx (hf_unrecognized_functions g))
    \<and> (\<forall>i. is_function_unrecognized g i \<longleftrightarrow> i \<in> uf_func_idx ` set (hf_unrecognized_functions g))
    \<and> (\<forall>i < hf_function_count g. \<not> is_function_unrecognized g i \<longrightarrow> sound_function g i)
    \<and> (\<forall>i < hf_function_count g. \<forall>j < hf_function_count g.
         i \<noteq> j \<longrightarrow> \<not> is_function_unrecognized g i \<longrightarrow> \<not> is_function_unrecognized g j \<longrightarrow>
         fd_size (fst (function_get g i)) \<noteq> 0 \<longrightarrow> fd_size (fst (function_get g j)) \<noteq> 0 \<longrightarrow>
         same_or_disjoint (fst (function_get g i)) (fst (function_get g j)))"
proof -
  obtain f f' l u where f: "fst (parse_inner guard buf (digest buf)) = Inr f"
    and val: "fst (validate_function_regions f') = Inr g" "string_tables_ok f'"
    and g: "g = f\<lparr>hf_large_header_layout := l, hf_unrecognized_functions := u\<rparr>"
    using parse_Inr [OF assms] by blast
  show ?thesis
    using validate_regions_sound [OF val(2,1)] parse_inner_parsed_ok [OF f] fields_kept [OF g]
    by (simp add: parsed_ok_def)
qed

text \<open>
  C2. Which buffers \<open>parse\<close> accepts: those the budget admits and \<open>parse_inner\<close> accepts, such that,
  with the selected large-header layout, every located body lies in the bytecode region, any
  two located bodies are the same span or disjoint, and at most 65535 functions share the body
  of another one.
\<close>

theorem parse_complete:
  "(\<exists>g. fst (parse guard charge digest buf) = Inr g) \<longleftrightarrow>
     (case charge of None \<Rightarrow> True | Some c \<Rightarrow> c (length buf) 0 ''hermes-parse-input'')
     \<and> (\<exists>f. fst (parse_inner guard buf (digest buf)) = Inr f
          \<and> (let f' = fst (select_v98_large_header_layout f) in
              regions_in f' \<and> (\<forall>i j. i \<noteq> j \<longrightarrow> two_bodies_ok f' i j) \<and> duplicate_bodies f' \<le> 65535))"
proof -
  have accepts: "(\<exists>g. fst (validate_function_regions f') = Inr g) \<longleftrightarrow>
      regions_in f' \<and> (\<forall>i j. i \<noteq> j \<longrightarrow> two_bodies_ok f' i j) \<and> duplicate_bodies f' \<le> 65535"
    if "fst (parse_inner guard buf (digest buf)) = Inr f" "f' = fst (select_v98_large_header_layout f)"
    for f f'
  proof (rule validate_regions_accepts)
    note h = that
    obtain l where "f' = f\<lparr>hf_large_header_layout := l\<rparr>"
      using select_layout_only [of f] h(2) by (metis prod.collapse)
    then show "string_tables_ok f'"
      using parse_inner_parsed_ok [OF h(1)] by (simp add: parsed_ok_def)
  qed
  have "(\<exists>g. fst (parse guard charge digest buf) = Inr g) \<longleftrightarrow>
     (case charge of None \<Rightarrow> True | Some c \<Rightarrow> c (length buf) 0 ''hermes-parse-input'')
     \<and> (\<exists>f g. fst (parse_inner guard buf (digest buf)) = Inr f
          \<and> fst (validate_function_regions (fst (select_v98_large_header_layout f))) = Inr g)"
    by (auto simp: parse_def lbind_eq_Inr split_beta split: option.splits)
  then show ?thesis using accepts unfolding Let_def by blast
qed

section \<open>Emitting a parsed file\<close>

lemma parsed_ok_parse:
  assumes "fst (parse guard charge digest buf) = Inr g"
  shows "parsed_ok g \<and> hf_buf g = buf"
proof -
  obtain f l u where f: "fst (parse_inner guard buf (digest buf)) = Inr f"
    and g: "g = f\<lparr>hf_large_header_layout := l, hf_unrecognized_functions := u\<rparr>"
    using parse_Inr [OF assms] by blast
  show ?thesis
    using parse_inner_parsed_ok [OF f] fields_kept [OF g] by (simp add: parsed_ok_def g)
qed

text \<open>
  C4. Emitting a file that \<open>parse\<close> returned, for the versions 96, 98 and 99: when every function
  was recognized the emitter gives the input back, up to the declared file length and the size
  word of an absent big-int storage; when one was marked unrecognized it refuses to emit.
\<close>

theorem parse_emit:
  assumes "fst (parse guard charge digest buf) = Inr g" "hf_version g \<in> {96, 98, 99}"
    "length buf \<le> u32_max"
  shows "(if hf_version g = 96 then emit_hbc g else if hf_version g = 98 then emit_hbc_v98 g
      else emit_hbc_v99 g)
    = (if hf_unrecognized_functions g = [] then Inr (canonical_bigint (of_nat (length buf)) buf)
       else Inl (UnrepresentableIR ''file contains functions whose headers could not be honestly resolved (recover-and-mark); a faithful round-trip is not guaranteed''))"
proof (cases "hf_unrecognized_functions g = []")
  case True
  then show ?thesis
    using emit_v96 [of g] emit_v98_v99 [of g] parsed_ok_parse [OF assms(1)] assms(2,3)
    by (auto simp: emit_hbc_v98_def emit_hbc_v99_def V98_def V99_def reject_if_unrecognized_def require_def)
next
  case False
  then show ?thesis
    using assms(2)
    by (auto simp: emit_hbc_def emit_hbc_v98_def emit_hbc_v99_def emit_hbc_v98_or_v99_def Let_def
        require_v98_or_v99_def V96_def V98_def V99_def reject_if_unrecognized_def require_def)
qed

section \<open>The selected layout and the handlers\<close>

lemma func_entry_layout [simp]:
  "func_entry (f\<lparr>hf_large_header_layout := l\<rparr>) = func_entry f"
  by (rule ext) (simp add: func_entry_def func_entry_off_def cong: if_cong)

lemma late_header:
  assumes "is_v98_late f" "header_fields_ok f"
  shows "hf_func_header_size f = 12 \<and> hf_use_v99_func_header f \<and> (\<exists>h. hf_header f = V98LateToV99 h)"
  using assms by (auto simp: is_v98_late_def header_fields_ok_def Let_def split: HbcHeader.splits)

lemma scored_off_entry:
  assumes late: "is_v98_late f" and hf: "header_fields_ok f" and st: "string_tables_ok f"
    and i: "i < hf_function_count f" and e: "func_entry f i = Some entry" and ov: "overflowed f entry"
    and ok: "\<not> overflow_header_is_oob (large_off_of (hf_header f) entry) (length (hf_buf f))"
      "\<not> overflow_header_overlaps_synthesized f (large_off_of (hf_header f) entry)"
  shows "scored_off f i = Some (large_off_of (hf_header f) entry)"
proof -
  obtain h where h: "hf_header f = V98LateToV99 h" "hf_func_header_size f = 12"
    using late_header [OF late hf] by blast
  let ?off = "func_entry_off f i"
  note fe = func_entry_in [OF st i]
  have entry: "entry = slice (hf_buf f) ?off 12" "?off + 12 \<le> length (hf_buf f)"
    using fe e h(2) by simp_all
  have fh: "fst (hf_func_headers f) = 128" using st by (simp add: string_tables_ok_def)
  have small: "unat i * 12 \<le> 2 ^ 40" using unat_u32 [of i] by simp
  have "checked_mul64 (unat i) 12 = Some (unat i * 12)"
    "checked_add64 128 (unat i * 12) = Some ?off" "checked_add64 ?off 12 = Some (?off + 12)"
    using small by (simp_all add: checked_mul64_def checked_add64_def u64_max_def func_entry_off_def fh h(2))
  moreover have "get_range (hf_buf f) ?off (?off + 12) = Some entry"
    using entry by (simp add: get_range_plus)
  moreover have "get_at entry 11 = Some (entry ! 11)" using entry by (simp add: get_at_def)
  ultimately have "overflowed_large_off_v98late f i = Some (large_off_of (hf_header f) entry)"
    using ov by (simp add: overflowed_large_off_v98late_def Let_def h fh overflowed_def)
  then show ?thesis using ok by (simp add: scored_off_def)
qed

lemma pack_flags_bit3 [simp]: "flag_bit 3 (pack_flags b) \<longleftrightarrow> flag_bit 3 b"
  by (simp add: flag_bit_iff pack_flags_def bit_simps)

lemma fd_flags_large:
  assumes "hf_use_v99_func_header f" "off + 40 \<le> length (hf_buf f)"
  shows "fd_flags (read_large_header f shape off flags) = pack_flags (hf_buf f ! (off + flags_offset shape))"
    and "fd_size (read_large_header f shape off flags) = read_u32 (hf_buf f) (off + 12)"
  using assms by (cases shape; simp add: read_large_header_def Let_def)+

lemma exception_table_of:
  assumes "flag_bit 3 (fd_flags (fst (function_get f i)))" "i < hf_function_count f"
    and t: "unat (get_exc_table_offset f i) = table" "table_in_function (hf_buf f) table n"
  shows "\<forall>h < fst (function_exception_count f i). handler_in_range n (fst (function_exception_get f i h))"
proof (intro allI impI)
  fix h assume h: "h < fst (function_exception_count f i)"
  let ?c = "read_u32 (hf_buf f) table"
  have fits: "table + 4 \<le> length (hf_buf f)" "?c \<le> MAX_EXCEPTION_HANDLERS"
    "table + 4 + unat ?c * 12 \<le> length (hf_buf f)"
    and all: "list_all (in_function n) (handlers (hf_buf f) table 0 (unat ?c))"
    using t(2) by (auto simp: table_in_function_def table_fits_def)
  have "fst (function_exception_count f i) = ?c"
    using assms(1) fits(1) t(1) assms(2) fits(2) [THEN leD] fits(1) [THEN leD]
    by (simp add: function_exception_count_def Let_def exception_count_is_capped_def split_beta
        flip: not_less)
  with h have hc: "h < ?c" "unat h < unat ?c" by (simp_all add: word_less_nat_alt)
  then have "Suc (unat h) * 12 \<le> unat ?c * 12" by (intro mult_le_mono1) simp
  then have "table + 4 + unat h * 12 + 12 \<le> length (hf_buf f)" using fits(3) by simp
  then have get: "fst (function_exception_get f i h) =
      \<lparr>eh_start = read_u32 (hf_buf f) (table + 4 + unat h * 12),
       eh_end = read_u32 (hf_buf f) (table + 4 + unat h * 12 + 4),
       eh_target = read_u32 (hf_buf f) (table + 4 + unat h * 12 + 8)\<rparr>"
    using t(1) hc(1) fits(2) [THEN leD] fits(1) [THEN leD]
    by (simp add: function_exception_get_def Let_def flip: not_less)
  have "in_function n (handlers (hf_buf f) table 0 (unat ?c) ! unat h)"
    using all hc(2) by (simp add: list_all_length handlers_def)
  then show "handler_in_range n (fst (function_exception_get f i h))"
    using hc(2) by (simp add: get handlers_def Let_def in_function_def handler_in_range_def)
qed

text \<open>
  C5. What the selected layout guarantees to the later passes: in a version-98 late-form file
  with a selected layout, an overflowed function that resolves contains every exception handler
  it declares, so the third validation pass never marks it.
\<close>

theorem selected_layout_handlers:
  assumes "fst (parse_inner guard buf ih) = Inr f" "is_v98_late f"
    "select_v98_large_header_layout f = (f', ws)" "hf_large_header_layout f' \<noteq> None"
    "i < hf_function_count f'" "func_entry f' i = Some entry" "overflowed f' entry"
    "function_get_checked f' i = (Inr fd, vs)"
  shows "\<forall>h < fst (function_exception_count f' i).
    handler_in_range (fd_size fd) (fst (function_exception_get f' i h))"
proof -
  obtain shape where shape: "hf_large_header_layout f' = Some shape" using assms(4) by blast
  then have f': "f' = f\<lparr>hf_large_header_layout := Some shape\<rparr>"
    using select_layout_only [OF assms(3)] by simp
  have ok: "header_fields_ok f" "string_tables_ok f"
    using parse_inner_parsed_ok [OF assms(1)] by (simp_all add: parsed_ok_def)
  obtain hd where hd: "hf_header f = V98LateToV99 hd" "hf_use_v99_func_header f"
    using late_header [OF assms(2) ok(1)] by blast
  let ?off = "large_off_of (hf_header f) entry"
  have f0: "func_entry f i = Some entry" "i < hf_function_count f" "overflowed f entry"
    using assms(5-7) by (simp_all add: f' overflowed_def)
  have overlaps: "overflow_header_overlaps_synthesized (f\<lparr>hf_large_header_layout := l\<rparr>)
      = overflow_header_overlaps_synthesized f" for l
    by (rule ext) (simp add: overflow_header_overlaps_synthesized_def span_overlaps_synthesized_def
        synthesized_section_span_by_name_def EMIT_SYNTHESIZED_SECTIONS_def)
  have res: "\<not> overflow_header_is_oob ?off (length (hf_buf f))" "\<not> overflow_header_overlaps_synthesized f ?off"
    using assms(8) f0 assms(5-7)
    by (auto simp: function_get_checked_def overflowed_def Let_def lfail_def overlaps f' split: if_splits)
  have fits: "shape_fits f shape ?off"
  proof -
    have "scored_off f i = Some ?off"
      by (rule scored_off_entry [OF assms(2) ok f0(2,1,3) res])
    then have "?off \<in> set (scored_offs f)"
      using f0(2) by (force simp: scored_offs_def map_filter_set set_function_indices)
    moreover have "coherent f shape"
      using selected_coherent [of f shape] shape assms(2,3) by simp
    ultimately show ?thesis by (simp add: coherent_def list_all_iff)
  qed
  have off: "?off + 40 \<le> length (hf_buf f)" "?off + 40 \<le> u64_max" using res(1) by (auto simp: not_oob)
  have lb: "flags_offset shape \<le> 36" "header_size shape \<le> 40" by (rule layout_bounds)+
  define fl where "fl = hf_buf f ! (?off + flags_offset shape)"
  have get: "get_at (hf_buf f) (?off + flags_offset shape) = Some fl"
    using off(1) lb(1) by (simp add: get_at_def fl_def)
  have fd: "function_get f' i = (fd, [])" using function_get_checked_Inr [OF assms(8)] by simp
  have small: "snd (snd (snd (snd (small_fields (hf_header f) entry)))) = flags_of (hf_header f) entry"
    by (rule flags_of_small_fields)
  have "\<exists>flags. fd = read_large_header f' shape ?off flags"
    using fd f0 assms(5-7) res small shape
    by (auto simp: function_get_def Let_def overflowed_def not_le f' split: prod.splits if_splits)
  then have fdx: "fd_flags fd = pack_flags fl" "fd_size fd = read_u32 (hf_buf f) (?off + 12)"
    using fd_flags_large [of f' ?off shape] off(1) hd(2) by (auto simp: f' fl_def)
  show ?thesis
  proof (cases "flag_bit 3 fl")
    case False
    then have "fst (function_exception_count f' i) = 0"
      by (simp add: function_exception_count_def fd fdx)
    then show ?thesis by simp
  next
    case True
    let ?t = "align4_u64 (?off + header_size shape)"
    have table: "table_in_function (hf_buf f) ?t (read_u32 (hf_buf f) (?off + 12))"
      using fits True by (simp add: shape_fits_def get)
    then have le: "?t \<le> u32_max" by (simp add: table_in_function_def table_fits_def)
    have "get_exc_table_offset f' i = narrow_align4 (?off + header_size shape)"
      using assms(6,7) off(1) lb(2) hd(1)
      by (simp add: get_exc_table_offset_def overflowed_def Let_def f' hd(1))
    then have "unat (get_exc_table_offset f' i) = ?t"
      using le by (simp add: narrow_align4_def align4_u64_def Let_def not_less u32_max_def
          unsigned_of_nat take_bit_nat_eq_self)
    then show ?thesis
      using exception_table_of [of f' i ?t "fd_size fd"] True table assms(5)
      by (simp add: fd fdx) (simp add: f')
  qed
qed

section \<open>The bytecode region\<close>

lemma parse_inner_header:
  assumes "fst (parse_inner guard buf ih) = Inr f" "fst (parse_hbc_header buf) = Inr h"
  shows "hf_header f = h \<and> hf_bytecode_region f
    = bytecode_region_of (length buf) (of_nat (lay_end 128 (section_list h))) (hdr_debug_info_offset h)"
proof -
  obtain s l b t w dbg where a: "all_sections (length buf) h initial_walk = Inr ((s, l, b, t), w)"
    and f: "f = build_file buf ih h s l b t w dbg"
    using assms by (auto simp: parse_inner_Inr)
  then have "fits (length buf) 128 (section_list h)"
    using all_sections_fits [of "length buf" h] by blast
  then have "fst w = of_nat (lay_end 128 (section_list h))"
    using runs_all_sections [of "length buf" h, unfolded runs_def, rule_format, of initial_walk] a
    by (auto simp: fst_initial_walk)
  then show ?thesis by (simp add: f build_file_fields)
qed

end
