(* ===== verification/Hermes_BigInts.thy ===== *)
theory Hermes_BigInts
  imports Hermes_Findings
begin

text \<open>
  \<open>bigint_le_twos_to_decimal\<close> of \<open>parser/mod.rs\<close>: a little-endian two's-complement byte
  string of any length, rendered as a signed decimal. The result is shown to be the decimal
  numeral of the two's-complement value, without leading zeros and never \<open>-0\<close>.

  The working values of the inner loops (\<open>digit * 256 + carry\<close>, at most \<open>9 * 256 + 255\<close>)
  are natural numbers here; \<open>mul_digits_carry\<close> bounds the carry below 256, so the \<open>u32\<close> and
  \<open>u8\<close> of the source never wrap.
\<close>

section \<open>The conversion\<close>

text \<open>The flip-and-add-one loop over the inverted bytes, with its 16-bit carry.\<close>

fun twos_complement_loop :: "u8 list \<Rightarrow> u16 \<Rightarrow> u8 list" where
  "twos_complement_loop [] carry = []"
| "twos_complement_loop (b # bs) carry =
     (let s = (ucast (NOT b) :: u16) + carry
      in (ucast (s AND 0xFF) :: u8) # twos_complement_loop bs (drop_bit 8 s))"

text \<open>\<open>while mag.last() == Some(&0) { mag.pop(); }\<close>\<close>

definition pop_zeros :: "u8 list \<Rightarrow> u8 list" where
  "pop_zeros mag = rev (dropWhile (\<lambda>b. b = 0) (rev mag))"

text \<open>\<open>while carry > 0 { digits.push(carry % 10); carry /= 10; }\<close>\<close>

function push_carry :: "nat \<Rightarrow> nat list" where
  "push_carry carry = (if 0 < carry then carry mod 10 # push_carry (carry div 10) else [])"
  by pat_completeness auto
termination by (relation "measure id") auto

declare push_carry.simps [simp del]

text \<open>One pass of \<open>for d in digits.iter_mut()\<close>, then the carry pushes.\<close>

fun mul_digits :: "nat list \<Rightarrow> nat \<Rightarrow> nat list" where
  "mul_digits [] carry = push_carry carry"
| "mul_digits (d # digits) carry =
     (let v = d * 256 + carry in v mod 10 # mul_digits digits (v div 10))"

definition decimal_digits :: "u8 list \<Rightarrow> nat list" where
  "decimal_digits mag = fold (\<lambda>byte digits. mul_digits digits (unat byte)) (rev mag) [0]"

definition digit_char :: "nat \<Rightarrow> char" where
  "digit_char d = char_of (48 + d)"

definition bigint_le_twos_to_decimal :: "u8 list \<Rightarrow> string" where
  "bigint_le_twos_to_decimal bytes =
     (if bytes = [] then ''0''
      else
        let is_negative = (last bytes AND 0x80 \<noteq> 0);
            mag = pop_zeros (if is_negative then twos_complement_loop bytes 1 else bytes)
        in if mag = [] then ''0''
           else (if is_negative then ''-'' else []) @ rev (map digit_char (decimal_digits mag)))"

section \<open>The value of the bytes\<close>

definition twos_value :: "u8 list \<Rightarrow> int" where
  "twos_value bs = (if bs \<noteq> [] \<and> bit (last bs) 7 then int (le_nat bs) - 256 ^ length bs
                    else int (le_nat bs))"

text \<open>Canonical decimal numerals, by repeated division.\<close>

function decimal_nat :: "nat \<Rightarrow> string" where
  "decimal_nat n = (if n < 10 then [digit_char n] else decimal_nat (n div 10) @ [digit_char (n mod 10)])"
  by pat_completeness auto
termination by (relation "measure id") auto

declare decimal_nat.simps [simp del]

definition decimal_int :: "int \<Rightarrow> string" where
  "decimal_int i = (if i < 0 then CHR ''-'' # decimal_nat (nat (- i)) else decimal_nat (nat i))"

section \<open>Flip and add one\<close>

lemma flip_byte: "unat (ucast (NOT (b :: u8)) :: u16) = 255 - unat b"
proof -
  have "NOT b = - 1 - b" by (simp add: not_eq_complement)
  then have "unat (NOT b) = 255 - unat b"
    using unat_sub [of b "- 1"] by (simp add: unsigned_minus_1_eq_mask mask_eq_exp_minus_1)
  then show ?thesis by (simp add: unsigned_ucast_eq take_bit_eq_mod)
qed

lemma length_twos_complement_loop [simp]: "length (twos_complement_loop bs c) = length bs"
  by (induction bs c rule: twos_complement_loop.induct) (auto simp: Let_def)

lemma twos_complement_step:
  fixes b :: u8 and c :: u16
  assumes "unat c \<le> 1"
  defines "s \<equiv> (ucast (NOT b) :: u16) + c"
  shows "unat ((ucast (s AND 0xFF) :: u8)) + 256 * unat (drop_bit 8 s) + unat b = 255 + unat c"
    and "unat (drop_bit 8 s) \<le> 1"
proof -
  have b: "unat b < 256" using unsigned_less [of b] by simp
  have s: "unat s = 255 - unat b + unat c"
    unfolding s_def using b assms(1) by (subst unat_plus_simple [THEN iffD1]) (auto simp: flip_byte word_le_nat_alt unat_word_ariths)
  have mask: "(s AND 0xFF) = take_bit 8 s" by (simp add: take_bit_eq_mask mask_eq_exp_minus_1)
  then have lo: "unat ((ucast (s AND 0xFF) :: u8)) = unat s mod 256"
    unfolding mask by (simp add: unsigned_ucast_eq unsigned_take_bit_eq) (simp add: take_bit_eq_mod)
  have hi: "unat (drop_bit 8 s) = unat s div 256"
    by (simp add: unsigned_drop_bit_eq) (use unat_u16 [of s] in \<open>simp add: drop_bit_eq_div take_bit_eq_mod\<close>)
  show "unat ((ucast (s AND 0xFF) :: u8)) + 256 * unat (drop_bit 8 s) + unat b = 255 + unat c"
    unfolding lo hi using s b by simp
  show "unat (drop_bit 8 s) \<le> 1" unfolding hi s using assms(1) by simp
qed

lemma twos_complement_loop_value:
  "unat c \<le> 1 \<Longrightarrow> le_nat (twos_complement_loop bs c) + le_nat bs + 1 =
     (if le_nat bs = 0 \<and> unat c = 1 then 1 else 256 ^ length bs + unat c)"
proof (induction bs c rule: twos_complement_loop.induct)
  case (1 c)
  then show ?case by (cases "unat c") auto
next
  case (2 b bs c)
  let ?s = "(ucast (NOT b) :: u16) + c"
  note step = twos_complement_step [OF 2(2), of b]
  have "le_nat (twos_complement_loop bs (drop_bit 8 ?s)) + le_nat bs + 1 =
     (if le_nat bs = 0 \<and> unat (drop_bit 8 ?s) = 1 then 1 else 256 ^ length bs + unat (drop_bit 8 ?s))"
    using 2(1) step(2) by simp
  moreover have "unat b < 256" using unsigned_less [of b] by simp
  moreover have "unat ((ucast (?s AND 0xFF) :: u8)) < 256"
    using unsigned_less [of "(ucast (?s AND 0xFF) :: u8)"] by simp
  ultimately show ?case using step 2(2) by (auto simp: Let_def split: if_splits)
qed


section \<open>Decimal digits\<close>

text \<open>The value of base-ten digits, ones first.\<close>

fun digits_value :: "nat list \<Rightarrow> nat" where
  "digits_value [] = 0"
| "digits_value (d # ds) = d + 10 * digits_value ds"

lemma push_carry_value: "digits_value (push_carry c) = c"
  by (induction c rule: push_carry.induct) (subst push_carry.simps, auto)

lemma push_carry_nonempty: "push_carry c = [] \<longleftrightarrow> c = 0"
  by (subst push_carry.simps) simp

lemma push_carry_small: "list_all (\<lambda>d. d < 10) (push_carry c)"
  by (induction c rule: push_carry.induct) (subst push_carry.simps, auto)

lemma push_carry_last: "0 < c \<Longrightarrow> last (push_carry c) \<noteq> 0"
  by (induction c rule: push_carry.induct) (subst push_carry.simps, auto simp: push_carry_nonempty)

lemma mul_digits_value: "digits_value (mul_digits ds c) = 256 * digits_value ds + c"
proof (induction ds c rule: mul_digits.induct)
  case (2 d ds c)
  have "(d * 256 + c) mod 10 + 10 * ((d * 256 + c) div 10) = d * 256 + c" by simp
  with 2 show ?case by (simp add: Let_def algebra_simps)
qed (simp add: push_carry_value)

lemma mul_digits_small: "list_all (\<lambda>d. d < 10) ds \<Longrightarrow> list_all (\<lambda>d. d < 10) (mul_digits ds c)"
  by (induction ds c rule: mul_digits.induct) (auto simp: Let_def push_carry_small)

lemma mul_digits_nonempty: "ds \<noteq> [] \<Longrightarrow> mul_digits ds c \<noteq> []"
  by (cases ds) (auto simp: Let_def)

lemma mul_digits_last: "ds \<noteq> [] \<Longrightarrow> last ds \<noteq> 0 \<Longrightarrow> last (mul_digits ds c) \<noteq> 0"
proof (induction ds c rule: mul_digits.induct)
  case (2 d ds c)
  show ?case
  proof (cases "ds = []")
    case True
    with 2(3) have "0 < (d * 256 + c) div 10" by simp
    with True show ?thesis by (simp add: Let_def push_carry_nonempty push_carry_last)
  next
    case False
    with 2 show ?thesis by (simp add: Let_def mul_digits_nonempty)
  qed
qed simp

lemma decimal_digits_snoc:
  "decimal_digits (b # mag) = mul_digits (decimal_digits mag) (unat b)"
  by (simp add: decimal_digits_def)

lemma decimal_digits_nonempty: "decimal_digits mag \<noteq> []"
  by (induction mag) (simp_all add: decimal_digits_snoc mul_digits_nonempty, simp add: decimal_digits_def)

lemma decimal_digits_value: "digits_value (decimal_digits mag) = le_nat mag"
  by (induction mag) (simp_all add: decimal_digits_snoc mul_digits_value, simp add: decimal_digits_def)

lemma decimal_digits_small: "list_all (\<lambda>d. d < 10) (decimal_digits mag)"
  by (induction mag) (simp_all add: decimal_digits_snoc mul_digits_small, simp add: decimal_digits_def)

lemma decimal_digits_last: "mag \<noteq> [] \<Longrightarrow> last mag \<noteq> 0 \<Longrightarrow> last (decimal_digits mag) \<noteq> 0"
proof (induction mag)
  case (Cons b mag)
  show ?case
  proof (cases "mag = []")
    case True
    with Cons.prems have "0 < unat b" by (simp add: unat_gt_0)
    with True show ?thesis
      using push_carry_last [of "unat b div 10"]
      by (auto simp: decimal_digits_snoc decimal_digits_def [of "[]"] Let_def push_carry_nonempty)
  next
    case False
    with Cons show ?thesis
      by (simp add: decimal_digits_snoc mul_digits_last decimal_digits_nonempty)
  qed
qed simp

text \<open>The carry of the source stays a byte, so none of its words wrap.\<close>

lemma mul_digits_carry: "d < 10 \<Longrightarrow> c < 256 \<Longrightarrow> (d * 256 + c) div 10 < (256 :: nat)"
  by simp


section \<open>The rendering\<close>

lemma zero_char: "char_of (48 :: nat) = CHR ''0''"
  by code_simp

lemma decimal_nat_digits:
  "ds \<noteq> [] \<Longrightarrow> list_all (\<lambda>d. d < 10) ds \<Longrightarrow> last ds \<noteq> 0 \<or> length ds = 1 \<Longrightarrow>
     decimal_nat (digits_value ds) = rev (map digit_char ds)"
proof (induction ds)
  case (Cons d ds)
  show ?case
  proof (cases "ds = []")
    case True
    with Cons.prems show ?thesis by (simp add: decimal_nat.simps [of d])
  next
    case False
    have "0 < digits_value ds"
      using False Cons.prems by (induction ds) (auto split: if_splits)
    moreover have "d < 10" using Cons.prems by simp
    ultimately have "\<not> d + 10 * digits_value ds < 10"
      "(d + 10 * digits_value ds) div 10 = digits_value ds"
      "(d + 10 * digits_value ds) mod 10 = d" by simp_all
    then show ?thesis
      using Cons False by (simp add: decimal_nat.simps [of "d + 10 * digits_value ds"])
  qed
qed simp

lemma le_nat_append: "le_nat (xs @ ys) = le_nat xs + 256 ^ length xs * le_nat ys"
  by (induction xs) (simp_all add: algebra_simps)

lemma le_nat_replicate_0 [simp]: "le_nat (replicate n 0) = 0"
  by (induction n) simp_all

lemma pop_zeros_split: "\<exists>n. mag = pop_zeros mag @ replicate n 0"
proof -
  define zs where "zs = takeWhile (\<lambda>b. b = (0 :: u8)) (rev mag)"
  have "set zs \<subseteq> {0}" by (auto simp: zs_def dest: set_takeWhileD)
  then have "zs = replicate (length zs) 0" by (metis replicate_length_same singletonD subsetD)
  moreover have "mag = pop_zeros mag @ rev zs"
    unfolding pop_zeros_def zs_def by (metis rev_append rev_rev_ident takeWhile_dropWhile_id)
  ultimately show ?thesis by (metis rev_replicate)
qed

lemma le_nat_pop_zeros: "le_nat (pop_zeros mag) = le_nat mag"
  using pop_zeros_split [of mag] by (metis add.right_neutral le_nat_append le_nat_replicate_0 mult_0_right)

lemma pop_zeros_last: "pop_zeros mag \<noteq> [] \<Longrightarrow> last (pop_zeros mag) \<noteq> 0"
  unfolding pop_zeros_def by (metis (mono_tags, lifting) hd_dropWhile last_rev rev_is_Nil_conv)

lemma pop_zeros_Nil: "pop_zeros mag = [] \<longleftrightarrow> le_nat mag = 0"
proof
  assume "pop_zeros mag = []"
  then show "le_nat mag = 0" using le_nat_pop_zeros [of mag] by simp
next
  assume zero: "le_nat mag = 0"
  have "b = 0" if "b \<in> set mag" for b
    using zero that by (induction mag) (auto simp: unat_eq_0)
  then show "pop_zeros mag = []" by (simp add: pop_zeros_def)
qed

lemma render_magnitude:
  assumes "le_nat mag \<noteq> 0"
  shows "rev (map digit_char (decimal_digits (pop_zeros mag))) = decimal_nat (le_nat mag)"
  using decimal_nat_digits [OF decimal_digits_nonempty decimal_digits_small,
      of "pop_zeros mag"] decimal_digits_last [of "pop_zeros mag"] assms
  by (simp add: decimal_digits_value le_nat_pop_zeros pop_zeros_last pop_zeros_Nil)

lemma sign_mask: "(b :: u8) AND 0x80 \<noteq> 0 \<longleftrightarrow> bit b 7"
  using and_exp_eq_0_iff_not_bit [of b 7] by simp

lemma sign_le_nat: "bs \<noteq> [] \<Longrightarrow> bit (last bs) 7 \<Longrightarrow> le_nat bs \<noteq> 0"
proof
  assume "bs \<noteq> []" "bit (last bs) 7" "le_nat bs = 0"
  then have "last bs = 0" by (induction bs) (auto simp: unat_eq_0 split: if_splits)
  with \<open>bit (last bs) 7\<close> show False by simp
qed

lemma render_twos: "bigint_le_twos_to_decimal bytes = decimal_int (twos_value bytes)"
proof -
  consider (empty) "bytes = []" | (neg) "bytes \<noteq> []" "bit (last bytes) 7"
    | (pos) "bytes \<noteq> []" "\<not> bit (last bytes) 7" by blast
  then show ?thesis
  proof cases
    case empty
    then show ?thesis
      by (simp add: bigint_le_twos_to_decimal_def twos_value_def decimal_int_def
          decimal_nat.simps [of 0] digit_char_def zero_char)
  next
    case neg
    let ?m = "twos_complement_loop bytes 1"
    have m: "le_nat ?m + le_nat bytes = 256 ^ length bytes"
      using twos_complement_loop_value [of 1 bytes] sign_le_nat [OF neg] by simp
    moreover have lt: "le_nat bytes < 256 ^ length bytes" by (rule le_nat_bound)
    ultimately have nz: "le_nat ?m \<noteq> 0" by linarith
    have "int (le_nat ?m) + int (le_nat bytes) = 256 ^ length bytes"
      using arg_cong [OF m, of int] by simp
    then have "twos_value bytes = - int (le_nat ?m)"
      unfolding twos_value_def using neg by simp
    with nz neg show ?thesis
      by (simp add: bigint_le_twos_to_decimal_def decimal_int_def sign_mask render_magnitude
          pop_zeros_Nil)
  next
    case pos
    then show ?thesis
      by (cases "le_nat bytes = 0")
        (simp_all add: bigint_le_twos_to_decimal_def twos_value_def decimal_int_def sign_mask
          render_magnitude pop_zeros_Nil decimal_nat.simps [of 0] digit_char_def zero_char)
  qed
qed

text \<open>
  C34. \<open>bigint_le_twos_to_decimal\<close> renders the two's-complement value of its bytes: for every
  byte string, of any length, the result is the canonical signed decimal numeral of the value
  (a minus sign exactly for negative values, no leading zero, \<open>0\<close> for the empty string).
\<close>

theorem bigint_decimal: "bigint_le_twos_to_decimal bytes = decimal_int (twos_value bytes)"
  by (rule render_twos)

end
