(* ===== verification/Hermes_Samples.thy ===== *)
theory Hermes_Samples
  imports Hermes_Roundtrip Hermes_BigInts
begin

text \<open>
  Concrete files at which the properties of the parser and the emitters are applied: a v96 file
  with a function and two strings, one with a debug-info section, a v84 file with a regexp
  table, and a v98 file in the late layout with an overflow string and an object shape.
\<close>

section \<open>The files\<close>

definition sample_v96 :: "u8 list" where
  "sample_v96 =
     [198, 31, 188, 3, 193, 3, 25, 31, 96, 0, 0, 0, 0, 1, 2, 3, 4, 5, 6, 7, 8, 9, 10, 11, 12,
      13, 14, 15, 16, 17, 18, 19, 176, 0, 0, 0, 7, 0, 0, 0, 1, 0, 0, 0, 1, 0, 0, 0, 0, 0, 0, 0,
      2, 0, 0, 0, 0, 0, 0, 0, 8, 0, 0, 0, 0, 0, 0, 0, 0, 0, 0, 0, 0, 0, 0, 0, 0, 0, 0, 0, 0, 0,
      0, 0, 0, 0, 0, 0, 0, 0, 0, 0, 5, 0, 0, 0, 0, 0, 0, 0, 0, 0, 0, 0, 0, 0, 0, 0, 0, 0, 0, 0,
      0, 0, 0, 0, 0, 0, 0, 0, 0, 0, 0, 0, 0, 0, 0, 0, 152, 0, 0, 2, 8, 0, 0, 0, 1, 2, 3, 4, 5,
      6, 7, 8, 2, 0, 0, 0, 0, 0, 0, 3, 6, 0, 0, 5, 65, 66, 67, 68, 69, 70, 71, 72, 0, 1, 2, 3,
      4, 5, 6, 7, 8, 9, 10, 11]"

definition sample_v84 :: "u8 list" where
  "sample_v84 =
     [198, 31, 188, 3, 193, 3, 25, 31, 84, 0, 0, 0, 0, 1, 2, 3, 4, 5, 6, 7, 8, 9, 10, 11, 12,
      13, 14, 15, 16, 17, 18, 19, 176, 0, 0, 0, 7, 0, 0, 0, 1, 0, 0, 0, 1, 0, 0, 0, 0, 0, 0, 0,
      2, 0, 0, 0, 0, 0, 0, 0, 8, 0, 0, 0, 1, 0, 0, 0, 0, 0, 0, 0, 0, 0, 0, 0, 0, 0, 0, 0, 0, 0,
      0, 0, 5, 0, 0, 0, 0, 0, 0, 0, 0, 0, 0, 0, 0, 0, 0, 0, 0, 0, 0, 0, 0, 0, 0, 0, 0, 0, 0, 0,
      0, 0, 0, 0, 0, 0, 0, 0, 0, 0, 0, 0, 0, 0, 0, 0, 152, 0, 0, 2, 8, 0, 0, 0, 1, 2, 3, 4, 5,
      6, 7, 8, 2, 0, 0, 0, 0, 0, 0, 3, 6, 0, 0, 5, 65, 66, 67, 68, 69, 70, 71, 72, 1, 0, 0, 0,
      2, 0, 0, 0, 0, 1, 2, 3]"

definition sample_v98 :: "u8 list" where
  "sample_v98 =
     [198, 31, 188, 3, 193, 3, 25, 31, 98, 0, 0, 0, 0, 1, 2, 3, 4, 5, 6, 7, 8, 9, 10, 11, 12,
      13, 14, 15, 16, 17, 18, 19, 180, 0, 0, 0, 7, 0, 0, 0, 1, 0, 0, 0, 1, 0, 0, 0, 0, 0, 0, 0,
      2, 0, 0, 0, 1, 0, 0, 0, 8, 0, 0, 0, 0, 0, 0, 0, 0, 0, 0, 0, 0, 0, 0, 0, 0, 0, 0, 0, 0, 0,
      0, 0, 0, 0, 0, 0, 1, 0, 0, 0, 9, 0, 0, 0, 5, 0, 0, 0, 0, 0, 0, 0, 0, 0, 0, 0, 255, 0, 0,
      0, 1, 0, 0, 0, 0, 0, 0, 0, 0, 0, 0, 0, 0, 0, 0, 0, 152, 0, 0, 2, 8, 0, 0, 0, 1, 2, 3, 4,
      2, 0, 0, 0, 0, 0, 0, 3, 0, 0, 0, 255, 1, 0, 0, 0, 3, 0, 0, 0, 65, 66, 67, 68, 69, 70, 71,
      72, 5, 0, 0, 0, 6, 0, 0, 0, 0, 1, 2, 3]"

definition sample_debug :: "u8 list" where
  "sample_debug =
     [198, 31, 188, 3, 193, 3, 25, 31, 96, 0, 0, 0, 0, 1, 2, 3, 4, 5, 6, 7, 8, 9, 10, 11, 12,
      13, 14, 15, 16, 17, 18, 19, 208, 0, 0, 0, 7, 0, 0, 0, 1, 0, 0, 0, 1, 0, 0, 0, 0, 0, 0, 0,
      2, 0, 0, 0, 0, 0, 0, 0, 8, 0, 0, 0, 0, 0, 0, 0, 0, 0, 0, 0, 0, 0, 0, 0, 0, 0, 0, 0, 0, 0,
      0, 0, 0, 0, 0, 0, 0, 0, 0, 0, 5, 0, 0, 0, 0, 0, 0, 0, 0, 0, 0, 0, 164, 0, 0, 0, 0, 0, 0,
      0, 0, 0, 0, 0, 0, 0, 0, 0, 0, 0, 0, 0, 0, 0, 0, 0, 152, 0, 0, 2, 8, 0, 0, 0, 1, 2, 3, 4,
      5, 6, 7, 8, 2, 0, 0, 0, 0, 0, 0, 3, 6, 0, 0, 5, 65, 66, 67, 68, 69, 70, 71, 72, 1, 0, 0,
      0, 2, 0, 0, 0, 1, 0, 0, 0, 4, 0, 0, 0, 6, 0, 0, 0, 0, 0, 0, 0, 0, 0, 0, 0, 0, 0, 0, 0, 0,
      0, 0, 0, 97, 98, 0, 1, 1, 127, 9, 9]"

text \<open>The guard that accepts exactly the counts whose entries fit.\<close>

definition byte_guard :: count_guard where
  "byte_guard got stride len item \<longleftrightarrow> got * stride \<le> len"

lemmas sample_reads = read_u32_def get_from_def first_chunk_def u32_from_le_def

lemma sample_lengths: "length sample_v96 = 176" "length sample_v84 = 176" "length sample_v98 = 180"
  "length sample_debug = 208"
  by (simp_all add: sample_v96_def sample_v84_def sample_v98_def sample_debug_def)

section \<open>Their headers\<close>

lemmas dispatch_defs = parse_hbc_header_def HEADER_SIZE_def HBC_MAGIC_def dispatch_version_def
  MIN_SUPPORTED_VERSION_def sample_reads

lemma header_sample_v96: "fst (parse_hbc_header sample_v96) = Inr (V87to96 (parse_v87_to_96 sample_v96 96))"
  by (simp add: dispatch_defs sample_lengths) (simp add: sample_v96_def)

lemma header_sample_debug:
  "fst (parse_hbc_header sample_debug) = Inr (V87to96 (parse_v87_to_96 sample_debug 96))"
  by (simp add: dispatch_defs sample_lengths) (simp add: sample_debug_def)

lemma header_sample_v84: "fst (parse_hbc_header sample_v84) = Inr (V84to86 (parse_v84_to_86 sample_v84 84))"
  by (simp add: dispatch_defs sample_lengths) (simp add: sample_v84_def)

lemma header_sample_v98:
  "fst (parse_hbc_header sample_v98) = Inr (V98LateToV99 (parse_v98_late_to_v99 sample_v98 98))"
proof -
  have form: "fst (detect_late_v98_form sample_v98) = Inr True"
    using detect_late_v98_form_cases [of sample_v98]
    by (simp add: sample_lengths v98_ambiguous_def v98_late_def v98_option_valid_def)
      (simp add: sample_v98_def)
  have "read_u32 sample_v98 8 = 98" "le_nat (take 8 sample_v98) = HBC_MAGIC"
    by (simp_all add: sample_reads sample_v98_def HBC_MAGIC_def)
  then show ?thesis
    using form by (simp add: parse_hbc_header_Inr sample_lengths dispatch_version_def
        MIN_SUPPORTED_VERSION_def lbind_eq_Inr) (rule exI [of _ True], simp)
qed

lemmas layout_words_v96 = parse_v87_to_96_def sample_reads sample_lengths
lemmas layout_words_v84 = parse_v84_to_86_def sample_reads sample_lengths
lemmas layout_words_v98 = parse_v98_late_to_v99_def sample_reads sample_lengths

lemma parsed_v96: "parse_v87_to_96 sample_v96 96 = \<lparr>
    h87_version = 96, h87_file_length = 176, h87_global_code_index = 7, h87_function_count = 1,
    h87_string_kind_count = 1, h87_identifier_count = 0, h87_string_count = 2,
    h87_overflow_string_count = 0, h87_string_storage_size = 8, h87_big_int_count = 0,
    h87_big_int_storage_size = 0, h87_reg_exp_count = 0, h87_reg_exp_storage_size = 0,
    h87_array_buffer_size = 0, h87_obj_key_buffer_size = 0, h87_obj_value_buffer_size = 0,
    h87_segment_id = 5, h87_cjs_module_count = 0, h87_function_source_count = 0,
    h87_debug_info_offset = 0\<rparr>"
  by (simp add: layout_words_v96) (simp add: sample_v96_def)

lemma parsed_debug: "parse_v87_to_96 sample_debug 96 = \<lparr>
    h87_version = 96, h87_file_length = 208, h87_global_code_index = 7, h87_function_count = 1,
    h87_string_kind_count = 1, h87_identifier_count = 0, h87_string_count = 2,
    h87_overflow_string_count = 0, h87_string_storage_size = 8, h87_big_int_count = 0,
    h87_big_int_storage_size = 0, h87_reg_exp_count = 0, h87_reg_exp_storage_size = 0,
    h87_array_buffer_size = 0, h87_obj_key_buffer_size = 0, h87_obj_value_buffer_size = 0,
    h87_segment_id = 5, h87_cjs_module_count = 0, h87_function_source_count = 0,
    h87_debug_info_offset = 164\<rparr>"
  by (simp add: layout_words_v96) (simp add: sample_debug_def)

lemma parsed_v84: "parse_v84_to_86 sample_v84 84 = \<lparr>
    h84_version = 84, h84_file_length = 176, h84_global_code_index = 7, h84_function_count = 1,
    h84_string_kind_count = 1, h84_identifier_count = 0, h84_string_count = 2,
    h84_overflow_string_count = 0, h84_string_storage_size = 8, h84_reg_exp_count = 1,
    h84_reg_exp_storage_size = 0, h84_array_buffer_size = 0, h84_obj_key_buffer_size = 0,
    h84_obj_value_buffer_size = 0, h84_segment_id = 5, h84_cjs_module_count = 0,
    h84_function_source_count = 0, h84_debug_info_offset = 0\<rparr>"
  by (simp add: layout_words_v84) (simp add: sample_v84_def)

lemma parsed_v98: "parse_v98_late_to_v99 sample_v98 98 = \<lparr>
    h98_version = 98, h98_file_length = 180, h98_global_code_index = 7, h98_function_count = 1,
    h98_string_kind_count = 1, h98_identifier_count = 0, h98_string_count = 2,
    h98_overflow_string_count = 1, h98_string_storage_size = 8, h98_big_int_count = 0,
    h98_big_int_storage_size = 0, h98_reg_exp_count = 0, h98_reg_exp_storage_size = 0,
    h98_array_buffer_size = 0, h98_obj_key_buffer_size = 0, h98_obj_shape_table_count = 1,
    h98_num_string_switch_imms = 9, h98_segment_id = 5, h98_cjs_module_count = 0,
    h98_function_source_count = 0, h98_debug_info_offset = 255\<rparr>"
  by (simp add: layout_words_v98) (simp add: sample_v98_def)

section \<open>They are accepted\<close>

lemmas accept_defs = header_guards_def bound_count_def require_def byte_guard_def section_list_def
  string_section_list_def literal_section_list_def bigint_section_list_def tail_section_list_def
  opt_entry_def after_def clear_low2_def u32_max_def sample_lengths debug_info_v96_parse_def

lemma accepted_v96: "\<exists>f. fst (parse_inner byte_guard sample_v96 ih) = Inr f \<and> hf_version f = 96"
  using parse_inner_accepts [OF header_sample_v96, of byte_guard None ih]
  by (simp add: parsed_v96 accept_defs)

lemma accepted_debug: "\<exists>f. fst (parse_inner byte_guard sample_debug ih) = Inr f \<and> hf_version f = 96"
  using parse_inner_accepts [OF header_sample_debug, of byte_guard _ ih]
  by (simp add: parsed_debug accept_defs DEBUG_INFO_V96_MIN_def DEBUG_INFO_V96_MAX_def HEADER_SIZE_def
      checked_add64_def u64_max_def read_debug_header_def Let_def)
    (simp add: sample_reads sample_debug_def)

lemma accepted_v84: "\<exists>f. fst (parse_inner byte_guard sample_v84 ih) = Inr f \<and> hf_version f = 84"
  using parse_inner_accepts [OF header_sample_v84, of byte_guard None ih]
  by (simp add: parsed_v84 accept_defs)

lemma accepted_v98: "\<exists>f. fst (parse_inner byte_guard sample_v98 ih) = Inr f \<and> hf_version f = 98"
  using parse_inner_accepts [OF header_sample_v98, of byte_guard None ih]
  by (simp add: parsed_v98 accept_defs DEBUG_INFO_V96_MIN_def DEBUG_INFO_V96_MAX_def HEADER_SIZE_def
      checked_add64_def u64_max_def)

section \<open>Properties at the samples\<close>

lemma parse_hbc_header_accepted_witness:
  "hdr_version (V87to96 (parse_v87_to_96 sample_v96 96)) \<in> {87..96}
    \<and> header_at sample_v96 (V87to96 (parse_v87_to_96 sample_v96 96))"
  using parse_hbc_header_accepted [OF header_sample_v96] by simp


lemma section_walk_witness:
  "\<exists>sp cursor secs. all_sections 176 (V87to96 (parse_v87_to_96 sample_v96 96)) initial_walk
      = Inr (sp, cursor, secs)
    \<and> map (\<lambda>(n, off, sz). (n, unat sz)) secs = [(''Header'', 128), (''FunctionHeaders'', 16),
        (''StringKinds'', 4), (''IdentifierHashes'', 0), (''SmallStringTable'', 8),
        (''OverflowStringTable'', 0), (''StringStorage'', 8)]
    \<and> (\<forall>s \<in> set (tl secs). 4 dvd sec_off s \<and> sec_end s \<le> 176 \<and> sec_end s \<le> unat cursor)"
proof -
  let ?h = "V87to96 (parse_v87_to_96 sample_v96 96)"
  have list: "section_list ?h = [(''FunctionHeaders'', 16), (''StringKinds'', 4), (''IdentifierHashes'', 0),
      (''SmallStringTable'', 8), (''OverflowStringTable'', 0), (''StringStorage'', 8)]"
    by (simp add: parsed_v96 accept_defs)
  have "fits 176 128 (section_list ?h)" unfolding list by (simp add: after_def clear_low2_def u32_max_def)
  then show ?thesis using section_walk [of 176 ?h] unfolding list by auto
qed

lemma debug_info_spans_witness:
  "\<exists>d. debug_info_v96_parse sample_debug 164 96 = Inr (Some d)
    \<and> di_file_region_table d = (184, 12) \<and> fst (di_filename_storage d) = 200
    \<and> span_end (di_lexical_data d) \<le> 208"
proof -
  have "\<exists>d. debug_info_v96_parse sample_debug 164 96 = Inr (Some d)"
    by (simp add: debug_info_v96_parse_def DEBUG_INFO_V96_MIN_def DEBUG_INFO_V96_MAX_def HEADER_SIZE_def
        checked_add64_def checked_mul64_def u64_max_def read_debug_header_def sample_lengths Let_def
        debug_spans_def) (simp add: sample_reads sample_debug_def)
  then obtain d where d: "debug_info_v96_parse sample_debug 164 96 = Inr (Some d)" by blast
  have "read_u32 sample_debug 172 = 1" by (simp add: sample_reads sample_debug_def)
  then show ?thesis
    using debug_info_spans [OF d] d
    by (auto simp: sample_lengths read_debug_header_def prod_eq_iff)
qed

text \<open>A reader of one-byte LEB128 numbers.\<close>

definition one_byte_sleb :: sleb_reader where
  "one_byte_sleb data pos =
     (if pos < length data
      then (let b = data ! pos in Some (if b < 64 then uint b else uint b - 128, 1)) else None)"

lemma decode_source_locations_ok_witness:
  "\<exists>fs. decode_source_locations one_byte_sleb [0, 1, 1, 2, 4, 1, 127, 1, 2, 2, 3] 97 = Some fs
    \<and> length fs = 2 \<and> (\<forall>f \<in> set fs. sorted (map sl_address (fsi_locations f)))
    \<and> (\<forall>f \<in> set (butlast fs). \<not> fsi_corrupt f)"
proof -
  have "\<exists>fs. decode_source_locations one_byte_sleb [0, 1, 1, 2, 4, 1, 127, 1, 2, 2, 3] 97 = Some fs
      \<and> length fs = 2"
    by (simp add: decode_source_locations_def read_functions.simps read_function_def one_byte_sleb_def
        SOURCE_LOCATIONS_MAX_FUNCTIONS_def SOURCE_LOCATIONS_MAX_PC_ENTRIES_def read_locations.simps
        read_location_def next_location_def skipped_operands_def read_statement_def sat_add64_def
        u64_max_def Let_def)
  then obtain fs where fs: "decode_source_locations one_byte_sleb [0, 1, 1, 2, 4, 1, 127, 1, 2, 2, 3] 97
      = Some fs" "length fs = 2" by blast
  show ?thesis using decode_source_locations_ok [OF fs(1)] fs by auto
qed

lemma expand_string_kinds_rle_witness:
  "expand_string_kinds [2, 0, 0, 0, 1, 0, 0, 128] 96 (0, 8) 2 4 = [0, 0, 1, 0]"
proof -
  have "decode_runs (kind_runs [2, 0, 0, 0, 1, 0, 0, 128] 96 0 2) = [0, 0, 1]"
    by code_simp
  then show ?thesis
    using expand_string_kinds_rle [of "(0, 8)" "[2, 0, 0, 0, 1, 0, 0, 128]" 2 96 4]
    by simp
qed

lemma parse_inner_layout_witness:
  "\<exists>f. fst (parse_inner byte_guard sample_v98 '''') = Inr f \<and> string_tables_ok f \<and> data_tables_ok f
    \<and> sections_ok f \<and> tables_recorded f"
  using accepted_v98 [of "''''"] parse_inner_layout [of byte_guard sample_v98 "''''"] by blast

lemma file_length_finding_witness:
  "F_FileLengthDisagreement 176 176 \<notin> set (snd (parse_inner byte_guard sample_v96 ''''))"
  using file_length_finding [OF header_sample_v96, of 176 176 byte_guard "''''"] by simp

lemma emit_hbc_v84_roundtrip_witness:
  "\<exists>f. fst (parse_inner byte_guard sample_v84 '''') = Inr f
    \<and> emit_hbc_v84 f = Inr (canonical_plain 176 sample_v84)"
  using accepted_v84 [of "''''"] emit_hbc_v84_roundtrip [of byte_guard sample_v84 "''''"]
  by (auto simp: sample_lengths u32_max_def byte_guard_def)

lemma emit_byte_identical_witness:
  "\<exists>f. fst (parse_inner byte_guard sample_v98 '''') = Inr f \<and> emit_hbc_v98 f = Inr sample_v98"
proof -
  have "unat (read_u32 sample_v98 32) = 180" "read_u32 sample_v98 68 = 0"
    by (simp_all add: sample_reads sample_v98_def)
  then show ?thesis
    using accepted_v98 [of "''''"] emit_byte_identical [of byte_guard sample_v98 "''''"]
    by (auto simp: sample_lengths)
qed

end
