(* ===== verification/Hermes_Parse_Samples.thy ===== *)
theory Hermes_Parse_Samples
  imports Hermes_Parse Hermes_Samples
begin

text \<open>
  Concrete files at which the properties of \<open>parse\<close> are applied: a v96 file with two function
  bodies, the second with an exception table, and a late-form v98 file whose only function has
  an overflowed header of the 36-byte layout with three exception handlers.
\<close>

section \<open>The files\<close>

definition sample_bodies :: "u8 list" where
  "sample_bodies =
     [198, 31, 188, 3, 193, 3, 25, 31, 96, 0, 0, 0, 0, 1, 2, 3, 4, 5, 6, 7, 8, 9, 10, 11, 12,
      13, 14, 15, 16, 17, 18, 19, 204, 0, 0, 0, 7, 0, 0, 0, 2, 0, 0, 0, 1, 0, 0, 0, 0, 0, 0, 0,
      2, 0, 0, 0, 0, 0, 0, 0, 8, 0, 0, 0, 0, 0, 0, 0, 0, 0, 0, 0, 0, 0, 0, 0, 0, 0, 0, 0, 0, 0,
      0, 0, 0, 0, 0, 0, 0, 0, 0, 0, 5, 0, 0, 0, 0, 0, 0, 0, 0, 0, 0, 0, 0, 0, 0, 0, 0, 0, 0, 0,
      0, 0, 0, 0, 0, 0, 0, 0, 0, 0, 0, 0, 0, 0, 0, 0, 180, 0, 0, 2, 4, 0, 0, 0, 0, 0, 0, 0, 0,
      0, 0, 0, 184, 0, 0, 2, 4, 128, 0, 0, 188, 0, 0, 0, 0, 0, 0, 8, 2, 0, 0, 0, 0, 0, 0, 3, 6,
      0, 0, 5, 65, 66, 67, 68, 69, 70, 71, 72, 0, 0, 0, 0, 0, 0, 0, 0, 1, 0, 0, 0, 0, 0, 0, 0,
      2, 0, 0, 0, 3, 0, 0, 0]"

definition sample_large :: "u8 list" where
  "sample_large =
     [198, 31, 188, 3, 193, 3, 25, 31, 98, 0, 0, 0, 0, 1, 2, 3, 4, 5, 6, 7, 8, 9, 10, 11, 12,
      13, 14, 15, 16, 17, 18, 19, 240, 0, 0, 0, 7, 0, 0, 0, 1, 0, 0, 0, 1, 0, 0, 0, 0, 0, 0, 0,
      2, 0, 0, 0, 0, 0, 0, 0, 8, 0, 0, 0, 0, 0, 0, 0, 0, 0, 0, 0, 0, 0, 0, 0, 0, 0, 0, 0, 0, 0,
      0, 0, 0, 0, 0, 0, 0, 0, 0, 0, 9, 0, 0, 0, 5, 0, 0, 0, 0, 0, 0, 0, 0, 0, 0, 0, 255, 0, 0,
      0, 1, 0, 0, 0, 0, 0, 0, 0, 0, 0, 0, 0, 0, 0, 0, 0, 160, 0, 0, 0, 0, 0, 0, 0, 0, 0, 0, 32,
      2, 0, 0, 0, 0, 0, 0, 3, 6, 0, 0, 5, 65, 66, 67, 68, 69, 70, 71, 72, 236, 0, 0, 0, 1, 0,
      0, 0, 0, 0, 0, 0, 4, 0, 0, 0, 0, 0, 0, 0, 0, 0, 0, 0, 0, 0, 0, 0, 7, 0, 0, 0, 0, 0, 0, 8,
      3, 0, 0, 0, 0, 0, 0, 0, 2, 0, 0, 0, 3, 0, 0, 0, 0, 0, 0, 0, 1, 0, 0, 0, 2, 0, 0, 0, 1, 0,
      0, 0, 3, 0, 0, 0, 0, 0, 0, 0, 0, 0, 0, 0]"

lemma parse_sample_lengths: "length sample_bodies = 204" "length sample_large = 240"
  by (simp_all add: sample_bodies_def sample_large_def)

section \<open>Their headers\<close>

lemma header_sample_bodies:
  "fst (parse_hbc_header sample_bodies) = Inr (V87to96 (parse_v87_to_96 sample_bodies 96))"
  by (simp add: dispatch_defs parse_sample_lengths) (simp add: sample_bodies_def)

lemma header_sample_large:
  "fst (parse_hbc_header sample_large) = Inr (V98LateToV99 (parse_v98_late_to_v99 sample_large 98))"
proof -
  have form: "fst (detect_late_v98_form sample_large) = Inr True"
    using detect_late_v98_form_cases [of sample_large]
    by (simp add: parse_sample_lengths v98_ambiguous_def v98_late_def v98_option_valid_def)
      (simp add: sample_large_def)
  have "read_u32 sample_large 8 = 98" "le_nat (take 8 sample_large) = HBC_MAGIC"
    by (simp_all add: sample_reads sample_large_def HBC_MAGIC_def)
  then show ?thesis
    using form by (simp add: parse_hbc_header_Inr parse_sample_lengths dispatch_version_def
        MIN_SUPPORTED_VERSION_def lbind_eq_Inr) (rule exI [of _ True], simp)
qed

lemma parsed_bodies: "parse_v87_to_96 sample_bodies 96 = \<lparr>
    h87_version = 96, h87_file_length = 204, h87_global_code_index = 7, h87_function_count = 2,
    h87_string_kind_count = 1, h87_identifier_count = 0, h87_string_count = 2,
    h87_overflow_string_count = 0, h87_string_storage_size = 8, h87_big_int_count = 0,
    h87_big_int_storage_size = 0, h87_reg_exp_count = 0, h87_reg_exp_storage_size = 0,
    h87_array_buffer_size = 0, h87_obj_key_buffer_size = 0, h87_obj_value_buffer_size = 0,
    h87_segment_id = 5, h87_cjs_module_count = 0, h87_function_source_count = 0,
    h87_debug_info_offset = 0\<rparr>"
  by (simp add: layout_words_v96 parse_sample_lengths) (simp add: sample_bodies_def)

lemma parsed_large: "parse_v98_late_to_v99 sample_large 98 = \<lparr>
    h98_version = 98, h98_file_length = 240, h98_global_code_index = 7, h98_function_count = 1,
    h98_string_kind_count = 1, h98_identifier_count = 0, h98_string_count = 2,
    h98_overflow_string_count = 0, h98_string_storage_size = 8, h98_big_int_count = 0,
    h98_big_int_storage_size = 0, h98_reg_exp_count = 0, h98_reg_exp_storage_size = 0,
    h98_array_buffer_size = 0, h98_obj_key_buffer_size = 0, h98_obj_shape_table_count = 0,
    h98_num_string_switch_imms = 9, h98_segment_id = 5, h98_cjs_module_count = 0,
    h98_function_source_count = 0, h98_debug_info_offset = 255\<rparr>"
  by (simp add: layout_words_v98 parse_sample_lengths) (simp add: sample_large_def)

lemma accepted_bodies: "\<exists>f. fst (parse_inner byte_guard sample_bodies ih) = Inr f"
  using parse_inner_accepts [OF header_sample_bodies, of byte_guard None ih]
  by (simp add: parsed_bodies accept_defs parse_sample_lengths) blast

lemma accepted_large: "\<exists>f. fst (parse_inner byte_guard sample_large ih) = Inr f"
  using parse_inner_accepts [OF header_sample_large, of byte_guard None ih]
  by (simp add: parsed_large accept_defs parse_sample_lengths DEBUG_INFO_V96_MIN_def
      DEBUG_INFO_V96_MAX_def HEADER_SIZE_def checked_add64_def u64_max_def) blast

section \<open>What the parser knows of them\<close>

lemma file_bodies:
  assumes "fst (parse_inner byte_guard sample_bodies ih) = Inr f"
  shows "hf_buf f = sample_bodies" "hf_header f = V87to96 (parse_v87_to_96 sample_bodies 96)"
    "hf_function_count f = 2" "hf_func_header_size f = 16" "hf_bytecode_region f = (180, 204)"
    "hf_large_header_layout f = Some Shape36" "hf_version f = 96"
    "fst (hf_func_headers f) = 128"
  using parse_inner_header [OF assms header_sample_bodies] parse_inner_parsed_ok [OF assms]
  by (simp_all add: parsed_ok_def header_fields_ok_def string_tables_ok_def Let_def parsed_bodies accept_defs
      bytecode_region_of_def parse_sample_lengths u32_of_usize_or_max_def)

lemma entries_bodies:
  assumes "fst (parse_inner byte_guard sample_bodies ih) = Inr f"
  shows "func_entry f 0 = Some [180, 0, 0, 2, 4, 0, 0, 0, 0, 0, 0, 0, 0, 0, 0, 0]"
    "func_entry f 1 = Some [184, 0, 0, 2, 4, 128, 0, 0, 188, 0, 0, 0, 0, 0, 0, 8]"
  by (simp_all add: func_entry_def func_entry_off_def file_bodies [OF assms] parse_sample_lengths)
    (simp_all add: sample_bodies_def slice_def)

lemma two_le_one [simp]: "\<not> (2 :: u32) \<le> 1"
  by (simp add: word_le_nat_alt)

lemma get_bodies:
  assumes "fst (parse_inner byte_guard sample_bodies ih) = Inr f"
  shows "function_get f 0 = (\<lparr>fd_name_id = 0, fd_param_count = 1, fd_offset = 180, fd_size = 4,
      fd_flags = 0, fd_frame_size = 0\<rparr>, [])"
    "function_get f 1 = (\<lparr>fd_name_id = 1, fd_param_count = 1, fd_offset = 184, fd_size = 4,
      fd_flags = 8, fd_frame_size = 0\<rparr>, [])"
  by (simp_all add: function_get_def entries_bodies [OF assms] file_bodies [OF assms]
      read_bitfield_def read_bitfield_loop.simps get_at_def flag_bit_def pack_flags_def)

lemma spans_bodies:
  assumes "fst (parse_inner byte_guard sample_bodies ih) = Inr f"
  shows "\<not> span_overlaps_synthesized f 188 16"
proof -
  have t: "span_end (hf_func_headers f) \<le> 180" "span_end (hf_small_string_table f) \<le> 180"
    "span_end (hf_overflow_string_table f) \<le> 180" "snd (hf_regexp_table f) = 0"
    "snd (hf_obj_shape_table f) = 0"
    using parse_inner_parsed_ok [OF assms] file_bodies [OF assms]
    by (auto simp: parsed_ok_def string_tables_ok_def data_tables_ok_def placed_size Let_def parsed_bodies
        header_fields_ok_def)
  then show ?thesis
    by (simp add: span_overlaps_synthesized_def spans_intersect_def HEADER_SIZE_def u64_max_def
        EMIT_SYNTHESIZED_SECTIONS_def synthesized_section_span_by_name_def sat_add64_def split_beta)
qed

lemma validated_bodies:
  assumes "fst (parse_inner byte_guard sample_bodies ih) = Inr f"
  shows "fst (validate_function_regions f) = Inr (f\<lparr>hf_unrecognized_functions := []\<rparr>)"
proof -
  note fl = file_bodies [OF assms]
  have checked: "function_get_checked f 0 = (Inr (fst (function_get f 0)), [])"
    "function_get_checked f 1 = (Inr (fst (function_get f 1)), [])"
    by (simp_all add: function_get_checked_def fl entries_bodies [OF assms] get_bodies [OF assms]
        flag_bit_def)
  have exc: "get_exc_table_offset f 1 = 188"
    by (simp add: get_exc_table_offset_def entries_bodies [OF assms] fl flag_bit_def
        read_bitfield_def read_bitfield_loop.simps get_at_def narrow_align4_def sat_add64_def
        u64_max_def u32_max_def clear_low2_def)
  have words: "read_u32 sample_bodies 188 = 1" "read_u32 sample_bodies 192 = 0"
    "read_u32 sample_bodies 196 = 2" "read_u32 sample_bodies 200 = 3"
    by (simp_all add: sample_reads sample_bodies_def)
  have over: "exc_table_overlaps_synthesized f 0 = (None, [])"
    "exc_table_overlaps_synthesized f 1 = (None, [])"
    using spans_bodies [OF assms]
    by (simp_all add: exc_table_overlaps_synthesized_def get_bodies [OF assms] flag_bit_def exc fl
        words parse_sample_lengths sat_add64_def sat_mul64_def u64_max_def MAX_EXCEPTION_HANDLERS_def)
  have count: "function_exception_count f 0 = (0, [])" "function_exception_count f 1 = (1, [])"
    by (simp_all add: function_exception_count_def fl get_bodies [OF assms] flag_bit_def exc words
        parse_sample_lengths exception_count_is_capped_def MAX_EXCEPTION_HANDLERS_def)
  have handler: "function_exception_get f 1 0 = (\<lparr>eh_start = 0, eh_end = 2, eh_target = 3\<rparr>, [])"
    by (simp add: function_exception_get_def exc fl words parse_sample_lengths MAX_EXCEPTION_HANDLERS_def)
  have idx: "function_indices f = [0, 1]" "u32_range 0 = []" "u32_range 1 = [0]"
    by (simp_all add: function_indices_def u32_range_def fl upt_rec)
  show ?thesis
    by (simp add: validate_function_regions_def region_pass1_step_def checked over get_bodies [OF assms]
        idx fl count handler dedup_check_def checked_add32_def u32_max_def span_off_def
        checked_add64_def u64_max_def
        binary_search_ok_def lret_def lemit_def lbind_def llift_def)
qed

lemma parsed_sample_bodies:
  "\<exists>f. fst (parse_inner byte_guard sample_bodies []) = Inr f
    \<and> fst (parse byte_guard None (\<lambda>_. []) sample_bodies) = Inr (f\<lparr>hf_unrecognized_functions := []\<rparr>)"
proof -
  obtain f where f: "fst (parse_inner byte_guard sample_bodies []) = Inr f"
    using accepted_bodies by blast
  have "\<not> is_v98_late f" by (simp add: is_v98_late_def file_bodies [OF f])
  then show ?thesis
    using f validated_bodies [OF f]
    by (simp add: parse_def lbind_eq_Inr select_v98_large_header_layout_def)
qed

section \<open>Properties at the samples\<close>

lemma parse_sound_witness:
  "\<exists>g. fst (parse byte_guard None (\<lambda>_. []) sample_bodies) = Inr g \<and> hf_buf g = sample_bodies
    \<and> sound_function g 0 \<and> sound_function g 1
    \<and> same_or_disjoint (fst (function_get g 0)) (fst (function_get g 1))"
proof -
  obtain f where f: "fst (parse_inner byte_guard sample_bodies []) = Inr f"
    and g: "fst (parse byte_guard None (\<lambda>_. []) sample_bodies) = Inr (f\<lparr>hf_unrecognized_functions := []\<rparr>)"
      (is "_ = Inr ?g")
    using parsed_sample_bodies by blast
  have "hf_function_count ?g = 2" "\<And>i. \<not> is_function_unrecognized ?g i"
    "fd_size (fst (function_get ?g 0)) \<noteq> 0" "fd_size (fst (function_get ?g 1)) \<noteq> 0"
    by (simp_all add: file_bodies [OF f] get_bodies [OF f] is_function_unrecognized_def binary_search_ok_def)
  then show ?thesis using parse_sound [OF g] g by (auto simp: word_less_nat_alt)
qed

lemma parse_complete_witness:
  "\<exists>f. fst (parse_inner byte_guard sample_bodies []) = Inr f
    \<and> regions_in (fst (select_v98_large_header_layout f))
    \<and> two_bodies_ok (fst (select_v98_large_header_layout f)) 0 1
    \<and> duplicate_bodies (fst (select_v98_large_header_layout f)) \<le> 65535"
proof -
  have "\<exists>g. fst (parse byte_guard None (\<lambda>_. []) sample_bodies) = Inr g"
    using parsed_sample_bodies by blast
  then obtain f where "fst (parse_inner byte_guard sample_bodies []) = Inr f"
    and "regions_in (fst (select_v98_large_header_layout f))"
    and apart: "\<forall>i j. i \<noteq> j \<longrightarrow> two_bodies_ok (fst (select_v98_large_header_layout f)) i j"
    and "duplicate_bodies (fst (select_v98_large_header_layout f)) \<le> 65535"
    unfolding parse_complete Let_def by blast
  moreover have "two_bodies_ok (fst (select_v98_large_header_layout f)) 0 1"
    using apart by simp
  ultimately show ?thesis by blast
qed

lemma parse_emit_witness:
  "\<exists>g. fst (parse byte_guard None (\<lambda>_. []) sample_bodies) = Inr g
    \<and> emit_hbc g = Inr (canonical_bigint 204 sample_bodies)"
proof -
  obtain f where f: "fst (parse_inner byte_guard sample_bodies []) = Inr f"
    and g: "fst (parse byte_guard None (\<lambda>_. []) sample_bodies) = Inr (f\<lparr>hf_unrecognized_functions := []\<rparr>)"
    using parsed_sample_bodies by blast
  then show ?thesis
    using parse_emit [OF g] file_bodies [OF f]
    by (simp add: parse_sample_lengths u32_max_def)
qed

text \<open>The body of the only function of \<open>sample_v96\<close> starts before the bytecode region.\<close>

lemma validated_v96:
  assumes "fst (parse_inner byte_guard sample_v96 ih) = Inr f"
  shows "string_tables_ok f
    \<and> fst (validate_function_regions f) = Inl (FunctionBodyOutOfBytecodeRegion 0 152 8 164 176)"
proof -
  have fl: "hf_buf f = sample_v96" "hf_header f = V87to96 (parse_v87_to_96 sample_v96 96)"
    "hf_function_count f = 1" "hf_func_header_size f = 16" "hf_bytecode_region f = (164, 176)"
    "fst (hf_func_headers f) = 128"
    using parse_inner_header [OF assms header_sample_v96] parse_inner_parsed_ok [OF assms]
    by (simp_all add: parsed_ok_def header_fields_ok_def string_tables_ok_def Let_def parsed_v96 accept_defs
        bytecode_region_of_def u32_of_usize_or_max_def)
  have st: "string_tables_ok f" using parse_inner_parsed_ok [OF assms] by (simp add: parsed_ok_def)
  have entry: "func_entry f 0 = Some [152, 0, 0, 2, 8, 0, 0, 0, 1, 2, 3, 4, 5, 6, 7, 8]"
    by (simp add: func_entry_def func_entry_off_def fl sample_lengths) (simp add: sample_v96_def slice_def)
  have get: "function_get f 0 = (\<lparr>fd_name_id = 0, fd_param_count = 1, fd_offset = 152, fd_size = 8,
      fd_flags = 8, fd_frame_size = 0\<rparr>, [])"
    by (simp add: function_get_def entry fl
        read_bitfield_def read_bitfield_loop.simps get_at_def flag_bit_def pack_flags_def)
  have checked: "function_get_checked f 0 = (Inr (fst (function_get f 0)), [])"
    by (simp add: function_get_checked_def fl entry get flag_bit_def)
  have exc: "get_exc_table_offset f 0 = 197124"
    by (simp add: get_exc_table_offset_def entry fl flag_bit_def read_bitfield_def
        read_bitfield_loop.simps get_at_def narrow_align4_def sat_add64_def u64_max_def u32_max_def
        clear_low2_def)
  have "span_end (hf_func_headers f) \<le> 176" "span_end (hf_small_string_table f) \<le> 176"
    "span_end (hf_overflow_string_table f) \<le> 176" "snd (hf_regexp_table f) = 0"
    "snd (hf_obj_shape_table f) = 0"
    using parse_inner_parsed_ok [OF assms] fl
    by (auto simp: parsed_ok_def string_tables_ok_def data_tables_ok_def placed_size Let_def parsed_v96
        header_fields_ok_def sample_lengths)
  then have "\<not> span_overlaps_synthesized f 197124 4"
    by (simp add: span_overlaps_synthesized_def spans_intersect_def HEADER_SIZE_def u64_max_def
        EMIT_SYNTHESIZED_SECTIONS_def synthesized_section_span_by_name_def sat_add64_def split_beta)
  then have "exc_table_overlaps_synthesized f 0 = (None, [])"
    by (simp add: exc_table_overlaps_synthesized_def get flag_bit_def exc fl sample_lengths
        sat_add64_def sat_mul64_def u64_max_def)
  moreover have "function_indices f = [0]" by (simp add: function_indices_def u32_range_def fl)
  ultimately show ?thesis
    by (simp add: st validate_function_regions_def region_pass1_step_def checked get fl checked_add64_def
        u64_max_def lbind_def)
qed

text \<open>The body of the only function of \<open>sample_v96\<close> starts before the bytecode region.\<close>

lemma validate_regions_errors_witness:
  "\<exists>f fd. fst (parse_inner byte_guard sample_v96 []) = Inr f \<and> located f 0 fd
    \<and> \<not> in_bytecode_region f fd \<and> fd_offset fd = 152"
proof -
  obtain f where f: "fst (parse_inner byte_guard sample_v96 []) = Inr f"
    using accepted_v96 by blast
  note v = validated_v96 [OF f]
  show ?thesis
    using validate_regions_errors [OF conjunct1 [OF v] conjunct2 [OF v]] f by auto
qed

section \<open>The overflowed header\<close>

lemma file_large:
  assumes "fst (parse_inner byte_guard sample_large ih) = Inr f"
  shows "hf_buf f = sample_large" "hf_header f = V98LateToV99 (parse_v98_late_to_v99 sample_large 98)"
    "hf_function_count f = 1" "hf_func_header_size f = 12"
    "hf_version f = 98" "fst (hf_func_headers f) = 128" "hf_use_v99_func_header f"
  using parse_inner_header [OF assms header_sample_large] parse_inner_parsed_ok [OF assms]
  by (simp_all add: parsed_ok_def header_fields_ok_def string_tables_ok_def Let_def parsed_large
      parse_sample_lengths)

lemma entry_large:
  assumes "fst (parse_inner byte_guard sample_large ih) = Inr f"
  shows "func_entry f 0 = Some [160, 0, 0, 0, 0, 0, 0, 0, 0, 0, 0, 32]"
    "overflowed_large_off_v98late f 0 = Some 160"
    "large_off_of (hf_header f) [160, 0, 0, 0, 0, 0, 0, 0, 0, 0, 0, 32] = 160"
    "\<not> overflow_header_overlaps_synthesized f 160"
proof -
  note fl = file_large [OF assms]
  show "func_entry f 0 = Some [160, 0, 0, 0, 0, 0, 0, 0, 0, 0, 0, 32]"
    by (simp add: func_entry_def func_entry_off_def fl parse_sample_lengths)
      (simp add: sample_large_def slice_def)
  show "overflowed_large_off_v98late f 0 = Some 160"
    by (simp add: overflowed_large_off_v98late_def fl checked_mul64_def checked_add64_def u64_max_def
        get_range_def parse_sample_lengths)
      (simp add: sample_large_def read_bitfield_def read_bitfield_loop.simps get_at_def flag_bit_def)
  show "large_off_of (hf_header f) [160, 0, 0, 0, 0, 0, 0, 0, 0, 0, 0, 32] = 160"
    by (simp add: fl read_bitfield_def read_bitfield_loop.simps get_at_def)
  have "span_end (hf_func_headers f) \<le> 160" "span_end (hf_small_string_table f) \<le> 160"
    "span_end (hf_overflow_string_table f) \<le> 160" "snd (hf_regexp_table f) = 0"
    "snd (hf_obj_shape_table f) = 0"
    using parse_inner_parsed_ok [OF assms] fl parse_inner_header [OF assms header_sample_large]
    by (auto simp: parsed_ok_def string_tables_ok_def data_tables_ok_def placed_size Let_def parsed_large
        header_fields_ok_def parse_sample_lengths accept_defs bytecode_region_of_def u32_of_usize_or_max_def)
  then show "\<not> overflow_header_overlaps_synthesized f 160"
    by (simp add: overflow_header_overlaps_synthesized_def span_overlaps_synthesized_def
        spans_intersect_def HEADER_SIZE_def u64_max_def EMIT_SYNTHESIZED_SECTIONS_def
        synthesized_section_span_by_name_def sat_add64_def split_beta LARGE_FUNCTION_HEADER_SIZE_def)
qed

lemma words_large:
  "read_u32 sample_large 172 = 4" "read_u32 sample_large 196 = 3"
  "read_u32 sample_large 200 = 0" "read_u32 sample_large 204 = 2" "read_u32 sample_large 208 = 3"
  "read_u32 sample_large 212 = 0" "read_u32 sample_large 216 = 1" "read_u32 sample_large 220 = 2"
  "read_u32 sample_large 224 = 1" "read_u32 sample_large 228 = 3" "read_u32 sample_large 232 = 0"
  "get_at sample_large 195 = Some 8" "get_at sample_large 196 = Some 3"
  by (simp_all add: sample_reads get_at_def parse_sample_lengths) (simp_all add: sample_large_def)

lemma selected_large:
  assumes "fst (parse_inner byte_guard sample_large ih) = Inr f"
  shows "select_v98_large_header_layout f = (f\<lparr>hf_large_header_layout := Some Shape36\<rparr>, [])"
proof -
  note fl = file_large [OF assms] and en = entry_large [OF assms]
  have "summary_loop sample_large 200 0 3 0 80 = Some (Some 4, 77)"
    by (subst numeral_3_eq_3)
      (simp add: checked_add64_def sat_mul64_def sat_add64_def u64_max_def words_large
        checked_add32_def u32_max_def Let_def word_le_nat_alt max_def)
  then have "exc_table_summary_uncached f 196 80 = Some (Some 4, 77)"
    by (simp add: exc_table_summary_uncached_def fl exc_table_pos_outside_runtime_domain_def u32_max_def
        checked_add64_def u64_max_def parse_sample_lengths words_large MAX_EXCEPTION_HANDLERS_def
        sat_mul64_def sat_add64_def)
  then have "\<exists>s. score_large_header f 160 (new_scratch 80) = Some ((False, True, True), s)"
    by (simp add: score_large_header_def new_scratch_def large_header_shape_violation_def byte_at_u64_def
        fl sat_add64_def u64_max_def words_large flag_bit_def checked_add64_def align4_u64_def
        clear_low2_def exc_table_summary_def)
  then obtain s where "score_large_header f 160 (new_scratch 80) = Some ((False, True, True), s)" ..
  moreover have "function_indices f = [0]" by (simp add: function_indices_def u32_range_def fl)
  moreover have "selection_triple_budget 240 = 80"
    by (simp add: selection_triple_budget_def sat_mul64_def u64_max_def)
  ultimately have "selection_tally f = \<lparr>ta_scored = 1, ta_violations36 = 0, ta_violations40 = 1,
      ta_disagreements = 0, ta_exhausted = False\<rparr>"
    using en(2,4)
    by (simp add: selection_tally_def fl parse_sample_lengths overflow_header_is_oob_def
        checked_add64_def u64_max_def LARGE_FUNCTION_HEADER_SIZE_def sat_add32_def u32_max_def
        count_score_def)
  then show ?thesis
    by (simp add: select_v98_large_header_layout_def is_v98_late_def fl)
qed

lemma selected_layout_handlers_witness:
  "\<exists>f fd. fst (parse_inner byte_guard sample_large []) = Inr f
    \<and> function_get_checked (f\<lparr>hf_large_header_layout := Some Shape36\<rparr>) 0 = (Inr fd, [])
    \<and> (\<forall>h < fst (function_exception_count (f\<lparr>hf_large_header_layout := Some Shape36\<rparr>) 0).
         handler_in_range (fd_size fd)
           (fst (function_exception_get (f\<lparr>hf_large_header_layout := Some Shape36\<rparr>) 0 h)))"
proof -
  obtain f where f: "fst (parse_inner byte_guard sample_large []) = Inr f"
    using accepted_large by blast
  let ?f = "f\<lparr>hf_large_header_layout := Some Shape36\<rparr>"
  note fl = file_large [OF f] and en = entry_large [OF f]
  have late: "is_v98_late f" by (simp add: is_v98_late_def fl)
  have ov: "overflowed ?f [160, 0, 0, 0, 0, 0, 0, 0, 0, 0, 0, 32]"
    by (simp add: overflowed_def fl flag_bit_def)
  have "overflow_header_overlaps_synthesized ?f 160 = overflow_header_overlaps_synthesized f 160"
    by (simp add: overflow_header_overlaps_synthesized_def span_overlaps_synthesized_def
        synthesized_section_span_by_name_def EMIT_SYNTHESIZED_SECTIONS_def)
  then have "\<exists>fd. fst (function_get_checked ?f 0) = Inr fd"
    using en by (simp add: function_get_checked_def fl flag_bit_def overflow_header_is_oob_def
        checked_add64_def u64_max_def LARGE_FUNCTION_HEADER_SIZE_def parse_sample_lengths)
  then obtain fd where "fst (function_get_checked ?f 0) = Inr fd" ..
  then have fd: "function_get_checked ?f 0 = (Inr fd, [])"
    using function_get_checked_quiet [of ?f 0] by (metis prod.collapse)
  have "hf_large_header_layout ?f \<noteq> None" "0 < hf_function_count ?f"
    "func_entry ?f 0 = Some [160, 0, 0, 0, 0, 0, 0, 0, 0, 0, 0, 32]"
    by (simp_all add: fl en(1))
  from selected_layout_handlers [OF f late selected_large [OF f] this ov fd] show ?thesis
    using f fd by blast
qed

end
