(* ===== verification/Hermes_Strings.thy ===== *)
theory Hermes_Strings
  imports Hermes_Raw
begin

text \<open>
  The string accessors of \<open>HbcFile\<close> (\<open>string_get\<close>, \<open>string_as_str\<close> and
  \<open>string_as_str_or_empty\<close> of \<open>parser/mod.rs\<close>) and the lossy decoders of the standard library
  they end in. A Rust string is the list of its Unicode scalar values.
\<close>

section \<open>Resolving an entry\<close>

record StringData =
  sd_offset :: usize
  sd_len :: u32
  sd_kind :: u8
  sd_is_utf16 :: bool

text \<open>
  What the entry routes to: the overflow flag, the storage offset and the length. The entry's
  own fields unless the length is the sentinel 255, the overflow table's words otherwise.
\<close>

definition route_string :: "HbcFile \<Rightarrow> u32 \<Rightarrow> u32 \<Rightarrow> u32 \<Rightarrow> (bool \<times> u32 \<times> u32) hermes" where
  "route_string f index str_offset str_length =
     (if str_length = 255 then
        if str_offset < hf_overflow_string_count f then
          let ovf_off = fst (hf_overflow_string_table f) + unat str_offset * 8 in
          if length (hf_buf f) < ovf_off + 8
          then lfail (StringStorageEndExceedsBuffer index ovf_off 8 (length (hf_buf f)))
          else lret (True, read_u32 (hf_buf f) ovf_off, read_u32 (hf_buf f) (ovf_off + 4))
        else
          (Inl (OverflowIndexOutOfRange index (hf_overflow_string_count f)),
           [F_OverflowIndexOutOfRange index (hf_overflow_string_count f)])
      else lret (False, str_offset, str_length))"

text \<open>The absolute offset and the length in bytes.\<close>

definition string_extent :: "HbcFile \<Rightarrow> bool \<Rightarrow> bool \<Rightarrow> u32 \<Rightarrow> u32 \<Rightarrow> hermes_error + (usize \<times> usize)" where
  "string_extent f overflow_routed is_utf16 str_offset str_length =
     (if overflow_routed then
        ebind (if is_utf16
               then ok_or (checked_mul64 (unat str_length) 2)
                      (ArithmeticOverflow ''string_get utf16 byte_len = str_length * 2'')
               else Inr (unat str_length)) (\<lambda>byte_len.
        ebind (ok_or (checked_add64 (fst (hf_string_storage f)) (unat str_offset))
                 (ArithmeticOverflow ''string_get abs_offset = string_storage.0 + str_offset'')) (\<lambda>a.
        Inr (a, byte_len)))
      else Inr (fst (hf_string_storage f) + unat str_offset,
                unat (if is_utf16 then str_length * 2 else str_length)))"

definition string_get :: "HbcFile \<Rightarrow> u32 \<Rightarrow> StringData option hermes" where
  "string_get f index =
     (if hf_string_count f \<le> index then lret None
      else
        let kind = (case get_at (hf_string_kind_map f) (unat index) of None \<Rightarrow> 0 | Some k \<Rightarrow> k);
            entry_off = fst (hf_small_string_table f) + unat index * 4;
            entry_end = entry_off + 4
        in if length (hf_buf f) < entry_end
           then lfail (StringStorageEndExceedsBuffer index entry_off 4 (length (hf_buf f)))
           else
             let entry = slice (hf_buf f) entry_off 4;
                 is_utf16 = (read_bitfield entry 0 1 \<noteq> 0)
             in lbind (route_string f index (read_bitfield entry 1 23) (read_bitfield entry 24 8))
                  (\<lambda>(overflow_routed, str_offset, str_length).
                lbind (llift (string_extent f overflow_routed is_utf16 str_offset str_length))
                  (\<lambda>(abs_offset, byte_len).
                let storage_end = fst (hf_string_storage f) + snd (hf_string_storage f) in
                lbind (llift (ok_or (checked_add64 abs_offset byte_len)
                         (ArithmeticOverflow ''string_get abs_end = abs_offset + byte_len_usize'')))
                  (\<lambda>abs_end.
                if str_length = 0
                then lret (Some \<lparr>sd_offset = 0, sd_len = 0, sd_kind = kind, sd_is_utf16 = is_utf16\<rparr>)
                else if storage_end < abs_end
                then lfail (StringStorageEndExceedsBuffer index abs_offset byte_len storage_end)
                else lret (Some \<lparr>sd_offset = abs_offset,
                                 sd_len = (if is_utf16 then of_nat byte_len else str_length),
                                 sd_kind = kind, sd_is_utf16 = is_utf16\<rparr>)))))"

section \<open>Lossy decoding\<close>

type_synonym ustring = "nat list"

definition REPLACEMENT_CHARACTER :: nat where
  "REPLACEMENT_CHARACTER = 0xFFFD"

text \<open>\<open>String::from_utf16_lossy\<close>: surrogate pairs are joined, lone surrogates replaced.\<close>

fun from_utf16_lossy :: "nat list \<Rightarrow> ustring" where
  "from_utf16_lossy [] = []"
| "from_utf16_lossy (u # us) =
     (if u < 0xD800 \<or> 0xDFFF < u then u # from_utf16_lossy us
      else if 0xDC00 \<le> u then REPLACEMENT_CHARACTER # from_utf16_lossy us
      else case us of
          [] \<Rightarrow> [REPLACEMENT_CHARACTER]
        | u2 # rest \<Rightarrow>
            if u2 < 0xDC00 \<or> 0xDFFF < u2 then REPLACEMENT_CHARACTER # from_utf16_lossy us
            else (0x10000 + 0x400 * (u mod 0x400) + u2 mod 0x400) # from_utf16_lossy rest)"

text \<open>\<open>bytes.chunks_exact(2).map(|c| u16::from_le_bytes([c[0], c[1]]))\<close>\<close>

fun u16_units :: "u8 list \<Rightarrow> nat list" where
  "u16_units (a # b # bs) = (unat a + 256 * unat b) # u16_units bs"
| "u16_units _ = []"

text \<open>
  \<open>String::from_utf8_lossy\<close>: a maximal broken prefix of a sequence becomes one replacement
  character. \<open>utf8_next\<close> is one step: the scalar value, if the sequence is whole, and the number
  of bytes it takes. Bytes are given as numbers; a byte past the end reads as 0.
\<close>

definition byte_or_0 :: "nat list \<Rightarrow> nat \<Rightarrow> nat" where
  "byte_or_0 bs i = (if i < length bs then bs ! i else 0)"

definition is_cont :: "nat \<Rightarrow> bool" where
  "is_cont b \<longleftrightarrow> 0x80 \<le> b \<and> b \<le> 0xBF"

definition second_ok :: "nat \<Rightarrow> nat \<Rightarrow> bool" where
  "second_ok b c \<longleftrightarrow>
     (if b = 0xE0 then 0xA0 \<le> c \<and> c \<le> 0xBF
      else if b = 0xED then 0x80 \<le> c \<and> c \<le> 0x9F
      else if b = 0xF0 then 0x90 \<le> c \<and> c \<le> 0xBF
      else if b = 0xF4 then 0x80 \<le> c \<and> c \<le> 0x8F
      else is_cont c)"

definition utf8_next :: "nat list \<Rightarrow> nat option \<times> nat" where
  "utf8_next bs =
     (let b = byte_or_0 bs 0; c = byte_or_0 bs 1; d = byte_or_0 bs 2; e = byte_or_0 bs 3 in
      if b < 0x80 then (Some b, 1)
      else if 0xC2 \<le> b \<and> b \<le> 0xDF then
        if \<not> is_cont c then (None, 1) else (Some (b mod 0x20 * 0x40 + c mod 0x40), 2)
      else if 0xE0 \<le> b \<and> b \<le> 0xEF then
        if \<not> second_ok b c then (None, 1)
        else if \<not> is_cont d then (None, 2)
        else (Some (b mod 0x10 * 0x1000 + c mod 0x40 * 0x40 + d mod 0x40), 3)
      else if 0xF0 \<le> b \<and> b \<le> 0xF4 then
        if \<not> second_ok b c then (None, 1)
        else if \<not> is_cont d then (None, 2)
        else if \<not> is_cont e then (None, 3)
        else (Some (b mod 8 * 0x40000 + c mod 0x40 * 0x1000 + d mod 0x40 * 0x40 + e mod 0x40), 4)
      else (None, 1))"

lemma utf8_next_pos: "0 < snd (utf8_next bs)"
  by (auto simp: utf8_next_def Let_def)

function from_utf8_lossy :: "nat list \<Rightarrow> ustring" where
  "from_utf8_lossy bs =
     (if bs = [] then []
      else (case fst (utf8_next bs) of None \<Rightarrow> REPLACEMENT_CHARACTER | Some c \<Rightarrow> c)
             # from_utf8_lossy (drop (snd (utf8_next bs)) bs))"
  by pat_completeness auto
termination
  by (relation "measure length") (auto simp: utf8_next_pos)

declare from_utf8_lossy.simps [simp del]

section \<open>Strings as text\<close>

definition string_as_str :: "HbcFile \<Rightarrow> u32 \<Rightarrow> ustring option hermes" where
  "string_as_str f index =
     lbind (string_get f index) (\<lambda>r. case r of
         None \<Rightarrow> lret None
       | Some sd \<Rightarrow>
           if sd_len sd = 0 then lret (Some [])
           else if sd_offset sd = 0 then lfail (ZeroOffsetWithLength index (sd_len sd))
           else
             lbind (llift (ok_or (checked_add64 (sd_offset sd) (unat (sd_len sd)))
                      (ArithmeticOverflow ''string_as_str end = sd.offset + sd.len''))) (\<lambda>e.
             if length (hf_buf f) < e
             then lfail (StringStorageEndExceedsBuffer index (sd_offset sd) (unat (sd_len sd))
                           (length (hf_buf f)))
             else
               let bytes = slice (hf_buf f) (sd_offset sd) (unat (sd_len sd)) in
               lret (Some (if sd_is_utf16 sd then from_utf16_lossy (u16_units bytes)
                           else from_utf8_lossy (map unat bytes)))))"

definition string_as_str_or_empty :: "HbcFile \<Rightarrow> u32 \<Rightarrow> ustring with_findings" where
  "string_as_str_or_empty f index =
     (case string_as_str f index of
        (Inr (Some s), ws) \<Rightarrow> (s, ws)
      | (_, ws) \<Rightarrow> ([], ws))"

section \<open>What \<open>string_get\<close> returns\<close>

lemma length_fill_kind: "length (fst (fill_kind n k st)) = length (fst st)"
  by (induction n k st rule: fill_kind.induct) (auto split: option.splits)

lemma length_kind_entries: "length (fst (kind_entries buf v t i n st)) = length (fst st)"
  by (induction buf v t i n st rule: kind_entries.induct)
    (auto split: option.splits prod.splits simp: length_fill_kind)

lemma length_kind_map: "parsed_ok f \<Longrightarrow> length (hf_string_kind_map f) = unat (hf_string_count f)"
  by (simp add: parsed_ok_def expand_string_kinds_def length_kind_entries)

lemma entry_in_table:
  assumes "i < n" "start + unat n * k \<le> len"
  shows "start + unat (i :: u32) * k + k \<le> len"
proof -
  have "Suc (unat i) * k \<le> unat n * k" using assms(1) by (intro mult_le_mono1) (simp add: word_less_nat_alt Suc_le_eq)
  then show ?thesis using assms(2) by simp
qed

lemma pair_read:
  assumes "off + 8 \<le> length buf"
  shows "read_pair buf off = Some (read_u32 buf off, read_u32 buf (off + 4))"
  using assms by (simp add: read_pair_def get_range_Some read_u32_in)

text \<open>The offset and length an entry stands for, if it stands for any.\<close>

definition string_source :: "HbcFile \<Rightarrow> SmallStringTableEntryV96Raw \<Rightarrow> (u32 \<times> u32) option" where
  "string_source f r =
     (if sst_str_length r = 255 then raw_overflow_string_table_entry_v96 f (sst_str_offset r)
      else Some (sst_str_offset r, sst_str_length r))"

definition byte_length :: "bool \<Rightarrow> u32 \<Rightarrow> nat" where
  "byte_length is_utf16 len = (if is_utf16 then unat len * 2 else unat len)"

lemma small_string_entry:
  assumes "string_tables_ok f" "index < hf_string_count f"
  shows "fst (hf_small_string_table f) + unat index * 4 + 4 \<le> length (hf_buf f)"
    and "raw_small_string_table_entry f index
      = Some (decode_small_string (slice (hf_buf f) (fst (hf_small_string_table f) + unat index * 4) 4))"
proof -
  have "fst (hf_small_string_table f) + unat (hf_string_count f) * 4 \<le> length (hf_buf f)"
    using assms(1) by (auto simp: string_tables_ok_def)
  from entry_in_table [OF assms(2) this]
  show le: "fst (hf_small_string_table f) + unat index * 4 + 4 \<le> length (hf_buf f)" .
  have "snd (hf_small_string_table f) \<noteq> 0"
    using assms by (auto simp: string_tables_ok_def word_less_nat_alt)
  then show "raw_small_string_table_entry f index
      = Some (decode_small_string (slice (hf_buf f) (fst (hf_small_string_table f) + unat index * 4) 4))"
    using le assms(2) by (simp add: raw_small_string_table_entry_def Let_def get_range_Some flip: not_less)
qed

lemma overflow_string_entry:
  assumes "string_tables_ok f"
  shows "raw_overflow_string_table_entry_v96 f i =
      (if i < hf_overflow_string_count f then
         let off = fst (hf_overflow_string_table f) + unat i * 8
         in Some (read_u32 (hf_buf f) off, read_u32 (hf_buf f) (off + 4)) else None)"
    and "i < hf_overflow_string_count f \<Longrightarrow>
      fst (hf_overflow_string_table f) + unat i * 8 + 8 \<le> length (hf_buf f)"
proof -
  have "fst (hf_overflow_string_table f) + unat (hf_overflow_string_count f) * 8 \<le> length (hf_buf f)"
    using assms by (auto simp: string_tables_ok_def)
  then show le: "i < hf_overflow_string_count f \<Longrightarrow>
      fst (hf_overflow_string_table f) + unat i * 8 + 8 \<le> length (hf_buf f)"
    using entry_in_table by blast
  have "i < hf_overflow_string_count f \<Longrightarrow> snd (hf_overflow_string_table f) \<noteq> 0"
    using assms by (auto simp: string_tables_ok_def word_less_nat_alt)
  then show "raw_overflow_string_table_entry_v96 f i =
      (if i < hf_overflow_string_count f then
         let off = fst (hf_overflow_string_table f) + unat i * 8
         in Some (read_u32 (hf_buf f) off, read_u32 (hf_buf f) (off + 4)) else None)"
    using le by (auto simp: raw_overflow_string_table_entry_v96_def Let_def pair_read simp flip: not_less)
qed

lemma string_get_entry:
  assumes "parsed_ok f" "length (hf_buf f) < 2 ^ 63" "index < hf_string_count f"
    "raw_small_string_table_entry f index = Some r"
  defines "kind \<equiv> hf_string_kind_map f ! unat index" and "storage_end \<equiv> span_end (hf_string_storage f)"
  shows "string_get f index =
    (case string_source f r of
       None \<Rightarrow> (Inl (OverflowIndexOutOfRange index (hf_overflow_string_count f)),
                [F_OverflowIndexOutOfRange index (hf_overflow_string_count f)])
     | Some (off, len) \<Rightarrow>
         let a = fst (hf_string_storage f) + unat off; n = byte_length (sst_is_utf16 r) len in
         (if len = 0
          then Inr (Some \<lparr>sd_offset = 0, sd_len = 0, sd_kind = kind, sd_is_utf16 = sst_is_utf16 r\<rparr>)
          else if storage_end < a + n then Inl (StringStorageEndExceedsBuffer index a n storage_end)
          else Inr (Some \<lparr>sd_offset = a, sd_len = of_nat n, sd_kind = kind, sd_is_utf16 = sst_is_utf16 r\<rparr>),
          []))"
proof -
  have st: "string_tables_ok f" using assms(1) by (simp add: parsed_ok_def)
  define entry where "entry = slice (hf_buf f) (fst (hf_small_string_table f) + unat index * 4) 4"
  have r: "r = decode_small_string entry"
    using small_string_entry(2) [OF st assms(3)] assms(4) by (simp add: entry_def)
  have kind: "get_at (hf_string_kind_map f) (unat index) = Some kind"
    using assms(3) length_kind_map [OF assms(1)] by (simp add: get_at_def kind_def word_less_nat_alt)
  have start: "fst (hf_string_storage f) < 2 ^ 63"
    using st assms(2) by (auto simp: string_tables_ok_def)
  have add: "checked_add64 (fst (hf_string_storage f)) (unat (o1 :: u32)) = Some (fst (hf_string_storage f) + unat o1)"
    "checked_mul64 (unat (l :: u32)) 2 = Some (unat l * 2)"
    "checked_add64 (fst (hf_string_storage f) + unat o1) (byte_length u l)
      = Some (fst (hf_string_storage f) + unat o1 + byte_length u l)" for o1 l u
    using start unat_u32 [of o1] unat_u32 [of l]
    by (simp_all add: checked_add64_def checked_mul64_def u64_max_def byte_length_def)
  have small: "unat (if u then l * 2 else l) = byte_length u (l :: u32)"
    if "l = read_bitfield entry 24 8" for u l
  proof -
    have "unat l < 2 ^ 8" unfolding that by (rule read_bitfield_bound) simp
    then have "unat (l * 2) = unat l * 2" using unat_mult_lem [of l 2] by simp
    then show ?thesis by (simp add: byte_length_def)
  qed
  have len: "(if u then word_of_nat (byte_length u l) else l) = word_of_nat (byte_length u l)" for u and l :: u32
    by (simp add: byte_length_def)
  note le = small_string_entry(1) [OF st assms(3)]
  note ov = overflow_string_entry [OF st]
  let ?o = "read_bitfield entry 1 23" and ?l = "read_bitfield entry 24 8"
    and ?u = "read_bitfield entry 0 1 \<noteq> 0"
  have route: "route_string f index ?o ?l = (case string_source f r of
       None \<Rightarrow> (Inl (OverflowIndexOutOfRange index (hf_overflow_string_count f)),
                [F_OverflowIndexOutOfRange index (hf_overflow_string_count f)])
     | Some (off, len) \<Rightarrow> lret (?l = 255, off, len))"
    using ov(2) [of ?o]
    by (auto simp: route_string_def string_source_def r decode_small_string_def ov(1) Let_def not_less
        dest: leD)
  have extent: "string_extent f (?l = 255) ?u off len
      = Inr (fst (hf_string_storage f) + unat off, byte_length ?u len)"
    if "string_source f r = Some (off, len)" for off len
    using that small [of len ?u]
    by (cases "?l = 255")
      (auto simp: string_extent_def add string_source_def r decode_small_string_def byte_length_def)
  have get: "string_get f index =
     lbind (route_string f index ?o ?l) (\<lambda>(overflow_routed, str_offset, str_length).
     lbind (llift (string_extent f overflow_routed ?u str_offset str_length)) (\<lambda>(abs_offset, byte_len).
     lbind (llift (ok_or (checked_add64 abs_offset byte_len)
              (ArithmeticOverflow ''string_get abs_end = abs_offset + byte_len_usize''))) (\<lambda>abs_end.
     if str_length = 0
     then lret (Some \<lparr>sd_offset = 0, sd_len = 0, sd_kind = kind, sd_is_utf16 = ?u\<rparr>)
     else if storage_end < abs_end
     then lfail (StringStorageEndExceedsBuffer index abs_offset byte_len storage_end)
     else lret (Some \<lparr>sd_offset = abs_offset, sd_len = (if ?u then of_nat byte_len else str_length),
                      sd_kind = kind, sd_is_utf16 = ?u\<rparr>))))"
    unfolding string_get_def kind option.case Let_def entry_def [symmetric] storage_end_def
    using le [THEN leD] assms(3) by (simp flip: not_less)
  show ?thesis
  proof (cases "string_source f r")
    case None
    show ?thesis unfolding get route None option.case lbind_simps by simp
  next
    case (Some p)
    then obtain off len where p: "string_source f r = Some (off, len)" by (cases p) auto
    have u: "?u = sst_is_utf16 r" by (simp add: r decode_small_string_def)
    show ?thesis
      unfolding get route p option.case prod.case lbind_lret extent [OF p] lbind_llift add ok_or_simps Let_def
      unfolding len u by (simp add: lret_def lfail_def)
  qed
qed

text \<open>
  C37. What \<open>string_get\<close> returns on a parsed file. An index outside the table gives nothing.
  Otherwise the entry of the small table decides: a sentinel length routes to the overflow
  table, and fails with one recorded finding when the overflow index is out of range; an empty
  string is returned as such; a string that ends behind the string storage is refused; any
  other is returned with its absolute offset, its length in bytes and its expanded kind. The
  bounds and overflow errors of the code's remaining guards do not occur.
\<close>

theorem string_get_spec:
  assumes "fst (parse_inner guard buf ih) = Inr f" "length buf < 2 ^ 63"
  shows "string_get f index =
    (case raw_small_string_table_entry f index of
       None \<Rightarrow> (Inr None, [])
     | Some r \<Rightarrow>
         let kind = hf_string_kind_map f ! unat index; storage_end = span_end (hf_string_storage f) in
         (case string_source f r of
            None \<Rightarrow> (Inl (OverflowIndexOutOfRange index (hf_overflow_string_count f)),
                     [F_OverflowIndexOutOfRange index (hf_overflow_string_count f)])
          | Some (off, len) \<Rightarrow>
              let a = fst (hf_string_storage f) + unat off; n = byte_length (sst_is_utf16 r) len in
              (if len = 0
               then Inr (Some \<lparr>sd_offset = 0, sd_len = 0, sd_kind = kind, sd_is_utf16 = sst_is_utf16 r\<rparr>)
               else if storage_end < a + n then Inl (StringStorageEndExceedsBuffer index a n storage_end)
               else Inr (Some \<lparr>sd_offset = a, sd_len = of_nat n, sd_kind = kind,
                               sd_is_utf16 = sst_is_utf16 r\<rparr>),
               [])))"
proof (cases "index < hf_string_count f")
  case True
  have ok: "parsed_ok f" "hf_buf f = buf" using parse_inner_parsed_ok [OF assms(1)] by simp_all
  then have st: "string_tables_ok f" by (simp add: parsed_ok_def)
  have "length (hf_buf f) < 2 ^ 63" using assms(2) ok(2) by simp
  from string_get_entry [OF ok(1) this True small_string_entry(2) [OF st True]] show ?thesis
    unfolding small_string_entry(2) [OF st True] option.case Let_def .
next
  case False
  then show ?thesis
    by (simp add: string_get_def raw_small_string_table_entry_def lret_def not_less)
qed

section \<open>Text\<close>

lemma string_get_extent:
  assumes "parsed_ok f" "length (hf_buf f) < 2 ^ 63" "string_get f index = (Inr (Some sd), ws)"
  shows "ws = [] \<and> (sd_len sd = 0 \<and> sd_offset sd = 0
    \<or> 128 \<le> sd_offset sd \<and> sd_offset sd + unat (sd_len sd) \<le> span_end (hf_string_storage f))"
proof -
  have st: "string_tables_ok f" using assms(1) by (simp add: parsed_ok_def)
  have idx: "index < hf_string_count f"
    using assms(3) by (auto simp: string_get_def lret_def not_less split: if_splits)
  have "128 \<le> fst (hf_string_storage f)" using st by (auto simp: string_tables_ok_def)
  moreover have "snd (hf_string_storage f) < 2 ^ 32"
    using st unat_u32 by (auto simp: string_tables_ok_def)
  moreover have "unat (word_of_nat n :: u32) = n" if "n < 2 ^ 32" for n
    using that by (simp add: unsigned_of_nat take_bit_nat_eq_self)
  ultimately show ?thesis
    using assms(3) string_get_entry [OF assms(1,2) idx small_string_entry(2) [OF st idx]]
    by (auto simp: Let_def not_less split: option.splits if_splits)
qed

definition string_text :: "HbcFile \<Rightarrow> StringData \<Rightarrow> ustring" where
  "string_text f sd =
     (let bytes = slice (hf_buf f) (sd_offset sd) (unat (sd_len sd)) in
      if sd_is_utf16 sd then from_utf16_lossy (u16_units bytes) else from_utf8_lossy (map unat bytes))"

lemma string_as_str_text:
  assumes "parsed_ok f" "length (hf_buf f) < 2 ^ 63" "string_get f index = (Inr (Some sd), ws)"
  shows "string_as_str f index = (Inr (Some (string_text f sd)), [])"
proof -
  note ext = string_get_extent [OF assms]
  show ?thesis
  proof (cases "sd_len sd = 0")
    case True
    have empty: "from_utf8_lossy [] = []" by (subst from_utf8_lossy.simps) simp
    show ?thesis
      using True ext by (simp add: string_as_str_def assms(3) string_text_def lret_def empty)
  next
    case False
    then have e: "128 \<le> sd_offset sd" "sd_offset sd + unat (sd_len sd) \<le> span_end (hf_string_storage f)"
      using ext by auto
    moreover have "span_end (hf_string_storage f) \<le> length (hf_buf f)"
      using assms(1) by (auto simp: parsed_ok_def string_tables_ok_def)
    ultimately have "checked_add64 (sd_offset sd) (unat (sd_len sd)) = Some (sd_offset sd + unat (sd_len sd))"
      "\<not> length (hf_buf f) < sd_offset sd + unat (sd_len sd)" "sd_offset sd \<noteq> 0"
      using assms(2) by (simp_all add: checked_add64_def u64_max_def)
    then show ?thesis
      using False ext by (simp add: string_as_str_def assms(3) string_text_def lret_def Let_def)
  qed
qed

text \<open>The errors of \<open>string_as_str\<close> are those of \<open>string_get\<close>.\<close>

lemma string_as_str_lift:
  assumes "parsed_ok f" "length (hf_buf f) < 2 ^ 63"
  shows "string_as_str f index =
    (case string_get f index of
       (Inl e, ws) \<Rightarrow> (Inl e, ws)
     | (Inr None, ws) \<Rightarrow> (Inr None, ws)
     | (Inr (Some sd), ws) \<Rightarrow> (Inr (Some (string_text f sd)), ws))"
proof (cases "string_get f index")
  case (Pair r ws)
  show ?thesis
  proof (cases r)
    case (Inr o1)
    show ?thesis
    proof (cases o1)
      case (Some sd)
      then have get: "string_get f index = (Inr (Some sd), ws)" using Inr Pair by simp
      show ?thesis
        using string_as_str_text [OF assms get] string_get_extent [OF assms get] by (simp add: get)
    qed (simp add: string_as_str_def lret_def Pair Inr)
  qed (simp add: string_as_str_def Pair)
qed

section \<open>Encoded text is read back\<close>

definition is_scalar :: "nat \<Rightarrow> bool" where
  "is_scalar c \<longleftrightarrow> c < 0xD800 \<or> (0xDFFF < c \<and> c < 0x110000)"

definition utf16_encode :: "nat \<Rightarrow> nat list" where
  "utf16_encode c =
     (if c < 0x10000 then [c]
      else [0xD800 + (c - 0x10000) div 0x400, 0xDC00 + (c - 0x10000) mod 0x400])"

definition utf8_encode :: "nat \<Rightarrow> nat list" where
  "utf8_encode c =
     (if c < 0x80 then [c]
      else if c < 0x800 then [0xC0 + c div 0x40, 0x80 + c mod 0x40]
      else if c < 0x10000 then [0xE0 + c div 0x1000, 0x80 + c div 0x40 mod 0x40, 0x80 + c mod 0x40]
      else [0xF0 + c div 0x40000, 0x80 + c div 0x1000 mod 0x40, 0x80 + c div 0x40 mod 0x40,
            0x80 + c mod 0x40])"

lemma utf16_decode_encode:
  "list_all is_scalar cs \<Longrightarrow> from_utf16_lossy (concat (map utf16_encode cs)) = cs"
proof (induction cs)
  case (Cons c cs)
  show ?case
  proof (cases "c < 0x10000")
    case True
    with Cons show ?thesis by (auto simp: utf16_encode_def is_scalar_def)
  next
    case False
    define d where "d = c - 0x10000"
    have d: "c = 0x10000 + d" "d < 0x100000" using False Cons.prems by (auto simp: d_def is_scalar_def)
    have hi: "d div 0x400 < 0x400" using d(2) by (simp add: div_less_iff_less_mult)
    have lo: "d mod 0x400 < 0x400" by simp
    have "0x10000 + 0x400 * ((0xD800 + d div 0x400) mod 0x400) + (0xDC00 + d mod 0x400) mod 0x400 = c"
    proof -
      have "(0xD800 + d div 0x400) mod 0x400 = d div 0x400"
        using hi mod_less [OF hi] by (simp add: mod_add_eq [of "0xD800" "0x400", symmetric])
      moreover have "(0xDC00 + d mod 0x400) mod 0x400 = d mod 0x400"
        by (simp add: mod_add_eq [of "0xDC00" "0x400", symmetric])
      ultimately show ?thesis using mult_div_mod_eq [of "0x400" d] by (simp add: d(1))
    qed
    moreover have "concat (map utf16_encode (c # cs))
        = (0xD800 + d div 0x400) # (0xDC00 + d mod 0x400) # concat (map utf16_encode cs)"
      using d by (simp add: utf16_encode_def)
    ultimately show ?thesis
      using Cons hi lo by (simp add: not_less)
  qed
qed simp

lemma units_of_bytes:
  "\<forall>u \<in> set us. u < 0x10000 \<Longrightarrow>
    u16_units (concat (map (\<lambda>u. [of_nat u, of_nat (u div 256)]) us)) = us"
proof (induction us)
  case (Cons u us)
  then have "u div 256 < 256" by (simp add: div_less_iff_less_mult)
  then have "u mod 256 + 256 * (u div 256 mod 256) = u" by simp
  then show ?case using Cons by (simp add: unsigned_of_nat take_bit_eq_mod)
qed simp

lemma byte_or_0_Cons [simp]:
  "byte_or_0 (b # bs) 0 = b" "byte_or_0 (b # bs) (Suc i) = byte_or_0 bs i"
  by (simp_all add: byte_or_0_def)

lemma byte_or_0_numeral [simp]:
  "byte_or_0 (b # bs) (numeral k) = byte_or_0 bs (pred_numeral k)"
  by (simp add: numeral_eq_Suc)

lemma byte_or_0_1 [simp]: "byte_or_0 (b # bs) 1 = byte_or_0 bs 0"
  by (simp add: byte_or_0_def)

lemma lead_digits:
  "a < 0x20 \<Longrightarrow> (0xC0 + a) mod 0x20 = (a :: nat)" "a < 0x10 \<Longrightarrow> (0xE0 + a) mod 0x10 = a"
  "a < 8 \<Longrightarrow> (0xF0 + a) mod 8 = a" "a < 0x40 \<Longrightarrow> (0x80 + a) mod 0x40 = a"
  using mod_mult_self3 [of 6 "0x20" a] mod_mult_self3 [of 14 "0x10" a] mod_mult_self3 [of 30 8 a]
    mod_mult_self3 [of 2 "0x40" a]
  by simp_all

lemma utf8_next_encode:
  assumes "is_scalar c"
  shows "utf8_next (utf8_encode c @ bs) = (Some c, length (utf8_encode c))"
proof -
  consider "c < 0x80" | "0x80 \<le> c" "c < 0x800" | "0x800 \<le> c" "c < 0x10000" | "0x10000 \<le> c"
    by linarith
  then show ?thesis
  proof cases
    case 1
    then show ?thesis by (simp add: utf8_encode_def utf8_next_def)
  next
    case 2
    define a b where "a = c div 0x40" "b = c mod 0x40"
    have c: "c = 0x40 * a + b" "b < 0x40" by (simp_all add: a_b_def)
    with 2 have a: "2 \<le> a" "a < 0x20" by linarith+
    have enc: "utf8_encode c = [0xC0 + a, 0x80 + b]" using 2 by (simp add: utf8_encode_def a_b_def)
    have "a * 0x40 + b = c" using c(1) by simp
    then show ?thesis
      unfolding enc utf8_next_def Let_def using a c(2) by (simp add: is_cont_def lead_digits)
  next
    case 3
    define a b d where abd: "a = c div 0x1000" "b = c div 0x40 mod 0x40" "d = c mod 0x40"
    have "c div 0x1000 = c div 0x40 div 0x40" by (simp add: div_mult2_eq [symmetric])
    then have "c div 0x40 = 0x40 * a + b" by (simp add: abd)
    moreover have "0x40 * (c div 0x40) + d = c" by (simp add: abd)
    ultimately have c: "c = 0x1000 * a + 0x40 * b + d" by linarith
    have lt: "b < 0x40" "d < 0x40" by (simp_all add: abd)
    note c = c lt
    with 3 have a: "a < 0x10" "a = 0 \<Longrightarrow> 0x20 \<le> b" by linarith+
    have ed: "a = 0xD \<Longrightarrow> b < 0x20" using assms c by (simp add: is_scalar_def)
    have enc: "utf8_encode c = [0xE0 + a, 0x80 + b, 0x80 + d]" using 3 by (simp add: utf8_encode_def abd)
    have "second_ok (0xE0 + a) (0x80 + b)"
      using a ed c(2) by (auto simp: second_ok_def is_cont_def)
    moreover have "a * 0x1000 + b * 0x40 + d = c" using c(1) by simp
    ultimately show ?thesis
      unfolding enc utf8_next_def Let_def using a(1) c(2,3) by (simp add: is_cont_def lead_digits)
  next
    case 4
    define a b d e where abd: "a = c div 0x40000" "b = c div 0x1000 mod 0x40" "d = c div 0x40 mod 0x40"
      "e = c mod 0x40"
    have "c div 0x40000 = c div 0x1000 div 0x40" "c div 0x1000 = c div 0x40 div 0x40"
      by (simp_all add: div_mult2_eq [symmetric])
    then have "c div 0x1000 = 0x40 * a + b" "c div 0x40 = 0x40 * (c div 0x1000) + d"
      by (simp_all add: abd)
    moreover have "0x40 * (c div 0x40) + e = c" by (simp add: abd)
    ultimately have c: "c = 0x40000 * a + 0x1000 * b + 0x40 * d + e" by linarith
    have lt: "b < 0x40" "d < 0x40" "e < 0x40" by (simp_all add: abd)
    note c = c lt
    have "c < 0x110000" using assms 4 by (auto simp: is_scalar_def)
    with 4 c have a: "a < 5" "a = 0 \<Longrightarrow> 0x10 \<le> b" "a = 4 \<Longrightarrow> b < 0x10" by linarith+
    have enc: "utf8_encode c = [0xF0 + a, 0x80 + b, 0x80 + d, 0x80 + e]"
      using 4 by (simp add: utf8_encode_def abd)
    have "second_ok (0xF0 + a) (0x80 + b)"
      using a c(2) by (auto simp: second_ok_def is_cont_def)
    moreover have "a * 0x40000 + b * 0x1000 + d * 0x40 + e = c" using c(1) by simp
    ultimately show ?thesis
      unfolding enc utf8_next_def Let_def using a(1) c(2-4) by (simp add: is_cont_def lead_digits)
  qed
qed

lemma utf8_decode_encode:
  "list_all is_scalar cs \<Longrightarrow> from_utf8_lossy (concat (map utf8_encode cs)) = cs"
proof (induction cs)
  case (Cons c cs)
  have "utf8_encode c \<noteq> []" by (simp add: utf8_encode_def)
  then show ?case
    using Cons utf8_next_encode [of c "concat (map utf8_encode cs)"]
    by (subst from_utf8_lossy.simps) simp
qed (simp add: from_utf8_lossy.simps)

definition text_bytes :: "bool \<Rightarrow> nat list \<Rightarrow> u8 list" where
  "text_bytes is_utf16 cs =
     (if is_utf16 then concat (map (\<lambda>u. [of_nat u, of_nat (u div 256)]) (concat (map utf16_encode cs)))
      else map of_nat (concat (map utf8_encode cs)))"

lemma utf16_encode_units: "is_scalar c \<Longrightarrow> u \<in> set (utf16_encode c) \<Longrightarrow> u < 0x10000"
proof -
  assume c: "is_scalar c" and u: "u \<in> set (utf16_encode c)"
  show "u < 0x10000"
  proof (cases "c < 0x10000")
    case False
    then have "c - 0x10000 < 0x400 * 0x400" using c by (auto simp: is_scalar_def)
    then have "(c - 0x10000) div 0x400 < 0x400" by (simp add: div_less_iff_less_mult)
    moreover have "(c - 0x10000) mod 0x400 < 0x400" by simp
    ultimately have "0xD800 + (c - 0x10000) div 0x400 < 0x10000" "0xDC00 + (c - 0x10000) mod 0x400 < 0x10000"
      by linarith+
    then show ?thesis using u False by (auto simp: utf16_encode_def)
  qed (use u in \<open>simp add: utf16_encode_def\<close>)
qed

lemma utf8_encode_bytes: "is_scalar c \<Longrightarrow> b \<in> set (utf8_encode c) \<Longrightarrow> b < 0x100"
proof -
  assume c: "is_scalar c" and b: "b \<in> set (utf8_encode c)"
  have "c < 0x110000" using c by (auto simp: is_scalar_def)
  then have "c div 0x40000 < 5" by (simp add: div_less_iff_less_mult)
  moreover have "c < 0x800 \<Longrightarrow> c div 0x40 < 0x20" "c < 0x10000 \<Longrightarrow> c div 0x1000 < 0x10"
    by (simp_all add: div_less_iff_less_mult)
  moreover have "n mod 0x40 < 0x40" for n :: nat by simp
  note this [of c] this [of "c div 0x40"] this [of "c div 0x1000"]
  ultimately show "b < 0x100" using b by (auto simp: utf8_encode_def split: if_splits)
qed

lemma decode_text_bytes:
  assumes "list_all is_scalar cs"
  shows "(if is_utf16 then from_utf16_lossy (u16_units (text_bytes is_utf16 cs))
    else from_utf8_lossy (map unat (text_bytes is_utf16 cs))) = cs"
proof (cases is_utf16)
  case True
  have "\<forall>u \<in> set (concat (map utf16_encode cs)). u < 0x10000"
    using assms utf16_encode_units by (auto simp: list_all_iff)
  from units_of_bytes [OF this] show ?thesis
    using True utf16_decode_encode [OF assms] by (simp add: text_bytes_def)
next
  case False
  have "map unat (map (of_nat :: nat \<Rightarrow> u8) bs) = bs" if "\<forall>b \<in> set bs. b < 0x100" for bs
    using that by (induction bs) (auto simp: unsigned_of_nat take_bit_eq_mod)
  moreover have "\<forall>b \<in> set (concat (map utf8_encode cs)). b < 0x100"
    using assms utf8_encode_bytes by (auto simp: list_all_iff)
  ultimately show ?thesis
    using False utf8_decode_encode [OF assms] by (simp only: text_bytes_def if_False)
qed

text \<open>
  C38. Text stored in a file is read back: when the bytes of a string are the UTF-8 (or, for a
  flagged entry, UTF-16LE) encoding of some scalar values, \<open>string_as_str\<close> and
  \<open>string_as_str_or_empty\<close> return exactly these, without a finding.
\<close>

theorem string_as_str_reads_text:
  assumes "fst (parse_inner guard buf ih) = Inr f" "length buf < 2 ^ 63"
    "string_get f index = (Inr (Some sd), ws)" "list_all is_scalar cs"
    "slice buf (sd_offset sd) (unat (sd_len sd)) = text_bytes (sd_is_utf16 sd) cs"
  shows "string_as_str f index = (Inr (Some cs), []) \<and> string_as_str_or_empty f index = (cs, [])"
proof -
  have ok: "parsed_ok f" "hf_buf f = buf" using parse_inner_parsed_ok [OF assms(1)] by simp_all
  have "string_text f sd = cs"
    using decode_text_bytes [OF assms(4), of "sd_is_utf16 sd"] by (simp add: string_text_def Let_def ok(2) assms(5))
  moreover have "length (hf_buf f) < 2 ^ 63" using assms(2) ok(2) by simp
  ultimately show ?thesis
    using string_as_str_text [OF ok(1) _ assms(3)] by (simp add: string_as_str_or_empty_def)
qed

text \<open>
  C39. The errors of \<open>string_as_str\<close> on a parsed file: an overflow index out of range, recorded
  as a finding with the same data, or a string that ends behind the string storage. The guards
  against a zero offset, an arithmetic overflow and a string behind the buffer never fire.
\<close>

theorem string_as_str_errors:
  assumes "fst (parse_inner guard buf ih) = Inr f" "length buf < 2 ^ 63"
    "string_as_str f index = (Inl e, ws)"
  shows "e = OverflowIndexOutOfRange index (hf_overflow_string_count f)
      \<and> ws = [F_OverflowIndexOutOfRange index (hf_overflow_string_count f)]
    \<or> (\<exists>a n. e = StringStorageEndExceedsBuffer index a n (span_end (hf_string_storage f))
         \<and> span_end (hf_string_storage f) < a + n \<and> ws = [])"
proof -
  have ok: "parsed_ok f" "length (hf_buf f) < 2 ^ 63"
    using parse_inner_parsed_ok [OF assms(1)] assms(2) by simp_all
  then have st: "string_tables_ok f" by (simp add: parsed_ok_def)
  have get: "string_get f index = (Inl e, ws)"
    using assms(3) string_as_str_lift [OF ok, of index]
    by (auto split: prod.splits sum.splits option.splits)
  then have idx: "index < hf_string_count f"
    by (auto simp: string_get_def lret_def not_less split: if_splits)
  show ?thesis
    using get string_get_entry [OF ok idx small_string_entry(2) [OF st idx]]
    by (auto simp: Let_def split: option.splits if_splits)
qed

end
