(* ===== verification/Hermes_Oracle.thy ===== *)
theory Hermes_Oracle
  imports Hermes_Strings
begin

text \<open>
  The independent oracle of \<open>parser_oracle.rs\<close>, a second decoder of the header, the string
  sections and the string table with its own constants, guards, cursor and bit arithmetic, and
  the projection \<open>HbcFile::to_shape\<close> of the production parser to the oracle's result. Its count
  guard is an instance of the contract the parser expects from its own guard.
\<close>

section \<open>Data\<close>

record HbcParseShape =
  ps_magic_lo :: u32
  ps_magic_hi :: u32
  ps_version :: u32
  ps_function_count :: u32
  ps_string_count :: u32
  ps_string_storage_size :: u32
  ps_function_headers_offset :: u32
  ps_function_headers_size :: u64
  ps_string_table_entries :: "u8 list list"

datatype (plugins only: code size) HbcParseOracleError =
    OE_HeaderTooSmall usize
  | OE_InvalidMagic "u8 list"
  | OE_UnsupportedVersion u32
  | OE_OverflowCountExceedsTotal u32 u32
  | OE_SectionOutOfBounds string u64 u64 usize
  | OE_ArithmeticOverflow string
  | OE_CountExceedsBounds string u32 usize usize

type_synonym 'a oracle_result = "HbcParseOracleError + 'a"

definition ORACLE_HBC_MAGIC :: nat where
  "ORACLE_HBC_MAGIC = 0x1F1903C103BC1FC6"

definition HBC_HEADER_SIZE :: usize where
  "HBC_HEADER_SIZE = 128"

definition HBC_MIN_VERSION :: u32 where
  "HBC_MIN_VERSION = 40"

definition HBC_MAX_VERSION :: u32 where
  "HBC_MAX_VERSION = 100"

definition read_u32_oob0 :: "u8 list \<Rightarrow> usize \<Rightarrow> u32" where
  "read_u32_oob0 buf offset =
     (case Option.bind (get_from buf offset) (first_chunk 4) of
        None \<Rightarrow> 0 | Some a \<Rightarrow> u32_from_le a)"

section \<open>Guards and sections\<close>

definition oracle_bound_count :: "u32 \<Rightarrow> usize \<Rightarrow> usize \<Rightarrow> string \<Rightarrow> usize oracle_result" where
  "oracle_bound_count count stride file_size what =
     ebind (ok_or (checked_mul64 (unat count) stride) (OE_ArithmeticOverflow what)) (\<lambda>total.
     if file_size < total then Inl (OE_CountExceedsBounds what count stride file_size)
     else Inr (unat count))"

text \<open>The cursor is passed and returned.\<close>

definition section_advance :: "u32 \<Rightarrow> u64 \<Rightarrow> usize \<Rightarrow> string \<Rightarrow> ((usize \<times> usize) \<times> u32) oracle_result" where
  "section_advance cursor n buf_len name =
     (if u32_max < n then Inl (OE_SectionOutOfBounds name (unat cursor) n buf_len)
      else
        let sz = (of_nat n :: u32); cur = unat cursor in
        if buf_len < cur + unat sz then Inl (OE_SectionOutOfBounds name cur (unat sz) buf_len)
        else
          let next_pos = sat_add64 cur (unat sz);
              aligned = clear_low2 (sat_add64 next_pos 3)
          in if u32_max < aligned then Inl (OE_ArithmeticOverflow name)
             else Inr ((cur, unat sz), of_nat aligned))"

record HbcHeaderFields =
  of_version :: u32
  of_function_count :: u32
  of_string_kind_count :: u32
  of_identifier_count :: u32
  of_string_count :: u32
  of_overflow_string_count :: u32
  of_string_storage_size :: u32
  of_func_header_size :: u32

definition extract_header_fields :: "u8 list \<Rightarrow> u32 \<Rightarrow> HbcHeaderFields" where
  "extract_header_fields buf version = \<lparr>
     of_version = version,
     of_function_count = read_u32_oob0 buf 40,
     of_string_kind_count = read_u32_oob0 buf 44,
     of_identifier_count = read_u32_oob0 buf 48,
     of_string_count = read_u32_oob0 buf 52,
     of_overflow_string_count = read_u32_oob0 buf 56,
     of_string_storage_size = read_u32_oob0 buf 60,
     of_func_header_size = (if 97 \<le> version then 12 else 16)\<rparr>"

text \<open>The six string sections: the small table, the overflow table and the storage are kept.\<close>

definition oracle_sections ::
  "u8 list \<Rightarrow> HbcHeaderFields \<Rightarrow> ((usize \<times> usize) \<times> (usize \<times> usize) \<times> (usize \<times> usize)) oracle_result" where
  "oracle_sections buf hdr =
     (let size_of = (\<lambda>count n what. ok_or (checked_mul64 (unat count) n) (OE_ArithmeticOverflow what)) in
     ebind (size_of (of_function_count hdr) (unat (of_func_header_size hdr)) ''function_headers_size'') (\<lambda>n.
     ebind (section_advance 128 n (length buf) ''FunctionHeaders'') (\<lambda>(_, cursor).
     ebind (size_of (of_string_kind_count hdr) 4 ''string_kinds_size'') (\<lambda>n.
     ebind (section_advance cursor n (length buf) ''StringKinds'') (\<lambda>(_, cursor).
     ebind (size_of (of_identifier_count hdr) 4 ''ident_hashes_size'') (\<lambda>n.
     ebind (section_advance cursor n (length buf) ''IdentifierHashes'') (\<lambda>(_, cursor).
     ebind (size_of (of_string_count hdr) 4 ''small_string_table_size'') (\<lambda>n.
     ebind (section_advance cursor n (length buf) ''SmallStringTable'') (\<lambda>(small, cursor).
     ebind (size_of (of_overflow_string_count hdr) 8 ''overflow_string_table_size'') (\<lambda>n.
     ebind (section_advance cursor n (length buf) ''OverflowStringTable'') (\<lambda>(overflow, cursor).
     ebind (section_advance cursor (unat (of_string_storage_size hdr)) (length buf) ''StringStorage'')
       (\<lambda>(storage, _).
     Inr (small, overflow, storage)))))))))))))"

section \<open>The string table\<close>

text \<open>The bytes of string \<open>i\<close>; an unresolvable string is empty.\<close>

definition oracle_entry_word :: "u8 list \<Rightarrow> usize \<Rightarrow> usize \<Rightarrow> u32 oracle_result" where
  "oracle_entry_word buf small_start i =
     ebind (ok_or (checked_mul64 i 4) (OE_ArithmeticOverflow ''small_string_table entry stride'')) (\<lambda>n.
     ebind (ok_or (checked_add64 small_start n)
              (OE_ArithmeticOverflow ''small_string_table entry offset'')) (\<lambda>entry_off.
     ebind (ok_or (checked_add64 entry_off 4) (OE_ArithmeticOverflow ''entry_end'')) (\<lambda>entry_end.
     Inr (u32_from_le (case get_range buf entry_off entry_end of
                         None \<Rightarrow> [0, 0, 0, 0] | Some entry_bytes \<Rightarrow> entry_bytes)))))"

definition oracle_overflow_entry :: "u8 list \<Rightarrow> usize \<Rightarrow> u32 \<Rightarrow> (u32 \<times> u32) oracle_result" where
  "oracle_overflow_entry buf overflow_start str_offset =
     ebind (ok_or (checked_mul64 (unat str_offset) 8) (OE_ArithmeticOverflow ''overflow_string stride''))
       (\<lambda>n.
     ebind (ok_or (checked_add64 overflow_start n) (OE_ArithmeticOverflow ''overflow_string off''))
       (\<lambda>ovf_off.
     ebind (ok_or (checked_add64 ovf_off 4) (OE_ArithmeticOverflow ''overflow_string length off''))
       (\<lambda>len_off.
     Inr (read_u32_oob0 buf ovf_off, read_u32_oob0 buf len_off))))"

definition oracle_string_bytes ::
  "u8 list \<Rightarrow> usize \<times> usize \<Rightarrow> bool \<Rightarrow> bool \<Rightarrow> u32 \<Rightarrow> u32 \<Rightarrow> u8 list oracle_result" where
  "oracle_string_bytes buf storage is_utf16 overflow_routed str_offset str_length =
     ebind (if is_utf16 then
              if overflow_routed
              then ok_or (checked_mul64 (unat str_length) 2)
                     (OE_ArithmeticOverflow ''string byte_len utf16 overflow'')
              else Inr (unat str_length * 2)
            else Inr (unat str_length)) (\<lambda>byte_len.
     ebind (ok_or (checked_add64 (fst storage) (unat str_offset))
              (OE_ArithmeticOverflow ''string abs_offset'')) (\<lambda>abs_off.
     ebind (ok_or (checked_add64 abs_off byte_len) (OE_ArithmeticOverflow ''string abs_end'')) (\<lambda>abs_end.
     if fst storage + snd storage < abs_end then Inr []
     else Inr (case get_range buf abs_off abs_end of None \<Rightarrow> [] | Some raw \<Rightarrow> raw))))"

definition oracle_string ::
  "u8 list \<Rightarrow> HbcHeaderFields \<Rightarrow> (usize \<times> usize) \<times> (usize \<times> usize) \<times> (usize \<times> usize) \<Rightarrow> usize \<Rightarrow>
     u8 list oracle_result" where
  "oracle_string buf hdr spans i =
     (case spans of (small, overflow, storage) \<Rightarrow>
      ebind (oracle_entry_word buf (fst small) i) (\<lambda>entry_u32.
      let is_utf16 = (entry_u32 AND 1 \<noteq> 0);
          str_offset = drop_bit 1 entry_u32 AND 0x7FFFFF;
          str_length = drop_bit 24 entry_u32 AND 0xFF
      in if str_length = 255 then
           if str_offset < of_overflow_string_count hdr then
             ebind (oracle_overflow_entry buf (fst overflow) str_offset) (\<lambda>(str_offset, str_length).
             oracle_string_bytes buf storage is_utf16 True str_offset str_length)
           else Inr []
         else oracle_string_bytes buf storage is_utf16 False str_offset str_length))"

fun oracle_strings ::
  "u8 list \<Rightarrow> HbcHeaderFields \<Rightarrow> (usize \<times> usize) \<times> (usize \<times> usize) \<times> (usize \<times> usize) \<Rightarrow> usize list \<Rightarrow>
     u8 list list oracle_result" where
  "oracle_strings buf hdr spans [] = Inr []"
| "oracle_strings buf hdr spans (i # ks) =
     ebind (oracle_string buf hdr spans i) (\<lambda>s.
     ebind (oracle_strings buf hdr spans ks) (\<lambda>ss. Inr (s # ss)))"

section \<open>The oracle\<close>

definition naive_parse_hbc :: "u8 list \<Rightarrow> HbcParseShape oracle_result" where
  "naive_parse_hbc buf =
     (if length buf < HBC_HEADER_SIZE then Inl (OE_HeaderTooSmall (length buf))
      else
        let magic_bytes = take 8 buf in
        if le_nat magic_bytes \<noteq> ORACLE_HBC_MAGIC then Inl (OE_InvalidMagic magic_bytes)
        else
          let version = read_u32_oob0 buf 8 in
          if \<not> (HBC_MIN_VERSION \<le> version \<and> version \<le> HBC_MAX_VERSION)
          then Inl (OE_UnsupportedVersion version)
          else
            let hdr = extract_header_fields buf version in
            if of_string_count hdr < of_overflow_string_count hdr
            then Inl (OE_OverflowCountExceedsTotal (of_overflow_string_count hdr) (of_string_count hdr))
            else
              ebind (oracle_bound_count (of_function_count hdr) (unat (of_func_header_size hdr)) (length buf)
                       ''function_headers'') (\<lambda>_.
              ebind (oracle_bound_count (of_string_count hdr) 4 (length buf) ''small_string_table'') (\<lambda>_.
              ebind (oracle_bound_count (of_overflow_string_count hdr) 8 (length buf)
                       ''overflow_string_table'') (\<lambda>_.
              ebind (oracle_sections buf hdr) (\<lambda>spans.
              ebind (oracle_strings buf hdr spans [0..<unat (of_string_count hdr)]) (\<lambda>entries.
              Inr \<lparr>ps_magic_lo = u32_from_le (take 4 magic_bytes),
                   ps_magic_hi = u32_from_le (drop 4 magic_bytes),
                   ps_version = version,
                   ps_function_count = of_function_count hdr,
                   ps_string_count = of_string_count hdr,
                   ps_string_storage_size = of_string_storage_size hdr,
                   ps_function_headers_offset = 128,
                   ps_function_headers_size =
                     sat_mul64 (unat (of_function_count hdr)) (unat (of_func_header_size hdr)),
                   ps_string_table_entries = entries\<rparr>))))))"

section \<open>The production parser's shape\<close>

definition shape_entry :: "HbcFile \<Rightarrow> u32 \<Rightarrow> u8 list with_findings" where
  "shape_entry f i =
     (case string_get f i of
        (Inr (Some sd), ws) \<Rightarrow>
          (case get_range (hf_buf f) (sd_offset sd) (sat_add64 (sd_offset sd) (unat (sd_len sd))) of
             None \<Rightarrow> [] | Some raw \<Rightarrow> raw, ws)
      | (_, ws) \<Rightarrow> ([], ws))"

definition to_shape :: "HbcFile \<Rightarrow> HbcParseShape with_findings" where
  "to_shape f =
     (let entries = map (shape_entry f) (map of_nat [0..<unat (hf_string_count f)]) in
      (\<lparr>ps_magic_lo = (case get_range (hf_buf f) 0 4 of None \<Rightarrow> 0 | Some b \<Rightarrow> u32_from_le b),
        ps_magic_hi = (case get_range (hf_buf f) 4 8 of None \<Rightarrow> 0 | Some b \<Rightarrow> u32_from_le b),
        ps_version = hf_version f,
        ps_function_count = hf_function_count f,
        ps_string_count = hf_string_count f,
        ps_string_storage_size = hf_string_storage_size f,
        ps_function_headers_offset = of_nat (fst (hf_func_headers f)),
        ps_function_headers_size = sat_mul64 (unat (hf_function_count f)) (unat (hf_func_header_size f)),
        ps_string_table_entries = map fst entries\<rparr>,
       concat (map snd entries)))"

section \<open>Bits of a little-endian word\<close>

lemma le_nat_bit:
  "bit (le_nat bs) i \<longleftrightarrow> bytes_bit bs i"
proof (induction bs arbitrary: i)
  case (Cons b bs)
  have "unat b < 2 ^ 8" using unat_u8 [of b] by simp
  have "take_bit 8 (le_nat (b # bs)) = unat b" "drop_bit 8 (le_nat (b # bs)) = le_nat bs"
    using \<open>unat b < 2 ^ 8\<close> by (simp_all add: take_bit_eq_mod drop_bit_eq_div)
  then have low: "i < 8 \<Longrightarrow> bit (le_nat (b # bs)) i \<longleftrightarrow> bit (unat b) i"
    and high: "bit (le_nat (b # bs)) (8 + j) \<longleftrightarrow> bit (le_nat bs) j" for j
    by (metis bit_take_bit_iff, metis bit_drop_bit_eq comp_apply)
  show ?case
  proof (cases "i < 8")
    case True
    then show ?thesis by (simp only: low) (simp add: bit_simps bytes_bit_def)
  next
    case False
    then obtain j where j: "i = 8 + j" by (metis le_add_diff_inverse not_less)
    have "(8 + j) div 8 = Suc (j div 8)" "(8 + j) mod 8 = j mod 8" by simp_all
    then show ?thesis using Cons [of j] unfolding j high by (simp add: bytes_bit_def)
  qed
qed (simp add: bytes_bit_def)

lemma u32_from_le_bit: "length bs \<le> 4 \<Longrightarrow> bit (u32_from_le bs) i \<longleftrightarrow> bytes_bit bs i"
  by (auto simp: u32_from_le_def bit_simps le_nat_bit bytes_bit_def dest: bit_imp_le_length)

lemma entry_fields:
  assumes "length e = 4"
  shows "u32_from_le e AND 1 \<noteq> 0 \<longleftrightarrow> read_bitfield e 0 1 \<noteq> 0"
    and "drop_bit 1 (u32_from_le e) AND 0x7FFFFF = read_bitfield e 1 23"
    and "drop_bit 24 (u32_from_le e) AND 0xFF = read_bitfield e 24 8"
proof -
  have m: "(0x7FFFFF :: u32) = mask 23" "(0xFF :: u32) = mask 8" "(1 :: u32) = mask 1"
    by (simp_all add: mask_eq_exp_minus_1)
  have "u32_from_le e AND 1 = read_bitfield e 0 1"
    unfolding m by (rule bit_word_eqI) (auto simp: bit_simps bits u32_from_le_bit assms)
  then show "u32_from_le e AND 1 \<noteq> 0 \<longleftrightarrow> read_bitfield e 0 1 \<noteq> 0" by simp
  show "drop_bit 1 (u32_from_le e) AND 0x7FFFFF = read_bitfield e 1 23"
    unfolding m by (rule bit_word_eqI) (auto simp: bit_simps bits u32_from_le_bit assms)
  show "drop_bit 24 (u32_from_le e) AND 0xFF = read_bitfield e 24 8"
    unfolding m by (rule bit_word_eqI) (auto simp: bit_simps bits u32_from_le_bit assms)
qed

section \<open>The oracle's sections\<close>

lemma read_u32_oob0_eq [simp]: "read_u32_oob0 = read_u32"
  by (intro ext) (simp add: read_u32_oob0_def read_u32_def)

lemma section_advance_section:
  "hbc_section len name n w = Inr (sp, w') \<Longrightarrow> section_advance (fst w) n len name = Inr (sp, fst w')"
  by (cases w) (auto simp: hbc_section_def section_advance_def Let_def split: if_splits)

lemma size_fits:
  "unat (k :: u32) \<le> 16 \<Longrightarrow> checked_mul64 (unat (n :: u32)) (unat k) = Some (unat n * unat k)"
  "checked_mul64 (unat (n :: u32)) 4 = Some (unat n * 4)"
  "checked_mul64 (unat (n :: u32)) 8 = Some (unat n * 8)"
proof -
  have n: "unat n < 2 ^ 32" by (rule unat_u32)
  show "checked_mul64 (unat n) 4 = Some (unat n * 4)" "checked_mul64 (unat n) 8 = Some (unat n * 8)"
    using n by (simp_all add: checked_mul64_def u64_max_def)
  assume "unat k \<le> 16"
  then have "unat n * unat k \<le> 2 ^ 32 * 16" using n by (intro mult_mono) auto
  then show "checked_mul64 (unat n) (unat k) = Some (unat n * unat k)"
    by (simp add: checked_mul64_def u64_max_def)
qed

text \<open>The header fields the oracle reads are those of an accepted header.\<close>

definition fields_agree :: "HbcHeaderFields \<Rightarrow> HbcHeader \<Rightarrow> bool" where
  "fields_agree hdr h \<longleftrightarrow> of_function_count hdr = hdr_function_count h
     \<and> of_string_kind_count hdr = hdr_string_kind_count h
     \<and> of_identifier_count hdr = hdr_identifier_count h
     \<and> of_string_count hdr = hdr_string_count h
     \<and> of_overflow_string_count hdr = hdr_overflow_string_count h
     \<and> of_string_storage_size hdr = hdr_string_storage_size h
     \<and> of_func_header_size hdr = hdr_func_header_size h"

lemma extracted_fields:
  assumes "fst (parse_hbc_header buf) = Inr h"
  shows "fields_agree (extract_header_fields buf (hdr_version h)) h"
    and "HBC_MIN_VERSION \<le> hdr_version h" "hdr_version h \<le> HBC_MAX_VERSION" "hdr_version h = read_u32 buf 8"
    "unat (hdr_func_header_size h) \<le> 16"
proof -
  note facts = parse_hbc_header_facts [OF assms]
  have v: "hdr_version h \<in> variant_versions h" and at: "header_at buf h" using facts by auto
  have "(97 \<le> hdr_version h \<longrightarrow> hdr_func_header_size h = 12)
      \<and> (\<not> 97 \<le> hdr_version h \<longrightarrow> hdr_func_header_size h = 16)"
    using v by (cases h) (auto simp: word_le_nat_alt)
  then show "fields_agree (extract_header_fields buf (hdr_version h)) h"
    using at by (simp add: fields_agree_def extract_header_fields_def header_at_def)
  show "HBC_MIN_VERSION \<le> hdr_version h" "hdr_version h \<le> HBC_MAX_VERSION" "hdr_version h = read_u32 buf 8"
    "unat (hdr_func_header_size h) \<le> 16"
    using v at by (cases h; auto simp: HBC_MIN_VERSION_def HBC_MAX_VERSION_def header_at_def word_le_nat_alt)+
qed

lemma oracle_sections_of:
  assumes "string_sections (length buf) h initial_walk = Inr (s, w)" "fields_agree hdr h"
    "unat (hdr_func_header_size h) \<le> 16"
  shows "oracle_sections buf hdr
    = Inr (sp_small_string_table s, sp_overflow_string_table s, sp_string_storage s)"
proof -
  let ?len = "length buf"
  obtain fh kinds ids small ovf sto w1 w2 w3 w4 w5 w6 where
    "hbc_section ?len ''FunctionHeaders''
       (unat (hdr_function_count h) * unat (hdr_func_header_size h)) (128, [(''Header'', 0, 128)])
       = Inr (fh, w1)"
    "hbc_section ?len ''StringKinds'' (unat (hdr_string_kind_count h) * 4) w1 = Inr (kinds, w2)"
    "hbc_section ?len ''IdentifierHashes'' (unat (hdr_identifier_count h) * 4) w2 = Inr (ids, w3)"
    "hbc_section ?len ''SmallStringTable'' (unat (hdr_string_count h) * 4) w3 = Inr (small, w4)"
    "hbc_section ?len ''OverflowStringTable'' (unat (hdr_overflow_string_count h) * 8) w4
       = Inr (ovf, w5)"
    "hbc_section ?len ''StringStorage'' (unat (hdr_string_storage_size h)) w5 = Inr (sto, w6)"
    "sp_small_string_table s = small" "sp_overflow_string_table s = ovf" "sp_string_storage s = sto"
    using assms(1)
    by (auto simp: string_sections_def wbind_Inr wret_Inr initial_walk_def)
  note steps = this(1-6) [THEN section_advance_section, unfolded fst_conv] and spans = this(7-9)
  show ?thesis
    using assms(2,3)
    by (simp add: oracle_sections_def fields_agree_def size_fits steps spans)
qed

section \<open>The oracle's string table\<close>

lemma oracle_bytes_of:
  assumes "fst storage + unat off + byte_length u len \<le> u64_max" "\<not> r \<Longrightarrow> unat len < 2 ^ 31"
  shows "oracle_string_bytes buf storage u r off len =
    Inr (if span_end storage < fst storage + unat off + byte_length u len then []
         else case get_range buf (fst storage + unat off) (fst storage + unat off + byte_length u len) of
           None \<Rightarrow> [] | Some raw \<Rightarrow> raw)"
proof -
  have "checked_mul64 (unat len) 2 = Some (unat len * 2)"
    using unat_u32 [of len] by (simp add: checked_mul64_def u64_max_def)
  then show ?thesis
    using assms by (cases u) (auto simp: oracle_string_bytes_def byte_length_def checked_add64_def)
qed

lemma shape_entry_eq:
  assumes "parsed_ok f" "length (hf_buf f) < 2 ^ 63" "i < hf_string_count f"
    "of_overflow_string_count hdr = hf_overflow_string_count f"
  shows "oracle_string (hf_buf f) hdr
      (hf_small_string_table f, hf_overflow_string_table f, hf_string_storage f) (unat i)
    = Inr (fst (shape_entry f i))"
proof -
  have st: "string_tables_ok f" using assms(1) by (simp add: parsed_ok_def)
  let ?b = "hf_buf f" and ?sto = "hf_string_storage f"
  define start where "start = fst (hf_small_string_table f) + unat i * 4"
  define e where "e = slice ?b start 4"
  have in_buf: "start + 4 \<le> length ?b"
    using small_string_entry(1) [OF st assms(3)] by (simp add: start_def)
  then have len: "length e = 4" by (simp add: e_def)
  have small: "unat (hf_string_count f) < 2 ^ 32" by (rule unat_u32)
  have word: "oracle_entry_word ?b (fst (hf_small_string_table f)) (unat i) = Inr (u32_from_le e)"
    using in_buf assms(2) small assms(3)
    by (simp add: oracle_entry_word_def size_fits(2) checked_add64_def u64_max_def start_def [symmetric]
        get_range_plus e_def)
  have stoz: "fst ?sto < 2 ^ 63" "snd ?sto < 2 ^ 32" "span_end ?sto \<le> length ?b"
    using st assms(2) unat_u32 by (auto simp: string_tables_ok_def)
  have bl: "byte_length u (l :: u32) < 2 ^ 33" for u l
    using unat_u32 [of l] by (simp add: byte_length_def)
  have max: "fst ?sto + unat (o1 :: u32) + byte_length u l \<le> u64_max" for o1 u l
    using stoz(1) unat_u32 [of o1] bl [of u l] by (simp add: u64_max_def)
  define r where "r = decode_small_string e"
  have raw: "raw_small_string_table_entry f i = Some r"
    using small_string_entry(2) [OF st assms(3)] by (simp add: r_def e_def start_def)
  have l8: "unat (read_bitfield e 24 8) < 2 ^ 31"
    using read_bitfield_bound [of 8 e 24] by simp
  let ?o = "read_bitfield e 1 23" and ?l = "read_bitfield e 24 8" and ?u = "read_bitfield e 0 1 \<noteq> 0"
  have str: "oracle_string ?b hdr (hf_small_string_table f, hf_overflow_string_table f, ?sto) (unat i) =
     (if ?l = 255 then
        if ?o < hf_overflow_string_count f then
          ebind (oracle_overflow_entry ?b (fst (hf_overflow_string_table f)) ?o) (\<lambda>(o1, l1).
          oracle_string_bytes ?b ?sto ?u True o1 l1)
        else Inr []
      else oracle_string_bytes ?b ?sto ?u False ?o ?l)"
    unfolding oracle_string_def prod.case word ebind_Inr Let_def entry_fields [OF len] assms(4) ..
  have r_fields: "sst_is_utf16 r = ?u" "sst_str_offset r = ?o" "sst_str_length r = ?l"
    by (simp_all add: r_def decode_small_string_def)
  have bytes: "oracle_string_bytes ?b ?sto u rr o1 l1 =
    Inr (if span_end ?sto < fst ?sto + unat o1 + byte_length u l1 then []
         else case get_range ?b (fst ?sto + unat o1) (fst ?sto + unat o1 + byte_length u l1) of
           None \<Rightarrow> [] | Some raw \<Rightarrow> raw)" if "\<not> rr \<Longrightarrow> unat l1 < 2 ^ 31" for u rr o1 l1
    by (rule oracle_bytes_of [OF max that])
  have bytes_ov: "oracle_string_bytes ?b ?sto u True o1 l1 =
    Inr (if span_end ?sto < fst ?sto + unat o1 + byte_length u l1 then []
         else case get_range ?b (fst ?sto + unat o1) (fst ?sto + unat o1 + byte_length u l1) of
           None \<Rightarrow> [] | Some raw \<Rightarrow> raw)" for u o1 l1
    by (rule bytes) simp
  have orc: "oracle_string ?b hdr (hf_small_string_table f, hf_overflow_string_table f, ?sto) (unat i)
      = (case string_source f r of None \<Rightarrow> Inr []
         | Some (off, len) \<Rightarrow>
             let a = fst ?sto + unat off; n = byte_length (sst_is_utf16 r) len in
             Inr (if span_end ?sto < a + n then []
                  else case get_range ?b a (a + n) of None \<Rightarrow> [] | Some raw \<Rightarrow> raw))"
  proof (cases "read_bitfield e 24 8 = 255")
    case True
    have ovf: "oracle_overflow_entry ?b (fst (hf_overflow_string_table f)) o1
        = Inr (let off = fst (hf_overflow_string_table f) + unat o1 * 8
               in (read_u32 ?b off, read_u32 ?b (off + 4)))" if "o1 < hf_overflow_string_count f" for o1
      using overflow_string_entry(2) [OF st that] assms(2)
      by (simp add: oracle_overflow_entry_def size_fits(3) checked_add64_def u64_max_def Let_def)
    show ?thesis
      using True unfolding str string_source_def r_fields overflow_string_entry(1) [OF st]
      by (simp add: ovf Let_def bytes_ov)
  next
    case False
    have bytes_own: "oracle_string_bytes ?b ?sto u False o1 ?l =
      Inr (if span_end ?sto < fst ?sto + unat o1 + byte_length u ?l then []
           else case get_range ?b (fst ?sto + unat o1) (fst ?sto + unat o1 + byte_length u ?l) of
             None \<Rightarrow> [] | Some raw \<Rightarrow> raw)" for u o1
      by (rule bytes) (rule l8)
    show ?thesis
      using False unfolding str string_source_def r_fields
      by (simp add: Let_def bytes_own)
  qed
  have take: "sat_add64 a (unat (of_nat n :: u32)) = a + n" if "a + n \<le> span_end ?sto" "fst ?sto \<le> a" for a n
  proof -
    have "n < 2 ^ 32" using that stoz(2) by linarith
    then show ?thesis using that stoz(3) assms(2)
      by (simp add: unsigned_of_nat take_bit_nat_eq_self sat_add64_def u64_max_def)
  qed
  note get = string_get_entry [OF assms(1-3) raw]
  show ?thesis
  proof (cases "string_source f r")
    case None
    then show ?thesis unfolding orc by (simp add: shape_entry_def get)
  next
    case (Some p)
    then obtain off len where src: "string_source f r = Some (off, len)" by (cases p) auto
    let ?a = "fst ?sto + unat off" and ?n = "byte_length (sst_is_utf16 r) len"
    show ?thesis
    proof (cases "len = 0 \<or> span_end ?sto < ?a + ?n")
      case True
      have "get_range ?b 0 (sat_add64 0 0) = Some []" "byte_length u 0 = 0" for u
        by (simp_all add: get_range_def sat_add64_def byte_length_def)
      moreover have "get_range ?b ?a ?a = None \<or> get_range ?b ?a ?a = Some []"
        by (simp add: get_range_def)
      ultimately show ?thesis
        using True unfolding orc shape_entry_def get src by (auto simp: Let_def)
    next
      case False
      then show ?thesis
        using take [of ?a ?n] unfolding orc shape_entry_def get src by (simp add: Let_def)
    qed
  qed
qed

lemma oracle_strings_map:
  assumes "\<And>i. i \<in> set ks \<Longrightarrow> oracle_string buf hdr spans i = Inr (g i)"
  shows "oracle_strings buf hdr spans ks = Inr (map g ks)"
  using assms by (induction ks) simp_all

lemma oracle_bound_count_ok:
  "unat count * stride \<le> len \<Longrightarrow> len \<le> u64_max \<Longrightarrow> oracle_bound_count count stride len what = Inr (unat count)"
  by (simp add: oracle_bound_count_def checked_mul64_def)

lemma build_file_spans:
  "hf_func_headers (build_file buf ih h s l b t w dbg) = sp_func_headers s"
  "hf_small_string_table (build_file buf ih h s l b t w dbg) = sp_small_string_table s"
  "hf_overflow_string_table (build_file buf ih h s l b t w dbg) = sp_overflow_string_table s"
  "hf_string_storage (build_file buf ih h s l b t w dbg) = sp_string_storage s"
  by (simp_all add: build_file_def Let_def split_beta)

lemma oracle_sections_parsed:
  assumes "fst (parse_inner guard buf ih) = Inr f"
  shows "oracle_sections buf (extract_header_fields buf (hf_version f))
      = Inr (hf_small_string_table f, hf_overflow_string_table f, hf_string_storage f)"
    and "fst (hf_func_headers f) = 128"
proof -
  obtain h s l b t w dbg where h: "fst (parse_hbc_header buf) = Inr h"
    and walk: "all_sections (length buf) h initial_walk = Inr ((s, l, b, t), w)"
    and f: "f = build_file buf ih h s l b t w dbg"
    using assms by (auto simp: parse_inner_Inr)
  obtain c1 where c1: "string_sections (length buf) h initial_walk = Inr (s, c1)"
    and fh: "sp_func_headers s = (128, unat (hdr_function_count h) * unat (hdr_func_header_size h))"
    using all_sections_placed [of "length buf" h s l "fst b" "snd b" "fst t" "snd t" "fst w" "snd w"] walk by auto
  have "hf_version f = hdr_version h" by (simp add: f build_file_def Let_def split_beta)
  then show "oracle_sections buf (extract_header_fields buf (hf_version f))
      = Inr (hf_small_string_table f, hf_overflow_string_table f, hf_string_storage f)"
    using oracle_sections_of [OF c1 extracted_fields(1,5) [OF h]] by (simp add: f build_file_spans)
  show "fst (hf_func_headers f) = 128" using fh by (simp add: f build_file_spans)
qed

text \<open>
  C6. Whatever \<open>parse_inner\<close> accepts the oracle accepts, and it computes the same shape: magic,
  version, counts, the place of the function headers and the bytes of every string.
\<close>

theorem oracle_agrees:
  assumes "fst (parse_inner guard buf ih) = Inr f" "length buf < 2 ^ 63"
  shows "naive_parse_hbc buf = Inr (fst (to_shape f))"
proof -
  obtain h s l b t w dbg where h: "fst (parse_hbc_header buf) = Inr h"
    and f: "f = build_file buf ih h s l b t w dbg"
    using assms(1) by (auto simp: parse_inner_Inr)
  have ok: "parsed_ok f" using parse_inner_parsed_ok [OF assms(1)] by simp
  let ?hdr = "extract_header_fields buf (hdr_version h)"
  note hf = extracted_fields [OF h]
  note facts = parse_hbc_header_facts [OF h]
  have tables: "string_tables_ok f" "header_fields_ok f"
    using ok by (simp_all add: parsed_ok_def)
  have "hf_header f = h" "hf_buf f = buf" by (simp_all add: f build_file_fields)
  with tables(2) have copied: "hf_function_count f = hdr_function_count h"
    "hf_string_count f = hdr_string_count h" "hf_overflow_string_count f = hdr_overflow_string_count h"
    "hf_string_storage_size f = hdr_string_storage_size h" "hf_version f = hdr_version h"
    "hf_func_header_size f = hdr_func_header_size h" "hf_buf f = buf"
    by (simp_all add: header_fields_ok_def Let_def)
  have agree: "of_function_count ?hdr = hf_function_count f" "of_string_count ?hdr = hf_string_count f"
    "of_overflow_string_count ?hdr = hf_overflow_string_count f"
    "of_string_storage_size ?hdr = hf_string_storage_size f"
    "of_func_header_size ?hdr = hf_func_header_size f" "hf_buf f = buf" "hf_version f = hdr_version h"
    using hf(1) copied by (simp_all add: fields_agree_def)
  have spans: "oracle_sections buf ?hdr
      = Inr (hf_small_string_table f, hf_overflow_string_table f, hf_string_storage f)"
    using oracle_sections_parsed(1) [OF assms(1)] by (simp add: agree(7))
  have fits: "unat (hf_function_count f) * unat (hf_func_header_size f) \<le> length buf"
    "unat (hf_string_count f) * 4 \<le> length buf" "unat (hf_overflow_string_count f) * 8 \<le> length buf"
    using tables by (auto simp: header_fields_ok_def string_tables_ok_def Let_def agree(6))
  have pass: "oracle_bound_count (hf_function_count f) (unat (hf_func_header_size f)) (length buf) a
        = Inr (unat (hf_function_count f))"
    "oracle_bound_count (hf_string_count f) 4 (length buf) a = Inr (unat (hf_string_count f))"
    "oracle_bound_count (hf_overflow_string_count f) 8 (length buf) a
        = Inr (unat (hf_overflow_string_count f))" for a
    using fits assms(2) by (intro oracle_bound_count_ok; simp add: u64_max_def)+
  have strings: "oracle_strings buf ?hdr (hf_small_string_table f, hf_overflow_string_table f,
      hf_string_storage f) [0..<unat (hf_string_count f)]
    = Inr (map (\<lambda>i. fst (shape_entry f (of_nat i))) [0..<unat (hf_string_count f)])"
  proof (rule oracle_strings_map)
    fix i assume "i \<in> set [0..<unat (hf_string_count f)]"
    then have "(of_nat i :: u32) < hf_string_count f" "unat (of_nat i :: u32) = i"
      using unat_u32 [of "hf_string_count f"]
      by (simp_all add: word_less_nat_alt unsigned_of_nat take_bit_nat_eq_self)
    then show "oracle_string buf ?hdr (hf_small_string_table f, hf_overflow_string_table f,
        hf_string_storage f) i = Inr (fst (shape_entry f (of_nat i)))"
      using shape_entry_eq [OF ok _ _ agree(3)] assms(2) agree(6) by metis
  qed
  have magic: "get_range buf 0 4 = Some (take 4 (take 8 buf))" "get_range buf 4 8 = Some (drop 4 (take 8 buf))"
    using facts by (simp_all add: get_range_def min_def drop_take)
  note oracle_sections_parsed(2) [OF assms(1)]
  moreover have "\<not> hdr_string_count h < hdr_overflow_string_count h"
    using ok copied by (simp add: parsed_ok_def not_less)
  moreover have "\<not> length buf < HBC_HEADER_SIZE" "le_nat (take 8 buf) = ORACLE_HBC_MAGIC"
    using facts by (simp_all add: HBC_HEADER_SIZE_def ORACLE_HBC_MAGIC_def HBC_MAGIC_def)
  ultimately show ?thesis
    unfolding naive_parse_hbc_def to_shape_def read_u32_oob0_eq hf(4) [symmetric] Let_def
    by (simp add: hf(2,3) agree copied pass [unfolded copied] spans strings [unfolded copied] magic o_def)
qed

end
