(* ===== verification/Hermes_Strings_Samples.thy ===== *)
theory Hermes_Strings_Samples
  imports Hermes_Oracle Hermes_Parse Hermes_Samples
begin

text \<open>
  A v96 file at which the properties of the string accessors and of the oracle are applied. It
  has four strings: the ASCII text Hi, one surrogate pair in UTF-16 routed through the overflow
  table, an overflow reference out of range, and a string that ends behind the storage.
\<close>

section \<open>The file\<close>

definition sample_strings :: "u8 list" where
  "sample_strings =
     [198, 31, 188, 3, 193, 3, 25, 31, 96, 0, 0, 0, 0, 1, 2, 3, 4, 5, 6, 7, 8, 9, 10, 11, 12,
      13, 14, 15, 16, 17, 18, 19, 180, 0, 0, 0, 7, 0, 0, 0, 1, 0, 0, 0, 1, 0, 0, 0, 0, 0, 0, 0,
      4, 0, 0, 0, 1, 0, 0, 0, 6, 0, 0, 0, 0, 0, 0, 0, 0, 0, 0, 0, 0, 0, 0, 0, 0, 0, 0, 0, 0, 0,
      0, 0, 0, 0, 0, 0, 0, 0, 0, 0, 5, 0, 0, 0, 0, 0, 0, 0, 0, 0, 0, 0, 0, 0, 0, 0, 0, 0, 0, 0,
      0, 0, 0, 0, 0, 0, 0, 0, 0, 0, 0, 0, 0, 0, 0, 0, 152, 0, 0, 2, 8, 0, 0, 0, 1, 2, 3, 4, 5,
      6, 7, 8, 4, 0, 0, 0, 0, 0, 0, 2, 1, 0, 0, 255, 10, 0, 0, 255, 8, 0, 0, 9, 2, 0, 0, 0, 2,
      0, 0, 0, 72, 105, 61, 216, 0, 222, 0, 0]"

lemma length_sample_strings: "length sample_strings = 180"
  by (simp add: sample_strings_def)

lemma header_sample_strings:
  "fst (parse_hbc_header sample_strings) = Inr (V87to96 (parse_v87_to_96 sample_strings 96))"
  by (simp add: dispatch_defs length_sample_strings) (simp add: sample_strings_def)

lemma parsed_strings: "parse_v87_to_96 sample_strings 96 = \<lparr>
    h87_version = 96, h87_file_length = 180, h87_global_code_index = 7, h87_function_count = 1,
    h87_string_kind_count = 1, h87_identifier_count = 0, h87_string_count = 4,
    h87_overflow_string_count = 1, h87_string_storage_size = 6, h87_big_int_count = 0,
    h87_big_int_storage_size = 0, h87_reg_exp_count = 0, h87_reg_exp_storage_size = 0,
    h87_array_buffer_size = 0, h87_obj_key_buffer_size = 0, h87_obj_value_buffer_size = 0,
    h87_segment_id = 5, h87_cjs_module_count = 0, h87_function_source_count = 0,
    h87_debug_info_offset = 0\<rparr>"
  by (simp add: layout_words_v96 length_sample_strings) (simp add: sample_strings_def)

lemma accepted_strings: "\<exists>f. fst (parse_inner byte_guard sample_strings ih) = Inr f"
  using parse_inner_accepts [OF header_sample_strings, of byte_guard None ih]
  by (simp add: parsed_strings accept_defs length_sample_strings) blast

lemma fields_strings: "extract_header_fields sample_strings 96 = \<lparr>
    of_version = 96, of_function_count = 1, of_string_kind_count = 1, of_identifier_count = 0,
    of_string_count = 4, of_overflow_string_count = 1, of_string_storage_size = 6,
    of_func_header_size = 16\<rparr>"
  by (simp add: extract_header_fields_def sample_reads length_sample_strings word_le_nat_alt)
    (simp add: sample_strings_def)

lemma file_strings:
  assumes "fst (parse_inner byte_guard sample_strings ih) = Inr f"
  shows "hf_buf f = sample_strings" "hf_string_count f = 4" "hf_overflow_string_count f = 1"
    "hf_small_string_table f = (148, 16)" "hf_overflow_string_table f = (164, 8)"
    "hf_string_storage f = (172, 6)"
proof -
  show "hf_buf f = sample_strings" "hf_string_count f = 4" "hf_overflow_string_count f = 1"
    using parse_inner_parsed_ok [OF assms] parse_inner_header [OF assms header_sample_strings]
    by (simp_all add: parsed_ok_def header_fields_ok_def Let_def parsed_strings)
  have "hf_version f = 96"
    using parse_inner_parsed_ok [OF assms] parse_inner_header [OF assms header_sample_strings]
    by (simp add: parsed_ok_def header_fields_ok_def Let_def parsed_strings)
  then show "hf_small_string_table f = (148, 16)" "hf_overflow_string_table f = (164, 8)"
    "hf_string_storage f = (172, 6)"
    using oracle_sections_parsed [OF assms]
    by (simp_all add: fields_strings oracle_sections_def length_sample_strings checked_mul64_def
        section_advance_def u64_max_def u32_max_def sat_add64_def clear_low2_def)
qed

lemma entries_strings:
  assumes "fst (parse_inner byte_guard sample_strings ih) = Inr f"
  shows "raw_small_string_table_entry f 1
      = Some \<lparr>sst_is_utf16 = True, sst_str_offset = 0, sst_str_length = 255\<rparr>"
    and "raw_small_string_table_entry f 2
      = Some \<lparr>sst_is_utf16 = False, sst_str_offset = 5, sst_str_length = 255\<rparr>"
    and "raw_overflow_string_table_entry_v96 f 0 = Some (2, 2)"
    and "raw_overflow_string_table_entry_v96 f 5 = None"
proof -
  have b: "get_range sample_strings 152 156 = Some [1, 0, 0, 255]"
    "get_range sample_strings 156 160 = Some [10, 0, 0, 255]"
    "get_range sample_strings 164 168 = Some [2, 0, 0, 0]" "get_range sample_strings 168 172 = Some [2, 0, 0, 0]"
    by (simp_all add: get_range_def length_sample_strings) (simp_all add: sample_strings_def)
  show "raw_small_string_table_entry f 1
      = Some \<lparr>sst_is_utf16 = True, sst_str_offset = 0, sst_str_length = 255\<rparr>"
    "raw_small_string_table_entry f 2
      = Some \<lparr>sst_is_utf16 = False, sst_str_offset = 5, sst_str_length = 255\<rparr>"
    by (simp_all add: raw_small_string_table_entry_def file_strings [OF assms] b word_le_nat_alt
        decode_small_string_def read_bitfield_def read_bitfield_loop.simps get_at_def)
  show "raw_overflow_string_table_entry_v96 f 0 = Some (2, 2)"
    "raw_overflow_string_table_entry_v96 f 5 = None"
    by (simp_all add: raw_overflow_string_table_entry_v96_def file_strings [OF assms] b word_le_nat_alt
        read_pair_def sample_reads)
qed

section \<open>Properties at the file\<close>

lemma string_get_spec_witness:
  "\<exists>f. fst (parse_inner byte_guard sample_strings []) = Inr f \<and>
     string_get f 1 = (Inr (Some \<lparr>sd_offset = 174, sd_len = 4, sd_kind = hf_string_kind_map f ! 1,
                                  sd_is_utf16 = True\<rparr>), [])"
proof -
  obtain f where f: "fst (parse_inner byte_guard sample_strings []) = Inr f"
    using accepted_strings by blast
  show ?thesis
    using string_get_spec [OF f, of 1]
    by (simp add: f length_sample_strings entries_strings [OF f] file_strings [OF f] string_source_def
        byte_length_def)
qed

lemma string_one:
  assumes "fst (parse_inner byte_guard sample_strings ih) = Inr f"
  shows "string_get f 1 = (Inr (Some \<lparr>sd_offset = 174, sd_len = 4, sd_kind = hf_string_kind_map f ! 1,
      sd_is_utf16 = True\<rparr>), [])"
    and "string_get f 2 = (Inl (OverflowIndexOutOfRange 2 1), [F_OverflowIndexOutOfRange 2 1])"
proof -
  have ok: "parsed_ok f" "length (hf_buf f) < 2 ^ 63" "1 < hf_string_count f" "2 < hf_string_count f"
    using parse_inner_parsed_ok [OF assms]
    by (simp_all add: length_sample_strings file_strings [OF assms] word_less_nat_alt)
  show "string_get f 1 = (Inr (Some \<lparr>sd_offset = 174, sd_len = 4, sd_kind = hf_string_kind_map f ! 1,
      sd_is_utf16 = True\<rparr>), [])"
    "string_get f 2 = (Inl (OverflowIndexOutOfRange 2 1), [F_OverflowIndexOutOfRange 2 1])"
    using string_get_entry [OF ok(1,2,3) entries_strings(1) [OF assms]]
      string_get_entry [OF ok(1,2,4) entries_strings(2) [OF assms]]
    by (simp_all add: entries_strings [OF assms] file_strings [OF assms] string_source_def byte_length_def)
qed

text \<open>The face U+1F600, stored as a surrogate pair.\<close>

lemma string_as_str_reads_text_witness:
  "\<exists>f. fst (parse_inner byte_guard sample_strings []) = Inr f \<and>
     string_as_str f 1 = (Inr (Some [0x1F600]), [])"
proof -
  obtain f where f: "fst (parse_inner byte_guard sample_strings []) = Inr f"
    using accepted_strings by blast
  have "slice sample_strings 174 4 = [61, 216, 0, 222]"
    by (simp add: slice_def) (simp add: sample_strings_def)
  then show ?thesis
    using string_as_str_reads_text [OF f _ string_one(1) [OF f], of "[0x1F600]"]
    by (simp add: f length_sample_strings text_bytes_def utf16_encode_def is_scalar_def)
qed

lemma string_as_str_errors_witness:
  "\<exists>f. fst (parse_inner byte_guard sample_strings []) = Inr f \<and>
     string_as_str f 2 = (Inl (OverflowIndexOutOfRange 2 1), [F_OverflowIndexOutOfRange 2 1]) \<and>
     span_end (hf_string_storage f) = 178"
proof -
  obtain f where f: "fst (parse_inner byte_guard sample_strings []) = Inr f"
    using accepted_strings by blast
  have err: "string_as_str f 2 = (Inl (OverflowIndexOutOfRange 2 1), [F_OverflowIndexOutOfRange 2 1])"
    by (simp add: string_as_str_def string_one [OF f] lbind_def)
  then show ?thesis
    using string_as_str_errors [OF f _ err] f by (simp add: length_sample_strings file_strings [OF f])
qed

lemma oracle_agrees_witness:
  "\<exists>f. fst (parse_inner byte_guard sample_strings []) = Inr f
     \<and> naive_parse_hbc sample_strings = Inr (fst (to_shape f))"
proof -
  obtain f where f: "fst (parse_inner byte_guard sample_strings []) = Inr f"
    using accepted_strings by blast
  then show ?thesis using oracle_agrees [OF f] by (simp add: length_sample_strings)
qed

end
