(* ===== verification/Hermes_Opcodes.thy ===== *)
theory Hermes_Opcodes
  imports Hermes_Findings
begin

text \<open>
  The opcode identifiers of \<open>opcodes.rs\<close> with their names, the operand types of
  \<open>decompile/decode.rs\<close>, and what it means that the tables of one bytecode version agree with each
  other. A variant of the field-less enum \<open>OpCode\<close> is its discriminant, the position in the
  declaration; the abbreviations carry the source's names.
\<close>

section \<open>Opcodes\<close>

datatype (plugins only: code size) OpCode = OpCode nat

abbreviation OP_Add :: OpCode where "OP_Add \<equiv> OpCode 0"
abbreviation OP_Add32 :: OpCode where "OP_Add32 \<equiv> OpCode 1"
abbreviation OP_AddEmptyString :: OpCode where "OP_AddEmptyString \<equiv> OpCode 2"
abbreviation OP_AddN :: OpCode where "OP_AddN \<equiv> OpCode 3"
abbreviation OP_AddOwnPrivateBySym :: OpCode where "OP_AddOwnPrivateBySym \<equiv> OpCode 4"
abbreviation OP_AddS :: OpCode where "OP_AddS \<equiv> OpCode 5"
abbreviation OP_AsyncBreakCheck :: OpCode where "OP_AsyncBreakCheck \<equiv> OpCode 6"
abbreviation OP_BitAnd :: OpCode where "OP_BitAnd \<equiv> OpCode 7"
abbreviation OP_BitNot :: OpCode where "OP_BitNot \<equiv> OpCode 8"
abbreviation OP_BitOr :: OpCode where "OP_BitOr \<equiv> OpCode 9"
abbreviation OP_BitXor :: OpCode where "OP_BitXor \<equiv> OpCode 10"
abbreviation OP_CacheNewObject :: OpCode where "OP_CacheNewObject \<equiv> OpCode 11"
abbreviation OP_Call :: OpCode where "OP_Call \<equiv> OpCode 12"
abbreviation OP_Call1 :: OpCode where "OP_Call1 \<equiv> OpCode 13"
abbreviation OP_Call2 :: OpCode where "OP_Call2 \<equiv> OpCode 14"
abbreviation OP_Call3 :: OpCode where "OP_Call3 \<equiv> OpCode 15"
abbreviation OP_Call4 :: OpCode where "OP_Call4 \<equiv> OpCode 16"
abbreviation OP_CallBuiltin :: OpCode where "OP_CallBuiltin \<equiv> OpCode 17"
abbreviation OP_CallBuiltinLong :: OpCode where "OP_CallBuiltinLong \<equiv> OpCode 18"
abbreviation OP_CallDirect :: OpCode where "OP_CallDirect \<equiv> OpCode 19"
abbreviation OP_CallDirectLongIndex :: OpCode where "OP_CallDirectLongIndex \<equiv> OpCode 20"
abbreviation OP_CallLong :: OpCode where "OP_CallLong \<equiv> OpCode 21"
abbreviation OP_CallRequire :: OpCode where "OP_CallRequire \<equiv> OpCode 22"
abbreviation OP_CallWithNewTarget :: OpCode where "OP_CallWithNewTarget \<equiv> OpCode 23"
abbreviation OP_CallWithNewTargetLong :: OpCode where "OP_CallWithNewTargetLong \<equiv> OpCode 24"
abbreviation OP_Catch :: OpCode where "OP_Catch \<equiv> OpCode 25"
abbreviation OP_CoerceThisNS :: OpCode where "OP_CoerceThisNS \<equiv> OpCode 26"
abbreviation OP_CompleteGenerator :: OpCode where "OP_CompleteGenerator \<equiv> OpCode 27"
abbreviation OP_Construct :: OpCode where "OP_Construct \<equiv> OpCode 28"
abbreviation OP_ConstructLong :: OpCode where "OP_ConstructLong \<equiv> OpCode 29"
abbreviation OP_CreateAsyncClosure :: OpCode where "OP_CreateAsyncClosure \<equiv> OpCode 30"
abbreviation OP_CreateAsyncClosureLongIndex :: OpCode where "OP_CreateAsyncClosureLongIndex \<equiv> OpCode 31"
abbreviation OP_CreateBaseClass :: OpCode where "OP_CreateBaseClass \<equiv> OpCode 32"
abbreviation OP_CreateBaseClassLongIndex :: OpCode where "OP_CreateBaseClassLongIndex \<equiv> OpCode 33"
abbreviation OP_CreateClosure :: OpCode where "OP_CreateClosure \<equiv> OpCode 34"
abbreviation OP_CreateClosureLongIndex :: OpCode where "OP_CreateClosureLongIndex \<equiv> OpCode 35"
abbreviation OP_CreateDerivedClass :: OpCode where "OP_CreateDerivedClass \<equiv> OpCode 36"
abbreviation OP_CreateDerivedClassLongIndex :: OpCode where "OP_CreateDerivedClassLongIndex \<equiv> OpCode 37"
abbreviation OP_CreateEnvironment :: OpCode where "OP_CreateEnvironment \<equiv> OpCode 38"
abbreviation OP_CreateFunctionEnvironment :: OpCode where "OP_CreateFunctionEnvironment \<equiv> OpCode 39"
abbreviation OP_CreateGenerator :: OpCode where "OP_CreateGenerator \<equiv> OpCode 40"
abbreviation OP_CreateGeneratorClosure :: OpCode where "OP_CreateGeneratorClosure \<equiv> OpCode 41"
abbreviation OP_CreateGeneratorClosureLongIndex :: OpCode where "OP_CreateGeneratorClosureLongIndex \<equiv> OpCode 42"
abbreviation OP_CreateGeneratorLongIndex :: OpCode where "OP_CreateGeneratorLongIndex \<equiv> OpCode 43"
abbreviation OP_CreateInnerEnvironment :: OpCode where "OP_CreateInnerEnvironment \<equiv> OpCode 44"
abbreviation OP_CreatePrivateName :: OpCode where "OP_CreatePrivateName \<equiv> OpCode 45"
abbreviation OP_CreateRegExp :: OpCode where "OP_CreateRegExp \<equiv> OpCode 46"
abbreviation OP_CreateThis :: OpCode where "OP_CreateThis \<equiv> OpCode 47"
abbreviation OP_CreateThisForNew :: OpCode where "OP_CreateThisForNew \<equiv> OpCode 48"
abbreviation OP_CreateThisForSuper :: OpCode where "OP_CreateThisForSuper \<equiv> OpCode 49"
abbreviation OP_CreateTopLevelEnvironment :: OpCode where "OP_CreateTopLevelEnvironment \<equiv> OpCode 50"
abbreviation OP_Debugger :: OpCode where "OP_Debugger \<equiv> OpCode 51"
abbreviation OP_DebuggerCheckBreak :: OpCode where "OP_DebuggerCheckBreak \<equiv> OpCode 52"
abbreviation OP_Dec :: OpCode where "OP_Dec \<equiv> OpCode 53"
abbreviation OP_DeclareGlobalVar :: OpCode where "OP_DeclareGlobalVar \<equiv> OpCode 54"
abbreviation OP_DefineOwnById :: OpCode where "OP_DefineOwnById \<equiv> OpCode 55"
abbreviation OP_DefineOwnByIdLong :: OpCode where "OP_DefineOwnByIdLong \<equiv> OpCode 56"
abbreviation OP_DefineOwnByIndex :: OpCode where "OP_DefineOwnByIndex \<equiv> OpCode 57"
abbreviation OP_DefineOwnByIndexL :: OpCode where "OP_DefineOwnByIndexL \<equiv> OpCode 58"
abbreviation OP_DefineOwnByVal :: OpCode where "OP_DefineOwnByVal \<equiv> OpCode 59"
abbreviation OP_DefineOwnGetterSetterByVal :: OpCode where "OP_DefineOwnGetterSetterByVal \<equiv> OpCode 60"
abbreviation OP_DefineOwnInDenseArray :: OpCode where "OP_DefineOwnInDenseArray \<equiv> OpCode 61"
abbreviation OP_DefineOwnInDenseArrayL :: OpCode where "OP_DefineOwnInDenseArrayL \<equiv> OpCode 62"
abbreviation OP_DelById :: OpCode where "OP_DelById \<equiv> OpCode 63"
abbreviation OP_DelByIdLong :: OpCode where "OP_DelByIdLong \<equiv> OpCode 64"
abbreviation OP_DelByIdLoose :: OpCode where "OP_DelByIdLoose \<equiv> OpCode 65"
abbreviation OP_DelByIdLooseLong :: OpCode where "OP_DelByIdLooseLong \<equiv> OpCode 66"
abbreviation OP_DelByIdStrict :: OpCode where "OP_DelByIdStrict \<equiv> OpCode 67"
abbreviation OP_DelByIdStrictLong :: OpCode where "OP_DelByIdStrictLong \<equiv> OpCode 68"
abbreviation OP_DelByVal :: OpCode where "OP_DelByVal \<equiv> OpCode 69"
abbreviation OP_DelByValLoose :: OpCode where "OP_DelByValLoose \<equiv> OpCode 70"
abbreviation OP_DelByValStrict :: OpCode where "OP_DelByValStrict \<equiv> OpCode 71"
abbreviation OP_DirectEval :: OpCode where "OP_DirectEval \<equiv> OpCode 72"
abbreviation OP_Div :: OpCode where "OP_Div \<equiv> OpCode 73"
abbreviation OP_DivN :: OpCode where "OP_DivN \<equiv> OpCode 74"
abbreviation OP_Divi32 :: OpCode where "OP_Divi32 \<equiv> OpCode 75"
abbreviation OP_Divu32 :: OpCode where "OP_Divu32 \<equiv> OpCode 76"
abbreviation OP_Eq :: OpCode where "OP_Eq \<equiv> OpCode 77"
abbreviation OP_FastArrayAppend :: OpCode where "OP_FastArrayAppend \<equiv> OpCode 78"
abbreviation OP_FastArrayLength :: OpCode where "OP_FastArrayLength \<equiv> OpCode 79"
abbreviation OP_FastArrayLoad :: OpCode where "OP_FastArrayLoad \<equiv> OpCode 80"
abbreviation OP_FastArrayPush :: OpCode where "OP_FastArrayPush \<equiv> OpCode 81"
abbreviation OP_FastArrayStore :: OpCode where "OP_FastArrayStore \<equiv> OpCode 82"
abbreviation OP_GetArgumentsLength :: OpCode where "OP_GetArgumentsLength \<equiv> OpCode 83"
abbreviation OP_GetArgumentsPropByVal :: OpCode where "OP_GetArgumentsPropByVal \<equiv> OpCode 84"
abbreviation OP_GetArgumentsPropByValLoose :: OpCode where "OP_GetArgumentsPropByValLoose \<equiv> OpCode 85"
abbreviation OP_GetArgumentsPropByValStrict :: OpCode where "OP_GetArgumentsPropByValStrict \<equiv> OpCode 86"
abbreviation OP_GetBuiltinClosure :: OpCode where "OP_GetBuiltinClosure \<equiv> OpCode 87"
abbreviation OP_GetById :: OpCode where "OP_GetById \<equiv> OpCode 88"
abbreviation OP_GetByIdLong :: OpCode where "OP_GetByIdLong \<equiv> OpCode 89"
abbreviation OP_GetByIdShort :: OpCode where "OP_GetByIdShort \<equiv> OpCode 90"
abbreviation OP_GetByIdWithReceiverLong :: OpCode where "OP_GetByIdWithReceiverLong \<equiv> OpCode 91"
abbreviation OP_GetByIndex :: OpCode where "OP_GetByIndex \<equiv> OpCode 92"
abbreviation OP_GetByVal :: OpCode where "OP_GetByVal \<equiv> OpCode 93"
abbreviation OP_GetByValWithReceiver :: OpCode where "OP_GetByValWithReceiver \<equiv> OpCode 94"
abbreviation OP_GetClosureEnvironment :: OpCode where "OP_GetClosureEnvironment \<equiv> OpCode 95"
abbreviation OP_GetEnvironment :: OpCode where "OP_GetEnvironment \<equiv> OpCode 96"
abbreviation OP_GetGlobalObject :: OpCode where "OP_GetGlobalObject \<equiv> OpCode 97"
abbreviation OP_GetNewTarget :: OpCode where "OP_GetNewTarget \<equiv> OpCode 98"
abbreviation OP_GetNextPName :: OpCode where "OP_GetNextPName \<equiv> OpCode 99"
abbreviation OP_GetOwnBySlotIdx :: OpCode where "OP_GetOwnBySlotIdx \<equiv> OpCode 100"
abbreviation OP_GetOwnBySlotIdxLong :: OpCode where "OP_GetOwnBySlotIdxLong \<equiv> OpCode 101"
abbreviation OP_GetOwnPrivateBySym :: OpCode where "OP_GetOwnPrivateBySym \<equiv> OpCode 102"
abbreviation OP_GetPNameList :: OpCode where "OP_GetPNameList \<equiv> OpCode 103"
abbreviation OP_GetParentEnvironment :: OpCode where "OP_GetParentEnvironment \<equiv> OpCode 104"
abbreviation OP_Greater :: OpCode where "OP_Greater \<equiv> OpCode 105"
abbreviation OP_GreaterEq :: OpCode where "OP_GreaterEq \<equiv> OpCode 106"
abbreviation OP_Inc :: OpCode where "OP_Inc \<equiv> OpCode 107"
abbreviation OP_InstanceOf :: OpCode where "OP_InstanceOf \<equiv> OpCode 108"
abbreviation OP_IsIn :: OpCode where "OP_IsIn \<equiv> OpCode 109"
abbreviation OP_IteratorBegin :: OpCode where "OP_IteratorBegin \<equiv> OpCode 110"
abbreviation OP_IteratorClose :: OpCode where "OP_IteratorClose \<equiv> OpCode 111"
abbreviation OP_IteratorNext :: OpCode where "OP_IteratorNext \<equiv> OpCode 112"
abbreviation OP_JEqual :: OpCode where "OP_JEqual \<equiv> OpCode 113"
abbreviation OP_JEqualLong :: OpCode where "OP_JEqualLong \<equiv> OpCode 114"
abbreviation OP_JGreater :: OpCode where "OP_JGreater \<equiv> OpCode 115"
abbreviation OP_JGreaterEqual :: OpCode where "OP_JGreaterEqual \<equiv> OpCode 116"
abbreviation OP_JGreaterEqualLong :: OpCode where "OP_JGreaterEqualLong \<equiv> OpCode 117"
abbreviation OP_JGreaterEqualN :: OpCode where "OP_JGreaterEqualN \<equiv> OpCode 118"
abbreviation OP_JGreaterEqualNLong :: OpCode where "OP_JGreaterEqualNLong \<equiv> OpCode 119"
abbreviation OP_JGreaterLong :: OpCode where "OP_JGreaterLong \<equiv> OpCode 120"
abbreviation OP_JGreaterN :: OpCode where "OP_JGreaterN \<equiv> OpCode 121"
abbreviation OP_JGreaterNLong :: OpCode where "OP_JGreaterNLong \<equiv> OpCode 122"
abbreviation OP_JLess :: OpCode where "OP_JLess \<equiv> OpCode 123"
abbreviation OP_JLessEqual :: OpCode where "OP_JLessEqual \<equiv> OpCode 124"
abbreviation OP_JLessEqualLong :: OpCode where "OP_JLessEqualLong \<equiv> OpCode 125"
abbreviation OP_JLessEqualN :: OpCode where "OP_JLessEqualN \<equiv> OpCode 126"
abbreviation OP_JLessEqualNLong :: OpCode where "OP_JLessEqualNLong \<equiv> OpCode 127"
abbreviation OP_JLessLong :: OpCode where "OP_JLessLong \<equiv> OpCode 128"
abbreviation OP_JLessN :: OpCode where "OP_JLessN \<equiv> OpCode 129"
abbreviation OP_JLessNLong :: OpCode where "OP_JLessNLong \<equiv> OpCode 130"
abbreviation OP_JNotEqual :: OpCode where "OP_JNotEqual \<equiv> OpCode 131"
abbreviation OP_JNotEqualLong :: OpCode where "OP_JNotEqualLong \<equiv> OpCode 132"
abbreviation OP_JNotGreater :: OpCode where "OP_JNotGreater \<equiv> OpCode 133"
abbreviation OP_JNotGreaterEqual :: OpCode where "OP_JNotGreaterEqual \<equiv> OpCode 134"
abbreviation OP_JNotGreaterEqualLong :: OpCode where "OP_JNotGreaterEqualLong \<equiv> OpCode 135"
abbreviation OP_JNotGreaterEqualN :: OpCode where "OP_JNotGreaterEqualN \<equiv> OpCode 136"
abbreviation OP_JNotGreaterEqualNLong :: OpCode where "OP_JNotGreaterEqualNLong \<equiv> OpCode 137"
abbreviation OP_JNotGreaterLong :: OpCode where "OP_JNotGreaterLong \<equiv> OpCode 138"
abbreviation OP_JNotGreaterN :: OpCode where "OP_JNotGreaterN \<equiv> OpCode 139"
abbreviation OP_JNotGreaterNLong :: OpCode where "OP_JNotGreaterNLong \<equiv> OpCode 140"
abbreviation OP_JNotLess :: OpCode where "OP_JNotLess \<equiv> OpCode 141"
abbreviation OP_JNotLessEqual :: OpCode where "OP_JNotLessEqual \<equiv> OpCode 142"
abbreviation OP_JNotLessEqualLong :: OpCode where "OP_JNotLessEqualLong \<equiv> OpCode 143"
abbreviation OP_JNotLessEqualN :: OpCode where "OP_JNotLessEqualN \<equiv> OpCode 144"
abbreviation OP_JNotLessEqualNLong :: OpCode where "OP_JNotLessEqualNLong \<equiv> OpCode 145"
abbreviation OP_JNotLessLong :: OpCode where "OP_JNotLessLong \<equiv> OpCode 146"
abbreviation OP_JNotLessN :: OpCode where "OP_JNotLessN \<equiv> OpCode 147"
abbreviation OP_JNotLessNLong :: OpCode where "OP_JNotLessNLong \<equiv> OpCode 148"
abbreviation OP_JStrictEqual :: OpCode where "OP_JStrictEqual \<equiv> OpCode 149"
abbreviation OP_JStrictEqualLong :: OpCode where "OP_JStrictEqualLong \<equiv> OpCode 150"
abbreviation OP_JStrictNotEqual :: OpCode where "OP_JStrictNotEqual \<equiv> OpCode 151"
abbreviation OP_JStrictNotEqualLong :: OpCode where "OP_JStrictNotEqualLong \<equiv> OpCode 152"
abbreviation OP_Jmp :: OpCode where "OP_Jmp \<equiv> OpCode 153"
abbreviation OP_JmpBuiltinIs :: OpCode where "OP_JmpBuiltinIs \<equiv> OpCode 154"
abbreviation OP_JmpBuiltinIsLong :: OpCode where "OP_JmpBuiltinIsLong \<equiv> OpCode 155"
abbreviation OP_JmpBuiltinIsNot :: OpCode where "OP_JmpBuiltinIsNot \<equiv> OpCode 156"
abbreviation OP_JmpBuiltinIsNotLong :: OpCode where "OP_JmpBuiltinIsNotLong \<equiv> OpCode 157"
abbreviation OP_JmpFalse :: OpCode where "OP_JmpFalse \<equiv> OpCode 158"
abbreviation OP_JmpFalseLong :: OpCode where "OP_JmpFalseLong \<equiv> OpCode 159"
abbreviation OP_JmpLong :: OpCode where "OP_JmpLong \<equiv> OpCode 160"
abbreviation OP_JmpTrue :: OpCode where "OP_JmpTrue \<equiv> OpCode 161"
abbreviation OP_JmpTrueLong :: OpCode where "OP_JmpTrueLong \<equiv> OpCode 162"
abbreviation OP_JmpTypeOfIs :: OpCode where "OP_JmpTypeOfIs \<equiv> OpCode 163"
abbreviation OP_JmpUndefined :: OpCode where "OP_JmpUndefined \<equiv> OpCode 164"
abbreviation OP_JmpUndefinedLong :: OpCode where "OP_JmpUndefinedLong \<equiv> OpCode 165"
abbreviation OP_LShift :: OpCode where "OP_LShift \<equiv> OpCode 166"
abbreviation OP_Less :: OpCode where "OP_Less \<equiv> OpCode 167"
abbreviation OP_LessEq :: OpCode where "OP_LessEq \<equiv> OpCode 168"
abbreviation OP_LoadConstBigInt :: OpCode where "OP_LoadConstBigInt \<equiv> OpCode 169"
abbreviation OP_LoadConstBigIntLongIndex :: OpCode where "OP_LoadConstBigIntLongIndex \<equiv> OpCode 170"
abbreviation OP_LoadConstDouble :: OpCode where "OP_LoadConstDouble \<equiv> OpCode 171"
abbreviation OP_LoadConstEmpty :: OpCode where "OP_LoadConstEmpty \<equiv> OpCode 172"
abbreviation OP_LoadConstFalse :: OpCode where "OP_LoadConstFalse \<equiv> OpCode 173"
abbreviation OP_LoadConstInt :: OpCode where "OP_LoadConstInt \<equiv> OpCode 174"
abbreviation OP_LoadConstNull :: OpCode where "OP_LoadConstNull \<equiv> OpCode 175"
abbreviation OP_LoadConstString :: OpCode where "OP_LoadConstString \<equiv> OpCode 176"
abbreviation OP_LoadConstStringLongIndex :: OpCode where "OP_LoadConstStringLongIndex \<equiv> OpCode 177"
abbreviation OP_LoadConstTrue :: OpCode where "OP_LoadConstTrue \<equiv> OpCode 178"
abbreviation OP_LoadConstUInt8 :: OpCode where "OP_LoadConstUInt8 \<equiv> OpCode 179"
abbreviation OP_LoadConstUndefined :: OpCode where "OP_LoadConstUndefined \<equiv> OpCode 180"
abbreviation OP_LoadConstZero :: OpCode where "OP_LoadConstZero \<equiv> OpCode 181"
abbreviation OP_LoadFromEnvironment :: OpCode where "OP_LoadFromEnvironment \<equiv> OpCode 182"
abbreviation OP_LoadFromEnvironmentL :: OpCode where "OP_LoadFromEnvironmentL \<equiv> OpCode 183"
abbreviation OP_LoadParam :: OpCode where "OP_LoadParam \<equiv> OpCode 184"
abbreviation OP_LoadParamLong :: OpCode where "OP_LoadParamLong \<equiv> OpCode 185"
abbreviation OP_LoadParentNoTraps :: OpCode where "OP_LoadParentNoTraps \<equiv> OpCode 186"
abbreviation OP_LoadThisNS :: OpCode where "OP_LoadThisNS \<equiv> OpCode 187"
abbreviation OP_Loadi16 :: OpCode where "OP_Loadi16 \<equiv> OpCode 188"
abbreviation OP_Loadi32 :: OpCode where "OP_Loadi32 \<equiv> OpCode 189"
abbreviation OP_Loadi8 :: OpCode where "OP_Loadi8 \<equiv> OpCode 190"
abbreviation OP_Loadu16 :: OpCode where "OP_Loadu16 \<equiv> OpCode 191"
abbreviation OP_Loadu32 :: OpCode where "OP_Loadu32 \<equiv> OpCode 192"
abbreviation OP_Loadu8 :: OpCode where "OP_Loadu8 \<equiv> OpCode 193"
abbreviation OP_Mod :: OpCode where "OP_Mod \<equiv> OpCode 194"
abbreviation OP_Mov :: OpCode where "OP_Mov \<equiv> OpCode 195"
abbreviation OP_MovLong :: OpCode where "OP_MovLong \<equiv> OpCode 196"
abbreviation OP_Mul :: OpCode where "OP_Mul \<equiv> OpCode 197"
abbreviation OP_Mul32 :: OpCode where "OP_Mul32 \<equiv> OpCode 198"
abbreviation OP_MulN :: OpCode where "OP_MulN \<equiv> OpCode 199"
abbreviation OP_Negate :: OpCode where "OP_Negate \<equiv> OpCode 200"
abbreviation OP_Neq :: OpCode where "OP_Neq \<equiv> OpCode 201"
abbreviation OP_NewArray :: OpCode where "OP_NewArray \<equiv> OpCode 202"
abbreviation OP_NewArrayWithBuffer :: OpCode where "OP_NewArrayWithBuffer \<equiv> OpCode 203"
abbreviation OP_NewArrayWithBufferLong :: OpCode where "OP_NewArrayWithBufferLong \<equiv> OpCode 204"
abbreviation OP_NewFastArray :: OpCode where "OP_NewFastArray \<equiv> OpCode 205"
abbreviation OP_NewObject :: OpCode where "OP_NewObject \<equiv> OpCode 206"
abbreviation OP_NewObjectWithBuffer :: OpCode where "OP_NewObjectWithBuffer \<equiv> OpCode 207"
abbreviation OP_NewObjectWithBufferAndParent :: OpCode where "OP_NewObjectWithBufferAndParent \<equiv> OpCode 208"
abbreviation OP_NewObjectWithBufferLong :: OpCode where "OP_NewObjectWithBufferLong \<equiv> OpCode 209"
abbreviation OP_NewObjectWithParent :: OpCode where "OP_NewObjectWithParent \<equiv> OpCode 210"
abbreviation OP_NewTypedObjectWithBuffer :: OpCode where "OP_NewTypedObjectWithBuffer \<equiv> OpCode 211"
abbreviation OP_Not :: OpCode where "OP_Not \<equiv> OpCode 212"
abbreviation OP_PrivateIsIn :: OpCode where "OP_PrivateIsIn \<equiv> OpCode 213"
abbreviation OP_ProfilePoint :: OpCode where "OP_ProfilePoint \<equiv> OpCode 214"
abbreviation OP_PutById :: OpCode where "OP_PutById \<equiv> OpCode 215"
abbreviation OP_PutByIdLong :: OpCode where "OP_PutByIdLong \<equiv> OpCode 216"
abbreviation OP_PutByIdLoose :: OpCode where "OP_PutByIdLoose \<equiv> OpCode 217"
abbreviation OP_PutByIdLooseLong :: OpCode where "OP_PutByIdLooseLong \<equiv> OpCode 218"
abbreviation OP_PutByIdStrict :: OpCode where "OP_PutByIdStrict \<equiv> OpCode 219"
abbreviation OP_PutByIdStrictLong :: OpCode where "OP_PutByIdStrictLong \<equiv> OpCode 220"
abbreviation OP_PutByVal :: OpCode where "OP_PutByVal \<equiv> OpCode 221"
abbreviation OP_PutByValLoose :: OpCode where "OP_PutByValLoose \<equiv> OpCode 222"
abbreviation OP_PutByValStrict :: OpCode where "OP_PutByValStrict \<equiv> OpCode 223"
abbreviation OP_PutByValWithReceiver :: OpCode where "OP_PutByValWithReceiver \<equiv> OpCode 224"
abbreviation OP_PutGetterSetter :: OpCode where "OP_PutGetterSetter \<equiv> OpCode 225"
abbreviation OP_PutNewOwnById :: OpCode where "OP_PutNewOwnById \<equiv> OpCode 226"
abbreviation OP_PutNewOwnByIdLong :: OpCode where "OP_PutNewOwnByIdLong \<equiv> OpCode 227"
abbreviation OP_PutNewOwnByIdShort :: OpCode where "OP_PutNewOwnByIdShort \<equiv> OpCode 228"
abbreviation OP_PutNewOwnNEById :: OpCode where "OP_PutNewOwnNEById \<equiv> OpCode 229"
abbreviation OP_PutNewOwnNEByIdLong :: OpCode where "OP_PutNewOwnNEByIdLong \<equiv> OpCode 230"
abbreviation OP_PutOwnById :: OpCode where "OP_PutOwnById \<equiv> OpCode 231"
abbreviation OP_PutOwnByIdLong :: OpCode where "OP_PutOwnByIdLong \<equiv> OpCode 232"
abbreviation OP_PutOwnByIdShort :: OpCode where "OP_PutOwnByIdShort \<equiv> OpCode 233"
abbreviation OP_PutOwnByIndex :: OpCode where "OP_PutOwnByIndex \<equiv> OpCode 234"
abbreviation OP_PutOwnByIndexL :: OpCode where "OP_PutOwnByIndexL \<equiv> OpCode 235"
abbreviation OP_PutOwnBySlotIdx :: OpCode where "OP_PutOwnBySlotIdx \<equiv> OpCode 236"
abbreviation OP_PutOwnBySlotIdxLong :: OpCode where "OP_PutOwnBySlotIdxLong \<equiv> OpCode 237"
abbreviation OP_PutOwnByVal :: OpCode where "OP_PutOwnByVal \<equiv> OpCode 238"
abbreviation OP_PutOwnGetterSetterByVal :: OpCode where "OP_PutOwnGetterSetterByVal \<equiv> OpCode 239"
abbreviation OP_PutOwnPrivateBySym :: OpCode where "OP_PutOwnPrivateBySym \<equiv> OpCode 240"
abbreviation OP_RShift :: OpCode where "OP_RShift \<equiv> OpCode 241"
abbreviation OP_ReifyArguments :: OpCode where "OP_ReifyArguments \<equiv> OpCode 242"
abbreviation OP_ReifyArgumentsLoose :: OpCode where "OP_ReifyArgumentsLoose \<equiv> OpCode 243"
abbreviation OP_ReifyArgumentsStrict :: OpCode where "OP_ReifyArgumentsStrict \<equiv> OpCode 244"
abbreviation OP_ResumeGenerator :: OpCode where "OP_ResumeGenerator \<equiv> OpCode 245"
abbreviation OP_Ret :: OpCode where "OP_Ret \<equiv> OpCode 246"
abbreviation OP_SaveGenerator :: OpCode where "OP_SaveGenerator \<equiv> OpCode 247"
abbreviation OP_SaveGeneratorLong :: OpCode where "OP_SaveGeneratorLong \<equiv> OpCode 248"
abbreviation OP_SelectObject :: OpCode where "OP_SelectObject \<equiv> OpCode 249"
abbreviation OP_StartGenerator :: OpCode where "OP_StartGenerator \<equiv> OpCode 250"
abbreviation OP_Store16 :: OpCode where "OP_Store16 \<equiv> OpCode 251"
abbreviation OP_Store32 :: OpCode where "OP_Store32 \<equiv> OpCode 252"
abbreviation OP_Store8 :: OpCode where "OP_Store8 \<equiv> OpCode 253"
abbreviation OP_StoreNPToEnvironment :: OpCode where "OP_StoreNPToEnvironment \<equiv> OpCode 254"
abbreviation OP_StoreNPToEnvironmentL :: OpCode where "OP_StoreNPToEnvironmentL \<equiv> OpCode 255"
abbreviation OP_StoreToEnvironment :: OpCode where "OP_StoreToEnvironment \<equiv> OpCode 256"
abbreviation OP_StoreToEnvironmentL :: OpCode where "OP_StoreToEnvironmentL \<equiv> OpCode 257"
abbreviation OP_StrictEq :: OpCode where "OP_StrictEq \<equiv> OpCode 258"
abbreviation OP_StrictNeq :: OpCode where "OP_StrictNeq \<equiv> OpCode 259"
abbreviation OP_StringSwitchImm :: OpCode where "OP_StringSwitchImm \<equiv> OpCode 260"
abbreviation OP_Sub :: OpCode where "OP_Sub \<equiv> OpCode 261"
abbreviation OP_Sub32 :: OpCode where "OP_Sub32 \<equiv> OpCode 262"
abbreviation OP_SubN :: OpCode where "OP_SubN \<equiv> OpCode 263"
abbreviation OP_SwitchImm :: OpCode where "OP_SwitchImm \<equiv> OpCode 264"
abbreviation OP_Throw :: OpCode where "OP_Throw \<equiv> OpCode 265"
abbreviation OP_ThrowIfEmpty :: OpCode where "OP_ThrowIfEmpty \<equiv> OpCode 266"
abbreviation OP_ThrowIfHasRestrictedGlobalProperty :: OpCode where "OP_ThrowIfHasRestrictedGlobalProperty \<equiv> OpCode 267"
abbreviation OP_ThrowIfThisInitialized :: OpCode where "OP_ThrowIfThisInitialized \<equiv> OpCode 268"
abbreviation OP_ThrowIfUndefined :: OpCode where "OP_ThrowIfUndefined \<equiv> OpCode 269"
abbreviation OP_ThrowIfUndefinedInst :: OpCode where "OP_ThrowIfUndefinedInst \<equiv> OpCode 270"
abbreviation OP_ToInt32 :: OpCode where "OP_ToInt32 \<equiv> OpCode 271"
abbreviation OP_ToNumber :: OpCode where "OP_ToNumber \<equiv> OpCode 272"
abbreviation OP_ToNumeric :: OpCode where "OP_ToNumeric \<equiv> OpCode 273"
abbreviation OP_ToPropertyKey :: OpCode where "OP_ToPropertyKey \<equiv> OpCode 274"
abbreviation OP_ToUint32 :: OpCode where "OP_ToUint32 \<equiv> OpCode 275"
abbreviation OP_TryGetById :: OpCode where "OP_TryGetById \<equiv> OpCode 276"
abbreviation OP_TryGetByIdLong :: OpCode where "OP_TryGetByIdLong \<equiv> OpCode 277"
abbreviation OP_TryPutById :: OpCode where "OP_TryPutById \<equiv> OpCode 278"
abbreviation OP_TryPutByIdLong :: OpCode where "OP_TryPutByIdLong \<equiv> OpCode 279"
abbreviation OP_TryPutByIdLoose :: OpCode where "OP_TryPutByIdLoose \<equiv> OpCode 280"
abbreviation OP_TryPutByIdLooseLong :: OpCode where "OP_TryPutByIdLooseLong \<equiv> OpCode 281"
abbreviation OP_TryPutByIdStrict :: OpCode where "OP_TryPutByIdStrict \<equiv> OpCode 282"
abbreviation OP_TryPutByIdStrictLong :: OpCode where "OP_TryPutByIdStrictLong \<equiv> OpCode 283"
abbreviation OP_TypeOf :: OpCode where "OP_TypeOf \<equiv> OpCode 284"
abbreviation OP_TypeOfIs :: OpCode where "OP_TypeOfIs \<equiv> OpCode 285"
abbreviation OP_TypedLoadParent :: OpCode where "OP_TypedLoadParent \<equiv> OpCode 286"
abbreviation OP_TypedStoreParent :: OpCode where "OP_TypedStoreParent \<equiv> OpCode 287"
abbreviation OP_UIntSwitchImm :: OpCode where "OP_UIntSwitchImm \<equiv> OpCode 288"
abbreviation OP_URshift :: OpCode where "OP_URshift \<equiv> OpCode 289"
abbreviation OP_Unreachable :: OpCode where "OP_Unreachable \<equiv> OpCode 290"
abbreviation OP_MethodCall :: OpCode where "OP_MethodCall \<equiv> OpCode 291"
abbreviation OP_Phi :: OpCode where "OP_Phi \<equiv> OpCode 292"

definition OPCODE_NAMES :: "string list" where
  "OPCODE_NAMES =
    [''Add'', ''Add32'', ''AddEmptyString'', ''AddN'', ''AddOwnPrivateBySym'', ''AddS'',
     ''AsyncBreakCheck'', ''BitAnd'', ''BitNot'', ''BitOr'', ''BitXor'', ''CacheNewObject'',
     ''Call'', ''Call1'', ''Call2'', ''Call3'', ''Call4'', ''CallBuiltin'', ''CallBuiltinLong'',
     ''CallDirect'', ''CallDirectLongIndex'', ''CallLong'', ''CallRequire'',
     ''CallWithNewTarget'', ''CallWithNewTargetLong'', ''Catch'', ''CoerceThisNS'',
     ''CompleteGenerator'', ''Construct'', ''ConstructLong'', ''CreateAsyncClosure'',
     ''CreateAsyncClosureLongIndex'', ''CreateBaseClass'', ''CreateBaseClassLongIndex'',
     ''CreateClosure'', ''CreateClosureLongIndex'', ''CreateDerivedClass'',
     ''CreateDerivedClassLongIndex'', ''CreateEnvironment'', ''CreateFunctionEnvironment'',
     ''CreateGenerator'', ''CreateGeneratorClosure'', ''CreateGeneratorClosureLongIndex'',
     ''CreateGeneratorLongIndex'', ''CreateInnerEnvironment'', ''CreatePrivateName'',
     ''CreateRegExp'', ''CreateThis'', ''CreateThisForNew'', ''CreateThisForSuper'',
     ''CreateTopLevelEnvironment'', ''Debugger'', ''DebuggerCheckBreak'', ''Dec'',
     ''DeclareGlobalVar'', ''DefineOwnById'', ''DefineOwnByIdLong'', ''DefineOwnByIndex'',
     ''DefineOwnByIndexL'', ''DefineOwnByVal'', ''DefineOwnGetterSetterByVal'',
     ''DefineOwnInDenseArray'', ''DefineOwnInDenseArrayL'', ''DelById'', ''DelByIdLong'',
     ''DelByIdLoose'', ''DelByIdLooseLong'', ''DelByIdStrict'', ''DelByIdStrictLong'',
     ''DelByVal'', ''DelByValLoose'', ''DelByValStrict'', ''DirectEval'', ''Div'', ''DivN'',
     ''Divi32'', ''Divu32'', ''Eq'', ''FastArrayAppend'', ''FastArrayLength'', ''FastArrayLoad'',
     ''FastArrayPush'', ''FastArrayStore'', ''GetArgumentsLength'', ''GetArgumentsPropByVal'',
     ''GetArgumentsPropByValLoose'', ''GetArgumentsPropByValStrict'', ''GetBuiltinClosure'',
     ''GetById'', ''GetByIdLong'', ''GetByIdShort'', ''GetByIdWithReceiverLong'', ''GetByIndex'',
     ''GetByVal'', ''GetByValWithReceiver'', ''GetClosureEnvironment'', ''GetEnvironment'',
     ''GetGlobalObject'', ''GetNewTarget'', ''GetNextPName'', ''GetOwnBySlotIdx'',
     ''GetOwnBySlotIdxLong'', ''GetOwnPrivateBySym'', ''GetPNameList'', ''GetParentEnvironment'',
     ''Greater'', ''GreaterEq'', ''Inc'', ''InstanceOf'', ''IsIn'', ''IteratorBegin'',
     ''IteratorClose'', ''IteratorNext'', ''JEqual'', ''JEqualLong'', ''JGreater'',
     ''JGreaterEqual'', ''JGreaterEqualLong'', ''JGreaterEqualN'', ''JGreaterEqualNLong'',
     ''JGreaterLong'', ''JGreaterN'', ''JGreaterNLong'', ''JLess'', ''JLessEqual'',
     ''JLessEqualLong'', ''JLessEqualN'', ''JLessEqualNLong'', ''JLessLong'', ''JLessN'',
     ''JLessNLong'', ''JNotEqual'', ''JNotEqualLong'', ''JNotGreater'', ''JNotGreaterEqual'',
     ''JNotGreaterEqualLong'', ''JNotGreaterEqualN'', ''JNotGreaterEqualNLong'',
     ''JNotGreaterLong'', ''JNotGreaterN'', ''JNotGreaterNLong'', ''JNotLess'', ''JNotLessEqual'',
     ''JNotLessEqualLong'', ''JNotLessEqualN'', ''JNotLessEqualNLong'', ''JNotLessLong'',
     ''JNotLessN'', ''JNotLessNLong'', ''JStrictEqual'', ''JStrictEqualLong'',
     ''JStrictNotEqual'', ''JStrictNotEqualLong'', ''Jmp'', ''JmpBuiltinIs'',
     ''JmpBuiltinIsLong'', ''JmpBuiltinIsNot'', ''JmpBuiltinIsNotLong'', ''JmpFalse'',
     ''JmpFalseLong'', ''JmpLong'', ''JmpTrue'', ''JmpTrueLong'', ''JmpTypeOfIs'',
     ''JmpUndefined'', ''JmpUndefinedLong'', ''LShift'', ''Less'', ''LessEq'',
     ''LoadConstBigInt'', ''LoadConstBigIntLongIndex'', ''LoadConstDouble'', ''LoadConstEmpty'',
     ''LoadConstFalse'', ''LoadConstInt'', ''LoadConstNull'', ''LoadConstString'',
     ''LoadConstStringLongIndex'', ''LoadConstTrue'', ''LoadConstUInt8'', ''LoadConstUndefined'',
     ''LoadConstZero'', ''LoadFromEnvironment'', ''LoadFromEnvironmentL'', ''LoadParam'',
     ''LoadParamLong'', ''LoadParentNoTraps'', ''LoadThisNS'', ''Loadi16'', ''Loadi32'',
     ''Loadi8'', ''Loadu16'', ''Loadu32'', ''Loadu8'', ''Mod'', ''Mov'', ''MovLong'', ''Mul'',
     ''Mul32'', ''MulN'', ''Negate'', ''Neq'', ''NewArray'', ''NewArrayWithBuffer'',
     ''NewArrayWithBufferLong'', ''NewFastArray'', ''NewObject'', ''NewObjectWithBuffer'',
     ''NewObjectWithBufferAndParent'', ''NewObjectWithBufferLong'', ''NewObjectWithParent'',
     ''NewTypedObjectWithBuffer'', ''Not'', ''PrivateIsIn'', ''ProfilePoint'', ''PutById'',
     ''PutByIdLong'', ''PutByIdLoose'', ''PutByIdLooseLong'', ''PutByIdStrict'',
     ''PutByIdStrictLong'', ''PutByVal'', ''PutByValLoose'', ''PutByValStrict'',
     ''PutByValWithReceiver'', ''PutGetterSetter'', ''PutNewOwnById'', ''PutNewOwnByIdLong'',
     ''PutNewOwnByIdShort'', ''PutNewOwnNEById'', ''PutNewOwnNEByIdLong'', ''PutOwnById'',
     ''PutOwnByIdLong'', ''PutOwnByIdShort'', ''PutOwnByIndex'', ''PutOwnByIndexL'',
     ''PutOwnBySlotIdx'', ''PutOwnBySlotIdxLong'', ''PutOwnByVal'', ''PutOwnGetterSetterByVal'',
     ''PutOwnPrivateBySym'', ''RShift'', ''ReifyArguments'', ''ReifyArgumentsLoose'',
     ''ReifyArgumentsStrict'', ''ResumeGenerator'', ''Ret'', ''SaveGenerator'',
     ''SaveGeneratorLong'', ''SelectObject'', ''StartGenerator'', ''Store16'', ''Store32'',
     ''Store8'', ''StoreNPToEnvironment'', ''StoreNPToEnvironmentL'', ''StoreToEnvironment'',
     ''StoreToEnvironmentL'', ''StrictEq'', ''StrictNeq'', ''StringSwitchImm'', ''Sub'',
     ''Sub32'', ''SubN'', ''SwitchImm'', ''Throw'', ''ThrowIfEmpty'',
     ''ThrowIfHasRestrictedGlobalProperty'', ''ThrowIfThisInitialized'', ''ThrowIfUndefined'',
     ''ThrowIfUndefinedInst'', ''ToInt32'', ''ToNumber'', ''ToNumeric'', ''ToPropertyKey'',
     ''ToUint32'', ''TryGetById'', ''TryGetByIdLong'', ''TryPutById'', ''TryPutByIdLong'',
     ''TryPutByIdLoose'', ''TryPutByIdLooseLong'', ''TryPutByIdStrict'', ''TryPutByIdStrictLong'',
     ''TypeOf'', ''TypeOfIs'', ''TypedLoadParent'', ''TypedStoreParent'', ''UIntSwitchImm'',
     ''URshift'', ''Unreachable'', ''MethodCall'', ''Phi'']"

definition OPCODES :: "OpCode list" where
  "OPCODES =
    [OP_Add, OP_Add32, OP_AddEmptyString, OP_AddN, OP_AddOwnPrivateBySym, OP_AddS,
     OP_AsyncBreakCheck, OP_BitAnd, OP_BitNot, OP_BitOr, OP_BitXor, OP_CacheNewObject, OP_Call,
     OP_Call1, OP_Call2, OP_Call3, OP_Call4, OP_CallBuiltin, OP_CallBuiltinLong, OP_CallDirect,
     OP_CallDirectLongIndex, OP_CallLong, OP_CallRequire, OP_CallWithNewTarget,
     OP_CallWithNewTargetLong, OP_Catch, OP_CoerceThisNS, OP_CompleteGenerator, OP_Construct,
     OP_ConstructLong, OP_CreateAsyncClosure, OP_CreateAsyncClosureLongIndex, OP_CreateBaseClass,
     OP_CreateBaseClassLongIndex, OP_CreateClosure, OP_CreateClosureLongIndex,
     OP_CreateDerivedClass, OP_CreateDerivedClassLongIndex, OP_CreateEnvironment,
     OP_CreateFunctionEnvironment, OP_CreateGenerator, OP_CreateGeneratorClosure,
     OP_CreateGeneratorClosureLongIndex, OP_CreateGeneratorLongIndex, OP_CreateInnerEnvironment,
     OP_CreatePrivateName, OP_CreateRegExp, OP_CreateThis, OP_CreateThisForNew,
     OP_CreateThisForSuper, OP_CreateTopLevelEnvironment, OP_Debugger, OP_DebuggerCheckBreak,
     OP_Dec, OP_DeclareGlobalVar, OP_DefineOwnById, OP_DefineOwnByIdLong, OP_DefineOwnByIndex,
     OP_DefineOwnByIndexL, OP_DefineOwnByVal, OP_DefineOwnGetterSetterByVal,
     OP_DefineOwnInDenseArray, OP_DefineOwnInDenseArrayL, OP_DelById, OP_DelByIdLong,
     OP_DelByIdLoose, OP_DelByIdLooseLong, OP_DelByIdStrict, OP_DelByIdStrictLong, OP_DelByVal,
     OP_DelByValLoose, OP_DelByValStrict, OP_DirectEval, OP_Div, OP_DivN, OP_Divi32, OP_Divu32,
     OP_Eq, OP_FastArrayAppend, OP_FastArrayLength, OP_FastArrayLoad, OP_FastArrayPush,
     OP_FastArrayStore, OP_GetArgumentsLength, OP_GetArgumentsPropByVal,
     OP_GetArgumentsPropByValLoose, OP_GetArgumentsPropByValStrict, OP_GetBuiltinClosure,
     OP_GetById, OP_GetByIdLong, OP_GetByIdShort, OP_GetByIdWithReceiverLong, OP_GetByIndex,
     OP_GetByVal, OP_GetByValWithReceiver, OP_GetClosureEnvironment, OP_GetEnvironment,
     OP_GetGlobalObject, OP_GetNewTarget, OP_GetNextPName, OP_GetOwnBySlotIdx,
     OP_GetOwnBySlotIdxLong, OP_GetOwnPrivateBySym, OP_GetPNameList, OP_GetParentEnvironment,
     OP_Greater, OP_GreaterEq, OP_Inc, OP_InstanceOf, OP_IsIn, OP_IteratorBegin, OP_IteratorClose,
     OP_IteratorNext, OP_JEqual, OP_JEqualLong, OP_JGreater, OP_JGreaterEqual,
     OP_JGreaterEqualLong, OP_JGreaterEqualN, OP_JGreaterEqualNLong, OP_JGreaterLong,
     OP_JGreaterN, OP_JGreaterNLong, OP_JLess, OP_JLessEqual, OP_JLessEqualLong, OP_JLessEqualN,
     OP_JLessEqualNLong, OP_JLessLong, OP_JLessN, OP_JLessNLong, OP_JNotEqual, OP_JNotEqualLong,
     OP_JNotGreater, OP_JNotGreaterEqual, OP_JNotGreaterEqualLong, OP_JNotGreaterEqualN,
     OP_JNotGreaterEqualNLong, OP_JNotGreaterLong, OP_JNotGreaterN, OP_JNotGreaterNLong,
     OP_JNotLess, OP_JNotLessEqual, OP_JNotLessEqualLong, OP_JNotLessEqualN,
     OP_JNotLessEqualNLong, OP_JNotLessLong, OP_JNotLessN, OP_JNotLessNLong, OP_JStrictEqual,
     OP_JStrictEqualLong, OP_JStrictNotEqual, OP_JStrictNotEqualLong, OP_Jmp, OP_JmpBuiltinIs,
     OP_JmpBuiltinIsLong, OP_JmpBuiltinIsNot, OP_JmpBuiltinIsNotLong, OP_JmpFalse,
     OP_JmpFalseLong, OP_JmpLong, OP_JmpTrue, OP_JmpTrueLong, OP_JmpTypeOfIs, OP_JmpUndefined,
     OP_JmpUndefinedLong, OP_LShift, OP_Less, OP_LessEq, OP_LoadConstBigInt,
     OP_LoadConstBigIntLongIndex, OP_LoadConstDouble, OP_LoadConstEmpty, OP_LoadConstFalse,
     OP_LoadConstInt, OP_LoadConstNull, OP_LoadConstString, OP_LoadConstStringLongIndex,
     OP_LoadConstTrue, OP_LoadConstUInt8, OP_LoadConstUndefined, OP_LoadConstZero,
     OP_LoadFromEnvironment, OP_LoadFromEnvironmentL, OP_LoadParam, OP_LoadParamLong,
     OP_LoadParentNoTraps, OP_LoadThisNS, OP_Loadi16, OP_Loadi32, OP_Loadi8, OP_Loadu16,
     OP_Loadu32, OP_Loadu8, OP_Mod, OP_Mov, OP_MovLong, OP_Mul, OP_Mul32, OP_MulN, OP_Negate,
     OP_Neq, OP_NewArray, OP_NewArrayWithBuffer, OP_NewArrayWithBufferLong, OP_NewFastArray,
     OP_NewObject, OP_NewObjectWithBuffer, OP_NewObjectWithBufferAndParent,
     OP_NewObjectWithBufferLong, OP_NewObjectWithParent, OP_NewTypedObjectWithBuffer, OP_Not,
     OP_PrivateIsIn, OP_ProfilePoint, OP_PutById, OP_PutByIdLong, OP_PutByIdLoose,
     OP_PutByIdLooseLong, OP_PutByIdStrict, OP_PutByIdStrictLong, OP_PutByVal, OP_PutByValLoose,
     OP_PutByValStrict, OP_PutByValWithReceiver, OP_PutGetterSetter, OP_PutNewOwnById,
     OP_PutNewOwnByIdLong, OP_PutNewOwnByIdShort, OP_PutNewOwnNEById, OP_PutNewOwnNEByIdLong,
     OP_PutOwnById, OP_PutOwnByIdLong, OP_PutOwnByIdShort, OP_PutOwnByIndex, OP_PutOwnByIndexL,
     OP_PutOwnBySlotIdx, OP_PutOwnBySlotIdxLong, OP_PutOwnByVal, OP_PutOwnGetterSetterByVal,
     OP_PutOwnPrivateBySym, OP_RShift, OP_ReifyArguments, OP_ReifyArgumentsLoose,
     OP_ReifyArgumentsStrict, OP_ResumeGenerator, OP_Ret, OP_SaveGenerator, OP_SaveGeneratorLong,
     OP_SelectObject, OP_StartGenerator, OP_Store16, OP_Store32, OP_Store8,
     OP_StoreNPToEnvironment, OP_StoreNPToEnvironmentL, OP_StoreToEnvironment,
     OP_StoreToEnvironmentL, OP_StrictEq, OP_StrictNeq, OP_StringSwitchImm, OP_Sub, OP_Sub32,
     OP_SubN, OP_SwitchImm, OP_Throw, OP_ThrowIfEmpty, OP_ThrowIfHasRestrictedGlobalProperty,
     OP_ThrowIfThisInitialized, OP_ThrowIfUndefined, OP_ThrowIfUndefinedInst, OP_ToInt32,
     OP_ToNumber, OP_ToNumeric, OP_ToPropertyKey, OP_ToUint32, OP_TryGetById, OP_TryGetByIdLong,
     OP_TryPutById, OP_TryPutByIdLong, OP_TryPutByIdLoose, OP_TryPutByIdLooseLong,
     OP_TryPutByIdStrict, OP_TryPutByIdStrictLong, OP_TypeOf, OP_TypeOfIs, OP_TypedLoadParent,
     OP_TypedStoreParent, OP_UIntSwitchImm, OP_URshift, OP_Unreachable, OP_MethodCall, OP_Phi]"

fun OpCode_name :: "OpCode \<Rightarrow> string" where
  "OpCode_name (OpCode i) = OPCODE_NAMES ! i"

declare OpCode_name.simps [simp del]

lemma opcodes_upt: "OPCODES = map OpCode [0..<293]"
  by (simp add: OPCODES_def upt_rec [of 0] upt_rec [of "Suc 0"] upt_rec_numeral
      flip: numeral_2_eq_2)

lemma opcode_names: "map OpCode_name OPCODES = OPCODE_NAMES"
proof -
  have "length OPCODE_NAMES = 293" by (simp only: OPCODE_NAMES_def list.size)
  then show ?thesis unfolding opcodes_upt by (intro nth_equalityI) (simp_all add: OpCode_name.simps)
qed

lemmas opcode_name = opcode_names [unfolded OPCODES_def OPCODE_NAMES_def list.map list.inject
  simp_thms]


section \<open>Operand types\<close>

datatype OpType = OT_R | OT_R4 | OT_U1 | OT_U2 | OT_U4 | OT_A1 | OT_A4 | OT_I4 | OT_D

fun byte_size :: "OpType \<Rightarrow> usize" where
  "byte_size OT_R = 1"
| "byte_size OT_U1 = 1"
| "byte_size OT_A1 = 1"
| "byte_size OT_U2 = 2"
| "byte_size OT_R4 = 4"
| "byte_size OT_U4 = 4"
| "byte_size OT_A4 = 4"
| "byte_size OT_I4 = 4"
| "byte_size OT_D = 8"

section \<open>Agreement of the tables of a version\<close>

text \<open>
  The size of an instruction is its opcode byte and its operands, and the operand a
  string table names (by position, or by byte offset and width) is an unsigned one at that place.
\<close>

definition size_matches :: "u8 \<Rightarrow> OpType list \<Rightarrow> bool" where
  "size_matches sz ts \<longleftrightarrow> unat sz = 1 + sum_list (map byte_size ts)"

definition operand_is :: "OpType list \<Rightarrow> (u8 \<times> u8) \<times> u8 \<Rightarrow> bool" where
  "operand_is ts q \<longleftrightarrow> (case q of ((off, width), i) \<Rightarrow>
     unat i < length ts \<and> ts ! unat i \<in> {OT_U1, OT_U2, OT_U4}
     \<and> unat off = 1 + sum_list (map byte_size (take (unat i) ts))
     \<and> unat width = byte_size (ts ! unat i))"

fun operand_at :: "OpType list \<Rightarrow> nat \<Rightarrow> nat \<Rightarrow> nat \<Rightarrow> bool" where
  "operand_at [] pos off width \<longleftrightarrow> False"
| "operand_at (t # ts) pos off width \<longleftrightarrow>
     (if pos = off then t \<in> {OT_U1, OT_U2, OT_U4} \<and> byte_size t = width
      else operand_at ts (pos + byte_size t) off width)"

definition at_offset :: "OpType list \<Rightarrow> u8 \<times> u8 \<Rightarrow> bool" where
  "at_offset ts q \<longleftrightarrow> operand_at ts 1 (unat (fst q)) (unat (snd q))"

text \<open>A table keyed by opcodes holds of the entries it points at.\<close>

definition points_at :: "('t \<Rightarrow> 'q \<Rightarrow> bool) \<Rightarrow> 't list \<Rightarrow> (u8 \<times> 'q) list \<Rightarrow> bool" where
  "points_at P tss qs \<longleftrightarrow> list_all (\<lambda>(op, q). unat op < length tss \<and> P (tss ! unat op) q) qs"

text \<open>
  Where an instruction carries addresses: a jump or a generator resume has one, as its first
  operand; a switch has the operands its decoding in the control flow graph expects.
\<close>

datatype branch_class = BC_StringSwitch | BC_Switch | BC_Address | BC_Plain

definition branch_class :: "string \<Rightarrow> branch_class" where
  "branch_class name =
     (if name = ''StringSwitchImm'' then BC_StringSwitch
      else if name = ''SwitchImm'' \<or> name = ''UIntSwitchImm'' then BC_Switch
      else if take 1 name = ''J'' \<or> name = ''SaveGenerator'' \<or> name = ''SaveGeneratorLong''
      then BC_Address else BC_Plain)"

definition is_addr :: "OpType \<Rightarrow> bool" where
  "is_addr t \<longleftrightarrow> t = OT_A1 \<or> t = OT_A4"

fun class_schema :: "branch_class \<Rightarrow> OpType list \<Rightarrow> bool" where
  "class_schema BC_StringSwitch ts \<longleftrightarrow> ts = [OT_R, OT_U4, OT_U4, OT_A4, OT_U4]"
| "class_schema BC_Switch ts \<longleftrightarrow> ts = [OT_R, OT_U4, OT_A4, OT_U4, OT_U4]"
| "class_schema BC_Address ts \<longleftrightarrow> (case ts of [] \<Rightarrow> False | t # us \<Rightarrow> is_addr t \<and> list_all (\<lambda>t. \<not> is_addr t) us)"
| "class_schema BC_Plain ts \<longleftrightarrow> list_all (\<lambda>t. \<not> is_addr t) ts"

text \<open>
  The opcodes that create a closure, by name, with the place of the function index, as the
  scanner expects it (\<open>scanner.rs\<close>).
\<close>

fun starts_with :: "string \<Rightarrow> string \<Rightarrow> bool" where
  "starts_with s [] \<longleftrightarrow> True"
| "starts_with [] (p # ps) \<longleftrightarrow> False"
| "starts_with (c # cs) (p # ps) \<longleftrightarrow> (if c = p then starts_with cs ps else False)"

definition ends_with :: "string \<Rightarrow> string \<Rightarrow> bool" where
  "ends_with s p \<longleftrightarrow> starts_with (rev s) (rev p)"

definition closure_operand :: "string \<Rightarrow> (u8 \<times> u8) option" where
  "closure_operand name =
     (if starts_with name ''CreateClosure'' \<or> starts_with name ''CreateAsyncClosure''
         \<or> starts_with name ''CreateGeneratorClosure'' \<or> name = ''CreateGenerator''
         \<or> name = ''CreateGeneratorLongIndex''
      then Some (3, if ends_with name ''LongIndex'' \<or> ends_with name ''Long'' then 4 else 2)
      else None)"

text \<open>
  The operand that is a function index: that of a closure, or the callee of a direct call. A table
  of function operands is empty or has one entry for each of the instructions with such an operand,
  in the order of their opcodes.
\<close>

definition function_operand :: "string \<Rightarrow> (u8 \<times> u8) option" where
  "function_operand name = (if name = ''CallDirect'' then Some (3, 2) else closure_operand name)"

definition function_operand_is :: "string \<times> OpType list \<Rightarrow> u8 \<Rightarrow> bool" where
  "function_operand_is schema i \<longleftrightarrow> (case function_operand (fst schema) of
     None \<Rightarrow> False | Some q \<Rightarrow> operand_is (snd schema) (q, i))"

fun function_opcodes :: "nat \<Rightarrow> string list \<Rightarrow> nat list" where
  "function_opcodes k [] = []"
| "function_opcodes k (name # names) =
     (if function_operand name = None then function_opcodes (k + 1) names
      else k # function_opcodes (k + 1) names)"

definition schema_matches :: "branch_class \<times> (u8 \<times> u8) option \<Rightarrow> OpType list \<Rightarrow> bool" where
  "schema_matches traits ts \<longleftrightarrow> class_schema (fst traits) ts
     \<and> (case snd traits of None \<Rightarrow> True | Some q \<Rightarrow> at_offset ts q)"

record version_tables =
  vt_opcodes :: "OpCode list"
  vt_sizes :: "u8 list"
  vt_str_ops :: "(u8 \<times> u8 \<times> u8) list"
  vt_call_ops :: "(u8 \<times> u8 \<times> u8) list"
  vt_names :: "string list"
  vt_schemas :: "(string \<times> OpType list) list"
  vt_string_ids :: "(u8 \<times> u8) list"
  vt_func_ids :: "(u8 \<times> u8) list"

text \<open>The specification of a version's tables.\<close>

definition tables_agree :: "version_tables \<Rightarrow> bool" where
  "tables_agree t \<longleftrightarrow> (let types = map snd (vt_schemas t) in
     length (vt_opcodes t) \<le> 256 \<and> set (vt_opcodes t) \<subseteq> set OPCODES
     \<and> vt_names t = map OpCode_name (vt_opcodes t) \<and> map fst (vt_schemas t) = vt_names t
     \<and> list_all2 size_matches (vt_sizes t) types
     \<and> map fst (vt_string_ids t) = map fst (vt_str_ops t)
     \<and> points_at operand_is types (map2 (\<lambda>(op, q) (_, i). (op, q, i)) (vt_str_ops t) (vt_string_ids t))
     \<and> points_at at_offset types (vt_call_ops t)
     \<and> points_at function_operand_is (vt_schemas t) (vt_func_ids t)
     \<and> (vt_func_ids t = [] \<or> map (\<lambda>(op, i). unat op) (vt_func_ids t) = function_opcodes 0 (vt_names t))
     \<and> list_all2 (\<lambda>name. schema_matches (branch_class name, closure_operand name)) (vt_names t) types)"

section \<open>Checking the tables\<close>

text \<open>The checks are made in one pass over the schemas, by discriminant instead of name.\<close>

fun walk :: "('t \<Rightarrow> 'q \<Rightarrow> bool) \<Rightarrow> nat \<Rightarrow> 't list \<Rightarrow> (u8 \<times> 'q) list \<Rightarrow> bool" where
  "walk P i tss [] \<longleftrightarrow> True"
| "walk P i [] (q # qs) \<longleftrightarrow> False"
| "walk P i (ts # tss) (q # qs) \<longleftrightarrow>
     (if unat (fst q) = i then if P ts (snd q) then walk P i (ts # tss) qs else False
      else walk P (i + 1) tss (q # qs))"

lemma walk_points_at:
  "walk P i tss qs \<Longrightarrow> list_all (\<lambda>(op, q). i \<le> unat op \<and> unat op - i < length tss \<and> P (tss ! (unat op - i)) q) qs"
proof (induction P i tss qs rule: walk.induct)
  case (3 P i ts tss q qs)
  show ?case
  proof (cases "unat (fst q) = i")
    case True
    with 3 show ?thesis by (auto split: if_splits)
  next
    case False
    with 3 have "list_all (\<lambda>(op, q). i + 1 \<le> unat op \<and> unat op - (i + 1) < length tss
        \<and> P (tss ! (unat op - (i + 1))) q) (q # qs)" by simp
    moreover have "i \<le> unat op \<and> unat op - i < length (ts # tss) \<and> P ((ts # tss) ! (unat op - i)) x"
      if "i + 1 \<le> unat op \<and> unat op - (i + 1) < length tss \<and> P (tss ! (unat op - (i + 1))) x"
      for op :: u8 and x
    proof -
      have "unat op - i = Suc (unat op - (i + 1))" using that by arith
      then show ?thesis using that by simp
    qed
    ultimately show ?thesis by (auto simp: list_all_iff)
  qed
qed simp_all

lemma walk_points: "walk P 0 tss qs \<Longrightarrow> points_at P tss qs"
  using walk_points_at [of P 0 tss qs] by (simp add: points_at_def)

fun opcode_traits :: "OpCode \<Rightarrow> branch_class \<times> (u8 \<times> u8) option" where
  "opcode_traits (OpCode i) = 
     (if i < 30 then (BC_Plain, None)
      else if i < 31 then (BC_Plain, Some (3, 2))
      else if i < 32 then (BC_Plain, Some (3, 4))
      else if i < 34 then (BC_Plain, None)
      else if i < 35 then (BC_Plain, Some (3, 2))
      else if i < 36 then (BC_Plain, Some (3, 4))
      else if i < 40 then (BC_Plain, None)
      else if i < 42 then (BC_Plain, Some (3, 2))
      else if i < 44 then (BC_Plain, Some (3, 4))
      else if i < 113 then (BC_Plain, None)
      else if i < 166 then (BC_Address, None)
      else if i < 247 then (BC_Plain, None)
      else if i < 249 then (BC_Address, None)
      else if i < 260 then (BC_Plain, None)
      else if i < 261 then (BC_StringSwitch, None)
      else if i < 264 then (BC_Plain, None)
      else if i < 265 then (BC_Switch, None)
      else if i < 288 then (BC_Plain, None)
      else if i < 289 then (BC_Switch, None)
      else (BC_Plain, None))"

lemma name_traits:
  "map (\<lambda>n. (branch_class n, closure_operand n)) OPCODE_NAMES = map opcode_traits OPCODES"
  by (simp add: OPCODES_def OPCODE_NAMES_def branch_class_def closure_operand_def ends_with_def)

lemma opcode_traits:
  "op \<in> set OPCODES \<Longrightarrow> opcode_traits op = (branch_class (OpCode_name op), closure_operand (OpCode_name op))"
  using name_traits unfolding opcode_names [symmetric] by simp

fun function_place :: "OpCode \<Rightarrow> (u8 \<times> u8) option" where
  "function_place (OpCode i) =
     (if i < 30 then if i = 19 then Some (3, 2) else None
      else if i < 44 then
        if i = 30 \<or> i = 34 \<or> i = 40 \<or> i = 41 then Some (3, 2)
        else if i = 31 \<or> i = 35 \<or> i = 42 \<or> i = 43 then Some (3, 4) else None
      else None)"

lemma name_function_place: "map function_operand OPCODE_NAMES = map function_place OPCODES"
  by (simp add: OPCODES_def OPCODE_NAMES_def function_operand_def closure_operand_def ends_with_def)

lemma function_place: "op \<in> set OPCODES \<Longrightarrow> function_operand (OpCode_name op) = function_place op"
  using name_function_place unfolding opcode_names [symmetric] by simp

fun check_functions :: "nat \<Rightarrow> OpCode list \<Rightarrow> OpType list list \<Rightarrow> (u8 \<times> u8) list \<Rightarrow> bool" where
  "check_functions k [] [] qs \<longleftrightarrow> qs = []"
| "check_functions k (op # ops) (ts # tss) qs \<longleftrightarrow>
     (case function_place op of
        None \<Rightarrow> check_functions (k + 1) ops tss qs
      | Some p \<Rightarrow>
          (case qs of
             [] \<Rightarrow> False
           | q # qs' \<Rightarrow>
               if unat (fst q) = k then if operand_is ts (p, snd q) then check_functions (k + 1) ops tss qs' else False
               else False))"
| "check_functions _ _ _ _ \<longleftrightarrow> False"

lemma check_functions:
  assumes "check_functions k ops tss qs" "set ops \<subseteq> set OPCODES" "map fst schemas = map OpCode_name ops" "map snd schemas = tss"
  shows "map (\<lambda>(op, i). unat op) qs = function_opcodes k (map OpCode_name ops)
    \<and> list_all (\<lambda>(op, i). k \<le> unat op \<and> unat op - k < length schemas \<and> function_operand_is (schemas ! (unat op - k)) i) qs"
  using assms
proof (induction k ops tss qs arbitrary: schemas rule: check_functions.induct)
  case (2 k op ops ts tss qs)
  obtain schemas' where schemas: "schemas = (OpCode_name op, ts) # schemas'" "map fst schemas' = map OpCode_name ops"
    "map snd schemas' = tss"
    using "2.prems"(3,4) by (cases schemas) auto
  have place: "function_operand (OpCode_name op) = function_place op" using function_place "2.prems"(2) by simp
  have later: "k \<le> unat o' \<and> unat o' - k < length schemas \<and> function_operand_is (schemas ! (unat o' - k)) i"
    if "k + 1 \<le> unat o' \<and> unat o' - (k + 1) < length schemas' \<and> function_operand_is (schemas' ! (unat o' - (k + 1))) i"
    for o' :: u8 and i
  proof -
    have "unat o' - k = Suc (unat o' - (k + 1))" using that by arith
    then show ?thesis using that by (simp add: schemas)
  qed
  show ?case
  proof (cases "function_place op")
    case None
    from "2.IH"(1) [OF None _ _ schemas(2,3)] "2.prems"(1,2) None
    have "map (\<lambda>(op, i). unat op) qs = function_opcodes (k + 1) (map OpCode_name ops)
      \<and> list_all (\<lambda>(op, i). k + 1 \<le> unat op \<and> unat op - (k + 1) < length schemas'
          \<and> function_operand_is (schemas' ! (unat op - (k + 1))) i) qs" by simp
    then show ?thesis using later None by (auto simp: place list_all_iff)
  next
    case (Some p)
    then obtain q qs' where q: "qs = q # qs'" "unat (fst q) = k" "operand_is ts (p, snd q)"
      "check_functions (k + 1) ops tss qs'"
      using "2.prems"(1) by (auto split: list.splits if_splits)
    from "2.IH"(2) [OF Some q(1-4) _ schemas(2,3)] "2.prems"(2)
    have "map (\<lambda>(op, i). unat op) qs' = function_opcodes (k + 1) (map OpCode_name ops)
      \<and> list_all (\<lambda>(op, i). k + 1 \<le> unat op \<and> unat op - (k + 1) < length schemas'
          \<and> function_operand_is (schemas' ! (unat op - (k + 1))) i) qs'" by simp
    moreover have "function_operand_is (schemas ! 0) (snd q)"
      using Some q(3) by (simp add: schemas function_operand_is_def place)
    moreover have "k \<le> unat (fst x) \<and> unat (fst x) - k < length schemas
        \<and> function_operand_is (schemas ! (unat (fst x) - k)) (snd x)" if "x \<in> set qs'" for x
      using later [of "fst x" "snd x"] calculation(1) that by (auto simp: list_all_iff split_def)
    ultimately show ?thesis using Some q(2) by (simp add: place q(1) list_all_iff schemas(1) split_def)
  qed
qed simp_all

fun check3 :: "OpCode list \<Rightarrow> u8 list \<Rightarrow> OpType list list \<Rightarrow> bool" where
  "check3 [] [] [] \<longleftrightarrow> True"
| "check3 (op # ops) (sz # szs) (ts # tss) \<longleftrightarrow>
     (if size_matches sz ts then if schema_matches (opcode_traits op) ts then check3 ops szs tss else False
      else False)"
| "check3 _ _ _ \<longleftrightarrow> False"

lemma check3_all2:
  "check3 ops szs tss \<Longrightarrow> list_all2 size_matches szs tss \<and> list_all2 (\<lambda>op. schema_matches (opcode_traits op)) ops tss"
  by (induction ops szs tss rule: check3.induct) (auto split: if_splits)

lemma tables_agreeI:
  assumes "length ops \<le> 256" "set ops \<subseteq> set OPCODES" "names = map OpCode_name ops" "map fst schemas = names"
    "map snd schemas = types" "check3 ops sizes types" "map fst string_ids = map fst str_ops"
    "walk operand_is 0 types (map2 (\<lambda>(op, q) (_, i). (op, q, i)) str_ops string_ids)"
    "walk at_offset 0 types call_ops" "func_ids = [] \<or> check_functions 0 ops types func_ids"
  shows "tables_agree \<lparr>vt_opcodes = ops, vt_sizes = sizes, vt_str_ops = str_ops, vt_call_ops = call_ops,
    vt_names = names, vt_schemas = schemas, vt_string_ids = string_ids, vt_func_ids = func_ids\<rparr>"
proof -
  have "opcode_traits op = (branch_class (OpCode_name op), closure_operand (OpCode_name op))"
    if "op \<in> set ops" for op
    using opcode_traits assms(2) that by auto
  then have "list_all2 (\<lambda>name. schema_matches (branch_class name, closure_operand name)) names types"
    using check3_all2 [OF assms(6)] unfolding assms(3) list_all2_map1
    by (auto elim: list_all2_mono simp: list_all2_conv_all_nth)
  moreover have "points_at function_operand_is schemas func_ids
      \<and> (func_ids = [] \<or> map (\<lambda>(op, i). unat op) func_ids = function_opcodes 0 names)"
    using assms(10) check_functions [of 0 ops types func_ids schemas] assms(2-5)
    by (auto simp: points_at_def list_all_iff)
  ultimately show ?thesis
    using assms check3_all2 [OF assms(6)] walk_points [OF assms(8)] walk_points [OF assms(9)]
    by (simp add: tables_agree_def)
qed

lemmas table_checks = size_matches_def schema_matches_def operand_is_def at_offset_def is_addr_def

end
