(* ===== verification/Hermes_Tables_A.thy ===== *)
theory Hermes_Tables_A
  imports Hermes_Opcodes
begin

text \<open>
  The tables of \<open>opcodes.rs\<close> and \<open>decompile/schemas.rs\<close> for the bytecode versions 40 to 58, and the
  proof that those of each version agree.
\<close>

subsection \<open>Version 40\<close>

definition V40_OPCODES :: "OpCode list" where
  "V40_OPCODES =
    [OP_NewObjectWithBuffer, OP_NewObjectWithBufferLong, OP_NewObject, OP_NewArrayWithBuffer,
     OP_NewArrayWithBufferLong, OP_NewArray, OP_Mov, OP_MovLong, OP_Negate, OP_Not, OP_BitNot,
     OP_TypeOf, OP_Eq, OP_StrictEq, OP_Neq, OP_StrictNeq, OP_Less, OP_LessEq, OP_Greater,
     OP_GreaterEq, OP_Add, OP_AddN, OP_Mul, OP_MulN, OP_Div, OP_DivN, OP_Mod, OP_Sub, OP_SubN,
     OP_LShift, OP_RShift, OP_URshift, OP_BitAnd, OP_BitXor, OP_BitOr, OP_InstanceOf, OP_IsIn,
     OP_GetEnvironment, OP_StoreToEnvironment, OP_StoreToEnvironmentL, OP_StoreNPToEnvironment,
     OP_StoreNPToEnvironmentL, OP_LoadFromEnvironment, OP_LoadFromEnvironmentL,
     OP_GetGlobalObject, OP_CreateEnvironment, OP_DeclareGlobalVar, OP_GetByIdShort, OP_GetById,
     OP_GetByIdLong, OP_TryGetById, OP_TryGetByIdLong, OP_PutById, OP_PutByIdLong, OP_TryPutById,
     OP_TryPutByIdLong, OP_PutOwnByIdShort, OP_PutOwnById, OP_PutOwnByIdLong, OP_PutOwnByIndex,
     OP_PutOwnByIndexL, OP_DelById, OP_DelByIdLong, OP_GetByVal, OP_PutByVal, OP_DelByVal,
     OP_PutGetterSetter, OP_GetPNameList, OP_GetNextPName, OP_Call, OP_Construct, OP_CallDirect,
     OP_CallLong, OP_ConstructLong, OP_CallDirectLongIndex, OP_CallBuiltin, OP_Ret, OP_Catch,
     OP_DirectEval, OP_Throw, OP_Debugger, OP_DebuggerCheckBreak, OP_ProfilePoint, OP_Unreachable,
     OP_CreateClosure, OP_CreateClosureLongIndex, OP_CreateThis, OP_SelectObject, OP_LoadParam,
     OP_LoadParamLong, OP_LoadConstUInt8, OP_LoadConstInt, OP_LoadConstDouble, OP_LoadConstString,
     OP_LoadConstStringLongIndex, OP_LoadConstUndefined, OP_LoadConstNull, OP_LoadConstTrue,
     OP_LoadConstFalse, OP_LoadConstZero, OP_CoerceThisNS, OP_LoadThisNS, OP_ToNumber, OP_ToInt32,
     OP_AddEmptyString, OP_GetArgumentsPropByVal, OP_GetArgumentsLength, OP_ReifyArguments,
     OP_CreateRegExp, OP_SwitchImm, OP_Jmp, OP_JmpLong, OP_JmpTrue, OP_JmpTrueLong, OP_JmpFalse,
     OP_JmpFalseLong, OP_JmpUndefined, OP_JmpUndefinedLong, OP_JLess, OP_JLessLong, OP_JNotLess,
     OP_JNotLessLong, OP_JLessN, OP_JLessNLong, OP_JNotLessN, OP_JNotLessNLong, OP_JLessEqual,
     OP_JLessEqualLong, OP_JNotLessEqual, OP_JNotLessEqualLong, OP_JLessEqualN,
     OP_JLessEqualNLong, OP_JNotLessEqualN, OP_JNotLessEqualNLong, OP_JGreater, OP_JGreaterLong,
     OP_JNotGreater, OP_JNotGreaterLong, OP_JGreaterN, OP_JGreaterNLong, OP_JNotGreaterN,
     OP_JNotGreaterNLong, OP_JGreaterEqual, OP_JGreaterEqualLong, OP_JNotGreaterEqual,
     OP_JNotGreaterEqualLong, OP_JGreaterEqualN, OP_JGreaterEqualNLong, OP_JNotGreaterEqualN,
     OP_JNotGreaterEqualNLong, OP_JEqual, OP_JEqualLong, OP_JNotEqual, OP_JNotEqualLong,
     OP_JStrictEqual, OP_JStrictEqualLong, OP_JStrictNotEqual, OP_JStrictNotEqualLong]"

definition V40_SIZES :: "u8 list" where
  "V40_SIZES =
    [10, 14, 2, 8, 10, 4, 3, 9, 3, 3, 3, 3, 4, 4, 4, 4, 4, 4, 4, 4, 4, 4, 4, 4, 4, 4, 4, 4, 4, 4,
     4, 4, 4, 4, 4, 4, 4, 3, 4, 5, 4, 5, 4, 5, 2, 2, 5, 5, 6, 8, 6, 8, 6, 8, 6, 8, 4, 5, 7, 4, 7,
     5, 7, 4, 4, 4, 8, 5, 6, 4, 4, 5, 7, 7, 7, 4, 2, 2, 3, 2, 1, 1, 3, 1, 5, 7, 4, 4, 3, 6, 3, 6,
     10, 4, 6, 2, 2, 2, 2, 2, 3, 2, 3, 3, 3, 4, 3, 2, 14, 18, 2, 5, 3, 6, 3, 6, 3, 6, 4, 7, 4, 7,
     4, 7, 4, 7, 4, 7, 4, 7, 4, 7, 4, 7, 4, 7, 4, 7, 4, 7, 4, 7, 4, 7, 4, 7, 4, 7, 4, 7, 4, 7, 4,
     7, 4, 7, 4, 7]"

definition V40_STR_OPS :: "(u8 \<times> u8 \<times> u8) list" where
  "V40_STR_OPS =
    [(46, 1, 4), (47, 4, 1), (48, 4, 2), (49, 4, 4), (50, 4, 2), (51, 4, 4), (52, 4, 2),
     (53, 4, 4), (54, 4, 2), (55, 4, 4), (56, 3, 1), (57, 3, 2), (58, 3, 4), (61, 3, 2),
     (62, 3, 4), (66, 2, 4), (93, 2, 2), (94, 2, 4), (108, 6, 4)]"

definition V40_CALL_OPS :: "(u8 \<times> u8 \<times> u8) list" where
  "V40_CALL_OPS =
    [(71, 3, 2), (74, 3, 4)]"

definition V40_NAMES :: "string list" where
  "V40_NAMES =
    [''NewObjectWithBuffer'', ''NewObjectWithBufferLong'', ''NewObject'', ''NewArrayWithBuffer'',
     ''NewArrayWithBufferLong'', ''NewArray'', ''Mov'', ''MovLong'', ''Negate'', ''Not'',
     ''BitNot'', ''TypeOf'', ''Eq'', ''StrictEq'', ''Neq'', ''StrictNeq'', ''Less'', ''LessEq'',
     ''Greater'', ''GreaterEq'', ''Add'', ''AddN'', ''Mul'', ''MulN'', ''Div'', ''DivN'', ''Mod'',
     ''Sub'', ''SubN'', ''LShift'', ''RShift'', ''URshift'', ''BitAnd'', ''BitXor'', ''BitOr'',
     ''InstanceOf'', ''IsIn'', ''GetEnvironment'', ''StoreToEnvironment'',
     ''StoreToEnvironmentL'', ''StoreNPToEnvironment'', ''StoreNPToEnvironmentL'',
     ''LoadFromEnvironment'', ''LoadFromEnvironmentL'', ''GetGlobalObject'',
     ''CreateEnvironment'', ''DeclareGlobalVar'', ''GetByIdShort'', ''GetById'', ''GetByIdLong'',
     ''TryGetById'', ''TryGetByIdLong'', ''PutById'', ''PutByIdLong'', ''TryPutById'',
     ''TryPutByIdLong'', ''PutOwnByIdShort'', ''PutOwnById'', ''PutOwnByIdLong'',
     ''PutOwnByIndex'', ''PutOwnByIndexL'', ''DelById'', ''DelByIdLong'', ''GetByVal'',
     ''PutByVal'', ''DelByVal'', ''PutGetterSetter'', ''GetPNameList'', ''GetNextPName'',
     ''Call'', ''Construct'', ''CallDirect'', ''CallLong'', ''ConstructLong'',
     ''CallDirectLongIndex'', ''CallBuiltin'', ''Ret'', ''Catch'', ''DirectEval'', ''Throw'',
     ''Debugger'', ''DebuggerCheckBreak'', ''ProfilePoint'', ''Unreachable'', ''CreateClosure'',
     ''CreateClosureLongIndex'', ''CreateThis'', ''SelectObject'', ''LoadParam'',
     ''LoadParamLong'', ''LoadConstUInt8'', ''LoadConstInt'', ''LoadConstDouble'',
     ''LoadConstString'', ''LoadConstStringLongIndex'', ''LoadConstUndefined'', ''LoadConstNull'',
     ''LoadConstTrue'', ''LoadConstFalse'', ''LoadConstZero'', ''CoerceThisNS'', ''LoadThisNS'',
     ''ToNumber'', ''ToInt32'', ''AddEmptyString'', ''GetArgumentsPropByVal'',
     ''GetArgumentsLength'', ''ReifyArguments'', ''CreateRegExp'', ''SwitchImm'', ''Jmp'',
     ''JmpLong'', ''JmpTrue'', ''JmpTrueLong'', ''JmpFalse'', ''JmpFalseLong'', ''JmpUndefined'',
     ''JmpUndefinedLong'', ''JLess'', ''JLessLong'', ''JNotLess'', ''JNotLessLong'', ''JLessN'',
     ''JLessNLong'', ''JNotLessN'', ''JNotLessNLong'', ''JLessEqual'', ''JLessEqualLong'',
     ''JNotLessEqual'', ''JNotLessEqualLong'', ''JLessEqualN'', ''JLessEqualNLong'',
     ''JNotLessEqualN'', ''JNotLessEqualNLong'', ''JGreater'', ''JGreaterLong'', ''JNotGreater'',
     ''JNotGreaterLong'', ''JGreaterN'', ''JGreaterNLong'', ''JNotGreaterN'',
     ''JNotGreaterNLong'', ''JGreaterEqual'', ''JGreaterEqualLong'', ''JNotGreaterEqual'',
     ''JNotGreaterEqualLong'', ''JGreaterEqualN'', ''JGreaterEqualNLong'', ''JNotGreaterEqualN'',
     ''JNotGreaterEqualNLong'', ''JEqual'', ''JEqualLong'', ''JNotEqual'', ''JNotEqualLong'',
     ''JStrictEqual'', ''JStrictEqualLong'', ''JStrictNotEqual'', ''JStrictNotEqualLong'']"

definition V40_SCHEMAS :: "(string \<times> OpType list) list" where
  "V40_SCHEMAS =
    [(''NewObjectWithBuffer'', [OT_R, OT_U2, OT_U2, OT_U2, OT_U2]),
     (''NewObjectWithBufferLong'', [OT_R, OT_U2, OT_U2, OT_U4, OT_U4]), (''NewObject'', [OT_R]),
     (''NewArrayWithBuffer'', [OT_R, OT_U2, OT_U2, OT_U2]),
     (''NewArrayWithBufferLong'', [OT_R, OT_U2, OT_U2, OT_U4]), (''NewArray'', [OT_R, OT_U2]),
     (''Mov'', [OT_R, OT_R]), (''MovLong'', [OT_R4, OT_R4]), (''Negate'', [OT_R, OT_R]),
     (''Not'', [OT_R, OT_R]), (''BitNot'', [OT_R, OT_R]), (''TypeOf'', [OT_R, OT_R]),
     (''Eq'', [OT_R, OT_R, OT_R]), (''StrictEq'', [OT_R, OT_R, OT_R]),
     (''Neq'', [OT_R, OT_R, OT_R]), (''StrictNeq'', [OT_R, OT_R, OT_R]),
     (''Less'', [OT_R, OT_R, OT_R]), (''LessEq'', [OT_R, OT_R, OT_R]),
     (''Greater'', [OT_R, OT_R, OT_R]), (''GreaterEq'', [OT_R, OT_R, OT_R]),
     (''Add'', [OT_R, OT_R, OT_R]), (''AddN'', [OT_R, OT_R, OT_R]), (''Mul'', [OT_R, OT_R, OT_R]),
     (''MulN'', [OT_R, OT_R, OT_R]), (''Div'', [OT_R, OT_R, OT_R]),
     (''DivN'', [OT_R, OT_R, OT_R]), (''Mod'', [OT_R, OT_R, OT_R]), (''Sub'', [OT_R, OT_R, OT_R]),
     (''SubN'', [OT_R, OT_R, OT_R]), (''LShift'', [OT_R, OT_R, OT_R]),
     (''RShift'', [OT_R, OT_R, OT_R]), (''URshift'', [OT_R, OT_R, OT_R]),
     (''BitAnd'', [OT_R, OT_R, OT_R]), (''BitXor'', [OT_R, OT_R, OT_R]),
     (''BitOr'', [OT_R, OT_R, OT_R]), (''InstanceOf'', [OT_R, OT_R, OT_R]),
     (''IsIn'', [OT_R, OT_R, OT_R]), (''GetEnvironment'', [OT_R, OT_U1]),
     (''StoreToEnvironment'', [OT_R, OT_U1, OT_R]),
     (''StoreToEnvironmentL'', [OT_R, OT_U2, OT_R]),
     (''StoreNPToEnvironment'', [OT_R, OT_U1, OT_R]),
     (''StoreNPToEnvironmentL'', [OT_R, OT_U2, OT_R]),
     (''LoadFromEnvironment'', [OT_R, OT_R, OT_U1]),
     (''LoadFromEnvironmentL'', [OT_R, OT_R, OT_U2]), (''GetGlobalObject'', [OT_R]),
     (''CreateEnvironment'', [OT_R]), (''DeclareGlobalVar'', [OT_U4]),
     (''GetByIdShort'', [OT_R, OT_R, OT_U1, OT_U1]), (''GetById'', [OT_R, OT_R, OT_U1, OT_U2]),
     (''GetByIdLong'', [OT_R, OT_R, OT_U1, OT_U4]), (''TryGetById'', [OT_R, OT_R, OT_U1, OT_U2]),
     (''TryGetByIdLong'', [OT_R, OT_R, OT_U1, OT_U4]), (''PutById'', [OT_R, OT_R, OT_U1, OT_U2]),
     (''PutByIdLong'', [OT_R, OT_R, OT_U1, OT_U4]), (''TryPutById'', [OT_R, OT_R, OT_U1, OT_U2]),
     (''TryPutByIdLong'', [OT_R, OT_R, OT_U1, OT_U4]), (''PutOwnByIdShort'', [OT_R, OT_R, OT_U1]),
     (''PutOwnById'', [OT_R, OT_R, OT_U2]), (''PutOwnByIdLong'', [OT_R, OT_R, OT_U4]),
     (''PutOwnByIndex'', [OT_R, OT_R, OT_U1]), (''PutOwnByIndexL'', [OT_R, OT_R, OT_U4]),
     (''DelById'', [OT_R, OT_R, OT_U2]), (''DelByIdLong'', [OT_R, OT_R, OT_U4]),
     (''GetByVal'', [OT_R, OT_R, OT_R]), (''PutByVal'', [OT_R, OT_R, OT_R]),
     (''DelByVal'', [OT_R, OT_R, OT_R]), (''PutGetterSetter'', [OT_R, OT_U4, OT_R, OT_R]),
     (''GetPNameList'', [OT_R, OT_R, OT_R, OT_R]),
     (''GetNextPName'', [OT_R, OT_R, OT_R, OT_R, OT_R]), (''Call'', [OT_R, OT_R, OT_U1]),
     (''Construct'', [OT_R, OT_R, OT_U1]), (''CallDirect'', [OT_R, OT_U1, OT_U2]),
     (''CallLong'', [OT_R, OT_R, OT_U4]), (''ConstructLong'', [OT_R, OT_R, OT_U4]),
     (''CallDirectLongIndex'', [OT_R, OT_U1, OT_U4]), (''CallBuiltin'', [OT_R, OT_U1, OT_U1]),
     (''Ret'', [OT_R]), (''Catch'', [OT_R]), (''DirectEval'', [OT_R, OT_R]), (''Throw'', [OT_R]),
     (''Debugger'', []), (''DebuggerCheckBreak'', []), (''ProfilePoint'', [OT_U2]),
     (''Unreachable'', []), (''CreateClosure'', [OT_R, OT_R, OT_U2]),
     (''CreateClosureLongIndex'', [OT_R, OT_R, OT_U4]), (''CreateThis'', [OT_R, OT_R, OT_R]),
     (''SelectObject'', [OT_R, OT_R, OT_R]), (''LoadParam'', [OT_R, OT_U1]),
     (''LoadParamLong'', [OT_R, OT_U4]), (''LoadConstUInt8'', [OT_R, OT_U1]),
     (''LoadConstInt'', [OT_R, OT_I4]), (''LoadConstDouble'', [OT_R, OT_D]),
     (''LoadConstString'', [OT_R, OT_U2]), (''LoadConstStringLongIndex'', [OT_R, OT_U4]),
     (''LoadConstUndefined'', [OT_R]), (''LoadConstNull'', [OT_R]), (''LoadConstTrue'', [OT_R]),
     (''LoadConstFalse'', [OT_R]), (''LoadConstZero'', [OT_R]), (''CoerceThisNS'', [OT_R, OT_R]),
     (''LoadThisNS'', [OT_R]), (''ToNumber'', [OT_R, OT_R]), (''ToInt32'', [OT_R, OT_R]),
     (''AddEmptyString'', [OT_R, OT_R]), (''GetArgumentsPropByVal'', [OT_R, OT_R, OT_R]),
     (''GetArgumentsLength'', [OT_R, OT_R]), (''ReifyArguments'', [OT_R]),
     (''CreateRegExp'', [OT_R, OT_U4, OT_U4, OT_U4]),
     (''SwitchImm'', [OT_R, OT_U4, OT_A4, OT_U4, OT_U4]), (''Jmp'', [OT_A1]),
     (''JmpLong'', [OT_A4]), (''JmpTrue'', [OT_A1, OT_R]), (''JmpTrueLong'', [OT_A4, OT_R]),
     (''JmpFalse'', [OT_A1, OT_R]), (''JmpFalseLong'', [OT_A4, OT_R]),
     (''JmpUndefined'', [OT_A1, OT_R]), (''JmpUndefinedLong'', [OT_A4, OT_R]),
     (''JLess'', [OT_A1, OT_R, OT_R]), (''JLessLong'', [OT_A4, OT_R, OT_R]),
     (''JNotLess'', [OT_A1, OT_R, OT_R]), (''JNotLessLong'', [OT_A4, OT_R, OT_R]),
     (''JLessN'', [OT_A1, OT_R, OT_R]), (''JLessNLong'', [OT_A4, OT_R, OT_R]),
     (''JNotLessN'', [OT_A1, OT_R, OT_R]), (''JNotLessNLong'', [OT_A4, OT_R, OT_R]),
     (''JLessEqual'', [OT_A1, OT_R, OT_R]), (''JLessEqualLong'', [OT_A4, OT_R, OT_R]),
     (''JNotLessEqual'', [OT_A1, OT_R, OT_R]), (''JNotLessEqualLong'', [OT_A4, OT_R, OT_R]),
     (''JLessEqualN'', [OT_A1, OT_R, OT_R]), (''JLessEqualNLong'', [OT_A4, OT_R, OT_R]),
     (''JNotLessEqualN'', [OT_A1, OT_R, OT_R]), (''JNotLessEqualNLong'', [OT_A4, OT_R, OT_R]),
     (''JGreater'', [OT_A1, OT_R, OT_R]), (''JGreaterLong'', [OT_A4, OT_R, OT_R]),
     (''JNotGreater'', [OT_A1, OT_R, OT_R]), (''JNotGreaterLong'', [OT_A4, OT_R, OT_R]),
     (''JGreaterN'', [OT_A1, OT_R, OT_R]), (''JGreaterNLong'', [OT_A4, OT_R, OT_R]),
     (''JNotGreaterN'', [OT_A1, OT_R, OT_R]), (''JNotGreaterNLong'', [OT_A4, OT_R, OT_R]),
     (''JGreaterEqual'', [OT_A1, OT_R, OT_R]), (''JGreaterEqualLong'', [OT_A4, OT_R, OT_R]),
     (''JNotGreaterEqual'', [OT_A1, OT_R, OT_R]), (''JNotGreaterEqualLong'', [OT_A4, OT_R, OT_R]),
     (''JGreaterEqualN'', [OT_A1, OT_R, OT_R]), (''JGreaterEqualNLong'', [OT_A4, OT_R, OT_R]),
     (''JNotGreaterEqualN'', [OT_A1, OT_R, OT_R]),
     (''JNotGreaterEqualNLong'', [OT_A4, OT_R, OT_R]), (''JEqual'', [OT_A1, OT_R, OT_R]),
     (''JEqualLong'', [OT_A4, OT_R, OT_R]), (''JNotEqual'', [OT_A1, OT_R, OT_R]),
     (''JNotEqualLong'', [OT_A4, OT_R, OT_R]), (''JStrictEqual'', [OT_A1, OT_R, OT_R]),
     (''JStrictEqualLong'', [OT_A4, OT_R, OT_R]), (''JStrictNotEqual'', [OT_A1, OT_R, OT_R]),
     (''JStrictNotEqualLong'', [OT_A4, OT_R, OT_R])]"

definition V40_STRING_IDS :: "(u8 \<times> u8) list" where
  "V40_STRING_IDS =
    [(46, 0), (47, 3), (48, 3), (49, 3), (50, 3), (51, 3), (52, 3), (53, 3), (54, 3), (55, 3),
     (56, 2), (57, 2), (58, 2), (61, 2), (62, 2), (66, 1), (93, 1), (94, 1), (108, 2)]"

definition V40_FUNC_IDS :: "(u8 \<times> u8) list" where
  "V40_FUNC_IDS = []"

definition V40_TABLES :: version_tables where
  "V40_TABLES =
    \<lparr>vt_opcodes = V40_OPCODES, vt_sizes = V40_SIZES, vt_str_ops = V40_STR_OPS, vt_call_ops = V40_CALL_OPS,
     vt_names = V40_NAMES, vt_schemas = V40_SCHEMAS, vt_string_ids = V40_STRING_IDS, vt_func_ids = V40_FUNC_IDS\<rparr>"

lemmas V40_types = V40_SCHEMAS_def [THEN arg_cong [of _ _ "map snd"], unfolded list.map snd_conv]

lemma V40_names: "V40_NAMES = map OpCode_name V40_OPCODES" "map fst V40_SCHEMAS = V40_NAMES"
  by (simp_all only: V40_NAMES_def V40_OPCODES_def V40_SCHEMAS_def list.map opcode_name fst_conv)

lemma V40_agree: "tables_agree V40_TABLES"
  unfolding V40_TABLES_def
  by (rule tables_agreeI [OF _ _ V40_names V40_types])
    (simp_all add: opcodes_upt V40_OPCODES_def V40_SIZES_def V40_STR_OPS_def V40_STRING_IDS_def
      V40_CALL_OPS_def V40_FUNC_IDS_def table_checks)

subsection \<open>Version 41\<close>

definition V41_OPCODES :: "OpCode list" where
  "V41_OPCODES =
    [OP_NewObjectWithBuffer, OP_NewObjectWithBufferLong, OP_NewObject, OP_NewArrayWithBuffer,
     OP_NewArrayWithBufferLong, OP_NewArray, OP_Mov, OP_MovLong, OP_Negate, OP_Not, OP_BitNot,
     OP_TypeOf, OP_Eq, OP_StrictEq, OP_Neq, OP_StrictNeq, OP_Less, OP_LessEq, OP_Greater,
     OP_GreaterEq, OP_Add, OP_AddN, OP_Mul, OP_MulN, OP_Div, OP_DivN, OP_Mod, OP_Sub, OP_SubN,
     OP_LShift, OP_RShift, OP_URshift, OP_BitAnd, OP_BitXor, OP_BitOr, OP_InstanceOf, OP_IsIn,
     OP_GetEnvironment, OP_StoreToEnvironment, OP_StoreToEnvironmentL, OP_StoreNPToEnvironment,
     OP_StoreNPToEnvironmentL, OP_LoadFromEnvironment, OP_LoadFromEnvironmentL,
     OP_GetGlobalObject, OP_CreateEnvironment, OP_DeclareGlobalVar, OP_GetByIdShort, OP_GetById,
     OP_GetByIdLong, OP_TryGetById, OP_TryGetByIdLong, OP_PutById, OP_PutByIdLong, OP_TryPutById,
     OP_TryPutByIdLong, OP_PutOwnByIdShort, OP_PutOwnById, OP_PutOwnByIdLong, OP_PutOwnByIndex,
     OP_PutOwnByIndexL, OP_DelById, OP_DelByIdLong, OP_GetByVal, OP_PutByVal, OP_DelByVal,
     OP_PutGetterSetter, OP_GetPNameList, OP_GetNextPName, OP_Call, OP_Construct, OP_Call1,
     OP_CallDirect, OP_Call2, OP_Call3, OP_Call4, OP_CallLong, OP_ConstructLong,
     OP_CallDirectLongIndex, OP_CallBuiltin, OP_Ret, OP_Catch, OP_DirectEval, OP_Throw,
     OP_Debugger, OP_DebuggerCheckBreak, OP_ProfilePoint, OP_Unreachable, OP_CreateClosure,
     OP_CreateClosureLongIndex, OP_CreateThis, OP_SelectObject, OP_LoadParam, OP_LoadParamLong,
     OP_LoadConstUInt8, OP_LoadConstInt, OP_LoadConstDouble, OP_LoadConstString,
     OP_LoadConstStringLongIndex, OP_LoadConstUndefined, OP_LoadConstNull, OP_LoadConstTrue,
     OP_LoadConstFalse, OP_LoadConstZero, OP_CoerceThisNS, OP_LoadThisNS, OP_ToNumber, OP_ToInt32,
     OP_AddEmptyString, OP_GetArgumentsPropByVal, OP_GetArgumentsLength, OP_ReifyArguments,
     OP_CreateRegExp, OP_SwitchImm, OP_Jmp, OP_JmpLong, OP_JmpTrue, OP_JmpTrueLong, OP_JmpFalse,
     OP_JmpFalseLong, OP_JmpUndefined, OP_JmpUndefinedLong, OP_JLess, OP_JLessLong, OP_JNotLess,
     OP_JNotLessLong, OP_JLessN, OP_JLessNLong, OP_JNotLessN, OP_JNotLessNLong, OP_JLessEqual,
     OP_JLessEqualLong, OP_JNotLessEqual, OP_JNotLessEqualLong, OP_JLessEqualN,
     OP_JLessEqualNLong, OP_JNotLessEqualN, OP_JNotLessEqualNLong, OP_JGreater, OP_JGreaterLong,
     OP_JNotGreater, OP_JNotGreaterLong, OP_JGreaterN, OP_JGreaterNLong, OP_JNotGreaterN,
     OP_JNotGreaterNLong, OP_JGreaterEqual, OP_JGreaterEqualLong, OP_JNotGreaterEqual,
     OP_JNotGreaterEqualLong, OP_JGreaterEqualN, OP_JGreaterEqualNLong, OP_JNotGreaterEqualN,
     OP_JNotGreaterEqualNLong, OP_JEqual, OP_JEqualLong, OP_JNotEqual, OP_JNotEqualLong,
     OP_JStrictEqual, OP_JStrictEqualLong, OP_JStrictNotEqual, OP_JStrictNotEqualLong]"

definition V41_SIZES :: "u8 list" where
  "V41_SIZES =
    [10, 14, 2, 8, 10, 4, 3, 9, 3, 3, 3, 3, 4, 4, 4, 4, 4, 4, 4, 4, 4, 4, 4, 4, 4, 4, 4, 4, 4, 4,
     4, 4, 4, 4, 4, 4, 4, 3, 4, 5, 4, 5, 4, 5, 2, 2, 5, 5, 6, 8, 6, 8, 6, 8, 6, 8, 4, 5, 7, 4, 7,
     5, 7, 4, 4, 4, 8, 5, 6, 4, 4, 4, 5, 5, 6, 7, 7, 7, 7, 4, 2, 2, 3, 2, 1, 1, 3, 1, 5, 7, 4, 4,
     3, 6, 3, 6, 10, 4, 6, 2, 2, 2, 2, 2, 3, 2, 3, 3, 3, 4, 3, 2, 14, 18, 2, 5, 3, 6, 3, 6, 3, 6,
     4, 7, 4, 7, 4, 7, 4, 7, 4, 7, 4, 7, 4, 7, 4, 7, 4, 7, 4, 7, 4, 7, 4, 7, 4, 7, 4, 7, 4, 7, 4,
     7, 4, 7, 4, 7, 4, 7, 4, 7]"

definition V41_STR_OPS :: "(u8 \<times> u8 \<times> u8) list" where
  "V41_STR_OPS =
    [(46, 1, 4), (47, 4, 1), (48, 4, 2), (49, 4, 4), (50, 4, 2), (51, 4, 4), (52, 4, 2),
     (53, 4, 4), (54, 4, 2), (55, 4, 4), (56, 3, 1), (57, 3, 2), (58, 3, 4), (61, 3, 2),
     (62, 3, 4), (66, 2, 4), (97, 2, 2), (98, 2, 4), (112, 6, 4)]"

definition V41_CALL_OPS :: "(u8 \<times> u8 \<times> u8) list" where
  "V41_CALL_OPS =
    [(72, 3, 2), (78, 3, 4)]"

definition V41_NAMES :: "string list" where
  "V41_NAMES =
    [''NewObjectWithBuffer'', ''NewObjectWithBufferLong'', ''NewObject'', ''NewArrayWithBuffer'',
     ''NewArrayWithBufferLong'', ''NewArray'', ''Mov'', ''MovLong'', ''Negate'', ''Not'',
     ''BitNot'', ''TypeOf'', ''Eq'', ''StrictEq'', ''Neq'', ''StrictNeq'', ''Less'', ''LessEq'',
     ''Greater'', ''GreaterEq'', ''Add'', ''AddN'', ''Mul'', ''MulN'', ''Div'', ''DivN'', ''Mod'',
     ''Sub'', ''SubN'', ''LShift'', ''RShift'', ''URshift'', ''BitAnd'', ''BitXor'', ''BitOr'',
     ''InstanceOf'', ''IsIn'', ''GetEnvironment'', ''StoreToEnvironment'',
     ''StoreToEnvironmentL'', ''StoreNPToEnvironment'', ''StoreNPToEnvironmentL'',
     ''LoadFromEnvironment'', ''LoadFromEnvironmentL'', ''GetGlobalObject'',
     ''CreateEnvironment'', ''DeclareGlobalVar'', ''GetByIdShort'', ''GetById'', ''GetByIdLong'',
     ''TryGetById'', ''TryGetByIdLong'', ''PutById'', ''PutByIdLong'', ''TryPutById'',
     ''TryPutByIdLong'', ''PutOwnByIdShort'', ''PutOwnById'', ''PutOwnByIdLong'',
     ''PutOwnByIndex'', ''PutOwnByIndexL'', ''DelById'', ''DelByIdLong'', ''GetByVal'',
     ''PutByVal'', ''DelByVal'', ''PutGetterSetter'', ''GetPNameList'', ''GetNextPName'',
     ''Call'', ''Construct'', ''Call1'', ''CallDirect'', ''Call2'', ''Call3'', ''Call4'',
     ''CallLong'', ''ConstructLong'', ''CallDirectLongIndex'', ''CallBuiltin'', ''Ret'',
     ''Catch'', ''DirectEval'', ''Throw'', ''Debugger'', ''DebuggerCheckBreak'', ''ProfilePoint'',
     ''Unreachable'', ''CreateClosure'', ''CreateClosureLongIndex'', ''CreateThis'',
     ''SelectObject'', ''LoadParam'', ''LoadParamLong'', ''LoadConstUInt8'', ''LoadConstInt'',
     ''LoadConstDouble'', ''LoadConstString'', ''LoadConstStringLongIndex'',
     ''LoadConstUndefined'', ''LoadConstNull'', ''LoadConstTrue'', ''LoadConstFalse'',
     ''LoadConstZero'', ''CoerceThisNS'', ''LoadThisNS'', ''ToNumber'', ''ToInt32'',
     ''AddEmptyString'', ''GetArgumentsPropByVal'', ''GetArgumentsLength'', ''ReifyArguments'',
     ''CreateRegExp'', ''SwitchImm'', ''Jmp'', ''JmpLong'', ''JmpTrue'', ''JmpTrueLong'',
     ''JmpFalse'', ''JmpFalseLong'', ''JmpUndefined'', ''JmpUndefinedLong'', ''JLess'',
     ''JLessLong'', ''JNotLess'', ''JNotLessLong'', ''JLessN'', ''JLessNLong'', ''JNotLessN'',
     ''JNotLessNLong'', ''JLessEqual'', ''JLessEqualLong'', ''JNotLessEqual'',
     ''JNotLessEqualLong'', ''JLessEqualN'', ''JLessEqualNLong'', ''JNotLessEqualN'',
     ''JNotLessEqualNLong'', ''JGreater'', ''JGreaterLong'', ''JNotGreater'', ''JNotGreaterLong'',
     ''JGreaterN'', ''JGreaterNLong'', ''JNotGreaterN'', ''JNotGreaterNLong'', ''JGreaterEqual'',
     ''JGreaterEqualLong'', ''JNotGreaterEqual'', ''JNotGreaterEqualLong'', ''JGreaterEqualN'',
     ''JGreaterEqualNLong'', ''JNotGreaterEqualN'', ''JNotGreaterEqualNLong'', ''JEqual'',
     ''JEqualLong'', ''JNotEqual'', ''JNotEqualLong'', ''JStrictEqual'', ''JStrictEqualLong'',
     ''JStrictNotEqual'', ''JStrictNotEqualLong'']"

definition V41_SCHEMAS :: "(string \<times> OpType list) list" where
  "V41_SCHEMAS =
    [(''NewObjectWithBuffer'', [OT_R, OT_U2, OT_U2, OT_U2, OT_U2]),
     (''NewObjectWithBufferLong'', [OT_R, OT_U2, OT_U2, OT_U4, OT_U4]), (''NewObject'', [OT_R]),
     (''NewArrayWithBuffer'', [OT_R, OT_U2, OT_U2, OT_U2]),
     (''NewArrayWithBufferLong'', [OT_R, OT_U2, OT_U2, OT_U4]), (''NewArray'', [OT_R, OT_U2]),
     (''Mov'', [OT_R, OT_R]), (''MovLong'', [OT_R4, OT_R4]), (''Negate'', [OT_R, OT_R]),
     (''Not'', [OT_R, OT_R]), (''BitNot'', [OT_R, OT_R]), (''TypeOf'', [OT_R, OT_R]),
     (''Eq'', [OT_R, OT_R, OT_R]), (''StrictEq'', [OT_R, OT_R, OT_R]),
     (''Neq'', [OT_R, OT_R, OT_R]), (''StrictNeq'', [OT_R, OT_R, OT_R]),
     (''Less'', [OT_R, OT_R, OT_R]), (''LessEq'', [OT_R, OT_R, OT_R]),
     (''Greater'', [OT_R, OT_R, OT_R]), (''GreaterEq'', [OT_R, OT_R, OT_R]),
     (''Add'', [OT_R, OT_R, OT_R]), (''AddN'', [OT_R, OT_R, OT_R]), (''Mul'', [OT_R, OT_R, OT_R]),
     (''MulN'', [OT_R, OT_R, OT_R]), (''Div'', [OT_R, OT_R, OT_R]),
     (''DivN'', [OT_R, OT_R, OT_R]), (''Mod'', [OT_R, OT_R, OT_R]), (''Sub'', [OT_R, OT_R, OT_R]),
     (''SubN'', [OT_R, OT_R, OT_R]), (''LShift'', [OT_R, OT_R, OT_R]),
     (''RShift'', [OT_R, OT_R, OT_R]), (''URshift'', [OT_R, OT_R, OT_R]),
     (''BitAnd'', [OT_R, OT_R, OT_R]), (''BitXor'', [OT_R, OT_R, OT_R]),
     (''BitOr'', [OT_R, OT_R, OT_R]), (''InstanceOf'', [OT_R, OT_R, OT_R]),
     (''IsIn'', [OT_R, OT_R, OT_R]), (''GetEnvironment'', [OT_R, OT_U1]),
     (''StoreToEnvironment'', [OT_R, OT_U1, OT_R]),
     (''StoreToEnvironmentL'', [OT_R, OT_U2, OT_R]),
     (''StoreNPToEnvironment'', [OT_R, OT_U1, OT_R]),
     (''StoreNPToEnvironmentL'', [OT_R, OT_U2, OT_R]),
     (''LoadFromEnvironment'', [OT_R, OT_R, OT_U1]),
     (''LoadFromEnvironmentL'', [OT_R, OT_R, OT_U2]), (''GetGlobalObject'', [OT_R]),
     (''CreateEnvironment'', [OT_R]), (''DeclareGlobalVar'', [OT_U4]),
     (''GetByIdShort'', [OT_R, OT_R, OT_U1, OT_U1]), (''GetById'', [OT_R, OT_R, OT_U1, OT_U2]),
     (''GetByIdLong'', [OT_R, OT_R, OT_U1, OT_U4]), (''TryGetById'', [OT_R, OT_R, OT_U1, OT_U2]),
     (''TryGetByIdLong'', [OT_R, OT_R, OT_U1, OT_U4]), (''PutById'', [OT_R, OT_R, OT_U1, OT_U2]),
     (''PutByIdLong'', [OT_R, OT_R, OT_U1, OT_U4]), (''TryPutById'', [OT_R, OT_R, OT_U1, OT_U2]),
     (''TryPutByIdLong'', [OT_R, OT_R, OT_U1, OT_U4]), (''PutOwnByIdShort'', [OT_R, OT_R, OT_U1]),
     (''PutOwnById'', [OT_R, OT_R, OT_U2]), (''PutOwnByIdLong'', [OT_R, OT_R, OT_U4]),
     (''PutOwnByIndex'', [OT_R, OT_R, OT_U1]), (''PutOwnByIndexL'', [OT_R, OT_R, OT_U4]),
     (''DelById'', [OT_R, OT_R, OT_U2]), (''DelByIdLong'', [OT_R, OT_R, OT_U4]),
     (''GetByVal'', [OT_R, OT_R, OT_R]), (''PutByVal'', [OT_R, OT_R, OT_R]),
     (''DelByVal'', [OT_R, OT_R, OT_R]), (''PutGetterSetter'', [OT_R, OT_U4, OT_R, OT_R]),
     (''GetPNameList'', [OT_R, OT_R, OT_R, OT_R]),
     (''GetNextPName'', [OT_R, OT_R, OT_R, OT_R, OT_R]), (''Call'', [OT_R, OT_R, OT_U1]),
     (''Construct'', [OT_R, OT_R, OT_U1]), (''Call1'', [OT_R, OT_R, OT_R]),
     (''CallDirect'', [OT_R, OT_U1, OT_U2]), (''Call2'', [OT_R, OT_R, OT_R, OT_R]),
     (''Call3'', [OT_R, OT_R, OT_R, OT_R, OT_R]),
     (''Call4'', [OT_R, OT_R, OT_R, OT_R, OT_R, OT_R]), (''CallLong'', [OT_R, OT_R, OT_U4]),
     (''ConstructLong'', [OT_R, OT_R, OT_U4]), (''CallDirectLongIndex'', [OT_R, OT_U1, OT_U4]),
     (''CallBuiltin'', [OT_R, OT_U1, OT_U1]), (''Ret'', [OT_R]), (''Catch'', [OT_R]),
     (''DirectEval'', [OT_R, OT_R]), (''Throw'', [OT_R]), (''Debugger'', []),
     (''DebuggerCheckBreak'', []), (''ProfilePoint'', [OT_U2]), (''Unreachable'', []),
     (''CreateClosure'', [OT_R, OT_R, OT_U2]), (''CreateClosureLongIndex'', [OT_R, OT_R, OT_U4]),
     (''CreateThis'', [OT_R, OT_R, OT_R]), (''SelectObject'', [OT_R, OT_R, OT_R]),
     (''LoadParam'', [OT_R, OT_U1]), (''LoadParamLong'', [OT_R, OT_U4]),
     (''LoadConstUInt8'', [OT_R, OT_U1]), (''LoadConstInt'', [OT_R, OT_I4]),
     (''LoadConstDouble'', [OT_R, OT_D]), (''LoadConstString'', [OT_R, OT_U2]),
     (''LoadConstStringLongIndex'', [OT_R, OT_U4]), (''LoadConstUndefined'', [OT_R]),
     (''LoadConstNull'', [OT_R]), (''LoadConstTrue'', [OT_R]), (''LoadConstFalse'', [OT_R]),
     (''LoadConstZero'', [OT_R]), (''CoerceThisNS'', [OT_R, OT_R]), (''LoadThisNS'', [OT_R]),
     (''ToNumber'', [OT_R, OT_R]), (''ToInt32'', [OT_R, OT_R]),
     (''AddEmptyString'', [OT_R, OT_R]), (''GetArgumentsPropByVal'', [OT_R, OT_R, OT_R]),
     (''GetArgumentsLength'', [OT_R, OT_R]), (''ReifyArguments'', [OT_R]),
     (''CreateRegExp'', [OT_R, OT_U4, OT_U4, OT_U4]),
     (''SwitchImm'', [OT_R, OT_U4, OT_A4, OT_U4, OT_U4]), (''Jmp'', [OT_A1]),
     (''JmpLong'', [OT_A4]), (''JmpTrue'', [OT_A1, OT_R]), (''JmpTrueLong'', [OT_A4, OT_R]),
     (''JmpFalse'', [OT_A1, OT_R]), (''JmpFalseLong'', [OT_A4, OT_R]),
     (''JmpUndefined'', [OT_A1, OT_R]), (''JmpUndefinedLong'', [OT_A4, OT_R]),
     (''JLess'', [OT_A1, OT_R, OT_R]), (''JLessLong'', [OT_A4, OT_R, OT_R]),
     (''JNotLess'', [OT_A1, OT_R, OT_R]), (''JNotLessLong'', [OT_A4, OT_R, OT_R]),
     (''JLessN'', [OT_A1, OT_R, OT_R]), (''JLessNLong'', [OT_A4, OT_R, OT_R]),
     (''JNotLessN'', [OT_A1, OT_R, OT_R]), (''JNotLessNLong'', [OT_A4, OT_R, OT_R]),
     (''JLessEqual'', [OT_A1, OT_R, OT_R]), (''JLessEqualLong'', [OT_A4, OT_R, OT_R]),
     (''JNotLessEqual'', [OT_A1, OT_R, OT_R]), (''JNotLessEqualLong'', [OT_A4, OT_R, OT_R]),
     (''JLessEqualN'', [OT_A1, OT_R, OT_R]), (''JLessEqualNLong'', [OT_A4, OT_R, OT_R]),
     (''JNotLessEqualN'', [OT_A1, OT_R, OT_R]), (''JNotLessEqualNLong'', [OT_A4, OT_R, OT_R]),
     (''JGreater'', [OT_A1, OT_R, OT_R]), (''JGreaterLong'', [OT_A4, OT_R, OT_R]),
     (''JNotGreater'', [OT_A1, OT_R, OT_R]), (''JNotGreaterLong'', [OT_A4, OT_R, OT_R]),
     (''JGreaterN'', [OT_A1, OT_R, OT_R]), (''JGreaterNLong'', [OT_A4, OT_R, OT_R]),
     (''JNotGreaterN'', [OT_A1, OT_R, OT_R]), (''JNotGreaterNLong'', [OT_A4, OT_R, OT_R]),
     (''JGreaterEqual'', [OT_A1, OT_R, OT_R]), (''JGreaterEqualLong'', [OT_A4, OT_R, OT_R]),
     (''JNotGreaterEqual'', [OT_A1, OT_R, OT_R]), (''JNotGreaterEqualLong'', [OT_A4, OT_R, OT_R]),
     (''JGreaterEqualN'', [OT_A1, OT_R, OT_R]), (''JGreaterEqualNLong'', [OT_A4, OT_R, OT_R]),
     (''JNotGreaterEqualN'', [OT_A1, OT_R, OT_R]),
     (''JNotGreaterEqualNLong'', [OT_A4, OT_R, OT_R]), (''JEqual'', [OT_A1, OT_R, OT_R]),
     (''JEqualLong'', [OT_A4, OT_R, OT_R]), (''JNotEqual'', [OT_A1, OT_R, OT_R]),
     (''JNotEqualLong'', [OT_A4, OT_R, OT_R]), (''JStrictEqual'', [OT_A1, OT_R, OT_R]),
     (''JStrictEqualLong'', [OT_A4, OT_R, OT_R]), (''JStrictNotEqual'', [OT_A1, OT_R, OT_R]),
     (''JStrictNotEqualLong'', [OT_A4, OT_R, OT_R])]"

definition V41_STRING_IDS :: "(u8 \<times> u8) list" where
  "V41_STRING_IDS =
    [(46, 0), (47, 3), (48, 3), (49, 3), (50, 3), (51, 3), (52, 3), (53, 3), (54, 3), (55, 3),
     (56, 2), (57, 2), (58, 2), (61, 2), (62, 2), (66, 1), (97, 1), (98, 1), (112, 2)]"

definition V41_FUNC_IDS :: "(u8 \<times> u8) list" where
  "V41_FUNC_IDS = []"

definition V41_TABLES :: version_tables where
  "V41_TABLES =
    \<lparr>vt_opcodes = V41_OPCODES, vt_sizes = V41_SIZES, vt_str_ops = V41_STR_OPS, vt_call_ops = V41_CALL_OPS,
     vt_names = V41_NAMES, vt_schemas = V41_SCHEMAS, vt_string_ids = V41_STRING_IDS, vt_func_ids = V41_FUNC_IDS\<rparr>"

lemmas V41_types = V41_SCHEMAS_def [THEN arg_cong [of _ _ "map snd"], unfolded list.map snd_conv]

lemma V41_names: "V41_NAMES = map OpCode_name V41_OPCODES" "map fst V41_SCHEMAS = V41_NAMES"
  by (simp_all only: V41_NAMES_def V41_OPCODES_def V41_SCHEMAS_def list.map opcode_name fst_conv)

lemma V41_agree: "tables_agree V41_TABLES"
  unfolding V41_TABLES_def
  by (rule tables_agreeI [OF _ _ V41_names V41_types])
    (simp_all add: opcodes_upt V41_OPCODES_def V41_SIZES_def V41_STR_OPS_def V41_STRING_IDS_def
      V41_CALL_OPS_def V41_FUNC_IDS_def table_checks)

subsection \<open>Version 44\<close>

definition V44_OPCODES :: "OpCode list" where
  "V44_OPCODES =
    [OP_NewObjectWithBuffer, OP_NewObjectWithBufferLong, OP_NewObject, OP_NewArrayWithBuffer,
     OP_NewArrayWithBufferLong, OP_NewArray, OP_Mov, OP_MovLong, OP_Negate, OP_Not, OP_BitNot,
     OP_TypeOf, OP_Eq, OP_StrictEq, OP_Neq, OP_StrictNeq, OP_Less, OP_LessEq, OP_Greater,
     OP_GreaterEq, OP_Add, OP_AddN, OP_Mul, OP_MulN, OP_Div, OP_DivN, OP_Mod, OP_Sub, OP_SubN,
     OP_LShift, OP_RShift, OP_URshift, OP_BitAnd, OP_BitXor, OP_BitOr, OP_InstanceOf, OP_IsIn,
     OP_GetEnvironment, OP_StoreToEnvironment, OP_StoreToEnvironmentL, OP_StoreNPToEnvironment,
     OP_StoreNPToEnvironmentL, OP_LoadFromEnvironment, OP_LoadFromEnvironmentL,
     OP_GetGlobalObject, OP_GetNewTarget, OP_CreateEnvironment, OP_DeclareGlobalVar,
     OP_GetByIdShort, OP_GetById, OP_GetByIdLong, OP_TryGetById, OP_TryGetByIdLong, OP_PutById,
     OP_PutByIdLong, OP_TryPutById, OP_TryPutByIdLong, OP_PutOwnByIdShort, OP_PutOwnById,
     OP_PutOwnByIdLong, OP_PutOwnByIndex, OP_PutOwnByIndexL, OP_DelById, OP_DelByIdLong,
     OP_GetByVal, OP_PutByVal, OP_DelByVal, OP_PutGetterSetter, OP_GetPNameList, OP_GetNextPName,
     OP_Call, OP_Construct, OP_Call1, OP_CallDirect, OP_Call2, OP_Call3, OP_Call4, OP_CallLong,
     OP_ConstructLong, OP_CallDirectLongIndex, OP_CallBuiltin, OP_Ret, OP_Catch, OP_DirectEval,
     OP_Throw, OP_Debugger, OP_DebuggerCheckBreak, OP_ProfilePoint, OP_Unreachable,
     OP_CreateClosure, OP_CreateClosureLongIndex, OP_CreateThis, OP_SelectObject, OP_LoadParam,
     OP_LoadParamLong, OP_LoadConstUInt8, OP_LoadConstInt, OP_LoadConstDouble, OP_LoadConstString,
     OP_LoadConstStringLongIndex, OP_LoadConstUndefined, OP_LoadConstNull, OP_LoadConstTrue,
     OP_LoadConstFalse, OP_LoadConstZero, OP_CoerceThisNS, OP_LoadThisNS, OP_ToNumber, OP_ToInt32,
     OP_AddEmptyString, OP_GetArgumentsPropByVal, OP_GetArgumentsLength, OP_ReifyArguments,
     OP_CreateRegExp, OP_SwitchImm, OP_Jmp, OP_JmpLong, OP_JmpTrue, OP_JmpTrueLong, OP_JmpFalse,
     OP_JmpFalseLong, OP_JmpUndefined, OP_JmpUndefinedLong, OP_JLess, OP_JLessLong, OP_JNotLess,
     OP_JNotLessLong, OP_JLessN, OP_JLessNLong, OP_JNotLessN, OP_JNotLessNLong, OP_JLessEqual,
     OP_JLessEqualLong, OP_JNotLessEqual, OP_JNotLessEqualLong, OP_JLessEqualN,
     OP_JLessEqualNLong, OP_JNotLessEqualN, OP_JNotLessEqualNLong, OP_JGreater, OP_JGreaterLong,
     OP_JNotGreater, OP_JNotGreaterLong, OP_JGreaterN, OP_JGreaterNLong, OP_JNotGreaterN,
     OP_JNotGreaterNLong, OP_JGreaterEqual, OP_JGreaterEqualLong, OP_JNotGreaterEqual,
     OP_JNotGreaterEqualLong, OP_JGreaterEqualN, OP_JGreaterEqualNLong, OP_JNotGreaterEqualN,
     OP_JNotGreaterEqualNLong, OP_JEqual, OP_JEqualLong, OP_JNotEqual, OP_JNotEqualLong,
     OP_JStrictEqual, OP_JStrictEqualLong, OP_JStrictNotEqual, OP_JStrictNotEqualLong]"

definition V44_SIZES :: "u8 list" where
  "V44_SIZES =
    [10, 14, 2, 8, 10, 4, 3, 9, 3, 3, 3, 3, 4, 4, 4, 4, 4, 4, 4, 4, 4, 4, 4, 4, 4, 4, 4, 4, 4, 4,
     4, 4, 4, 4, 4, 4, 4, 3, 4, 5, 4, 5, 4, 5, 2, 2, 2, 5, 5, 6, 8, 6, 8, 6, 8, 6, 8, 4, 5, 7, 4,
     7, 5, 7, 4, 4, 4, 8, 5, 6, 4, 4, 4, 5, 5, 6, 7, 7, 7, 7, 4, 2, 2, 3, 2, 1, 1, 3, 1, 5, 7, 4,
     4, 3, 6, 3, 6, 10, 4, 6, 2, 2, 2, 2, 2, 3, 2, 3, 3, 3, 4, 3, 2, 14, 18, 2, 5, 3, 6, 3, 6, 3,
     6, 4, 7, 4, 7, 4, 7, 4, 7, 4, 7, 4, 7, 4, 7, 4, 7, 4, 7, 4, 7, 4, 7, 4, 7, 4, 7, 4, 7, 4, 7,
     4, 7, 4, 7, 4, 7, 4, 7, 4, 7]"

definition V44_STR_OPS :: "(u8 \<times> u8 \<times> u8) list" where
  "V44_STR_OPS =
    [(47, 1, 4), (48, 4, 1), (49, 4, 2), (50, 4, 4), (51, 4, 2), (52, 4, 4), (53, 4, 2),
     (54, 4, 4), (55, 4, 2), (56, 4, 4), (57, 3, 1), (58, 3, 2), (59, 3, 4), (62, 3, 2),
     (63, 3, 4), (67, 2, 4), (98, 2, 2), (99, 2, 4), (113, 6, 4)]"

definition V44_CALL_OPS :: "(u8 \<times> u8 \<times> u8) list" where
  "V44_CALL_OPS =
    [(73, 3, 2), (79, 3, 4)]"

definition V44_NAMES :: "string list" where
  "V44_NAMES =
    [''NewObjectWithBuffer'', ''NewObjectWithBufferLong'', ''NewObject'', ''NewArrayWithBuffer'',
     ''NewArrayWithBufferLong'', ''NewArray'', ''Mov'', ''MovLong'', ''Negate'', ''Not'',
     ''BitNot'', ''TypeOf'', ''Eq'', ''StrictEq'', ''Neq'', ''StrictNeq'', ''Less'', ''LessEq'',
     ''Greater'', ''GreaterEq'', ''Add'', ''AddN'', ''Mul'', ''MulN'', ''Div'', ''DivN'', ''Mod'',
     ''Sub'', ''SubN'', ''LShift'', ''RShift'', ''URshift'', ''BitAnd'', ''BitXor'', ''BitOr'',
     ''InstanceOf'', ''IsIn'', ''GetEnvironment'', ''StoreToEnvironment'',
     ''StoreToEnvironmentL'', ''StoreNPToEnvironment'', ''StoreNPToEnvironmentL'',
     ''LoadFromEnvironment'', ''LoadFromEnvironmentL'', ''GetGlobalObject'', ''GetNewTarget'',
     ''CreateEnvironment'', ''DeclareGlobalVar'', ''GetByIdShort'', ''GetById'', ''GetByIdLong'',
     ''TryGetById'', ''TryGetByIdLong'', ''PutById'', ''PutByIdLong'', ''TryPutById'',
     ''TryPutByIdLong'', ''PutOwnByIdShort'', ''PutOwnById'', ''PutOwnByIdLong'',
     ''PutOwnByIndex'', ''PutOwnByIndexL'', ''DelById'', ''DelByIdLong'', ''GetByVal'',
     ''PutByVal'', ''DelByVal'', ''PutGetterSetter'', ''GetPNameList'', ''GetNextPName'',
     ''Call'', ''Construct'', ''Call1'', ''CallDirect'', ''Call2'', ''Call3'', ''Call4'',
     ''CallLong'', ''ConstructLong'', ''CallDirectLongIndex'', ''CallBuiltin'', ''Ret'',
     ''Catch'', ''DirectEval'', ''Throw'', ''Debugger'', ''DebuggerCheckBreak'', ''ProfilePoint'',
     ''Unreachable'', ''CreateClosure'', ''CreateClosureLongIndex'', ''CreateThis'',
     ''SelectObject'', ''LoadParam'', ''LoadParamLong'', ''LoadConstUInt8'', ''LoadConstInt'',
     ''LoadConstDouble'', ''LoadConstString'', ''LoadConstStringLongIndex'',
     ''LoadConstUndefined'', ''LoadConstNull'', ''LoadConstTrue'', ''LoadConstFalse'',
     ''LoadConstZero'', ''CoerceThisNS'', ''LoadThisNS'', ''ToNumber'', ''ToInt32'',
     ''AddEmptyString'', ''GetArgumentsPropByVal'', ''GetArgumentsLength'', ''ReifyArguments'',
     ''CreateRegExp'', ''SwitchImm'', ''Jmp'', ''JmpLong'', ''JmpTrue'', ''JmpTrueLong'',
     ''JmpFalse'', ''JmpFalseLong'', ''JmpUndefined'', ''JmpUndefinedLong'', ''JLess'',
     ''JLessLong'', ''JNotLess'', ''JNotLessLong'', ''JLessN'', ''JLessNLong'', ''JNotLessN'',
     ''JNotLessNLong'', ''JLessEqual'', ''JLessEqualLong'', ''JNotLessEqual'',
     ''JNotLessEqualLong'', ''JLessEqualN'', ''JLessEqualNLong'', ''JNotLessEqualN'',
     ''JNotLessEqualNLong'', ''JGreater'', ''JGreaterLong'', ''JNotGreater'', ''JNotGreaterLong'',
     ''JGreaterN'', ''JGreaterNLong'', ''JNotGreaterN'', ''JNotGreaterNLong'', ''JGreaterEqual'',
     ''JGreaterEqualLong'', ''JNotGreaterEqual'', ''JNotGreaterEqualLong'', ''JGreaterEqualN'',
     ''JGreaterEqualNLong'', ''JNotGreaterEqualN'', ''JNotGreaterEqualNLong'', ''JEqual'',
     ''JEqualLong'', ''JNotEqual'', ''JNotEqualLong'', ''JStrictEqual'', ''JStrictEqualLong'',
     ''JStrictNotEqual'', ''JStrictNotEqualLong'']"

definition V44_SCHEMAS :: "(string \<times> OpType list) list" where
  "V44_SCHEMAS =
    [(''NewObjectWithBuffer'', [OT_R, OT_U2, OT_U2, OT_U2, OT_U2]),
     (''NewObjectWithBufferLong'', [OT_R, OT_U2, OT_U2, OT_U4, OT_U4]), (''NewObject'', [OT_R]),
     (''NewArrayWithBuffer'', [OT_R, OT_U2, OT_U2, OT_U2]),
     (''NewArrayWithBufferLong'', [OT_R, OT_U2, OT_U2, OT_U4]), (''NewArray'', [OT_R, OT_U2]),
     (''Mov'', [OT_R, OT_R]), (''MovLong'', [OT_R4, OT_R4]), (''Negate'', [OT_R, OT_R]),
     (''Not'', [OT_R, OT_R]), (''BitNot'', [OT_R, OT_R]), (''TypeOf'', [OT_R, OT_R]),
     (''Eq'', [OT_R, OT_R, OT_R]), (''StrictEq'', [OT_R, OT_R, OT_R]),
     (''Neq'', [OT_R, OT_R, OT_R]), (''StrictNeq'', [OT_R, OT_R, OT_R]),
     (''Less'', [OT_R, OT_R, OT_R]), (''LessEq'', [OT_R, OT_R, OT_R]),
     (''Greater'', [OT_R, OT_R, OT_R]), (''GreaterEq'', [OT_R, OT_R, OT_R]),
     (''Add'', [OT_R, OT_R, OT_R]), (''AddN'', [OT_R, OT_R, OT_R]), (''Mul'', [OT_R, OT_R, OT_R]),
     (''MulN'', [OT_R, OT_R, OT_R]), (''Div'', [OT_R, OT_R, OT_R]),
     (''DivN'', [OT_R, OT_R, OT_R]), (''Mod'', [OT_R, OT_R, OT_R]), (''Sub'', [OT_R, OT_R, OT_R]),
     (''SubN'', [OT_R, OT_R, OT_R]), (''LShift'', [OT_R, OT_R, OT_R]),
     (''RShift'', [OT_R, OT_R, OT_R]), (''URshift'', [OT_R, OT_R, OT_R]),
     (''BitAnd'', [OT_R, OT_R, OT_R]), (''BitXor'', [OT_R, OT_R, OT_R]),
     (''BitOr'', [OT_R, OT_R, OT_R]), (''InstanceOf'', [OT_R, OT_R, OT_R]),
     (''IsIn'', [OT_R, OT_R, OT_R]), (''GetEnvironment'', [OT_R, OT_U1]),
     (''StoreToEnvironment'', [OT_R, OT_U1, OT_R]),
     (''StoreToEnvironmentL'', [OT_R, OT_U2, OT_R]),
     (''StoreNPToEnvironment'', [OT_R, OT_U1, OT_R]),
     (''StoreNPToEnvironmentL'', [OT_R, OT_U2, OT_R]),
     (''LoadFromEnvironment'', [OT_R, OT_R, OT_U1]),
     (''LoadFromEnvironmentL'', [OT_R, OT_R, OT_U2]), (''GetGlobalObject'', [OT_R]),
     (''GetNewTarget'', [OT_R]), (''CreateEnvironment'', [OT_R]), (''DeclareGlobalVar'', [OT_U4]),
     (''GetByIdShort'', [OT_R, OT_R, OT_U1, OT_U1]), (''GetById'', [OT_R, OT_R, OT_U1, OT_U2]),
     (''GetByIdLong'', [OT_R, OT_R, OT_U1, OT_U4]), (''TryGetById'', [OT_R, OT_R, OT_U1, OT_U2]),
     (''TryGetByIdLong'', [OT_R, OT_R, OT_U1, OT_U4]), (''PutById'', [OT_R, OT_R, OT_U1, OT_U2]),
     (''PutByIdLong'', [OT_R, OT_R, OT_U1, OT_U4]), (''TryPutById'', [OT_R, OT_R, OT_U1, OT_U2]),
     (''TryPutByIdLong'', [OT_R, OT_R, OT_U1, OT_U4]), (''PutOwnByIdShort'', [OT_R, OT_R, OT_U1]),
     (''PutOwnById'', [OT_R, OT_R, OT_U2]), (''PutOwnByIdLong'', [OT_R, OT_R, OT_U4]),
     (''PutOwnByIndex'', [OT_R, OT_R, OT_U1]), (''PutOwnByIndexL'', [OT_R, OT_R, OT_U4]),
     (''DelById'', [OT_R, OT_R, OT_U2]), (''DelByIdLong'', [OT_R, OT_R, OT_U4]),
     (''GetByVal'', [OT_R, OT_R, OT_R]), (''PutByVal'', [OT_R, OT_R, OT_R]),
     (''DelByVal'', [OT_R, OT_R, OT_R]), (''PutGetterSetter'', [OT_R, OT_U4, OT_R, OT_R]),
     (''GetPNameList'', [OT_R, OT_R, OT_R, OT_R]),
     (''GetNextPName'', [OT_R, OT_R, OT_R, OT_R, OT_R]), (''Call'', [OT_R, OT_R, OT_U1]),
     (''Construct'', [OT_R, OT_R, OT_U1]), (''Call1'', [OT_R, OT_R, OT_R]),
     (''CallDirect'', [OT_R, OT_U1, OT_U2]), (''Call2'', [OT_R, OT_R, OT_R, OT_R]),
     (''Call3'', [OT_R, OT_R, OT_R, OT_R, OT_R]),
     (''Call4'', [OT_R, OT_R, OT_R, OT_R, OT_R, OT_R]), (''CallLong'', [OT_R, OT_R, OT_U4]),
     (''ConstructLong'', [OT_R, OT_R, OT_U4]), (''CallDirectLongIndex'', [OT_R, OT_U1, OT_U4]),
     (''CallBuiltin'', [OT_R, OT_U1, OT_U1]), (''Ret'', [OT_R]), (''Catch'', [OT_R]),
     (''DirectEval'', [OT_R, OT_R]), (''Throw'', [OT_R]), (''Debugger'', []),
     (''DebuggerCheckBreak'', []), (''ProfilePoint'', [OT_U2]), (''Unreachable'', []),
     (''CreateClosure'', [OT_R, OT_R, OT_U2]), (''CreateClosureLongIndex'', [OT_R, OT_R, OT_U4]),
     (''CreateThis'', [OT_R, OT_R, OT_R]), (''SelectObject'', [OT_R, OT_R, OT_R]),
     (''LoadParam'', [OT_R, OT_U1]), (''LoadParamLong'', [OT_R, OT_U4]),
     (''LoadConstUInt8'', [OT_R, OT_U1]), (''LoadConstInt'', [OT_R, OT_I4]),
     (''LoadConstDouble'', [OT_R, OT_D]), (''LoadConstString'', [OT_R, OT_U2]),
     (''LoadConstStringLongIndex'', [OT_R, OT_U4]), (''LoadConstUndefined'', [OT_R]),
     (''LoadConstNull'', [OT_R]), (''LoadConstTrue'', [OT_R]), (''LoadConstFalse'', [OT_R]),
     (''LoadConstZero'', [OT_R]), (''CoerceThisNS'', [OT_R, OT_R]), (''LoadThisNS'', [OT_R]),
     (''ToNumber'', [OT_R, OT_R]), (''ToInt32'', [OT_R, OT_R]),
     (''AddEmptyString'', [OT_R, OT_R]), (''GetArgumentsPropByVal'', [OT_R, OT_R, OT_R]),
     (''GetArgumentsLength'', [OT_R, OT_R]), (''ReifyArguments'', [OT_R]),
     (''CreateRegExp'', [OT_R, OT_U4, OT_U4, OT_U4]),
     (''SwitchImm'', [OT_R, OT_U4, OT_A4, OT_U4, OT_U4]), (''Jmp'', [OT_A1]),
     (''JmpLong'', [OT_A4]), (''JmpTrue'', [OT_A1, OT_R]), (''JmpTrueLong'', [OT_A4, OT_R]),
     (''JmpFalse'', [OT_A1, OT_R]), (''JmpFalseLong'', [OT_A4, OT_R]),
     (''JmpUndefined'', [OT_A1, OT_R]), (''JmpUndefinedLong'', [OT_A4, OT_R]),
     (''JLess'', [OT_A1, OT_R, OT_R]), (''JLessLong'', [OT_A4, OT_R, OT_R]),
     (''JNotLess'', [OT_A1, OT_R, OT_R]), (''JNotLessLong'', [OT_A4, OT_R, OT_R]),
     (''JLessN'', [OT_A1, OT_R, OT_R]), (''JLessNLong'', [OT_A4, OT_R, OT_R]),
     (''JNotLessN'', [OT_A1, OT_R, OT_R]), (''JNotLessNLong'', [OT_A4, OT_R, OT_R]),
     (''JLessEqual'', [OT_A1, OT_R, OT_R]), (''JLessEqualLong'', [OT_A4, OT_R, OT_R]),
     (''JNotLessEqual'', [OT_A1, OT_R, OT_R]), (''JNotLessEqualLong'', [OT_A4, OT_R, OT_R]),
     (''JLessEqualN'', [OT_A1, OT_R, OT_R]), (''JLessEqualNLong'', [OT_A4, OT_R, OT_R]),
     (''JNotLessEqualN'', [OT_A1, OT_R, OT_R]), (''JNotLessEqualNLong'', [OT_A4, OT_R, OT_R]),
     (''JGreater'', [OT_A1, OT_R, OT_R]), (''JGreaterLong'', [OT_A4, OT_R, OT_R]),
     (''JNotGreater'', [OT_A1, OT_R, OT_R]), (''JNotGreaterLong'', [OT_A4, OT_R, OT_R]),
     (''JGreaterN'', [OT_A1, OT_R, OT_R]), (''JGreaterNLong'', [OT_A4, OT_R, OT_R]),
     (''JNotGreaterN'', [OT_A1, OT_R, OT_R]), (''JNotGreaterNLong'', [OT_A4, OT_R, OT_R]),
     (''JGreaterEqual'', [OT_A1, OT_R, OT_R]), (''JGreaterEqualLong'', [OT_A4, OT_R, OT_R]),
     (''JNotGreaterEqual'', [OT_A1, OT_R, OT_R]), (''JNotGreaterEqualLong'', [OT_A4, OT_R, OT_R]),
     (''JGreaterEqualN'', [OT_A1, OT_R, OT_R]), (''JGreaterEqualNLong'', [OT_A4, OT_R, OT_R]),
     (''JNotGreaterEqualN'', [OT_A1, OT_R, OT_R]),
     (''JNotGreaterEqualNLong'', [OT_A4, OT_R, OT_R]), (''JEqual'', [OT_A1, OT_R, OT_R]),
     (''JEqualLong'', [OT_A4, OT_R, OT_R]), (''JNotEqual'', [OT_A1, OT_R, OT_R]),
     (''JNotEqualLong'', [OT_A4, OT_R, OT_R]), (''JStrictEqual'', [OT_A1, OT_R, OT_R]),
     (''JStrictEqualLong'', [OT_A4, OT_R, OT_R]), (''JStrictNotEqual'', [OT_A1, OT_R, OT_R]),
     (''JStrictNotEqualLong'', [OT_A4, OT_R, OT_R])]"

definition V44_STRING_IDS :: "(u8 \<times> u8) list" where
  "V44_STRING_IDS =
    [(47, 0), (48, 3), (49, 3), (50, 3), (51, 3), (52, 3), (53, 3), (54, 3), (55, 3), (56, 3),
     (57, 2), (58, 2), (59, 2), (62, 2), (63, 2), (67, 1), (98, 1), (99, 1), (113, 2)]"

definition V44_FUNC_IDS :: "(u8 \<times> u8) list" where
  "V44_FUNC_IDS = []"

definition V44_TABLES :: version_tables where
  "V44_TABLES =
    \<lparr>vt_opcodes = V44_OPCODES, vt_sizes = V44_SIZES, vt_str_ops = V44_STR_OPS, vt_call_ops = V44_CALL_OPS,
     vt_names = V44_NAMES, vt_schemas = V44_SCHEMAS, vt_string_ids = V44_STRING_IDS, vt_func_ids = V44_FUNC_IDS\<rparr>"

lemmas V44_types = V44_SCHEMAS_def [THEN arg_cong [of _ _ "map snd"], unfolded list.map snd_conv]

lemma V44_names: "V44_NAMES = map OpCode_name V44_OPCODES" "map fst V44_SCHEMAS = V44_NAMES"
  by (simp_all only: V44_NAMES_def V44_OPCODES_def V44_SCHEMAS_def list.map opcode_name fst_conv)

lemma V44_agree: "tables_agree V44_TABLES"
  unfolding V44_TABLES_def
  by (rule tables_agreeI [OF _ _ V44_names V44_types])
    (simp_all add: opcodes_upt V44_OPCODES_def V44_SIZES_def V44_STR_OPS_def V44_STRING_IDS_def
      V44_CALL_OPS_def V44_FUNC_IDS_def table_checks)

subsection \<open>Version 45\<close>

definition V45_OPCODES :: "OpCode list" where
  "V45_OPCODES =
    [OP_NewObjectWithBuffer, OP_NewObjectWithBufferLong, OP_NewObject, OP_NewArrayWithBuffer,
     OP_NewArrayWithBufferLong, OP_NewArray, OP_Mov, OP_MovLong, OP_Negate, OP_Not, OP_BitNot,
     OP_TypeOf, OP_Eq, OP_StrictEq, OP_Neq, OP_StrictNeq, OP_Less, OP_LessEq, OP_Greater,
     OP_GreaterEq, OP_Add, OP_AddN, OP_Mul, OP_MulN, OP_Div, OP_DivN, OP_Mod, OP_Sub, OP_SubN,
     OP_LShift, OP_RShift, OP_URshift, OP_BitAnd, OP_BitXor, OP_BitOr, OP_InstanceOf, OP_IsIn,
     OP_GetEnvironment, OP_StoreToEnvironment, OP_StoreToEnvironmentL, OP_StoreNPToEnvironment,
     OP_StoreNPToEnvironmentL, OP_LoadFromEnvironment, OP_LoadFromEnvironmentL,
     OP_GetGlobalObject, OP_GetNewTarget, OP_CreateEnvironment, OP_DeclareGlobalVar,
     OP_GetByIdShort, OP_GetById, OP_GetByIdLong, OP_TryGetById, OP_TryGetByIdLong, OP_PutById,
     OP_PutByIdLong, OP_TryPutById, OP_TryPutByIdLong, OP_PutNewOwnByIdShort, OP_PutNewOwnById,
     OP_PutNewOwnByIdLong, OP_PutNewOwnNEById, OP_PutNewOwnNEByIdLong, OP_PutOwnByIndex,
     OP_PutOwnByIndexL, OP_PutOwnByVal, OP_DelById, OP_DelByIdLong, OP_GetByVal, OP_PutByVal,
     OP_DelByVal, OP_PutOwnGetterSetterByVal, OP_GetPNameList, OP_GetNextPName, OP_Call,
     OP_Construct, OP_Call1, OP_CallDirect, OP_Call2, OP_Call3, OP_Call4, OP_CallLong,
     OP_ConstructLong, OP_CallDirectLongIndex, OP_CallBuiltin, OP_Ret, OP_Catch, OP_DirectEval,
     OP_Throw, OP_Debugger, OP_DebuggerCheckBreak, OP_ProfilePoint, OP_Unreachable,
     OP_CreateClosure, OP_CreateClosureLongIndex, OP_CreateThis, OP_SelectObject, OP_LoadParam,
     OP_LoadParamLong, OP_LoadConstUInt8, OP_LoadConstInt, OP_LoadConstDouble, OP_LoadConstString,
     OP_LoadConstStringLongIndex, OP_LoadConstUndefined, OP_LoadConstNull, OP_LoadConstTrue,
     OP_LoadConstFalse, OP_LoadConstZero, OP_CoerceThisNS, OP_LoadThisNS, OP_ToNumber, OP_ToInt32,
     OP_AddEmptyString, OP_GetArgumentsPropByVal, OP_GetArgumentsLength, OP_ReifyArguments,
     OP_CreateRegExp, OP_SwitchImm, OP_Jmp, OP_JmpLong, OP_JmpTrue, OP_JmpTrueLong, OP_JmpFalse,
     OP_JmpFalseLong, OP_JmpUndefined, OP_JmpUndefinedLong, OP_JLess, OP_JLessLong, OP_JNotLess,
     OP_JNotLessLong, OP_JLessN, OP_JLessNLong, OP_JNotLessN, OP_JNotLessNLong, OP_JLessEqual,
     OP_JLessEqualLong, OP_JNotLessEqual, OP_JNotLessEqualLong, OP_JLessEqualN,
     OP_JLessEqualNLong, OP_JNotLessEqualN, OP_JNotLessEqualNLong, OP_JGreater, OP_JGreaterLong,
     OP_JNotGreater, OP_JNotGreaterLong, OP_JGreaterN, OP_JGreaterNLong, OP_JNotGreaterN,
     OP_JNotGreaterNLong, OP_JGreaterEqual, OP_JGreaterEqualLong, OP_JNotGreaterEqual,
     OP_JNotGreaterEqualLong, OP_JGreaterEqualN, OP_JGreaterEqualNLong, OP_JNotGreaterEqualN,
     OP_JNotGreaterEqualNLong, OP_JEqual, OP_JEqualLong, OP_JNotEqual, OP_JNotEqualLong,
     OP_JStrictEqual, OP_JStrictEqualLong, OP_JStrictNotEqual, OP_JStrictNotEqualLong]"

definition V45_SIZES :: "u8 list" where
  "V45_SIZES =
    [10, 14, 2, 8, 10, 4, 3, 9, 3, 3, 3, 3, 4, 4, 4, 4, 4, 4, 4, 4, 4, 4, 4, 4, 4, 4, 4, 4, 4, 4,
     4, 4, 4, 4, 4, 4, 4, 3, 4, 5, 4, 5, 4, 5, 2, 2, 2, 5, 5, 6, 8, 6, 8, 6, 8, 6, 8, 4, 5, 7, 5,
     7, 4, 7, 5, 5, 7, 4, 4, 4, 6, 5, 6, 4, 4, 4, 5, 5, 6, 7, 7, 7, 7, 4, 2, 2, 3, 2, 1, 1, 3, 1,
     5, 7, 4, 4, 3, 6, 3, 6, 10, 4, 6, 2, 2, 2, 2, 2, 3, 2, 3, 3, 3, 4, 3, 2, 14, 18, 2, 5, 3, 6,
     3, 6, 3, 6, 4, 7, 4, 7, 4, 7, 4, 7, 4, 7, 4, 7, 4, 7, 4, 7, 4, 7, 4, 7, 4, 7, 4, 7, 4, 7, 4,
     7, 4, 7, 4, 7, 4, 7, 4, 7, 4, 7, 4, 7]"

definition V45_STR_OPS :: "(u8 \<times> u8 \<times> u8) list" where
  "V45_STR_OPS =
    [(47, 1, 4), (48, 4, 1), (49, 4, 2), (50, 4, 4), (51, 4, 2), (52, 4, 4), (53, 4, 2),
     (54, 4, 4), (55, 4, 2), (56, 4, 4), (57, 3, 1), (58, 3, 2), (59, 3, 4), (60, 3, 2),
     (61, 3, 4), (65, 3, 2), (66, 3, 4), (101, 2, 2), (102, 2, 4), (116, 6, 4)]"

definition V45_CALL_OPS :: "(u8 \<times> u8 \<times> u8) list" where
  "V45_CALL_OPS =
    [(76, 3, 2), (82, 3, 4)]"

definition V45_NAMES :: "string list" where
  "V45_NAMES =
    [''NewObjectWithBuffer'', ''NewObjectWithBufferLong'', ''NewObject'', ''NewArrayWithBuffer'',
     ''NewArrayWithBufferLong'', ''NewArray'', ''Mov'', ''MovLong'', ''Negate'', ''Not'',
     ''BitNot'', ''TypeOf'', ''Eq'', ''StrictEq'', ''Neq'', ''StrictNeq'', ''Less'', ''LessEq'',
     ''Greater'', ''GreaterEq'', ''Add'', ''AddN'', ''Mul'', ''MulN'', ''Div'', ''DivN'', ''Mod'',
     ''Sub'', ''SubN'', ''LShift'', ''RShift'', ''URshift'', ''BitAnd'', ''BitXor'', ''BitOr'',
     ''InstanceOf'', ''IsIn'', ''GetEnvironment'', ''StoreToEnvironment'',
     ''StoreToEnvironmentL'', ''StoreNPToEnvironment'', ''StoreNPToEnvironmentL'',
     ''LoadFromEnvironment'', ''LoadFromEnvironmentL'', ''GetGlobalObject'', ''GetNewTarget'',
     ''CreateEnvironment'', ''DeclareGlobalVar'', ''GetByIdShort'', ''GetById'', ''GetByIdLong'',
     ''TryGetById'', ''TryGetByIdLong'', ''PutById'', ''PutByIdLong'', ''TryPutById'',
     ''TryPutByIdLong'', ''PutNewOwnByIdShort'', ''PutNewOwnById'', ''PutNewOwnByIdLong'',
     ''PutNewOwnNEById'', ''PutNewOwnNEByIdLong'', ''PutOwnByIndex'', ''PutOwnByIndexL'',
     ''PutOwnByVal'', ''DelById'', ''DelByIdLong'', ''GetByVal'', ''PutByVal'', ''DelByVal'',
     ''PutOwnGetterSetterByVal'', ''GetPNameList'', ''GetNextPName'', ''Call'', ''Construct'',
     ''Call1'', ''CallDirect'', ''Call2'', ''Call3'', ''Call4'', ''CallLong'', ''ConstructLong'',
     ''CallDirectLongIndex'', ''CallBuiltin'', ''Ret'', ''Catch'', ''DirectEval'', ''Throw'',
     ''Debugger'', ''DebuggerCheckBreak'', ''ProfilePoint'', ''Unreachable'', ''CreateClosure'',
     ''CreateClosureLongIndex'', ''CreateThis'', ''SelectObject'', ''LoadParam'',
     ''LoadParamLong'', ''LoadConstUInt8'', ''LoadConstInt'', ''LoadConstDouble'',
     ''LoadConstString'', ''LoadConstStringLongIndex'', ''LoadConstUndefined'', ''LoadConstNull'',
     ''LoadConstTrue'', ''LoadConstFalse'', ''LoadConstZero'', ''CoerceThisNS'', ''LoadThisNS'',
     ''ToNumber'', ''ToInt32'', ''AddEmptyString'', ''GetArgumentsPropByVal'',
     ''GetArgumentsLength'', ''ReifyArguments'', ''CreateRegExp'', ''SwitchImm'', ''Jmp'',
     ''JmpLong'', ''JmpTrue'', ''JmpTrueLong'', ''JmpFalse'', ''JmpFalseLong'', ''JmpUndefined'',
     ''JmpUndefinedLong'', ''JLess'', ''JLessLong'', ''JNotLess'', ''JNotLessLong'', ''JLessN'',
     ''JLessNLong'', ''JNotLessN'', ''JNotLessNLong'', ''JLessEqual'', ''JLessEqualLong'',
     ''JNotLessEqual'', ''JNotLessEqualLong'', ''JLessEqualN'', ''JLessEqualNLong'',
     ''JNotLessEqualN'', ''JNotLessEqualNLong'', ''JGreater'', ''JGreaterLong'', ''JNotGreater'',
     ''JNotGreaterLong'', ''JGreaterN'', ''JGreaterNLong'', ''JNotGreaterN'',
     ''JNotGreaterNLong'', ''JGreaterEqual'', ''JGreaterEqualLong'', ''JNotGreaterEqual'',
     ''JNotGreaterEqualLong'', ''JGreaterEqualN'', ''JGreaterEqualNLong'', ''JNotGreaterEqualN'',
     ''JNotGreaterEqualNLong'', ''JEqual'', ''JEqualLong'', ''JNotEqual'', ''JNotEqualLong'',
     ''JStrictEqual'', ''JStrictEqualLong'', ''JStrictNotEqual'', ''JStrictNotEqualLong'']"

definition V45_SCHEMAS :: "(string \<times> OpType list) list" where
  "V45_SCHEMAS =
    [(''NewObjectWithBuffer'', [OT_R, OT_U2, OT_U2, OT_U2, OT_U2]),
     (''NewObjectWithBufferLong'', [OT_R, OT_U2, OT_U2, OT_U4, OT_U4]), (''NewObject'', [OT_R]),
     (''NewArrayWithBuffer'', [OT_R, OT_U2, OT_U2, OT_U2]),
     (''NewArrayWithBufferLong'', [OT_R, OT_U2, OT_U2, OT_U4]), (''NewArray'', [OT_R, OT_U2]),
     (''Mov'', [OT_R, OT_R]), (''MovLong'', [OT_R4, OT_R4]), (''Negate'', [OT_R, OT_R]),
     (''Not'', [OT_R, OT_R]), (''BitNot'', [OT_R, OT_R]), (''TypeOf'', [OT_R, OT_R]),
     (''Eq'', [OT_R, OT_R, OT_R]), (''StrictEq'', [OT_R, OT_R, OT_R]),
     (''Neq'', [OT_R, OT_R, OT_R]), (''StrictNeq'', [OT_R, OT_R, OT_R]),
     (''Less'', [OT_R, OT_R, OT_R]), (''LessEq'', [OT_R, OT_R, OT_R]),
     (''Greater'', [OT_R, OT_R, OT_R]), (''GreaterEq'', [OT_R, OT_R, OT_R]),
     (''Add'', [OT_R, OT_R, OT_R]), (''AddN'', [OT_R, OT_R, OT_R]), (''Mul'', [OT_R, OT_R, OT_R]),
     (''MulN'', [OT_R, OT_R, OT_R]), (''Div'', [OT_R, OT_R, OT_R]),
     (''DivN'', [OT_R, OT_R, OT_R]), (''Mod'', [OT_R, OT_R, OT_R]), (''Sub'', [OT_R, OT_R, OT_R]),
     (''SubN'', [OT_R, OT_R, OT_R]), (''LShift'', [OT_R, OT_R, OT_R]),
     (''RShift'', [OT_R, OT_R, OT_R]), (''URshift'', [OT_R, OT_R, OT_R]),
     (''BitAnd'', [OT_R, OT_R, OT_R]), (''BitXor'', [OT_R, OT_R, OT_R]),
     (''BitOr'', [OT_R, OT_R, OT_R]), (''InstanceOf'', [OT_R, OT_R, OT_R]),
     (''IsIn'', [OT_R, OT_R, OT_R]), (''GetEnvironment'', [OT_R, OT_U1]),
     (''StoreToEnvironment'', [OT_R, OT_U1, OT_R]),
     (''StoreToEnvironmentL'', [OT_R, OT_U2, OT_R]),
     (''StoreNPToEnvironment'', [OT_R, OT_U1, OT_R]),
     (''StoreNPToEnvironmentL'', [OT_R, OT_U2, OT_R]),
     (''LoadFromEnvironment'', [OT_R, OT_R, OT_U1]),
     (''LoadFromEnvironmentL'', [OT_R, OT_R, OT_U2]), (''GetGlobalObject'', [OT_R]),
     (''GetNewTarget'', [OT_R]), (''CreateEnvironment'', [OT_R]), (''DeclareGlobalVar'', [OT_U4]),
     (''GetByIdShort'', [OT_R, OT_R, OT_U1, OT_U1]), (''GetById'', [OT_R, OT_R, OT_U1, OT_U2]),
     (''GetByIdLong'', [OT_R, OT_R, OT_U1, OT_U4]), (''TryGetById'', [OT_R, OT_R, OT_U1, OT_U2]),
     (''TryGetByIdLong'', [OT_R, OT_R, OT_U1, OT_U4]), (''PutById'', [OT_R, OT_R, OT_U1, OT_U2]),
     (''PutByIdLong'', [OT_R, OT_R, OT_U1, OT_U4]), (''TryPutById'', [OT_R, OT_R, OT_U1, OT_U2]),
     (''TryPutByIdLong'', [OT_R, OT_R, OT_U1, OT_U4]),
     (''PutNewOwnByIdShort'', [OT_R, OT_R, OT_U1]), (''PutNewOwnById'', [OT_R, OT_R, OT_U2]),
     (''PutNewOwnByIdLong'', [OT_R, OT_R, OT_U4]), (''PutNewOwnNEById'', [OT_R, OT_R, OT_U2]),
     (''PutNewOwnNEByIdLong'', [OT_R, OT_R, OT_U4]), (''PutOwnByIndex'', [OT_R, OT_R, OT_U1]),
     (''PutOwnByIndexL'', [OT_R, OT_R, OT_U4]), (''PutOwnByVal'', [OT_R, OT_R, OT_R, OT_U1]),
     (''DelById'', [OT_R, OT_R, OT_U2]), (''DelByIdLong'', [OT_R, OT_R, OT_U4]),
     (''GetByVal'', [OT_R, OT_R, OT_R]), (''PutByVal'', [OT_R, OT_R, OT_R]),
     (''DelByVal'', [OT_R, OT_R, OT_R]),
     (''PutOwnGetterSetterByVal'', [OT_R, OT_R, OT_R, OT_R, OT_U1]),
     (''GetPNameList'', [OT_R, OT_R, OT_R, OT_R]),
     (''GetNextPName'', [OT_R, OT_R, OT_R, OT_R, OT_R]), (''Call'', [OT_R, OT_R, OT_U1]),
     (''Construct'', [OT_R, OT_R, OT_U1]), (''Call1'', [OT_R, OT_R, OT_R]),
     (''CallDirect'', [OT_R, OT_U1, OT_U2]), (''Call2'', [OT_R, OT_R, OT_R, OT_R]),
     (''Call3'', [OT_R, OT_R, OT_R, OT_R, OT_R]),
     (''Call4'', [OT_R, OT_R, OT_R, OT_R, OT_R, OT_R]), (''CallLong'', [OT_R, OT_R, OT_U4]),
     (''ConstructLong'', [OT_R, OT_R, OT_U4]), (''CallDirectLongIndex'', [OT_R, OT_U1, OT_U4]),
     (''CallBuiltin'', [OT_R, OT_U1, OT_U1]), (''Ret'', [OT_R]), (''Catch'', [OT_R]),
     (''DirectEval'', [OT_R, OT_R]), (''Throw'', [OT_R]), (''Debugger'', []),
     (''DebuggerCheckBreak'', []), (''ProfilePoint'', [OT_U2]), (''Unreachable'', []),
     (''CreateClosure'', [OT_R, OT_R, OT_U2]), (''CreateClosureLongIndex'', [OT_R, OT_R, OT_U4]),
     (''CreateThis'', [OT_R, OT_R, OT_R]), (''SelectObject'', [OT_R, OT_R, OT_R]),
     (''LoadParam'', [OT_R, OT_U1]), (''LoadParamLong'', [OT_R, OT_U4]),
     (''LoadConstUInt8'', [OT_R, OT_U1]), (''LoadConstInt'', [OT_R, OT_I4]),
     (''LoadConstDouble'', [OT_R, OT_D]), (''LoadConstString'', [OT_R, OT_U2]),
     (''LoadConstStringLongIndex'', [OT_R, OT_U4]), (''LoadConstUndefined'', [OT_R]),
     (''LoadConstNull'', [OT_R]), (''LoadConstTrue'', [OT_R]), (''LoadConstFalse'', [OT_R]),
     (''LoadConstZero'', [OT_R]), (''CoerceThisNS'', [OT_R, OT_R]), (''LoadThisNS'', [OT_R]),
     (''ToNumber'', [OT_R, OT_R]), (''ToInt32'', [OT_R, OT_R]),
     (''AddEmptyString'', [OT_R, OT_R]), (''GetArgumentsPropByVal'', [OT_R, OT_R, OT_R]),
     (''GetArgumentsLength'', [OT_R, OT_R]), (''ReifyArguments'', [OT_R]),
     (''CreateRegExp'', [OT_R, OT_U4, OT_U4, OT_U4]),
     (''SwitchImm'', [OT_R, OT_U4, OT_A4, OT_U4, OT_U4]), (''Jmp'', [OT_A1]),
     (''JmpLong'', [OT_A4]), (''JmpTrue'', [OT_A1, OT_R]), (''JmpTrueLong'', [OT_A4, OT_R]),
     (''JmpFalse'', [OT_A1, OT_R]), (''JmpFalseLong'', [OT_A4, OT_R]),
     (''JmpUndefined'', [OT_A1, OT_R]), (''JmpUndefinedLong'', [OT_A4, OT_R]),
     (''JLess'', [OT_A1, OT_R, OT_R]), (''JLessLong'', [OT_A4, OT_R, OT_R]),
     (''JNotLess'', [OT_A1, OT_R, OT_R]), (''JNotLessLong'', [OT_A4, OT_R, OT_R]),
     (''JLessN'', [OT_A1, OT_R, OT_R]), (''JLessNLong'', [OT_A4, OT_R, OT_R]),
     (''JNotLessN'', [OT_A1, OT_R, OT_R]), (''JNotLessNLong'', [OT_A4, OT_R, OT_R]),
     (''JLessEqual'', [OT_A1, OT_R, OT_R]), (''JLessEqualLong'', [OT_A4, OT_R, OT_R]),
     (''JNotLessEqual'', [OT_A1, OT_R, OT_R]), (''JNotLessEqualLong'', [OT_A4, OT_R, OT_R]),
     (''JLessEqualN'', [OT_A1, OT_R, OT_R]), (''JLessEqualNLong'', [OT_A4, OT_R, OT_R]),
     (''JNotLessEqualN'', [OT_A1, OT_R, OT_R]), (''JNotLessEqualNLong'', [OT_A4, OT_R, OT_R]),
     (''JGreater'', [OT_A1, OT_R, OT_R]), (''JGreaterLong'', [OT_A4, OT_R, OT_R]),
     (''JNotGreater'', [OT_A1, OT_R, OT_R]), (''JNotGreaterLong'', [OT_A4, OT_R, OT_R]),
     (''JGreaterN'', [OT_A1, OT_R, OT_R]), (''JGreaterNLong'', [OT_A4, OT_R, OT_R]),
     (''JNotGreaterN'', [OT_A1, OT_R, OT_R]), (''JNotGreaterNLong'', [OT_A4, OT_R, OT_R]),
     (''JGreaterEqual'', [OT_A1, OT_R, OT_R]), (''JGreaterEqualLong'', [OT_A4, OT_R, OT_R]),
     (''JNotGreaterEqual'', [OT_A1, OT_R, OT_R]), (''JNotGreaterEqualLong'', [OT_A4, OT_R, OT_R]),
     (''JGreaterEqualN'', [OT_A1, OT_R, OT_R]), (''JGreaterEqualNLong'', [OT_A4, OT_R, OT_R]),
     (''JNotGreaterEqualN'', [OT_A1, OT_R, OT_R]),
     (''JNotGreaterEqualNLong'', [OT_A4, OT_R, OT_R]), (''JEqual'', [OT_A1, OT_R, OT_R]),
     (''JEqualLong'', [OT_A4, OT_R, OT_R]), (''JNotEqual'', [OT_A1, OT_R, OT_R]),
     (''JNotEqualLong'', [OT_A4, OT_R, OT_R]), (''JStrictEqual'', [OT_A1, OT_R, OT_R]),
     (''JStrictEqualLong'', [OT_A4, OT_R, OT_R]), (''JStrictNotEqual'', [OT_A1, OT_R, OT_R]),
     (''JStrictNotEqualLong'', [OT_A4, OT_R, OT_R])]"

definition V45_STRING_IDS :: "(u8 \<times> u8) list" where
  "V45_STRING_IDS =
    [(47, 0), (48, 3), (49, 3), (50, 3), (51, 3), (52, 3), (53, 3), (54, 3), (55, 3), (56, 3),
     (57, 2), (58, 2), (59, 2), (60, 2), (61, 2), (65, 2), (66, 2), (101, 1), (102, 1), (116, 2)]"

definition V45_FUNC_IDS :: "(u8 \<times> u8) list" where
  "V45_FUNC_IDS = []"

definition V45_TABLES :: version_tables where
  "V45_TABLES =
    \<lparr>vt_opcodes = V45_OPCODES, vt_sizes = V45_SIZES, vt_str_ops = V45_STR_OPS, vt_call_ops = V45_CALL_OPS,
     vt_names = V45_NAMES, vt_schemas = V45_SCHEMAS, vt_string_ids = V45_STRING_IDS, vt_func_ids = V45_FUNC_IDS\<rparr>"

lemmas V45_types = V45_SCHEMAS_def [THEN arg_cong [of _ _ "map snd"], unfolded list.map snd_conv]

lemma V45_names: "V45_NAMES = map OpCode_name V45_OPCODES" "map fst V45_SCHEMAS = V45_NAMES"
  by (simp_all only: V45_NAMES_def V45_OPCODES_def V45_SCHEMAS_def list.map opcode_name fst_conv)

lemma V45_agree: "tables_agree V45_TABLES"
  unfolding V45_TABLES_def
  by (rule tables_agreeI [OF _ _ V45_names V45_types])
    (simp_all add: opcodes_upt V45_OPCODES_def V45_SIZES_def V45_STR_OPS_def V45_STRING_IDS_def
      V45_CALL_OPS_def V45_FUNC_IDS_def table_checks)

subsection \<open>Version 46\<close>

definition V46_OPCODES :: "OpCode list" where
  "V46_OPCODES =
    [OP_NewObjectWithBuffer, OP_NewObjectWithBufferLong, OP_NewObject, OP_NewObjectWithParent,
     OP_NewArrayWithBuffer, OP_NewArrayWithBufferLong, OP_NewArray, OP_Mov, OP_MovLong, OP_Negate,
     OP_Not, OP_BitNot, OP_TypeOf, OP_Eq, OP_StrictEq, OP_Neq, OP_StrictNeq, OP_Less, OP_LessEq,
     OP_Greater, OP_GreaterEq, OP_Add, OP_AddN, OP_Mul, OP_MulN, OP_Div, OP_DivN, OP_Mod, OP_Sub,
     OP_SubN, OP_LShift, OP_RShift, OP_URshift, OP_BitAnd, OP_BitXor, OP_BitOr, OP_InstanceOf,
     OP_IsIn, OP_GetEnvironment, OP_StoreToEnvironment, OP_StoreToEnvironmentL,
     OP_StoreNPToEnvironment, OP_StoreNPToEnvironmentL, OP_LoadFromEnvironment,
     OP_LoadFromEnvironmentL, OP_GetGlobalObject, OP_GetNewTarget, OP_CreateEnvironment,
     OP_DeclareGlobalVar, OP_GetByIdShort, OP_GetById, OP_GetByIdLong, OP_TryGetById,
     OP_TryGetByIdLong, OP_PutById, OP_PutByIdLong, OP_TryPutById, OP_TryPutByIdLong,
     OP_PutNewOwnByIdShort, OP_PutNewOwnById, OP_PutNewOwnByIdLong, OP_PutNewOwnNEById,
     OP_PutNewOwnNEByIdLong, OP_PutOwnByIndex, OP_PutOwnByIndexL, OP_PutOwnByVal, OP_DelById,
     OP_DelByIdLong, OP_GetByVal, OP_PutByVal, OP_DelByVal, OP_PutOwnGetterSetterByVal,
     OP_GetPNameList, OP_GetNextPName, OP_Call, OP_Construct, OP_Call1, OP_CallDirect, OP_Call2,
     OP_Call3, OP_Call4, OP_CallLong, OP_ConstructLong, OP_CallDirectLongIndex, OP_CallBuiltin,
     OP_Ret, OP_Catch, OP_DirectEval, OP_Throw, OP_Debugger, OP_DebuggerCheckBreak,
     OP_ProfilePoint, OP_Unreachable, OP_CreateClosure, OP_CreateClosureLongIndex, OP_CreateThis,
     OP_SelectObject, OP_LoadParam, OP_LoadParamLong, OP_LoadConstUInt8, OP_LoadConstInt,
     OP_LoadConstDouble, OP_LoadConstString, OP_LoadConstStringLongIndex, OP_LoadConstUndefined,
     OP_LoadConstNull, OP_LoadConstTrue, OP_LoadConstFalse, OP_LoadConstZero, OP_CoerceThisNS,
     OP_LoadThisNS, OP_ToNumber, OP_ToInt32, OP_AddEmptyString, OP_GetArgumentsPropByVal,
     OP_GetArgumentsLength, OP_ReifyArguments, OP_CreateRegExp, OP_SwitchImm, OP_Jmp, OP_JmpLong,
     OP_JmpTrue, OP_JmpTrueLong, OP_JmpFalse, OP_JmpFalseLong, OP_JmpUndefined,
     OP_JmpUndefinedLong, OP_JLess, OP_JLessLong, OP_JNotLess, OP_JNotLessLong, OP_JLessN,
     OP_JLessNLong, OP_JNotLessN, OP_JNotLessNLong, OP_JLessEqual, OP_JLessEqualLong,
     OP_JNotLessEqual, OP_JNotLessEqualLong, OP_JLessEqualN, OP_JLessEqualNLong,
     OP_JNotLessEqualN, OP_JNotLessEqualNLong, OP_JGreater, OP_JGreaterLong, OP_JNotGreater,
     OP_JNotGreaterLong, OP_JGreaterN, OP_JGreaterNLong, OP_JNotGreaterN, OP_JNotGreaterNLong,
     OP_JGreaterEqual, OP_JGreaterEqualLong, OP_JNotGreaterEqual, OP_JNotGreaterEqualLong,
     OP_JGreaterEqualN, OP_JGreaterEqualNLong, OP_JNotGreaterEqualN, OP_JNotGreaterEqualNLong,
     OP_JEqual, OP_JEqualLong, OP_JNotEqual, OP_JNotEqualLong, OP_JStrictEqual,
     OP_JStrictEqualLong, OP_JStrictNotEqual, OP_JStrictNotEqualLong]"

definition V46_SIZES :: "u8 list" where
  "V46_SIZES =
    [10, 14, 2, 3, 8, 10, 4, 3, 9, 3, 3, 3, 3, 4, 4, 4, 4, 4, 4, 4, 4, 4, 4, 4, 4, 4, 4, 4, 4, 4,
     4, 4, 4, 4, 4, 4, 4, 4, 3, 4, 5, 4, 5, 4, 5, 2, 2, 2, 5, 5, 6, 8, 6, 8, 6, 8, 6, 8, 4, 5, 7,
     5, 7, 4, 7, 5, 5, 7, 4, 4, 4, 6, 5, 6, 4, 4, 4, 5, 5, 6, 7, 7, 7, 7, 4, 2, 2, 3, 2, 1, 1, 3,
     1, 5, 7, 4, 4, 3, 6, 3, 6, 10, 4, 6, 2, 2, 2, 2, 2, 3, 2, 3, 3, 3, 4, 3, 2, 14, 18, 2, 5, 3,
     6, 3, 6, 3, 6, 4, 7, 4, 7, 4, 7, 4, 7, 4, 7, 4, 7, 4, 7, 4, 7, 4, 7, 4, 7, 4, 7, 4, 7, 4, 7,
     4, 7, 4, 7, 4, 7, 4, 7, 4, 7, 4, 7, 4, 7]"

definition V46_STR_OPS :: "(u8 \<times> u8 \<times> u8) list" where
  "V46_STR_OPS =
    [(48, 1, 4), (49, 4, 1), (50, 4, 2), (51, 4, 4), (52, 4, 2), (53, 4, 4), (54, 4, 2),
     (55, 4, 4), (56, 4, 2), (57, 4, 4), (58, 3, 1), (59, 3, 2), (60, 3, 4), (61, 3, 2),
     (62, 3, 4), (66, 3, 2), (67, 3, 4), (102, 2, 2), (103, 2, 4), (117, 6, 4)]"

definition V46_CALL_OPS :: "(u8 \<times> u8 \<times> u8) list" where
  "V46_CALL_OPS =
    [(77, 3, 2), (83, 3, 4)]"

definition V46_NAMES :: "string list" where
  "V46_NAMES =
    [''NewObjectWithBuffer'', ''NewObjectWithBufferLong'', ''NewObject'', ''NewObjectWithParent'',
     ''NewArrayWithBuffer'', ''NewArrayWithBufferLong'', ''NewArray'', ''Mov'', ''MovLong'',
     ''Negate'', ''Not'', ''BitNot'', ''TypeOf'', ''Eq'', ''StrictEq'', ''Neq'', ''StrictNeq'',
     ''Less'', ''LessEq'', ''Greater'', ''GreaterEq'', ''Add'', ''AddN'', ''Mul'', ''MulN'',
     ''Div'', ''DivN'', ''Mod'', ''Sub'', ''SubN'', ''LShift'', ''RShift'', ''URshift'',
     ''BitAnd'', ''BitXor'', ''BitOr'', ''InstanceOf'', ''IsIn'', ''GetEnvironment'',
     ''StoreToEnvironment'', ''StoreToEnvironmentL'', ''StoreNPToEnvironment'',
     ''StoreNPToEnvironmentL'', ''LoadFromEnvironment'', ''LoadFromEnvironmentL'',
     ''GetGlobalObject'', ''GetNewTarget'', ''CreateEnvironment'', ''DeclareGlobalVar'',
     ''GetByIdShort'', ''GetById'', ''GetByIdLong'', ''TryGetById'', ''TryGetByIdLong'',
     ''PutById'', ''PutByIdLong'', ''TryPutById'', ''TryPutByIdLong'', ''PutNewOwnByIdShort'',
     ''PutNewOwnById'', ''PutNewOwnByIdLong'', ''PutNewOwnNEById'', ''PutNewOwnNEByIdLong'',
     ''PutOwnByIndex'', ''PutOwnByIndexL'', ''PutOwnByVal'', ''DelById'', ''DelByIdLong'',
     ''GetByVal'', ''PutByVal'', ''DelByVal'', ''PutOwnGetterSetterByVal'', ''GetPNameList'',
     ''GetNextPName'', ''Call'', ''Construct'', ''Call1'', ''CallDirect'', ''Call2'', ''Call3'',
     ''Call4'', ''CallLong'', ''ConstructLong'', ''CallDirectLongIndex'', ''CallBuiltin'',
     ''Ret'', ''Catch'', ''DirectEval'', ''Throw'', ''Debugger'', ''DebuggerCheckBreak'',
     ''ProfilePoint'', ''Unreachable'', ''CreateClosure'', ''CreateClosureLongIndex'',
     ''CreateThis'', ''SelectObject'', ''LoadParam'', ''LoadParamLong'', ''LoadConstUInt8'',
     ''LoadConstInt'', ''LoadConstDouble'', ''LoadConstString'', ''LoadConstStringLongIndex'',
     ''LoadConstUndefined'', ''LoadConstNull'', ''LoadConstTrue'', ''LoadConstFalse'',
     ''LoadConstZero'', ''CoerceThisNS'', ''LoadThisNS'', ''ToNumber'', ''ToInt32'',
     ''AddEmptyString'', ''GetArgumentsPropByVal'', ''GetArgumentsLength'', ''ReifyArguments'',
     ''CreateRegExp'', ''SwitchImm'', ''Jmp'', ''JmpLong'', ''JmpTrue'', ''JmpTrueLong'',
     ''JmpFalse'', ''JmpFalseLong'', ''JmpUndefined'', ''JmpUndefinedLong'', ''JLess'',
     ''JLessLong'', ''JNotLess'', ''JNotLessLong'', ''JLessN'', ''JLessNLong'', ''JNotLessN'',
     ''JNotLessNLong'', ''JLessEqual'', ''JLessEqualLong'', ''JNotLessEqual'',
     ''JNotLessEqualLong'', ''JLessEqualN'', ''JLessEqualNLong'', ''JNotLessEqualN'',
     ''JNotLessEqualNLong'', ''JGreater'', ''JGreaterLong'', ''JNotGreater'', ''JNotGreaterLong'',
     ''JGreaterN'', ''JGreaterNLong'', ''JNotGreaterN'', ''JNotGreaterNLong'', ''JGreaterEqual'',
     ''JGreaterEqualLong'', ''JNotGreaterEqual'', ''JNotGreaterEqualLong'', ''JGreaterEqualN'',
     ''JGreaterEqualNLong'', ''JNotGreaterEqualN'', ''JNotGreaterEqualNLong'', ''JEqual'',
     ''JEqualLong'', ''JNotEqual'', ''JNotEqualLong'', ''JStrictEqual'', ''JStrictEqualLong'',
     ''JStrictNotEqual'', ''JStrictNotEqualLong'']"

definition V46_SCHEMAS :: "(string \<times> OpType list) list" where
  "V46_SCHEMAS =
    [(''NewObjectWithBuffer'', [OT_R, OT_U2, OT_U2, OT_U2, OT_U2]),
     (''NewObjectWithBufferLong'', [OT_R, OT_U2, OT_U2, OT_U4, OT_U4]), (''NewObject'', [OT_R]),
     (''NewObjectWithParent'', [OT_R, OT_R]),
     (''NewArrayWithBuffer'', [OT_R, OT_U2, OT_U2, OT_U2]),
     (''NewArrayWithBufferLong'', [OT_R, OT_U2, OT_U2, OT_U4]), (''NewArray'', [OT_R, OT_U2]),
     (''Mov'', [OT_R, OT_R]), (''MovLong'', [OT_R4, OT_R4]), (''Negate'', [OT_R, OT_R]),
     (''Not'', [OT_R, OT_R]), (''BitNot'', [OT_R, OT_R]), (''TypeOf'', [OT_R, OT_R]),
     (''Eq'', [OT_R, OT_R, OT_R]), (''StrictEq'', [OT_R, OT_R, OT_R]),
     (''Neq'', [OT_R, OT_R, OT_R]), (''StrictNeq'', [OT_R, OT_R, OT_R]),
     (''Less'', [OT_R, OT_R, OT_R]), (''LessEq'', [OT_R, OT_R, OT_R]),
     (''Greater'', [OT_R, OT_R, OT_R]), (''GreaterEq'', [OT_R, OT_R, OT_R]),
     (''Add'', [OT_R, OT_R, OT_R]), (''AddN'', [OT_R, OT_R, OT_R]), (''Mul'', [OT_R, OT_R, OT_R]),
     (''MulN'', [OT_R, OT_R, OT_R]), (''Div'', [OT_R, OT_R, OT_R]),
     (''DivN'', [OT_R, OT_R, OT_R]), (''Mod'', [OT_R, OT_R, OT_R]), (''Sub'', [OT_R, OT_R, OT_R]),
     (''SubN'', [OT_R, OT_R, OT_R]), (''LShift'', [OT_R, OT_R, OT_R]),
     (''RShift'', [OT_R, OT_R, OT_R]), (''URshift'', [OT_R, OT_R, OT_R]),
     (''BitAnd'', [OT_R, OT_R, OT_R]), (''BitXor'', [OT_R, OT_R, OT_R]),
     (''BitOr'', [OT_R, OT_R, OT_R]), (''InstanceOf'', [OT_R, OT_R, OT_R]),
     (''IsIn'', [OT_R, OT_R, OT_R]), (''GetEnvironment'', [OT_R, OT_U1]),
     (''StoreToEnvironment'', [OT_R, OT_U1, OT_R]),
     (''StoreToEnvironmentL'', [OT_R, OT_U2, OT_R]),
     (''StoreNPToEnvironment'', [OT_R, OT_U1, OT_R]),
     (''StoreNPToEnvironmentL'', [OT_R, OT_U2, OT_R]),
     (''LoadFromEnvironment'', [OT_R, OT_R, OT_U1]),
     (''LoadFromEnvironmentL'', [OT_R, OT_R, OT_U2]), (''GetGlobalObject'', [OT_R]),
     (''GetNewTarget'', [OT_R]), (''CreateEnvironment'', [OT_R]), (''DeclareGlobalVar'', [OT_U4]),
     (''GetByIdShort'', [OT_R, OT_R, OT_U1, OT_U1]), (''GetById'', [OT_R, OT_R, OT_U1, OT_U2]),
     (''GetByIdLong'', [OT_R, OT_R, OT_U1, OT_U4]), (''TryGetById'', [OT_R, OT_R, OT_U1, OT_U2]),
     (''TryGetByIdLong'', [OT_R, OT_R, OT_U1, OT_U4]), (''PutById'', [OT_R, OT_R, OT_U1, OT_U2]),
     (''PutByIdLong'', [OT_R, OT_R, OT_U1, OT_U4]), (''TryPutById'', [OT_R, OT_R, OT_U1, OT_U2]),
     (''TryPutByIdLong'', [OT_R, OT_R, OT_U1, OT_U4]),
     (''PutNewOwnByIdShort'', [OT_R, OT_R, OT_U1]), (''PutNewOwnById'', [OT_R, OT_R, OT_U2]),
     (''PutNewOwnByIdLong'', [OT_R, OT_R, OT_U4]), (''PutNewOwnNEById'', [OT_R, OT_R, OT_U2]),
     (''PutNewOwnNEByIdLong'', [OT_R, OT_R, OT_U4]), (''PutOwnByIndex'', [OT_R, OT_R, OT_U1]),
     (''PutOwnByIndexL'', [OT_R, OT_R, OT_U4]), (''PutOwnByVal'', [OT_R, OT_R, OT_R, OT_U1]),
     (''DelById'', [OT_R, OT_R, OT_U2]), (''DelByIdLong'', [OT_R, OT_R, OT_U4]),
     (''GetByVal'', [OT_R, OT_R, OT_R]), (''PutByVal'', [OT_R, OT_R, OT_R]),
     (''DelByVal'', [OT_R, OT_R, OT_R]),
     (''PutOwnGetterSetterByVal'', [OT_R, OT_R, OT_R, OT_R, OT_U1]),
     (''GetPNameList'', [OT_R, OT_R, OT_R, OT_R]),
     (''GetNextPName'', [OT_R, OT_R, OT_R, OT_R, OT_R]), (''Call'', [OT_R, OT_R, OT_U1]),
     (''Construct'', [OT_R, OT_R, OT_U1]), (''Call1'', [OT_R, OT_R, OT_R]),
     (''CallDirect'', [OT_R, OT_U1, OT_U2]), (''Call2'', [OT_R, OT_R, OT_R, OT_R]),
     (''Call3'', [OT_R, OT_R, OT_R, OT_R, OT_R]),
     (''Call4'', [OT_R, OT_R, OT_R, OT_R, OT_R, OT_R]), (''CallLong'', [OT_R, OT_R, OT_U4]),
     (''ConstructLong'', [OT_R, OT_R, OT_U4]), (''CallDirectLongIndex'', [OT_R, OT_U1, OT_U4]),
     (''CallBuiltin'', [OT_R, OT_U1, OT_U1]), (''Ret'', [OT_R]), (''Catch'', [OT_R]),
     (''DirectEval'', [OT_R, OT_R]), (''Throw'', [OT_R]), (''Debugger'', []),
     (''DebuggerCheckBreak'', []), (''ProfilePoint'', [OT_U2]), (''Unreachable'', []),
     (''CreateClosure'', [OT_R, OT_R, OT_U2]), (''CreateClosureLongIndex'', [OT_R, OT_R, OT_U4]),
     (''CreateThis'', [OT_R, OT_R, OT_R]), (''SelectObject'', [OT_R, OT_R, OT_R]),
     (''LoadParam'', [OT_R, OT_U1]), (''LoadParamLong'', [OT_R, OT_U4]),
     (''LoadConstUInt8'', [OT_R, OT_U1]), (''LoadConstInt'', [OT_R, OT_I4]),
     (''LoadConstDouble'', [OT_R, OT_D]), (''LoadConstString'', [OT_R, OT_U2]),
     (''LoadConstStringLongIndex'', [OT_R, OT_U4]), (''LoadConstUndefined'', [OT_R]),
     (''LoadConstNull'', [OT_R]), (''LoadConstTrue'', [OT_R]), (''LoadConstFalse'', [OT_R]),
     (''LoadConstZero'', [OT_R]), (''CoerceThisNS'', [OT_R, OT_R]), (''LoadThisNS'', [OT_R]),
     (''ToNumber'', [OT_R, OT_R]), (''ToInt32'', [OT_R, OT_R]),
     (''AddEmptyString'', [OT_R, OT_R]), (''GetArgumentsPropByVal'', [OT_R, OT_R, OT_R]),
     (''GetArgumentsLength'', [OT_R, OT_R]), (''ReifyArguments'', [OT_R]),
     (''CreateRegExp'', [OT_R, OT_U4, OT_U4, OT_U4]),
     (''SwitchImm'', [OT_R, OT_U4, OT_A4, OT_U4, OT_U4]), (''Jmp'', [OT_A1]),
     (''JmpLong'', [OT_A4]), (''JmpTrue'', [OT_A1, OT_R]), (''JmpTrueLong'', [OT_A4, OT_R]),
     (''JmpFalse'', [OT_A1, OT_R]), (''JmpFalseLong'', [OT_A4, OT_R]),
     (''JmpUndefined'', [OT_A1, OT_R]), (''JmpUndefinedLong'', [OT_A4, OT_R]),
     (''JLess'', [OT_A1, OT_R, OT_R]), (''JLessLong'', [OT_A4, OT_R, OT_R]),
     (''JNotLess'', [OT_A1, OT_R, OT_R]), (''JNotLessLong'', [OT_A4, OT_R, OT_R]),
     (''JLessN'', [OT_A1, OT_R, OT_R]), (''JLessNLong'', [OT_A4, OT_R, OT_R]),
     (''JNotLessN'', [OT_A1, OT_R, OT_R]), (''JNotLessNLong'', [OT_A4, OT_R, OT_R]),
     (''JLessEqual'', [OT_A1, OT_R, OT_R]), (''JLessEqualLong'', [OT_A4, OT_R, OT_R]),
     (''JNotLessEqual'', [OT_A1, OT_R, OT_R]), (''JNotLessEqualLong'', [OT_A4, OT_R, OT_R]),
     (''JLessEqualN'', [OT_A1, OT_R, OT_R]), (''JLessEqualNLong'', [OT_A4, OT_R, OT_R]),
     (''JNotLessEqualN'', [OT_A1, OT_R, OT_R]), (''JNotLessEqualNLong'', [OT_A4, OT_R, OT_R]),
     (''JGreater'', [OT_A1, OT_R, OT_R]), (''JGreaterLong'', [OT_A4, OT_R, OT_R]),
     (''JNotGreater'', [OT_A1, OT_R, OT_R]), (''JNotGreaterLong'', [OT_A4, OT_R, OT_R]),
     (''JGreaterN'', [OT_A1, OT_R, OT_R]), (''JGreaterNLong'', [OT_A4, OT_R, OT_R]),
     (''JNotGreaterN'', [OT_A1, OT_R, OT_R]), (''JNotGreaterNLong'', [OT_A4, OT_R, OT_R]),
     (''JGreaterEqual'', [OT_A1, OT_R, OT_R]), (''JGreaterEqualLong'', [OT_A4, OT_R, OT_R]),
     (''JNotGreaterEqual'', [OT_A1, OT_R, OT_R]), (''JNotGreaterEqualLong'', [OT_A4, OT_R, OT_R]),
     (''JGreaterEqualN'', [OT_A1, OT_R, OT_R]), (''JGreaterEqualNLong'', [OT_A4, OT_R, OT_R]),
     (''JNotGreaterEqualN'', [OT_A1, OT_R, OT_R]),
     (''JNotGreaterEqualNLong'', [OT_A4, OT_R, OT_R]), (''JEqual'', [OT_A1, OT_R, OT_R]),
     (''JEqualLong'', [OT_A4, OT_R, OT_R]), (''JNotEqual'', [OT_A1, OT_R, OT_R]),
     (''JNotEqualLong'', [OT_A4, OT_R, OT_R]), (''JStrictEqual'', [OT_A1, OT_R, OT_R]),
     (''JStrictEqualLong'', [OT_A4, OT_R, OT_R]), (''JStrictNotEqual'', [OT_A1, OT_R, OT_R]),
     (''JStrictNotEqualLong'', [OT_A4, OT_R, OT_R])]"

definition V46_STRING_IDS :: "(u8 \<times> u8) list" where
  "V46_STRING_IDS =
    [(48, 0), (49, 3), (50, 3), (51, 3), (52, 3), (53, 3), (54, 3), (55, 3), (56, 3), (57, 3),
     (58, 2), (59, 2), (60, 2), (61, 2), (62, 2), (66, 2), (67, 2), (102, 1), (103, 1), (117, 2)]"

definition V46_FUNC_IDS :: "(u8 \<times> u8) list" where
  "V46_FUNC_IDS = []"

definition V46_TABLES :: version_tables where
  "V46_TABLES =
    \<lparr>vt_opcodes = V46_OPCODES, vt_sizes = V46_SIZES, vt_str_ops = V46_STR_OPS, vt_call_ops = V46_CALL_OPS,
     vt_names = V46_NAMES, vt_schemas = V46_SCHEMAS, vt_string_ids = V46_STRING_IDS, vt_func_ids = V46_FUNC_IDS\<rparr>"

lemmas V46_types = V46_SCHEMAS_def [THEN arg_cong [of _ _ "map snd"], unfolded list.map snd_conv]

lemma V46_names: "V46_NAMES = map OpCode_name V46_OPCODES" "map fst V46_SCHEMAS = V46_NAMES"
  by (simp_all only: V46_NAMES_def V46_OPCODES_def V46_SCHEMAS_def list.map opcode_name fst_conv)

lemma V46_agree: "tables_agree V46_TABLES"
  unfolding V46_TABLES_def
  by (rule tables_agreeI [OF _ _ V46_names V46_types])
    (simp_all add: opcodes_upt V46_OPCODES_def V46_SIZES_def V46_STR_OPS_def V46_STRING_IDS_def
      V46_CALL_OPS_def V46_FUNC_IDS_def table_checks)

subsection \<open>Version 52\<close>

definition V52_OPCODES :: "OpCode list" where
  "V52_OPCODES =
    [OP_NewObjectWithBuffer, OP_NewObjectWithBufferLong, OP_NewObject, OP_NewObjectWithParent,
     OP_NewArrayWithBuffer, OP_NewArrayWithBufferLong, OP_NewArray, OP_Mov, OP_MovLong, OP_Negate,
     OP_Not, OP_BitNot, OP_TypeOf, OP_Eq, OP_StrictEq, OP_Neq, OP_StrictNeq, OP_Less, OP_LessEq,
     OP_Greater, OP_GreaterEq, OP_Add, OP_AddN, OP_Mul, OP_MulN, OP_Div, OP_DivN, OP_Mod, OP_Sub,
     OP_SubN, OP_LShift, OP_RShift, OP_URshift, OP_BitAnd, OP_BitXor, OP_BitOr, OP_InstanceOf,
     OP_IsIn, OP_GetEnvironment, OP_StoreToEnvironment, OP_StoreToEnvironmentL,
     OP_StoreNPToEnvironment, OP_StoreNPToEnvironmentL, OP_LoadFromEnvironment,
     OP_LoadFromEnvironmentL, OP_GetGlobalObject, OP_GetNewTarget, OP_CreateEnvironment,
     OP_DeclareGlobalVar, OP_GetByIdShort, OP_GetById, OP_GetByIdLong, OP_TryGetById,
     OP_TryGetByIdLong, OP_PutById, OP_PutByIdLong, OP_TryPutById, OP_TryPutByIdLong,
     OP_PutNewOwnByIdShort, OP_PutNewOwnById, OP_PutNewOwnByIdLong, OP_PutNewOwnNEById,
     OP_PutNewOwnNEByIdLong, OP_PutOwnByIndex, OP_PutOwnByIndexL, OP_PutOwnByVal, OP_DelById,
     OP_DelByIdLong, OP_GetByVal, OP_PutByVal, OP_DelByVal, OP_PutOwnGetterSetterByVal,
     OP_GetPNameList, OP_GetNextPName, OP_Call, OP_Construct, OP_Call1, OP_CallDirect, OP_Call2,
     OP_Call3, OP_Call4, OP_CallLong, OP_ConstructLong, OP_CallDirectLongIndex, OP_CallBuiltin,
     OP_Ret, OP_Catch, OP_DirectEval, OP_Throw, OP_Debugger, OP_DebuggerCheckBreak,
     OP_ProfilePoint, OP_Unreachable, OP_CreateClosure, OP_CreateClosureLongIndex,
     OP_CreateGeneratorClosure, OP_CreateGeneratorClosureLongIndex, OP_CreateThis,
     OP_SelectObject, OP_LoadParam, OP_LoadParamLong, OP_LoadConstUInt8, OP_LoadConstInt,
     OP_LoadConstDouble, OP_LoadConstString, OP_LoadConstStringLongIndex, OP_LoadConstUndefined,
     OP_LoadConstNull, OP_LoadConstTrue, OP_LoadConstFalse, OP_LoadConstZero, OP_CoerceThisNS,
     OP_LoadThisNS, OP_ToNumber, OP_ToInt32, OP_AddEmptyString, OP_GetArgumentsPropByVal,
     OP_GetArgumentsLength, OP_ReifyArguments, OP_CreateRegExp, OP_SwitchImm, OP_StartGenerator,
     OP_ResumeGenerator, OP_CompleteGenerator, OP_CreateGenerator, OP_CreateGeneratorLongIndex,
     OP_Jmp, OP_JmpLong, OP_JmpTrue, OP_JmpTrueLong, OP_JmpFalse, OP_JmpFalseLong,
     OP_JmpUndefined, OP_JmpUndefinedLong, OP_SaveGenerator, OP_SaveGeneratorLong, OP_JLess,
     OP_JLessLong, OP_JNotLess, OP_JNotLessLong, OP_JLessN, OP_JLessNLong, OP_JNotLessN,
     OP_JNotLessNLong, OP_JLessEqual, OP_JLessEqualLong, OP_JNotLessEqual, OP_JNotLessEqualLong,
     OP_JLessEqualN, OP_JLessEqualNLong, OP_JNotLessEqualN, OP_JNotLessEqualNLong, OP_JGreater,
     OP_JGreaterLong, OP_JNotGreater, OP_JNotGreaterLong, OP_JGreaterN, OP_JGreaterNLong,
     OP_JNotGreaterN, OP_JNotGreaterNLong, OP_JGreaterEqual, OP_JGreaterEqualLong,
     OP_JNotGreaterEqual, OP_JNotGreaterEqualLong, OP_JGreaterEqualN, OP_JGreaterEqualNLong,
     OP_JNotGreaterEqualN, OP_JNotGreaterEqualNLong, OP_JEqual, OP_JEqualLong, OP_JNotEqual,
     OP_JNotEqualLong, OP_JStrictEqual, OP_JStrictEqualLong, OP_JStrictNotEqual,
     OP_JStrictNotEqualLong]"

definition V52_SIZES :: "u8 list" where
  "V52_SIZES =
    [10, 14, 2, 3, 8, 10, 4, 3, 9, 3, 3, 3, 3, 4, 4, 4, 4, 4, 4, 4, 4, 4, 4, 4, 4, 4, 4, 4, 4, 4,
     4, 4, 4, 4, 4, 4, 4, 4, 3, 4, 5, 4, 5, 4, 5, 2, 2, 2, 5, 5, 6, 8, 6, 8, 6, 8, 6, 8, 4, 5, 7,
     5, 7, 4, 7, 5, 5, 7, 4, 4, 4, 6, 5, 6, 4, 4, 4, 5, 5, 6, 7, 7, 7, 7, 4, 2, 2, 3, 2, 1, 1, 3,
     1, 5, 7, 5, 7, 4, 4, 3, 6, 3, 6, 10, 4, 6, 2, 2, 2, 2, 2, 3, 2, 3, 3, 3, 4, 3, 2, 14, 18, 1,
     3, 1, 5, 7, 2, 5, 3, 6, 3, 6, 3, 6, 2, 5, 4, 7, 4, 7, 4, 7, 4, 7, 4, 7, 4, 7, 4, 7, 4, 7, 4,
     7, 4, 7, 4, 7, 4, 7, 4, 7, 4, 7, 4, 7, 4, 7, 4, 7, 4, 7, 4, 7, 4, 7]"

definition V52_STR_OPS :: "(u8 \<times> u8 \<times> u8) list" where
  "V52_STR_OPS =
    [(48, 1, 4), (49, 4, 1), (50, 4, 2), (51, 4, 4), (52, 4, 2), (53, 4, 4), (54, 4, 2),
     (55, 4, 4), (56, 4, 2), (57, 4, 4), (58, 3, 1), (59, 3, 2), (60, 3, 4), (61, 3, 2),
     (62, 3, 4), (66, 3, 2), (67, 3, 4), (104, 2, 2), (105, 2, 4), (119, 6, 4)]"

definition V52_CALL_OPS :: "(u8 \<times> u8 \<times> u8) list" where
  "V52_CALL_OPS =
    [(77, 3, 2), (83, 3, 4)]"

definition V52_NAMES :: "string list" where
  "V52_NAMES =
    [''NewObjectWithBuffer'', ''NewObjectWithBufferLong'', ''NewObject'', ''NewObjectWithParent'',
     ''NewArrayWithBuffer'', ''NewArrayWithBufferLong'', ''NewArray'', ''Mov'', ''MovLong'',
     ''Negate'', ''Not'', ''BitNot'', ''TypeOf'', ''Eq'', ''StrictEq'', ''Neq'', ''StrictNeq'',
     ''Less'', ''LessEq'', ''Greater'', ''GreaterEq'', ''Add'', ''AddN'', ''Mul'', ''MulN'',
     ''Div'', ''DivN'', ''Mod'', ''Sub'', ''SubN'', ''LShift'', ''RShift'', ''URshift'',
     ''BitAnd'', ''BitXor'', ''BitOr'', ''InstanceOf'', ''IsIn'', ''GetEnvironment'',
     ''StoreToEnvironment'', ''StoreToEnvironmentL'', ''StoreNPToEnvironment'',
     ''StoreNPToEnvironmentL'', ''LoadFromEnvironment'', ''LoadFromEnvironmentL'',
     ''GetGlobalObject'', ''GetNewTarget'', ''CreateEnvironment'', ''DeclareGlobalVar'',
     ''GetByIdShort'', ''GetById'', ''GetByIdLong'', ''TryGetById'', ''TryGetByIdLong'',
     ''PutById'', ''PutByIdLong'', ''TryPutById'', ''TryPutByIdLong'', ''PutNewOwnByIdShort'',
     ''PutNewOwnById'', ''PutNewOwnByIdLong'', ''PutNewOwnNEById'', ''PutNewOwnNEByIdLong'',
     ''PutOwnByIndex'', ''PutOwnByIndexL'', ''PutOwnByVal'', ''DelById'', ''DelByIdLong'',
     ''GetByVal'', ''PutByVal'', ''DelByVal'', ''PutOwnGetterSetterByVal'', ''GetPNameList'',
     ''GetNextPName'', ''Call'', ''Construct'', ''Call1'', ''CallDirect'', ''Call2'', ''Call3'',
     ''Call4'', ''CallLong'', ''ConstructLong'', ''CallDirectLongIndex'', ''CallBuiltin'',
     ''Ret'', ''Catch'', ''DirectEval'', ''Throw'', ''Debugger'', ''DebuggerCheckBreak'',
     ''ProfilePoint'', ''Unreachable'', ''CreateClosure'', ''CreateClosureLongIndex'',
     ''CreateGeneratorClosure'', ''CreateGeneratorClosureLongIndex'', ''CreateThis'',
     ''SelectObject'', ''LoadParam'', ''LoadParamLong'', ''LoadConstUInt8'', ''LoadConstInt'',
     ''LoadConstDouble'', ''LoadConstString'', ''LoadConstStringLongIndex'',
     ''LoadConstUndefined'', ''LoadConstNull'', ''LoadConstTrue'', ''LoadConstFalse'',
     ''LoadConstZero'', ''CoerceThisNS'', ''LoadThisNS'', ''ToNumber'', ''ToInt32'',
     ''AddEmptyString'', ''GetArgumentsPropByVal'', ''GetArgumentsLength'', ''ReifyArguments'',
     ''CreateRegExp'', ''SwitchImm'', ''StartGenerator'', ''ResumeGenerator'',
     ''CompleteGenerator'', ''CreateGenerator'', ''CreateGeneratorLongIndex'', ''Jmp'',
     ''JmpLong'', ''JmpTrue'', ''JmpTrueLong'', ''JmpFalse'', ''JmpFalseLong'', ''JmpUndefined'',
     ''JmpUndefinedLong'', ''SaveGenerator'', ''SaveGeneratorLong'', ''JLess'', ''JLessLong'',
     ''JNotLess'', ''JNotLessLong'', ''JLessN'', ''JLessNLong'', ''JNotLessN'', ''JNotLessNLong'',
     ''JLessEqual'', ''JLessEqualLong'', ''JNotLessEqual'', ''JNotLessEqualLong'',
     ''JLessEqualN'', ''JLessEqualNLong'', ''JNotLessEqualN'', ''JNotLessEqualNLong'',
     ''JGreater'', ''JGreaterLong'', ''JNotGreater'', ''JNotGreaterLong'', ''JGreaterN'',
     ''JGreaterNLong'', ''JNotGreaterN'', ''JNotGreaterNLong'', ''JGreaterEqual'',
     ''JGreaterEqualLong'', ''JNotGreaterEqual'', ''JNotGreaterEqualLong'', ''JGreaterEqualN'',
     ''JGreaterEqualNLong'', ''JNotGreaterEqualN'', ''JNotGreaterEqualNLong'', ''JEqual'',
     ''JEqualLong'', ''JNotEqual'', ''JNotEqualLong'', ''JStrictEqual'', ''JStrictEqualLong'',
     ''JStrictNotEqual'', ''JStrictNotEqualLong'']"

definition V52_SCHEMAS :: "(string \<times> OpType list) list" where
  "V52_SCHEMAS =
    [(''NewObjectWithBuffer'', [OT_R, OT_U2, OT_U2, OT_U2, OT_U2]),
     (''NewObjectWithBufferLong'', [OT_R, OT_U2, OT_U2, OT_U4, OT_U4]), (''NewObject'', [OT_R]),
     (''NewObjectWithParent'', [OT_R, OT_R]),
     (''NewArrayWithBuffer'', [OT_R, OT_U2, OT_U2, OT_U2]),
     (''NewArrayWithBufferLong'', [OT_R, OT_U2, OT_U2, OT_U4]), (''NewArray'', [OT_R, OT_U2]),
     (''Mov'', [OT_R, OT_R]), (''MovLong'', [OT_R4, OT_R4]), (''Negate'', [OT_R, OT_R]),
     (''Not'', [OT_R, OT_R]), (''BitNot'', [OT_R, OT_R]), (''TypeOf'', [OT_R, OT_R]),
     (''Eq'', [OT_R, OT_R, OT_R]), (''StrictEq'', [OT_R, OT_R, OT_R]),
     (''Neq'', [OT_R, OT_R, OT_R]), (''StrictNeq'', [OT_R, OT_R, OT_R]),
     (''Less'', [OT_R, OT_R, OT_R]), (''LessEq'', [OT_R, OT_R, OT_R]),
     (''Greater'', [OT_R, OT_R, OT_R]), (''GreaterEq'', [OT_R, OT_R, OT_R]),
     (''Add'', [OT_R, OT_R, OT_R]), (''AddN'', [OT_R, OT_R, OT_R]), (''Mul'', [OT_R, OT_R, OT_R]),
     (''MulN'', [OT_R, OT_R, OT_R]), (''Div'', [OT_R, OT_R, OT_R]),
     (''DivN'', [OT_R, OT_R, OT_R]), (''Mod'', [OT_R, OT_R, OT_R]), (''Sub'', [OT_R, OT_R, OT_R]),
     (''SubN'', [OT_R, OT_R, OT_R]), (''LShift'', [OT_R, OT_R, OT_R]),
     (''RShift'', [OT_R, OT_R, OT_R]), (''URshift'', [OT_R, OT_R, OT_R]),
     (''BitAnd'', [OT_R, OT_R, OT_R]), (''BitXor'', [OT_R, OT_R, OT_R]),
     (''BitOr'', [OT_R, OT_R, OT_R]), (''InstanceOf'', [OT_R, OT_R, OT_R]),
     (''IsIn'', [OT_R, OT_R, OT_R]), (''GetEnvironment'', [OT_R, OT_U1]),
     (''StoreToEnvironment'', [OT_R, OT_U1, OT_R]),
     (''StoreToEnvironmentL'', [OT_R, OT_U2, OT_R]),
     (''StoreNPToEnvironment'', [OT_R, OT_U1, OT_R]),
     (''StoreNPToEnvironmentL'', [OT_R, OT_U2, OT_R]),
     (''LoadFromEnvironment'', [OT_R, OT_R, OT_U1]),
     (''LoadFromEnvironmentL'', [OT_R, OT_R, OT_U2]), (''GetGlobalObject'', [OT_R]),
     (''GetNewTarget'', [OT_R]), (''CreateEnvironment'', [OT_R]), (''DeclareGlobalVar'', [OT_U4]),
     (''GetByIdShort'', [OT_R, OT_R, OT_U1, OT_U1]), (''GetById'', [OT_R, OT_R, OT_U1, OT_U2]),
     (''GetByIdLong'', [OT_R, OT_R, OT_U1, OT_U4]), (''TryGetById'', [OT_R, OT_R, OT_U1, OT_U2]),
     (''TryGetByIdLong'', [OT_R, OT_R, OT_U1, OT_U4]), (''PutById'', [OT_R, OT_R, OT_U1, OT_U2]),
     (''PutByIdLong'', [OT_R, OT_R, OT_U1, OT_U4]), (''TryPutById'', [OT_R, OT_R, OT_U1, OT_U2]),
     (''TryPutByIdLong'', [OT_R, OT_R, OT_U1, OT_U4]),
     (''PutNewOwnByIdShort'', [OT_R, OT_R, OT_U1]), (''PutNewOwnById'', [OT_R, OT_R, OT_U2]),
     (''PutNewOwnByIdLong'', [OT_R, OT_R, OT_U4]), (''PutNewOwnNEById'', [OT_R, OT_R, OT_U2]),
     (''PutNewOwnNEByIdLong'', [OT_R, OT_R, OT_U4]), (''PutOwnByIndex'', [OT_R, OT_R, OT_U1]),
     (''PutOwnByIndexL'', [OT_R, OT_R, OT_U4]), (''PutOwnByVal'', [OT_R, OT_R, OT_R, OT_U1]),
     (''DelById'', [OT_R, OT_R, OT_U2]), (''DelByIdLong'', [OT_R, OT_R, OT_U4]),
     (''GetByVal'', [OT_R, OT_R, OT_R]), (''PutByVal'', [OT_R, OT_R, OT_R]),
     (''DelByVal'', [OT_R, OT_R, OT_R]),
     (''PutOwnGetterSetterByVal'', [OT_R, OT_R, OT_R, OT_R, OT_U1]),
     (''GetPNameList'', [OT_R, OT_R, OT_R, OT_R]),
     (''GetNextPName'', [OT_R, OT_R, OT_R, OT_R, OT_R]), (''Call'', [OT_R, OT_R, OT_U1]),
     (''Construct'', [OT_R, OT_R, OT_U1]), (''Call1'', [OT_R, OT_R, OT_R]),
     (''CallDirect'', [OT_R, OT_U1, OT_U2]), (''Call2'', [OT_R, OT_R, OT_R, OT_R]),
     (''Call3'', [OT_R, OT_R, OT_R, OT_R, OT_R]),
     (''Call4'', [OT_R, OT_R, OT_R, OT_R, OT_R, OT_R]), (''CallLong'', [OT_R, OT_R, OT_U4]),
     (''ConstructLong'', [OT_R, OT_R, OT_U4]), (''CallDirectLongIndex'', [OT_R, OT_U1, OT_U4]),
     (''CallBuiltin'', [OT_R, OT_U1, OT_U1]), (''Ret'', [OT_R]), (''Catch'', [OT_R]),
     (''DirectEval'', [OT_R, OT_R]), (''Throw'', [OT_R]), (''Debugger'', []),
     (''DebuggerCheckBreak'', []), (''ProfilePoint'', [OT_U2]), (''Unreachable'', []),
     (''CreateClosure'', [OT_R, OT_R, OT_U2]), (''CreateClosureLongIndex'', [OT_R, OT_R, OT_U4]),
     (''CreateGeneratorClosure'', [OT_R, OT_R, OT_U2]),
     (''CreateGeneratorClosureLongIndex'', [OT_R, OT_R, OT_U4]),
     (''CreateThis'', [OT_R, OT_R, OT_R]), (''SelectObject'', [OT_R, OT_R, OT_R]),
     (''LoadParam'', [OT_R, OT_U1]), (''LoadParamLong'', [OT_R, OT_U4]),
     (''LoadConstUInt8'', [OT_R, OT_U1]), (''LoadConstInt'', [OT_R, OT_I4]),
     (''LoadConstDouble'', [OT_R, OT_D]), (''LoadConstString'', [OT_R, OT_U2]),
     (''LoadConstStringLongIndex'', [OT_R, OT_U4]), (''LoadConstUndefined'', [OT_R]),
     (''LoadConstNull'', [OT_R]), (''LoadConstTrue'', [OT_R]), (''LoadConstFalse'', [OT_R]),
     (''LoadConstZero'', [OT_R]), (''CoerceThisNS'', [OT_R, OT_R]), (''LoadThisNS'', [OT_R]),
     (''ToNumber'', [OT_R, OT_R]), (''ToInt32'', [OT_R, OT_R]),
     (''AddEmptyString'', [OT_R, OT_R]), (''GetArgumentsPropByVal'', [OT_R, OT_R, OT_R]),
     (''GetArgumentsLength'', [OT_R, OT_R]), (''ReifyArguments'', [OT_R]),
     (''CreateRegExp'', [OT_R, OT_U4, OT_U4, OT_U4]),
     (''SwitchImm'', [OT_R, OT_U4, OT_A4, OT_U4, OT_U4]), (''StartGenerator'', []),
     (''ResumeGenerator'', [OT_R, OT_R]), (''CompleteGenerator'', []),
     (''CreateGenerator'', [OT_R, OT_R, OT_U2]),
     (''CreateGeneratorLongIndex'', [OT_R, OT_R, OT_U4]), (''Jmp'', [OT_A1]),
     (''JmpLong'', [OT_A4]), (''JmpTrue'', [OT_A1, OT_R]), (''JmpTrueLong'', [OT_A4, OT_R]),
     (''JmpFalse'', [OT_A1, OT_R]), (''JmpFalseLong'', [OT_A4, OT_R]),
     (''JmpUndefined'', [OT_A1, OT_R]), (''JmpUndefinedLong'', [OT_A4, OT_R]),
     (''SaveGenerator'', [OT_A1]), (''SaveGeneratorLong'', [OT_A4]),
     (''JLess'', [OT_A1, OT_R, OT_R]), (''JLessLong'', [OT_A4, OT_R, OT_R]),
     (''JNotLess'', [OT_A1, OT_R, OT_R]), (''JNotLessLong'', [OT_A4, OT_R, OT_R]),
     (''JLessN'', [OT_A1, OT_R, OT_R]), (''JLessNLong'', [OT_A4, OT_R, OT_R]),
     (''JNotLessN'', [OT_A1, OT_R, OT_R]), (''JNotLessNLong'', [OT_A4, OT_R, OT_R]),
     (''JLessEqual'', [OT_A1, OT_R, OT_R]), (''JLessEqualLong'', [OT_A4, OT_R, OT_R]),
     (''JNotLessEqual'', [OT_A1, OT_R, OT_R]), (''JNotLessEqualLong'', [OT_A4, OT_R, OT_R]),
     (''JLessEqualN'', [OT_A1, OT_R, OT_R]), (''JLessEqualNLong'', [OT_A4, OT_R, OT_R]),
     (''JNotLessEqualN'', [OT_A1, OT_R, OT_R]), (''JNotLessEqualNLong'', [OT_A4, OT_R, OT_R]),
     (''JGreater'', [OT_A1, OT_R, OT_R]), (''JGreaterLong'', [OT_A4, OT_R, OT_R]),
     (''JNotGreater'', [OT_A1, OT_R, OT_R]), (''JNotGreaterLong'', [OT_A4, OT_R, OT_R]),
     (''JGreaterN'', [OT_A1, OT_R, OT_R]), (''JGreaterNLong'', [OT_A4, OT_R, OT_R]),
     (''JNotGreaterN'', [OT_A1, OT_R, OT_R]), (''JNotGreaterNLong'', [OT_A4, OT_R, OT_R]),
     (''JGreaterEqual'', [OT_A1, OT_R, OT_R]), (''JGreaterEqualLong'', [OT_A4, OT_R, OT_R]),
     (''JNotGreaterEqual'', [OT_A1, OT_R, OT_R]), (''JNotGreaterEqualLong'', [OT_A4, OT_R, OT_R]),
     (''JGreaterEqualN'', [OT_A1, OT_R, OT_R]), (''JGreaterEqualNLong'', [OT_A4, OT_R, OT_R]),
     (''JNotGreaterEqualN'', [OT_A1, OT_R, OT_R]),
     (''JNotGreaterEqualNLong'', [OT_A4, OT_R, OT_R]), (''JEqual'', [OT_A1, OT_R, OT_R]),
     (''JEqualLong'', [OT_A4, OT_R, OT_R]), (''JNotEqual'', [OT_A1, OT_R, OT_R]),
     (''JNotEqualLong'', [OT_A4, OT_R, OT_R]), (''JStrictEqual'', [OT_A1, OT_R, OT_R]),
     (''JStrictEqualLong'', [OT_A4, OT_R, OT_R]), (''JStrictNotEqual'', [OT_A1, OT_R, OT_R]),
     (''JStrictNotEqualLong'', [OT_A4, OT_R, OT_R])]"

definition V52_STRING_IDS :: "(u8 \<times> u8) list" where
  "V52_STRING_IDS =
    [(48, 0), (49, 3), (50, 3), (51, 3), (52, 3), (53, 3), (54, 3), (55, 3), (56, 3), (57, 3),
     (58, 2), (59, 2), (60, 2), (61, 2), (62, 2), (66, 2), (67, 2), (104, 1), (105, 1), (119, 2)]"

definition V52_FUNC_IDS :: "(u8 \<times> u8) list" where
  "V52_FUNC_IDS = []"

definition V52_TABLES :: version_tables where
  "V52_TABLES =
    \<lparr>vt_opcodes = V52_OPCODES, vt_sizes = V52_SIZES, vt_str_ops = V52_STR_OPS, vt_call_ops = V52_CALL_OPS,
     vt_names = V52_NAMES, vt_schemas = V52_SCHEMAS, vt_string_ids = V52_STRING_IDS, vt_func_ids = V52_FUNC_IDS\<rparr>"

lemmas V52_types = V52_SCHEMAS_def [THEN arg_cong [of _ _ "map snd"], unfolded list.map snd_conv]

lemma V52_names: "V52_NAMES = map OpCode_name V52_OPCODES" "map fst V52_SCHEMAS = V52_NAMES"
  by (simp_all only: V52_NAMES_def V52_OPCODES_def V52_SCHEMAS_def list.map opcode_name fst_conv)

lemma V52_agree: "tables_agree V52_TABLES"
  unfolding V52_TABLES_def
  by (rule tables_agreeI [OF _ _ V52_names V52_types])
    (simp_all add: opcodes_upt V52_OPCODES_def V52_SIZES_def V52_STR_OPS_def V52_STRING_IDS_def
      V52_CALL_OPS_def V52_FUNC_IDS_def table_checks)

end
