(* ===== verification/Hermes_Tables_B.thy ===== *)
theory Hermes_Tables_B
  imports Hermes_Opcodes
begin

text \<open>
  The tables of \<open>opcodes.rs\<close> and \<open>decompile/schemas.rs\<close> for the bytecode versions 59 to 83, and the
  proof that those of each version agree.
\<close>

subsection \<open>Version 59\<close>

definition V59_OPCODES :: "OpCode list" where
  "V59_OPCODES =
    [OP_NewObjectWithBuffer, OP_NewObjectWithBufferLong, OP_NewObject, OP_NewObjectWithParent,
     OP_NewArrayWithBuffer, OP_NewArrayWithBufferLong, OP_NewArray, OP_Mov, OP_MovLong, OP_Negate,
     OP_Not, OP_BitNot, OP_TypeOf, OP_Eq, OP_StrictEq, OP_Neq, OP_StrictNeq, OP_Less, OP_LessEq,
     OP_Greater, OP_GreaterEq, OP_Add, OP_AddN, OP_Mul, OP_MulN, OP_Div, OP_DivN, OP_Mod, OP_Sub,
     OP_SubN, OP_LShift, OP_RShift, OP_URshift, OP_BitAnd, OP_BitXor, OP_BitOr, OP_InstanceOf,
     OP_IsIn, OP_GetEnvironment, OP_StoreToEnvironment, OP_StoreToEnvironmentL,
     OP_StoreNPToEnvironment, OP_StoreNPToEnvironmentL, OP_LoadFromEnvironment,
     OP_LoadFromEnvironmentL, OP_GetGlobalObject, OP_GetNewTarget, OP_CreateEnvironment,
     OP_DeclareGlobalVar, OP_GetByIdShort, OP_GetById, OP_GetByIdLong, OP_TryGetById,
     OP_TryGetByIdLong, OP_PutById, OP_PutByIdLong, OP_TryPutById, OP_TryPutByIdLong,
     OP_PutNewOwnByIdShort, OP_PutNewOwnById, OP_PutNewOwnByIdLong, OP_PutNewOwnNEById,
     OP_PutNewOwnNEByIdLong, OP_PutOwnByIndex, OP_PutOwnByIndexL, OP_PutOwnByVal, OP_DelById,
     OP_DelByIdLong, OP_GetByVal, OP_PutByVal, OP_DelByVal, OP_PutOwnGetterSetterByVal,
     OP_GetPNameList, OP_GetNextPName, OP_Call, OP_Construct, OP_Call1, OP_CallDirect, OP_Call2,
     OP_Call3, OP_Call4, OP_CallLong, OP_ConstructLong, OP_CallDirectLongIndex, OP_CallBuiltin,
     OP_Ret, OP_Catch, OP_DirectEval, OP_Throw, OP_ThrowIfUndefinedInst, OP_Debugger,
     OP_DebuggerCheckBreak, OP_ProfilePoint, OP_Unreachable, OP_CreateClosure,
     OP_CreateClosureLongIndex, OP_CreateGeneratorClosure, OP_CreateGeneratorClosureLongIndex,
     OP_CreateThis, OP_SelectObject, OP_LoadParam, OP_LoadParamLong, OP_LoadConstUInt8,
     OP_LoadConstInt, OP_LoadConstDouble, OP_LoadConstString, OP_LoadConstStringLongIndex,
     OP_LoadConstUndefined, OP_LoadConstNull, OP_LoadConstTrue, OP_LoadConstFalse,
     OP_LoadConstZero, OP_CoerceThisNS, OP_LoadThisNS, OP_ToNumber, OP_ToInt32, OP_AddEmptyString,
     OP_GetArgumentsPropByVal, OP_GetArgumentsLength, OP_ReifyArguments, OP_CreateRegExp,
     OP_SwitchImm, OP_StartGenerator, OP_ResumeGenerator, OP_CompleteGenerator,
     OP_CreateGenerator, OP_CreateGeneratorLongIndex, OP_Jmp, OP_JmpLong, OP_JmpTrue,
     OP_JmpTrueLong, OP_JmpFalse, OP_JmpFalseLong, OP_JmpUndefined, OP_JmpUndefinedLong,
     OP_SaveGenerator, OP_SaveGeneratorLong, OP_JLess, OP_JLessLong, OP_JNotLess, OP_JNotLessLong,
     OP_JLessN, OP_JLessNLong, OP_JNotLessN, OP_JNotLessNLong, OP_JLessEqual, OP_JLessEqualLong,
     OP_JNotLessEqual, OP_JNotLessEqualLong, OP_JLessEqualN, OP_JLessEqualNLong,
     OP_JNotLessEqualN, OP_JNotLessEqualNLong, OP_JGreater, OP_JGreaterLong, OP_JNotGreater,
     OP_JNotGreaterLong, OP_JGreaterN, OP_JGreaterNLong, OP_JNotGreaterN, OP_JNotGreaterNLong,
     OP_JGreaterEqual, OP_JGreaterEqualLong, OP_JNotGreaterEqual, OP_JNotGreaterEqualLong,
     OP_JGreaterEqualN, OP_JGreaterEqualNLong, OP_JNotGreaterEqualN, OP_JNotGreaterEqualNLong,
     OP_JEqual, OP_JEqualLong, OP_JNotEqual, OP_JNotEqualLong, OP_JStrictEqual,
     OP_JStrictEqualLong, OP_JStrictNotEqual, OP_JStrictNotEqualLong]"

definition V59_SIZES :: "u8 list" where
  "V59_SIZES =
    [10, 14, 2, 3, 8, 10, 4, 3, 9, 3, 3, 3, 3, 4, 4, 4, 4, 4, 4, 4, 4, 4, 4, 4, 4, 4, 4, 4, 4, 4,
     4, 4, 4, 4, 4, 4, 4, 4, 3, 4, 5, 4, 5, 4, 5, 2, 2, 2, 5, 5, 6, 8, 6, 8, 6, 8, 6, 8, 4, 5, 7,
     5, 7, 4, 7, 5, 5, 7, 4, 4, 4, 6, 5, 6, 4, 4, 4, 5, 5, 6, 7, 7, 7, 7, 4, 2, 2, 3, 2, 2, 1, 1,
     3, 1, 5, 7, 5, 7, 4, 4, 3, 6, 3, 6, 10, 4, 6, 2, 2, 2, 2, 2, 3, 2, 3, 3, 3, 4, 3, 2, 14, 18,
     1, 3, 1, 5, 7, 2, 5, 3, 6, 3, 6, 3, 6, 2, 5, 4, 7, 4, 7, 4, 7, 4, 7, 4, 7, 4, 7, 4, 7, 4, 7,
     4, 7, 4, 7, 4, 7, 4, 7, 4, 7, 4, 7, 4, 7, 4, 7, 4, 7, 4, 7, 4, 7, 4, 7]"

definition V59_STR_OPS :: "(u8 \<times> u8 \<times> u8) list" where
  "V59_STR_OPS =
    [(48, 1, 4), (49, 4, 1), (50, 4, 2), (51, 4, 4), (52, 4, 2), (53, 4, 4), (54, 4, 2),
     (55, 4, 4), (56, 4, 2), (57, 4, 4), (58, 3, 1), (59, 3, 2), (60, 3, 4), (61, 3, 2),
     (62, 3, 4), (66, 3, 2), (67, 3, 4), (105, 2, 2), (106, 2, 4), (120, 6, 4)]"

definition V59_CALL_OPS :: "(u8 \<times> u8 \<times> u8) list" where
  "V59_CALL_OPS =
    [(77, 3, 2), (83, 3, 4)]"

definition V59_NAMES :: "string list" where
  "V59_NAMES =
    [''NewObjectWithBuffer'', ''NewObjectWithBufferLong'', ''NewObject'', ''NewObjectWithParent'',
     ''NewArrayWithBuffer'', ''NewArrayWithBufferLong'', ''NewArray'', ''Mov'', ''MovLong'',
     ''Negate'', ''Not'', ''BitNot'', ''TypeOf'', ''Eq'', ''StrictEq'', ''Neq'', ''StrictNeq'',
     ''Less'', ''LessEq'', ''Greater'', ''GreaterEq'', ''Add'', ''AddN'', ''Mul'', ''MulN'',
     ''Div'', ''DivN'', ''Mod'', ''Sub'', ''SubN'', ''LShift'', ''RShift'', ''URshift'',
     ''BitAnd'', ''BitXor'', ''BitOr'', ''InstanceOf'', ''IsIn'', ''GetEnvironment'',
     ''StoreToEnvironment'', ''StoreToEnvironmentL'', ''StoreNPToEnvironment'',
     ''StoreNPToEnvironmentL'', ''LoadFromEnvironment'', ''LoadFromEnvironmentL'',
     ''GetGlobalObject'', ''GetNewTarget'', ''CreateEnvironment'', ''DeclareGlobalVar'',
     ''GetByIdShort'', ''GetById'', ''GetByIdLong'', ''TryGetById'', ''TryGetByIdLong'',
     ''PutById'', ''PutByIdLong'', ''TryPutById'', ''TryPutByIdLong'', ''PutNewOwnByIdShort'',
     ''PutNewOwnById'', ''PutNewOwnByIdLong'', ''PutNewOwnNEById'', ''PutNewOwnNEByIdLong'',
     ''PutOwnByIndex'', ''PutOwnByIndexL'', ''PutOwnByVal'', ''DelById'', ''DelByIdLong'',
     ''GetByVal'', ''PutByVal'', ''DelByVal'', ''PutOwnGetterSetterByVal'', ''GetPNameList'',
     ''GetNextPName'', ''Call'', ''Construct'', ''Call1'', ''CallDirect'', ''Call2'', ''Call3'',
     ''Call4'', ''CallLong'', ''ConstructLong'', ''CallDirectLongIndex'', ''CallBuiltin'',
     ''Ret'', ''Catch'', ''DirectEval'', ''Throw'', ''ThrowIfUndefinedInst'', ''Debugger'',
     ''DebuggerCheckBreak'', ''ProfilePoint'', ''Unreachable'', ''CreateClosure'',
     ''CreateClosureLongIndex'', ''CreateGeneratorClosure'', ''CreateGeneratorClosureLongIndex'',
     ''CreateThis'', ''SelectObject'', ''LoadParam'', ''LoadParamLong'', ''LoadConstUInt8'',
     ''LoadConstInt'', ''LoadConstDouble'', ''LoadConstString'', ''LoadConstStringLongIndex'',
     ''LoadConstUndefined'', ''LoadConstNull'', ''LoadConstTrue'', ''LoadConstFalse'',
     ''LoadConstZero'', ''CoerceThisNS'', ''LoadThisNS'', ''ToNumber'', ''ToInt32'',
     ''AddEmptyString'', ''GetArgumentsPropByVal'', ''GetArgumentsLength'', ''ReifyArguments'',
     ''CreateRegExp'', ''SwitchImm'', ''StartGenerator'', ''ResumeGenerator'',
     ''CompleteGenerator'', ''CreateGenerator'', ''CreateGeneratorLongIndex'', ''Jmp'',
     ''JmpLong'', ''JmpTrue'', ''JmpTrueLong'', ''JmpFalse'', ''JmpFalseLong'', ''JmpUndefined'',
     ''JmpUndefinedLong'', ''SaveGenerator'', ''SaveGeneratorLong'', ''JLess'', ''JLessLong'',
     ''JNotLess'', ''JNotLessLong'', ''JLessN'', ''JLessNLong'', ''JNotLessN'', ''JNotLessNLong'',
     ''JLessEqual'', ''JLessEqualLong'', ''JNotLessEqual'', ''JNotLessEqualLong'',
     ''JLessEqualN'', ''JLessEqualNLong'', ''JNotLessEqualN'', ''JNotLessEqualNLong'',
     ''JGreater'', ''JGreaterLong'', ''JNotGreater'', ''JNotGreaterLong'', ''JGreaterN'',
     ''JGreaterNLong'', ''JNotGreaterN'', ''JNotGreaterNLong'', ''JGreaterEqual'',
     ''JGreaterEqualLong'', ''JNotGreaterEqual'', ''JNotGreaterEqualLong'', ''JGreaterEqualN'',
     ''JGreaterEqualNLong'', ''JNotGreaterEqualN'', ''JNotGreaterEqualNLong'', ''JEqual'',
     ''JEqualLong'', ''JNotEqual'', ''JNotEqualLong'', ''JStrictEqual'', ''JStrictEqualLong'',
     ''JStrictNotEqual'', ''JStrictNotEqualLong'']"

definition V59_SCHEMAS :: "(string \<times> OpType list) list" where
  "V59_SCHEMAS =
    [(''NewObjectWithBuffer'', [OT_R, OT_U2, OT_U2, OT_U2, OT_U2]),
     (''NewObjectWithBufferLong'', [OT_R, OT_U2, OT_U2, OT_U4, OT_U4]), (''NewObject'', [OT_R]),
     (''NewObjectWithParent'', [OT_R, OT_R]),
     (''NewArrayWithBuffer'', [OT_R, OT_U2, OT_U2, OT_U2]),
     (''NewArrayWithBufferLong'', [OT_R, OT_U2, OT_U2, OT_U4]), (''NewArray'', [OT_R, OT_U2]),
     (''Mov'', [OT_R, OT_R]), (''MovLong'', [OT_R4, OT_R4]), (''Negate'', [OT_R, OT_R]),
     (''Not'', [OT_R, OT_R]), (''BitNot'', [OT_R, OT_R]), (''TypeOf'', [OT_R, OT_R]),
     (''Eq'', [OT_R, OT_R, OT_R]), (''StrictEq'', [OT_R, OT_R, OT_R]),
     (''Neq'', [OT_R, OT_R, OT_R]), (''StrictNeq'', [OT_R, OT_R, OT_R]),
     (''Less'', [OT_R, OT_R, OT_R]), (''LessEq'', [OT_R, OT_R, OT_R]),
     (''Greater'', [OT_R, OT_R, OT_R]), (''GreaterEq'', [OT_R, OT_R, OT_R]),
     (''Add'', [OT_R, OT_R, OT_R]), (''AddN'', [OT_R, OT_R, OT_R]), (''Mul'', [OT_R, OT_R, OT_R]),
     (''MulN'', [OT_R, OT_R, OT_R]), (''Div'', [OT_R, OT_R, OT_R]),
     (''DivN'', [OT_R, OT_R, OT_R]), (''Mod'', [OT_R, OT_R, OT_R]), (''Sub'', [OT_R, OT_R, OT_R]),
     (''SubN'', [OT_R, OT_R, OT_R]), (''LShift'', [OT_R, OT_R, OT_R]),
     (''RShift'', [OT_R, OT_R, OT_R]), (''URshift'', [OT_R, OT_R, OT_R]),
     (''BitAnd'', [OT_R, OT_R, OT_R]), (''BitXor'', [OT_R, OT_R, OT_R]),
     (''BitOr'', [OT_R, OT_R, OT_R]), (''InstanceOf'', [OT_R, OT_R, OT_R]),
     (''IsIn'', [OT_R, OT_R, OT_R]), (''GetEnvironment'', [OT_R, OT_U1]),
     (''StoreToEnvironment'', [OT_R, OT_U1, OT_R]),
     (''StoreToEnvironmentL'', [OT_R, OT_U2, OT_R]),
     (''StoreNPToEnvironment'', [OT_R, OT_U1, OT_R]),
     (''StoreNPToEnvironmentL'', [OT_R, OT_U2, OT_R]),
     (''LoadFromEnvironment'', [OT_R, OT_R, OT_U1]),
     (''LoadFromEnvironmentL'', [OT_R, OT_R, OT_U2]), (''GetGlobalObject'', [OT_R]),
     (''GetNewTarget'', [OT_R]), (''CreateEnvironment'', [OT_R]), (''DeclareGlobalVar'', [OT_U4]),
     (''GetByIdShort'', [OT_R, OT_R, OT_U1, OT_U1]), (''GetById'', [OT_R, OT_R, OT_U1, OT_U2]),
     (''GetByIdLong'', [OT_R, OT_R, OT_U1, OT_U4]), (''TryGetById'', [OT_R, OT_R, OT_U1, OT_U2]),
     (''TryGetByIdLong'', [OT_R, OT_R, OT_U1, OT_U4]), (''PutById'', [OT_R, OT_R, OT_U1, OT_U2]),
     (''PutByIdLong'', [OT_R, OT_R, OT_U1, OT_U4]), (''TryPutById'', [OT_R, OT_R, OT_U1, OT_U2]),
     (''TryPutByIdLong'', [OT_R, OT_R, OT_U1, OT_U4]),
     (''PutNewOwnByIdShort'', [OT_R, OT_R, OT_U1]), (''PutNewOwnById'', [OT_R, OT_R, OT_U2]),
     (''PutNewOwnByIdLong'', [OT_R, OT_R, OT_U4]), (''PutNewOwnNEById'', [OT_R, OT_R, OT_U2]),
     (''PutNewOwnNEByIdLong'', [OT_R, OT_R, OT_U4]), (''PutOwnByIndex'', [OT_R, OT_R, OT_U1]),
     (''PutOwnByIndexL'', [OT_R, OT_R, OT_U4]), (''PutOwnByVal'', [OT_R, OT_R, OT_R, OT_U1]),
     (''DelById'', [OT_R, OT_R, OT_U2]), (''DelByIdLong'', [OT_R, OT_R, OT_U4]),
     (''GetByVal'', [OT_R, OT_R, OT_R]), (''PutByVal'', [OT_R, OT_R, OT_R]),
     (''DelByVal'', [OT_R, OT_R, OT_R]),
     (''PutOwnGetterSetterByVal'', [OT_R, OT_R, OT_R, OT_R, OT_U1]),
     (''GetPNameList'', [OT_R, OT_R, OT_R, OT_R]),
     (''GetNextPName'', [OT_R, OT_R, OT_R, OT_R, OT_R]), (''Call'', [OT_R, OT_R, OT_U1]),
     (''Construct'', [OT_R, OT_R, OT_U1]), (''Call1'', [OT_R, OT_R, OT_R]),
     (''CallDirect'', [OT_R, OT_U1, OT_U2]), (''Call2'', [OT_R, OT_R, OT_R, OT_R]),
     (''Call3'', [OT_R, OT_R, OT_R, OT_R, OT_R]),
     (''Call4'', [OT_R, OT_R, OT_R, OT_R, OT_R, OT_R]), (''CallLong'', [OT_R, OT_R, OT_U4]),
     (''ConstructLong'', [OT_R, OT_R, OT_U4]), (''CallDirectLongIndex'', [OT_R, OT_U1, OT_U4]),
     (''CallBuiltin'', [OT_R, OT_U1, OT_U1]), (''Ret'', [OT_R]), (''Catch'', [OT_R]),
     (''DirectEval'', [OT_R, OT_R]), (''Throw'', [OT_R]), (''ThrowIfUndefinedInst'', [OT_R]),
     (''Debugger'', []), (''DebuggerCheckBreak'', []), (''ProfilePoint'', [OT_U2]),
     (''Unreachable'', []), (''CreateClosure'', [OT_R, OT_R, OT_U2]),
     (''CreateClosureLongIndex'', [OT_R, OT_R, OT_U4]),
     (''CreateGeneratorClosure'', [OT_R, OT_R, OT_U2]),
     (''CreateGeneratorClosureLongIndex'', [OT_R, OT_R, OT_U4]),
     (''CreateThis'', [OT_R, OT_R, OT_R]), (''SelectObject'', [OT_R, OT_R, OT_R]),
     (''LoadParam'', [OT_R, OT_U1]), (''LoadParamLong'', [OT_R, OT_U4]),
     (''LoadConstUInt8'', [OT_R, OT_U1]), (''LoadConstInt'', [OT_R, OT_I4]),
     (''LoadConstDouble'', [OT_R, OT_D]), (''LoadConstString'', [OT_R, OT_U2]),
     (''LoadConstStringLongIndex'', [OT_R, OT_U4]), (''LoadConstUndefined'', [OT_R]),
     (''LoadConstNull'', [OT_R]), (''LoadConstTrue'', [OT_R]), (''LoadConstFalse'', [OT_R]),
     (''LoadConstZero'', [OT_R]), (''CoerceThisNS'', [OT_R, OT_R]), (''LoadThisNS'', [OT_R]),
     (''ToNumber'', [OT_R, OT_R]), (''ToInt32'', [OT_R, OT_R]),
     (''AddEmptyString'', [OT_R, OT_R]), (''GetArgumentsPropByVal'', [OT_R, OT_R, OT_R]),
     (''GetArgumentsLength'', [OT_R, OT_R]), (''ReifyArguments'', [OT_R]),
     (''CreateRegExp'', [OT_R, OT_U4, OT_U4, OT_U4]),
     (''SwitchImm'', [OT_R, OT_U4, OT_A4, OT_U4, OT_U4]), (''StartGenerator'', []),
     (''ResumeGenerator'', [OT_R, OT_R]), (''CompleteGenerator'', []),
     (''CreateGenerator'', [OT_R, OT_R, OT_U2]),
     (''CreateGeneratorLongIndex'', [OT_R, OT_R, OT_U4]), (''Jmp'', [OT_A1]),
     (''JmpLong'', [OT_A4]), (''JmpTrue'', [OT_A1, OT_R]), (''JmpTrueLong'', [OT_A4, OT_R]),
     (''JmpFalse'', [OT_A1, OT_R]), (''JmpFalseLong'', [OT_A4, OT_R]),
     (''JmpUndefined'', [OT_A1, OT_R]), (''JmpUndefinedLong'', [OT_A4, OT_R]),
     (''SaveGenerator'', [OT_A1]), (''SaveGeneratorLong'', [OT_A4]),
     (''JLess'', [OT_A1, OT_R, OT_R]), (''JLessLong'', [OT_A4, OT_R, OT_R]),
     (''JNotLess'', [OT_A1, OT_R, OT_R]), (''JNotLessLong'', [OT_A4, OT_R, OT_R]),
     (''JLessN'', [OT_A1, OT_R, OT_R]), (''JLessNLong'', [OT_A4, OT_R, OT_R]),
     (''JNotLessN'', [OT_A1, OT_R, OT_R]), (''JNotLessNLong'', [OT_A4, OT_R, OT_R]),
     (''JLessEqual'', [OT_A1, OT_R, OT_R]), (''JLessEqualLong'', [OT_A4, OT_R, OT_R]),
     (''JNotLessEqual'', [OT_A1, OT_R, OT_R]), (''JNotLessEqualLong'', [OT_A4, OT_R, OT_R]),
     (''JLessEqualN'', [OT_A1, OT_R, OT_R]), (''JLessEqualNLong'', [OT_A4, OT_R, OT_R]),
     (''JNotLessEqualN'', [OT_A1, OT_R, OT_R]), (''JNotLessEqualNLong'', [OT_A4, OT_R, OT_R]),
     (''JGreater'', [OT_A1, OT_R, OT_R]), (''JGreaterLong'', [OT_A4, OT_R, OT_R]),
     (''JNotGreater'', [OT_A1, OT_R, OT_R]), (''JNotGreaterLong'', [OT_A4, OT_R, OT_R]),
     (''JGreaterN'', [OT_A1, OT_R, OT_R]), (''JGreaterNLong'', [OT_A4, OT_R, OT_R]),
     (''JNotGreaterN'', [OT_A1, OT_R, OT_R]), (''JNotGreaterNLong'', [OT_A4, OT_R, OT_R]),
     (''JGreaterEqual'', [OT_A1, OT_R, OT_R]), (''JGreaterEqualLong'', [OT_A4, OT_R, OT_R]),
     (''JNotGreaterEqual'', [OT_A1, OT_R, OT_R]), (''JNotGreaterEqualLong'', [OT_A4, OT_R, OT_R]),
     (''JGreaterEqualN'', [OT_A1, OT_R, OT_R]), (''JGreaterEqualNLong'', [OT_A4, OT_R, OT_R]),
     (''JNotGreaterEqualN'', [OT_A1, OT_R, OT_R]),
     (''JNotGreaterEqualNLong'', [OT_A4, OT_R, OT_R]), (''JEqual'', [OT_A1, OT_R, OT_R]),
     (''JEqualLong'', [OT_A4, OT_R, OT_R]), (''JNotEqual'', [OT_A1, OT_R, OT_R]),
     (''JNotEqualLong'', [OT_A4, OT_R, OT_R]), (''JStrictEqual'', [OT_A1, OT_R, OT_R]),
     (''JStrictEqualLong'', [OT_A4, OT_R, OT_R]), (''JStrictNotEqual'', [OT_A1, OT_R, OT_R]),
     (''JStrictNotEqualLong'', [OT_A4, OT_R, OT_R])]"

definition V59_STRING_IDS :: "(u8 \<times> u8) list" where
  "V59_STRING_IDS =
    [(48, 0), (49, 3), (50, 3), (51, 3), (52, 3), (53, 3), (54, 3), (55, 3), (56, 3), (57, 3),
     (58, 2), (59, 2), (60, 2), (61, 2), (62, 2), (66, 2), (67, 2), (105, 1), (106, 1), (120, 2)]"

definition V59_FUNC_IDS :: "(u8 \<times> u8) list" where
  "V59_FUNC_IDS = []"

definition V59_TABLES :: version_tables where
  "V59_TABLES =
    \<lparr>vt_opcodes = V59_OPCODES, vt_sizes = V59_SIZES, vt_str_ops = V59_STR_OPS, vt_call_ops = V59_CALL_OPS,
     vt_names = V59_NAMES, vt_schemas = V59_SCHEMAS, vt_string_ids = V59_STRING_IDS, vt_func_ids = V59_FUNC_IDS\<rparr>"

lemmas V59_types = V59_SCHEMAS_def [THEN arg_cong [of _ _ "map snd"], unfolded list.map snd_conv]

lemma V59_names: "V59_NAMES = map OpCode_name V59_OPCODES" "map fst V59_SCHEMAS = V59_NAMES"
  by (simp_all only: V59_NAMES_def V59_OPCODES_def V59_SCHEMAS_def list.map opcode_name fst_conv)

lemma V59_agree: "tables_agree V59_TABLES"
  unfolding V59_TABLES_def
  by (rule tables_agreeI [OF _ _ V59_names V59_types])
    (simp_all add: opcodes_upt V59_OPCODES_def V59_SIZES_def V59_STR_OPS_def V59_STRING_IDS_def
      V59_CALL_OPS_def V59_FUNC_IDS_def table_checks)

subsection \<open>Version 61\<close>

definition V61_OPCODES :: "OpCode list" where
  "V61_OPCODES =
    [OP_NewObjectWithBuffer, OP_NewObjectWithBufferLong, OP_NewObject, OP_NewObjectWithParent,
     OP_NewArrayWithBuffer, OP_NewArrayWithBufferLong, OP_NewArray, OP_Mov, OP_MovLong, OP_Negate,
     OP_Not, OP_BitNot, OP_TypeOf, OP_Eq, OP_StrictEq, OP_Neq, OP_StrictNeq, OP_Less, OP_LessEq,
     OP_Greater, OP_GreaterEq, OP_Add, OP_AddN, OP_Mul, OP_MulN, OP_Div, OP_DivN, OP_Mod, OP_Sub,
     OP_SubN, OP_LShift, OP_RShift, OP_URshift, OP_BitAnd, OP_BitXor, OP_BitOr, OP_InstanceOf,
     OP_IsIn, OP_GetEnvironment, OP_StoreToEnvironment, OP_StoreToEnvironmentL,
     OP_StoreNPToEnvironment, OP_StoreNPToEnvironmentL, OP_LoadFromEnvironment,
     OP_LoadFromEnvironmentL, OP_GetGlobalObject, OP_GetNewTarget, OP_CreateEnvironment,
     OP_DeclareGlobalVar, OP_GetByIdShort, OP_GetById, OP_GetByIdLong, OP_TryGetById,
     OP_TryGetByIdLong, OP_PutById, OP_PutByIdLong, OP_TryPutById, OP_TryPutByIdLong,
     OP_PutNewOwnByIdShort, OP_PutNewOwnById, OP_PutNewOwnByIdLong, OP_PutNewOwnNEById,
     OP_PutNewOwnNEByIdLong, OP_PutOwnByIndex, OP_PutOwnByIndexL, OP_PutOwnByVal, OP_DelById,
     OP_DelByIdLong, OP_GetByVal, OP_PutByVal, OP_DelByVal, OP_PutOwnGetterSetterByVal,
     OP_GetPNameList, OP_GetNextPName, OP_Call, OP_Construct, OP_Call1, OP_CallDirect, OP_Call2,
     OP_Call3, OP_Call4, OP_CallLong, OP_ConstructLong, OP_CallDirectLongIndex, OP_CallBuiltin,
     OP_Ret, OP_Catch, OP_DirectEval, OP_Throw, OP_ThrowIfUndefinedInst, OP_Debugger,
     OP_AsyncBreakCheck, OP_ProfilePoint, OP_Unreachable, OP_CreateClosure,
     OP_CreateClosureLongIndex, OP_CreateGeneratorClosure, OP_CreateGeneratorClosureLongIndex,
     OP_CreateThis, OP_SelectObject, OP_LoadParam, OP_LoadParamLong, OP_LoadConstUInt8,
     OP_LoadConstInt, OP_LoadConstDouble, OP_LoadConstString, OP_LoadConstStringLongIndex,
     OP_LoadConstUndefined, OP_LoadConstNull, OP_LoadConstTrue, OP_LoadConstFalse,
     OP_LoadConstZero, OP_CoerceThisNS, OP_LoadThisNS, OP_ToNumber, OP_ToInt32, OP_AddEmptyString,
     OP_GetArgumentsPropByVal, OP_GetArgumentsLength, OP_ReifyArguments, OP_CreateRegExp,
     OP_SwitchImm, OP_StartGenerator, OP_ResumeGenerator, OP_CompleteGenerator,
     OP_CreateGenerator, OP_CreateGeneratorLongIndex, OP_Jmp, OP_JmpLong, OP_JmpTrue,
     OP_JmpTrueLong, OP_JmpFalse, OP_JmpFalseLong, OP_JmpUndefined, OP_JmpUndefinedLong,
     OP_SaveGenerator, OP_SaveGeneratorLong, OP_JLess, OP_JLessLong, OP_JNotLess, OP_JNotLessLong,
     OP_JLessN, OP_JLessNLong, OP_JNotLessN, OP_JNotLessNLong, OP_JLessEqual, OP_JLessEqualLong,
     OP_JNotLessEqual, OP_JNotLessEqualLong, OP_JLessEqualN, OP_JLessEqualNLong,
     OP_JNotLessEqualN, OP_JNotLessEqualNLong, OP_JGreater, OP_JGreaterLong, OP_JNotGreater,
     OP_JNotGreaterLong, OP_JGreaterN, OP_JGreaterNLong, OP_JNotGreaterN, OP_JNotGreaterNLong,
     OP_JGreaterEqual, OP_JGreaterEqualLong, OP_JNotGreaterEqual, OP_JNotGreaterEqualLong,
     OP_JGreaterEqualN, OP_JGreaterEqualNLong, OP_JNotGreaterEqualN, OP_JNotGreaterEqualNLong,
     OP_JEqual, OP_JEqualLong, OP_JNotEqual, OP_JNotEqualLong, OP_JStrictEqual,
     OP_JStrictEqualLong, OP_JStrictNotEqual, OP_JStrictNotEqualLong]"

definition V61_SIZES :: "u8 list" where
  "V61_SIZES =
    [10, 14, 2, 3, 8, 10, 4, 3, 9, 3, 3, 3, 3, 4, 4, 4, 4, 4, 4, 4, 4, 4, 4, 4, 4, 4, 4, 4, 4, 4,
     4, 4, 4, 4, 4, 4, 4, 4, 3, 4, 5, 4, 5, 4, 5, 2, 2, 2, 5, 5, 6, 8, 6, 8, 6, 8, 6, 8, 4, 5, 7,
     5, 7, 4, 7, 5, 5, 7, 4, 4, 4, 6, 5, 6, 4, 4, 4, 5, 5, 6, 7, 7, 7, 7, 4, 2, 2, 3, 2, 2, 1, 1,
     3, 1, 5, 7, 5, 7, 4, 4, 3, 6, 3, 6, 10, 4, 6, 2, 2, 2, 2, 2, 3, 2, 3, 3, 3, 4, 3, 2, 14, 18,
     1, 3, 1, 5, 7, 2, 5, 3, 6, 3, 6, 3, 6, 2, 5, 4, 7, 4, 7, 4, 7, 4, 7, 4, 7, 4, 7, 4, 7, 4, 7,
     4, 7, 4, 7, 4, 7, 4, 7, 4, 7, 4, 7, 4, 7, 4, 7, 4, 7, 4, 7, 4, 7, 4, 7]"

definition V61_STR_OPS :: "(u8 \<times> u8 \<times> u8) list" where
  "V61_STR_OPS =
    [(48, 1, 4), (49, 4, 1), (50, 4, 2), (51, 4, 4), (52, 4, 2), (53, 4, 4), (54, 4, 2),
     (55, 4, 4), (56, 4, 2), (57, 4, 4), (58, 3, 1), (59, 3, 2), (60, 3, 4), (61, 3, 2),
     (62, 3, 4), (66, 3, 2), (67, 3, 4), (105, 2, 2), (106, 2, 4), (120, 6, 4)]"

definition V61_CALL_OPS :: "(u8 \<times> u8 \<times> u8) list" where
  "V61_CALL_OPS =
    [(77, 3, 2), (83, 3, 4)]"

definition V61_NAMES :: "string list" where
  "V61_NAMES =
    [''NewObjectWithBuffer'', ''NewObjectWithBufferLong'', ''NewObject'', ''NewObjectWithParent'',
     ''NewArrayWithBuffer'', ''NewArrayWithBufferLong'', ''NewArray'', ''Mov'', ''MovLong'',
     ''Negate'', ''Not'', ''BitNot'', ''TypeOf'', ''Eq'', ''StrictEq'', ''Neq'', ''StrictNeq'',
     ''Less'', ''LessEq'', ''Greater'', ''GreaterEq'', ''Add'', ''AddN'', ''Mul'', ''MulN'',
     ''Div'', ''DivN'', ''Mod'', ''Sub'', ''SubN'', ''LShift'', ''RShift'', ''URshift'',
     ''BitAnd'', ''BitXor'', ''BitOr'', ''InstanceOf'', ''IsIn'', ''GetEnvironment'',
     ''StoreToEnvironment'', ''StoreToEnvironmentL'', ''StoreNPToEnvironment'',
     ''StoreNPToEnvironmentL'', ''LoadFromEnvironment'', ''LoadFromEnvironmentL'',
     ''GetGlobalObject'', ''GetNewTarget'', ''CreateEnvironment'', ''DeclareGlobalVar'',
     ''GetByIdShort'', ''GetById'', ''GetByIdLong'', ''TryGetById'', ''TryGetByIdLong'',
     ''PutById'', ''PutByIdLong'', ''TryPutById'', ''TryPutByIdLong'', ''PutNewOwnByIdShort'',
     ''PutNewOwnById'', ''PutNewOwnByIdLong'', ''PutNewOwnNEById'', ''PutNewOwnNEByIdLong'',
     ''PutOwnByIndex'', ''PutOwnByIndexL'', ''PutOwnByVal'', ''DelById'', ''DelByIdLong'',
     ''GetByVal'', ''PutByVal'', ''DelByVal'', ''PutOwnGetterSetterByVal'', ''GetPNameList'',
     ''GetNextPName'', ''Call'', ''Construct'', ''Call1'', ''CallDirect'', ''Call2'', ''Call3'',
     ''Call4'', ''CallLong'', ''ConstructLong'', ''CallDirectLongIndex'', ''CallBuiltin'',
     ''Ret'', ''Catch'', ''DirectEval'', ''Throw'', ''ThrowIfUndefinedInst'', ''Debugger'',
     ''AsyncBreakCheck'', ''ProfilePoint'', ''Unreachable'', ''CreateClosure'',
     ''CreateClosureLongIndex'', ''CreateGeneratorClosure'', ''CreateGeneratorClosureLongIndex'',
     ''CreateThis'', ''SelectObject'', ''LoadParam'', ''LoadParamLong'', ''LoadConstUInt8'',
     ''LoadConstInt'', ''LoadConstDouble'', ''LoadConstString'', ''LoadConstStringLongIndex'',
     ''LoadConstUndefined'', ''LoadConstNull'', ''LoadConstTrue'', ''LoadConstFalse'',
     ''LoadConstZero'', ''CoerceThisNS'', ''LoadThisNS'', ''ToNumber'', ''ToInt32'',
     ''AddEmptyString'', ''GetArgumentsPropByVal'', ''GetArgumentsLength'', ''ReifyArguments'',
     ''CreateRegExp'', ''SwitchImm'', ''StartGenerator'', ''ResumeGenerator'',
     ''CompleteGenerator'', ''CreateGenerator'', ''CreateGeneratorLongIndex'', ''Jmp'',
     ''JmpLong'', ''JmpTrue'', ''JmpTrueLong'', ''JmpFalse'', ''JmpFalseLong'', ''JmpUndefined'',
     ''JmpUndefinedLong'', ''SaveGenerator'', ''SaveGeneratorLong'', ''JLess'', ''JLessLong'',
     ''JNotLess'', ''JNotLessLong'', ''JLessN'', ''JLessNLong'', ''JNotLessN'', ''JNotLessNLong'',
     ''JLessEqual'', ''JLessEqualLong'', ''JNotLessEqual'', ''JNotLessEqualLong'',
     ''JLessEqualN'', ''JLessEqualNLong'', ''JNotLessEqualN'', ''JNotLessEqualNLong'',
     ''JGreater'', ''JGreaterLong'', ''JNotGreater'', ''JNotGreaterLong'', ''JGreaterN'',
     ''JGreaterNLong'', ''JNotGreaterN'', ''JNotGreaterNLong'', ''JGreaterEqual'',
     ''JGreaterEqualLong'', ''JNotGreaterEqual'', ''JNotGreaterEqualLong'', ''JGreaterEqualN'',
     ''JGreaterEqualNLong'', ''JNotGreaterEqualN'', ''JNotGreaterEqualNLong'', ''JEqual'',
     ''JEqualLong'', ''JNotEqual'', ''JNotEqualLong'', ''JStrictEqual'', ''JStrictEqualLong'',
     ''JStrictNotEqual'', ''JStrictNotEqualLong'']"

definition V61_SCHEMAS :: "(string \<times> OpType list) list" where
  "V61_SCHEMAS =
    [(''NewObjectWithBuffer'', [OT_R, OT_U2, OT_U2, OT_U2, OT_U2]),
     (''NewObjectWithBufferLong'', [OT_R, OT_U2, OT_U2, OT_U4, OT_U4]), (''NewObject'', [OT_R]),
     (''NewObjectWithParent'', [OT_R, OT_R]),
     (''NewArrayWithBuffer'', [OT_R, OT_U2, OT_U2, OT_U2]),
     (''NewArrayWithBufferLong'', [OT_R, OT_U2, OT_U2, OT_U4]), (''NewArray'', [OT_R, OT_U2]),
     (''Mov'', [OT_R, OT_R]), (''MovLong'', [OT_R4, OT_R4]), (''Negate'', [OT_R, OT_R]),
     (''Not'', [OT_R, OT_R]), (''BitNot'', [OT_R, OT_R]), (''TypeOf'', [OT_R, OT_R]),
     (''Eq'', [OT_R, OT_R, OT_R]), (''StrictEq'', [OT_R, OT_R, OT_R]),
     (''Neq'', [OT_R, OT_R, OT_R]), (''StrictNeq'', [OT_R, OT_R, OT_R]),
     (''Less'', [OT_R, OT_R, OT_R]), (''LessEq'', [OT_R, OT_R, OT_R]),
     (''Greater'', [OT_R, OT_R, OT_R]), (''GreaterEq'', [OT_R, OT_R, OT_R]),
     (''Add'', [OT_R, OT_R, OT_R]), (''AddN'', [OT_R, OT_R, OT_R]), (''Mul'', [OT_R, OT_R, OT_R]),
     (''MulN'', [OT_R, OT_R, OT_R]), (''Div'', [OT_R, OT_R, OT_R]),
     (''DivN'', [OT_R, OT_R, OT_R]), (''Mod'', [OT_R, OT_R, OT_R]), (''Sub'', [OT_R, OT_R, OT_R]),
     (''SubN'', [OT_R, OT_R, OT_R]), (''LShift'', [OT_R, OT_R, OT_R]),
     (''RShift'', [OT_R, OT_R, OT_R]), (''URshift'', [OT_R, OT_R, OT_R]),
     (''BitAnd'', [OT_R, OT_R, OT_R]), (''BitXor'', [OT_R, OT_R, OT_R]),
     (''BitOr'', [OT_R, OT_R, OT_R]), (''InstanceOf'', [OT_R, OT_R, OT_R]),
     (''IsIn'', [OT_R, OT_R, OT_R]), (''GetEnvironment'', [OT_R, OT_U1]),
     (''StoreToEnvironment'', [OT_R, OT_U1, OT_R]),
     (''StoreToEnvironmentL'', [OT_R, OT_U2, OT_R]),
     (''StoreNPToEnvironment'', [OT_R, OT_U1, OT_R]),
     (''StoreNPToEnvironmentL'', [OT_R, OT_U2, OT_R]),
     (''LoadFromEnvironment'', [OT_R, OT_R, OT_U1]),
     (''LoadFromEnvironmentL'', [OT_R, OT_R, OT_U2]), (''GetGlobalObject'', [OT_R]),
     (''GetNewTarget'', [OT_R]), (''CreateEnvironment'', [OT_R]), (''DeclareGlobalVar'', [OT_U4]),
     (''GetByIdShort'', [OT_R, OT_R, OT_U1, OT_U1]), (''GetById'', [OT_R, OT_R, OT_U1, OT_U2]),
     (''GetByIdLong'', [OT_R, OT_R, OT_U1, OT_U4]), (''TryGetById'', [OT_R, OT_R, OT_U1, OT_U2]),
     (''TryGetByIdLong'', [OT_R, OT_R, OT_U1, OT_U4]), (''PutById'', [OT_R, OT_R, OT_U1, OT_U2]),
     (''PutByIdLong'', [OT_R, OT_R, OT_U1, OT_U4]), (''TryPutById'', [OT_R, OT_R, OT_U1, OT_U2]),
     (''TryPutByIdLong'', [OT_R, OT_R, OT_U1, OT_U4]),
     (''PutNewOwnByIdShort'', [OT_R, OT_R, OT_U1]), (''PutNewOwnById'', [OT_R, OT_R, OT_U2]),
     (''PutNewOwnByIdLong'', [OT_R, OT_R, OT_U4]), (''PutNewOwnNEById'', [OT_R, OT_R, OT_U2]),
     (''PutNewOwnNEByIdLong'', [OT_R, OT_R, OT_U4]), (''PutOwnByIndex'', [OT_R, OT_R, OT_U1]),
     (''PutOwnByIndexL'', [OT_R, OT_R, OT_U4]), (''PutOwnByVal'', [OT_R, OT_R, OT_R, OT_U1]),
     (''DelById'', [OT_R, OT_R, OT_U2]), (''DelByIdLong'', [OT_R, OT_R, OT_U4]),
     (''GetByVal'', [OT_R, OT_R, OT_R]), (''PutByVal'', [OT_R, OT_R, OT_R]),
     (''DelByVal'', [OT_R, OT_R, OT_R]),
     (''PutOwnGetterSetterByVal'', [OT_R, OT_R, OT_R, OT_R, OT_U1]),
     (''GetPNameList'', [OT_R, OT_R, OT_R, OT_R]),
     (''GetNextPName'', [OT_R, OT_R, OT_R, OT_R, OT_R]), (''Call'', [OT_R, OT_R, OT_U1]),
     (''Construct'', [OT_R, OT_R, OT_U1]), (''Call1'', [OT_R, OT_R, OT_R]),
     (''CallDirect'', [OT_R, OT_U1, OT_U2]), (''Call2'', [OT_R, OT_R, OT_R, OT_R]),
     (''Call3'', [OT_R, OT_R, OT_R, OT_R, OT_R]),
     (''Call4'', [OT_R, OT_R, OT_R, OT_R, OT_R, OT_R]), (''CallLong'', [OT_R, OT_R, OT_U4]),
     (''ConstructLong'', [OT_R, OT_R, OT_U4]), (''CallDirectLongIndex'', [OT_R, OT_U1, OT_U4]),
     (''CallBuiltin'', [OT_R, OT_U1, OT_U1]), (''Ret'', [OT_R]), (''Catch'', [OT_R]),
     (''DirectEval'', [OT_R, OT_R]), (''Throw'', [OT_R]), (''ThrowIfUndefinedInst'', [OT_R]),
     (''Debugger'', []), (''AsyncBreakCheck'', []), (''ProfilePoint'', [OT_U2]),
     (''Unreachable'', []), (''CreateClosure'', [OT_R, OT_R, OT_U2]),
     (''CreateClosureLongIndex'', [OT_R, OT_R, OT_U4]),
     (''CreateGeneratorClosure'', [OT_R, OT_R, OT_U2]),
     (''CreateGeneratorClosureLongIndex'', [OT_R, OT_R, OT_U4]),
     (''CreateThis'', [OT_R, OT_R, OT_R]), (''SelectObject'', [OT_R, OT_R, OT_R]),
     (''LoadParam'', [OT_R, OT_U1]), (''LoadParamLong'', [OT_R, OT_U4]),
     (''LoadConstUInt8'', [OT_R, OT_U1]), (''LoadConstInt'', [OT_R, OT_I4]),
     (''LoadConstDouble'', [OT_R, OT_D]), (''LoadConstString'', [OT_R, OT_U2]),
     (''LoadConstStringLongIndex'', [OT_R, OT_U4]), (''LoadConstUndefined'', [OT_R]),
     (''LoadConstNull'', [OT_R]), (''LoadConstTrue'', [OT_R]), (''LoadConstFalse'', [OT_R]),
     (''LoadConstZero'', [OT_R]), (''CoerceThisNS'', [OT_R, OT_R]), (''LoadThisNS'', [OT_R]),
     (''ToNumber'', [OT_R, OT_R]), (''ToInt32'', [OT_R, OT_R]),
     (''AddEmptyString'', [OT_R, OT_R]), (''GetArgumentsPropByVal'', [OT_R, OT_R, OT_R]),
     (''GetArgumentsLength'', [OT_R, OT_R]), (''ReifyArguments'', [OT_R]),
     (''CreateRegExp'', [OT_R, OT_U4, OT_U4, OT_U4]),
     (''SwitchImm'', [OT_R, OT_U4, OT_A4, OT_U4, OT_U4]), (''StartGenerator'', []),
     (''ResumeGenerator'', [OT_R, OT_R]), (''CompleteGenerator'', []),
     (''CreateGenerator'', [OT_R, OT_R, OT_U2]),
     (''CreateGeneratorLongIndex'', [OT_R, OT_R, OT_U4]), (''Jmp'', [OT_A1]),
     (''JmpLong'', [OT_A4]), (''JmpTrue'', [OT_A1, OT_R]), (''JmpTrueLong'', [OT_A4, OT_R]),
     (''JmpFalse'', [OT_A1, OT_R]), (''JmpFalseLong'', [OT_A4, OT_R]),
     (''JmpUndefined'', [OT_A1, OT_R]), (''JmpUndefinedLong'', [OT_A4, OT_R]),
     (''SaveGenerator'', [OT_A1]), (''SaveGeneratorLong'', [OT_A4]),
     (''JLess'', [OT_A1, OT_R, OT_R]), (''JLessLong'', [OT_A4, OT_R, OT_R]),
     (''JNotLess'', [OT_A1, OT_R, OT_R]), (''JNotLessLong'', [OT_A4, OT_R, OT_R]),
     (''JLessN'', [OT_A1, OT_R, OT_R]), (''JLessNLong'', [OT_A4, OT_R, OT_R]),
     (''JNotLessN'', [OT_A1, OT_R, OT_R]), (''JNotLessNLong'', [OT_A4, OT_R, OT_R]),
     (''JLessEqual'', [OT_A1, OT_R, OT_R]), (''JLessEqualLong'', [OT_A4, OT_R, OT_R]),
     (''JNotLessEqual'', [OT_A1, OT_R, OT_R]), (''JNotLessEqualLong'', [OT_A4, OT_R, OT_R]),
     (''JLessEqualN'', [OT_A1, OT_R, OT_R]), (''JLessEqualNLong'', [OT_A4, OT_R, OT_R]),
     (''JNotLessEqualN'', [OT_A1, OT_R, OT_R]), (''JNotLessEqualNLong'', [OT_A4, OT_R, OT_R]),
     (''JGreater'', [OT_A1, OT_R, OT_R]), (''JGreaterLong'', [OT_A4, OT_R, OT_R]),
     (''JNotGreater'', [OT_A1, OT_R, OT_R]), (''JNotGreaterLong'', [OT_A4, OT_R, OT_R]),
     (''JGreaterN'', [OT_A1, OT_R, OT_R]), (''JGreaterNLong'', [OT_A4, OT_R, OT_R]),
     (''JNotGreaterN'', [OT_A1, OT_R, OT_R]), (''JNotGreaterNLong'', [OT_A4, OT_R, OT_R]),
     (''JGreaterEqual'', [OT_A1, OT_R, OT_R]), (''JGreaterEqualLong'', [OT_A4, OT_R, OT_R]),
     (''JNotGreaterEqual'', [OT_A1, OT_R, OT_R]), (''JNotGreaterEqualLong'', [OT_A4, OT_R, OT_R]),
     (''JGreaterEqualN'', [OT_A1, OT_R, OT_R]), (''JGreaterEqualNLong'', [OT_A4, OT_R, OT_R]),
     (''JNotGreaterEqualN'', [OT_A1, OT_R, OT_R]),
     (''JNotGreaterEqualNLong'', [OT_A4, OT_R, OT_R]), (''JEqual'', [OT_A1, OT_R, OT_R]),
     (''JEqualLong'', [OT_A4, OT_R, OT_R]), (''JNotEqual'', [OT_A1, OT_R, OT_R]),
     (''JNotEqualLong'', [OT_A4, OT_R, OT_R]), (''JStrictEqual'', [OT_A1, OT_R, OT_R]),
     (''JStrictEqualLong'', [OT_A4, OT_R, OT_R]), (''JStrictNotEqual'', [OT_A1, OT_R, OT_R]),
     (''JStrictNotEqualLong'', [OT_A4, OT_R, OT_R])]"

definition V61_STRING_IDS :: "(u8 \<times> u8) list" where
  "V61_STRING_IDS =
    [(48, 0), (49, 3), (50, 3), (51, 3), (52, 3), (53, 3), (54, 3), (55, 3), (56, 3), (57, 3),
     (58, 2), (59, 2), (60, 2), (61, 2), (62, 2), (66, 2), (67, 2), (105, 1), (106, 1), (120, 2)]"

definition V61_FUNC_IDS :: "(u8 \<times> u8) list" where
  "V61_FUNC_IDS = []"

definition V61_TABLES :: version_tables where
  "V61_TABLES =
    \<lparr>vt_opcodes = V61_OPCODES, vt_sizes = V61_SIZES, vt_str_ops = V61_STR_OPS, vt_call_ops = V61_CALL_OPS,
     vt_names = V61_NAMES, vt_schemas = V61_SCHEMAS, vt_string_ids = V61_STRING_IDS, vt_func_ids = V61_FUNC_IDS\<rparr>"

lemmas V61_types = V61_SCHEMAS_def [THEN arg_cong [of _ _ "map snd"], unfolded list.map snd_conv]

lemma V61_names: "V61_NAMES = map OpCode_name V61_OPCODES" "map fst V61_SCHEMAS = V61_NAMES"
  by (simp_all only: V61_NAMES_def V61_OPCODES_def V61_SCHEMAS_def list.map opcode_name fst_conv)

lemma V61_agree: "tables_agree V61_TABLES"
  unfolding V61_TABLES_def
  by (rule tables_agreeI [OF _ _ V61_names V61_types])
    (simp_all add: opcodes_upt V61_OPCODES_def V61_SIZES_def V61_STR_OPS_def V61_STRING_IDS_def
      V61_CALL_OPS_def V61_FUNC_IDS_def table_checks)

subsection \<open>Version 73\<close>

definition V73_OPCODES :: "OpCode list" where
  "V73_OPCODES =
    [OP_NewObjectWithBuffer, OP_NewObjectWithBufferLong, OP_NewObject, OP_NewObjectWithParent,
     OP_NewArrayWithBuffer, OP_NewArrayWithBufferLong, OP_NewArray, OP_Mov, OP_MovLong, OP_Negate,
     OP_Not, OP_BitNot, OP_TypeOf, OP_Eq, OP_StrictEq, OP_Neq, OP_StrictNeq, OP_Less, OP_LessEq,
     OP_Greater, OP_GreaterEq, OP_Add, OP_AddN, OP_Mul, OP_MulN, OP_Div, OP_DivN, OP_Mod, OP_Sub,
     OP_SubN, OP_LShift, OP_RShift, OP_URshift, OP_BitAnd, OP_BitXor, OP_BitOr, OP_InstanceOf,
     OP_IsIn, OP_GetEnvironment, OP_StoreToEnvironment, OP_StoreToEnvironmentL,
     OP_StoreNPToEnvironment, OP_StoreNPToEnvironmentL, OP_LoadFromEnvironment,
     OP_LoadFromEnvironmentL, OP_GetGlobalObject, OP_GetNewTarget, OP_CreateEnvironment,
     OP_DeclareGlobalVar, OP_GetByIdShort, OP_GetById, OP_GetByIdLong, OP_TryGetById,
     OP_TryGetByIdLong, OP_PutById, OP_PutByIdLong, OP_TryPutById, OP_TryPutByIdLong,
     OP_PutNewOwnByIdShort, OP_PutNewOwnById, OP_PutNewOwnByIdLong, OP_PutNewOwnNEById,
     OP_PutNewOwnNEByIdLong, OP_PutOwnByIndex, OP_PutOwnByIndexL, OP_PutOwnByVal, OP_DelById,
     OP_DelByIdLong, OP_GetByVal, OP_PutByVal, OP_DelByVal, OP_PutOwnGetterSetterByVal,
     OP_GetPNameList, OP_GetNextPName, OP_Call, OP_Construct, OP_Call1, OP_CallDirect, OP_Call2,
     OP_Call3, OP_Call4, OP_CallLong, OP_ConstructLong, OP_CallDirectLongIndex, OP_CallBuiltin,
     OP_Ret, OP_Catch, OP_DirectEval, OP_Throw, OP_ThrowIfUndefinedInst, OP_Debugger,
     OP_AsyncBreakCheck, OP_ProfilePoint, OP_Unreachable, OP_CreateClosure,
     OP_CreateClosureLongIndex, OP_CreateGeneratorClosure, OP_CreateGeneratorClosureLongIndex,
     OP_CreateThis, OP_SelectObject, OP_LoadParam, OP_LoadParamLong, OP_LoadConstUInt8,
     OP_LoadConstInt, OP_LoadConstDouble, OP_LoadConstString, OP_LoadConstStringLongIndex,
     OP_LoadConstUndefined, OP_LoadConstNull, OP_LoadConstTrue, OP_LoadConstFalse,
     OP_LoadConstZero, OP_CoerceThisNS, OP_LoadThisNS, OP_ToNumber, OP_ToInt32, OP_AddEmptyString,
     OP_GetArgumentsPropByVal, OP_GetArgumentsLength, OP_ReifyArguments, OP_CreateRegExp,
     OP_SwitchImm, OP_StartGenerator, OP_ResumeGenerator, OP_CompleteGenerator,
     OP_CreateGenerator, OP_CreateGeneratorLongIndex, OP_IteratorBegin, OP_IteratorNext,
     OP_IteratorClose, OP_Jmp, OP_JmpLong, OP_JmpTrue, OP_JmpTrueLong, OP_JmpFalse,
     OP_JmpFalseLong, OP_JmpUndefined, OP_JmpUndefinedLong, OP_SaveGenerator,
     OP_SaveGeneratorLong, OP_JLess, OP_JLessLong, OP_JNotLess, OP_JNotLessLong, OP_JLessN,
     OP_JLessNLong, OP_JNotLessN, OP_JNotLessNLong, OP_JLessEqual, OP_JLessEqualLong,
     OP_JNotLessEqual, OP_JNotLessEqualLong, OP_JLessEqualN, OP_JLessEqualNLong,
     OP_JNotLessEqualN, OP_JNotLessEqualNLong, OP_JGreater, OP_JGreaterLong, OP_JNotGreater,
     OP_JNotGreaterLong, OP_JGreaterN, OP_JGreaterNLong, OP_JNotGreaterN, OP_JNotGreaterNLong,
     OP_JGreaterEqual, OP_JGreaterEqualLong, OP_JNotGreaterEqual, OP_JNotGreaterEqualLong,
     OP_JGreaterEqualN, OP_JGreaterEqualNLong, OP_JNotGreaterEqualN, OP_JNotGreaterEqualNLong,
     OP_JEqual, OP_JEqualLong, OP_JNotEqual, OP_JNotEqualLong, OP_JStrictEqual,
     OP_JStrictEqualLong, OP_JStrictNotEqual, OP_JStrictNotEqualLong]"

definition V73_SIZES :: "u8 list" where
  "V73_SIZES =
    [10, 14, 2, 3, 8, 10, 4, 3, 9, 3, 3, 3, 3, 4, 4, 4, 4, 4, 4, 4, 4, 4, 4, 4, 4, 4, 4, 4, 4, 4,
     4, 4, 4, 4, 4, 4, 4, 4, 3, 4, 5, 4, 5, 4, 5, 2, 2, 2, 5, 5, 6, 8, 6, 8, 6, 8, 6, 8, 4, 5, 7,
     5, 7, 4, 7, 5, 5, 7, 4, 4, 4, 6, 5, 6, 4, 4, 4, 5, 5, 6, 7, 7, 7, 7, 4, 2, 2, 3, 2, 2, 1, 1,
     3, 1, 5, 7, 5, 7, 4, 4, 3, 6, 3, 6, 10, 4, 6, 2, 2, 2, 2, 2, 3, 2, 3, 3, 3, 4, 3, 2, 14, 18,
     1, 3, 1, 5, 7, 3, 4, 3, 2, 5, 3, 6, 3, 6, 3, 6, 2, 5, 4, 7, 4, 7, 4, 7, 4, 7, 4, 7, 4, 7, 4,
     7, 4, 7, 4, 7, 4, 7, 4, 7, 4, 7, 4, 7, 4, 7, 4, 7, 4, 7, 4, 7, 4, 7, 4, 7, 4, 7]"

definition V73_STR_OPS :: "(u8 \<times> u8 \<times> u8) list" where
  "V73_STR_OPS =
    [(48, 1, 4), (49, 4, 1), (50, 4, 2), (51, 4, 4), (52, 4, 2), (53, 4, 4), (54, 4, 2),
     (55, 4, 4), (56, 4, 2), (57, 4, 4), (58, 3, 1), (59, 3, 2), (60, 3, 4), (61, 3, 2),
     (62, 3, 4), (66, 3, 2), (67, 3, 4), (105, 2, 2), (106, 2, 4), (120, 6, 4)]"

definition V73_CALL_OPS :: "(u8 \<times> u8 \<times> u8) list" where
  "V73_CALL_OPS =
    [(77, 3, 2), (83, 3, 4)]"

definition V73_NAMES :: "string list" where
  "V73_NAMES =
    [''NewObjectWithBuffer'', ''NewObjectWithBufferLong'', ''NewObject'', ''NewObjectWithParent'',
     ''NewArrayWithBuffer'', ''NewArrayWithBufferLong'', ''NewArray'', ''Mov'', ''MovLong'',
     ''Negate'', ''Not'', ''BitNot'', ''TypeOf'', ''Eq'', ''StrictEq'', ''Neq'', ''StrictNeq'',
     ''Less'', ''LessEq'', ''Greater'', ''GreaterEq'', ''Add'', ''AddN'', ''Mul'', ''MulN'',
     ''Div'', ''DivN'', ''Mod'', ''Sub'', ''SubN'', ''LShift'', ''RShift'', ''URshift'',
     ''BitAnd'', ''BitXor'', ''BitOr'', ''InstanceOf'', ''IsIn'', ''GetEnvironment'',
     ''StoreToEnvironment'', ''StoreToEnvironmentL'', ''StoreNPToEnvironment'',
     ''StoreNPToEnvironmentL'', ''LoadFromEnvironment'', ''LoadFromEnvironmentL'',
     ''GetGlobalObject'', ''GetNewTarget'', ''CreateEnvironment'', ''DeclareGlobalVar'',
     ''GetByIdShort'', ''GetById'', ''GetByIdLong'', ''TryGetById'', ''TryGetByIdLong'',
     ''PutById'', ''PutByIdLong'', ''TryPutById'', ''TryPutByIdLong'', ''PutNewOwnByIdShort'',
     ''PutNewOwnById'', ''PutNewOwnByIdLong'', ''PutNewOwnNEById'', ''PutNewOwnNEByIdLong'',
     ''PutOwnByIndex'', ''PutOwnByIndexL'', ''PutOwnByVal'', ''DelById'', ''DelByIdLong'',
     ''GetByVal'', ''PutByVal'', ''DelByVal'', ''PutOwnGetterSetterByVal'', ''GetPNameList'',
     ''GetNextPName'', ''Call'', ''Construct'', ''Call1'', ''CallDirect'', ''Call2'', ''Call3'',
     ''Call4'', ''CallLong'', ''ConstructLong'', ''CallDirectLongIndex'', ''CallBuiltin'',
     ''Ret'', ''Catch'', ''DirectEval'', ''Throw'', ''ThrowIfUndefinedInst'', ''Debugger'',
     ''AsyncBreakCheck'', ''ProfilePoint'', ''Unreachable'', ''CreateClosure'',
     ''CreateClosureLongIndex'', ''CreateGeneratorClosure'', ''CreateGeneratorClosureLongIndex'',
     ''CreateThis'', ''SelectObject'', ''LoadParam'', ''LoadParamLong'', ''LoadConstUInt8'',
     ''LoadConstInt'', ''LoadConstDouble'', ''LoadConstString'', ''LoadConstStringLongIndex'',
     ''LoadConstUndefined'', ''LoadConstNull'', ''LoadConstTrue'', ''LoadConstFalse'',
     ''LoadConstZero'', ''CoerceThisNS'', ''LoadThisNS'', ''ToNumber'', ''ToInt32'',
     ''AddEmptyString'', ''GetArgumentsPropByVal'', ''GetArgumentsLength'', ''ReifyArguments'',
     ''CreateRegExp'', ''SwitchImm'', ''StartGenerator'', ''ResumeGenerator'',
     ''CompleteGenerator'', ''CreateGenerator'', ''CreateGeneratorLongIndex'', ''IteratorBegin'',
     ''IteratorNext'', ''IteratorClose'', ''Jmp'', ''JmpLong'', ''JmpTrue'', ''JmpTrueLong'',
     ''JmpFalse'', ''JmpFalseLong'', ''JmpUndefined'', ''JmpUndefinedLong'', ''SaveGenerator'',
     ''SaveGeneratorLong'', ''JLess'', ''JLessLong'', ''JNotLess'', ''JNotLessLong'', ''JLessN'',
     ''JLessNLong'', ''JNotLessN'', ''JNotLessNLong'', ''JLessEqual'', ''JLessEqualLong'',
     ''JNotLessEqual'', ''JNotLessEqualLong'', ''JLessEqualN'', ''JLessEqualNLong'',
     ''JNotLessEqualN'', ''JNotLessEqualNLong'', ''JGreater'', ''JGreaterLong'', ''JNotGreater'',
     ''JNotGreaterLong'', ''JGreaterN'', ''JGreaterNLong'', ''JNotGreaterN'',
     ''JNotGreaterNLong'', ''JGreaterEqual'', ''JGreaterEqualLong'', ''JNotGreaterEqual'',
     ''JNotGreaterEqualLong'', ''JGreaterEqualN'', ''JGreaterEqualNLong'', ''JNotGreaterEqualN'',
     ''JNotGreaterEqualNLong'', ''JEqual'', ''JEqualLong'', ''JNotEqual'', ''JNotEqualLong'',
     ''JStrictEqual'', ''JStrictEqualLong'', ''JStrictNotEqual'', ''JStrictNotEqualLong'']"

definition V73_SCHEMAS :: "(string \<times> OpType list) list" where
  "V73_SCHEMAS =
    [(''NewObjectWithBuffer'', [OT_R, OT_U2, OT_U2, OT_U2, OT_U2]),
     (''NewObjectWithBufferLong'', [OT_R, OT_U2, OT_U2, OT_U4, OT_U4]), (''NewObject'', [OT_R]),
     (''NewObjectWithParent'', [OT_R, OT_R]),
     (''NewArrayWithBuffer'', [OT_R, OT_U2, OT_U2, OT_U2]),
     (''NewArrayWithBufferLong'', [OT_R, OT_U2, OT_U2, OT_U4]), (''NewArray'', [OT_R, OT_U2]),
     (''Mov'', [OT_R, OT_R]), (''MovLong'', [OT_R4, OT_R4]), (''Negate'', [OT_R, OT_R]),
     (''Not'', [OT_R, OT_R]), (''BitNot'', [OT_R, OT_R]), (''TypeOf'', [OT_R, OT_R]),
     (''Eq'', [OT_R, OT_R, OT_R]), (''StrictEq'', [OT_R, OT_R, OT_R]),
     (''Neq'', [OT_R, OT_R, OT_R]), (''StrictNeq'', [OT_R, OT_R, OT_R]),
     (''Less'', [OT_R, OT_R, OT_R]), (''LessEq'', [OT_R, OT_R, OT_R]),
     (''Greater'', [OT_R, OT_R, OT_R]), (''GreaterEq'', [OT_R, OT_R, OT_R]),
     (''Add'', [OT_R, OT_R, OT_R]), (''AddN'', [OT_R, OT_R, OT_R]), (''Mul'', [OT_R, OT_R, OT_R]),
     (''MulN'', [OT_R, OT_R, OT_R]), (''Div'', [OT_R, OT_R, OT_R]),
     (''DivN'', [OT_R, OT_R, OT_R]), (''Mod'', [OT_R, OT_R, OT_R]), (''Sub'', [OT_R, OT_R, OT_R]),
     (''SubN'', [OT_R, OT_R, OT_R]), (''LShift'', [OT_R, OT_R, OT_R]),
     (''RShift'', [OT_R, OT_R, OT_R]), (''URshift'', [OT_R, OT_R, OT_R]),
     (''BitAnd'', [OT_R, OT_R, OT_R]), (''BitXor'', [OT_R, OT_R, OT_R]),
     (''BitOr'', [OT_R, OT_R, OT_R]), (''InstanceOf'', [OT_R, OT_R, OT_R]),
     (''IsIn'', [OT_R, OT_R, OT_R]), (''GetEnvironment'', [OT_R, OT_U1]),
     (''StoreToEnvironment'', [OT_R, OT_U1, OT_R]),
     (''StoreToEnvironmentL'', [OT_R, OT_U2, OT_R]),
     (''StoreNPToEnvironment'', [OT_R, OT_U1, OT_R]),
     (''StoreNPToEnvironmentL'', [OT_R, OT_U2, OT_R]),
     (''LoadFromEnvironment'', [OT_R, OT_R, OT_U1]),
     (''LoadFromEnvironmentL'', [OT_R, OT_R, OT_U2]), (''GetGlobalObject'', [OT_R]),
     (''GetNewTarget'', [OT_R]), (''CreateEnvironment'', [OT_R]), (''DeclareGlobalVar'', [OT_U4]),
     (''GetByIdShort'', [OT_R, OT_R, OT_U1, OT_U1]), (''GetById'', [OT_R, OT_R, OT_U1, OT_U2]),
     (''GetByIdLong'', [OT_R, OT_R, OT_U1, OT_U4]), (''TryGetById'', [OT_R, OT_R, OT_U1, OT_U2]),
     (''TryGetByIdLong'', [OT_R, OT_R, OT_U1, OT_U4]), (''PutById'', [OT_R, OT_R, OT_U1, OT_U2]),
     (''PutByIdLong'', [OT_R, OT_R, OT_U1, OT_U4]), (''TryPutById'', [OT_R, OT_R, OT_U1, OT_U2]),
     (''TryPutByIdLong'', [OT_R, OT_R, OT_U1, OT_U4]),
     (''PutNewOwnByIdShort'', [OT_R, OT_R, OT_U1]), (''PutNewOwnById'', [OT_R, OT_R, OT_U2]),
     (''PutNewOwnByIdLong'', [OT_R, OT_R, OT_U4]), (''PutNewOwnNEById'', [OT_R, OT_R, OT_U2]),
     (''PutNewOwnNEByIdLong'', [OT_R, OT_R, OT_U4]), (''PutOwnByIndex'', [OT_R, OT_R, OT_U1]),
     (''PutOwnByIndexL'', [OT_R, OT_R, OT_U4]), (''PutOwnByVal'', [OT_R, OT_R, OT_R, OT_U1]),
     (''DelById'', [OT_R, OT_R, OT_U2]), (''DelByIdLong'', [OT_R, OT_R, OT_U4]),
     (''GetByVal'', [OT_R, OT_R, OT_R]), (''PutByVal'', [OT_R, OT_R, OT_R]),
     (''DelByVal'', [OT_R, OT_R, OT_R]),
     (''PutOwnGetterSetterByVal'', [OT_R, OT_R, OT_R, OT_R, OT_U1]),
     (''GetPNameList'', [OT_R, OT_R, OT_R, OT_R]),
     (''GetNextPName'', [OT_R, OT_R, OT_R, OT_R, OT_R]), (''Call'', [OT_R, OT_R, OT_U1]),
     (''Construct'', [OT_R, OT_R, OT_U1]), (''Call1'', [OT_R, OT_R, OT_R]),
     (''CallDirect'', [OT_R, OT_U1, OT_U2]), (''Call2'', [OT_R, OT_R, OT_R, OT_R]),
     (''Call3'', [OT_R, OT_R, OT_R, OT_R, OT_R]),
     (''Call4'', [OT_R, OT_R, OT_R, OT_R, OT_R, OT_R]), (''CallLong'', [OT_R, OT_R, OT_U4]),
     (''ConstructLong'', [OT_R, OT_R, OT_U4]), (''CallDirectLongIndex'', [OT_R, OT_U1, OT_U4]),
     (''CallBuiltin'', [OT_R, OT_U1, OT_U1]), (''Ret'', [OT_R]), (''Catch'', [OT_R]),
     (''DirectEval'', [OT_R, OT_R]), (''Throw'', [OT_R]), (''ThrowIfUndefinedInst'', [OT_R]),
     (''Debugger'', []), (''AsyncBreakCheck'', []), (''ProfilePoint'', [OT_U2]),
     (''Unreachable'', []), (''CreateClosure'', [OT_R, OT_R, OT_U2]),
     (''CreateClosureLongIndex'', [OT_R, OT_R, OT_U4]),
     (''CreateGeneratorClosure'', [OT_R, OT_R, OT_U2]),
     (''CreateGeneratorClosureLongIndex'', [OT_R, OT_R, OT_U4]),
     (''CreateThis'', [OT_R, OT_R, OT_R]), (''SelectObject'', [OT_R, OT_R, OT_R]),
     (''LoadParam'', [OT_R, OT_U1]), (''LoadParamLong'', [OT_R, OT_U4]),
     (''LoadConstUInt8'', [OT_R, OT_U1]), (''LoadConstInt'', [OT_R, OT_I4]),
     (''LoadConstDouble'', [OT_R, OT_D]), (''LoadConstString'', [OT_R, OT_U2]),
     (''LoadConstStringLongIndex'', [OT_R, OT_U4]), (''LoadConstUndefined'', [OT_R]),
     (''LoadConstNull'', [OT_R]), (''LoadConstTrue'', [OT_R]), (''LoadConstFalse'', [OT_R]),
     (''LoadConstZero'', [OT_R]), (''CoerceThisNS'', [OT_R, OT_R]), (''LoadThisNS'', [OT_R]),
     (''ToNumber'', [OT_R, OT_R]), (''ToInt32'', [OT_R, OT_R]),
     (''AddEmptyString'', [OT_R, OT_R]), (''GetArgumentsPropByVal'', [OT_R, OT_R, OT_R]),
     (''GetArgumentsLength'', [OT_R, OT_R]), (''ReifyArguments'', [OT_R]),
     (''CreateRegExp'', [OT_R, OT_U4, OT_U4, OT_U4]),
     (''SwitchImm'', [OT_R, OT_U4, OT_A4, OT_U4, OT_U4]), (''StartGenerator'', []),
     (''ResumeGenerator'', [OT_R, OT_R]), (''CompleteGenerator'', []),
     (''CreateGenerator'', [OT_R, OT_R, OT_U2]),
     (''CreateGeneratorLongIndex'', [OT_R, OT_R, OT_U4]), (''IteratorBegin'', [OT_R, OT_R]),
     (''IteratorNext'', [OT_R, OT_R, OT_R]), (''IteratorClose'', [OT_R, OT_U1]),
     (''Jmp'', [OT_A1]), (''JmpLong'', [OT_A4]), (''JmpTrue'', [OT_A1, OT_R]),
     (''JmpTrueLong'', [OT_A4, OT_R]), (''JmpFalse'', [OT_A1, OT_R]),
     (''JmpFalseLong'', [OT_A4, OT_R]), (''JmpUndefined'', [OT_A1, OT_R]),
     (''JmpUndefinedLong'', [OT_A4, OT_R]), (''SaveGenerator'', [OT_A1]),
     (''SaveGeneratorLong'', [OT_A4]), (''JLess'', [OT_A1, OT_R, OT_R]),
     (''JLessLong'', [OT_A4, OT_R, OT_R]), (''JNotLess'', [OT_A1, OT_R, OT_R]),
     (''JNotLessLong'', [OT_A4, OT_R, OT_R]), (''JLessN'', [OT_A1, OT_R, OT_R]),
     (''JLessNLong'', [OT_A4, OT_R, OT_R]), (''JNotLessN'', [OT_A1, OT_R, OT_R]),
     (''JNotLessNLong'', [OT_A4, OT_R, OT_R]), (''JLessEqual'', [OT_A1, OT_R, OT_R]),
     (''JLessEqualLong'', [OT_A4, OT_R, OT_R]), (''JNotLessEqual'', [OT_A1, OT_R, OT_R]),
     (''JNotLessEqualLong'', [OT_A4, OT_R, OT_R]), (''JLessEqualN'', [OT_A1, OT_R, OT_R]),
     (''JLessEqualNLong'', [OT_A4, OT_R, OT_R]), (''JNotLessEqualN'', [OT_A1, OT_R, OT_R]),
     (''JNotLessEqualNLong'', [OT_A4, OT_R, OT_R]), (''JGreater'', [OT_A1, OT_R, OT_R]),
     (''JGreaterLong'', [OT_A4, OT_R, OT_R]), (''JNotGreater'', [OT_A1, OT_R, OT_R]),
     (''JNotGreaterLong'', [OT_A4, OT_R, OT_R]), (''JGreaterN'', [OT_A1, OT_R, OT_R]),
     (''JGreaterNLong'', [OT_A4, OT_R, OT_R]), (''JNotGreaterN'', [OT_A1, OT_R, OT_R]),
     (''JNotGreaterNLong'', [OT_A4, OT_R, OT_R]), (''JGreaterEqual'', [OT_A1, OT_R, OT_R]),
     (''JGreaterEqualLong'', [OT_A4, OT_R, OT_R]), (''JNotGreaterEqual'', [OT_A1, OT_R, OT_R]),
     (''JNotGreaterEqualLong'', [OT_A4, OT_R, OT_R]), (''JGreaterEqualN'', [OT_A1, OT_R, OT_R]),
     (''JGreaterEqualNLong'', [OT_A4, OT_R, OT_R]), (''JNotGreaterEqualN'', [OT_A1, OT_R, OT_R]),
     (''JNotGreaterEqualNLong'', [OT_A4, OT_R, OT_R]), (''JEqual'', [OT_A1, OT_R, OT_R]),
     (''JEqualLong'', [OT_A4, OT_R, OT_R]), (''JNotEqual'', [OT_A1, OT_R, OT_R]),
     (''JNotEqualLong'', [OT_A4, OT_R, OT_R]), (''JStrictEqual'', [OT_A1, OT_R, OT_R]),
     (''JStrictEqualLong'', [OT_A4, OT_R, OT_R]), (''JStrictNotEqual'', [OT_A1, OT_R, OT_R]),
     (''JStrictNotEqualLong'', [OT_A4, OT_R, OT_R])]"

definition V73_STRING_IDS :: "(u8 \<times> u8) list" where
  "V73_STRING_IDS =
    [(48, 0), (49, 3), (50, 3), (51, 3), (52, 3), (53, 3), (54, 3), (55, 3), (56, 3), (57, 3),
     (58, 2), (59, 2), (60, 2), (61, 2), (62, 2), (66, 2), (67, 2), (105, 1), (106, 1), (120, 2)]"

definition V73_FUNC_IDS :: "(u8 \<times> u8) list" where
  "V73_FUNC_IDS = []"

definition V73_TABLES :: version_tables where
  "V73_TABLES =
    \<lparr>vt_opcodes = V73_OPCODES, vt_sizes = V73_SIZES, vt_str_ops = V73_STR_OPS, vt_call_ops = V73_CALL_OPS,
     vt_names = V73_NAMES, vt_schemas = V73_SCHEMAS, vt_string_ids = V73_STRING_IDS, vt_func_ids = V73_FUNC_IDS\<rparr>"

lemmas V73_types = V73_SCHEMAS_def [THEN arg_cong [of _ _ "map snd"], unfolded list.map snd_conv]

lemma V73_names: "V73_NAMES = map OpCode_name V73_OPCODES" "map fst V73_SCHEMAS = V73_NAMES"
  by (simp_all only: V73_NAMES_def V73_OPCODES_def V73_SCHEMAS_def list.map opcode_name fst_conv)

lemma V73_agree: "tables_agree V73_TABLES"
  unfolding V73_TABLES_def
  by (rule tables_agreeI [OF _ _ V73_names V73_types])
    (simp_all add: opcodes_upt V73_OPCODES_def V73_SIZES_def V73_STR_OPS_def V73_STRING_IDS_def
      V73_CALL_OPS_def V73_FUNC_IDS_def table_checks)

subsection \<open>Version 80\<close>

definition V80_OPCODES :: "OpCode list" where
  "V80_OPCODES =
    [OP_NewObjectWithBuffer, OP_NewObjectWithBufferLong, OP_NewObject, OP_NewObjectWithParent,
     OP_NewArrayWithBuffer, OP_NewArrayWithBufferLong, OP_NewArray, OP_Mov, OP_MovLong, OP_Negate,
     OP_Not, OP_BitNot, OP_TypeOf, OP_Eq, OP_StrictEq, OP_Neq, OP_StrictNeq, OP_Less, OP_LessEq,
     OP_Greater, OP_GreaterEq, OP_Add, OP_AddN, OP_Mul, OP_MulN, OP_Div, OP_DivN, OP_Mod, OP_Sub,
     OP_SubN, OP_LShift, OP_RShift, OP_URshift, OP_BitAnd, OP_BitXor, OP_BitOr, OP_InstanceOf,
     OP_IsIn, OP_GetEnvironment, OP_StoreToEnvironment, OP_StoreToEnvironmentL,
     OP_StoreNPToEnvironment, OP_StoreNPToEnvironmentL, OP_LoadFromEnvironment,
     OP_LoadFromEnvironmentL, OP_GetGlobalObject, OP_GetNewTarget, OP_CreateEnvironment,
     OP_DeclareGlobalVar, OP_GetByIdShort, OP_GetById, OP_GetByIdLong, OP_TryGetById,
     OP_TryGetByIdLong, OP_PutById, OP_PutByIdLong, OP_TryPutById, OP_TryPutByIdLong,
     OP_PutNewOwnByIdShort, OP_PutNewOwnById, OP_PutNewOwnByIdLong, OP_PutNewOwnNEById,
     OP_PutNewOwnNEByIdLong, OP_PutOwnByIndex, OP_PutOwnByIndexL, OP_PutOwnByVal, OP_DelById,
     OP_DelByIdLong, OP_GetByVal, OP_PutByVal, OP_DelByVal, OP_PutOwnGetterSetterByVal,
     OP_GetPNameList, OP_GetNextPName, OP_Call, OP_Construct, OP_Call1, OP_CallDirect, OP_Call2,
     OP_Call3, OP_Call4, OP_CallLong, OP_ConstructLong, OP_CallDirectLongIndex, OP_CallBuiltin,
     OP_CallBuiltinLong, OP_Ret, OP_Catch, OP_DirectEval, OP_Throw, OP_ThrowIfUndefinedInst,
     OP_Debugger, OP_AsyncBreakCheck, OP_ProfilePoint, OP_Unreachable, OP_CreateClosure,
     OP_CreateClosureLongIndex, OP_CreateGeneratorClosure, OP_CreateGeneratorClosureLongIndex,
     OP_CreateThis, OP_SelectObject, OP_LoadParam, OP_LoadParamLong, OP_LoadConstUInt8,
     OP_LoadConstInt, OP_LoadConstDouble, OP_LoadConstString, OP_LoadConstStringLongIndex,
     OP_LoadConstUndefined, OP_LoadConstNull, OP_LoadConstTrue, OP_LoadConstFalse,
     OP_LoadConstZero, OP_CoerceThisNS, OP_LoadThisNS, OP_ToNumber, OP_ToInt32, OP_AddEmptyString,
     OP_GetArgumentsPropByVal, OP_GetArgumentsLength, OP_ReifyArguments, OP_CreateRegExp,
     OP_SwitchImm, OP_StartGenerator, OP_ResumeGenerator, OP_CompleteGenerator,
     OP_CreateGenerator, OP_CreateGeneratorLongIndex, OP_IteratorBegin, OP_IteratorNext,
     OP_IteratorClose, OP_Jmp, OP_JmpLong, OP_JmpTrue, OP_JmpTrueLong, OP_JmpFalse,
     OP_JmpFalseLong, OP_JmpUndefined, OP_JmpUndefinedLong, OP_SaveGenerator,
     OP_SaveGeneratorLong, OP_JLess, OP_JLessLong, OP_JNotLess, OP_JNotLessLong, OP_JLessN,
     OP_JLessNLong, OP_JNotLessN, OP_JNotLessNLong, OP_JLessEqual, OP_JLessEqualLong,
     OP_JNotLessEqual, OP_JNotLessEqualLong, OP_JLessEqualN, OP_JLessEqualNLong,
     OP_JNotLessEqualN, OP_JNotLessEqualNLong, OP_JGreater, OP_JGreaterLong, OP_JNotGreater,
     OP_JNotGreaterLong, OP_JGreaterN, OP_JGreaterNLong, OP_JNotGreaterN, OP_JNotGreaterNLong,
     OP_JGreaterEqual, OP_JGreaterEqualLong, OP_JNotGreaterEqual, OP_JNotGreaterEqualLong,
     OP_JGreaterEqualN, OP_JGreaterEqualNLong, OP_JNotGreaterEqualN, OP_JNotGreaterEqualNLong,
     OP_JEqual, OP_JEqualLong, OP_JNotEqual, OP_JNotEqualLong, OP_JStrictEqual,
     OP_JStrictEqualLong, OP_JStrictNotEqual, OP_JStrictNotEqualLong]"

definition V80_SIZES :: "u8 list" where
  "V80_SIZES =
    [10, 14, 2, 3, 8, 10, 4, 3, 9, 3, 3, 3, 3, 4, 4, 4, 4, 4, 4, 4, 4, 4, 4, 4, 4, 4, 4, 4, 4, 4,
     4, 4, 4, 4, 4, 4, 4, 4, 3, 4, 5, 4, 5, 4, 5, 2, 2, 2, 5, 5, 6, 8, 6, 8, 6, 8, 6, 8, 4, 5, 7,
     5, 7, 4, 7, 5, 5, 7, 4, 4, 4, 6, 5, 6, 4, 4, 4, 5, 5, 6, 7, 7, 7, 7, 4, 7, 2, 2, 3, 2, 2, 1,
     1, 3, 1, 5, 7, 5, 7, 4, 4, 3, 6, 3, 6, 10, 4, 6, 2, 2, 2, 2, 2, 3, 2, 3, 3, 3, 4, 3, 2, 14,
     18, 1, 3, 1, 5, 7, 3, 4, 3, 2, 5, 3, 6, 3, 6, 3, 6, 2, 5, 4, 7, 4, 7, 4, 7, 4, 7, 4, 7, 4, 7,
     4, 7, 4, 7, 4, 7, 4, 7, 4, 7, 4, 7, 4, 7, 4, 7, 4, 7, 4, 7, 4, 7, 4, 7, 4, 7, 4, 7]"

definition V80_STR_OPS :: "(u8 \<times> u8 \<times> u8) list" where
  "V80_STR_OPS =
    [(48, 1, 4), (49, 4, 1), (50, 4, 2), (51, 4, 4), (52, 4, 2), (53, 4, 4), (54, 4, 2),
     (55, 4, 4), (56, 4, 2), (57, 4, 4), (58, 3, 1), (59, 3, 2), (60, 3, 4), (61, 3, 2),
     (62, 3, 4), (66, 3, 2), (67, 3, 4), (106, 2, 2), (107, 2, 4), (121, 6, 4)]"

definition V80_CALL_OPS :: "(u8 \<times> u8 \<times> u8) list" where
  "V80_CALL_OPS =
    [(77, 3, 2), (83, 3, 4)]"

definition V80_NAMES :: "string list" where
  "V80_NAMES =
    [''NewObjectWithBuffer'', ''NewObjectWithBufferLong'', ''NewObject'', ''NewObjectWithParent'',
     ''NewArrayWithBuffer'', ''NewArrayWithBufferLong'', ''NewArray'', ''Mov'', ''MovLong'',
     ''Negate'', ''Not'', ''BitNot'', ''TypeOf'', ''Eq'', ''StrictEq'', ''Neq'', ''StrictNeq'',
     ''Less'', ''LessEq'', ''Greater'', ''GreaterEq'', ''Add'', ''AddN'', ''Mul'', ''MulN'',
     ''Div'', ''DivN'', ''Mod'', ''Sub'', ''SubN'', ''LShift'', ''RShift'', ''URshift'',
     ''BitAnd'', ''BitXor'', ''BitOr'', ''InstanceOf'', ''IsIn'', ''GetEnvironment'',
     ''StoreToEnvironment'', ''StoreToEnvironmentL'', ''StoreNPToEnvironment'',
     ''StoreNPToEnvironmentL'', ''LoadFromEnvironment'', ''LoadFromEnvironmentL'',
     ''GetGlobalObject'', ''GetNewTarget'', ''CreateEnvironment'', ''DeclareGlobalVar'',
     ''GetByIdShort'', ''GetById'', ''GetByIdLong'', ''TryGetById'', ''TryGetByIdLong'',
     ''PutById'', ''PutByIdLong'', ''TryPutById'', ''TryPutByIdLong'', ''PutNewOwnByIdShort'',
     ''PutNewOwnById'', ''PutNewOwnByIdLong'', ''PutNewOwnNEById'', ''PutNewOwnNEByIdLong'',
     ''PutOwnByIndex'', ''PutOwnByIndexL'', ''PutOwnByVal'', ''DelById'', ''DelByIdLong'',
     ''GetByVal'', ''PutByVal'', ''DelByVal'', ''PutOwnGetterSetterByVal'', ''GetPNameList'',
     ''GetNextPName'', ''Call'', ''Construct'', ''Call1'', ''CallDirect'', ''Call2'', ''Call3'',
     ''Call4'', ''CallLong'', ''ConstructLong'', ''CallDirectLongIndex'', ''CallBuiltin'',
     ''CallBuiltinLong'', ''Ret'', ''Catch'', ''DirectEval'', ''Throw'', ''ThrowIfUndefinedInst'',
     ''Debugger'', ''AsyncBreakCheck'', ''ProfilePoint'', ''Unreachable'', ''CreateClosure'',
     ''CreateClosureLongIndex'', ''CreateGeneratorClosure'', ''CreateGeneratorClosureLongIndex'',
     ''CreateThis'', ''SelectObject'', ''LoadParam'', ''LoadParamLong'', ''LoadConstUInt8'',
     ''LoadConstInt'', ''LoadConstDouble'', ''LoadConstString'', ''LoadConstStringLongIndex'',
     ''LoadConstUndefined'', ''LoadConstNull'', ''LoadConstTrue'', ''LoadConstFalse'',
     ''LoadConstZero'', ''CoerceThisNS'', ''LoadThisNS'', ''ToNumber'', ''ToInt32'',
     ''AddEmptyString'', ''GetArgumentsPropByVal'', ''GetArgumentsLength'', ''ReifyArguments'',
     ''CreateRegExp'', ''SwitchImm'', ''StartGenerator'', ''ResumeGenerator'',
     ''CompleteGenerator'', ''CreateGenerator'', ''CreateGeneratorLongIndex'', ''IteratorBegin'',
     ''IteratorNext'', ''IteratorClose'', ''Jmp'', ''JmpLong'', ''JmpTrue'', ''JmpTrueLong'',
     ''JmpFalse'', ''JmpFalseLong'', ''JmpUndefined'', ''JmpUndefinedLong'', ''SaveGenerator'',
     ''SaveGeneratorLong'', ''JLess'', ''JLessLong'', ''JNotLess'', ''JNotLessLong'', ''JLessN'',
     ''JLessNLong'', ''JNotLessN'', ''JNotLessNLong'', ''JLessEqual'', ''JLessEqualLong'',
     ''JNotLessEqual'', ''JNotLessEqualLong'', ''JLessEqualN'', ''JLessEqualNLong'',
     ''JNotLessEqualN'', ''JNotLessEqualNLong'', ''JGreater'', ''JGreaterLong'', ''JNotGreater'',
     ''JNotGreaterLong'', ''JGreaterN'', ''JGreaterNLong'', ''JNotGreaterN'',
     ''JNotGreaterNLong'', ''JGreaterEqual'', ''JGreaterEqualLong'', ''JNotGreaterEqual'',
     ''JNotGreaterEqualLong'', ''JGreaterEqualN'', ''JGreaterEqualNLong'', ''JNotGreaterEqualN'',
     ''JNotGreaterEqualNLong'', ''JEqual'', ''JEqualLong'', ''JNotEqual'', ''JNotEqualLong'',
     ''JStrictEqual'', ''JStrictEqualLong'', ''JStrictNotEqual'', ''JStrictNotEqualLong'']"

definition V80_SCHEMAS :: "(string \<times> OpType list) list" where
  "V80_SCHEMAS =
    [(''NewObjectWithBuffer'', [OT_R, OT_U2, OT_U2, OT_U2, OT_U2]),
     (''NewObjectWithBufferLong'', [OT_R, OT_U2, OT_U2, OT_U4, OT_U4]), (''NewObject'', [OT_R]),
     (''NewObjectWithParent'', [OT_R, OT_R]),
     (''NewArrayWithBuffer'', [OT_R, OT_U2, OT_U2, OT_U2]),
     (''NewArrayWithBufferLong'', [OT_R, OT_U2, OT_U2, OT_U4]), (''NewArray'', [OT_R, OT_U2]),
     (''Mov'', [OT_R, OT_R]), (''MovLong'', [OT_R4, OT_R4]), (''Negate'', [OT_R, OT_R]),
     (''Not'', [OT_R, OT_R]), (''BitNot'', [OT_R, OT_R]), (''TypeOf'', [OT_R, OT_R]),
     (''Eq'', [OT_R, OT_R, OT_R]), (''StrictEq'', [OT_R, OT_R, OT_R]),
     (''Neq'', [OT_R, OT_R, OT_R]), (''StrictNeq'', [OT_R, OT_R, OT_R]),
     (''Less'', [OT_R, OT_R, OT_R]), (''LessEq'', [OT_R, OT_R, OT_R]),
     (''Greater'', [OT_R, OT_R, OT_R]), (''GreaterEq'', [OT_R, OT_R, OT_R]),
     (''Add'', [OT_R, OT_R, OT_R]), (''AddN'', [OT_R, OT_R, OT_R]), (''Mul'', [OT_R, OT_R, OT_R]),
     (''MulN'', [OT_R, OT_R, OT_R]), (''Div'', [OT_R, OT_R, OT_R]),
     (''DivN'', [OT_R, OT_R, OT_R]), (''Mod'', [OT_R, OT_R, OT_R]), (''Sub'', [OT_R, OT_R, OT_R]),
     (''SubN'', [OT_R, OT_R, OT_R]), (''LShift'', [OT_R, OT_R, OT_R]),
     (''RShift'', [OT_R, OT_R, OT_R]), (''URshift'', [OT_R, OT_R, OT_R]),
     (''BitAnd'', [OT_R, OT_R, OT_R]), (''BitXor'', [OT_R, OT_R, OT_R]),
     (''BitOr'', [OT_R, OT_R, OT_R]), (''InstanceOf'', [OT_R, OT_R, OT_R]),
     (''IsIn'', [OT_R, OT_R, OT_R]), (''GetEnvironment'', [OT_R, OT_U1]),
     (''StoreToEnvironment'', [OT_R, OT_U1, OT_R]),
     (''StoreToEnvironmentL'', [OT_R, OT_U2, OT_R]),
     (''StoreNPToEnvironment'', [OT_R, OT_U1, OT_R]),
     (''StoreNPToEnvironmentL'', [OT_R, OT_U2, OT_R]),
     (''LoadFromEnvironment'', [OT_R, OT_R, OT_U1]),
     (''LoadFromEnvironmentL'', [OT_R, OT_R, OT_U2]), (''GetGlobalObject'', [OT_R]),
     (''GetNewTarget'', [OT_R]), (''CreateEnvironment'', [OT_R]), (''DeclareGlobalVar'', [OT_U4]),
     (''GetByIdShort'', [OT_R, OT_R, OT_U1, OT_U1]), (''GetById'', [OT_R, OT_R, OT_U1, OT_U2]),
     (''GetByIdLong'', [OT_R, OT_R, OT_U1, OT_U4]), (''TryGetById'', [OT_R, OT_R, OT_U1, OT_U2]),
     (''TryGetByIdLong'', [OT_R, OT_R, OT_U1, OT_U4]), (''PutById'', [OT_R, OT_R, OT_U1, OT_U2]),
     (''PutByIdLong'', [OT_R, OT_R, OT_U1, OT_U4]), (''TryPutById'', [OT_R, OT_R, OT_U1, OT_U2]),
     (''TryPutByIdLong'', [OT_R, OT_R, OT_U1, OT_U4]),
     (''PutNewOwnByIdShort'', [OT_R, OT_R, OT_U1]), (''PutNewOwnById'', [OT_R, OT_R, OT_U2]),
     (''PutNewOwnByIdLong'', [OT_R, OT_R, OT_U4]), (''PutNewOwnNEById'', [OT_R, OT_R, OT_U2]),
     (''PutNewOwnNEByIdLong'', [OT_R, OT_R, OT_U4]), (''PutOwnByIndex'', [OT_R, OT_R, OT_U1]),
     (''PutOwnByIndexL'', [OT_R, OT_R, OT_U4]), (''PutOwnByVal'', [OT_R, OT_R, OT_R, OT_U1]),
     (''DelById'', [OT_R, OT_R, OT_U2]), (''DelByIdLong'', [OT_R, OT_R, OT_U4]),
     (''GetByVal'', [OT_R, OT_R, OT_R]), (''PutByVal'', [OT_R, OT_R, OT_R]),
     (''DelByVal'', [OT_R, OT_R, OT_R]),
     (''PutOwnGetterSetterByVal'', [OT_R, OT_R, OT_R, OT_R, OT_U1]),
     (''GetPNameList'', [OT_R, OT_R, OT_R, OT_R]),
     (''GetNextPName'', [OT_R, OT_R, OT_R, OT_R, OT_R]), (''Call'', [OT_R, OT_R, OT_U1]),
     (''Construct'', [OT_R, OT_R, OT_U1]), (''Call1'', [OT_R, OT_R, OT_R]),
     (''CallDirect'', [OT_R, OT_U1, OT_U2]), (''Call2'', [OT_R, OT_R, OT_R, OT_R]),
     (''Call3'', [OT_R, OT_R, OT_R, OT_R, OT_R]),
     (''Call4'', [OT_R, OT_R, OT_R, OT_R, OT_R, OT_R]), (''CallLong'', [OT_R, OT_R, OT_U4]),
     (''ConstructLong'', [OT_R, OT_R, OT_U4]), (''CallDirectLongIndex'', [OT_R, OT_U1, OT_U4]),
     (''CallBuiltin'', [OT_R, OT_U1, OT_U1]), (''CallBuiltinLong'', [OT_R, OT_U1, OT_U4]),
     (''Ret'', [OT_R]), (''Catch'', [OT_R]), (''DirectEval'', [OT_R, OT_R]), (''Throw'', [OT_R]),
     (''ThrowIfUndefinedInst'', [OT_R]), (''Debugger'', []), (''AsyncBreakCheck'', []),
     (''ProfilePoint'', [OT_U2]), (''Unreachable'', []), (''CreateClosure'', [OT_R, OT_R, OT_U2]),
     (''CreateClosureLongIndex'', [OT_R, OT_R, OT_U4]),
     (''CreateGeneratorClosure'', [OT_R, OT_R, OT_U2]),
     (''CreateGeneratorClosureLongIndex'', [OT_R, OT_R, OT_U4]),
     (''CreateThis'', [OT_R, OT_R, OT_R]), (''SelectObject'', [OT_R, OT_R, OT_R]),
     (''LoadParam'', [OT_R, OT_U1]), (''LoadParamLong'', [OT_R, OT_U4]),
     (''LoadConstUInt8'', [OT_R, OT_U1]), (''LoadConstInt'', [OT_R, OT_I4]),
     (''LoadConstDouble'', [OT_R, OT_D]), (''LoadConstString'', [OT_R, OT_U2]),
     (''LoadConstStringLongIndex'', [OT_R, OT_U4]), (''LoadConstUndefined'', [OT_R]),
     (''LoadConstNull'', [OT_R]), (''LoadConstTrue'', [OT_R]), (''LoadConstFalse'', [OT_R]),
     (''LoadConstZero'', [OT_R]), (''CoerceThisNS'', [OT_R, OT_R]), (''LoadThisNS'', [OT_R]),
     (''ToNumber'', [OT_R, OT_R]), (''ToInt32'', [OT_R, OT_R]),
     (''AddEmptyString'', [OT_R, OT_R]), (''GetArgumentsPropByVal'', [OT_R, OT_R, OT_R]),
     (''GetArgumentsLength'', [OT_R, OT_R]), (''ReifyArguments'', [OT_R]),
     (''CreateRegExp'', [OT_R, OT_U4, OT_U4, OT_U4]),
     (''SwitchImm'', [OT_R, OT_U4, OT_A4, OT_U4, OT_U4]), (''StartGenerator'', []),
     (''ResumeGenerator'', [OT_R, OT_R]), (''CompleteGenerator'', []),
     (''CreateGenerator'', [OT_R, OT_R, OT_U2]),
     (''CreateGeneratorLongIndex'', [OT_R, OT_R, OT_U4]), (''IteratorBegin'', [OT_R, OT_R]),
     (''IteratorNext'', [OT_R, OT_R, OT_R]), (''IteratorClose'', [OT_R, OT_U1]),
     (''Jmp'', [OT_A1]), (''JmpLong'', [OT_A4]), (''JmpTrue'', [OT_A1, OT_R]),
     (''JmpTrueLong'', [OT_A4, OT_R]), (''JmpFalse'', [OT_A1, OT_R]),
     (''JmpFalseLong'', [OT_A4, OT_R]), (''JmpUndefined'', [OT_A1, OT_R]),
     (''JmpUndefinedLong'', [OT_A4, OT_R]), (''SaveGenerator'', [OT_A1]),
     (''SaveGeneratorLong'', [OT_A4]), (''JLess'', [OT_A1, OT_R, OT_R]),
     (''JLessLong'', [OT_A4, OT_R, OT_R]), (''JNotLess'', [OT_A1, OT_R, OT_R]),
     (''JNotLessLong'', [OT_A4, OT_R, OT_R]), (''JLessN'', [OT_A1, OT_R, OT_R]),
     (''JLessNLong'', [OT_A4, OT_R, OT_R]), (''JNotLessN'', [OT_A1, OT_R, OT_R]),
     (''JNotLessNLong'', [OT_A4, OT_R, OT_R]), (''JLessEqual'', [OT_A1, OT_R, OT_R]),
     (''JLessEqualLong'', [OT_A4, OT_R, OT_R]), (''JNotLessEqual'', [OT_A1, OT_R, OT_R]),
     (''JNotLessEqualLong'', [OT_A4, OT_R, OT_R]), (''JLessEqualN'', [OT_A1, OT_R, OT_R]),
     (''JLessEqualNLong'', [OT_A4, OT_R, OT_R]), (''JNotLessEqualN'', [OT_A1, OT_R, OT_R]),
     (''JNotLessEqualNLong'', [OT_A4, OT_R, OT_R]), (''JGreater'', [OT_A1, OT_R, OT_R]),
     (''JGreaterLong'', [OT_A4, OT_R, OT_R]), (''JNotGreater'', [OT_A1, OT_R, OT_R]),
     (''JNotGreaterLong'', [OT_A4, OT_R, OT_R]), (''JGreaterN'', [OT_A1, OT_R, OT_R]),
     (''JGreaterNLong'', [OT_A4, OT_R, OT_R]), (''JNotGreaterN'', [OT_A1, OT_R, OT_R]),
     (''JNotGreaterNLong'', [OT_A4, OT_R, OT_R]), (''JGreaterEqual'', [OT_A1, OT_R, OT_R]),
     (''JGreaterEqualLong'', [OT_A4, OT_R, OT_R]), (''JNotGreaterEqual'', [OT_A1, OT_R, OT_R]),
     (''JNotGreaterEqualLong'', [OT_A4, OT_R, OT_R]), (''JGreaterEqualN'', [OT_A1, OT_R, OT_R]),
     (''JGreaterEqualNLong'', [OT_A4, OT_R, OT_R]), (''JNotGreaterEqualN'', [OT_A1, OT_R, OT_R]),
     (''JNotGreaterEqualNLong'', [OT_A4, OT_R, OT_R]), (''JEqual'', [OT_A1, OT_R, OT_R]),
     (''JEqualLong'', [OT_A4, OT_R, OT_R]), (''JNotEqual'', [OT_A1, OT_R, OT_R]),
     (''JNotEqualLong'', [OT_A4, OT_R, OT_R]), (''JStrictEqual'', [OT_A1, OT_R, OT_R]),
     (''JStrictEqualLong'', [OT_A4, OT_R, OT_R]), (''JStrictNotEqual'', [OT_A1, OT_R, OT_R]),
     (''JStrictNotEqualLong'', [OT_A4, OT_R, OT_R])]"

definition V80_STRING_IDS :: "(u8 \<times> u8) list" where
  "V80_STRING_IDS =
    [(48, 0), (49, 3), (50, 3), (51, 3), (52, 3), (53, 3), (54, 3), (55, 3), (56, 3), (57, 3),
     (58, 2), (59, 2), (60, 2), (61, 2), (62, 2), (66, 2), (67, 2), (106, 1), (107, 1), (121, 2)]"

definition V80_FUNC_IDS :: "(u8 \<times> u8) list" where
  "V80_FUNC_IDS = []"

definition V80_TABLES :: version_tables where
  "V80_TABLES =
    \<lparr>vt_opcodes = V80_OPCODES, vt_sizes = V80_SIZES, vt_str_ops = V80_STR_OPS, vt_call_ops = V80_CALL_OPS,
     vt_names = V80_NAMES, vt_schemas = V80_SCHEMAS, vt_string_ids = V80_STRING_IDS, vt_func_ids = V80_FUNC_IDS\<rparr>"

lemmas V80_types = V80_SCHEMAS_def [THEN arg_cong [of _ _ "map snd"], unfolded list.map snd_conv]

lemma V80_names: "V80_NAMES = map OpCode_name V80_OPCODES" "map fst V80_SCHEMAS = V80_NAMES"
  by (simp_all only: V80_NAMES_def V80_OPCODES_def V80_SCHEMAS_def list.map opcode_name fst_conv)

lemma V80_agree: "tables_agree V80_TABLES"
  unfolding V80_TABLES_def
  by (rule tables_agreeI [OF _ _ V80_names V80_types])
    (simp_all add: opcodes_upt V80_OPCODES_def V80_SIZES_def V80_STR_OPS_def V80_STRING_IDS_def
      V80_CALL_OPS_def V80_FUNC_IDS_def table_checks)

subsection \<open>Version 81\<close>

definition V81_OPCODES :: "OpCode list" where
  "V81_OPCODES =
    [OP_NewObjectWithBuffer, OP_NewObjectWithBufferLong, OP_NewObject, OP_NewObjectWithParent,
     OP_NewArrayWithBuffer, OP_NewArrayWithBufferLong, OP_NewArray, OP_Mov, OP_MovLong, OP_Negate,
     OP_Not, OP_BitNot, OP_TypeOf, OP_Eq, OP_StrictEq, OP_Neq, OP_StrictNeq, OP_Less, OP_LessEq,
     OP_Greater, OP_GreaterEq, OP_Add, OP_AddN, OP_Mul, OP_MulN, OP_Div, OP_DivN, OP_Mod, OP_Sub,
     OP_SubN, OP_LShift, OP_RShift, OP_URshift, OP_BitAnd, OP_BitXor, OP_BitOr, OP_InstanceOf,
     OP_IsIn, OP_GetEnvironment, OP_StoreToEnvironment, OP_StoreToEnvironmentL,
     OP_StoreNPToEnvironment, OP_StoreNPToEnvironmentL, OP_LoadFromEnvironment,
     OP_LoadFromEnvironmentL, OP_GetGlobalObject, OP_GetNewTarget, OP_CreateEnvironment,
     OP_DeclareGlobalVar, OP_GetByIdShort, OP_GetById, OP_GetByIdLong, OP_TryGetById,
     OP_TryGetByIdLong, OP_PutById, OP_PutByIdLong, OP_TryPutById, OP_TryPutByIdLong,
     OP_PutNewOwnByIdShort, OP_PutNewOwnById, OP_PutNewOwnByIdLong, OP_PutNewOwnNEById,
     OP_PutNewOwnNEByIdLong, OP_PutOwnByIndex, OP_PutOwnByIndexL, OP_PutOwnByVal, OP_DelById,
     OP_DelByIdLong, OP_GetByVal, OP_PutByVal, OP_DelByVal, OP_PutOwnGetterSetterByVal,
     OP_GetPNameList, OP_GetNextPName, OP_Call, OP_Construct, OP_Call1, OP_CallDirect, OP_Call2,
     OP_Call3, OP_Call4, OP_CallLong, OP_ConstructLong, OP_CallDirectLongIndex, OP_CallBuiltin,
     OP_CallBuiltinLong, OP_GetBuiltinClosure, OP_Ret, OP_Catch, OP_DirectEval, OP_Throw,
     OP_ThrowIfEmpty, OP_Debugger, OP_AsyncBreakCheck, OP_ProfilePoint, OP_Unreachable,
     OP_CreateClosure, OP_CreateClosureLongIndex, OP_CreateGeneratorClosure,
     OP_CreateGeneratorClosureLongIndex, OP_CreateAsyncClosure, OP_CreateAsyncClosureLongIndex,
     OP_CreateThis, OP_SelectObject, OP_LoadParam, OP_LoadParamLong, OP_LoadConstUInt8,
     OP_LoadConstInt, OP_LoadConstDouble, OP_LoadConstString, OP_LoadConstStringLongIndex,
     OP_LoadConstEmpty, OP_LoadConstUndefined, OP_LoadConstNull, OP_LoadConstTrue,
     OP_LoadConstFalse, OP_LoadConstZero, OP_CoerceThisNS, OP_LoadThisNS, OP_ToNumber, OP_ToInt32,
     OP_AddEmptyString, OP_GetArgumentsPropByVal, OP_GetArgumentsLength, OP_ReifyArguments,
     OP_CreateRegExp, OP_SwitchImm, OP_StartGenerator, OP_ResumeGenerator, OP_CompleteGenerator,
     OP_CreateGenerator, OP_CreateGeneratorLongIndex, OP_IteratorBegin, OP_IteratorNext,
     OP_IteratorClose, OP_Jmp, OP_JmpLong, OP_JmpTrue, OP_JmpTrueLong, OP_JmpFalse,
     OP_JmpFalseLong, OP_JmpUndefined, OP_JmpUndefinedLong, OP_SaveGenerator,
     OP_SaveGeneratorLong, OP_JLess, OP_JLessLong, OP_JNotLess, OP_JNotLessLong, OP_JLessN,
     OP_JLessNLong, OP_JNotLessN, OP_JNotLessNLong, OP_JLessEqual, OP_JLessEqualLong,
     OP_JNotLessEqual, OP_JNotLessEqualLong, OP_JLessEqualN, OP_JLessEqualNLong,
     OP_JNotLessEqualN, OP_JNotLessEqualNLong, OP_JGreater, OP_JGreaterLong, OP_JNotGreater,
     OP_JNotGreaterLong, OP_JGreaterN, OP_JGreaterNLong, OP_JNotGreaterN, OP_JNotGreaterNLong,
     OP_JGreaterEqual, OP_JGreaterEqualLong, OP_JNotGreaterEqual, OP_JNotGreaterEqualLong,
     OP_JGreaterEqualN, OP_JGreaterEqualNLong, OP_JNotGreaterEqualN, OP_JNotGreaterEqualNLong,
     OP_JEqual, OP_JEqualLong, OP_JNotEqual, OP_JNotEqualLong, OP_JStrictEqual,
     OP_JStrictEqualLong, OP_JStrictNotEqual, OP_JStrictNotEqualLong]"

definition V81_SIZES :: "u8 list" where
  "V81_SIZES =
    [10, 14, 2, 3, 8, 10, 4, 3, 9, 3, 3, 3, 3, 4, 4, 4, 4, 4, 4, 4, 4, 4, 4, 4, 4, 4, 4, 4, 4, 4,
     4, 4, 4, 4, 4, 4, 4, 4, 3, 4, 5, 4, 5, 4, 5, 2, 2, 2, 5, 5, 6, 8, 6, 8, 6, 8, 6, 8, 4, 5, 7,
     5, 7, 4, 7, 5, 5, 7, 4, 4, 4, 6, 5, 6, 4, 4, 4, 5, 5, 6, 7, 7, 7, 7, 4, 7, 3, 2, 2, 3, 2, 3,
     1, 1, 3, 1, 5, 7, 5, 7, 5, 7, 4, 4, 3, 6, 3, 6, 10, 4, 6, 2, 2, 2, 2, 2, 2, 3, 2, 3, 3, 3, 4,
     3, 2, 14, 18, 1, 3, 1, 5, 7, 3, 4, 3, 2, 5, 3, 6, 3, 6, 3, 6, 2, 5, 4, 7, 4, 7, 4, 7, 4, 7,
     4, 7, 4, 7, 4, 7, 4, 7, 4, 7, 4, 7, 4, 7, 4, 7, 4, 7, 4, 7, 4, 7, 4, 7, 4, 7, 4, 7, 4, 7, 4,
     7]"

definition V81_STR_OPS :: "(u8 \<times> u8 \<times> u8) list" where
  "V81_STR_OPS =
    [(48, 1, 4), (49, 4, 1), (50, 4, 2), (51, 4, 4), (52, 4, 2), (53, 4, 4), (54, 4, 2),
     (55, 4, 4), (56, 4, 2), (57, 4, 4), (58, 3, 1), (59, 3, 2), (60, 3, 4), (61, 3, 2),
     (62, 3, 4), (66, 3, 2), (67, 3, 4), (109, 2, 2), (110, 2, 4), (125, 6, 4)]"

definition V81_CALL_OPS :: "(u8 \<times> u8 \<times> u8) list" where
  "V81_CALL_OPS =
    [(77, 3, 2), (83, 3, 4)]"

definition V81_NAMES :: "string list" where
  "V81_NAMES =
    [''NewObjectWithBuffer'', ''NewObjectWithBufferLong'', ''NewObject'', ''NewObjectWithParent'',
     ''NewArrayWithBuffer'', ''NewArrayWithBufferLong'', ''NewArray'', ''Mov'', ''MovLong'',
     ''Negate'', ''Not'', ''BitNot'', ''TypeOf'', ''Eq'', ''StrictEq'', ''Neq'', ''StrictNeq'',
     ''Less'', ''LessEq'', ''Greater'', ''GreaterEq'', ''Add'', ''AddN'', ''Mul'', ''MulN'',
     ''Div'', ''DivN'', ''Mod'', ''Sub'', ''SubN'', ''LShift'', ''RShift'', ''URshift'',
     ''BitAnd'', ''BitXor'', ''BitOr'', ''InstanceOf'', ''IsIn'', ''GetEnvironment'',
     ''StoreToEnvironment'', ''StoreToEnvironmentL'', ''StoreNPToEnvironment'',
     ''StoreNPToEnvironmentL'', ''LoadFromEnvironment'', ''LoadFromEnvironmentL'',
     ''GetGlobalObject'', ''GetNewTarget'', ''CreateEnvironment'', ''DeclareGlobalVar'',
     ''GetByIdShort'', ''GetById'', ''GetByIdLong'', ''TryGetById'', ''TryGetByIdLong'',
     ''PutById'', ''PutByIdLong'', ''TryPutById'', ''TryPutByIdLong'', ''PutNewOwnByIdShort'',
     ''PutNewOwnById'', ''PutNewOwnByIdLong'', ''PutNewOwnNEById'', ''PutNewOwnNEByIdLong'',
     ''PutOwnByIndex'', ''PutOwnByIndexL'', ''PutOwnByVal'', ''DelById'', ''DelByIdLong'',
     ''GetByVal'', ''PutByVal'', ''DelByVal'', ''PutOwnGetterSetterByVal'', ''GetPNameList'',
     ''GetNextPName'', ''Call'', ''Construct'', ''Call1'', ''CallDirect'', ''Call2'', ''Call3'',
     ''Call4'', ''CallLong'', ''ConstructLong'', ''CallDirectLongIndex'', ''CallBuiltin'',
     ''CallBuiltinLong'', ''GetBuiltinClosure'', ''Ret'', ''Catch'', ''DirectEval'', ''Throw'',
     ''ThrowIfEmpty'', ''Debugger'', ''AsyncBreakCheck'', ''ProfilePoint'', ''Unreachable'',
     ''CreateClosure'', ''CreateClosureLongIndex'', ''CreateGeneratorClosure'',
     ''CreateGeneratorClosureLongIndex'', ''CreateAsyncClosure'', ''CreateAsyncClosureLongIndex'',
     ''CreateThis'', ''SelectObject'', ''LoadParam'', ''LoadParamLong'', ''LoadConstUInt8'',
     ''LoadConstInt'', ''LoadConstDouble'', ''LoadConstString'', ''LoadConstStringLongIndex'',
     ''LoadConstEmpty'', ''LoadConstUndefined'', ''LoadConstNull'', ''LoadConstTrue'',
     ''LoadConstFalse'', ''LoadConstZero'', ''CoerceThisNS'', ''LoadThisNS'', ''ToNumber'',
     ''ToInt32'', ''AddEmptyString'', ''GetArgumentsPropByVal'', ''GetArgumentsLength'',
     ''ReifyArguments'', ''CreateRegExp'', ''SwitchImm'', ''StartGenerator'', ''ResumeGenerator'',
     ''CompleteGenerator'', ''CreateGenerator'', ''CreateGeneratorLongIndex'', ''IteratorBegin'',
     ''IteratorNext'', ''IteratorClose'', ''Jmp'', ''JmpLong'', ''JmpTrue'', ''JmpTrueLong'',
     ''JmpFalse'', ''JmpFalseLong'', ''JmpUndefined'', ''JmpUndefinedLong'', ''SaveGenerator'',
     ''SaveGeneratorLong'', ''JLess'', ''JLessLong'', ''JNotLess'', ''JNotLessLong'', ''JLessN'',
     ''JLessNLong'', ''JNotLessN'', ''JNotLessNLong'', ''JLessEqual'', ''JLessEqualLong'',
     ''JNotLessEqual'', ''JNotLessEqualLong'', ''JLessEqualN'', ''JLessEqualNLong'',
     ''JNotLessEqualN'', ''JNotLessEqualNLong'', ''JGreater'', ''JGreaterLong'', ''JNotGreater'',
     ''JNotGreaterLong'', ''JGreaterN'', ''JGreaterNLong'', ''JNotGreaterN'',
     ''JNotGreaterNLong'', ''JGreaterEqual'', ''JGreaterEqualLong'', ''JNotGreaterEqual'',
     ''JNotGreaterEqualLong'', ''JGreaterEqualN'', ''JGreaterEqualNLong'', ''JNotGreaterEqualN'',
     ''JNotGreaterEqualNLong'', ''JEqual'', ''JEqualLong'', ''JNotEqual'', ''JNotEqualLong'',
     ''JStrictEqual'', ''JStrictEqualLong'', ''JStrictNotEqual'', ''JStrictNotEqualLong'']"

definition V81_SCHEMAS :: "(string \<times> OpType list) list" where
  "V81_SCHEMAS =
    [(''NewObjectWithBuffer'', [OT_R, OT_U2, OT_U2, OT_U2, OT_U2]),
     (''NewObjectWithBufferLong'', [OT_R, OT_U2, OT_U2, OT_U4, OT_U4]), (''NewObject'', [OT_R]),
     (''NewObjectWithParent'', [OT_R, OT_R]),
     (''NewArrayWithBuffer'', [OT_R, OT_U2, OT_U2, OT_U2]),
     (''NewArrayWithBufferLong'', [OT_R, OT_U2, OT_U2, OT_U4]), (''NewArray'', [OT_R, OT_U2]),
     (''Mov'', [OT_R, OT_R]), (''MovLong'', [OT_R4, OT_R4]), (''Negate'', [OT_R, OT_R]),
     (''Not'', [OT_R, OT_R]), (''BitNot'', [OT_R, OT_R]), (''TypeOf'', [OT_R, OT_R]),
     (''Eq'', [OT_R, OT_R, OT_R]), (''StrictEq'', [OT_R, OT_R, OT_R]),
     (''Neq'', [OT_R, OT_R, OT_R]), (''StrictNeq'', [OT_R, OT_R, OT_R]),
     (''Less'', [OT_R, OT_R, OT_R]), (''LessEq'', [OT_R, OT_R, OT_R]),
     (''Greater'', [OT_R, OT_R, OT_R]), (''GreaterEq'', [OT_R, OT_R, OT_R]),
     (''Add'', [OT_R, OT_R, OT_R]), (''AddN'', [OT_R, OT_R, OT_R]), (''Mul'', [OT_R, OT_R, OT_R]),
     (''MulN'', [OT_R, OT_R, OT_R]), (''Div'', [OT_R, OT_R, OT_R]),
     (''DivN'', [OT_R, OT_R, OT_R]), (''Mod'', [OT_R, OT_R, OT_R]), (''Sub'', [OT_R, OT_R, OT_R]),
     (''SubN'', [OT_R, OT_R, OT_R]), (''LShift'', [OT_R, OT_R, OT_R]),
     (''RShift'', [OT_R, OT_R, OT_R]), (''URshift'', [OT_R, OT_R, OT_R]),
     (''BitAnd'', [OT_R, OT_R, OT_R]), (''BitXor'', [OT_R, OT_R, OT_R]),
     (''BitOr'', [OT_R, OT_R, OT_R]), (''InstanceOf'', [OT_R, OT_R, OT_R]),
     (''IsIn'', [OT_R, OT_R, OT_R]), (''GetEnvironment'', [OT_R, OT_U1]),
     (''StoreToEnvironment'', [OT_R, OT_U1, OT_R]),
     (''StoreToEnvironmentL'', [OT_R, OT_U2, OT_R]),
     (''StoreNPToEnvironment'', [OT_R, OT_U1, OT_R]),
     (''StoreNPToEnvironmentL'', [OT_R, OT_U2, OT_R]),
     (''LoadFromEnvironment'', [OT_R, OT_R, OT_U1]),
     (''LoadFromEnvironmentL'', [OT_R, OT_R, OT_U2]), (''GetGlobalObject'', [OT_R]),
     (''GetNewTarget'', [OT_R]), (''CreateEnvironment'', [OT_R]), (''DeclareGlobalVar'', [OT_U4]),
     (''GetByIdShort'', [OT_R, OT_R, OT_U1, OT_U1]), (''GetById'', [OT_R, OT_R, OT_U1, OT_U2]),
     (''GetByIdLong'', [OT_R, OT_R, OT_U1, OT_U4]), (''TryGetById'', [OT_R, OT_R, OT_U1, OT_U2]),
     (''TryGetByIdLong'', [OT_R, OT_R, OT_U1, OT_U4]), (''PutById'', [OT_R, OT_R, OT_U1, OT_U2]),
     (''PutByIdLong'', [OT_R, OT_R, OT_U1, OT_U4]), (''TryPutById'', [OT_R, OT_R, OT_U1, OT_U2]),
     (''TryPutByIdLong'', [OT_R, OT_R, OT_U1, OT_U4]),
     (''PutNewOwnByIdShort'', [OT_R, OT_R, OT_U1]), (''PutNewOwnById'', [OT_R, OT_R, OT_U2]),
     (''PutNewOwnByIdLong'', [OT_R, OT_R, OT_U4]), (''PutNewOwnNEById'', [OT_R, OT_R, OT_U2]),
     (''PutNewOwnNEByIdLong'', [OT_R, OT_R, OT_U4]), (''PutOwnByIndex'', [OT_R, OT_R, OT_U1]),
     (''PutOwnByIndexL'', [OT_R, OT_R, OT_U4]), (''PutOwnByVal'', [OT_R, OT_R, OT_R, OT_U1]),
     (''DelById'', [OT_R, OT_R, OT_U2]), (''DelByIdLong'', [OT_R, OT_R, OT_U4]),
     (''GetByVal'', [OT_R, OT_R, OT_R]), (''PutByVal'', [OT_R, OT_R, OT_R]),
     (''DelByVal'', [OT_R, OT_R, OT_R]),
     (''PutOwnGetterSetterByVal'', [OT_R, OT_R, OT_R, OT_R, OT_U1]),
     (''GetPNameList'', [OT_R, OT_R, OT_R, OT_R]),
     (''GetNextPName'', [OT_R, OT_R, OT_R, OT_R, OT_R]), (''Call'', [OT_R, OT_R, OT_U1]),
     (''Construct'', [OT_R, OT_R, OT_U1]), (''Call1'', [OT_R, OT_R, OT_R]),
     (''CallDirect'', [OT_R, OT_U1, OT_U2]), (''Call2'', [OT_R, OT_R, OT_R, OT_R]),
     (''Call3'', [OT_R, OT_R, OT_R, OT_R, OT_R]),
     (''Call4'', [OT_R, OT_R, OT_R, OT_R, OT_R, OT_R]), (''CallLong'', [OT_R, OT_R, OT_U4]),
     (''ConstructLong'', [OT_R, OT_R, OT_U4]), (''CallDirectLongIndex'', [OT_R, OT_U1, OT_U4]),
     (''CallBuiltin'', [OT_R, OT_U1, OT_U1]), (''CallBuiltinLong'', [OT_R, OT_U1, OT_U4]),
     (''GetBuiltinClosure'', [OT_R, OT_U1]), (''Ret'', [OT_R]), (''Catch'', [OT_R]),
     (''DirectEval'', [OT_R, OT_R]), (''Throw'', [OT_R]), (''ThrowIfEmpty'', [OT_R, OT_R]),
     (''Debugger'', []), (''AsyncBreakCheck'', []), (''ProfilePoint'', [OT_U2]),
     (''Unreachable'', []), (''CreateClosure'', [OT_R, OT_R, OT_U2]),
     (''CreateClosureLongIndex'', [OT_R, OT_R, OT_U4]),
     (''CreateGeneratorClosure'', [OT_R, OT_R, OT_U2]),
     (''CreateGeneratorClosureLongIndex'', [OT_R, OT_R, OT_U4]),
     (''CreateAsyncClosure'', [OT_R, OT_R, OT_U2]),
     (''CreateAsyncClosureLongIndex'', [OT_R, OT_R, OT_U4]), (''CreateThis'', [OT_R, OT_R, OT_R]),
     (''SelectObject'', [OT_R, OT_R, OT_R]), (''LoadParam'', [OT_R, OT_U1]),
     (''LoadParamLong'', [OT_R, OT_U4]), (''LoadConstUInt8'', [OT_R, OT_U1]),
     (''LoadConstInt'', [OT_R, OT_I4]), (''LoadConstDouble'', [OT_R, OT_D]),
     (''LoadConstString'', [OT_R, OT_U2]), (''LoadConstStringLongIndex'', [OT_R, OT_U4]),
     (''LoadConstEmpty'', [OT_R]), (''LoadConstUndefined'', [OT_R]), (''LoadConstNull'', [OT_R]),
     (''LoadConstTrue'', [OT_R]), (''LoadConstFalse'', [OT_R]), (''LoadConstZero'', [OT_R]),
     (''CoerceThisNS'', [OT_R, OT_R]), (''LoadThisNS'', [OT_R]), (''ToNumber'', [OT_R, OT_R]),
     (''ToInt32'', [OT_R, OT_R]), (''AddEmptyString'', [OT_R, OT_R]),
     (''GetArgumentsPropByVal'', [OT_R, OT_R, OT_R]), (''GetArgumentsLength'', [OT_R, OT_R]),
     (''ReifyArguments'', [OT_R]), (''CreateRegExp'', [OT_R, OT_U4, OT_U4, OT_U4]),
     (''SwitchImm'', [OT_R, OT_U4, OT_A4, OT_U4, OT_U4]), (''StartGenerator'', []),
     (''ResumeGenerator'', [OT_R, OT_R]), (''CompleteGenerator'', []),
     (''CreateGenerator'', [OT_R, OT_R, OT_U2]),
     (''CreateGeneratorLongIndex'', [OT_R, OT_R, OT_U4]), (''IteratorBegin'', [OT_R, OT_R]),
     (''IteratorNext'', [OT_R, OT_R, OT_R]), (''IteratorClose'', [OT_R, OT_U1]),
     (''Jmp'', [OT_A1]), (''JmpLong'', [OT_A4]), (''JmpTrue'', [OT_A1, OT_R]),
     (''JmpTrueLong'', [OT_A4, OT_R]), (''JmpFalse'', [OT_A1, OT_R]),
     (''JmpFalseLong'', [OT_A4, OT_R]), (''JmpUndefined'', [OT_A1, OT_R]),
     (''JmpUndefinedLong'', [OT_A4, OT_R]), (''SaveGenerator'', [OT_A1]),
     (''SaveGeneratorLong'', [OT_A4]), (''JLess'', [OT_A1, OT_R, OT_R]),
     (''JLessLong'', [OT_A4, OT_R, OT_R]), (''JNotLess'', [OT_A1, OT_R, OT_R]),
     (''JNotLessLong'', [OT_A4, OT_R, OT_R]), (''JLessN'', [OT_A1, OT_R, OT_R]),
     (''JLessNLong'', [OT_A4, OT_R, OT_R]), (''JNotLessN'', [OT_A1, OT_R, OT_R]),
     (''JNotLessNLong'', [OT_A4, OT_R, OT_R]), (''JLessEqual'', [OT_A1, OT_R, OT_R]),
     (''JLessEqualLong'', [OT_A4, OT_R, OT_R]), (''JNotLessEqual'', [OT_A1, OT_R, OT_R]),
     (''JNotLessEqualLong'', [OT_A4, OT_R, OT_R]), (''JLessEqualN'', [OT_A1, OT_R, OT_R]),
     (''JLessEqualNLong'', [OT_A4, OT_R, OT_R]), (''JNotLessEqualN'', [OT_A1, OT_R, OT_R]),
     (''JNotLessEqualNLong'', [OT_A4, OT_R, OT_R]), (''JGreater'', [OT_A1, OT_R, OT_R]),
     (''JGreaterLong'', [OT_A4, OT_R, OT_R]), (''JNotGreater'', [OT_A1, OT_R, OT_R]),
     (''JNotGreaterLong'', [OT_A4, OT_R, OT_R]), (''JGreaterN'', [OT_A1, OT_R, OT_R]),
     (''JGreaterNLong'', [OT_A4, OT_R, OT_R]), (''JNotGreaterN'', [OT_A1, OT_R, OT_R]),
     (''JNotGreaterNLong'', [OT_A4, OT_R, OT_R]), (''JGreaterEqual'', [OT_A1, OT_R, OT_R]),
     (''JGreaterEqualLong'', [OT_A4, OT_R, OT_R]), (''JNotGreaterEqual'', [OT_A1, OT_R, OT_R]),
     (''JNotGreaterEqualLong'', [OT_A4, OT_R, OT_R]), (''JGreaterEqualN'', [OT_A1, OT_R, OT_R]),
     (''JGreaterEqualNLong'', [OT_A4, OT_R, OT_R]), (''JNotGreaterEqualN'', [OT_A1, OT_R, OT_R]),
     (''JNotGreaterEqualNLong'', [OT_A4, OT_R, OT_R]), (''JEqual'', [OT_A1, OT_R, OT_R]),
     (''JEqualLong'', [OT_A4, OT_R, OT_R]), (''JNotEqual'', [OT_A1, OT_R, OT_R]),
     (''JNotEqualLong'', [OT_A4, OT_R, OT_R]), (''JStrictEqual'', [OT_A1, OT_R, OT_R]),
     (''JStrictEqualLong'', [OT_A4, OT_R, OT_R]), (''JStrictNotEqual'', [OT_A1, OT_R, OT_R]),
     (''JStrictNotEqualLong'', [OT_A4, OT_R, OT_R])]"

definition V81_STRING_IDS :: "(u8 \<times> u8) list" where
  "V81_STRING_IDS =
    [(48, 0), (49, 3), (50, 3), (51, 3), (52, 3), (53, 3), (54, 3), (55, 3), (56, 3), (57, 3),
     (58, 2), (59, 2), (60, 2), (61, 2), (62, 2), (66, 2), (67, 2), (109, 1), (110, 1), (125, 2)]"

definition V81_FUNC_IDS :: "(u8 \<times> u8) list" where
  "V81_FUNC_IDS = []"

definition V81_TABLES :: version_tables where
  "V81_TABLES =
    \<lparr>vt_opcodes = V81_OPCODES, vt_sizes = V81_SIZES, vt_str_ops = V81_STR_OPS, vt_call_ops = V81_CALL_OPS,
     vt_names = V81_NAMES, vt_schemas = V81_SCHEMAS, vt_string_ids = V81_STRING_IDS, vt_func_ids = V81_FUNC_IDS\<rparr>"

lemmas V81_types = V81_SCHEMAS_def [THEN arg_cong [of _ _ "map snd"], unfolded list.map snd_conv]

lemma V81_names: "V81_NAMES = map OpCode_name V81_OPCODES" "map fst V81_SCHEMAS = V81_NAMES"
  by (simp_all only: V81_NAMES_def V81_OPCODES_def V81_SCHEMAS_def list.map opcode_name fst_conv)

lemma V81_agree: "tables_agree V81_TABLES"
  unfolding V81_TABLES_def
  by (rule tables_agreeI [OF _ _ V81_names V81_types])
    (simp_all add: opcodes_upt V81_OPCODES_def V81_SIZES_def V81_STR_OPS_def V81_STRING_IDS_def
      V81_CALL_OPS_def V81_FUNC_IDS_def table_checks)

subsection \<open>Version 83\<close>

definition V83_OPCODES :: "OpCode list" where
  "V83_OPCODES =
    [OP_Unreachable, OP_NewObjectWithBuffer, OP_NewObjectWithBufferLong, OP_NewObject,
     OP_NewObjectWithParent, OP_NewArrayWithBuffer, OP_NewArrayWithBufferLong, OP_NewArray,
     OP_Mov, OP_MovLong, OP_Negate, OP_Not, OP_BitNot, OP_TypeOf, OP_Eq, OP_StrictEq, OP_Neq,
     OP_StrictNeq, OP_Less, OP_LessEq, OP_Greater, OP_GreaterEq, OP_Add, OP_AddN, OP_Mul, OP_MulN,
     OP_Div, OP_DivN, OP_Mod, OP_Sub, OP_SubN, OP_LShift, OP_RShift, OP_URshift, OP_BitAnd,
     OP_BitXor, OP_BitOr, OP_InstanceOf, OP_IsIn, OP_GetEnvironment, OP_StoreToEnvironment,
     OP_StoreToEnvironmentL, OP_StoreNPToEnvironment, OP_StoreNPToEnvironmentL,
     OP_LoadFromEnvironment, OP_LoadFromEnvironmentL, OP_GetGlobalObject, OP_GetNewTarget,
     OP_CreateEnvironment, OP_DeclareGlobalVar, OP_GetByIdShort, OP_GetById, OP_GetByIdLong,
     OP_TryGetById, OP_TryGetByIdLong, OP_PutById, OP_PutByIdLong, OP_TryPutById,
     OP_TryPutByIdLong, OP_PutNewOwnByIdShort, OP_PutNewOwnById, OP_PutNewOwnByIdLong,
     OP_PutNewOwnNEById, OP_PutNewOwnNEByIdLong, OP_PutOwnByIndex, OP_PutOwnByIndexL,
     OP_PutOwnByVal, OP_DelById, OP_DelByIdLong, OP_GetByVal, OP_PutByVal, OP_DelByVal,
     OP_PutOwnGetterSetterByVal, OP_GetPNameList, OP_GetNextPName, OP_Call, OP_Construct,
     OP_Call1, OP_CallDirect, OP_Call2, OP_Call3, OP_Call4, OP_CallLong, OP_ConstructLong,
     OP_CallDirectLongIndex, OP_CallBuiltin, OP_CallBuiltinLong, OP_GetBuiltinClosure, OP_Ret,
     OP_Catch, OP_DirectEval, OP_Throw, OP_ThrowIfEmpty, OP_Debugger, OP_AsyncBreakCheck,
     OP_ProfilePoint, OP_CreateClosure, OP_CreateClosureLongIndex, OP_CreateGeneratorClosure,
     OP_CreateGeneratorClosureLongIndex, OP_CreateAsyncClosure, OP_CreateAsyncClosureLongIndex,
     OP_CreateThis, OP_SelectObject, OP_LoadParam, OP_LoadParamLong, OP_LoadConstUInt8,
     OP_LoadConstInt, OP_LoadConstDouble, OP_LoadConstString, OP_LoadConstStringLongIndex,
     OP_LoadConstEmpty, OP_LoadConstUndefined, OP_LoadConstNull, OP_LoadConstTrue,
     OP_LoadConstFalse, OP_LoadConstZero, OP_CoerceThisNS, OP_LoadThisNS, OP_ToNumber, OP_ToInt32,
     OP_AddEmptyString, OP_GetArgumentsPropByVal, OP_GetArgumentsLength, OP_ReifyArguments,
     OP_CreateRegExp, OP_SwitchImm, OP_StartGenerator, OP_ResumeGenerator, OP_CompleteGenerator,
     OP_CreateGenerator, OP_CreateGeneratorLongIndex, OP_IteratorBegin, OP_IteratorNext,
     OP_IteratorClose, OP_Jmp, OP_JmpLong, OP_JmpTrue, OP_JmpTrueLong, OP_JmpFalse,
     OP_JmpFalseLong, OP_JmpUndefined, OP_JmpUndefinedLong, OP_SaveGenerator,
     OP_SaveGeneratorLong, OP_JLess, OP_JLessLong, OP_JNotLess, OP_JNotLessLong, OP_JLessN,
     OP_JLessNLong, OP_JNotLessN, OP_JNotLessNLong, OP_JLessEqual, OP_JLessEqualLong,
     OP_JNotLessEqual, OP_JNotLessEqualLong, OP_JLessEqualN, OP_JLessEqualNLong,
     OP_JNotLessEqualN, OP_JNotLessEqualNLong, OP_JGreater, OP_JGreaterLong, OP_JNotGreater,
     OP_JNotGreaterLong, OP_JGreaterN, OP_JGreaterNLong, OP_JNotGreaterN, OP_JNotGreaterNLong,
     OP_JGreaterEqual, OP_JGreaterEqualLong, OP_JNotGreaterEqual, OP_JNotGreaterEqualLong,
     OP_JGreaterEqualN, OP_JGreaterEqualNLong, OP_JNotGreaterEqualN, OP_JNotGreaterEqualNLong,
     OP_JEqual, OP_JEqualLong, OP_JNotEqual, OP_JNotEqualLong, OP_JStrictEqual,
     OP_JStrictEqualLong, OP_JStrictNotEqual, OP_JStrictNotEqualLong]"

definition V83_SIZES :: "u8 list" where
  "V83_SIZES =
    [1, 10, 14, 2, 3, 8, 10, 4, 3, 9, 3, 3, 3, 3, 4, 4, 4, 4, 4, 4, 4, 4, 4, 4, 4, 4, 4, 4, 4, 4,
     4, 4, 4, 4, 4, 4, 4, 4, 4, 3, 4, 5, 4, 5, 4, 5, 2, 2, 2, 5, 5, 6, 8, 6, 8, 6, 8, 6, 8, 4, 5,
     7, 5, 7, 4, 7, 5, 5, 7, 4, 4, 4, 6, 5, 6, 4, 4, 4, 5, 5, 6, 7, 7, 7, 7, 4, 7, 3, 2, 2, 3, 2,
     3, 1, 1, 3, 5, 7, 5, 7, 5, 7, 4, 4, 3, 6, 3, 6, 10, 4, 6, 2, 2, 2, 2, 2, 2, 3, 2, 3, 3, 3, 4,
     3, 2, 14, 18, 1, 3, 1, 5, 7, 3, 4, 3, 2, 5, 3, 6, 3, 6, 3, 6, 2, 5, 4, 7, 4, 7, 4, 7, 4, 7,
     4, 7, 4, 7, 4, 7, 4, 7, 4, 7, 4, 7, 4, 7, 4, 7, 4, 7, 4, 7, 4, 7, 4, 7, 4, 7, 4, 7, 4, 7, 4,
     7]"

definition V83_STR_OPS :: "(u8 \<times> u8 \<times> u8) list" where
  "V83_STR_OPS =
    [(49, 1, 4), (50, 4, 1), (51, 4, 2), (52, 4, 4), (53, 4, 2), (54, 4, 4), (55, 4, 2),
     (56, 4, 4), (57, 4, 2), (58, 4, 4), (59, 3, 1), (60, 3, 2), (61, 3, 4), (62, 3, 2),
     (63, 3, 4), (67, 3, 2), (68, 3, 4), (109, 2, 2), (110, 2, 4), (125, 6, 4)]"

definition V83_CALL_OPS :: "(u8 \<times> u8 \<times> u8) list" where
  "V83_CALL_OPS =
    [(78, 3, 2), (84, 3, 4)]"

definition V83_NAMES :: "string list" where
  "V83_NAMES =
    [''Unreachable'', ''NewObjectWithBuffer'', ''NewObjectWithBufferLong'', ''NewObject'',
     ''NewObjectWithParent'', ''NewArrayWithBuffer'', ''NewArrayWithBufferLong'', ''NewArray'',
     ''Mov'', ''MovLong'', ''Negate'', ''Not'', ''BitNot'', ''TypeOf'', ''Eq'', ''StrictEq'',
     ''Neq'', ''StrictNeq'', ''Less'', ''LessEq'', ''Greater'', ''GreaterEq'', ''Add'', ''AddN'',
     ''Mul'', ''MulN'', ''Div'', ''DivN'', ''Mod'', ''Sub'', ''SubN'', ''LShift'', ''RShift'',
     ''URshift'', ''BitAnd'', ''BitXor'', ''BitOr'', ''InstanceOf'', ''IsIn'', ''GetEnvironment'',
     ''StoreToEnvironment'', ''StoreToEnvironmentL'', ''StoreNPToEnvironment'',
     ''StoreNPToEnvironmentL'', ''LoadFromEnvironment'', ''LoadFromEnvironmentL'',
     ''GetGlobalObject'', ''GetNewTarget'', ''CreateEnvironment'', ''DeclareGlobalVar'',
     ''GetByIdShort'', ''GetById'', ''GetByIdLong'', ''TryGetById'', ''TryGetByIdLong'',
     ''PutById'', ''PutByIdLong'', ''TryPutById'', ''TryPutByIdLong'', ''PutNewOwnByIdShort'',
     ''PutNewOwnById'', ''PutNewOwnByIdLong'', ''PutNewOwnNEById'', ''PutNewOwnNEByIdLong'',
     ''PutOwnByIndex'', ''PutOwnByIndexL'', ''PutOwnByVal'', ''DelById'', ''DelByIdLong'',
     ''GetByVal'', ''PutByVal'', ''DelByVal'', ''PutOwnGetterSetterByVal'', ''GetPNameList'',
     ''GetNextPName'', ''Call'', ''Construct'', ''Call1'', ''CallDirect'', ''Call2'', ''Call3'',
     ''Call4'', ''CallLong'', ''ConstructLong'', ''CallDirectLongIndex'', ''CallBuiltin'',
     ''CallBuiltinLong'', ''GetBuiltinClosure'', ''Ret'', ''Catch'', ''DirectEval'', ''Throw'',
     ''ThrowIfEmpty'', ''Debugger'', ''AsyncBreakCheck'', ''ProfilePoint'', ''CreateClosure'',
     ''CreateClosureLongIndex'', ''CreateGeneratorClosure'', ''CreateGeneratorClosureLongIndex'',
     ''CreateAsyncClosure'', ''CreateAsyncClosureLongIndex'', ''CreateThis'', ''SelectObject'',
     ''LoadParam'', ''LoadParamLong'', ''LoadConstUInt8'', ''LoadConstInt'', ''LoadConstDouble'',
     ''LoadConstString'', ''LoadConstStringLongIndex'', ''LoadConstEmpty'',
     ''LoadConstUndefined'', ''LoadConstNull'', ''LoadConstTrue'', ''LoadConstFalse'',
     ''LoadConstZero'', ''CoerceThisNS'', ''LoadThisNS'', ''ToNumber'', ''ToInt32'',
     ''AddEmptyString'', ''GetArgumentsPropByVal'', ''GetArgumentsLength'', ''ReifyArguments'',
     ''CreateRegExp'', ''SwitchImm'', ''StartGenerator'', ''ResumeGenerator'',
     ''CompleteGenerator'', ''CreateGenerator'', ''CreateGeneratorLongIndex'', ''IteratorBegin'',
     ''IteratorNext'', ''IteratorClose'', ''Jmp'', ''JmpLong'', ''JmpTrue'', ''JmpTrueLong'',
     ''JmpFalse'', ''JmpFalseLong'', ''JmpUndefined'', ''JmpUndefinedLong'', ''SaveGenerator'',
     ''SaveGeneratorLong'', ''JLess'', ''JLessLong'', ''JNotLess'', ''JNotLessLong'', ''JLessN'',
     ''JLessNLong'', ''JNotLessN'', ''JNotLessNLong'', ''JLessEqual'', ''JLessEqualLong'',
     ''JNotLessEqual'', ''JNotLessEqualLong'', ''JLessEqualN'', ''JLessEqualNLong'',
     ''JNotLessEqualN'', ''JNotLessEqualNLong'', ''JGreater'', ''JGreaterLong'', ''JNotGreater'',
     ''JNotGreaterLong'', ''JGreaterN'', ''JGreaterNLong'', ''JNotGreaterN'',
     ''JNotGreaterNLong'', ''JGreaterEqual'', ''JGreaterEqualLong'', ''JNotGreaterEqual'',
     ''JNotGreaterEqualLong'', ''JGreaterEqualN'', ''JGreaterEqualNLong'', ''JNotGreaterEqualN'',
     ''JNotGreaterEqualNLong'', ''JEqual'', ''JEqualLong'', ''JNotEqual'', ''JNotEqualLong'',
     ''JStrictEqual'', ''JStrictEqualLong'', ''JStrictNotEqual'', ''JStrictNotEqualLong'']"

definition V83_SCHEMAS :: "(string \<times> OpType list) list" where
  "V83_SCHEMAS =
    [(''Unreachable'', []), (''NewObjectWithBuffer'', [OT_R, OT_U2, OT_U2, OT_U2, OT_U2]),
     (''NewObjectWithBufferLong'', [OT_R, OT_U2, OT_U2, OT_U4, OT_U4]), (''NewObject'', [OT_R]),
     (''NewObjectWithParent'', [OT_R, OT_R]),
     (''NewArrayWithBuffer'', [OT_R, OT_U2, OT_U2, OT_U2]),
     (''NewArrayWithBufferLong'', [OT_R, OT_U2, OT_U2, OT_U4]), (''NewArray'', [OT_R, OT_U2]),
     (''Mov'', [OT_R, OT_R]), (''MovLong'', [OT_R4, OT_R4]), (''Negate'', [OT_R, OT_R]),
     (''Not'', [OT_R, OT_R]), (''BitNot'', [OT_R, OT_R]), (''TypeOf'', [OT_R, OT_R]),
     (''Eq'', [OT_R, OT_R, OT_R]), (''StrictEq'', [OT_R, OT_R, OT_R]),
     (''Neq'', [OT_R, OT_R, OT_R]), (''StrictNeq'', [OT_R, OT_R, OT_R]),
     (''Less'', [OT_R, OT_R, OT_R]), (''LessEq'', [OT_R, OT_R, OT_R]),
     (''Greater'', [OT_R, OT_R, OT_R]), (''GreaterEq'', [OT_R, OT_R, OT_R]),
     (''Add'', [OT_R, OT_R, OT_R]), (''AddN'', [OT_R, OT_R, OT_R]), (''Mul'', [OT_R, OT_R, OT_R]),
     (''MulN'', [OT_R, OT_R, OT_R]), (''Div'', [OT_R, OT_R, OT_R]),
     (''DivN'', [OT_R, OT_R, OT_R]), (''Mod'', [OT_R, OT_R, OT_R]), (''Sub'', [OT_R, OT_R, OT_R]),
     (''SubN'', [OT_R, OT_R, OT_R]), (''LShift'', [OT_R, OT_R, OT_R]),
     (''RShift'', [OT_R, OT_R, OT_R]), (''URshift'', [OT_R, OT_R, OT_R]),
     (''BitAnd'', [OT_R, OT_R, OT_R]), (''BitXor'', [OT_R, OT_R, OT_R]),
     (''BitOr'', [OT_R, OT_R, OT_R]), (''InstanceOf'', [OT_R, OT_R, OT_R]),
     (''IsIn'', [OT_R, OT_R, OT_R]), (''GetEnvironment'', [OT_R, OT_U1]),
     (''StoreToEnvironment'', [OT_R, OT_U1, OT_R]),
     (''StoreToEnvironmentL'', [OT_R, OT_U2, OT_R]),
     (''StoreNPToEnvironment'', [OT_R, OT_U1, OT_R]),
     (''StoreNPToEnvironmentL'', [OT_R, OT_U2, OT_R]),
     (''LoadFromEnvironment'', [OT_R, OT_R, OT_U1]),
     (''LoadFromEnvironmentL'', [OT_R, OT_R, OT_U2]), (''GetGlobalObject'', [OT_R]),
     (''GetNewTarget'', [OT_R]), (''CreateEnvironment'', [OT_R]), (''DeclareGlobalVar'', [OT_U4]),
     (''GetByIdShort'', [OT_R, OT_R, OT_U1, OT_U1]), (''GetById'', [OT_R, OT_R, OT_U1, OT_U2]),
     (''GetByIdLong'', [OT_R, OT_R, OT_U1, OT_U4]), (''TryGetById'', [OT_R, OT_R, OT_U1, OT_U2]),
     (''TryGetByIdLong'', [OT_R, OT_R, OT_U1, OT_U4]), (''PutById'', [OT_R, OT_R, OT_U1, OT_U2]),
     (''PutByIdLong'', [OT_R, OT_R, OT_U1, OT_U4]), (''TryPutById'', [OT_R, OT_R, OT_U1, OT_U2]),
     (''TryPutByIdLong'', [OT_R, OT_R, OT_U1, OT_U4]),
     (''PutNewOwnByIdShort'', [OT_R, OT_R, OT_U1]), (''PutNewOwnById'', [OT_R, OT_R, OT_U2]),
     (''PutNewOwnByIdLong'', [OT_R, OT_R, OT_U4]), (''PutNewOwnNEById'', [OT_R, OT_R, OT_U2]),
     (''PutNewOwnNEByIdLong'', [OT_R, OT_R, OT_U4]), (''PutOwnByIndex'', [OT_R, OT_R, OT_U1]),
     (''PutOwnByIndexL'', [OT_R, OT_R, OT_U4]), (''PutOwnByVal'', [OT_R, OT_R, OT_R, OT_U1]),
     (''DelById'', [OT_R, OT_R, OT_U2]), (''DelByIdLong'', [OT_R, OT_R, OT_U4]),
     (''GetByVal'', [OT_R, OT_R, OT_R]), (''PutByVal'', [OT_R, OT_R, OT_R]),
     (''DelByVal'', [OT_R, OT_R, OT_R]),
     (''PutOwnGetterSetterByVal'', [OT_R, OT_R, OT_R, OT_R, OT_U1]),
     (''GetPNameList'', [OT_R, OT_R, OT_R, OT_R]),
     (''GetNextPName'', [OT_R, OT_R, OT_R, OT_R, OT_R]), (''Call'', [OT_R, OT_R, OT_U1]),
     (''Construct'', [OT_R, OT_R, OT_U1]), (''Call1'', [OT_R, OT_R, OT_R]),
     (''CallDirect'', [OT_R, OT_U1, OT_U2]), (''Call2'', [OT_R, OT_R, OT_R, OT_R]),
     (''Call3'', [OT_R, OT_R, OT_R, OT_R, OT_R]),
     (''Call4'', [OT_R, OT_R, OT_R, OT_R, OT_R, OT_R]), (''CallLong'', [OT_R, OT_R, OT_U4]),
     (''ConstructLong'', [OT_R, OT_R, OT_U4]), (''CallDirectLongIndex'', [OT_R, OT_U1, OT_U4]),
     (''CallBuiltin'', [OT_R, OT_U1, OT_U1]), (''CallBuiltinLong'', [OT_R, OT_U1, OT_U4]),
     (''GetBuiltinClosure'', [OT_R, OT_U1]), (''Ret'', [OT_R]), (''Catch'', [OT_R]),
     (''DirectEval'', [OT_R, OT_R]), (''Throw'', [OT_R]), (''ThrowIfEmpty'', [OT_R, OT_R]),
     (''Debugger'', []), (''AsyncBreakCheck'', []), (''ProfilePoint'', [OT_U2]),
     (''CreateClosure'', [OT_R, OT_R, OT_U2]), (''CreateClosureLongIndex'', [OT_R, OT_R, OT_U4]),
     (''CreateGeneratorClosure'', [OT_R, OT_R, OT_U2]),
     (''CreateGeneratorClosureLongIndex'', [OT_R, OT_R, OT_U4]),
     (''CreateAsyncClosure'', [OT_R, OT_R, OT_U2]),
     (''CreateAsyncClosureLongIndex'', [OT_R, OT_R, OT_U4]), (''CreateThis'', [OT_R, OT_R, OT_R]),
     (''SelectObject'', [OT_R, OT_R, OT_R]), (''LoadParam'', [OT_R, OT_U1]),
     (''LoadParamLong'', [OT_R, OT_U4]), (''LoadConstUInt8'', [OT_R, OT_U1]),
     (''LoadConstInt'', [OT_R, OT_I4]), (''LoadConstDouble'', [OT_R, OT_D]),
     (''LoadConstString'', [OT_R, OT_U2]), (''LoadConstStringLongIndex'', [OT_R, OT_U4]),
     (''LoadConstEmpty'', [OT_R]), (''LoadConstUndefined'', [OT_R]), (''LoadConstNull'', [OT_R]),
     (''LoadConstTrue'', [OT_R]), (''LoadConstFalse'', [OT_R]), (''LoadConstZero'', [OT_R]),
     (''CoerceThisNS'', [OT_R, OT_R]), (''LoadThisNS'', [OT_R]), (''ToNumber'', [OT_R, OT_R]),
     (''ToInt32'', [OT_R, OT_R]), (''AddEmptyString'', [OT_R, OT_R]),
     (''GetArgumentsPropByVal'', [OT_R, OT_R, OT_R]), (''GetArgumentsLength'', [OT_R, OT_R]),
     (''ReifyArguments'', [OT_R]), (''CreateRegExp'', [OT_R, OT_U4, OT_U4, OT_U4]),
     (''SwitchImm'', [OT_R, OT_U4, OT_A4, OT_U4, OT_U4]), (''StartGenerator'', []),
     (''ResumeGenerator'', [OT_R, OT_R]), (''CompleteGenerator'', []),
     (''CreateGenerator'', [OT_R, OT_R, OT_U2]),
     (''CreateGeneratorLongIndex'', [OT_R, OT_R, OT_U4]), (''IteratorBegin'', [OT_R, OT_R]),
     (''IteratorNext'', [OT_R, OT_R, OT_R]), (''IteratorClose'', [OT_R, OT_U1]),
     (''Jmp'', [OT_A1]), (''JmpLong'', [OT_A4]), (''JmpTrue'', [OT_A1, OT_R]),
     (''JmpTrueLong'', [OT_A4, OT_R]), (''JmpFalse'', [OT_A1, OT_R]),
     (''JmpFalseLong'', [OT_A4, OT_R]), (''JmpUndefined'', [OT_A1, OT_R]),
     (''JmpUndefinedLong'', [OT_A4, OT_R]), (''SaveGenerator'', [OT_A1]),
     (''SaveGeneratorLong'', [OT_A4]), (''JLess'', [OT_A1, OT_R, OT_R]),
     (''JLessLong'', [OT_A4, OT_R, OT_R]), (''JNotLess'', [OT_A1, OT_R, OT_R]),
     (''JNotLessLong'', [OT_A4, OT_R, OT_R]), (''JLessN'', [OT_A1, OT_R, OT_R]),
     (''JLessNLong'', [OT_A4, OT_R, OT_R]), (''JNotLessN'', [OT_A1, OT_R, OT_R]),
     (''JNotLessNLong'', [OT_A4, OT_R, OT_R]), (''JLessEqual'', [OT_A1, OT_R, OT_R]),
     (''JLessEqualLong'', [OT_A4, OT_R, OT_R]), (''JNotLessEqual'', [OT_A1, OT_R, OT_R]),
     (''JNotLessEqualLong'', [OT_A4, OT_R, OT_R]), (''JLessEqualN'', [OT_A1, OT_R, OT_R]),
     (''JLessEqualNLong'', [OT_A4, OT_R, OT_R]), (''JNotLessEqualN'', [OT_A1, OT_R, OT_R]),
     (''JNotLessEqualNLong'', [OT_A4, OT_R, OT_R]), (''JGreater'', [OT_A1, OT_R, OT_R]),
     (''JGreaterLong'', [OT_A4, OT_R, OT_R]), (''JNotGreater'', [OT_A1, OT_R, OT_R]),
     (''JNotGreaterLong'', [OT_A4, OT_R, OT_R]), (''JGreaterN'', [OT_A1, OT_R, OT_R]),
     (''JGreaterNLong'', [OT_A4, OT_R, OT_R]), (''JNotGreaterN'', [OT_A1, OT_R, OT_R]),
     (''JNotGreaterNLong'', [OT_A4, OT_R, OT_R]), (''JGreaterEqual'', [OT_A1, OT_R, OT_R]),
     (''JGreaterEqualLong'', [OT_A4, OT_R, OT_R]), (''JNotGreaterEqual'', [OT_A1, OT_R, OT_R]),
     (''JNotGreaterEqualLong'', [OT_A4, OT_R, OT_R]), (''JGreaterEqualN'', [OT_A1, OT_R, OT_R]),
     (''JGreaterEqualNLong'', [OT_A4, OT_R, OT_R]), (''JNotGreaterEqualN'', [OT_A1, OT_R, OT_R]),
     (''JNotGreaterEqualNLong'', [OT_A4, OT_R, OT_R]), (''JEqual'', [OT_A1, OT_R, OT_R]),
     (''JEqualLong'', [OT_A4, OT_R, OT_R]), (''JNotEqual'', [OT_A1, OT_R, OT_R]),
     (''JNotEqualLong'', [OT_A4, OT_R, OT_R]), (''JStrictEqual'', [OT_A1, OT_R, OT_R]),
     (''JStrictEqualLong'', [OT_A4, OT_R, OT_R]), (''JStrictNotEqual'', [OT_A1, OT_R, OT_R]),
     (''JStrictNotEqualLong'', [OT_A4, OT_R, OT_R])]"

definition V83_STRING_IDS :: "(u8 \<times> u8) list" where
  "V83_STRING_IDS =
    [(49, 0), (50, 3), (51, 3), (52, 3), (53, 3), (54, 3), (55, 3), (56, 3), (57, 3), (58, 3),
     (59, 2), (60, 2), (61, 2), (62, 2), (63, 2), (67, 2), (68, 2), (109, 1), (110, 1), (125, 2)]"

definition V83_FUNC_IDS :: "(u8 \<times> u8) list" where
  "V83_FUNC_IDS = []"

definition V83_TABLES :: version_tables where
  "V83_TABLES =
    \<lparr>vt_opcodes = V83_OPCODES, vt_sizes = V83_SIZES, vt_str_ops = V83_STR_OPS, vt_call_ops = V83_CALL_OPS,
     vt_names = V83_NAMES, vt_schemas = V83_SCHEMAS, vt_string_ids = V83_STRING_IDS, vt_func_ids = V83_FUNC_IDS\<rparr>"

lemmas V83_types = V83_SCHEMAS_def [THEN arg_cong [of _ _ "map snd"], unfolded list.map snd_conv]

lemma V83_names: "V83_NAMES = map OpCode_name V83_OPCODES" "map fst V83_SCHEMAS = V83_NAMES"
  by (simp_all only: V83_NAMES_def V83_OPCODES_def V83_SCHEMAS_def list.map opcode_name fst_conv)

lemma V83_agree: "tables_agree V83_TABLES"
  unfolding V83_TABLES_def
  by (rule tables_agreeI [OF _ _ V83_names V83_types])
    (simp_all add: opcodes_upt V83_OPCODES_def V83_SIZES_def V83_STR_OPS_def V83_STRING_IDS_def
      V83_CALL_OPS_def V83_FUNC_IDS_def table_checks)

end
