(* ===== verification/Hermes_Tables_C.thy ===== *)
theory Hermes_Tables_C
  imports Hermes_Opcodes
begin

text \<open>
  The tables of \<open>opcodes.rs\<close> and \<open>decompile/schemas.rs\<close> for the bytecode versions 84 to 94, and the
  proof that those of each version agree.
\<close>

subsection \<open>Version 84\<close>

definition V84_OPCODES :: "OpCode list" where
  "V84_OPCODES =
    [OP_Unreachable, OP_NewObjectWithBuffer, OP_NewObjectWithBufferLong, OP_NewObject,
     OP_NewObjectWithParent, OP_NewArrayWithBuffer, OP_NewArrayWithBufferLong, OP_NewArray,
     OP_Mov, OP_MovLong, OP_Negate, OP_Not, OP_BitNot, OP_TypeOf, OP_Eq, OP_StrictEq, OP_Neq,
     OP_StrictNeq, OP_Less, OP_LessEq, OP_Greater, OP_GreaterEq, OP_Add, OP_AddN, OP_Mul, OP_MulN,
     OP_Div, OP_DivN, OP_Mod, OP_Sub, OP_SubN, OP_LShift, OP_RShift, OP_URshift, OP_BitAnd,
     OP_BitXor, OP_BitOr, OP_InstanceOf, OP_IsIn, OP_GetEnvironment, OP_StoreToEnvironment,
     OP_StoreToEnvironmentL, OP_StoreNPToEnvironment, OP_StoreNPToEnvironmentL,
     OP_LoadFromEnvironment, OP_LoadFromEnvironmentL, OP_GetGlobalObject, OP_GetNewTarget,
     OP_CreateEnvironment, OP_DeclareGlobalVar, OP_GetByIdShort, OP_GetById, OP_GetByIdLong,
     OP_TryGetById, OP_TryGetByIdLong, OP_PutById, OP_PutByIdLong, OP_TryPutById,
     OP_TryPutByIdLong, OP_PutNewOwnByIdShort, OP_PutNewOwnById, OP_PutNewOwnByIdLong,
     OP_PutNewOwnNEById, OP_PutNewOwnNEByIdLong, OP_PutOwnByIndex, OP_PutOwnByIndexL,
     OP_PutOwnByVal, OP_DelById, OP_DelByIdLong, OP_GetByVal, OP_PutByVal, OP_DelByVal,
     OP_PutOwnGetterSetterByVal, OP_GetPNameList, OP_GetNextPName, OP_Call, OP_Construct,
     OP_Call1, OP_CallDirect, OP_Call2, OP_Call3, OP_Call4, OP_CallLong, OP_ConstructLong,
     OP_CallDirectLongIndex, OP_CallBuiltin, OP_CallBuiltinLong, OP_GetBuiltinClosure, OP_Ret,
     OP_Catch, OP_DirectEval, OP_Throw, OP_ThrowIfEmpty, OP_Debugger, OP_AsyncBreakCheck,
     OP_ProfilePoint, OP_CreateClosure, OP_CreateClosureLongIndex, OP_CreateGeneratorClosure,
     OP_CreateGeneratorClosureLongIndex, OP_CreateAsyncClosure, OP_CreateAsyncClosureLongIndex,
     OP_CreateThis, OP_SelectObject, OP_LoadParam, OP_LoadParamLong, OP_LoadConstUInt8,
     OP_LoadConstInt, OP_LoadConstDouble, OP_LoadConstString, OP_LoadConstStringLongIndex,
     OP_LoadConstEmpty, OP_LoadConstUndefined, OP_LoadConstNull, OP_LoadConstTrue,
     OP_LoadConstFalse, OP_LoadConstZero, OP_CoerceThisNS, OP_LoadThisNS, OP_ToNumber, OP_ToInt32,
     OP_AddEmptyString, OP_GetArgumentsPropByVal, OP_GetArgumentsLength, OP_ReifyArguments,
     OP_CreateRegExp, OP_SwitchImm, OP_StartGenerator, OP_ResumeGenerator, OP_CompleteGenerator,
     OP_CreateGenerator, OP_CreateGeneratorLongIndex, OP_IteratorBegin, OP_IteratorNext,
     OP_IteratorClose, OP_Jmp, OP_JmpLong, OP_JmpTrue, OP_JmpTrueLong, OP_JmpFalse,
     OP_JmpFalseLong, OP_JmpUndefined, OP_JmpUndefinedLong, OP_SaveGenerator,
     OP_SaveGeneratorLong, OP_JLess, OP_JLessLong, OP_JNotLess, OP_JNotLessLong, OP_JLessN,
     OP_JLessNLong, OP_JNotLessN, OP_JNotLessNLong, OP_JLessEqual, OP_JLessEqualLong,
     OP_JNotLessEqual, OP_JNotLessEqualLong, OP_JLessEqualN, OP_JLessEqualNLong,
     OP_JNotLessEqualN, OP_JNotLessEqualNLong, OP_JGreater, OP_JGreaterLong, OP_JNotGreater,
     OP_JNotGreaterLong, OP_JGreaterN, OP_JGreaterNLong, OP_JNotGreaterN, OP_JNotGreaterNLong,
     OP_JGreaterEqual, OP_JGreaterEqualLong, OP_JNotGreaterEqual, OP_JNotGreaterEqualLong,
     OP_JGreaterEqualN, OP_JGreaterEqualNLong, OP_JNotGreaterEqualN, OP_JNotGreaterEqualNLong,
     OP_JEqual, OP_JEqualLong, OP_JNotEqual, OP_JNotEqualLong, OP_JStrictEqual,
     OP_JStrictEqualLong, OP_JStrictNotEqual, OP_JStrictNotEqualLong, OP_Add32, OP_Sub32,
     OP_Mul32, OP_Divi32, OP_Divu32, OP_Loadi8, OP_Loadu8, OP_Loadi16, OP_Loadu16, OP_Loadi32,
     OP_Loadu32, OP_Store8, OP_Store16, OP_Store32]"

definition V84_SIZES :: "u8 list" where
  "V84_SIZES =
    [1, 10, 14, 2, 3, 8, 10, 4, 3, 9, 3, 3, 3, 3, 4, 4, 4, 4, 4, 4, 4, 4, 4, 4, 4, 4, 4, 4, 4, 4,
     4, 4, 4, 4, 4, 4, 4, 4, 4, 3, 4, 5, 4, 5, 4, 5, 2, 2, 2, 5, 5, 6, 8, 6, 8, 6, 8, 6, 8, 4, 5,
     7, 5, 7, 4, 7, 5, 5, 7, 4, 4, 4, 6, 5, 6, 4, 4, 4, 5, 5, 6, 7, 7, 7, 7, 4, 7, 3, 2, 2, 3, 2,
     3, 1, 1, 3, 5, 7, 5, 7, 5, 7, 4, 4, 3, 6, 3, 6, 10, 4, 6, 2, 2, 2, 2, 2, 2, 3, 2, 3, 3, 3, 4,
     3, 2, 14, 18, 1, 3, 1, 5, 7, 3, 4, 3, 2, 5, 3, 6, 3, 6, 3, 6, 2, 5, 4, 7, 4, 7, 4, 7, 4, 7,
     4, 7, 4, 7, 4, 7, 4, 7, 4, 7, 4, 7, 4, 7, 4, 7, 4, 7, 4, 7, 4, 7, 4, 7, 4, 7, 4, 7, 4, 7, 4,
     7, 4, 4, 4, 4, 4, 4, 4, 4, 4, 4, 4, 4, 4, 4]"

definition V84_STR_OPS :: "(u8 \<times> u8 \<times> u8) list" where
  "V84_STR_OPS =
    [(49, 1, 4), (50, 4, 1), (51, 4, 2), (52, 4, 4), (53, 4, 2), (54, 4, 4), (55, 4, 2),
     (56, 4, 4), (57, 4, 2), (58, 4, 4), (59, 3, 1), (60, 3, 2), (61, 3, 4), (62, 3, 2),
     (63, 3, 4), (67, 3, 2), (68, 3, 4), (109, 2, 2), (110, 2, 4), (125, 6, 4)]"

definition V84_CALL_OPS :: "(u8 \<times> u8 \<times> u8) list" where
  "V84_CALL_OPS =
    [(78, 3, 2), (84, 3, 4)]"

definition V84_NAMES :: "string list" where
  "V84_NAMES =
    [''Unreachable'', ''NewObjectWithBuffer'', ''NewObjectWithBufferLong'', ''NewObject'',
     ''NewObjectWithParent'', ''NewArrayWithBuffer'', ''NewArrayWithBufferLong'', ''NewArray'',
     ''Mov'', ''MovLong'', ''Negate'', ''Not'', ''BitNot'', ''TypeOf'', ''Eq'', ''StrictEq'',
     ''Neq'', ''StrictNeq'', ''Less'', ''LessEq'', ''Greater'', ''GreaterEq'', ''Add'', ''AddN'',
     ''Mul'', ''MulN'', ''Div'', ''DivN'', ''Mod'', ''Sub'', ''SubN'', ''LShift'', ''RShift'',
     ''URshift'', ''BitAnd'', ''BitXor'', ''BitOr'', ''InstanceOf'', ''IsIn'', ''GetEnvironment'',
     ''StoreToEnvironment'', ''StoreToEnvironmentL'', ''StoreNPToEnvironment'',
     ''StoreNPToEnvironmentL'', ''LoadFromEnvironment'', ''LoadFromEnvironmentL'',
     ''GetGlobalObject'', ''GetNewTarget'', ''CreateEnvironment'', ''DeclareGlobalVar'',
     ''GetByIdShort'', ''GetById'', ''GetByIdLong'', ''TryGetById'', ''TryGetByIdLong'',
     ''PutById'', ''PutByIdLong'', ''TryPutById'', ''TryPutByIdLong'', ''PutNewOwnByIdShort'',
     ''PutNewOwnById'', ''PutNewOwnByIdLong'', ''PutNewOwnNEById'', ''PutNewOwnNEByIdLong'',
     ''PutOwnByIndex'', ''PutOwnByIndexL'', ''PutOwnByVal'', ''DelById'', ''DelByIdLong'',
     ''GetByVal'', ''PutByVal'', ''DelByVal'', ''PutOwnGetterSetterByVal'', ''GetPNameList'',
     ''GetNextPName'', ''Call'', ''Construct'', ''Call1'', ''CallDirect'', ''Call2'', ''Call3'',
     ''Call4'', ''CallLong'', ''ConstructLong'', ''CallDirectLongIndex'', ''CallBuiltin'',
     ''CallBuiltinLong'', ''GetBuiltinClosure'', ''Ret'', ''Catch'', ''DirectEval'', ''Throw'',
     ''ThrowIfEmpty'', ''Debugger'', ''AsyncBreakCheck'', ''ProfilePoint'', ''CreateClosure'',
     ''CreateClosureLongIndex'', ''CreateGeneratorClosure'', ''CreateGeneratorClosureLongIndex'',
     ''CreateAsyncClosure'', ''CreateAsyncClosureLongIndex'', ''CreateThis'', ''SelectObject'',
     ''LoadParam'', ''LoadParamLong'', ''LoadConstUInt8'', ''LoadConstInt'', ''LoadConstDouble'',
     ''LoadConstString'', ''LoadConstStringLongIndex'', ''LoadConstEmpty'',
     ''LoadConstUndefined'', ''LoadConstNull'', ''LoadConstTrue'', ''LoadConstFalse'',
     ''LoadConstZero'', ''CoerceThisNS'', ''LoadThisNS'', ''ToNumber'', ''ToInt32'',
     ''AddEmptyString'', ''GetArgumentsPropByVal'', ''GetArgumentsLength'', ''ReifyArguments'',
     ''CreateRegExp'', ''SwitchImm'', ''StartGenerator'', ''ResumeGenerator'',
     ''CompleteGenerator'', ''CreateGenerator'', ''CreateGeneratorLongIndex'', ''IteratorBegin'',
     ''IteratorNext'', ''IteratorClose'', ''Jmp'', ''JmpLong'', ''JmpTrue'', ''JmpTrueLong'',
     ''JmpFalse'', ''JmpFalseLong'', ''JmpUndefined'', ''JmpUndefinedLong'', ''SaveGenerator'',
     ''SaveGeneratorLong'', ''JLess'', ''JLessLong'', ''JNotLess'', ''JNotLessLong'', ''JLessN'',
     ''JLessNLong'', ''JNotLessN'', ''JNotLessNLong'', ''JLessEqual'', ''JLessEqualLong'',
     ''JNotLessEqual'', ''JNotLessEqualLong'', ''JLessEqualN'', ''JLessEqualNLong'',
     ''JNotLessEqualN'', ''JNotLessEqualNLong'', ''JGreater'', ''JGreaterLong'', ''JNotGreater'',
     ''JNotGreaterLong'', ''JGreaterN'', ''JGreaterNLong'', ''JNotGreaterN'',
     ''JNotGreaterNLong'', ''JGreaterEqual'', ''JGreaterEqualLong'', ''JNotGreaterEqual'',
     ''JNotGreaterEqualLong'', ''JGreaterEqualN'', ''JGreaterEqualNLong'', ''JNotGreaterEqualN'',
     ''JNotGreaterEqualNLong'', ''JEqual'', ''JEqualLong'', ''JNotEqual'', ''JNotEqualLong'',
     ''JStrictEqual'', ''JStrictEqualLong'', ''JStrictNotEqual'', ''JStrictNotEqualLong'',
     ''Add32'', ''Sub32'', ''Mul32'', ''Divi32'', ''Divu32'', ''Loadi8'', ''Loadu8'', ''Loadi16'',
     ''Loadu16'', ''Loadi32'', ''Loadu32'', ''Store8'', ''Store16'', ''Store32'']"

definition V84_SCHEMAS :: "(string \<times> OpType list) list" where
  "V84_SCHEMAS =
    [(''Unreachable'', []), (''NewObjectWithBuffer'', [OT_R, OT_U2, OT_U2, OT_U2, OT_U2]),
     (''NewObjectWithBufferLong'', [OT_R, OT_U2, OT_U2, OT_U4, OT_U4]), (''NewObject'', [OT_R]),
     (''NewObjectWithParent'', [OT_R, OT_R]),
     (''NewArrayWithBuffer'', [OT_R, OT_U2, OT_U2, OT_U2]),
     (''NewArrayWithBufferLong'', [OT_R, OT_U2, OT_U2, OT_U4]), (''NewArray'', [OT_R, OT_U2]),
     (''Mov'', [OT_R, OT_R]), (''MovLong'', [OT_R4, OT_R4]), (''Negate'', [OT_R, OT_R]),
     (''Not'', [OT_R, OT_R]), (''BitNot'', [OT_R, OT_R]), (''TypeOf'', [OT_R, OT_R]),
     (''Eq'', [OT_R, OT_R, OT_R]), (''StrictEq'', [OT_R, OT_R, OT_R]),
     (''Neq'', [OT_R, OT_R, OT_R]), (''StrictNeq'', [OT_R, OT_R, OT_R]),
     (''Less'', [OT_R, OT_R, OT_R]), (''LessEq'', [OT_R, OT_R, OT_R]),
     (''Greater'', [OT_R, OT_R, OT_R]), (''GreaterEq'', [OT_R, OT_R, OT_R]),
     (''Add'', [OT_R, OT_R, OT_R]), (''AddN'', [OT_R, OT_R, OT_R]), (''Mul'', [OT_R, OT_R, OT_R]),
     (''MulN'', [OT_R, OT_R, OT_R]), (''Div'', [OT_R, OT_R, OT_R]),
     (''DivN'', [OT_R, OT_R, OT_R]), (''Mod'', [OT_R, OT_R, OT_R]), (''Sub'', [OT_R, OT_R, OT_R]),
     (''SubN'', [OT_R, OT_R, OT_R]), (''LShift'', [OT_R, OT_R, OT_R]),
     (''RShift'', [OT_R, OT_R, OT_R]), (''URshift'', [OT_R, OT_R, OT_R]),
     (''BitAnd'', [OT_R, OT_R, OT_R]), (''BitXor'', [OT_R, OT_R, OT_R]),
     (''BitOr'', [OT_R, OT_R, OT_R]), (''InstanceOf'', [OT_R, OT_R, OT_R]),
     (''IsIn'', [OT_R, OT_R, OT_R]), (''GetEnvironment'', [OT_R, OT_U1]),
     (''StoreToEnvironment'', [OT_R, OT_U1, OT_R]),
     (''StoreToEnvironmentL'', [OT_R, OT_U2, OT_R]),
     (''StoreNPToEnvironment'', [OT_R, OT_U1, OT_R]),
     (''StoreNPToEnvironmentL'', [OT_R, OT_U2, OT_R]),
     (''LoadFromEnvironment'', [OT_R, OT_R, OT_U1]),
     (''LoadFromEnvironmentL'', [OT_R, OT_R, OT_U2]), (''GetGlobalObject'', [OT_R]),
     (''GetNewTarget'', [OT_R]), (''CreateEnvironment'', [OT_R]), (''DeclareGlobalVar'', [OT_U4]),
     (''GetByIdShort'', [OT_R, OT_R, OT_U1, OT_U1]), (''GetById'', [OT_R, OT_R, OT_U1, OT_U2]),
     (''GetByIdLong'', [OT_R, OT_R, OT_U1, OT_U4]), (''TryGetById'', [OT_R, OT_R, OT_U1, OT_U2]),
     (''TryGetByIdLong'', [OT_R, OT_R, OT_U1, OT_U4]), (''PutById'', [OT_R, OT_R, OT_U1, OT_U2]),
     (''PutByIdLong'', [OT_R, OT_R, OT_U1, OT_U4]), (''TryPutById'', [OT_R, OT_R, OT_U1, OT_U2]),
     (''TryPutByIdLong'', [OT_R, OT_R, OT_U1, OT_U4]),
     (''PutNewOwnByIdShort'', [OT_R, OT_R, OT_U1]), (''PutNewOwnById'', [OT_R, OT_R, OT_U2]),
     (''PutNewOwnByIdLong'', [OT_R, OT_R, OT_U4]), (''PutNewOwnNEById'', [OT_R, OT_R, OT_U2]),
     (''PutNewOwnNEByIdLong'', [OT_R, OT_R, OT_U4]), (''PutOwnByIndex'', [OT_R, OT_R, OT_U1]),
     (''PutOwnByIndexL'', [OT_R, OT_R, OT_U4]), (''PutOwnByVal'', [OT_R, OT_R, OT_R, OT_U1]),
     (''DelById'', [OT_R, OT_R, OT_U2]), (''DelByIdLong'', [OT_R, OT_R, OT_U4]),
     (''GetByVal'', [OT_R, OT_R, OT_R]), (''PutByVal'', [OT_R, OT_R, OT_R]),
     (''DelByVal'', [OT_R, OT_R, OT_R]),
     (''PutOwnGetterSetterByVal'', [OT_R, OT_R, OT_R, OT_R, OT_U1]),
     (''GetPNameList'', [OT_R, OT_R, OT_R, OT_R]),
     (''GetNextPName'', [OT_R, OT_R, OT_R, OT_R, OT_R]), (''Call'', [OT_R, OT_R, OT_U1]),
     (''Construct'', [OT_R, OT_R, OT_U1]), (''Call1'', [OT_R, OT_R, OT_R]),
     (''CallDirect'', [OT_R, OT_U1, OT_U2]), (''Call2'', [OT_R, OT_R, OT_R, OT_R]),
     (''Call3'', [OT_R, OT_R, OT_R, OT_R, OT_R]),
     (''Call4'', [OT_R, OT_R, OT_R, OT_R, OT_R, OT_R]), (''CallLong'', [OT_R, OT_R, OT_U4]),
     (''ConstructLong'', [OT_R, OT_R, OT_U4]), (''CallDirectLongIndex'', [OT_R, OT_U1, OT_U4]),
     (''CallBuiltin'', [OT_R, OT_U1, OT_U1]), (''CallBuiltinLong'', [OT_R, OT_U1, OT_U4]),
     (''GetBuiltinClosure'', [OT_R, OT_U1]), (''Ret'', [OT_R]), (''Catch'', [OT_R]),
     (''DirectEval'', [OT_R, OT_R]), (''Throw'', [OT_R]), (''ThrowIfEmpty'', [OT_R, OT_R]),
     (''Debugger'', []), (''AsyncBreakCheck'', []), (''ProfilePoint'', [OT_U2]),
     (''CreateClosure'', [OT_R, OT_R, OT_U2]), (''CreateClosureLongIndex'', [OT_R, OT_R, OT_U4]),
     (''CreateGeneratorClosure'', [OT_R, OT_R, OT_U2]),
     (''CreateGeneratorClosureLongIndex'', [OT_R, OT_R, OT_U4]),
     (''CreateAsyncClosure'', [OT_R, OT_R, OT_U2]),
     (''CreateAsyncClosureLongIndex'', [OT_R, OT_R, OT_U4]), (''CreateThis'', [OT_R, OT_R, OT_R]),
     (''SelectObject'', [OT_R, OT_R, OT_R]), (''LoadParam'', [OT_R, OT_U1]),
     (''LoadParamLong'', [OT_R, OT_U4]), (''LoadConstUInt8'', [OT_R, OT_U1]),
     (''LoadConstInt'', [OT_R, OT_I4]), (''LoadConstDouble'', [OT_R, OT_D]),
     (''LoadConstString'', [OT_R, OT_U2]), (''LoadConstStringLongIndex'', [OT_R, OT_U4]),
     (''LoadConstEmpty'', [OT_R]), (''LoadConstUndefined'', [OT_R]), (''LoadConstNull'', [OT_R]),
     (''LoadConstTrue'', [OT_R]), (''LoadConstFalse'', [OT_R]), (''LoadConstZero'', [OT_R]),
     (''CoerceThisNS'', [OT_R, OT_R]), (''LoadThisNS'', [OT_R]), (''ToNumber'', [OT_R, OT_R]),
     (''ToInt32'', [OT_R, OT_R]), (''AddEmptyString'', [OT_R, OT_R]),
     (''GetArgumentsPropByVal'', [OT_R, OT_R, OT_R]), (''GetArgumentsLength'', [OT_R, OT_R]),
     (''ReifyArguments'', [OT_R]), (''CreateRegExp'', [OT_R, OT_U4, OT_U4, OT_U4]),
     (''SwitchImm'', [OT_R, OT_U4, OT_A4, OT_U4, OT_U4]), (''StartGenerator'', []),
     (''ResumeGenerator'', [OT_R, OT_R]), (''CompleteGenerator'', []),
     (''CreateGenerator'', [OT_R, OT_R, OT_U2]),
     (''CreateGeneratorLongIndex'', [OT_R, OT_R, OT_U4]), (''IteratorBegin'', [OT_R, OT_R]),
     (''IteratorNext'', [OT_R, OT_R, OT_R]), (''IteratorClose'', [OT_R, OT_U1]),
     (''Jmp'', [OT_A1]), (''JmpLong'', [OT_A4]), (''JmpTrue'', [OT_A1, OT_R]),
     (''JmpTrueLong'', [OT_A4, OT_R]), (''JmpFalse'', [OT_A1, OT_R]),
     (''JmpFalseLong'', [OT_A4, OT_R]), (''JmpUndefined'', [OT_A1, OT_R]),
     (''JmpUndefinedLong'', [OT_A4, OT_R]), (''SaveGenerator'', [OT_A1]),
     (''SaveGeneratorLong'', [OT_A4]), (''JLess'', [OT_A1, OT_R, OT_R]),
     (''JLessLong'', [OT_A4, OT_R, OT_R]), (''JNotLess'', [OT_A1, OT_R, OT_R]),
     (''JNotLessLong'', [OT_A4, OT_R, OT_R]), (''JLessN'', [OT_A1, OT_R, OT_R]),
     (''JLessNLong'', [OT_A4, OT_R, OT_R]), (''JNotLessN'', [OT_A1, OT_R, OT_R]),
     (''JNotLessNLong'', [OT_A4, OT_R, OT_R]), (''JLessEqual'', [OT_A1, OT_R, OT_R]),
     (''JLessEqualLong'', [OT_A4, OT_R, OT_R]), (''JNotLessEqual'', [OT_A1, OT_R, OT_R]),
     (''JNotLessEqualLong'', [OT_A4, OT_R, OT_R]), (''JLessEqualN'', [OT_A1, OT_R, OT_R]),
     (''JLessEqualNLong'', [OT_A4, OT_R, OT_R]), (''JNotLessEqualN'', [OT_A1, OT_R, OT_R]),
     (''JNotLessEqualNLong'', [OT_A4, OT_R, OT_R]), (''JGreater'', [OT_A1, OT_R, OT_R]),
     (''JGreaterLong'', [OT_A4, OT_R, OT_R]), (''JNotGreater'', [OT_A1, OT_R, OT_R]),
     (''JNotGreaterLong'', [OT_A4, OT_R, OT_R]), (''JGreaterN'', [OT_A1, OT_R, OT_R]),
     (''JGreaterNLong'', [OT_A4, OT_R, OT_R]), (''JNotGreaterN'', [OT_A1, OT_R, OT_R]),
     (''JNotGreaterNLong'', [OT_A4, OT_R, OT_R]), (''JGreaterEqual'', [OT_A1, OT_R, OT_R]),
     (''JGreaterEqualLong'', [OT_A4, OT_R, OT_R]), (''JNotGreaterEqual'', [OT_A1, OT_R, OT_R]),
     (''JNotGreaterEqualLong'', [OT_A4, OT_R, OT_R]), (''JGreaterEqualN'', [OT_A1, OT_R, OT_R]),
     (''JGreaterEqualNLong'', [OT_A4, OT_R, OT_R]), (''JNotGreaterEqualN'', [OT_A1, OT_R, OT_R]),
     (''JNotGreaterEqualNLong'', [OT_A4, OT_R, OT_R]), (''JEqual'', [OT_A1, OT_R, OT_R]),
     (''JEqualLong'', [OT_A4, OT_R, OT_R]), (''JNotEqual'', [OT_A1, OT_R, OT_R]),
     (''JNotEqualLong'', [OT_A4, OT_R, OT_R]), (''JStrictEqual'', [OT_A1, OT_R, OT_R]),
     (''JStrictEqualLong'', [OT_A4, OT_R, OT_R]), (''JStrictNotEqual'', [OT_A1, OT_R, OT_R]),
     (''JStrictNotEqualLong'', [OT_A4, OT_R, OT_R]), (''Add32'', [OT_R, OT_R, OT_R]),
     (''Sub32'', [OT_R, OT_R, OT_R]), (''Mul32'', [OT_R, OT_R, OT_R]),
     (''Divi32'', [OT_R, OT_R, OT_R]), (''Divu32'', [OT_R, OT_R, OT_R]),
     (''Loadi8'', [OT_R, OT_R, OT_R]), (''Loadu8'', [OT_R, OT_R, OT_R]),
     (''Loadi16'', [OT_R, OT_R, OT_R]), (''Loadu16'', [OT_R, OT_R, OT_R]),
     (''Loadi32'', [OT_R, OT_R, OT_R]), (''Loadu32'', [OT_R, OT_R, OT_R]),
     (''Store8'', [OT_R, OT_R, OT_R]), (''Store16'', [OT_R, OT_R, OT_R]),
     (''Store32'', [OT_R, OT_R, OT_R])]"

definition V84_STRING_IDS :: "(u8 \<times> u8) list" where
  "V84_STRING_IDS =
    [(49, 0), (50, 3), (51, 3), (52, 3), (53, 3), (54, 3), (55, 3), (56, 3), (57, 3), (58, 3),
     (59, 2), (60, 2), (61, 2), (62, 2), (63, 2), (67, 2), (68, 2), (109, 1), (110, 1), (125, 2)]"

definition V84_FUNC_IDS :: "(u8 \<times> u8) list" where
  "V84_FUNC_IDS = []"

definition V84_TABLES :: version_tables where
  "V84_TABLES =
    \<lparr>vt_opcodes = V84_OPCODES, vt_sizes = V84_SIZES, vt_str_ops = V84_STR_OPS, vt_call_ops = V84_CALL_OPS,
     vt_names = V84_NAMES, vt_schemas = V84_SCHEMAS, vt_string_ids = V84_STRING_IDS, vt_func_ids = V84_FUNC_IDS\<rparr>"

lemmas V84_types = V84_SCHEMAS_def [THEN arg_cong [of _ _ "map snd"], unfolded list.map snd_conv]

lemma V84_names: "V84_NAMES = map OpCode_name V84_OPCODES" "map fst V84_SCHEMAS = V84_NAMES"
  by (simp_all only: V84_NAMES_def V84_OPCODES_def V84_SCHEMAS_def list.map opcode_name fst_conv)

lemma V84_agree: "tables_agree V84_TABLES"
  unfolding V84_TABLES_def
  by (rule tables_agreeI [OF _ _ V84_names V84_types])
    (simp_all add: opcodes_upt V84_OPCODES_def V84_SIZES_def V84_STR_OPS_def V84_STRING_IDS_def
      V84_CALL_OPS_def V84_FUNC_IDS_def table_checks)

subsection \<open>Version 85\<close>

definition V85_OPCODES :: "OpCode list" where
  "V85_OPCODES =
    [OP_Unreachable, OP_NewObjectWithBuffer, OP_NewObjectWithBufferLong, OP_NewObject,
     OP_NewObjectWithParent, OP_NewArrayWithBuffer, OP_NewArrayWithBufferLong, OP_NewArray,
     OP_Mov, OP_MovLong, OP_Negate, OP_Not, OP_BitNot, OP_TypeOf, OP_Eq, OP_StrictEq, OP_Neq,
     OP_StrictNeq, OP_Less, OP_LessEq, OP_Greater, OP_GreaterEq, OP_Add, OP_AddN, OP_Mul, OP_MulN,
     OP_Div, OP_DivN, OP_Mod, OP_Sub, OP_SubN, OP_LShift, OP_RShift, OP_URshift, OP_BitAnd,
     OP_BitXor, OP_BitOr, OP_Inc, OP_Dec, OP_InstanceOf, OP_IsIn, OP_GetEnvironment,
     OP_StoreToEnvironment, OP_StoreToEnvironmentL, OP_StoreNPToEnvironment,
     OP_StoreNPToEnvironmentL, OP_LoadFromEnvironment, OP_LoadFromEnvironmentL,
     OP_GetGlobalObject, OP_GetNewTarget, OP_CreateEnvironment, OP_DeclareGlobalVar,
     OP_GetByIdShort, OP_GetById, OP_GetByIdLong, OP_TryGetById, OP_TryGetByIdLong, OP_PutById,
     OP_PutByIdLong, OP_TryPutById, OP_TryPutByIdLong, OP_PutNewOwnByIdShort, OP_PutNewOwnById,
     OP_PutNewOwnByIdLong, OP_PutNewOwnNEById, OP_PutNewOwnNEByIdLong, OP_PutOwnByIndex,
     OP_PutOwnByIndexL, OP_PutOwnByVal, OP_DelById, OP_DelByIdLong, OP_GetByVal, OP_PutByVal,
     OP_DelByVal, OP_PutOwnGetterSetterByVal, OP_GetPNameList, OP_GetNextPName, OP_Call,
     OP_Construct, OP_Call1, OP_CallDirect, OP_Call2, OP_Call3, OP_Call4, OP_CallLong,
     OP_ConstructLong, OP_CallDirectLongIndex, OP_CallBuiltin, OP_CallBuiltinLong,
     OP_GetBuiltinClosure, OP_Ret, OP_Catch, OP_DirectEval, OP_Throw, OP_ThrowIfEmpty,
     OP_Debugger, OP_AsyncBreakCheck, OP_ProfilePoint, OP_CreateClosure,
     OP_CreateClosureLongIndex, OP_CreateGeneratorClosure, OP_CreateGeneratorClosureLongIndex,
     OP_CreateAsyncClosure, OP_CreateAsyncClosureLongIndex, OP_CreateThis, OP_SelectObject,
     OP_LoadParam, OP_LoadParamLong, OP_LoadConstUInt8, OP_LoadConstInt, OP_LoadConstDouble,
     OP_LoadConstString, OP_LoadConstStringLongIndex, OP_LoadConstEmpty, OP_LoadConstUndefined,
     OP_LoadConstNull, OP_LoadConstTrue, OP_LoadConstFalse, OP_LoadConstZero, OP_CoerceThisNS,
     OP_LoadThisNS, OP_ToNumber, OP_ToInt32, OP_AddEmptyString, OP_GetArgumentsPropByVal,
     OP_GetArgumentsLength, OP_ReifyArguments, OP_CreateRegExp, OP_SwitchImm, OP_StartGenerator,
     OP_ResumeGenerator, OP_CompleteGenerator, OP_CreateGenerator, OP_CreateGeneratorLongIndex,
     OP_IteratorBegin, OP_IteratorNext, OP_IteratorClose, OP_Jmp, OP_JmpLong, OP_JmpTrue,
     OP_JmpTrueLong, OP_JmpFalse, OP_JmpFalseLong, OP_JmpUndefined, OP_JmpUndefinedLong,
     OP_SaveGenerator, OP_SaveGeneratorLong, OP_JLess, OP_JLessLong, OP_JNotLess, OP_JNotLessLong,
     OP_JLessN, OP_JLessNLong, OP_JNotLessN, OP_JNotLessNLong, OP_JLessEqual, OP_JLessEqualLong,
     OP_JNotLessEqual, OP_JNotLessEqualLong, OP_JLessEqualN, OP_JLessEqualNLong,
     OP_JNotLessEqualN, OP_JNotLessEqualNLong, OP_JGreater, OP_JGreaterLong, OP_JNotGreater,
     OP_JNotGreaterLong, OP_JGreaterN, OP_JGreaterNLong, OP_JNotGreaterN, OP_JNotGreaterNLong,
     OP_JGreaterEqual, OP_JGreaterEqualLong, OP_JNotGreaterEqual, OP_JNotGreaterEqualLong,
     OP_JGreaterEqualN, OP_JGreaterEqualNLong, OP_JNotGreaterEqualN, OP_JNotGreaterEqualNLong,
     OP_JEqual, OP_JEqualLong, OP_JNotEqual, OP_JNotEqualLong, OP_JStrictEqual,
     OP_JStrictEqualLong, OP_JStrictNotEqual, OP_JStrictNotEqualLong, OP_Add32, OP_Sub32,
     OP_Mul32, OP_Divi32, OP_Divu32, OP_Loadi8, OP_Loadu8, OP_Loadi16, OP_Loadu16, OP_Loadi32,
     OP_Loadu32, OP_Store8, OP_Store16, OP_Store32]"

definition V85_SIZES :: "u8 list" where
  "V85_SIZES =
    [1, 10, 14, 2, 3, 8, 10, 4, 3, 9, 3, 3, 3, 3, 4, 4, 4, 4, 4, 4, 4, 4, 4, 4, 4, 4, 4, 4, 4, 4,
     4, 4, 4, 4, 4, 4, 4, 3, 3, 4, 4, 3, 4, 5, 4, 5, 4, 5, 2, 2, 2, 5, 5, 6, 8, 6, 8, 6, 8, 6, 8,
     4, 5, 7, 5, 7, 4, 7, 5, 5, 7, 4, 4, 4, 6, 5, 6, 4, 4, 4, 5, 5, 6, 7, 7, 7, 7, 4, 7, 3, 2, 2,
     3, 2, 3, 1, 1, 3, 5, 7, 5, 7, 5, 7, 4, 4, 3, 6, 3, 6, 10, 4, 6, 2, 2, 2, 2, 2, 2, 3, 2, 3, 3,
     3, 4, 3, 2, 14, 18, 1, 3, 1, 5, 7, 3, 4, 3, 2, 5, 3, 6, 3, 6, 3, 6, 2, 5, 4, 7, 4, 7, 4, 7,
     4, 7, 4, 7, 4, 7, 4, 7, 4, 7, 4, 7, 4, 7, 4, 7, 4, 7, 4, 7, 4, 7, 4, 7, 4, 7, 4, 7, 4, 7, 4,
     7, 4, 7, 4, 4, 4, 4, 4, 4, 4, 4, 4, 4, 4, 4, 4, 4]"

definition V85_STR_OPS :: "(u8 \<times> u8 \<times> u8) list" where
  "V85_STR_OPS =
    [(51, 1, 4), (52, 4, 1), (53, 4, 2), (54, 4, 4), (55, 4, 2), (56, 4, 4), (57, 4, 2),
     (58, 4, 4), (59, 4, 2), (60, 4, 4), (61, 3, 1), (62, 3, 2), (63, 3, 4), (64, 3, 2),
     (65, 3, 4), (69, 3, 2), (70, 3, 4), (111, 2, 2), (112, 2, 4), (127, 6, 4)]"

definition V85_CALL_OPS :: "(u8 \<times> u8 \<times> u8) list" where
  "V85_CALL_OPS =
    [(80, 3, 2), (86, 3, 4)]"

definition V85_NAMES :: "string list" where
  "V85_NAMES =
    [''Unreachable'', ''NewObjectWithBuffer'', ''NewObjectWithBufferLong'', ''NewObject'',
     ''NewObjectWithParent'', ''NewArrayWithBuffer'', ''NewArrayWithBufferLong'', ''NewArray'',
     ''Mov'', ''MovLong'', ''Negate'', ''Not'', ''BitNot'', ''TypeOf'', ''Eq'', ''StrictEq'',
     ''Neq'', ''StrictNeq'', ''Less'', ''LessEq'', ''Greater'', ''GreaterEq'', ''Add'', ''AddN'',
     ''Mul'', ''MulN'', ''Div'', ''DivN'', ''Mod'', ''Sub'', ''SubN'', ''LShift'', ''RShift'',
     ''URshift'', ''BitAnd'', ''BitXor'', ''BitOr'', ''Inc'', ''Dec'', ''InstanceOf'', ''IsIn'',
     ''GetEnvironment'', ''StoreToEnvironment'', ''StoreToEnvironmentL'',
     ''StoreNPToEnvironment'', ''StoreNPToEnvironmentL'', ''LoadFromEnvironment'',
     ''LoadFromEnvironmentL'', ''GetGlobalObject'', ''GetNewTarget'', ''CreateEnvironment'',
     ''DeclareGlobalVar'', ''GetByIdShort'', ''GetById'', ''GetByIdLong'', ''TryGetById'',
     ''TryGetByIdLong'', ''PutById'', ''PutByIdLong'', ''TryPutById'', ''TryPutByIdLong'',
     ''PutNewOwnByIdShort'', ''PutNewOwnById'', ''PutNewOwnByIdLong'', ''PutNewOwnNEById'',
     ''PutNewOwnNEByIdLong'', ''PutOwnByIndex'', ''PutOwnByIndexL'', ''PutOwnByVal'', ''DelById'',
     ''DelByIdLong'', ''GetByVal'', ''PutByVal'', ''DelByVal'', ''PutOwnGetterSetterByVal'',
     ''GetPNameList'', ''GetNextPName'', ''Call'', ''Construct'', ''Call1'', ''CallDirect'',
     ''Call2'', ''Call3'', ''Call4'', ''CallLong'', ''ConstructLong'', ''CallDirectLongIndex'',
     ''CallBuiltin'', ''CallBuiltinLong'', ''GetBuiltinClosure'', ''Ret'', ''Catch'',
     ''DirectEval'', ''Throw'', ''ThrowIfEmpty'', ''Debugger'', ''AsyncBreakCheck'',
     ''ProfilePoint'', ''CreateClosure'', ''CreateClosureLongIndex'', ''CreateGeneratorClosure'',
     ''CreateGeneratorClosureLongIndex'', ''CreateAsyncClosure'', ''CreateAsyncClosureLongIndex'',
     ''CreateThis'', ''SelectObject'', ''LoadParam'', ''LoadParamLong'', ''LoadConstUInt8'',
     ''LoadConstInt'', ''LoadConstDouble'', ''LoadConstString'', ''LoadConstStringLongIndex'',
     ''LoadConstEmpty'', ''LoadConstUndefined'', ''LoadConstNull'', ''LoadConstTrue'',
     ''LoadConstFalse'', ''LoadConstZero'', ''CoerceThisNS'', ''LoadThisNS'', ''ToNumber'',
     ''ToInt32'', ''AddEmptyString'', ''GetArgumentsPropByVal'', ''GetArgumentsLength'',
     ''ReifyArguments'', ''CreateRegExp'', ''SwitchImm'', ''StartGenerator'', ''ResumeGenerator'',
     ''CompleteGenerator'', ''CreateGenerator'', ''CreateGeneratorLongIndex'', ''IteratorBegin'',
     ''IteratorNext'', ''IteratorClose'', ''Jmp'', ''JmpLong'', ''JmpTrue'', ''JmpTrueLong'',
     ''JmpFalse'', ''JmpFalseLong'', ''JmpUndefined'', ''JmpUndefinedLong'', ''SaveGenerator'',
     ''SaveGeneratorLong'', ''JLess'', ''JLessLong'', ''JNotLess'', ''JNotLessLong'', ''JLessN'',
     ''JLessNLong'', ''JNotLessN'', ''JNotLessNLong'', ''JLessEqual'', ''JLessEqualLong'',
     ''JNotLessEqual'', ''JNotLessEqualLong'', ''JLessEqualN'', ''JLessEqualNLong'',
     ''JNotLessEqualN'', ''JNotLessEqualNLong'', ''JGreater'', ''JGreaterLong'', ''JNotGreater'',
     ''JNotGreaterLong'', ''JGreaterN'', ''JGreaterNLong'', ''JNotGreaterN'',
     ''JNotGreaterNLong'', ''JGreaterEqual'', ''JGreaterEqualLong'', ''JNotGreaterEqual'',
     ''JNotGreaterEqualLong'', ''JGreaterEqualN'', ''JGreaterEqualNLong'', ''JNotGreaterEqualN'',
     ''JNotGreaterEqualNLong'', ''JEqual'', ''JEqualLong'', ''JNotEqual'', ''JNotEqualLong'',
     ''JStrictEqual'', ''JStrictEqualLong'', ''JStrictNotEqual'', ''JStrictNotEqualLong'',
     ''Add32'', ''Sub32'', ''Mul32'', ''Divi32'', ''Divu32'', ''Loadi8'', ''Loadu8'', ''Loadi16'',
     ''Loadu16'', ''Loadi32'', ''Loadu32'', ''Store8'', ''Store16'', ''Store32'']"

definition V85_SCHEMAS :: "(string \<times> OpType list) list" where
  "V85_SCHEMAS =
    [(''Unreachable'', []), (''NewObjectWithBuffer'', [OT_R, OT_U2, OT_U2, OT_U2, OT_U2]),
     (''NewObjectWithBufferLong'', [OT_R, OT_U2, OT_U2, OT_U4, OT_U4]), (''NewObject'', [OT_R]),
     (''NewObjectWithParent'', [OT_R, OT_R]),
     (''NewArrayWithBuffer'', [OT_R, OT_U2, OT_U2, OT_U2]),
     (''NewArrayWithBufferLong'', [OT_R, OT_U2, OT_U2, OT_U4]), (''NewArray'', [OT_R, OT_U2]),
     (''Mov'', [OT_R, OT_R]), (''MovLong'', [OT_R4, OT_R4]), (''Negate'', [OT_R, OT_R]),
     (''Not'', [OT_R, OT_R]), (''BitNot'', [OT_R, OT_R]), (''TypeOf'', [OT_R, OT_R]),
     (''Eq'', [OT_R, OT_R, OT_R]), (''StrictEq'', [OT_R, OT_R, OT_R]),
     (''Neq'', [OT_R, OT_R, OT_R]), (''StrictNeq'', [OT_R, OT_R, OT_R]),
     (''Less'', [OT_R, OT_R, OT_R]), (''LessEq'', [OT_R, OT_R, OT_R]),
     (''Greater'', [OT_R, OT_R, OT_R]), (''GreaterEq'', [OT_R, OT_R, OT_R]),
     (''Add'', [OT_R, OT_R, OT_R]), (''AddN'', [OT_R, OT_R, OT_R]), (''Mul'', [OT_R, OT_R, OT_R]),
     (''MulN'', [OT_R, OT_R, OT_R]), (''Div'', [OT_R, OT_R, OT_R]),
     (''DivN'', [OT_R, OT_R, OT_R]), (''Mod'', [OT_R, OT_R, OT_R]), (''Sub'', [OT_R, OT_R, OT_R]),
     (''SubN'', [OT_R, OT_R, OT_R]), (''LShift'', [OT_R, OT_R, OT_R]),
     (''RShift'', [OT_R, OT_R, OT_R]), (''URshift'', [OT_R, OT_R, OT_R]),
     (''BitAnd'', [OT_R, OT_R, OT_R]), (''BitXor'', [OT_R, OT_R, OT_R]),
     (''BitOr'', [OT_R, OT_R, OT_R]), (''Inc'', [OT_R, OT_R]), (''Dec'', [OT_R, OT_R]),
     (''InstanceOf'', [OT_R, OT_R, OT_R]), (''IsIn'', [OT_R, OT_R, OT_R]),
     (''GetEnvironment'', [OT_R, OT_U1]), (''StoreToEnvironment'', [OT_R, OT_U1, OT_R]),
     (''StoreToEnvironmentL'', [OT_R, OT_U2, OT_R]),
     (''StoreNPToEnvironment'', [OT_R, OT_U1, OT_R]),
     (''StoreNPToEnvironmentL'', [OT_R, OT_U2, OT_R]),
     (''LoadFromEnvironment'', [OT_R, OT_R, OT_U1]),
     (''LoadFromEnvironmentL'', [OT_R, OT_R, OT_U2]), (''GetGlobalObject'', [OT_R]),
     (''GetNewTarget'', [OT_R]), (''CreateEnvironment'', [OT_R]), (''DeclareGlobalVar'', [OT_U4]),
     (''GetByIdShort'', [OT_R, OT_R, OT_U1, OT_U1]), (''GetById'', [OT_R, OT_R, OT_U1, OT_U2]),
     (''GetByIdLong'', [OT_R, OT_R, OT_U1, OT_U4]), (''TryGetById'', [OT_R, OT_R, OT_U1, OT_U2]),
     (''TryGetByIdLong'', [OT_R, OT_R, OT_U1, OT_U4]), (''PutById'', [OT_R, OT_R, OT_U1, OT_U2]),
     (''PutByIdLong'', [OT_R, OT_R, OT_U1, OT_U4]), (''TryPutById'', [OT_R, OT_R, OT_U1, OT_U2]),
     (''TryPutByIdLong'', [OT_R, OT_R, OT_U1, OT_U4]),
     (''PutNewOwnByIdShort'', [OT_R, OT_R, OT_U1]), (''PutNewOwnById'', [OT_R, OT_R, OT_U2]),
     (''PutNewOwnByIdLong'', [OT_R, OT_R, OT_U4]), (''PutNewOwnNEById'', [OT_R, OT_R, OT_U2]),
     (''PutNewOwnNEByIdLong'', [OT_R, OT_R, OT_U4]), (''PutOwnByIndex'', [OT_R, OT_R, OT_U1]),
     (''PutOwnByIndexL'', [OT_R, OT_R, OT_U4]), (''PutOwnByVal'', [OT_R, OT_R, OT_R, OT_U1]),
     (''DelById'', [OT_R, OT_R, OT_U2]), (''DelByIdLong'', [OT_R, OT_R, OT_U4]),
     (''GetByVal'', [OT_R, OT_R, OT_R]), (''PutByVal'', [OT_R, OT_R, OT_R]),
     (''DelByVal'', [OT_R, OT_R, OT_R]),
     (''PutOwnGetterSetterByVal'', [OT_R, OT_R, OT_R, OT_R, OT_U1]),
     (''GetPNameList'', [OT_R, OT_R, OT_R, OT_R]),
     (''GetNextPName'', [OT_R, OT_R, OT_R, OT_R, OT_R]), (''Call'', [OT_R, OT_R, OT_U1]),
     (''Construct'', [OT_R, OT_R, OT_U1]), (''Call1'', [OT_R, OT_R, OT_R]),
     (''CallDirect'', [OT_R, OT_U1, OT_U2]), (''Call2'', [OT_R, OT_R, OT_R, OT_R]),
     (''Call3'', [OT_R, OT_R, OT_R, OT_R, OT_R]),
     (''Call4'', [OT_R, OT_R, OT_R, OT_R, OT_R, OT_R]), (''CallLong'', [OT_R, OT_R, OT_U4]),
     (''ConstructLong'', [OT_R, OT_R, OT_U4]), (''CallDirectLongIndex'', [OT_R, OT_U1, OT_U4]),
     (''CallBuiltin'', [OT_R, OT_U1, OT_U1]), (''CallBuiltinLong'', [OT_R, OT_U1, OT_U4]),
     (''GetBuiltinClosure'', [OT_R, OT_U1]), (''Ret'', [OT_R]), (''Catch'', [OT_R]),
     (''DirectEval'', [OT_R, OT_R]), (''Throw'', [OT_R]), (''ThrowIfEmpty'', [OT_R, OT_R]),
     (''Debugger'', []), (''AsyncBreakCheck'', []), (''ProfilePoint'', [OT_U2]),
     (''CreateClosure'', [OT_R, OT_R, OT_U2]), (''CreateClosureLongIndex'', [OT_R, OT_R, OT_U4]),
     (''CreateGeneratorClosure'', [OT_R, OT_R, OT_U2]),
     (''CreateGeneratorClosureLongIndex'', [OT_R, OT_R, OT_U4]),
     (''CreateAsyncClosure'', [OT_R, OT_R, OT_U2]),
     (''CreateAsyncClosureLongIndex'', [OT_R, OT_R, OT_U4]), (''CreateThis'', [OT_R, OT_R, OT_R]),
     (''SelectObject'', [OT_R, OT_R, OT_R]), (''LoadParam'', [OT_R, OT_U1]),
     (''LoadParamLong'', [OT_R, OT_U4]), (''LoadConstUInt8'', [OT_R, OT_U1]),
     (''LoadConstInt'', [OT_R, OT_I4]), (''LoadConstDouble'', [OT_R, OT_D]),
     (''LoadConstString'', [OT_R, OT_U2]), (''LoadConstStringLongIndex'', [OT_R, OT_U4]),
     (''LoadConstEmpty'', [OT_R]), (''LoadConstUndefined'', [OT_R]), (''LoadConstNull'', [OT_R]),
     (''LoadConstTrue'', [OT_R]), (''LoadConstFalse'', [OT_R]), (''LoadConstZero'', [OT_R]),
     (''CoerceThisNS'', [OT_R, OT_R]), (''LoadThisNS'', [OT_R]), (''ToNumber'', [OT_R, OT_R]),
     (''ToInt32'', [OT_R, OT_R]), (''AddEmptyString'', [OT_R, OT_R]),
     (''GetArgumentsPropByVal'', [OT_R, OT_R, OT_R]), (''GetArgumentsLength'', [OT_R, OT_R]),
     (''ReifyArguments'', [OT_R]), (''CreateRegExp'', [OT_R, OT_U4, OT_U4, OT_U4]),
     (''SwitchImm'', [OT_R, OT_U4, OT_A4, OT_U4, OT_U4]), (''StartGenerator'', []),
     (''ResumeGenerator'', [OT_R, OT_R]), (''CompleteGenerator'', []),
     (''CreateGenerator'', [OT_R, OT_R, OT_U2]),
     (''CreateGeneratorLongIndex'', [OT_R, OT_R, OT_U4]), (''IteratorBegin'', [OT_R, OT_R]),
     (''IteratorNext'', [OT_R, OT_R, OT_R]), (''IteratorClose'', [OT_R, OT_U1]),
     (''Jmp'', [OT_A1]), (''JmpLong'', [OT_A4]), (''JmpTrue'', [OT_A1, OT_R]),
     (''JmpTrueLong'', [OT_A4, OT_R]), (''JmpFalse'', [OT_A1, OT_R]),
     (''JmpFalseLong'', [OT_A4, OT_R]), (''JmpUndefined'', [OT_A1, OT_R]),
     (''JmpUndefinedLong'', [OT_A4, OT_R]), (''SaveGenerator'', [OT_A1]),
     (''SaveGeneratorLong'', [OT_A4]), (''JLess'', [OT_A1, OT_R, OT_R]),
     (''JLessLong'', [OT_A4, OT_R, OT_R]), (''JNotLess'', [OT_A1, OT_R, OT_R]),
     (''JNotLessLong'', [OT_A4, OT_R, OT_R]), (''JLessN'', [OT_A1, OT_R, OT_R]),
     (''JLessNLong'', [OT_A4, OT_R, OT_R]), (''JNotLessN'', [OT_A1, OT_R, OT_R]),
     (''JNotLessNLong'', [OT_A4, OT_R, OT_R]), (''JLessEqual'', [OT_A1, OT_R, OT_R]),
     (''JLessEqualLong'', [OT_A4, OT_R, OT_R]), (''JNotLessEqual'', [OT_A1, OT_R, OT_R]),
     (''JNotLessEqualLong'', [OT_A4, OT_R, OT_R]), (''JLessEqualN'', [OT_A1, OT_R, OT_R]),
     (''JLessEqualNLong'', [OT_A4, OT_R, OT_R]), (''JNotLessEqualN'', [OT_A1, OT_R, OT_R]),
     (''JNotLessEqualNLong'', [OT_A4, OT_R, OT_R]), (''JGreater'', [OT_A1, OT_R, OT_R]),
     (''JGreaterLong'', [OT_A4, OT_R, OT_R]), (''JNotGreater'', [OT_A1, OT_R, OT_R]),
     (''JNotGreaterLong'', [OT_A4, OT_R, OT_R]), (''JGreaterN'', [OT_A1, OT_R, OT_R]),
     (''JGreaterNLong'', [OT_A4, OT_R, OT_R]), (''JNotGreaterN'', [OT_A1, OT_R, OT_R]),
     (''JNotGreaterNLong'', [OT_A4, OT_R, OT_R]), (''JGreaterEqual'', [OT_A1, OT_R, OT_R]),
     (''JGreaterEqualLong'', [OT_A4, OT_R, OT_R]), (''JNotGreaterEqual'', [OT_A1, OT_R, OT_R]),
     (''JNotGreaterEqualLong'', [OT_A4, OT_R, OT_R]), (''JGreaterEqualN'', [OT_A1, OT_R, OT_R]),
     (''JGreaterEqualNLong'', [OT_A4, OT_R, OT_R]), (''JNotGreaterEqualN'', [OT_A1, OT_R, OT_R]),
     (''JNotGreaterEqualNLong'', [OT_A4, OT_R, OT_R]), (''JEqual'', [OT_A1, OT_R, OT_R]),
     (''JEqualLong'', [OT_A4, OT_R, OT_R]), (''JNotEqual'', [OT_A1, OT_R, OT_R]),
     (''JNotEqualLong'', [OT_A4, OT_R, OT_R]), (''JStrictEqual'', [OT_A1, OT_R, OT_R]),
     (''JStrictEqualLong'', [OT_A4, OT_R, OT_R]), (''JStrictNotEqual'', [OT_A1, OT_R, OT_R]),
     (''JStrictNotEqualLong'', [OT_A4, OT_R, OT_R]), (''Add32'', [OT_R, OT_R, OT_R]),
     (''Sub32'', [OT_R, OT_R, OT_R]), (''Mul32'', [OT_R, OT_R, OT_R]),
     (''Divi32'', [OT_R, OT_R, OT_R]), (''Divu32'', [OT_R, OT_R, OT_R]),
     (''Loadi8'', [OT_R, OT_R, OT_R]), (''Loadu8'', [OT_R, OT_R, OT_R]),
     (''Loadi16'', [OT_R, OT_R, OT_R]), (''Loadu16'', [OT_R, OT_R, OT_R]),
     (''Loadi32'', [OT_R, OT_R, OT_R]), (''Loadu32'', [OT_R, OT_R, OT_R]),
     (''Store8'', [OT_R, OT_R, OT_R]), (''Store16'', [OT_R, OT_R, OT_R]),
     (''Store32'', [OT_R, OT_R, OT_R])]"

definition V85_STRING_IDS :: "(u8 \<times> u8) list" where
  "V85_STRING_IDS =
    [(51, 0), (52, 3), (53, 3), (54, 3), (55, 3), (56, 3), (57, 3), (58, 3), (59, 3), (60, 3),
     (61, 2), (62, 2), (63, 2), (64, 2), (65, 2), (69, 2), (70, 2), (111, 1), (112, 1), (127, 2)]"

definition V85_FUNC_IDS :: "(u8 \<times> u8) list" where
  "V85_FUNC_IDS = []"

definition V85_TABLES :: version_tables where
  "V85_TABLES =
    \<lparr>vt_opcodes = V85_OPCODES, vt_sizes = V85_SIZES, vt_str_ops = V85_STR_OPS, vt_call_ops = V85_CALL_OPS,
     vt_names = V85_NAMES, vt_schemas = V85_SCHEMAS, vt_string_ids = V85_STRING_IDS, vt_func_ids = V85_FUNC_IDS\<rparr>"

lemmas V85_types = V85_SCHEMAS_def [THEN arg_cong [of _ _ "map snd"], unfolded list.map snd_conv]

lemma V85_names: "V85_NAMES = map OpCode_name V85_OPCODES" "map fst V85_SCHEMAS = V85_NAMES"
  by (simp_all only: V85_NAMES_def V85_OPCODES_def V85_SCHEMAS_def list.map opcode_name fst_conv)

lemma V85_agree: "tables_agree V85_TABLES"
  unfolding V85_TABLES_def
  by (rule tables_agreeI [OF _ _ V85_names V85_types])
    (simp_all add: opcodes_upt V85_OPCODES_def V85_SIZES_def V85_STR_OPS_def V85_STRING_IDS_def
      V85_CALL_OPS_def V85_FUNC_IDS_def table_checks)

subsection \<open>Version 87\<close>

definition V87_OPCODES :: "OpCode list" where
  "V87_OPCODES =
    [OP_Unreachable, OP_NewObjectWithBuffer, OP_NewObjectWithBufferLong, OP_NewObject,
     OP_NewObjectWithParent, OP_NewArrayWithBuffer, OP_NewArrayWithBufferLong, OP_NewArray,
     OP_Mov, OP_MovLong, OP_Negate, OP_Not, OP_BitNot, OP_TypeOf, OP_Eq, OP_StrictEq, OP_Neq,
     OP_StrictNeq, OP_Less, OP_LessEq, OP_Greater, OP_GreaterEq, OP_Add, OP_AddN, OP_Mul, OP_MulN,
     OP_Div, OP_DivN, OP_Mod, OP_Sub, OP_SubN, OP_LShift, OP_RShift, OP_URshift, OP_BitAnd,
     OP_BitXor, OP_BitOr, OP_Inc, OP_Dec, OP_InstanceOf, OP_IsIn, OP_GetEnvironment,
     OP_StoreToEnvironment, OP_StoreToEnvironmentL, OP_StoreNPToEnvironment,
     OP_StoreNPToEnvironmentL, OP_LoadFromEnvironment, OP_LoadFromEnvironmentL,
     OP_GetGlobalObject, OP_GetNewTarget, OP_CreateEnvironment, OP_DeclareGlobalVar,
     OP_GetByIdShort, OP_GetById, OP_GetByIdLong, OP_TryGetById, OP_TryGetByIdLong, OP_PutById,
     OP_PutByIdLong, OP_TryPutById, OP_TryPutByIdLong, OP_PutNewOwnByIdShort, OP_PutNewOwnById,
     OP_PutNewOwnByIdLong, OP_PutNewOwnNEById, OP_PutNewOwnNEByIdLong, OP_PutOwnByIndex,
     OP_PutOwnByIndexL, OP_PutOwnByVal, OP_DelById, OP_DelByIdLong, OP_GetByVal, OP_PutByVal,
     OP_DelByVal, OP_PutOwnGetterSetterByVal, OP_GetPNameList, OP_GetNextPName, OP_Call,
     OP_Construct, OP_Call1, OP_CallDirect, OP_Call2, OP_Call3, OP_Call4, OP_CallLong,
     OP_ConstructLong, OP_CallDirectLongIndex, OP_CallBuiltin, OP_CallBuiltinLong,
     OP_GetBuiltinClosure, OP_Ret, OP_Catch, OP_DirectEval, OP_Throw, OP_ThrowIfEmpty,
     OP_Debugger, OP_AsyncBreakCheck, OP_ProfilePoint, OP_CreateClosure,
     OP_CreateClosureLongIndex, OP_CreateGeneratorClosure, OP_CreateGeneratorClosureLongIndex,
     OP_CreateAsyncClosure, OP_CreateAsyncClosureLongIndex, OP_CreateThis, OP_SelectObject,
     OP_LoadParam, OP_LoadParamLong, OP_LoadConstUInt8, OP_LoadConstInt, OP_LoadConstDouble,
     OP_LoadConstBigInt, OP_LoadConstBigIntLongIndex, OP_LoadConstString,
     OP_LoadConstStringLongIndex, OP_LoadConstEmpty, OP_LoadConstUndefined, OP_LoadConstNull,
     OP_LoadConstTrue, OP_LoadConstFalse, OP_LoadConstZero, OP_CoerceThisNS, OP_LoadThisNS,
     OP_ToNumber, OP_ToNumeric, OP_ToInt32, OP_AddEmptyString, OP_GetArgumentsPropByVal,
     OP_GetArgumentsLength, OP_ReifyArguments, OP_CreateRegExp, OP_SwitchImm, OP_StartGenerator,
     OP_ResumeGenerator, OP_CompleteGenerator, OP_CreateGenerator, OP_CreateGeneratorLongIndex,
     OP_IteratorBegin, OP_IteratorNext, OP_IteratorClose, OP_Jmp, OP_JmpLong, OP_JmpTrue,
     OP_JmpTrueLong, OP_JmpFalse, OP_JmpFalseLong, OP_JmpUndefined, OP_JmpUndefinedLong,
     OP_SaveGenerator, OP_SaveGeneratorLong, OP_JLess, OP_JLessLong, OP_JNotLess, OP_JNotLessLong,
     OP_JLessN, OP_JLessNLong, OP_JNotLessN, OP_JNotLessNLong, OP_JLessEqual, OP_JLessEqualLong,
     OP_JNotLessEqual, OP_JNotLessEqualLong, OP_JLessEqualN, OP_JLessEqualNLong,
     OP_JNotLessEqualN, OP_JNotLessEqualNLong, OP_JGreater, OP_JGreaterLong, OP_JNotGreater,
     OP_JNotGreaterLong, OP_JGreaterN, OP_JGreaterNLong, OP_JNotGreaterN, OP_JNotGreaterNLong,
     OP_JGreaterEqual, OP_JGreaterEqualLong, OP_JNotGreaterEqual, OP_JNotGreaterEqualLong,
     OP_JGreaterEqualN, OP_JGreaterEqualNLong, OP_JNotGreaterEqualN, OP_JNotGreaterEqualNLong,
     OP_JEqual, OP_JEqualLong, OP_JNotEqual, OP_JNotEqualLong, OP_JStrictEqual,
     OP_JStrictEqualLong, OP_JStrictNotEqual, OP_JStrictNotEqualLong, OP_Add32, OP_Sub32,
     OP_Mul32, OP_Divi32, OP_Divu32, OP_Loadi8, OP_Loadu8, OP_Loadi16, OP_Loadu16, OP_Loadi32,
     OP_Loadu32, OP_Store8, OP_Store16, OP_Store32]"

definition V87_SIZES :: "u8 list" where
  "V87_SIZES =
    [1, 10, 14, 2, 3, 8, 10, 4, 3, 9, 3, 3, 3, 3, 4, 4, 4, 4, 4, 4, 4, 4, 4, 4, 4, 4, 4, 4, 4, 4,
     4, 4, 4, 4, 4, 4, 4, 3, 3, 4, 4, 3, 4, 5, 4, 5, 4, 5, 2, 2, 2, 5, 5, 6, 8, 6, 8, 6, 8, 6, 8,
     4, 5, 7, 5, 7, 4, 7, 5, 5, 7, 4, 4, 4, 6, 5, 6, 4, 4, 4, 5, 5, 6, 7, 7, 7, 7, 4, 7, 3, 2, 2,
     3, 2, 3, 1, 1, 3, 5, 7, 5, 7, 5, 7, 4, 4, 3, 6, 3, 6, 10, 4, 6, 4, 6, 2, 2, 2, 2, 2, 2, 3, 2,
     3, 3, 3, 3, 4, 3, 2, 14, 18, 1, 3, 1, 5, 7, 3, 4, 3, 2, 5, 3, 6, 3, 6, 3, 6, 2, 5, 4, 7, 4,
     7, 4, 7, 4, 7, 4, 7, 4, 7, 4, 7, 4, 7, 4, 7, 4, 7, 4, 7, 4, 7, 4, 7, 4, 7, 4, 7, 4, 7, 4, 7,
     4, 7, 4, 7, 4, 7, 4, 4, 4, 4, 4, 4, 4, 4, 4, 4, 4, 4, 4, 4]"

definition V87_STR_OPS :: "(u8 \<times> u8 \<times> u8) list" where
  "V87_STR_OPS =
    [(51, 1, 4), (52, 4, 1), (53, 4, 2), (54, 4, 4), (55, 4, 2), (56, 4, 4), (57, 4, 2),
     (58, 4, 4), (59, 4, 2), (60, 4, 4), (61, 3, 1), (62, 3, 2), (63, 3, 4), (64, 3, 2),
     (65, 3, 4), (69, 3, 2), (70, 3, 4), (113, 2, 2), (114, 2, 4), (130, 6, 4)]"

definition V87_CALL_OPS :: "(u8 \<times> u8 \<times> u8) list" where
  "V87_CALL_OPS =
    [(80, 3, 2), (86, 3, 4)]"

definition V87_NAMES :: "string list" where
  "V87_NAMES =
    [''Unreachable'', ''NewObjectWithBuffer'', ''NewObjectWithBufferLong'', ''NewObject'',
     ''NewObjectWithParent'', ''NewArrayWithBuffer'', ''NewArrayWithBufferLong'', ''NewArray'',
     ''Mov'', ''MovLong'', ''Negate'', ''Not'', ''BitNot'', ''TypeOf'', ''Eq'', ''StrictEq'',
     ''Neq'', ''StrictNeq'', ''Less'', ''LessEq'', ''Greater'', ''GreaterEq'', ''Add'', ''AddN'',
     ''Mul'', ''MulN'', ''Div'', ''DivN'', ''Mod'', ''Sub'', ''SubN'', ''LShift'', ''RShift'',
     ''URshift'', ''BitAnd'', ''BitXor'', ''BitOr'', ''Inc'', ''Dec'', ''InstanceOf'', ''IsIn'',
     ''GetEnvironment'', ''StoreToEnvironment'', ''StoreToEnvironmentL'',
     ''StoreNPToEnvironment'', ''StoreNPToEnvironmentL'', ''LoadFromEnvironment'',
     ''LoadFromEnvironmentL'', ''GetGlobalObject'', ''GetNewTarget'', ''CreateEnvironment'',
     ''DeclareGlobalVar'', ''GetByIdShort'', ''GetById'', ''GetByIdLong'', ''TryGetById'',
     ''TryGetByIdLong'', ''PutById'', ''PutByIdLong'', ''TryPutById'', ''TryPutByIdLong'',
     ''PutNewOwnByIdShort'', ''PutNewOwnById'', ''PutNewOwnByIdLong'', ''PutNewOwnNEById'',
     ''PutNewOwnNEByIdLong'', ''PutOwnByIndex'', ''PutOwnByIndexL'', ''PutOwnByVal'', ''DelById'',
     ''DelByIdLong'', ''GetByVal'', ''PutByVal'', ''DelByVal'', ''PutOwnGetterSetterByVal'',
     ''GetPNameList'', ''GetNextPName'', ''Call'', ''Construct'', ''Call1'', ''CallDirect'',
     ''Call2'', ''Call3'', ''Call4'', ''CallLong'', ''ConstructLong'', ''CallDirectLongIndex'',
     ''CallBuiltin'', ''CallBuiltinLong'', ''GetBuiltinClosure'', ''Ret'', ''Catch'',
     ''DirectEval'', ''Throw'', ''ThrowIfEmpty'', ''Debugger'', ''AsyncBreakCheck'',
     ''ProfilePoint'', ''CreateClosure'', ''CreateClosureLongIndex'', ''CreateGeneratorClosure'',
     ''CreateGeneratorClosureLongIndex'', ''CreateAsyncClosure'', ''CreateAsyncClosureLongIndex'',
     ''CreateThis'', ''SelectObject'', ''LoadParam'', ''LoadParamLong'', ''LoadConstUInt8'',
     ''LoadConstInt'', ''LoadConstDouble'', ''LoadConstBigInt'', ''LoadConstBigIntLongIndex'',
     ''LoadConstString'', ''LoadConstStringLongIndex'', ''LoadConstEmpty'',
     ''LoadConstUndefined'', ''LoadConstNull'', ''LoadConstTrue'', ''LoadConstFalse'',
     ''LoadConstZero'', ''CoerceThisNS'', ''LoadThisNS'', ''ToNumber'', ''ToNumeric'',
     ''ToInt32'', ''AddEmptyString'', ''GetArgumentsPropByVal'', ''GetArgumentsLength'',
     ''ReifyArguments'', ''CreateRegExp'', ''SwitchImm'', ''StartGenerator'', ''ResumeGenerator'',
     ''CompleteGenerator'', ''CreateGenerator'', ''CreateGeneratorLongIndex'', ''IteratorBegin'',
     ''IteratorNext'', ''IteratorClose'', ''Jmp'', ''JmpLong'', ''JmpTrue'', ''JmpTrueLong'',
     ''JmpFalse'', ''JmpFalseLong'', ''JmpUndefined'', ''JmpUndefinedLong'', ''SaveGenerator'',
     ''SaveGeneratorLong'', ''JLess'', ''JLessLong'', ''JNotLess'', ''JNotLessLong'', ''JLessN'',
     ''JLessNLong'', ''JNotLessN'', ''JNotLessNLong'', ''JLessEqual'', ''JLessEqualLong'',
     ''JNotLessEqual'', ''JNotLessEqualLong'', ''JLessEqualN'', ''JLessEqualNLong'',
     ''JNotLessEqualN'', ''JNotLessEqualNLong'', ''JGreater'', ''JGreaterLong'', ''JNotGreater'',
     ''JNotGreaterLong'', ''JGreaterN'', ''JGreaterNLong'', ''JNotGreaterN'',
     ''JNotGreaterNLong'', ''JGreaterEqual'', ''JGreaterEqualLong'', ''JNotGreaterEqual'',
     ''JNotGreaterEqualLong'', ''JGreaterEqualN'', ''JGreaterEqualNLong'', ''JNotGreaterEqualN'',
     ''JNotGreaterEqualNLong'', ''JEqual'', ''JEqualLong'', ''JNotEqual'', ''JNotEqualLong'',
     ''JStrictEqual'', ''JStrictEqualLong'', ''JStrictNotEqual'', ''JStrictNotEqualLong'',
     ''Add32'', ''Sub32'', ''Mul32'', ''Divi32'', ''Divu32'', ''Loadi8'', ''Loadu8'', ''Loadi16'',
     ''Loadu16'', ''Loadi32'', ''Loadu32'', ''Store8'', ''Store16'', ''Store32'']"

definition V87_SCHEMAS :: "(string \<times> OpType list) list" where
  "V87_SCHEMAS =
    [(''Unreachable'', []), (''NewObjectWithBuffer'', [OT_R, OT_U2, OT_U2, OT_U2, OT_U2]),
     (''NewObjectWithBufferLong'', [OT_R, OT_U2, OT_U2, OT_U4, OT_U4]), (''NewObject'', [OT_R]),
     (''NewObjectWithParent'', [OT_R, OT_R]),
     (''NewArrayWithBuffer'', [OT_R, OT_U2, OT_U2, OT_U2]),
     (''NewArrayWithBufferLong'', [OT_R, OT_U2, OT_U2, OT_U4]), (''NewArray'', [OT_R, OT_U2]),
     (''Mov'', [OT_R, OT_R]), (''MovLong'', [OT_R4, OT_R4]), (''Negate'', [OT_R, OT_R]),
     (''Not'', [OT_R, OT_R]), (''BitNot'', [OT_R, OT_R]), (''TypeOf'', [OT_R, OT_R]),
     (''Eq'', [OT_R, OT_R, OT_R]), (''StrictEq'', [OT_R, OT_R, OT_R]),
     (''Neq'', [OT_R, OT_R, OT_R]), (''StrictNeq'', [OT_R, OT_R, OT_R]),
     (''Less'', [OT_R, OT_R, OT_R]), (''LessEq'', [OT_R, OT_R, OT_R]),
     (''Greater'', [OT_R, OT_R, OT_R]), (''GreaterEq'', [OT_R, OT_R, OT_R]),
     (''Add'', [OT_R, OT_R, OT_R]), (''AddN'', [OT_R, OT_R, OT_R]), (''Mul'', [OT_R, OT_R, OT_R]),
     (''MulN'', [OT_R, OT_R, OT_R]), (''Div'', [OT_R, OT_R, OT_R]),
     (''DivN'', [OT_R, OT_R, OT_R]), (''Mod'', [OT_R, OT_R, OT_R]), (''Sub'', [OT_R, OT_R, OT_R]),
     (''SubN'', [OT_R, OT_R, OT_R]), (''LShift'', [OT_R, OT_R, OT_R]),
     (''RShift'', [OT_R, OT_R, OT_R]), (''URshift'', [OT_R, OT_R, OT_R]),
     (''BitAnd'', [OT_R, OT_R, OT_R]), (''BitXor'', [OT_R, OT_R, OT_R]),
     (''BitOr'', [OT_R, OT_R, OT_R]), (''Inc'', [OT_R, OT_R]), (''Dec'', [OT_R, OT_R]),
     (''InstanceOf'', [OT_R, OT_R, OT_R]), (''IsIn'', [OT_R, OT_R, OT_R]),
     (''GetEnvironment'', [OT_R, OT_U1]), (''StoreToEnvironment'', [OT_R, OT_U1, OT_R]),
     (''StoreToEnvironmentL'', [OT_R, OT_U2, OT_R]),
     (''StoreNPToEnvironment'', [OT_R, OT_U1, OT_R]),
     (''StoreNPToEnvironmentL'', [OT_R, OT_U2, OT_R]),
     (''LoadFromEnvironment'', [OT_R, OT_R, OT_U1]),
     (''LoadFromEnvironmentL'', [OT_R, OT_R, OT_U2]), (''GetGlobalObject'', [OT_R]),
     (''GetNewTarget'', [OT_R]), (''CreateEnvironment'', [OT_R]), (''DeclareGlobalVar'', [OT_U4]),
     (''GetByIdShort'', [OT_R, OT_R, OT_U1, OT_U1]), (''GetById'', [OT_R, OT_R, OT_U1, OT_U2]),
     (''GetByIdLong'', [OT_R, OT_R, OT_U1, OT_U4]), (''TryGetById'', [OT_R, OT_R, OT_U1, OT_U2]),
     (''TryGetByIdLong'', [OT_R, OT_R, OT_U1, OT_U4]), (''PutById'', [OT_R, OT_R, OT_U1, OT_U2]),
     (''PutByIdLong'', [OT_R, OT_R, OT_U1, OT_U4]), (''TryPutById'', [OT_R, OT_R, OT_U1, OT_U2]),
     (''TryPutByIdLong'', [OT_R, OT_R, OT_U1, OT_U4]),
     (''PutNewOwnByIdShort'', [OT_R, OT_R, OT_U1]), (''PutNewOwnById'', [OT_R, OT_R, OT_U2]),
     (''PutNewOwnByIdLong'', [OT_R, OT_R, OT_U4]), (''PutNewOwnNEById'', [OT_R, OT_R, OT_U2]),
     (''PutNewOwnNEByIdLong'', [OT_R, OT_R, OT_U4]), (''PutOwnByIndex'', [OT_R, OT_R, OT_U1]),
     (''PutOwnByIndexL'', [OT_R, OT_R, OT_U4]), (''PutOwnByVal'', [OT_R, OT_R, OT_R, OT_U1]),
     (''DelById'', [OT_R, OT_R, OT_U2]), (''DelByIdLong'', [OT_R, OT_R, OT_U4]),
     (''GetByVal'', [OT_R, OT_R, OT_R]), (''PutByVal'', [OT_R, OT_R, OT_R]),
     (''DelByVal'', [OT_R, OT_R, OT_R]),
     (''PutOwnGetterSetterByVal'', [OT_R, OT_R, OT_R, OT_R, OT_U1]),
     (''GetPNameList'', [OT_R, OT_R, OT_R, OT_R]),
     (''GetNextPName'', [OT_R, OT_R, OT_R, OT_R, OT_R]), (''Call'', [OT_R, OT_R, OT_U1]),
     (''Construct'', [OT_R, OT_R, OT_U1]), (''Call1'', [OT_R, OT_R, OT_R]),
     (''CallDirect'', [OT_R, OT_U1, OT_U2]), (''Call2'', [OT_R, OT_R, OT_R, OT_R]),
     (''Call3'', [OT_R, OT_R, OT_R, OT_R, OT_R]),
     (''Call4'', [OT_R, OT_R, OT_R, OT_R, OT_R, OT_R]), (''CallLong'', [OT_R, OT_R, OT_U4]),
     (''ConstructLong'', [OT_R, OT_R, OT_U4]), (''CallDirectLongIndex'', [OT_R, OT_U1, OT_U4]),
     (''CallBuiltin'', [OT_R, OT_U1, OT_U1]), (''CallBuiltinLong'', [OT_R, OT_U1, OT_U4]),
     (''GetBuiltinClosure'', [OT_R, OT_U1]), (''Ret'', [OT_R]), (''Catch'', [OT_R]),
     (''DirectEval'', [OT_R, OT_R]), (''Throw'', [OT_R]), (''ThrowIfEmpty'', [OT_R, OT_R]),
     (''Debugger'', []), (''AsyncBreakCheck'', []), (''ProfilePoint'', [OT_U2]),
     (''CreateClosure'', [OT_R, OT_R, OT_U2]), (''CreateClosureLongIndex'', [OT_R, OT_R, OT_U4]),
     (''CreateGeneratorClosure'', [OT_R, OT_R, OT_U2]),
     (''CreateGeneratorClosureLongIndex'', [OT_R, OT_R, OT_U4]),
     (''CreateAsyncClosure'', [OT_R, OT_R, OT_U2]),
     (''CreateAsyncClosureLongIndex'', [OT_R, OT_R, OT_U4]), (''CreateThis'', [OT_R, OT_R, OT_R]),
     (''SelectObject'', [OT_R, OT_R, OT_R]), (''LoadParam'', [OT_R, OT_U1]),
     (''LoadParamLong'', [OT_R, OT_U4]), (''LoadConstUInt8'', [OT_R, OT_U1]),
     (''LoadConstInt'', [OT_R, OT_I4]), (''LoadConstDouble'', [OT_R, OT_D]),
     (''LoadConstBigInt'', [OT_R, OT_U2]), (''LoadConstBigIntLongIndex'', [OT_R, OT_U4]),
     (''LoadConstString'', [OT_R, OT_U2]), (''LoadConstStringLongIndex'', [OT_R, OT_U4]),
     (''LoadConstEmpty'', [OT_R]), (''LoadConstUndefined'', [OT_R]), (''LoadConstNull'', [OT_R]),
     (''LoadConstTrue'', [OT_R]), (''LoadConstFalse'', [OT_R]), (''LoadConstZero'', [OT_R]),
     (''CoerceThisNS'', [OT_R, OT_R]), (''LoadThisNS'', [OT_R]), (''ToNumber'', [OT_R, OT_R]),
     (''ToNumeric'', [OT_R, OT_R]), (''ToInt32'', [OT_R, OT_R]),
     (''AddEmptyString'', [OT_R, OT_R]), (''GetArgumentsPropByVal'', [OT_R, OT_R, OT_R]),
     (''GetArgumentsLength'', [OT_R, OT_R]), (''ReifyArguments'', [OT_R]),
     (''CreateRegExp'', [OT_R, OT_U4, OT_U4, OT_U4]),
     (''SwitchImm'', [OT_R, OT_U4, OT_A4, OT_U4, OT_U4]), (''StartGenerator'', []),
     (''ResumeGenerator'', [OT_R, OT_R]), (''CompleteGenerator'', []),
     (''CreateGenerator'', [OT_R, OT_R, OT_U2]),
     (''CreateGeneratorLongIndex'', [OT_R, OT_R, OT_U4]), (''IteratorBegin'', [OT_R, OT_R]),
     (''IteratorNext'', [OT_R, OT_R, OT_R]), (''IteratorClose'', [OT_R, OT_U1]),
     (''Jmp'', [OT_A1]), (''JmpLong'', [OT_A4]), (''JmpTrue'', [OT_A1, OT_R]),
     (''JmpTrueLong'', [OT_A4, OT_R]), (''JmpFalse'', [OT_A1, OT_R]),
     (''JmpFalseLong'', [OT_A4, OT_R]), (''JmpUndefined'', [OT_A1, OT_R]),
     (''JmpUndefinedLong'', [OT_A4, OT_R]), (''SaveGenerator'', [OT_A1]),
     (''SaveGeneratorLong'', [OT_A4]), (''JLess'', [OT_A1, OT_R, OT_R]),
     (''JLessLong'', [OT_A4, OT_R, OT_R]), (''JNotLess'', [OT_A1, OT_R, OT_R]),
     (''JNotLessLong'', [OT_A4, OT_R, OT_R]), (''JLessN'', [OT_A1, OT_R, OT_R]),
     (''JLessNLong'', [OT_A4, OT_R, OT_R]), (''JNotLessN'', [OT_A1, OT_R, OT_R]),
     (''JNotLessNLong'', [OT_A4, OT_R, OT_R]), (''JLessEqual'', [OT_A1, OT_R, OT_R]),
     (''JLessEqualLong'', [OT_A4, OT_R, OT_R]), (''JNotLessEqual'', [OT_A1, OT_R, OT_R]),
     (''JNotLessEqualLong'', [OT_A4, OT_R, OT_R]), (''JLessEqualN'', [OT_A1, OT_R, OT_R]),
     (''JLessEqualNLong'', [OT_A4, OT_R, OT_R]), (''JNotLessEqualN'', [OT_A1, OT_R, OT_R]),
     (''JNotLessEqualNLong'', [OT_A4, OT_R, OT_R]), (''JGreater'', [OT_A1, OT_R, OT_R]),
     (''JGreaterLong'', [OT_A4, OT_R, OT_R]), (''JNotGreater'', [OT_A1, OT_R, OT_R]),
     (''JNotGreaterLong'', [OT_A4, OT_R, OT_R]), (''JGreaterN'', [OT_A1, OT_R, OT_R]),
     (''JGreaterNLong'', [OT_A4, OT_R, OT_R]), (''JNotGreaterN'', [OT_A1, OT_R, OT_R]),
     (''JNotGreaterNLong'', [OT_A4, OT_R, OT_R]), (''JGreaterEqual'', [OT_A1, OT_R, OT_R]),
     (''JGreaterEqualLong'', [OT_A4, OT_R, OT_R]), (''JNotGreaterEqual'', [OT_A1, OT_R, OT_R]),
     (''JNotGreaterEqualLong'', [OT_A4, OT_R, OT_R]), (''JGreaterEqualN'', [OT_A1, OT_R, OT_R]),
     (''JGreaterEqualNLong'', [OT_A4, OT_R, OT_R]), (''JNotGreaterEqualN'', [OT_A1, OT_R, OT_R]),
     (''JNotGreaterEqualNLong'', [OT_A4, OT_R, OT_R]), (''JEqual'', [OT_A1, OT_R, OT_R]),
     (''JEqualLong'', [OT_A4, OT_R, OT_R]), (''JNotEqual'', [OT_A1, OT_R, OT_R]),
     (''JNotEqualLong'', [OT_A4, OT_R, OT_R]), (''JStrictEqual'', [OT_A1, OT_R, OT_R]),
     (''JStrictEqualLong'', [OT_A4, OT_R, OT_R]), (''JStrictNotEqual'', [OT_A1, OT_R, OT_R]),
     (''JStrictNotEqualLong'', [OT_A4, OT_R, OT_R]), (''Add32'', [OT_R, OT_R, OT_R]),
     (''Sub32'', [OT_R, OT_R, OT_R]), (''Mul32'', [OT_R, OT_R, OT_R]),
     (''Divi32'', [OT_R, OT_R, OT_R]), (''Divu32'', [OT_R, OT_R, OT_R]),
     (''Loadi8'', [OT_R, OT_R, OT_R]), (''Loadu8'', [OT_R, OT_R, OT_R]),
     (''Loadi16'', [OT_R, OT_R, OT_R]), (''Loadu16'', [OT_R, OT_R, OT_R]),
     (''Loadi32'', [OT_R, OT_R, OT_R]), (''Loadu32'', [OT_R, OT_R, OT_R]),
     (''Store8'', [OT_R, OT_R, OT_R]), (''Store16'', [OT_R, OT_R, OT_R]),
     (''Store32'', [OT_R, OT_R, OT_R])]"

definition V87_STRING_IDS :: "(u8 \<times> u8) list" where
  "V87_STRING_IDS =
    [(51, 0), (52, 3), (53, 3), (54, 3), (55, 3), (56, 3), (57, 3), (58, 3), (59, 3), (60, 3),
     (61, 2), (62, 2), (63, 2), (64, 2), (65, 2), (69, 2), (70, 2), (113, 1), (114, 1), (130, 2)]"

definition V87_FUNC_IDS :: "(u8 \<times> u8) list" where
  "V87_FUNC_IDS = []"

definition V87_TABLES :: version_tables where
  "V87_TABLES =
    \<lparr>vt_opcodes = V87_OPCODES, vt_sizes = V87_SIZES, vt_str_ops = V87_STR_OPS, vt_call_ops = V87_CALL_OPS,
     vt_names = V87_NAMES, vt_schemas = V87_SCHEMAS, vt_string_ids = V87_STRING_IDS, vt_func_ids = V87_FUNC_IDS\<rparr>"

lemmas V87_types = V87_SCHEMAS_def [THEN arg_cong [of _ _ "map snd"], unfolded list.map snd_conv]

lemma V87_names: "V87_NAMES = map OpCode_name V87_OPCODES" "map fst V87_SCHEMAS = V87_NAMES"
  by (simp_all only: V87_NAMES_def V87_OPCODES_def V87_SCHEMAS_def list.map opcode_name fst_conv)

lemma V87_agree: "tables_agree V87_TABLES"
  unfolding V87_TABLES_def
  by (rule tables_agreeI [OF _ _ V87_names V87_types])
    (simp_all add: opcodes_upt V87_OPCODES_def V87_SIZES_def V87_STR_OPS_def V87_STRING_IDS_def
      V87_CALL_OPS_def V87_FUNC_IDS_def table_checks)

subsection \<open>Version 90\<close>

definition V90_OPCODES :: "OpCode list" where
  "V90_OPCODES =
    [OP_Unreachable, OP_NewObjectWithBuffer, OP_NewObjectWithBufferLong, OP_NewObject,
     OP_NewObjectWithParent, OP_NewArrayWithBuffer, OP_NewArrayWithBufferLong, OP_NewArray,
     OP_Mov, OP_MovLong, OP_Negate, OP_Not, OP_BitNot, OP_TypeOf, OP_Eq, OP_StrictEq, OP_Neq,
     OP_StrictNeq, OP_Less, OP_LessEq, OP_Greater, OP_GreaterEq, OP_Add, OP_AddN, OP_Mul, OP_MulN,
     OP_Div, OP_DivN, OP_Mod, OP_Sub, OP_SubN, OP_LShift, OP_RShift, OP_URshift, OP_BitAnd,
     OP_BitXor, OP_BitOr, OP_Inc, OP_Dec, OP_InstanceOf, OP_IsIn, OP_GetEnvironment,
     OP_StoreToEnvironment, OP_StoreToEnvironmentL, OP_StoreNPToEnvironment,
     OP_StoreNPToEnvironmentL, OP_LoadFromEnvironment, OP_LoadFromEnvironmentL,
     OP_GetGlobalObject, OP_GetNewTarget, OP_CreateEnvironment, OP_DeclareGlobalVar,
     OP_GetByIdShort, OP_GetById, OP_GetByIdLong, OP_TryGetById, OP_TryGetByIdLong, OP_PutById,
     OP_PutByIdLong, OP_TryPutById, OP_TryPutByIdLong, OP_PutNewOwnByIdShort, OP_PutNewOwnById,
     OP_PutNewOwnByIdLong, OP_PutNewOwnNEById, OP_PutNewOwnNEByIdLong, OP_PutOwnByIndex,
     OP_PutOwnByIndexL, OP_PutOwnByVal, OP_DelById, OP_DelByIdLong, OP_GetByVal, OP_PutByVal,
     OP_DelByVal, OP_PutOwnGetterSetterByVal, OP_GetPNameList, OP_GetNextPName, OP_Call,
     OP_Construct, OP_Call1, OP_CallDirect, OP_Call2, OP_Call3, OP_Call4, OP_CallLong,
     OP_ConstructLong, OP_CallDirectLongIndex, OP_CallBuiltin, OP_CallBuiltinLong,
     OP_GetBuiltinClosure, OP_Ret, OP_Catch, OP_DirectEval, OP_Throw, OP_ThrowIfEmpty,
     OP_Debugger, OP_AsyncBreakCheck, OP_ProfilePoint, OP_CreateClosure,
     OP_CreateClosureLongIndex, OP_CreateGeneratorClosure, OP_CreateGeneratorClosureLongIndex,
     OP_CreateAsyncClosure, OP_CreateAsyncClosureLongIndex, OP_CreateThis, OP_SelectObject,
     OP_LoadParam, OP_LoadParamLong, OP_LoadConstUInt8, OP_LoadConstInt, OP_LoadConstDouble,
     OP_LoadConstBigInt, OP_LoadConstBigIntLongIndex, OP_LoadConstString,
     OP_LoadConstStringLongIndex, OP_LoadConstEmpty, OP_LoadConstUndefined, OP_LoadConstNull,
     OP_LoadConstTrue, OP_LoadConstFalse, OP_LoadConstZero, OP_CoerceThisNS, OP_LoadThisNS,
     OP_ToNumber, OP_ToNumeric, OP_ToInt32, OP_AddEmptyString, OP_GetArgumentsPropByValLoose,
     OP_GetArgumentsPropByValStrict, OP_GetArgumentsLength, OP_ReifyArgumentsStrict,
     OP_ReifyArgumentsLoose, OP_CreateRegExp, OP_SwitchImm, OP_StartGenerator, OP_ResumeGenerator,
     OP_CompleteGenerator, OP_CreateGenerator, OP_CreateGeneratorLongIndex, OP_IteratorBegin,
     OP_IteratorNext, OP_IteratorClose, OP_Jmp, OP_JmpLong, OP_JmpTrue, OP_JmpTrueLong,
     OP_JmpFalse, OP_JmpFalseLong, OP_JmpUndefined, OP_JmpUndefinedLong, OP_SaveGenerator,
     OP_SaveGeneratorLong, OP_JLess, OP_JLessLong, OP_JNotLess, OP_JNotLessLong, OP_JLessN,
     OP_JLessNLong, OP_JNotLessN, OP_JNotLessNLong, OP_JLessEqual, OP_JLessEqualLong,
     OP_JNotLessEqual, OP_JNotLessEqualLong, OP_JLessEqualN, OP_JLessEqualNLong,
     OP_JNotLessEqualN, OP_JNotLessEqualNLong, OP_JGreater, OP_JGreaterLong, OP_JNotGreater,
     OP_JNotGreaterLong, OP_JGreaterN, OP_JGreaterNLong, OP_JNotGreaterN, OP_JNotGreaterNLong,
     OP_JGreaterEqual, OP_JGreaterEqualLong, OP_JNotGreaterEqual, OP_JNotGreaterEqualLong,
     OP_JGreaterEqualN, OP_JGreaterEqualNLong, OP_JNotGreaterEqualN, OP_JNotGreaterEqualNLong,
     OP_JEqual, OP_JEqualLong, OP_JNotEqual, OP_JNotEqualLong, OP_JStrictEqual,
     OP_JStrictEqualLong, OP_JStrictNotEqual, OP_JStrictNotEqualLong, OP_Add32, OP_Sub32,
     OP_Mul32, OP_Divi32, OP_Divu32, OP_Loadi8, OP_Loadu8, OP_Loadi16, OP_Loadu16, OP_Loadi32,
     OP_Loadu32, OP_Store8, OP_Store16, OP_Store32]"

definition V90_SIZES :: "u8 list" where
  "V90_SIZES =
    [1, 10, 14, 2, 3, 8, 10, 4, 3, 9, 3, 3, 3, 3, 4, 4, 4, 4, 4, 4, 4, 4, 4, 4, 4, 4, 4, 4, 4, 4,
     4, 4, 4, 4, 4, 4, 4, 3, 3, 4, 4, 3, 4, 5, 4, 5, 4, 5, 2, 2, 2, 5, 5, 6, 8, 6, 8, 6, 8, 6, 8,
     4, 5, 7, 5, 7, 4, 7, 5, 5, 7, 4, 4, 4, 6, 5, 6, 4, 4, 4, 5, 5, 6, 7, 7, 7, 7, 4, 7, 3, 2, 2,
     3, 2, 3, 1, 1, 3, 5, 7, 5, 7, 5, 7, 4, 4, 3, 6, 3, 6, 10, 4, 6, 4, 6, 2, 2, 2, 2, 2, 2, 3, 2,
     3, 3, 3, 3, 4, 4, 3, 2, 2, 14, 18, 1, 3, 1, 5, 7, 3, 4, 3, 2, 5, 3, 6, 3, 6, 3, 6, 2, 5, 4,
     7, 4, 7, 4, 7, 4, 7, 4, 7, 4, 7, 4, 7, 4, 7, 4, 7, 4, 7, 4, 7, 4, 7, 4, 7, 4, 7, 4, 7, 4, 7,
     4, 7, 4, 7, 4, 7, 4, 7, 4, 4, 4, 4, 4, 4, 4, 4, 4, 4, 4, 4, 4, 4]"

definition V90_STR_OPS :: "(u8 \<times> u8 \<times> u8) list" where
  "V90_STR_OPS =
    [(51, 1, 4), (52, 4, 1), (53, 4, 2), (54, 4, 4), (55, 4, 2), (56, 4, 4), (57, 4, 2),
     (58, 4, 4), (59, 4, 2), (60, 4, 4), (61, 3, 1), (62, 3, 2), (63, 3, 4), (64, 3, 2),
     (65, 3, 4), (69, 3, 2), (70, 3, 4), (113, 2, 2), (114, 2, 4), (132, 6, 4)]"

definition V90_CALL_OPS :: "(u8 \<times> u8 \<times> u8) list" where
  "V90_CALL_OPS =
    [(80, 3, 2), (86, 3, 4)]"

definition V90_NAMES :: "string list" where
  "V90_NAMES =
    [''Unreachable'', ''NewObjectWithBuffer'', ''NewObjectWithBufferLong'', ''NewObject'',
     ''NewObjectWithParent'', ''NewArrayWithBuffer'', ''NewArrayWithBufferLong'', ''NewArray'',
     ''Mov'', ''MovLong'', ''Negate'', ''Not'', ''BitNot'', ''TypeOf'', ''Eq'', ''StrictEq'',
     ''Neq'', ''StrictNeq'', ''Less'', ''LessEq'', ''Greater'', ''GreaterEq'', ''Add'', ''AddN'',
     ''Mul'', ''MulN'', ''Div'', ''DivN'', ''Mod'', ''Sub'', ''SubN'', ''LShift'', ''RShift'',
     ''URshift'', ''BitAnd'', ''BitXor'', ''BitOr'', ''Inc'', ''Dec'', ''InstanceOf'', ''IsIn'',
     ''GetEnvironment'', ''StoreToEnvironment'', ''StoreToEnvironmentL'',
     ''StoreNPToEnvironment'', ''StoreNPToEnvironmentL'', ''LoadFromEnvironment'',
     ''LoadFromEnvironmentL'', ''GetGlobalObject'', ''GetNewTarget'', ''CreateEnvironment'',
     ''DeclareGlobalVar'', ''GetByIdShort'', ''GetById'', ''GetByIdLong'', ''TryGetById'',
     ''TryGetByIdLong'', ''PutById'', ''PutByIdLong'', ''TryPutById'', ''TryPutByIdLong'',
     ''PutNewOwnByIdShort'', ''PutNewOwnById'', ''PutNewOwnByIdLong'', ''PutNewOwnNEById'',
     ''PutNewOwnNEByIdLong'', ''PutOwnByIndex'', ''PutOwnByIndexL'', ''PutOwnByVal'', ''DelById'',
     ''DelByIdLong'', ''GetByVal'', ''PutByVal'', ''DelByVal'', ''PutOwnGetterSetterByVal'',
     ''GetPNameList'', ''GetNextPName'', ''Call'', ''Construct'', ''Call1'', ''CallDirect'',
     ''Call2'', ''Call3'', ''Call4'', ''CallLong'', ''ConstructLong'', ''CallDirectLongIndex'',
     ''CallBuiltin'', ''CallBuiltinLong'', ''GetBuiltinClosure'', ''Ret'', ''Catch'',
     ''DirectEval'', ''Throw'', ''ThrowIfEmpty'', ''Debugger'', ''AsyncBreakCheck'',
     ''ProfilePoint'', ''CreateClosure'', ''CreateClosureLongIndex'', ''CreateGeneratorClosure'',
     ''CreateGeneratorClosureLongIndex'', ''CreateAsyncClosure'', ''CreateAsyncClosureLongIndex'',
     ''CreateThis'', ''SelectObject'', ''LoadParam'', ''LoadParamLong'', ''LoadConstUInt8'',
     ''LoadConstInt'', ''LoadConstDouble'', ''LoadConstBigInt'', ''LoadConstBigIntLongIndex'',
     ''LoadConstString'', ''LoadConstStringLongIndex'', ''LoadConstEmpty'',
     ''LoadConstUndefined'', ''LoadConstNull'', ''LoadConstTrue'', ''LoadConstFalse'',
     ''LoadConstZero'', ''CoerceThisNS'', ''LoadThisNS'', ''ToNumber'', ''ToNumeric'',
     ''ToInt32'', ''AddEmptyString'', ''GetArgumentsPropByValLoose'',
     ''GetArgumentsPropByValStrict'', ''GetArgumentsLength'', ''ReifyArgumentsStrict'',
     ''ReifyArgumentsLoose'', ''CreateRegExp'', ''SwitchImm'', ''StartGenerator'',
     ''ResumeGenerator'', ''CompleteGenerator'', ''CreateGenerator'',
     ''CreateGeneratorLongIndex'', ''IteratorBegin'', ''IteratorNext'', ''IteratorClose'',
     ''Jmp'', ''JmpLong'', ''JmpTrue'', ''JmpTrueLong'', ''JmpFalse'', ''JmpFalseLong'',
     ''JmpUndefined'', ''JmpUndefinedLong'', ''SaveGenerator'', ''SaveGeneratorLong'', ''JLess'',
     ''JLessLong'', ''JNotLess'', ''JNotLessLong'', ''JLessN'', ''JLessNLong'', ''JNotLessN'',
     ''JNotLessNLong'', ''JLessEqual'', ''JLessEqualLong'', ''JNotLessEqual'',
     ''JNotLessEqualLong'', ''JLessEqualN'', ''JLessEqualNLong'', ''JNotLessEqualN'',
     ''JNotLessEqualNLong'', ''JGreater'', ''JGreaterLong'', ''JNotGreater'', ''JNotGreaterLong'',
     ''JGreaterN'', ''JGreaterNLong'', ''JNotGreaterN'', ''JNotGreaterNLong'', ''JGreaterEqual'',
     ''JGreaterEqualLong'', ''JNotGreaterEqual'', ''JNotGreaterEqualLong'', ''JGreaterEqualN'',
     ''JGreaterEqualNLong'', ''JNotGreaterEqualN'', ''JNotGreaterEqualNLong'', ''JEqual'',
     ''JEqualLong'', ''JNotEqual'', ''JNotEqualLong'', ''JStrictEqual'', ''JStrictEqualLong'',
     ''JStrictNotEqual'', ''JStrictNotEqualLong'', ''Add32'', ''Sub32'', ''Mul32'', ''Divi32'',
     ''Divu32'', ''Loadi8'', ''Loadu8'', ''Loadi16'', ''Loadu16'', ''Loadi32'', ''Loadu32'',
     ''Store8'', ''Store16'', ''Store32'']"

definition V90_SCHEMAS :: "(string \<times> OpType list) list" where
  "V90_SCHEMAS =
    [(''Unreachable'', []), (''NewObjectWithBuffer'', [OT_R, OT_U2, OT_U2, OT_U2, OT_U2]),
     (''NewObjectWithBufferLong'', [OT_R, OT_U2, OT_U2, OT_U4, OT_U4]), (''NewObject'', [OT_R]),
     (''NewObjectWithParent'', [OT_R, OT_R]),
     (''NewArrayWithBuffer'', [OT_R, OT_U2, OT_U2, OT_U2]),
     (''NewArrayWithBufferLong'', [OT_R, OT_U2, OT_U2, OT_U4]), (''NewArray'', [OT_R, OT_U2]),
     (''Mov'', [OT_R, OT_R]), (''MovLong'', [OT_R4, OT_R4]), (''Negate'', [OT_R, OT_R]),
     (''Not'', [OT_R, OT_R]), (''BitNot'', [OT_R, OT_R]), (''TypeOf'', [OT_R, OT_R]),
     (''Eq'', [OT_R, OT_R, OT_R]), (''StrictEq'', [OT_R, OT_R, OT_R]),
     (''Neq'', [OT_R, OT_R, OT_R]), (''StrictNeq'', [OT_R, OT_R, OT_R]),
     (''Less'', [OT_R, OT_R, OT_R]), (''LessEq'', [OT_R, OT_R, OT_R]),
     (''Greater'', [OT_R, OT_R, OT_R]), (''GreaterEq'', [OT_R, OT_R, OT_R]),
     (''Add'', [OT_R, OT_R, OT_R]), (''AddN'', [OT_R, OT_R, OT_R]), (''Mul'', [OT_R, OT_R, OT_R]),
     (''MulN'', [OT_R, OT_R, OT_R]), (''Div'', [OT_R, OT_R, OT_R]),
     (''DivN'', [OT_R, OT_R, OT_R]), (''Mod'', [OT_R, OT_R, OT_R]), (''Sub'', [OT_R, OT_R, OT_R]),
     (''SubN'', [OT_R, OT_R, OT_R]), (''LShift'', [OT_R, OT_R, OT_R]),
     (''RShift'', [OT_R, OT_R, OT_R]), (''URshift'', [OT_R, OT_R, OT_R]),
     (''BitAnd'', [OT_R, OT_R, OT_R]), (''BitXor'', [OT_R, OT_R, OT_R]),
     (''BitOr'', [OT_R, OT_R, OT_R]), (''Inc'', [OT_R, OT_R]), (''Dec'', [OT_R, OT_R]),
     (''InstanceOf'', [OT_R, OT_R, OT_R]), (''IsIn'', [OT_R, OT_R, OT_R]),
     (''GetEnvironment'', [OT_R, OT_U1]), (''StoreToEnvironment'', [OT_R, OT_U1, OT_R]),
     (''StoreToEnvironmentL'', [OT_R, OT_U2, OT_R]),
     (''StoreNPToEnvironment'', [OT_R, OT_U1, OT_R]),
     (''StoreNPToEnvironmentL'', [OT_R, OT_U2, OT_R]),
     (''LoadFromEnvironment'', [OT_R, OT_R, OT_U1]),
     (''LoadFromEnvironmentL'', [OT_R, OT_R, OT_U2]), (''GetGlobalObject'', [OT_R]),
     (''GetNewTarget'', [OT_R]), (''CreateEnvironment'', [OT_R]), (''DeclareGlobalVar'', [OT_U4]),
     (''GetByIdShort'', [OT_R, OT_R, OT_U1, OT_U1]), (''GetById'', [OT_R, OT_R, OT_U1, OT_U2]),
     (''GetByIdLong'', [OT_R, OT_R, OT_U1, OT_U4]), (''TryGetById'', [OT_R, OT_R, OT_U1, OT_U2]),
     (''TryGetByIdLong'', [OT_R, OT_R, OT_U1, OT_U4]), (''PutById'', [OT_R, OT_R, OT_U1, OT_U2]),
     (''PutByIdLong'', [OT_R, OT_R, OT_U1, OT_U4]), (''TryPutById'', [OT_R, OT_R, OT_U1, OT_U2]),
     (''TryPutByIdLong'', [OT_R, OT_R, OT_U1, OT_U4]),
     (''PutNewOwnByIdShort'', [OT_R, OT_R, OT_U1]), (''PutNewOwnById'', [OT_R, OT_R, OT_U2]),
     (''PutNewOwnByIdLong'', [OT_R, OT_R, OT_U4]), (''PutNewOwnNEById'', [OT_R, OT_R, OT_U2]),
     (''PutNewOwnNEByIdLong'', [OT_R, OT_R, OT_U4]), (''PutOwnByIndex'', [OT_R, OT_R, OT_U1]),
     (''PutOwnByIndexL'', [OT_R, OT_R, OT_U4]), (''PutOwnByVal'', [OT_R, OT_R, OT_R, OT_U1]),
     (''DelById'', [OT_R, OT_R, OT_U2]), (''DelByIdLong'', [OT_R, OT_R, OT_U4]),
     (''GetByVal'', [OT_R, OT_R, OT_R]), (''PutByVal'', [OT_R, OT_R, OT_R]),
     (''DelByVal'', [OT_R, OT_R, OT_R]),
     (''PutOwnGetterSetterByVal'', [OT_R, OT_R, OT_R, OT_R, OT_U1]),
     (''GetPNameList'', [OT_R, OT_R, OT_R, OT_R]),
     (''GetNextPName'', [OT_R, OT_R, OT_R, OT_R, OT_R]), (''Call'', [OT_R, OT_R, OT_U1]),
     (''Construct'', [OT_R, OT_R, OT_U1]), (''Call1'', [OT_R, OT_R, OT_R]),
     (''CallDirect'', [OT_R, OT_U1, OT_U2]), (''Call2'', [OT_R, OT_R, OT_R, OT_R]),
     (''Call3'', [OT_R, OT_R, OT_R, OT_R, OT_R]),
     (''Call4'', [OT_R, OT_R, OT_R, OT_R, OT_R, OT_R]), (''CallLong'', [OT_R, OT_R, OT_U4]),
     (''ConstructLong'', [OT_R, OT_R, OT_U4]), (''CallDirectLongIndex'', [OT_R, OT_U1, OT_U4]),
     (''CallBuiltin'', [OT_R, OT_U1, OT_U1]), (''CallBuiltinLong'', [OT_R, OT_U1, OT_U4]),
     (''GetBuiltinClosure'', [OT_R, OT_U1]), (''Ret'', [OT_R]), (''Catch'', [OT_R]),
     (''DirectEval'', [OT_R, OT_R]), (''Throw'', [OT_R]), (''ThrowIfEmpty'', [OT_R, OT_R]),
     (''Debugger'', []), (''AsyncBreakCheck'', []), (''ProfilePoint'', [OT_U2]),
     (''CreateClosure'', [OT_R, OT_R, OT_U2]), (''CreateClosureLongIndex'', [OT_R, OT_R, OT_U4]),
     (''CreateGeneratorClosure'', [OT_R, OT_R, OT_U2]),
     (''CreateGeneratorClosureLongIndex'', [OT_R, OT_R, OT_U4]),
     (''CreateAsyncClosure'', [OT_R, OT_R, OT_U2]),
     (''CreateAsyncClosureLongIndex'', [OT_R, OT_R, OT_U4]), (''CreateThis'', [OT_R, OT_R, OT_R]),
     (''SelectObject'', [OT_R, OT_R, OT_R]), (''LoadParam'', [OT_R, OT_U1]),
     (''LoadParamLong'', [OT_R, OT_U4]), (''LoadConstUInt8'', [OT_R, OT_U1]),
     (''LoadConstInt'', [OT_R, OT_I4]), (''LoadConstDouble'', [OT_R, OT_D]),
     (''LoadConstBigInt'', [OT_R, OT_U2]), (''LoadConstBigIntLongIndex'', [OT_R, OT_U4]),
     (''LoadConstString'', [OT_R, OT_U2]), (''LoadConstStringLongIndex'', [OT_R, OT_U4]),
     (''LoadConstEmpty'', [OT_R]), (''LoadConstUndefined'', [OT_R]), (''LoadConstNull'', [OT_R]),
     (''LoadConstTrue'', [OT_R]), (''LoadConstFalse'', [OT_R]), (''LoadConstZero'', [OT_R]),
     (''CoerceThisNS'', [OT_R, OT_R]), (''LoadThisNS'', [OT_R]), (''ToNumber'', [OT_R, OT_R]),
     (''ToNumeric'', [OT_R, OT_R]), (''ToInt32'', [OT_R, OT_R]),
     (''AddEmptyString'', [OT_R, OT_R]), (''GetArgumentsPropByValLoose'', [OT_R, OT_R, OT_R]),
     (''GetArgumentsPropByValStrict'', [OT_R, OT_R, OT_R]),
     (''GetArgumentsLength'', [OT_R, OT_R]), (''ReifyArgumentsStrict'', [OT_R]),
     (''ReifyArgumentsLoose'', [OT_R]), (''CreateRegExp'', [OT_R, OT_U4, OT_U4, OT_U4]),
     (''SwitchImm'', [OT_R, OT_U4, OT_A4, OT_U4, OT_U4]), (''StartGenerator'', []),
     (''ResumeGenerator'', [OT_R, OT_R]), (''CompleteGenerator'', []),
     (''CreateGenerator'', [OT_R, OT_R, OT_U2]),
     (''CreateGeneratorLongIndex'', [OT_R, OT_R, OT_U4]), (''IteratorBegin'', [OT_R, OT_R]),
     (''IteratorNext'', [OT_R, OT_R, OT_R]), (''IteratorClose'', [OT_R, OT_U1]),
     (''Jmp'', [OT_A1]), (''JmpLong'', [OT_A4]), (''JmpTrue'', [OT_A1, OT_R]),
     (''JmpTrueLong'', [OT_A4, OT_R]), (''JmpFalse'', [OT_A1, OT_R]),
     (''JmpFalseLong'', [OT_A4, OT_R]), (''JmpUndefined'', [OT_A1, OT_R]),
     (''JmpUndefinedLong'', [OT_A4, OT_R]), (''SaveGenerator'', [OT_A1]),
     (''SaveGeneratorLong'', [OT_A4]), (''JLess'', [OT_A1, OT_R, OT_R]),
     (''JLessLong'', [OT_A4, OT_R, OT_R]), (''JNotLess'', [OT_A1, OT_R, OT_R]),
     (''JNotLessLong'', [OT_A4, OT_R, OT_R]), (''JLessN'', [OT_A1, OT_R, OT_R]),
     (''JLessNLong'', [OT_A4, OT_R, OT_R]), (''JNotLessN'', [OT_A1, OT_R, OT_R]),
     (''JNotLessNLong'', [OT_A4, OT_R, OT_R]), (''JLessEqual'', [OT_A1, OT_R, OT_R]),
     (''JLessEqualLong'', [OT_A4, OT_R, OT_R]), (''JNotLessEqual'', [OT_A1, OT_R, OT_R]),
     (''JNotLessEqualLong'', [OT_A4, OT_R, OT_R]), (''JLessEqualN'', [OT_A1, OT_R, OT_R]),
     (''JLessEqualNLong'', [OT_A4, OT_R, OT_R]), (''JNotLessEqualN'', [OT_A1, OT_R, OT_R]),
     (''JNotLessEqualNLong'', [OT_A4, OT_R, OT_R]), (''JGreater'', [OT_A1, OT_R, OT_R]),
     (''JGreaterLong'', [OT_A4, OT_R, OT_R]), (''JNotGreater'', [OT_A1, OT_R, OT_R]),
     (''JNotGreaterLong'', [OT_A4, OT_R, OT_R]), (''JGreaterN'', [OT_A1, OT_R, OT_R]),
     (''JGreaterNLong'', [OT_A4, OT_R, OT_R]), (''JNotGreaterN'', [OT_A1, OT_R, OT_R]),
     (''JNotGreaterNLong'', [OT_A4, OT_R, OT_R]), (''JGreaterEqual'', [OT_A1, OT_R, OT_R]),
     (''JGreaterEqualLong'', [OT_A4, OT_R, OT_R]), (''JNotGreaterEqual'', [OT_A1, OT_R, OT_R]),
     (''JNotGreaterEqualLong'', [OT_A4, OT_R, OT_R]), (''JGreaterEqualN'', [OT_A1, OT_R, OT_R]),
     (''JGreaterEqualNLong'', [OT_A4, OT_R, OT_R]), (''JNotGreaterEqualN'', [OT_A1, OT_R, OT_R]),
     (''JNotGreaterEqualNLong'', [OT_A4, OT_R, OT_R]), (''JEqual'', [OT_A1, OT_R, OT_R]),
     (''JEqualLong'', [OT_A4, OT_R, OT_R]), (''JNotEqual'', [OT_A1, OT_R, OT_R]),
     (''JNotEqualLong'', [OT_A4, OT_R, OT_R]), (''JStrictEqual'', [OT_A1, OT_R, OT_R]),
     (''JStrictEqualLong'', [OT_A4, OT_R, OT_R]), (''JStrictNotEqual'', [OT_A1, OT_R, OT_R]),
     (''JStrictNotEqualLong'', [OT_A4, OT_R, OT_R]), (''Add32'', [OT_R, OT_R, OT_R]),
     (''Sub32'', [OT_R, OT_R, OT_R]), (''Mul32'', [OT_R, OT_R, OT_R]),
     (''Divi32'', [OT_R, OT_R, OT_R]), (''Divu32'', [OT_R, OT_R, OT_R]),
     (''Loadi8'', [OT_R, OT_R, OT_R]), (''Loadu8'', [OT_R, OT_R, OT_R]),
     (''Loadi16'', [OT_R, OT_R, OT_R]), (''Loadu16'', [OT_R, OT_R, OT_R]),
     (''Loadi32'', [OT_R, OT_R, OT_R]), (''Loadu32'', [OT_R, OT_R, OT_R]),
     (''Store8'', [OT_R, OT_R, OT_R]), (''Store16'', [OT_R, OT_R, OT_R]),
     (''Store32'', [OT_R, OT_R, OT_R])]"

definition V90_STRING_IDS :: "(u8 \<times> u8) list" where
  "V90_STRING_IDS =
    [(51, 0), (52, 3), (53, 3), (54, 3), (55, 3), (56, 3), (57, 3), (58, 3), (59, 3), (60, 3),
     (61, 2), (62, 2), (63, 2), (64, 2), (65, 2), (69, 2), (70, 2), (113, 1), (114, 1), (132, 2)]"

definition V90_FUNC_IDS :: "(u8 \<times> u8) list" where
  "V90_FUNC_IDS =
    [(80, 2), (98, 2), (99, 2), (100, 2), (101, 2), (102, 2), (103, 2), (137, 2), (138, 2)]"

definition V90_TABLES :: version_tables where
  "V90_TABLES =
    \<lparr>vt_opcodes = V90_OPCODES, vt_sizes = V90_SIZES, vt_str_ops = V90_STR_OPS, vt_call_ops = V90_CALL_OPS,
     vt_names = V90_NAMES, vt_schemas = V90_SCHEMAS, vt_string_ids = V90_STRING_IDS, vt_func_ids = V90_FUNC_IDS\<rparr>"

lemmas V90_types = V90_SCHEMAS_def [THEN arg_cong [of _ _ "map snd"], unfolded list.map snd_conv]

lemma V90_names: "V90_NAMES = map OpCode_name V90_OPCODES" "map fst V90_SCHEMAS = V90_NAMES"
  by (simp_all only: V90_NAMES_def V90_OPCODES_def V90_SCHEMAS_def list.map opcode_name fst_conv)

lemma V90_agree: "tables_agree V90_TABLES"
  unfolding V90_TABLES_def
  by (rule tables_agreeI [OF _ _ V90_names V90_types])
    (simp_all add: opcodes_upt V90_OPCODES_def V90_SIZES_def V90_STR_OPS_def V90_STRING_IDS_def
      V90_CALL_OPS_def V90_FUNC_IDS_def table_checks)

subsection \<open>Version 92\<close>

definition V92_OPCODES :: "OpCode list" where
  "V92_OPCODES =
    [OP_Unreachable, OP_NewObjectWithBuffer, OP_NewObjectWithBufferLong, OP_NewObject,
     OP_NewObjectWithParent, OP_NewArrayWithBuffer, OP_NewArrayWithBufferLong, OP_NewArray,
     OP_Mov, OP_MovLong, OP_Negate, OP_Not, OP_BitNot, OP_TypeOf, OP_Eq, OP_StrictEq, OP_Neq,
     OP_StrictNeq, OP_Less, OP_LessEq, OP_Greater, OP_GreaterEq, OP_Add, OP_AddN, OP_Mul, OP_MulN,
     OP_Div, OP_DivN, OP_Mod, OP_Sub, OP_SubN, OP_LShift, OP_RShift, OP_URshift, OP_BitAnd,
     OP_BitXor, OP_BitOr, OP_Inc, OP_Dec, OP_InstanceOf, OP_IsIn, OP_GetEnvironment,
     OP_StoreToEnvironment, OP_StoreToEnvironmentL, OP_StoreNPToEnvironment,
     OP_StoreNPToEnvironmentL, OP_LoadFromEnvironment, OP_LoadFromEnvironmentL,
     OP_GetGlobalObject, OP_GetNewTarget, OP_CreateEnvironment, OP_CreateInnerEnvironment,
     OP_DeclareGlobalVar, OP_ThrowIfHasRestrictedGlobalProperty, OP_GetByIdShort, OP_GetById,
     OP_GetByIdLong, OP_TryGetById, OP_TryGetByIdLong, OP_PutById, OP_PutByIdLong, OP_TryPutById,
     OP_TryPutByIdLong, OP_PutNewOwnByIdShort, OP_PutNewOwnById, OP_PutNewOwnByIdLong,
     OP_PutNewOwnNEById, OP_PutNewOwnNEByIdLong, OP_PutOwnByIndex, OP_PutOwnByIndexL,
     OP_PutOwnByVal, OP_DelById, OP_DelByIdLong, OP_GetByVal, OP_PutByVal, OP_DelByVal,
     OP_PutOwnGetterSetterByVal, OP_GetPNameList, OP_GetNextPName, OP_Call, OP_Construct,
     OP_Call1, OP_CallDirect, OP_Call2, OP_Call3, OP_Call4, OP_CallLong, OP_ConstructLong,
     OP_CallDirectLongIndex, OP_CallBuiltin, OP_CallBuiltinLong, OP_GetBuiltinClosure, OP_Ret,
     OP_Catch, OP_DirectEval, OP_Throw, OP_ThrowIfEmpty, OP_Debugger, OP_AsyncBreakCheck,
     OP_ProfilePoint, OP_CreateClosure, OP_CreateClosureLongIndex, OP_CreateGeneratorClosure,
     OP_CreateGeneratorClosureLongIndex, OP_CreateAsyncClosure, OP_CreateAsyncClosureLongIndex,
     OP_CreateThis, OP_SelectObject, OP_LoadParam, OP_LoadParamLong, OP_LoadConstUInt8,
     OP_LoadConstInt, OP_LoadConstDouble, OP_LoadConstBigInt, OP_LoadConstBigIntLongIndex,
     OP_LoadConstString, OP_LoadConstStringLongIndex, OP_LoadConstEmpty, OP_LoadConstUndefined,
     OP_LoadConstNull, OP_LoadConstTrue, OP_LoadConstFalse, OP_LoadConstZero, OP_CoerceThisNS,
     OP_LoadThisNS, OP_ToNumber, OP_ToNumeric, OP_ToInt32, OP_AddEmptyString,
     OP_GetArgumentsPropByVal, OP_GetArgumentsLength, OP_ReifyArguments, OP_CreateRegExp,
     OP_SwitchImm, OP_StartGenerator, OP_ResumeGenerator, OP_CompleteGenerator,
     OP_CreateGenerator, OP_CreateGeneratorLongIndex, OP_IteratorBegin, OP_IteratorNext,
     OP_IteratorClose, OP_Jmp, OP_JmpLong, OP_JmpTrue, OP_JmpTrueLong, OP_JmpFalse,
     OP_JmpFalseLong, OP_JmpUndefined, OP_JmpUndefinedLong, OP_SaveGenerator,
     OP_SaveGeneratorLong, OP_JLess, OP_JLessLong, OP_JNotLess, OP_JNotLessLong, OP_JLessN,
     OP_JLessNLong, OP_JNotLessN, OP_JNotLessNLong, OP_JLessEqual, OP_JLessEqualLong,
     OP_JNotLessEqual, OP_JNotLessEqualLong, OP_JLessEqualN, OP_JLessEqualNLong,
     OP_JNotLessEqualN, OP_JNotLessEqualNLong, OP_JGreater, OP_JGreaterLong, OP_JNotGreater,
     OP_JNotGreaterLong, OP_JGreaterN, OP_JGreaterNLong, OP_JNotGreaterN, OP_JNotGreaterNLong,
     OP_JGreaterEqual, OP_JGreaterEqualLong, OP_JNotGreaterEqual, OP_JNotGreaterEqualLong,
     OP_JGreaterEqualN, OP_JGreaterEqualNLong, OP_JNotGreaterEqualN, OP_JNotGreaterEqualNLong,
     OP_JEqual, OP_JEqualLong, OP_JNotEqual, OP_JNotEqualLong, OP_JStrictEqual,
     OP_JStrictEqualLong, OP_JStrictNotEqual, OP_JStrictNotEqualLong, OP_Add32, OP_Sub32,
     OP_Mul32, OP_Divi32, OP_Divu32, OP_Loadi8, OP_Loadu8, OP_Loadi16, OP_Loadu16, OP_Loadi32,
     OP_Loadu32, OP_Store8, OP_Store16, OP_Store32]"

definition V92_SIZES :: "u8 list" where
  "V92_SIZES =
    [1, 10, 14, 2, 3, 8, 10, 4, 3, 9, 3, 3, 3, 3, 4, 4, 4, 4, 4, 4, 4, 4, 4, 4, 4, 4, 4, 4, 4, 4,
     4, 4, 4, 4, 4, 4, 4, 3, 3, 4, 4, 3, 4, 5, 4, 5, 4, 5, 2, 2, 2, 7, 5, 5, 5, 6, 8, 6, 8, 6, 8,
     6, 8, 4, 5, 7, 5, 7, 4, 7, 5, 5, 7, 4, 4, 4, 6, 5, 6, 4, 4, 4, 5, 5, 6, 7, 7, 7, 7, 4, 7, 3,
     2, 2, 3, 2, 3, 1, 1, 3, 5, 7, 5, 7, 5, 7, 4, 4, 3, 6, 3, 6, 10, 4, 6, 4, 6, 2, 2, 2, 2, 2, 2,
     3, 2, 3, 3, 3, 3, 4, 3, 2, 14, 18, 1, 3, 1, 5, 7, 3, 4, 3, 2, 5, 3, 6, 3, 6, 3, 6, 2, 5, 4,
     7, 4, 7, 4, 7, 4, 7, 4, 7, 4, 7, 4, 7, 4, 7, 4, 7, 4, 7, 4, 7, 4, 7, 4, 7, 4, 7, 4, 7, 4, 7,
     4, 7, 4, 7, 4, 7, 4, 7, 4, 4, 4, 4, 4, 4, 4, 4, 4, 4, 4, 4, 4, 4]"

definition V92_STR_OPS :: "(u8 \<times> u8 \<times> u8) list" where
  "V92_STR_OPS =
    [(52, 1, 4), (53, 1, 4), (54, 4, 1), (55, 4, 2), (56, 4, 4), (57, 4, 2), (58, 4, 4),
     (59, 4, 2), (60, 4, 4), (61, 4, 2), (62, 4, 4), (63, 3, 1), (64, 3, 2), (65, 3, 4),
     (66, 3, 2), (67, 3, 4), (71, 3, 2), (72, 3, 4), (115, 2, 2), (116, 2, 4), (132, 6, 4)]"

definition V92_CALL_OPS :: "(u8 \<times> u8 \<times> u8) list" where
  "V92_CALL_OPS =
    [(82, 3, 2), (88, 3, 4)]"

definition V92_NAMES :: "string list" where
  "V92_NAMES =
    [''Unreachable'', ''NewObjectWithBuffer'', ''NewObjectWithBufferLong'', ''NewObject'',
     ''NewObjectWithParent'', ''NewArrayWithBuffer'', ''NewArrayWithBufferLong'', ''NewArray'',
     ''Mov'', ''MovLong'', ''Negate'', ''Not'', ''BitNot'', ''TypeOf'', ''Eq'', ''StrictEq'',
     ''Neq'', ''StrictNeq'', ''Less'', ''LessEq'', ''Greater'', ''GreaterEq'', ''Add'', ''AddN'',
     ''Mul'', ''MulN'', ''Div'', ''DivN'', ''Mod'', ''Sub'', ''SubN'', ''LShift'', ''RShift'',
     ''URshift'', ''BitAnd'', ''BitXor'', ''BitOr'', ''Inc'', ''Dec'', ''InstanceOf'', ''IsIn'',
     ''GetEnvironment'', ''StoreToEnvironment'', ''StoreToEnvironmentL'',
     ''StoreNPToEnvironment'', ''StoreNPToEnvironmentL'', ''LoadFromEnvironment'',
     ''LoadFromEnvironmentL'', ''GetGlobalObject'', ''GetNewTarget'', ''CreateEnvironment'',
     ''CreateInnerEnvironment'', ''DeclareGlobalVar'', ''ThrowIfHasRestrictedGlobalProperty'',
     ''GetByIdShort'', ''GetById'', ''GetByIdLong'', ''TryGetById'', ''TryGetByIdLong'',
     ''PutById'', ''PutByIdLong'', ''TryPutById'', ''TryPutByIdLong'', ''PutNewOwnByIdShort'',
     ''PutNewOwnById'', ''PutNewOwnByIdLong'', ''PutNewOwnNEById'', ''PutNewOwnNEByIdLong'',
     ''PutOwnByIndex'', ''PutOwnByIndexL'', ''PutOwnByVal'', ''DelById'', ''DelByIdLong'',
     ''GetByVal'', ''PutByVal'', ''DelByVal'', ''PutOwnGetterSetterByVal'', ''GetPNameList'',
     ''GetNextPName'', ''Call'', ''Construct'', ''Call1'', ''CallDirect'', ''Call2'', ''Call3'',
     ''Call4'', ''CallLong'', ''ConstructLong'', ''CallDirectLongIndex'', ''CallBuiltin'',
     ''CallBuiltinLong'', ''GetBuiltinClosure'', ''Ret'', ''Catch'', ''DirectEval'', ''Throw'',
     ''ThrowIfEmpty'', ''Debugger'', ''AsyncBreakCheck'', ''ProfilePoint'', ''CreateClosure'',
     ''CreateClosureLongIndex'', ''CreateGeneratorClosure'', ''CreateGeneratorClosureLongIndex'',
     ''CreateAsyncClosure'', ''CreateAsyncClosureLongIndex'', ''CreateThis'', ''SelectObject'',
     ''LoadParam'', ''LoadParamLong'', ''LoadConstUInt8'', ''LoadConstInt'', ''LoadConstDouble'',
     ''LoadConstBigInt'', ''LoadConstBigIntLongIndex'', ''LoadConstString'',
     ''LoadConstStringLongIndex'', ''LoadConstEmpty'', ''LoadConstUndefined'', ''LoadConstNull'',
     ''LoadConstTrue'', ''LoadConstFalse'', ''LoadConstZero'', ''CoerceThisNS'', ''LoadThisNS'',
     ''ToNumber'', ''ToNumeric'', ''ToInt32'', ''AddEmptyString'', ''GetArgumentsPropByVal'',
     ''GetArgumentsLength'', ''ReifyArguments'', ''CreateRegExp'', ''SwitchImm'',
     ''StartGenerator'', ''ResumeGenerator'', ''CompleteGenerator'', ''CreateGenerator'',
     ''CreateGeneratorLongIndex'', ''IteratorBegin'', ''IteratorNext'', ''IteratorClose'',
     ''Jmp'', ''JmpLong'', ''JmpTrue'', ''JmpTrueLong'', ''JmpFalse'', ''JmpFalseLong'',
     ''JmpUndefined'', ''JmpUndefinedLong'', ''SaveGenerator'', ''SaveGeneratorLong'', ''JLess'',
     ''JLessLong'', ''JNotLess'', ''JNotLessLong'', ''JLessN'', ''JLessNLong'', ''JNotLessN'',
     ''JNotLessNLong'', ''JLessEqual'', ''JLessEqualLong'', ''JNotLessEqual'',
     ''JNotLessEqualLong'', ''JLessEqualN'', ''JLessEqualNLong'', ''JNotLessEqualN'',
     ''JNotLessEqualNLong'', ''JGreater'', ''JGreaterLong'', ''JNotGreater'', ''JNotGreaterLong'',
     ''JGreaterN'', ''JGreaterNLong'', ''JNotGreaterN'', ''JNotGreaterNLong'', ''JGreaterEqual'',
     ''JGreaterEqualLong'', ''JNotGreaterEqual'', ''JNotGreaterEqualLong'', ''JGreaterEqualN'',
     ''JGreaterEqualNLong'', ''JNotGreaterEqualN'', ''JNotGreaterEqualNLong'', ''JEqual'',
     ''JEqualLong'', ''JNotEqual'', ''JNotEqualLong'', ''JStrictEqual'', ''JStrictEqualLong'',
     ''JStrictNotEqual'', ''JStrictNotEqualLong'', ''Add32'', ''Sub32'', ''Mul32'', ''Divi32'',
     ''Divu32'', ''Loadi8'', ''Loadu8'', ''Loadi16'', ''Loadu16'', ''Loadi32'', ''Loadu32'',
     ''Store8'', ''Store16'', ''Store32'']"

definition V92_SCHEMAS :: "(string \<times> OpType list) list" where
  "V92_SCHEMAS =
    [(''Unreachable'', []), (''NewObjectWithBuffer'', [OT_R, OT_U2, OT_U2, OT_U2, OT_U2]),
     (''NewObjectWithBufferLong'', [OT_R, OT_U2, OT_U2, OT_U4, OT_U4]), (''NewObject'', [OT_R]),
     (''NewObjectWithParent'', [OT_R, OT_R]),
     (''NewArrayWithBuffer'', [OT_R, OT_U2, OT_U2, OT_U2]),
     (''NewArrayWithBufferLong'', [OT_R, OT_U2, OT_U2, OT_U4]), (''NewArray'', [OT_R, OT_U2]),
     (''Mov'', [OT_R, OT_R]), (''MovLong'', [OT_R4, OT_R4]), (''Negate'', [OT_R, OT_R]),
     (''Not'', [OT_R, OT_R]), (''BitNot'', [OT_R, OT_R]), (''TypeOf'', [OT_R, OT_R]),
     (''Eq'', [OT_R, OT_R, OT_R]), (''StrictEq'', [OT_R, OT_R, OT_R]),
     (''Neq'', [OT_R, OT_R, OT_R]), (''StrictNeq'', [OT_R, OT_R, OT_R]),
     (''Less'', [OT_R, OT_R, OT_R]), (''LessEq'', [OT_R, OT_R, OT_R]),
     (''Greater'', [OT_R, OT_R, OT_R]), (''GreaterEq'', [OT_R, OT_R, OT_R]),
     (''Add'', [OT_R, OT_R, OT_R]), (''AddN'', [OT_R, OT_R, OT_R]), (''Mul'', [OT_R, OT_R, OT_R]),
     (''MulN'', [OT_R, OT_R, OT_R]), (''Div'', [OT_R, OT_R, OT_R]),
     (''DivN'', [OT_R, OT_R, OT_R]), (''Mod'', [OT_R, OT_R, OT_R]), (''Sub'', [OT_R, OT_R, OT_R]),
     (''SubN'', [OT_R, OT_R, OT_R]), (''LShift'', [OT_R, OT_R, OT_R]),
     (''RShift'', [OT_R, OT_R, OT_R]), (''URshift'', [OT_R, OT_R, OT_R]),
     (''BitAnd'', [OT_R, OT_R, OT_R]), (''BitXor'', [OT_R, OT_R, OT_R]),
     (''BitOr'', [OT_R, OT_R, OT_R]), (''Inc'', [OT_R, OT_R]), (''Dec'', [OT_R, OT_R]),
     (''InstanceOf'', [OT_R, OT_R, OT_R]), (''IsIn'', [OT_R, OT_R, OT_R]),
     (''GetEnvironment'', [OT_R, OT_U1]), (''StoreToEnvironment'', [OT_R, OT_U1, OT_R]),
     (''StoreToEnvironmentL'', [OT_R, OT_U2, OT_R]),
     (''StoreNPToEnvironment'', [OT_R, OT_U1, OT_R]),
     (''StoreNPToEnvironmentL'', [OT_R, OT_U2, OT_R]),
     (''LoadFromEnvironment'', [OT_R, OT_R, OT_U1]),
     (''LoadFromEnvironmentL'', [OT_R, OT_R, OT_U2]), (''GetGlobalObject'', [OT_R]),
     (''GetNewTarget'', [OT_R]), (''CreateEnvironment'', [OT_R]),
     (''CreateInnerEnvironment'', [OT_R, OT_R, OT_U4]), (''DeclareGlobalVar'', [OT_U4]),
     (''ThrowIfHasRestrictedGlobalProperty'', [OT_U4]),
     (''GetByIdShort'', [OT_R, OT_R, OT_U1, OT_U1]), (''GetById'', [OT_R, OT_R, OT_U1, OT_U2]),
     (''GetByIdLong'', [OT_R, OT_R, OT_U1, OT_U4]), (''TryGetById'', [OT_R, OT_R, OT_U1, OT_U2]),
     (''TryGetByIdLong'', [OT_R, OT_R, OT_U1, OT_U4]), (''PutById'', [OT_R, OT_R, OT_U1, OT_U2]),
     (''PutByIdLong'', [OT_R, OT_R, OT_U1, OT_U4]), (''TryPutById'', [OT_R, OT_R, OT_U1, OT_U2]),
     (''TryPutByIdLong'', [OT_R, OT_R, OT_U1, OT_U4]),
     (''PutNewOwnByIdShort'', [OT_R, OT_R, OT_U1]), (''PutNewOwnById'', [OT_R, OT_R, OT_U2]),
     (''PutNewOwnByIdLong'', [OT_R, OT_R, OT_U4]), (''PutNewOwnNEById'', [OT_R, OT_R, OT_U2]),
     (''PutNewOwnNEByIdLong'', [OT_R, OT_R, OT_U4]), (''PutOwnByIndex'', [OT_R, OT_R, OT_U1]),
     (''PutOwnByIndexL'', [OT_R, OT_R, OT_U4]), (''PutOwnByVal'', [OT_R, OT_R, OT_R, OT_U1]),
     (''DelById'', [OT_R, OT_R, OT_U2]), (''DelByIdLong'', [OT_R, OT_R, OT_U4]),
     (''GetByVal'', [OT_R, OT_R, OT_R]), (''PutByVal'', [OT_R, OT_R, OT_R]),
     (''DelByVal'', [OT_R, OT_R, OT_R]),
     (''PutOwnGetterSetterByVal'', [OT_R, OT_R, OT_R, OT_R, OT_U1]),
     (''GetPNameList'', [OT_R, OT_R, OT_R, OT_R]),
     (''GetNextPName'', [OT_R, OT_R, OT_R, OT_R, OT_R]), (''Call'', [OT_R, OT_R, OT_U1]),
     (''Construct'', [OT_R, OT_R, OT_U1]), (''Call1'', [OT_R, OT_R, OT_R]),
     (''CallDirect'', [OT_R, OT_U1, OT_U2]), (''Call2'', [OT_R, OT_R, OT_R, OT_R]),
     (''Call3'', [OT_R, OT_R, OT_R, OT_R, OT_R]),
     (''Call4'', [OT_R, OT_R, OT_R, OT_R, OT_R, OT_R]), (''CallLong'', [OT_R, OT_R, OT_U4]),
     (''ConstructLong'', [OT_R, OT_R, OT_U4]), (''CallDirectLongIndex'', [OT_R, OT_U1, OT_U4]),
     (''CallBuiltin'', [OT_R, OT_U1, OT_U1]), (''CallBuiltinLong'', [OT_R, OT_U1, OT_U4]),
     (''GetBuiltinClosure'', [OT_R, OT_U1]), (''Ret'', [OT_R]), (''Catch'', [OT_R]),
     (''DirectEval'', [OT_R, OT_R]), (''Throw'', [OT_R]), (''ThrowIfEmpty'', [OT_R, OT_R]),
     (''Debugger'', []), (''AsyncBreakCheck'', []), (''ProfilePoint'', [OT_U2]),
     (''CreateClosure'', [OT_R, OT_R, OT_U2]), (''CreateClosureLongIndex'', [OT_R, OT_R, OT_U4]),
     (''CreateGeneratorClosure'', [OT_R, OT_R, OT_U2]),
     (''CreateGeneratorClosureLongIndex'', [OT_R, OT_R, OT_U4]),
     (''CreateAsyncClosure'', [OT_R, OT_R, OT_U2]),
     (''CreateAsyncClosureLongIndex'', [OT_R, OT_R, OT_U4]), (''CreateThis'', [OT_R, OT_R, OT_R]),
     (''SelectObject'', [OT_R, OT_R, OT_R]), (''LoadParam'', [OT_R, OT_U1]),
     (''LoadParamLong'', [OT_R, OT_U4]), (''LoadConstUInt8'', [OT_R, OT_U1]),
     (''LoadConstInt'', [OT_R, OT_I4]), (''LoadConstDouble'', [OT_R, OT_D]),
     (''LoadConstBigInt'', [OT_R, OT_U2]), (''LoadConstBigIntLongIndex'', [OT_R, OT_U4]),
     (''LoadConstString'', [OT_R, OT_U2]), (''LoadConstStringLongIndex'', [OT_R, OT_U4]),
     (''LoadConstEmpty'', [OT_R]), (''LoadConstUndefined'', [OT_R]), (''LoadConstNull'', [OT_R]),
     (''LoadConstTrue'', [OT_R]), (''LoadConstFalse'', [OT_R]), (''LoadConstZero'', [OT_R]),
     (''CoerceThisNS'', [OT_R, OT_R]), (''LoadThisNS'', [OT_R]), (''ToNumber'', [OT_R, OT_R]),
     (''ToNumeric'', [OT_R, OT_R]), (''ToInt32'', [OT_R, OT_R]),
     (''AddEmptyString'', [OT_R, OT_R]), (''GetArgumentsPropByVal'', [OT_R, OT_R, OT_R]),
     (''GetArgumentsLength'', [OT_R, OT_R]), (''ReifyArguments'', [OT_R]),
     (''CreateRegExp'', [OT_R, OT_U4, OT_U4, OT_U4]),
     (''SwitchImm'', [OT_R, OT_U4, OT_A4, OT_U4, OT_U4]), (''StartGenerator'', []),
     (''ResumeGenerator'', [OT_R, OT_R]), (''CompleteGenerator'', []),
     (''CreateGenerator'', [OT_R, OT_R, OT_U2]),
     (''CreateGeneratorLongIndex'', [OT_R, OT_R, OT_U4]), (''IteratorBegin'', [OT_R, OT_R]),
     (''IteratorNext'', [OT_R, OT_R, OT_R]), (''IteratorClose'', [OT_R, OT_U1]),
     (''Jmp'', [OT_A1]), (''JmpLong'', [OT_A4]), (''JmpTrue'', [OT_A1, OT_R]),
     (''JmpTrueLong'', [OT_A4, OT_R]), (''JmpFalse'', [OT_A1, OT_R]),
     (''JmpFalseLong'', [OT_A4, OT_R]), (''JmpUndefined'', [OT_A1, OT_R]),
     (''JmpUndefinedLong'', [OT_A4, OT_R]), (''SaveGenerator'', [OT_A1]),
     (''SaveGeneratorLong'', [OT_A4]), (''JLess'', [OT_A1, OT_R, OT_R]),
     (''JLessLong'', [OT_A4, OT_R, OT_R]), (''JNotLess'', [OT_A1, OT_R, OT_R]),
     (''JNotLessLong'', [OT_A4, OT_R, OT_R]), (''JLessN'', [OT_A1, OT_R, OT_R]),
     (''JLessNLong'', [OT_A4, OT_R, OT_R]), (''JNotLessN'', [OT_A1, OT_R, OT_R]),
     (''JNotLessNLong'', [OT_A4, OT_R, OT_R]), (''JLessEqual'', [OT_A1, OT_R, OT_R]),
     (''JLessEqualLong'', [OT_A4, OT_R, OT_R]), (''JNotLessEqual'', [OT_A1, OT_R, OT_R]),
     (''JNotLessEqualLong'', [OT_A4, OT_R, OT_R]), (''JLessEqualN'', [OT_A1, OT_R, OT_R]),
     (''JLessEqualNLong'', [OT_A4, OT_R, OT_R]), (''JNotLessEqualN'', [OT_A1, OT_R, OT_R]),
     (''JNotLessEqualNLong'', [OT_A4, OT_R, OT_R]), (''JGreater'', [OT_A1, OT_R, OT_R]),
     (''JGreaterLong'', [OT_A4, OT_R, OT_R]), (''JNotGreater'', [OT_A1, OT_R, OT_R]),
     (''JNotGreaterLong'', [OT_A4, OT_R, OT_R]), (''JGreaterN'', [OT_A1, OT_R, OT_R]),
     (''JGreaterNLong'', [OT_A4, OT_R, OT_R]), (''JNotGreaterN'', [OT_A1, OT_R, OT_R]),
     (''JNotGreaterNLong'', [OT_A4, OT_R, OT_R]), (''JGreaterEqual'', [OT_A1, OT_R, OT_R]),
     (''JGreaterEqualLong'', [OT_A4, OT_R, OT_R]), (''JNotGreaterEqual'', [OT_A1, OT_R, OT_R]),
     (''JNotGreaterEqualLong'', [OT_A4, OT_R, OT_R]), (''JGreaterEqualN'', [OT_A1, OT_R, OT_R]),
     (''JGreaterEqualNLong'', [OT_A4, OT_R, OT_R]), (''JNotGreaterEqualN'', [OT_A1, OT_R, OT_R]),
     (''JNotGreaterEqualNLong'', [OT_A4, OT_R, OT_R]), (''JEqual'', [OT_A1, OT_R, OT_R]),
     (''JEqualLong'', [OT_A4, OT_R, OT_R]), (''JNotEqual'', [OT_A1, OT_R, OT_R]),
     (''JNotEqualLong'', [OT_A4, OT_R, OT_R]), (''JStrictEqual'', [OT_A1, OT_R, OT_R]),
     (''JStrictEqualLong'', [OT_A4, OT_R, OT_R]), (''JStrictNotEqual'', [OT_A1, OT_R, OT_R]),
     (''JStrictNotEqualLong'', [OT_A4, OT_R, OT_R]), (''Add32'', [OT_R, OT_R, OT_R]),
     (''Sub32'', [OT_R, OT_R, OT_R]), (''Mul32'', [OT_R, OT_R, OT_R]),
     (''Divi32'', [OT_R, OT_R, OT_R]), (''Divu32'', [OT_R, OT_R, OT_R]),
     (''Loadi8'', [OT_R, OT_R, OT_R]), (''Loadu8'', [OT_R, OT_R, OT_R]),
     (''Loadi16'', [OT_R, OT_R, OT_R]), (''Loadu16'', [OT_R, OT_R, OT_R]),
     (''Loadi32'', [OT_R, OT_R, OT_R]), (''Loadu32'', [OT_R, OT_R, OT_R]),
     (''Store8'', [OT_R, OT_R, OT_R]), (''Store16'', [OT_R, OT_R, OT_R]),
     (''Store32'', [OT_R, OT_R, OT_R])]"

definition V92_STRING_IDS :: "(u8 \<times> u8) list" where
  "V92_STRING_IDS =
    [(52, 0), (53, 0), (54, 3), (55, 3), (56, 3), (57, 3), (58, 3), (59, 3), (60, 3), (61, 3),
     (62, 3), (63, 2), (64, 2), (65, 2), (66, 2), (67, 2), (71, 2), (72, 2), (115, 1), (116, 1),
     (132, 2)]"

definition V92_FUNC_IDS :: "(u8 \<times> u8) list" where
  "V92_FUNC_IDS =
    [(82, 2), (100, 2), (101, 2), (102, 2), (103, 2), (104, 2), (105, 2), (137, 2), (138, 2)]"

definition V92_TABLES :: version_tables where
  "V92_TABLES =
    \<lparr>vt_opcodes = V92_OPCODES, vt_sizes = V92_SIZES, vt_str_ops = V92_STR_OPS, vt_call_ops = V92_CALL_OPS,
     vt_names = V92_NAMES, vt_schemas = V92_SCHEMAS, vt_string_ids = V92_STRING_IDS, vt_func_ids = V92_FUNC_IDS\<rparr>"

lemmas V92_types = V92_SCHEMAS_def [THEN arg_cong [of _ _ "map snd"], unfolded list.map snd_conv]

lemma V92_names: "V92_NAMES = map OpCode_name V92_OPCODES" "map fst V92_SCHEMAS = V92_NAMES"
  by (simp_all only: V92_NAMES_def V92_OPCODES_def V92_SCHEMAS_def list.map opcode_name fst_conv)

lemma V92_agree: "tables_agree V92_TABLES"
  unfolding V92_TABLES_def
  by (rule tables_agreeI [OF _ _ V92_names V92_types])
    (simp_all add: opcodes_upt V92_OPCODES_def V92_SIZES_def V92_STR_OPS_def V92_STRING_IDS_def
      V92_CALL_OPS_def V92_FUNC_IDS_def table_checks)

end
