(* ===== verification/Hermes_Tables_D.thy ===== *)
theory Hermes_Tables_D
  imports Hermes_Opcodes
begin

text \<open>
  The tables of \<open>opcodes.rs\<close> and \<open>decompile/schemas.rs\<close> for the bytecode versions 95 to 100, and the
  proof that those of each version agree.
\<close>

subsection \<open>Version 95\<close>

definition V95_OPCODES :: "OpCode list" where
  "V95_OPCODES =
    [OP_Unreachable, OP_NewObjectWithBuffer, OP_NewObjectWithBufferLong, OP_NewObject,
     OP_NewObjectWithParent, OP_NewArrayWithBuffer, OP_NewArrayWithBufferLong, OP_NewArray,
     OP_Mov, OP_MovLong, OP_Negate, OP_Not, OP_BitNot, OP_TypeOf, OP_Eq, OP_StrictEq, OP_Neq,
     OP_StrictNeq, OP_Less, OP_LessEq, OP_Greater, OP_GreaterEq, OP_Add, OP_AddN, OP_Mul, OP_MulN,
     OP_Div, OP_DivN, OP_Mod, OP_Sub, OP_SubN, OP_LShift, OP_RShift, OP_URshift, OP_BitAnd,
     OP_BitXor, OP_BitOr, OP_Inc, OP_Dec, OP_InstanceOf, OP_IsIn, OP_GetEnvironment,
     OP_StoreToEnvironment, OP_StoreToEnvironmentL, OP_StoreNPToEnvironment,
     OP_StoreNPToEnvironmentL, OP_LoadFromEnvironment, OP_LoadFromEnvironmentL,
     OP_GetGlobalObject, OP_GetNewTarget, OP_CreateEnvironment, OP_CreateInnerEnvironment,
     OP_DeclareGlobalVar, OP_ThrowIfHasRestrictedGlobalProperty, OP_GetByIdShort, OP_GetById,
     OP_GetByIdLong, OP_TryGetById, OP_TryGetByIdLong, OP_PutById, OP_PutByIdLong, OP_TryPutById,
     OP_TryPutByIdLong, OP_PutNewOwnByIdShort, OP_PutNewOwnById, OP_PutNewOwnByIdLong,
     OP_PutNewOwnNEById, OP_PutNewOwnNEByIdLong, OP_PutOwnByIndex, OP_PutOwnByIndexL,
     OP_PutOwnByVal, OP_DelById, OP_DelByIdLong, OP_GetByVal, OP_PutByVal, OP_DelByVal,
     OP_PutOwnGetterSetterByVal, OP_GetPNameList, OP_GetNextPName, OP_Call, OP_Construct,
     OP_Call1, OP_CallDirect, OP_Call2, OP_Call3, OP_Call4, OP_CallLong, OP_ConstructLong,
     OP_CallDirectLongIndex, OP_CallBuiltin, OP_CallBuiltinLong, OP_GetBuiltinClosure, OP_Ret,
     OP_Catch, OP_DirectEval, OP_Throw, OP_ThrowIfEmpty, OP_Debugger, OP_AsyncBreakCheck,
     OP_ProfilePoint, OP_CreateClosure, OP_CreateClosureLongIndex, OP_CreateGeneratorClosure,
     OP_CreateGeneratorClosureLongIndex, OP_CreateAsyncClosure, OP_CreateAsyncClosureLongIndex,
     OP_CreateThis, OP_SelectObject, OP_LoadParam, OP_LoadParamLong, OP_LoadConstUInt8,
     OP_LoadConstInt, OP_LoadConstDouble, OP_LoadConstBigInt, OP_LoadConstBigIntLongIndex,
     OP_LoadConstString, OP_LoadConstStringLongIndex, OP_LoadConstEmpty, OP_LoadConstUndefined,
     OP_LoadConstNull, OP_LoadConstTrue, OP_LoadConstFalse, OP_LoadConstZero, OP_CoerceThisNS,
     OP_LoadThisNS, OP_ToNumber, OP_ToNumeric, OP_ToInt32, OP_AddEmptyString,
     OP_GetArgumentsPropByVal, OP_GetArgumentsLength, OP_ReifyArguments, OP_CreateRegExp,
     OP_SwitchImm, OP_StartGenerator, OP_ResumeGenerator, OP_CompleteGenerator,
     OP_CreateGenerator, OP_CreateGeneratorLongIndex, OP_IteratorBegin, OP_IteratorNext,
     OP_IteratorClose, OP_Jmp, OP_JmpLong, OP_JmpTrue, OP_JmpTrueLong, OP_JmpFalse,
     OP_JmpFalseLong, OP_JmpUndefined, OP_JmpUndefinedLong, OP_SaveGenerator,
     OP_SaveGeneratorLong, OP_JLess, OP_JLessLong, OP_JNotLess, OP_JNotLessLong, OP_JLessN,
     OP_JLessNLong, OP_JNotLessN, OP_JNotLessNLong, OP_JLessEqual, OP_JLessEqualLong,
     OP_JNotLessEqual, OP_JNotLessEqualLong, OP_JLessEqualN, OP_JLessEqualNLong,
     OP_JNotLessEqualN, OP_JNotLessEqualNLong, OP_JGreater, OP_JGreaterLong, OP_JNotGreater,
     OP_JNotGreaterLong, OP_JGreaterN, OP_JGreaterNLong, OP_JNotGreaterN, OP_JNotGreaterNLong,
     OP_JGreaterEqual, OP_JGreaterEqualLong, OP_JNotGreaterEqual, OP_JNotGreaterEqualLong,
     OP_JGreaterEqualN, OP_JGreaterEqualNLong, OP_JNotGreaterEqualN, OP_JNotGreaterEqualNLong,
     OP_JEqual, OP_JEqualLong, OP_JNotEqual, OP_JNotEqualLong, OP_JStrictEqual,
     OP_JStrictEqualLong, OP_JStrictNotEqual, OP_JStrictNotEqualLong, OP_Add32, OP_Sub32,
     OP_Mul32, OP_Divi32, OP_Divu32, OP_Loadi8, OP_Loadu8, OP_Loadi16, OP_Loadu16, OP_Loadi32,
     OP_Loadu32, OP_Store8, OP_Store16, OP_Store32]"

definition V95_SIZES :: "u8 list" where
  "V95_SIZES =
    [1, 10, 14, 2, 3, 8, 10, 4, 3, 9, 3, 3, 3, 3, 4, 4, 4, 4, 4, 4, 4, 4, 4, 4, 4, 4, 4, 4, 4, 4,
     4, 4, 4, 4, 4, 4, 4, 3, 3, 4, 4, 3, 4, 5, 4, 5, 4, 5, 2, 2, 2, 7, 5, 5, 5, 6, 8, 6, 8, 6, 8,
     6, 8, 4, 5, 7, 5, 7, 4, 7, 5, 5, 7, 4, 4, 4, 6, 5, 6, 4, 4, 4, 5, 5, 6, 7, 7, 7, 7, 4, 7, 3,
     2, 2, 4, 2, 3, 1, 1, 3, 5, 7, 5, 7, 5, 7, 4, 4, 3, 6, 3, 6, 10, 4, 6, 4, 6, 2, 2, 2, 2, 2, 2,
     3, 2, 3, 3, 3, 3, 4, 3, 2, 14, 18, 1, 3, 1, 5, 7, 3, 4, 3, 2, 5, 3, 6, 3, 6, 3, 6, 2, 5, 4,
     7, 4, 7, 4, 7, 4, 7, 4, 7, 4, 7, 4, 7, 4, 7, 4, 7, 4, 7, 4, 7, 4, 7, 4, 7, 4, 7, 4, 7, 4, 7,
     4, 7, 4, 7, 4, 7, 4, 7, 4, 4, 4, 4, 4, 4, 4, 4, 4, 4, 4, 4, 4, 4]"

definition V95_STR_OPS :: "(u8 \<times> u8 \<times> u8) list" where
  "V95_STR_OPS =
    [(52, 1, 4), (53, 1, 4), (54, 4, 1), (55, 4, 2), (56, 4, 4), (57, 4, 2), (58, 4, 4),
     (59, 4, 2), (60, 4, 4), (61, 4, 2), (62, 4, 4), (63, 3, 1), (64, 3, 2), (65, 3, 4),
     (66, 3, 2), (67, 3, 4), (71, 3, 2), (72, 3, 4), (115, 2, 2), (116, 2, 4), (132, 6, 4)]"

definition V95_CALL_OPS :: "(u8 \<times> u8 \<times> u8) list" where
  "V95_CALL_OPS =
    [(82, 3, 2), (88, 3, 4)]"

definition V95_NAMES :: "string list" where
  "V95_NAMES =
    [''Unreachable'', ''NewObjectWithBuffer'', ''NewObjectWithBufferLong'', ''NewObject'',
     ''NewObjectWithParent'', ''NewArrayWithBuffer'', ''NewArrayWithBufferLong'', ''NewArray'',
     ''Mov'', ''MovLong'', ''Negate'', ''Not'', ''BitNot'', ''TypeOf'', ''Eq'', ''StrictEq'',
     ''Neq'', ''StrictNeq'', ''Less'', ''LessEq'', ''Greater'', ''GreaterEq'', ''Add'', ''AddN'',
     ''Mul'', ''MulN'', ''Div'', ''DivN'', ''Mod'', ''Sub'', ''SubN'', ''LShift'', ''RShift'',
     ''URshift'', ''BitAnd'', ''BitXor'', ''BitOr'', ''Inc'', ''Dec'', ''InstanceOf'', ''IsIn'',
     ''GetEnvironment'', ''StoreToEnvironment'', ''StoreToEnvironmentL'',
     ''StoreNPToEnvironment'', ''StoreNPToEnvironmentL'', ''LoadFromEnvironment'',
     ''LoadFromEnvironmentL'', ''GetGlobalObject'', ''GetNewTarget'', ''CreateEnvironment'',
     ''CreateInnerEnvironment'', ''DeclareGlobalVar'', ''ThrowIfHasRestrictedGlobalProperty'',
     ''GetByIdShort'', ''GetById'', ''GetByIdLong'', ''TryGetById'', ''TryGetByIdLong'',
     ''PutById'', ''PutByIdLong'', ''TryPutById'', ''TryPutByIdLong'', ''PutNewOwnByIdShort'',
     ''PutNewOwnById'', ''PutNewOwnByIdLong'', ''PutNewOwnNEById'', ''PutNewOwnNEByIdLong'',
     ''PutOwnByIndex'', ''PutOwnByIndexL'', ''PutOwnByVal'', ''DelById'', ''DelByIdLong'',
     ''GetByVal'', ''PutByVal'', ''DelByVal'', ''PutOwnGetterSetterByVal'', ''GetPNameList'',
     ''GetNextPName'', ''Call'', ''Construct'', ''Call1'', ''CallDirect'', ''Call2'', ''Call3'',
     ''Call4'', ''CallLong'', ''ConstructLong'', ''CallDirectLongIndex'', ''CallBuiltin'',
     ''CallBuiltinLong'', ''GetBuiltinClosure'', ''Ret'', ''Catch'', ''DirectEval'', ''Throw'',
     ''ThrowIfEmpty'', ''Debugger'', ''AsyncBreakCheck'', ''ProfilePoint'', ''CreateClosure'',
     ''CreateClosureLongIndex'', ''CreateGeneratorClosure'', ''CreateGeneratorClosureLongIndex'',
     ''CreateAsyncClosure'', ''CreateAsyncClosureLongIndex'', ''CreateThis'', ''SelectObject'',
     ''LoadParam'', ''LoadParamLong'', ''LoadConstUInt8'', ''LoadConstInt'', ''LoadConstDouble'',
     ''LoadConstBigInt'', ''LoadConstBigIntLongIndex'', ''LoadConstString'',
     ''LoadConstStringLongIndex'', ''LoadConstEmpty'', ''LoadConstUndefined'', ''LoadConstNull'',
     ''LoadConstTrue'', ''LoadConstFalse'', ''LoadConstZero'', ''CoerceThisNS'', ''LoadThisNS'',
     ''ToNumber'', ''ToNumeric'', ''ToInt32'', ''AddEmptyString'', ''GetArgumentsPropByVal'',
     ''GetArgumentsLength'', ''ReifyArguments'', ''CreateRegExp'', ''SwitchImm'',
     ''StartGenerator'', ''ResumeGenerator'', ''CompleteGenerator'', ''CreateGenerator'',
     ''CreateGeneratorLongIndex'', ''IteratorBegin'', ''IteratorNext'', ''IteratorClose'',
     ''Jmp'', ''JmpLong'', ''JmpTrue'', ''JmpTrueLong'', ''JmpFalse'', ''JmpFalseLong'',
     ''JmpUndefined'', ''JmpUndefinedLong'', ''SaveGenerator'', ''SaveGeneratorLong'', ''JLess'',
     ''JLessLong'', ''JNotLess'', ''JNotLessLong'', ''JLessN'', ''JLessNLong'', ''JNotLessN'',
     ''JNotLessNLong'', ''JLessEqual'', ''JLessEqualLong'', ''JNotLessEqual'',
     ''JNotLessEqualLong'', ''JLessEqualN'', ''JLessEqualNLong'', ''JNotLessEqualN'',
     ''JNotLessEqualNLong'', ''JGreater'', ''JGreaterLong'', ''JNotGreater'', ''JNotGreaterLong'',
     ''JGreaterN'', ''JGreaterNLong'', ''JNotGreaterN'', ''JNotGreaterNLong'', ''JGreaterEqual'',
     ''JGreaterEqualLong'', ''JNotGreaterEqual'', ''JNotGreaterEqualLong'', ''JGreaterEqualN'',
     ''JGreaterEqualNLong'', ''JNotGreaterEqualN'', ''JNotGreaterEqualNLong'', ''JEqual'',
     ''JEqualLong'', ''JNotEqual'', ''JNotEqualLong'', ''JStrictEqual'', ''JStrictEqualLong'',
     ''JStrictNotEqual'', ''JStrictNotEqualLong'', ''Add32'', ''Sub32'', ''Mul32'', ''Divi32'',
     ''Divu32'', ''Loadi8'', ''Loadu8'', ''Loadi16'', ''Loadu16'', ''Loadi32'', ''Loadu32'',
     ''Store8'', ''Store16'', ''Store32'']"

definition V95_SCHEMAS :: "(string \<times> OpType list) list" where
  "V95_SCHEMAS =
    [(''Unreachable'', []), (''NewObjectWithBuffer'', [OT_R, OT_U2, OT_U2, OT_U2, OT_U2]),
     (''NewObjectWithBufferLong'', [OT_R, OT_U2, OT_U2, OT_U4, OT_U4]), (''NewObject'', [OT_R]),
     (''NewObjectWithParent'', [OT_R, OT_R]),
     (''NewArrayWithBuffer'', [OT_R, OT_U2, OT_U2, OT_U2]),
     (''NewArrayWithBufferLong'', [OT_R, OT_U2, OT_U2, OT_U4]), (''NewArray'', [OT_R, OT_U2]),
     (''Mov'', [OT_R, OT_R]), (''MovLong'', [OT_R4, OT_R4]), (''Negate'', [OT_R, OT_R]),
     (''Not'', [OT_R, OT_R]), (''BitNot'', [OT_R, OT_R]), (''TypeOf'', [OT_R, OT_R]),
     (''Eq'', [OT_R, OT_R, OT_R]), (''StrictEq'', [OT_R, OT_R, OT_R]),
     (''Neq'', [OT_R, OT_R, OT_R]), (''StrictNeq'', [OT_R, OT_R, OT_R]),
     (''Less'', [OT_R, OT_R, OT_R]), (''LessEq'', [OT_R, OT_R, OT_R]),
     (''Greater'', [OT_R, OT_R, OT_R]), (''GreaterEq'', [OT_R, OT_R, OT_R]),
     (''Add'', [OT_R, OT_R, OT_R]), (''AddN'', [OT_R, OT_R, OT_R]), (''Mul'', [OT_R, OT_R, OT_R]),
     (''MulN'', [OT_R, OT_R, OT_R]), (''Div'', [OT_R, OT_R, OT_R]),
     (''DivN'', [OT_R, OT_R, OT_R]), (''Mod'', [OT_R, OT_R, OT_R]), (''Sub'', [OT_R, OT_R, OT_R]),
     (''SubN'', [OT_R, OT_R, OT_R]), (''LShift'', [OT_R, OT_R, OT_R]),
     (''RShift'', [OT_R, OT_R, OT_R]), (''URshift'', [OT_R, OT_R, OT_R]),
     (''BitAnd'', [OT_R, OT_R, OT_R]), (''BitXor'', [OT_R, OT_R, OT_R]),
     (''BitOr'', [OT_R, OT_R, OT_R]), (''Inc'', [OT_R, OT_R]), (''Dec'', [OT_R, OT_R]),
     (''InstanceOf'', [OT_R, OT_R, OT_R]), (''IsIn'', [OT_R, OT_R, OT_R]),
     (''GetEnvironment'', [OT_R, OT_U1]), (''StoreToEnvironment'', [OT_R, OT_U1, OT_R]),
     (''StoreToEnvironmentL'', [OT_R, OT_U2, OT_R]),
     (''StoreNPToEnvironment'', [OT_R, OT_U1, OT_R]),
     (''StoreNPToEnvironmentL'', [OT_R, OT_U2, OT_R]),
     (''LoadFromEnvironment'', [OT_R, OT_R, OT_U1]),
     (''LoadFromEnvironmentL'', [OT_R, OT_R, OT_U2]), (''GetGlobalObject'', [OT_R]),
     (''GetNewTarget'', [OT_R]), (''CreateEnvironment'', [OT_R]),
     (''CreateInnerEnvironment'', [OT_R, OT_R, OT_U4]), (''DeclareGlobalVar'', [OT_U4]),
     (''ThrowIfHasRestrictedGlobalProperty'', [OT_U4]),
     (''GetByIdShort'', [OT_R, OT_R, OT_U1, OT_U1]), (''GetById'', [OT_R, OT_R, OT_U1, OT_U2]),
     (''GetByIdLong'', [OT_R, OT_R, OT_U1, OT_U4]), (''TryGetById'', [OT_R, OT_R, OT_U1, OT_U2]),
     (''TryGetByIdLong'', [OT_R, OT_R, OT_U1, OT_U4]), (''PutById'', [OT_R, OT_R, OT_U1, OT_U2]),
     (''PutByIdLong'', [OT_R, OT_R, OT_U1, OT_U4]), (''TryPutById'', [OT_R, OT_R, OT_U1, OT_U2]),
     (''TryPutByIdLong'', [OT_R, OT_R, OT_U1, OT_U4]),
     (''PutNewOwnByIdShort'', [OT_R, OT_R, OT_U1]), (''PutNewOwnById'', [OT_R, OT_R, OT_U2]),
     (''PutNewOwnByIdLong'', [OT_R, OT_R, OT_U4]), (''PutNewOwnNEById'', [OT_R, OT_R, OT_U2]),
     (''PutNewOwnNEByIdLong'', [OT_R, OT_R, OT_U4]), (''PutOwnByIndex'', [OT_R, OT_R, OT_U1]),
     (''PutOwnByIndexL'', [OT_R, OT_R, OT_U4]), (''PutOwnByVal'', [OT_R, OT_R, OT_R, OT_U1]),
     (''DelById'', [OT_R, OT_R, OT_U2]), (''DelByIdLong'', [OT_R, OT_R, OT_U4]),
     (''GetByVal'', [OT_R, OT_R, OT_R]), (''PutByVal'', [OT_R, OT_R, OT_R]),
     (''DelByVal'', [OT_R, OT_R, OT_R]),
     (''PutOwnGetterSetterByVal'', [OT_R, OT_R, OT_R, OT_R, OT_U1]),
     (''GetPNameList'', [OT_R, OT_R, OT_R, OT_R]),
     (''GetNextPName'', [OT_R, OT_R, OT_R, OT_R, OT_R]), (''Call'', [OT_R, OT_R, OT_U1]),
     (''Construct'', [OT_R, OT_R, OT_U1]), (''Call1'', [OT_R, OT_R, OT_R]),
     (''CallDirect'', [OT_R, OT_U1, OT_U2]), (''Call2'', [OT_R, OT_R, OT_R, OT_R]),
     (''Call3'', [OT_R, OT_R, OT_R, OT_R, OT_R]),
     (''Call4'', [OT_R, OT_R, OT_R, OT_R, OT_R, OT_R]), (''CallLong'', [OT_R, OT_R, OT_U4]),
     (''ConstructLong'', [OT_R, OT_R, OT_U4]), (''CallDirectLongIndex'', [OT_R, OT_U1, OT_U4]),
     (''CallBuiltin'', [OT_R, OT_U1, OT_U1]), (''CallBuiltinLong'', [OT_R, OT_U1, OT_U4]),
     (''GetBuiltinClosure'', [OT_R, OT_U1]), (''Ret'', [OT_R]), (''Catch'', [OT_R]),
     (''DirectEval'', [OT_R, OT_R, OT_U1]), (''Throw'', [OT_R]), (''ThrowIfEmpty'', [OT_R, OT_R]),
     (''Debugger'', []), (''AsyncBreakCheck'', []), (''ProfilePoint'', [OT_U2]),
     (''CreateClosure'', [OT_R, OT_R, OT_U2]), (''CreateClosureLongIndex'', [OT_R, OT_R, OT_U4]),
     (''CreateGeneratorClosure'', [OT_R, OT_R, OT_U2]),
     (''CreateGeneratorClosureLongIndex'', [OT_R, OT_R, OT_U4]),
     (''CreateAsyncClosure'', [OT_R, OT_R, OT_U2]),
     (''CreateAsyncClosureLongIndex'', [OT_R, OT_R, OT_U4]), (''CreateThis'', [OT_R, OT_R, OT_R]),
     (''SelectObject'', [OT_R, OT_R, OT_R]), (''LoadParam'', [OT_R, OT_U1]),
     (''LoadParamLong'', [OT_R, OT_U4]), (''LoadConstUInt8'', [OT_R, OT_U1]),
     (''LoadConstInt'', [OT_R, OT_I4]), (''LoadConstDouble'', [OT_R, OT_D]),
     (''LoadConstBigInt'', [OT_R, OT_U2]), (''LoadConstBigIntLongIndex'', [OT_R, OT_U4]),
     (''LoadConstString'', [OT_R, OT_U2]), (''LoadConstStringLongIndex'', [OT_R, OT_U4]),
     (''LoadConstEmpty'', [OT_R]), (''LoadConstUndefined'', [OT_R]), (''LoadConstNull'', [OT_R]),
     (''LoadConstTrue'', [OT_R]), (''LoadConstFalse'', [OT_R]), (''LoadConstZero'', [OT_R]),
     (''CoerceThisNS'', [OT_R, OT_R]), (''LoadThisNS'', [OT_R]), (''ToNumber'', [OT_R, OT_R]),
     (''ToNumeric'', [OT_R, OT_R]), (''ToInt32'', [OT_R, OT_R]),
     (''AddEmptyString'', [OT_R, OT_R]), (''GetArgumentsPropByVal'', [OT_R, OT_R, OT_R]),
     (''GetArgumentsLength'', [OT_R, OT_R]), (''ReifyArguments'', [OT_R]),
     (''CreateRegExp'', [OT_R, OT_U4, OT_U4, OT_U4]),
     (''SwitchImm'', [OT_R, OT_U4, OT_A4, OT_U4, OT_U4]), (''StartGenerator'', []),
     (''ResumeGenerator'', [OT_R, OT_R]), (''CompleteGenerator'', []),
     (''CreateGenerator'', [OT_R, OT_R, OT_U2]),
     (''CreateGeneratorLongIndex'', [OT_R, OT_R, OT_U4]), (''IteratorBegin'', [OT_R, OT_R]),
     (''IteratorNext'', [OT_R, OT_R, OT_R]), (''IteratorClose'', [OT_R, OT_U1]),
     (''Jmp'', [OT_A1]), (''JmpLong'', [OT_A4]), (''JmpTrue'', [OT_A1, OT_R]),
     (''JmpTrueLong'', [OT_A4, OT_R]), (''JmpFalse'', [OT_A1, OT_R]),
     (''JmpFalseLong'', [OT_A4, OT_R]), (''JmpUndefined'', [OT_A1, OT_R]),
     (''JmpUndefinedLong'', [OT_A4, OT_R]), (''SaveGenerator'', [OT_A1]),
     (''SaveGeneratorLong'', [OT_A4]), (''JLess'', [OT_A1, OT_R, OT_R]),
     (''JLessLong'', [OT_A4, OT_R, OT_R]), (''JNotLess'', [OT_A1, OT_R, OT_R]),
     (''JNotLessLong'', [OT_A4, OT_R, OT_R]), (''JLessN'', [OT_A1, OT_R, OT_R]),
     (''JLessNLong'', [OT_A4, OT_R, OT_R]), (''JNotLessN'', [OT_A1, OT_R, OT_R]),
     (''JNotLessNLong'', [OT_A4, OT_R, OT_R]), (''JLessEqual'', [OT_A1, OT_R, OT_R]),
     (''JLessEqualLong'', [OT_A4, OT_R, OT_R]), (''JNotLessEqual'', [OT_A1, OT_R, OT_R]),
     (''JNotLessEqualLong'', [OT_A4, OT_R, OT_R]), (''JLessEqualN'', [OT_A1, OT_R, OT_R]),
     (''JLessEqualNLong'', [OT_A4, OT_R, OT_R]), (''JNotLessEqualN'', [OT_A1, OT_R, OT_R]),
     (''JNotLessEqualNLong'', [OT_A4, OT_R, OT_R]), (''JGreater'', [OT_A1, OT_R, OT_R]),
     (''JGreaterLong'', [OT_A4, OT_R, OT_R]), (''JNotGreater'', [OT_A1, OT_R, OT_R]),
     (''JNotGreaterLong'', [OT_A4, OT_R, OT_R]), (''JGreaterN'', [OT_A1, OT_R, OT_R]),
     (''JGreaterNLong'', [OT_A4, OT_R, OT_R]), (''JNotGreaterN'', [OT_A1, OT_R, OT_R]),
     (''JNotGreaterNLong'', [OT_A4, OT_R, OT_R]), (''JGreaterEqual'', [OT_A1, OT_R, OT_R]),
     (''JGreaterEqualLong'', [OT_A4, OT_R, OT_R]), (''JNotGreaterEqual'', [OT_A1, OT_R, OT_R]),
     (''JNotGreaterEqualLong'', [OT_A4, OT_R, OT_R]), (''JGreaterEqualN'', [OT_A1, OT_R, OT_R]),
     (''JGreaterEqualNLong'', [OT_A4, OT_R, OT_R]), (''JNotGreaterEqualN'', [OT_A1, OT_R, OT_R]),
     (''JNotGreaterEqualNLong'', [OT_A4, OT_R, OT_R]), (''JEqual'', [OT_A1, OT_R, OT_R]),
     (''JEqualLong'', [OT_A4, OT_R, OT_R]), (''JNotEqual'', [OT_A1, OT_R, OT_R]),
     (''JNotEqualLong'', [OT_A4, OT_R, OT_R]), (''JStrictEqual'', [OT_A1, OT_R, OT_R]),
     (''JStrictEqualLong'', [OT_A4, OT_R, OT_R]), (''JStrictNotEqual'', [OT_A1, OT_R, OT_R]),
     (''JStrictNotEqualLong'', [OT_A4, OT_R, OT_R]), (''Add32'', [OT_R, OT_R, OT_R]),
     (''Sub32'', [OT_R, OT_R, OT_R]), (''Mul32'', [OT_R, OT_R, OT_R]),
     (''Divi32'', [OT_R, OT_R, OT_R]), (''Divu32'', [OT_R, OT_R, OT_R]),
     (''Loadi8'', [OT_R, OT_R, OT_R]), (''Loadu8'', [OT_R, OT_R, OT_R]),
     (''Loadi16'', [OT_R, OT_R, OT_R]), (''Loadu16'', [OT_R, OT_R, OT_R]),
     (''Loadi32'', [OT_R, OT_R, OT_R]), (''Loadu32'', [OT_R, OT_R, OT_R]),
     (''Store8'', [OT_R, OT_R, OT_R]), (''Store16'', [OT_R, OT_R, OT_R]),
     (''Store32'', [OT_R, OT_R, OT_R])]"

definition V95_STRING_IDS :: "(u8 \<times> u8) list" where
  "V95_STRING_IDS =
    [(52, 0), (53, 0), (54, 3), (55, 3), (56, 3), (57, 3), (58, 3), (59, 3), (60, 3), (61, 3),
     (62, 3), (63, 2), (64, 2), (65, 2), (66, 2), (67, 2), (71, 2), (72, 2), (115, 1), (116, 1),
     (132, 2)]"

definition V95_FUNC_IDS :: "(u8 \<times> u8) list" where
  "V95_FUNC_IDS =
    [(82, 2), (100, 2), (101, 2), (102, 2), (103, 2), (104, 2), (105, 2), (137, 2), (138, 2)]"

definition V95_TABLES :: version_tables where
  "V95_TABLES =
    \<lparr>vt_opcodes = V95_OPCODES, vt_sizes = V95_SIZES, vt_str_ops = V95_STR_OPS, vt_call_ops = V95_CALL_OPS,
     vt_names = V95_NAMES, vt_schemas = V95_SCHEMAS, vt_string_ids = V95_STRING_IDS, vt_func_ids = V95_FUNC_IDS\<rparr>"

lemmas V95_types = V95_SCHEMAS_def [THEN arg_cong [of _ _ "map snd"], unfolded list.map snd_conv]

lemma V95_names: "V95_NAMES = map OpCode_name V95_OPCODES" "map fst V95_SCHEMAS = V95_NAMES"
  by (simp_all only: V95_NAMES_def V95_OPCODES_def V95_SCHEMAS_def list.map opcode_name fst_conv)

lemma V95_agree: "tables_agree V95_TABLES"
  unfolding V95_TABLES_def
  by (rule tables_agreeI [OF _ _ V95_names V95_types])
    (simp_all add: opcodes_upt V95_OPCODES_def V95_SIZES_def V95_STR_OPS_def V95_STRING_IDS_def
      V95_CALL_OPS_def V95_FUNC_IDS_def table_checks)

subsection \<open>Version 97\<close>

definition V97_OPCODES :: "OpCode list" where
  "V97_OPCODES =
    [OP_Unreachable, OP_NewObjectWithBuffer, OP_NewObjectWithBufferLong, OP_NewObject,
     OP_NewObjectWithParent, OP_NewArrayWithBuffer, OP_NewArrayWithBufferLong, OP_NewArray,
     OP_Mov, OP_MovLong, OP_Negate, OP_Not, OP_BitNot, OP_TypeOf, OP_Eq, OP_StrictEq, OP_Neq,
     OP_StrictNeq, OP_Less, OP_LessEq, OP_Greater, OP_GreaterEq, OP_Add, OP_AddN, OP_AddS, OP_Mul,
     OP_MulN, OP_Div, OP_DivN, OP_Mod, OP_Sub, OP_SubN, OP_LShift, OP_RShift, OP_URshift,
     OP_BitAnd, OP_BitXor, OP_BitOr, OP_Inc, OP_Dec, OP_InstanceOf, OP_IsIn,
     OP_GetParentEnvironment, OP_GetEnvironment, OP_GetClosureEnvironment, OP_StoreToEnvironment,
     OP_StoreToEnvironmentL, OP_StoreNPToEnvironment, OP_StoreNPToEnvironmentL,
     OP_LoadFromEnvironment, OP_LoadFromEnvironmentL, OP_GetGlobalObject, OP_GetNewTarget,
     OP_CreateFunctionEnvironment, OP_CreateTopLevelEnvironment, OP_CreateEnvironment,
     OP_DeclareGlobalVar, OP_GetByIdShort, OP_GetById, OP_GetByIdLong, OP_TryGetById,
     OP_TryGetByIdLong, OP_PutByIdLoose, OP_PutByIdStrict, OP_PutByIdLooseLong,
     OP_PutByIdStrictLong, OP_TryPutByIdLoose, OP_TryPutByIdStrict, OP_TryPutByIdLooseLong,
     OP_TryPutByIdStrictLong, OP_PutNewOwnByIdShort, OP_PutNewOwnById, OP_PutNewOwnByIdLong,
     OP_PutOwnBySlotIdx, OP_PutOwnBySlotIdxLong, OP_PutNewOwnNEById, OP_PutNewOwnNEByIdLong,
     OP_PutOwnByIndex, OP_PutOwnByIndexL, OP_PutOwnByVal, OP_DelByIdLoose, OP_DelByIdStrict,
     OP_DelByIdLooseLong, OP_DelByIdStrictLong, OP_GetByVal, OP_GetByIndex, OP_PutByValLoose,
     OP_PutByValStrict, OP_DelByValLoose, OP_DelByValStrict, OP_PutOwnGetterSetterByVal,
     OP_GetPNameList, OP_GetNextPName, OP_Call, OP_Construct, OP_Call1, OP_CallWithNewTarget,
     OP_Call2, OP_Call3, OP_Call4, OP_CallWithNewTargetLong, OP_CallBuiltin, OP_CallBuiltinLong,
     OP_GetBuiltinClosure, OP_Ret, OP_Catch, OP_DirectEval, OP_Throw, OP_ThrowIfEmpty,
     OP_Debugger, OP_AsyncBreakCheck, OP_ProfilePoint, OP_CreateClosure,
     OP_CreateClosureLongIndex, OP_CreateThis, OP_SelectObject, OP_LoadParam, OP_LoadParamLong,
     OP_LoadConstUInt8, OP_LoadConstInt, OP_LoadConstDouble, OP_LoadConstBigInt,
     OP_LoadConstBigIntLongIndex, OP_LoadConstString, OP_LoadConstStringLongIndex,
     OP_LoadConstEmpty, OP_LoadConstUndefined, OP_LoadConstNull, OP_LoadConstTrue,
     OP_LoadConstFalse, OP_LoadConstZero, OP_CoerceThisNS, OP_LoadThisNS, OP_ToNumber,
     OP_ToNumeric, OP_ToInt32, OP_AddEmptyString, OP_GetArgumentsPropByValLoose,
     OP_GetArgumentsPropByValStrict, OP_GetArgumentsLength, OP_ReifyArgumentsStrict,
     OP_ReifyArgumentsLoose, OP_CreateRegExp, OP_SwitchImm, OP_CreateGenerator,
     OP_CreateGeneratorLongIndex, OP_IteratorBegin, OP_IteratorNext, OP_IteratorClose, OP_Jmp,
     OP_JmpLong, OP_JmpTrue, OP_JmpTrueLong, OP_JmpFalse, OP_JmpFalseLong, OP_JmpUndefined,
     OP_JmpUndefinedLong, OP_JLess, OP_JLessLong, OP_JNotLess, OP_JNotLessLong, OP_JLessN,
     OP_JLessNLong, OP_JNotLessN, OP_JNotLessNLong, OP_JLessEqual, OP_JLessEqualLong,
     OP_JNotLessEqual, OP_JNotLessEqualLong, OP_JLessEqualN, OP_JLessEqualNLong,
     OP_JNotLessEqualN, OP_JNotLessEqualNLong, OP_JGreater, OP_JGreaterLong, OP_JNotGreater,
     OP_JNotGreaterLong, OP_JGreaterN, OP_JGreaterNLong, OP_JNotGreaterN, OP_JNotGreaterNLong,
     OP_JGreaterEqual, OP_JGreaterEqualLong, OP_JNotGreaterEqual, OP_JNotGreaterEqualLong,
     OP_JGreaterEqualN, OP_JGreaterEqualNLong, OP_JNotGreaterEqualN, OP_JNotGreaterEqualNLong,
     OP_JEqual, OP_JEqualLong, OP_JNotEqual, OP_JNotEqualLong, OP_JStrictEqual,
     OP_JStrictEqualLong, OP_JStrictNotEqual, OP_JStrictNotEqualLong]"

definition V97_SIZES :: "u8 list" where
  "V97_SIZES =
    [1, 6, 10, 2, 3, 8, 10, 4, 3, 9, 3, 3, 3, 3, 4, 4, 4, 4, 4, 4, 4, 4, 4, 4, 4, 4, 4, 4, 4, 4,
     4, 4, 4, 4, 4, 4, 4, 4, 3, 3, 4, 4, 3, 4, 3, 4, 5, 4, 5, 4, 5, 2, 2, 3, 6, 7, 5, 5, 6, 8, 6,
     8, 6, 6, 8, 8, 6, 6, 8, 8, 4, 5, 7, 4, 7, 5, 7, 4, 7, 5, 5, 5, 7, 7, 4, 4, 4, 4, 4, 4, 6, 5,
     6, 4, 4, 4, 5, 5, 6, 7, 5, 4, 7, 3, 2, 2, 4, 2, 3, 1, 1, 3, 5, 7, 4, 4, 3, 6, 3, 6, 10, 4, 6,
     4, 6, 2, 2, 2, 2, 2, 2, 3, 2, 3, 3, 3, 3, 4, 4, 3, 2, 2, 14, 18, 5, 7, 3, 4, 3, 2, 5, 3, 6,
     3, 6, 3, 6, 4, 7, 4, 7, 4, 7, 4, 7, 4, 7, 4, 7, 4, 7, 4, 7, 4, 7, 4, 7, 4, 7, 4, 7, 4, 7, 4,
     7, 4, 7, 4, 7, 4, 7, 4, 7, 4, 7, 4, 7]"

definition V97_STR_OPS :: "(u8 \<times> u8 \<times> u8) list" where
  "V97_STR_OPS =
    [(56, 1, 4), (57, 4, 1), (58, 4, 2), (59, 4, 4), (60, 4, 2), (61, 4, 4), (62, 4, 2),
     (63, 4, 2), (64, 4, 4), (65, 4, 4), (66, 4, 2), (67, 4, 2), (68, 4, 4), (69, 4, 4),
     (70, 3, 1), (71, 3, 2), (72, 3, 4), (75, 3, 2), (76, 3, 4), (80, 3, 2), (81, 3, 2),
     (82, 3, 4), (83, 3, 4), (123, 2, 2), (124, 2, 4), (142, 6, 4)]"

definition V97_CALL_OPS :: "(u8 \<times> u8 \<times> u8) list" where
  "V97_CALL_OPS = []"

definition V97_NAMES :: "string list" where
  "V97_NAMES =
    [''Unreachable'', ''NewObjectWithBuffer'', ''NewObjectWithBufferLong'', ''NewObject'',
     ''NewObjectWithParent'', ''NewArrayWithBuffer'', ''NewArrayWithBufferLong'', ''NewArray'',
     ''Mov'', ''MovLong'', ''Negate'', ''Not'', ''BitNot'', ''TypeOf'', ''Eq'', ''StrictEq'',
     ''Neq'', ''StrictNeq'', ''Less'', ''LessEq'', ''Greater'', ''GreaterEq'', ''Add'', ''AddN'',
     ''AddS'', ''Mul'', ''MulN'', ''Div'', ''DivN'', ''Mod'', ''Sub'', ''SubN'', ''LShift'',
     ''RShift'', ''URshift'', ''BitAnd'', ''BitXor'', ''BitOr'', ''Inc'', ''Dec'', ''InstanceOf'',
     ''IsIn'', ''GetParentEnvironment'', ''GetEnvironment'', ''GetClosureEnvironment'',
     ''StoreToEnvironment'', ''StoreToEnvironmentL'', ''StoreNPToEnvironment'',
     ''StoreNPToEnvironmentL'', ''LoadFromEnvironment'', ''LoadFromEnvironmentL'',
     ''GetGlobalObject'', ''GetNewTarget'', ''CreateFunctionEnvironment'',
     ''CreateTopLevelEnvironment'', ''CreateEnvironment'', ''DeclareGlobalVar'', ''GetByIdShort'',
     ''GetById'', ''GetByIdLong'', ''TryGetById'', ''TryGetByIdLong'', ''PutByIdLoose'',
     ''PutByIdStrict'', ''PutByIdLooseLong'', ''PutByIdStrictLong'', ''TryPutByIdLoose'',
     ''TryPutByIdStrict'', ''TryPutByIdLooseLong'', ''TryPutByIdStrictLong'',
     ''PutNewOwnByIdShort'', ''PutNewOwnById'', ''PutNewOwnByIdLong'', ''PutOwnBySlotIdx'',
     ''PutOwnBySlotIdxLong'', ''PutNewOwnNEById'', ''PutNewOwnNEByIdLong'', ''PutOwnByIndex'',
     ''PutOwnByIndexL'', ''PutOwnByVal'', ''DelByIdLoose'', ''DelByIdStrict'',
     ''DelByIdLooseLong'', ''DelByIdStrictLong'', ''GetByVal'', ''GetByIndex'', ''PutByValLoose'',
     ''PutByValStrict'', ''DelByValLoose'', ''DelByValStrict'', ''PutOwnGetterSetterByVal'',
     ''GetPNameList'', ''GetNextPName'', ''Call'', ''Construct'', ''Call1'',
     ''CallWithNewTarget'', ''Call2'', ''Call3'', ''Call4'', ''CallWithNewTargetLong'',
     ''CallBuiltin'', ''CallBuiltinLong'', ''GetBuiltinClosure'', ''Ret'', ''Catch'',
     ''DirectEval'', ''Throw'', ''ThrowIfEmpty'', ''Debugger'', ''AsyncBreakCheck'',
     ''ProfilePoint'', ''CreateClosure'', ''CreateClosureLongIndex'', ''CreateThis'',
     ''SelectObject'', ''LoadParam'', ''LoadParamLong'', ''LoadConstUInt8'', ''LoadConstInt'',
     ''LoadConstDouble'', ''LoadConstBigInt'', ''LoadConstBigIntLongIndex'', ''LoadConstString'',
     ''LoadConstStringLongIndex'', ''LoadConstEmpty'', ''LoadConstUndefined'', ''LoadConstNull'',
     ''LoadConstTrue'', ''LoadConstFalse'', ''LoadConstZero'', ''CoerceThisNS'', ''LoadThisNS'',
     ''ToNumber'', ''ToNumeric'', ''ToInt32'', ''AddEmptyString'', ''GetArgumentsPropByValLoose'',
     ''GetArgumentsPropByValStrict'', ''GetArgumentsLength'', ''ReifyArgumentsStrict'',
     ''ReifyArgumentsLoose'', ''CreateRegExp'', ''SwitchImm'', ''CreateGenerator'',
     ''CreateGeneratorLongIndex'', ''IteratorBegin'', ''IteratorNext'', ''IteratorClose'',
     ''Jmp'', ''JmpLong'', ''JmpTrue'', ''JmpTrueLong'', ''JmpFalse'', ''JmpFalseLong'',
     ''JmpUndefined'', ''JmpUndefinedLong'', ''JLess'', ''JLessLong'', ''JNotLess'',
     ''JNotLessLong'', ''JLessN'', ''JLessNLong'', ''JNotLessN'', ''JNotLessNLong'',
     ''JLessEqual'', ''JLessEqualLong'', ''JNotLessEqual'', ''JNotLessEqualLong'',
     ''JLessEqualN'', ''JLessEqualNLong'', ''JNotLessEqualN'', ''JNotLessEqualNLong'',
     ''JGreater'', ''JGreaterLong'', ''JNotGreater'', ''JNotGreaterLong'', ''JGreaterN'',
     ''JGreaterNLong'', ''JNotGreaterN'', ''JNotGreaterNLong'', ''JGreaterEqual'',
     ''JGreaterEqualLong'', ''JNotGreaterEqual'', ''JNotGreaterEqualLong'', ''JGreaterEqualN'',
     ''JGreaterEqualNLong'', ''JNotGreaterEqualN'', ''JNotGreaterEqualNLong'', ''JEqual'',
     ''JEqualLong'', ''JNotEqual'', ''JNotEqualLong'', ''JStrictEqual'', ''JStrictEqualLong'',
     ''JStrictNotEqual'', ''JStrictNotEqualLong'']"

definition V97_SCHEMAS :: "(string \<times> OpType list) list" where
  "V97_SCHEMAS =
    [(''Unreachable'', []), (''NewObjectWithBuffer'', [OT_R, OT_U2, OT_U2]),
     (''NewObjectWithBufferLong'', [OT_R, OT_U4, OT_U4]), (''NewObject'', [OT_R]),
     (''NewObjectWithParent'', [OT_R, OT_R]),
     (''NewArrayWithBuffer'', [OT_R, OT_U2, OT_U2, OT_U2]),
     (''NewArrayWithBufferLong'', [OT_R, OT_U2, OT_U2, OT_U4]), (''NewArray'', [OT_R, OT_U2]),
     (''Mov'', [OT_R, OT_R]), (''MovLong'', [OT_R4, OT_R4]), (''Negate'', [OT_R, OT_R]),
     (''Not'', [OT_R, OT_R]), (''BitNot'', [OT_R, OT_R]), (''TypeOf'', [OT_R, OT_R]),
     (''Eq'', [OT_R, OT_R, OT_R]), (''StrictEq'', [OT_R, OT_R, OT_R]),
     (''Neq'', [OT_R, OT_R, OT_R]), (''StrictNeq'', [OT_R, OT_R, OT_R]),
     (''Less'', [OT_R, OT_R, OT_R]), (''LessEq'', [OT_R, OT_R, OT_R]),
     (''Greater'', [OT_R, OT_R, OT_R]), (''GreaterEq'', [OT_R, OT_R, OT_R]),
     (''Add'', [OT_R, OT_R, OT_R]), (''AddN'', [OT_R, OT_R, OT_R]),
     (''AddS'', [OT_R, OT_R, OT_R]), (''Mul'', [OT_R, OT_R, OT_R]),
     (''MulN'', [OT_R, OT_R, OT_R]), (''Div'', [OT_R, OT_R, OT_R]),
     (''DivN'', [OT_R, OT_R, OT_R]), (''Mod'', [OT_R, OT_R, OT_R]), (''Sub'', [OT_R, OT_R, OT_R]),
     (''SubN'', [OT_R, OT_R, OT_R]), (''LShift'', [OT_R, OT_R, OT_R]),
     (''RShift'', [OT_R, OT_R, OT_R]), (''URshift'', [OT_R, OT_R, OT_R]),
     (''BitAnd'', [OT_R, OT_R, OT_R]), (''BitXor'', [OT_R, OT_R, OT_R]),
     (''BitOr'', [OT_R, OT_R, OT_R]), (''Inc'', [OT_R, OT_R]), (''Dec'', [OT_R, OT_R]),
     (''InstanceOf'', [OT_R, OT_R, OT_R]), (''IsIn'', [OT_R, OT_R, OT_R]),
     (''GetParentEnvironment'', [OT_R, OT_U1]), (''GetEnvironment'', [OT_R, OT_R, OT_U1]),
     (''GetClosureEnvironment'', [OT_R, OT_R]), (''StoreToEnvironment'', [OT_R, OT_U1, OT_R]),
     (''StoreToEnvironmentL'', [OT_R, OT_U2, OT_R]),
     (''StoreNPToEnvironment'', [OT_R, OT_U1, OT_R]),
     (''StoreNPToEnvironmentL'', [OT_R, OT_U2, OT_R]),
     (''LoadFromEnvironment'', [OT_R, OT_R, OT_U1]),
     (''LoadFromEnvironmentL'', [OT_R, OT_R, OT_U2]), (''GetGlobalObject'', [OT_R]),
     (''GetNewTarget'', [OT_R]), (''CreateFunctionEnvironment'', [OT_R, OT_U1]),
     (''CreateTopLevelEnvironment'', [OT_R, OT_U4]), (''CreateEnvironment'', [OT_R, OT_R, OT_U4]),
     (''DeclareGlobalVar'', [OT_U4]), (''GetByIdShort'', [OT_R, OT_R, OT_U1, OT_U1]),
     (''GetById'', [OT_R, OT_R, OT_U1, OT_U2]), (''GetByIdLong'', [OT_R, OT_R, OT_U1, OT_U4]),
     (''TryGetById'', [OT_R, OT_R, OT_U1, OT_U2]),
     (''TryGetByIdLong'', [OT_R, OT_R, OT_U1, OT_U4]),
     (''PutByIdLoose'', [OT_R, OT_R, OT_U1, OT_U2]),
     (''PutByIdStrict'', [OT_R, OT_R, OT_U1, OT_U2]),
     (''PutByIdLooseLong'', [OT_R, OT_R, OT_U1, OT_U4]),
     (''PutByIdStrictLong'', [OT_R, OT_R, OT_U1, OT_U4]),
     (''TryPutByIdLoose'', [OT_R, OT_R, OT_U1, OT_U2]),
     (''TryPutByIdStrict'', [OT_R, OT_R, OT_U1, OT_U2]),
     (''TryPutByIdLooseLong'', [OT_R, OT_R, OT_U1, OT_U4]),
     (''TryPutByIdStrictLong'', [OT_R, OT_R, OT_U1, OT_U4]),
     (''PutNewOwnByIdShort'', [OT_R, OT_R, OT_U1]), (''PutNewOwnById'', [OT_R, OT_R, OT_U2]),
     (''PutNewOwnByIdLong'', [OT_R, OT_R, OT_U4]), (''PutOwnBySlotIdx'', [OT_R, OT_R, OT_U1]),
     (''PutOwnBySlotIdxLong'', [OT_R, OT_R, OT_U4]), (''PutNewOwnNEById'', [OT_R, OT_R, OT_U2]),
     (''PutNewOwnNEByIdLong'', [OT_R, OT_R, OT_U4]), (''PutOwnByIndex'', [OT_R, OT_R, OT_U1]),
     (''PutOwnByIndexL'', [OT_R, OT_R, OT_U4]), (''PutOwnByVal'', [OT_R, OT_R, OT_R, OT_U1]),
     (''DelByIdLoose'', [OT_R, OT_R, OT_U2]), (''DelByIdStrict'', [OT_R, OT_R, OT_U2]),
     (''DelByIdLooseLong'', [OT_R, OT_R, OT_U4]), (''DelByIdStrictLong'', [OT_R, OT_R, OT_U4]),
     (''GetByVal'', [OT_R, OT_R, OT_R]), (''GetByIndex'', [OT_R, OT_R, OT_U1]),
     (''PutByValLoose'', [OT_R, OT_R, OT_R]), (''PutByValStrict'', [OT_R, OT_R, OT_R]),
     (''DelByValLoose'', [OT_R, OT_R, OT_R]), (''DelByValStrict'', [OT_R, OT_R, OT_R]),
     (''PutOwnGetterSetterByVal'', [OT_R, OT_R, OT_R, OT_R, OT_U1]),
     (''GetPNameList'', [OT_R, OT_R, OT_R, OT_R]),
     (''GetNextPName'', [OT_R, OT_R, OT_R, OT_R, OT_R]), (''Call'', [OT_R, OT_R, OT_U1]),
     (''Construct'', [OT_R, OT_R, OT_U1]), (''Call1'', [OT_R, OT_R, OT_R]),
     (''CallWithNewTarget'', [OT_R, OT_R, OT_R, OT_U1]), (''Call2'', [OT_R, OT_R, OT_R, OT_R]),
     (''Call3'', [OT_R, OT_R, OT_R, OT_R, OT_R]),
     (''Call4'', [OT_R, OT_R, OT_R, OT_R, OT_R, OT_R]),
     (''CallWithNewTargetLong'', [OT_R, OT_R, OT_R, OT_R]),
     (''CallBuiltin'', [OT_R, OT_U1, OT_U1]), (''CallBuiltinLong'', [OT_R, OT_U1, OT_U4]),
     (''GetBuiltinClosure'', [OT_R, OT_U1]), (''Ret'', [OT_R]), (''Catch'', [OT_R]),
     (''DirectEval'', [OT_R, OT_R, OT_U1]), (''Throw'', [OT_R]), (''ThrowIfEmpty'', [OT_R, OT_R]),
     (''Debugger'', []), (''AsyncBreakCheck'', []), (''ProfilePoint'', [OT_U2]),
     (''CreateClosure'', [OT_R, OT_R, OT_U2]), (''CreateClosureLongIndex'', [OT_R, OT_R, OT_U4]),
     (''CreateThis'', [OT_R, OT_R, OT_R]), (''SelectObject'', [OT_R, OT_R, OT_R]),
     (''LoadParam'', [OT_R, OT_U1]), (''LoadParamLong'', [OT_R, OT_U4]),
     (''LoadConstUInt8'', [OT_R, OT_U1]), (''LoadConstInt'', [OT_R, OT_I4]),
     (''LoadConstDouble'', [OT_R, OT_D]), (''LoadConstBigInt'', [OT_R, OT_U2]),
     (''LoadConstBigIntLongIndex'', [OT_R, OT_U4]), (''LoadConstString'', [OT_R, OT_U2]),
     (''LoadConstStringLongIndex'', [OT_R, OT_U4]), (''LoadConstEmpty'', [OT_R]),
     (''LoadConstUndefined'', [OT_R]), (''LoadConstNull'', [OT_R]), (''LoadConstTrue'', [OT_R]),
     (''LoadConstFalse'', [OT_R]), (''LoadConstZero'', [OT_R]), (''CoerceThisNS'', [OT_R, OT_R]),
     (''LoadThisNS'', [OT_R]), (''ToNumber'', [OT_R, OT_R]), (''ToNumeric'', [OT_R, OT_R]),
     (''ToInt32'', [OT_R, OT_R]), (''AddEmptyString'', [OT_R, OT_R]),
     (''GetArgumentsPropByValLoose'', [OT_R, OT_R, OT_R]),
     (''GetArgumentsPropByValStrict'', [OT_R, OT_R, OT_R]),
     (''GetArgumentsLength'', [OT_R, OT_R]), (''ReifyArgumentsStrict'', [OT_R]),
     (''ReifyArgumentsLoose'', [OT_R]), (''CreateRegExp'', [OT_R, OT_U4, OT_U4, OT_U4]),
     (''SwitchImm'', [OT_R, OT_U4, OT_A4, OT_U4, OT_U4]),
     (''CreateGenerator'', [OT_R, OT_R, OT_U2]),
     (''CreateGeneratorLongIndex'', [OT_R, OT_R, OT_U4]), (''IteratorBegin'', [OT_R, OT_R]),
     (''IteratorNext'', [OT_R, OT_R, OT_R]), (''IteratorClose'', [OT_R, OT_U1]),
     (''Jmp'', [OT_A1]), (''JmpLong'', [OT_A4]), (''JmpTrue'', [OT_A1, OT_R]),
     (''JmpTrueLong'', [OT_A4, OT_R]), (''JmpFalse'', [OT_A1, OT_R]),
     (''JmpFalseLong'', [OT_A4, OT_R]), (''JmpUndefined'', [OT_A1, OT_R]),
     (''JmpUndefinedLong'', [OT_A4, OT_R]), (''JLess'', [OT_A1, OT_R, OT_R]),
     (''JLessLong'', [OT_A4, OT_R, OT_R]), (''JNotLess'', [OT_A1, OT_R, OT_R]),
     (''JNotLessLong'', [OT_A4, OT_R, OT_R]), (''JLessN'', [OT_A1, OT_R, OT_R]),
     (''JLessNLong'', [OT_A4, OT_R, OT_R]), (''JNotLessN'', [OT_A1, OT_R, OT_R]),
     (''JNotLessNLong'', [OT_A4, OT_R, OT_R]), (''JLessEqual'', [OT_A1, OT_R, OT_R]),
     (''JLessEqualLong'', [OT_A4, OT_R, OT_R]), (''JNotLessEqual'', [OT_A1, OT_R, OT_R]),
     (''JNotLessEqualLong'', [OT_A4, OT_R, OT_R]), (''JLessEqualN'', [OT_A1, OT_R, OT_R]),
     (''JLessEqualNLong'', [OT_A4, OT_R, OT_R]), (''JNotLessEqualN'', [OT_A1, OT_R, OT_R]),
     (''JNotLessEqualNLong'', [OT_A4, OT_R, OT_R]), (''JGreater'', [OT_A1, OT_R, OT_R]),
     (''JGreaterLong'', [OT_A4, OT_R, OT_R]), (''JNotGreater'', [OT_A1, OT_R, OT_R]),
     (''JNotGreaterLong'', [OT_A4, OT_R, OT_R]), (''JGreaterN'', [OT_A1, OT_R, OT_R]),
     (''JGreaterNLong'', [OT_A4, OT_R, OT_R]), (''JNotGreaterN'', [OT_A1, OT_R, OT_R]),
     (''JNotGreaterNLong'', [OT_A4, OT_R, OT_R]), (''JGreaterEqual'', [OT_A1, OT_R, OT_R]),
     (''JGreaterEqualLong'', [OT_A4, OT_R, OT_R]), (''JNotGreaterEqual'', [OT_A1, OT_R, OT_R]),
     (''JNotGreaterEqualLong'', [OT_A4, OT_R, OT_R]), (''JGreaterEqualN'', [OT_A1, OT_R, OT_R]),
     (''JGreaterEqualNLong'', [OT_A4, OT_R, OT_R]), (''JNotGreaterEqualN'', [OT_A1, OT_R, OT_R]),
     (''JNotGreaterEqualNLong'', [OT_A4, OT_R, OT_R]), (''JEqual'', [OT_A1, OT_R, OT_R]),
     (''JEqualLong'', [OT_A4, OT_R, OT_R]), (''JNotEqual'', [OT_A1, OT_R, OT_R]),
     (''JNotEqualLong'', [OT_A4, OT_R, OT_R]), (''JStrictEqual'', [OT_A1, OT_R, OT_R]),
     (''JStrictEqualLong'', [OT_A4, OT_R, OT_R]), (''JStrictNotEqual'', [OT_A1, OT_R, OT_R]),
     (''JStrictNotEqualLong'', [OT_A4, OT_R, OT_R])]"

definition V97_STRING_IDS :: "(u8 \<times> u8) list" where
  "V97_STRING_IDS =
    [(56, 0), (57, 3), (58, 3), (59, 3), (60, 3), (61, 3), (62, 3), (63, 3), (64, 3), (65, 3),
     (66, 3), (67, 3), (68, 3), (69, 3), (70, 2), (71, 2), (72, 2), (75, 2), (76, 2), (80, 2),
     (81, 2), (82, 2), (83, 2), (123, 1), (124, 1), (142, 2)]"

definition V97_FUNC_IDS :: "(u8 \<times> u8) list" where
  "V97_FUNC_IDS =
    [(112, 2), (113, 2), (144, 2), (145, 2)]"

definition V97_TABLES :: version_tables where
  "V97_TABLES =
    \<lparr>vt_opcodes = V97_OPCODES, vt_sizes = V97_SIZES, vt_str_ops = V97_STR_OPS, vt_call_ops = V97_CALL_OPS,
     vt_names = V97_NAMES, vt_schemas = V97_SCHEMAS, vt_string_ids = V97_STRING_IDS, vt_func_ids = V97_FUNC_IDS\<rparr>"

lemmas V97_types = V97_SCHEMAS_def [THEN arg_cong [of _ _ "map snd"], unfolded list.map snd_conv]

lemma V97_names: "V97_NAMES = map OpCode_name V97_OPCODES" "map fst V97_SCHEMAS = V97_NAMES"
  by (simp_all only: V97_NAMES_def V97_OPCODES_def V97_SCHEMAS_def list.map opcode_name fst_conv)

lemma V97_agree: "tables_agree V97_TABLES"
  unfolding V97_TABLES_def
  by (rule tables_agreeI [OF _ _ V97_names V97_types])
    (simp_all add: opcodes_upt V97_OPCODES_def V97_SIZES_def V97_STR_OPS_def V97_STRING_IDS_def
      V97_CALL_OPS_def V97_FUNC_IDS_def table_checks)

subsection \<open>Version 98\<close>

definition V98_OPCODES :: "OpCode list" where
  "V98_OPCODES =
    [OP_Unreachable, OP_NewObjectWithBuffer, OP_NewObjectWithBufferLong, OP_NewObject,
     OP_NewObjectWithParent, OP_NewArrayWithBuffer, OP_NewArrayWithBufferLong, OP_NewArray,
     OP_Mov, OP_MovLong, OP_Negate, OP_Not, OP_BitNot, OP_TypeOf, OP_Eq, OP_StrictEq, OP_Neq,
     OP_StrictNeq, OP_Less, OP_LessEq, OP_Greater, OP_GreaterEq, OP_Add, OP_AddN, OP_AddS, OP_Mul,
     OP_MulN, OP_Div, OP_DivN, OP_Mod, OP_Sub, OP_SubN, OP_LShift, OP_RShift, OP_URshift,
     OP_BitAnd, OP_BitXor, OP_BitOr, OP_Inc, OP_Dec, OP_InstanceOf, OP_IsIn,
     OP_GetParentEnvironment, OP_GetEnvironment, OP_GetClosureEnvironment, OP_StoreToEnvironment,
     OP_StoreToEnvironmentL, OP_StoreNPToEnvironment, OP_StoreNPToEnvironmentL,
     OP_LoadFromEnvironment, OP_LoadFromEnvironmentL, OP_GetGlobalObject, OP_GetNewTarget,
     OP_CreateFunctionEnvironment, OP_CreateTopLevelEnvironment, OP_CreateEnvironment,
     OP_DeclareGlobalVar, OP_GetByIdShort, OP_GetById, OP_GetByIdLong, OP_TryGetById,
     OP_TryGetByIdLong, OP_PutByIdLoose, OP_PutByIdStrict, OP_PutByIdLooseLong,
     OP_PutByIdStrictLong, OP_TryPutByIdLoose, OP_TryPutByIdStrict, OP_TryPutByIdLooseLong,
     OP_TryPutByIdStrictLong, OP_PutNewOwnByIdShort, OP_PutNewOwnById, OP_PutNewOwnByIdLong,
     OP_PutOwnBySlotIdx, OP_PutOwnBySlotIdxLong, OP_GetOwnBySlotIdx, OP_GetOwnBySlotIdxLong,
     OP_PutNewOwnNEById, OP_PutNewOwnNEByIdLong, OP_PutOwnByIndex, OP_PutOwnByIndexL,
     OP_PutOwnByVal, OP_DelByIdLoose, OP_DelByIdStrict, OP_DelByIdLooseLong, OP_DelByIdStrictLong,
     OP_GetByVal, OP_GetByIndex, OP_PutByValLoose, OP_PutByValStrict, OP_DelByValLoose,
     OP_DelByValStrict, OP_PutOwnGetterSetterByVal, OP_GetPNameList, OP_GetNextPName, OP_Call,
     OP_Construct, OP_Call1, OP_CallWithNewTarget, OP_Call2, OP_Call3, OP_Call4,
     OP_CallWithNewTargetLong, OP_CallBuiltin, OP_CallBuiltinLong, OP_GetBuiltinClosure, OP_Ret,
     OP_Catch, OP_DirectEval, OP_Throw, OP_ThrowIfEmpty, OP_Debugger, OP_AsyncBreakCheck,
     OP_ProfilePoint, OP_CreateClosure, OP_CreateClosureLongIndex, OP_CreateThis, OP_SelectObject,
     OP_LoadParam, OP_LoadParamLong, OP_LoadConstUInt8, OP_LoadConstInt, OP_LoadConstDouble,
     OP_LoadConstBigInt, OP_LoadConstBigIntLongIndex, OP_LoadConstString,
     OP_LoadConstStringLongIndex, OP_LoadConstEmpty, OP_LoadConstUndefined, OP_LoadConstNull,
     OP_LoadConstTrue, OP_LoadConstFalse, OP_LoadConstZero, OP_CoerceThisNS, OP_LoadThisNS,
     OP_ToNumber, OP_ToNumeric, OP_ToInt32, OP_AddEmptyString, OP_GetArgumentsPropByValLoose,
     OP_GetArgumentsPropByValStrict, OP_GetArgumentsLength, OP_ReifyArgumentsStrict,
     OP_ReifyArgumentsLoose, OP_CreateRegExp, OP_SwitchImm, OP_CreateGenerator,
     OP_CreateGeneratorLongIndex, OP_IteratorBegin, OP_IteratorNext, OP_IteratorClose,
     OP_TypedLoadParent, OP_TypedStoreParent, OP_Jmp, OP_JmpLong, OP_JmpTrue, OP_JmpTrueLong,
     OP_JmpFalse, OP_JmpFalseLong, OP_JmpUndefined, OP_JmpUndefinedLong, OP_JLess, OP_JLessLong,
     OP_JNotLess, OP_JNotLessLong, OP_JLessN, OP_JLessNLong, OP_JNotLessN, OP_JNotLessNLong,
     OP_JLessEqual, OP_JLessEqualLong, OP_JNotLessEqual, OP_JNotLessEqualLong, OP_JLessEqualN,
     OP_JLessEqualNLong, OP_JNotLessEqualN, OP_JNotLessEqualNLong, OP_JGreater, OP_JGreaterLong,
     OP_JNotGreater, OP_JNotGreaterLong, OP_JGreaterN, OP_JGreaterNLong, OP_JNotGreaterN,
     OP_JNotGreaterNLong, OP_JGreaterEqual, OP_JGreaterEqualLong, OP_JNotGreaterEqual,
     OP_JNotGreaterEqualLong, OP_JGreaterEqualN, OP_JGreaterEqualNLong, OP_JNotGreaterEqualN,
     OP_JNotGreaterEqualNLong, OP_JEqual, OP_JEqualLong, OP_JNotEqual, OP_JNotEqualLong,
     OP_JStrictEqual, OP_JStrictEqualLong, OP_JStrictNotEqual, OP_JStrictNotEqualLong]"

definition V98_SIZES :: "u8 list" where
  "V98_SIZES =
    [1, 6, 10, 2, 3, 8, 10, 4, 3, 9, 3, 3, 3, 3, 4, 4, 4, 4, 4, 4, 4, 4, 4, 4, 4, 4, 4, 4, 4, 4,
     4, 4, 4, 4, 4, 4, 4, 4, 3, 3, 4, 4, 3, 4, 3, 4, 5, 4, 5, 4, 5, 2, 2, 3, 6, 7, 5, 5, 6, 8, 6,
     8, 6, 6, 8, 8, 6, 6, 8, 8, 4, 5, 7, 4, 7, 4, 7, 5, 7, 4, 7, 5, 5, 5, 7, 7, 4, 4, 4, 4, 4, 4,
     6, 5, 6, 4, 4, 4, 5, 5, 6, 7, 5, 4, 7, 3, 2, 2, 4, 2, 3, 1, 1, 3, 5, 7, 4, 4, 3, 6, 3, 6, 10,
     4, 6, 4, 6, 2, 2, 2, 2, 2, 2, 3, 2, 3, 3, 3, 3, 4, 4, 3, 2, 2, 14, 18, 5, 7, 3, 4, 3, 3, 3,
     2, 5, 3, 6, 3, 6, 3, 6, 4, 7, 4, 7, 4, 7, 4, 7, 4, 7, 4, 7, 4, 7, 4, 7, 4, 7, 4, 7, 4, 7, 4,
     7, 4, 7, 4, 7, 4, 7, 4, 7, 4, 7, 4, 7, 4, 7, 4, 7]"

definition V98_STR_OPS :: "(u8 \<times> u8 \<times> u8) list" where
  "V98_STR_OPS =
    [(56, 1, 4), (57, 4, 1), (58, 4, 2), (59, 4, 4), (60, 4, 2), (61, 4, 4), (62, 4, 2),
     (63, 4, 2), (64, 4, 4), (65, 4, 4), (66, 4, 2), (67, 4, 2), (68, 4, 4), (69, 4, 4),
     (70, 3, 1), (71, 3, 2), (72, 3, 4), (77, 3, 2), (78, 3, 4), (82, 3, 2), (83, 3, 2),
     (84, 3, 4), (85, 3, 4), (125, 2, 2), (126, 2, 4), (144, 6, 4)]"

definition V98_CALL_OPS :: "(u8 \<times> u8 \<times> u8) list" where
  "V98_CALL_OPS = []"

definition V98_NAMES :: "string list" where
  "V98_NAMES =
    [''Unreachable'', ''NewObjectWithBuffer'', ''NewObjectWithBufferLong'', ''NewObject'',
     ''NewObjectWithParent'', ''NewArrayWithBuffer'', ''NewArrayWithBufferLong'', ''NewArray'',
     ''Mov'', ''MovLong'', ''Negate'', ''Not'', ''BitNot'', ''TypeOf'', ''Eq'', ''StrictEq'',
     ''Neq'', ''StrictNeq'', ''Less'', ''LessEq'', ''Greater'', ''GreaterEq'', ''Add'', ''AddN'',
     ''AddS'', ''Mul'', ''MulN'', ''Div'', ''DivN'', ''Mod'', ''Sub'', ''SubN'', ''LShift'',
     ''RShift'', ''URshift'', ''BitAnd'', ''BitXor'', ''BitOr'', ''Inc'', ''Dec'', ''InstanceOf'',
     ''IsIn'', ''GetParentEnvironment'', ''GetEnvironment'', ''GetClosureEnvironment'',
     ''StoreToEnvironment'', ''StoreToEnvironmentL'', ''StoreNPToEnvironment'',
     ''StoreNPToEnvironmentL'', ''LoadFromEnvironment'', ''LoadFromEnvironmentL'',
     ''GetGlobalObject'', ''GetNewTarget'', ''CreateFunctionEnvironment'',
     ''CreateTopLevelEnvironment'', ''CreateEnvironment'', ''DeclareGlobalVar'', ''GetByIdShort'',
     ''GetById'', ''GetByIdLong'', ''TryGetById'', ''TryGetByIdLong'', ''PutByIdLoose'',
     ''PutByIdStrict'', ''PutByIdLooseLong'', ''PutByIdStrictLong'', ''TryPutByIdLoose'',
     ''TryPutByIdStrict'', ''TryPutByIdLooseLong'', ''TryPutByIdStrictLong'',
     ''PutNewOwnByIdShort'', ''PutNewOwnById'', ''PutNewOwnByIdLong'', ''PutOwnBySlotIdx'',
     ''PutOwnBySlotIdxLong'', ''GetOwnBySlotIdx'', ''GetOwnBySlotIdxLong'', ''PutNewOwnNEById'',
     ''PutNewOwnNEByIdLong'', ''PutOwnByIndex'', ''PutOwnByIndexL'', ''PutOwnByVal'',
     ''DelByIdLoose'', ''DelByIdStrict'', ''DelByIdLooseLong'', ''DelByIdStrictLong'',
     ''GetByVal'', ''GetByIndex'', ''PutByValLoose'', ''PutByValStrict'', ''DelByValLoose'',
     ''DelByValStrict'', ''PutOwnGetterSetterByVal'', ''GetPNameList'', ''GetNextPName'',
     ''Call'', ''Construct'', ''Call1'', ''CallWithNewTarget'', ''Call2'', ''Call3'', ''Call4'',
     ''CallWithNewTargetLong'', ''CallBuiltin'', ''CallBuiltinLong'', ''GetBuiltinClosure'',
     ''Ret'', ''Catch'', ''DirectEval'', ''Throw'', ''ThrowIfEmpty'', ''Debugger'',
     ''AsyncBreakCheck'', ''ProfilePoint'', ''CreateClosure'', ''CreateClosureLongIndex'',
     ''CreateThis'', ''SelectObject'', ''LoadParam'', ''LoadParamLong'', ''LoadConstUInt8'',
     ''LoadConstInt'', ''LoadConstDouble'', ''LoadConstBigInt'', ''LoadConstBigIntLongIndex'',
     ''LoadConstString'', ''LoadConstStringLongIndex'', ''LoadConstEmpty'',
     ''LoadConstUndefined'', ''LoadConstNull'', ''LoadConstTrue'', ''LoadConstFalse'',
     ''LoadConstZero'', ''CoerceThisNS'', ''LoadThisNS'', ''ToNumber'', ''ToNumeric'',
     ''ToInt32'', ''AddEmptyString'', ''GetArgumentsPropByValLoose'',
     ''GetArgumentsPropByValStrict'', ''GetArgumentsLength'', ''ReifyArgumentsStrict'',
     ''ReifyArgumentsLoose'', ''CreateRegExp'', ''SwitchImm'', ''CreateGenerator'',
     ''CreateGeneratorLongIndex'', ''IteratorBegin'', ''IteratorNext'', ''IteratorClose'',
     ''TypedLoadParent'', ''TypedStoreParent'', ''Jmp'', ''JmpLong'', ''JmpTrue'',
     ''JmpTrueLong'', ''JmpFalse'', ''JmpFalseLong'', ''JmpUndefined'', ''JmpUndefinedLong'',
     ''JLess'', ''JLessLong'', ''JNotLess'', ''JNotLessLong'', ''JLessN'', ''JLessNLong'',
     ''JNotLessN'', ''JNotLessNLong'', ''JLessEqual'', ''JLessEqualLong'', ''JNotLessEqual'',
     ''JNotLessEqualLong'', ''JLessEqualN'', ''JLessEqualNLong'', ''JNotLessEqualN'',
     ''JNotLessEqualNLong'', ''JGreater'', ''JGreaterLong'', ''JNotGreater'', ''JNotGreaterLong'',
     ''JGreaterN'', ''JGreaterNLong'', ''JNotGreaterN'', ''JNotGreaterNLong'', ''JGreaterEqual'',
     ''JGreaterEqualLong'', ''JNotGreaterEqual'', ''JNotGreaterEqualLong'', ''JGreaterEqualN'',
     ''JGreaterEqualNLong'', ''JNotGreaterEqualN'', ''JNotGreaterEqualNLong'', ''JEqual'',
     ''JEqualLong'', ''JNotEqual'', ''JNotEqualLong'', ''JStrictEqual'', ''JStrictEqualLong'',
     ''JStrictNotEqual'', ''JStrictNotEqualLong'']"

definition V98_SCHEMAS :: "(string \<times> OpType list) list" where
  "V98_SCHEMAS =
    [(''Unreachable'', []), (''NewObjectWithBuffer'', [OT_R, OT_U2, OT_U2]),
     (''NewObjectWithBufferLong'', [OT_R, OT_U4, OT_U4]), (''NewObject'', [OT_R]),
     (''NewObjectWithParent'', [OT_R, OT_R]),
     (''NewArrayWithBuffer'', [OT_R, OT_U2, OT_U2, OT_U2]),
     (''NewArrayWithBufferLong'', [OT_R, OT_U2, OT_U2, OT_U4]), (''NewArray'', [OT_R, OT_U2]),
     (''Mov'', [OT_R, OT_R]), (''MovLong'', [OT_R4, OT_R4]), (''Negate'', [OT_R, OT_R]),
     (''Not'', [OT_R, OT_R]), (''BitNot'', [OT_R, OT_R]), (''TypeOf'', [OT_R, OT_R]),
     (''Eq'', [OT_R, OT_R, OT_R]), (''StrictEq'', [OT_R, OT_R, OT_R]),
     (''Neq'', [OT_R, OT_R, OT_R]), (''StrictNeq'', [OT_R, OT_R, OT_R]),
     (''Less'', [OT_R, OT_R, OT_R]), (''LessEq'', [OT_R, OT_R, OT_R]),
     (''Greater'', [OT_R, OT_R, OT_R]), (''GreaterEq'', [OT_R, OT_R, OT_R]),
     (''Add'', [OT_R, OT_R, OT_R]), (''AddN'', [OT_R, OT_R, OT_R]),
     (''AddS'', [OT_R, OT_R, OT_R]), (''Mul'', [OT_R, OT_R, OT_R]),
     (''MulN'', [OT_R, OT_R, OT_R]), (''Div'', [OT_R, OT_R, OT_R]),
     (''DivN'', [OT_R, OT_R, OT_R]), (''Mod'', [OT_R, OT_R, OT_R]), (''Sub'', [OT_R, OT_R, OT_R]),
     (''SubN'', [OT_R, OT_R, OT_R]), (''LShift'', [OT_R, OT_R, OT_R]),
     (''RShift'', [OT_R, OT_R, OT_R]), (''URshift'', [OT_R, OT_R, OT_R]),
     (''BitAnd'', [OT_R, OT_R, OT_R]), (''BitXor'', [OT_R, OT_R, OT_R]),
     (''BitOr'', [OT_R, OT_R, OT_R]), (''Inc'', [OT_R, OT_R]), (''Dec'', [OT_R, OT_R]),
     (''InstanceOf'', [OT_R, OT_R, OT_R]), (''IsIn'', [OT_R, OT_R, OT_R]),
     (''GetParentEnvironment'', [OT_R, OT_U1]), (''GetEnvironment'', [OT_R, OT_R, OT_U1]),
     (''GetClosureEnvironment'', [OT_R, OT_R]), (''StoreToEnvironment'', [OT_R, OT_U1, OT_R]),
     (''StoreToEnvironmentL'', [OT_R, OT_U2, OT_R]),
     (''StoreNPToEnvironment'', [OT_R, OT_U1, OT_R]),
     (''StoreNPToEnvironmentL'', [OT_R, OT_U2, OT_R]),
     (''LoadFromEnvironment'', [OT_R, OT_R, OT_U1]),
     (''LoadFromEnvironmentL'', [OT_R, OT_R, OT_U2]), (''GetGlobalObject'', [OT_R]),
     (''GetNewTarget'', [OT_R]), (''CreateFunctionEnvironment'', [OT_R, OT_U1]),
     (''CreateTopLevelEnvironment'', [OT_R, OT_U4]), (''CreateEnvironment'', [OT_R, OT_R, OT_U4]),
     (''DeclareGlobalVar'', [OT_U4]), (''GetByIdShort'', [OT_R, OT_R, OT_U1, OT_U1]),
     (''GetById'', [OT_R, OT_R, OT_U1, OT_U2]), (''GetByIdLong'', [OT_R, OT_R, OT_U1, OT_U4]),
     (''TryGetById'', [OT_R, OT_R, OT_U1, OT_U2]),
     (''TryGetByIdLong'', [OT_R, OT_R, OT_U1, OT_U4]),
     (''PutByIdLoose'', [OT_R, OT_R, OT_U1, OT_U2]),
     (''PutByIdStrict'', [OT_R, OT_R, OT_U1, OT_U2]),
     (''PutByIdLooseLong'', [OT_R, OT_R, OT_U1, OT_U4]),
     (''PutByIdStrictLong'', [OT_R, OT_R, OT_U1, OT_U4]),
     (''TryPutByIdLoose'', [OT_R, OT_R, OT_U1, OT_U2]),
     (''TryPutByIdStrict'', [OT_R, OT_R, OT_U1, OT_U2]),
     (''TryPutByIdLooseLong'', [OT_R, OT_R, OT_U1, OT_U4]),
     (''TryPutByIdStrictLong'', [OT_R, OT_R, OT_U1, OT_U4]),
     (''PutNewOwnByIdShort'', [OT_R, OT_R, OT_U1]), (''PutNewOwnById'', [OT_R, OT_R, OT_U2]),
     (''PutNewOwnByIdLong'', [OT_R, OT_R, OT_U4]), (''PutOwnBySlotIdx'', [OT_R, OT_R, OT_U1]),
     (''PutOwnBySlotIdxLong'', [OT_R, OT_R, OT_U4]), (''GetOwnBySlotIdx'', [OT_R, OT_R, OT_U1]),
     (''GetOwnBySlotIdxLong'', [OT_R, OT_R, OT_U4]), (''PutNewOwnNEById'', [OT_R, OT_R, OT_U2]),
     (''PutNewOwnNEByIdLong'', [OT_R, OT_R, OT_U4]), (''PutOwnByIndex'', [OT_R, OT_R, OT_U1]),
     (''PutOwnByIndexL'', [OT_R, OT_R, OT_U4]), (''PutOwnByVal'', [OT_R, OT_R, OT_R, OT_U1]),
     (''DelByIdLoose'', [OT_R, OT_R, OT_U2]), (''DelByIdStrict'', [OT_R, OT_R, OT_U2]),
     (''DelByIdLooseLong'', [OT_R, OT_R, OT_U4]), (''DelByIdStrictLong'', [OT_R, OT_R, OT_U4]),
     (''GetByVal'', [OT_R, OT_R, OT_R]), (''GetByIndex'', [OT_R, OT_R, OT_U1]),
     (''PutByValLoose'', [OT_R, OT_R, OT_R]), (''PutByValStrict'', [OT_R, OT_R, OT_R]),
     (''DelByValLoose'', [OT_R, OT_R, OT_R]), (''DelByValStrict'', [OT_R, OT_R, OT_R]),
     (''PutOwnGetterSetterByVal'', [OT_R, OT_R, OT_R, OT_R, OT_U1]),
     (''GetPNameList'', [OT_R, OT_R, OT_R, OT_R]),
     (''GetNextPName'', [OT_R, OT_R, OT_R, OT_R, OT_R]), (''Call'', [OT_R, OT_R, OT_U1]),
     (''Construct'', [OT_R, OT_R, OT_U1]), (''Call1'', [OT_R, OT_R, OT_R]),
     (''CallWithNewTarget'', [OT_R, OT_R, OT_R, OT_U1]), (''Call2'', [OT_R, OT_R, OT_R, OT_R]),
     (''Call3'', [OT_R, OT_R, OT_R, OT_R, OT_R]),
     (''Call4'', [OT_R, OT_R, OT_R, OT_R, OT_R, OT_R]),
     (''CallWithNewTargetLong'', [OT_R, OT_R, OT_R, OT_R]),
     (''CallBuiltin'', [OT_R, OT_U1, OT_U1]), (''CallBuiltinLong'', [OT_R, OT_U1, OT_U4]),
     (''GetBuiltinClosure'', [OT_R, OT_U1]), (''Ret'', [OT_R]), (''Catch'', [OT_R]),
     (''DirectEval'', [OT_R, OT_R, OT_U1]), (''Throw'', [OT_R]), (''ThrowIfEmpty'', [OT_R, OT_R]),
     (''Debugger'', []), (''AsyncBreakCheck'', []), (''ProfilePoint'', [OT_U2]),
     (''CreateClosure'', [OT_R, OT_R, OT_U2]), (''CreateClosureLongIndex'', [OT_R, OT_R, OT_U4]),
     (''CreateThis'', [OT_R, OT_R, OT_R]), (''SelectObject'', [OT_R, OT_R, OT_R]),
     (''LoadParam'', [OT_R, OT_U1]), (''LoadParamLong'', [OT_R, OT_U4]),
     (''LoadConstUInt8'', [OT_R, OT_U1]), (''LoadConstInt'', [OT_R, OT_I4]),
     (''LoadConstDouble'', [OT_R, OT_D]), (''LoadConstBigInt'', [OT_R, OT_U2]),
     (''LoadConstBigIntLongIndex'', [OT_R, OT_U4]), (''LoadConstString'', [OT_R, OT_U2]),
     (''LoadConstStringLongIndex'', [OT_R, OT_U4]), (''LoadConstEmpty'', [OT_R]),
     (''LoadConstUndefined'', [OT_R]), (''LoadConstNull'', [OT_R]), (''LoadConstTrue'', [OT_R]),
     (''LoadConstFalse'', [OT_R]), (''LoadConstZero'', [OT_R]), (''CoerceThisNS'', [OT_R, OT_R]),
     (''LoadThisNS'', [OT_R]), (''ToNumber'', [OT_R, OT_R]), (''ToNumeric'', [OT_R, OT_R]),
     (''ToInt32'', [OT_R, OT_R]), (''AddEmptyString'', [OT_R, OT_R]),
     (''GetArgumentsPropByValLoose'', [OT_R, OT_R, OT_R]),
     (''GetArgumentsPropByValStrict'', [OT_R, OT_R, OT_R]),
     (''GetArgumentsLength'', [OT_R, OT_R]), (''ReifyArgumentsStrict'', [OT_R]),
     (''ReifyArgumentsLoose'', [OT_R]), (''CreateRegExp'', [OT_R, OT_U4, OT_U4, OT_U4]),
     (''SwitchImm'', [OT_R, OT_U4, OT_A4, OT_U4, OT_U4]),
     (''CreateGenerator'', [OT_R, OT_R, OT_U2]),
     (''CreateGeneratorLongIndex'', [OT_R, OT_R, OT_U4]), (''IteratorBegin'', [OT_R, OT_R]),
     (''IteratorNext'', [OT_R, OT_R, OT_R]), (''IteratorClose'', [OT_R, OT_U1]),
     (''TypedLoadParent'', [OT_R, OT_R]), (''TypedStoreParent'', [OT_R, OT_R]),
     (''Jmp'', [OT_A1]), (''JmpLong'', [OT_A4]), (''JmpTrue'', [OT_A1, OT_R]),
     (''JmpTrueLong'', [OT_A4, OT_R]), (''JmpFalse'', [OT_A1, OT_R]),
     (''JmpFalseLong'', [OT_A4, OT_R]), (''JmpUndefined'', [OT_A1, OT_R]),
     (''JmpUndefinedLong'', [OT_A4, OT_R]), (''JLess'', [OT_A1, OT_R, OT_R]),
     (''JLessLong'', [OT_A4, OT_R, OT_R]), (''JNotLess'', [OT_A1, OT_R, OT_R]),
     (''JNotLessLong'', [OT_A4, OT_R, OT_R]), (''JLessN'', [OT_A1, OT_R, OT_R]),
     (''JLessNLong'', [OT_A4, OT_R, OT_R]), (''JNotLessN'', [OT_A1, OT_R, OT_R]),
     (''JNotLessNLong'', [OT_A4, OT_R, OT_R]), (''JLessEqual'', [OT_A1, OT_R, OT_R]),
     (''JLessEqualLong'', [OT_A4, OT_R, OT_R]), (''JNotLessEqual'', [OT_A1, OT_R, OT_R]),
     (''JNotLessEqualLong'', [OT_A4, OT_R, OT_R]), (''JLessEqualN'', [OT_A1, OT_R, OT_R]),
     (''JLessEqualNLong'', [OT_A4, OT_R, OT_R]), (''JNotLessEqualN'', [OT_A1, OT_R, OT_R]),
     (''JNotLessEqualNLong'', [OT_A4, OT_R, OT_R]), (''JGreater'', [OT_A1, OT_R, OT_R]),
     (''JGreaterLong'', [OT_A4, OT_R, OT_R]), (''JNotGreater'', [OT_A1, OT_R, OT_R]),
     (''JNotGreaterLong'', [OT_A4, OT_R, OT_R]), (''JGreaterN'', [OT_A1, OT_R, OT_R]),
     (''JGreaterNLong'', [OT_A4, OT_R, OT_R]), (''JNotGreaterN'', [OT_A1, OT_R, OT_R]),
     (''JNotGreaterNLong'', [OT_A4, OT_R, OT_R]), (''JGreaterEqual'', [OT_A1, OT_R, OT_R]),
     (''JGreaterEqualLong'', [OT_A4, OT_R, OT_R]), (''JNotGreaterEqual'', [OT_A1, OT_R, OT_R]),
     (''JNotGreaterEqualLong'', [OT_A4, OT_R, OT_R]), (''JGreaterEqualN'', [OT_A1, OT_R, OT_R]),
     (''JGreaterEqualNLong'', [OT_A4, OT_R, OT_R]), (''JNotGreaterEqualN'', [OT_A1, OT_R, OT_R]),
     (''JNotGreaterEqualNLong'', [OT_A4, OT_R, OT_R]), (''JEqual'', [OT_A1, OT_R, OT_R]),
     (''JEqualLong'', [OT_A4, OT_R, OT_R]), (''JNotEqual'', [OT_A1, OT_R, OT_R]),
     (''JNotEqualLong'', [OT_A4, OT_R, OT_R]), (''JStrictEqual'', [OT_A1, OT_R, OT_R]),
     (''JStrictEqualLong'', [OT_A4, OT_R, OT_R]), (''JStrictNotEqual'', [OT_A1, OT_R, OT_R]),
     (''JStrictNotEqualLong'', [OT_A4, OT_R, OT_R])]"

definition V98_STRING_IDS :: "(u8 \<times> u8) list" where
  "V98_STRING_IDS =
    [(56, 0), (57, 3), (58, 3), (59, 3), (60, 3), (61, 3), (62, 3), (63, 3), (64, 3), (65, 3),
     (66, 3), (67, 3), (68, 3), (69, 3), (70, 2), (71, 2), (72, 2), (77, 2), (78, 2), (82, 2),
     (83, 2), (84, 2), (85, 2), (125, 1), (126, 1), (144, 2)]"

definition V98_FUNC_IDS :: "(u8 \<times> u8) list" where
  "V98_FUNC_IDS =
    [(114, 2), (115, 2), (146, 2), (147, 2)]"

definition V98_TABLES :: version_tables where
  "V98_TABLES =
    \<lparr>vt_opcodes = V98_OPCODES, vt_sizes = V98_SIZES, vt_str_ops = V98_STR_OPS, vt_call_ops = V98_CALL_OPS,
     vt_names = V98_NAMES, vt_schemas = V98_SCHEMAS, vt_string_ids = V98_STRING_IDS, vt_func_ids = V98_FUNC_IDS\<rparr>"

lemmas V98_types = V98_SCHEMAS_def [THEN arg_cong [of _ _ "map snd"], unfolded list.map snd_conv]

lemma V98_names: "V98_NAMES = map OpCode_name V98_OPCODES" "map fst V98_SCHEMAS = V98_NAMES"
  by (simp_all only: V98_NAMES_def V98_OPCODES_def V98_SCHEMAS_def list.map opcode_name fst_conv)

lemma V98_agree: "tables_agree V98_TABLES"
  unfolding V98_TABLES_def
  by (rule tables_agreeI [OF _ _ V98_names V98_types])
    (simp_all add: opcodes_upt V98_OPCODES_def V98_SIZES_def V98_STR_OPS_def V98_STRING_IDS_def
      V98_CALL_OPS_def V98_FUNC_IDS_def table_checks)

subsection \<open>Version 99\<close>

definition V99_OPCODES :: "OpCode list" where
  "V99_OPCODES =
    [OP_Unreachable, OP_NewObjectWithBuffer, OP_NewObjectWithBufferLong,
     OP_NewObjectWithBufferAndParent, OP_NewTypedObjectWithBuffer, OP_NewObject,
     OP_NewObjectWithParent, OP_NewArrayWithBuffer, OP_NewArrayWithBufferLong, OP_NewArray,
     OP_NewFastArray, OP_FastArrayLength, OP_FastArrayLoad, OP_FastArrayStore, OP_FastArrayPush,
     OP_FastArrayAppend, OP_Mov, OP_MovLong, OP_Negate, OP_Not, OP_BitNot, OP_TypeOf, OP_Eq,
     OP_StrictEq, OP_Neq, OP_StrictNeq, OP_Less, OP_LessEq, OP_Greater, OP_GreaterEq, OP_Add,
     OP_AddN, OP_AddS, OP_Mul, OP_MulN, OP_Div, OP_DivN, OP_Mod, OP_Sub, OP_SubN, OP_LShift,
     OP_RShift, OP_URshift, OP_BitAnd, OP_BitXor, OP_BitOr, OP_Inc, OP_Dec, OP_InstanceOf,
     OP_IsIn, OP_PrivateIsIn, OP_TypeOfIs, OP_GetParentEnvironment, OP_GetEnvironment,
     OP_GetClosureEnvironment, OP_StoreToEnvironment, OP_StoreToEnvironmentL,
     OP_StoreNPToEnvironment, OP_StoreNPToEnvironmentL, OP_LoadFromEnvironment,
     OP_LoadFromEnvironmentL, OP_GetGlobalObject, OP_GetNewTarget, OP_LoadParentNoTraps,
     OP_CreateFunctionEnvironment, OP_CreateTopLevelEnvironment, OP_CreateEnvironment,
     OP_DeclareGlobalVar, OP_GetByIdShort, OP_GetById, OP_GetByIdLong, OP_GetByIdWithReceiverLong,
     OP_TryGetById, OP_TryGetByIdLong, OP_PutByIdLoose, OP_PutByIdStrict, OP_PutByIdLooseLong,
     OP_PutByIdStrictLong, OP_TryPutByIdLoose, OP_TryPutByIdStrict, OP_TryPutByIdLooseLong,
     OP_TryPutByIdStrictLong, OP_PutOwnBySlotIdx, OP_PutOwnBySlotIdxLong, OP_GetOwnBySlotIdx,
     OP_GetOwnBySlotIdxLong, OP_DefineOwnById, OP_DefineOwnByIdLong, OP_DefineOwnByIndex,
     OP_DefineOwnByIndexL, OP_DefineOwnInDenseArray, OP_DefineOwnInDenseArrayL, OP_DefineOwnByVal,
     OP_GetByVal, OP_GetByIndex, OP_GetByValWithReceiver, OP_PutByValLoose, OP_PutByValStrict,
     OP_PutByValWithReceiver, OP_DelByVal, OP_AddOwnPrivateBySym, OP_GetOwnPrivateBySym,
     OP_PutOwnPrivateBySym, OP_DefineOwnGetterSetterByVal, OP_GetPNameList, OP_GetNextPName,
     OP_Call, OP_Construct, OP_Call1, OP_CallWithNewTarget, OP_Call2, OP_Call3, OP_Call4,
     OP_CallWithNewTargetLong, OP_CallRequire, OP_CallBuiltin, OP_CallBuiltinLong,
     OP_GetBuiltinClosure, OP_Ret, OP_Catch, OP_DirectEval, OP_Throw, OP_ThrowIfEmpty,
     OP_ThrowIfUndefined, OP_ThrowIfThisInitialized, OP_Debugger, OP_AsyncBreakCheck,
     OP_ProfilePoint, OP_CreateBaseClass, OP_CreateBaseClassLongIndex, OP_CreateDerivedClass,
     OP_CreateDerivedClassLongIndex, OP_CreateClosure, OP_CreateClosureLongIndex,
     OP_CreateThisForNew, OP_CreateThisForSuper, OP_SelectObject, OP_LoadParam, OP_LoadParamLong,
     OP_LoadConstUInt8, OP_LoadConstInt, OP_LoadConstDouble, OP_LoadConstBigInt,
     OP_LoadConstBigIntLongIndex, OP_LoadConstString, OP_LoadConstStringLongIndex,
     OP_LoadConstEmpty, OP_LoadConstUndefined, OP_LoadConstNull, OP_LoadConstTrue,
     OP_LoadConstFalse, OP_LoadConstZero, OP_CoerceThisNS, OP_LoadThisNS, OP_ToNumber,
     OP_ToNumeric, OP_ToInt32, OP_ToUint32, OP_AddEmptyString, OP_CreatePrivateName,
     OP_GetArgumentsPropByValLoose, OP_GetArgumentsPropByValStrict, OP_GetArgumentsLength,
     OP_ReifyArgumentsStrict, OP_ReifyArgumentsLoose, OP_ToPropertyKey, OP_CreateRegExp,
     OP_UIntSwitchImm, OP_StringSwitchImm, OP_CreateGenerator, OP_CreateGeneratorLongIndex,
     OP_IteratorBegin, OP_IteratorNext, OP_IteratorClose, OP_TypedLoadParent, OP_Jmp, OP_JmpLong,
     OP_JmpTrue, OP_JmpTrueLong, OP_JmpFalse, OP_JmpFalseLong, OP_JmpUndefined,
     OP_JmpUndefinedLong, OP_JmpTypeOfIs, OP_JLess, OP_JLessLong, OP_JNotLess, OP_JNotLessLong,
     OP_JLessN, OP_JLessNLong, OP_JNotLessN, OP_JNotLessNLong, OP_JLessEqual, OP_JLessEqualLong,
     OP_JNotLessEqual, OP_JNotLessEqualLong, OP_JLessEqualN, OP_JLessEqualNLong,
     OP_JNotLessEqualN, OP_JNotLessEqualNLong, OP_JGreater, OP_JGreaterLong, OP_JNotGreater,
     OP_JNotGreaterLong, OP_JGreaterEqual, OP_JGreaterEqualLong, OP_JNotGreaterEqual,
     OP_JNotGreaterEqualLong, OP_JEqual, OP_JEqualLong, OP_JNotEqual, OP_JNotEqualLong,
     OP_JStrictEqual, OP_JStrictEqualLong, OP_JStrictNotEqual, OP_JStrictNotEqualLong,
     OP_JmpBuiltinIs, OP_JmpBuiltinIsLong, OP_JmpBuiltinIsNot, OP_JmpBuiltinIsNotLong]"

definition V99_SIZES :: "u8 list" where
  "V99_SIZES =
    [1, 6, 10, 11, 12, 2, 3, 8, 10, 4, 4, 3, 4, 4, 3, 3, 3, 9, 3, 3, 3, 3, 4, 4, 4, 4, 4, 4, 4, 4,
     4, 4, 4, 4, 4, 4, 4, 4, 4, 4, 4, 4, 4, 4, 4, 4, 3, 3, 4, 4, 5, 5, 3, 4, 3, 4, 5, 4, 5, 4, 5,
     2, 2, 3, 3, 6, 7, 5, 5, 6, 8, 9, 6, 8, 6, 6, 8, 8, 6, 6, 8, 8, 4, 7, 4, 7, 6, 8, 4, 7, 4, 5,
     5, 4, 4, 5, 4, 4, 6, 5, 4, 5, 5, 6, 5, 6, 4, 4, 4, 5, 5, 6, 7, 5, 7, 4, 7, 3, 2, 2, 4, 2, 3,
     3, 2, 1, 1, 3, 6, 8, 7, 9, 5, 7, 4, 5, 4, 3, 6, 3, 6, 10, 4, 6, 4, 6, 2, 2, 2, 2, 2, 2, 3, 2,
     3, 3, 3, 3, 3, 6, 4, 4, 3, 2, 2, 3, 14, 18, 18, 5, 7, 3, 4, 3, 3, 2, 5, 3, 6, 3, 6, 3, 6, 8,
     4, 7, 4, 7, 4, 7, 4, 7, 4, 7, 4, 7, 4, 7, 4, 7, 4, 7, 4, 7, 4, 7, 4, 7, 4, 7, 4, 7, 4, 7, 4,
     7, 4, 7, 4, 7]"

definition V99_STR_OPS :: "(u8 \<times> u8 \<times> u8) list" where
  "V99_STR_OPS =
    [(67, 1, 4), (68, 4, 1), (69, 4, 2), (70, 4, 4), (71, 5, 4), (72, 4, 2), (73, 4, 4),
     (74, 4, 2), (75, 4, 2), (76, 4, 4), (77, 4, 4), (78, 4, 2), (79, 4, 2), (80, 4, 4),
     (81, 4, 4), (87, 4, 4), (144, 2, 2), (145, 2, 4), (159, 2, 4), (166, 6, 4)]"

definition V99_CALL_OPS :: "(u8 \<times> u8 \<times> u8) list" where
  "V99_CALL_OPS = []"

definition V99_NAMES :: "string list" where
  "V99_NAMES =
    [''Unreachable'', ''NewObjectWithBuffer'', ''NewObjectWithBufferLong'',
     ''NewObjectWithBufferAndParent'', ''NewTypedObjectWithBuffer'', ''NewObject'',
     ''NewObjectWithParent'', ''NewArrayWithBuffer'', ''NewArrayWithBufferLong'', ''NewArray'',
     ''NewFastArray'', ''FastArrayLength'', ''FastArrayLoad'', ''FastArrayStore'',
     ''FastArrayPush'', ''FastArrayAppend'', ''Mov'', ''MovLong'', ''Negate'', ''Not'',
     ''BitNot'', ''TypeOf'', ''Eq'', ''StrictEq'', ''Neq'', ''StrictNeq'', ''Less'', ''LessEq'',
     ''Greater'', ''GreaterEq'', ''Add'', ''AddN'', ''AddS'', ''Mul'', ''MulN'', ''Div'',
     ''DivN'', ''Mod'', ''Sub'', ''SubN'', ''LShift'', ''RShift'', ''URshift'', ''BitAnd'',
     ''BitXor'', ''BitOr'', ''Inc'', ''Dec'', ''InstanceOf'', ''IsIn'', ''PrivateIsIn'',
     ''TypeOfIs'', ''GetParentEnvironment'', ''GetEnvironment'', ''GetClosureEnvironment'',
     ''StoreToEnvironment'', ''StoreToEnvironmentL'', ''StoreNPToEnvironment'',
     ''StoreNPToEnvironmentL'', ''LoadFromEnvironment'', ''LoadFromEnvironmentL'',
     ''GetGlobalObject'', ''GetNewTarget'', ''LoadParentNoTraps'', ''CreateFunctionEnvironment'',
     ''CreateTopLevelEnvironment'', ''CreateEnvironment'', ''DeclareGlobalVar'', ''GetByIdShort'',
     ''GetById'', ''GetByIdLong'', ''GetByIdWithReceiverLong'', ''TryGetById'',
     ''TryGetByIdLong'', ''PutByIdLoose'', ''PutByIdStrict'', ''PutByIdLooseLong'',
     ''PutByIdStrictLong'', ''TryPutByIdLoose'', ''TryPutByIdStrict'', ''TryPutByIdLooseLong'',
     ''TryPutByIdStrictLong'', ''PutOwnBySlotIdx'', ''PutOwnBySlotIdxLong'', ''GetOwnBySlotIdx'',
     ''GetOwnBySlotIdxLong'', ''DefineOwnById'', ''DefineOwnByIdLong'', ''DefineOwnByIndex'',
     ''DefineOwnByIndexL'', ''DefineOwnInDenseArray'', ''DefineOwnInDenseArrayL'',
     ''DefineOwnByVal'', ''GetByVal'', ''GetByIndex'', ''GetByValWithReceiver'',
     ''PutByValLoose'', ''PutByValStrict'', ''PutByValWithReceiver'', ''DelByVal'',
     ''AddOwnPrivateBySym'', ''GetOwnPrivateBySym'', ''PutOwnPrivateBySym'',
     ''DefineOwnGetterSetterByVal'', ''GetPNameList'', ''GetNextPName'', ''Call'', ''Construct'',
     ''Call1'', ''CallWithNewTarget'', ''Call2'', ''Call3'', ''Call4'', ''CallWithNewTargetLong'',
     ''CallRequire'', ''CallBuiltin'', ''CallBuiltinLong'', ''GetBuiltinClosure'', ''Ret'',
     ''Catch'', ''DirectEval'', ''Throw'', ''ThrowIfEmpty'', ''ThrowIfUndefined'',
     ''ThrowIfThisInitialized'', ''Debugger'', ''AsyncBreakCheck'', ''ProfilePoint'',
     ''CreateBaseClass'', ''CreateBaseClassLongIndex'', ''CreateDerivedClass'',
     ''CreateDerivedClassLongIndex'', ''CreateClosure'', ''CreateClosureLongIndex'',
     ''CreateThisForNew'', ''CreateThisForSuper'', ''SelectObject'', ''LoadParam'',
     ''LoadParamLong'', ''LoadConstUInt8'', ''LoadConstInt'', ''LoadConstDouble'',
     ''LoadConstBigInt'', ''LoadConstBigIntLongIndex'', ''LoadConstString'',
     ''LoadConstStringLongIndex'', ''LoadConstEmpty'', ''LoadConstUndefined'', ''LoadConstNull'',
     ''LoadConstTrue'', ''LoadConstFalse'', ''LoadConstZero'', ''CoerceThisNS'', ''LoadThisNS'',
     ''ToNumber'', ''ToNumeric'', ''ToInt32'', ''ToUint32'', ''AddEmptyString'',
     ''CreatePrivateName'', ''GetArgumentsPropByValLoose'', ''GetArgumentsPropByValStrict'',
     ''GetArgumentsLength'', ''ReifyArgumentsStrict'', ''ReifyArgumentsLoose'', ''ToPropertyKey'',
     ''CreateRegExp'', ''UIntSwitchImm'', ''StringSwitchImm'', ''CreateGenerator'',
     ''CreateGeneratorLongIndex'', ''IteratorBegin'', ''IteratorNext'', ''IteratorClose'',
     ''TypedLoadParent'', ''Jmp'', ''JmpLong'', ''JmpTrue'', ''JmpTrueLong'', ''JmpFalse'',
     ''JmpFalseLong'', ''JmpUndefined'', ''JmpUndefinedLong'', ''JmpTypeOfIs'', ''JLess'',
     ''JLessLong'', ''JNotLess'', ''JNotLessLong'', ''JLessN'', ''JLessNLong'', ''JNotLessN'',
     ''JNotLessNLong'', ''JLessEqual'', ''JLessEqualLong'', ''JNotLessEqual'',
     ''JNotLessEqualLong'', ''JLessEqualN'', ''JLessEqualNLong'', ''JNotLessEqualN'',
     ''JNotLessEqualNLong'', ''JGreater'', ''JGreaterLong'', ''JNotGreater'', ''JNotGreaterLong'',
     ''JGreaterEqual'', ''JGreaterEqualLong'', ''JNotGreaterEqual'', ''JNotGreaterEqualLong'',
     ''JEqual'', ''JEqualLong'', ''JNotEqual'', ''JNotEqualLong'', ''JStrictEqual'',
     ''JStrictEqualLong'', ''JStrictNotEqual'', ''JStrictNotEqualLong'', ''JmpBuiltinIs'',
     ''JmpBuiltinIsLong'', ''JmpBuiltinIsNot'', ''JmpBuiltinIsNotLong'']"

definition V99_SCHEMAS :: "(string \<times> OpType list) list" where
  "V99_SCHEMAS =
    [(''Unreachable'', []), (''NewObjectWithBuffer'', [OT_R, OT_U2, OT_U2]),
     (''NewObjectWithBufferLong'', [OT_R, OT_U4, OT_U4]),
     (''NewObjectWithBufferAndParent'', [OT_R, OT_R, OT_U4, OT_U4]),
     (''NewTypedObjectWithBuffer'', [OT_R, OT_R, OT_U4, OT_U4, OT_U1]), (''NewObject'', [OT_R]),
     (''NewObjectWithParent'', [OT_R, OT_R]),
     (''NewArrayWithBuffer'', [OT_R, OT_U2, OT_U2, OT_U2]),
     (''NewArrayWithBufferLong'', [OT_R, OT_U2, OT_U2, OT_U4]), (''NewArray'', [OT_R, OT_U2]),
     (''NewFastArray'', [OT_R, OT_U2]), (''FastArrayLength'', [OT_R, OT_R]),
     (''FastArrayLoad'', [OT_R, OT_R, OT_R]), (''FastArrayStore'', [OT_R, OT_R, OT_R]),
     (''FastArrayPush'', [OT_R, OT_R]), (''FastArrayAppend'', [OT_R, OT_R]),
     (''Mov'', [OT_R, OT_R]), (''MovLong'', [OT_R4, OT_R4]), (''Negate'', [OT_R, OT_R]),
     (''Not'', [OT_R, OT_R]), (''BitNot'', [OT_R, OT_R]), (''TypeOf'', [OT_R, OT_R]),
     (''Eq'', [OT_R, OT_R, OT_R]), (''StrictEq'', [OT_R, OT_R, OT_R]),
     (''Neq'', [OT_R, OT_R, OT_R]), (''StrictNeq'', [OT_R, OT_R, OT_R]),
     (''Less'', [OT_R, OT_R, OT_R]), (''LessEq'', [OT_R, OT_R, OT_R]),
     (''Greater'', [OT_R, OT_R, OT_R]), (''GreaterEq'', [OT_R, OT_R, OT_R]),
     (''Add'', [OT_R, OT_R, OT_R]), (''AddN'', [OT_R, OT_R, OT_R]),
     (''AddS'', [OT_R, OT_R, OT_R]), (''Mul'', [OT_R, OT_R, OT_R]),
     (''MulN'', [OT_R, OT_R, OT_R]), (''Div'', [OT_R, OT_R, OT_R]),
     (''DivN'', [OT_R, OT_R, OT_R]), (''Mod'', [OT_R, OT_R, OT_R]), (''Sub'', [OT_R, OT_R, OT_R]),
     (''SubN'', [OT_R, OT_R, OT_R]), (''LShift'', [OT_R, OT_R, OT_R]),
     (''RShift'', [OT_R, OT_R, OT_R]), (''URshift'', [OT_R, OT_R, OT_R]),
     (''BitAnd'', [OT_R, OT_R, OT_R]), (''BitXor'', [OT_R, OT_R, OT_R]),
     (''BitOr'', [OT_R, OT_R, OT_R]), (''Inc'', [OT_R, OT_R]), (''Dec'', [OT_R, OT_R]),
     (''InstanceOf'', [OT_R, OT_R, OT_R]), (''IsIn'', [OT_R, OT_R, OT_R]),
     (''PrivateIsIn'', [OT_R, OT_R, OT_R, OT_R]), (''TypeOfIs'', [OT_R, OT_R, OT_U2]),
     (''GetParentEnvironment'', [OT_R, OT_U1]), (''GetEnvironment'', [OT_R, OT_R, OT_U1]),
     (''GetClosureEnvironment'', [OT_R, OT_R]), (''StoreToEnvironment'', [OT_R, OT_U1, OT_R]),
     (''StoreToEnvironmentL'', [OT_R, OT_U2, OT_R]),
     (''StoreNPToEnvironment'', [OT_R, OT_U1, OT_R]),
     (''StoreNPToEnvironmentL'', [OT_R, OT_U2, OT_R]),
     (''LoadFromEnvironment'', [OT_R, OT_R, OT_U1]),
     (''LoadFromEnvironmentL'', [OT_R, OT_R, OT_U2]), (''GetGlobalObject'', [OT_R]),
     (''GetNewTarget'', [OT_R]), (''LoadParentNoTraps'', [OT_R, OT_R]),
     (''CreateFunctionEnvironment'', [OT_R, OT_U1]),
     (''CreateTopLevelEnvironment'', [OT_R, OT_U4]), (''CreateEnvironment'', [OT_R, OT_R, OT_U4]),
     (''DeclareGlobalVar'', [OT_U4]), (''GetByIdShort'', [OT_R, OT_R, OT_U1, OT_U1]),
     (''GetById'', [OT_R, OT_R, OT_U1, OT_U2]), (''GetByIdLong'', [OT_R, OT_R, OT_U1, OT_U4]),
     (''GetByIdWithReceiverLong'', [OT_R, OT_R, OT_U1, OT_R, OT_U4]),
     (''TryGetById'', [OT_R, OT_R, OT_U1, OT_U2]),
     (''TryGetByIdLong'', [OT_R, OT_R, OT_U1, OT_U4]),
     (''PutByIdLoose'', [OT_R, OT_R, OT_U1, OT_U2]),
     (''PutByIdStrict'', [OT_R, OT_R, OT_U1, OT_U2]),
     (''PutByIdLooseLong'', [OT_R, OT_R, OT_U1, OT_U4]),
     (''PutByIdStrictLong'', [OT_R, OT_R, OT_U1, OT_U4]),
     (''TryPutByIdLoose'', [OT_R, OT_R, OT_U1, OT_U2]),
     (''TryPutByIdStrict'', [OT_R, OT_R, OT_U1, OT_U2]),
     (''TryPutByIdLooseLong'', [OT_R, OT_R, OT_U1, OT_U4]),
     (''TryPutByIdStrictLong'', [OT_R, OT_R, OT_U1, OT_U4]),
     (''PutOwnBySlotIdx'', [OT_R, OT_R, OT_U1]), (''PutOwnBySlotIdxLong'', [OT_R, OT_R, OT_U4]),
     (''GetOwnBySlotIdx'', [OT_R, OT_R, OT_U1]), (''GetOwnBySlotIdxLong'', [OT_R, OT_R, OT_U4]),
     (''DefineOwnById'', [OT_R, OT_R, OT_U1, OT_U2]),
     (''DefineOwnByIdLong'', [OT_R, OT_R, OT_U1, OT_U4]),
     (''DefineOwnByIndex'', [OT_R, OT_R, OT_U1]), (''DefineOwnByIndexL'', [OT_R, OT_R, OT_U4]),
     (''DefineOwnInDenseArray'', [OT_R, OT_R, OT_U1]),
     (''DefineOwnInDenseArrayL'', [OT_R, OT_R, OT_U2]),
     (''DefineOwnByVal'', [OT_R, OT_R, OT_R, OT_U1]), (''GetByVal'', [OT_R, OT_R, OT_R]),
     (''GetByIndex'', [OT_R, OT_R, OT_U1]), (''GetByValWithReceiver'', [OT_R, OT_R, OT_R, OT_R]),
     (''PutByValLoose'', [OT_R, OT_R, OT_R]), (''PutByValStrict'', [OT_R, OT_R, OT_R]),
     (''PutByValWithReceiver'', [OT_R, OT_R, OT_R, OT_R, OT_U1]),
     (''DelByVal'', [OT_R, OT_R, OT_R, OT_U1]), (''AddOwnPrivateBySym'', [OT_R, OT_R, OT_R]),
     (''GetOwnPrivateBySym'', [OT_R, OT_R, OT_U1, OT_R]),
     (''PutOwnPrivateBySym'', [OT_R, OT_R, OT_U1, OT_R]),
     (''DefineOwnGetterSetterByVal'', [OT_R, OT_R, OT_R, OT_R, OT_U1]),
     (''GetPNameList'', [OT_R, OT_R, OT_R, OT_R]),
     (''GetNextPName'', [OT_R, OT_R, OT_R, OT_R, OT_R]), (''Call'', [OT_R, OT_R, OT_U1]),
     (''Construct'', [OT_R, OT_R, OT_U1]), (''Call1'', [OT_R, OT_R, OT_R]),
     (''CallWithNewTarget'', [OT_R, OT_R, OT_R, OT_U1]), (''Call2'', [OT_R, OT_R, OT_R, OT_R]),
     (''Call3'', [OT_R, OT_R, OT_R, OT_R, OT_R]),
     (''Call4'', [OT_R, OT_R, OT_R, OT_R, OT_R, OT_R]),
     (''CallWithNewTargetLong'', [OT_R, OT_R, OT_R, OT_R]),
     (''CallRequire'', [OT_R, OT_R, OT_U4]), (''CallBuiltin'', [OT_R, OT_U1, OT_U1]),
     (''CallBuiltinLong'', [OT_R, OT_U1, OT_U4]), (''GetBuiltinClosure'', [OT_R, OT_U1]),
     (''Ret'', [OT_R]), (''Catch'', [OT_R]), (''DirectEval'', [OT_R, OT_R, OT_U1]),
     (''Throw'', [OT_R]), (''ThrowIfEmpty'', [OT_R, OT_R]), (''ThrowIfUndefined'', [OT_R, OT_R]),
     (''ThrowIfThisInitialized'', [OT_R]), (''Debugger'', []), (''AsyncBreakCheck'', []),
     (''ProfilePoint'', [OT_U2]), (''CreateBaseClass'', [OT_R, OT_R, OT_R, OT_U2]),
     (''CreateBaseClassLongIndex'', [OT_R, OT_R, OT_R, OT_U4]),
     (''CreateDerivedClass'', [OT_R, OT_R, OT_R, OT_R, OT_U2]),
     (''CreateDerivedClassLongIndex'', [OT_R, OT_R, OT_R, OT_R, OT_U4]),
     (''CreateClosure'', [OT_R, OT_R, OT_U2]), (''CreateClosureLongIndex'', [OT_R, OT_R, OT_U4]),
     (''CreateThisForNew'', [OT_R, OT_R, OT_U1]),
     (''CreateThisForSuper'', [OT_R, OT_R, OT_R, OT_U1]), (''SelectObject'', [OT_R, OT_R, OT_R]),
     (''LoadParam'', [OT_R, OT_U1]), (''LoadParamLong'', [OT_R, OT_U4]),
     (''LoadConstUInt8'', [OT_R, OT_U1]), (''LoadConstInt'', [OT_R, OT_I4]),
     (''LoadConstDouble'', [OT_R, OT_D]), (''LoadConstBigInt'', [OT_R, OT_U2]),
     (''LoadConstBigIntLongIndex'', [OT_R, OT_U4]), (''LoadConstString'', [OT_R, OT_U2]),
     (''LoadConstStringLongIndex'', [OT_R, OT_U4]), (''LoadConstEmpty'', [OT_R]),
     (''LoadConstUndefined'', [OT_R]), (''LoadConstNull'', [OT_R]), (''LoadConstTrue'', [OT_R]),
     (''LoadConstFalse'', [OT_R]), (''LoadConstZero'', [OT_R]), (''CoerceThisNS'', [OT_R, OT_R]),
     (''LoadThisNS'', [OT_R]), (''ToNumber'', [OT_R, OT_R]), (''ToNumeric'', [OT_R, OT_R]),
     (''ToInt32'', [OT_R, OT_R]), (''ToUint32'', [OT_R, OT_R]),
     (''AddEmptyString'', [OT_R, OT_R]), (''CreatePrivateName'', [OT_R, OT_U4]),
     (''GetArgumentsPropByValLoose'', [OT_R, OT_R, OT_R]),
     (''GetArgumentsPropByValStrict'', [OT_R, OT_R, OT_R]),
     (''GetArgumentsLength'', [OT_R, OT_R]), (''ReifyArgumentsStrict'', [OT_R]),
     (''ReifyArgumentsLoose'', [OT_R]), (''ToPropertyKey'', [OT_R, OT_R]),
     (''CreateRegExp'', [OT_R, OT_U4, OT_U4, OT_U4]),
     (''UIntSwitchImm'', [OT_R, OT_U4, OT_A4, OT_U4, OT_U4]),
     (''StringSwitchImm'', [OT_R, OT_U4, OT_U4, OT_A4, OT_U4]),
     (''CreateGenerator'', [OT_R, OT_R, OT_U2]),
     (''CreateGeneratorLongIndex'', [OT_R, OT_R, OT_U4]), (''IteratorBegin'', [OT_R, OT_R]),
     (''IteratorNext'', [OT_R, OT_R, OT_R]), (''IteratorClose'', [OT_R, OT_U1]),
     (''TypedLoadParent'', [OT_R, OT_R]), (''Jmp'', [OT_A1]), (''JmpLong'', [OT_A4]),
     (''JmpTrue'', [OT_A1, OT_R]), (''JmpTrueLong'', [OT_A4, OT_R]),
     (''JmpFalse'', [OT_A1, OT_R]), (''JmpFalseLong'', [OT_A4, OT_R]),
     (''JmpUndefined'', [OT_A1, OT_R]), (''JmpUndefinedLong'', [OT_A4, OT_R]),
     (''JmpTypeOfIs'', [OT_A4, OT_R, OT_U2]), (''JLess'', [OT_A1, OT_R, OT_R]),
     (''JLessLong'', [OT_A4, OT_R, OT_R]), (''JNotLess'', [OT_A1, OT_R, OT_R]),
     (''JNotLessLong'', [OT_A4, OT_R, OT_R]), (''JLessN'', [OT_A1, OT_R, OT_R]),
     (''JLessNLong'', [OT_A4, OT_R, OT_R]), (''JNotLessN'', [OT_A1, OT_R, OT_R]),
     (''JNotLessNLong'', [OT_A4, OT_R, OT_R]), (''JLessEqual'', [OT_A1, OT_R, OT_R]),
     (''JLessEqualLong'', [OT_A4, OT_R, OT_R]), (''JNotLessEqual'', [OT_A1, OT_R, OT_R]),
     (''JNotLessEqualLong'', [OT_A4, OT_R, OT_R]), (''JLessEqualN'', [OT_A1, OT_R, OT_R]),
     (''JLessEqualNLong'', [OT_A4, OT_R, OT_R]), (''JNotLessEqualN'', [OT_A1, OT_R, OT_R]),
     (''JNotLessEqualNLong'', [OT_A4, OT_R, OT_R]), (''JGreater'', [OT_A1, OT_R, OT_R]),
     (''JGreaterLong'', [OT_A4, OT_R, OT_R]), (''JNotGreater'', [OT_A1, OT_R, OT_R]),
     (''JNotGreaterLong'', [OT_A4, OT_R, OT_R]), (''JGreaterEqual'', [OT_A1, OT_R, OT_R]),
     (''JGreaterEqualLong'', [OT_A4, OT_R, OT_R]), (''JNotGreaterEqual'', [OT_A1, OT_R, OT_R]),
     (''JNotGreaterEqualLong'', [OT_A4, OT_R, OT_R]), (''JEqual'', [OT_A1, OT_R, OT_R]),
     (''JEqualLong'', [OT_A4, OT_R, OT_R]), (''JNotEqual'', [OT_A1, OT_R, OT_R]),
     (''JNotEqualLong'', [OT_A4, OT_R, OT_R]), (''JStrictEqual'', [OT_A1, OT_R, OT_R]),
     (''JStrictEqualLong'', [OT_A4, OT_R, OT_R]), (''JStrictNotEqual'', [OT_A1, OT_R, OT_R]),
     (''JStrictNotEqualLong'', [OT_A4, OT_R, OT_R]), (''JmpBuiltinIs'', [OT_A1, OT_U1, OT_R]),
     (''JmpBuiltinIsLong'', [OT_A4, OT_U1, OT_R]), (''JmpBuiltinIsNot'', [OT_A1, OT_U1, OT_R]),
     (''JmpBuiltinIsNotLong'', [OT_A4, OT_U1, OT_R])]"

definition V99_STRING_IDS :: "(u8 \<times> u8) list" where
  "V99_STRING_IDS =
    [(67, 0), (68, 3), (69, 3), (70, 3), (71, 4), (72, 3), (73, 3), (74, 3), (75, 3), (76, 3),
     (77, 3), (78, 3), (79, 3), (80, 3), (81, 3), (87, 3), (144, 1), (145, 1), (159, 1), (166, 2)]"

definition V99_FUNC_IDS :: "(u8 \<times> u8) list" where
  "V99_FUNC_IDS =
    [(132, 2), (133, 2), (169, 2), (170, 2)]"

definition V99_TABLES :: version_tables where
  "V99_TABLES =
    \<lparr>vt_opcodes = V99_OPCODES, vt_sizes = V99_SIZES, vt_str_ops = V99_STR_OPS, vt_call_ops = V99_CALL_OPS,
     vt_names = V99_NAMES, vt_schemas = V99_SCHEMAS, vt_string_ids = V99_STRING_IDS, vt_func_ids = V99_FUNC_IDS\<rparr>"

lemmas V99_types = V99_SCHEMAS_def [THEN arg_cong [of _ _ "map snd"], unfolded list.map snd_conv]

lemma V99_names: "V99_NAMES = map OpCode_name V99_OPCODES" "map fst V99_SCHEMAS = V99_NAMES"
  by (simp_all only: V99_NAMES_def V99_OPCODES_def V99_SCHEMAS_def list.map opcode_name fst_conv)

lemma V99_agree: "tables_agree V99_TABLES"
  unfolding V99_TABLES_def
  by (rule tables_agreeI [OF _ _ V99_names V99_types])
    (simp_all add: opcodes_upt V99_OPCODES_def V99_SIZES_def V99_STR_OPS_def V99_STRING_IDS_def
      V99_CALL_OPS_def V99_FUNC_IDS_def table_checks)

subsection \<open>Version 98, late form\<close>

definition V98L_OPCODES :: "OpCode list" where
  "V98L_OPCODES =
    [OP_Unreachable, OP_NewObjectWithBuffer, OP_NewObjectWithBufferLong,
     OP_NewObjectWithBufferAndParent, OP_NewObject, OP_NewObjectWithParent, OP_NewArrayWithBuffer,
     OP_NewArrayWithBufferLong, OP_NewArray, OP_NewFastArray, OP_FastArrayLength,
     OP_FastArrayLoad, OP_FastArrayStore, OP_FastArrayPush, OP_FastArrayAppend, OP_CacheNewObject,
     OP_Mov, OP_MovLong, OP_Negate, OP_Not, OP_BitNot, OP_TypeOf, OP_Eq, OP_StrictEq, OP_Neq,
     OP_StrictNeq, OP_Less, OP_LessEq, OP_Greater, OP_GreaterEq, OP_Add, OP_AddN, OP_AddS, OP_Mul,
     OP_MulN, OP_Div, OP_DivN, OP_Mod, OP_Sub, OP_SubN, OP_LShift, OP_RShift, OP_URshift,
     OP_BitAnd, OP_BitXor, OP_BitOr, OP_Inc, OP_Dec, OP_InstanceOf, OP_IsIn, OP_PrivateIsIn,
     OP_TypeOfIs, OP_GetParentEnvironment, OP_GetEnvironment, OP_GetClosureEnvironment,
     OP_StoreToEnvironment, OP_StoreToEnvironmentL, OP_StoreNPToEnvironment,
     OP_StoreNPToEnvironmentL, OP_LoadFromEnvironment, OP_LoadFromEnvironmentL,
     OP_GetGlobalObject, OP_GetNewTarget, OP_LoadParentNoTraps, OP_CreateFunctionEnvironment,
     OP_CreateTopLevelEnvironment, OP_CreateEnvironment, OP_DeclareGlobalVar, OP_GetByIdShort,
     OP_GetById, OP_GetByIdLong, OP_GetByIdWithReceiverLong, OP_TryGetById, OP_TryGetByIdLong,
     OP_PutByIdLoose, OP_PutByIdStrict, OP_PutByIdLooseLong, OP_PutByIdStrictLong,
     OP_TryPutByIdLoose, OP_TryPutByIdStrict, OP_TryPutByIdLooseLong, OP_TryPutByIdStrictLong,
     OP_PutOwnBySlotIdx, OP_PutOwnBySlotIdxLong, OP_GetOwnBySlotIdx, OP_GetOwnBySlotIdxLong,
     OP_DefineOwnById, OP_DefineOwnByIdLong, OP_DefineOwnByIndex, OP_DefineOwnByIndexL,
     OP_DefineOwnInDenseArray, OP_DefineOwnInDenseArrayL, OP_DefineOwnByVal, OP_GetByVal,
     OP_GetByIndex, OP_GetByValWithReceiver, OP_PutByValLoose, OP_PutByValStrict,
     OP_PutByValWithReceiver, OP_DelByVal, OP_AddOwnPrivateBySym, OP_GetOwnPrivateBySym,
     OP_PutOwnPrivateBySym, OP_DefineOwnGetterSetterByVal, OP_GetPNameList, OP_GetNextPName,
     OP_Call, OP_Construct, OP_Call1, OP_CallWithNewTarget, OP_Call2, OP_Call3, OP_Call4,
     OP_CallWithNewTargetLong, OP_CallRequire, OP_CallBuiltin, OP_CallBuiltinLong,
     OP_GetBuiltinClosure, OP_Ret, OP_Catch, OP_DirectEval, OP_Throw, OP_ThrowIfEmpty,
     OP_ThrowIfUndefined, OP_ThrowIfThisInitialized, OP_Debugger, OP_AsyncBreakCheck,
     OP_ProfilePoint, OP_CreateBaseClass, OP_CreateBaseClassLongIndex, OP_CreateDerivedClass,
     OP_CreateDerivedClassLongIndex, OP_CreateClosure, OP_CreateClosureLongIndex,
     OP_CreateThisForNew, OP_CreateThisForSuper, OP_SelectObject, OP_LoadParam, OP_LoadParamLong,
     OP_LoadConstUInt8, OP_LoadConstInt, OP_LoadConstDouble, OP_LoadConstBigInt,
     OP_LoadConstBigIntLongIndex, OP_LoadConstString, OP_LoadConstStringLongIndex,
     OP_LoadConstEmpty, OP_LoadConstUndefined, OP_LoadConstNull, OP_LoadConstTrue,
     OP_LoadConstFalse, OP_LoadConstZero, OP_CoerceThisNS, OP_LoadThisNS, OP_ToNumber,
     OP_ToNumeric, OP_ToInt32, OP_AddEmptyString, OP_CreatePrivateName,
     OP_GetArgumentsPropByValLoose, OP_GetArgumentsPropByValStrict, OP_GetArgumentsLength,
     OP_ReifyArgumentsStrict, OP_ReifyArgumentsLoose, OP_ToPropertyKey, OP_CreateRegExp,
     OP_UIntSwitchImm, OP_StringSwitchImm, OP_CreateGenerator, OP_CreateGeneratorLongIndex,
     OP_IteratorBegin, OP_IteratorNext, OP_IteratorClose, OP_TypedLoadParent, OP_Jmp, OP_JmpLong,
     OP_JmpTrue, OP_JmpTrueLong, OP_JmpFalse, OP_JmpFalseLong, OP_JmpUndefined,
     OP_JmpUndefinedLong, OP_JmpTypeOfIs, OP_JLess, OP_JLessLong, OP_JNotLess, OP_JNotLessLong,
     OP_JLessN, OP_JLessNLong, OP_JNotLessN, OP_JNotLessNLong, OP_JLessEqual, OP_JLessEqualLong,
     OP_JNotLessEqual, OP_JNotLessEqualLong, OP_JLessEqualN, OP_JLessEqualNLong,
     OP_JNotLessEqualN, OP_JNotLessEqualNLong, OP_JGreater, OP_JGreaterLong, OP_JNotGreater,
     OP_JNotGreaterLong, OP_JGreaterEqual, OP_JGreaterEqualLong, OP_JNotGreaterEqual,
     OP_JNotGreaterEqualLong, OP_JEqual, OP_JEqualLong, OP_JNotEqual, OP_JNotEqualLong,
     OP_JStrictEqual, OP_JStrictEqualLong, OP_JStrictNotEqual, OP_JStrictNotEqualLong,
     OP_JmpBuiltinIs, OP_JmpBuiltinIsLong, OP_JmpBuiltinIsNot, OP_JmpBuiltinIsNotLong]"

definition V98L_SIZES :: "u8 list" where
  "V98L_SIZES =
    [1, 6, 10, 11, 2, 3, 8, 10, 4, 4, 3, 4, 4, 3, 3, 8, 3, 9, 3, 3, 3, 3, 4, 4, 4, 4, 4, 4, 4, 4,
     4, 4, 4, 4, 4, 4, 4, 4, 4, 4, 4, 4, 4, 4, 4, 4, 3, 3, 4, 4, 5, 5, 3, 4, 3, 4, 5, 4, 5, 4, 5,
     2, 2, 3, 3, 6, 7, 5, 5, 6, 8, 9, 6, 8, 6, 6, 8, 8, 6, 6, 8, 8, 4, 7, 4, 7, 6, 8, 4, 7, 4, 5,
     5, 4, 4, 5, 4, 4, 6, 5, 4, 5, 5, 6, 5, 6, 4, 4, 4, 5, 5, 6, 7, 5, 7, 4, 7, 3, 2, 2, 4, 2, 3,
     3, 2, 1, 1, 3, 6, 8, 7, 9, 5, 7, 4, 5, 4, 3, 6, 3, 6, 10, 4, 6, 4, 6, 2, 2, 2, 2, 2, 2, 3, 2,
     3, 3, 3, 3, 6, 4, 4, 3, 2, 2, 3, 14, 18, 18, 5, 7, 3, 4, 3, 3, 2, 5, 3, 6, 3, 6, 3, 6, 8, 4,
     7, 4, 7, 4, 7, 4, 7, 4, 7, 4, 7, 4, 7, 4, 7, 4, 7, 4, 7, 4, 7, 4, 7, 4, 7, 4, 7, 4, 7, 4, 7,
     4, 7, 4, 7]"

definition V98L_STR_OPS :: "(u8 \<times> u8 \<times> u8) list" where
  "V98L_STR_OPS =
    [(67, 1, 4), (68, 4, 1), (69, 4, 2), (70, 4, 4), (71, 5, 4), (72, 4, 2), (73, 4, 4),
     (74, 4, 2), (75, 4, 2), (76, 4, 4), (77, 4, 4), (78, 4, 2), (79, 4, 2), (80, 4, 4),
     (81, 4, 4), (87, 4, 4), (144, 2, 2), (145, 2, 4), (158, 2, 4), (165, 6, 4)]"

definition V98L_CALL_OPS :: "(u8 \<times> u8 \<times> u8) list" where
  "V98L_CALL_OPS = []"

definition V98L_NAMES :: "string list" where
  "V98L_NAMES =
    [''Unreachable'', ''NewObjectWithBuffer'', ''NewObjectWithBufferLong'',
     ''NewObjectWithBufferAndParent'', ''NewObject'', ''NewObjectWithParent'',
     ''NewArrayWithBuffer'', ''NewArrayWithBufferLong'', ''NewArray'', ''NewFastArray'',
     ''FastArrayLength'', ''FastArrayLoad'', ''FastArrayStore'', ''FastArrayPush'',
     ''FastArrayAppend'', ''CacheNewObject'', ''Mov'', ''MovLong'', ''Negate'', ''Not'',
     ''BitNot'', ''TypeOf'', ''Eq'', ''StrictEq'', ''Neq'', ''StrictNeq'', ''Less'', ''LessEq'',
     ''Greater'', ''GreaterEq'', ''Add'', ''AddN'', ''AddS'', ''Mul'', ''MulN'', ''Div'',
     ''DivN'', ''Mod'', ''Sub'', ''SubN'', ''LShift'', ''RShift'', ''URshift'', ''BitAnd'',
     ''BitXor'', ''BitOr'', ''Inc'', ''Dec'', ''InstanceOf'', ''IsIn'', ''PrivateIsIn'',
     ''TypeOfIs'', ''GetParentEnvironment'', ''GetEnvironment'', ''GetClosureEnvironment'',
     ''StoreToEnvironment'', ''StoreToEnvironmentL'', ''StoreNPToEnvironment'',
     ''StoreNPToEnvironmentL'', ''LoadFromEnvironment'', ''LoadFromEnvironmentL'',
     ''GetGlobalObject'', ''GetNewTarget'', ''LoadParentNoTraps'', ''CreateFunctionEnvironment'',
     ''CreateTopLevelEnvironment'', ''CreateEnvironment'', ''DeclareGlobalVar'', ''GetByIdShort'',
     ''GetById'', ''GetByIdLong'', ''GetByIdWithReceiverLong'', ''TryGetById'',
     ''TryGetByIdLong'', ''PutByIdLoose'', ''PutByIdStrict'', ''PutByIdLooseLong'',
     ''PutByIdStrictLong'', ''TryPutByIdLoose'', ''TryPutByIdStrict'', ''TryPutByIdLooseLong'',
     ''TryPutByIdStrictLong'', ''PutOwnBySlotIdx'', ''PutOwnBySlotIdxLong'', ''GetOwnBySlotIdx'',
     ''GetOwnBySlotIdxLong'', ''DefineOwnById'', ''DefineOwnByIdLong'', ''DefineOwnByIndex'',
     ''DefineOwnByIndexL'', ''DefineOwnInDenseArray'', ''DefineOwnInDenseArrayL'',
     ''DefineOwnByVal'', ''GetByVal'', ''GetByIndex'', ''GetByValWithReceiver'',
     ''PutByValLoose'', ''PutByValStrict'', ''PutByValWithReceiver'', ''DelByVal'',
     ''AddOwnPrivateBySym'', ''GetOwnPrivateBySym'', ''PutOwnPrivateBySym'',
     ''DefineOwnGetterSetterByVal'', ''GetPNameList'', ''GetNextPName'', ''Call'', ''Construct'',
     ''Call1'', ''CallWithNewTarget'', ''Call2'', ''Call3'', ''Call4'', ''CallWithNewTargetLong'',
     ''CallRequire'', ''CallBuiltin'', ''CallBuiltinLong'', ''GetBuiltinClosure'', ''Ret'',
     ''Catch'', ''DirectEval'', ''Throw'', ''ThrowIfEmpty'', ''ThrowIfUndefined'',
     ''ThrowIfThisInitialized'', ''Debugger'', ''AsyncBreakCheck'', ''ProfilePoint'',
     ''CreateBaseClass'', ''CreateBaseClassLongIndex'', ''CreateDerivedClass'',
     ''CreateDerivedClassLongIndex'', ''CreateClosure'', ''CreateClosureLongIndex'',
     ''CreateThisForNew'', ''CreateThisForSuper'', ''SelectObject'', ''LoadParam'',
     ''LoadParamLong'', ''LoadConstUInt8'', ''LoadConstInt'', ''LoadConstDouble'',
     ''LoadConstBigInt'', ''LoadConstBigIntLongIndex'', ''LoadConstString'',
     ''LoadConstStringLongIndex'', ''LoadConstEmpty'', ''LoadConstUndefined'', ''LoadConstNull'',
     ''LoadConstTrue'', ''LoadConstFalse'', ''LoadConstZero'', ''CoerceThisNS'', ''LoadThisNS'',
     ''ToNumber'', ''ToNumeric'', ''ToInt32'', ''AddEmptyString'', ''CreatePrivateName'',
     ''GetArgumentsPropByValLoose'', ''GetArgumentsPropByValStrict'', ''GetArgumentsLength'',
     ''ReifyArgumentsStrict'', ''ReifyArgumentsLoose'', ''ToPropertyKey'', ''CreateRegExp'',
     ''UIntSwitchImm'', ''StringSwitchImm'', ''CreateGenerator'', ''CreateGeneratorLongIndex'',
     ''IteratorBegin'', ''IteratorNext'', ''IteratorClose'', ''TypedLoadParent'', ''Jmp'',
     ''JmpLong'', ''JmpTrue'', ''JmpTrueLong'', ''JmpFalse'', ''JmpFalseLong'', ''JmpUndefined'',
     ''JmpUndefinedLong'', ''JmpTypeOfIs'', ''JLess'', ''JLessLong'', ''JNotLess'',
     ''JNotLessLong'', ''JLessN'', ''JLessNLong'', ''JNotLessN'', ''JNotLessNLong'',
     ''JLessEqual'', ''JLessEqualLong'', ''JNotLessEqual'', ''JNotLessEqualLong'',
     ''JLessEqualN'', ''JLessEqualNLong'', ''JNotLessEqualN'', ''JNotLessEqualNLong'',
     ''JGreater'', ''JGreaterLong'', ''JNotGreater'', ''JNotGreaterLong'', ''JGreaterEqual'',
     ''JGreaterEqualLong'', ''JNotGreaterEqual'', ''JNotGreaterEqualLong'', ''JEqual'',
     ''JEqualLong'', ''JNotEqual'', ''JNotEqualLong'', ''JStrictEqual'', ''JStrictEqualLong'',
     ''JStrictNotEqual'', ''JStrictNotEqualLong'', ''JmpBuiltinIs'', ''JmpBuiltinIsLong'',
     ''JmpBuiltinIsNot'', ''JmpBuiltinIsNotLong'']"

definition V98L_SCHEMAS :: "(string \<times> OpType list) list" where
  "V98L_SCHEMAS =
    [(''Unreachable'', []), (''NewObjectWithBuffer'', [OT_R, OT_U2, OT_U2]),
     (''NewObjectWithBufferLong'', [OT_R, OT_U4, OT_U4]),
     (''NewObjectWithBufferAndParent'', [OT_R, OT_R, OT_U4, OT_U4]), (''NewObject'', [OT_R]),
     (''NewObjectWithParent'', [OT_R, OT_R]),
     (''NewArrayWithBuffer'', [OT_R, OT_U2, OT_U2, OT_U2]),
     (''NewArrayWithBufferLong'', [OT_R, OT_U2, OT_U2, OT_U4]), (''NewArray'', [OT_R, OT_U2]),
     (''NewFastArray'', [OT_R, OT_U2]), (''FastArrayLength'', [OT_R, OT_R]),
     (''FastArrayLoad'', [OT_R, OT_R, OT_R]), (''FastArrayStore'', [OT_R, OT_R, OT_R]),
     (''FastArrayPush'', [OT_R, OT_R]), (''FastArrayAppend'', [OT_R, OT_R]),
     (''CacheNewObject'', [OT_R, OT_R, OT_U4, OT_U1]), (''Mov'', [OT_R, OT_R]),
     (''MovLong'', [OT_R4, OT_R4]), (''Negate'', [OT_R, OT_R]), (''Not'', [OT_R, OT_R]),
     (''BitNot'', [OT_R, OT_R]), (''TypeOf'', [OT_R, OT_R]), (''Eq'', [OT_R, OT_R, OT_R]),
     (''StrictEq'', [OT_R, OT_R, OT_R]), (''Neq'', [OT_R, OT_R, OT_R]),
     (''StrictNeq'', [OT_R, OT_R, OT_R]), (''Less'', [OT_R, OT_R, OT_R]),
     (''LessEq'', [OT_R, OT_R, OT_R]), (''Greater'', [OT_R, OT_R, OT_R]),
     (''GreaterEq'', [OT_R, OT_R, OT_R]), (''Add'', [OT_R, OT_R, OT_R]),
     (''AddN'', [OT_R, OT_R, OT_R]), (''AddS'', [OT_R, OT_R, OT_R]),
     (''Mul'', [OT_R, OT_R, OT_R]), (''MulN'', [OT_R, OT_R, OT_R]), (''Div'', [OT_R, OT_R, OT_R]),
     (''DivN'', [OT_R, OT_R, OT_R]), (''Mod'', [OT_R, OT_R, OT_R]), (''Sub'', [OT_R, OT_R, OT_R]),
     (''SubN'', [OT_R, OT_R, OT_R]), (''LShift'', [OT_R, OT_R, OT_R]),
     (''RShift'', [OT_R, OT_R, OT_R]), (''URshift'', [OT_R, OT_R, OT_R]),
     (''BitAnd'', [OT_R, OT_R, OT_R]), (''BitXor'', [OT_R, OT_R, OT_R]),
     (''BitOr'', [OT_R, OT_R, OT_R]), (''Inc'', [OT_R, OT_R]), (''Dec'', [OT_R, OT_R]),
     (''InstanceOf'', [OT_R, OT_R, OT_R]), (''IsIn'', [OT_R, OT_R, OT_R]),
     (''PrivateIsIn'', [OT_R, OT_R, OT_R, OT_R]), (''TypeOfIs'', [OT_R, OT_R, OT_U2]),
     (''GetParentEnvironment'', [OT_R, OT_U1]), (''GetEnvironment'', [OT_R, OT_R, OT_U1]),
     (''GetClosureEnvironment'', [OT_R, OT_R]), (''StoreToEnvironment'', [OT_R, OT_U1, OT_R]),
     (''StoreToEnvironmentL'', [OT_R, OT_U2, OT_R]),
     (''StoreNPToEnvironment'', [OT_R, OT_U1, OT_R]),
     (''StoreNPToEnvironmentL'', [OT_R, OT_U2, OT_R]),
     (''LoadFromEnvironment'', [OT_R, OT_R, OT_U1]),
     (''LoadFromEnvironmentL'', [OT_R, OT_R, OT_U2]), (''GetGlobalObject'', [OT_R]),
     (''GetNewTarget'', [OT_R]), (''LoadParentNoTraps'', [OT_R, OT_R]),
     (''CreateFunctionEnvironment'', [OT_R, OT_U1]),
     (''CreateTopLevelEnvironment'', [OT_R, OT_U4]), (''CreateEnvironment'', [OT_R, OT_R, OT_U4]),
     (''DeclareGlobalVar'', [OT_U4]), (''GetByIdShort'', [OT_R, OT_R, OT_U1, OT_U1]),
     (''GetById'', [OT_R, OT_R, OT_U1, OT_U2]), (''GetByIdLong'', [OT_R, OT_R, OT_U1, OT_U4]),
     (''GetByIdWithReceiverLong'', [OT_R, OT_R, OT_U1, OT_R, OT_U4]),
     (''TryGetById'', [OT_R, OT_R, OT_U1, OT_U2]),
     (''TryGetByIdLong'', [OT_R, OT_R, OT_U1, OT_U4]),
     (''PutByIdLoose'', [OT_R, OT_R, OT_U1, OT_U2]),
     (''PutByIdStrict'', [OT_R, OT_R, OT_U1, OT_U2]),
     (''PutByIdLooseLong'', [OT_R, OT_R, OT_U1, OT_U4]),
     (''PutByIdStrictLong'', [OT_R, OT_R, OT_U1, OT_U4]),
     (''TryPutByIdLoose'', [OT_R, OT_R, OT_U1, OT_U2]),
     (''TryPutByIdStrict'', [OT_R, OT_R, OT_U1, OT_U2]),
     (''TryPutByIdLooseLong'', [OT_R, OT_R, OT_U1, OT_U4]),
     (''TryPutByIdStrictLong'', [OT_R, OT_R, OT_U1, OT_U4]),
     (''PutOwnBySlotIdx'', [OT_R, OT_R, OT_U1]), (''PutOwnBySlotIdxLong'', [OT_R, OT_R, OT_U4]),
     (''GetOwnBySlotIdx'', [OT_R, OT_R, OT_U1]), (''GetOwnBySlotIdxLong'', [OT_R, OT_R, OT_U4]),
     (''DefineOwnById'', [OT_R, OT_R, OT_U1, OT_U2]),
     (''DefineOwnByIdLong'', [OT_R, OT_R, OT_U1, OT_U4]),
     (''DefineOwnByIndex'', [OT_R, OT_R, OT_U1]), (''DefineOwnByIndexL'', [OT_R, OT_R, OT_U4]),
     (''DefineOwnInDenseArray'', [OT_R, OT_R, OT_U1]),
     (''DefineOwnInDenseArrayL'', [OT_R, OT_R, OT_U2]),
     (''DefineOwnByVal'', [OT_R, OT_R, OT_R, OT_U1]), (''GetByVal'', [OT_R, OT_R, OT_R]),
     (''GetByIndex'', [OT_R, OT_R, OT_U1]), (''GetByValWithReceiver'', [OT_R, OT_R, OT_R, OT_R]),
     (''PutByValLoose'', [OT_R, OT_R, OT_R]), (''PutByValStrict'', [OT_R, OT_R, OT_R]),
     (''PutByValWithReceiver'', [OT_R, OT_R, OT_R, OT_R, OT_U1]),
     (''DelByVal'', [OT_R, OT_R, OT_R, OT_U1]), (''AddOwnPrivateBySym'', [OT_R, OT_R, OT_R]),
     (''GetOwnPrivateBySym'', [OT_R, OT_R, OT_U1, OT_R]),
     (''PutOwnPrivateBySym'', [OT_R, OT_R, OT_U1, OT_R]),
     (''DefineOwnGetterSetterByVal'', [OT_R, OT_R, OT_R, OT_R, OT_U1]),
     (''GetPNameList'', [OT_R, OT_R, OT_R, OT_R]),
     (''GetNextPName'', [OT_R, OT_R, OT_R, OT_R, OT_R]), (''Call'', [OT_R, OT_R, OT_U1]),
     (''Construct'', [OT_R, OT_R, OT_U1]), (''Call1'', [OT_R, OT_R, OT_R]),
     (''CallWithNewTarget'', [OT_R, OT_R, OT_R, OT_U1]), (''Call2'', [OT_R, OT_R, OT_R, OT_R]),
     (''Call3'', [OT_R, OT_R, OT_R, OT_R, OT_R]),
     (''Call4'', [OT_R, OT_R, OT_R, OT_R, OT_R, OT_R]),
     (''CallWithNewTargetLong'', [OT_R, OT_R, OT_R, OT_R]),
     (''CallRequire'', [OT_R, OT_R, OT_U4]), (''CallBuiltin'', [OT_R, OT_U1, OT_U1]),
     (''CallBuiltinLong'', [OT_R, OT_U1, OT_U4]), (''GetBuiltinClosure'', [OT_R, OT_U1]),
     (''Ret'', [OT_R]), (''Catch'', [OT_R]), (''DirectEval'', [OT_R, OT_R, OT_U1]),
     (''Throw'', [OT_R]), (''ThrowIfEmpty'', [OT_R, OT_R]), (''ThrowIfUndefined'', [OT_R, OT_R]),
     (''ThrowIfThisInitialized'', [OT_R]), (''Debugger'', []), (''AsyncBreakCheck'', []),
     (''ProfilePoint'', [OT_U2]), (''CreateBaseClass'', [OT_R, OT_R, OT_R, OT_U2]),
     (''CreateBaseClassLongIndex'', [OT_R, OT_R, OT_R, OT_U4]),
     (''CreateDerivedClass'', [OT_R, OT_R, OT_R, OT_R, OT_U2]),
     (''CreateDerivedClassLongIndex'', [OT_R, OT_R, OT_R, OT_R, OT_U4]),
     (''CreateClosure'', [OT_R, OT_R, OT_U2]), (''CreateClosureLongIndex'', [OT_R, OT_R, OT_U4]),
     (''CreateThisForNew'', [OT_R, OT_R, OT_U1]),
     (''CreateThisForSuper'', [OT_R, OT_R, OT_R, OT_U1]), (''SelectObject'', [OT_R, OT_R, OT_R]),
     (''LoadParam'', [OT_R, OT_U1]), (''LoadParamLong'', [OT_R, OT_U4]),
     (''LoadConstUInt8'', [OT_R, OT_U1]), (''LoadConstInt'', [OT_R, OT_I4]),
     (''LoadConstDouble'', [OT_R, OT_D]), (''LoadConstBigInt'', [OT_R, OT_U2]),
     (''LoadConstBigIntLongIndex'', [OT_R, OT_U4]), (''LoadConstString'', [OT_R, OT_U2]),
     (''LoadConstStringLongIndex'', [OT_R, OT_U4]), (''LoadConstEmpty'', [OT_R]),
     (''LoadConstUndefined'', [OT_R]), (''LoadConstNull'', [OT_R]), (''LoadConstTrue'', [OT_R]),
     (''LoadConstFalse'', [OT_R]), (''LoadConstZero'', [OT_R]), (''CoerceThisNS'', [OT_R, OT_R]),
     (''LoadThisNS'', [OT_R]), (''ToNumber'', [OT_R, OT_R]), (''ToNumeric'', [OT_R, OT_R]),
     (''ToInt32'', [OT_R, OT_R]), (''AddEmptyString'', [OT_R, OT_R]),
     (''CreatePrivateName'', [OT_R, OT_U4]), (''GetArgumentsPropByValLoose'', [OT_R, OT_R, OT_R]),
     (''GetArgumentsPropByValStrict'', [OT_R, OT_R, OT_R]),
     (''GetArgumentsLength'', [OT_R, OT_R]), (''ReifyArgumentsStrict'', [OT_R]),
     (''ReifyArgumentsLoose'', [OT_R]), (''ToPropertyKey'', [OT_R, OT_R]),
     (''CreateRegExp'', [OT_R, OT_U4, OT_U4, OT_U4]),
     (''UIntSwitchImm'', [OT_R, OT_U4, OT_A4, OT_U4, OT_U4]),
     (''StringSwitchImm'', [OT_R, OT_U4, OT_U4, OT_A4, OT_U4]),
     (''CreateGenerator'', [OT_R, OT_R, OT_U2]),
     (''CreateGeneratorLongIndex'', [OT_R, OT_R, OT_U4]), (''IteratorBegin'', [OT_R, OT_R]),
     (''IteratorNext'', [OT_R, OT_R, OT_R]), (''IteratorClose'', [OT_R, OT_U1]),
     (''TypedLoadParent'', [OT_R, OT_R]), (''Jmp'', [OT_A1]), (''JmpLong'', [OT_A4]),
     (''JmpTrue'', [OT_A1, OT_R]), (''JmpTrueLong'', [OT_A4, OT_R]),
     (''JmpFalse'', [OT_A1, OT_R]), (''JmpFalseLong'', [OT_A4, OT_R]),
     (''JmpUndefined'', [OT_A1, OT_R]), (''JmpUndefinedLong'', [OT_A4, OT_R]),
     (''JmpTypeOfIs'', [OT_A4, OT_R, OT_U2]), (''JLess'', [OT_A1, OT_R, OT_R]),
     (''JLessLong'', [OT_A4, OT_R, OT_R]), (''JNotLess'', [OT_A1, OT_R, OT_R]),
     (''JNotLessLong'', [OT_A4, OT_R, OT_R]), (''JLessN'', [OT_A1, OT_R, OT_R]),
     (''JLessNLong'', [OT_A4, OT_R, OT_R]), (''JNotLessN'', [OT_A1, OT_R, OT_R]),
     (''JNotLessNLong'', [OT_A4, OT_R, OT_R]), (''JLessEqual'', [OT_A1, OT_R, OT_R]),
     (''JLessEqualLong'', [OT_A4, OT_R, OT_R]), (''JNotLessEqual'', [OT_A1, OT_R, OT_R]),
     (''JNotLessEqualLong'', [OT_A4, OT_R, OT_R]), (''JLessEqualN'', [OT_A1, OT_R, OT_R]),
     (''JLessEqualNLong'', [OT_A4, OT_R, OT_R]), (''JNotLessEqualN'', [OT_A1, OT_R, OT_R]),
     (''JNotLessEqualNLong'', [OT_A4, OT_R, OT_R]), (''JGreater'', [OT_A1, OT_R, OT_R]),
     (''JGreaterLong'', [OT_A4, OT_R, OT_R]), (''JNotGreater'', [OT_A1, OT_R, OT_R]),
     (''JNotGreaterLong'', [OT_A4, OT_R, OT_R]), (''JGreaterEqual'', [OT_A1, OT_R, OT_R]),
     (''JGreaterEqualLong'', [OT_A4, OT_R, OT_R]), (''JNotGreaterEqual'', [OT_A1, OT_R, OT_R]),
     (''JNotGreaterEqualLong'', [OT_A4, OT_R, OT_R]), (''JEqual'', [OT_A1, OT_R, OT_R]),
     (''JEqualLong'', [OT_A4, OT_R, OT_R]), (''JNotEqual'', [OT_A1, OT_R, OT_R]),
     (''JNotEqualLong'', [OT_A4, OT_R, OT_R]), (''JStrictEqual'', [OT_A1, OT_R, OT_R]),
     (''JStrictEqualLong'', [OT_A4, OT_R, OT_R]), (''JStrictNotEqual'', [OT_A1, OT_R, OT_R]),
     (''JStrictNotEqualLong'', [OT_A4, OT_R, OT_R]), (''JmpBuiltinIs'', [OT_A1, OT_U1, OT_R]),
     (''JmpBuiltinIsLong'', [OT_A4, OT_U1, OT_R]), (''JmpBuiltinIsNot'', [OT_A1, OT_U1, OT_R]),
     (''JmpBuiltinIsNotLong'', [OT_A4, OT_U1, OT_R])]"

definition V98L_STRING_IDS :: "(u8 \<times> u8) list" where
  "V98L_STRING_IDS =
    [(67, 0), (68, 3), (69, 3), (70, 3), (71, 4), (72, 3), (73, 3), (74, 3), (75, 3), (76, 3),
     (77, 3), (78, 3), (79, 3), (80, 3), (81, 3), (87, 3), (144, 1), (145, 1), (158, 1), (165, 2)]"

definition V98L_FUNC_IDS :: "(u8 \<times> u8) list" where
  "V98L_FUNC_IDS =
    [(132, 2), (133, 2), (168, 2), (169, 2)]"

definition V98L_TABLES :: version_tables where
  "V98L_TABLES =
    \<lparr>vt_opcodes = V98L_OPCODES, vt_sizes = V98L_SIZES, vt_str_ops = V98L_STR_OPS, vt_call_ops = V98L_CALL_OPS,
     vt_names = V98L_NAMES, vt_schemas = V98L_SCHEMAS, vt_string_ids = V98L_STRING_IDS, vt_func_ids = V98L_FUNC_IDS\<rparr>"

lemmas V98L_types = V98L_SCHEMAS_def [THEN arg_cong [of _ _ "map snd"], unfolded list.map snd_conv]

lemma V98L_names: "V98L_NAMES = map OpCode_name V98L_OPCODES" "map fst V98L_SCHEMAS = V98L_NAMES"
  by (simp_all only: V98L_NAMES_def V98L_OPCODES_def V98L_SCHEMAS_def list.map opcode_name fst_conv)

lemma V98L_agree: "tables_agree V98L_TABLES"
  unfolding V98L_TABLES_def
  by (rule tables_agreeI [OF _ _ V98L_names V98L_types])
    (simp_all add: opcodes_upt V98L_OPCODES_def V98L_SIZES_def V98L_STR_OPS_def V98L_STRING_IDS_def
      V98L_CALL_OPS_def V98L_FUNC_IDS_def table_checks)

end
