(* ===== verification/Hermes_Tables.thy ===== *)
theory Hermes_Tables
  imports Hermes_Header Hermes_Tables_A Hermes_Tables_B Hermes_Tables_C Hermes_Tables_D
begin

text \<open>
  The selection of the tables of a bytecode version: the six lookup functions of \<open>opcodes.rs\<close> and
  \<open>decompile/schemas.rs\<close>, whose match arms are association lists here, and the proof that they
  select the tables of one version, which agree.
\<close>

definition V98_LATE :: u32 where
  "V98_LATE = 9801"

definition version_arm :: "(u32 \<times> 'a) list \<Rightarrow> u32 \<Rightarrow> hermes_error + 'a" where
  "version_arm arms version =
     (case map_of arms version of
        None \<Rightarrow> Inl (UnsupportedVersion version MIN_SUPPORTED_VERSION MAX_SUPPORTED_VERSION)
      | Some t \<Rightarrow> Inr t)"

type_synonym VersionTables = "u8 list \<times> (u8 \<times> u8 \<times> u8) list \<times> (u8 \<times> u8 \<times> u8) list"

definition get_version_opcodes :: "u32 \<Rightarrow> hermes_error + OpCode list" where
  "get_version_opcodes = version_arm
    [(40, V40_OPCODES), (41, V41_OPCODES), (42, V41_OPCODES), (43, V41_OPCODES),
     (44, V44_OPCODES), (45, V45_OPCODES), (46, V46_OPCODES), (47, V46_OPCODES),
     (48, V46_OPCODES), (49, V46_OPCODES), (50, V46_OPCODES), (51, V46_OPCODES),
     (52, V52_OPCODES), (53, V52_OPCODES), (54, V52_OPCODES), (55, V52_OPCODES),
     (56, V52_OPCODES), (57, V52_OPCODES), (58, V52_OPCODES), (59, V59_OPCODES),
     (60, V59_OPCODES), (61, V61_OPCODES), (62, V61_OPCODES), (63, V61_OPCODES),
     (64, V61_OPCODES), (65, V61_OPCODES), (66, V61_OPCODES), (67, V61_OPCODES),
     (68, V61_OPCODES), (69, V61_OPCODES), (70, V61_OPCODES), (71, V61_OPCODES),
     (72, V61_OPCODES), (73, V73_OPCODES), (74, V73_OPCODES), (75, V73_OPCODES),
     (76, V73_OPCODES), (77, V73_OPCODES), (78, V73_OPCODES), (79, V73_OPCODES),
     (80, V80_OPCODES), (81, V81_OPCODES), (82, V81_OPCODES), (83, V83_OPCODES),
     (84, V84_OPCODES), (85, V85_OPCODES), (86, V85_OPCODES), (87, V87_OPCODES),
     (88, V87_OPCODES), (89, V87_OPCODES), (90, V90_OPCODES), (91, V87_OPCODES),
     (92, V92_OPCODES), (93, V87_OPCODES), (94, V92_OPCODES), (95, V95_OPCODES),
     (96, V95_OPCODES), (97, V97_OPCODES), (98, V98_OPCODES), (99, V99_OPCODES),
     (100, V99_OPCODES), (V98_LATE, V98L_OPCODES)]"

definition get_version_tables :: "u32 \<Rightarrow> hermes_error + VersionTables" where
  "get_version_tables = version_arm
    [(40, (V40_SIZES, V40_STR_OPS, V40_CALL_OPS)), (41, (V41_SIZES, V41_STR_OPS, V41_CALL_OPS)),
     (42, (V41_SIZES, V41_STR_OPS, V41_CALL_OPS)), (43, (V41_SIZES, V41_STR_OPS, V41_CALL_OPS)),
     (44, (V44_SIZES, V44_STR_OPS, V44_CALL_OPS)), (45, (V45_SIZES, V45_STR_OPS, V45_CALL_OPS)),
     (46, (V46_SIZES, V46_STR_OPS, V46_CALL_OPS)), (47, (V46_SIZES, V46_STR_OPS, V46_CALL_OPS)),
     (48, (V46_SIZES, V46_STR_OPS, V46_CALL_OPS)), (49, (V46_SIZES, V46_STR_OPS, V46_CALL_OPS)),
     (50, (V46_SIZES, V46_STR_OPS, V46_CALL_OPS)), (51, (V46_SIZES, V46_STR_OPS, V46_CALL_OPS)),
     (52, (V52_SIZES, V52_STR_OPS, V52_CALL_OPS)), (53, (V52_SIZES, V52_STR_OPS, V52_CALL_OPS)),
     (54, (V52_SIZES, V52_STR_OPS, V52_CALL_OPS)), (55, (V52_SIZES, V52_STR_OPS, V52_CALL_OPS)),
     (56, (V52_SIZES, V52_STR_OPS, V52_CALL_OPS)), (57, (V52_SIZES, V52_STR_OPS, V52_CALL_OPS)),
     (58, (V52_SIZES, V52_STR_OPS, V52_CALL_OPS)), (59, (V59_SIZES, V59_STR_OPS, V59_CALL_OPS)),
     (60, (V59_SIZES, V59_STR_OPS, V59_CALL_OPS)), (61, (V61_SIZES, V61_STR_OPS, V61_CALL_OPS)),
     (62, (V61_SIZES, V61_STR_OPS, V61_CALL_OPS)), (63, (V61_SIZES, V61_STR_OPS, V61_CALL_OPS)),
     (64, (V61_SIZES, V61_STR_OPS, V61_CALL_OPS)), (65, (V61_SIZES, V61_STR_OPS, V61_CALL_OPS)),
     (66, (V61_SIZES, V61_STR_OPS, V61_CALL_OPS)), (67, (V61_SIZES, V61_STR_OPS, V61_CALL_OPS)),
     (68, (V61_SIZES, V61_STR_OPS, V61_CALL_OPS)), (69, (V61_SIZES, V61_STR_OPS, V61_CALL_OPS)),
     (70, (V61_SIZES, V61_STR_OPS, V61_CALL_OPS)), (71, (V61_SIZES, V61_STR_OPS, V61_CALL_OPS)),
     (72, (V61_SIZES, V61_STR_OPS, V61_CALL_OPS)), (73, (V73_SIZES, V73_STR_OPS, V73_CALL_OPS)),
     (74, (V73_SIZES, V73_STR_OPS, V73_CALL_OPS)), (75, (V73_SIZES, V73_STR_OPS, V73_CALL_OPS)),
     (76, (V73_SIZES, V73_STR_OPS, V73_CALL_OPS)), (77, (V73_SIZES, V73_STR_OPS, V73_CALL_OPS)),
     (78, (V73_SIZES, V73_STR_OPS, V73_CALL_OPS)), (79, (V73_SIZES, V73_STR_OPS, V73_CALL_OPS)),
     (80, (V80_SIZES, V80_STR_OPS, V80_CALL_OPS)), (81, (V81_SIZES, V81_STR_OPS, V81_CALL_OPS)),
     (82, (V81_SIZES, V81_STR_OPS, V81_CALL_OPS)), (83, (V83_SIZES, V83_STR_OPS, V83_CALL_OPS)),
     (84, (V84_SIZES, V84_STR_OPS, V84_CALL_OPS)), (85, (V85_SIZES, V85_STR_OPS, V85_CALL_OPS)),
     (86, (V85_SIZES, V85_STR_OPS, V85_CALL_OPS)), (87, (V87_SIZES, V87_STR_OPS, V87_CALL_OPS)),
     (88, (V87_SIZES, V87_STR_OPS, V87_CALL_OPS)), (89, (V87_SIZES, V87_STR_OPS, V87_CALL_OPS)),
     (90, (V90_SIZES, V90_STR_OPS, V90_CALL_OPS)), (91, (V87_SIZES, V87_STR_OPS, V87_CALL_OPS)),
     (92, (V92_SIZES, V92_STR_OPS, V92_CALL_OPS)), (93, (V87_SIZES, V87_STR_OPS, V87_CALL_OPS)),
     (94, (V92_SIZES, V92_STR_OPS, V92_CALL_OPS)), (95, (V95_SIZES, V95_STR_OPS, V95_CALL_OPS)),
     (96, (V95_SIZES, V95_STR_OPS, V95_CALL_OPS)), (97, (V97_SIZES, V97_STR_OPS, V97_CALL_OPS)),
     (98, (V98_SIZES, V98_STR_OPS, V98_CALL_OPS)), (99, (V99_SIZES, V99_STR_OPS, V99_CALL_OPS)),
     (100, (V99_SIZES, V99_STR_OPS, V99_CALL_OPS)),
     (V98_LATE, (V98L_SIZES, V98L_STR_OPS, V98L_CALL_OPS))]"

definition get_version_names :: "u32 \<Rightarrow> hermes_error + string list" where
  "get_version_names = version_arm
    [(40, V40_NAMES), (41, V41_NAMES), (42, V41_NAMES), (43, V41_NAMES), (44, V44_NAMES),
     (45, V45_NAMES), (46, V46_NAMES), (47, V46_NAMES), (48, V46_NAMES), (49, V46_NAMES),
     (50, V46_NAMES), (51, V46_NAMES), (52, V52_NAMES), (53, V52_NAMES), (54, V52_NAMES),
     (55, V52_NAMES), (56, V52_NAMES), (57, V52_NAMES), (58, V52_NAMES), (59, V59_NAMES),
     (60, V59_NAMES), (61, V61_NAMES), (62, V61_NAMES), (63, V61_NAMES), (64, V61_NAMES),
     (65, V61_NAMES), (66, V61_NAMES), (67, V61_NAMES), (68, V61_NAMES), (69, V61_NAMES),
     (70, V61_NAMES), (71, V61_NAMES), (72, V61_NAMES), (73, V73_NAMES), (74, V73_NAMES),
     (75, V73_NAMES), (76, V73_NAMES), (77, V73_NAMES), (78, V73_NAMES), (79, V73_NAMES),
     (80, V80_NAMES), (81, V81_NAMES), (82, V81_NAMES), (83, V83_NAMES), (84, V84_NAMES),
     (85, V85_NAMES), (86, V85_NAMES), (87, V87_NAMES), (88, V87_NAMES), (89, V87_NAMES),
     (90, V90_NAMES), (91, V87_NAMES), (92, V92_NAMES), (93, V87_NAMES), (94, V92_NAMES),
     (95, V95_NAMES), (96, V95_NAMES), (97, V97_NAMES), (98, V98_NAMES), (99, V99_NAMES),
     (100, V99_NAMES), (V98_LATE, V98L_NAMES)]"

definition get_version_schemas :: "u32 \<Rightarrow> hermes_error + (string \<times> OpType list) list" where
  "get_version_schemas = version_arm
    [(40, V40_SCHEMAS), (41, V41_SCHEMAS), (42, V41_SCHEMAS), (43, V41_SCHEMAS),
     (44, V44_SCHEMAS), (45, V45_SCHEMAS), (46, V46_SCHEMAS), (47, V46_SCHEMAS),
     (48, V46_SCHEMAS), (49, V46_SCHEMAS), (50, V46_SCHEMAS), (51, V46_SCHEMAS),
     (52, V52_SCHEMAS), (53, V52_SCHEMAS), (54, V52_SCHEMAS), (55, V52_SCHEMAS),
     (56, V52_SCHEMAS), (57, V52_SCHEMAS), (58, V52_SCHEMAS), (59, V59_SCHEMAS),
     (60, V59_SCHEMAS), (61, V61_SCHEMAS), (62, V61_SCHEMAS), (63, V61_SCHEMAS),
     (64, V61_SCHEMAS), (65, V61_SCHEMAS), (66, V61_SCHEMAS), (67, V61_SCHEMAS),
     (68, V61_SCHEMAS), (69, V61_SCHEMAS), (70, V61_SCHEMAS), (71, V61_SCHEMAS),
     (72, V61_SCHEMAS), (73, V73_SCHEMAS), (74, V73_SCHEMAS), (75, V73_SCHEMAS),
     (76, V73_SCHEMAS), (77, V73_SCHEMAS), (78, V73_SCHEMAS), (79, V73_SCHEMAS),
     (80, V80_SCHEMAS), (81, V81_SCHEMAS), (82, V81_SCHEMAS), (83, V83_SCHEMAS),
     (84, V84_SCHEMAS), (85, V85_SCHEMAS), (86, V85_SCHEMAS), (87, V87_SCHEMAS),
     (88, V87_SCHEMAS), (89, V87_SCHEMAS), (90, V90_SCHEMAS), (91, V87_SCHEMAS),
     (92, V92_SCHEMAS), (93, V87_SCHEMAS), (94, V92_SCHEMAS), (95, V95_SCHEMAS),
     (96, V95_SCHEMAS), (97, V97_SCHEMAS), (98, V98_SCHEMAS), (99, V99_SCHEMAS),
     (100, V99_SCHEMAS), (V98_LATE, V98L_SCHEMAS)]"

definition get_string_id_operands :: "u32 \<Rightarrow> hermes_error + (u8 \<times> u8) list" where
  "get_string_id_operands = version_arm
    [(40, V40_STRING_IDS), (41, V41_STRING_IDS), (42, V41_STRING_IDS), (43, V41_STRING_IDS),
     (44, V44_STRING_IDS), (45, V45_STRING_IDS), (46, V46_STRING_IDS), (47, V46_STRING_IDS),
     (48, V46_STRING_IDS), (49, V46_STRING_IDS), (50, V46_STRING_IDS), (51, V46_STRING_IDS),
     (52, V52_STRING_IDS), (53, V52_STRING_IDS), (54, V52_STRING_IDS), (55, V52_STRING_IDS),
     (56, V52_STRING_IDS), (57, V52_STRING_IDS), (58, V52_STRING_IDS), (59, V59_STRING_IDS),
     (60, V59_STRING_IDS), (61, V61_STRING_IDS), (62, V61_STRING_IDS), (63, V61_STRING_IDS),
     (64, V61_STRING_IDS), (65, V61_STRING_IDS), (66, V61_STRING_IDS), (67, V61_STRING_IDS),
     (68, V61_STRING_IDS), (69, V61_STRING_IDS), (70, V61_STRING_IDS), (71, V61_STRING_IDS),
     (72, V61_STRING_IDS), (73, V73_STRING_IDS), (74, V73_STRING_IDS), (75, V73_STRING_IDS),
     (76, V73_STRING_IDS), (77, V73_STRING_IDS), (78, V73_STRING_IDS), (79, V73_STRING_IDS),
     (80, V80_STRING_IDS), (81, V81_STRING_IDS), (82, V81_STRING_IDS), (83, V83_STRING_IDS),
     (84, V84_STRING_IDS), (85, V85_STRING_IDS), (86, V85_STRING_IDS), (87, V87_STRING_IDS),
     (88, V87_STRING_IDS), (89, V87_STRING_IDS), (90, V90_STRING_IDS), (91, V87_STRING_IDS),
     (92, V92_STRING_IDS), (93, V87_STRING_IDS), (94, V92_STRING_IDS), (95, V95_STRING_IDS),
     (96, V95_STRING_IDS), (97, V97_STRING_IDS), (98, V98_STRING_IDS), (99, V99_STRING_IDS),
     (100, V99_STRING_IDS), (V98_LATE, V98L_STRING_IDS)]"

definition get_func_id_operands :: "u32 \<Rightarrow> hermes_error + (u8 \<times> u8) list" where
  "get_func_id_operands = version_arm
    [(40, V40_FUNC_IDS), (41, V41_FUNC_IDS), (42, V41_FUNC_IDS), (43, V41_FUNC_IDS),
     (44, V44_FUNC_IDS), (45, V45_FUNC_IDS), (46, V46_FUNC_IDS), (47, V46_FUNC_IDS),
     (48, V46_FUNC_IDS), (49, V46_FUNC_IDS), (50, V46_FUNC_IDS), (51, V46_FUNC_IDS),
     (52, V52_FUNC_IDS), (53, V52_FUNC_IDS), (54, V52_FUNC_IDS), (55, V52_FUNC_IDS),
     (56, V52_FUNC_IDS), (57, V52_FUNC_IDS), (58, V52_FUNC_IDS), (59, V59_FUNC_IDS),
     (60, V59_FUNC_IDS), (61, V61_FUNC_IDS), (62, V61_FUNC_IDS), (63, V61_FUNC_IDS),
     (64, V61_FUNC_IDS), (65, V61_FUNC_IDS), (66, V61_FUNC_IDS), (67, V61_FUNC_IDS),
     (68, V61_FUNC_IDS), (69, V61_FUNC_IDS), (70, V61_FUNC_IDS), (71, V61_FUNC_IDS),
     (72, V61_FUNC_IDS), (73, V73_FUNC_IDS), (74, V73_FUNC_IDS), (75, V73_FUNC_IDS),
     (76, V73_FUNC_IDS), (77, V73_FUNC_IDS), (78, V73_FUNC_IDS), (79, V73_FUNC_IDS),
     (80, V80_FUNC_IDS), (81, V81_FUNC_IDS), (82, V81_FUNC_IDS), (83, V83_FUNC_IDS),
     (84, V84_FUNC_IDS), (85, V85_FUNC_IDS), (86, V85_FUNC_IDS), (87, V87_FUNC_IDS),
     (88, V87_FUNC_IDS), (89, V87_FUNC_IDS), (90, V90_FUNC_IDS), (91, V87_FUNC_IDS),
     (92, V92_FUNC_IDS), (93, V87_FUNC_IDS), (94, V92_FUNC_IDS), (95, V95_FUNC_IDS),
     (96, V95_FUNC_IDS), (97, V97_FUNC_IDS), (98, V98_FUNC_IDS), (99, V99_FUNC_IDS),
     (100, V99_FUNC_IDS), (V98_LATE, V98L_FUNC_IDS)]"

section \<open>The versions\<close>

definition supported_tables :: "(u32 \<times> version_tables) list" where
  "supported_tables =
    [(40, V40_TABLES), (41, V41_TABLES), (42, V41_TABLES), (43, V41_TABLES), (44, V44_TABLES),
     (45, V45_TABLES), (46, V46_TABLES), (47, V46_TABLES), (48, V46_TABLES), (49, V46_TABLES),
     (50, V46_TABLES), (51, V46_TABLES), (52, V52_TABLES), (53, V52_TABLES), (54, V52_TABLES),
     (55, V52_TABLES), (56, V52_TABLES), (57, V52_TABLES), (58, V52_TABLES), (59, V59_TABLES),
     (60, V59_TABLES), (61, V61_TABLES), (62, V61_TABLES), (63, V61_TABLES), (64, V61_TABLES),
     (65, V61_TABLES), (66, V61_TABLES), (67, V61_TABLES), (68, V61_TABLES), (69, V61_TABLES),
     (70, V61_TABLES), (71, V61_TABLES), (72, V61_TABLES), (73, V73_TABLES), (74, V73_TABLES),
     (75, V73_TABLES), (76, V73_TABLES), (77, V73_TABLES), (78, V73_TABLES), (79, V73_TABLES),
     (80, V80_TABLES), (81, V81_TABLES), (82, V81_TABLES), (83, V83_TABLES), (84, V84_TABLES),
     (85, V85_TABLES), (86, V85_TABLES), (87, V87_TABLES), (88, V87_TABLES), (89, V87_TABLES),
     (90, V90_TABLES), (91, V87_TABLES), (92, V92_TABLES), (93, V87_TABLES), (94, V92_TABLES),
     (95, V95_TABLES), (96, V95_TABLES), (97, V97_TABLES), (98, V98_TABLES), (99, V99_TABLES),
     (100, V99_TABLES), (V98_LATE, V98L_TABLES)]"

lemmas table_defs =
  V40_TABLES_def V41_TABLES_def V44_TABLES_def V45_TABLES_def V46_TABLES_def
  V52_TABLES_def V59_TABLES_def V61_TABLES_def V73_TABLES_def V80_TABLES_def
  V81_TABLES_def V83_TABLES_def V84_TABLES_def V85_TABLES_def V87_TABLES_def
  V90_TABLES_def V92_TABLES_def V95_TABLES_def V97_TABLES_def V98_TABLES_def
  V99_TABLES_def V98L_TABLES_def

lemmas table_agreements =
  V40_agree V41_agree V44_agree V45_agree V46_agree V52_agree V59_agree V61_agree
  V73_agree V80_agree V81_agree V83_agree V84_agree V85_agree V87_agree V90_agree
  V92_agree V95_agree V97_agree V98_agree V99_agree V98L_agree

lemma supported_tables_agree: "list_all (\<lambda>(v, t). tables_agree t) supported_tables"
  by (simp only: supported_tables_def list.pred_inject prod.case table_agreements simp_thms)

lemmas func_ids_defs =
  V40_FUNC_IDS_def V41_FUNC_IDS_def V44_FUNC_IDS_def V45_FUNC_IDS_def V46_FUNC_IDS_def
  V52_FUNC_IDS_def V59_FUNC_IDS_def V61_FUNC_IDS_def V73_FUNC_IDS_def V80_FUNC_IDS_def
  V81_FUNC_IDS_def V83_FUNC_IDS_def V84_FUNC_IDS_def V85_FUNC_IDS_def V87_FUNC_IDS_def
  V90_FUNC_IDS_def V92_FUNC_IDS_def V95_FUNC_IDS_def V97_FUNC_IDS_def V98_FUNC_IDS_def
  V99_FUNC_IDS_def V98L_FUNC_IDS_def

lemma supported_func_ids:
  "list_all (\<lambda>(v, t). (vt_func_ids t = []) = (v < 90 \<or> v = 91 \<or> v = 93)) supported_tables"
  by (simp add: supported_tables_def table_defs func_ids_defs V98_LATE_def)

definition arms_of :: "(version_tables \<Rightarrow> 'a) \<Rightarrow> (u32 \<times> 'a) list" where
  "arms_of sel = map (\<lambda>(v, t). (v, sel t)) supported_tables"

lemma selections:
  "get_version_opcodes = version_arm (arms_of (vt_opcodes))"
  "get_version_tables = version_arm (arms_of (\<lambda>t. (vt_sizes t, vt_str_ops t, vt_call_ops t)))"
  "get_version_names = version_arm (arms_of (vt_names))"
  "get_version_schemas = version_arm (arms_of (vt_schemas))"
  "get_string_id_operands = version_arm (arms_of (vt_string_ids))"
  "get_func_id_operands = version_arm (arms_of (vt_func_ids))"
  by (simp_all only: get_version_opcodes_def get_version_tables_def get_version_names_def
      get_version_schemas_def get_string_id_operands_def get_func_id_operands_def
      arms_of_def supported_tables_def list.map prod.case table_defs version_tables.simps)

lemma map_of_arms: "map_of (arms_of sel) v = map_option sel (map_of supported_tables v)"
  by (simp add: arms_of_def split_def map_of_map [unfolded split_def])

lemma supported_versions:
  "v \<in> fst ` set supported_tables \<longleftrightarrow> 40 \<le> v \<and> v \<le> 100 \<or> v = V98_LATE"
proof -
  have list: "map fst supported_tables = map of_nat [40..<101] @ [V98_LATE]"
    by (simp add: supported_tables_def upt_rec_numeral)
  have "v \<in> of_nat ` {40..<101} \<longleftrightarrow> 40 \<le> v \<and> v \<le> 100"
  proof
    assume "v \<in> of_nat ` {40..<101}"
    then show "40 \<le> v \<and> v \<le> 100" by (auto simp: word_le_nat_alt unsigned_of_nat take_bit_nat_eq_self)
  next
    assume "40 \<le> v \<and> v \<le> 100"
    then have "unat v \<in> {40..<101}" by (simp add: word_le_nat_alt)
    moreover have "v = of_nat (unat v)" by simp
    ultimately show "v \<in> of_nat ` {40..<101}" by (rule rev_image_eqI)
  qed
  moreover have "fst ` set supported_tables = of_nat ` {40..<101} \<union> {V98_LATE}"
    using arg_cong [OF list, of set] by (simp only: set_map set_append set_upt set_simps)
  ultimately show ?thesis by blast
qed

text \<open>The tables of a supported version.\<close>

lemma version_cases:
  assumes "40 \<le> v \<and> v \<le> 100 \<or> v = V98_LATE"
  obtains t where "map_of supported_tables v = Some t" "tables_agree t"
    "vt_func_ids t = [] \<longleftrightarrow> v < 90 \<or> v = 91 \<or> v = 93"
proof -
  have "v \<in> fst ` set supported_tables" using assms supported_versions by blast
  then obtain t where t: "map_of supported_tables v = Some t"
    by (meson map_of_eq_None_iff not_Some_eq)
  moreover have "tables_agree t"
    using supported_tables_agree map_of_SomeD [OF t] by (auto simp: list_all_iff)
  moreover have "vt_func_ids t = [] \<longleftrightarrow> v < 90 \<or> v = 91 \<or> v = 93"
    using supported_func_ids map_of_SomeD [OF t] by (auto simp: list_all_iff)
  ultimately show ?thesis by (rule that)
qed

definition selects :: "u32 \<Rightarrow> version_tables \<Rightarrow> bool" where
  "selects v t \<longleftrightarrow> get_version_opcodes v = Inr (vt_opcodes t)
     \<and> get_version_tables v = Inr (vt_sizes t, vt_str_ops t, vt_call_ops t)
     \<and> get_version_names v = Inr (vt_names t) \<and> get_version_schemas v = Inr (vt_schemas t)
     \<and> get_string_id_operands v = Inr (vt_string_ids t) \<and> get_func_id_operands v = Inr (vt_func_ids t)"

lemma selects_supported:
  "40 \<le> v \<and> v \<le> 100 \<or> v = V98_LATE \<Longrightarrow>
     \<exists>t. selects v t \<and> tables_agree t \<and> (vt_func_ids t = [] \<longleftrightarrow> v < 90 \<or> v = 91 \<or> v = 93)"
  by (erule version_cases) (auto simp: selects_def selections version_arm_def map_of_arms)

lemma selects_unsupported:
  assumes "\<not> (40 \<le> v \<and> v \<le> 100 \<or> v = V98_LATE)"
  shows "version_arm (arms_of sel) v = Inl (UnsupportedVersion v 40 100)"
proof -
  have "map_of supported_tables v = None"
    using assms supported_versions by (simp add: map_of_eq_None_iff)
  then show ?thesis
    by (simp add: version_arm_def map_of_arms MIN_SUPPORTED_VERSION_def MAX_SUPPORTED_VERSION_def)
qed

lemma version_tables_unsupported:
  "\<not> (40 \<le> v \<and> v \<le> 100 \<or> v = V98_LATE) \<Longrightarrow> get_version_opcodes v = Inl (UnsupportedVersion v 40 100)"
  unfolding selections by (rule selects_unsupported)


end
