(* ===== verification/Hermes_Decode.thy ===== *)
theory Hermes_Decode
  imports Hermes_Tables
begin

text \<open>
  The instruction decoder of \<open>decompile/decode.rs\<close>: operands, decoded instructions with the
  predicates the control flow graph asks, and \<open>decode_function\<close>. The property is that decoding is
  exact: it succeeds on the concatenated encodings of well-typed instructions and on nothing else.
\<close>

section \<open>Operands and instructions\<close>

datatype Operand =
    Op_Reg u8
  | Op_Reg32 u32
  | Op_UInt u32
  | Op_Int i32
  | Op_Double f64
  | Op_Addr i32

fun as_reg :: "Operand \<Rightarrow> u32 option" where
  "as_reg (Op_Reg r) = Some (ucast r)"
| "as_reg (Op_Reg32 r) = Some r"
| "as_reg _ = None"

record DecodedInst =
  di_offset :: u32
  di_size :: u8
  di_opcode :: u8
  di_name :: string
  di_op :: OpCode
  di_operands :: "Operand list"
  di_op_types :: "OpType list"

text \<open>\<open>u32::checked_add_signed\<close>\<close>

definition checked_add_signed :: "u32 \<Rightarrow> i32 \<Rightarrow> u32 option" where
  "checked_add_signed a rel =
     (if 0 \<le> uint a + rel \<and> uint a + rel < 2 ^ 32 then Some (word_of_int (uint a + rel)) else None)"

definition branch_target :: "DecodedInst \<Rightarrow> u32 option" where
  "branch_target inst =
     (case di_operands inst of Op_Addr rel # _ \<Rightarrow> checked_add_signed (di_offset inst) rel | _ \<Rightarrow> None)"

fun str_contains :: "string \<Rightarrow> string \<Rightarrow> bool" where
  "str_contains [] p \<longleftrightarrow> p = []"
| "str_contains (c # cs) p \<longleftrightarrow> starts_with (c # cs) p \<or> str_contains cs p"

definition is_jump :: "DecodedInst \<Rightarrow> bool" where
  "is_jump inst \<longleftrightarrow> starts_with (di_name inst) ''J'' \<or> str_contains (di_name inst) ''SwitchImm''"

definition is_conditional_branch :: "DecodedInst \<Rightarrow> bool" where
  "is_conditional_branch inst \<longleftrightarrow>
     starts_with (di_name inst) ''J'' \<and> di_name inst \<noteq> ''Jmp'' \<and> di_name inst \<noteq> ''JmpLong''"

definition is_unconditional_jump :: "DecodedInst \<Rightarrow> bool" where
  "is_unconditional_jump inst \<longleftrightarrow> di_name inst = ''Jmp'' \<or> di_name inst = ''JmpLong''"

definition is_return :: "DecodedInst \<Rightarrow> bool" where
  "is_return inst \<longleftrightarrow> di_name inst = ''Ret''"

definition is_throw :: "DecodedInst \<Rightarrow> bool" where
  "is_throw inst \<longleftrightarrow> di_name inst = ''Throw''"

definition is_terminator :: "DecodedInst \<Rightarrow> bool" where
  "is_terminator inst \<longleftrightarrow> is_jump inst \<or> is_return inst \<or> is_throw inst \<or> di_name inst = ''Unreachable''"

section \<open>The decoder\<close>

definition get_schema :: "(string \<times> OpType list) list \<Rightarrow> u8 \<Rightarrow> string \<times> OpType list" where
  "get_schema schemas opcode =
     (case get_at schemas (unat opcode) of None \<Rightarrow> (''Unknown'', []) | Some s \<Rightarrow> s)"

text \<open>The bytes from \<open>op_pos\<close> on are in range when it is called.\<close>

fun decode_operand :: "u8 list \<Rightarrow> usize \<Rightarrow> OpType \<Rightarrow> Operand" where
  "decode_operand code op_pos OT_R = Op_Reg (code ! op_pos)"
| "decode_operand code op_pos OT_R4 = Op_Reg32 (u32_from_le (slice code op_pos 4))"
| "decode_operand code op_pos OT_U1 = Op_UInt (ucast (code ! op_pos))"
| "decode_operand code op_pos OT_U2 = Op_UInt (ucast (u16_from_le (slice code op_pos 2)))"
| "decode_operand code op_pos OT_U4 = Op_UInt (u32_from_le (slice code op_pos 4))"
| "decode_operand code op_pos OT_A1 = Op_Addr (sint (code ! op_pos))"
| "decode_operand code op_pos OT_A4 = Op_Addr (sint (u32_from_le (slice code op_pos 4)))"
| "decode_operand code op_pos OT_I4 = Op_Int (sint (u32_from_le (slice code op_pos 4)))"
| "decode_operand code op_pos OT_D = Op_Double (f64_from_le (slice code op_pos 8))"

fun decode_operands ::
  "u8 list \<Rightarrow> usize \<Rightarrow> u8 \<Rightarrow> usize \<Rightarrow> usize \<Rightarrow> OpType list \<Rightarrow> hermes_error + Operand list" where
  "decode_operands code pos opcode inst_end op_pos [] = Inr []"
| "decode_operands code pos opcode inst_end op_pos (ot # ots) =
     ebind (ok_or (checked_add64 op_pos (byte_size ot)) (TruncatedInstructionStream pos opcode)) (\<lambda>op_end.
     if inst_end < op_end then Inl (TruncatedInstructionStream pos opcode)
     else
       let operand = decode_operand code op_pos ot in
       ebind (decode_operands code pos opcode inst_end op_end ots) (\<lambda>operands. Inr (operand # operands)))"

text \<open>The tables \<open>decode_function\<close> has looked up: sizes, names, opcodes and schemas.\<close>

type_synonym decode_tables =
  "u8 list \<times> string list \<times> OpCode list \<times> (string \<times> OpType list) list"

definition decode_one :: "decode_tables \<Rightarrow> u8 list \<Rightarrow> usize \<Rightarrow> hermes_error + (DecodedInst \<times> usize)" where
  "decode_one tables code pos =
     (case tables of (sizes, names, opcode_table, schemas) \<Rightarrow>
      let opcode = code ! pos; opcode_idx = unat opcode; num_opcodes = length sizes in
      if num_opcodes \<le> opcode_idx then Inl (UnknownOpcode pos opcode num_opcodes)
      else
        let inst_size = sizes ! opcode_idx in
        ebind (ok_or (checked_add64 pos (unat inst_size)) (TruncatedInstructionStream pos opcode)) (\<lambda>inst_end.
        if inst_size = 0 \<or> length code < inst_end then Inl (TruncatedInstructionStream pos opcode)
        else
          let (schema_name, op_types) = get_schema schemas opcode;
              name = (if opcode_idx < length names \<and> names ! opcode_idx \<noteq> []
                      then names ! opcode_idx else schema_name)
          in ebind (ok_or (checked_add64 pos 1) (TruncatedInstructionStream pos opcode)) (\<lambda>op_pos.
             ebind (decode_operands code pos opcode inst_end op_pos op_types) (\<lambda>operands.
             let op = (if opcode_idx < length opcode_table then opcode_table ! opcode_idx
                       else OP_Unreachable)
             in Inr (\<lparr>di_offset = of_nat pos, di_size = inst_size, di_opcode = opcode, di_name = name,
                      di_op = op, di_operands = operands, di_op_types = op_types\<rparr>, inst_end)))))"

lemma decode_one_progress: "decode_one tables code pos = Inr (inst, next_pos) \<Longrightarrow> pos < next_pos"
  by (auto simp: decode_one_def Let_def split_beta ebind_eq_Inr ok_or_eq_Inr checked_add64_def unat_gt_0
      split: if_splits)

function decode_loop :: "decode_tables \<Rightarrow> u8 list \<Rightarrow> usize \<Rightarrow> hermes_error + DecodedInst list" where
  "decode_loop tables code pos =
     (if pos < length code then
        case decode_one tables code pos of
          Inl e \<Rightarrow> Inl e
        | Inr (inst, next_pos) \<Rightarrow> ebind (decode_loop tables code next_pos) (\<lambda>insts. Inr (inst # insts))
      else Inr [])"
  by pat_completeness auto
termination
  by (relation "measure (\<lambda>(_, code, pos). length code - pos)")
    (auto intro!: diff_less_mono2 dest!: decode_one_progress)

declare decode_loop.simps [simp del]

definition decode_function :: "u8 list \<Rightarrow> u32 \<Rightarrow> hermes_error + DecodedInst list" where
  "decode_function code version =
     ebind (get_version_tables version) (\<lambda>(sizes, _, _).
     ebind (get_version_names version) (\<lambda>names.
     ebind (get_version_opcodes version) (\<lambda>opcode_table.
     ebind (get_version_schemas version) (\<lambda>schemas.
     decode_loop (sizes, names, opcode_table, schemas) code 0))))"

section \<open>The contract of an operand codec\<close>

text \<open>Reading a list of tagged items one after the other.\<close>

fun read_all :: "('k \<Rightarrow> u8 list \<Rightarrow> 'e) \<Rightarrow> ('k \<Rightarrow> nat) \<Rightarrow> 'k list \<Rightarrow> u8 list \<Rightarrow> 'e list" where
  "read_all rd len [] bs = []"
| "read_all rd len (k # ks) bs = rd k (take (len k) bs) # read_all rd len ks (drop (len k) bs)"

lemma read_all_take:
  "sum_list (map len ks) \<le> m \<Longrightarrow> read_all rd len ks (take m bs) = read_all rd len ks bs"
  by (induction ks arbitrary: bs m) (simp_all add: min_def drop_take)

locale tagged_codec =
  fixes rd :: "'k \<Rightarrow> u8 list \<Rightarrow> 'e" and wr :: "'k \<Rightarrow> 'e \<Rightarrow> u8 list" and valid :: "'k \<Rightarrow> 'e \<Rightarrow> bool"
    and len :: "'k \<Rightarrow> nat"
  assumes wr_rd: "length bs = len k \<Longrightarrow> wr k (rd k bs) = bs"
    and rd_valid: "length bs = len k \<Longrightarrow> valid k (rd k bs)"
    and rd_wr: "valid k e \<Longrightarrow> rd k (wr k e) = e"
    and length_wr: "valid k e \<Longrightarrow> length (wr k e) = len k"
begin

lemma write_read_all:
  "length bs = sum_list (map len ks) \<Longrightarrow>
     concat (map2 wr ks (read_all rd len ks bs)) = bs \<and> list_all2 valid ks (read_all rd len ks bs)"
  by (induction ks arbitrary: bs) (simp_all add: wr_rd rd_valid)

lemma read_write_all:
  "list_all2 valid ks es \<Longrightarrow> read_all rd len ks (concat (map2 wr ks es)) = es"
  by (induction rule: list_all2_induct) (simp_all add: rd_wr length_wr)

lemma length_write_all:
  "list_all2 valid ks es \<Longrightarrow> length (concat (map2 wr ks es)) = sum_list (map len ks)"
  by (induction rule: list_all2_induct) (simp_all add: length_wr)

end

section \<open>Operands as bytes\<close>

fun operand_typed :: "OpType \<Rightarrow> Operand \<Rightarrow> bool" where
  "operand_typed OT_R (Op_Reg r) \<longleftrightarrow> True"
| "operand_typed OT_R4 (Op_Reg32 r) \<longleftrightarrow> True"
| "operand_typed OT_U1 (Op_UInt v) \<longleftrightarrow> v < 2 ^ 8"
| "operand_typed OT_U2 (Op_UInt v) \<longleftrightarrow> v < 2 ^ 16"
| "operand_typed OT_U4 (Op_UInt v) \<longleftrightarrow> True"
| "operand_typed OT_A1 (Op_Addr a) \<longleftrightarrow> - (2 ^ 7) \<le> a \<and> a < 2 ^ 7"
| "operand_typed OT_A4 (Op_Addr a) \<longleftrightarrow> - (2 ^ 31) \<le> a \<and> a < 2 ^ 31"
| "operand_typed OT_I4 (Op_Int a) \<longleftrightarrow> - (2 ^ 31) \<le> a \<and> a < 2 ^ 31"
| "operand_typed OT_D (Op_Double d) \<longleftrightarrow> True"
| "operand_typed _ _ \<longleftrightarrow> False"

fun operand_bytes :: "OpType \<Rightarrow> Operand \<Rightarrow> u8 list" where
  "operand_bytes OT_R (Op_Reg r) = [r]"
| "operand_bytes OT_R4 (Op_Reg32 r) = u32_to_le r"
| "operand_bytes OT_U1 (Op_UInt v) = [ucast v]"
| "operand_bytes OT_U2 (Op_UInt v) = le_bytes 2 (unat v)"
| "operand_bytes OT_U4 (Op_UInt v) = u32_to_le v"
| "operand_bytes OT_A1 (Op_Addr a) = [word_of_int a]"
| "operand_bytes OT_A4 (Op_Addr a) = u32_to_le (word_of_int a)"
| "operand_bytes OT_I4 (Op_Int a) = u32_to_le (word_of_int a)"
| "operand_bytes OT_D (Op_Double d) = le_bytes 8 (unat d)"
| "operand_bytes _ _ = []"

definition read_operand :: "OpType \<Rightarrow> u8 list \<Rightarrow> Operand" where
  "read_operand ot bs = decode_operand bs 0 ot"

lemma decode_operand_slice:
  "op_pos + byte_size ot \<le> length code \<Longrightarrow>
     decode_operand code op_pos ot = read_operand ot (slice code op_pos (byte_size ot))"
  by (cases ot) (simp_all add: read_operand_def slice_slice)

lemma widen [simp]: "unat (ucast (b :: u8) :: u32) = unat b" "unat (ucast (h :: u16) :: u32) = unat h"
  using unat_u8 [of b] unat_u16 [of h] by (simp_all add: unsigned_ucast_eq unsigned_take_bit_eq take_bit_nat_eq_self)

lemma narrow: "v < 2 ^ 8 \<Longrightarrow> ucast (ucast (v :: u32) :: u8) = v" "v < 2 ^ 16 \<Longrightarrow> ucast (ucast (v :: u32) :: u16) = v"
  by (simp_all add: word_unat_eq_iff word_less_nat_alt unsigned_ucast_eq unsigned_take_bit_eq take_bit_nat_eq_self)

lemma ucast_widen [simp]: "ucast (ucast (b :: u8) :: u32) = b"
  using unat_u8 [of b] by (simp add: word_unat_eq_iff unsigned_ucast_eq unsigned_take_bit_eq take_bit_nat_eq_self)

lemma sint_u8: "- 128 \<le> sint (b :: u8)" "sint (b :: u8) < 128"
  using sint_ge [of b] sint_lt [of b] by simp_all

lemma sint_u32: "- 2147483648 \<le> sint (w :: u32)" "sint (w :: u32) < 2147483648"
  using sint_ge [of w] sint_lt [of w] by simp_all

lemma sint_of_int:
  "- 128 \<le> a \<Longrightarrow> a < 128 \<Longrightarrow> sint (word_of_int a :: u8) = a"
  "- 2147483648 \<le> a \<Longrightarrow> a < 2147483648 \<Longrightarrow> sint (word_of_int a :: u32) = a"
  by (simp_all add: sint_sbintrunc' signed_take_bit_int_eq_self)

lemma u16_le_bytes: "v < 2 ^ 16 \<Longrightarrow> ucast (u16_from_le (le_bytes 2 (unat (v :: u32)))) = v"
  by (simp add: word_unat_eq_iff word_less_nat_alt u16_from_le_def le_nat_le_bytes unsigned_of_nat
      unsigned_ucast_eq unsigned_take_bit_eq take_bit_nat_eq_self)

lemma f64_le_bytes: "f64_from_le (le_bytes 8 (unat d)) = d"
  using unsigned_less [of d, where ?'a = nat] by (simp add: f64_from_le_def le_nat_le_bytes)

lemma slice_all [simp]: "length xs = n \<Longrightarrow> slice xs 0 n = xs"
  by (simp add: slice_def)

lemma u16_bound: "(ucast (h :: u16) :: u32) < 65536" "(ucast (b :: u8) :: u32) < 256"
  using unat_u16 [of h] unat_u8 [of b] by (simp_all add: word_less_nat_alt)

lemma length_1: "length bs = Suc 0 \<Longrightarrow> \<exists>b. bs = [b]"
  by (cases bs) auto

lemma u16_from_le_bytes: "length bs = 2 \<Longrightarrow> unat (u16_from_le bs) = le_nat bs"
  using le_nat_bound [of bs] by (simp add: u16_from_le_def unsigned_of_nat take_bit_nat_eq_self)

lemma f64_from_le_bytes: "length bs = 8 \<Longrightarrow> unat (f64_from_le bs) = le_nat bs"
  using le_nat_bound [of bs] by (simp add: f64_from_le_def unsigned_of_nat take_bit_nat_eq_self)

lemma le_bytes_of: "length bs = n \<Longrightarrow> v = le_nat bs \<Longrightarrow> le_bytes n v = bs"
  using le_bytes_le_nat by blast

lemma operand_wr_rd:
  assumes "length bs = byte_size ot"
  shows "operand_bytes ot (read_operand ot bs) = bs"
proof -
  have "slice bs 0 (length bs) = bs" by (simp add: slice_def)
  then show ?thesis
    using assms
    by (cases ot) (auto simp: read_operand_def u32_to_from_le u16_from_le_bytes
        f64_from_le_bytes intro!: le_bytes_of dest!: length_1)
qed

lemma operand_rd_valid: "length bs = byte_size ot \<Longrightarrow> operand_typed ot (read_operand ot bs)"
  by (cases ot) (auto simp: read_operand_def u16_bound sint_u8 sint_u32)

lemma operand_rd_wr: "operand_typed ot e \<Longrightarrow> read_operand ot (operand_bytes ot e) = e"
  by (cases "(ot, e)" rule: operand_typed.cases)
    (auto simp: read_operand_def narrow u16_le_bytes sint_of_int f64_le_bytes)

lemma operand_length: "operand_typed ot e \<Longrightarrow> length (operand_bytes ot e) = byte_size ot"
  by (cases "(ot, e)" rule: operand_typed.cases) auto

interpretation operand: tagged_codec read_operand operand_bytes operand_typed byte_size
  by unfold_locales (simp_all add: operand_wr_rd operand_rd_valid operand_rd_wr operand_length)

section \<open>Instructions as bytes\<close>

definition encode_inst :: "DecodedInst \<Rightarrow> u8 list" where
  "encode_inst inst =
     di_opcode inst # concat (map2 operand_bytes (di_op_types inst) (di_operands inst))"

text \<open>An instruction of a version: what its opcode byte says in the tables, with typed operands.\<close>

definition inst_of :: "version_tables \<Rightarrow> DecodedInst \<Rightarrow> bool" where
  "inst_of t inst \<longleftrightarrow> (let i = unat (di_opcode inst) in
     i < length (vt_sizes t) \<and> di_size inst = vt_sizes t ! i \<and> di_name inst = vt_names t ! i
     \<and> di_op inst = vt_opcodes t ! i \<and> di_op_types inst = snd (vt_schemas t ! i)
     \<and> list_all2 operand_typed (di_op_types inst) (di_operands inst))"

fun consecutive :: "nat \<Rightarrow> DecodedInst list \<Rightarrow> bool" where
  "consecutive pos [] \<longleftrightarrow> True"
| "consecutive pos (inst # insts) \<longleftrightarrow>
     di_offset inst = of_nat pos \<and> consecutive (pos + unat (di_size inst)) insts"

definition tables_of :: "version_tables \<Rightarrow> decode_tables" where
  "tables_of t = (vt_sizes t, vt_names t, vt_opcodes t, vt_schemas t)"

definition inst_at :: "version_tables \<Rightarrow> nat \<Rightarrow> u8 list \<Rightarrow> DecodedInst" where
  "inst_at t pos bs = (let i = unat (hd bs); ts = snd (vt_schemas t ! i) in
     \<lparr>di_offset = of_nat pos, di_size = vt_sizes t ! i, di_opcode = hd bs, di_name = vt_names t ! i,
      di_op = vt_opcodes t ! i, di_operands = read_all read_operand byte_size ts (tl bs), di_op_types = ts\<rparr>)"

lemma agree_lengths:
  assumes "tables_agree t"
  shows "length (vt_names t) = length (vt_opcodes t)" "length (vt_schemas t) = length (vt_opcodes t)"
    "length (vt_sizes t) = length (vt_opcodes t)"
    "i < length (vt_sizes t) \<Longrightarrow> fst (vt_schemas t ! i) = vt_names t ! i"
    "i < length (vt_sizes t) \<Longrightarrow>
       unat (vt_sizes t ! i) = 1 + sum_list (map byte_size (snd (vt_schemas t ! i)))"
    "i < length (vt_sizes t) \<Longrightarrow> vt_names t ! i = OpCode_name (vt_opcodes t ! i)"
    "i < length (vt_sizes t) \<Longrightarrow> vt_opcodes t ! i \<in> set OPCODES"
    "i < length (vt_sizes t) \<Longrightarrow> class_schema (branch_class (vt_names t ! i)) (snd (vt_schemas t ! i))"
proof -
  have names: "vt_names t = map OpCode_name (vt_opcodes t)" and fst: "map fst (vt_schemas t) = vt_names t"
    and sizes: "list_all2 size_matches (vt_sizes t) (map snd (vt_schemas t))"
    and ops: "set (vt_opcodes t) \<subseteq> set OPCODES"
    and traits: "list_all2 (\<lambda>name. schema_matches (branch_class name, closure_operand name)) (vt_names t)
       (map snd (vt_schemas t))"
    by (insert assms, unfold tables_agree_def Let_def, (elim conjE, assumption)+)
  show l1: "length (vt_names t) = length (vt_opcodes t)" using names by simp
  show l2: "length (vt_schemas t) = length (vt_opcodes t)" using arg_cong [OF fst, of length] l1 by simp
  show l3: "length (vt_sizes t) = length (vt_opcodes t)" using list_all2_lengthD [OF sizes] l2 by simp
  assume i: "i < length (vt_sizes t)"
  have "map fst (vt_schemas t) ! i = vt_names t ! i" by (simp only: fst)
  then show "fst (vt_schemas t ! i) = vt_names t ! i" using i l2 l3 by simp
  show "unat (vt_sizes t ! i) = 1 + sum_list (map byte_size (snd (vt_schemas t ! i)))"
    using list_all2_nthD [OF sizes i] i l2 l3 by (simp add: size_matches_def)
  show "vt_names t ! i = OpCode_name (vt_opcodes t ! i)" using i l3 by (simp add: names)
  show "vt_opcodes t ! i \<in> set OPCODES" using ops nth_mem [of i "vt_opcodes t"] i l3 by auto
  have "i < length (vt_names t)" using i l1 l3 by simp
  from list_all2_nthD [OF traits this]
  show "class_schema (branch_class (vt_names t ! i)) (snd (vt_schemas t ! i))"
    using i l2 l3 by (simp add: schema_matches_def)
qed

lemma decode_operands_spec:
  assumes "inst_end \<le> length code" "length code < 2 ^ 63" "op_pos \<le> inst_end"
  shows "decode_operands code pos opcode inst_end op_pos ts =
    (if op_pos + sum_list (map byte_size ts) \<le> inst_end
     then Inr (read_all read_operand byte_size ts (drop op_pos code))
     else Inl (TruncatedInstructionStream pos opcode))"
  using assms(3)
proof (induction ts arbitrary: op_pos)
  case (Cons ot ts)
  have "byte_size ot \<le> 8" by (cases ot) simp_all
  then have add: "checked_add64 op_pos (byte_size ot) = Some (op_pos + byte_size ot)"
    using Cons.prems assms by (simp add: checked_add64_def u64_max_def)
  show ?case
  proof (cases "op_pos + byte_size ot \<le> inst_end")
    case True
    then show ?thesis
      using Cons.IH [OF True] assms(1)
      by (simp add: add decode_operand_slice slice_def drop_drop add.commute add.assoc)
  qed (simp add: add)
qed simp

lemma decode_one_spec:
  assumes "tables_agree t" "length code < 2 ^ 63" "pos < length code"
  shows "decode_one (tables_of t) code pos =
    (let i = unat (code ! pos); n = unat (vt_sizes t ! i) in
     if length (vt_sizes t) \<le> i then Inl (UnknownOpcode pos (code ! pos) (length (vt_sizes t)))
     else if length code < pos + n then Inl (TruncatedInstructionStream pos (code ! pos))
     else Inr (inst_at t pos (drop pos code), pos + n))"
proof (cases "unat (code ! pos) < length (vt_sizes t)")
  case True
  let ?i = "unat (code ! pos)"
  note ag = agree_lengths [OF assms(1)]
  have size: "unat (vt_sizes t ! ?i) = 1 + sum_list (map byte_size (snd (vt_schemas t ! ?i)))"
    by (rule ag(5) [OF True])
  then have pos_size: "vt_sizes t ! ?i \<noteq> 0" by auto
  have add: "checked_add64 pos (unat (vt_sizes t ! ?i)) = Some (pos + unat (vt_sizes t ! ?i))"
    "checked_add64 pos 1 = Some (pos + 1)"
    using assms(2,3) unat_u8 [of "vt_sizes t ! ?i"] by (simp_all add: checked_add64_def u64_max_def)
  have schema: "get_schema (vt_schemas t) (code ! pos) = vt_schemas t ! ?i"
    using True ag(2,3) by (simp add: get_schema_def get_at_def)
  have hd: "hd (drop pos code) = code ! pos" "tl (drop pos code) = drop (pos + 1) code"
    using assms(3) by (simp_all add: hd_drop_conv_nth tl_drop drop_Suc)
  show ?thesis
  proof (cases "length code < pos + unat (vt_sizes t ! ?i)")
    case False
    then have "decode_operands code pos (code ! pos) (pos + unat (vt_sizes t ! ?i)) (pos + 1) (snd (vt_schemas t ! ?i))
        = Inr (read_all read_operand byte_size (snd (vt_schemas t ! ?i)) (drop (pos + 1) code))"
      using assms(2) size by (subst decode_operands_spec) auto
    then show ?thesis
      using True False ag(1-4) pos_size
      by (simp add: decode_one_def tables_of_def Let_def add schema split_beta inst_at_def hd del: One_nat_def)
  qed (use True pos_size in \<open>simp add: decode_one_def tables_of_def Let_def add\<close>)
qed (simp add: decode_one_def tables_of_def Let_def not_less)

section \<open>Decoding is exact\<close>

lemma inst_at_encode:
  assumes "tables_agree t" "unat (hd bs) < length (vt_sizes t)" "bs \<noteq> []"
    "unat (vt_sizes t ! unat (hd bs)) \<le> length bs"
  shows "encode_inst (inst_at t pos bs) = take (unat (vt_sizes t ! unat (hd bs))) bs"
    "inst_of t (inst_at t pos bs)" "di_offset (inst_at t pos bs) = of_nat pos"
    "di_size (inst_at t pos bs) = vt_sizes t ! unat (hd bs)"
proof -
  let ?ts = "snd (vt_schemas t ! unat (hd bs))"
  let ?n = "sum_list (map byte_size ?ts)"
  have size: "unat (vt_sizes t ! unat (hd bs)) = 1 + ?n" by (rule agree_lengths(5) [OF assms(1,2)])
  have len: "length (take ?n (tl bs)) = sum_list (map byte_size ?ts)" using size assms(4) by simp
  have cut: "read_all read_operand byte_size ts (tl bs) = read_all read_operand byte_size ts (take m (tl bs))"
    if "sum_list (map byte_size ts) \<le> m" for ts and m
    by (rule read_all_take [OF that, symmetric])
  note all = operand.write_read_all [OF len, folded cut [OF order_refl]]
  show "encode_inst (inst_at t pos bs) = take (unat (vt_sizes t ! unat (hd bs))) bs"
    using all assms(3) size by (cases bs) (simp_all add: encode_inst_def inst_at_def Let_def)
  show "inst_of t (inst_at t pos bs)" "di_offset (inst_at t pos bs) = of_nat pos"
    "di_size (inst_at t pos bs) = vt_sizes t ! unat (hd bs)"
    using all assms(2) by (simp_all add: inst_of_def inst_at_def Let_def)
qed

lemma inst_ofD:
  assumes "tables_agree t" "inst_of t inst"
  shows "unat (di_opcode inst) < length (vt_sizes t)" "di_size inst = vt_sizes t ! unat (di_opcode inst)"
    "di_name inst = vt_names t ! unat (di_opcode inst)" "di_op inst = vt_opcodes t ! unat (di_opcode inst)"
    "di_op_types inst = snd (vt_schemas t ! unat (di_opcode inst))"
    "list_all2 operand_typed (di_op_types inst) (di_operands inst)"
    "unat (di_size inst) = 1 + sum_list (map byte_size (di_op_types inst))"
proof -
  show o: "unat (di_opcode inst) < length (vt_sizes t)" "di_size inst = vt_sizes t ! unat (di_opcode inst)"
    "di_name inst = vt_names t ! unat (di_opcode inst)" "di_op inst = vt_opcodes t ! unat (di_opcode inst)"
    "di_op_types inst = snd (vt_schemas t ! unat (di_opcode inst))"
    "list_all2 operand_typed (di_op_types inst) (di_operands inst)"
    by (insert assms(2), unfold inst_of_def Let_def, (elim conjE, assumption)+)
  show "unat (di_size inst) = 1 + sum_list (map byte_size (di_op_types inst))"
    unfolding o(2,5) by (rule agree_lengths(5) [OF assms(1) o(1)])
qed

lemma length_encode_inst:
  assumes "tables_agree t" "inst_of t inst"
  shows "length (encode_inst inst) = unat (di_size inst)" "0 < unat (di_size inst)"
    "encode_inst inst \<noteq> []" "hd (encode_inst inst @ bs) = di_opcode inst"
  using inst_ofD [OF assms] operand.length_write_all [OF inst_ofD(6) [OF assms]]
  by (simp_all add: encode_inst_def)

lemma inst_at_encoded:
  assumes "tables_agree t" "inst_of t inst" "di_offset inst = of_nat pos"
  shows "inst_at t pos (encode_inst inst @ bs) = inst"
proof -
  let ?body = "concat (map2 operand_bytes (di_op_types inst) (di_operands inst))"
  have typed: "list_all2 operand_typed (di_op_types inst) (di_operands inst)"
    by (rule inst_ofD(6) [OF assms(1,2)])
  have "read_all read_operand byte_size (di_op_types inst) (?body @ bs) = di_operands inst"
    using read_all_take [of byte_size "di_op_types inst" "length ?body" read_operand "?body @ bs"]
      operand.length_write_all [OF typed] operand.read_write_all [OF typed] by simp
  then show ?thesis
    using assms(3) inst_ofD(1-5) [OF assms(1,2)] by (simp add: inst_at_def Let_def encode_inst_def)
qed

lemma decode_loop_step:
  assumes "tables_agree t" "length code < 2 ^ 63" "pos < length code"
  shows "decode_loop (tables_of t) code pos =
    (let i = unat (code ! pos); n = unat (vt_sizes t ! i) in
     if length (vt_sizes t) \<le> i then Inl (UnknownOpcode pos (code ! pos) (length (vt_sizes t)))
     else if length code < pos + n then Inl (TruncatedInstructionStream pos (code ! pos))
     else ebind (decode_loop (tables_of t) code (pos + n)) (\<lambda>insts. Inr (inst_at t pos (drop pos code) # insts)))"
  using assms by (subst decode_loop.simps) (simp add: decode_one_spec Let_def)


lemma decode_loop_encodes:
  assumes "tables_agree t" "length code < 2 ^ 63"
  shows "pos \<le> length code \<Longrightarrow> decode_loop (tables_of t) code pos = Inr insts \<Longrightarrow>
    drop pos code = concat (map encode_inst insts) \<and> list_all (inst_of t) insts \<and> consecutive pos insts"
proof (induction insts arbitrary: pos)
  case Nil
  then show ?case
    using decode_loop_step [OF assms, of pos]
    by (cases "pos < length code") (auto simp: Let_def ebind_eq_Inr split: if_splits)
next
  case (Cons inst insts)
  have lt: "pos < length code"
    using Cons.prems(2) by (subst (asm) decode_loop.simps) (auto split: if_splits)
  let ?i = "unat (code ! pos)"
  let ?n = "unat (vt_sizes t ! ?i)"
  have i: "?i < length (vt_sizes t)" and n: "pos + ?n \<le> length code"
    and inst: "inst = inst_at t pos (drop pos code)"
    and rest: "decode_loop (tables_of t) code (pos + ?n) = Inr insts"
    using Cons.prems(2) decode_loop_step [OF assms lt]
    by (auto simp: Let_def ebind_eq_Inr split: if_splits)
  have hd: "hd (drop pos code) = code ! pos" "drop pos code \<noteq> []" using lt by (simp_all add: hd_drop_conv_nth)
  have fits: "unat (vt_sizes t ! unat (hd (drop pos code))) \<le> length (drop pos code)" using n by (simp add: hd)
  note at = inst_at_encode [OF assms(1) _ hd(2) fits, of pos, unfolded hd(1), OF i, folded inst]
  note IH = Cons.IH [OF n rest]
  have "drop pos code = take ?n (drop pos code) @ drop ?n (drop pos code)" by (rule append_take_drop_id [symmetric])
  also have "\<dots> = encode_inst inst @ concat (map encode_inst insts)"
    using at(1) IH by (simp add: add.commute)
  finally show ?case using at IH by simp
qed

lemma decode_loop_of_encoded:
  assumes "tables_agree t" "length code < 2 ^ 63"
  shows "list_all (inst_of t) insts \<Longrightarrow> consecutive pos insts \<Longrightarrow>
    drop pos code = concat (map encode_inst insts) @ rest \<Longrightarrow> pos \<le> length code \<Longrightarrow>
    decode_loop (tables_of t) code pos = ebind (decode_loop (tables_of t) code
      (pos + length (concat (map encode_inst insts)))) (\<lambda>more. Inr (insts @ more))"
proof (induction insts arbitrary: pos)
  case Nil
  then show ?case by (cases "decode_loop (tables_of t) code pos") simp_all
next
  case (Cons inst insts)
  have inst: "inst_of t inst" and off: "di_offset inst = of_nat pos" using Cons.prems by simp_all
  note len = length_encode_inst [OF assms(1) inst]
  have drop: "drop pos code = encode_inst inst @ concat (map encode_inst insts) @ rest"
    using Cons.prems(3) by simp
  have lt: "pos < length code" using drop len(2,3) by (cases "pos < length code") auto
  have op: "code ! pos = di_opcode inst"
    using lt arg_cong [OF drop, of hd] len(4) by (simp add: hd_drop_conv_nth)
  have size: "unat (vt_sizes t ! unat (code ! pos)) = length (encode_inst inst)"
    "unat (code ! pos) < length (vt_sizes t)"
    using inst_ofD [OF assms(1) inst] by (simp_all add: op len(1))
  have fits: "pos + length (encode_inst inst) \<le> length code"
    using arg_cong [OF drop, of length] lt by simp
  have next_drop: "drop (pos + length (encode_inst inst)) code = concat (map encode_inst insts) @ rest"
    using arg_cong [OF drop, of "drop (length (encode_inst inst))"] by (simp add: add.commute)
  have IH: "decode_loop (tables_of t) code (pos + length (encode_inst inst)) = ebind (decode_loop (tables_of t) code
      (pos + length (encode_inst inst) + length (concat (map encode_inst insts)))) (\<lambda>more. Inr (insts @ more))"
    using Cons.prems(1,2) fits next_drop by (intro Cons.IH) (simp_all add: len(1))
  have at: "inst_at t pos (drop pos code) = inst"
    unfolding drop by (rule inst_at_encoded [OF assms(1) inst off])
  show ?case
    using decode_loop_step [OF assms lt] size fits
    by (simp add: Let_def IH at add.assoc)
      (cases "decode_loop (tables_of t) code (pos + (length (encode_inst inst) + length (concat (map encode_inst insts))))";
        simp)
qed

lemma selects_agree: "selects v t \<Longrightarrow> tables_agree t"
proof -
  assume s: "selects v t"
  have "40 \<le> v \<and> v \<le> 100 \<or> v = V98_LATE"
  proof (rule ccontr)
    assume "\<not> ?thesis"
    then show False using s version_tables_unsupported [of v] by (simp add: selects_def)
  qed
  then obtain u where "selects v u" "tables_agree u" using selects_supported by blast
  moreover have "t = u" using s \<open>selects v u\<close> by (simp add: selects_def)
  ultimately show ?thesis by simp
qed

lemma decode_function_loop:
  "selects version t \<Longrightarrow> decode_function code version = decode_loop (tables_of t) code 0"
  by (simp add: decode_function_def selects_def tables_of_def)

lemma decode_function_encoded:
  assumes "selects version t" "length code < 2 ^ 63" "code = concat (map encode_inst insts)"
    "list_all (inst_of t) insts" "consecutive 0 insts"
  shows "decode_function code version = Inr insts"
  using decode_loop_of_encoded [OF selects_agree [OF assms(1)] assms(2,4,5), of "[]"] assms(3)
  by (simp add: decode_function_loop [OF assms(1)] decode_loop.simps [of _ _ "length _"])

text \<open>
  C8. Decoding is exact. With the tables \<open>t\<close> of the version, \<open>decode_function\<close> returns a list of
  instructions exactly when the code is the concatenation of their encodings, each instruction is
  the one its opcode byte has in the tables with operands of the right types, and the offsets are
  those of the encodings.
\<close>

theorem decode_function_exact:
  assumes "selects version t" "length code < 2 ^ 63"
  shows "decode_function code version = Inr insts \<longleftrightarrow>
    code = concat (map encode_inst insts) \<and> list_all (inst_of t) insts \<and> consecutive 0 insts"
proof
  have t: "tables_agree t" by (rule selects_agree [OF assms(1)])
  show "code = concat (map encode_inst insts) \<and> list_all (inst_of t) insts \<and> consecutive 0 insts"
    if "decode_function code version = Inr insts"
    using decode_loop_encodes [OF t assms(2), of 0] that by (simp add: decode_function_loop [OF assms(1)])
  show "decode_function code version = Inr insts"
    if "code = concat (map encode_inst insts) \<and> list_all (inst_of t) insts \<and> consecutive 0 insts"
    using decode_function_encoded [OF assms] that by blast
qed

section \<open>Where decoding stops\<close>

text \<open>The bytes \<open>rest\<close> at \<open>pos\<close> do not begin with an instruction of the version.\<close>

definition stuck :: "version_tables \<Rightarrow> nat \<Rightarrow> u8 list \<Rightarrow> hermes_error \<Rightarrow> bool" where
  "stuck t pos rest e \<longleftrightarrow> rest \<noteq> [] \<and>
     (let i = unat (hd rest) in
      if length (vt_sizes t) \<le> i then e = UnknownOpcode pos (hd rest) (length (vt_sizes t))
      else length rest < unat (vt_sizes t ! i) \<and> e = TruncatedInstructionStream pos (hd rest))"

lemma decode_loop_stuck:
  assumes "tables_agree t" "length code < 2 ^ 63"
  shows "pos \<le> length code \<Longrightarrow> decode_loop (tables_of t) code pos = Inl e \<Longrightarrow>
    \<exists>insts rest. drop pos code = concat (map encode_inst insts) @ rest \<and> list_all (inst_of t) insts
      \<and> consecutive pos insts \<and> stuck t (length code - length rest) rest e"
proof (induction "length code - pos" arbitrary: pos rule: less_induct)
  case less
  have lt: "pos < length code"
    using less.prems(2) by (subst (asm) decode_loop.simps) (auto split: if_splits)
  have hd: "hd (drop pos code) = code ! pos" "drop pos code \<noteq> []" using lt by (simp_all add: hd_drop_conv_nth)
  let ?i = "unat (code ! pos)"
  let ?n = "unat (vt_sizes t ! ?i)"
  note step = decode_loop_step [OF assms lt]
  show ?case
  proof (cases "?i < length (vt_sizes t) \<and> pos + ?n \<le> length code")
    case False
    then have "stuck t pos (drop pos code) e"
      using step less.prems(2) hd by (auto simp: stuck_def Let_def split: if_splits)
    then show ?thesis using lt by (intro exI [of _ "[]"] exI [of _ "drop pos code"]) simp
  next
    case True
    then have fits: "unat (vt_sizes t ! unat (hd (drop pos code))) \<le> length (drop pos code)"
      and i: "unat (hd (drop pos code)) < length (vt_sizes t)" by (simp_all add: hd le_diff_conv2)
    define inst where "inst = inst_at t pos (drop pos code)"
    note at = inst_at_encode [OF assms(1) i hd(2) fits, of pos, folded inst_def, unfolded hd(1)]
    have rest: "decode_loop (tables_of t) code (pos + ?n) = Inl e"
    proof -
      have "ebind (decode_loop (tables_of t) code (pos + ?n)) (\<lambda>insts. Inr (inst # insts)) = Inl e"
        using step less.prems(2) True by (simp add: Let_def inst_def)
      then show ?thesis by (simp add: ebind_eq_Inl)
    qed
    have "0 < ?n" using length_encode_inst(2) [OF assms(1) at(2)] at(4) by simp
    then obtain insts rest where IH: "drop (pos + ?n) code = concat (map encode_inst insts) @ rest"
      "list_all (inst_of t) insts" "consecutive (pos + ?n) insts" "stuck t (length code - length rest) rest e"
      using less.hyps [OF diff_less_mono2 _ rest] True lt by auto
    have "drop pos code = take ?n (drop pos code) @ drop ?n (drop pos code)" by (rule append_take_drop_id [symmetric])
    also have "\<dots> = encode_inst inst @ concat (map encode_inst insts) @ rest"
      using at(1) IH(1) by (simp add: add.commute)
    finally show ?thesis using at IH by (intro exI [of _ "inst # insts"] exI [of _ rest]) simp
  qed
qed

text \<open>
  C10. Where decoding fails: \<open>decode_function\<close> returns an error exactly when the code is a
  (possibly empty) list of instructions followed by bytes that begin with an opcode the version
  does not have or with an instruction they cut short, and the error carries that position and
  opcode byte.
\<close>

theorem decode_function_errors:
  assumes "selects version t" "length code < 2 ^ 63"
  shows "decode_function code version = Inl e \<longleftrightarrow>
    (\<exists>insts rest. code = concat (map encode_inst insts) @ rest \<and> list_all (inst_of t) insts
       \<and> consecutive 0 insts \<and> stuck t (length code - length rest) rest e)"
proof
  have t: "tables_agree t" by (rule selects_agree [OF assms(1)])
  show "\<exists>insts rest. code = concat (map encode_inst insts) @ rest \<and> list_all (inst_of t) insts
       \<and> consecutive 0 insts \<and> stuck t (length code - length rest) rest e"
    if "decode_function code version = Inl e"
    using decode_loop_stuck [OF t assms(2), of 0] that by (simp add: decode_function_loop [OF assms(1)])
  assume "\<exists>insts rest. code = concat (map encode_inst insts) @ rest \<and> list_all (inst_of t) insts
       \<and> consecutive 0 insts \<and> stuck t (length code - length rest) rest e"
  then obtain insts rest where c: "code = concat (map encode_inst insts) @ rest" "list_all (inst_of t) insts"
    "consecutive 0 insts" and s: "stuck t (length code - length rest) rest e" by blast
  let ?pos = "length (concat (map encode_inst insts))"
  have pos: "length code - length rest = ?pos" "?pos < length code" "drop ?pos code = rest"
    using c(1) s by (simp_all add: stuck_def)
  have "code ! ?pos = hd rest" using pos(2,3) hd_drop_conv_nth [OF pos(2)] by simp
  then have "decode_loop (tables_of t) code ?pos = Inl e"
    using decode_loop_step [OF t assms(2) pos(2)] s unfolding pos(1) stuck_def
    using arg_cong [OF c(1), of length] by (auto simp: Let_def split: if_splits)
  then show "decode_function code version = Inl e"
    using decode_loop_of_encoded [OF t assms(2) c(2,3), of rest] c(1)
    by (simp add: decode_function_loop [OF assms(1)])
qed

section \<open>Typed instructions\<close>

lemma switch_names:
  "list_all (\<lambda>n. str_contains n ''SwitchImm'' =
     (n = ''StringSwitchImm'' \<or> n = ''SwitchImm'' \<or> n = ''UIntSwitchImm'')) OPCODE_NAMES"
  by (simp add: OPCODE_NAMES_def)

lemma switch_name:
  assumes "op \<in> set OPCODES"
  shows "str_contains (OpCode_name op) ''SwitchImm'' \<longleftrightarrow>
    OpCode_name op = ''StringSwitchImm'' \<or> OpCode_name op = ''SwitchImm'' \<or> OpCode_name op = ''UIntSwitchImm''"
proof -
  have "OpCode_name op \<in> set OPCODE_NAMES" using assms unfolding opcode_names [symmetric] by simp
  then show ?thesis using switch_names unfolding list_all_iff by blast
qed

lemma starts_with_J: "starts_with n ''J'' \<longleftrightarrow> take 1 n = ''J''"
  by (cases n) auto

lemma typed_addr:
  "operand_typed t x \<Longrightarrow> is_addr t \<Longrightarrow> \<exists>rel. x = Op_Addr rel"
  "operand_typed OT_R x \<Longrightarrow> \<exists>r. x = Op_Reg r"
  "operand_typed OT_U4 x \<Longrightarrow> \<exists>v. x = Op_UInt v"
  "operand_typed t (Op_Addr rel) \<Longrightarrow> is_addr t"
  by (cases "(t, x)" rule: operand_typed.cases; auto simp: is_addr_def)+

text \<open>The operands the control flow graph finds in an instruction.\<close>

definition branch_operands :: "DecodedInst \<Rightarrow> bool" where
  "branch_operands inst \<longleftrightarrow> (case branch_class (di_name inst) of
       BC_Address \<Rightarrow> \<exists>rel ops. di_operands inst = Op_Addr rel # ops
     | BC_Switch \<Rightarrow> \<exists>r jt rel lo hi.
         di_operands inst = [Op_Reg r, Op_UInt jt, Op_Addr rel, Op_UInt lo, Op_UInt hi]
     | BC_StringSwitch \<Rightarrow> \<exists>r hash tbl rel n.
         di_operands inst = [Op_Reg r, Op_UInt hash, Op_UInt tbl, Op_Addr rel, Op_UInt n]
     | BC_Plain \<Rightarrow> \<forall>rel. Op_Addr rel \<notin> set (di_operands inst))"

lemma typed_branch_operands:
  assumes "list_all2 operand_typed (di_op_types inst) (di_operands inst)"
    "class_schema (branch_class (di_name inst)) (di_op_types inst)"
  shows "branch_operands inst"
proof (cases "branch_class (di_name inst)")
  case BC_Plain
  have "\<exists>t \<in> set (di_op_types inst). operand_typed t x" if "x \<in> set (di_operands inst)" for x
    using assms(1) that by (auto simp: list_all2_conv_all_nth in_set_conv_nth [of x] intro!: bexI [OF _ nth_mem])
  then show ?thesis
    using BC_Plain assms(2) typed_addr(4) by (auto simp: branch_operands_def list_all_iff dest!: spec)
next
  case BC_Address
  then obtain t ts x xs where "di_op_types inst = t # ts" "is_addr t" "di_operands inst = x # xs" "operand_typed t x"
    using assms by (auto simp: list_all2_Cons1 split: list.splits)
  then show ?thesis using BC_Address typed_addr(1) by (auto simp: branch_operands_def)
next
  case BC_Switch
  then obtain a b c d e where "di_operands inst = [a, b, c, d, e]" "operand_typed OT_R a"
    "operand_typed OT_U4 b" "operand_typed OT_A4 c" "operand_typed OT_U4 d" "operand_typed OT_U4 e"
    using assms by (auto simp: list_all2_Cons1)
  then show ?thesis
    using BC_Switch typed_addr(2,3) typed_addr(1) [of OT_A4] by (auto simp: branch_operands_def is_addr_def)
next
  case BC_StringSwitch
  then obtain a b c d e where "di_operands inst = [a, b, c, d, e]" "operand_typed OT_R a"
    "operand_typed OT_U4 b" "operand_typed OT_U4 c" "operand_typed OT_A4 d" "operand_typed OT_U4 e"
    using assms by (auto simp: list_all2_Cons1)
  then show ?thesis
    using BC_StringSwitch typed_addr(2,3) typed_addr(1) [of OT_A4] by (auto simp: branch_operands_def is_addr_def)
qed

lemma jump_class:
  assumes "di_op inst \<in> set OPCODES" "di_name inst = OpCode_name (di_op inst)"
  shows "is_jump inst \<longleftrightarrow> branch_class (di_name inst) \<noteq> BC_Plain
    \<and> di_name inst \<noteq> ''SaveGenerator'' \<and> di_name inst \<noteq> ''SaveGeneratorLong''"
  using switch_name [OF assms(1)] assms(2)
  by (auto simp: is_jump_def branch_class_def starts_with_J)

lemma supported_of_decoded:
  assumes "decode_function code version = Inr insts"
  obtains t where "selects version t" "tables_agree t"
proof (cases "40 \<le> version \<and> version \<le> 100 \<or> version = V98_LATE")
  case True
  then show ?thesis using selects_supported that by blast
next
  case False
  then show ?thesis
    using assms unfolding decode_function_def selections by (simp add: selects_unsupported [OF False])
qed

lemma decoded_inst:
  assumes "decode_function code version = Inr insts" "length code < 2 ^ 63" "inst \<in> set insts"
  obtains t where "selects version t" "tables_agree t" "inst_of t inst"
proof -
  obtain t where t: "selects version t" "tables_agree t" by (rule supported_of_decoded [OF assms(1)])
  moreover have "inst_of t inst"
    using decode_loop_encodes [OF t(2) assms(2), of 0] assms(1,3)
    by (simp add: decode_function_loop [OF t(1)] list_all_iff)
  ultimately show ?thesis by (rule that)
qed

text \<open>
  C9. Every decoded instruction is typed: its name is that of its opcode, its size is that of
  its opcode byte and operands, the operands have the types of the schema, and it is a jump
  exactly when it carries a branch; a jump's first operand is its address, a switch has the
  operands its table is read from, and any other instruction but a generator resume has none.
\<close>

theorem decoded_instructions_typed:
  assumes "decode_function code version = Inr insts" "length code < 2 ^ 63" "inst \<in> set insts"
  shows "di_name inst = OpCode_name (di_op inst)
    \<and> unat (di_size inst) = 1 + sum_list (map byte_size (di_op_types inst))
    \<and> list_all2 operand_typed (di_op_types inst) (di_operands inst)
    \<and> branch_operands inst
    \<and> (is_jump inst \<longleftrightarrow> branch_class (di_name inst) \<noteq> BC_Plain
         \<and> di_name inst \<noteq> ''SaveGenerator'' \<and> di_name inst \<noteq> ''SaveGeneratorLong'')"
proof -
  obtain t where t: "tables_agree t" "inst_of t inst" by (rule decoded_inst [OF assms])
  note i = inst_ofD [OF t]
  have name: "di_name inst = OpCode_name (di_op inst)" and op: "di_op inst \<in> set OPCODES"
    unfolding i(3,4) using agree_lengths(6,7) [OF t(1) i(1)] by simp_all
  have "class_schema (branch_class (di_name inst)) (di_op_types inst)"
    unfolding i(3,5) by (rule agree_lengths(8) [OF t(1) i(1)])
  then show ?thesis
    using name i(6,7) typed_branch_operands [OF i(6)] jump_class [OF op name] by blast
qed

end
