(* ===== verification/Hermes_BTree.thy ===== *)
theory Hermes_BTree
  imports Main
begin

text \<open>
  The ordered collections of the standard library the decompiler uses. A \<open>BTreeSet\<close> is the
  strictly increasing list of its elements, a \<open>BTreeMap\<close> the association list with strictly
  increasing keys, so that iteration, which the code relies on, is the list itself. The locale
  \<open>ordered_map\<close> states what the code expects of the map.
\<close>

section \<open>Sets\<close>

type_synonym 'k btree_set = "'k list"

definition bs_insert :: "'k::linorder \<Rightarrow> 'k btree_set \<Rightarrow> 'k btree_set" where
  "bs_insert k s = insort_insert k s"

definition bs_ok :: "'k::linorder btree_set \<Rightarrow> bool" where
  "bs_ok s \<longleftrightarrow> sorted s \<and> distinct s"

lemma set_bs_insert [simp]: "set (bs_insert k s) = insert k (set s)"
  by (simp add: bs_insert_def set_insort_insert)

lemma bs_insert_ok [intro]: "bs_ok s \<Longrightarrow> bs_ok (bs_insert k s)"
  by (simp add: bs_ok_def bs_insert_def sorted_insort_insert distinct_insort_insert)

section \<open>Maps\<close>

type_synonym ('k, 'v) btree = "('k \<times> 'v) list"

fun bt_insert :: "'k::linorder \<Rightarrow> 'v \<Rightarrow> ('k, 'v) btree \<Rightarrow> ('k, 'v) btree" where
  "bt_insert k v [] = [(k, v)]"
| "bt_insert k v ((k', v') # m) =
     (if k < k' then (k, v) # (k', v') # m
      else if k = k' then (k, v) # m
      else (k', v') # bt_insert k v m)"

definition bt_get :: "('k, 'v) btree \<Rightarrow> 'k \<Rightarrow> 'v option" where
  "bt_get m k = map_of m k"

definition bt_keys :: "('k, 'v) btree \<Rightarrow> 'k list" where
  "bt_keys m = map fst m"

definition bt_values :: "('k, 'v) btree \<Rightarrow> 'v list" where
  "bt_values m = map snd m"

text \<open>\<open>if let Some(v) = m.get_mut(&k) { *v = f(*v) }\<close>\<close>

definition bt_update :: "'k \<Rightarrow> ('v \<Rightarrow> 'v) \<Rightarrow> ('k, 'v) btree \<Rightarrow> ('k, 'v) btree" where
  "bt_update k f m = map (\<lambda>(k', v). (k', if k' = k then f v else v)) m"

text \<open>\<open>m.entry(k).or_default().push(x)\<close>\<close>

definition bt_push :: "'k::linorder \<Rightarrow> 'x \<Rightarrow> ('k, 'x list) btree \<Rightarrow> ('k, 'x list) btree" where
  "bt_push k x m = bt_insert k ((case bt_get m k of None \<Rightarrow> [] | Some xs \<Rightarrow> xs) @ [x]) m"

definition bt_ok :: "('k::linorder, 'v) btree \<Rightarrow> bool" where
  "bt_ok m \<longleftrightarrow> sorted_wrt (<) (bt_keys m)"

lemma bt_get_insert: "bt_get (bt_insert k v m) k' = (if k' = k then Some v else bt_get m k')"
  by (induction k v m rule: bt_insert.induct) (auto simp: bt_get_def)

lemma set_keys_insert: "set (bt_keys (bt_insert k v m)) = insert k (set (bt_keys m))"
  by (induction k v m rule: bt_insert.induct) (auto simp: bt_keys_def)

lemma bt_insert_ok: "bt_ok m \<Longrightarrow> bt_ok (bt_insert k v m)"
proof (induction k v m rule: bt_insert.induct)
  case (2 k v k' v' m)
  then have "bt_ok m" by (simp add: bt_ok_def bt_keys_def)
  then show ?case
    using 2 set_keys_insert [of k v m] by (auto simp: bt_ok_def bt_keys_def)
qed (simp add: bt_ok_def bt_keys_def)

lemma bt_keys_update [simp]: "bt_keys (bt_update k f m) = bt_keys m"
  by (simp add: bt_keys_def bt_update_def split_beta)

lemma bt_get_update: "bt_get (bt_update k f m) k' = (if k' = k then map_option f (bt_get m k') else bt_get m k')"
  by (induction m) (auto simp: bt_get_def bt_update_def)

lemma bt_get_keys: "k \<in> set (bt_keys m) \<longleftrightarrow> bt_get m k \<noteq> None"
  by (simp add: bt_get_def bt_keys_def map_of_eq_None_iff)

lemma bt_ok_distinct: "bt_ok m \<Longrightarrow> distinct (bt_keys m)"
  by (simp add: bt_ok_def strict_sorted_iff)

lemma bt_ok_sorted: "bt_ok m \<Longrightarrow> sorted (bt_keys m)"
  by (simp add: bt_ok_def strict_sorted_iff)

lemma bt_mem: "bt_ok m \<Longrightarrow> (k, v) \<in> set m \<longleftrightarrow> bt_get m k = Some v"
  using bt_ok_distinct [of m] by (auto simp: bt_get_def bt_keys_def)

section \<open>What the code expects of a map\<close>

locale ordered_map =
  fixes get :: "'m \<Rightarrow> 'k::linorder \<Rightarrow> 'v option" and ins :: "'k \<Rightarrow> 'v \<Rightarrow> 'm \<Rightarrow> 'm"
    and keys :: "'m \<Rightarrow> 'k list" and ok :: "'m \<Rightarrow> bool"
  assumes get_ins: "get (ins k v m) k' = (if k' = k then Some v else get m k')"
    and ins_ok: "ok m \<Longrightarrow> ok (ins k v m)"
    and keys_get: "k \<in> set (keys m) \<longleftrightarrow> get m k \<noteq> None"
    and keys_sorted: "ok m \<Longrightarrow> sorted_wrt (<) (keys m)"
begin

lemma fold_ins_ok: "ok m \<Longrightarrow> ok (fold (\<lambda>(k, v). ins k v) kvs m)"
  by (induction kvs arbitrary: m) (auto simp: ins_ok)

lemma get_fold_ins:
  "get (fold (\<lambda>(k, v). ins k v) kvs m) k =
     (case map_of (rev kvs) k of None \<Rightarrow> get m k | Some v \<Rightarrow> Some v)"
  by (induction kvs arbitrary: m) (auto simp: get_ins map_add_def split: option.splits)

lemma keys_unique: "ok m \<Longrightarrow> ok m' \<Longrightarrow> set (keys m) = set (keys m') \<Longrightarrow> keys m = keys m'"
  using keys_sorted strict_sorted_equal by blast

end

interpretation bt: ordered_map bt_get bt_insert bt_keys bt_ok
  by unfold_locales
    (auto simp: bt_get_insert bt_insert_ok bt_get_keys intro: bt_ok_def [THEN iffD1])

text \<open>Maps that hold lists, grown by \<open>push\<close>.\<close>

lemma bt_get_push:
  "bt_get (bt_push k x m) k' =
     (if k' = k then Some ((case bt_get m k of None \<Rightarrow> [] | Some xs \<Rightarrow> xs) @ [x]) else bt_get m k')"
  by (simp add: bt_push_def bt_get_insert)

lemma bt_push_ok: "bt_ok m \<Longrightarrow> bt_ok (bt_push k x m)"
  by (simp add: bt_push_def bt_insert_ok)

definition bt_list :: "('k, 'x list) btree \<Rightarrow> 'k \<Rightarrow> 'x list" where
  "bt_list m k = (case bt_get m k of None \<Rightarrow> [] | Some xs \<Rightarrow> xs)"

lemma bt_list_pushes:
  "bt_list (fold (\<lambda>(k, x). bt_push k x) kxs m) k = bt_list m k @ map snd (filter (\<lambda>(k', x). k' = k) kxs)"
  by (induction kxs arbitrary: m) (auto simp: bt_list_def bt_get_push)

end
