(* ===== verification/Hermes_Cfg.thy ===== *)
theory Hermes_Cfg
  imports Hermes_Decode Hermes_BTree
begin

text \<open>
  The control flow graph of \<open>decompile/cfg.rs\<close>: \<open>Cfg::build\<close> as the steps the source has (block
  boundaries, blocks, edges, predecessors, exception handlers, reverse post-order, the check of
  the exception layout), each a function here.
\<close>

section \<open>Data\<close>

record ExcHandler =
  eh_start :: u32
  eh_end :: u32
  eh_target :: u32

type_synonym BlockId = u32

record BasicBlock =
  bb_id :: BlockId
  bb_start :: u32
  bb_end :: u32
  bb_instructions :: "DecodedInst list"
  bb_successors :: "BlockId list"
  bb_predecessors :: "BlockId list"
  bb_exc_handler :: "BlockId option"
  bb_switch_string_ids :: "u32 list"

type_synonym blocks = "(BlockId, BasicBlock) btree"

record Cfg =
  cfg_blocks :: blocks
  cfg_entry :: BlockId
  cfg_block_order :: "BlockId list"
  cfg_exc_predecessors :: "(BlockId, BlockId list) btree"

definition inst_next_offset :: "DecodedInst \<Rightarrow> u32 option" where
  "inst_next_offset inst = checked_add32 (di_offset inst) (ucast (di_size inst))"

definition signed_target :: "u32 \<Rightarrow> i32 \<Rightarrow> u32 option" where
  "signed_target base rel = checked_add_signed base rel"

definition new_block :: "u32 \<Rightarrow> u32 \<Rightarrow> DecodedInst list \<Rightarrow> BasicBlock" where
  "new_block start block_end insts = \<lparr>bb_id = start, bb_start = start, bb_end = block_end,
     bb_instructions = insts, bb_successors = [], bb_predecessors = [], bb_exc_handler = None,
     bb_switch_string_ids = []\<rparr>"

section \<open>Switch tables\<close>

definition u32_from_be :: "u8 list \<Rightarrow> u32" where
  "u32_from_be bs = u32_from_le (rev bs)"

text \<open>
  The entries of a table that lie in the bytecode, in order: the loop
  \<open>for j in 0..num { entry_off, entry_end checked or break; if entry_end <= bytecodes.len() {..} }\<close>
  that both passes run over both kinds of table.
\<close>

fun table_entries :: "u8 list \<Rightarrow> usize \<Rightarrow> usize \<Rightarrow> nat list \<Rightarrow> u8 list list" where
  "table_entries bytecodes table_start stride [] = []"
| "table_entries bytecodes table_start stride (j # js) =
     (case Option.bind (checked_mul64 j stride) (checked_add64 table_start) of
        None \<Rightarrow> []
      | Some entry_off \<Rightarrow>
          (case checked_add64 entry_off stride of
             None \<Rightarrow> []
           | Some entry_end \<Rightarrow>
               (if entry_end \<le> length bytecodes then [slice bytecodes entry_off stride] else [])
               @ table_entries bytecodes table_start stride js))"

definition string_entry :: "u8 list \<Rightarrow> u32 \<times> i32" where
  "string_entry e = (u32_from_be (take 4 e), sint (u32_from_be (drop 4 e)))"

definition jump_entry :: "u8 list \<Rightarrow> i32" where
  "jump_entry e = sint (u32_from_le e)"

definition addr_operand :: "DecodedInst \<Rightarrow> nat \<Rightarrow> i32 option" where
  "addr_operand inst i = (case get_at (di_operands inst) i of Some (Op_Addr rel) \<Rightarrow> Some rel | _ \<Rightarrow> None)"

definition uint_operand :: "DecodedInst \<Rightarrow> nat \<Rightarrow> u32 option" where
  "uint_operand inst i = (case get_at (di_operands inst) i of Some (Op_UInt v) \<Rightarrow> Some v | _ \<Rightarrow> None)"

text \<open>The default target, and the table's offset and number of entries, of the two switches.\<close>

definition string_switch_default :: "DecodedInst \<Rightarrow> u32 option" where
  "string_switch_default inst = Option.bind (addr_operand inst 3) (signed_target (di_offset inst))"

definition string_switch_table :: "DecodedInst \<Rightarrow> (u32 \<times> nat) option" where
  "string_switch_table inst =
     (case (uint_operand inst 2, uint_operand inst 4) of
        (Some str_table_off, Some num_cases) \<Rightarrow> Some (str_table_off, min (unat num_cases) 65536)
      | _ \<Rightarrow> None)"

definition int_switch_default :: "DecodedInst \<Rightarrow> u32 option" where
  "int_switch_default inst = Option.bind (addr_operand inst 2) (signed_target (di_offset inst))"

definition int_switch_table :: "DecodedInst \<Rightarrow> (u32 \<times> nat) option" where
  "int_switch_table inst =
     (case (uint_operand inst 1, uint_operand inst 3, uint_operand inst 4) of
        (Some jt_offset, Some min_case, Some max_case) \<Rightarrow>
          Some (jt_offset, nat (min 65536 (max 0 (uint max_case - uint min_case + 1))))
      | _ \<Rightarrow> None)"

section \<open>Block boundaries\<close>

definition switch_boundaries ::
  "DecodedInst \<Rightarrow> u8 list \<Rightarrow> u32 option \<Rightarrow> (u32 \<times> nat) option \<Rightarrow> usize \<Rightarrow> (u8 list \<Rightarrow> i32) \<Rightarrow> u32 list" where
  "switch_boundaries inst bytecodes default_target table stride entry_rel =
     (case default_target of None \<Rightarrow> [] | Some t \<Rightarrow> [t])
     @ (case table of
          None \<Rightarrow> []
        | Some (table_off, num) \<Rightarrow>
            (case checked_add64 (unat (di_offset inst)) (unat table_off) of
               None \<Rightarrow> []
             | Some table_start \<Rightarrow>
                 List.map_filter (\<lambda>e. signed_target (di_offset inst) (entry_rel e))
                   (table_entries bytecodes table_start stride [0..<num])))"

definition inst_boundaries :: "u8 list \<Rightarrow> DecodedInst \<Rightarrow> hermes_error + u32 list" where
  "inst_boundaries bytecodes inst =
     ebind (ok_or (inst_next_offset inst) (ArithmeticOverflow ''instruction next-offset'')) (\<lambda>next.
     Inr ((if is_terminator inst then [next] else [])
       @ (case branch_target inst of None \<Rightarrow> [] | Some target \<Rightarrow> [target])
       @ (if di_name inst = ''StringSwitchImm''
          then switch_boundaries inst bytecodes (string_switch_default inst) (string_switch_table inst) 8
                 (\<lambda>e. snd (string_entry e))
          else if str_contains (di_name inst) ''SwitchImm''
          then switch_boundaries inst bytecodes (int_switch_default inst) (int_switch_table inst) 4 jump_entry
          else [])))"

fun boundary_pass :: "u8 list \<Rightarrow> DecodedInst list \<Rightarrow> u32 btree_set \<Rightarrow> hermes_error + u32 btree_set" where
  "boundary_pass bytecodes [] boundaries = Inr boundaries"
| "boundary_pass bytecodes (inst # insts) boundaries =
     ebind (inst_boundaries bytecodes inst) (\<lambda>bs.
     boundary_pass bytecodes insts (fold bs_insert bs boundaries))"

definition handler_boundaries :: "ExcHandler list \<Rightarrow> u32 btree_set \<Rightarrow> u32 btree_set" where
  "handler_boundaries handlers boundaries =
     fold (\<lambda>eh bs. bs_insert (eh_target eh) (bs_insert (eh_end eh) (bs_insert (eh_start eh) bs)))
       handlers boundaries"

section \<open>Blocks\<close>

type_synonym split_state = "blocks \<times> DecodedInst list \<times> u32"

definition split_step :: "u32 btree_set \<Rightarrow> split_state \<Rightarrow> DecodedInst \<Rightarrow> split_state" where
  "split_step boundaries st inst =
     (case st of (blocks, current_block_insts, current_start) \<Rightarrow>
      let (blocks, current_block_insts, current_start) =
            (if di_offset inst \<in> set boundaries \<and> current_block_insts \<noteq> []
             then (bt_insert current_start (new_block current_start (di_offset inst) current_block_insts) blocks,
                   [], di_offset inst)
             else (blocks, current_block_insts, current_start));
          current_start = (if current_block_insts = [] then di_offset inst else current_start)
      in (blocks, current_block_insts @ [inst], current_start))"

definition finish_blocks :: "split_state \<Rightarrow> hermes_error + blocks" where
  "finish_blocks st =
     (case st of (blocks, current_block_insts, current_start) \<Rightarrow>
      if current_block_insts = [] then Inr blocks
      else ebind (ok_or (inst_next_offset (last current_block_insts))
                    (ArithmeticOverflow ''final block end offset'')) (\<lambda>e.
           Inr (bt_insert current_start (new_block current_start e current_block_insts) blocks)))"

definition split_blocks :: "u32 btree_set \<Rightarrow> DecodedInst list \<Rightarrow> hermes_error + blocks" where
  "split_blocks boundaries insts = finish_blocks (foldl (split_step boundaries) ([], [], 0) insts)"

section \<open>Edges\<close>

text \<open>\<open>if blocks.contains_key(&t) { succs.push(t) }\<close>, and the same unless \<open>succs\<close> has it already.\<close>

definition push_target :: "blocks \<Rightarrow> u32 option \<Rightarrow> u32 list \<Rightarrow> u32 list" where
  "push_target blocks target succs =
     (case target of None \<Rightarrow> succs
      | Some t \<Rightarrow> if t \<in> set (bt_keys blocks) then succs @ [t] else succs)"

definition push_case :: "blocks \<Rightarrow> u32 option \<Rightarrow> u32 list \<Rightarrow> u32 list" where
  "push_case blocks target succs =
     (case target of None \<Rightarrow> succs
      | Some t \<Rightarrow> if t \<in> set (bt_keys blocks) \<and> t \<notin> set succs then succs @ [t] else succs)"

definition table_start_or_0 :: "DecodedInst \<Rightarrow> u32 \<Rightarrow> usize" where
  "table_start_or_0 inst table_off =
     (case checked_add64 (unat (di_offset inst)) (unat table_off) of None \<Rightarrow> 0 | Some s \<Rightarrow> s)"

definition string_switch_successors :: "blocks \<Rightarrow> u8 list \<Rightarrow> DecodedInst \<Rightarrow> u32 list \<times> u32 list" where
  "string_switch_successors blocks bytecodes inst =
     (let succs = push_target blocks (string_switch_default inst) [];
          entries = (case string_switch_table inst of None \<Rightarrow> []
            | Some (off, num) \<Rightarrow> map string_entry
                (table_entries bytecodes (table_start_or_0 inst off) 8 [0..<num]))
      in (fold (\<lambda>(str_id, rel). push_case blocks (signed_target (di_offset inst) rel)) entries succs,
          map fst entries))"

definition int_switch_successors :: "blocks \<Rightarrow> u8 list \<Rightarrow> DecodedInst \<Rightarrow> u32 list" where
  "int_switch_successors blocks bytecodes inst =
     (let succs = push_target blocks (int_switch_default inst) [];
          rels = (case int_switch_table inst of None \<Rightarrow> []
            | Some (off, num) \<Rightarrow> map jump_entry
                (table_entries bytecodes (table_start_or_0 inst off) 4 [0..<num]))
      in fold (\<lambda>rel. push_case blocks (signed_target (di_offset inst) rel)) rels succs)"

text \<open>
  The successors of a block with last instruction \<open>last_inst\<close>, the block after it in key order
  being \<open>next_id\<close>, and the string ids of a string switch.
\<close>

definition block_successors ::
  "blocks \<Rightarrow> u8 list \<Rightarrow> BlockId option \<Rightarrow> DecodedInst \<Rightarrow> u32 list \<times> u32 list option" where
  "block_successors blocks bytecodes next_id last_inst =
     (if is_unconditional_jump last_inst then (push_target blocks (branch_target last_inst) [], None)
      else if is_conditional_branch last_inst then
        (push_target blocks (inst_next_offset last_inst) (push_target blocks (branch_target last_inst) []), None)
      else if di_name last_inst = ''StringSwitchImm'' then
        (case string_switch_successors blocks bytecodes last_inst of (succs, ids) \<Rightarrow> (succs, Some ids))
      else if str_contains (di_name last_inst) ''SwitchImm'' then
        (int_switch_successors blocks bytecodes last_inst, None)
      else if is_return last_inst \<or> is_throw last_inst \<or> di_name last_inst = ''Unreachable'' then ([], None)
      else (case next_id of None \<Rightarrow> ([], None) | Some n \<Rightarrow> ([n], None)))"

fun add_edges :: "u8 list \<Rightarrow> BlockId list \<Rightarrow> blocks \<Rightarrow> blocks" where
  "add_edges bytecodes [] blocks = blocks"
| "add_edges bytecodes (bid # rest) blocks =
     add_edges bytecodes rest
       (case bt_get blocks bid of
          None \<Rightarrow> blocks
        | Some block \<Rightarrow>
            if bb_instructions block = [] then blocks
            else
              let (succs, ids) = block_successors blocks bytecodes (case rest of [] \<Rightarrow> None | n # _ \<Rightarrow> Some n)
                    (last (bb_instructions block))
              in bt_update bid (\<lambda>b. b\<lparr>bb_successors := succs,
                   bb_switch_string_ids := (case ids of None \<Rightarrow> bb_switch_string_ids b | Some s \<Rightarrow> s)\<rparr>) blocks)"

definition cfg_edges :: "blocks \<Rightarrow> (BlockId \<times> BlockId) list" where
  "cfg_edges blocks = concat (map (\<lambda>b. map (\<lambda>s. (bb_id b, s)) (bb_successors b)) (bt_values blocks))"

definition add_predecessors :: "blocks \<Rightarrow> blocks" where
  "add_predecessors blocks =
     fold (\<lambda>(from, to). bt_update to (\<lambda>b. b\<lparr>bb_predecessors := bb_predecessors b @ [from]\<rparr>))
       (cfg_edges blocks) blocks"

section \<open>Exception handlers\<close>

fun map_handlers :: "ExcHandler list \<Rightarrow> blocks \<Rightarrow> hermes_error + blocks" where
  "map_handlers [] blocks = Inr blocks"
| "map_handlers (eh # ehs) blocks =
     (if eh_target eh \<notin> set (bt_keys blocks) then Inl (InvalidExceptionHandlerTarget (eh_target eh))
      else
        let affected = map bb_id (filter (\<lambda>b. eh_start eh \<le> bb_start b \<and> bb_end b \<le> eh_end eh) (bt_values blocks))
        in map_handlers ehs
             (fold (\<lambda>bid. bt_update bid (\<lambda>b. b\<lparr>bb_exc_handler := Some (eh_target eh)\<rparr>)) affected blocks))"

section \<open>Reverse post-order\<close>

definition successors_of :: "blocks \<Rightarrow> BlockId \<Rightarrow> BlockId list" where
  "successors_of blocks bid = (case bt_get blocks bid of None \<Rightarrow> [] | Some b \<Rightarrow> bb_successors b)"

text \<open>The stack is a list with its top at the head; the flag says that the children are done.\<close>

function dfs ::
  "blocks \<Rightarrow> (BlockId \<times> bool) list \<Rightarrow> BlockId btree_set \<Rightarrow> BlockId list \<Rightarrow> BlockId btree_set \<times> BlockId list" where
  "dfs blocks [] visited post_order = (visited, post_order)"
| "dfs blocks ((bid, expanded) # stack) visited post_order =
     (if expanded then dfs blocks stack visited (post_order @ [bid])
      else if bid \<in> set visited then dfs blocks stack visited post_order
      else
        let visited = bs_insert bid visited
        in dfs blocks
             (map (\<lambda>s. (s, False)) (filter (\<lambda>s. s \<notin> set visited) (successors_of blocks bid)) @ (bid, True) # stack)
             visited post_order)"
  by pat_completeness auto
termination
proof (relation "inv_image (finite_psubset <*lex*> less_than) (\<lambda>(_, stack, visited, _). (- set visited, length stack))")
  show "wf (inv_image (finite_psubset <*lex*> less_than)
      (\<lambda>(_ :: blocks, stack :: (BlockId \<times> bool) list, visited, _ :: BlockId list). (- set visited, length stack)))"
    by auto
qed (auto simp: finite_psubset_def)

definition reverse_post_order :: "blocks \<Rightarrow> BlockId \<Rightarrow> BlockId list" where
  "reverse_post_order blocks entry =
     (case dfs blocks [(entry, False)] [] [] of (visited, post_order) \<Rightarrow>
        rev post_order @ filter (\<lambda>bid. bid \<notin> set visited) (bt_keys blocks))"

section \<open>The exception layout\<close>

text \<open>The position of a block in the order; both defaults of the source are dead.\<close>

fun position :: "'a \<Rightarrow> 'a list \<Rightarrow> nat option" where
  "position x [] = None"
| "position x (y # ys) = (case position x ys of Some i \<Rightarrow> Some (Suc i) | None \<Rightarrow> if x = y then Some 0 else None)"

fun check_layout :: "BlockId list \<Rightarrow> BasicBlock list \<Rightarrow> hermes_error + unit" where
  "check_layout order [] = Inr ()"
| "check_layout order (b # bs) =
     (case bb_exc_handler b of
        None \<Rightarrow> check_layout order bs
      | Some catch \<Rightarrow>
          let handler_pos = (case position catch order of None \<Rightarrow> u64_max | Some i \<Rightarrow> i);
              try_pos = (case position (bb_id b) order of None \<Rightarrow> 0 | Some i \<Rightarrow> i)
          in if handler_pos \<le> try_pos then Inl (InvalidExceptionLayout catch (bb_id b))
             else check_layout order bs)"

definition exc_predecessors :: "blocks \<Rightarrow> (BlockId, BlockId list) btree" where
  "exc_predecessors blocks =
     fold (\<lambda>b m. case bb_exc_handler b of None \<Rightarrow> m | Some catch \<Rightarrow> bt_push catch (bb_id b) m)
       (bt_values blocks) []"

section \<open>The graph\<close>

definition cfg_of_blocks :: "blocks \<Rightarrow> hermes_error + Cfg" where
  "cfg_of_blocks blocks =
     (case bt_keys blocks of
        [] \<Rightarrow> Inr \<lparr>cfg_blocks = blocks, cfg_entry = 0, cfg_block_order = [], cfg_exc_predecessors = []\<rparr>
      | entry # _ \<Rightarrow>
          let order = reverse_post_order blocks entry in
          ebind (check_layout order (bt_values blocks)) (\<lambda>_.
          Inr \<lparr>cfg_blocks = blocks, cfg_entry = (case order of [] \<Rightarrow> 0 | b # _ \<Rightarrow> b), cfg_block_order = order,
               cfg_exc_predecessors = exc_predecessors blocks\<rparr>))"

definition cfg_build :: "DecodedInst list \<Rightarrow> ExcHandler list \<Rightarrow> u8 list \<Rightarrow> hermes_error + Cfg" where
  "cfg_build instructions exc_handlers bytecodes =
     (if instructions = [] then
        Inr \<lparr>cfg_blocks = [(0, new_block 0 0 [])], cfg_entry = 0, cfg_block_order = [0], cfg_exc_predecessors = []\<rparr>
      else
        ebind (boundary_pass bytecodes instructions (bs_insert 0 [])) (\<lambda>boundaries.
        let boundaries = handler_boundaries exc_handlers boundaries in
        ebind (split_blocks boundaries instructions) (\<lambda>blocks.
        let blocks = add_predecessors (add_edges bytecodes (bt_keys blocks) blocks) in
        ebind (map_handlers exc_handlers blocks) cfg_of_blocks)))"

end
