(* ===== verification/Hermes_Cfg_Oracle.thy ===== *)
theory Hermes_Cfg_Oracle
  imports Hermes_Cfg "HOL-Library.Product_Lexorder"
begin

text \<open>
  The independent control flow oracle of \<open>decompile/cfg_oracle.rs\<close>: \<open>naive_cfg\<close>, which finds leaders
  and edges from the instruction names, and \<open>Cfg::to_shape\<close>, the shape of a production graph that
  it is compared with.
\<close>

section \<open>Shapes\<close>

datatype EdgeKindOracle = EK_FallThrough | EK_Branch | EK_SwitchDefault | EK_ExceptionHandler

text \<open>The derived order is that of the constructors.\<close>

fun edge_rank :: "EdgeKindOracle \<Rightarrow> nat" where
  "edge_rank EK_FallThrough = 0"
| "edge_rank EK_Branch = 1"
| "edge_rank EK_SwitchDefault = 2"
| "edge_rank EK_ExceptionHandler = 3"

lemma edge_rank_inject: "edge_rank a = edge_rank b \<Longrightarrow> a = b"
  by (cases a; cases b) simp_all

instantiation EdgeKindOracle :: linorder
begin

definition less_eq_EdgeKindOracle :: "EdgeKindOracle \<Rightarrow> EdgeKindOracle \<Rightarrow> bool" where
  "less_eq_EdgeKindOracle a b \<longleftrightarrow> edge_rank a \<le> edge_rank b"

definition less_EdgeKindOracle :: "EdgeKindOracle \<Rightarrow> EdgeKindOracle \<Rightarrow> bool" where
  "less_EdgeKindOracle a b \<longleftrightarrow> edge_rank a < edge_rank b"

instance
  by standard (auto simp: less_eq_EdgeKindOracle_def less_EdgeKindOracle_def intro: edge_rank_inject)

end

type_synonym oracle_edge = "u32 \<times> u32 \<times> EdgeKindOracle"

record CfgShape =
  cs_leaders :: "u32 btree_set"
  cs_edges :: "oracle_edge btree_set"
  cs_entry :: u32
  cs_block_instructions :: "(u32, u32 list) btree"

datatype CfgOracleError = CO_EmptyInstructions | CO_ArithmeticOverflow string

section \<open>Instruction names\<close>

definition oracle_is_uncond_jump :: "string \<Rightarrow> bool" where
  "oracle_is_uncond_jump name \<longleftrightarrow> name = ''Jmp'' \<or> name = ''JmpLong''"

definition oracle_is_cond_branch :: "string \<Rightarrow> bool" where
  "oracle_is_cond_branch name \<longleftrightarrow>
     starts_with name ''J'' \<and> name \<noteq> ''Jmp'' \<and> name \<noteq> ''JmpLong'' \<and> \<not> str_contains name ''SwitchImm''"

definition oracle_has_branch_target :: "string \<Rightarrow> bool" where
  "oracle_has_branch_target name \<longleftrightarrow> oracle_is_uncond_jump name \<or> oracle_is_cond_branch name
     \<or> name = ''SaveGenerator'' \<or> name = ''SaveGeneratorLong''"

definition oracle_is_string_switch :: "string \<Rightarrow> bool" where
  "oracle_is_string_switch name \<longleftrightarrow> name = ''StringSwitchImm''"

definition oracle_is_int_switch :: "string \<Rightarrow> bool" where
  "oracle_is_int_switch name \<longleftrightarrow> str_contains name ''SwitchImm'' \<and> name \<noteq> ''StringSwitchImm''"

definition oracle_is_return :: "string \<Rightarrow> bool" where
  "oracle_is_return name \<longleftrightarrow> name = ''Ret''"

definition oracle_is_throw :: "string \<Rightarrow> bool" where
  "oracle_is_throw name \<longleftrightarrow> name = ''Throw''"

definition oracle_is_unreachable :: "string \<Rightarrow> bool" where
  "oracle_is_unreachable name \<longleftrightarrow> name = ''Unreachable''"

definition oracle_is_terminator :: "string \<Rightarrow> bool" where
  "oracle_is_terminator name \<longleftrightarrow> oracle_is_uncond_jump name \<or> oracle_is_cond_branch name
     \<or> oracle_is_string_switch name \<or> oracle_is_int_switch name \<or> oracle_is_return name
     \<or> oracle_is_throw name \<or> oracle_is_unreachable name"

definition oracle_branch_target :: "DecodedInst \<Rightarrow> u32 option" where
  "oracle_branch_target inst =
     (case get_at (di_operands inst) 0 of Some (Op_Addr rel) \<Rightarrow> checked_add_signed (di_offset inst) rel | _ \<Rightarrow> None)"

definition oracle_next_offset :: "DecodedInst \<Rightarrow> u32 option" where
  "oracle_next_offset inst = checked_add32 (di_offset inst) (ucast (di_size inst))"

section \<open>Switches\<close>

definition addr_target :: "DecodedInst \<Rightarrow> nat \<Rightarrow> u32 option" where
  "addr_target inst i =
     (case get_at (di_operands inst) i of Some (Op_Addr rel) \<Rightarrow> checked_add_signed (di_offset inst) rel | _ \<Rightarrow> None)"

text \<open>The targets of the entries of a table of \<open>num\<close> entries, in order.\<close>

definition oracle_cases ::
  "DecodedInst \<Rightarrow> u8 list \<Rightarrow> u32 \<Rightarrow> nat \<Rightarrow> usize \<Rightarrow> (u8 list \<Rightarrow> i32) \<Rightarrow> u32 list" where
  "oracle_cases inst bytecodes table_off num stride entry_rel =
     (case checked_add64 (unat (di_offset inst)) (unat table_off) of
        None \<Rightarrow> []
      | Some table_start \<Rightarrow>
          List.map_filter (\<lambda>e. checked_add_signed (di_offset inst) (entry_rel e))
            (table_entries bytecodes table_start stride [0..<num]))"

definition oracle_string_cases :: "DecodedInst \<Rightarrow> u8 list \<Rightarrow> u32 list" where
  "oracle_string_cases inst bytecodes =
     (case (get_at (di_operands inst) 2, get_at (di_operands inst) 4) of
        (Some (Op_UInt str_table_off), Some (Op_UInt num_cases)) \<Rightarrow>
          oracle_cases inst bytecodes str_table_off (min (unat num_cases) 65536) 8
            (\<lambda>e. sint (u32_from_be (drop 4 e)))
      | _ \<Rightarrow> [])"

definition oracle_int_cases :: "DecodedInst \<Rightarrow> u8 list \<Rightarrow> u32 list" where
  "oracle_int_cases inst bytecodes =
     (case (get_at (di_operands inst) 1, get_at (di_operands inst) 3, get_at (di_operands inst) 4) of
        (Some (Op_UInt jt_offset), Some (Op_UInt min_case), Some (Op_UInt max_case)) \<Rightarrow>
          oracle_cases inst bytecodes jt_offset
            (nat (min 65536 (max 0 (uint max_case - uint min_case + 1)))) 4
            (\<lambda>e. sint (u32_from_le e))
      | _ \<Rightarrow> [])"

section \<open>Leaders\<close>

definition insert_if_instr :: "u32 btree_set \<Rightarrow> u32 \<Rightarrow> u32 btree_set \<Rightarrow> u32 btree_set" where
  "insert_if_instr inst_offsets t set' = (if t \<in> set inst_offsets then bs_insert t set' else set')"

definition insert_opt :: "u32 btree_set \<Rightarrow> u32 option \<Rightarrow> u32 btree_set \<Rightarrow> u32 btree_set" where
  "insert_opt inst_offsets t s = (case t of None \<Rightarrow> s | Some t \<Rightarrow> insert_if_instr inst_offsets t s)"

definition oracle_inst_leaders ::
  "u32 btree_set \<Rightarrow> u8 list \<Rightarrow> DecodedInst \<Rightarrow> u32 btree_set \<Rightarrow> u32 btree_set" where
  "oracle_inst_leaders offs bytecodes inst leaders =
     (let name = di_name inst;
          leaders = (if oracle_is_terminator name then insert_opt offs (oracle_next_offset inst) leaders else leaders);
          leaders = (if oracle_has_branch_target name
                     then insert_opt offs (oracle_branch_target inst) leaders else leaders);
          leaders = (if oracle_is_string_switch name
                     then fold (insert_if_instr offs) (oracle_string_cases inst bytecodes)
                            (insert_opt offs (addr_target inst 3) leaders) else leaders)
      in if oracle_is_int_switch name
         then fold (insert_if_instr offs) (oracle_int_cases inst bytecodes)
                (insert_opt offs (addr_target inst 2) leaders) else leaders)"

definition oracle_leaders :: "u32 btree_set \<Rightarrow> u8 list \<Rightarrow> DecodedInst list \<Rightarrow> ExcHandler list \<Rightarrow> u32 btree_set" where
  "oracle_leaders offs bytecodes insts handlers =
     (let leaders = (case insts of [] \<Rightarrow> [] | first # _ \<Rightarrow> bs_insert (di_offset first) []);
          leaders = fold (oracle_inst_leaders offs bytecodes) insts leaders
      in fold (\<lambda>eh s. insert_if_instr offs (eh_target eh) (insert_if_instr offs (eh_end eh)
                        (insert_if_instr offs (eh_start eh) s))) handlers leaders)"

section \<open>Blocks\<close>

definition addr_to_idx :: "DecodedInst list \<Rightarrow> (u32, nat) btree" where
  "addr_to_idx insts = fold (\<lambda>(k, i). bt_insert k i) (zip (map di_offset insts) [0..<length insts]) []"

definition inst_at_addr :: "DecodedInst list \<Rightarrow> u32 \<Rightarrow> DecodedInst option" where
  "inst_at_addr insts a = Option.bind (bt_get (addr_to_idx insts) a) (get_at insts)"

text \<open>\<open>range(..=offset).next_back()\<close>\<close>

definition last_le :: "'k::linorder list \<Rightarrow> 'k \<Rightarrow> 'k option" where
  "last_le ks a = (let le = filter (\<lambda>k. k \<le> a) ks in if le = [] then None else Some (last le))"

definition oracle_blocks :: "u32 btree_set \<Rightarrow> DecodedInst list \<Rightarrow> (u32, u32 list) btree" where
  "oracle_blocks leaders insts =
     fold (\<lambda>inst m. case last_le (bt_keys m) (di_offset inst) of None \<Rightarrow> m | Some l \<Rightarrow> bt_push l (di_offset inst) m)
       insts (fold (\<lambda>l. bt_insert l []) leaders [])"

definition last_inst_of :: "DecodedInst list \<Rightarrow> (u32, u32 list) btree \<Rightarrow> u32 \<Rightarrow> DecodedInst option" where
  "last_inst_of insts blocks leader =
     (case bt_get blocks leader of
        None \<Rightarrow> None
      | Some addrs \<Rightarrow> if addrs = [] then None else inst_at_addr insts (last addrs))"

section \<open>Edges\<close>

definition edge_if :: "u32 btree_set \<Rightarrow> u32 \<Rightarrow> u32 option \<Rightarrow> EdgeKindOracle \<Rightarrow> oracle_edge btree_set \<Rightarrow> oracle_edge btree_set" where
  "edge_if leaders leader t kind edges =
     (case t of None \<Rightarrow> edges | Some t \<Rightarrow> if t \<in> set leaders then bs_insert (leader, t, kind) edges else edges)"

definition case_edge :: "u32 btree_set \<Rightarrow> u32 \<Rightarrow> u32 \<Rightarrow> oracle_edge btree_set \<Rightarrow> oracle_edge btree_set" where
  "case_edge leaders leader t edges =
     (if t \<in> set leaders \<and> (leader, t, EK_SwitchDefault) \<notin> set edges
      then bs_insert (leader, t, EK_Branch) edges else edges)"

definition oracle_block_edges ::
  "u32 btree_set \<Rightarrow> u8 list \<Rightarrow> u32 \<Rightarrow> DecodedInst \<Rightarrow> oracle_edge btree_set \<Rightarrow> oracle_edge btree_set" where
  "oracle_block_edges leaders bytecodes leader last_inst edges =
     (let name = di_name last_inst; next_off = oracle_next_offset last_inst in
      if oracle_is_return name \<or> oracle_is_throw name \<or> oracle_is_unreachable name then edges
      else if oracle_is_uncond_jump name then
        edge_if leaders leader (oracle_branch_target last_inst) EK_Branch edges
      else if oracle_is_cond_branch name then
        (let branch_t = oracle_branch_target last_inst;
             edges = edge_if leaders leader branch_t EK_Branch edges
         in if next_off \<noteq> branch_t then edge_if leaders leader next_off EK_FallThrough edges else edges)
      else if oracle_is_string_switch name then
        fold (case_edge leaders leader) (oracle_string_cases last_inst bytecodes)
          (edge_if leaders leader (addr_target last_inst 3) EK_SwitchDefault edges)
      else if oracle_is_int_switch name then
        fold (case_edge leaders leader) (oracle_int_cases last_inst bytecodes)
          (edge_if leaders leader (addr_target last_inst 2) EK_SwitchDefault edges)
      else edge_if leaders leader next_off EK_FallThrough edges)"

definition oracle_edges ::
  "u32 btree_set \<Rightarrow> DecodedInst list \<Rightarrow> (u32, u32 list) btree \<Rightarrow> u8 list \<Rightarrow> oracle_edge btree_set" where
  "oracle_edges leaders insts blocks bytecodes =
     fold (\<lambda>leader edges. case last_inst_of insts blocks leader of None \<Rightarrow> edges
             | Some last_inst \<Rightarrow> oracle_block_edges leaders bytecodes leader last_inst edges) leaders []"

text \<open>The end of the block at a leader, \<open>following\<close> being the leaders after it.\<close>

definition oracle_block_end ::
  "DecodedInst list \<Rightarrow> (u32, u32 list) btree \<Rightarrow> u32 \<Rightarrow> u32 list \<Rightarrow> u32 option" where
  "oracle_block_end insts blocks block_start following =
     (case bt_get blocks block_start of
        None \<Rightarrow> None
      | Some addrs \<Rightarrow>
          if addrs = [] then None
          else (case inst_at_addr insts (last addrs) of
              Some li \<Rightarrow> Some (sat_add32 (di_offset li) (ucast (di_size li)))
            | None \<Rightarrow> Some (case following of next_leader # _ \<Rightarrow> next_leader | [] \<Rightarrow> sat_add32 block_start 1)))"

fun mark_handler ::
  "DecodedInst list \<Rightarrow> (u32, u32 list) btree \<Rightarrow> ExcHandler \<Rightarrow> u32 list \<Rightarrow> (u32, u32) btree \<Rightarrow> (u32, u32) btree" where
  "mark_handler insts blocks eh [] block_exc = block_exc"
| "mark_handler insts blocks eh (block_start # following) block_exc =
     mark_handler insts blocks eh following
       (case oracle_block_end insts blocks block_start following of
          None \<Rightarrow> block_exc
        | Some block_end \<Rightarrow>
            if eh_start eh \<le> block_start \<and> block_end \<le> eh_end eh
            then bt_insert block_start (eh_target eh) block_exc else block_exc)"

definition oracle_exc_edges ::
  "u32 btree_set \<Rightarrow> DecodedInst list \<Rightarrow> (u32, u32 list) btree \<Rightarrow> ExcHandler list
   \<Rightarrow> oracle_edge btree_set \<Rightarrow> oracle_edge btree_set" where
  "oracle_exc_edges leaders insts blocks handlers edges =
     (let block_exc = fold (\<lambda>eh m. if eh_target eh \<in> set leaders then mark_handler insts blocks eh leaders m else m)
            handlers []
      in fold (\<lambda>(block_start, exc_target). bs_insert (block_start, exc_target, EK_ExceptionHandler)) block_exc edges)"

section \<open>The oracle\<close>

definition naive_cfg ::
  "DecodedInst list \<Rightarrow> ExcHandler list \<Rightarrow> u8 list \<Rightarrow> CfgOracleError + CfgShape" where
  "naive_cfg insts handlers bytecodes =
     (if insts = [] then
        Inr \<lparr>cs_leaders = [0], cs_edges = [], cs_entry = 0, cs_block_instructions = [(0, [])]\<rparr>
      else
        let inst_offsets = fold (\<lambda>i. bs_insert (di_offset i)) insts [];
            leaders = oracle_leaders inst_offsets bytecodes insts handlers;
            blocks = filter (\<lambda>(_, v). v \<noteq> []) (oracle_blocks leaders insts);
            leaders = filter (\<lambda>l. l \<in> set (bt_keys blocks)) leaders;
            edges = oracle_edges leaders insts blocks bytecodes;
            edges = oracle_exc_edges leaders insts blocks handlers edges
        in Inr \<lparr>cs_leaders = leaders, cs_edges = edges,
             cs_entry = (case leaders of [] \<Rightarrow> 0 | l # _ \<Rightarrow> l), cs_block_instructions = blocks\<rparr>)"

section \<open>The shape of a graph\<close>

definition cond_target_off :: "DecodedInst \<Rightarrow> u32 option" where
  "cond_target_off li =
     checked_add_signed (di_offset li) (case get_at (di_operands li) 0 of Some (Op_Addr r) \<Rightarrow> r | _ \<Rightarrow> 0)"

definition shape_kind :: "BasicBlock \<Rightarrow> u32 \<Rightarrow> EdgeKindOracle" where
  "shape_kind b start =
     (let insts = bb_instructions b; name = (if insts = [] then [] else di_name (last insts)) in
      if oracle_is_uncond_jump name then EK_Branch
      else if oracle_is_cond_branch name then
        (if insts \<noteq> [] \<and> Some start = cond_target_off (last insts) then EK_Branch else EK_FallThrough)
      else if oracle_is_string_switch name \<or> oracle_is_int_switch name then
        (if insts \<noteq> [] \<and> Some start = addr_target (last insts) (if oracle_is_string_switch name then 3 else 2)
         then EK_SwitchDefault else EK_Branch)
      else EK_FallThrough)"

definition shape_block_edges :: "blocks \<Rightarrow> BasicBlock \<Rightarrow> oracle_edge btree_set \<Rightarrow> oracle_edge btree_set" where
  "shape_block_edges blocks b edges =
     (let edges = (case bb_exc_handler b of
            None \<Rightarrow> edges
          | Some catch_id \<Rightarrow>
              (case bt_get blocks catch_id of
                 None \<Rightarrow> edges
               | Some catch_block \<Rightarrow> bs_insert (bb_start b, bb_start catch_block, EK_ExceptionHandler) edges))
      in fold (\<lambda>s edges. case bt_get blocks s of
                 None \<Rightarrow> edges
               | Some tb \<Rightarrow> bs_insert (bb_start b, bb_start tb, shape_kind b (bb_start tb)) edges)
           (bb_successors b) edges)"

definition cfg_to_shape :: "Cfg \<Rightarrow> CfgShape" where
  "cfg_to_shape cfg =
     \<lparr>cs_leaders = fold (\<lambda>b. bs_insert (bb_start b)) (bt_values (cfg_blocks cfg)) [],
      cs_edges = fold (shape_block_edges (cfg_blocks cfg)) (bt_values (cfg_blocks cfg)) [],
      cs_entry = (case bt_get (cfg_blocks cfg) (cfg_entry cfg) of None \<Rightarrow> 0 | Some b \<Rightarrow> bb_start b),
      cs_block_instructions =
        fold (\<lambda>b. bt_insert (bb_start b) (map di_offset (bb_instructions b))) (bt_values (cfg_blocks cfg)) []\<rparr>"

end
