(* ===== verification/Hermes_Cfg_Order.thy ===== *)
theory Hermes_Cfg_Order
  imports Hermes_Cfg
begin

text \<open>
  The order of the blocks: the depth-first search of \<open>Cfg::build\<close> visits what the entry reaches,
  and its reverse post-order puts a block before its successors, back edges apart.
\<close>

section \<open>Reachability\<close>

abbreviation edge :: "blocks \<Rightarrow> BlockId \<Rightarrow> BlockId \<Rightarrow> bool" where
  "edge blocks a b \<equiv> b \<in> set (successors_of blocks a)"

abbreviation reaches :: "blocks \<Rightarrow> BlockId \<Rightarrow> BlockId \<Rightarrow> bool" where
  "reaches blocks \<equiv> (edge blocks)\<^sup>*\<^sup>*"

lemma edge_reaches [intro]: "edge blocks a b \<Longrightarrow> reaches blocks a b"
  by (rule r_into_rtranclp)

lemma reaches_edge: "reaches blocks a b \<Longrightarrow> edge blocks b c \<Longrightarrow> reaches blocks a c"
  by (rule rtranclp.rtrancl_into_rtrancl)

section \<open>The search\<close>

text \<open>
  On the stack, an expanded block (its flag set) reaches everything above it, and each of its
  successors is visited or waits above it.
\<close>

fun chain :: "blocks \<Rightarrow> BlockId set \<Rightarrow> BlockId set \<Rightarrow> (BlockId \<times> bool) list \<Rightarrow> bool" where
  "chain blocks visited over [] \<longleftrightarrow> True"
| "chain blocks visited over ((x, expanded) # stack) \<longleftrightarrow>
     (expanded \<longrightarrow> (\<forall>y\<in>over. reaches blocks x y) \<and> set (successors_of blocks x) \<subseteq> visited \<union> over)
     \<and> chain blocks visited (insert x over) stack"

definition expanded_on :: "(BlockId \<times> bool) list \<Rightarrow> BlockId list" where
  "expanded_on stack = map fst (filter snd stack)"

lemma expanded_on_simps [simp]:
  "expanded_on [] = []"
  "expanded_on ((x, f) # stack) = (if f then x # expanded_on stack else expanded_on stack)"
  "expanded_on (map (\<lambda>s. (s, False)) xs @ stack) = expanded_on stack"
  by (auto simp: expanded_on_def filter_map o_def)

lemma chain_mono:
  "chain blocks V A stack \<Longrightarrow> V \<union> A \<subseteq> V' \<union> A' \<Longrightarrow> \<forall>y\<in>A'. \<exists>z\<in>A. reaches blocks z y \<Longrightarrow>
     chain blocks V' A' stack"
proof (induction stack arbitrary: A A')
  case (Cons xf stack)
  obtain x f where xf: "xf = (x, f)" by (cases xf)
  have "chain blocks V' (insert x A') stack"
    using Cons.prems by (intro Cons.IH [of "insert x A"]) (auto simp: xf)
  then show ?case
    using Cons.prems by (auto simp: xf) (meson rtranclp_trans)
qed simp

lemma chain_pending: "chain blocks V A (map (\<lambda>s. (s, False)) xs @ stack) \<longleftrightarrow> chain blocks V (A \<union> set xs) stack"
  by (induction xs arbitrary: A) simp_all

lemma chain_expanded: "chain blocks V A stack \<Longrightarrow> x \<in> set (expanded_on stack) \<Longrightarrow> y \<in> A \<Longrightarrow> reaches blocks x y"
  by (induction blocks V A stack rule: chain.induct) (auto split: if_splits)

text \<open>A post-order: each successor of a block comes before it, or reaches it.\<close>

definition post_ordered :: "blocks \<Rightarrow> BlockId list \<Rightarrow> bool" where
  "post_ordered blocks post \<longleftrightarrow>
     (\<forall>xs x ys. post = xs @ x # ys \<longrightarrow> (\<forall>s\<in>set (successors_of blocks x). s \<in> set xs \<or> reaches blocks s x))"

lemma post_ordered_Nil [simp]: "post_ordered blocks []"
  by (simp add: post_ordered_def)

lemma post_ordered_snoc:
  "post_ordered blocks post \<Longrightarrow> \<forall>s\<in>set (successors_of blocks b). s \<in> set post \<or> reaches blocks s b \<Longrightarrow>
     post_ordered blocks (post @ [b])"
  unfolding post_ordered_def by (auto simp: append_eq_append_conv2 Cons_eq_append_conv append_eq_Cons_conv)

definition dfs_ok :: "blocks \<Rightarrow> BlockId \<Rightarrow> (BlockId \<times> bool) list \<Rightarrow> BlockId list \<Rightarrow> BlockId list \<Rightarrow> bool" where
  "dfs_ok blocks entry stack visited post \<longleftrightarrow>
     distinct (post @ expanded_on stack) \<and> set (post @ expanded_on stack) = set visited
     \<and> (\<forall>x\<in>set visited \<union> fst ` set stack. reaches blocks entry x)
     \<and> chain blocks (set visited) {} stack
     \<and> post_ordered blocks post \<and> (\<forall>x\<in>set post. set (successors_of blocks x) \<subseteq> set visited)
     \<and> (if stack = [] then post \<noteq> [] \<and> last post = entry
        else last stack = (entry, True) \<or> (stack = [(entry, False)] \<and> visited = []))"

lemma dfs_ok_start: "dfs_ok blocks entry [(entry, False)] [] []"
  by (simp add: dfs_ok_def)

lemma dfs_ok_finish:
  assumes "dfs_ok blocks entry ((b, True) # stack) visited post"
  shows "dfs_ok blocks entry stack visited (post @ [b])"
proof -
  note inv = assms [unfolded dfs_ok_def]
  have chain: "chain blocks (set visited) {b} stack" and succs: "set (successors_of blocks b) \<subseteq> set visited"
    using inv by simp_all
  have "\<forall>s\<in>set (successors_of blocks b). s \<in> set post \<or> reaches blocks s b"
  proof
    fix s assume "s \<in> set (successors_of blocks b)"
    then have "s \<in> set post \<union> insert b (set (expanded_on stack))" using inv succs by auto
    then show "s \<in> set post \<or> reaches blocks s b" using chain_expanded [OF chain] by auto
  qed
  moreover have "chain blocks (set visited) {} stack"
    using inv by (intro chain_mono [OF chain]) auto
  ultimately show ?thesis
    using inv post_ordered_snoc [of blocks post b] by (auto simp: dfs_ok_def split: if_splits)
qed

lemma dfs_ok_skip:
  assumes "dfs_ok blocks entry ((b, False) # stack) visited post" "b \<in> set visited"
  shows "dfs_ok blocks entry stack visited post"
proof -
  note inv = assms(1) [unfolded dfs_ok_def]
  have "chain blocks (set visited) {b} stack" using inv by simp
  then have "chain blocks (set visited) {} stack"
    by (rule chain_mono) (use assms(2) in auto)
  then show ?thesis using inv assms(2) by (auto simp: dfs_ok_def split: if_splits)
qed

lemma dfs_ok_expand:
  assumes "dfs_ok blocks entry ((b, False) # stack) visited post" "b \<notin> set visited"
    and V: "set visited' = insert b (set visited)"
    and C: "set children = {s \<in> set (successors_of blocks b). s \<notin> set visited'}"
  shows "dfs_ok blocks entry (map (\<lambda>s. (s, False)) children @ (b, True) # stack) visited' post"
proof -
  note inv = assms(1) [unfolded dfs_ok_def]
  have "chain blocks (set visited) {b} stack" using inv by simp
  then have "chain blocks (set visited') (insert b (set children)) stack"
    by (rule chain_mono) (auto simp: V C)
  then have chain: "chain blocks (set visited') {} (map (\<lambda>s. (s, False)) children @ (b, True) # stack)"
    by (auto simp: chain_pending C)
  have old: "\<forall>x\<in>set visited \<union> fst ` set ((b, False) # stack). reaches blocks entry x"
    by (insert inv, elim conjE, assumption)
  then have "reaches blocks entry b" by simp
  then have "\<forall>x\<in>set children. reaches blocks entry x" by (simp add: C reaches_edge)
  then have reach: "\<forall>x\<in>set visited' \<union> fst ` set (map (\<lambda>s. (s, False)) children @ (b, True) # stack). reaches blocks entry x"
    using old by (simp add: V ball_Un image_Un image_image)
  have last: "last ((b, True) # stack) = (entry, True)" using inv by (auto split: if_splits)
  have post: "post_ordered blocks post" "\<forall>x\<in>set post. set (successors_of blocks x) \<subseteq> set visited'"
    and vis: "distinct (post @ b # expanded_on stack)" "set (post @ b # expanded_on stack) = set visited'"
    using inv assms(2) V by auto
  show ?thesis
    unfolding dfs_ok_def using chain reach last post vis by simp
qed

lemma dfs_result:
  "dfs_ok blocks entry stack visited post \<Longrightarrow> dfs blocks stack visited post = (V, P) \<Longrightarrow>
     dfs_ok blocks entry [] V P"
proof (induction blocks stack visited post rule: dfs.induct)
  case (2 blocks bid expanded stack visited post)
  note run = "2.prems"(2) [unfolded dfs.simps(2)]
  consider "expanded" | "\<not> expanded" "bid \<in> set visited" | "\<not> expanded" "bid \<notin> set visited" by blast
  then show ?case
  proof cases
    case 1
    show ?thesis
      by (rule "2.IH"(1) [OF 1]) (use run "2.prems"(1) 1 in \<open>simp_all add: dfs_ok_finish\<close>)
  next
    case 2
    show ?thesis
      by (rule "2.IH"(2) [OF 2]) (use run "2.prems"(1) 2 in \<open>auto intro: dfs_ok_skip\<close>)
  next
    case 3
    have start: "dfs_ok blocks entry ((bid, False) # stack) visited post" using "2.prems"(1) 3 by simp
    show ?thesis
      by (rule "2.IH"(3) [OF 3 refl dfs_ok_expand [OF start 3(2)]]) (use run 3 in \<open>simp_all add: Let_def\<close>)
  qed
qed simp

text \<open>What the search yields: the blocks the entry reaches, the entry last, in post-order.\<close>

lemma dfs_reachable:
  assumes "dfs blocks [(entry, False)] [] [] = (V, P)"
  shows "set V = {b. reaches blocks entry b}" "set P = set V" "distinct P" "P \<noteq> []" "last P = entry"
    "post_ordered blocks P"
proof -
  note inv = dfs_result [OF dfs_ok_start assms, unfolded dfs_ok_def, simplified]
  show set: "set P = set V" and "distinct P" "P \<noteq> []" "last P = entry" "post_ordered blocks P"
    using inv by simp_all
  have "b \<in> set V" if "reaches blocks entry b" for b
    using that
  proof induction
    case base
    then show ?case using inv last_in_set by blast
  next
    case (step b c)
    then show ?case using inv by auto
  qed
  then show "set V = {b. reaches blocks entry b}" using inv by auto
qed

end
