(* ===== verification/Hermes_Blocks.thy ===== *)
theory Hermes_Blocks
  imports Hermes_Cfg_Order
begin

text \<open>
  The blocks and the edges of the control flow graph: the blocks partition the instructions at
  the boundaries, and the edges are the transfers of control of the last instruction of a block.
\<close>

section \<open>Instructions in code order\<close>

definition ordered_insts :: "DecodedInst list \<Rightarrow> bool" where
  "ordered_insts insts \<longleftrightarrow>
     sorted_wrt (<) (map di_offset insts)
     \<and> successively (\<lambda>i j. inst_next_offset i = Some (di_offset j)) insts
     \<and> (\<forall>i\<in>set insts. \<exists>n. inst_next_offset i = Some n \<and> di_offset i < n)
     \<and> (insts \<noteq> [] \<longrightarrow> di_offset (hd insts) = 0)"

abbreviation offsets :: "DecodedInst list \<Rightarrow> u32 set" where
  "offsets insts \<equiv> di_offset ` set insts"

lemma consecutive_ordered:
  "consecutive pos insts \<Longrightarrow> \<forall>i\<in>set insts. 0 < unat (di_size i) \<Longrightarrow>
   pos + sum_list (map (\<lambda>i. unat (di_size i)) insts) < 2 ^ 32 \<Longrightarrow>
     sorted_wrt (<) (map di_offset insts) \<and> (\<forall>i\<in>set insts. pos \<le> unat (di_offset i))
     \<and> successively (\<lambda>i j. inst_next_offset i = Some (di_offset j)) insts
     \<and> (\<forall>i\<in>set insts. \<exists>n. inst_next_offset i = Some n \<and> di_offset i < n)"
proof (induction insts arbitrary: pos)
  case (Cons i insts)
  have pos: "unat (di_offset i) = pos" using Cons.prems by (simp add: unat_of_nat)
  have size: "unat (ucast (di_size i) :: u32) = unat (di_size i)" by simp
  have total: "pos + unat (di_size i) + sum_list (map (\<lambda>i. unat (di_size i)) insts) < 2 ^ 32"
    using Cons.prems(3) by (simp add: add.assoc)
  then have fits: "pos + unat (di_size i) < 2 ^ 32" by linarith
  have "di_offset i + ucast (di_size i) = of_nat (pos + unat (di_size i))"
    using Cons.prems(1) by simp
  then have step: "inst_next_offset i = Some (of_nat (pos + unat (di_size i)))"
    unfolding inst_next_offset_def checked_add32_def using pos fits by (simp add: size u32_max_def)
  note IH = Cons.IH [of "pos + unat (di_size i)"]
  have rest: "sorted_wrt (<) (map di_offset insts)" "\<forall>j\<in>set insts. pos + unat (di_size i) \<le> unat (di_offset j)"
    "successively (\<lambda>i j. inst_next_offset i = Some (di_offset j)) insts" "\<forall>j\<in>set insts. \<exists>n. inst_next_offset j = Some n \<and> di_offset j < n"
    using IH Cons.prems total by auto
  have less: "\<forall>j\<in>set insts. di_offset i < di_offset j"
    using rest(2) pos Cons.prems(2) by (fastforce simp: word_less_nat_alt)
  have "successively (\<lambda>i j. inst_next_offset i = Some (di_offset j)) (i # insts)"
    using rest(3) step Cons.prems(1) by (cases insts) auto
  moreover have "\<forall>j\<in>set (i # insts). pos \<le> unat (di_offset j)"
    using rest(2) pos by auto
  moreover have "di_offset i < of_nat (pos + unat (di_size i))"
  proof -
    have "unat (of_nat (pos + unat (di_size i)) :: u32) = pos + unat (di_size i)"
      using fits by (simp add: unat_of_nat del: of_nat_add)
    then show ?thesis using pos Cons.prems(2) by (simp add: word_less_nat_alt del: of_nat_add)
  qed
  ultimately show ?case using rest less step by simp
qed simp

lemma length_encoded:
  "tables_agree t \<Longrightarrow> list_all (inst_of t) insts \<Longrightarrow>
     length (concat (map encode_inst insts)) = sum_list (map (\<lambda>i. unat (di_size i)) insts)"
  by (induction insts) (auto simp: length_encode_inst)

lemma decoded_ordered:
  assumes "decode_function code version = Inr insts" "length code < 2 ^ 32"
  shows "ordered_insts insts"
proof -
  obtain t where t: "selects version t" "tables_agree t" by (rule supported_of_decoded [OF assms(1)])
  have small: "length code < 2 ^ 63" using assms(2) by simp
  have enc: "code = concat (map encode_inst insts)" "list_all (inst_of t) insts" "consecutive 0 insts"
    using decode_loop_encodes [OF t(2) small, of 0 insts] assms(1) by (simp_all add: decode_function_loop [OF t(1)])
  have size: "\<forall>i\<in>set insts. 0 < unat (di_size i)"
    using enc(2) length_encode_inst(2) [OF t(2)] by (auto simp: list_all_iff)
  have "0 + sum_list (map (\<lambda>i. unat (di_size i)) insts) < 2 ^ 32"
    using assms(2) length_encoded [OF t(2) enc(2)] enc(1) by simp
  from consecutive_ordered [OF enc(3) size this] show ?thesis
    using enc(3) by (cases insts) (auto simp: ordered_insts_def)
qed

section \<open>Splitting\<close>

definition block_ok :: "u32 set \<Rightarrow> BasicBlock \<Rightarrow> bool" where
  "block_ok L b \<longleftrightarrow> bb_start b = bb_id b \<and> bb_instructions b \<noteq> []
     \<and> di_offset (hd (bb_instructions b)) = bb_start b
     \<and> inst_next_offset (last (bb_instructions b)) = Some (bb_end b)
     \<and> (\<forall>i\<in>set (tl (bb_instructions b)). di_offset i \<notin> L)"

definition well_split :: "u32 set \<Rightarrow> DecodedInst list \<Rightarrow> blocks \<Rightarrow> bool" where
  "well_split L insts blocks \<longleftrightarrow>
     concat (map bb_instructions (bt_values blocks)) = insts
     \<and> bt_keys blocks = map di_offset (filter (\<lambda>i. di_offset i \<in> L) insts)
     \<and> list_all (\<lambda>(k, b). k = bb_id b \<and> block_ok L b) blocks
     \<and> successively (\<lambda>b b'. bb_end b = bb_start b') (bt_values blocks)"

lemma bt_insert_last: "\<forall>k'\<in>set (bt_keys m). k' < k \<Longrightarrow> bt_insert k v m = m @ [(k, v)]"
  by (induction k v m rule: bt_insert.induct) (auto simp: bt_keys_def)

lemma bt_append [simp]:
  "bt_keys (m @ m') = bt_keys m @ bt_keys m'" "bt_values (m @ m') = bt_values m @ bt_values m'"
  "bt_keys [(k, v)] = [k]" "bt_values [(k, v)] = [v]" "bt_keys [] = []" "bt_values [] = []"
  by (simp_all add: bt_keys_def bt_values_def)

lemma well_split_snoc:
  assumes "well_split L done blocks" "cur \<noteq> []" "di_offset (hd cur) = start" "start \<in> L"
    "\<forall>i\<in>set (tl cur). di_offset i \<notin> L" "blocks = [] \<or> bb_end (last (bt_values blocks)) = start"
    "inst_next_offset (last cur) = Some e" "sorted_wrt (<) (map di_offset (done @ cur))"
  shows "well_split L (done @ cur) (bt_insert start (new_block start e cur) blocks)"
proof -
  obtain i rest where cur: "cur = i # rest" using assms(2) by (cases cur) auto
  have "\<forall>k\<in>set (bt_keys blocks). k < start"
    using assms(1,3,8) by (auto simp: well_split_def sorted_wrt_append cur)
  then have ins: "bt_insert start (new_block start e cur) blocks = blocks @ [(start, new_block start e cur)]"
    by (rule bt_insert_last)
  have "filter (\<lambda>i. di_offset i \<in> L) cur = [i]"
    using assms(3,4,5) by (simp add: cur filter_empty_conv)
  then show ?thesis
    using assms unfolding ins
    by (auto simp: well_split_def block_ok_def new_block_def cur successively_append_iff bt_values_def)
qed

text \<open>The state of the split after the instructions \<open>done\<close>.\<close>

definition split_ok :: "u32 set \<Rightarrow> DecodedInst list \<Rightarrow> split_state \<Rightarrow> bool" where
  "split_ok L done st \<longleftrightarrow> (case st of (blocks, cur, start) \<Rightarrow>
     if done = [] then st = ([], [], 0)
     else cur \<noteq> [] \<and> di_offset (hd cur) = start \<and> start \<in> L \<and> (\<forall>i\<in>set (tl cur). di_offset i \<notin> L)
       \<and> (blocks = [] \<or> bb_end (last (bt_values blocks)) = start)
       \<and> (\<exists>before. done = before @ cur \<and> well_split L before blocks))"

lemma split_ok_step:
  assumes "split_ok (set L) done st" "ordered_insts (done @ [inst])" "0 \<in> set L"
  shows "split_ok (set L) (done @ [inst]) (split_step L st inst)"
proof (cases "done = []")
  case True
  then show ?thesis
    using assms by (auto simp: split_ok_def split_step_def ordered_insts_def well_split_def)
next
  case False
  obtain blocks cur start where st: "st = (blocks, cur, start)" by (cases st) auto
  note inv = assms(1) [unfolded split_ok_def st, simplified, rule_format, simplified False, simplified]
  then obtain before where before: "done = before @ cur" "well_split (set L) before blocks" by auto
  have next_off: "inst_next_offset (last cur) = Some (di_offset inst)"
    using assms(2) inv before(1) by (auto simp: ordered_insts_def successively_append_iff)
  have sorted: "sorted_wrt (<) (map di_offset (before @ cur))"
    using assms(2) before(1) by (auto simp: ordered_insts_def sorted_wrt_append)
  show ?thesis
  proof (cases "di_offset inst \<in> set L")
    case True
    have "well_split (set L) done (bt_insert start (new_block start (di_offset inst) cur) blocks)"
      using well_split_snoc [OF before(2) _ _ _ _ _ next_off sorted] inv before(1) by auto
    moreover have "bt_insert start (new_block start (di_offset inst) cur) blocks
        = blocks @ [(start, new_block start (di_offset inst) cur)]"
      using sorted before(2) inv
      by (intro bt_insert_last) (cases cur, auto simp: well_split_def sorted_wrt_append)
    ultimately show ?thesis
      using True inv by (auto simp: split_ok_def split_step_def st new_block_def)
  next
    case out: False
    then have "set (tl (cur @ [inst])) = insert inst (set (tl cur))" using inv by (cases cur) auto
    then show ?thesis
      using out inv before False by (auto simp: split_ok_def split_step_def st)
  qed
qed

lemma ordered_insts_prefix: "ordered_insts (xs @ ys) \<Longrightarrow> ordered_insts xs"
  by (auto simp: ordered_insts_def sorted_wrt_append successively_append_iff)

lemma split_ok_foldl:
  "ordered_insts insts \<Longrightarrow> 0 \<in> set L \<Longrightarrow> split_ok (set L) insts (foldl (split_step L) ([], [], 0) insts)"
proof (induction insts rule: rev_induct)
  case (snoc i insts)
  then show ?case using split_ok_step ordered_insts_prefix by simp
qed (simp add: split_ok_def)

lemma split_blocks_ok:
  assumes "ordered_insts insts" "0 \<in> set L"
  obtains blocks where "split_blocks L insts = Inr blocks" "well_split (set L) insts blocks"
proof (cases "insts = []")
  case True
  then show ?thesis by (intro that [of "[]"]) (simp_all add: split_blocks_def finish_blocks_def well_split_def)
next
  case False
  obtain blocks cur start where st: "foldl (split_step L) ([], [], 0) insts = (blocks, cur, start)"
    by (metis prod_cases3)
  note inv = split_ok_foldl [OF assms, unfolded st split_ok_def, simplified, rule_format, simplified False, simplified]
  then obtain before where before: "insts = before @ cur" "well_split (set L) before blocks" by auto
  obtain e where e: "inst_next_offset (last cur) = Some e"
    using assms(1) inv before(1) last_in_set [of cur] by (fastforce simp: ordered_insts_def)
  have "well_split (set L) insts (bt_insert start (new_block start e cur) blocks)"
    using well_split_snoc [OF before(2) _ _ _ _ _ e] inv assms(1) before(1) by (auto simp: ordered_insts_def)
  moreover have "split_blocks L insts = Inr (bt_insert start (new_block start e cur) blocks)"
    using inv e by (simp add: split_blocks_def st finish_blocks_def)
  ultimately show ?thesis by (rule that [rotated])
qed

section \<open>What the later passes keep\<close>

text \<open>A block without its edges, handler and string ids.\<close>

definition bare :: "BasicBlock \<Rightarrow> BasicBlock" where
  "bare b = b\<lparr>bb_successors := [], bb_predecessors := [], bb_exc_handler := None, bb_switch_string_ids := []\<rparr>"

definition skeleton :: "blocks \<Rightarrow> blocks" where
  "skeleton blocks = map (\<lambda>(k, b). (k, bare b)) blocks"

lemma bare_updates [simp]:
  "bare (b\<lparr>bb_successors := ss\<rparr>) = bare b" "bare (b\<lparr>bb_predecessors := ps\<rparr>) = bare b"
  "bare (b\<lparr>bb_exc_handler := h\<rparr>) = bare b" "bare (b\<lparr>bb_switch_string_ids := ids\<rparr>) = bare b"
  "bare (b\<lparr>bb_successors := ss, bb_switch_string_ids := ids\<rparr>) = bare b"
  by (simp_all add: bare_def)

lemma bare_fields [simp]:
  "bb_id (bare b) = bb_id b" "bb_start (bare b) = bb_start b" "bb_end (bare b) = bb_end b"
  "bb_instructions (bare b) = bb_instructions b"
  by (simp_all add: bare_def)

lemma skeleton_update: "(\<And>b. bare (f b) = bare b) \<Longrightarrow> skeleton (bt_update k f blocks) = skeleton blocks"
  by (simp add: skeleton_def bt_update_def split_beta)

lemma skeleton_keys: "bt_keys (skeleton blocks) = bt_keys blocks"
  by (simp add: skeleton_def bt_keys_def split_beta)

lemma skeleton_get: "bt_get (skeleton blocks) k = map_option bare (bt_get blocks k)"
  by (induction blocks) (auto simp: skeleton_def bt_get_def)

lemma skeleton_values: "bt_values (skeleton blocks) = map bare (bt_values blocks)"
  by (simp add: skeleton_def bt_values_def split_beta)

lemma block_ok_bare [simp]: "block_ok L (bare b) \<longleftrightarrow> block_ok L b"
  by (simp add: block_ok_def)

lemma well_split_skeleton: "well_split L insts (skeleton blocks) \<longleftrightarrow> well_split L insts blocks"
proof -
  have "list_all (\<lambda>(k, b). k = bb_id b \<and> block_ok L b) (skeleton blocks)
      \<longleftrightarrow> list_all (\<lambda>(k, b). k = bb_id b \<and> block_ok L b) blocks"
    by (auto simp: skeleton_def list_all_iff)
  then show ?thesis
    by (simp add: well_split_def skeleton_keys skeleton_values successively_map o_def)
qed

lemma skeleton_add_edges: "skeleton (add_edges bytecodes bids blocks) = skeleton blocks"
proof (induction bytecodes bids blocks rule: add_edges.induct)
  case (2 bytecodes bid rest blocks)
  then show ?case by (simp add: Let_def split_beta skeleton_update split: option.splits)
qed simp

lemma skeleton_add_predecessors: "skeleton (add_predecessors blocks) = skeleton blocks"
proof -
  have "skeleton (fold (\<lambda>(a, b). bt_update b (\<lambda>x. x\<lparr>bb_predecessors := bb_predecessors x @ [a]\<rparr>)) es m) = skeleton m"
    for es m
    by (induction es arbitrary: m) (auto simp: skeleton_update)
  then show ?thesis by (simp add: add_predecessors_def)
qed

lemma keys_of_skeleton: "skeleton m = skeleton m' \<Longrightarrow> bt_keys m = bt_keys m'"
  by (metis skeleton_keys)

section \<open>Edges\<close>

lemma block_successors_keys:
  "bt_keys m = bt_keys m' \<Longrightarrow> block_successors m bytecodes n i = block_successors m' bytecodes n i"
proof -
  assume keys: "bt_keys m = bt_keys m'"
  have "push_target m = push_target m'" "push_case m = push_case m'"
    by (intro ext; simp add: push_target_def push_case_def keys split: option.splits)+
  then show ?thesis
    by (simp add: block_successors_def string_switch_successors_def int_switch_successors_def)
qed

lemma bt_get_add_edges:
  "distinct bids \<Longrightarrow> k \<notin> set bids \<Longrightarrow> bt_get (add_edges bytecodes bids blocks) k = bt_get blocks k"
proof (induction bytecodes bids blocks rule: add_edges.induct)
  case (2 bytecodes bid rest blocks)
  then show ?case by (auto simp: Let_def split_beta bt_get_update split: option.splits)
qed simp

lemma add_edges_get:
  "bids = xs @ k # ys \<Longrightarrow> distinct bids \<Longrightarrow> bt_get blocks k = Some b \<Longrightarrow> bb_instructions b \<noteq> [] \<Longrightarrow>
     \<exists>b'. bt_get (add_edges bytecodes bids blocks) k = Some b' \<and> bare b' = bare b
       \<and> bb_successors b' = fst (block_successors blocks bytecodes (case ys of [] \<Rightarrow> None | n # _ \<Rightarrow> Some n)
           (last (bb_instructions b)))
       \<and> bb_predecessors b' = bb_predecessors b \<and> bb_exc_handler b' = bb_exc_handler b"
proof (induction xs arbitrary: bids blocks)
  case Nil
  then show ?case
    by (simp add: bt_get_add_edges Let_def split_beta bt_get_update)
next
  case (Cons x xs)
  define m where "m = (case bt_get blocks x of
          None \<Rightarrow> blocks
        | Some block \<Rightarrow>
            if bb_instructions block = [] then blocks
            else
              let (succs, ids) = block_successors blocks bytecodes
                    (case xs @ k # ys of [] \<Rightarrow> None | n # _ \<Rightarrow> Some n) (last (bb_instructions block))
              in bt_update x (\<lambda>b. b\<lparr>bb_successors := succs,
                   bb_switch_string_ids := (case ids of None \<Rightarrow> bb_switch_string_ids b | Some s \<Rightarrow> s)\<rparr>) blocks)"
  have run: "add_edges bytecodes bids blocks = add_edges bytecodes (xs @ k # ys) m"
    by (simp add: Cons.prems(1) m_def)
  have "bt_get m k = bt_get blocks k" and keys: "bt_keys m = bt_keys blocks"
    using Cons.prems(1,2) by (auto simp: m_def Let_def split_beta bt_get_update split: option.splits)
  then show ?case
    unfolding run using Cons.IH [of "xs @ k # ys" m] Cons.prems block_successors_keys [OF keys] by simp
qed

lemma pushes_get:
  "bt_get (fold (\<lambda>(a, b). bt_update b (\<lambda>x. x\<lparr>bb_predecessors := bb_predecessors x @ [a]\<rparr>)) es m) k
   = map_option (\<lambda>x. x\<lparr>bb_predecessors := bb_predecessors x @ map fst (filter (\<lambda>(a, b). b = k) es)\<rparr>) (bt_get m k)"
proof (induction es arbitrary: m)
  case Nil
  then show ?case by (cases "bt_get m k") simp_all
next
  case (Cons e es)
  then show ?case by (cases e; cases "bt_get m k") (auto simp: bt_get_update)
qed

lemma add_predecessors_get:
  "bt_get (add_predecessors m) k
   = map_option (\<lambda>x. x\<lparr>bb_predecessors := bb_predecessors x @ map fst (filter (\<lambda>(a, b). b = k) (cfg_edges m))\<rparr>)
       (bt_get m k)"
  by (simp add: add_predecessors_def pushes_get)

lemma skeleton_insert:
  "skeleton m = m \<Longrightarrow> skeleton (bt_insert k (new_block s e is') m) = bt_insert k (new_block s e is') m"
  by (induction k "new_block s e is'" m rule: bt_insert.induct)
    (auto simp: skeleton_def bare_def new_block_def)

lemma skeleton_split:
  assumes "split_blocks L insts = Inr m"
  shows "skeleton m = m"
proof -
  have "skeleton (fst st) = fst st \<Longrightarrow> skeleton (fst (foldl (split_step L) st insts)) = fst (foldl (split_step L) st insts)"
    for st
    by (induction insts arbitrary: st) (auto simp: split_step_def Let_def split_beta skeleton_insert)
  then have "skeleton (fst (foldl (split_step L) ([], [], 0) insts)) = fst (foldl (split_step L) ([], [], 0) insts)"
    by (simp add: skeleton_def)
  then show ?thesis
    using assms
    by (auto simp: split_blocks_def finish_blocks_def split_beta ebind_eq_Inr ok_or_eq_Inr skeleton_insert
        split: if_splits)
qed

end
