(* ===== verification/Hermes_Cfg_Facts.thy ===== *)
theory Hermes_Cfg_Facts
  imports Hermes_Blocks
begin

text \<open>
  The properties of the control flow graph: its blocks are the instructions cut at the leaders,
  its edges are the transfers of control between blocks, its order is a reverse post-order, a
  handler comes after the blocks it covers, and the construction fails only on its handlers.
\<close>

section \<open>Where control goes\<close>

text \<open>The targets of a switch: its default and the cases its table holds in the bytecode.\<close>

definition case_targets ::
  "DecodedInst \<Rightarrow> u8 list \<Rightarrow> (u32 \<times> nat) option \<Rightarrow> nat \<Rightarrow> (u8 list \<Rightarrow> i32) \<Rightarrow> u32 set" where
  "case_targets inst bytecodes table stride entry_rel =
     {t. \<exists>off num j. table = Some (off, num) \<and> j < num
       \<and> unat (di_offset inst) + unat off + j * stride + stride \<le> length bytecodes
       \<and> signed_target (di_offset inst)
           (entry_rel (slice bytecodes (unat (di_offset inst) + unat off + j * stride) stride)) = Some t}"

definition switch_targets :: "u8 list \<Rightarrow> DecodedInst \<Rightarrow> u32 set" where
  "switch_targets bytecodes inst =
     (if di_name inst = ''StringSwitchImm'' then
        set_option (string_switch_default inst)
        \<union> case_targets inst bytecodes (string_switch_table inst) 8 (\<lambda>e. snd (string_entry e))
      else if str_contains (di_name inst) ''SwitchImm'' then
        set_option (int_switch_default inst) \<union> case_targets inst bytecodes (int_switch_table inst) 4 jump_entry
      else {})"

text \<open>Control can go from the instruction to the offset \<open>t\<close>.\<close>

definition flows_to :: "u8 list \<Rightarrow> DecodedInst \<Rightarrow> u32 \<Rightarrow> bool" where
  "flows_to bytecodes inst t \<longleftrightarrow>
     (if is_unconditional_jump inst then branch_target inst = Some t
      else if is_conditional_branch inst then branch_target inst = Some t \<or> inst_next_offset inst = Some t
      else if str_contains (di_name inst) ''SwitchImm'' then t \<in> switch_targets bytecodes inst
      else \<not> is_terminator inst \<and> inst_next_offset inst = Some t)"

text \<open>Where blocks begin.\<close>

definition leaders :: "u8 list \<Rightarrow> DecodedInst list \<Rightarrow> ExcHandler list \<Rightarrow> u32 set" where
  "leaders bytecodes insts handlers =
     {0} \<union> (\<Union>i\<in>set insts. (if is_terminator i then set_option (inst_next_offset i) else {})
                  \<union> set_option (branch_target i) \<union> switch_targets bytecodes i)
     \<union> (\<Union>eh\<in>set handlers. {eh_start eh, eh_end eh, eh_target eh})"

section \<open>The boundaries are the leaders\<close>

lemma table_entries_in:
  assumes "start + n * stride + stride \<le> u64_max" "\<forall>j\<in>set js. j < n"
  shows "table_entries bytecodes start stride js
    = map (\<lambda>j. slice bytecodes (start + j * stride) stride)
        (filter (\<lambda>j. start + j * stride + stride \<le> length bytecodes) js)"
  using assms(2)
proof (induction js)
  case (Cons j js)
  have "j * stride \<le> n * stride" using Cons.prems by simp
  then have "j * stride \<le> u64_max" "start + j * stride \<le> u64_max" "start + j * stride + stride \<le> u64_max"
    using assms(1) by linarith+
  then have "checked_mul64 j stride = Some (j * stride)"
    "checked_add64 start (j * stride) = Some (start + j * stride)"
    "checked_add64 (start + j * stride) stride = Some (start + j * stride + stride)"
    by (simp_all add: checked_mul64_def checked_add64_def)
  then show ?case using Cons by simp
qed simp

lemma table_size:
  "string_switch_table inst = Some (off, num) \<Longrightarrow> num \<le> 65536"
  "int_switch_table inst = Some (off, num) \<Longrightarrow> num \<le> 65536"
  by (auto simp: string_switch_table_def int_switch_table_def split: option.splits)

lemma table_start: "checked_add64 (unat (a :: u32)) (unat (b :: u32)) = Some (unat a + unat b)"
  "table_start_or_0 inst b = unat (di_offset inst) + unat b"
proof -
  have "unat a + unat b \<le> u64_max" for a b :: u32
    using unat_u32 [of a] unat_u32 [of b] by (simp add: u64_max_def)
  then show "checked_add64 (unat a) (unat b) = Some (unat a + unat b)"
    "table_start_or_0 inst b = unat (di_offset inst) + unat b"
    by (simp_all add: checked_add64_def table_start_or_0_def)
qed

lemma table_entries_set:
  assumes "num \<le> 65536" "stride \<le> 8"
  shows "set (table_entries bytecodes (unat (a :: u32) + unat (b :: u32)) stride [0..<num])
    = {slice bytecodes (unat a + unat b + j * stride) stride | j.
        j < num \<and> unat a + unat b + j * stride + stride \<le> length bytecodes}"
proof -
  have "num * stride \<le> 65536 * 8" using assms by (rule mult_le_mono)
  then have "unat a + unat b + num * stride + stride \<le> u64_max"
    using unat_u32 [of a] unat_u32 [of b] assms(2) by (simp add: u64_max_def)
  from table_entries_in [OF this, of "[0..<num]" bytecodes] show ?thesis by auto
qed

lemma in_map_filter: "y \<in> set (List.map_filter f xs) \<longleftrightarrow> (\<exists>x\<in>set xs. f x = Some y)"
  by (force simp: List.map_filter_def)

lemma set_switch_boundaries:
  assumes "\<And>off num. table = Some (off, num) \<Longrightarrow> num \<le> 65536" "stride \<le> 8"
  shows "set (switch_boundaries inst bytecodes default_target table stride entry_rel)
    = set_option default_target \<union> case_targets inst bytecodes table stride entry_rel"
proof (cases table)
  case None
  then show ?thesis
    by (auto simp: switch_boundaries_def case_targets_def split: option.splits)
next
  case (Some x)
  obtain off num where x: "x = (off, num)" by (cases x)
  have "num \<le> 65536" by (rule assms(1)) (simp add: Some x)
  note entries = table_entries_set [OF this assms(2), of bytecodes "di_offset inst" off]
  have "(\<exists>e\<in>set (table_entries bytecodes (unat (di_offset inst) + unat off) stride [0..<num]).
        signed_target (di_offset inst) (entry_rel e) = Some t)
    \<longleftrightarrow> t \<in> case_targets inst bytecodes table stride entry_rel" for t
    unfolding entries
    by (simp add: case_targets_def Some x) blast
  then show ?thesis
    by (auto simp: switch_boundaries_def Some x table_start in_map_filter split: option.splits)
qed

lemma inst_boundaries_targets:
  "inst_boundaries bytecodes inst = Inr bs \<Longrightarrow>
     set bs = (if is_terminator inst then set_option (inst_next_offset inst) else {})
       \<union> set_option (branch_target inst) \<union> switch_targets bytecodes inst"
  by (auto simp: inst_boundaries_def ebind_eq_Inr ok_or_eq_Inr switch_targets_def set_switch_boundaries table_size
      split: option.splits if_splits)

lemma inst_boundaries_total:
  "inst_next_offset inst \<noteq> None \<Longrightarrow> \<exists>bs. inst_boundaries bytecodes inst = Inr bs"
  by (auto simp: inst_boundaries_def)

lemma set_fold_bs_insert: "set (fold bs_insert xs s) = set xs \<union> set s"
  by (induction xs arbitrary: s) auto

lemma boundary_pass_total:
  "\<forall>i\<in>set insts. inst_next_offset i \<noteq> None \<Longrightarrow>
     \<exists>bs. boundary_pass bytecodes insts s = Inr bs
       \<and> set bs = set s \<union> (\<Union>i\<in>set insts. (if is_terminator i then set_option (inst_next_offset i) else {})
                  \<union> set_option (branch_target i) \<union> switch_targets bytecodes i)"
proof (induction insts arbitrary: s)
  case (Cons i insts)
  obtain bs where bs: "inst_boundaries bytecodes i = Inr bs"
    using inst_boundaries_total Cons.prems by force
  obtain r where "boundary_pass bytecodes insts (fold bs_insert bs s) = Inr r"
    "set r = set (fold bs_insert bs s) \<union> (\<Union>i\<in>set insts. (if is_terminator i then set_option (inst_next_offset i) else {})
                  \<union> set_option (branch_target i) \<union> switch_targets bytecodes i)"
    using Cons.IH [of "fold bs_insert bs s"] Cons.prems by auto
  then show ?case
    using bs inst_boundaries_targets [OF bs] by (simp add: set_fold_bs_insert Un_assoc Un_left_commute)
qed simp

lemma set_handler_boundaries:
  "set (handler_boundaries handlers s) = set s \<union> (\<Union>eh\<in>set handlers. {eh_start eh, eh_end eh, eh_target eh})"
  unfolding handler_boundaries_def by (induction handlers arbitrary: s) auto

text \<open>The blocks before their edges.\<close>

lemma split_at_leaders:
  assumes "ordered_insts insts"
  obtains boundaries blocks where "boundary_pass bytecodes insts (bs_insert 0 []) = Inr boundaries"
    "split_blocks (handler_boundaries handlers boundaries) insts = Inr blocks"
    "well_split (leaders bytecodes insts handlers) insts blocks"
proof -
  have next_off: "\<forall>i\<in>set insts. inst_next_offset i \<noteq> None" using assms by (auto simp: ordered_insts_def)
  obtain bs where bs: "boundary_pass bytecodes insts (bs_insert 0 []) = Inr bs"
    "set bs = set (bs_insert 0 []) \<union> (\<Union>i\<in>set insts. (if is_terminator i then set_option (inst_next_offset i) else {})
                  \<union> set_option (branch_target i) \<union> switch_targets bytecodes i)"
    using boundary_pass_total [OF next_off] by blast
  have L: "set (handler_boundaries handlers bs) = leaders bytecodes insts handlers"
    unfolding set_handler_boundaries bs(2) leaders_def by simp
  then have "0 \<in> set (handler_boundaries handlers bs)" by (simp add: leaders_def)
  from split_blocks_ok [OF assms this] bs(1) L that show ?thesis by metis
qed

section \<open>Successors\<close>

lemma string_switch_contains: "str_contains ''StringSwitchImm'' ''SwitchImm''"
  by simp

lemma terminator_cases:
  "is_unconditional_jump i \<Longrightarrow> is_terminator i" "is_conditional_branch i \<Longrightarrow> is_terminator i"
  "str_contains (di_name i) ''SwitchImm'' \<Longrightarrow> is_terminator i" "di_name i = ''StringSwitchImm'' \<Longrightarrow> is_terminator i"
  using string_switch_contains
  by (auto simp: is_unconditional_jump_def is_conditional_branch_def is_terminator_def is_jump_def)

lemma set_push_target: "set (push_target m t ss) = set ss \<union> {k \<in> set (bt_keys m). t = Some k}"
  by (auto simp: push_target_def split: option.splits)

lemma set_push_cases:
  "set (fold (\<lambda>e. push_case m (f e)) es ss) = set ss \<union> {k \<in> set (bt_keys m). \<exists>e\<in>set es. f e = Some k}"
  by (induction es arbitrary: ss) (auto simp: push_case_def split: option.splits)

lemma table_case_targets:
  assumes "\<And>off num. table = Some (off, num) \<Longrightarrow> num \<le> 65536" "stride \<le> 8"
  shows "t \<in> case_targets inst bytecodes table stride rel \<longleftrightarrow>
    (\<exists>e\<in>set (case table of None \<Rightarrow> []
        | Some (off, num) \<Rightarrow> table_entries bytecodes (table_start_or_0 inst off) stride [0..<num]).
      signed_target (di_offset inst) (rel e) = Some t)"
proof (cases table)
  case (Some x)
  obtain off num where x: "x = (off, num)" by (cases x)
  have "num \<le> 65536" by (rule assms(1)) (simp add: Some x)
  note entries = table_entries_set [OF this assms(2), of bytecodes "di_offset inst" off]
  show ?thesis
    unfolding Some x option.case prod.case table_start entries
    by (simp add: case_targets_def Some x) blast
qed (simp add: case_targets_def)

lemma string_switch_set:
  assumes "di_name inst = ''StringSwitchImm''"
  shows "set (fst (string_switch_successors m bytecodes inst))
    = {k \<in> set (bt_keys m). k \<in> switch_targets bytecodes inst}"
proof -
  define es where "es = (case string_switch_table inst of None \<Rightarrow> [] | Some (off, num) \<Rightarrow>
      table_entries bytecodes (table_start_or_0 inst off) 8 [0..<num])"
  have "(case string_switch_table inst of None \<Rightarrow> [] | Some (off, num) \<Rightarrow> map string_entry
      (table_entries bytecodes (table_start_or_0 inst off) 8 [0..<num])) = map string_entry es"
    by (simp add: es_def split: option.split)
  then have "fst (string_switch_successors m bytecodes inst)
    = fold (\<lambda>e. push_case m (signed_target (di_offset inst) (snd (string_entry e)))) es
        (push_target m (string_switch_default inst) [])"
    by (simp add: string_switch_successors_def fold_map o_def split_beta)
  moreover have "t \<in> case_targets inst bytecodes (string_switch_table inst) 8 (\<lambda>e. snd (string_entry e))
      \<longleftrightarrow> (\<exists>e\<in>set es. signed_target (di_offset inst) (snd (string_entry e)) = Some t)" for t
    unfolding es_def by (rule table_case_targets) (simp_all add: table_size(1))
  ultimately show ?thesis
    by (auto simp: set_push_target set_push_cases switch_targets_def assms)
qed

lemma int_switch_set:
  assumes "di_name inst \<noteq> ''StringSwitchImm''" "str_contains (di_name inst) ''SwitchImm''"
  shows "set (int_switch_successors m bytecodes inst)
    = {k \<in> set (bt_keys m). k \<in> switch_targets bytecodes inst}"
proof -
  define es where "es = (case int_switch_table inst of None \<Rightarrow> [] | Some (off, num) \<Rightarrow>
      table_entries bytecodes (table_start_or_0 inst off) 4 [0..<num])"
  have "(case int_switch_table inst of None \<Rightarrow> [] | Some (off, num) \<Rightarrow> map jump_entry
      (table_entries bytecodes (table_start_or_0 inst off) 4 [0..<num])) = map jump_entry es"
    by (simp add: es_def split: option.split)
  then have "int_switch_successors m bytecodes inst
    = fold (\<lambda>e. push_case m (signed_target (di_offset inst) (jump_entry e))) es
        (push_target m (int_switch_default inst) [])"
    by (simp add: int_switch_successors_def fold_map o_def)
  moreover have "t \<in> case_targets inst bytecodes (int_switch_table inst) 4 jump_entry
      \<longleftrightarrow> (\<exists>e\<in>set es. signed_target (di_offset inst) (jump_entry e) = Some t)" for t
    unfolding es_def by (rule table_case_targets) (simp_all add: table_size(2))
  ultimately show ?thesis
    by (auto simp: set_push_target set_push_cases switch_targets_def assms)
qed

lemma set_block_successors:
  "set (fst (block_successors m bytecodes next_id i)) =
     (if is_terminator i then {k \<in> set (bt_keys m). flows_to bytecodes i k} else set_option next_id)"
proof (cases "is_unconditional_jump i \<or> is_conditional_branch i \<or> str_contains (di_name i) ''SwitchImm''")
  case True
  then have ends: "is_terminator i" using terminator_cases by blast
  show ?thesis
    using True string_switch_contains unfolding block_successors_def flows_to_def
    by (auto simp: ends set_push_target string_switch_set int_switch_set split_beta)
next
  case False
  have "is_terminator i \<longleftrightarrow> is_return i \<or> is_throw i \<or> di_name i = ''Unreachable''"
    using False unfolding is_terminator_def is_jump_def is_unconditional_jump_def is_conditional_branch_def by blast
  then show ?thesis
    using False string_switch_contains unfolding block_successors_def flows_to_def
    by (auto split: option.splits)
qed

lemma flows_to_leader:
  "i \<in> set insts \<Longrightarrow> is_terminator i \<Longrightarrow> flows_to bytecodes i t \<Longrightarrow> t \<in> leaders bytecodes insts handlers"
  unfolding flows_to_def leaders_def by (fastforce split: if_splits)

section \<open>Handlers\<close>

definition covers :: "ExcHandler \<Rightarrow> BasicBlock \<Rightarrow> bool" where
  "covers eh b \<longleftrightarrow> eh_start eh \<le> bb_start b \<and> bb_end b \<le> eh_end eh"

text \<open>The last handler of the table that covers a block is the block's handler.\<close>

definition handler_for :: "ExcHandler list \<Rightarrow> BasicBlock \<Rightarrow> BlockId option" where
  "handler_for handlers b = map_option eh_target (find (\<lambda>eh. covers eh b) (rev handlers))"

definition with_handler :: "ExcHandler list \<Rightarrow> BasicBlock \<Rightarrow> BasicBlock" where
  "with_handler handlers b =
     (case handler_for handlers b of None \<Rightarrow> b | Some t \<Rightarrow> b\<lparr>bb_exc_handler := Some t\<rparr>)"

lemma fold_update:
  "distinct ks \<Longrightarrow> fold (\<lambda>k. bt_update k f) ks m = map (\<lambda>(k, b). (k, if k \<in> set ks then f b else b)) m"
proof (induction ks arbitrary: m)
  case (Cons k ks)
  then show ?case by (auto simp: bt_update_def)
qed simp

lemma update_filtered:
  assumes "list_all (\<lambda>(k, b). k = bb_id b) m" "distinct (bt_keys m)"
  shows "fold (\<lambda>k. bt_update k f) (map bb_id (filter P (bt_values m))) m
    = map (\<lambda>(k, b). (k, if P b then f b else b)) m"
proof -
  have ids: "map bb_id (bt_values m) = bt_keys m"
    using assms(1) by (auto simp: bt_values_def bt_keys_def list_all_iff)
  have "distinct (map bb_id (bt_values m))" using assms(2) ids by simp
  then have dist: "distinct (map bb_id (filter P (bt_values m)))" by (rule distinct_map_filter)
  have "k \<in> bb_id ` {b \<in> set (bt_values m). P b} \<longleftrightarrow> P b" if "(k, b) \<in> set m" for k b
  proof -
    have "b \<in> set (bt_values m)" "bb_id b = k"
      using that assms(1) by (force simp: bt_values_def list_all_iff)+
    moreover have "b' = b" if "b' \<in> set (bt_values m)" "bb_id b' = k" for b'
      using that calculation \<open>distinct (map bb_id (bt_values m))\<close> by (auto simp: distinct_map dest: inj_onD)
    ultimately show ?thesis by blast
  qed
  then show ?thesis
    by (auto simp: fold_update [OF dist] intro!: map_cong)
qed

lemma handler_for_Cons:
  "handler_for (eh # ehs) b =
     (case handler_for ehs b of Some t \<Rightarrow> Some t | None \<Rightarrow> if covers eh b then Some (eh_target eh) else None)"
proof -
  have "find P (xs @ [x]) = (case find P xs of Some y \<Rightarrow> Some y | None \<Rightarrow> if P x then Some x else None)"
    for P and xs :: "ExcHandler list" and x
    by (induction xs) auto
  then show ?thesis by (simp add: handler_for_def split: option.splits)
qed

lemma with_handler_Cons:
  "with_handler ehs (if covers eh b then b\<lparr>bb_exc_handler := Some (eh_target eh)\<rparr> else b) = with_handler (eh # ehs) b"
proof -
  have "handler_for ehs (b\<lparr>bb_exc_handler := h\<rparr>) = handler_for ehs b" for h
    by (simp add: handler_for_def covers_def)
  then show ?thesis by (auto simp: with_handler_def handler_for_Cons split: option.splits)
qed

lemma with_handler_bare [simp]:
  "bare (with_handler ehs b) = bare b" "bb_id (with_handler ehs b) = bb_id b"
  "bb_successors (with_handler ehs b) = bb_successors b" "bb_predecessors (with_handler ehs b) = bb_predecessors b"
  by (simp_all add: with_handler_def split: option.split)

definition bad_handler :: "blocks \<Rightarrow> ExcHandler list \<Rightarrow> ExcHandler option" where
  "bad_handler m handlers = find (\<lambda>eh. eh_target eh \<notin> set (bt_keys m)) handlers"

lemma map_handlers_eq:
  "list_all (\<lambda>(k, b). k = bb_id b) m \<Longrightarrow> distinct (bt_keys m) \<Longrightarrow>
     map_handlers handlers m = (case bad_handler m handlers of
       Some eh \<Rightarrow> Inl (InvalidExceptionHandlerTarget (eh_target eh))
     | None \<Rightarrow> Inr (map (\<lambda>(k, b). (k, with_handler handlers b)) m))"
proof (induction handlers arbitrary: m)
  case Nil
  then show ?case by (simp add: bad_handler_def with_handler_def handler_for_def)
next
  case (Cons eh ehs)
  define m' where "m' = map (\<lambda>(k, b). (k, if covers eh b then b\<lparr>bb_exc_handler := Some (eh_target eh)\<rparr> else b)) m"
  have upd: "fold (\<lambda>bid. bt_update bid (\<lambda>b. b\<lparr>bb_exc_handler := Some (eh_target eh)\<rparr>))
      (map bb_id (filter (\<lambda>b. eh_start eh \<le> bb_start b \<and> bb_end b \<le> eh_end eh) (bt_values m))) m = m'"
    unfolding m'_def covers_def by (rule update_filtered [OF Cons.prems])
  have keys: "bt_keys m' = bt_keys m" by (simp add: m'_def bt_keys_def split_beta)
  moreover have "list_all (\<lambda>(k, b). k = bb_id b) m'"
    using Cons.prems(1) by (auto simp: m'_def list_all_iff)
  moreover have "map (\<lambda>(k, b). (k, with_handler ehs b)) m' = map (\<lambda>(k, b). (k, with_handler (eh # ehs) b)) m"
    using with_handler_Cons by (auto simp: m'_def)
  ultimately show ?case
    using Cons.IH [of m'] Cons.prems(2) upd
    by (simp add: Let_def bad_handler_def split: option.split)
qed

text \<open>The graph before its handlers.\<close>

definition graph_of :: "u8 list \<Rightarrow> blocks \<Rightarrow> blocks" where
  "graph_of bytecodes m = add_predecessors (add_edges bytecodes (bt_keys m) m)"

lemma skeleton_graph: "skeleton (graph_of bytecodes m) = skeleton m"
  by (simp add: graph_of_def skeleton_add_predecessors skeleton_add_edges)

lemma well_split_graph: "well_split L insts (graph_of bytecodes m) \<longleftrightarrow> well_split L insts m"
  by (metis skeleton_graph well_split_skeleton)

lemma well_split_handlers:
  "well_split L insts (map (\<lambda>(k, b). (k, with_handler handlers b)) m) \<longleftrightarrow> well_split L insts m"
proof -
  have "skeleton (map (\<lambda>(k, b). (k, with_handler handlers b)) m) = skeleton m"
    by (simp add: skeleton_def split_beta)
  then show ?thesis by (metis well_split_skeleton)
qed

lemma well_splitD:
  assumes "well_split L insts m" "ordered_insts insts"
  shows "bt_ok m" "distinct (bt_keys m)" "list_all (\<lambda>(k, b). k = bb_id b) m"
    "set (bt_keys m) = offsets insts \<inter> L"
proof -
  have keys: "bt_keys m = map di_offset (filter (\<lambda>i. di_offset i \<in> L) insts)"
    using assms(1) by (simp add: well_split_def)
  show ok: "bt_ok m"
    unfolding bt_ok_def keys using assms(2)
    by (auto simp: ordered_insts_def sorted_wrt_map intro: sorted_wrt_filter)
  show "distinct (bt_keys m)" using ok by (rule bt_ok_distinct)
  show "list_all (\<lambda>(k, b). k = bb_id b) m" using assms(1) by (auto simp: well_split_def list_all_iff)
  show "set (bt_keys m) = offsets insts \<inter> L" unfolding keys by auto
qed

section \<open>The finished graph\<close>

text \<open>The blocks with their edges and handlers, from which the order is computed.\<close>

definition finished :: "u8 list \<Rightarrow> DecodedInst list \<Rightarrow> ExcHandler list \<Rightarrow> blocks \<Rightarrow> bool" where
  "finished bytecodes insts handlers blocks \<longleftrightarrow>
     (\<exists>m. well_split (leaders bytecodes insts handlers) insts m \<and> skeleton m = m
       \<and> blocks = map (\<lambda>(k, b). (k, with_handler handlers b)) (graph_of bytecodes m))"

lemma handler_targets:
  assumes "ordered_insts insts" "well_split (leaders bytecodes insts handlers) insts m"
  shows "bad_handler m handlers = find (\<lambda>eh. eh_target eh \<notin> offsets insts) handlers"
proof -
  have "eh_target eh \<in> set (bt_keys m) \<longleftrightarrow> eh_target eh \<in> offsets insts" if "eh \<in> set handlers" for eh
    using that well_splitD(4) [OF assms(2,1)] by (auto simp: leaders_def)
  then show ?thesis
    unfolding bad_handler_def by (intro find_cong) auto
qed

lemma cfg_build_finished:
  assumes "ordered_insts insts" "insts \<noteq> []"
  obtains blocks where "finished bytecodes insts handlers blocks"
    "cfg_build insts handlers bytecodes = (case find (\<lambda>eh. eh_target eh \<notin> offsets insts) handlers of
       Some eh \<Rightarrow> Inl (InvalidExceptionHandlerTarget (eh_target eh))
     | None \<Rightarrow> cfg_of_blocks blocks)"
proof -
  obtain bs m where m: "boundary_pass bytecodes insts (bs_insert 0 []) = Inr bs"
    "split_blocks (handler_boundaries handlers bs) insts = Inr m"
    "well_split (leaders bytecodes insts handlers) insts m"
    by (rule split_at_leaders [OF assms(1)])
  have g: "well_split (leaders bytecodes insts handlers) insts (graph_of bytecodes m)"
    using m(3) by (simp add: well_split_graph)
  have "bt_keys (graph_of bytecodes m) = bt_keys m" by (rule keys_of_skeleton) (rule skeleton_graph)
  then have bad: "bad_handler (graph_of bytecodes m) handlers = find (\<lambda>eh. eh_target eh \<notin> offsets insts) handlers"
    using handler_targets [OF assms(1) m(3)] by (simp add: bad_handler_def)
  have "finished bytecodes insts handlers (map (\<lambda>(k, b). (k, with_handler handlers b)) (graph_of bytecodes m))"
    using m(3) skeleton_split [OF m(2)] unfolding finished_def by blast
  moreover have "cfg_build insts handlers bytecodes = (case find (\<lambda>eh. eh_target eh \<notin> offsets insts) handlers of
       Some eh \<Rightarrow> Inl (InvalidExceptionHandlerTarget (eh_target eh))
     | None \<Rightarrow> cfg_of_blocks (map (\<lambda>(k, b). (k, with_handler handlers b)) (graph_of bytecodes m)))"
    using m(1,2) assms(2) map_handlers_eq [OF well_splitD(3,2) [OF g assms(1)], of handlers]
    by (simp add: cfg_build_def Let_def bad flip: graph_of_def split: option.split)
  ultimately show ?thesis by (rule that)
qed

lemma finished_split:
  assumes "finished bytecodes insts handlers blocks"
  shows "well_split (leaders bytecodes insts handlers) insts blocks"
  using assms by (auto simp: finished_def well_split_handlers well_split_graph)

lemma bt_get_map: "bt_get (map (\<lambda>(k, b). (k, f b)) m) k = map_option f (bt_get m k)"
  by (induction m) (auto simp: bt_get_def)

lemma filter_singleton: "n \<in> S \<Longrightarrow> n = e \<Longrightarrow> {t \<in> S. e = t} = {n}"
  by blast

lemma get_block:
  assumes "ordered_insts insts" "well_split L insts m" "bt_get m k = Some b"
  shows "k = bb_id b" "block_ok L b" "b \<in> set (bt_values m)" "set (bb_instructions b) \<subseteq> set insts"
    "bb_instructions b \<noteq> []" "last (bb_instructions b) \<in> set insts"
proof -
  have "(k, b) \<in> set m" using assms(3) bt_mem [OF well_splitD(1) [OF assms(2,1)]] by simp
  then show v: "k = bb_id b" "block_ok L b" "b \<in> set (bt_values m)"
    using assms(2) by (force simp: bt_values_def well_split_def list_all_iff)+
  have "insts = concat (map bb_instructions (bt_values m))" using assms(2) by (simp add: well_split_def)
  then show sub: "set (bb_instructions b) \<subseteq> set insts" using v(3) by auto
  show "bb_instructions b \<noteq> []" using v(2) by (simp add: block_ok_def)
  then show "last (bb_instructions b) \<in> set insts" using sub by auto
qed

text \<open>Control that falls through reaches the next block.\<close>

lemma next_block:
  assumes "ordered_insts insts" "well_split L insts m" "bt_keys m = xs @ k # ys" "bt_get m k = Some b"
  shows "set_option (case ys of [] \<Rightarrow> None | n # _ \<Rightarrow> Some n)
    = {t \<in> offsets insts. inst_next_offset (last (bb_instructions b)) = Some t}"
proof -
  have kb: "(k, b) \<in> set m" using assms(4) bt_mem [OF well_splitD(1) [OF assms(2,1)]] by simp
  obtain m1 b1 m2 where m: "m = m1 @ (k, b1) # m2" "map fst m1 = xs" "map fst m2 = ys"
    using assms(3) by (auto simp: bt_keys_def map_eq_append_conv map_eq_Cons_conv)
  have "b1 = b" using kb m(1) well_splitD(2) [OF assms(2,1)] by (auto simp: bt_keys_def image_iff)
  then have ok: "inst_next_offset (last (bb_instructions b)) = Some (bb_end b)" "bb_instructions b \<noteq> []"
    using assms(2) m(1) by (auto simp: well_split_def block_ok_def)
  show ?thesis
  proof (cases m2)
    case Nil
    then have "insts = concat (map bb_instructions (bt_values m1)) @ bb_instructions b"
      using assms(2) m(1) \<open>b1 = b\<close> by (simp add: well_split_def bt_values_def)
    then have "insts \<noteq> []" and last: "last insts = last (bb_instructions b)" using ok(2) by simp_all
    then have "di_offset i \<le> di_offset (last insts)" if "i \<in> set insts" for i
      using that assms(1) by (cases insts rule: rev_cases) (auto simp: ordered_insts_def sorted_wrt_append)
    moreover have "di_offset (last insts) < bb_end b"
      using assms(1) \<open>insts \<noteq> []\<close> ok(1) last last_in_set [of insts] by (fastforce simp: ordered_insts_def)
    ultimately show ?thesis using Nil m(3) ok(1) by fastforce
  next
    case (Cons y m3)
    obtain n b2 where y: "y = (n, b2)" by (cases y)
    have "n \<in> set (bt_keys m)" by (simp add: m(1) Cons y bt_keys_def)
    then have "n \<in> offsets insts" using well_splitD(4) [OF assms(2,1)] by blast
    moreover have "n = bb_end b"
      using assms(2) m(1) Cons y \<open>b1 = b\<close>
      by (auto simp: well_split_def block_ok_def bt_values_def successively_append_iff)
    ultimately have "{t \<in> offsets insts. bb_end b = t} = {n}" by (rule filter_singleton)
    then show ?thesis using Cons y ok(1) by (simp flip: m(3))
  qed
qed

lemma graph_get:
  assumes "ordered_insts insts" "well_split L insts m" "skeleton m = m"
    "bt_get (graph_of bytecodes m) k = Some b"
  obtains b0 xs ys where "bt_get m k = Some b0" "bare b = b0" "bt_keys m = xs @ k # ys"
    "bb_exc_handler b = None"
    "bb_successors b = fst (block_successors m bytecodes (case ys of [] \<Rightarrow> None | n # _ \<Rightarrow> Some n)
       (last (bb_instructions b)))"
    "bb_predecessors b = map fst (filter (\<lambda>(a, t). t = k) (cfg_edges (add_edges bytecodes (bt_keys m) m)))"
proof -
  have sk: "map_option bare (bt_get (graph_of bytecodes m) k) = bt_get m k"
    using skeleton_graph [of bytecodes m] assms(3) by (metis skeleton_get)
  then have b0: "bt_get m k = Some (bare b)" using assms(4) by simp
  then have "k \<in> set (bt_keys m)" by (simp add: bt_get_keys)
  then obtain xs ys where keys: "bt_keys m = xs @ k # ys" by (meson split_list)
  from add_edges_get [OF keys well_splitD(2) [OF assms(2,1)] b0 get_block(5) [OF assms(1,2) b0], of bytecodes]
  obtain b' where b': "bt_get (add_edges bytecodes (bt_keys m) m) k = Some b'"
    "bb_successors b' = fst (block_successors m bytecodes (case ys of [] \<Rightarrow> None | n # _ \<Rightarrow> Some n)
       (last (bb_instructions b)))" "bb_predecessors b' = []" "bb_exc_handler b' = None"
    by (auto simp: bare_def)
  have "b = b'\<lparr>bb_predecessors := bb_predecessors b' @
      map fst (filter (\<lambda>(a, t). t = k) (cfg_edges (add_edges bytecodes (bt_keys m) m)))\<rparr>"
    using assms(4) b'(1) by (simp add: graph_of_def add_predecessors_get)
  then show ?thesis using b'(2-4) by (intro that [OF b0 refl keys]) simp_all
qed

lemma set_successors:
  assumes "ordered_insts insts" "well_split (leaders bytecodes insts handlers) insts m" "skeleton m = m"
    "bt_get (graph_of bytecodes m) k = Some b"
  shows "set (bb_successors b) = {t \<in> offsets insts. flows_to bytecodes (last (bb_instructions b)) t}"
    "set (bb_successors b) \<subseteq> set (bt_keys m)"
proof -
  obtain b0 xs ys where b: "bt_get m k = Some b0" "bare b = b0" "bt_keys m = xs @ k # ys"
    "bb_successors b = fst (block_successors m bytecodes (case ys of [] \<Rightarrow> None | n # _ \<Rightarrow> Some n)
       (last (bb_instructions b)))"
    by (rule graph_get [OF assms])
  have insts: "bb_instructions b0 = bb_instructions b" using b(2) by auto
  have last: "last (bb_instructions b) \<in> set insts"
    using get_block(6) [OF assms(1,2) b(1)] insts by simp
  show "set (bb_successors b) \<subseteq> set (bt_keys m)"
    by (auto simp: b(3,4) set_block_successors split: list.splits if_splits)
  show "set (bb_successors b) = {t \<in> offsets insts. flows_to bytecodes (last (bb_instructions b)) t}"
  proof (cases "is_terminator (last (bb_instructions b))")
    case True
    then show ?thesis
      using flows_to_leader [OF last True] well_splitD(4) [OF assms(2,1)] by (auto simp: b(4) set_block_successors)
  next
    case False
    then have "flows_to bytecodes (last (bb_instructions b)) t \<longleftrightarrow> inst_next_offset (last (bb_instructions b)) = Some t" for t
      using terminator_cases by (auto simp: flows_to_def)
    then show ?thesis
      using next_block [OF assms(1,2) b(3,1)] False insts by (simp add: b(4) set_block_successors)
  qed
qed

lemma count_edges:
  "distinct (map bb_id bs) \<Longrightarrow>
     count_list (map fst (filter (\<lambda>(a, t). t = k) (concat (map (\<lambda>b. map (\<lambda>s. (bb_id b, s)) (bb_successors b)) bs)))) a
     = (case find (\<lambda>b. bb_id b = a) bs of None \<Rightarrow> 0 | Some b \<Rightarrow> count_list (bb_successors b) k)"
proof (induction bs)
  case (Cons b bs)
  have one: "count_list (map fst (filter (\<lambda>(a, t). t = k) (map (\<lambda>s. (bb_id b, s)) ss))) a
      = (if bb_id b = a then count_list ss k else 0)" for ss
    by (induction ss) auto
  have "find (\<lambda>b. bb_id b = a) bs = None" if "bb_id b = a"
    using Cons.prems that unfolding find_None_iff by (auto simp: image_iff)
  then show ?case using Cons by (auto simp: one)
qed simp

lemma find_id:
  "list_all (\<lambda>(k, b). k = bb_id b) m \<Longrightarrow> find (\<lambda>b. bb_id b = a) (bt_values m) = bt_get m a"
  by (induction m) (auto simp: bt_values_def bt_get_def)

lemma edges_symmetric:
  assumes "ordered_insts insts" "well_split (leaders bytecodes insts handlers) insts m" "skeleton m = m"
    "bt_get (graph_of bytecodes m) k = Some b"
  shows "count_list (bb_predecessors b) a
    = (case bt_get (graph_of bytecodes m) a of None \<Rightarrow> 0 | Some c \<Rightarrow> count_list (bb_successors c) k)"
proof -
  let ?e = "add_edges bytecodes (bt_keys m) m"
  have "well_split (leaders bytecodes insts handlers) insts ?e"
    using assms(2) well_split_skeleton skeleton_add_edges by metis
  note e = well_splitD [OF this assms(1)]
  have ids: "map bb_id (bt_values ?e) = bt_keys ?e"
    using e(3) by (auto simp: bt_values_def bt_keys_def list_all_iff)
  have "bb_predecessors b = map fst (filter (\<lambda>(a, t). t = k) (cfg_edges ?e))"
    by (rule graph_get [OF assms])
  then have "count_list (bb_predecessors b) a
    = (case bt_get ?e a of None \<Rightarrow> 0 | Some b \<Rightarrow> count_list (bb_successors b) k)"
    using e(2) by (simp add: cfg_edges_def count_edges ids find_id [OF e(3)])
  then show ?thesis
    by (simp add: graph_of_def add_predecessors_get split: option.split)
qed

end
