(* ===== verification/Hermes_Cfg_Correct.thy ===== *)
theory Hermes_Cfg_Correct
  imports Hermes_Cfg_Facts
begin

text \<open>
  The theorems on \<open>Cfg::build\<close> for the instructions of a decoded function: the blocks partition
  them, the edges are the transfers of control, the block order is a reverse post-order that
  keeps every handler after the blocks it covers, and a build fails only on its handlers.
\<close>

section \<open>Positions in the order\<close>

definition before :: "'a list \<Rightarrow> 'a \<Rightarrow> 'a \<Rightarrow> bool" where
  "before xs a b \<longleftrightarrow> (\<exists>us vs ws. xs = us @ a # vs @ b # ws)"

lemma position_None: "position x xs = None \<longleftrightarrow> x \<notin> set xs"
  by (induction xs) (auto split: option.splits)

lemma position_SomeD: "position x xs = Some i \<Longrightarrow> i < length xs \<and> xs ! i = x"
  by (induction xs arbitrary: i) (auto split: option.splits if_splits)

lemma position_Some:
  assumes "distinct xs"
  shows "position x xs = Some i \<longleftrightarrow> i < length xs \<and> xs ! i = x"
proof
  assume i: "i < length xs \<and> xs ! i = x"
  then obtain j where j: "position x xs = Some j" using position_None [of x xs] nth_mem by force
  then show "position x xs = Some i"
    using position_SomeD [OF j] i nth_eq_iff_index_eq [OF assms] by auto
qed (rule position_SomeD)

lemma before_position:
  assumes "distinct xs" "position a xs = Some i" "position b xs = Some j"
  shows "before xs a b \<longleftrightarrow> i < j"
proof
  note i = assms(2) [unfolded position_Some [OF assms(1)]] and j = assms(3) [unfolded position_Some [OF assms(1)]]
  show "i < j" if ab: "before xs a b"
  proof -
    obtain us vs ws where xs: "xs = us @ a # vs @ b # ws" using ab by (auto simp: before_def)
    have "position a xs = Some (length us)" "position b xs = Some (length us + 1 + length vs)"
      unfolding position_Some [OF assms(1)] by (simp_all add: xs nth_append)
    then show ?thesis using assms(2,3) by simp
  qed
  show "before xs a b" if "i < j"
  proof -
    have "xs = take i xs @ a # drop (Suc i) xs" using i by (metis id_take_nth_drop)
    moreover have "drop (Suc i) xs ! (j - Suc i) = b" "j - Suc i < length (drop (Suc i) xs)" using that j by auto
    then have "b \<in> set (drop (Suc i) xs)" by (metis nth_mem)
    then obtain vs ws where "drop (Suc i) xs = vs @ b # ws" by (meson split_list)
    ultimately show ?thesis unfolding before_def by metis
  qed
qed

lemma before_append: "a \<in> set xs \<Longrightarrow> b \<in> set ys \<Longrightarrow> before (xs @ ys) a b"
proof -
  assume "a \<in> set xs" "b \<in> set ys"
  then obtain us vs us' vs' where "xs = us @ a # vs" "ys = us' @ b # vs'" by (meson split_list)
  then have "xs @ ys = us @ a # (vs @ us') @ b # vs'" by simp
  then show ?thesis unfolding before_def by blast
qed

lemma before_appendL: "before xs a b \<Longrightarrow> before (xs @ ys) a b"
  unfolding before_def by fastforce

definition misplaced :: "BlockId list \<Rightarrow> BasicBlock \<Rightarrow> bool" where
  "misplaced order b \<longleftrightarrow> (case bb_exc_handler b of None \<Rightarrow> False | Some c \<Rightarrow> \<not> before order (bb_id b) c)"

lemma check_layout_eq:
  assumes "distinct order"
    "\<forall>b\<in>set bs. bb_id b \<in> set order \<and> (\<forall>c. bb_exc_handler b = Some c \<longrightarrow> c \<in> set order)"
  shows "check_layout order bs = (case find (misplaced order) bs of
      None \<Rightarrow> Inr () | Some b \<Rightarrow> Inl (InvalidExceptionLayout (the (bb_exc_handler b)) (bb_id b)))"
  using assms(2)
proof (induction bs)
  case (Cons b bs)
  show ?case
  proof (cases "bb_exc_handler b")
    case (Some c)
    obtain i j where "position (bb_id b) order = Some i" "position c order = Some j"
      using Cons.prems Some position_None by (metis list.set_intros(1) option.exhaust)
    then show ?thesis
      using Cons Some before_position [OF assms(1)] by (auto simp: misplaced_def Let_def)
  qed (use Cons in \<open>simp add: misplaced_def\<close>)
qed simp

lemma exc_predecessors_list:
  "bt_list (exc_predecessors m) c = map bb_id (filter (\<lambda>b. bb_exc_handler b = Some c) (bt_values m))"
proof -
  have "bt_list (fold (\<lambda>b e. case bb_exc_handler b of None \<Rightarrow> e | Some k \<Rightarrow> bt_push k (bb_id b) e) bs e) c
      = bt_list e c @ map bb_id (filter (\<lambda>b. bb_exc_handler b = Some c) bs)" for bs e
    by (induction bs arbitrary: e) (auto simp: bt_list_def bt_get_push split: option.splits)
  from this [of "bt_values m" "[]"] show ?thesis
    by (simp add: exc_predecessors_def) (simp add: bt_list_def bt_get_def)
qed

lemma handler_forD: "handler_for handlers b = Some t \<Longrightarrow> \<exists>eh\<in>set handlers. eh_target eh = t \<and> covers eh b"
proof (induction handlers)
  case (Cons eh ehs)
  then show ?case by (auto simp: handler_for_Cons split: option.splits if_splits)
qed (simp add: handler_for_def)

section \<open>The order of a finished graph\<close>

lemma rev_post_before:
  assumes "post_ordered blocks P" "a \<in> set P" "b \<in> set P" "edge blocks a b" "\<not> reaches blocks b a"
  shows "before (rev P) a b"
proof -
  obtain xs ys where P: "P = xs @ a # ys" using assms(2) by (meson split_list)
  then have "b \<in> set xs" using assms(1,4,5) by (auto simp: post_ordered_def)
  then have "before ((rev ys @ [a]) @ rev xs) a b" by (intro before_append) auto
  then show ?thesis by (simp add: P)
qed

lemma order_facts:
  assumes "entry \<in> set (bt_keys m)" "\<forall>k b. bt_get m k = Some b \<longrightarrow> set (bb_successors b) \<subseteq> set (bt_keys m)" "bt_ok m"
  defines "order \<equiv> reverse_post_order m entry"
  shows "distinct order" "set order = set (bt_keys m)" "hd order = entry" "order \<noteq> []"
    "\<exists>rest. order = filter (reaches m entry) order @ rest \<and> sorted rest
       \<and> set rest = {k \<in> set (bt_keys m). \<not> reaches m entry k}"
    "\<And>a b. reaches m entry a \<Longrightarrow> edge m a b \<Longrightarrow> \<not> reaches m b a \<Longrightarrow> before order a b"
proof -
  obtain V P where VP: "dfs m [(entry, False)] [] [] = (V, P)" by (cases "dfs m [(entry, False)] [] []")
  note d = dfs_reachable [OF VP]
  define rest where "rest = filter (\<lambda>k. k \<notin> set V) (bt_keys m)"
  have order: "order = rev P @ rest" by (simp add: order_def reverse_post_order_def VP rest_def del: dfs.simps)
  have keys: "k \<in> set (bt_keys m)" if "reaches m entry k" for k
    using that
  proof induction
    case (step b c)
    then show ?case using assms(2) by (cases "bt_get m b") (auto simp: successors_of_def)
  qed (rule assms(1))
  have V: "set V \<subseteq> set (bt_keys m)" using keys d(1) by auto
  show "distinct order" using d(2,3) bt_ok_distinct [OF assms(3)] by (auto simp: order rest_def)
  show "set order = set (bt_keys m)" using d(2) V by (auto simp: order rest_def)
  show "hd order = entry" "order \<noteq> []" using d(4,5) by (simp_all add: order hd_rev)
  have "filter (reaches m entry) (rev P) = rev P" "filter (reaches m entry) rest = []"
    using d(1,2) by (auto simp: filter_id_conv filter_empty_conv rest_def)
  then show "\<exists>rest. order = filter (reaches m entry) order @ rest \<and> sorted rest
       \<and> set rest = {k \<in> set (bt_keys m). \<not> reaches m entry k}"
    using bt_ok_sorted [OF assms(3)] d(1)
    by (intro exI [of _ rest]) (auto simp: order rest_def sorted_filter [of id, simplified])
  show "before order a b" if "reaches m entry a" "edge m a b" "\<not> reaches m b a" for a b
  proof -
    have "a \<in> set P" "b \<in> set P" using that(1) reaches_edge [OF that(1,2)] d(1,2) by auto
    then show ?thesis
      using rev_post_before [OF d(6) _ _ that(2,3)] by (simp add: order before_appendL)
  qed
qed

text \<open>What a finished graph is, and what is built from it.\<close>

text \<open>
  What the blocks are whether or not the build goes on to check the handlers: the instructions cut
  at the leaders, with the transfers of control as edges and the last covering handler of each.
\<close>

definition graph_spec :: "u8 list \<Rightarrow> DecodedInst list \<Rightarrow> ExcHandler list \<Rightarrow> blocks \<Rightarrow> bool" where
  "graph_spec bytecodes insts handlers blocks \<longleftrightarrow> well_split (leaders bytecodes insts handlers) insts blocks
     \<and> (\<forall>k b. bt_get blocks k = Some b \<longrightarrow>
          set (bb_successors b) = {t \<in> offsets insts. flows_to bytecodes (last (bb_instructions b)) t}
          \<and> bb_exc_handler b = handler_for handlers b)"

lemma finished_blocks:
  assumes "ordered_insts insts" "insts \<noteq> []" "finished bytecodes insts handlers blocks"
  shows "bt_ok blocks" "0 \<in> set (bt_keys blocks)" "hd (bt_keys blocks) = 0" "bt_keys blocks \<noteq> []"
    "set (bt_keys blocks) = offsets insts \<inter> leaders bytecodes insts handlers"
    "graph_spec bytecodes insts handlers blocks"
    "\<And>k b. bt_get blocks k = Some b \<Longrightarrow> set (bb_successors b) \<subseteq> set (bt_keys blocks)
       \<and> (\<forall>a. count_list (bb_predecessors b) a
            = (case bt_get blocks a of None \<Rightarrow> 0 | Some c \<Rightarrow> count_list (bb_successors c) k))"
proof -
  let ?L = "leaders bytecodes insts handlers"
  obtain m where m: "well_split ?L insts m" "skeleton m = m"
    "blocks = map (\<lambda>(k, b). (k, with_handler handlers b)) (graph_of bytecodes m)"
    using assms(3) by (auto simp: finished_def)
  note ws = finished_split [OF assms(3)]
  note facts = well_splitD [OF ws assms(1)]
  show "bt_ok blocks" by (rule facts(1))
  show keys: "set (bt_keys blocks) = offsets insts \<inter> ?L" by (rule facts(4))
  obtain i insts' where i: "insts = i # insts'" "di_offset i = 0" using assms(1,2) by (cases insts) (auto simp: ordered_insts_def)
  have "0 \<in> ?L" by (simp add: leaders_def)
  then have "bt_keys blocks = 0 # map di_offset (filter (\<lambda>i. di_offset i \<in> ?L) insts')"
    using ws i by (simp add: well_split_def)
  then show "0 \<in> set (bt_keys blocks)" "hd (bt_keys blocks) = 0" "bt_keys blocks \<noteq> []" by simp_all
  have block: "set (bb_successors b) = {t \<in> offsets insts. flows_to bytecodes (last (bb_instructions b)) t}
      \<and> bb_exc_handler b = handler_for handlers b \<and> set (bb_successors b) \<subseteq> set (bt_keys blocks)
      \<and> (\<forall>a. count_list (bb_predecessors b) a
            = (case bt_get blocks a of None \<Rightarrow> 0 | Some c \<Rightarrow> count_list (bb_successors c) k))"
    if b: "bt_get blocks k = Some b" for k b
  proof -
    obtain b0 where b0: "bt_get (graph_of bytecodes m) k = Some b0" "b = with_handler handlers b0"
      using b by (auto simp: m(3) bt_get_map)
    have insts: "bb_instructions b = bb_instructions b0" unfolding b0(2)
      by (simp add: with_handler_def split: option.split)
    have none: "bb_exc_handler b0 = None" by (rule graph_get [OF assms(1) m(1,2) b0(1)])
    have "set (bb_successors b) = {t \<in> offsets insts. flows_to bytecodes (last (bb_instructions b)) t}"
      using set_successors [OF assms(1) m(1,2) b0(1)] insts b0(2) by simp
    moreover have "set (bb_successors b) \<subseteq> set (bt_keys blocks)"
      using set_successors(2) [OF assms(1) m(1,2) b0(1)] b0(2) keys well_splitD(4) [OF m(1) assms(1)] by simp
    moreover have "count_list (bb_predecessors b) a
        = (case bt_get blocks a of None \<Rightarrow> 0 | Some c \<Rightarrow> count_list (bb_successors c) k)" for a
      using edges_symmetric [OF assms(1) m(1,2) b0(1), of a] b0(2)
      by (simp add: m(3) bt_get_map split: option.split)
    moreover have "bb_exc_handler b = handler_for handlers b"
      using none by (simp add: b0(2) with_handler_def handler_for_def covers_def split: option.split)
    ultimately show ?thesis by blast
  qed
  show "graph_spec bytecodes insts handlers blocks"
    using ws block by (simp add: graph_spec_def)
  show "set (bb_successors b) \<subseteq> set (bt_keys blocks)
       \<and> (\<forall>a. count_list (bb_predecessors b) a
            = (case bt_get blocks a of None \<Rightarrow> 0 | Some c \<Rightarrow> count_list (bb_successors c) k))"
    if "bt_get blocks k = Some b" for k b
    using block [OF that] by blast
qed

lemma finished_graph:
  assumes "ordered_insts insts" "insts \<noteq> []" "finished bytecodes insts handlers blocks"
    "find (\<lambda>eh. eh_target eh \<notin> offsets insts) handlers = None"
  shows "bt_ok blocks" "0 \<in> set (bt_keys blocks)" "hd (bt_keys blocks) = 0" "bt_keys blocks \<noteq> []"
    "\<And>k b. bt_get blocks k = Some b \<Longrightarrow>
       set (bb_successors b) = {t \<in> offsets insts. flows_to bytecodes (last (bb_instructions b)) t}
       \<and> set (bb_successors b) \<subseteq> set (bt_keys blocks)
       \<and> (\<forall>a. count_list (bb_predecessors b) a
            = (case bt_get blocks a of None \<Rightarrow> 0 | Some c \<Rightarrow> count_list (bb_successors c) k))
       \<and> bb_exc_handler b = handler_for handlers b
       \<and> (\<forall>c. bb_exc_handler b = Some c \<longrightarrow> c \<in> set (bt_keys blocks))"
proof -
  note f = finished_blocks [OF assms(1-3)]
  show "bt_ok blocks" "0 \<in> set (bt_keys blocks)" "hd (bt_keys blocks) = 0" "bt_keys blocks \<noteq> []"
    by (rule f(1-4))+
  fix k b assume b: "bt_get blocks k = Some b"
  have exc: "bb_exc_handler b = handler_for handlers b" using f(6) b by (simp add: graph_spec_def)
  have "c \<in> set (bt_keys blocks)" if c: "bb_exc_handler b = Some c" for c
  proof -
    obtain eh where "eh \<in> set handlers" "eh_target eh = c"
      using handler_forD [of handlers b c] c exc by auto
    then show ?thesis using assms(4) f(5) by (auto simp: find_None_iff leaders_def)
  qed
  then show "set (bb_successors b) = {t \<in> offsets insts. flows_to bytecodes (last (bb_instructions b)) t}
       \<and> set (bb_successors b) \<subseteq> set (bt_keys blocks)
       \<and> (\<forall>a. count_list (bb_predecessors b) a
            = (case bt_get blocks a of None \<Rightarrow> 0 | Some c \<Rightarrow> count_list (bb_successors c) k))
       \<and> bb_exc_handler b = handler_for handlers b
       \<and> (\<forall>c. bb_exc_handler b = Some c \<longrightarrow> c \<in> set (bt_keys blocks))"
    using f(7) [OF b] f(6) b exc by (simp add: graph_spec_def)
qed

text \<open>
  A reverse post-order of the blocks: the entry first, what it reaches before the rest, which
  keeps the order of its offsets, and a block before each successor that does not lead back.
\<close>

definition rpo_of :: "blocks \<Rightarrow> BlockId \<Rightarrow> BlockId list \<Rightarrow> bool" where
  "rpo_of blocks entry order \<longleftrightarrow> distinct order \<and> set order = set (bt_keys blocks) \<and> hd order = entry
     \<and> (\<exists>rest. order = filter (reaches blocks entry) order @ rest \<and> sorted rest
          \<and> (\<forall>k\<in>set rest. \<not> reaches blocks entry k))
     \<and> (\<forall>a b. reaches blocks entry a \<and> edge blocks a b \<and> \<not> reaches blocks b a \<longrightarrow> before order a b)"

lemma finished_rpo:
  assumes "ordered_insts insts" "insts \<noteq> []" "finished bytecodes insts handlers blocks"
  shows "rpo_of blocks 0 (reverse_post_order blocks 0)"
proof -
  note f = finished_blocks [OF assms]
  have "\<forall>k b. bt_get blocks k = Some b \<longrightarrow> set (bb_successors b) \<subseteq> set (bt_keys blocks)"
    using f(7) by blast
  note o = order_facts [OF f(2) this f(1)]
  show ?thesis unfolding rpo_of_def using o(1-3) o(5,6) by auto
qed

text \<open>A build that succeeds, and one that fails.\<close>

lemma cfg_of_finished:
  assumes "ordered_insts insts" "insts \<noteq> []" "finished bytecodes insts handlers blocks"
    "find (\<lambda>eh. eh_target eh \<notin> offsets insts) handlers = None"
  defines "order \<equiv> reverse_post_order blocks 0"
  shows "cfg_of_blocks blocks = (case find (misplaced order) (bt_values blocks) of
      Some b \<Rightarrow> Inl (InvalidExceptionLayout (the (bb_exc_handler b)) (bb_id b))
    | None \<Rightarrow> Inr \<lparr>cfg_blocks = blocks, cfg_entry = 0, cfg_block_order = order,
        cfg_exc_predecessors = exc_predecessors blocks\<rparr>)"
proof -
  note g = finished_graph [OF assms(1-4)]
  have closed: "\<forall>k b. bt_get blocks k = Some b \<longrightarrow> set (bb_successors b) \<subseteq> set (bt_keys blocks)"
    using g(5) by blast
  note o = order_facts [OF g(2) closed g(1), folded order_def]
  have ws: "well_split (leaders bytecodes insts handlers) insts blocks" by (rule finished_split [OF assms(3)])
  have vals: "bb_id b \<in> set order \<and> (\<forall>c. bb_exc_handler b = Some c \<longrightarrow> c \<in> set order)"
    if mem: "b \<in> set (bt_values blocks)" for b
  proof -
    obtain k where "(k, b) \<in> set blocks" using mem by (auto simp: bt_values_def)
    then have "bt_get blocks k = Some b" using bt_mem [OF g(1)] by simp
    then show ?thesis
      using g(5) get_block(1) [OF assms(1) ws] o(2) by (auto simp: bt_get_keys)
  qed
  have "check_layout order (bt_values blocks) = (case find (misplaced order) (bt_values blocks) of
      None \<Rightarrow> Inr () | Some b \<Rightarrow> Inl (InvalidExceptionLayout (the (bb_exc_handler b)) (bb_id b)))"
    by (rule check_layout_eq [OF o(1)]) (use vals in blast)
  moreover obtain ks where "bt_keys blocks = 0 # ks" using g(3,4) by (cases "bt_keys blocks") auto
  moreover obtain os where "order = 0 # os" using o(3,4) by (cases order) auto
  ultimately show ?thesis
    by (auto simp: cfg_of_blocks_def Let_def order_def split: option.split)
qed

lemma built:
  assumes "decode_function code version = Inr insts" "length code < 2 ^ 32" "insts \<noteq> []"
    "cfg_build insts handlers bytecodes = Inr cfg"
  shows "ordered_insts insts" "finished bytecodes insts handlers (cfg_blocks cfg)"
    "find (\<lambda>eh. eh_target eh \<notin> offsets insts) handlers = None"
    "cfg_block_order cfg = reverse_post_order (cfg_blocks cfg) 0" "cfg_entry cfg = 0"
    "cfg_exc_predecessors cfg = exc_predecessors (cfg_blocks cfg)"
    "find (misplaced (cfg_block_order cfg)) (bt_values (cfg_blocks cfg)) = None"
proof -
  show ord: "ordered_insts insts" by (rule decoded_ordered [OF assms(1,2)])
  obtain blocks where b: "finished bytecodes insts handlers blocks"
    "cfg_build insts handlers bytecodes = (case find (\<lambda>eh. eh_target eh \<notin> offsets insts) handlers of
       Some eh \<Rightarrow> Inl (InvalidExceptionHandlerTarget (eh_target eh))
     | None \<Rightarrow> cfg_of_blocks blocks)"
    by (rule cfg_build_finished [OF ord assms(3)])
  show none: "find (\<lambda>eh. eh_target eh \<notin> offsets insts) handlers = None"
    using assms(4) b(2) by (simp split: option.splits)
  then have "cfg_of_blocks blocks = Inr cfg" using assms(4) b(2) by simp
  then have "cfg = \<lparr>cfg_blocks = blocks, cfg_entry = 0, cfg_block_order = reverse_post_order blocks 0,
        cfg_exc_predecessors = exc_predecessors blocks\<rparr>"
    "find (misplaced (reverse_post_order blocks 0)) (bt_values blocks) = None"
    by (simp_all add: cfg_of_finished [OF ord assms(3) b(1) none] split: option.splits)
  then show "finished bytecodes insts handlers (cfg_blocks cfg)"
    "cfg_block_order cfg = reverse_post_order (cfg_blocks cfg) 0" "cfg_entry cfg = 0"
    "cfg_exc_predecessors cfg = exc_predecessors (cfg_blocks cfg)"
    "find (misplaced (cfg_block_order cfg)) (bt_values (cfg_blocks cfg)) = None"
    using b(1) by simp_all
qed

section \<open>The theorems\<close>

lemma no_inner_terminator:
  assumes "ordered_insts insts" "well_split (leaders bytecodes insts handlers) insts m"
    "b \<in> set (bt_values m)" "i \<in> set (butlast (bb_instructions b))"
  shows "\<not> is_terminator i"
proof
  assume t: "is_terminator i"
  obtain xs ys where xs: "butlast (bb_instructions b) = xs @ i # ys" using assms(4) by (meson split_list)
  then have "bb_instructions b \<noteq> []" by auto
  then have bi: "bb_instructions b = xs @ i # ys @ [last (bb_instructions b)]"
    using xs by (metis append.assoc append_Cons append_butlast_last_id)
  then obtain j zs where j: "bb_instructions b = xs @ i # j # zs" by (cases ys) auto
  obtain k where "(k, b) \<in> set m" using assms(3) by (auto simp: bt_values_def)
  then have ok: "block_ok (leaders bytecodes insts handlers) b"
    using assms(2) by (auto simp: well_split_def list_all_iff)
  have all: "insts = concat (map bb_instructions (bt_values m))" using assms(2) by (simp add: well_split_def)
  obtain us vs where "bt_values m = us @ b # vs" using assms(3) by (meson split_list)
  then have "insts = (concat (map bb_instructions us) @ xs) @ i # j # (zs @ concat (map bb_instructions vs))"
    by (simp add: all j)
  moreover from this have "successively (\<lambda>i j. inst_next_offset i = Some (di_offset j))
      ((concat (map bb_instructions us) @ xs) @ i # j # (zs @ concat (map bb_instructions vs)))"
    using assms(1) by (simp add: ordered_insts_def)
  ultimately have "i \<in> set insts" "inst_next_offset i = Some (di_offset j)"
    by (auto simp: successively_append_iff)
  then have "di_offset j \<in> leaders bytecodes insts handlers"
    using t by (force simp: leaders_def)
  moreover have "j \<in> set (tl (bb_instructions b))" by (cases xs) (auto simp: j)
  ultimately show False using ok by (auto simp: block_ok_def)
qed

lemma block_range:
  assumes "ordered_insts insts" "well_split L insts m" "bt_get m k = Some b"
  shows "bb_start b < bb_end b"
proof -
  note blk = get_block [OF assms]
  have ok: "di_offset (hd (bb_instructions b)) = bb_start b"
    "inst_next_offset (last (bb_instructions b)) = Some (bb_end b)"
    using blk(2) by (simp_all add: block_ok_def)
  obtain us vs where "bt_values m = us @ b # vs" using blk(3) by (meson split_list)
  then have "insts = concat (map bb_instructions us) @ bb_instructions b @ concat (map bb_instructions vs)"
    using assms(2) by (simp add: well_split_def)
  then have "sorted_wrt (<) (map di_offset (bb_instructions b))"
    using assms(1) by (simp add: ordered_insts_def sorted_wrt_append)
  then have "di_offset (hd (bb_instructions b)) \<le> di_offset (last (bb_instructions b))"
    using blk(5) last_in_set [of "tl (bb_instructions b)"] by (cases "bb_instructions b") (auto simp: less_imp_le)
  moreover have "di_offset (last (bb_instructions b)) < bb_end b"
    using assms(1) blk(6) ok(2) by (fastforce simp: ordered_insts_def)
  ultimately show ?thesis using ok(1) by simp
qed

text \<open>
  C12. The blocks of the graph are the instructions cut at the leaders. For the instructions of a
  decoded function, the blocks in key order hold exactly the instructions in order, a block begins
  at each instruction that is a leader (the entry, the offset after a terminator, a branch or
  switch target, a bound or target of a handler) and at no other, its key, id and start are the
  offset of its first instruction, its end is the offset after its last one and the start of the
  next block, and only the last instruction of a block is a terminator.
\<close>

theorem cfg_blocks_partition:
  assumes "decode_function code version = Inr insts" "length code < 2 ^ 32" "insts \<noteq> []"
    "cfg_build insts handlers bytecodes = Inr cfg"
  shows "concat (map bb_instructions (bt_values (cfg_blocks cfg))) = insts
    \<and> bt_keys (cfg_blocks cfg) = map di_offset (filter (\<lambda>i. di_offset i \<in> leaders bytecodes insts handlers) insts)
    \<and> (\<forall>(k, b)\<in>set (cfg_blocks cfg). k = bb_id b \<and> block_ok (leaders bytecodes insts handlers) b
         \<and> (\<forall>i\<in>set (butlast (bb_instructions b)). \<not> is_terminator i))
    \<and> successively (\<lambda>b b'. bb_end b = bb_start b') (bt_values (cfg_blocks cfg))"
proof -
  note c = built [OF assms]
  have ws: "well_split (leaders bytecodes insts handlers) insts (cfg_blocks cfg)"
    by (rule finished_split [OF c(2)])
  have "\<not> is_terminator i" if "(k, b) \<in> set (cfg_blocks cfg)" "i \<in> set (butlast (bb_instructions b))" for k b i
    using no_inner_terminator [OF c(1) ws _ that(2)] that(1) by (force simp: bt_values_def)
  then show ?thesis using ws unfolding well_split_def list_all_iff by blast
qed

text \<open>
  C11. The edges of the graph are the transfers of control. For the instructions of a decoded
  function, the successors of a block are the instruction offsets its last instruction can pass
  control to (its branch target, its fallthrough, the default and the cases of a switch), each of
  them is a block, and every block lists another as a predecessor as often as that one lists it as
  a successor.
\<close>

theorem cfg_edges_flow:
  assumes "decode_function code version = Inr insts" "length code < 2 ^ 32" "insts \<noteq> []"
    "cfg_build insts handlers bytecodes = Inr cfg" "bt_get (cfg_blocks cfg) k = Some b"
  shows "set (bb_successors b) = {t \<in> offsets insts. flows_to bytecodes (last (bb_instructions b)) t}
    \<and> set (bb_successors b) \<subseteq> set (bt_keys (cfg_blocks cfg))
    \<and> count_list (bb_predecessors b) a
      = (case bt_get (cfg_blocks cfg) a of None \<Rightarrow> 0 | Some c \<Rightarrow> count_list (bb_successors c) k)"
proof -
  note c = built [OF assms(1-4)]
  show ?thesis using finished_graph(5) [OF c(1) assms(3) c(2,3) assms(5)] by blast
qed

text \<open>
  C13. The block order is a reverse post-order: it lists every block once, the entry, which is the
  block at offset 0, first; the blocks the entry reaches come before the others, which are in the
  order of their offsets; and a block the entry reaches comes before each of its successors that
  does not reach it back.
\<close>

theorem cfg_block_order_rpo:
  assumes "decode_function code version = Inr insts" "length code < 2 ^ 32" "insts \<noteq> []"
    "cfg_build insts handlers bytecodes = Inr cfg"
  defines "order \<equiv> cfg_block_order cfg" and "reached \<equiv> reaches (cfg_blocks cfg) 0"
  shows "cfg_entry cfg = 0 \<and> hd order = 0 \<and> distinct order \<and> set order = set (bt_keys (cfg_blocks cfg))
    \<and> (\<exists>rest. order = filter reached order @ rest \<and> sorted rest \<and> (\<forall>k\<in>set rest. \<not> reached k))
    \<and> (\<forall>a b. reached a \<and> edge (cfg_blocks cfg) a b \<and> \<not> reaches (cfg_blocks cfg) b a \<longrightarrow> before order a b)"
proof -
  note c = built [OF assms(1-4)]
  note g = finished_graph [OF c(1) assms(3) c(2,3)]
  have "\<forall>k b. bt_get (cfg_blocks cfg) k = Some b \<longrightarrow> set (bb_successors b) \<subseteq> set (bt_keys (cfg_blocks cfg))"
    using g(5) by blast
  note o = order_facts [OF g(2) this g(1), folded c(4)]
  show ?thesis
    unfolding order_def reached_def using o(1-3) o(5,6) c(5) by (auto dest: o(6))
qed

text \<open>
  C14. The exception handlers of the graph. A block has the last handler of the table that covers
  it; the handler is a block, and it comes after the blocks it covers in the block order; and the
  exception predecessors of a block are the blocks it handles, in the order of their offsets.
\<close>

theorem cfg_exception_layout:
  assumes "decode_function code version = Inr insts" "length code < 2 ^ 32" "insts \<noteq> []"
    "cfg_build insts handlers bytecodes = Inr cfg"
  shows "(\<forall>b\<in>set (bt_values (cfg_blocks cfg)). bb_exc_handler b = handler_for handlers b
      \<and> (case bb_exc_handler b of None \<Rightarrow> True
         | Some c \<Rightarrow> c \<in> set (bt_keys (cfg_blocks cfg)) \<and> before (cfg_block_order cfg) (bb_id b) c))
    \<and> bt_list (cfg_exc_predecessors cfg) h
      = map bb_id (filter (\<lambda>b. bb_exc_handler b = Some h) (bt_values (cfg_blocks cfg)))"
proof -
  note c = built [OF assms]
  note g = finished_graph [OF c(1) assms(3) c(2,3)]
  have "bb_exc_handler b = handler_for handlers b
      \<and> (case bb_exc_handler b of None \<Rightarrow> True
         | Some c \<Rightarrow> c \<in> set (bt_keys (cfg_blocks cfg)) \<and> before (cfg_block_order cfg) (bb_id b) c)"
    if mem: "b \<in> set (bt_values (cfg_blocks cfg))" for b
  proof -
    obtain k where "(k, b) \<in> set (cfg_blocks cfg)" using mem by (auto simp: bt_values_def)
    then have "bt_get (cfg_blocks cfg) k = Some b" using bt_mem [OF g(1)] by simp
    moreover have "\<not> misplaced (cfg_block_order cfg) b" using c(7) mem by (auto simp: find_None_iff)
    ultimately show ?thesis using g(5) by (auto simp: misplaced_def split: option.splits)
  qed
  then show ?thesis unfolding c(6) exc_predecessors_list by blast
qed

text \<open>The block a failing build names.\<close>

lemma misplaced_iff: "misplaced order = (\<lambda>b. \<exists>c. bb_exc_handler b = Some c \<and> \<not> before order (bb_id b) c)"
  by (auto simp: misplaced_def fun_eq_iff split: option.split)

lemma misplaced_handler:
  "find (misplaced order) bs = Some b \<Longrightarrow> \<exists>c. bb_exc_handler b = Some c"
  by (auto simp: find_Some_iff misplaced_iff)

lemma misplaced_range:
  assumes "ordered_insts insts" "insts \<noteq> []" "finished bytecodes insts handlers blocks"
    "find (misplaced order) (bt_values blocks) = Some x" "bb_exc_handler x = Some c"
  shows "\<exists>eh\<in>set handlers. c = eh_target eh \<and> bb_id x \<in> offsets insts
    \<and> eh_start eh \<le> bb_id x \<and> bb_id x < eh_end eh"
proof -
  note f = finished_blocks [OF assms(1-3)]
  have ws: "well_split (leaders bytecodes insts handlers) insts blocks" by (rule finished_split [OF assms(3)])
  have "x \<in> set (bt_values blocks)" using assms(4) by (auto simp: find_Some_iff)
  then obtain k where "(k, x) \<in> set blocks" by (auto simp: bt_values_def)
  then have get: "bt_get blocks k = Some x" using bt_mem [OF f(1)] by simp
  note blk = get_block [OF assms(1) ws get]
  obtain eh where "eh \<in> set handlers" "eh_target eh = c" "covers eh x"
    using f(6) get assms(5) handler_forD [of handlers x c] by (auto simp: graph_spec_def)
  moreover have "k \<in> offsets insts" using get bt_get_keys [of k blocks] f(5) by auto
  ultimately show ?thesis
    using blk(1,2) block_range [OF assms(1) ws get] by (auto simp: covers_def block_ok_def)
qed

text \<open>
  C15. The errors of a build. For the instructions of a decoded function let the blocks be the
  instructions cut at the leaders, with the transfers of control as edges and the last handler that
  covers each, and take their reverse post-order. A build fails exactly in two cases: with
  \<open>InvalidExceptionHandlerTarget\<close> when the target of a handler is not the offset of an
  instruction, naming the target of the first such handler; and, when all targets are, with
  \<open>InvalidExceptionLayout\<close> when some block does not come before its handler in that order,
  naming the handler and the block of the first such block by offset. The handler named is one of
  the table and the block named lies in its range.
\<close>

theorem cfg_build_errors:
  assumes "decode_function code version = Inr insts" "length code < 2 ^ 32" "insts \<noteq> []"
  shows "(cfg_build insts handlers bytecodes = Inl (InvalidExceptionHandlerTarget t) \<longleftrightarrow>
      (\<exists>eh. find (\<lambda>eh. eh_target eh \<notin> offsets insts) handlers = Some eh \<and> t = eh_target eh))
    \<and> (\<exists>blocks order. graph_spec bytecodes insts handlers blocks \<and> order = reverse_post_order blocks 0
      \<and> rpo_of blocks 0 order
      \<and> (cfg_build insts handlers bytecodes = Inl e \<longleftrightarrow>
          (\<exists>eh. find (\<lambda>eh. eh_target eh \<notin> offsets insts) handlers = Some eh
            \<and> e = InvalidExceptionHandlerTarget (eh_target eh))
          \<or> find (\<lambda>eh. eh_target eh \<notin> offsets insts) handlers = None
            \<and> (\<exists>b c. find (\<lambda>b. \<exists>c. bb_exc_handler b = Some c \<and> \<not> before order (bb_id b) c) (bt_values blocks) = Some b
                \<and> bb_exc_handler b = Some c \<and> e = InvalidExceptionLayout c (bb_id b))))
    \<and> (cfg_build insts handlers bytecodes = Inl e \<longrightarrow>
      (\<exists>eh\<in>set handlers. e = InvalidExceptionHandlerTarget (eh_target eh)
        \<or> (\<exists>b. e = InvalidExceptionLayout (eh_target eh) b \<and> b \<in> offsets insts \<and> eh_start eh \<le> b \<and> b < eh_end eh)))"
proof -
  note ord = decoded_ordered [OF assms(1,2)]
  obtain blocks where b: "finished bytecodes insts handlers blocks"
    "cfg_build insts handlers bytecodes = (case find (\<lambda>eh. eh_target eh \<notin> offsets insts) handlers of
       Some eh \<Rightarrow> Inl (InvalidExceptionHandlerTarget (eh_target eh))
     | None \<Rightarrow> cfg_of_blocks blocks)"
    by (rule cfg_build_finished [OF ord assms(3)])
  note spec = finished_blocks(6) [OF ord assms(3) b(1)] finished_rpo [OF ord assms(3) b(1)]
  show ?thesis
  proof (cases "find (\<lambda>eh. eh_target eh \<notin> offsets insts) handlers")
    case (Some eh)
    then have "eh \<in> set handlers" by (auto simp: find_Some_iff)
    then show ?thesis using b(2) Some spec by auto
  next
    case None
    let ?order = "reverse_post_order blocks 0"
    have built: "cfg_build insts handlers bytecodes = Inl e \<longleftrightarrow>
        (\<exists>b c. find (misplaced ?order) (bt_values blocks) = Some b
          \<and> bb_exc_handler b = Some c \<and> e = InvalidExceptionLayout c (bb_id b))" for e
      using b(2) None misplaced_handler [of ?order "bt_values blocks"]
      by (auto simp: cfg_of_finished [OF ord assms(3) b(1) None] split: option.splits)
    moreover have "\<exists>eh\<in>set handlers. c = eh_target eh \<and> bb_id x \<in> offsets insts
        \<and> eh_start eh \<le> bb_id x \<and> bb_id x < eh_end eh"
      if "find (misplaced ?order) (bt_values blocks) = Some x" "bb_exc_handler x = Some c" for x c
      by (rule misplaced_range [OF ord assms(3) b(1) that])
    ultimately show ?thesis using None spec by (fastforce simp: misplaced_iff)
  qed
qed

end
