(* ===== verification/Hermes_Cfg_Agree.thy ===== *)
theory Hermes_Cfg_Agree
  imports Hermes_Cfg_Oracle Hermes_Cfg_Correct
begin

text \<open>
  The oracle agrees with \<open>Cfg::build\<close>: for the instructions of a decoded function whose graph is
  built, \<open>naive_cfg\<close> returns the shape of that graph.
\<close>

section \<open>The oracle's names are the decoder's\<close>

definition oracle_names :: "DecodedInst \<Rightarrow> bool" where
  "oracle_names i \<longleftrightarrow>
     (oracle_is_terminator (di_name i) \<longleftrightarrow> is_terminator i)
     \<and> (oracle_is_cond_branch (di_name i) \<longleftrightarrow> is_conditional_branch i)
     \<and> (\<not> oracle_has_branch_target (di_name i) \<longrightarrow> branch_target i = None)
     \<and> (is_conditional_branch i \<longrightarrow> (\<exists>rel ops. di_operands i = Op_Addr rel # ops))"

lemma decoded_opcode:
  assumes "decode_function code version = Inr insts" "length code < 2 ^ 63" "inst \<in> set insts"
  shows "di_op inst \<in> set OPCODES"
proof -
  obtain t where t: "tables_agree t" "inst_of t inst" by (rule decoded_inst [OF assms])
  note i = inst_ofD [OF t]
  show ?thesis unfolding i(4) using agree_lengths(6,7) [OF t(1) i(1)] by simp
qed

lemma decoded_names:
  assumes "decode_function code version = Inr insts" "length code < 2 ^ 63" "i \<in> set insts"
  shows "oracle_names i"
proof -
  have op: "di_op i \<in> set OPCODES" by (rule decoded_opcode [OF assms])
  have name: "di_name i = OpCode_name (di_op i)" and ops: "branch_operands i"
    and jump: "is_jump i \<longleftrightarrow> branch_class (di_name i) \<noteq> BC_Plain
         \<and> di_name i \<noteq> ''SaveGenerator'' \<and> di_name i \<noteq> ''SaveGeneratorLong''"
    using decoded_instructions_typed [OF assms] by blast+
  have sw: "str_contains (di_name i) ''SwitchImm'' \<longleftrightarrow>
      di_name i = ''StringSwitchImm'' \<or> di_name i = ''SwitchImm'' \<or> di_name i = ''UIntSwitchImm''"
    unfolding name by (rule switch_name [OF op])
  then have no_J: "\<not> (str_contains (di_name i) ''SwitchImm'' \<and> starts_with (di_name i) ''J'')" by auto
  then have cond: "oracle_is_cond_branch (di_name i) \<longleftrightarrow> is_conditional_branch i"
    unfolding oracle_is_cond_branch_def is_conditional_branch_def by blast
  have J: "starts_with (di_name i) ''J'' \<longleftrightarrow> is_conditional_branch i \<or> oracle_is_uncond_jump (di_name i)"
    by (auto simp: is_conditional_branch_def oracle_is_uncond_jump_def)
  then have jumps: "is_jump i \<longleftrightarrow> is_conditional_branch i \<or> oracle_is_uncond_jump (di_name i)
      \<or> str_contains (di_name i) ''SwitchImm''"
    by (auto simp: is_jump_def)
  then have ends: "oracle_is_terminator (di_name i) \<longleftrightarrow> is_terminator i"
    using string_switch_contains
    by (auto simp: oracle_is_terminator_def is_terminator_def cond oracle_is_string_switch_def
        oracle_is_int_switch_def oracle_is_return_def oracle_is_throw_def oracle_is_unreachable_def
        is_return_def is_throw_def)
  have switch_class: "branch_class (di_name i) = BC_StringSwitch \<or> branch_class (di_name i) = BC_Switch"
    if "str_contains (di_name i) ''SwitchImm''"
    using that sw by (auto simp: branch_class_def)
  have target: "branch_target i = None" if "\<not> oracle_has_branch_target (di_name i)"
  proof -
    have "branch_class (di_name i) \<noteq> BC_Address"
      using that jump jumps cond sw switch_class by (auto simp: oracle_has_branch_target_def branch_class_def)
    then show ?thesis
      using ops by (cases "branch_class (di_name i)"; cases "di_operands i")
        (auto simp: branch_operands_def branch_target_def split: Operand.splits)
  qed
  have "\<exists>rel ops. di_operands i = Op_Addr rel # ops" if "is_conditional_branch i"
  proof -
    have "starts_with (di_name i) ''J''" using that by (simp add: is_conditional_branch_def)
    then have "branch_class (di_name i) = BC_Address"
      using jump jumps that no_J sw by (cases "branch_class (di_name i)") (auto simp: branch_class_def split: if_splits)
    then show ?thesis using ops by (simp add: branch_operands_def)
  qed
  then show ?thesis using cond ends target unfolding oracle_names_def by blast
qed

section \<open>Switches\<close>

lemma oracle_target_eq: "oracle_branch_target i = branch_target i" "oracle_next_offset i = inst_next_offset i"
  by (auto simp: oracle_branch_target_def branch_target_def oracle_next_offset_def inst_next_offset_def
      get_at_def split: list.splits)

lemma addr_target_eq: "addr_target i 3 = string_switch_default i" "addr_target i 2 = int_switch_default i"
  by (simp_all add: addr_target_def string_switch_default_def int_switch_default_def addr_operand_def
      signed_target_def split: option.split Operand.split)

lemma set_oracle_cases:
  assumes "num \<le> 65536" "stride \<le> 8"
  shows "set (oracle_cases i bytecodes off num stride rel) = case_targets i bytecodes (Some (off, num)) stride rel"
proof -
  have "t \<in> set (oracle_cases i bytecodes off num stride rel)
      \<longleftrightarrow> t \<in> case_targets i bytecodes (Some (off, num)) stride rel" for t
    unfolding oracle_cases_def table_start option.case in_map_filter table_entries_set [OF assms] case_targets_def
      signed_target_def by blast
  then show ?thesis by blast
qed

lemma set_string_cases:
  "set (oracle_string_cases i bytecodes) = case_targets i bytecodes (string_switch_table i) 8 (\<lambda>e. snd (string_entry e))"
  by (auto simp: oracle_string_cases_def string_switch_table_def uint_operand_def set_oracle_cases string_entry_def
      case_targets_def [of _ _ None] split: option.splits Operand.splits)

lemma set_int_cases:
  "set (oracle_int_cases i bytecodes) = case_targets i bytecodes (int_switch_table i) 4 jump_entry"
  by (auto simp: oracle_int_cases_def int_switch_table_def uint_operand_def set_oracle_cases jump_entry_def [abs_def]
      case_targets_def [of _ _ None] split: option.splits Operand.splits)

section \<open>Leaders\<close>

lemma set_insert_if: "set (insert_if_instr offs t s) = set s \<union> ({t} \<inter> set offs)"
  "set (insert_opt offs t' s) = set s \<union> (set_option t' \<inter> set offs)"
  by (auto simp: insert_if_instr_def insert_opt_def split: option.splits)

lemma set_fold_insert_if: "set (fold (insert_if_instr offs) ts s) = set s \<union> (set ts \<inter> set offs)"
  by (induction ts arbitrary: s) (auto simp: set_insert_if)

lemma set_oracle_inst_leaders:
  assumes "oracle_names i"
  shows "set (oracle_inst_leaders offs bytecodes i s) = set s \<union>
    (((if is_terminator i then set_option (inst_next_offset i) else {}) \<union> set_option (branch_target i)
      \<union> switch_targets bytecodes i) \<inter> set offs)"
proof -
  note n = assms [unfolded oracle_names_def]
  have bt: "(if oracle_has_branch_target (di_name i) then set_option (branch_target i) else {}) = set_option (branch_target i)"
    using n by auto
  have sw: "switch_targets bytecodes i =
      (if oracle_is_string_switch (di_name i) then set_option (addr_target i 3) \<union> set (oracle_string_cases i bytecodes) else {})
      \<union> (if oracle_is_int_switch (di_name i) then set_option (addr_target i 2) \<union> set (oracle_int_cases i bytecodes) else {})"
    unfolding switch_targets_def set_string_cases set_int_cases addr_target_eq oracle_is_string_switch_def
      oracle_is_int_switch_def by simp
  have "set (oracle_inst_leaders offs bytecodes i s) = set s \<union>
    (((if is_terminator i then set_option (inst_next_offset i) else {})
      \<union> (if oracle_has_branch_target (di_name i) then set_option (branch_target i) else {})
      \<union> ((if oracle_is_string_switch (di_name i) then set_option (addr_target i 3) \<union> set (oracle_string_cases i bytecodes) else {})
      \<union> (if oracle_is_int_switch (di_name i) then set_option (addr_target i 2) \<union> set (oracle_int_cases i bytecodes) else {})))
     \<inter> set offs)"
    using n by (simp add: oracle_inst_leaders_def Let_def set_insert_if set_fold_insert_if oracle_target_eq
        Int_Un_distrib2 Un_ac)
  then show ?thesis unfolding sw bt .
qed

lemma set_oracle_leaders:
  assumes "ordered_insts insts" "insts \<noteq> []" "\<forall>i\<in>set insts. oracle_names i" "set offs = offsets insts"
  shows "set (oracle_leaders offs bytecodes insts handlers) = offsets insts \<inter> leaders bytecodes insts handlers"
proof -
  have one: "set (fold (oracle_inst_leaders offs bytecodes) is s) = set s \<union>
     ((\<Union>i\<in>set is. (if is_terminator i then set_option (inst_next_offset i) else {}) \<union> set_option (branch_target i)
      \<union> switch_targets bytecodes i) \<inter> set offs)" if "\<forall>i\<in>set is. oracle_names i" for "is" s
    using that by (induction "is" arbitrary: s) (auto simp: set_oracle_inst_leaders)
  have two: "set (fold (\<lambda>eh s. insert_if_instr offs (eh_target eh) (insert_if_instr offs (eh_end eh)
                        (insert_if_instr offs (eh_start eh) s))) hs s)
      = set s \<union> ((\<Union>eh\<in>set hs. {eh_start eh, eh_end eh, eh_target eh}) \<inter> set offs)" for hs s
    by (induction hs arbitrary: s) (auto simp: set_insert_if)
  obtain i is' where i: "insts = i # is'" "di_offset i = 0" using assms(1,2) by (cases insts) (auto simp: ordered_insts_def)
  show ?thesis
    unfolding oracle_leaders_def Let_def two one [OF assms(3)] leaders_def assms(4)
    using i by auto
qed

section \<open>Sets and maps as lists\<close>

lemma bs_eqI: "bs_ok s \<Longrightarrow> bs_ok t \<Longrightarrow> set s = set t \<Longrightarrow> s = t"
  by (simp add: bs_ok_def sorted_distinct_set_unique)

lemma bs_ok_Nil [simp]: "bs_ok []" by (simp add: bs_ok_def)

lemma bs_ok_fold: "(\<And>x s. bs_ok s \<Longrightarrow> bs_ok (f x s)) \<Longrightarrow> bs_ok s \<Longrightarrow> bs_ok (fold f xs s)"
  by (induction xs arbitrary: s) auto

lemma bt_as_map: "bt_ok m \<Longrightarrow> m = map (\<lambda>k. (k, the (bt_get m k))) (bt_keys m)"
proof -
  assume ok: "bt_ok m"
  have "(fst x, the (bt_get m (fst x))) = x" if "x \<in> set m" for x
    using bt_mem [OF ok, of "fst x" "snd x"] that by simp
  then show ?thesis by (simp add: bt_keys_def map_idI o_def)
qed

lemma bt_eqI:
  assumes "bt_ok m" "bt_ok m'" "bt_keys m = bt_keys m'" "\<And>k. k \<in> set (bt_keys m) \<Longrightarrow> bt_get m k = bt_get m' k"
  shows "m = m'"
  using bt_as_map [OF assms(1)] bt_as_map [OF assms(2)] assms(3,4) by (metis (mono_tags, lifting) map_cong)

lemma fold_insert_keys:
  "sorted_wrt (<) ks \<Longrightarrow> fold (\<lambda>l. bt_insert l v) ks [] = map (\<lambda>l. (l, v)) ks"
proof (induction ks rule: rev_induct)
  case (snoc k ks)
  then show ?case
    using bt_insert_last [of "map (\<lambda>l. (l, v)) ks" k v] by (auto simp: sorted_wrt_append bt_keys_def)
qed simp

lemma insert_ok [intro]:
  "bs_ok s \<Longrightarrow> bs_ok (insert_if_instr offs t s)" "bs_ok s \<Longrightarrow> bs_ok (insert_opt offs t' s)"
  by (auto simp: insert_if_instr_def insert_opt_def split: option.split)

lemma oracle_inst_leaders_ok: "bs_ok s \<Longrightarrow> bs_ok (oracle_inst_leaders offs bytecodes i s)"
  by (auto simp: oracle_inst_leaders_def Let_def intro!: bs_ok_fold)

lemma oracle_leaders_ok: "bs_ok (oracle_leaders offs bytecodes insts handlers)"
proof -
  have "bs_ok (case insts of [] \<Rightarrow> [] | first # _ \<Rightarrow> bs_insert (di_offset first) [])"
    by (auto split: list.split)
  then show ?thesis
    unfolding oracle_leaders_def Let_def by (intro bs_ok_fold oracle_inst_leaders_ok insert_ok)
qed

lemma oracle_leaders_keys:
  assumes "ordered_insts insts" "insts \<noteq> []" "\<forall>i\<in>set insts. oracle_names i" "set offs = offsets insts"
    "well_split (leaders bytecodes insts handlers) insts m"
  shows "oracle_leaders offs bytecodes insts handlers = bt_keys m"
proof (rule bs_eqI [OF oracle_leaders_ok])
  show "bs_ok (bt_keys m)"
    using bt_ok_sorted bt_ok_distinct well_splitD(1) [OF assms(5,1)] by (auto simp: bs_ok_def)
  show "set (oracle_leaders offs bytecodes insts handlers) = set (bt_keys m)"
    unfolding set_oracle_leaders [OF assms(1-4)] well_splitD(4) [OF assms(5,1)] ..
qed

section \<open>Blocks\<close>

lemma last_le_sorted:
  assumes "sorted ks" "k \<in> set ks" "k \<le> a" "\<And>k'. k' \<in> set ks \<Longrightarrow> k' \<le> a \<Longrightarrow> k' \<le> k"
  shows "last_le ks a = Some k"
proof -
  let ?le = "filter (\<lambda>k. k \<le> a) ks"
  have k: "k \<in> set ?le" using assms(2,3) by simp
  then have "last ?le \<in> set ?le" by (intro last_in_set) (auto simp: filter_empty_conv)
  then have "last ?le \<le> k" using assms(4) by simp
  moreover have "sorted ?le" using assms(1) by (simp add: sorted_wrt_filter)
  then have "k \<le> last ?le" using k by (cases ?le rule: rev_cases) (auto simp: sorted_append)
  moreover have "?le \<noteq> []" using assms(2,3) by (auto simp: filter_empty_conv)
  ultimately show ?thesis by (simp add: last_le_def Let_def)
qed

lemma last_le_block:
  assumes "ordered_insts insts" "well_split L insts m" "bt_get m k = Some b" "i \<in> set (bb_instructions b)"
  shows "last_le (bt_keys m) (di_offset i) = Some k"
proof (rule last_le_sorted)
  note blk = get_block [OF assms(1-3)]
  obtain us vs where "bt_values m = us @ b # vs" using blk(3) by (meson split_list)
  then have insts: "insts = concat (map bb_instructions us) @ bb_instructions b @ concat (map bb_instructions vs)"
    using assms(2) by (simp add: well_split_def)
  have sorted: "sorted_wrt (<) (map di_offset insts)" using assms(1) by (simp add: ordered_insts_def)
  have k: "di_offset (hd (bb_instructions b)) = k" "\<forall>j\<in>set (tl (bb_instructions b)). di_offset j \<notin> L"
    using blk(1,2) by (auto simp: block_ok_def)
  obtain h t where ht: "bb_instructions b = h # t" using blk(5) by (cases "bb_instructions b") auto
  show "sorted (bt_keys m)" using bt_ok_sorted well_splitD(1) [OF assms(2,1)] by blast
  show "k \<in> set (bt_keys m)" using assms(3) bt_get_keys [of k m] by simp
  show "k \<le> di_offset i" using sorted assms(4) k(1)
    by (auto simp: insts ht sorted_wrt_append intro: less_imp_le)
  fix k' assume k': "k' \<in> set (bt_keys m)" "k' \<le> di_offset i"
  then obtain j where j: "j \<in> set insts" "k' = di_offset j" "k' \<in> L"
    using well_splitD(4) [OF assms(2,1)] by auto
  consider "j \<in> set (concat (map bb_instructions us))" | "j = h" | "j \<in> set t" | "j \<in> set (concat (map bb_instructions vs))"
    using j(1) unfolding insts ht by (simp only: set_append set_simps Un_iff insert_iff) blast
  then show "k' \<le> k"
  proof cases
    case 1
    then have "di_offset j < di_offset h" using sorted by (auto simp: insts ht sorted_wrt_append)
    then show ?thesis using k(1) by (simp add: j(2) ht)
  next
    case 2
    then show ?thesis using k(1) by (simp add: j(2) ht)
  next
    case 3
    then show ?thesis using k(2) j(2,3) by (simp add: ht)
  next
    case 4
    then have "di_offset i < di_offset j" using sorted assms(4) by (auto simp: insts sorted_wrt_append)
    then show ?thesis using k'(2) j(2) by simp
  qed
qed

lemma filter_concat:
  "distinct (map fst m) \<Longrightarrow> \<forall>(k', b')\<in>set m. \<forall>i\<in>set (f b'). g i = k' \<Longrightarrow> (k, b) \<in> set m \<Longrightarrow>
     filter (\<lambda>i. g i = k) (concat (map (\<lambda>(k, b). f b) m)) = f b"
proof (induction m)
  case (Cons x m)
  obtain k1 b1 where x: "x = (k1, b1)" by (cases x)
  show ?case
  proof (cases "k1 = k")
    case True
    then have "b1 = b" "\<forall>(k', b')\<in>set m. k' \<noteq> k" using Cons.prems(1,3) by (auto simp: x image_iff)
    then have "filter (\<lambda>i. g i = k) (concat (map (\<lambda>(k, b). f b) m)) = []" "filter (\<lambda>i. g i = k) (f b1) = f b"
      using Cons.prems(2) True by (force simp: filter_empty_conv filter_id_conv x)+
    then show ?thesis by (simp add: x)
  next
    case False
    then have "filter (\<lambda>i. g i = k) (f b1) = []" using Cons.prems(2) by (auto simp: x filter_empty_conv)
    then show ?thesis using Cons False by (simp add: x)
  qed
qed simp

lemma pushes_keep:
  "\<forall>i\<in>set is. last_le (bt_keys m) (di_offset i) = Some (g i) \<and> g i \<in> set (bt_keys m) \<Longrightarrow> bt_ok m \<Longrightarrow>
     fold (\<lambda>inst m. case last_le (bt_keys m) (di_offset inst) of None \<Rightarrow> m | Some l \<Rightarrow> bt_push l (di_offset inst) m) is m
     = fold (\<lambda>(k, x). bt_push k x) (map (\<lambda>i. (g i, di_offset i)) is) m
     \<and> bt_keys (fold (\<lambda>(k, x). bt_push k x) (map (\<lambda>i. (g i, di_offset i)) is) m) = bt_keys m
     \<and> bt_ok (fold (\<lambda>(k, x). bt_push k x) (map (\<lambda>i. (g i, di_offset i)) is) m)"
proof (induction "is" arbitrary: m)
  case (Cons i "is")
  let ?m = "bt_push (g i) (di_offset i) m"
  have ok: "bt_ok ?m" using Cons.prems(2) by (rule bt_push_ok)
  have "set (bt_keys ?m) = set (bt_keys m)" using Cons.prems(1) by (auto simp: bt_push_def set_keys_insert)
  then have keys: "bt_keys ?m = bt_keys m" by (rule bt.keys_unique [OF ok Cons.prems(2)])
  show ?case using Cons.IH [of ?m] Cons.prems(1) ok by (simp add: keys)
qed simp

lemma oracle_blocks_eq:
  assumes "ordered_insts insts" "well_split L insts m"
  shows "oracle_blocks (bt_keys m) insts = map (\<lambda>(k, b). (k, map di_offset (bb_instructions b))) m"
proof -
  note ws = well_splitD [OF assms(2,1)]
  define g where "g i = the (last_le (bt_keys m) (di_offset i))" for i :: DecodedInst
  let ?m0 = "map (\<lambda>l. (l, [] :: u32 list)) (bt_keys m)"
  let ?pairs = "map (\<lambda>i. (g i, di_offset i)) insts"
  have insts: "insts = concat (map (\<lambda>(k, b). bb_instructions b) m)"
    using assms(2) by (auto simp: well_split_def bt_values_def o_def case_prod_unfold)
  have in_block: "last_le (bt_keys m) (di_offset i) = Some k" if "(k, b) \<in> set m" "i \<in> set (bb_instructions b)" for i k b
    using last_le_block [OF assms _ that(2)] bt_mem [OF ws(1)] that(1) by blast
  have g: "last_le (bt_keys m) (di_offset i) = Some (g i) \<and> g i \<in> set (bt_keys m)" if i: "i \<in> set insts" for i
  proof -
    obtain k b where "(k, b) \<in> set m" "i \<in> set (bb_instructions b)" using i by (auto simp: insts)
    then show ?thesis using in_block unfolding g_def by (force simp: bt_keys_def)
  qed
  have m0: "bt_keys ?m0 = bt_keys m" "bt_ok ?m0"
    using ws(1) by (simp_all add: bt_ok_def bt_keys_def o_def)
  have start: "fold (\<lambda>l. bt_insert l []) (bt_keys m) [] = ?m0"
    using ws(1) by (intro fold_insert_keys) (simp add: bt_ok_def)
  have "\<forall>i\<in>set insts. last_le (bt_keys ?m0) (di_offset i) = Some (g i) \<and> g i \<in> set (bt_keys ?m0)"
    using g by (simp add: m0)
  note fold = pushes_keep [OF this m0(2)]
  have run: "oracle_blocks (bt_keys m) insts = fold (\<lambda>(k, x). bt_push k x) ?pairs ?m0"
    unfolding oracle_blocks_def start using fold by blast
  show ?thesis
  proof (rule bt_eqI)
    show "bt_ok (oracle_blocks (bt_keys m) insts)" unfolding run using fold by blast
    have keys: "bt_keys (map (\<lambda>(k, b). (k, map di_offset (bb_instructions b))) m) = bt_keys m"
      by (simp add: bt_keys_def split_beta)
    then show "bt_ok (map (\<lambda>(k, b). (k, map di_offset (bb_instructions b))) m)"
      using ws(1) by (simp add: bt_ok_def)
    have run_keys: "bt_keys (oracle_blocks (bt_keys m) insts) = bt_keys m" unfolding run using fold m0(1) by simp
    then show "bt_keys (oracle_blocks (bt_keys m) insts) = bt_keys (map (\<lambda>(k, b). (k, map di_offset (bb_instructions b))) m)"
      using keys by simp
    fix k assume "k \<in> set (bt_keys (oracle_blocks (bt_keys m) insts))"
    then obtain xs b where xs: "bt_get (oracle_blocks (bt_keys m) insts) k = Some xs" and b: "bt_get m k = Some b"
      using run_keys bt_get_keys [of k m] bt_get_keys [of k "oracle_blocks (bt_keys m) insts"] by auto
    have "bt_list ?m0 k = []" by (auto simp: bt_list_def bt_get_def map_of_map_restrict restrict_map_def split: option.splits if_splits)
    then have "xs = map di_offset (filter (\<lambda>i. g i = k) insts)"
      using xs bt_list_pushes [of ?pairs ?m0 k] unfolding run [symmetric]
      by (simp add: bt_list_def filter_map o_def)
    also have "filter (\<lambda>i. g i = k) insts = bb_instructions b"
      unfolding insts
    proof (rule filter_concat)
      show "distinct (map fst m)" using ws(2) by (simp add: bt_keys_def)
      show "(k, b) \<in> set m" using b bt_mem [OF ws(1)] by simp
      show "\<forall>(k', b')\<in>set m. \<forall>i\<in>set (bb_instructions b'). g i = k'" using in_block by (auto simp: g_def)
    qed
    finally show "bt_get (oracle_blocks (bt_keys m) insts) k
        = bt_get (map (\<lambda>(k, b). (k, map di_offset (bb_instructions b))) m) k"
      using xs b bt_get_map [of "\<lambda>b. map di_offset (bb_instructions b)" m k] by simp
  qed
qed

lemma inst_at_addr_eq:
  assumes "distinct (map di_offset insts)" "i \<in> set insts"
  shows "inst_at_addr insts (di_offset i) = Some i"
proof -
  obtain n where n: "n < length insts" "insts ! n = i" using assms(2) by (auto simp: in_set_conv_nth)
  let ?kvs = "zip (map di_offset insts) [0..<length insts]"
  have "(di_offset i, n) \<in> set (rev ?kvs)" using n by (force simp: in_set_zip)
  moreover have "distinct (map fst (rev ?kvs))" using assms(1) by (simp add: rev_map [symmetric])
  ultimately have "map_of (rev ?kvs) (di_offset i) = Some n" by (metis map_of_is_SomeI)
  then have "bt_get (addr_to_idx insts) (di_offset i) = Some n"
    by (simp add: addr_to_idx_def bt.get_fold_ins)
  then show ?thesis using n by (simp add: inst_at_addr_def get_at_def)
qed

section \<open>Edges\<close>

definition edge_kind :: "DecodedInst \<Rightarrow> u32 \<Rightarrow> EdgeKindOracle" where
  "edge_kind i t =
     (if is_unconditional_jump i then EK_Branch
      else if is_conditional_branch i then (if branch_target i = Some t then EK_Branch else EK_FallThrough)
      else if str_contains (di_name i) ''SwitchImm'' then
        (if addr_target i (if di_name i = ''StringSwitchImm'' then 3 else 2) = Some t then EK_SwitchDefault else EK_Branch)
      else EK_FallThrough)"

text \<open>The edges of a block at \<open>l\<close> with last instruction \<open>i\<close>.\<close>

definition block_edges :: "u32 set \<Rightarrow> u8 list \<Rightarrow> u32 \<Rightarrow> DecodedInst \<Rightarrow> oracle_edge set" where
  "block_edges K bytecodes l i = (\<lambda>t. (l, t, edge_kind i t)) ` {t \<in> K. flows_to bytecodes i t}"

lemma set_edge_if: "set (edge_if K l t kind es) = set es \<union> {(l, u, kind) | u. t = Some u \<and> u \<in> set K}"
  by (auto simp: edge_if_def split: option.split)

lemma set_case_edges:
  "set (fold (case_edge K l) ts es) =
     set es \<union> {(l, t, EK_Branch) | t. t \<in> set ts \<and> t \<in> set K \<and> (l, t, EK_SwitchDefault) \<notin> set es}"
  by (induction ts arbitrary: es) (auto simp: case_edge_def)

lemma set_oracle_block_edges:
  assumes "oracle_names i" "\<forall>t. (l, t, EK_SwitchDefault) \<notin> set es"
  shows "set (oracle_block_edges K bytecodes l i es) = set es \<union> block_edges (set K) bytecodes l i"
proof -
  note n = assms(1) [unfolded oracle_names_def]
  consider "is_return i \<or> is_throw i \<or> di_name i = ''Unreachable''"
    | "is_unconditional_jump i" | "is_conditional_branch i"
    | "str_contains (di_name i) ''SwitchImm''" "\<not> is_conditional_branch i"
    | "\<not> is_terminator i"
    unfolding is_terminator_def is_jump_def is_conditional_branch_def is_unconditional_jump_def by blast
  then show ?thesis
  proof cases
    case 1
    then have "oracle_is_return (di_name i) \<or> oracle_is_throw (di_name i) \<or> oracle_is_unreachable (di_name i)"
      "\<not> is_unconditional_jump i" "\<not> is_conditional_branch i" "\<not> str_contains (di_name i) ''SwitchImm''"
      "is_terminator i"
      by (auto simp: is_return_def is_throw_def oracle_is_return_def oracle_is_throw_def oracle_is_unreachable_def
          is_unconditional_jump_def is_conditional_branch_def is_terminator_def)
    then show ?thesis by (simp add: oracle_block_edges_def block_edges_def flows_to_def)
  next
    case 2
    then show ?thesis
      by (auto simp: oracle_block_edges_def block_edges_def flows_to_def is_unconditional_jump_def oracle_is_return_def
          oracle_is_throw_def oracle_is_unreachable_def oracle_is_uncond_jump_def set_edge_if oracle_target_eq
          edge_kind_def)
  next
    case 3
    then have c: "oracle_is_cond_branch (di_name i)" "\<not> is_unconditional_jump i" "\<not> oracle_is_uncond_jump (di_name i)"
      "\<not> oracle_is_return (di_name i)" "\<not> oracle_is_throw (di_name i)" "\<not> oracle_is_unreachable (di_name i)"
      using n by (auto simp: is_conditional_branch_def is_unconditional_jump_def oracle_is_return_def
          oracle_is_throw_def oracle_is_unreachable_def oracle_is_uncond_jump_def)
    then show ?thesis
      using 3 by (auto simp: oracle_block_edges_def block_edges_def flows_to_def Let_def set_edge_if oracle_target_eq
          edge_kind_def)
  next
    case 4
    have c: "\<not> is_unconditional_jump i" "\<not> oracle_is_uncond_jump (di_name i)" "\<not> oracle_is_cond_branch (di_name i)"
      "\<not> oracle_is_return (di_name i)" "\<not> oracle_is_throw (di_name i)" "\<not> oracle_is_unreachable (di_name i)"
      using 4 n by (auto simp: is_unconditional_jump_def oracle_is_return_def
          oracle_is_throw_def oracle_is_unreachable_def oracle_is_uncond_jump_def)
    define d where "d = addr_target i (if di_name i = ''StringSwitchImm'' then 3 else 2)"
    define cs where "cs = (if di_name i = ''StringSwitchImm'' then oracle_string_cases i bytecodes else oracle_int_cases i bytecodes)"
    have "oracle_block_edges K bytecodes l i es = fold (case_edge K l) cs (edge_if K l d EK_SwitchDefault es)"
      using 4 c by (simp add: oracle_block_edges_def oracle_is_string_switch_def oracle_is_int_switch_def cs_def d_def)
    then have run: "set (oracle_block_edges K bytecodes l i es) = set es \<union> {(l, t, EK_SwitchDefault) | t. d = Some t \<and> t \<in> set K}
        \<union> {(l, t, EK_Branch) | t. t \<in> set cs \<and> t \<in> set K \<and> d \<noteq> Some t}"
      using assms(2) by (auto simp: set_case_edges set_edge_if)
    have "switch_targets bytecodes i = set_option d \<union> set cs"
      using 4 by (simp add: switch_targets_def d_def cs_def addr_target_eq set_string_cases set_int_cases)
    then have flows: "flows_to bytecodes i t \<longleftrightarrow> d = Some t \<or> t \<in> set cs" for t
      using 4 c by (auto simp: flows_to_def)
    have kind: "edge_kind i t = (if d = Some t then EK_SwitchDefault else EK_Branch)" for t
      unfolding edge_kind_def d_def if_not_P [OF c(1)] if_not_P [OF 4(2)] if_P [OF 4(1)] by (rule refl)
    have "x \<in> block_edges (set K) bytecodes l i \<longleftrightarrow>
        x \<in> {(l, t, EK_SwitchDefault) | t. d = Some t \<and> t \<in> set K} \<union> {(l, t, EK_Branch) | t. t \<in> set cs \<and> t \<in> set K \<and> d \<noteq> Some t}" for x
      unfolding block_edges_def flows kind by (cases x; cases d) (auto split: if_splits)
    then show ?thesis unfolding run by blast
  next
    case 5
    then have "\<not> oracle_is_terminator (di_name i)" "\<not> is_unconditional_jump i" "\<not> is_conditional_branch i"
      "\<not> str_contains (di_name i) ''SwitchImm''"
      using n terminator_cases by blast+
    then show ?thesis
      using 5 by (auto simp: oracle_is_terminator_def oracle_block_edges_def block_edges_def flows_to_def set_edge_if
          oracle_target_eq edge_kind_def)
  qed
qed

lemma shape_kind_eq:
  assumes "oracle_names (last (bb_instructions b))" "bb_instructions b \<noteq> []"
  shows "shape_kind b t = edge_kind (last (bb_instructions b)) t"
proof -
  let ?i = "last (bb_instructions b)"
  have cond: "oracle_is_cond_branch (di_name ?i) = is_conditional_branch ?i"
    using assms(1) by (simp add: oracle_names_def)
  have target: "cond_target_off ?i = branch_target ?i" if "is_conditional_branch ?i"
    using assms(1) that by (auto simp: oracle_names_def cond_target_off_def branch_target_def get_at_def)
  show ?thesis
    using assms(2) target string_switch_contains
    by (auto simp: shape_kind_def Let_def edge_kind_def cond is_unconditional_jump_def oracle_is_uncond_jump_def
        oracle_is_string_switch_def oracle_is_int_switch_def)
qed

lemma fold_sets:
  assumes "\<And>x es. x \<in> set xs \<Longrightarrow> P x es \<Longrightarrow> set (f x es) = set es \<union> E x"
    "\<And>x y es. x \<in> set xs \<Longrightarrow> y \<in> set xs \<Longrightarrow> x \<noteq> y \<Longrightarrow> P x es \<Longrightarrow> P y es \<Longrightarrow> P y (f x es)"
    "distinct xs" "\<forall>x\<in>set xs. P x es"
  shows "set (fold f xs es) = set es \<union> (\<Union>x\<in>set xs. E x)"
  using assms
proof (induction xs arbitrary: es)
  case (Cons x xs)
  have "set (fold f xs (f x es)) = set (f x es) \<union> (\<Union>x\<in>set xs. E x)"
  proof (rule Cons.IH)
    show "\<forall>y\<in>set xs. P y (f x es)" using Cons.prems(2) [of x] Cons.prems(3,4) by auto
  qed (use Cons.prems in auto)
  then show ?case using Cons.prems(1) [of x es] Cons.prems(4) by auto
qed simp

text \<open>What the equivalence rests on: a finished graph over a decoded function.\<close>

definition agreeing :: "DecodedInst list \<Rightarrow> ExcHandler list \<Rightarrow> u8 list \<Rightarrow> blocks \<Rightarrow> bool" where
  "agreeing insts handlers bytecodes m \<longleftrightarrow>
     ordered_insts insts \<and> insts \<noteq> [] \<and> (\<forall>i\<in>set insts. oracle_names i)
     \<and> finished bytecodes insts handlers m
     \<and> find (\<lambda>eh. eh_target eh \<notin> offsets insts) handlers = None"

definition shape_blocks :: "blocks \<Rightarrow> (u32, u32 list) btree" where
  "shape_blocks m = map (\<lambda>(k, b). (k, map di_offset (bb_instructions b))) m"

lemma agreeing_block:
  assumes "agreeing insts handlers bytecodes m" "bt_get m k = Some b"
  shows "bb_start b = k" "bb_id b = k" "last_inst_of insts (shape_blocks m) k = Some (last (bb_instructions b))"
    "oracle_block_end insts (shape_blocks m) k rest = Some (bb_end b)" "oracle_names (last (bb_instructions b))"
    "bb_instructions b \<noteq> []"
    "set (bb_successors b) = {t \<in> set (bt_keys m). flows_to bytecodes (last (bb_instructions b)) t}"
    "bb_exc_handler b = handler_for handlers b"
    "\<And>c. bb_exc_handler b = Some c \<Longrightarrow> c \<in> set (bt_keys m)"
proof -
  note a = assms(1) [unfolded agreeing_def]
  have ord: "ordered_insts insts" using a by blast
  have ws: "well_split (leaders bytecodes insts handlers) insts m" using a finished_split by blast
  note blk = get_block [OF ord ws assms(2)]
  show "bb_start b = k" "bb_id b = k" using blk(1,2) by (auto simp: block_ok_def)
  show ne: "bb_instructions b \<noteq> []" by (rule blk(5))
  have dist: "distinct (map di_offset insts)"
    using ord by (simp add: ordered_insts_def strict_sorted_iff)
  have get: "bt_get (shape_blocks m) k = Some (map di_offset (bb_instructions b))"
    by (simp add: shape_blocks_def bt_get_map assms(2))
  have at: "inst_at_addr insts (last (map di_offset (bb_instructions b))) = Some (last (bb_instructions b))"
    using inst_at_addr_eq [OF dist blk(6)] ne by (simp add: last_map)
  then show "last_inst_of insts (shape_blocks m) k = Some (last (bb_instructions b))"
    using ne by (simp add: last_inst_of_def get)
  have "inst_next_offset (last (bb_instructions b)) = Some (bb_end b)"
    using blk(2) by (simp add: block_ok_def)
  then have "sat_add32 (di_offset (last (bb_instructions b))) (ucast (di_size (last (bb_instructions b)))) = bb_end b"
    by (simp add: inst_next_offset_def checked_add32_def sat_add32_def split: if_splits)
  then show "oracle_block_end insts (shape_blocks m) k rest = Some (bb_end b)"
    using ne at by (simp add: oracle_block_end_def get)
  show "oracle_names (last (bb_instructions b))" using a blk(6) by blast
  have g: "set (bb_successors b) = {t \<in> offsets insts. flows_to bytecodes (last (bb_instructions b)) t}
       \<and> set (bb_successors b) \<subseteq> set (bt_keys m) \<and> bb_exc_handler b = handler_for handlers b
       \<and> (\<forall>c. bb_exc_handler b = Some c \<longrightarrow> c \<in> set (bt_keys m))"
    using finished_graph(5) [OF _ _ _ _ assms(2)] a by blast
  then show "bb_exc_handler b = handler_for handlers b" "\<And>c. bb_exc_handler b = Some c \<Longrightarrow> c \<in> set (bt_keys m)"
    by blast+
  have "set (bt_keys m) \<subseteq> offsets insts" using well_splitD(4) [OF ws ord] by simp
  then show "set (bb_successors b) = {t \<in> set (bt_keys m). flows_to bytecodes (last (bb_instructions b)) t}"
    using g by blast
qed

lemma agreeing_keys:
  assumes "agreeing insts handlers bytecodes m"
  shows "bt_ok m" "distinct (bt_keys m)" "\<And>k. k \<in> set (bt_keys m) \<Longrightarrow> \<exists>b. bt_get m k = Some b"
  using assms well_splitD(1,2) [OF finished_split] bt_get_keys [of _ m] by (auto simp: agreeing_def)

lemma set_oracle_edges:
  assumes "agreeing insts handlers bytecodes m"
  shows "set (oracle_edges (bt_keys m) insts (shape_blocks m) bytecodes)
    = (\<Union>(k, b)\<in>set m. block_edges (set (bt_keys m)) bytecodes k (last (bb_instructions b)))"
proof -
  let ?f = "\<lambda>k es. case last_inst_of insts (shape_blocks m) k of None \<Rightarrow> es
             | Some last_inst \<Rightarrow> oracle_block_edges (bt_keys m) bytecodes k last_inst es"
  let ?E = "\<lambda>k. block_edges (set (bt_keys m)) bytecodes k (last (bb_instructions (the (bt_get m k))))"
  let ?P = "\<lambda>k es. \<forall>t. (k, t, EK_SwitchDefault) \<notin> set (es :: oracle_edge list)"
  note keys = agreeing_keys [OF assms]
  have step: "set (?f k es) = set es \<union> ?E k" if k: "k \<in> set (bt_keys m)" "?P k es" for k es
  proof -
    obtain b where b: "bt_get m k = Some b" using keys(3) k(1) by blast
    show ?thesis
      using set_oracle_block_edges [OF agreeing_block(5) [OF assms b] k(2)] agreeing_block(3) [OF assms b]
      by (simp add: b)
  qed
  have keep: "?P k' (?f k es)" if "k \<in> set (bt_keys m)" "k \<noteq> k'" "?P k es" "?P k' es" for k k' es
    using step [OF that(1,3)] that(2,4) by (auto simp: block_edges_def)
  have "set (oracle_edges (bt_keys m) insts (shape_blocks m) bytecodes) = (\<Union>k\<in>set (bt_keys m). ?E k)"
    unfolding oracle_edges_def
    using fold_sets [where P = ?P and f = ?f and E = ?E and xs = "bt_keys m" and es = "[]"] step keep keys(2) by simp
  also have "\<dots> = (\<Union>(k, b)\<in>set m. block_edges (set (bt_keys m)) bytecodes k (last (bb_instructions b)))"
    using bt_mem [OF keys(1)] by (force simp: bt_keys_def)
  finally show ?thesis .
qed

lemma mark_handler_get:
  assumes "agreeing insts handlers bytecodes m"
  shows "set ks \<subseteq> set (bt_keys m) \<Longrightarrow> bt_ok e \<Longrightarrow>
    bt_ok (mark_handler insts (shape_blocks m) eh ks e)
    \<and> bt_get (mark_handler insts (shape_blocks m) eh ks e) k
      = (if k \<in> set ks \<and> covers eh (the (bt_get m k)) then Some (eh_target eh) else bt_get e k)"
proof (induction ks arbitrary: e)
  case (Cons k1 ks)
  obtain b where b: "bt_get m k1 = Some b" using agreeing_keys(3) [OF assms] Cons.prems(1) by force
  let ?e = "if covers eh b then bt_insert k1 (eh_target eh) e else e"
  have run: "mark_handler insts (shape_blocks m) eh (k1 # ks) e = mark_handler insts (shape_blocks m) eh ks ?e"
    using agreeing_block(1,4) [OF assms b] by (simp add: covers_def)
  have "bt_ok ?e" using Cons.prems(2) by (simp add: bt_insert_ok)
  then show ?case
    using Cons.IH [of ?e] Cons.prems(1) unfolding run by (auto simp: b bt_get_insert)
qed simp

lemma marked_handlers:
  assumes "agreeing insts handlers bytecodes m"
  shows "\<forall>eh\<in>set ehs. eh_target eh \<in> set (bt_keys m) \<Longrightarrow> bt_ok e \<Longrightarrow>
    bt_ok (fold (\<lambda>eh e. if eh_target eh \<in> set (bt_keys m)
        then mark_handler insts (shape_blocks m) eh (bt_keys m) e else e) ehs e)
    \<and> bt_get (fold (\<lambda>eh e. if eh_target eh \<in> set (bt_keys m)
        then mark_handler insts (shape_blocks m) eh (bt_keys m) e else e) ehs e) k
      = (case bt_get m k of None \<Rightarrow> bt_get e k
         | Some b \<Rightarrow> (case handler_for ehs b of Some t \<Rightarrow> Some t | None \<Rightarrow> bt_get e k))"
proof (induction ehs arbitrary: e)
  case Nil
  then show ?case by (simp add: handler_for_def split: option.split)
next
  case (Cons eh ehs)
  note mark = mark_handler_get [OF assms subset_refl Cons.prems(2), of eh]
  show ?case
    using Cons.IH [of "mark_handler insts (shape_blocks m) eh (bt_keys m) e"] Cons.prems(1) mark
      bt_get_keys [of k m] by (auto simp: handler_for_Cons split: option.splits)
qed

lemma set_oracle_exc_edges:
  assumes "agreeing insts handlers bytecodes m"
  shows "set (oracle_exc_edges (bt_keys m) insts (shape_blocks m) handlers es)
    = set es \<union> {(k, c, EK_ExceptionHandler) | k c b. (k, b) \<in> set m \<and> bb_exc_handler b = Some c}"
proof -
  note a = assms [unfolded agreeing_def]
  have ws: "well_split (leaders bytecodes insts handlers) insts m" using a finished_split by blast
  have "\<forall>eh\<in>set handlers. eh_target eh \<in> set (bt_keys m)"
    using a well_splitD(4) [OF ws] by (auto simp: find_None_iff leaders_def)
  note marked = marked_handlers [OF assms this, of "[]"]
  let ?e = "fold (\<lambda>eh e. if eh_target eh \<in> set (bt_keys m)
        then mark_handler insts (shape_blocks m) eh (bt_keys m) e else e) handlers []"
  have ok: "bt_ok ?e" using marked by (simp add: bt_ok_def bt_keys_def)
  have "bt_get ?e k = Some c \<longleftrightarrow> (\<exists>b. bt_get m k = Some b \<and> bb_exc_handler b = Some c)" for k c
    using marked [of k] agreeing_block(8) [OF assms, of k]
    by (auto simp: bt_ok_def bt_keys_def bt_get_def [of "[]"] split: option.splits)
  then have mem: "(k, c) \<in> set ?e \<longleftrightarrow> (\<exists>b. (k, b) \<in> set m \<and> bb_exc_handler b = Some c)" for k c
    using bt_mem [OF ok] bt_mem [OF agreeing_keys(1) [OF assms]] by simp
  have "set (fold (\<lambda>(k, c). bs_insert (k, c, EK_ExceptionHandler)) xs es)
      = set es \<union> {(k, c, EK_ExceptionHandler) | k c. (k, c) \<in> set xs}" for xs :: "(u32 \<times> u32) list" and es
    by (induction xs arbitrary: es) auto
  then show ?thesis
    unfolding oracle_exc_edges_def Let_def using mem by auto
qed

section \<open>The shape\<close>

lemma set_shape_block_edges:
  assumes "agreeing insts handlers bytecodes m" "bt_get m k = Some b"
  shows "set (shape_block_edges m b es) = set es
    \<union> {(k, c, EK_ExceptionHandler) | c. bb_exc_handler b = Some c}
    \<union> block_edges (set (bt_keys m)) bytecodes k (last (bb_instructions b))"
proof -
  note blk = agreeing_block [OF assms]
  have start: "bt_get m s \<noteq> None \<Longrightarrow> bb_start (the (bt_get m s)) = s" for s
    using agreeing_block(1) [OF assms(1)] by auto
  let ?es = "case bb_exc_handler b of
            None \<Rightarrow> es
          | Some catch_id \<Rightarrow>
              (case bt_get m catch_id of
                 None \<Rightarrow> es
               | Some catch_block \<Rightarrow> bs_insert (bb_start b, bb_start catch_block, EK_ExceptionHandler) es)"
  have exc: "set ?es = set es \<union> {(k, c, EK_ExceptionHandler) | c. bb_exc_handler b = Some c}"
    using blk(1,9) start bt_get_keys [of _ m] by (fastforce split: option.splits)
  have "set ss \<subseteq> set (bt_keys m) \<Longrightarrow>
      set (fold (\<lambda>s edges. case bt_get m s of
                 None \<Rightarrow> edges
               | Some tb \<Rightarrow> bs_insert (bb_start b, bb_start tb, shape_kind b (bb_start tb)) edges) ss es)
      = set es \<union> (\<lambda>s. (k, s, shape_kind b s)) ` set ss" for ss es
  proof (induction ss arbitrary: es)
    case (Cons s ss)
    then obtain tb where "bt_get m s = Some tb" using agreeing_keys(3) [OF assms(1)] by force
    then show ?case using Cons start [of s] blk(1) by auto
  qed simp
  from this [of "bb_successors b" ?es] have "set (shape_block_edges m b es) = set ?es \<union> (\<lambda>s. (k, s, shape_kind b s)) ` set (bb_successors b)"
    using blk(7) unfolding shape_block_edges_def Let_def by blast
  moreover have "(\<lambda>s. (k, s, shape_kind b s)) ` set (bb_successors b)
      = block_edges (set (bt_keys m)) bytecodes k (last (bb_instructions b))"
    unfolding block_edges_def blk(7) shape_kind_eq [OF blk(5,6)] ..
  ultimately show ?thesis by (simp only: exc)
qed

lemma bs_ok_edges:
  "bs_ok es \<Longrightarrow> bs_ok (oracle_block_edges K bytecodes l i es)"
  "bs_ok es \<Longrightarrow> bs_ok (shape_block_edges m b es)"
  "bs_ok es \<Longrightarrow> bs_ok (oracle_exc_edges K insts blocks handlers es)"
proof -
  have e: "bs_ok es \<Longrightarrow> bs_ok (edge_if K l t kind es)" for t kind es
    by (auto simp: edge_if_def split: option.split)
  have c: "bs_ok es \<Longrightarrow> bs_ok (fold (case_edge K l) ts es)" for ts es
    by (rule bs_ok_fold) (auto simp: case_edge_def)
  show "bs_ok es \<Longrightarrow> bs_ok (oracle_block_edges K bytecodes l i es)"
    by (simp add: oracle_block_edges_def Let_def e c)
  show "bs_ok es \<Longrightarrow> bs_ok (shape_block_edges m b es)"
    unfolding shape_block_edges_def Let_def by (rule bs_ok_fold) (auto split: option.split)
  show "bs_ok es \<Longrightarrow> bs_ok (oracle_exc_edges K insts blocks handlers es)"
    unfolding oracle_exc_edges_def Let_def by (rule bs_ok_fold) auto
qed

lemma agreeing_shape:
  assumes "agreeing insts handlers bytecodes m" "cfg_blocks cfg = m" "cfg_entry cfg = 0"
  shows "cs_leaders (cfg_to_shape cfg) = bt_keys m" "cs_block_instructions (cfg_to_shape cfg) = shape_blocks m"
    "cs_entry (cfg_to_shape cfg) = 0" "bt_keys m \<noteq> []" "hd (bt_keys m) = 0"
    "cs_edges (cfg_to_shape cfg) = oracle_exc_edges (bt_keys m) insts (shape_blocks m) handlers
       (oracle_edges (bt_keys m) insts (shape_blocks m) bytecodes)"
proof -
  note keys = agreeing_keys [OF assms(1)]
  have graph: "0 \<in> set (bt_keys m)" "hd (bt_keys m) = 0" "bt_keys m \<noteq> []"
    using finished_graph(2-4) assms(1) unfolding agreeing_def by blast+
  then show "bt_keys m \<noteq> []" "hd (bt_keys m) = 0" by blast+
  have start: "bb_start b = k" if "(k, b) \<in> set m" for k b
    using that agreeing_block(1) [OF assms(1)] bt_mem [OF keys(1)] by blast
  then have starts: "map bb_start (bt_values m) = bt_keys m"
    by (auto simp: bt_values_def bt_keys_def)
  have sorted: "bs_ok (bt_keys m)" using bt_ok_sorted bt_ok_distinct keys(1) by (auto simp: bs_ok_def)
  have "fold (\<lambda>b. bs_insert (bb_start b)) (bt_values m) [] = fold bs_insert (bt_keys m) []"
    by (simp add: fold_map o_def flip: starts)
  also have "\<dots> = bt_keys m"
    by (rule bs_eqI [OF bs_ok_fold sorted]) (auto simp: set_fold_bs_insert)
  finally show "cs_leaders (cfg_to_shape cfg) = bt_keys m" by (simp add: cfg_to_shape_def assms(2))
  show "cs_entry (cfg_to_shape cfg) = 0"
    using keys(3) graph(1) agreeing_block(1) [OF assms(1)]
    by (force simp: cfg_to_shape_def assms(2,3) split: option.split)
  show "cs_block_instructions (cfg_to_shape cfg) = shape_blocks m"
  proof -
    have "fold (\<lambda>b. bt_insert (bb_start b) (g b)) (map snd xs) [] = map (\<lambda>(k, b). (k, g b)) xs"
      if "sorted_wrt (<) (map fst xs)" "\<forall>(k, b)\<in>set xs. bb_start b = k" for xs :: blocks and g :: "BasicBlock \<Rightarrow> u32 list"
      using that
    proof (induction xs rule: rev_induct)
      case (snoc x xs)
      obtain k b where x: "x = (k, b)" by (cases x)
      have "\<forall>k'\<in>set (bt_keys (map (\<lambda>(k, b). (k, g b)) xs)). k' < k"
        using snoc.prems(1) by (force simp: x sorted_wrt_append bt_keys_def)
      then show ?case using snoc by (simp add: x sorted_wrt_append bt_insert_last)
    qed simp
    from this [of m "\<lambda>b. map di_offset (bb_instructions b)"] show ?thesis
      using keys(1) start by (auto simp: cfg_to_shape_def assms(2) bt_values_def bt_keys_def bt_ok_def shape_blocks_def)
  qed
  show "cs_edges (cfg_to_shape cfg) = oracle_exc_edges (bt_keys m) insts (shape_blocks m) handlers
       (oracle_edges (bt_keys m) insts (shape_blocks m) bytecodes)"
  proof (rule bs_eqI)
    show "bs_ok (cs_edges (cfg_to_shape cfg))"
      by (simp add: cfg_to_shape_def) (rule bs_ok_fold, rule bs_ok_edges, auto)
    have "bs_ok (oracle_edges (bt_keys m) insts (shape_blocks m) bytecodes)"
      unfolding oracle_edges_def by (rule bs_ok_fold) (auto intro: bs_ok_edges split: option.split)
    then show "bs_ok (oracle_exc_edges (bt_keys m) insts (shape_blocks m) handlers
       (oracle_edges (bt_keys m) insts (shape_blocks m) bytecodes))" by (rule bs_ok_edges)
    have "set (fold (shape_block_edges m) bs es) = set es \<union> (\<Union>b\<in>set bs.
        {(bb_start b, c, EK_ExceptionHandler) | c. bb_exc_handler b = Some c}
        \<union> block_edges (set (bt_keys m)) bytecodes (bb_start b) (last (bb_instructions b)))"
      if "set bs \<subseteq> set (bt_values m)" for bs es
      using that
    proof (induction bs arbitrary: es)
      case (Cons b bs)
      then obtain k where kb: "(k, b) \<in> set m" by (auto simp: bt_values_def)
      then have "bt_get m k = Some b" using bt_mem [OF keys(1)] by simp
      from set_shape_block_edges [OF assms(1) this] show ?case
        using Cons start [OF kb] by auto
    qed simp
    from this [of "bt_values m" "[]"] have "set (cs_edges (cfg_to_shape cfg)) = (\<Union>(k, b)\<in>set m.
        {(k, c, EK_ExceptionHandler) | c. bb_exc_handler b = Some c}
        \<union> block_edges (set (bt_keys m)) bytecodes k (last (bb_instructions b)))"
      using start by (force simp: cfg_to_shape_def assms(2) bt_values_def)
    then show "set (cs_edges (cfg_to_shape cfg)) = set (oracle_exc_edges (bt_keys m) insts (shape_blocks m) handlers
       (oracle_edges (bt_keys m) insts (shape_blocks m) bytecodes))"
      unfolding set_oracle_exc_edges [OF assms(1)] set_oracle_edges [OF assms(1)] by auto
  qed
qed

section \<open>The equivalence\<close>

lemma naive_cfg_agreeing:
  assumes "agreeing insts handlers bytecodes m" "cfg_blocks cfg = m" "cfg_entry cfg = 0"
  shows "naive_cfg insts handlers bytecodes = Inr (cfg_to_shape cfg)"
proof -
  note a = assms(1) [unfolded agreeing_def]
  have ord: "ordered_insts insts" and ne: "insts \<noteq> []" and names: "\<forall>i\<in>set insts. oracle_names i" using a by blast+
  have ws: "well_split (leaders bytecodes insts handlers) insts m" using a finished_split by blast
  define offs where "offs = fold (\<lambda>i. bs_insert (di_offset i)) insts []"
  have "set (fold (\<lambda>i. bs_insert (di_offset i)) is s) = offsets is \<union> set s" for "is" :: "DecodedInst list" and s
    by (induction "is" arbitrary: s) auto
  then have offs: "set offs = offsets insts" by (simp add: offs_def)
  have leaders: "oracle_leaders offs bytecodes insts handlers = bt_keys m"
    by (rule oracle_leaders_keys [OF ord ne names offs ws])
  have blocks: "filter (\<lambda>(_, v). v \<noteq> []) (oracle_blocks (bt_keys m) insts) = shape_blocks m"
    unfolding oracle_blocks_eq [OF ord ws] shape_blocks_def
    using agreeing_block(6) [OF assms(1)] bt_mem [OF agreeing_keys(1) [OF assms(1)]]
    by (auto simp: filter_id_conv)
  have keys: "bt_keys (shape_blocks m) = bt_keys m" by (simp add: shape_blocks_def bt_keys_def split_beta)
  then have same: "filter (\<lambda>l. l \<in> set (bt_keys (shape_blocks m))) (bt_keys m) = bt_keys m" by simp
  have entry: "(case bt_keys m of [] \<Rightarrow> 0 | l # _ \<Rightarrow> l) = 0"
    using agreeing_shape(4,5) [OF assms] by (cases "bt_keys m") auto
  have "naive_cfg insts handlers bytecodes = Inr \<lparr>cs_leaders = bt_keys m,
      cs_edges = oracle_exc_edges (bt_keys m) insts (shape_blocks m) handlers
        (oracle_edges (bt_keys m) insts (shape_blocks m) bytecodes),
      cs_entry = 0, cs_block_instructions = shape_blocks m\<rparr>"
    unfolding naive_cfg_def Let_def offs_def [symmetric] leaders blocks same entry using ne by simp
  then show ?thesis
    using agreeing_shape [OF assms] by (simp add: CfgShape.equality)
qed

text \<open>
  C16. The independent oracle agrees with the production graph. For the instructions of a decoded
  function whose graph \<open>Cfg::build\<close> returns, \<open>naive_cfg\<close> returns its shape: the same leaders, the
  same edges with the same kinds, the exception edges included, the same entry and the same
  instruction offsets in every block.
\<close>

theorem naive_cfg_agrees:
  assumes "decode_function code version = Inr insts" "length code < 2 ^ 32"
    "cfg_build insts handlers bytecodes = Inr cfg"
  shows "naive_cfg insts handlers bytecodes = Inr (cfg_to_shape cfg)"
proof (cases "insts = []")
  case True
  then have "cfg = \<lparr>cfg_blocks = [(0, new_block 0 0 [])], cfg_entry = 0, cfg_block_order = [0], cfg_exc_predecessors = []\<rparr>"
    using assms(3) by (simp add: cfg_build_def)
  then show ?thesis
    using True by (simp add: naive_cfg_def cfg_to_shape_def bt_values_def new_block_def bs_insert_def bt_get_def
        shape_block_edges_def insort_insert_key_def)
next
  case False
  note c = built [OF assms(1,2) False assms(3)]
  have "length code < 2 ^ 63" using assms(2) by simp
  then have "\<forall>i\<in>set insts. oracle_names i" using decoded_names [OF assms(1)] by blast
  then have "agreeing insts handlers bytecodes (cfg_blocks cfg)"
    using c False by (simp add: agreeing_def)
  then show ?thesis by (rule naive_cfg_agreeing [OF _ refl c(5)])
qed

end
