(* ===== verification/Hermes_Decode_Samples.thy ===== *)
theory Hermes_Decode_Samples
  imports Hermes_Decode
begin

text \<open>
  A v96 function body at which the properties of the decoder are applied: a conditional jump over
  a move, then a return; and a body cut short in a move.
\<close>

definition sample_code :: "u8 list" where
  "sample_code = [144, 6, 1, 8, 2, 1, 92, 2]"

definition sample_insts :: "DecodedInst list" where
  "sample_insts =
     [\<lparr>di_offset = 0, di_size = 3, di_opcode = 144, di_name = ''JmpTrue'', di_op = OP_JmpTrue,
       di_operands = [Op_Addr 6, Op_Reg 1], di_op_types = [OT_A1, OT_R]\<rparr>,
      \<lparr>di_offset = 3, di_size = 3, di_opcode = 8, di_name = ''Mov'', di_op = OP_Mov,
       di_operands = [Op_Reg 2, Op_Reg 1], di_op_types = [OT_R, OT_R]\<rparr>,
      \<lparr>di_offset = 6, di_size = 2, di_opcode = 92, di_name = ''Ret'', di_op = OP_Ret,
       di_operands = [Op_Reg 2], di_op_types = [OT_R]\<rparr>]"

lemma selects_96: "selects 96 V95_TABLES"
  by (simp add: selects_def selections version_arm_def map_of_arms supported_tables_def)

lemma sample_insts_of: "list_all (inst_of V95_TABLES) sample_insts"
  by (simp add: sample_insts_def inst_of_def V95_TABLES_def V95_SIZES_def V95_NAMES_def
      V95_OPCODES_def V95_SCHEMAS_def)

lemma sample_encoded: "sample_code = concat (map encode_inst sample_insts)" "consecutive 0 sample_insts"
  by (simp_all add: sample_code_def sample_insts_def encode_inst_def)

lemma decode_function_exact_witness: "decode_function sample_code 96 = Inr sample_insts"
  using decode_function_exact [OF selects_96, of sample_code sample_insts] sample_insts_of sample_encoded
  by (simp add: sample_code_def)

lemma decode_function_errors_witness:
  "decode_function (sample_code @ [8, 3]) 96 = Inl (TruncatedInstructionStream 8 8)"
proof -
  have "length sample_code = 8" by (simp add: sample_code_def)
  moreover have "stuck V95_TABLES 8 [8, 3] (TruncatedInstructionStream 8 8)"
    by (simp add: stuck_def V95_TABLES_def V95_SIZES_def)
  ultimately have "\<exists>insts rest. sample_code @ [8, 3] = concat (map encode_inst insts) @ rest
      \<and> list_all (inst_of V95_TABLES) insts \<and> consecutive 0 insts
      \<and> stuck V95_TABLES (length (sample_code @ [8, 3]) - length rest) rest (TruncatedInstructionStream 8 8)"
    using sample_insts_of sample_encoded
    by (intro exI [of _ sample_insts] exI [of _ "[8, 3]"]) (simp flip: sample_encoded(1))
  moreover have "length (sample_code @ [8, 3]) < 2 ^ 63" by (simp add: sample_code_def)
  ultimately show ?thesis using decode_function_errors [OF selects_96] by blast
qed

lemma decoded_sample: "decode_function sample_code 96 = Inr sample_insts" "length sample_code < 2 ^ 63"
proof -
  show len: "length sample_code < 2 ^ 63" by (simp add: sample_code_def)
  show "decode_function sample_code 96 = Inr sample_insts"
    by (rule decode_function_encoded [OF selects_96 len sample_encoded(1) sample_insts_of sample_encoded(2)])
qed

lemma decoded_instructions_typed_witness:
  "is_jump (hd sample_insts) \<and> branch_operands (hd sample_insts)"
proof -
  have "hd sample_insts \<in> set sample_insts" by (simp add: sample_insts_def)
  note typed = decoded_instructions_typed [OF decoded_sample this]
  have "branch_class (di_name (hd sample_insts)) \<noteq> BC_Plain
      \<and> di_name (hd sample_insts) \<noteq> ''SaveGenerator'' \<and> di_name (hd sample_insts) \<noteq> ''SaveGeneratorLong''"
    by (simp add: sample_insts_def branch_class_def)
  then show ?thesis using typed by blast
qed

end
