(* ===== verification/Hermes_Cfg_Samples.thy ===== *)
theory Hermes_Cfg_Samples
  imports Hermes_Cfg_Agree Hermes_Decode_Samples
begin

text \<open>
  The sample function of \<open>Hermes_Decode_Samples\<close> with a handler over its middle block: the graph
  it has, at which the properties of \<open>Hermes_Cfg_Correct\<close> are applied, and a handler that fails.
\<close>

definition sample_handlers :: "ExcHandler list" where
  "sample_handlers = [\<lparr>eh_start = 3, eh_end = 6, eh_target = 6\<rparr>]"

definition sample_cfg :: Cfg where
  "sample_cfg = \<lparr>cfg_blocks =
     [(0, \<lparr>bb_id = 0, bb_start = 0, bb_end = 3, bb_instructions = [sample_insts ! 0], bb_successors = [6, 3],
           bb_predecessors = [], bb_exc_handler = None, bb_switch_string_ids = []\<rparr>),
      (3, \<lparr>bb_id = 3, bb_start = 3, bb_end = 6, bb_instructions = [sample_insts ! 1], bb_successors = [6],
           bb_predecessors = [0], bb_exc_handler = Some 6, bb_switch_string_ids = []\<rparr>),
      (6, \<lparr>bb_id = 6, bb_start = 6, bb_end = 8, bb_instructions = [sample_insts ! 2], bb_successors = [],
           bb_predecessors = [0, 3], bb_exc_handler = None, bb_switch_string_ids = []\<rparr>)],
     cfg_entry = 0, cfg_block_order = [0, 3, 6], cfg_exc_predecessors = [(6, [3])]\<rparr>"

definition sample_blocks :: blocks where
  "sample_blocks = [(0, new_block 0 3 [sample_insts ! 0]), (3, new_block 3 6 [sample_insts ! 1]),
     (6, new_block 6 8 [sample_insts ! 2])]"

lemma sample_boundaries:
  "boundary_pass sample_code sample_insts (bs_insert 0 []) = Inr [0, 3, 6, 8]"
  by (simp add: sample_insts_def inst_boundaries_def inst_next_offset_def checked_add32_def u32_max_def
      is_terminator_def is_jump_def is_return_def is_throw_def branch_target_def checked_add_signed_def
      bs_insert_def insort_insert_key_def ebind_def ok_or_def)

lemma sample_split:
  "split_blocks (handler_boundaries sample_handlers [0, 3, 6, 8]) sample_insts = Inr sample_blocks"
  by (simp add: sample_blocks_def sample_insts_def sample_handlers_def handler_boundaries_def bs_insert_def insort_insert_key_def split_blocks_def
      split_step_def finish_blocks_def inst_next_offset_def checked_add32_def u32_max_def ebind_def ok_or_def)

lemma sample_edges:
  "graph_of sample_code sample_blocks = map (\<lambda>(k, b). (k, b\<lparr>bb_exc_handler := None\<rparr>)) (cfg_blocks sample_cfg)"
  by (simp add: sample_blocks_def graph_of_def sample_insts_def sample_cfg_def new_block_def bt_keys_def bt_get_def bt_update_def
      bt_values_def block_successors_def is_unconditional_jump_def is_conditional_branch_def is_return_def
      is_throw_def push_target_def branch_target_def checked_add_signed_def inst_next_offset_def
      checked_add32_def u32_max_def add_predecessors_def cfg_edges_def)

lemma sample_order: "reverse_post_order (cfg_blocks sample_cfg) 0 = [0, 3, 6]"
  by (simp add: reverse_post_order_def sample_cfg_def successors_of_def bt_get_def bt_keys_def
      bs_insert_def insort_insert_key_def)

lemma sample_build: "cfg_build sample_insts sample_handlers sample_code = Inr sample_cfg"
proof -
  have "sample_insts \<noteq> []" by (simp add: sample_insts_def)
  moreover have "map_handlers sample_handlers
      (map (\<lambda>(k, b). (k, b\<lparr>bb_exc_handler := None\<rparr>)) (cfg_blocks sample_cfg)) = Inr (cfg_blocks sample_cfg)"
    by (simp add: sample_handlers_def sample_cfg_def bt_keys_def bt_values_def bt_update_def)
  moreover have "cfg_of_blocks (cfg_blocks sample_cfg) = Inr sample_cfg"
  proof -
    have "bt_keys (cfg_blocks sample_cfg) = [0, 3, 6]" by (simp add: sample_cfg_def bt_keys_def)
    then show ?thesis
      by (simp add: cfg_of_blocks_def sample_order)
        (simp add: sample_cfg_def bt_values_def exc_predecessors_def bt_push_def bt_get_def ebind_def)
  qed
  ultimately show ?thesis
    by (simp add: cfg_build_def sample_boundaries sample_split ebind_def Let_def sample_edges flip: graph_of_def)
qed

lemma sample_small: "length sample_code < 2 ^ 32" "sample_insts \<noteq> []"
  by (simp_all add: sample_code_def sample_insts_def)

lemmas sample = decoded_sample(1) sample_small sample_build

lemma sample_leaders: "bt_keys (cfg_blocks sample_cfg) = [0, 3, 6]"
  by (simp add: sample_cfg_def bt_keys_def)

lemma cfg_blocks_partition_witness:
  "map di_offset (filter (\<lambda>i. di_offset i \<in> leaders sample_code sample_insts sample_handlers) sample_insts) = [0, 3, 6]"
  using cfg_blocks_partition [OF sample] sample_leaders by simp

lemma cfg_edges_flow_witness:
  "{t \<in> offsets sample_insts. flows_to sample_code (sample_insts ! 0) t} = {3, 6}"
proof -
  have get: "bt_get (cfg_blocks sample_cfg) 0 = Some \<lparr>bb_id = 0, bb_start = 0, bb_end = 3,
      bb_instructions = [sample_insts ! 0], bb_successors = [6, 3], bb_predecessors = [], bb_exc_handler = None,
      bb_switch_string_ids = []\<rparr>"
    by (simp add: sample_cfg_def bt_get_def)
  have "{t \<in> offsets sample_insts. flows_to sample_code (sample_insts ! 0) t} = {6, 3}"
    using conjunct1 [OF cfg_edges_flow [OF sample get, of 0]] by (simp only: BasicBlock.select_convs last_ConsL list.simps)
  then show ?thesis by (simp only: insert_commute)
qed

lemma cfg_block_order_rpo_witness: "before [0, 3, 6] (0 :: u32) 3"
proof -
  let ?m = "cfg_blocks sample_cfg"
  have succs: "successors_of ?m 0 = [6, 3]" "successors_of ?m 3 = [6]" "successors_of ?m 6 = []"
    by (simp_all add: sample_cfg_def successors_of_def bt_get_def)
  have "reaches ?m 3 k \<Longrightarrow> k = 3 \<or> k = 6" for k
    by (induction rule: rtranclp_induct) (auto simp: succs)
  then have "\<not> reaches ?m 3 0" by force
  moreover have "cfg_block_order sample_cfg = [0, 3, 6]" by (simp add: sample_cfg_def)
  ultimately show ?thesis using cfg_block_order_rpo [OF sample] succs by auto
qed

lemma cfg_exception_layout_witness: "before [0, 3, 6] (3 :: u32) 6"
proof -
  have "sample_cfg = \<lparr>cfg_blocks = cfg_blocks sample_cfg, cfg_entry = 0, cfg_block_order = [0, 3, 6],
      cfg_exc_predecessors = [(6, [3])]\<rparr>" by (simp add: sample_cfg_def)
  then have order: "cfg_block_order sample_cfg = [0, 3, 6]" by (metis Cfg.select_convs(3))
  have "\<exists>b\<in>set (bt_values (cfg_blocks sample_cfg)). bb_id b = 3 \<and> bb_exc_handler b = Some 6"
    by (simp add: sample_cfg_def bt_values_def)
  then show ?thesis using cfg_exception_layout [OF sample, of 6] order by fastforce
qed

lemma cfg_build_errors_witness:
  "cfg_build sample_insts (sample_handlers @ [\<lparr>eh_start = 0, eh_end = 3, eh_target = 4\<rparr>]) sample_code
   = Inl (InvalidExceptionHandlerTarget 4)"
  using cfg_build_errors [OF decoded_sample(1) sample_small,
      of "sample_handlers @ [\<lparr>eh_start = 0, eh_end = 3, eh_target = 4\<rparr>]" sample_code 4]
  by (simp add: sample_handlers_def sample_insts_def)

lemma naive_cfg_agrees_witness:
  "naive_cfg sample_insts sample_handlers sample_code = Inr
     \<lparr>cs_leaders = [0, 3, 6],
      cs_edges = [(0, 3, EK_FallThrough), (0, 6, EK_Branch), (3, 6, EK_FallThrough), (3, 6, EK_ExceptionHandler)],
      cs_entry = 0, cs_block_instructions = [(0, [0]), (3, [3]), (6, [6])]\<rparr>"
proof -
  have "cfg_to_shape sample_cfg = \<lparr>cs_leaders = [0, 3, 6],
      cs_edges = [(0, 3, EK_FallThrough), (0, 6, EK_Branch), (3, 6, EK_FallThrough), (3, 6, EK_ExceptionHandler)],
      cs_entry = 0, cs_block_instructions = [(0, [0]), (3, [3]), (6, [6])]\<rparr>"
    by (simp add: cfg_to_shape_def sample_cfg_def sample_insts_def bt_values_def bt_get_def bs_insert_def
        insort_insert_key_def shape_block_edges_def shape_kind_def cond_target_off_def get_at_def
        checked_add_signed_def oracle_is_uncond_jump_def oracle_is_cond_branch_def oracle_is_string_switch_def
        oracle_is_int_switch_def less_eq_prod_def less_prod_def less_eq_EdgeKindOracle_def less_EdgeKindOracle_def)
  then show ?thesis using naive_cfg_agrees [OF sample(1,2,4)] by simp
qed

end
