(* ===== verification/Hermes_Scanner.thy ===== *)
theory Hermes_Scanner
  imports Hermes_Regions Hermes_Tables Hermes_BTree
begin

text \<open>
  The cross-reference scanner of \<open>scanner.rs\<close>: one pass over the bytes of every function, reading
  string, callee and closure operands at the places the opcode tables give.
\<close>

section \<open>Results and tables\<close>

record ScanResult =
  sr_string_refs :: "(u32, u32 list) btree"
  sr_call_graph :: "(u32, u32 list) btree"
  sr_closure_refs :: "(u32, u32 list) btree"

record ScanMode =
  sm_xrefs :: bool
  sm_callgraph :: bool

definition empty_scan :: ScanResult where
  "empty_scan = \<lparr>sr_string_refs = [], sr_call_graph = [], sr_closure_refs = []\<rparr>"

text \<open>\<open>[Option<(u8, u8)>; 256]\<close>: the byte offset and the width of the operand of an opcode.\<close>

type_synonym op_table = "(u8 \<times> u8) option list"

record OpLookup =
  ol_str_ops :: op_table
  ol_call_ops :: op_table

definition fill_ops :: "(u8 \<times> u8 \<times> u8) list \<Rightarrow> op_table" where
  "fill_ops ops = fold (\<lambda>(op, off, sz) s. s[unat op := Some (off, sz)]) ops (replicate 256 None)"

definition OpLookup_build :: "(u8 \<times> u8 \<times> u8) list \<Rightarrow> (u8 \<times> u8 \<times> u8) list \<Rightarrow> OpLookup" where
  "OpLookup_build str_ops call_ops = \<lparr>ol_str_ops = fill_ops str_ops, ol_call_ops = fill_ops call_ops\<rparr>"

definition closure_ops_of :: "string list \<Rightarrow> op_table" where
  "closure_ops_of names =
     fold (\<lambda>(i, name) s. case closure_operand name of None \<Rightarrow> s | Some q \<Rightarrow> s[i := Some q])
       (zip [0..<length names] names) (replicate 256 None)"

definition opcode_version :: "HbcFile \<Rightarrow> u32" where
  "opcode_version f =
     (if hf_version f = 98 then if hf_use_v99_func_header f then V98_LATE else 98 else hf_version f)"

text \<open>What the loop over the functions has looked up before it starts.\<close>

record scan_env =
  se_sizes :: "u8 list"
  se_lookup :: OpLookup
  se_closure_ops :: op_table
  se_mode :: ScanMode
  se_string_count :: u32
  se_function_count :: u32

section \<open>One instruction\<close>

definition scan_operand :: "u8 list \<Rightarrow> usize \<Rightarrow> u8 \<Rightarrow> u32 option" where
  "scan_operand code pos width =
     Option.bind (checked_add64 pos (unat width)) (\<lambda>e.
     Option.bind (get_range code pos e) (\<lambda>bytes.
     if width = 1 then Some (ucast (bytes ! 0))
     else if width = 2 then Some (ucast (u16_from_le bytes))
     else if width = 4 then Some (u32_from_le bytes)
     else None))"

text \<open>\<open>if let Some((byte_off, op_size)) = table[opcode] && ... && id < bound\<close>\<close>

definition table_operand :: "op_table \<Rightarrow> u8 list \<Rightarrow> usize \<Rightarrow> u32 \<Rightarrow> u32 option" where
  "table_operand table code pos bound =
     (case table ! unat (code ! pos) of
        None \<Rightarrow> None
      | Some (byte_off, op_size) \<Rightarrow>
          Option.bind (checked_add64 pos (unat byte_off)) (\<lambda>operand_pos.
          Option.bind (scan_operand code operand_pos op_size) (\<lambda>id.
          if id < bound then Some id else None)))"

text \<open>\<open>let v = map.entry(k).or_default(); if v.last() != Some(&x) { v.push(x) }\<close>\<close>

definition note_ref :: "'k::linorder \<Rightarrow> 'x \<Rightarrow> ('k, 'x list) btree \<Rightarrow> ('k, 'x list) btree" where
  "note_ref k x m =
     (let xs = (case bt_get m k of None \<Rightarrow> [] | Some xs \<Rightarrow> xs)
      in bt_insert k (if xs \<noteq> [] \<and> last xs = x then xs else xs @ [x]) m)"

definition scan_inst :: "scan_env \<Rightarrow> u32 \<Rightarrow> u8 list \<Rightarrow> usize \<Rightarrow> ScanResult \<Rightarrow> ScanResult" where
  "scan_inst env fi code pos r =
     (let r = (if sm_xrefs (se_mode env) then
                 (case table_operand (ol_str_ops (se_lookup env)) code pos (se_string_count env) of
                    None \<Rightarrow> r
                  | Some str_id \<Rightarrow> r\<lparr>sr_string_refs := note_ref str_id fi (sr_string_refs r)\<rparr>)
               else r)
      in if sm_callgraph (se_mode env) then
           let r = (case table_operand (ol_call_ops (se_lookup env)) code pos (se_function_count env) of
                      None \<Rightarrow> r
                    | Some callee \<Rightarrow> r\<lparr>sr_call_graph := note_ref fi callee (sr_call_graph r)\<rparr>)
           in (case table_operand (se_closure_ops env) code pos (se_function_count env) of
                 None \<Rightarrow> r
               | Some target \<Rightarrow> r\<lparr>sr_closure_refs := note_ref fi target (sr_closure_refs r)\<rparr>)
         else r)"

section \<open>The loops\<close>

function scan_code :: "scan_env \<Rightarrow> u32 \<Rightarrow> u8 list \<Rightarrow> usize \<Rightarrow> ScanResult \<Rightarrow> ScanResult" where
  "scan_code env fi code pos r =
     (if pos < length code then
        let opcode = unat (code ! pos) in
        if length (se_sizes env) \<le> opcode then r
        else
          let inst_size = unat (se_sizes env ! opcode) in
          (case checked_add64 pos inst_size of
             None \<Rightarrow> r
           | Some inst_end \<Rightarrow>
               if inst_size = 0 \<or> length code < inst_end then r
               else scan_code env fi code (pos + inst_size) (scan_inst env fi code pos r))
      else r)"
  by pat_completeness auto
termination
  by (relation "measure (\<lambda>(_, _, code, pos, _). length code - pos)") auto

declare scan_code.simps [simp del]

text \<open>The code of a function that is scanned.\<close>

definition scanned_body :: "u8 list \<Rightarrow> FunctionData \<Rightarrow> u8 list option" where
  "scanned_body data fd =
     (let offset = unat (fd_offset fd); size = unat (fd_size fd) in
      case checked_add64 offset size of
        None \<Rightarrow> None
      | Some body_end \<Rightarrow> if size = 0 \<or> length data < body_end then None else Some (slice data offset size))"

definition scan_function ::
  "HbcFile \<Rightarrow> u8 list \<Rightarrow> scan_env \<Rightarrow> ScanResult with_findings \<Rightarrow> u32 \<Rightarrow> ScanResult with_findings" where
  "scan_function f data env rf fi =
     (if is_function_unrecognized f fi then rf
      else case function_get f fi of (fd, fs) \<Rightarrow>
        ((case scanned_body data fd of None \<Rightarrow> fst rf | Some code \<Rightarrow> scan_code env fi code 0 (fst rf)),
         snd rf @ fs))"

definition scan_parsed_with_mode :: "HbcFile \<Rightarrow> u8 list \<Rightarrow> ScanMode \<Rightarrow> ScanResult with_findings" where
  "scan_parsed_with_mode f data mode =
     (let version = opcode_version f in
      case (get_version_tables version, get_version_names version) of
        (Inr (sizes, str_ops, call_ops), Inr names) \<Rightarrow>
          let env = \<lparr>se_sizes = sizes, se_lookup = OpLookup_build str_ops call_ops,
                se_closure_ops = closure_ops_of names, se_mode = mode,
                se_string_count = hf_string_count f, se_function_count = hf_function_count f\<rparr>
          in foldl (scan_function f data env) (empty_scan, []) (u32_range (hf_function_count f))
      | _ \<Rightarrow> (empty_scan, []))"

definition scan_parsed :: "HbcFile \<Rightarrow> u8 list \<Rightarrow> ScanResult with_findings" where
  "scan_parsed f data = scan_parsed_with_mode f data \<lparr>sm_xrefs = True, sm_callgraph = True\<rparr>"

end
