(* ===== verification/Hermes_Scan_Facts.thy ===== *)
theory Hermes_Scan_Facts
  imports Hermes_Scanner Hermes_Decode
begin

text \<open>
  The scanner reads what the decoder reads: over the instructions \<open>decode_function\<close> finds before it
  first fails, the recorded references are exactly the operands the version's tables name.
\<close>

section \<open>Operands by byte offset\<close>

text \<open>The unsigned operand that begins at a byte offset of an instruction.\<close>

fun operand_from :: "OpType list \<Rightarrow> Operand list \<Rightarrow> nat \<Rightarrow> nat \<Rightarrow> u32 option" where
  "operand_from (t # ts) (x # xs) pos off =
     (if pos = off then (case x of Op_UInt v \<Rightarrow> Some v | _ \<Rightarrow> None)
      else operand_from ts xs (pos + byte_size t) off)"
| "operand_from _ _ _ _ = None"

definition operand_at_byte :: "DecodedInst \<Rightarrow> u8 \<Rightarrow> u32 option" where
  "operand_at_byte inst off = operand_from (di_op_types inst) (di_operands inst) 1 (unat off)"

lemma scan_operand_reads:
  assumes "t \<in> {OT_U1, OT_U2, OT_U4}" "unat width = byte_size t" "pos + byte_size t \<le> length code" "length code < 2 ^ 63"
  shows "\<exists>v. scan_operand code pos width = Some v \<and> read_operand t (take (byte_size t) (drop pos code)) = Op_UInt v"
proof -
  have add: "checked_add64 pos (unat width) = Some (pos + byte_size t)"
    using assms(2-4) by (simp add: checked_add64_def u64_max_def)
  have get: "get_range code pos (pos + byte_size t) = Some (take (byte_size t) (drop pos code))"
    using assms(3) by (simp add: get_range_def)
  have w: "width = of_nat (byte_size t)" using assms(1,2) by (auto simp: word_unat_eq_iff unat_of_nat)
  show ?thesis
    using assms(1) unfolding scan_operand_def add
    by (auto simp: get w read_operand_def slice_def)
qed

lemma operand_at_le: "operand_at ts pos off width \<Longrightarrow> pos \<le> off"
  by (induction ts pos off width rule: operand_at.induct) (auto split: if_splits)

lemma read_at:
  "operand_at ts pos off (unat width) \<Longrightarrow> pos \<le> off \<Longrightarrow> length code < 2 ^ 63 \<Longrightarrow>
   start + sum_list (map byte_size ts) \<le> length code \<Longrightarrow>
     \<exists>v. scan_operand code (start + (off - pos)) width = Some v
       \<and> operand_from ts (read_all read_operand byte_size ts (drop start code)) pos off = Some v"
proof (induction ts arbitrary: pos start)
  case (Cons t ts)
  show ?case
  proof (cases "pos = off")
    case True
    then show ?thesis
      using Cons.prems scan_operand_reads [of t width start code] by auto
  next
    case False
    have at: "operand_at ts (pos + byte_size t) off (unat width)" using Cons.prems(1) False by simp
    then have le: "pos + byte_size t \<le> off" by (rule operand_at_le)
    have "start + byte_size t + (off - (pos + byte_size t)) = start + (off - pos)" using le by simp
    then show ?thesis
      using Cons.IH [OF at le Cons.prems(3), of "start + byte_size t"] Cons.prems(4) False
      by (simp add: add.assoc add.commute [of "byte_size t" start])
  qed
qed simp

text \<open>The reads of the scanner are operands of the instruction the decoder has at the position.\<close>

lemma table_operand_eq:
  assumes "tables_agree t" "length code < 2 ^ 63" "pos < length code" "decode_one (tables_of t) code pos = Inr (inst, e)"
    "\<And>q. table ! unat (di_opcode inst) = Some q \<Longrightarrow> at_offset (di_op_types inst) q"
  shows "table_operand table code pos bound = (case table ! unat (di_opcode inst) of
      None \<Rightarrow> None
    | Some (off, _) \<Rightarrow> (case operand_at_byte inst off of None \<Rightarrow> None | Some v \<Rightarrow> if v < bound then Some v else None))"
    "di_opcode inst = code ! pos"
proof -
  let ?i = "unat (code ! pos)"
  have step: "?i < length (vt_sizes t)" "pos + unat (vt_sizes t ! ?i) \<le> length code" "inst = inst_at t pos (drop pos code)"
    using assms(4) unfolding decode_one_spec [OF assms(1-3)] by (auto simp: Let_def split: if_splits)
  have hd: "hd (drop pos code) = code ! pos" "tl (drop pos code) = drop (pos + 1) code"
    using assms(3) by (simp_all add: hd_drop_conv_nth tl_drop drop_Suc)
  show op: "di_opcode inst = code ! pos" by (simp add: step(3) inst_at_def Let_def hd)
  show "table_operand table code pos bound = (case table ! unat (di_opcode inst) of
      None \<Rightarrow> None
    | Some (off, _) \<Rightarrow> (case operand_at_byte inst off of None \<Rightarrow> None | Some v \<Rightarrow> if v < bound then Some v else None))"
  proof (cases "table ! ?i")
    case (Some q)
    obtain off width where q: "q = (off, width)" by (cases q)
    have ops: "di_op_types inst = snd (vt_schemas t ! ?i)"
      "di_operands inst = read_all read_operand byte_size (snd (vt_schemas t ! ?i)) (drop (pos + 1) code)"
      by (simp_all add: step(3) inst_at_def Let_def hd)
    have at: "operand_at (di_op_types inst) 1 (unat off) (unat width)"
      using assms(5) [of q] Some op by (simp add: at_offset_def q)
    then have pos_off: "1 \<le> unat off" by (rule operand_at_le)
    have size: "unat (vt_sizes t ! ?i) = 1 + sum_list (map byte_size (snd (vt_schemas t ! ?i)))"
      by (rule agree_lengths(5) [OF assms(1) step(1)])
    then have "pos + 1 + sum_list (map byte_size (snd (vt_schemas t ! ?i))) \<le> length code" using step(2) by simp
    from read_at [OF at [unfolded ops(1)] pos_off assms(2) this] obtain v where
      v: "scan_operand code (pos + unat off) width = Some v" "operand_at_byte inst off = Some v"
      using pos_off by (auto simp: operand_at_byte_def ops)
    have "checked_add64 pos (unat off) = Some (pos + unat off)"
      using assms(2,3) unat_u8 [of off] by (simp add: checked_add64_def u64_max_def)
    then show ?thesis by (simp add: table_operand_def Some q v op)
  qed (simp add: table_operand_def op)
qed

section \<open>The lookup tables\<close>

lemma length_fold_update: "length (fold (\<lambda>(op, off, sz) s. s[unat op := Some (off, sz)]) ops s) = length s"
  by (induction ops arbitrary: s) auto

lemma fold_ops_nth:
  "length s = 256 \<Longrightarrow> fold (\<lambda>(op, off, sz) s. s[unat op := Some (off, sz)]) ops s ! unat (k :: u8)
     = (case map_of (rev ops) k of None \<Rightarrow> s ! unat k | Some q \<Rightarrow> Some q)"
proof (induction ops arbitrary: s)
  case (Cons x ops)
  obtain op off sz where x: "x = (op, off, sz)" by (cases x)
  have "unat k < 256" using unat_u8 [of k] by simp
  then show ?case
    using Cons by (auto simp: x nth_list_update map_add_def word_unat_eq_iff split: option.splits)
qed simp

lemma fill_ops_nth: "fill_ops ops ! unat k = map_of (rev ops) k"
  using fold_ops_nth [of "replicate 256 None" ops k] unat_u8 [of k]
  by (simp add: fill_ops_def split: option.split)

lemma closure_ops_nth:
  "length names \<le> 256 \<Longrightarrow> length (closure_ops_of names) = 256 \<and>
     (\<forall>i<256. closure_ops_of names ! i = (if i < length names then closure_operand (names ! i) else None))"
proof (induction names rule: rev_induct)
  case Nil
  then show ?case by (simp add: closure_ops_of_def)
next
  case (snoc n names)
  have "closure_ops_of (names @ [n]) = (case closure_operand n of None \<Rightarrow> closure_ops_of names
      | Some q \<Rightarrow> (closure_ops_of names)[length names := Some q])"
    by (simp add: closure_ops_of_def split: option.split)
  then show ?case using snoc by (auto simp: nth_append nth_list_update split: option.splits)
qed

text \<open>Where the tables of a version point, there is an operand to read.\<close>

lemma points_atD: "points_at P tss qs \<Longrightarrow> map_of (rev qs) op = Some q \<Longrightarrow> unat op < length tss \<and> P (tss ! unat op) q"
  by (auto simp: points_at_def list_all_iff dest!: map_of_SomeD)

lemma map_of_paired:
  "map fst as = map fst bs \<Longrightarrow> map_of (rev (map2 (\<lambda>(op, q) (_, i). (op, q, i)) as bs)) k
     = (case (map_of (rev as) k, map_of (rev bs) k) of (Some q, Some i) \<Rightarrow> Some (q, i) | _ \<Rightarrow> None)
   \<and> (map_of (rev as) k = None \<longleftrightarrow> map_of (rev bs) k = None)"
proof (induction as arbitrary: bs)
  case (Cons a as)
  then obtain b bs' where "bs = b # bs'" "fst a = fst b" "map fst as = map fst bs'" by (cases bs) auto
  then show ?case
    using Cons.IH [of bs'] by (cases a; cases b) (auto simp: map_add_def split: option.splits)
qed simp

lemma operand_is_at: "operand_is ts (q, i) \<Longrightarrow> at_offset ts q"
proof -
  obtain off width where q: "q = (off, width)" by (cases q)
  have "p + sum_list (map byte_size (take n ts)) = o' \<Longrightarrow> n < length ts \<Longrightarrow> ts ! n \<in> {OT_U1, OT_U2, OT_U4}
      \<Longrightarrow> byte_size (ts ! n) = w \<Longrightarrow> operand_at ts p o' w" for p n ts o' w
  proof (induction ts arbitrary: p n)
    case (Cons t ts)
    have "0 < byte_size t" by (cases t) simp_all
    then show ?case using Cons by (cases n) (auto simp: add.assoc)
  qed simp
  then show "operand_is ts (q, i) \<Longrightarrow> at_offset ts q"
    by (simp add: operand_is_def at_offset_def q)
qed

lemma operand_is_nth:
  assumes "operand_is ts ((off, width), i)" "list_all2 operand_typed ts xs"
  shows "operand_from ts xs 1 (unat off) = (case xs ! unat i of Op_UInt v \<Rightarrow> Some v | _ \<Rightarrow> None)"
proof -
  have "n < length ts \<Longrightarrow> p + sum_list (map byte_size (take n ts)) = o' \<Longrightarrow>
      operand_from ts xs p o' = (case xs ! n of Op_UInt v \<Rightarrow> Some v | _ \<Rightarrow> None)" for p n o'
    using assms(2)
  proof (induction ts xs arbitrary: p n rule: list_all2_induct)
    case (Cons t ts x xs)
    have "0 < byte_size t" by (cases t) simp_all
    then show ?case using Cons by (cases n) (auto simp: add.assoc)
  qed simp
  then show ?thesis using assms(1) by (auto simp: operand_is_def)
qed

section \<open>One function\<close>

text \<open>The instructions the decoder reads before it first fails.\<close>

function decoded_prefix :: "decode_tables \<Rightarrow> u8 list \<Rightarrow> usize \<Rightarrow> DecodedInst list" where
  "decoded_prefix tables code pos =
     (if pos < length code then
        case decode_one tables code pos of
          Inl e \<Rightarrow> []
        | Inr (inst, next_pos) \<Rightarrow> inst # decoded_prefix tables code next_pos
      else [])"
  by pat_completeness auto
termination
  by (relation "measure (\<lambda>(_, code, pos). length code - pos)")
    (auto intro!: diff_less_mono2 dest!: decode_one_progress)

declare decoded_prefix.simps [simp del]

lemma decoded_prefix_loop: "decode_loop tables code pos = Inr insts \<Longrightarrow> decoded_prefix tables code pos = insts"
proof (induction tables code pos arbitrary: insts rule: decode_loop.induct)
  case (1 tables code pos)
  then show ?case
    by (subst decoded_prefix.simps) (auto simp: decode_loop.simps [of tables code pos] ebind_eq_Inr
        split: if_splits sum.splits)
qed

text \<open>The operands that are a string id, a callee and a closure's function.\<close>

definition string_use :: "version_tables \<Rightarrow> DecodedInst \<Rightarrow> u32 option" where
  "string_use t inst =
     (case map_of (rev (vt_string_ids t)) (di_opcode inst) of
        None \<Rightarrow> None
      | Some i \<Rightarrow> (case get_at (di_operands inst) (unat i) of Some (Op_UInt v) \<Rightarrow> Some v | _ \<Rightarrow> None))"

definition call_use :: "version_tables \<Rightarrow> DecodedInst \<Rightarrow> u32 option" where
  "call_use t inst =
     Option.bind (map_of (rev (vt_call_ops t)) (di_opcode inst)) (\<lambda>(off, _). operand_at_byte inst off)"

definition closure_use :: "DecodedInst \<Rightarrow> u32 option" where
  "closure_use inst = Option.bind (closure_operand (di_name inst)) (\<lambda>(off, _). operand_at_byte inst off)"

definition below :: "u32 \<Rightarrow> u32 option \<Rightarrow> u32 option" where
  "below bound v = (case v of None \<Rightarrow> None | Some v \<Rightarrow> if v < bound then Some v else None)"

definition uses_of :: "(DecodedInst \<Rightarrow> u32 option) \<Rightarrow> u32 \<Rightarrow> DecodedInst list \<Rightarrow> u32 list" where
  "uses_of use bound insts = List.map_filter (\<lambda>i. below bound (use i)) insts"

definition env_of :: "version_tables \<Rightarrow> HbcFile \<Rightarrow> ScanMode \<Rightarrow> scan_env" where
  "env_of t f mode = \<lparr>se_sizes = vt_sizes t, se_lookup = OpLookup_build (vt_str_ops t) (vt_call_ops t),
     se_closure_ops = closure_ops_of (vt_names t), se_mode = mode,
     se_string_count = hf_string_count f, se_function_count = hf_function_count f\<rparr>"

lemma agree_tables:
  assumes "tables_agree t" "inst_of t inst"
  shows "map_of (rev (vt_str_ops t)) (di_opcode inst) = Some q \<Longrightarrow> at_offset (di_op_types inst) q"
    "map_of (rev (vt_call_ops t)) (di_opcode inst) = Some q \<Longrightarrow> at_offset (di_op_types inst) q"
    "closure_operand (di_name inst) = Some q \<Longrightarrow> at_offset (di_op_types inst) q"
    "map_of (rev (vt_str_ops t)) (di_opcode inst) = None \<longleftrightarrow> map_of (rev (vt_string_ids t)) (di_opcode inst) = None"
    "map_of (rev (vt_str_ops t)) (di_opcode inst) = Some (off, w) \<Longrightarrow> operand_at_byte inst off = string_use t inst"
proof -
  let ?types = "map snd (vt_schemas t)"
  note i = inst_ofD [OF assms]
  note l = agree_lengths [OF assms(1)]
  have ids: "map fst (vt_string_ids t) = map fst (vt_str_ops t)"
    and strs: "points_at operand_is ?types (map2 (\<lambda>(op, q) (_, i). (op, q, i)) (vt_str_ops t) (vt_string_ids t))"
    and calls: "points_at at_offset ?types (vt_call_ops t)"
    and traits: "list_all2 (\<lambda>name. schema_matches (branch_class name, closure_operand name)) (vt_names t) ?types"
    by (insert assms(1), unfold tables_agree_def Let_def, (elim conjE, assumption)+)
  have ty: "?types ! unat (di_opcode inst) = di_op_types inst" using i(1,5) l(2,3) by simp
  note paired = map_of_paired [OF ids [symmetric], of "di_opcode inst"]
  show "map_of (rev (vt_str_ops t)) (di_opcode inst) = None \<longleftrightarrow> map_of (rev (vt_string_ids t)) (di_opcode inst) = None"
    using paired by blast
  have str: "\<exists>i. map_of (rev (vt_string_ids t)) (di_opcode inst) = Some i \<and> operand_is (di_op_types inst) (q, i)"
    if q: "map_of (rev (vt_str_ops t)) (di_opcode inst) = Some q" for q
  proof -
    obtain i where "map_of (rev (vt_string_ids t)) (di_opcode inst) = Some i" using paired q by fastforce
    then show ?thesis using points_atD [OF strs] paired q ty by fastforce
  qed
  show "at_offset (di_op_types inst) q" if "map_of (rev (vt_str_ops t)) (di_opcode inst) = Some q" for q
    using str [OF that] operand_is_at by blast
  show "at_offset (di_op_types inst) q" if "map_of (rev (vt_call_ops t)) (di_opcode inst) = Some q"
    using points_atD [OF calls that] ty by simp
  show "at_offset (di_op_types inst) q" if "closure_operand (di_name inst) = Some q"
    using list_all2_nthD [OF traits, of "unat (di_opcode inst)"] that i(1,3) l(1,3) ty
    by (simp add: schema_matches_def)
  show "operand_at_byte inst off = string_use t inst"
    if "map_of (rev (vt_str_ops t)) (di_opcode inst) = Some (off, w)"
    using str [OF that] operand_is_nth [OF _ i(6)] list_all2_lengthD [OF i(6)]
    by (auto simp: operand_at_byte_def string_use_def get_at_def operand_is_def split: Operand.split)
qed

section \<open>What a scan of one function records\<close>

definition noted :: "ScanMode \<Rightarrow> u32 \<Rightarrow> u32 list \<Rightarrow> u32 list \<Rightarrow> u32 list \<Rightarrow> ScanResult \<Rightarrow> ScanResult" where
  "noted mode fi strs calls closures r =
     \<lparr>sr_string_refs = (if sm_xrefs mode then fold (\<lambda>s. note_ref s fi) strs (sr_string_refs r) else sr_string_refs r),
      sr_call_graph = (if sm_callgraph mode then fold (note_ref fi) calls (sr_call_graph r) else sr_call_graph r),
      sr_closure_refs = (if sm_callgraph mode then fold (note_ref fi) closures (sr_closure_refs r) else sr_closure_refs r)\<rparr>"

lemma noted_append:
  "noted mode fi (s @ s') (c @ c') (k @ k') r = noted mode fi s' c' k' (noted mode fi s c k r)"
  by (simp add: noted_def)

lemma noted_Nil: "noted mode fi [] [] [] r = r"
  by (simp add: noted_def)

lemma scan_inst_noted:
  assumes "tables_agree t" "length code < 2 ^ 63" "pos < length code" "decode_one (tables_of t) code pos = Inr (inst, e)"
  shows "scan_inst (env_of t f mode) fi code pos r =
    noted mode fi (uses_of (string_use t) (hf_string_count f) [inst]) (uses_of (call_use t) (hf_function_count f) [inst])
      (uses_of closure_use (hf_function_count f) [inst]) r"
proof -
  have step: "unat (code ! pos) < length (vt_sizes t)" "pos + unat (vt_sizes t ! unat (code ! pos)) \<le> length code"
    "inst = inst_at t pos (drop pos code)"
    using assms(4) unfolding decode_one_spec [OF assms(1-3)] by (auto simp: Let_def split: if_splits)
  have hd: "hd (drop pos code) = code ! pos" using assms(3) by (simp add: hd_drop_conv_nth)
  have of: "inst_of t inst"
    unfolding step(3) using assms(3) step(1,2) by (intro inst_at_encode(2) [OF assms(1)]) (auto simp: hd)
  note a = agree_tables [OF assms(1) of] and eq = table_operand_eq [OF assms(1-4)]
  have name: "length (vt_names t) \<le> 256" "unat (di_opcode inst) < length (vt_names t)"
    "closure_ops_of (vt_names t) ! unat (di_opcode inst) = closure_operand (di_name inst)"
  proof -
    show len: "length (vt_names t) \<le> 256" using assms(1) by (simp add: tables_agree_def Let_def)
    show lt: "unat (di_opcode inst) < length (vt_names t)"
      using inst_ofD(1) [OF assms(1) of] agree_lengths(1,3) [OF assms(1)] by simp
    show "closure_ops_of (vt_names t) ! unat (di_opcode inst) = closure_operand (di_name inst)"
      using closure_ops_nth [OF len] lt unat_u8 [of "di_opcode inst"] inst_ofD(3) [OF assms(1) of] by simp
  qed
  have str: "table_operand (fill_ops (vt_str_ops t)) code pos b = below b (string_use t inst)" for b
    using a(1,4,5) by (subst eq(1)) (auto simp: fill_ops_nth below_def string_use_def split: option.split)
  have call: "table_operand (fill_ops (vt_call_ops t)) code pos b = below b (call_use t inst)" for b
    using a(2) by (subst eq(1)) (auto simp: fill_ops_nth below_def call_use_def split: option.split)
  have clos: "table_operand (closure_ops_of (vt_names t)) code pos b = below b (closure_use inst)" for b
    using a(3) by (subst eq(1)) (auto simp: name(3) below_def closure_use_def split: option.split)
  show ?thesis
    by (auto simp: scan_inst_def env_of_def OpLookup_build_def str call clos noted_def uses_of_def
        List.map_filter_simps split: option.split)
qed

lemma uses_of_Cons: "uses_of use b (i # insts) = uses_of use b [i] @ uses_of use b insts"
  by (simp add: uses_of_def List.map_filter_simps split: option.split)

lemma scan_code_noted:
  assumes "tables_agree t" "length code < 2 ^ 63"
  defines "prefix \<equiv> decoded_prefix (tables_of t) code"
  shows "scan_code (env_of t f mode) fi code pos r =
    noted mode fi (uses_of (string_use t) (hf_string_count f) (prefix pos))
      (uses_of (call_use t) (hf_function_count f) (prefix pos)) (uses_of closure_use (hf_function_count f) (prefix pos)) r"
proof (induction "length code - pos" arbitrary: pos r rule: less_induct)
  case less
  show ?case
  proof (cases "pos < length code")
    case pos: True
    note spec = decode_one_spec [OF assms(1,2) pos]
    let ?i = "unat (code ! pos)"
    let ?n = "unat (vt_sizes t ! ?i)"
    have sizes: "se_sizes (env_of t f mode) = vt_sizes t" by (simp add: env_of_def)
    have add: "checked_add64 pos ?n = Some (pos + ?n)"
      using assms(2) pos unat_u8 [of "vt_sizes t ! ?i"] by (simp add: checked_add64_def u64_max_def)
    show ?thesis
    proof (cases "length (vt_sizes t) \<le> ?i \<or> length code < pos + ?n")
      case True
      then have "prefix pos = []" using pos spec by (auto simp: prefix_def decoded_prefix.simps Let_def)
      moreover have "scan_code (env_of t f mode) fi code pos r = r"
        using True pos add by (subst scan_code.simps) (auto simp: Let_def sizes)
      ultimately show ?thesis by (simp add: uses_of_def List.map_filter_simps noted_Nil)
    next
      case False
      then have size: "?n = 1 + sum_list (map byte_size (snd (vt_schemas t ! ?i)))"
        by (intro agree_lengths(5) [OF assms(1)]) simp
      have one: "decode_one (tables_of t) code pos = Inr (inst_at t pos (drop pos code), pos + ?n)"
        using False spec by (simp add: Let_def)
      then have pre: "prefix pos = inst_at t pos (drop pos code) # prefix (pos + ?n)"
        using pos by (simp add: prefix_def decoded_prefix.simps [of _ _ pos])
      have sc: "scan_code (env_of t f mode) fi code pos r
          = scan_code (env_of t f mode) fi code (pos + ?n) (scan_inst (env_of t f mode) fi code pos r)"
        using False pos add size by (subst scan_code.simps) (auto simp: Let_def sizes)
      have "length code - (pos + ?n) < length code - pos" using pos size by simp
      from less [OF this] show ?thesis
        unfolding sc pre uses_of_Cons [of _ _ "inst_at t pos (drop pos code)" "prefix (pos + ?n)"] noted_append
          scan_inst_noted [OF assms(1,2) pos one] .
    qed
  next
    case False
    then have "prefix pos = []" by (simp add: prefix_def decoded_prefix.simps)
    then show ?thesis
      using False by (subst scan_code.simps) (simp add: uses_of_def List.map_filter_simps noted_Nil)
  qed
qed

section \<open>All functions\<close>

text \<open>The instructions that are scanned of a function.\<close>

definition scanned_insts :: "version_tables \<Rightarrow> HbcFile \<Rightarrow> u8 list \<Rightarrow> u32 \<Rightarrow> DecodedInst list" where
  "scanned_insts t f data fi =
     (if is_function_unrecognized f fi then []
      else case scanned_body data (fst (function_get f fi)) of
        None \<Rightarrow> []
      | Some code \<Rightarrow> decoded_prefix (tables_of t) code 0)"

definition str_ids :: "version_tables \<Rightarrow> HbcFile \<Rightarrow> u8 list \<Rightarrow> u32 \<Rightarrow> u32 list" where
  "str_ids t f data fi = uses_of (string_use t) (hf_string_count f) (scanned_insts t f data fi)"

definition call_ids :: "version_tables \<Rightarrow> HbcFile \<Rightarrow> u8 list \<Rightarrow> u32 \<Rightarrow> u32 list" where
  "call_ids t f data fi = uses_of (call_use t) (hf_function_count f) (scanned_insts t f data fi)"

definition closure_ids :: "version_tables \<Rightarrow> HbcFile \<Rightarrow> u8 list \<Rightarrow> u32 \<Rightarrow> u32 list" where
  "closure_ids t f data fi = uses_of closure_use (hf_function_count f) (scanned_insts t f data fi)"

lemma scan_function_noted:
  assumes "tables_agree t" "length data < 2 ^ 63"
  shows "fst (scan_function f data (env_of t f mode) rf fi)
    = noted mode fi (str_ids t f data fi) (call_ids t f data fi) (closure_ids t f data fi) (fst rf)"
proof -
  have "length code < 2 ^ 63" if "scanned_body data fd = Some code" for fd code
    using that assms(2) by (auto simp: scanned_body_def Let_def split: option.splits if_splits)
  then show ?thesis
    using scan_code_noted [OF assms(1)]
    by (auto simp: scan_function_def str_ids_def call_ids_def closure_ids_def scanned_insts_def split_beta
        uses_of_def List.map_filter_simps noted_Nil split: option.split)
qed

lemma bt_list_note: "bt_list (note_ref k x m) k' =
    (if k' = k then (if bt_list m k \<noteq> [] \<and> last (bt_list m k) = x then bt_list m k else bt_list m k @ [x])
     else bt_list m k')"
  by (auto simp: note_ref_def bt_list_def bt_get_insert Let_def split: option.splits)

lemma note_strings:
  "bt_list (fold (\<lambda>s. note_ref s fi) ss m) s =
     (if s \<in> set ss \<and> \<not> (bt_list m s \<noteq> [] \<and> last (bt_list m s) = fi) then bt_list m s @ [fi] else bt_list m s)"
proof (induction ss arbitrary: m)
  case (Cons s' ss)
  then show ?case by (auto simp: bt_list_note)
qed simp

lemma remdups_adj_snoc:
  "remdups_adj (xs @ [x]) = (if xs \<noteq> [] \<and> last xs = x then remdups_adj xs else remdups_adj xs @ [x])"
  by (induction xs rule: remdups_adj.induct) auto

lemma note_targets:
  "bt_list (fold (note_ref fi) cs m) g =
     (if g = fi then (if bt_list m fi = [] then remdups_adj cs else bt_list (fold (note_ref fi) cs m) fi) else bt_list m g)"
proof -
  have "bt_list m fi = [] \<Longrightarrow> bt_list (fold (note_ref fi) cs m) fi = remdups_adj cs"
    by (induction cs rule: rev_induct) (auto simp: bt_list_note remdups_adj_snoc)
  moreover have "g \<noteq> fi \<Longrightarrow> bt_list (fold (note_ref fi) cs m) g = bt_list m g"
    by (induction cs arbitrary: m) (auto simp: bt_list_note)
  ultimately show ?thesis by auto
qed

lemma scan_all:
  assumes "tables_agree t" "length data < 2 ^ 63" "distinct fis"
    and r: "r = fst (foldl (scan_function f data (env_of t f mode)) (empty_scan, []) fis)"
  shows "bt_list (sr_string_refs r) s = (if sm_xrefs mode then filter (\<lambda>fi. s \<in> set (str_ids t f data fi)) fis else [])
    \<and> bt_list (sr_call_graph r) g = (if sm_callgraph mode \<and> g \<in> set fis then remdups_adj (call_ids t f data g) else [])
    \<and> bt_list (sr_closure_refs r) g = (if sm_callgraph mode \<and> g \<in> set fis then remdups_adj (closure_ids t f data g) else [])"
  using assms(3) unfolding r
proof (induction fis arbitrary: s g rule: rev_induct)
  case Nil
  then show ?case by (simp add: empty_scan_def bt_list_def bt_get_def)
next
  case (snoc fi fis)
  let ?r = "fst (foldl (scan_function f data (env_of t f mode)) (empty_scan, []) fis)"
  have IH: "bt_list (sr_string_refs ?r) s = (if sm_xrefs mode then filter (\<lambda>fi. s \<in> set (str_ids t f data fi)) fis else [])"
    "bt_list (sr_call_graph ?r) g = (if sm_callgraph mode \<and> g \<in> set fis then remdups_adj (call_ids t f data g) else [])"
    "bt_list (sr_closure_refs ?r) g = (if sm_callgraph mode \<and> g \<in> set fis then remdups_adj (closure_ids t f data g) else [])"
    for s g using snoc by simp_all
  have fi: "fi \<notin> set fis" using snoc.prems by simp
  then have "last (filter P fis) \<noteq> fi" if "filter P fis \<noteq> []" for P
    using last_in_set [OF that] by auto
  then show ?case
    using fi by (auto simp: scan_function_noted [OF assms(1,2)] noted_def note_strings note_targets IH)
qed

section \<open>The theorem\<close>

lemma selects_tables:
  assumes "selects v t"
  shows "get_version_tables v = Inr (vt_sizes t, vt_str_ops t, vt_call_ops t)" "get_version_names v = Inr (vt_names t)"
  using assms by (simp_all add: selects_def)

lemma distinct_u32_range: "distinct (u32_range n)"
  using sorted_u32_range [of n] by (simp add: strict_sorted_iff)

text \<open>
  C17. The scanner records exactly the references the decoder reads. With the tables \<open>t\<close> of the
  version, string \<open>s\<close> below the string count is listed with the functions, each once and in order,
  one of whose instructions has it as the operand the string-id table names; and the callees and the
  closures listed for a function below the function count are those operands of its
  instructions that are functions, in order, repetitions in a row dropped. The instructions of a
  function are those the decoder reads before it first fails; they are all of them when it does not
  fail. An unrecognized function, an empty one or one outside the data has none.
\<close>

theorem scan_exact:
  assumes "selects (opcode_version f) t" "length data < 2 ^ 63"
  shows "(let r = fst (scan_parsed_with_mode f data mode); n = hf_function_count f; body = scanned_insts t f data in
    bt_list (sr_string_refs r) s =
      (if sm_xrefs mode \<and> s < hf_string_count f
       then filter (\<lambda>fi. \<exists>i\<in>set (body fi). string_use t i = Some s) (u32_range n) else [])
    \<and> bt_list (sr_call_graph r) g =
      (if sm_callgraph mode \<and> g < n then remdups_adj (uses_of (call_use t) n (body g)) else [])
    \<and> bt_list (sr_closure_refs r) g =
      (if sm_callgraph mode \<and> g < n then remdups_adj (uses_of closure_use n (body g)) else []))"
proof -
  have t: "tables_agree t" by (rule selects_agree [OF assms(1)])
  have run: "scan_parsed_with_mode f data mode
      = foldl (scan_function f data (env_of t f mode)) (empty_scan, []) (u32_range (hf_function_count f))"
    using selects_tables [OF assms(1)] by (simp add: scan_parsed_with_mode_def Let_def env_of_def)
  have strs: "s \<in> set (str_ids t f data fi) \<longleftrightarrow>
      s < hf_string_count f \<and> (\<exists>i\<in>set (scanned_insts t f data fi). string_use t i = Some s)" for fi
    by (force simp: str_ids_def uses_of_def List.map_filter_def below_def split: option.splits if_splits)
  note all = scan_all [OF t assms(2) distinct_u32_range refl, of f mode "hf_function_count f", folded run]
  show ?thesis
    unfolding Let_def using all by (simp add: strs set_u32_range call_ids_def closure_ids_def)
qed

lemma scan_decoded:
  assumes "selects (opcode_version f) t" "length code < 2 ^ 63" "\<not> is_function_unrecognized f fi"
    "scanned_body data (fst (function_get f fi)) = Some code" "decode_function code (opcode_version f) = Inr insts"
  shows "scanned_insts t f data fi = insts"
  using assms(3-5) decoded_prefix_loop by (simp add: scanned_insts_def decode_function_loop [OF assms(1)])

end
