(* ===== verification/Hermes_Scan_Samples.thy ===== *)
theory Hermes_Scan_Samples
  imports Hermes_Scan_Facts Hermes_Parse_Samples Hermes_Decode_Samples
begin

text \<open>
  The v96 sample file with two functions of four bytes, scanned over data in which each loads the
  constant string 1: the scanner lists both functions for that string.
\<close>

definition load_string :: DecodedInst where
  "load_string = \<lparr>di_offset = 0, di_size = 4, di_opcode = 115, di_name = ''LoadConstString'',
     di_op = OP_LoadConstString, di_operands = [Op_Reg 0, Op_UInt 1], di_op_types = [OT_R, OT_U2]\<rparr>"

definition sample_data :: "u8 list" where
  "sample_data = replicate 180 0 @ [115, 0, 1, 0] @ [115, 0, 1, 0]"

lemma load_string_decoded: "decode_function [115, 0, 1, 0] 96 = Inr [load_string]"
proof (rule decode_function_encoded [OF selects_96])
  show "list_all (inst_of V95_TABLES) [load_string]"
    by (simp add: load_string_def inst_of_def V95_TABLES_def V95_SIZES_def V95_NAMES_def
      V95_OPCODES_def V95_SCHEMAS_def)
qed (simp_all add: load_string_def encode_inst_def le_bytes_numeral)

lemma load_string_use: "string_use V95_TABLES load_string = Some 1"
  by (simp add: string_use_def load_string_def V95_TABLES_def V95_STRING_IDS_def get_at_def)

lemma scan_exact_witness:
  "\<exists>f. fst (parse_inner byte_guard sample_bodies []) = Inr f
    \<and> bt_list (sr_string_refs (fst (scan_parsed_with_mode f sample_data \<lparr>sm_xrefs = True, sm_callgraph = True\<rparr>))) 1 = [0, 1]"
proof -
  obtain f where f: "fst (parse_inner byte_guard sample_bodies []) = Inr f" using accepted_bodies by blast
  note fl = file_bodies [OF f] and get = get_bodies [OF f]
  have strings: "hf_string_count f = 2" "hf_unrecognized_functions f = []"
    using parse_inner_parsed_ok [OF f] fl(2) by (simp_all add: parsed_ok_def header_fields_ok_def Let_def parsed_bodies)
  have version: "opcode_version f = 96" by (simp add: opcode_version_def fl(7))
  have known: "\<not> is_function_unrecognized f i" for i
    by (simp add: is_function_unrecognized_def strings(2) binary_search_ok_def)
  have body: "scanned_body sample_data (fst (function_get f 0)) = Some [115, 0, 1, 0]"
    "scanned_body sample_data (fst (function_get f 1)) = Some [115, 0, 1, 0]"
    by (simp_all add: get scanned_body_def checked_add64_def u64_max_def sample_data_def slice_def)
  have insts: "scanned_insts V95_TABLES f sample_data i = [load_string]"
    if "scanned_body sample_data (fst (function_get f i)) = Some [115, 0, 1, 0]" for i
    by (rule scan_decoded [OF _ _ known that]) (use selects_96 load_string_decoded in \<open>simp_all add: version\<close>)
  have "selects (opcode_version f) V95_TABLES" "length sample_data < 2 ^ 63"
    using selects_96 by (simp_all add: version sample_data_def)
  note exact = scan_exact [OF this, of \<open>\<lparr>sm_xrefs = True, sm_callgraph = True\<rparr>\<close> 1]
  have "u32_range 2 = [0, 1]" by (simp add: u32_range_def upt_rec)
  then show ?thesis
    using f exact insts [OF body(1)] insts [OF body(2)] load_string_use by (intro exI [of _ f]) (simp add: Let_def strings(1) fl(3))
qed

end
