(* ===== verification/Hermes_Literals.thy ===== *)
theory Hermes_Literals
  imports Hermes_Decode Hermes_File
begin

text \<open>
  The serialized literal buffers: \<open>parse_literal_buffer\<close> of \<open>parser/round_trip.rs\<close> and
  \<open>HbcFile::literal_get\<close> of \<open>parser/mod.rs\<close>. A buffer is a sequence of runs; a run is one or two
  bytes with a type and a count, then the payloads of its items. The outer loop consumes bytes even
  where it reads no item (a run may be empty), so the number of requested items does not bound it:
  it is a partial function, and that it returns is a theorem.
\<close>

section \<open>The reader\<close>

record LiteralValue =
  lv_tag :: u8
  lv_str_id :: u32
  lv_ival :: i32
  lv_dval :: f64

definition LITERAL_TAG_INVALID :: u8 where
  "LITERAL_TAG_INVALID = 255"

definition tagged_literal :: "u8 \<Rightarrow> LiteralValue" where
  "tagged_literal t = \<lparr>lv_tag = t, lv_str_id = 0, lv_ival = 0, lv_dval = 0\<rparr>"

text \<open>One item: the value and the cursor after its payload.\<close>

definition literal_item :: "u8 list \<Rightarrow> u8 \<Rightarrow> usize \<Rightarrow> hermes_error + LiteralValue \<times> usize" where
  "literal_item buf type_tag p =
     (if type_tag = 0x00 then Inr (tagged_literal 0, p)
      else if type_tag = 0x10 then Inr (tagged_literal 1, p)
      else if type_tag = 0x20 then Inr (tagged_literal 2, p)
      else if type_tag = 0x30 then
        if length buf < p + 8 then Inl (TruncatedLiteralBuffer 0x30 8 (length buf - p))
        else Inr ((tagged_literal 3)\<lparr>lv_dval := read_f64 buf p\<rparr>, p + 8)
      else if type_tag = 0x40 then
        if length buf < p + 4 then Inl (TruncatedLiteralBuffer 0x40 4 (length buf - p))
        else Inr ((tagged_literal 4)\<lparr>lv_str_id := read_u32 buf p\<rparr>, p + 4)
      else if type_tag = 0x50 then
        if length buf < p + 2 then Inl (TruncatedLiteralBuffer 0x50 2 (length buf - p))
        else Inr ((tagged_literal 4)\<lparr>lv_str_id := ucast (read_u16 buf p)\<rparr>, p + 2)
      else if type_tag = 0x60 then Inr (tagged_literal 5, p)
      else if type_tag = 0x70 then
        if length buf < p + 4 then Inl (TruncatedLiteralBuffer 0x70 4 (length buf - p))
        else Inr ((tagged_literal 6)\<lparr>lv_ival := sint (read_u32 buf p)\<rparr>, p + 4)
      else Inr (tagged_literal LITERAL_TAG_INVALID, p))"

text \<open>The items of a run; at the end of the buffer the loop stops without an error.\<close>

fun literal_items ::
  "u8 list \<Rightarrow> u8 \<Rightarrow> nat \<Rightarrow> usize \<Rightarrow> LiteralValue list \<Rightarrow> hermes_error + LiteralValue list \<times> usize" where
  "literal_items buf type_tag 0 p out = Inr (out, p)"
| "literal_items buf type_tag (Suc n) p out =
     (if length buf \<le> p then Inr (out, p)
      else ebind (literal_item buf type_tag p) (\<lambda>(val, p). literal_items buf type_tag n p (out @ [val])))"

text \<open>The head of a run: its count, its type and the cursor behind it, \<open>None\<close> where the second
  byte is missing.\<close>

definition literal_head :: "u8 list \<Rightarrow> usize \<Rightarrow> (u32 \<times> u8 \<times> usize) option" where
  "literal_head buf p =
     (let tag_byte = buf ! p; p = p + 1 in
      if tag_byte AND 0x80 \<noteq> 0 then
        if length buf \<le> p then None
        else Some (push_bit 8 (ucast (tag_byte AND 0x0F)) OR ucast (buf ! p), tag_byte AND 0x70, p + 1)
      else Some (ucast (tag_byte AND 0x0F), tag_byte AND 0x70, p))"

partial_function (option) literal_loop ::
  "u8 list \<Rightarrow> u32 \<Rightarrow> usize \<Rightarrow> LiteralValue list \<Rightarrow> (hermes_error + LiteralValue list) option" where
  "literal_loop buf remaining p out =
     (if 0 < remaining \<and> p < length buf then
        case literal_head buf p of
          None \<Rightarrow> Some (Inr out)
        | Some head \<Rightarrow>
            let items_to_read = min remaining (fst head);
                items = literal_items buf (fst (snd head)) (unat items_to_read) (snd (snd head)) out
            in if isl items then Some (Inl (projl items))
               else literal_loop buf (remaining - items_to_read) (snd (projr items)) (fst (projr items))
      else Some (Inr out))"

definition parse_literal_buffer :: "u8 list \<Rightarrow> u32 \<Rightarrow> u32 \<Rightarrow> (hermes_error + LiteralValue list) option" where
  "parse_literal_buffer buf offset num_items =
     (if length buf \<le> unat offset then Some (Inr []) else literal_loop buf num_items (unat offset) [])"

text \<open>
  \<open>literal_get\<close> has no error to return: a lookup past the items gives the null literal and a
  truncated buffer the invalid one. \<open>None\<close> would be a panic of the slice or a loop that never ends.
\<close>

definition literal_get :: "HbcFile \<Rightarrow> u8 \<Rightarrow> u32 \<Rightarrow> u32 \<Rightarrow> u32 \<Rightarrow> LiteralValue option" where
  "literal_get f buffer_type offset num_items index =
     (let span = (if buffer_type = 0 then Some (hf_array_buffer f)
                  else if buffer_type = 1 then Some (hf_obj_key_buffer f)
                  else if buffer_type = 2 then Some (hf_obj_value_buffer f) else None)
      in case span of
        None \<Rightarrow> Some (tagged_literal 0)
      | Some (buf_start, buf_size) \<Rightarrow>
          if buf_size = 0 then Some (tagged_literal 0)
          else
            Option.bind (get_range (hf_buf f) buf_start (buf_start + buf_size)) (\<lambda>buf_slice.
            map_option (\<lambda>r. case r of
                Inl _ \<Rightarrow> tagged_literal LITERAL_TAG_INVALID
              | Inr items \<Rightarrow> if unat index < length items then items ! unat index else tagged_literal 0)
              (parse_literal_buffer buf_slice offset num_items)))"

section \<open>The loop returns\<close>

definition truncation :: "hermes_error \<Rightarrow> bool" where
  "truncation e \<longleftrightarrow> (\<exists>t need have. e = TruncatedLiteralBuffer t need have \<and> have < need
     \<and> (t, need) \<in> {(0x30, 8), (0x40, 4), (0x50, 2), (0x70, 4)})"

lemma literal_item_Inl: "literal_item buf t p = Inl e \<Longrightarrow> truncation e"
  by (auto simp: literal_item_def truncation_def split: if_splits)

lemma literal_item_Inr: "literal_item buf t p = Inr (v, q) \<Longrightarrow> p \<le> q"
  by (auto simp: literal_item_def split: if_splits)

lemma literal_items_Inl: "literal_items buf t n p out = Inl e \<Longrightarrow> truncation e"
  by (induction buf t n p out rule: literal_items.induct)
    (auto simp: ebind_eq_Inl split: if_splits dest: literal_item_Inl)

lemma literal_items_Inr:
  "literal_items buf t n p out = Inr (out', q) \<Longrightarrow>
     p \<le> q \<and> length out \<le> length out' \<and> length out' \<le> length out + n"
  by (induction buf t n p out arbitrary: out' q rule: literal_items.induct)
    (fastforce simp: ebind_eq_Inr split: if_splits dest: literal_item_Inr)+

lemma literal_head_Some: "literal_head buf p = Some h \<Longrightarrow> p < snd (snd h)"
  by (auto simp: literal_head_def Let_def split: if_splits)

lemma literal_loop_returns:
  "\<exists>r. literal_loop buf remaining p out = Some r
     \<and> (case r of Inl e \<Rightarrow> truncation e
        | Inr vs \<Rightarrow> length out \<le> length vs \<and> length vs \<le> length out + unat remaining)"
proof (induction "length buf - p" arbitrary: remaining p out rule: less_induct)
  case less
  show ?case
  proof (cases "0 < remaining \<and> p < length buf \<and> literal_head buf p \<noteq> None")
    case False
    then show ?thesis by (subst literal_loop.simps) (auto split: option.split)
  next
    case True
    then obtain count t q where h: "literal_head buf p = Some (count, t, q)" by auto
    let ?k = "min remaining count" and ?items = "literal_items buf t (unat (min remaining count)) q out"
    have q: "p < q" using literal_head_Some [OF h] by simp
    have step: "literal_loop buf remaining p out = (if isl ?items then Some (Inl (projl ?items))
        else literal_loop buf (remaining - ?k) (snd (projr ?items)) (fst (projr ?items)))"
      using True h by (subst literal_loop.simps) (simp add: Let_def)
    show ?thesis
    proof (cases ?items)
      case (Inl e)
      then show ?thesis using step literal_items_Inl [OF Inl] by simp
    next
      case (Inr r)
      then obtain out' p' where r: "?items = Inr (out', p')" by (cases r) simp
      note m = literal_items_Inr [OF r]
      have "unat (remaining - ?k) + unat ?k = unat remaining"
        by (simp add: unat_sub word_le_nat_alt min_le_iff_disj min_def)
      then show ?thesis
        using less.hyps [of p' "remaining - ?k" out'] step True q m r by (fastforce split: sum.splits)
    qed
  qed
qed

section \<open>Literals as bytes\<close>

definition literal_types :: "u8 list" where
  "literal_types = [0x00, 0x10, 0x20, 0x30, 0x40, 0x50, 0x60, 0x70]"

definition literal_size :: "u8 \<Rightarrow> nat" where
  "literal_size t = (if t = 0x30 then 8 else if t = 0x40 \<or> t = 0x70 then 4 else if t = 0x50 then 2 else 0)"

definition literal_rd :: "u8 \<Rightarrow> u8 list \<Rightarrow> LiteralValue" where
  "literal_rd t bs = (case literal_item bs t 0 of Inl _ \<Rightarrow> tagged_literal LITERAL_TAG_INVALID | Inr (v, _) \<Rightarrow> v)"

definition literal_bytes :: "u8 \<Rightarrow> LiteralValue \<Rightarrow> u8 list" where
  "literal_bytes t v =
     (if t = 0x30 then le_bytes 8 (unat (lv_dval v))
      else if t = 0x40 then u32_to_le (lv_str_id v)
      else if t = 0x50 then le_bytes 2 (unat (lv_str_id v))
      else if t = 0x70 then u32_to_le (word_of_int (lv_ival v))
      else [])"

definition literal_typed :: "u8 \<Rightarrow> LiteralValue \<Rightarrow> bool" where
  "literal_typed t v \<longleftrightarrow>
     (if t = 0x30 then v = (tagged_literal 3)\<lparr>lv_dval := lv_dval v\<rparr>
      else if t = 0x40 then v = (tagged_literal 4)\<lparr>lv_str_id := lv_str_id v\<rparr>
      else if t = 0x50 then v = (tagged_literal 4)\<lparr>lv_str_id := lv_str_id v\<rparr> \<and> lv_str_id v < 2 ^ 16
      else if t = 0x70 then
        v = (tagged_literal 6)\<lparr>lv_ival := lv_ival v\<rparr> \<and> - (2 ^ 31) \<le> lv_ival v \<and> lv_ival v < 2 ^ 31
      else v = tagged_literal (if t = 0x00 then 0 else if t = 0x10 then 1 else if t = 0x20 then 2
                               else if t = 0x60 then 5 else LITERAL_TAG_INVALID))"

lemma read_u16_0: "length bs = 2 \<Longrightarrow> read_u16 bs 0 = u16_from_le bs"
  by (simp add: read_u16_def get_from_def first_chunk_def)

lemma read_f64_0: "length bs = 8 \<Longrightarrow> read_f64 bs 0 = f64_from_le bs"
  by (simp add: read_f64_def get_from_def first_chunk_def)

lemma read_u32_0: "length bs = 4 \<Longrightarrow> read_u32 bs 0 = u32_from_le bs"
  by (simp add: read_u32_def get_from_def first_chunk_def)

lemmas literal_defs = literal_rd_def literal_bytes_def literal_typed_def literal_size_def
  literal_item_def tagged_literal_def read_u16_0 read_f64_0 read_u32_0

lemma literal_wr_rd: "length bs = literal_size t \<Longrightarrow> literal_bytes t (literal_rd t bs) = bs"
  by (auto simp: literal_defs u32_to_from_le u16_from_le_bytes f64_from_le_bytes
      intro!: le_bytes_of split: if_splits)

lemma literal_rd_typed: "length bs = literal_size t \<Longrightarrow> literal_typed t (literal_rd t bs)"
  by (auto simp: literal_defs u16_bound sint_u32 split: if_splits)

lemma literal_rd_wr: "literal_typed t v \<Longrightarrow> literal_rd t (literal_bytes t v) = v"
  by (cases v) (auto simp: literal_defs u16_le_bytes sint_of_int f64_le_bytes split: if_splits)

lemma literal_length: "literal_typed t v \<Longrightarrow> length (literal_bytes t v) = literal_size t"
  by (auto simp: literal_bytes_def literal_size_def)

interpretation literal: tagged_codec literal_rd literal_bytes literal_typed literal_size
  by unfold_locales (simp_all add: literal_wr_rd literal_rd_typed literal_rd_wr literal_length)

section \<open>The round trip\<close>

text \<open>A run: its type and its items. Counts below 16 take one byte, the others two.\<close>

type_synonym literal_run = "u8 \<times> LiteralValue list"

definition run_head :: "u8 \<Rightarrow> nat \<Rightarrow> u8 list" where
  "run_head t n = (if n < 16 then [t OR of_nat n]
     else [0x80 OR t OR of_nat (n div 256), of_nat (n mod 256)])"

definition encode_run :: "literal_run \<Rightarrow> u8 list" where
  "encode_run run = (case run of (t, vs) \<Rightarrow>
     run_head t (length vs) @ concat (map (literal_bytes t) vs))"

lemma encode_run_pair: "encode_run (t, vs) = run_head t (length vs) @ concat (map (literal_bytes t) vs)"
  by (simp add: encode_run_def)

definition run_ok :: "literal_run \<Rightarrow> bool" where
  "run_ok run \<longleftrightarrow> (case run of (t, vs) \<Rightarrow>
     t \<in> set literal_types \<and> length vs < 4096 \<and> list_all (literal_typed t) vs)"

text \<open>
  The items the reader gives back: those of a run without payloads are lost where nothing follows
  it in the buffer, because the inner loop tests for the end before each item.
\<close>

fun readable_items :: "u8 list \<Rightarrow> literal_run list \<Rightarrow> LiteralValue list" where
  "readable_items post [] = []"
| "readable_items post ((t, vs) # rs) =
     (if post = [] \<and> rs = [] \<and> literal_size t = 0 then [] else vs) @ readable_items post rs"

text \<open>A head byte keeps its type and its count apart; there are 128 of each form.\<close>

definition head_apart :: "u8 \<Rightarrow> u8 \<Rightarrow> bool" where
  "head_apart t k \<longleftrightarrow> (t OR k) AND 0x80 = 0 \<and> (t OR k) AND 0x0F = k \<and> (t OR k) AND 0x70 = t
     \<and> (0x80 OR t OR k) AND 0x80 = 0x80 \<and> (0x80 OR t OR k) AND 0x0F = k \<and> (0x80 OR t OR k) AND 0x70 = t"

lemma heads_apart: "list_all (\<lambda>t. list_all (head_apart t) [0, 1, 2, 3, 4, 5, 6, 7, 8, 9, 10, 11, 12, 13, 14, 15])
    literal_types"
  by (simp add: literal_types_def head_apart_def)

lemma head_masks:
  assumes "t \<in> set literal_types" "n < 16"
  shows "head_apart t (of_nat n)"
proof -
  have "n \<in> set [0..<16]" using assms(2) by simp
  then have "of_nat n \<in> set (map of_nat [0..<16] :: u8 list)" unfolding set_map by (rule imageI)
  also have "map of_nat [0..<16] = ([0, 1, 2, 3, 4, 5, 6, 7, 8, 9, 10, 11, 12, 13, 14, 15] :: u8 list)"
    by (simp add: upt_rec)
  finally show ?thesis using heads_apart assms(1) unfolding list_all_iff by blast
qed

lemma count_bits:
  assumes "n < 4096"
  shows "push_bit 8 (ucast (of_nat (n div 256) :: u8)) OR ucast (of_nat (n mod 256) :: u8) = (of_nat n :: u32)"
proof -
  have hi: "ucast (of_nat (n div 256) :: u8) = (drop_bit 8 (of_nat n) :: u32)"
    using assms by (simp only: word_unat_eq_iff unsigned_ucast_eq unsigned_of_nat unsigned_drop_bit_eq)
      (simp add: take_bit_nat_eq_self drop_bit_eq_div take_bit_eq_mod)
  have lo: "ucast (of_nat (n mod 256) :: u8) = (take_bit 8 (of_nat n) :: u32)"
    using assms by (simp only: word_unat_eq_iff unsigned_ucast_eq unsigned_of_nat unsigned_take_bit_eq)
      (simp add: take_bit_nat_eq_self take_bit_eq_mod)
  show ?thesis unfolding hi lo by (rule bit_eqI) (auto simp: bit_simps)
qed

lemma nibble: "n < 16 \<Longrightarrow> ucast (of_nat n :: u8) = (of_nat n :: u32)"
  by (simp only: word_unat_eq_iff unsigned_ucast_eq unsigned_of_nat)
    (simp add: take_bit_nat_eq_self)

lemma literal_head_run:
  assumes "drop p buf = run_head t n @ rest" "t \<in> set literal_types" "n < 4096"
  shows "literal_head buf p = Some (of_nat n, t, p + length (run_head t n))"
proof -
  have p: "p + length (run_head t n) \<le> length buf"
    using arg_cong [OF assms(1), of length] by (simp add: run_head_def split: if_splits)
  have at: "buf ! (p + i) = run_head t n ! i" if "i < length (run_head t n)" for i
    using nth_drop [of p buf i] p that assms(1) by (simp add: nth_append)
  show ?thesis
  proof (cases "n < 16")
    case True
    then show ?thesis
      using at [of 0] head_masks [OF assms(2) True] nibble [OF True]
      by (simp add: literal_head_def run_head_def head_apart_def Let_def)
  next
    case False
    then have "n div 256 < 16" using assms(3) by simp
    from head_masks [OF assms(2) this] show ?thesis
      using False p at [of 0] at [of 1] count_bits [OF assms(3)]
      by (simp add: literal_head_def run_head_def head_apart_def Let_def)
  qed
qed

lemma read_u16_in: "p + 2 \<le> length buf \<Longrightarrow> read_u16 buf p = u16_from_le (slice buf p 2)"
  by (auto simp: read_u16_def get_from_def first_chunk_def slice_def)

lemma read_f64_in: "p + 8 \<le> length buf \<Longrightarrow> read_f64 buf p = f64_from_le (slice buf p 8)"
  by (auto simp: read_f64_def get_from_def first_chunk_def slice_def)

lemma literal_item_slice:
  assumes "p + literal_size t \<le> length buf"
  shows "literal_item buf t p = Inr (literal_rd t (slice buf p (literal_size t)), p + literal_size t)"
  using assms
  by (auto simp: literal_item_def literal_rd_def literal_size_def read_u32_in read_u16_in read_f64_in
      read_u32_0 read_u16_0 read_f64_0 split: if_splits)

lemma literal_items_written:
  assumes "drop p buf = concat (map (literal_bytes t) vs) @ rest" "list_all (literal_typed t) vs"
    "m \<le> length vs" "rest \<noteq> [] \<or> literal_size t \<noteq> 0"
  shows "literal_items buf t m p out = Inr (out @ take m vs, p + m * literal_size t)"
  using assms
proof (induction vs arbitrary: m p out)
  case Nil
  then show ?case by simp
next
  case (Cons v vs)
  show ?case
  proof (cases m)
    case 0
    then show ?thesis by simp
  next
    case (Suc k)
    have v: "length (literal_bytes t v) = literal_size t" "literal_rd t (literal_bytes t v) = v"
      using Cons.prems(2) by (simp_all add: literal.length_wr literal.rd_wr)
    have d: "drop p buf = literal_bytes t v @ concat (map (literal_bytes t) vs) @ rest"
      using Cons.prems(1) by simp
    then have "p < length buf"
      using Cons.prems(4) v(1) by (cases "p < length buf") auto
    moreover from this have fits: "p + literal_size t \<le> length buf"
      using arg_cong [OF d, of length] v(1) by simp
    moreover have "slice buf p (literal_size t) = literal_bytes t v"
      using v(1) by (simp add: slice_def d)
    moreover have "drop (p + literal_size t) buf = concat (map (literal_bytes t) vs) @ rest"
      using d v(1) by (metis add.commute append_eq_conv_conj drop_drop)
    ultimately show ?thesis
      using Cons.IH [of "p + literal_size t" k "out @ [v]"] Cons.prems(2-4) v(2)
      by (simp add: Suc literal_item_slice add.assoc)
  qed
qed

lemma literal_items_end: "length buf \<le> p \<Longrightarrow> literal_items buf t m p out = Inr (out, p)"
  by (cases m) simp_all

lemma length_payload:
  "list_all (literal_typed t) vs \<Longrightarrow> length (concat (map (literal_bytes t) vs)) = length vs * literal_size t"
  by (induction vs) (simp_all add: literal.length_wr)

lemma unat_min_of_nat: "n < 4096 \<Longrightarrow> unat (min a (of_nat n :: u32)) = min (unat a) n"
  by (simp add: min_def word_le_nat_alt unsigned_of_nat take_bit_nat_eq_self)

lemma literal_loop_written:
  assumes "drop p buf = concat (map encode_run rs) @ post" "list_all run_ok rs"
    "unat num \<le> length (concat (map snd rs))"
  shows "literal_loop buf num p out = Some (Inr (out @ take (unat num) (readable_items post rs)))"
  using assms
proof (induction rs arbitrary: num p out)
  case Nil
  then show ?case by (subst literal_loop.simps) (simp add: unat_eq_zero)
next
  case (Cons run rs)
  obtain t vs where run: "run = (t, vs)" by fastforce
  let ?n = "length vs" let ?k = "min num (of_nat ?n)" let ?m = "min (unat num) ?n"
  have ok: "t \<in> set literal_types" "?n < 4096" "list_all (literal_typed t) vs"
    using Cons.prems(2) by (simp_all add: run run_ok_def)
  define rest where "rest = concat (map encode_run rs) @ post"
  have d: "drop p buf = run_head t ?n @ concat (map (literal_bytes t) vs) @ rest"
    using Cons.prems(1) by (simp add: run encode_run_pair rest_def)
  let ?q = "p + length (run_head t ?n)"
  have h: "literal_head buf p = Some (of_nat ?n, t, ?q)" by (rule literal_head_run [OF d ok(1,2)])
  have p: "p < length buf"
    using d by (cases "p < length buf") (auto simp: run_head_def split: if_splits)
  have dq: "drop ?q buf = concat (map (literal_bytes t) vs) @ rest"
    using d by (metis add.commute append_eq_conv_conj drop_drop)
  have unat: "unat ?k = ?m" by (rule unat_min_of_nat [OF ok(2)])
  have left: "unat (num - ?k) = unat num - ?m"
    using unat by (simp add: unat_sub word_le_nat_alt)
  have rest: "rest = [] \<longleftrightarrow> rs = [] \<and> post = []"
    by (cases rs) (auto simp: rest_def encode_run_def run_head_def split: prod.splits)
  show ?case
  proof (cases "num = 0")
    case True
    then show ?thesis by (subst literal_loop.simps) simp
  next
    case False
    have step: "literal_loop buf num p out = literal_loop buf (num - ?k) q' out'"
      if "literal_items buf t ?m ?q out = Inr (out', q')" for out' q'
      using False p h that unat by (subst literal_loop.simps) (simp add: Let_def word_neq_0_conv)
    show ?thesis
    proof (cases "rest = [] \<and> literal_size t = 0")
      case True
      then have "length (drop ?q buf) = 0"
        unfolding dq length_append length_payload [OF ok(3)] by simp
      then have "length buf \<le> ?q" by simp
      from step [OF literal_items_end [OF this]] this show ?thesis
        using True rest by (subst (asm) (2) literal_loop.simps) (simp add: run)
    next
      case False
      have items: "literal_items buf t ?m ?q out = Inr (out @ take ?m vs, ?q + ?m * literal_size t)"
        by (rule literal_items_written [OF dq ok(3)]) (use False in auto)
      have readable: "readable_items post (run # rs) = vs @ readable_items post rs"
        using False rest by (auto simp: run)
      show ?thesis
      proof (cases "?n \<le> unat num")
        case True
        have "drop (?q + ?n * literal_size t) buf = rest"
          using dq length_payload [OF ok(3)] by (metis add.commute append_eq_conv_conj drop_drop)
        moreover have m: "?m = ?n" using True by simp
        moreover have "literal_loop buf num p out
            = literal_loop buf (num - ?k) (?q + ?n * literal_size t) (out @ vs)"
          using step [OF items] unfolding m by simp
        ultimately show ?thesis
          using Cons.IH [of "?q + ?n * literal_size t" "num - ?k" "out @ vs"] Cons.prems(2,3) True left readable
          by (simp add: rest_def run)
      next
        case False
        then have "unat (num - ?k) = 0" using left by simp
        then have "num - ?k = 0" by (simp add: unat_eq_zero)
        then show ?thesis
          using step [OF items] False readable by (subst (asm) literal_loop.simps) simp
      qed
    qed
  qed
qed

section \<open>The properties\<close>

text \<open>
  C24. \<open>parse_literal_buffer\<close> returns on every buffer, offset and count, although a run may have no
  items: it gives at most the requested number of items, or the error of a payload that the buffer
  cuts off, which names a type with a payload, the size it needs and the smaller rest of the buffer.
\<close>

theorem parse_literal_buffer_returns:
  "\<exists>r. parse_literal_buffer buf offset num_items = Some r
     \<and> (case r of Inl e \<Rightarrow> truncation e | Inr vs \<Rightarrow> length vs \<le> unat num_items)"
  using literal_loop_returns [of buf num_items "unat offset" "[]"]
  by (auto simp: parse_literal_buffer_def split: sum.splits)

text \<open>
  C25. Literal runs are read back from their serialized form, at any offset: the reader returns the
  first \<open>num\<close> of their items, whatever bytes follow. The exception, made explicit by
  \<open>readable_items\<close>: the items of a run without payloads (null, true, false, undefined) that ends
  the buffer are lost.
\<close>

theorem literal_roundtrip:
  assumes "list_all run_ok rs" "length pre \<le> u32_max" "unat num \<le> length (concat (map snd rs))"
  shows "parse_literal_buffer (pre @ concat (map encode_run rs) @ post) (of_nat (length pre)) num
    = Some (Inr (take (unat num) (readable_items post rs)))"
proof -
  let ?buf = "pre @ concat (map encode_run rs) @ post"
  have pre: "unat (of_nat (length pre) :: u32) = length pre" using assms(2) by (simp add: unat_of_nat_u32)
  have "literal_loop ?buf num (length pre) [] = Some (Inr ([] @ take (unat num) (readable_items post rs)))"
    by (rule literal_loop_written [OF _ assms(1,3)]) simp
  moreover have "literal_loop ?buf num (length pre) [] = Some (Inr [])" if "length ?buf \<le> length pre"
    using that by (subst literal_loop.simps) simp
  ultimately show ?thesis by (auto simp: parse_literal_buffer_def pre)
qed

text \<open>Two runs between other bytes, and a final run of two \<open>true\<close>s, whose items are lost.\<close>

lemma literal_roundtrip_witness:
  "parse_literal_buffer [7, 0x11, 0x52, 1, 0, 2, 0, 9] 1 3
     = Some (Inr [tagged_literal 1, (tagged_literal 4)\<lparr>lv_str_id := 1\<rparr>, (tagged_literal 4)\<lparr>lv_str_id := 2\<rparr>])
   \<and> parse_literal_buffer [0x51, 5, 0, 0x12] 0 3 = Some (Inr [(tagged_literal 4)\<lparr>lv_str_id := 5\<rparr>])"
proof -
  let ?s = "\<lambda>i. (tagged_literal 4)\<lparr>lv_str_id := i\<rparr>" and ?t = "tagged_literal 1"
  have ok: "list_all run_ok [(0x10, [?t]), (0x50, [?s 1, ?s 2])]" "list_all run_ok [(0x50, [?s 5]), (0x10, [?t, ?t])]"
    by (simp_all add: run_ok_def literal_types_def literal_typed_def tagged_literal_def)
  note bytes = encode_run_def run_head_def literal_bytes_def tagged_literal_def le_bytes_numeral
    literal_size_def u32_max_def
  show ?thesis
    using literal_roundtrip [OF ok(1), of "[7]" 3 "[9]"] literal_roundtrip [OF ok(2), of "[]" 3 "[]"]
    by (simp add: bytes)
qed

end
