(* ===== verification/Hermes_Getters.thy ===== *)
theory Hermes_Getters
  imports Hermes_Literals Hermes_Roundtrip Hermes_Strings Hermes_BigInts
begin

text \<open>
  The getters of \<open>HbcFile\<close> (\<open>parser/mod.rs\<close>) for the module, regular expression, object shape and
  big-int tables, the debug information and the literal buffers, and what they return on a file the
  parser accepted. A getter that slices or adds without a check is total here because of the layout
  the parser established; \<open>get_range\<close> and the checked additions stay written out.
\<close>

section \<open>Tables of word pairs\<close>

record ModuleData =
  md_symbol_id :: u32
  md_func_offset :: u32

record RegExpData =
  re_offset :: u32
  re_length :: u32

record ObjectShapeData =
  sh_key_buffer_offset :: u32
  sh_num_props :: u32

definition cjs_module_get :: "HbcFile \<Rightarrow> u32 \<Rightarrow> ModuleData option" where
  "cjs_module_get f index =
     (if hf_cjs_module_count f \<le> index \<or> snd (hf_cjs_modules f) = 0 then None
      else let off = fst (hf_cjs_modules f) + unat index * 8
           in Some \<lparr>md_symbol_id = read_u32 (hf_buf f) off, md_func_offset = read_u32 (hf_buf f) (off + 4)\<rparr>)"

definition regexp_get :: "HbcFile \<Rightarrow> u32 \<Rightarrow> RegExpData option" where
  "regexp_get f index =
     (if hf_reg_exp_count f \<le> index \<or> snd (hf_regexp_table f) = 0 then None
      else let off = fst (hf_regexp_table f) + unat index * 8
           in Some \<lparr>re_offset = read_u32 (hf_buf f) off, re_length = read_u32 (hf_buf f) (off + 4)\<rparr>)"

definition object_shape_get :: "HbcFile \<Rightarrow> u32 \<Rightarrow> ObjectShapeData option" where
  "object_shape_get f index =
     (if snd (hf_obj_shape_table f) = 0 \<or> hf_obj_shape_table_count f \<le> index then None
      else let off = fst (hf_obj_shape_table f) + unat index * 8
           in Some \<lparr>sh_key_buffer_offset = read_u32 (hf_buf f) off,
                    sh_num_props = read_u32 (hf_buf f) (off + 4)\<rparr>)"

section \<open>Big integers\<close>

definition bigint_bytes :: "HbcFile \<Rightarrow> u32 \<Rightarrow> u8 list option" where
  "bigint_bytes f idx =
     (if hf_big_int_count f \<le> idx \<or> snd (hf_big_int_table f) = 0 then None
      else
        Option.bind (checked_mul64 (unat idx) 8) (\<lambda>scaled.
        Option.bind (checked_add64 (fst (hf_big_int_table f)) scaled) (\<lambda>entry_off.
        Option.bind (checked_add64 entry_off 8) (\<lambda>entry_end.
        if span_end (hf_big_int_table f) < entry_end then None
        else
          let rel_offset = unat (read_u32 (hf_buf f) entry_off);
              len = unat (read_u32 (hf_buf f) (entry_off + 4))
          in Option.bind (checked_add64 (fst (hf_big_int_storage f)) rel_offset) (\<lambda>abs_start.
             Option.bind (checked_add64 abs_start len) (\<lambda>abs_end.
             if span_end (hf_big_int_storage f) < abs_end then None
             else get_range (hf_buf f) abs_start abs_end))))))"

definition bigint_as_str :: "HbcFile \<Rightarrow> u32 \<Rightarrow> string option with_findings" where
  "bigint_as_str f idx =
     (case bigint_bytes f idx of
        None \<Rightarrow> (None, [])
      | Some bytes \<Rightarrow>
          let observed = (if length bytes \<le> u32_max then of_nat (length bytes) else of_nat u32_max)
          in if MAX_BIGINT_BYTES < observed
             then (None, [F_BigIntTooLarge idx observed MAX_BIGINT_BYTES])
             else (Some (bigint_le_twos_to_decimal bytes), []))"

section \<open>Debug information\<close>

record DebugFileRegion =
  dr_from_address :: u32
  dr_filename_id :: u32
  dr_source_mapping_url_id :: u32

datatype DebugInfoClassification = Absent | HeaderOnly | Full

definition debug_file_region_get :: "HbcFile \<Rightarrow> u32 \<Rightarrow> DebugFileRegion option" where
  "debug_file_region_get f index =
     Option.bind (hf_debug_info_v96 f) (\<lambda>info.
     if di_file_region_count (di_header info) \<le> index then None
     else
       let off = fst (di_file_region_table info) + unat index * 12
       in map_option (\<lambda>entry. \<lparr>dr_from_address = u32_from_le (slice entry 0 4),
              dr_filename_id = u32_from_le (slice entry 4 4),
              dr_source_mapping_url_id = u32_from_le (slice entry 8 4)\<rparr>)
            (get_range (hf_buf f) off (off + 12)))"

definition span_bytes :: "HbcFile \<Rightarrow> usize \<times> usize \<Rightarrow> u8 list option" where
  "span_bytes f sp = Option.bind (checked_add64 (fst sp) (snd sp)) (get_range (hf_buf f) (fst sp))"

definition source_locations :: "sleb_reader \<Rightarrow> HbcFile \<Rightarrow> FunctionSourceInfo list option" where
  "source_locations rd f =
     Option.bind (hf_debug_info_v96 f) (\<lambda>info.
     Option.bind (span_bytes f (di_source_locations_data info)) (\<lambda>data.
     decode_source_locations rd data (hf_version f)))"

definition lexical_data_bytes :: "HbcFile \<Rightarrow> u8 list option" where
  "lexical_data_bytes f =
     Option.bind (hf_debug_info_v96 f) (\<lambda>info.
     if snd (di_lexical_data info) = 0 then None else span_bytes f (di_lexical_data info))"

definition debug_info_classification :: "HbcFile \<Rightarrow> DebugInfoClassification" where
  "debug_info_classification f =
     (case hf_debug_info_v96 f of
        None \<Rightarrow> Absent
      | Some info \<Rightarrow> if di_debug_data_size (di_header info) = 0 then HeaderOnly else Full)"

definition debug_filenames_utf8 :: "HbcFile \<Rightarrow> u8 list option" where
  "debug_filenames_utf8 f =
     Option.bind (hf_debug_info_v96 f) (\<lambda>info.
     if snd (di_filename_storage info) = 0 then None else span_bytes f (di_filename_storage info))"

definition no_string :: StringData where
  "no_string = \<lparr>sd_offset = 0, sd_len = 0, sd_kind = 0, sd_is_utf16 = False\<rparr>"

definition debug_filename_get :: "HbcFile \<Rightarrow> u32 \<Rightarrow> StringData" where
  "debug_filename_get f index =
     (if hf_debug_filename_count f \<le> index \<or> snd (hf_debug_filename_table f) = 0 then no_string
      else
        let entry_off = fst (hf_debug_filename_table f) + unat index * 8
        in if length (hf_buf f) < entry_off + 8 then no_string
           else
             let fn_offset = read_u32 (hf_buf f) entry_off;
                 fn_length_raw = read_u32 (hf_buf f) (entry_off + 4);
                 fn_length = fn_length_raw AND 0x7FFFFFFF;
                 abs_offset = fst (hf_debug_filename_storage f) + unat fn_offset
             in if 0 < fn_length \<and> abs_offset + unat fn_length \<le> span_end (hf_debug_filename_storage f)
                then \<lparr>sd_offset = abs_offset, sd_len = fn_length, sd_kind = 0,
                      sd_is_utf16 = fn_length_raw AND 0x80000000 \<noteq> 0\<rparr>
                else no_string)"

section \<open>What the getters return on an accepted file\<close>

definition pair_at :: "HbcFile \<Rightarrow> usize \<times> usize \<Rightarrow> u32 \<Rightarrow> u32 \<times> u32" where
  "pair_at f span i = decode_pair (slice (hf_buf f) (fst span + unat i * 8) 8)"

text \<open>The specification: entry \<open>i\<close> of a table below its count, and the table lies in the buffer.\<close>

definition table_of :: "HbcFile \<Rightarrow> usize \<times> usize \<Rightarrow> u32 \<Rightarrow> bool" where
  "table_of f span count \<longleftrightarrow> snd span = unat count * 8 \<and> span_end span \<le> length (hf_buf f)"

definition bigint_span :: "HbcFile \<Rightarrow> u32 \<Rightarrow> (usize \<times> nat) option" where
  "bigint_span f i =
     (if i < hf_big_int_count f then
        case pair_at f (hf_big_int_table f) i of (off, len) \<Rightarrow>
          if unat off + unat len \<le> snd (hf_big_int_storage f)
          then Some (fst (hf_big_int_storage f) + unat off, unat len) else None
      else None)"

definition guard_bounds :: "count_guard \<Rightarrow> bool" where
  "guard_bounds guard \<longleftrightarrow> (\<forall>n stride len item. guard n stride len item \<longrightarrow> n * stride \<le> len)"

lemma placed_table: "placed (length (hf_buf f)) lo hi (unat count * 8) span \<Longrightarrow> table_of f span count"
  by (auto simp: placed_def table_of_def)

lemma pair_at_reads:
  assumes "table_of f span count" "i < count"
  shows "pair_at f span i = (read_u32 (hf_buf f) (fst span + unat i * 8), read_u32 (hf_buf f) (fst span + unat i * 8 + 4))"
    "fst span + unat i * 8 + 8 \<le> span_end span"
proof -
  show end_ok: "fst span + unat i * 8 + 8 \<le> span_end span"
    using entry_fits [of "unat i" "unat count" "fst span" 8 "span_end span"] assms
    by (simp add: table_of_def word_less_nat_alt)
  then have fits: "fst span + unat i * 8 + 8 \<le> length (hf_buf f)" using assms(1) by (simp add: table_of_def)
  then show "pair_at f span i = (read_u32 (hf_buf f) (fst span + unat i * 8), read_u32 (hf_buf f) (fst span + unat i * 8 + 4))"
    by (simp add: pair_at_def decode_pair_def read_u32_in slice_def drop_take add.commute add.left_commute)
qed

lemma table_read:
  assumes "table_of f span count"
  shows "(if count \<le> i \<or> snd span = 0 then None
      else Some (g (read_u32 (hf_buf f) (fst span + unat i * 8)) (read_u32 (hf_buf f) (fst span + unat i * 8 + 4))))
    = (if i < count then Some (case pair_at f span i of (a, b) \<Rightarrow> g a b) else None)"
proof (cases "i < count")
  case True
  then have "snd span \<noteq> 0" using assms by (auto simp: table_of_def unat_eq_zero)
  with True show ?thesis using pair_at_reads(1) [OF assms True] by (simp add: not_le)
qed (simp add: not_less)

lemma guarded_counts:
  assumes "header_guards guard len h = Inr ()" "guard_bounds guard"
  shows "unat (hdr_reg_exp_count h) * 8 \<le> len" "unat (hdr_cjs_module_count h) * 8 \<le> len"
  using assms unfolding header_guards_def guard_bounds_def
  by (auto simp: ebind_eq_Inr bound_count_def require_eq_Inr split: if_splits)

lemma accepted_tables:
  assumes "fst (parse_inner guard buf ih) = Inr f" "length buf \<le> u32_max" "guard_bounds guard"
  shows "table_of f (hf_regexp_table f) (hf_reg_exp_count f)"
    "table_of f (hf_cjs_modules f) (hf_cjs_module_count f)"
    "table_of f (hf_obj_shape_table f) (hf_obj_shape_table_count f)"
    "table_of f (hf_big_int_table f) (hf_big_int_count f)"
    "span_end (hf_big_int_storage f) \<le> length (hf_buf f)"
    "span_end (hf_array_buffer f) \<le> length (hf_buf f)" "span_end (hf_obj_key_buffer f) \<le> length (hf_buf f)"
    "span_end (hf_obj_value_buffer f) \<le> length (hf_buf f)"
proof -
  have ok: "data_tables_ok f" "header_fields_ok f" "hf_buf f = buf"
    using parse_inner_parsed_ok [OF assms(1)] by (simp_all add: parsed_ok_def)
  obtain h s l b t w dbg where h: "header_guards guard (length buf) h = Inr ()"
      "f = build_file buf ih h s l b t w dbg"
    using assms(1) by (auto simp: parse_inner_Inr)
  have "hf_header f = h" by (simp add: h(2) build_file_fields)
  with ok(2) have counts: "hf_reg_exp_count f = hdr_reg_exp_count h" "hf_cjs_module_count f = hdr_cjs_module_count h"
    "hf_obj_shape_table_count f = hdr_obj_shape_table_count h" "hf_big_int_count f = hdr_big_int_count h"
    by (simp_all add: header_fields_ok_def Let_def)
  have small: "unat (hf_reg_exp_count f) * 8 mod 2 ^ 32 = unat (hf_reg_exp_count f) * 8"
    "unat (hf_cjs_module_count f) * 8 mod 2 ^ 32 = unat (hf_cjs_module_count f) * 8"
    using guarded_counts [OF h(1) assms(3)] assms(2) by (simp_all add: counts u32_max_def)
  have none: "has_obj_value_buffer h \<Longrightarrow> hdr_obj_shape_table_count h = 0" "\<not> has_big_ints h \<Longrightarrow> hdr_big_int_count h = 0"
    by (cases h; simp)+
  obtain c1 c2 c3 c4 where p:
    "placed (length buf) c1 c2 (unat (hdr_array_buffer_size h)) (hf_array_buffer f)"
    "placed (length buf) c1 c2 (unat (hdr_obj_key_buffer_size h)) (hf_obj_key_buffer f)"
    "placed (length buf) c1 c2 (if has_obj_value_buffer h then unat (hdr_obj_value_buffer_size h) else 0)
       (hf_obj_value_buffer f)"
    "placed (length buf) c1 c2 (if has_obj_value_buffer h then 0 else unat (hf_obj_shape_table_count f) * 8)
       (hf_obj_shape_table f)"
    "placed (length buf) c2 c3 (if has_big_ints h then unat (hf_big_int_count f) * 8 else 0) (hf_big_int_table f)"
    "placed (length buf) c2 c3 (if has_big_ints h \<and> 0 < hf_big_int_count f
       then unat (hdr_big_int_storage_size h) else 0) (hf_big_int_storage f)"
    "placed (length buf) c3 c4 (unat (hf_reg_exp_count f) * 8) (hf_regexp_table f)"
    "placed (length buf) c3 c4 (unat (hf_cjs_module_count f) * 8) (hf_cjs_modules f)"
    using ok(1) \<open>hf_header f = h\<close> unfolding data_tables_ok_def Let_def small ok(3) by blast
  have ends: "placed (length buf) lo hi n sp \<Longrightarrow> span_end sp \<le> length buf" for lo hi n sp
    by (auto simp: placed_def)
  show "table_of f (hf_regexp_table f) (hf_reg_exp_count f)" "table_of f (hf_cjs_modules f) (hf_cjs_module_count f)"
    by (rule placed_table; use p(7,8) ok(3) in simp)+
  show "table_of f (hf_obj_shape_table f) (hf_obj_shape_table_count f)"
    by (rule placed_table [of _ c1 c2]) (use p(4) ok(3) none(1) counts in \<open>auto split: if_splits\<close>)
  show "table_of f (hf_big_int_table f) (hf_big_int_count f)"
    by (rule placed_table [of _ c2 c3]) (use p(5) ok(3) none(2) counts in \<open>auto split: if_splits\<close>)
  show "span_end (hf_big_int_storage f) \<le> length (hf_buf f)"
    "span_end (hf_array_buffer f) \<le> length (hf_buf f)" "span_end (hf_obj_key_buffer f) \<le> length (hf_buf f)"
    "span_end (hf_obj_value_buffer f) \<le> length (hf_buf f)"
    unfolding ok(3) by (rule ends [OF p(6)] ends [OF p(1)] ends [OF p(2)] ends [OF p(3)])+
qed

lemma bigint_bytes_span:
  assumes "table_of f (hf_big_int_table f) (hf_big_int_count f)"
    "span_end (hf_big_int_storage f) \<le> length (hf_buf f)" "length (hf_buf f) \<le> u32_max"
  shows "bigint_bytes f i = map_option (\<lambda>(a, n). slice (hf_buf f) a n) (bigint_span f i)"
proof (cases "i < hf_big_int_count f")
  case False
  then have "hf_big_int_count f \<le> i" by simp
  with False show ?thesis by (simp add: bigint_bytes_def bigint_span_def)
next
  case True
  note pair = pair_at_reads [OF assms(1) True]
  have "snd (hf_big_int_table f) \<noteq> 0" using assms(1) True by (auto simp: table_of_def unat_eq_zero)
  moreover have "span_end (hf_big_int_table f) \<le> u32_max" using assms(1,3) by (simp add: table_of_def)
  moreover note unat_le_u32_max [of i] assms(2,3) pair(2)
    unat_le_u32_max [of "fst (pair_at f (hf_big_int_table f) i)"]
    unat_le_u32_max [of "snd (pair_at f (hf_big_int_table f) i)"]
  ultimately show ?thesis
    using True pair(1)
    by (auto simp: bigint_bytes_def bigint_span_def checked_add64_def checked_mul64_def u32_max_def u64_max_def
        get_range_def slice_def Let_def)
qed

lemma literal_get_returns:
  assumes "span_end (hf_array_buffer f) \<le> length (hf_buf f)" "span_end (hf_obj_key_buffer f) \<le> length (hf_buf f)"
    "span_end (hf_obj_value_buffer f) \<le> length (hf_buf f)"
  shows "literal_get f buffer_type offset num index \<noteq> None"
proof -
  have "\<forall>buf. \<exists>r. parse_literal_buffer buf offset num = Some r"
    using literal_loop_returns [of _ num "unat offset" "[]"] by (auto simp: parse_literal_buffer_def)
  then obtain r where "parse_literal_buffer buf offset num = Some (r buf)" for buf by metis
  moreover have "get_range (hf_buf f) a (a + n) = Some (slice (hf_buf f) a n)" if "a + n \<le> length (hf_buf f)" for a n
    using that by (simp add: get_range_def slice_def)
  ultimately show ?thesis
    using assms by (cases "hf_array_buffer f"; cases "hf_obj_key_buffer f"; cases "hf_obj_value_buffer f")
      (simp add: literal_get_def Let_def)
qed

text \<open>
  C26. The getters on a file \<open>parse_inner\<close> accepted, whose count guard bounds counts as documented:
  module, regular expression and shape lookups answer exactly below the declared count, with the two
  words of the entry in its table; a big-int lookup gives the slice its entry names if that lies in
  the storage section, and its string is the signed decimal of the bytes, unless they are more than
  4096, which is a finding; and the literal lookup always returns (no slice out of range, no endless
  loop), for every buffer type, offset, count and index.
\<close>

theorem table_getters:
  assumes "fst (parse_inner guard buf ih) = Inr f" "length buf \<le> u32_max" "guard_bounds guard"
  shows "(\<forall>i. regexp_get f i = (if i < hf_reg_exp_count f then
        Some (case pair_at f (hf_regexp_table f) i of (a, b) \<Rightarrow> \<lparr>re_offset = a, re_length = b\<rparr>) else None))
    \<and> (\<forall>i. cjs_module_get f i = (if i < hf_cjs_module_count f then
        Some (case pair_at f (hf_cjs_modules f) i of (a, b) \<Rightarrow> \<lparr>md_symbol_id = a, md_func_offset = b\<rparr>) else None))
    \<and> (\<forall>i. object_shape_get f i = (if i < hf_obj_shape_table_count f then
        Some (case pair_at f (hf_obj_shape_table f) i of (a, b) \<Rightarrow> \<lparr>sh_key_buffer_offset = a, sh_num_props = b\<rparr>)
        else None))
    \<and> (\<forall>i. bigint_bytes f i = map_option (\<lambda>(a, n). slice buf a n) (bigint_span f i))
    \<and> (\<forall>i. bigint_as_str f i = (case bigint_span f i of
          None \<Rightarrow> (None, [])
        | Some (a, n) \<Rightarrow> if 4096 < n then (None, [F_BigIntTooLarge i (of_nat n) 4096])
            else (Some (decimal_int (twos_value (slice buf a n))), [])))
    \<and> (\<forall>buffer_type offset num i. literal_get f buffer_type offset num i \<noteq> None)"
proof -
  note t = accepted_tables [OF assms]
  have buf: "hf_buf f = buf" using parse_inner_parsed_ok [OF assms(1)] by simp
  have bytes: "bigint_bytes f i = map_option (\<lambda>(a, n). slice buf a n) (bigint_span f i)" for i
    using bigint_bytes_span [OF t(4,5)] assms(2) by (simp add: buf)
  have len: "length (slice buf a n) = n" "n \<le> u32_max" if "bigint_span f i = Some (a, n)" for i a n
    using that t(5) assms(2)
    by (auto simp: bigint_span_def buf unat_le_u32_max split: prod.splits if_splits)
  have "4096 < (of_nat n :: u32) \<longleftrightarrow> 4096 < n" if "n \<le> u32_max" for n
    using that by (simp add: word_less_nat_alt unat_of_nat_u32)
  then have str: "bigint_as_str f i = (case bigint_span f i of
          None \<Rightarrow> (None, [])
        | Some (a, n) \<Rightarrow> if 4096 < n then (None, [F_BigIntTooLarge i (of_nat n) 4096])
            else (Some (decimal_int (twos_value (slice buf a n))), []))" for i
    using len [of i]
    by (auto simp: bigint_as_str_def bytes MAX_BIGINT_BYTES_def render_twos Let_def split: option.split)
  have "regexp_get f i = (if i < hf_reg_exp_count f then
      Some (case pair_at f (hf_regexp_table f) i of (a, b) \<Rightarrow> \<lparr>re_offset = a, re_length = b\<rparr>) else None)" for i
    using table_read [OF t(1), of i "\<lambda>a b. \<lparr>re_offset = a, re_length = b\<rparr>"]
    by (simp only: regexp_get_def Let_def)
  moreover have "cjs_module_get f i = (if i < hf_cjs_module_count f then
      Some (case pair_at f (hf_cjs_modules f) i of (a, b) \<Rightarrow> \<lparr>md_symbol_id = a, md_func_offset = b\<rparr>) else None)" for i
    using table_read [OF t(2), of i "\<lambda>a b. \<lparr>md_symbol_id = a, md_func_offset = b\<rparr>"]
    by (simp only: cjs_module_get_def Let_def)
  moreover have "object_shape_get f i = (if i < hf_obj_shape_table_count f then
      Some (case pair_at f (hf_obj_shape_table f) i of (a, b) \<Rightarrow> \<lparr>sh_key_buffer_offset = a, sh_num_props = b\<rparr>)
      else None)" for i
    using table_read [OF t(3), of i "\<lambda>a b. \<lparr>sh_key_buffer_offset = a, sh_num_props = b\<rparr>"]
    by (simp only: object_shape_get_def Let_def disj_commute [of "snd (hf_obj_shape_table f) = 0"])
  moreover have "bigint_bytes f i = map_option (\<lambda>(a, n). slice buf a n) (bigint_span f i)" for i by (rule bytes)
  moreover note str literal_get_returns [OF t(6-8)]
  ultimately show ?thesis by blast
qed

end
