(* ===== verification/Hermes_Getter_Samples.thy ===== *)
theory Hermes_Getter_Samples
  imports Hermes_Getters Hermes_Samples
begin

text \<open>
  A v96 file with one big integer, whose two bytes \<open>80 ff\<close> are -128, and the getters at it.
\<close>

definition sample_big :: "u8 list" where
  "sample_big = take 64 sample_v96 @ [1, 0, 0, 0, 2, 0, 0, 0] @ take 92 (drop 72 sample_v96)
     @ [0, 0, 0, 0, 2, 0, 0, 0, 0x80, 0xFF, 0, 0]"

lemma length_sample_big: "length sample_big = 176"
  by (simp add: sample_big_def sample_lengths)

lemma header_sample_big: "fst (parse_hbc_header sample_big) = Inr (V87to96 (parse_v87_to_96 sample_big 96))"
  by (simp add: dispatch_defs length_sample_big) (simp add: sample_big_def sample_v96_def)

lemma parsed_big: "parse_v87_to_96 sample_big 96 = \<lparr>
    h87_version = 96, h87_file_length = 176, h87_global_code_index = 7, h87_function_count = 1,
    h87_string_kind_count = 1, h87_identifier_count = 0, h87_string_count = 2,
    h87_overflow_string_count = 0, h87_string_storage_size = 8, h87_big_int_count = 1,
    h87_big_int_storage_size = 2, h87_reg_exp_count = 0, h87_reg_exp_storage_size = 0,
    h87_array_buffer_size = 0, h87_obj_key_buffer_size = 0, h87_obj_value_buffer_size = 0,
    h87_segment_id = 5, h87_cjs_module_count = 0, h87_function_source_count = 0,
    h87_debug_info_offset = 0\<rparr>"
  by (simp add: layout_words_v96 length_sample_big) (simp add: sample_big_def sample_v96_def)

lemma accepted_big: "\<exists>f. fst (parse_inner byte_guard sample_big ih) = Inr f"
  using parse_inner_accepts [OF header_sample_big, of byte_guard None ih]
  by (simp add: parsed_big accept_defs length_sample_big) blast

lemma sections_big:
  assumes "all_sections 176 (V87to96 (parse_v87_to_96 sample_big 96)) initial_walk = Inr ((s, l, b, t), w)"
  shows "b = ((164, 8), (172, 2))"
  using assms
  by (auto simp: all_sections_def string_sections_def literal_sections_def bigint_sections_def
      wbind_Inr wret_Inr hbc_section_Inr section_opt_Inr parsed_big initial_walk_def after_def clear_low2_def
      split: if_splits)

lemma file_big:
  assumes "fst (parse_inner byte_guard sample_big ih) = Inr f"
  shows "hf_buf f = sample_big" "hf_big_int_count f = 1" "hf_reg_exp_count f = 0"
    "hf_big_int_table f = (164, 8)" "hf_big_int_storage f = (172, 2)"
proof -
  obtain s l b t w dbg where w: "all_sections 176 (V87to96 (parse_v87_to_96 sample_big 96)) initial_walk
      = Inr ((s, l, b, t), w)"
    and f: "f = build_file sample_big ih (V87to96 (parse_v87_to_96 sample_big 96)) s l b t w dbg"
    using assms by (auto simp: parse_inner_Inr header_sample_big length_sample_big)
  show "hf_buf f = sample_big" "hf_big_int_count f = 1" "hf_reg_exp_count f = 0"
    "hf_big_int_table f = (164, 8)" "hf_big_int_storage f = (172, 2)"
    by (simp_all add: f build_file_def Let_def split_beta parsed_big sections_big [OF w])
qed

lemma table_getters_witness:
  "\<exists>f. fst (parse_inner byte_guard sample_big []) = Inr f
     \<and> bigint_bytes f 0 = Some [0x80, 0xFF] \<and> bigint_bytes f 1 = None
     \<and> bigint_as_str f 0 = (Some ''-128'', []) \<and> regexp_get f 0 = None
     \<and> literal_get f 0 0 1 0 \<noteq> None"
proof -
  obtain f where f: "fst (parse_inner byte_guard sample_big []) = Inr f" using accepted_big by blast
  have guard: "length sample_big \<le> u32_max" "guard_bounds byte_guard"
    by (simp_all add: length_sample_big u32_max_def guard_bounds_def byte_guard_def)
  have span: "bigint_span f 0 = Some (172, 2)" "bigint_span f 1 = None"
    by (simp_all add: bigint_span_def pair_at_def file_big [OF f] decode_pair_def slice_def u32_from_le_def)
      (simp_all add: sample_big_def sample_v96_def)
  have bytes: "slice sample_big 172 2 = [0x80, 0xFF]"
    by (simp add: slice_def sample_big_def sample_v96_def)
  have str: "decimal_int (twos_value [0x80, 0xFF]) = ''-128''"
    by (simp add: decimal_int_def twos_value_def decimal_nat.simps digit_char_def)
      (simp add: char_of_def bit_0)
  show ?thesis
    using f table_getters [OF f guard] by (intro exI [of _ f]) (simp add: span bytes str file_big(3) [OF f])
qed

end
