(* ===== verification/Hermes_Ssa.thy ===== *)
theory Hermes_Ssa
  imports Hermes_Cfg Hermes_Layout
begin

text \<open>
  The SSA construction of \<open>decompile/ssa.rs\<close>: \<open>classify_inst\<close>, the adapter that shows a control flow
  graph to the name-resolution builder, and \<open>build_ssa\<close>. The builder itself (Braun's algorithm) is
  \<open>droidsaw_common::ssa::Builder\<close>, which is not part of the repository: it is the parameter
  \<open>ssa_builder\<close>, a record of its operations on a state of any type.
\<close>

section \<open>Data\<close>

datatype VarId = VarId (var_reg: u32) (var_ver: u32)

instantiation VarId :: linorder
begin

definition less_eq_VarId :: "VarId \<Rightarrow> VarId \<Rightarrow> bool" where
  "less_eq_VarId a b \<longleftrightarrow> var_reg a < var_reg b \<or> var_reg a = var_reg b \<and> var_ver a \<le> var_ver b"

definition less_VarId :: "VarId \<Rightarrow> VarId \<Rightarrow> bool" where
  "less_VarId a b \<longleftrightarrow> var_reg a < var_reg b \<or> var_reg a = var_reg b \<and> var_ver a < var_ver b"

instance
  by standard (auto simp: less_eq_VarId_def less_VarId_def VarId.expand)

end

record Phi =
  phi_dst :: VarId
  phi_args :: "(BlockId \<times> VarId) list"

datatype SsaOperand = So_Var VarId | So_DstPlaceholder | So_Const i64 | So_ConstDouble f64
  | So_StringId u32 | So_FuncId u32 | So_BlockTarget BlockId | So_ResolvedString string
  | So_ResolvedBigInt string

record SsaOp =
  so_name :: string
  so_op :: OpCode
  so_dst :: "VarId option"
  so_operands :: "SsaOperand list"
  so_original :: DecodedInst

record SsaBlock =
  sb_id :: BlockId
  sb_phis :: "Phi list"
  sb_ops :: "SsaOp list"
  sb_successors :: "BlockId list"
  sb_predecessors :: "BlockId list"
  sb_switch_string_ids :: "u32 list"

record SsaFunction =
  sf_blocks :: "SsaBlock list"
  sf_block_order :: "BlockId list"
  sf_var_names :: "(VarId, string) btree"
  sf_param_names :: "(u32, string) btree"
  sf_param_vars :: "VarId list"

section \<open>The builder and the view of the graph it works on\<close>

record SsaCfg =
  sc_entry :: BlockId
  sc_nodes :: "BlockId list"
  sc_successors :: "BlockId \<Rightarrow> BlockId list"
  sc_predecessors :: "BlockId \<Rightarrow> BlockId list"
  sc_exc_predecessors :: "BlockId \<Rightarrow> BlockId list"

definition CfgAdapter :: "Cfg \<Rightarrow> SsaCfg" where
  "CfgAdapter g = \<lparr>sc_entry = cfg_entry g,
     sc_nodes = bt_keys (cfg_blocks g),
     sc_successors = (\<lambda>n. case bt_get (cfg_blocks g) n of None \<Rightarrow> [] | Some b \<Rightarrow> bb_successors b),
     sc_predecessors = (\<lambda>n. case bt_get (cfg_blocks g) n of None \<Rightarrow> [] | Some b \<Rightarrow> bb_predecessors b),
     sc_exc_predecessors = (\<lambda>n. if n = cfg_entry g then []
        else case bt_get (cfg_exc_predecessors g) n of None \<Rightarrow> [] | Some ps \<Rightarrow> ps)\<rparr>"

datatype SsaError = IterationLimit | OtherSsaError

fun of_ssa_error :: "SsaError \<Rightarrow> hermes_error" where
  "of_ssa_error IterationLimit = Budget"
| "of_ssa_error OtherSsaError = Ssa"

record 'b ssa_builder =
  bld_new :: 'b
  bld_read :: "SsaCfg \<Rightarrow> BlockId \<Rightarrow> u32 \<Rightarrow> 'b \<Rightarrow> SsaError + VarId \<times> 'b"
  bld_new_var :: "u32 \<Rightarrow> 'b \<Rightarrow> SsaError + VarId \<times> 'b"
  bld_write :: "BlockId \<Rightarrow> u32 \<Rightarrow> VarId \<Rightarrow> 'b \<Rightarrow> 'b"
  bld_seal :: "SsaCfg \<Rightarrow> 'b \<Rightarrow> SsaError + 'b"
  bld_take :: "BlockId \<Rightarrow> 'b \<Rightarrow> Phi list \<times> 'b"

text \<open>Steps on the builder, \<open>?\<close> with the conversion of its errors.\<close>

type_synonym ('b, 'a) build = "'b \<Rightarrow> hermes_error + 'a \<times> 'b"

definition bret :: "'a \<Rightarrow> ('b, 'a) build" where
  "bret x b = Inr (x, b)"

definition bfail :: "hermes_error \<Rightarrow> ('b, 'a) build" where
  "bfail e b = Inl e"

definition bbind :: "('b, 'a) build \<Rightarrow> ('a \<Rightarrow> ('b, 'c) build) \<Rightarrow> ('b, 'c) build" where
  "bbind m f b = (case m b of Inl e \<Rightarrow> Inl e | Inr (x, b') \<Rightarrow> f x b')"

definition lift_ssa :: "('b \<Rightarrow> SsaError + 'a \<times> 'b) \<Rightarrow> ('b, 'a) build" where
  "lift_ssa m b = (case m b of Inl e \<Rightarrow> Inl (of_ssa_error e) | Inr r \<Rightarrow> Inr r)"

lemma bbind_Inr: "bbind m f b = Inr (y, b'') \<longleftrightarrow> (\<exists>x b'. m b = Inr (x, b') \<and> f x b' = Inr (y, b''))"
  by (auto simp: bbind_def split: sum.splits)

lemma bbind_Inl: "bbind m f b = Inl e \<longleftrightarrow> m b = Inl e \<or> (\<exists>x b'. m b = Inr (x, b') \<and> f x b' = Inl e)"
  by (auto simp: bbind_def split: sum.splits)

lemma bret_Inr: "bret x b = Inr (y, b') \<longleftrightarrow> y = x \<and> b' = b"
  by (auto simp: bret_def)

lemma bret_Inl: "bret x b \<noteq> Inl e"
  by (simp add: bret_def)

lemma bfail_Inl: "bfail e b = Inl e' \<longleftrightarrow> e' = e" and bfail_Inr: "bfail e b \<noteq> Inr r"
  by (auto simp: bfail_def)

lemma lift_ssa_Inr: "lift_ssa m b = Inr r \<longleftrightarrow> m b = Inr r"
  by (auto simp: lift_ssa_def split: sum.splits)

lemmas build_Inr = bbind_Inr bret_Inr bfail_Inr lift_ssa_Inr
lemmas build_Inl = bbind_Inl bret_Inl bfail_Inl

section \<open>Reads and writes of an instruction\<close>

definition regs_of :: "Operand list \<Rightarrow> u32 list" where
  "regs_of ops = List.map_filter as_reg ops"

definition no_dst_names :: "string list" where
  "no_dst_names = [''Ret'', ''Throw'', ''Debugger'', ''AsyncBreakCheck'', ''ProfilePoint'', ''Unreachable'',
     ''Nop'']"

definition is_store_name :: "string \<Rightarrow> bool" where
  "is_store_name n \<longleftrightarrow> starts_with n ''PutById'' \<or> starts_with n ''TryPutById'' \<or> starts_with n ''PutByVal''
     \<or> starts_with n ''StoreToEnvironment'' \<or> starts_with n ''StoreNPToEnvironment''
     \<or> starts_with n ''DefineOwn'' \<or> starts_with n ''PutNewOwn'' \<or> starts_with n ''PutOwn''
     \<or> n = ''FastArrayStore'' \<or> n = ''FastArrayPush'' \<or> n = ''FastArrayAppend'' \<or> n = ''AddOwnPrivateBySym''"

definition classify_inst :: "DecodedInst \<Rightarrow> u32 option \<times> u32 list" where
  "classify_inst inst =
     (let ops = di_operands inst; name = di_name inst in
      if name \<in> set no_dst_names then (None, regs_of ops)
      else if is_store_name name then (None, regs_of ops)
      else if starts_with name ''J'' then (None, regs_of (drop 1 ops))
      else if str_contains name ''SwitchImm'' then (None, regs_of ops)
      else if name = ''DeclareGlobalVar'' then (None, [])
      else if get_at (di_op_types inst) 0 = Some OT_R \<or> get_at (di_op_types inst) 0 = Some OT_R4 then
        (case ops of
           Op_Reg dst # rest \<Rightarrow> (Some (ucast dst), regs_of rest)
         | Op_Reg32 dst # rest \<Rightarrow> (Some dst, regs_of rest)
         | _ \<Rightarrow> (None, regs_of ops))
      else (None, regs_of ops))"

section \<open>Operands\<close>

definition read_operand_var ::
  "'b ssa_builder \<Rightarrow> SsaCfg \<Rightarrow> BlockId \<Rightarrow> u32 \<Rightarrow> ('b, SsaOperand) build" where
  "read_operand_var B view bid r = bbind (lift_ssa (bld_read B view bid r)) (\<lambda>v. bret (So_Var v))"

definition ssa_uint_operand :: "string \<Rightarrow> nat \<Rightarrow> u32 \<Rightarrow> SsaOperand" where
  "ssa_uint_operand name i v =
     (if str_contains name ''LoadConstString'' \<and> i = 1 then So_StringId v
      else if (str_contains name ''CreateClosure'' \<or> str_contains name ''CreateGenerator'') \<and> 1 \<le> i
      then So_FuncId v
      else So_Const (int (unat v)))"

fun ssa_operand ::
  "'b ssa_builder \<Rightarrow> SsaCfg \<Rightarrow> BlockId \<Rightarrow> DecodedInst \<Rightarrow> u32 option \<Rightarrow> nat \<Rightarrow> Operand
     \<Rightarrow> ('b, SsaOperand) build" where
  "ssa_operand B view bid inst dst_reg i (Op_Reg r) =
     (if i = 0 \<and> dst_reg = Some (ucast r) then bret So_DstPlaceholder
      else read_operand_var B view bid (ucast r))"
| "ssa_operand B view bid inst dst_reg i (Op_Reg32 r) =
     (if i = 0 \<and> dst_reg = Some r then bret So_DstPlaceholder
      else read_operand_var B view bid r)"
| "ssa_operand B view bid inst dst_reg i (Op_UInt v) = bret (ssa_uint_operand (di_name inst) i v)"
| "ssa_operand B view bid inst dst_reg i (Op_Int v) = bret (So_Const v)"
| "ssa_operand B view bid inst dst_reg i (Op_Double v) = bret (So_ConstDouble v)"
| "ssa_operand B view bid inst dst_reg i (Op_Addr rel) =
     bret (So_BlockTarget (word_of_int (int (unat (di_offset inst)) + rel)))"

fun ssa_operands ::
  "'b ssa_builder \<Rightarrow> SsaCfg \<Rightarrow> BlockId \<Rightarrow> DecodedInst \<Rightarrow> u32 option \<Rightarrow> nat \<Rightarrow> Operand list
     \<Rightarrow> ('b, SsaOperand list) build" where
  "ssa_operands B view bid inst dst_reg i [] = bret []"
| "ssa_operands B view bid inst dst_reg i (op # ops) =
     bbind (ssa_operand B view bid inst dst_reg i op) (\<lambda>x.
     bbind (ssa_operands B view bid inst dst_reg (Suc i) ops) (\<lambda>xs. bret (x # xs)))"

section \<open>The implicit arguments of a call\<close>

text \<open>The declared argument count, the label of an error and whether \<open>this\<close> is pushed.\<close>

definition uint_at :: "DecodedInst \<Rightarrow> nat \<Rightarrow> u32 option" where
  "uint_at inst i = (case get_at (di_operands inst) i of Some (Op_UInt n) \<Rightarrow> Some n | _ \<Rightarrow> None)"

definition call_argc :: "DecodedInst \<Rightarrow> u32 option \<times> string \<times> bool" where
  "call_argc inst =
     (let name = di_name inst in
      if name = ''Call'' \<or> name = ''CallLong'' then
        (case uint_at inst 2 of Some n \<Rightarrow> (Some n, ''variadic Call argc'', True) | None \<Rightarrow> (None, [], True))
      else if name = ''CallDirect'' \<or> name = ''CallDirectLongIndex'' then
        (case uint_at inst 1 of Some n \<Rightarrow> (Some n, ''variadic CallDirect argc'', True) | None \<Rightarrow> (None, [], True))
      else if name = ''CallBuiltin'' \<or> name = ''CallBuiltinLong'' then
        (case uint_at inst 2 of Some n \<Rightarrow> (Some n, ''variadic CallBuiltin argc'', False) | None \<Rightarrow> (None, [], False))
      else (None, [], False))"

text \<open>\<open>for i in 0..explicit\<close>: argument \<open>i\<close> is register \<open>arg0_reg - i\<close>.\<close>

fun arg_operands ::
  "'b ssa_builder \<Rightarrow> SsaCfg \<Rightarrow> BlockId \<Rightarrow> u32 \<Rightarrow> u32 \<Rightarrow> string \<Rightarrow> u32 list \<Rightarrow> ('b, SsaOperand list) build" where
  "arg_operands B view bid arg0_reg explicit label [] = bret []"
| "arg_operands B view bid arg0_reg explicit label (i # ks) =
     (if arg0_reg < i then bfail (CountExceedsInput explicit (unat (sat_add32 arg0_reg 1)) label)
      else
        bbind (read_operand_var B view bid (arg0_reg - i)) (\<lambda>x.
        bbind (arg_operands B view bid arg0_reg explicit label ks) (\<lambda>xs. bret (x # xs))))"

definition call_operands ::
  "'b ssa_builder \<Rightarrow> SsaCfg \<Rightarrow> BlockId \<Rightarrow> u32 \<Rightarrow> usize \<Rightarrow> DecodedInst \<Rightarrow> ('b, SsaOperand list) build" where
  "call_operands B view bid frame_size total_insns inst =
     (case call_argc inst of
        (None, _) \<Rightarrow> bret []
      | (Some argc, item_label, include_this) \<Rightarrow>
          if total_insns < unat argc then bfail (CountExceedsInput argc total_insns item_label)
          else if frame_size < 9 then bret []
          else
            let arg0_reg = frame_size - 9; explicit = (if argc = 0 then 0 else argc - 1)
            in bbind (if include_this
                      then bbind (read_operand_var B view bid (sat_add32 arg0_reg 1)) (\<lambda>x. bret [x])
                      else bret []) (\<lambda>this_operand.
               bbind (arg_operands B view bid arg0_reg explicit item_label (u32_range explicit)) (\<lambda>args.
               bret (this_operand @ args))))"

section \<open>Instructions and blocks\<close>

definition write_dst ::
  "'b ssa_builder \<Rightarrow> BlockId \<Rightarrow> u32 option \<Rightarrow> ('b, VarId option) build" where
  "write_dst B bid dst_reg =
     (case dst_reg of
        None \<Rightarrow> bret None
      | Some reg \<Rightarrow> bbind (lift_ssa (bld_new_var B reg)) (\<lambda>var b. Inr (Some var, bld_write B bid reg var b)))"

definition ssa_inst ::
  "'b ssa_builder \<Rightarrow> SsaCfg \<Rightarrow> BlockId \<Rightarrow> u32 \<Rightarrow> usize \<Rightarrow> DecodedInst \<Rightarrow> ('b, SsaOp) build" where
  "ssa_inst B view bid frame_size total_insns inst =
     (let dst_reg = fst (classify_inst inst) in
      bbind (ssa_operands B view bid inst dst_reg 0 (di_operands inst)) (\<lambda>operands.
      bbind (call_operands B view bid frame_size total_insns inst) (\<lambda>extra.
      bbind (write_dst B bid dst_reg) (\<lambda>dst.
      bret \<lparr>so_name = di_name inst, so_op = di_op inst, so_dst = dst, so_operands = operands @ extra,
            so_original = inst\<rparr>))))"

text \<open>\<open>if LoadParam | LoadParamLong, with a destination and a constant index\<close>\<close>

definition note_param :: "SsaOp \<Rightarrow> (u32, VarId) btree \<Rightarrow> (u32, VarId) btree" where
  "note_param op m =
     (if so_name op = ''LoadParam'' \<or> so_name op = ''LoadParamLong'' then
        (case (so_dst op, get_at (so_operands op) 1) of
           (Some var, Some (So_Const idx)) \<Rightarrow> bt_insert (word_of_int idx) var m
         | _ \<Rightarrow> m)
      else m)"

fun ssa_insts ::
  "'b ssa_builder \<Rightarrow> SsaCfg \<Rightarrow> BlockId \<Rightarrow> u32 \<Rightarrow> usize \<Rightarrow> DecodedInst list \<Rightarrow> (u32, VarId) btree
     \<Rightarrow> ('b, SsaOp list \<times> (u32, VarId) btree) build" where
  "ssa_insts B view bid frame_size total_insns [] params = bret ([], params)"
| "ssa_insts B view bid frame_size total_insns (inst # insts) params =
     bbind (ssa_inst B view bid frame_size total_insns inst) (\<lambda>op.
     bbind (ssa_insts B view bid frame_size total_insns insts (note_param op params)) (\<lambda>(ops, params).
     bret (op # ops, params)))"

fun ssa_blocks ::
  "'b ssa_builder \<Rightarrow> SsaCfg \<Rightarrow> blocks \<Rightarrow> u32 \<Rightarrow> usize \<Rightarrow> BlockId list \<Rightarrow> (u32, VarId) btree
     \<Rightarrow> ('b, SsaBlock list \<times> (u32, VarId) btree) build" where
  "ssa_blocks B view blocks frame_size total_insns [] params = bret ([], params)"
| "ssa_blocks B view blocks frame_size total_insns (bid # bids) params =
     (case bt_get blocks bid of
        None \<Rightarrow> ssa_blocks B view blocks frame_size total_insns bids params
      | Some block \<Rightarrow>
          bbind (ssa_insts B view bid frame_size total_insns (bb_instructions block) params) (\<lambda>(ops, params).
          bbind (ssa_blocks B view blocks frame_size total_insns bids params) (\<lambda>(bs, params).
          bret (\<lparr>sb_id = bid, sb_phis = [], sb_ops = ops, sb_successors = bb_successors block,
                 sb_predecessors = bb_predecessors block,
                 sb_switch_string_ids = bb_switch_string_ids block\<rparr> # bs, params))))"

section \<open>Phis and undefined variables\<close>

fun drain_phis :: "'b ssa_builder \<Rightarrow> 'b \<Rightarrow> SsaBlock list \<Rightarrow> SsaBlock list" where
  "drain_phis B b [] = []"
| "drain_phis B b (blk # blks) =
     (case bld_take B (sb_id blk) b of (phis, b') \<Rightarrow> blk\<lparr>sb_phis := phis\<rparr> # drain_phis B b' blks)"

text \<open>The scan of one operation: its destination is defined before its operands are looked at.\<close>

definition scan_op :: "VarId btree_set \<times> VarId list \<Rightarrow> SsaOp \<Rightarrow> VarId btree_set \<times> VarId list" where
  "scan_op st op =
     (case st of (defd, used) \<Rightarrow>
      let defd = (case so_dst op of None \<Rightarrow> defd | Some v \<Rightarrow> bs_insert v defd)
      in (defd, foldl (\<lambda>used operand. case operand of
                         So_Var v \<Rightarrow> if v \<in> set defd then used else used @ [v]
                       | _ \<Rightarrow> used) used (so_operands op)))"

definition scan_block :: "VarId btree_set \<times> VarId list \<Rightarrow> SsaBlock \<Rightarrow> VarId btree_set \<times> VarId list" where
  "scan_block st blk =
     (case st of (defd, used) \<Rightarrow>
      foldl scan_op (foldl (\<lambda>d phi. bs_insert (phi_dst phi) d) defd (sb_phis blk), used) (sb_ops blk))"

definition undefined_vars :: "SsaBlock list \<Rightarrow> VarId list" where
  "undefined_vars blks =
     (case foldl scan_block ([], []) blks of (defd, used) \<Rightarrow>
      fold bs_insert (filter (\<lambda>v. v \<notin> set defd) used) [])"

definition undefined_op :: "VarId \<Rightarrow> SsaOp" where
  "undefined_op var = \<lparr>so_name = ''LoadConstUndefined'', so_op = OP_LoadConstUndefined, so_dst = Some var,
     so_operands = [So_DstPlaceholder],
     so_original = \<lparr>di_offset = 0, di_size = 0, di_opcode = 0, di_name = ''LoadConstUndefined'',
       di_op = OP_LoadConstUndefined, di_operands = [], di_op_types = []\<rparr>\<rparr>"

definition define_undefined :: "SsaBlock list \<Rightarrow> SsaBlock list" where
  "define_undefined blks =
     (case blks of
        entry # rest \<Rightarrow>
          if undefined_vars blks \<noteq> []
          then entry\<lparr>sb_ops := map undefined_op (undefined_vars blks) @ sb_ops entry\<rparr> # rest
          else blks
      | [] \<Rightarrow> [])"

section \<open>The construction\<close>

definition build_ssa :: "'b ssa_builder \<Rightarrow> Cfg \<Rightarrow> u32 \<Rightarrow> hermes_error + SsaFunction" where
  "build_ssa B g frame_size =
     (let view = CfgAdapter g;
          total_insns = sum_list (map (\<lambda>b. length (bb_instructions b)) (bt_values (cfg_blocks g)))
      in ebind (ssa_blocks B view (cfg_blocks g) frame_size total_insns (cfg_block_order g) [] (bld_new B))
         (\<lambda>((blks, params), b).
         case bld_seal B view b of
           Inl e \<Rightarrow> Inl (of_ssa_error e)
         | Inr b' \<Rightarrow>
             Inr \<lparr>sf_blocks = define_undefined (drain_phis B b' blks),
                  sf_block_order = cfg_block_order g, sf_var_names = [], sf_param_names = [],
                  sf_param_vars = bt_values params\<rparr>))"

end
