(* ===== verification/Hermes_Ssa_Facts.thy ===== *)
theory Hermes_Ssa_Facts
  imports Hermes_Ssa
begin

text \<open>
  What \<open>build_ssa\<close> guarantees: every variable an operation reads is defined (for any builder); each
  block is the symbolic execution of its instructions from one environment at its entry (for a
  builder whose reads see the last write of the block); and the operands stay bounded by the size of
  the function, the only errors of its own being implausible argument counts.
\<close>

section \<open>Uses and definitions\<close>

definition op_uses :: "SsaOp \<Rightarrow> VarId set" where
  "op_uses op = {v. So_Var v \<in> set (so_operands op)}"

definition op_defs :: "SsaOp \<Rightarrow> VarId set" where
  "op_defs op = set_option (so_dst op)"

definition uses_in :: "SsaBlock list \<Rightarrow> VarId set" where
  "uses_in blks = (\<Union>blk \<in> set blks. \<Union>op \<in> set (sb_ops blk). op_uses op)"

definition defs_in :: "SsaBlock list \<Rightarrow> VarId set" where
  "defs_in blks = (\<Union>blk \<in> set blks. phi_dst ` set (sb_phis blk) \<union> (\<Union>op \<in> set (sb_ops blk). op_defs op))"

text \<open>The state of the scan after definitions \<open>D\<close> and uses \<open>U\<close>.\<close>

definition scanned :: "VarId btree_set \<times> VarId list \<Rightarrow> VarId set \<Rightarrow> VarId set \<Rightarrow> bool" where
  "scanned st D U \<longleftrightarrow> set (fst st) = D \<and> set (snd st) \<subseteq> U \<and> U \<subseteq> set (snd st) \<union> D"

lemma scan_uses:
  "set (foldl (\<lambda>used operand. case operand of
      So_Var v \<Rightarrow> if v \<in> D then used else used @ [v] | _ \<Rightarrow> used) used ops)
    = set used \<union> ({v. So_Var v \<in> set ops} - D)"
  by (induction ops arbitrary: used) (auto split: SsaOperand.splits)

lemma scan_op_scanned:
  assumes "scanned st D U"
  shows "scanned (scan_op st op) (D \<union> op_defs op) (U \<union> op_uses op)"
proof -
  obtain defd used where st: "st = (defd, used)" by fastforce
  define d where "d = (case so_dst op of None \<Rightarrow> defd | Some v \<Rightarrow> bs_insert v defd)"
  have "set d = D \<union> op_defs op"
    using assms by (auto simp: d_def st scanned_def op_defs_def split: option.splits)
  moreover have "fst (scan_op st op) = d" "set (snd (scan_op st op)) = set used \<union> (op_uses op - set d)"
    by (simp_all only: scan_op_def st prod.case Let_def d_def [symmetric] fst_conv snd_conv scan_uses op_uses_def)
  ultimately show ?thesis using assms by (auto simp: scanned_def st)
qed

lemma scan_ops_scanned:
  "scanned st D U \<Longrightarrow> scanned (foldl scan_op st ops) (D \<union> (\<Union>op \<in> set ops. op_defs op)) (U \<union> (\<Union>op \<in> set ops. op_uses op))"
proof (induction ops arbitrary: st D U)
  case (Cons op ops)
  from Cons.IH [OF scan_op_scanned [OF Cons.prems, of op]] show ?case by (simp add: Un_assoc)
qed simp

lemma scan_phis: "set (foldl (\<lambda>d phi. bs_insert (phi_dst phi) d) defd phis) = set defd \<union> phi_dst ` set phis"
  by (induction phis arbitrary: defd) auto

lemma scan_block_scanned:
  assumes "scanned st D U"
  shows "scanned (scan_block st blk) (D \<union> defs_in [blk]) (U \<union> uses_in [blk])"
proof -
  obtain defd used where st: "st = (defd, used)" by fastforce
  have "scanned (foldl (\<lambda>d phi. bs_insert (phi_dst phi) d) defd (sb_phis blk), used) (D \<union> phi_dst ` set (sb_phis blk)) U"
    using assms by (auto simp: scanned_def st scan_phis)
  from scan_ops_scanned [OF this, of "sb_ops blk"] show ?thesis
    by (simp add: scan_block_def st defs_in_def uses_in_def Un_assoc)
qed

lemma scan_blocks_scanned:
  "scanned st D U \<Longrightarrow> scanned (foldl scan_block st blks) (D \<union> defs_in blks) (U \<union> uses_in blks)"
proof (induction blks arbitrary: st D U)
  case (Cons blk blks)
  have "defs_in (blk # blks) = defs_in [blk] \<union> defs_in blks" "uses_in (blk # blks) = uses_in [blk] \<union> uses_in blks"
    by (auto simp: defs_in_def uses_in_def)
  with Cons.IH [OF scan_block_scanned [OF Cons.prems, of blk]] show ?case by (simp add: Un_assoc)
qed (simp add: defs_in_def uses_in_def)

lemma bs_ok_inserts: "bs_ok s \<Longrightarrow> bs_ok (fold bs_insert xs s)"
  by (induction xs arbitrary: s) auto

lemma set_inserts: "set (fold bs_insert xs s) = set xs \<union> set s"
  by (induction xs arbitrary: s) auto

lemma undefined_vars_set: "set (undefined_vars blks) = uses_in blks - defs_in blks"
  and undefined_vars_distinct: "distinct (undefined_vars blks)"
proof -
  obtain defd used where st: "foldl scan_block ([], []) blks = (defd, used)" by fastforce
  have "scanned (defd, used) (defs_in blks) (uses_in blks)"
    using scan_blocks_scanned [of "([], [])" "{}" "{}" blks] by (simp add: scanned_def st)
  then show "set (undefined_vars blks) = uses_in blks - defs_in blks"
    by (auto simp: undefined_vars_def scanned_def set_inserts st)
  show "distinct (undefined_vars blks)"
    using bs_ok_inserts [of "[]"] by (auto simp: undefined_vars_def bs_ok_def st)
qed

text \<open>The blocks with definitions of \<open>us\<close> put before the first.\<close>

fun with_definitions :: "VarId list \<Rightarrow> SsaBlock list \<Rightarrow> SsaBlock list" where
  "with_definitions us [] = []"
| "with_definitions us (entry # rest) = entry\<lparr>sb_ops := map undefined_op us @ sb_ops entry\<rparr> # rest"

lemma define_undefined_eq: "define_undefined blks = with_definitions (undefined_vars blks) blks"
  by (cases blks) (simp_all add: define_undefined_def)

lemma uses_with_definitions: "uses_in (with_definitions us blks) = uses_in blks"
  by (cases blks) (auto simp: uses_in_def op_uses_def undefined_op_def)

lemma defs_with_definitions: "blks \<noteq> [] \<Longrightarrow> defs_in (with_definitions us blks) = set us \<union> defs_in blks"
  by (cases blks) (auto simp: defs_in_def op_defs_def undefined_op_def)

lemma uses_Nil: "uses_in [] = {}"
  by (simp add: uses_in_def)

lemma build_ssa_Inr:
  "build_ssa B g frame_size = Inr f \<longleftrightarrow>
     (\<exists>blks params b b'. ssa_blocks B (CfgAdapter g) (cfg_blocks g) frame_size
          (sum_list (map (\<lambda>b. length (bb_instructions b)) (bt_values (cfg_blocks g)))) (cfg_block_order g) [] (bld_new B)
          = Inr ((blks, params), b)
        \<and> bld_seal B (CfgAdapter g) b = Inr b'
        \<and> f = \<lparr>sf_blocks = define_undefined (drain_phis B b' blks), sf_block_order = cfg_block_order g,
               sf_var_names = [], sf_param_names = [], sf_param_vars = bt_values params\<rparr>)"
  (is "_ \<longleftrightarrow> (\<exists>blks params b b'. ?run = _ \<and> _)")
proof (cases ?run)
  case (Inl e)
  then show ?thesis by (simp add: build_ssa_def Let_def)
next
  case (Inr r)
  then obtain blks params b where "?run = Inr ((blks, params), b)" by (metis prod.collapse)
  then show ?thesis by (cases "bld_seal B (CfgAdapter g) b") (auto simp: build_ssa_def Let_def)
qed

text \<open>
  C19. Every variable an operation of the SSA form reads has a definition, an operation's or a phi's,
  whatever the name-resolution builder answers: the variables the construction leaves undefined are
  exactly those that get one synthetic definition each in front of the entry block.
\<close>

theorem ssa_uses_defined:
  assumes "build_ssa B g frame_size = Inr f"
  shows "uses_in (sf_blocks f) \<subseteq> defs_in (sf_blocks f)
    \<and> (\<exists>us blks. sf_blocks f = with_definitions us blks \<and> distinct us \<and> set us = uses_in blks - defs_in blks)"
proof -
  obtain blks where f: "sf_blocks f = with_definitions (undefined_vars blks) blks"
    using assms by (auto simp: build_ssa_Inr define_undefined_eq)
  have "uses_in (sf_blocks f) \<subseteq> defs_in (sf_blocks f)"
    by (cases "blks = []") (auto simp: f uses_with_definitions defs_with_definitions undefined_vars_set uses_Nil)
  then show ?thesis using f undefined_vars_set undefined_vars_distinct by blast
qed

section \<open>Blocks as symbolic execution\<close>

type_synonym reg_env = "u32 \<Rightarrow> VarId"

fun sym_operand :: "reg_env \<Rightarrow> DecodedInst \<Rightarrow> u32 option \<Rightarrow> nat \<Rightarrow> Operand \<Rightarrow> SsaOperand" where
  "sym_operand \<rho> inst dst i (Op_Reg r) = (if i = 0 \<and> dst = Some (ucast r) then So_DstPlaceholder else So_Var (\<rho> (ucast r)))"
| "sym_operand \<rho> inst dst i (Op_Reg32 r) = (if i = 0 \<and> dst = Some r then So_DstPlaceholder else So_Var (\<rho> r))"
| "sym_operand \<rho> inst dst i (Op_UInt v) = ssa_uint_operand (di_name inst) i v"
| "sym_operand \<rho> inst dst i (Op_Int v) = So_Const v"
| "sym_operand \<rho> inst dst i (Op_Double v) = So_ConstDouble v"
| "sym_operand \<rho> inst dst i (Op_Addr rel) = So_BlockTarget (word_of_int (int (unat (di_offset inst)) + rel))"

definition sym_operands :: "reg_env \<Rightarrow> DecodedInst \<Rightarrow> SsaOperand list" where
  "sym_operands \<rho> inst = map (\<lambda>i. sym_operand \<rho> inst (fst (classify_inst inst)) i (di_operands inst ! i))
     [0..<length (di_operands inst)]"

text \<open>
  The registers a call reads implicitly: \<open>this\<close> at \<open>frame_size - 8\<close> and the arguments below it, in
  decreasing order.
\<close>

definition call_regs :: "u32 \<Rightarrow> DecodedInst \<Rightarrow> u32 list" where
  "call_regs frame_size inst =
     (case call_argc inst of
        (None, _) \<Rightarrow> []
      | (Some argc, _, include_this) \<Rightarrow>
          if frame_size < 9 then []
          else (if include_this then [frame_size - 8] else [])
             @ map (\<lambda>i. frame_size - 9 - of_nat i) [0..<unat argc - 1])"

fun sym_block :: "reg_env \<Rightarrow> u32 \<Rightarrow> DecodedInst list \<Rightarrow> SsaOp list \<Rightarrow> bool" where
  "sym_block \<rho> frame_size [] ops \<longleftrightarrow> ops = []"
| "sym_block \<rho> frame_size (inst # insts) [] \<longleftrightarrow> False"
| "sym_block \<rho> frame_size (inst # insts) (op # ops) \<longleftrightarrow>
     so_original op = inst \<and> so_name op = di_name inst \<and> so_op op = di_op inst
     \<and> so_operands op = sym_operands \<rho> inst @ map (\<lambda>r. So_Var (\<rho> r)) (call_regs frame_size inst)
     \<and> (case (fst (classify_inst inst), so_dst op) of
          (None, None) \<Rightarrow> sym_block \<rho> frame_size insts ops
        | (Some r, Some v) \<Rightarrow> var_reg v = r \<and> sym_block (\<rho>(r := v)) frame_size insts ops
        | _ \<Rightarrow> False)"

text \<open>
  What the code relies on of the builder, with \<open>cur b bid r\<close> the variable register \<open>r\<close> currently
  names in block \<open>bid\<close>: a new variable is one of its register and changes no name, a write sets the
  name, and a read answers the name and leaves the names of the block as they are.
\<close>

definition braun_contract :: "'b ssa_builder \<Rightarrow> ('b \<Rightarrow> BlockId \<Rightarrow> u32 \<Rightarrow> VarId option) \<Rightarrow> bool" where
  "braun_contract B cur \<longleftrightarrow>
     (\<forall>b bid r v. cur b bid r = Some v \<longrightarrow> var_reg v = r)
     \<and> (\<forall>r b v b'. bld_new_var B r b = Inr (v, b') \<longrightarrow> var_reg v = r \<and> cur b' = cur b)
     \<and> (\<forall>bid r v b. var_reg v = r \<longrightarrow> cur (bld_write B bid r v b) bid = (cur b bid)(r \<mapsto> v))
     \<and> (\<forall>view bid r b v b'. bld_read B view bid r b = Inr (v, b') \<longrightarrow>
          cur b' bid r = Some v \<and> (\<forall>r' w. cur b bid r' = Some w \<longrightarrow> cur b' bid r' = Some w))"

lemma contract_write:
  "braun_contract B cur \<Longrightarrow> var_reg v = r \<Longrightarrow> cur (bld_write B bid r v b) bid = (cur b bid)(r \<mapsto> v)"
  unfolding braun_contract_def by blast

definition names_kept :: "('b \<Rightarrow> BlockId \<Rightarrow> u32 \<Rightarrow> VarId option) \<Rightarrow> BlockId \<Rightarrow> 'b \<Rightarrow> 'b \<Rightarrow> bool" where
  "names_kept cur bid b b' \<longleftrightarrow> (\<forall>r w. cur b bid r = Some w \<longrightarrow> cur b' bid r = Some w)"

definition follows :: "('b \<Rightarrow> BlockId \<Rightarrow> u32 \<Rightarrow> VarId option) \<Rightarrow> BlockId \<Rightarrow> 'b \<Rightarrow> reg_env \<Rightarrow> bool" where
  "follows cur bid b \<rho> \<longleftrightarrow> (\<forall>r w. cur b bid r = Some w \<longrightarrow> \<rho> r = w)"

lemma names_kept_refl: "names_kept cur bid b b"
  by (simp add: names_kept_def)

lemma names_kept_trans: "names_kept cur bid b b' \<Longrightarrow> names_kept cur bid b' b'' \<Longrightarrow> names_kept cur bid b b''"
  by (simp add: names_kept_def)

lemma follows_kept: "names_kept cur bid b b' \<Longrightarrow> follows cur bid b' \<rho> \<Longrightarrow> follows cur bid b \<rho>"
  by (simp add: names_kept_def follows_def)

lemma read_var_follows:
  assumes "braun_contract B cur" "read_operand_var B view bid r b = Inr (x, b')"
  shows "names_kept cur bid b b' \<and> (\<forall>\<rho>. follows cur bid b' \<rho> \<longrightarrow> x = So_Var (\<rho> r))"
  using assms
  by (auto simp: read_operand_var_def build_Inr braun_contract_def names_kept_def follows_def)

lemma ssa_operand_follows:
  assumes "braun_contract B cur" "ssa_operand B view bid inst dst i op b = Inr (x, b')"
  shows "names_kept cur bid b b' \<and> (\<forall>\<rho>. follows cur bid b' \<rho> \<longrightarrow> x = sym_operand \<rho> inst dst i op)"
  using assms(2) read_var_follows [OF assms(1)]
  by (cases op) (auto simp: bret_Inr names_kept_refl split: if_splits)

lemma ssa_operands_follow:
  assumes "braun_contract B cur" "ssa_operands B view bid inst dst i ops b = Inr (xs, b')"
  shows "names_kept cur bid b b'
    \<and> (\<forall>\<rho>. follows cur bid b' \<rho> \<longrightarrow> xs = map (\<lambda>k. sym_operand \<rho> inst dst (i + k) (ops ! k)) [0..<length ops])"
  using assms(2)
proof (induction ops arbitrary: i b xs)
  case Nil
  then show ?case by (simp add: bret_Inr names_kept_refl)
next
  case (Cons op ops)
  then obtain x ys b1 where s: "ssa_operand B view bid inst dst i op b = Inr (x, b1)"
    "ssa_operands B view bid inst dst (Suc i) ops b1 = Inr (ys, b')" "xs = x # ys"
    by (auto simp: build_Inr)
  note h = ssa_operand_follows [OF assms(1) s(1)] and t = Cons.IH [OF s(2)]
  have "xs = map (\<lambda>k. sym_operand \<rho> inst dst (i + k) ((op # ops) ! k)) [0..<length (op # ops)]"
    if "follows cur bid b' \<rho>" for \<rho>
  proof -
    have "follows cur bid b1 \<rho>" by (rule follows_kept [OF conjunct1 [OF t] that])
    with h have "x = sym_operand \<rho> inst dst i op" by simp
    moreover have "ys = map (\<lambda>k. sym_operand \<rho> inst dst (Suc i + k) (ops ! k)) [0..<length ops]"
      using conjunct2 [OF t] that by simp
    moreover have "[0..<Suc (length ops)] = 0 # map Suc [0..<length ops]"
      by (simp add: upt_conv_Cons map_Suc_upt del: upt_Suc)
    ultimately show ?thesis by (simp add: s(3) del: upt_Suc)
  qed
  with names_kept_trans [OF conjunct1 [OF h] conjunct1 [OF t]] show ?case by blast
qed

lemma arg_operands_follow:
  assumes "braun_contract B cur" "arg_operands B view bid arg0 explicit label ks b = Inr (xs, b')"
  shows "names_kept cur bid b b'
    \<and> (\<forall>\<rho>. follows cur bid b' \<rho> \<longrightarrow> xs = map (\<lambda>k. So_Var (\<rho> (arg0 - k))) ks)"
  using assms(2)
proof (induction ks arbitrary: b xs)
  case Nil
  then show ?case by (simp add: bret_Inr names_kept_refl)
next
  case (Cons k ks)
  then obtain x ys b1 where s: "read_operand_var B view bid (arg0 - k) b = Inr (x, b1)"
    "arg_operands B view bid arg0 explicit label ks b1 = Inr (ys, b')" "xs = x # ys"
    by (auto simp: build_Inr split: if_splits)
  note h = read_var_follows [OF assms(1) s(1)] and t = Cons.IH [OF s(2)]
  have "x = So_Var (\<rho> (arg0 - k))" if "follows cur bid b' \<rho>" for \<rho>
    using follows_kept [OF conjunct1 [OF t] that] h by simp
  with names_kept_trans [OF conjunct1 [OF h] conjunct1 [OF t]] t show ?case by (simp add: s(3))
qed

lemma top_of_frame: "\<not> frame_size < (9 :: u32) \<Longrightarrow> sat_add32 (frame_size - 9) 1 = frame_size - 8"
proof -
  assume "\<not> frame_size < 9"
  then have "9 \<le> unat frame_size" "unat (frame_size - 9) = unat frame_size - 9"
    by (simp_all add: unat_sub not_less word_le_nat_alt)
  then have "unat (frame_size - 9) + unat (1 :: u32) \<le> u32_max"
    using unat_le_u32_max [of frame_size] by simp
  then show ?thesis by (simp add: sat_add32_def)
qed

lemma call_operands_follow:
  assumes "braun_contract B cur" "call_operands B view bid frame_size max_args inst b = Inr (xs, b')"
  shows "names_kept cur bid b b'
    \<and> (\<forall>\<rho>. follows cur bid b' \<rho> \<longrightarrow> xs = map (\<lambda>r. So_Var (\<rho> r)) (call_regs frame_size inst))"
proof -
  obtain argc label this where c: "call_argc inst = (argc, label, this)" by (metis prod.collapse)
  show ?thesis
  proof (cases "argc = None \<or> frame_size < 9")
    case True
    then show ?thesis
      using assms(2) by (auto simp: call_operands_def c call_regs_def build_Inr names_kept_refl split: if_splits option.splits)
  next
    case False
    then obtain n where n: "argc = Some n" by auto
    let ?explicit = "if n = 0 then 0 else n - 1"
    obtain ths args b1 where s:
      "(if this then bbind (read_operand_var B view bid (frame_size - 8)) (\<lambda>x. bret [x]) else bret []) b = Inr (ths, b1)"
      "arg_operands B view bid (frame_size - 9) ?explicit label (u32_range ?explicit) b1 = Inr (args, b')"
      "xs = ths @ args"
      using assms(2) False
      by (auto simp: call_operands_def c n build_Inr top_of_frame Let_def split: if_splits)
    have h: "names_kept cur bid b b1 \<and> (\<forall>\<rho>. follows cur bid b1 \<rho> \<longrightarrow>
        ths = (if this then [So_Var (\<rho> (frame_size - 8))] else []))"
      using s(1) read_var_follows [OF assms(1), of view bid "frame_size - 8" b]
      by (cases this) (auto simp: build_Inr names_kept_refl)
    note t = arg_operands_follow [OF assms(1) s(2)]
    have "unat ?explicit = unat n - 1" by (simp add: unat_minus_one)
    then have range: "u32_range ?explicit = map of_nat [0..<unat n - 1]" by (simp only: u32_range_def)
    have "xs = map (\<lambda>r. So_Var (\<rho> r)) (call_regs frame_size inst)" if "follows cur bid b' \<rho>" for \<rho>
    proof -
      have "ths = (if this then [So_Var (\<rho> (frame_size - 8))] else [])"
        using follows_kept [OF conjunct1 [OF t] that] h by blast
      moreover have "args = map (\<lambda>k. So_Var (\<rho> (frame_size - 9 - of_nat k))) [0..<unat n - 1]"
        using conjunct2 [OF t] that unfolding range by (simp add: comp_def)
      ultimately show ?thesis using False by (simp add: s(3) call_regs_def c n comp_def)
    qed
    with names_kept_trans [OF conjunct1 [OF h] conjunct1 [OF t]] show ?thesis by blast
  qed
qed

lemma ssa_inst_follows:
  assumes "braun_contract B cur" "ssa_inst B view bid frame_size max_args inst b = Inr (op, b')"
  shows "so_original op = inst \<and> so_name op = di_name inst \<and> so_op op = di_op inst
    \<and> (\<exists>b1. names_kept cur bid b b1
        \<and> (\<forall>\<rho>. follows cur bid b1 \<rho> \<longrightarrow> so_operands op
             = sym_operands \<rho> inst @ map (\<lambda>r. So_Var (\<rho> r)) (call_regs frame_size inst))
        \<and> (case fst (classify_inst inst) of
             None \<Rightarrow> so_dst op = None \<and> cur b' bid = cur b1 bid
           | Some r \<Rightarrow> \<exists>v. so_dst op = Some v \<and> var_reg v = r \<and> cur b' bid = (cur b1 bid)(r \<mapsto> v)))"
proof -
  let ?dst = "fst (classify_inst inst)"
  obtain xs b1 ys b2 d where s: "ssa_operands B view bid inst ?dst 0 (di_operands inst) b = Inr (xs, b1)"
    "call_operands B view bid frame_size max_args inst b1 = Inr (ys, b2)" "write_dst B bid ?dst b2 = Inr (d, b')"
    "op = \<lparr>so_name = di_name inst, so_op = di_op inst, so_dst = d, so_operands = xs @ ys, so_original = inst\<rparr>"
    using assms(2) by (auto simp: ssa_inst_def Let_def build_Inr)
  note h = ssa_operands_follow [OF assms(1) s(1)] and t = call_operands_follow [OF assms(1) s(2)]
  have "xs @ ys = sym_operands \<rho> inst @ map (\<lambda>r. So_Var (\<rho> r)) (call_regs frame_size inst)"
    if "follows cur bid b2 \<rho>" for \<rho>
    using h follows_kept [OF conjunct1 [OF t] that] t that by (simp add: sym_operands_def)
  moreover have "case ?dst of None \<Rightarrow> so_dst op = None \<and> cur b' bid = cur b2 bid
      | Some r \<Rightarrow> \<exists>v. so_dst op = Some v \<and> var_reg v = r \<and> cur b' bid = (cur b2 bid)(r \<mapsto> v)"
  proof (cases ?dst)
    case None
    then show ?thesis using s(3) by (simp add: write_dst_def build_Inr s(4))
  next
    case (Some r)
    then obtain v b3 where w: "bld_new_var B r b2 = Inr (v, b3)" "d = Some v" "b' = bld_write B bid r v b3"
      using s(3) by (auto simp: write_dst_def build_Inr)
    from assms(1) w(1) have "var_reg v = r" "cur b3 = cur b2" by (simp_all add: braun_contract_def)
    have "cur b' bid = (cur b2 bid)(r \<mapsto> v)"
      using contract_write [OF assms(1) \<open>var_reg v = r\<close>, of bid b3] by (simp add: w(3) \<open>cur b3 = cur b2\<close>)
    with Some \<open>var_reg v = r\<close> w(2) show ?thesis by (simp add: s(4))
  qed
  ultimately show ?thesis
    using names_kept_trans [OF conjunct1 [OF h] conjunct1 [OF t]] by (auto simp: s(4) intro!: exI [of _ b2] split: option.split)
qed

lemma ssa_insts_symbolic:
  assumes "braun_contract B cur"
    "ssa_insts B view bid frame_size max_args insts params b = Inr ((ops, params'), b')"
  shows "\<exists>\<rho>. follows cur bid b \<rho> \<and> (\<forall>r. var_reg (\<rho> r) = r) \<and> sym_block \<rho> frame_size insts ops"
  using assms(2)
proof (induction insts arbitrary: params b ops)
  case Nil
  let ?\<rho> = "\<lambda>r. case cur b bid r of None \<Rightarrow> VarId r 0 | Some v \<Rightarrow> v"
  have "follows cur bid b ?\<rho>" "\<forall>r. var_reg (?\<rho> r) = r"
    using assms(1) by (auto simp: follows_def braun_contract_def split: option.splits)
  then show ?case using Nil by (intro exI [of _ ?\<rho>]) (simp add: bret_Inr)
next
  case (Cons inst insts)
  then obtain op b1 ops1 where s: "ssa_inst B view bid frame_size max_args inst b = Inr (op, b1)"
    "ssa_insts B view bid frame_size max_args insts (note_param op params) b1 = Inr ((ops1, params'), b')" "ops = op # ops1"
    by (auto simp: build_Inr split: prod.splits)
  obtain \<rho>1 where r1: "follows cur bid b1 \<rho>1" "\<forall>r. var_reg (\<rho>1 r) = r" "sym_block \<rho>1 frame_size insts ops1"
    using Cons.IH [OF s(2)] by blast
  obtain b2 where i: "so_original op = inst" "so_name op = di_name inst" "so_op op = di_op inst"
    "names_kept cur bid b b2"
    "\<And>\<rho>. follows cur bid b2 \<rho> \<Longrightarrow> so_operands op
       = sym_operands \<rho> inst @ map (\<lambda>r. So_Var (\<rho> r)) (call_regs frame_size inst)"
    "case fst (classify_inst inst) of
       None \<Rightarrow> so_dst op = None \<and> cur b1 bid = cur b2 bid
     | Some r \<Rightarrow> \<exists>v. so_dst op = Some v \<and> var_reg v = r \<and> cur b1 bid = (cur b2 bid)(r \<mapsto> v)"
    using ssa_inst_follows [OF assms(1) s(1)] by blast
  show ?case
  proof (cases "fst (classify_inst inst)")
    case None
    then have "follows cur bid b2 \<rho>1" using i(6) r1(1) by (simp add: follows_def)
    then have "follows cur bid b \<rho>1 \<and> sym_block \<rho>1 frame_size (inst # insts) ops"
      using None i(1-3,5,6) r1(3) follows_kept [OF i(4)] by (simp add: s(3))
    then show ?thesis using r1(2) by blast
  next
    case (Some r)
    then obtain v where v: "so_dst op = Some v" "var_reg v = r" "cur b1 bid = (cur b2 bid)(r \<mapsto> v)" using i(6) by auto
    define \<rho> where "\<rho> = \<rho>1(r := (case cur b2 bid r of None \<Rightarrow> VarId r 0 | Some w \<Rightarrow> w))"
    have regs: "\<forall>k. var_reg (\<rho> k) = k"
      using r1(2) assms(1) by (auto simp: \<rho>_def braun_contract_def split: option.splits)
    have "\<rho>1 r = v" using r1(1) by (simp add: follows_def v(3))
    then have restored: "\<rho>(r := v) = \<rho>1" by (auto simp: \<rho>_def)
    have "follows cur bid b2 \<rho>"
      using r1(1) by (auto simp: follows_def v(3) \<rho>_def split: if_splits)
    then have "follows cur bid b \<rho> \<and> sym_block \<rho> frame_size (inst # insts) ops"
      using Some i(1-3,5) r1(3) follows_kept [OF i(4)] by (simp add: s(3) v(1,2) restored)
    then show ?thesis using regs by blast
  qed
qed

text \<open>The blocks of the graph in the order the construction visits them.\<close>

definition laid_out :: "blocks \<Rightarrow> BlockId list \<Rightarrow> (BlockId \<times> BasicBlock) list" where
  "laid_out blocks order = List.map_filter (\<lambda>bid. map_option (Pair bid) (bt_get blocks bid)) order"

definition symbolic :: "u32 \<Rightarrow> BlockId \<times> BasicBlock \<Rightarrow> SsaBlock \<Rightarrow> SsaOp list \<Rightarrow> bool" where
  "symbolic frame_size src sb ops \<longleftrightarrow>
     sb_id sb = fst src \<and> sb_successors sb = bb_successors (snd src)
     \<and> sb_predecessors sb = bb_predecessors (snd src)
     \<and> sb_switch_string_ids sb = bb_switch_string_ids (snd src)
     \<and> (\<exists>\<rho>. (\<forall>r. var_reg (\<rho> r) = r) \<and> sym_block \<rho> frame_size (bb_instructions (snd src)) ops)"

lemma laid_out_Cons:
  "laid_out blocks (bid # bids) = (case bt_get blocks bid of None \<Rightarrow> laid_out blocks bids
     | Some block \<Rightarrow> (bid, block) # laid_out blocks bids)"
  by (simp add: laid_out_def map_filter_simps split: option.split)

lemma ssa_blocks_symbolic:
  assumes "braun_contract B cur"
    "ssa_blocks B view blocks frame_size max_args bids params b = Inr ((blks, params'), b')"
  shows "list_all2 (\<lambda>src sb. symbolic frame_size src sb (sb_ops sb)) (laid_out blocks bids) blks"
  using assms(2)
proof (induction bids arbitrary: params b blks)
  case Nil
  then show ?case by (simp add: bret_Inr laid_out_def map_filter_simps)
next
  case (Cons bid bids)
  show ?case
  proof (cases "bt_get blocks bid")
    case None
    then show ?thesis using Cons by (simp add: laid_out_Cons)
  next
    case (Some block)
    then obtain ops ps b1 blks1 where s:
      "ssa_insts B view bid frame_size max_args (bb_instructions block) params b = Inr ((ops, ps), b1)"
      "ssa_blocks B view blocks frame_size max_args bids ps b1 = Inr ((blks1, params'), b')"
      "blks = \<lparr>sb_id = bid, sb_phis = [], sb_ops = ops, sb_successors = bb_successors block,
         sb_predecessors = bb_predecessors block, sb_switch_string_ids = bb_switch_string_ids block\<rparr> # blks1"
      using Cons.prems by (auto simp: build_Inr)
    show ?thesis
      using Cons.IH [OF s(2)] ssa_insts_symbolic [OF assms(1) s(1)] Some
      by (auto simp: s(3) laid_out_Cons symbolic_def)
  qed
qed

lemma symbolic_phis: "symbolic frame_size src (sb\<lparr>sb_phis := phis\<rparr>) ops = symbolic frame_size src sb ops"
  by (simp add: symbolic_def)

lemma symbolic_ops: "symbolic frame_size src (sb\<lparr>sb_ops := ops'\<rparr>) ops = symbolic frame_size src sb ops"
  by (simp add: symbolic_def)

lemma drain_symbolic:
  "list_all2 (\<lambda>src sb. symbolic frame_size src sb (sb_ops sb)) srcs blks \<Longrightarrow>
     list_all2 (\<lambda>src sb. symbolic frame_size src sb (sb_ops sb)) srcs (drain_phis B b blks)"
  by (induction arbitrary: b rule: list_all2_induct) (simp_all add: symbolic_phis split: prod.split)

text \<open>
  C18. Over a builder that keeps its contract, each block of the SSA form is the symbolic execution of
  its instructions: the blocks come in block order with the edges of the graph, and for each there is
  one environment at its entry from which every register operand, implicit call arguments included,
  is the variable the last write of the block left in the register (or the entry's), every other
  operand is translated as it stands, and every destination is a variable of its register. Only the
  first block has more: the synthetic definitions in front.
\<close>

theorem ssa_blocks_execute:
  assumes "build_ssa B g frame_size = Inr f" "braun_contract B cur"
  shows "\<exists>us. list_all2 (\<lambda>(k, src) sb. \<exists>ops.
      sb_ops sb = (if k = 0 then map undefined_op us else []) @ ops \<and> symbolic frame_size src sb ops)
    (enumerate 0 (laid_out (cfg_blocks g) (cfg_block_order g))) (sf_blocks f)"
proof -
  obtain blks params b b' max_args where
    "ssa_blocks B (CfgAdapter g) (cfg_blocks g) frame_size max_args (cfg_block_order g) [] (bld_new B) = Inr ((blks, params), b)"
    and f: "sf_blocks f = define_undefined (drain_phis B b' blks)"
    using assms(1) by (auto simp: build_ssa_Inr)
  from drain_symbolic [OF ssa_blocks_symbolic [OF assms(2) this(1)], of B b']
  have all: "list_all2 (\<lambda>src sb. symbolic frame_size src sb (sb_ops sb))
      (laid_out (cfg_blocks g) (cfg_block_order g)) (drain_phis B b' blks)" .
  let ?us = "undefined_vars (drain_phis B b' blks)"
  show ?thesis
  proof (intro exI [of _ ?us] list_all2_all_nthI)
    show "length (enumerate 0 (laid_out (cfg_blocks g) (cfg_block_order g))) = length (sf_blocks f)"
      using list_all2_lengthD [OF all] by (cases "drain_phis B b' blks") (simp_all add: f define_undefined_eq)
    fix k assume "k < length (enumerate 0 (laid_out (cfg_blocks g) (cfg_block_order g)))"
    then have k: "k < length (laid_out (cfg_blocks g) (cfg_block_order g))" by simp
    then show "(\<lambda>(k, src) sb. \<exists>ops. sb_ops sb = (if k = 0 then map undefined_op ?us else []) @ ops
        \<and> symbolic frame_size src sb ops)
      (enumerate 0 (laid_out (cfg_blocks g) (cfg_block_order g)) ! k) (sf_blocks f ! k)"
      using list_all2_nthD [OF all k] list_all2_lengthD [OF all]
      by (cases "drain_phis B b' blks"; cases k)
        (auto simp: f define_undefined_eq symbolic_ops nth_enumerate_eq)
  qed
qed

section \<open>Bounds and errors\<close>

definition insn_total :: "Cfg \<Rightarrow> nat" where
  "insn_total g = sum_list (map (\<lambda>b. length (bb_instructions b)) (bt_values (cfg_blocks g)))"

text \<open>An error of the construction itself: a declared count that exceeds what the function can hold.\<close>

definition count_error :: "u32 \<Rightarrow> nat \<Rightarrow> DecodedInst \<Rightarrow> hermes_error \<Rightarrow> bool" where
  "count_error frame_size max_args inst e \<longleftrightarrow>
     (\<exists>argc label this got limit. call_argc inst = (Some argc, label, this) \<and> e = CountExceedsInput got limit label
        \<and> limit < unat got
        \<and> (got = argc \<and> limit = max_args \<or> got = argc - 1 \<and> limit = unat frame_size - 8))"

definition builder_error :: "hermes_error \<Rightarrow> bool" where
  "builder_error e \<longleftrightarrow> e = Ssa \<or> e = Budget"

lemma of_ssa_error_builder: "builder_error (of_ssa_error e)"
  by (cases e) (simp_all add: builder_error_def)

lemma lift_ssa_Inl: "lift_ssa m b = Inl e \<Longrightarrow> builder_error e"
  using of_ssa_error_builder by (auto simp: lift_ssa_def split: sum.splits)

lemma read_var_Inl: "read_operand_var B view bid r b = Inl e \<Longrightarrow> builder_error e"
  by (auto simp: read_operand_var_def build_Inl dest: lift_ssa_Inl)

lemma ssa_operand_Inl: "ssa_operand B view bid inst dst i op b = Inl e \<Longrightarrow> builder_error e"
  by (cases op) (auto simp: bret_Inl split: if_splits dest: read_var_Inl)

lemma ssa_operands_Inl: "ssa_operands B view bid inst dst i ops b = Inl e \<Longrightarrow> builder_error e"
  by (induction ops arbitrary: i b) (auto simp: build_Inl dest: ssa_operand_Inl)

lemma arg_operands_Inl:
  "arg_operands B view bid arg0 explicit label ks b = Inl e \<Longrightarrow>
     builder_error e \<or> (\<exists>k \<in> set ks. arg0 < k \<and> e = CountExceedsInput explicit (unat (sat_add32 arg0 1)) label)"
  by (induction ks arbitrary: b) (auto simp: build_Inl split: if_splits dest: read_var_Inl)

lemma call_operands_Inl:
  assumes "call_operands B view bid frame_size max_args inst b = Inl e"
  shows "builder_error e \<or> count_error frame_size max_args inst e"
proof -
  obtain argc label this where c: "call_argc inst = (argc, label, this)" by (metis prod.collapse)
  show ?thesis
  proof (cases argc)
    case None
    then show ?thesis using assms by (simp add: call_operands_def c bret_Inl)
  next
    case (Some n)
    let ?explicit = "if n = 0 then 0 else n - 1"
    show ?thesis
    proof (cases "max_args < unat n \<or> frame_size < 9")
      case True
      then show ?thesis
        using assms Some by (auto simp: call_operands_def c count_error_def build_Inl split: if_splits)
    next
      case False
      then have "builder_error e \<or> (\<exists>b. arg_operands B view bid (frame_size - 9) ?explicit label (u32_range ?explicit) b = Inl e)"
        using assms Some
        by (auto simp: call_operands_def c Let_def build_Inl split: if_splits dest: read_var_Inl)
      then have "builder_error e \<or> (\<exists>k \<in> set (u32_range ?explicit). frame_size - 9 < k
          \<and> e = CountExceedsInput ?explicit (unat (frame_size - 8)) label)"
        using arg_operands_Inl False by (metis top_of_frame)
      then show ?thesis
      proof (elim disjE bexE conjE)
        fix k assume k: "k \<in> set (u32_range ?explicit)" "frame_size - 9 < k"
          "e = CountExceedsInput ?explicit (unat (frame_size - 8)) label"
        have f: "9 \<le> unat frame_size" using False by (simp add: not_less word_le_nat_alt)
        then have sub: "unat (frame_size - 9) = unat frame_size - 9" "unat (frame_size - 8) = unat frame_size - 8"
          by (simp_all add: unat_sub word_le_nat_alt)
        have "k < ?explicit" using k(1) by (simp only: set_u32_range mem_Collect_eq)
        with k(2) f have "unat frame_size - 8 < unat ?explicit" by (simp only: word_less_nat_alt sub)
        moreover from this have "n \<noteq> 0" by auto
        ultimately show ?thesis using c Some k(3) sub(2) by (auto simp: count_error_def)
      qed simp
    qed
  qed
qed

lemma write_dst_Inl: "write_dst B bid dst b = Inl e \<Longrightarrow> builder_error e"
  by (auto simp: write_dst_def build_Inl split: option.splits dest: lift_ssa_Inl)

lemma ssa_inst_Inl:
  "ssa_inst B view bid frame_size max_args inst b = Inl e \<Longrightarrow> builder_error e \<or> count_error frame_size max_args inst e"
  by (auto simp: ssa_inst_def Let_def build_Inl dest: ssa_operands_Inl call_operands_Inl write_dst_Inl)

lemma ssa_insts_Inl:
  "ssa_insts B view bid frame_size max_args insts params b = Inl e \<Longrightarrow>
     builder_error e \<or> (\<exists>inst \<in> set insts. count_error frame_size max_args inst e)"
  by (induction insts arbitrary: params b) (auto simp: build_Inl split: prod.splits dest: ssa_inst_Inl)

lemma ssa_blocks_Inl:
  "ssa_blocks B view blocks frame_size max_args bids params b = Inl e \<Longrightarrow>
     builder_error e \<or> (\<exists>(bid, block) \<in> set (laid_out blocks bids). \<exists>inst \<in> set (bb_instructions block).
       count_error frame_size max_args inst e)"
  by (induction bids arbitrary: params b)
    (auto simp: build_Inl laid_out_Cons split: option.splits prod.splits dest: ssa_insts_Inl)

definition bounded_op :: "nat \<Rightarrow> SsaOp \<Rightarrow> bool" where
  "bounded_op max_args op \<longleftrightarrow>
     length (so_operands op) \<le> length (di_operands (so_original op)) + max 1 max_args"

lemma ssa_operands_length: "ssa_operands B view bid inst dst i ops b = Inr (xs, b') \<Longrightarrow> length xs = length ops"
  by (induction ops arbitrary: i b xs) (auto simp: build_Inr)

lemma arg_operands_length: "arg_operands B view bid arg0 explicit label ks b = Inr (xs, b') \<Longrightarrow> length xs = length ks"
  by (induction ks arbitrary: b xs) (auto simp: build_Inr split: if_splits)

lemma length_u32_range: "length (u32_range n) = unat n"
  by (simp add: u32_range_def)

lemma call_operands_length:
  assumes "call_operands B view bid frame_size max_args inst b = Inr (xs, b')"
  shows "length xs \<le> max 1 max_args"
proof -
  obtain argc label this where c: "call_argc inst = (argc, label, this)" by (metis prod.collapse)
  show ?thesis
  proof (cases "argc = None \<or> frame_size < 9")
    case True
    then show ?thesis
      using assms by (auto simp: call_operands_def c build_Inr split: if_splits option.splits)
  next
    case False
    then obtain n where n: "argc = Some n" by auto
    let ?explicit = "if n = 0 then 0 else n - 1"
    have "length (u32_range ?explicit) = unat n - 1"
      by (simp add: length_u32_range unat_minus_one)
    then show ?thesis
      using assms False
      by (auto simp: call_operands_def c n build_Inr Let_def simp del: split_paired_Ex split: if_splits
          dest!: arg_operands_length)
  qed
qed

lemma ssa_insts_bounded:
  "ssa_insts B view bid frame_size max_args insts params b = Inr ((ops, params'), b') \<Longrightarrow>
     \<forall>op \<in> set ops. bounded_op max_args op"
proof (induction insts arbitrary: params b ops)
  case (Cons inst insts)
  then obtain op b1 ops1 where s: "ssa_inst B view bid frame_size max_args inst b = Inr (op, b1)"
    "ssa_insts B view bid frame_size max_args insts (note_param op params) b1 = Inr ((ops1, params'), b')" "ops = op # ops1"
    by (auto simp: build_Inr split: prod.splits)
  have "bounded_op max_args op"
    using s(1) by (auto simp: ssa_inst_def Let_def build_Inr bounded_op_def
        dest!: ssa_operands_length call_operands_length)
  then show ?case using Cons.IH [OF s(2)] by (simp add: s(3))
qed (simp add: bret_Inr)

lemma ssa_blocks_bounded:
  "ssa_blocks B view blocks frame_size max_args bids params b = Inr ((blks, params'), b') \<Longrightarrow>
     \<forall>blk \<in> set blks. \<forall>op \<in> set (sb_ops blk). bounded_op max_args op"
  by (induction bids arbitrary: params b blks)
    (auto simp: build_Inr split: option.splits prod.splits, (blast dest: ssa_insts_bounded)+)

lemma ops_of_drained: "sb_ops ` set (drain_phis B b blks) = sb_ops ` set blks"
  by (induction blks arbitrary: b) (simp_all add: split_beta)

lemma undefined_op_bounded: "bounded_op max_args (undefined_op v)"
  by (simp add: bounded_op_def undefined_op_def)

text \<open>
  C20. The construction does not amplify its input: it fails with an error of the builder (a broken
  builder or its budget), or because some call instruction declares more arguments than the function
  has instructions or than fit below the top of the frame, naming both numbers; and when it succeeds
  every operation has at most as many operands as its instruction plus the number of instructions.
\<close>

theorem ssa_bounded:
  "case build_ssa B g frame_size of
     Inl e \<Rightarrow> builder_error e \<or> (\<exists>(bid, block) \<in> set (laid_out (cfg_blocks g) (cfg_block_order g)).
        \<exists>inst \<in> set (bb_instructions block). count_error frame_size (insn_total g) inst e)
   | Inr f \<Rightarrow> list_all (\<lambda>blk. list_all (bounded_op (insn_total g)) (sb_ops blk)) (sf_blocks f)"
proof (cases "build_ssa B g frame_size")
  case (Inl e)
  let ?run = "ssa_blocks B (CfgAdapter g) (cfg_blocks g) frame_size (insn_total g) (cfg_block_order g) [] (bld_new B)"
  have "?run = Inl e \<or> builder_error e"
  proof (cases ?run)
    case (Inl e')
    then show ?thesis
      using \<open>build_ssa B g frame_size = Inl e\<close> by (simp add: build_ssa_def Let_def insn_total_def)
  next
    case (Inr r)
    then obtain blks params b where "?run = Inr ((blks, params), b)" by (metis prod.collapse)
    then show ?thesis
      using \<open>build_ssa B g frame_size = Inl e\<close> of_ssa_error_builder
      by (cases "bld_seal B (CfgAdapter g) b") (auto simp: build_ssa_def Let_def insn_total_def)
  qed
  then have "builder_error e \<or> (\<exists>(bid, block) \<in> set (laid_out (cfg_blocks g) (cfg_block_order g)).
      \<exists>inst \<in> set (bb_instructions block). count_error frame_size (insn_total g) inst e)"
    by (elim disjE) (rule ssa_blocks_Inl, assumption, simp)
  then show ?thesis by (simp add: Inl)
next
  case (Inr f)
  then obtain blks params b b' where
    run: "ssa_blocks B (CfgAdapter g) (cfg_blocks g) frame_size (insn_total g) (cfg_block_order g) [] (bld_new B)
      = Inr ((blks, params), b)"
    and f: "sf_blocks f = define_undefined (drain_phis B b' blks)"
    by (auto simp: build_ssa_Inr insn_total_def)
  have "\<forall>blk \<in> set (drain_phis B b' blks). \<forall>op \<in> set (sb_ops blk). bounded_op (insn_total g) op"
    using ssa_blocks_bounded [OF run] ops_of_drained [of B b' blks] by (metis (no_types, lifting) imageE imageI)
  then show ?thesis
    using undefined_op_bounded
    by (cases "drain_phis B b' blks") (auto simp: Inr f define_undefined_eq list_all_iff)
qed

end
