(* ===== verification/Hermes_Ssa_Samples.thy ===== *)
theory Hermes_Ssa_Samples
  imports Hermes_Ssa_Facts Hermes_Cfg_Samples
begin

text \<open>
  The properties of the SSA construction at the graph of \<open>Hermes_Cfg_Samples\<close>, with a builder that
  numbers the variables of each register and lets a block start from version 0 of every register.
\<close>

type_synonym local_state = "(u32 \<Rightarrow> u32) \<times> (BlockId \<Rightarrow> u32 \<Rightarrow> VarId option)"

definition local_name :: "local_state \<Rightarrow> BlockId \<Rightarrow> u32 \<Rightarrow> VarId option" where
  "local_name b bid r = (case snd b bid r of None \<Rightarrow> None | Some v \<Rightarrow> if var_reg v = r then Some v else None)"

definition local_write :: "BlockId \<Rightarrow> u32 \<Rightarrow> VarId \<Rightarrow> local_state \<Rightarrow> local_state" where
  "local_write bid r v b = (fst b, (snd b)(bid := (snd b bid)(r \<mapsto> v)))"

definition local_builder :: "local_state ssa_builder" where
  "local_builder = \<lparr>bld_new = (\<lambda>r. 0, \<lambda>bid r. None),
     bld_read = (\<lambda>view bid r b. case local_name b bid r of
        Some v \<Rightarrow> Inr (v, b) | None \<Rightarrow> Inr (VarId r 0, local_write bid r (VarId r 0) b)),
     bld_new_var = (\<lambda>r b. Inr (VarId r (fst b r + 1), ((fst b)(r := fst b r + 1), snd b))),
     bld_write = local_write,
     bld_seal = (\<lambda>view b. Inr b),
     bld_take = (\<lambda>bid b. ([], b))\<rparr>"

lemma local_builder_ops:
  "bld_new local_builder = (\<lambda>r. 0, \<lambda>bid r. None)"
  "bld_read local_builder view bid r b = (case local_name b bid r of
     Some v \<Rightarrow> Inr (v, b) | None \<Rightarrow> Inr (VarId r 0, local_write bid r (VarId r 0) b))"
  "bld_new_var local_builder r b = Inr (VarId r (fst b r + 1), ((fst b)(r := fst b r + 1), snd b))"
  "bld_write local_builder = local_write"
  "bld_seal local_builder view b = Inr b"
  "bld_take local_builder bid b = ([], b)"
  by (simp_all add: local_builder_def)

lemma local_name_reg: "local_name b bid r = Some v \<Longrightarrow> var_reg v = r"
  by (auto simp: local_name_def split: option.splits if_splits)

lemma local_name_new: "local_name (f, snd b) = local_name b"
  by (simp add: local_name_def fun_eq_iff)

lemma local_name_write: "local_name (local_write bid (var_reg v) v b) bid = (local_name b bid)(var_reg v \<mapsto> v)"
  by (auto simp: local_name_def local_write_def)

lemma local_read:
  assumes "bld_read local_builder view bid r b = Inr (v, b')"
  shows "local_name b' bid r = Some v \<and> (\<forall>r' w. local_name b bid r' = Some w \<longrightarrow> local_name b' bid r' = Some w)"
  using assms local_name_write [of bid "VarId r 0" b]
  by (cases "local_name b bid r") (simp_all add: local_builder_ops, auto)

lemma local_builder_contract: "braun_contract local_builder local_name"
  unfolding braun_contract_def
proof (intro conjI allI impI)
  show "var_reg v = r" if "bld_new_var local_builder r b = Inr (v, b')" for r b v b'
    using that by (auto simp: local_builder_ops)
  show "local_name b' = local_name b" if "bld_new_var local_builder r b = Inr (v, b')" for r b v b'
    using that local_name_new by (simp add: local_builder_ops) metis
  show "local_name (bld_write local_builder bid r v b) bid = (local_name b bid)(r \<mapsto> v)" if "var_reg v = r" for bid r v b
    using local_name_write that by (simp add: local_builder_ops) blast
qed (use local_name_reg local_read in blast)+

definition sample_ssa :: SsaFunction where
  "sample_ssa = \<lparr>sf_blocks =
     [\<lparr>sb_id = 0, sb_phis = [], sb_ops =
         [undefined_op (VarId 1 0), undefined_op (VarId 2 0),
          \<lparr>so_name = ''JmpTrue'', so_op = OP_JmpTrue, so_dst = None,
           so_operands = [So_BlockTarget 6, So_Var (VarId 1 0)], so_original = sample_insts ! 0\<rparr>],
       sb_successors = [6, 3], sb_predecessors = [], sb_switch_string_ids = []\<rparr>,
      \<lparr>sb_id = 3, sb_phis = [], sb_ops =
         [\<lparr>so_name = ''Mov'', so_op = OP_Mov, so_dst = Some (VarId 2 1),
           so_operands = [So_DstPlaceholder, So_Var (VarId 1 0)], so_original = sample_insts ! 1\<rparr>],
       sb_successors = [6], sb_predecessors = [0], sb_switch_string_ids = []\<rparr>,
      \<lparr>sb_id = 6, sb_phis = [], sb_ops =
         [\<lparr>so_name = ''Ret'', so_op = OP_Ret, so_dst = None,
           so_operands = [So_Var (VarId 2 0)], so_original = sample_insts ! 2\<rparr>],
       sb_successors = [], sb_predecessors = [0, 3], sb_switch_string_ids = []\<rparr>],
     sf_block_order = [0, 3, 6], sf_var_names = [], sf_param_names = [], sf_param_vars = []\<rparr>"

lemma sample_classify:
  "classify_inst (sample_insts ! 0) = (None, [1])" "classify_inst (sample_insts ! Suc 0) = (Some 2, [1])"
  "classify_inst (sample_insts ! 2) = (None, [2])"
  by (simp_all add: sample_insts_def classify_inst_def no_dst_names_def is_store_name_def
      regs_of_def map_filter_simps Let_def get_at_def)

lemma sample_fields:
  "di_name (sample_insts ! 0) = ''JmpTrue''" "di_name (sample_insts ! Suc 0) = ''Mov''" "di_name (sample_insts ! 2) = ''Ret''"
  "di_op (sample_insts ! 0) = OP_JmpTrue" "di_op (sample_insts ! Suc 0) = OP_Mov" "di_op (sample_insts ! 2) = OP_Ret"
  "di_operands (sample_insts ! 0) = [Op_Addr 6, Op_Reg 1]" "di_operands (sample_insts ! Suc 0) = [Op_Reg 2, Op_Reg 1]"
  "di_operands (sample_insts ! 2) = [Op_Reg 2]" "di_offset (sample_insts ! 0) = 0"
  by (simp_all add: sample_insts_def)

lemma sample_no_call:
  "call_operands B view bid frame_size n (sample_insts ! 0) = bret []"
  "call_operands B view bid frame_size n (sample_insts ! Suc 0) = bret []"
  "call_operands B view bid frame_size n (sample_insts ! 2) = bret []"
  by (simp_all add: call_operands_def call_argc_def sample_fields Let_def)

lemmas build_eval = bbind_def bret_def lift_ssa_def write_dst_def read_operand_var_def ssa_inst_def note_param_def
  local_builder_ops local_name_def local_write_def sample_classify sample_fields sample_no_call Let_def

lemma sample_ssa_blocks:
  "\<exists>b. ssa_blocks local_builder (CfgAdapter sample_cfg) (cfg_blocks sample_cfg) 20 n [0, 3, 6] [] (bld_new local_builder)
     = Inr ((map (\<lambda>blk. blk\<lparr>sb_ops := filter (\<lambda>op. so_op op \<noteq> OP_LoadConstUndefined) (sb_ops blk)\<rparr>) (sf_blocks sample_ssa), []), b)"
  by (simp add: sample_cfg_def bt_get_def build_eval sample_ssa_def undefined_op_def)

lemma sample_ssa: "build_ssa local_builder sample_cfg 20 = Inr sample_ssa"
proof -
  have order: "cfg_block_order sample_cfg = [0, 3, 6]" by (simp add: sample_cfg_def)
  obtain b where blocks: "ssa_blocks local_builder (CfgAdapter sample_cfg) (cfg_blocks sample_cfg) 20
      (sum_list (map (\<lambda>b. length (bb_instructions b)) (bt_values (cfg_blocks sample_cfg)))) [0, 3, 6] [] (bld_new local_builder)
     = Inr ((map (\<lambda>blk. blk\<lparr>sb_ops := filter (\<lambda>op. so_op op \<noteq> OP_LoadConstUndefined) (sb_ops blk)\<rparr>) (sf_blocks sample_ssa), []), b)"
    using sample_ssa_blocks by blast
  show ?thesis
    unfolding build_ssa_def Let_def order blocks
    by (simp add: local_builder_ops sample_ssa_def undefined_op_def define_undefined_def undefined_vars_def
        scan_block_def scan_op_def bs_insert_def insort_insert_key_def less_eq_VarId_def less_VarId_def bt_values_def)
qed

lemma ssa_uses_defined_witness: "VarId 2 0 \<in> defs_in (sf_blocks sample_ssa)"
proof -
  have "VarId 2 0 \<in> uses_in (sf_blocks sample_ssa)" by (simp add: sample_ssa_def uses_in_def op_uses_def)
  then show ?thesis using ssa_uses_defined [OF sample_ssa] by blast
qed

lemma ssa_blocks_execute_witness:
  "\<exists>us ops. sb_ops (hd (sf_blocks sample_ssa)) = map undefined_op us @ ops
     \<and> symbolic 20 (hd (laid_out (cfg_blocks sample_cfg) [0, 3, 6])) (hd (sf_blocks sample_ssa)) ops"
proof -
  have order: "cfg_block_order sample_cfg = [0, 3, 6]" by (simp add: sample_cfg_def)
  have "\<exists>src rest. laid_out (cfg_blocks sample_cfg) [0, 3, 6] = src # rest"
    by (simp add: sample_cfg_def laid_out_Cons bt_get_def)
  then obtain src rest where "laid_out (cfg_blocks sample_cfg) [0, 3, 6] = src # rest" by blast
  then show ?thesis
    using ssa_blocks_execute [OF sample_ssa local_builder_contract]
    by (fastforce simp: order list_all2_Cons1)
qed

end
