(* ===== verification/Hermes_Optimize.thy ===== *)
theory Hermes_Optimize
  imports Hermes_Ssa_Facts Hermes_BigInts
begin

text \<open>
  Passes of \<open>decompile/optimize.rs\<close> over the SSA form: \<open>count_uses\<close>, \<open>copy_propagation\<close>,
  \<open>dead_code_elimination\<close> with its rounds in \<open>optimize\<close>, \<open>resolve_bigints\<close> and \<open>coalesce_phi_names\<close>;
  and the purity tables of \<open>decompile/expr.rs\<close> they rest on. A hash map is the ordered map of
  \<open>Hermes_BTree\<close>: the passes only look keys up, or visit them in an order that makes no difference.
\<close>

section \<open>Purity\<close>

definition pure_ops :: "OpCode list" where
  "pure_ops = [
     OP_LoadConstUndefined, OP_LoadConstNull, OP_LoadConstTrue, OP_LoadConstFalse, OP_LoadConstZero,
     OP_LoadConstUInt8, OP_LoadConstInt, OP_LoadConstDouble, OP_LoadConstString,
     OP_LoadConstStringLongIndex, OP_LoadConstEmpty, OP_LoadConstBigInt, OP_LoadConstBigIntLongIndex,
     OP_LoadParam, OP_LoadParamLong, OP_LoadFromEnvironment, OP_Add, OP_AddN, OP_Sub, OP_SubN, OP_Mul,
     OP_MulN, OP_Div, OP_DivN, OP_Mod, OP_BitAnd, OP_BitOr, OP_BitXor, OP_BitNot, OP_LShift, OP_RShift,
     OP_URshift, OP_Negate, OP_Inc, OP_Dec, OP_Add32, OP_Sub32, OP_Mul32, OP_Divi32, OP_Divu32, OP_Less,
     OP_Greater, OP_Eq, OP_Neq, OP_StrictEq, OP_StrictNeq, OP_InstanceOf, OP_IsIn, OP_TypeOf,
     OP_TypeOfIs, OP_ToNumber, OP_ToNumeric, OP_ToInt32, OP_AddEmptyString, OP_CoerceThisNS,
     OP_LoadThisNS, OP_GetById, OP_GetByIdShort, OP_GetByIdLong, OP_TryGetById, OP_TryGetByIdLong,
     OP_GetByVal, OP_GetByIndex, OP_NewObject, OP_NewObjectWithBuffer, OP_NewObjectWithBufferLong,
     OP_NewArray, OP_NewArrayWithBuffer, OP_NewArrayWithBufferLong, OP_NewFastArray, OP_CreateRegExp,
     OP_CreateThis, OP_CreateThisForNew, OP_NewTypedObjectWithBuffer, OP_GetClosureEnvironment,
     OP_GetParentEnvironment, OP_GetEnvironment, OP_GetGlobalObject, OP_Mov, OP_MovLong, OP_Phi, OP_Not,
     OP_IteratorNext, OP_IteratorClose, OP_GetPNameList, OP_GetNextPName, OP_GetBuiltinClosure,
     OP_GetNewTarget, OP_GetArgumentsLength, OP_GetArgumentsPropByVal, OP_ReifyArguments,
     OP_ReifyArgumentsStrict, OP_SelectObject, OP_Unreachable, OP_ProfilePoint, OP_Debugger,
     OP_AsyncBreakCheck]"

definition pure_names :: "string list" where
  "pure_names = [
     ''LoadConstUndefined'', ''LoadConstNull'', ''LoadConstTrue'', ''LoadConstFalse'',
     ''LoadConstZero'', ''LoadConstUInt8'', ''LoadConstInt'', ''LoadConstDouble'', ''LoadConstString'',
     ''LoadConstStringLongIndex'', ''LoadConstEmpty'', ''LoadConstBigInt'',
     ''LoadConstBigIntLongIndex'', ''LoadParam'', ''LoadParamLong'', ''LoadFromEnvironment'',
     ''LoadFromEnvironmentLong'', ''Add'', ''AddN'', ''Sub'', ''SubN'', ''Mul'', ''MulN'', ''Div'',
     ''DivN'', ''Mod'', ''ModN'', ''Exp'', ''BitAnd'', ''BitOr'', ''BitXor'', ''BitNot'', ''LShift'',
     ''RShift'', ''URshift'', ''Negate'', ''Inc'', ''Dec'', ''Add32'', ''Sub32'', ''Mul32'', ''Divi32'',
     ''Divu32'', ''Less'', ''LessN'', ''LessEqual'', ''LessEqualN'', ''Greater'', ''GreaterN'',
     ''GreaterEqual'', ''GreaterEqualN'', ''Eq'', ''Neq'', ''StrictEq'', ''StrictNeq'', ''InstanceOf'',
     ''IsIn'', ''TypeOf'', ''TypeOfIs'', ''ToNumber'', ''ToNumeric'', ''ToInt32'', ''ToString'',
     ''AddEmptyString'', ''CoerceThisNS'', ''LoadThisNS'', ''GetById'', ''GetByIdShort'',
     ''GetByIdLong'', ''TryGetById'', ''TryGetByIdLong'', ''GetByVal'', ''GetByIndex'', ''NewObject'',
     ''NewObjectWithBuffer'', ''NewObjectWithBufferLong'', ''HermesObjectLit'',
     ''HermesObjectSpreadLit'', ''NewArray'', ''NewArrayWithBuffer'', ''NewArrayWithBufferLong'',
     ''NewFastArray'', ''CreateRegExp'', ''CreateThis'', ''CreateThisForNew'',
     ''NewTypedObjectWithBuffer'', ''GetClosureEnvironment'', ''GetParentEnvironment'',
     ''GetEnvironment'', ''GetGlobalObject'', ''Mov'', ''MovLong'', ''Phi'', ''Not'', ''IteratorNext'',
     ''IteratorClose'', ''GetPNameList'', ''GetNextPName'', ''GetBuiltinClosure'', ''GetNewTarget'',
     ''GetArgumentsLength'', ''GetArgumentsPropByVal'', ''ReifyArguments'', ''ReifyArgumentsStrict'',
     ''SelectObject'', ''Unreachable'', ''ProfilePoint'', ''Debugger'', ''AsyncBreakCheck'']"

definition is_pure_op :: "OpCode \<Rightarrow> bool" where
  "is_pure_op op \<longleftrightarrow> op \<in> set pure_ops"

definition is_pure :: "string \<Rightarrow> bool" where
  "is_pure name \<longleftrightarrow> name \<in> set pure_names"

definition has_side_effects :: "string \<Rightarrow> bool" where
  "has_side_effects name \<longleftrightarrow> \<not> is_pure name"

section \<open>Counting uses\<close>

definition count_use :: "VarId \<Rightarrow> (VarId, nat) btree \<Rightarrow> (VarId, nat) btree" where
  "count_use v uses = bt_insert v (sat_add64 (case bt_get uses v of None \<Rightarrow> 0 | Some n \<Rightarrow> n) 1) uses"

definition count_operand :: "SsaOperand \<Rightarrow> (VarId, nat) btree \<Rightarrow> (VarId, nat) btree" where
  "count_operand operand uses = (case operand of So_Var v \<Rightarrow> count_use v uses | _ \<Rightarrow> uses)"

definition count_block :: "SsaBlock \<Rightarrow> (VarId, nat) btree \<Rightarrow> (VarId, nat) btree" where
  "count_block blk uses =
     fold (\<lambda>op. fold count_operand (so_operands op)) (sb_ops blk)
       (fold (\<lambda>phi. fold (\<lambda>(_, v). count_use v) (phi_args phi)) (sb_phis blk) uses)"

definition count_uses :: "SsaFunction \<Rightarrow> (VarId, nat) btree" where
  "count_uses f = fold count_block (sf_blocks f) []"

section \<open>Copy propagation\<close>

text \<open>The destination and the source of a move between variables.\<close>

definition copy_of :: "SsaOp \<Rightarrow> (VarId \<times> VarId) option" where
  "copy_of op =
     (if so_name op = ''Mov'' \<or> so_name op = ''MovLong'' then
        (case (so_dst op, get_at (so_operands op) 1) of
           (Some dst, Some (So_Var src)) \<Rightarrow> Some (dst, src)
         | _ \<Rightarrow> None)
      else None)"

definition note_copy :: "SsaOp \<Rightarrow> (VarId, VarId) btree \<Rightarrow> (VarId, VarId) btree" where
  "note_copy op copies = (case copy_of op of None \<Rightarrow> copies | Some (dst, src) \<Rightarrow> bt_insert dst src copies)"

definition copy_map :: "SsaFunction \<Rightarrow> (VarId, VarId) btree" where
  "copy_map f = fold (\<lambda>blk. fold note_copy (sb_ops blk)) (sf_blocks f) []"

text \<open>
  \<open>while let Some(&next) = copies.get(&current)\<close> with the set of the variables visited: every turn
  adds a key of the map to the set.
\<close>

function resolve_copy :: "(VarId, VarId) btree \<Rightarrow> VarId btree_set \<Rightarrow> VarId \<Rightarrow> VarId" where
  "resolve_copy copies visited current =
     (case bt_get copies current of
        None \<Rightarrow> current
      | Some nxt \<Rightarrow>
          if current \<in> set visited then current
          else resolve_copy copies (bs_insert current visited) nxt)"
  by pat_completeness auto

termination
proof (relation "measure (\<lambda>(copies, visited, current). card (set (bt_keys copies) - set visited))")
  fix copies :: "(VarId, VarId) btree" and visited and current nxt :: VarId
  assume "bt_get copies current = Some nxt" "current \<notin> set visited"
  then have "current \<in> set (bt_keys copies) - set visited" by (simp add: bt_get_keys)
  then have "set (bt_keys copies) - insert current (set visited) \<subset> set (bt_keys copies) - set visited" by auto
  then have "card (set (bt_keys copies) - insert current (set visited)) < card (set (bt_keys copies) - set visited)"
    by (intro psubset_card_mono) auto
  then show "((copies, bs_insert current visited, nxt), (copies, visited, current))
      \<in> measure (\<lambda>(copies, visited, current). card (set (bt_keys copies) - set visited))"
    by simp
qed simp

declare resolve_copy.simps [simp del]

definition resolved_copies :: "(VarId, VarId) btree \<Rightarrow> (VarId, VarId) btree" where
  "resolved_copies copies =
     fold (\<lambda>start resolved.
         let current = resolve_copy copies [] start
         in if current \<noteq> start then bt_insert start current resolved else resolved)
       (bt_keys copies) []"

definition replace_var :: "(VarId, VarId) btree \<Rightarrow> VarId \<Rightarrow> VarId" where
  "replace_var resolved v = (case bt_get resolved v of None \<Rightarrow> v | Some replacement \<Rightarrow> replacement)"

definition rename_operand :: "(VarId \<Rightarrow> VarId) \<Rightarrow> SsaOperand \<Rightarrow> SsaOperand" where
  "rename_operand h operand = (case operand of So_Var v \<Rightarrow> So_Var (h v) | _ \<Rightarrow> operand)"

definition rename_reads :: "(VarId \<Rightarrow> VarId) \<Rightarrow> SsaBlock \<Rightarrow> SsaBlock" where
  "rename_reads h blk = blk\<lparr>
     sb_phis := map (\<lambda>phi. phi\<lparr>phi_args := map (\<lambda>(p, v). (p, h v)) (phi_args phi)\<rparr>) (sb_phis blk),
     sb_ops := map (\<lambda>op. op\<lparr>so_operands := map (rename_operand h) (so_operands op)\<rparr>) (sb_ops blk)\<rparr>"

definition copy_propagation :: "SsaFunction \<Rightarrow> SsaFunction" where
  "copy_propagation f =
     (let resolved = resolved_copies (copy_map f)
      in if resolved = [] then f
         else f\<lparr>sf_blocks := map (rename_reads (replace_var resolved)) (sf_blocks f)\<rparr>)"

section \<open>Dead code elimination\<close>

definition use_count :: "(VarId, nat) btree \<Rightarrow> VarId \<Rightarrow> nat" where
  "use_count uses v = (case bt_get uses v of None \<Rightarrow> 0 | Some n \<Rightarrow> n)"

definition keep_op :: "(VarId, nat) btree \<Rightarrow> SsaOp \<Rightarrow> bool" where
  "keep_op uses op =
     (case so_dst op of
        None \<Rightarrow> True
      | Some dst \<Rightarrow> if has_side_effects (so_name op) then True else 0 < use_count uses dst)"

definition dead_code_elimination :: "SsaFunction \<Rightarrow> SsaFunction" where
  "dead_code_elimination f =
     (let uses = count_uses f
      in f\<lparr>sf_blocks := map (\<lambda>blk. blk\<lparr>
            sb_ops := filter (keep_op uses) (sb_ops blk),
            sb_phis := filter (\<lambda>phi. 0 < use_count uses (phi_dst phi)) (sb_phis blk)\<rparr>) (sf_blocks f)\<rparr>)"

definition ssa_size :: "SsaFunction \<Rightarrow> nat" where
  "ssa_size f = sum_list (map (\<lambda>b. sat_add64 (length (sb_ops b)) (length (sb_phis b))) (sf_blocks f))"

text \<open>\<open>for _ in 0..4\<close> in \<open>optimize\<close>, for any number of rounds.\<close>

fun dce_rounds :: "nat \<Rightarrow> SsaFunction \<Rightarrow> SsaFunction" where
  "dce_rounds 0 f = f"
| "dce_rounds (Suc n) f =
     (let f' = dead_code_elimination f
      in if ssa_size f' = ssa_size f then f' else dce_rounds n f')"

section \<open>Literals of big integers\<close>

definition resolve_bigint_op :: "(u32 \<Rightarrow> string option) \<Rightarrow> SsaOp \<Rightarrow> SsaOp" where
  "resolve_bigint_op get_bigint op =
     (if so_name op = ''LoadConstBigInt'' \<or> so_name op = ''LoadConstBigIntLongIndex'' then
        (case get_at (so_operands op) 1 of
           Some (So_Const idx) \<Rightarrow>
             (if 0 \<le> idx then
                (case get_bigint (word_of_int idx) of
                   Some val \<Rightarrow> op\<lparr>so_operands := (so_operands op)[1 := So_ResolvedBigInt val]\<rparr>
                 | None \<Rightarrow> op)
              else op)
         | _ \<Rightarrow> op)
      else op)"

definition resolve_bigints :: "(u32 \<Rightarrow> string option) \<Rightarrow> SsaFunction \<Rightarrow> SsaFunction" where
  "resolve_bigints get_bigint f =
     f\<lparr>sf_blocks := map (\<lambda>blk. blk\<lparr>sb_ops := map (resolve_bigint_op get_bigint) (sb_ops blk)\<rparr>) (sf_blocks f)\<rparr>"

section \<open>Names of the versions of a register\<close>

type_synonym groups = "(u32, VarId btree_set) btree"

definition group_add :: "u32 \<Rightarrow> VarId list \<Rightarrow> groups \<Rightarrow> groups" where
  "group_add reg vs groups =
     bt_insert reg (fold bs_insert vs (case bt_get groups reg of None \<Rightarrow> [] | Some s \<Rightarrow> s)) groups"

definition group_phi :: "Phi \<Rightarrow> groups \<Rightarrow> groups" where
  "group_phi phi groups =
     (let dst_reg = var_reg (phi_dst phi)
      in if list_all (\<lambda>(_, v). var_reg v = dst_reg) (phi_args phi)
         then group_add dst_reg (phi_dst phi # map snd (phi_args phi)) groups
         else groups)"

definition group_copy :: "SsaOp \<Rightarrow> groups \<Rightarrow> groups" where
  "group_copy op groups =
     (case copy_of op of
        Some (dst, src) \<Rightarrow> if var_reg dst = var_reg src then group_add (var_reg dst) [dst, src] groups else groups
      | None \<Rightarrow> groups)"

definition coalesce_groups :: "SsaFunction \<Rightarrow> groups" where
  "coalesce_groups f =
     fold (\<lambda>blk. fold group_copy (sb_ops blk)) (sf_blocks f)
       (fold (\<lambda>blk. fold group_phi (sb_phis blk)) (sf_blocks f) [])"

fun first_name :: "(VarId, string) btree \<Rightarrow> VarId list \<Rightarrow> string option" where
  "first_name names [] = None"
| "first_name names (v # vs) = (case bt_get names v of Some name \<Rightarrow> Some name | None \<Rightarrow> first_name names vs)"

definition name_group :: "u32 \<times> VarId btree_set \<Rightarrow> (VarId, string) btree \<Rightarrow> (VarId, string) btree" where
  "name_group grp names =
     (case grp of (reg, vars) \<Rightarrow>
      let name = (case first_name names vars of Some existing \<Rightarrow> existing | None \<Rightarrow> CHR ''r'' # decimal_nat (unat reg))
      in fold (\<lambda>v. bt_insert v name) vars names)"

definition coalesce_phi_names :: "SsaFunction \<Rightarrow> SsaFunction" where
  "coalesce_phi_names f = f\<lparr>sf_var_names := fold name_group (coalesce_groups f) (sf_var_names f)\<rparr>"

end
