(* ===== verification/Hermes_Optimize_Facts.thy ===== *)
theory Hermes_Optimize_Facts
  imports Hermes_Optimize
begin

text \<open>
  What the passes of \<open>Hermes_Optimize\<close> preserve: copy propagation renames reads along the moves, so
  that every read keeps its value wherever the moves hold; the rounds of dead code elimination drop
  only definitions no effect depends on; and the two purity tables agree.
\<close>

section \<open>Purity\<close>

text \<open>
  The table of names is the table of opcodes by name, in the same order, but for twelve names no
  opcode has; among them \<open>LessEqual\<close> and \<open>GreaterEqual\<close>, which the opcodes \<open>LessEq\<close> and \<open>GreaterEq\<close>
  would need to be counted as pure like the other comparisons.
\<close>

definition names_of_no_opcode :: "string list" where
  "names_of_no_opcode = [''LoadFromEnvironmentLong'', ''ModN'', ''Exp'', ''LessN'', ''LessEqual'', ''LessEqualN'',
     ''GreaterN'', ''GreaterEqual'', ''GreaterEqualN'', ''ToString'', ''HermesObjectLit'', ''HermesObjectSpreadLit'']"

theorem purity_tables:
  "filter (\<lambda>name. name \<notin> set names_of_no_opcode) pure_names = map OpCode_name pure_ops"
  by (simp add: pure_ops_def opcode_name pure_names_def names_of_no_opcode_def del: One_nat_def)

theorem names_of_no_opcode: "list_all (\<lambda>name. name \<notin> set names_of_no_opcode) OPCODE_NAMES"
  by (simp add: names_of_no_opcode_def OPCODE_NAMES_def)

theorem comparisons_not_pure:
  "has_side_effects (OpCode_name OP_LessEq)" "has_side_effects (OpCode_name OP_GreaterEq)"
  "is_pure (OpCode_name OP_Less)" "is_pure (OpCode_name OP_Greater)"
  by (simp_all add: opcode_name has_side_effects_def is_pure_def pure_names_def)

section \<open>Reads\<close>

definition phi_uses :: "Phi \<Rightarrow> VarId set" where
  "phi_uses phi = snd ` set (phi_args phi)"

definition phi_reads :: "SsaBlock list \<Rightarrow> VarId set" where
  "phi_reads blks = (\<Union>blk \<in> set blks. \<Union>phi \<in> set (sb_phis blk). phi_uses phi)"

definition reads_in :: "SsaBlock list \<Rightarrow> VarId set" where
  "reads_in blks = uses_in blks \<union> phi_reads blks"

text \<open>A variable has a count exactly when the map came with one or it is read.\<close>

definition counted :: "(VarId, nat) btree \<Rightarrow> VarId set" where
  "counted uses = {v. 0 < use_count uses v}"

lemma counted_use: "counted (count_use v uses) = insert v (counted uses)"
  by (auto simp: counted_def count_use_def use_count_def bt_get_insert sat_add64_def u64_max_def)

lemma counted_operands:
  "counted (fold count_operand operands uses) = counted uses \<union> {v. So_Var v \<in> set operands}"
  by (induction operands arbitrary: uses)
    (auto simp: count_operand_def counted_use split: SsaOperand.splits)

lemma counted_args: "counted (fold (\<lambda>(_, v). count_use v) args uses) = counted uses \<union> snd ` set args"
  by (induction args arbitrary: uses) (auto simp: counted_use)

lemma counted_phis:
  "counted (fold (\<lambda>phi. fold (\<lambda>(_, v). count_use v) (phi_args phi)) phis uses)
    = counted uses \<union> (\<Union>phi \<in> set phis. phi_uses phi)"
  by (induction phis arbitrary: uses) (auto simp: counted_args phi_uses_def)

lemma counted_ops:
  "counted (fold (\<lambda>op. fold count_operand (so_operands op)) ops uses) = counted uses \<union> (\<Union>op \<in> set ops. op_uses op)"
  by (induction ops arbitrary: uses) (auto simp: counted_operands op_uses_def)

lemma counted_blocks: "counted (fold count_block blks uses) = counted uses \<union> reads_in blks"
  by (induction blks arbitrary: uses)
    (auto simp: count_block_def counted_ops counted_phis reads_in_def uses_in_def phi_reads_def)

lemma counted_uses: "counted (count_uses f) = reads_in (sf_blocks f)"
  by (simp add: count_uses_def counted_blocks) (simp add: counted_def use_count_def bt_get_def)

lemma use_count_pos: "0 < use_count (count_uses f) v \<longleftrightarrow> v \<in> reads_in (sf_blocks f)"
  using counted_uses [of f] by (auto simp: counted_def)

section \<open>Dead code\<close>

text \<open>The block without the definitions of \<open>dead\<close> that may be dropped: phis and pure operations.\<close>

definition defines_in :: "VarId set \<Rightarrow> SsaOp \<Rightarrow> bool" where
  "defines_in dead op \<longleftrightarrow> (\<exists>v \<in> dead. so_dst op = Some v) \<and> is_pure (so_name op)"

definition without :: "VarId set \<Rightarrow> SsaBlock \<Rightarrow> SsaBlock" where
  "without dead blk = blk\<lparr>sb_ops := filter (\<lambda>op. \<not> defines_in dead op) (sb_ops blk),
     sb_phis := filter (\<lambda>phi. phi_dst phi \<notin> dead) (sb_phis blk)\<rparr>"

text \<open>A variable an effect depends on: read by an operation that stays whatever its result, or by a
  definition of such a variable.\<close>

inductive live :: "SsaBlock list \<Rightarrow> VarId \<Rightarrow> bool" for blks where
  effect: "blk \<in> set blks \<Longrightarrow> op \<in> set (sb_ops blk) \<Longrightarrow> so_dst op = None \<or> has_side_effects (so_name op) \<Longrightarrow>
    v \<in> op_uses op \<Longrightarrow> live blks v"
| through_op: "blk \<in> set blks \<Longrightarrow> op \<in> set (sb_ops blk) \<Longrightarrow> so_dst op = Some w \<Longrightarrow> live blks w \<Longrightarrow>
    v \<in> op_uses op \<Longrightarrow> live blks v"
| through_phi: "blk \<in> set blks \<Longrightarrow> phi \<in> set (sb_phis blk) \<Longrightarrow> live blks (phi_dst phi) \<Longrightarrow>
    v \<in> phi_uses phi \<Longrightarrow> live blks v"

lemma live_read: "live blks v \<Longrightarrow> v \<in> reads_in blks"
  by (cases rule: live.cases) (auto simp: reads_in_def uses_in_def phi_reads_def)

lemma dead_code_elimination_without:
  "dead_code_elimination f = f\<lparr>sf_blocks := map (without (- reads_in (sf_blocks f))) (sf_blocks f)\<rparr>"
proof -
  have "keep_op (count_uses f) = (\<lambda>op. \<not> defines_in (- reads_in (sf_blocks f)) op)"
    by (auto simp: fun_eq_iff keep_op_def defines_in_def has_side_effects_def use_count_pos split: option.splits)
  then show ?thesis by (simp add: dead_code_elimination_def without_def use_count_pos)
qed

lemma without_without: "without E (without D blk) = without (D \<union> E) blk"
proof -
  have "(\<lambda>op. \<not> defines_in D op \<and> \<not> defines_in E op) = (\<lambda>op. \<not> defines_in (D \<union> E) op)"
    by (auto simp: defines_in_def)
  then show ?thesis by (simp add: without_def)
qed

lemma in_without:
  "blk \<in> set blks \<Longrightarrow> without dead blk \<in> set (map (without dead) blks)"
  "op \<in> set (sb_ops (without dead blk)) \<longleftrightarrow> op \<in> set (sb_ops blk) \<and> \<not> defines_in dead op"
  "phi \<in> set (sb_phis (without dead blk)) \<longleftrightarrow> phi \<in> set (sb_phis blk) \<and> phi_dst phi \<notin> dead"
  by (auto simp: without_def)

lemma live_without:
  assumes "live blks v" "\<forall>w \<in> dead. \<not> live blks w"
  shows "live (map (without dead) blks) v"
  using assms(1)
proof induction
  case (effect blk op v)
  then have "op \<in> set (sb_ops (without dead blk))" by (auto simp: in_without defines_in_def has_side_effects_def)
  with in_without(1) effect(1,3,4) show ?case by (blast intro: live.effect)
next
  case (through_op blk op w v)
  then have "op \<in> set (sb_ops (without dead blk))" using assms(2) by (auto simp: in_without defines_in_def)
  with in_without(1) through_op(1,3,5,6) show ?case by (blast intro: live.through_op)
next
  case (through_phi blk phi v)
  then have "phi \<in> set (sb_phis (without dead blk))" using assms(2) by (auto simp: in_without)
  with in_without(1) through_phi(1,4,5) show ?case by (blast intro: live.through_phi)
qed

lemma reads_without: "reads_in (map (without dead) blks) \<subseteq> reads_in blks"
  by (auto simp: reads_in_def uses_in_def phi_reads_def without_def)

lemma without_length:
  "length (sb_ops (without D b)) \<le> length (sb_ops b)" "length (sb_phis (without D b)) \<le> length (sb_phis b)"
  by (simp_all add: without_def)

text \<open>No block is so long that the sum of its lengths saturates, as no vector can be.\<close>

definition vec_sized :: "SsaFunction \<Rightarrow> bool" where
  "vec_sized f \<longleftrightarrow> list_all (\<lambda>b. length (sb_ops b) + length (sb_phis b) \<le> u64_max) (sf_blocks f)"

lemma sat_sum: "m + n \<le> u64_max \<Longrightarrow> sat_add64 m n = m + n"
  by (simp add: sat_add64_def)

lemma ssa_size_sum:
  "vec_sized f \<Longrightarrow> ssa_size f = sum_list (map (\<lambda>b. length (sb_ops b) + length (sb_phis b)) (sf_blocks f))"
  by (auto simp: ssa_size_def vec_sized_def list_all_iff sat_sum intro!: arg_cong [of _ _ sum_list])

lemma vec_sized_dce:
  assumes "vec_sized f"
  shows "vec_sized (dead_code_elimination f)"
proof -
  have "length (sb_ops (without D b)) + length (sb_phis (without D b)) \<le> u64_max" if "b \<in> set (sf_blocks f)" for D b
    using assms that without_length [of D b] by (force simp: vec_sized_def list_all_iff)
  then show ?thesis by (simp add: vec_sized_def dead_code_elimination_without list_all_iff)
qed

lemma filter_same_length: "length (filter P xs) = length xs \<Longrightarrow> filter P xs = xs"
  by (metis filter_True length_filter_less less_irrefl)

lemma without_same_length:
  assumes "length (sb_ops (without D b)) + length (sb_phis (without D b)) = length (sb_ops b) + length (sb_phis b)"
  shows "without D b = b"
proof -
  have "length (sb_ops (without D b)) = length (sb_ops b)" "length (sb_phis (without D b)) = length (sb_phis b)"
    using assms without_length [of D b] by linarith+
  then show ?thesis by (simp add: without_def filter_same_length)
qed

lemma sum_list_same:
  fixes g h :: "'a \<Rightarrow> nat"
  shows "(\<And>x. g x \<le> h x) \<Longrightarrow> sum_list (map g xs) = sum_list (map h xs) \<Longrightarrow> x \<in> set xs \<Longrightarrow> g x = h x"
proof (induction xs)
  case (Cons y ys)
  have "sum_list (map g ys) \<le> sum_list (map h ys)" using Cons.prems(1) by (simp add: sum_list_mono)
  with Cons.prems(1) [of y] Cons.prems(2) have "g y = h y" "sum_list (map g ys) = sum_list (map h ys)" by simp_all
  with Cons show ?case by auto
qed simp

lemma dce_size:
  assumes "vec_sized f"
  shows "ssa_size (dead_code_elimination f) \<le> ssa_size f"
    and "ssa_size (dead_code_elimination f) = ssa_size f \<Longrightarrow> dead_code_elimination f = f"
proof -
  let ?D = "- reads_in (sf_blocks f)" and ?len = "\<lambda>b. length (sb_ops b) + length (sb_phis b)"
  have sums: "ssa_size f = sum_list (map ?len (sf_blocks f))"
    "ssa_size (dead_code_elimination f) = sum_list (map (\<lambda>b. ?len (without ?D b)) (sf_blocks f))"
    using ssa_size_sum [OF assms] ssa_size_sum [OF vec_sized_dce [OF assms]]
    by (simp_all add: dead_code_elimination_without comp_def)
  have le: "?len (without ?D b) \<le> ?len b" for b using without_length [of ?D b] by simp
  show "ssa_size (dead_code_elimination f) \<le> ssa_size f" unfolding sums by (rule sum_list_mono) (rule le)
  assume "ssa_size (dead_code_elimination f) = ssa_size f"
  then have "map (without ?D) (sf_blocks f) = sf_blocks f"
    unfolding sums using sum_list_same [of "\<lambda>b. ?len (without ?D b)" ?len "sf_blocks f"] le without_same_length
    by (metis (no_types, lifting) map_idI)
  then show "dead_code_elimination f = f" by (simp add: dead_code_elimination_without)
qed

text \<open>Elimination drops the definitions of variables that are not live and no longer read.\<close>

definition drops :: "VarId set \<Rightarrow> SsaFunction \<Rightarrow> SsaFunction \<Rightarrow> bool" where
  "drops dead f f' \<longleftrightarrow> f' = f\<lparr>sf_blocks := map (without dead) (sf_blocks f)\<rparr>
     \<and> (\<forall>v \<in> dead. \<not> live (sf_blocks f) v \<and> v \<notin> reads_in (sf_blocks f'))"

lemma drops_none: "drops {} f f"
proof -
  have "without {} = id" by (simp add: fun_eq_iff without_def defines_in_def)
  then show ?thesis by (simp add: drops_def)
qed

lemma drops_dce: "\<exists>dead. drops dead f (dead_code_elimination f)"
proof (intro exI [of _ "- reads_in (sf_blocks f)"])
  show "drops (- reads_in (sf_blocks f)) f (dead_code_elimination f)"
    using live_read reads_without
    by (fastforce simp: drops_def dead_code_elimination_without)
qed

lemma drops_trans:
  assumes "drops D f g" "drops E g h"
  shows "drops (D \<union> E) f h"
proof -
  have blocks: "sf_blocks g = map (without D) (sf_blocks f)" "sf_blocks h = map (without E) (sf_blocks g)"
    using assms by (simp_all add: drops_def)
  have "\<not> live (sf_blocks f) v \<and> v \<notin> reads_in (sf_blocks h)" if "v \<in> D \<union> E" for v
    using that assms live_without [of "sf_blocks f" v D] reads_without [of E "sf_blocks g"]
    by (auto simp: drops_def blocks)
  moreover have "h = f\<lparr>sf_blocks := map (without (D \<union> E)) (sf_blocks f)\<rparr>"
    using assms by (simp add: drops_def comp_def without_without)
  ultimately show ?thesis by (simp add: drops_def)
qed

lemma drops_rounds: "\<exists>dead. drops dead f (dce_rounds n f)"
proof (induction n arbitrary: f)
  case 0
  then show ?case using drops_none by auto
next
  case (Suc n)
  then show ?case using drops_dce [of f] drops_trans by (simp add: Let_def) blast
qed

lemma rounds_end:
  "vec_sized f \<Longrightarrow> dead_code_elimination (dce_rounds n f) = dce_rounds n f \<or> ssa_size (dce_rounds n f) + n \<le> ssa_size f"
proof (induction n arbitrary: f)
  case (Suc n)
  show ?case
  proof (cases "ssa_size (dead_code_elimination f) = ssa_size f")
    case True
    then show ?thesis using dce_size(2) [OF Suc.prems] by (simp add: Let_def)
  next
    case False
    then have "ssa_size (dead_code_elimination f) < ssa_size f" using dce_size(1) [OF Suc.prems] by simp
    then show ?thesis using Suc.IH [OF vec_sized_dce [OF Suc.prems]] False by (auto simp: Let_def)
  qed
qed simp

lemma drops_defined:
  assumes "drops dead f f'" "reads_in (sf_blocks f) \<subseteq> defs_in (sf_blocks f)"
  shows "reads_in (sf_blocks f') \<subseteq> defs_in (sf_blocks f')"
proof
  fix v assume v: "v \<in> reads_in (sf_blocks f')"
  have blocks: "sf_blocks f' = map (without dead) (sf_blocks f)" using assms(1) by (simp add: drops_def)
  have "v \<notin> dead" using v assms(1) by (auto simp: drops_def)
  moreover have "v \<in> defs_in (sf_blocks f)" using v reads_without assms(2) by (auto simp: blocks)
  ultimately show "v \<in> defs_in (sf_blocks f')"
    by (fastforce simp: blocks defs_in_def op_defs_def without_def defines_in_def)
qed

text \<open>
  C22. The rounds of dead code elimination, however many, drop only phis and pure operations that
  define a variable no effect depends on and that nothing left reads, so that every read keeps a
  definition; and after \<open>n\<close> rounds nothing more can be dropped, or at least \<open>n\<close> definitions went.
\<close>

theorem dce_drops_dead:
  assumes "vec_sized f"
  shows "(\<exists>dead. drops dead f (dce_rounds n f))
    \<and> (reads_in (sf_blocks f) \<subseteq> defs_in (sf_blocks f) \<longrightarrow>
         reads_in (sf_blocks (dce_rounds n f)) \<subseteq> defs_in (sf_blocks (dce_rounds n f)))
    \<and> (dead_code_elimination (dce_rounds n f) = dce_rounds n f \<or> ssa_size (dce_rounds n f) + n \<le> ssa_size f)"
  using drops_rounds drops_defined rounds_end [OF assms] by blast

section \<open>Copies\<close>

definition moves :: "SsaFunction \<Rightarrow> (VarId \<times> VarId) set" where
  "moves f = {c. \<exists>blk \<in> set (sf_blocks f). \<exists>op \<in> set (sb_ops blk). copy_of op = Some c}"

lemma get_note_copies:
  "bt_get (fold note_copy ops m) d = Some s \<Longrightarrow> bt_get m d = Some s \<or> (\<exists>op \<in> set ops. copy_of op = Some (d, s))"
  "d \<in> set (bt_keys (fold note_copy ops m)) \<longleftrightarrow> d \<in> set (bt_keys m) \<or> (\<exists>op \<in> set ops. \<exists>s. copy_of op = Some (d, s))"
proof (induction ops arbitrary: m)
  case (Cons op ops)
  { case 1
    with Cons(1) [of "note_copy op m"] show ?case
      by (auto simp: note_copy_def bt_get_insert split: option.splits if_splits) }
  { case 2
    with Cons(2) [of "note_copy op m"] show ?case
      by (auto simp: note_copy_def set_keys_insert split: option.splits) }
qed simp_all

lemma get_copy_blocks:
  "bt_get (fold (\<lambda>blk. fold note_copy (sb_ops blk)) blks m) d = Some s \<Longrightarrow>
     bt_get m d = Some s \<or> (\<exists>blk \<in> set blks. \<exists>op \<in> set (sb_ops blk). copy_of op = Some (d, s))"
  "d \<in> set (bt_keys (fold (\<lambda>blk. fold note_copy (sb_ops blk)) blks m)) \<longleftrightarrow>
     d \<in> set (bt_keys m) \<or> (\<exists>blk \<in> set blks. \<exists>op \<in> set (sb_ops blk). \<exists>s. copy_of op = Some (d, s))"
  by (induction blks arbitrary: m) (auto simp: get_note_copies(2) dest: get_note_copies(1))

lemma copy_map_moves: "bt_get (copy_map f) d = Some s \<Longrightarrow> (d, s) \<in> moves f"
  using get_copy_blocks(1) [of "sf_blocks f" "[]" d s] by (auto simp: copy_map_def moves_def bt_get_def)

lemma copy_map_keys: "set (bt_keys (copy_map f)) = fst ` moves f"
  using get_copy_blocks(2) [of _ "sf_blocks f" "[]"]
  by (simp add: set_eq_iff copy_map_def moves_def image_iff) (auto simp: bt_keys_def)

lemma resolve_copy_moves: "(v, resolve_copy (copy_map f) visited v) \<in> (moves f)\<^sup>*"
proof (induction "copy_map f" visited v rule: resolve_copy.induct)
  case (1 visited v)
  show ?case
  proof (cases "bt_get (copy_map f) v = None \<or> v \<in> set visited")
    case True
    then show ?thesis by (subst resolve_copy.simps) (auto split: option.split)
  next
    case False
    then obtain s where s: "bt_get (copy_map f) v = Some s" by auto
    then have "(s, resolve_copy (copy_map f) (bs_insert v visited) s) \<in> (moves f)\<^sup>*"
      using "1.hyps" False by blast
    then have "(v, resolve_copy (copy_map f) (bs_insert v visited) s) \<in> (moves f)\<^sup>*"
      by (rule converse_rtrancl_into_rtrancl [OF copy_map_moves [OF s]])
    then show ?thesis using s False by (subst resolve_copy.simps) simp
  qed
qed

lemma resolve_copy_end:
  fixes rank :: "VarId \<Rightarrow> nat"
  assumes "\<forall>(d, s) \<in> moves f. rank s < rank d" "\<forall>w \<in> set visited. rank v < rank w"
  shows "resolve_copy (copy_map f) visited v \<notin> fst ` moves f"
  using assms(2)
proof (induction "copy_map f" visited v rule: resolve_copy.induct)
  case (1 visited v)
  show ?case
  proof (cases "bt_get (copy_map f) v")
    case None
    then show ?thesis using bt_get_keys [of v "copy_map f"] by (subst resolve_copy.simps) (simp add: copy_map_keys)
  next
    case (Some s)
    then have "rank s < rank v" using assms(1) copy_map_moves by blast
    moreover have "v \<notin> set visited" using "1.prems" by blast
    ultimately show ?thesis
      using "1.hyps" [OF Some] "1.prems" Some by (subst resolve_copy.simps) (simp, metis less_trans)
  qed
qed

lemma get_resolved:
  "bt_get (fold (\<lambda>start resolved. let current = resolve_copy copies [] start
        in if current \<noteq> start then bt_insert start current resolved else resolved) starts m) v
    = (if v \<in> set starts \<and> resolve_copy copies [] v \<noteq> v then Some (resolve_copy copies [] v) else bt_get m v)"
  by (induction starts arbitrary: m) (auto simp: bt_get_insert Let_def)

lemma replace_var_resolved: "replace_var (resolved_copies (copy_map f)) v = resolve_copy (copy_map f) [] v"
proof (cases "v \<in> set (bt_keys (copy_map f))")
  case True
  then show ?thesis
    by (cases "resolve_copy (copy_map f) [] v = v")
      (simp_all add: replace_var_def resolved_copies_def get_resolved, simp add: bt_get_def)
next
  case False
  then have "bt_get (copy_map f) v = None" using bt_get_keys [of v "copy_map f"] by simp
  then have "resolve_copy (copy_map f) [] v = v" by (subst resolve_copy.simps) simp
  then show ?thesis by (simp add: replace_var_def resolved_copies_def get_resolved) (simp add: bt_get_def)
qed

lemma rename_id: "rename_reads id = id"
proof -
  have operands: "rename_operand id = id" by (simp add: fun_eq_iff rename_operand_def split: SsaOperand.split)
  show ?thesis by (rule ext) (simp add: rename_reads_def operands)
qed

lemma copy_propagation_renames:
  "copy_propagation f = f\<lparr>sf_blocks := map (rename_reads (resolve_copy (copy_map f) [])) (sf_blocks f)\<rparr>"
proof -
  have h: "resolve_copy (copy_map f) [] = replace_var (resolved_copies (copy_map f))"
    by (simp add: fun_eq_iff replace_var_resolved)
  have "replace_var [] = id" by (simp add: fun_eq_iff replace_var_def bt_get_def)
  then show ?thesis unfolding h copy_propagation_def by (simp add: Let_def rename_id)
qed

lemma reads_renamed: "reads_in (map (rename_reads h) blks) = h ` reads_in blks"
proof -
  have var: "rename_operand h x = So_Var v \<longleftrightarrow> (\<exists>w. x = So_Var w \<and> v = h w)" for x v
    by (auto simp: rename_operand_def split: SsaOperand.splits)
  have "So_Var v \<in> rename_operand h ` X \<longleftrightarrow> (\<exists>w. So_Var w \<in> X \<and> v = h w)" for v and X
    unfolding image_iff eq_commute [of "So_Var v"] var by blast
  then have "op_uses (op\<lparr>so_operands := map (rename_operand h) (so_operands op)\<rparr>) = h ` op_uses op" for op
    by (auto simp: op_uses_def)
  moreover have "phi_uses (phi\<lparr>phi_args := map (\<lambda>(p, v). (p, h v)) (phi_args phi)\<rparr>) = h ` phi_uses phi" for phi
    by (force simp: phi_uses_def)
  ultimately show ?thesis
    by (simp add: reads_in_def uses_in_def phi_reads_def rename_reads_def image_Un image_UN)
qed

lemma moves_value: "(d, s) \<in> (moves f)\<^sup>* \<Longrightarrow> \<forall>(d, s) \<in> moves f. val d = val s \<Longrightarrow> val s = val d"
  by (induction rule: rtrancl_induct) auto

text \<open>
  C21. Copy propagation renames reads and nothing else, each along a chain of moves: under every
  valuation of the variables for which the moves hold, each read has the value it had; and when the
  moves form no cycle, as in SSA form, no read of a moved variable remains.
\<close>

theorem copy_propagation_keeps_values:
  "\<exists>h. copy_propagation f = f\<lparr>sf_blocks := map (rename_reads h) (sf_blocks f)\<rparr>
    \<and> (\<forall>val :: VarId \<Rightarrow> 'v. (\<forall>(d, s) \<in> moves f. val d = val s) \<longrightarrow> (\<forall>v. val (h v) = val v))
    \<and> (\<forall>rank :: VarId \<Rightarrow> nat. (\<forall>(d, s) \<in> moves f. rank s < rank d) \<longrightarrow>
         reads_in (sf_blocks (copy_propagation f)) \<inter> fst ` moves f = {})"
proof (intro exI [of _ "resolve_copy (copy_map f) []"] conjI allI impI)
  fix val :: "VarId \<Rightarrow> 'v" and v
  assume "\<forall>(d, s) \<in> moves f. val d = val s"
  then show "val (resolve_copy (copy_map f) [] v) = val v" by (rule moves_value [OF resolve_copy_moves])
next
  fix rank :: "VarId \<Rightarrow> nat"
  assume "\<forall>(d, s) \<in> moves f. rank s < rank d"
  then have "resolve_copy (copy_map f) [] v \<notin> fst ` moves f" for v by (rule resolve_copy_end) simp
  then show "reads_in (sf_blocks (copy_propagation f)) \<inter> fst ` moves f = {}"
    by (auto simp: copy_propagation_renames reads_renamed)
qed (rule copy_propagation_renames)

section \<open>Coalesced names\<close>

text \<open>
  The versions that share a name: those a phi over one register joins, and the two sides of a move
  between versions of one register. Their name is that of the first of the register's joined
  versions that has one, or else the register's.
\<close>

definition joined :: "SsaFunction \<Rightarrow> VarId set" where
  "joined f = {v. \<exists>blk \<in> set (sf_blocks f). \<exists>phi \<in> set (sb_phis blk).
       (\<forall>w \<in> phi_uses phi. var_reg w = var_reg (phi_dst phi)) \<and> v \<in> insert (phi_dst phi) (phi_uses phi)}
     \<union> {v. \<exists>(dst, src) \<in> moves f. var_reg dst = var_reg src \<and> v \<in> {dst, src}}"

definition shared_name :: "(VarId, string) btree \<Rightarrow> u32 \<Rightarrow> VarId set \<Rightarrow> string" where
  "shared_name names reg vars =
     (let named = {v \<in> vars. bt_get names v \<noteq> None}
      in if named = {} then CHR ''r'' # decimal_nat (unat reg) else the (bt_get names (Min named)))"

definition grouped :: "groups \<Rightarrow> bool" where
  "grouped groups \<longleftrightarrow> bt_ok groups
     \<and> (\<forall>reg vars. bt_get groups reg = Some vars \<longrightarrow> bs_ok vars \<and> (\<forall>v \<in> set vars. var_reg v = reg))"

definition in_group :: "groups \<Rightarrow> VarId \<Rightarrow> bool" where
  "in_group groups v \<longleftrightarrow> (\<exists>vars. bt_get groups (var_reg v) = Some vars \<and> v \<in> set vars)"

lemma inserts_ok: "bs_ok s \<Longrightarrow> bs_ok (fold bs_insert vs s)"
  by (induction vs arbitrary: s) (auto intro: bs_insert_ok)

lemma group_add:
  assumes "grouped groups" "\<forall>v \<in> set vs. var_reg v = reg"
  shows "grouped (group_add reg vs groups)" "in_group (group_add reg vs groups) v \<longleftrightarrow> v \<in> set vs \<or> in_group groups v"
proof -
  let ?old = "case bt_get groups reg of None \<Rightarrow> [] | Some s \<Rightarrow> s"
  have get: "bt_get (group_add reg vs groups) k
      = (if k = reg then Some (fold bs_insert vs ?old) else bt_get groups k)" for k
    by (simp add: group_add_def bt_get_insert)
  have old: "bs_ok ?old" "v \<in> set ?old \<Longrightarrow> var_reg v = reg" for v
    using assms(1) by (cases "bt_get groups reg"; simp add: grouped_def bs_ok_def)+
  have members: "set (fold bs_insert vs ?old) = set vs \<union> set ?old" by (rule set_inserts)
  have ok: "bt_ok (group_add reg vs groups)" using assms(1) by (simp add: grouped_def group_add_def bt_insert_ok)
  have "bs_ok vars \<and> (\<forall>v \<in> set vars. var_reg v = k)" if vars: "bt_get (group_add reg vs groups) k = Some vars" for k vars
  proof (cases "k = reg")
    case True
    then have "vars = fold bs_insert vs ?old" using vars by (simp only: get refl if_True option.inject)
    moreover have "var_reg v = k" if "v \<in> set vs \<union> set ?old" for v using that assms(2) old True by blast
    ultimately show ?thesis using inserts_ok [OF old(1), of vs] members by simp
  next
    case False
    then have "bt_get groups k = Some vars" using vars by (simp only: get if_False)
    then show ?thesis using assms(1) unfolding grouped_def by blast
  qed
  with ok show "grouped (group_add reg vs groups)" unfolding grouped_def by blast
  show "in_group (group_add reg vs groups) v \<longleftrightarrow> v \<in> set vs \<or> in_group groups v"
  proof (cases "var_reg v = reg")
    case True
    have "v \<in> set ?old \<longleftrightarrow> in_group groups v"
      unfolding in_group_def True by (cases "bt_get groups reg") simp_all
    then show ?thesis unfolding in_group_def [of "group_add reg vs groups"] True get using members by auto
  next
    case False
    then have "v \<notin> set vs" using assms(2) by blast
    then show ?thesis using False by (simp add: in_group_def get)
  qed
qed

text \<open>What a phi and a move add, and what all of them add.\<close>

definition phi_joins :: "Phi \<Rightarrow> VarId \<Rightarrow> bool" where
  "phi_joins phi v \<longleftrightarrow> (\<forall>w \<in> phi_uses phi. var_reg w = var_reg (phi_dst phi)) \<and> v \<in> insert (phi_dst phi) (phi_uses phi)"

definition op_joins :: "SsaOp \<Rightarrow> VarId \<Rightarrow> bool" where
  "op_joins op v \<longleftrightarrow> (\<exists>dst src. copy_of op = Some (dst, src) \<and> var_reg dst = var_reg src \<and> v \<in> {dst, src})"

lemma group_phi:
  assumes "grouped groups"
  shows "grouped (group_phi phi groups) \<and> (\<forall>v. in_group (group_phi phi groups) v \<longleftrightarrow> phi_joins phi v \<or> in_group groups v)"
proof -
  let ?same = "list_all (\<lambda>(_, w). var_reg w = var_reg (phi_dst phi)) (phi_args phi)"
  let ?vs = "phi_dst phi # map snd (phi_args phi)"
  have step: "group_phi phi groups = (if ?same then group_add (var_reg (phi_dst phi)) ?vs groups else groups)"
    by (simp add: group_phi_def Let_def)
  have same: "(\<forall>w \<in> phi_uses phi. var_reg w = var_reg (phi_dst phi)) \<longleftrightarrow> ?same"
    and vs: "insert (phi_dst phi) (phi_uses phi) = set ?vs"
    by (auto simp: phi_uses_def list_all_iff split_def)
  show ?thesis
  proof (cases ?same)
    case True
    then have "\<forall>v \<in> set ?vs. var_reg v = var_reg (phi_dst phi)" by (auto simp: list_all_iff)
    from group_add [OF assms this] True show ?thesis unfolding step phi_joins_def same vs by simp
  next
    case False
    then show ?thesis unfolding step phi_joins_def same vs using assms by simp
  qed
qed

lemma group_copy:
  assumes "grouped groups"
  shows "grouped (group_copy op groups) \<and> (\<forall>v. in_group (group_copy op groups) v \<longleftrightarrow> op_joins op v \<or> in_group groups v)"
  using group_add [OF assms] assms by (auto simp: group_copy_def op_joins_def split: option.splits)

lemma groups_fold:
  assumes "\<And>x g. grouped g \<Longrightarrow> grouped (step x g) \<and> (\<forall>v. in_group (step x g) v \<longleftrightarrow> P x v \<or> in_group g v)" "grouped groups"
  shows "grouped (fold step xs groups)
    \<and> (\<forall>v. in_group (fold step xs groups) v \<longleftrightarrow> (\<exists>x \<in> set xs. P x v) \<or> in_group groups v)"
  using assms(2) by (induction xs arbitrary: groups) (use assms(1) in auto)

lemma all_phis: "fold (\<lambda>blk. fold group_phi (sb_phis blk)) blks groups = fold group_phi (concat (map sb_phis blks)) groups"
  and all_copies: "fold (\<lambda>blk. fold group_copy (sb_ops blk)) blks groups = fold group_copy (concat (map sb_ops blks)) groups"
  by (induction blks arbitrary: groups) simp_all

lemma coalesce_groups_joined:
  "grouped (coalesce_groups f)" "in_group (coalesce_groups f) v \<longleftrightarrow> v \<in> joined f"
proof -
  let ?phis = "fold group_phi (concat (map sb_phis (sf_blocks f))) []"
  have "grouped []" and none: "\<not> in_group [] v" for v
    by (simp_all add: grouped_def in_group_def bt_ok_def bt_keys_def bt_get_def)
  from groups_fold [of group_phi phi_joins, OF group_phi this(1)]
  have phis: "grouped ?phis" "\<forall>v. in_group ?phis v \<longleftrightarrow> (\<exists>phi \<in> set (concat (map sb_phis (sf_blocks f))). phi_joins phi v)"
    using none by blast+
  from groups_fold [of group_copy op_joins, OF group_copy this(1)]
  have all: "grouped (coalesce_groups f)" "in_group (coalesce_groups f) v \<longleftrightarrow>
      (\<exists>op \<in> set (concat (map sb_ops (sf_blocks f))). op_joins op v)
      \<or> (\<exists>phi \<in> set (concat (map sb_phis (sf_blocks f))). phi_joins phi v)"
    using phis(2) unfolding coalesce_groups_def all_phis all_copies by blast+
  show "grouped (coalesce_groups f)" by (rule all(1))
  show "in_group (coalesce_groups f) v \<longleftrightarrow> v \<in> joined f"
    unfolding all(2) by (auto simp: joined_def phi_joins_def op_joins_def moves_def) blast+
qed

text \<open>The names of the groups.\<close>

lemma get_named: "bt_get (fold (\<lambda>v. bt_insert v name) vs names) v = (if v \<in> set vs then Some name else bt_get names v)"
  by (induction vs arbitrary: names) (auto simp: bt_get_insert)

lemma first_name_sorted:
  "bs_ok vs \<Longrightarrow> first_name names vs = (let named = {v \<in> set vs. bt_get names v \<noteq> None}
     in if named = {} then None else bt_get names (Min named))"
proof (induction vs)
  case (Cons v vs)
  let ?N = "\<lambda>vs. {v \<in> set vs. bt_get names v \<noteq> None}"
  show ?case
  proof (cases "bt_get names v")
    case None
    then have "?N (v # vs) = ?N vs" by auto
    with None Cons show ?thesis by (simp add: bs_ok_def Let_def)
  next
    case (Some name)
    then have "Min (?N (v # vs)) = v" using Cons.prems by (intro Min_eqI) (auto simp: bs_ok_def)
    moreover have "?N (v # vs) \<noteq> {}" using Some by auto
    ultimately show ?thesis using Some by (simp only: first_name.simps Let_def if_False option.case)
  qed
qed simp

lemma name_group_shared:
  assumes "bs_ok vars"
  shows "bt_get (name_group (reg, vars) names) v
     = (if v \<in> set vars then Some (shared_name names reg (set vars)) else bt_get names v)"
proof -
  let ?N = "{v \<in> set vars. bt_get names v \<noteq> None}"
  have "(case first_name names vars of Some existing \<Rightarrow> existing | None \<Rightarrow> CHR ''r'' # decimal_nat (unat reg))
      = shared_name names reg (set vars)"
  proof (cases "?N = {}")
    case True
    then show ?thesis unfolding first_name_sorted [OF assms] shared_name_def Let_def by simp
  next
    case False
    then obtain name where "bt_get names (Min ?N) = Some name" using Min_in [OF _ False] by auto
    then show ?thesis
      unfolding first_name_sorted [OF assms] shared_name_def Let_def if_not_P [OF False] by simp
  qed
  then show ?thesis by (simp add: name_group_def get_named)
qed

lemma shared_name_cong:
  assumes "finite vars" "\<And>v. v \<in> vars \<Longrightarrow> bt_get names v = bt_get names' v"
  shows "shared_name names reg vars = shared_name names' reg vars"
proof -
  let ?N = "{v \<in> vars. bt_get names' v \<noteq> None}"
  have named: "{v \<in> vars. bt_get names v \<noteq> None} = ?N" using assms(2) by auto
  have "bt_get names (Min ?N) = bt_get names' (Min ?N)" if "?N \<noteq> {}"
    using Min_in [OF _ that] assms by simp
  then show ?thesis unfolding shared_name_def Let_def named by (simp del: Collect_empty_eq)
qed

lemma name_groups:
  assumes "distinct (map fst grps)" "\<forall>(reg, vars) \<in> set grps. bs_ok vars \<and> (\<forall>v \<in> set vars. var_reg v = reg)"
  shows "bt_get (fold name_group grps names) v = (case map_of grps (var_reg v) of
      None \<Rightarrow> bt_get names v
    | Some vars \<Rightarrow> if v \<in> set vars then Some (shared_name names (var_reg v) (set vars)) else bt_get names v)"
  using assms
proof (induction grps arbitrary: names)
  case (Cons grp grps)
  obtain reg vars where grp: "grp = (reg, vars)" by (cases grp)
  have head: "bs_ok vars" "\<forall>v \<in> set vars. var_reg v = reg" using Cons.prems(2) grp by auto
  note named = name_group_shared [OF head(1)]
  have IH: "bt_get (fold name_group grps (name_group grp names)) v = (case map_of grps (var_reg v) of
      None \<Rightarrow> bt_get (name_group grp names) v
    | Some vars \<Rightarrow> if v \<in> set vars then Some (shared_name (name_group grp names) (var_reg v) (set vars))
        else bt_get (name_group grp names) v)"
    using Cons.prems by (intro Cons.IH) auto
  show ?case
  proof (cases "var_reg v = reg")
    case True
    then have "map_of grps (var_reg v) = None" using Cons.prems(1) by (simp add: grp map_of_eq_None_iff)
    then show ?thesis using IH True by (simp add: grp named)
  next
    case False
    have other: "shared_name (name_group grp names) (var_reg v) (set vs) = shared_name names (var_reg v) (set vs)"
      if "map_of grps (var_reg v) = Some vs" for vs
    proof (rule shared_name_cong)
      fix w assume "w \<in> set vs"
      then have "var_reg w = var_reg v" using Cons.prems(2) map_of_SomeD [OF that] by auto
      then show "bt_get (name_group grp names) w = bt_get names w" using head(2) False by (auto simp: grp named)
    qed simp
    have "bt_get (name_group grp names) v = bt_get names v" using head(2) False by (auto simp: grp named)
    then show ?thesis using IH False other by (auto simp: grp split: option.split)
  qed
qed simp


end
