(* ===== verification/Hermes_Optimize_Samples.thy ===== *)
theory Hermes_Optimize_Samples
  imports Hermes_Optimize_Facts
begin

text \<open>
  The passes at concrete functions: a loop that reads the value a counter had before its increment,
  at which copy propagation and coalescing of names meet, and a row of unused copies longer than
  the rounds of dead code elimination.
\<close>

definition no_inst :: DecodedInst where
  "no_inst = so_original (undefined_op (VarId 0 0))"

definition an_op :: "string \<Rightarrow> OpCode \<Rightarrow> VarId option \<Rightarrow> SsaOperand list \<Rightarrow> SsaOp" where
  "an_op name op dst operands = \<lparr>so_name = name, so_op = op, so_dst = dst, so_operands = operands, so_original = no_inst\<rparr>"

definition load_zero :: "VarId \<Rightarrow> SsaOp" where
  "load_zero v = an_op ''LoadConstZero'' OP_LoadConstZero (Some v) [So_DstPlaceholder]"

definition move :: "VarId \<Rightarrow> VarId \<Rightarrow> SsaOp" where
  "move d s = an_op ''Mov'' OP_Mov (Some d) [So_DstPlaceholder, So_Var s]"

definition increment :: "VarId \<Rightarrow> VarId \<Rightarrow> SsaOp" where
  "increment d s = an_op ''Inc'' OP_Inc (Some d) [So_DstPlaceholder, So_Var s]"

definition jump_true :: "BlockId \<Rightarrow> VarId \<Rightarrow> SsaOp" where
  "jump_true b v = an_op ''JmpTrue'' OP_JmpTrue None [So_BlockTarget b, So_Var v]"

definition return :: "VarId \<Rightarrow> SsaOp" where
  "return v = an_op ''Ret'' OP_Ret None [So_Var v]"

lemmas op_shapes = an_op_def load_zero_def move_def increment_def jump_true_def return_def

definition a_block :: "BlockId \<Rightarrow> Phi list \<Rightarrow> SsaOp list \<Rightarrow> SsaBlock" where
  "a_block bid phis ops = \<lparr>sb_id = bid, sb_phis = phis, sb_ops = ops, sb_successors = [], sb_predecessors = [],
     sb_switch_string_ids = []\<rparr>"

definition a_function :: "SsaBlock list \<Rightarrow> SsaFunction" where
  "a_function blks = \<lparr>sf_blocks = blks, sf_block_order = map sb_id blks, sf_var_names = [], sf_param_names = [],
     sf_param_vars = []\<rparr>"

definition loop_head :: Phi where
  "loop_head = \<lparr>phi_dst = VarId 1 1, phi_args = [(0, VarId 1 0), (1, VarId 1 2)]\<rparr>"

text \<open>\<open>do { old = i; i++ } while (old); return old\<close>, with \<open>i\<close> in register 1 and \<open>old\<close> in register 2.\<close>

definition loop_ssa :: SsaFunction where
  "loop_ssa = a_function
     [a_block 0 [] [load_zero (VarId 1 0)],
      a_block 1 [loop_head] [move (VarId 2 1) (VarId 1 1), increment (VarId 1 2) (VarId 1 1), jump_true 1 (VarId 2 1)],
      a_block 2 [] [return (VarId 2 1)]]"

definition loop_copied :: SsaFunction where
  "loop_copied = a_function
     [a_block 0 [] [load_zero (VarId 1 0)],
      a_block 1 [loop_head] [move (VarId 2 1) (VarId 1 1), increment (VarId 1 2) (VarId 1 1), jump_true 1 (VarId 1 1)],
      a_block 2 [] [return (VarId 1 1)]]"

lemma loop_moves: "moves loop_ssa = {(VarId 2 1, VarId 1 1)}"
  by (auto simp: moves_def loop_ssa_def a_function_def a_block_def op_shapes copy_of_def get_at_def)

lemma loop_copy_map: "copy_map loop_ssa = [(VarId 2 1, VarId 1 1)]"
  by (simp add: copy_map_def loop_ssa_def a_function_def a_block_def op_shapes copy_of_def get_at_def note_copy_def)

lemma loop_resolve: "resolve_copy (copy_map loop_ssa) [] v = (if v = VarId 2 1 then VarId 1 1 else v)"
  by (simp add: loop_copy_map resolve_copy.simps bt_get_def)

lemma loop_copy_propagation: "copy_propagation loop_ssa = loop_copied"
proof -
  have "resolve_copy (copy_map loop_ssa) [] = (\<lambda>v. if v = VarId 2 1 then VarId 1 1 else v)"
    by (rule ext) (rule loop_resolve)
  then show ?thesis
    by (simp only: copy_propagation_renames) (simp add: loop_ssa_def loop_copied_def a_function_def a_block_def op_shapes rename_reads_def
      rename_operand_def loop_head_def)
qed

lemma copy_propagation_keeps_values_witness: "VarId 2 1 \<notin> reads_in (sf_blocks loop_copied)"
proof -
  obtain h where "\<forall>rank :: VarId \<Rightarrow> nat. (\<forall>(d, s) \<in> moves loop_ssa. rank s < rank d) \<longrightarrow>
      reads_in (sf_blocks (copy_propagation loop_ssa)) \<inter> fst ` moves loop_ssa = {}"
    using copy_propagation_keeps_values [of loop_ssa, where 'v = unit] by blast
  from spec [OF this, of "\<lambda>v. unat (var_reg v)"] show ?thesis
    by (simp add: loop_moves loop_copy_propagation)
qed

lemma loop_vec_sized: "vec_sized loop_copied"
  by (simp add: vec_sized_def loop_copied_def a_function_def a_block_def u64_max_def)

definition loop_clean :: SsaFunction where
  "loop_clean = a_function
     [a_block 0 [] [load_zero (VarId 1 0)],
      a_block 1 [loop_head] [increment (VarId 1 2) (VarId 1 1), jump_true 1 (VarId 1 1)],
      a_block 2 [] [return (VarId 1 1)]]"

lemma loop_reads: "reads_in (sf_blocks loop_copied) = {VarId 1 0, VarId 1 1, VarId 1 2}"
  "reads_in (sf_blocks loop_clean) = {VarId 1 0, VarId 1 1, VarId 1 2}"
  by (auto simp: reads_in_def uses_in_def phi_reads_def phi_uses_def op_uses_def loop_copied_def loop_clean_def
      a_function_def a_block_def op_shapes loop_head_def)

lemma pure_moves: "is_pure ''Mov''" "is_pure ''Inc''" "is_pure ''LoadConstZero''"
  by (simp_all add: is_pure_def pure_names_def)

lemma loop_dce: "dead_code_elimination loop_copied = loop_clean" "dead_code_elimination loop_clean = loop_clean"
  unfolding dead_code_elimination_without loop_reads
  by (simp_all add: loop_copied_def loop_clean_def a_function_def a_block_def op_shapes loop_head_def without_def
      defines_in_def pure_moves)

lemma loop_rounds: "dce_rounds 4 loop_copied = loop_clean"
  by (simp add: eval_nat_numeral loop_dce Let_def)

lemma dce_drops_dead_witness: "reads_in (sf_blocks loop_clean) \<subseteq> defs_in (sf_blocks loop_clean)"
proof -
  have "reads_in (sf_blocks loop_copied) \<subseteq> defs_in (sf_blocks loop_copied)"
    by (simp add: loop_reads)
      (simp add: defs_in_def op_defs_def loop_copied_def a_function_def a_block_def op_shapes loop_head_def)
  then show ?thesis using dce_drops_dead [OF loop_vec_sized, of 4] by (simp add: loop_rounds)
qed

text \<open>
  After the passes the loop reads \<open>VarId 1 1\<close> behind the definition of \<open>VarId 1 2\<close>, and both are
  named \<open>r1\<close>: as text the loop tests the counter after its increment.
\<close>

theorem coalesced_names_clash:
  "\<exists>rest rest'. sf_blocks loop_clean = rest
     @ [a_block 1 [loop_head] [increment (VarId 1 2) (VarId 1 1), jump_true 1 (VarId 1 1)]] @ rest'"
  "dce_rounds 4 (copy_propagation loop_ssa) = loop_clean"
  "bt_get (sf_var_names (coalesce_phi_names loop_clean)) (VarId 1 1) = Some ''r1''"
  "bt_get (sf_var_names (coalesce_phi_names loop_clean)) (VarId 1 2) = Some ''r1''"
proof -
  show "\<exists>rest rest'. sf_blocks loop_clean = rest
     @ [a_block 1 [loop_head] [increment (VarId 1 2) (VarId 1 1), jump_true 1 (VarId 1 1)]] @ rest'"
    by (rule exI [of _ "[a_block 0 [] [load_zero (VarId 1 0)]]"], rule exI [of _ "[a_block 2 [] [return (VarId 1 1)]]"])
      (simp add: loop_clean_def a_function_def)
  show "dce_rounds 4 (copy_propagation loop_ssa) = loop_clean" by (simp add: loop_copy_propagation loop_rounds)
  have groups: "coalesce_groups loop_clean = [(1, [VarId 1 0, VarId 1 1, VarId 1 2])]"
    by (simp add: coalesce_groups_def loop_clean_def a_function_def a_block_def op_shapes loop_head_def group_phi_def
        group_copy_def copy_of_def group_add_def bt_get_def bs_insert_def insort_insert_key_def less_eq_VarId_def)
      (simp add: word_le_nat_alt)
  have "decimal_nat 1 = ''1''" by (simp add: decimal_nat.simps digit_char_def char_of_def bit_0)
  moreover have "sf_var_names loop_clean = []" by (simp add: loop_clean_def a_function_def)
  ultimately show "bt_get (sf_var_names (coalesce_phi_names loop_clean)) (VarId 1 1) = Some ''r1''"
    "bt_get (sf_var_names (coalesce_phi_names loop_clean)) (VarId 1 2) = Some ''r1''"
    by (simp_all add: coalesce_phi_names_def groups name_group_def bt_get_def Let_def)
qed

text \<open>Copies in a row, the last unused: a round drops one of them, and four rounds leave two of six.\<close>

definition copy_row :: "nat \<Rightarrow> SsaFunction" where
  "copy_row n = a_function [a_block 0 [] (map (\<lambda>i. move (VarId (of_nat (Suc i)) 0) (VarId (of_nat i) 0)) [0..<n])]"

lemma copy_row_reads: "reads_in (sf_blocks (copy_row n)) = (\<lambda>i. VarId (of_nat i) 0) ` {0..<n}"
  by (auto simp: reads_in_def uses_in_def phi_reads_def op_uses_def copy_row_def a_function_def a_block_def op_shapes)

lemma copy_row_step:
  assumes "n < 2 ^ 32 - 1"
  shows "dead_code_elimination (copy_row (Suc n)) = copy_row n"
proof -
  let ?move = "\<lambda>i. move (VarId (of_nat (Suc i)) 0) (VarId (of_nat i) 0)"
  have small: "unat (of_nat i :: u32) = i" if "i \<le> Suc n" for i
    using that assms by (simp add: unsigned_of_nat take_bit_nat_eq_self)
  have read: "VarId (of_nat (Suc i)) 0 \<in> reads_in (sf_blocks (copy_row (Suc n))) \<longleftrightarrow> i < n" if "i < Suc n" for i
  proof -
    have "(of_nat (Suc i) :: u32) = of_nat j \<longleftrightarrow> Suc i = j" if "j < Suc n" for j
      using small [of "Suc i"] small [of j] that \<open>i < Suc n\<close> by (metis Suc_leI less_imp_le_nat)
    moreover have "VarId (of_nat (Suc i)) 0 \<in> reads_in (sf_blocks (copy_row (Suc n)))
        \<longleftrightarrow> (\<exists>j < Suc n. (of_nat (Suc i) :: u32) = of_nat j)"
      unfolding copy_row_reads by (auto simp del: of_nat_Suc)
    ultimately show ?thesis by auto
  qed
  have "filter (\<lambda>op. \<not> defines_in (- reads_in (sf_blocks (copy_row (Suc n)))) op) (map ?move [0..<Suc n])
      = map ?move (filter (\<lambda>i. i < n) [0..<Suc n])"
    by (simp add: filter_map comp_def del: upt_Suc of_nat_Suc)
      (rule arg_cong [of _ _ "map ?move"], rule filter_cong,
       auto simp: defines_in_def move_def an_op_def pure_moves read simp del: of_nat_Suc)
  moreover have "filter (\<lambda>i. i < n) [0..<Suc n] = [0..<n]" by simp
  ultimately have "without (- reads_in (sf_blocks (copy_row (Suc n)))) (a_block 0 [] (map ?move [0..<Suc n]))
      = a_block 0 [] (map ?move [0..<n])"
    by (simp only: without_def a_block_def SsaBlock.select_convs SsaBlock.update_convs filter.simps)
  moreover have "sf_blocks (copy_row (Suc n)) = [a_block 0 [] (map ?move [0..<Suc n])]" for n
    by (simp only: copy_row_def a_function_def SsaFunction.select_convs)
  ultimately show ?thesis
    unfolding dead_code_elimination_without by (simp only: list.map) (simp add: copy_row_def a_function_def a_block_def)
qed

lemma copy_row_size: "n < 100 \<Longrightarrow> ssa_size (copy_row n) = n"
  by (simp add: ssa_size_def copy_row_def a_function_def a_block_def sat_add64_def u64_max_def)

theorem dce_rounds_leave_dead_code:
  "dce_rounds 4 (copy_row 6) = copy_row 2" "dead_code_elimination (copy_row 2) \<noteq> copy_row 2"
proof -
  have steps: "dead_code_elimination (copy_row 6) = copy_row 5" "dead_code_elimination (copy_row 5) = copy_row 4"
    "dead_code_elimination (copy_row 4) = copy_row 3" "dead_code_elimination (copy_row 3) = copy_row 2"
    "dead_code_elimination (copy_row 2) = copy_row 1"
    using copy_row_step [of 5] copy_row_step [of 4] copy_row_step [of 3] copy_row_step [of 2] copy_row_step [of 1]
    by (simp_all add: numeral_2_eq_2 [symmetric] del: One_nat_def)
  have round: "dce_rounds (Suc n) f = dce_rounds n (dead_code_elimination f)"
    if "ssa_size (dead_code_elimination f) \<noteq> ssa_size f" for n f
    using that by (simp add: Let_def)
  have four: "4 = Suc (Suc (Suc (Suc 0)))" by simp
  show "dce_rounds 4 (copy_row 6) = copy_row 2"
    unfolding four using steps copy_row_size by (simp add: round)
  have "ssa_size (copy_row 1) \<noteq> ssa_size (copy_row 2)" using copy_row_size [of 1] copy_row_size [of 2] by simp
  then show "dead_code_elimination (copy_row 2) \<noteq> copy_row 2" using steps(5) by metis
qed

text \<open>
  The close of an iterator names only the iterator and a flag; it is classified as a definition of
  the iterator's register that reads nothing, and as pure.
\<close>

theorem iterator_close_is_a_definition:
  "di_name inst = ''IteratorClose'' \<Longrightarrow> di_operands inst = [Op_Reg r, Op_UInt n] \<Longrightarrow> di_op_types inst = [OT_R, OT_U1] \<Longrightarrow>
     classify_inst inst = (Some (ucast r), [])"
  "is_pure ''IteratorClose''"
  by (simp_all add: classify_inst_def no_dst_names_def is_store_name_def regs_of_def map_filter_simps Let_def get_at_def
      is_pure_def pure_names_def)

end
