(* ===== verification/Spec2Isabelle.thy ===== *)
theory Spec2Isabelle
  imports Hermes_Parse_Samples Hermes_Strings_Samples Hermes_Cfg_Samples Hermes_Scan_Samples
    Hermes_Getter_Samples Hermes_Ssa_Samples Hermes_Optimize_Samples
begin

text \<open>
  A verification development for \<open>droidsaw-hermes\<close>, a parser, emitter and decompiler for Hermes
  bytecode (HBC) files.

  \<^bold>\<open>The program.\<close> \<open>header.rs\<close> reads the 128-byte header into one of five version layouts.
  \<open>HbcFile::parse_inner\<close> (\<open>parser/mod.rs\<close>) guards the counts of the header, walks the sections
  with a 4-aligned 32-bit cursor, expands the run-length coded string kinds and decomposes the
  debug information (\<open>parser/debug_info.rs\<close>). \<open>emit.rs\<close> rebuilds a file from the parsed tables.
  Errors are \<open>HermesError\<close> values (\<open>error.rs\<close>); what is wrong but tolerated is recorded on a
  thread-local channel of findings (\<open>finding.rs\<close>). On the bodies, \<open>decompile/decode.rs\<close> decodes
  the instructions of a function with the tables of its version (\<open>opcodes.rs\<close>), \<open>cfg.rs\<close> builds
  the control flow graph from them, \<open>ssa.rs\<close> turns the graph into SSA form, which the passes of
  \<open>optimize.rs\<close> rewrite, and \<open>scanner.rs\<close> collects references from the raw bytes.

  \<^bold>\<open>The theories\<close>, in the order they build on each other:

  \<^item> \<open>Hermes_Prelude\<close>: integer types and their checked arithmetic, slices, little-endian codecs,
    the readers \<open>read_u32\<close>, \<open>read_u16\<close>, \<open>read_f64\<close>, results and results with findings.
  \<^item> \<open>Hermes_Findings\<close>: the error and finding types and the channel.
  \<^item> \<open>Hermes_Bitfields\<close>: \<open>read_bitfield\<close>, \<open>bit_pack_u32\<close>, \<open>pack_flags\<close>, with bit-level
    characterisations that every entry codec rests on.
  \<^item> \<open>Hermes_BigInts\<close>: \<open>bigint_le_twos_to_decimal\<close>, proved to render the two's-complement value.
  \<^item> \<open>Hermes_Header\<close>: the five header records, the accessors of \<open>HbcHeader\<close>,
    \<open>parse_hbc_header\<close> and the detection of the two v98 forms.
  \<^item> \<open>Hermes_Sections\<close>: the macros \<open>section!\<close> and \<open>section_opt!\<close> as operations on the cursor and
    the section list, and the sections of each layout; the walk is proved equivalent to laying
    out a list of named sizes, and every span it returns is the section recorded under its name.
  \<^item> \<open>Hermes_DebugInfo\<close>: \<open>debug_info_v96_parse\<close> and \<open>decode_source_locations\<close>.
  \<^item> \<open>Hermes_File\<close>: \<open>HbcFile\<close> and \<open>parse_inner\<close>.
  \<^item> \<open>Hermes_Raw\<close>: raw table entries, their encoders, and the locale \<open>entry_codec\<close> (a decoder and
    an encoder of fixed-size entries that undo each other), interpreted on the six formats.
  \<^item> \<open>Hermes_Emit\<close> and \<open>Hermes_Roundtrip\<close>: the emitters and the round-trip theorems, whose table
    steps are lemmas of the locale.
  \<^item> \<open>Hermes_Functions\<close>: \<open>function_get\<close>, \<open>function_get_checked\<close>, the exception-table accessors
    and the guard against tables that lie in a section the emitter rebuilds.
  \<^item> \<open>Hermes_Layout\<close>: \<open>select_v98_large_header_layout\<close> with its summary cache, triple counter and
    budget, refined to the specification \<open>layout_spec\<close>, which has neither.
  \<^item> \<open>Hermes_Regions\<close> and \<open>Hermes_Parse\<close>: the three passes of \<open>validate_function_regions\<close> and
    \<open>HbcFile::parse\<close>, with what an accepted file guarantees and which inputs are accepted.
  \<^item> \<open>Hermes_Strings\<close>: \<open>string_get\<close>, \<open>string_as_str\<close> and the lossy decoders of the standard library.
  \<^item> \<open>Hermes_Oracle\<close>: the independent oracle of \<open>parser_oracle.rs\<close>, proved to agree with the parser.
  \<^item> \<open>Hermes_Opcodes\<close>, \<open>Hermes_Tables_A\<close> to \<open>Hermes_Tables_D\<close> and \<open>Hermes_Tables\<close>: the opcode enum and
    the tables of \<open>opcodes.rs\<close> and \<open>decompile/schemas.rs\<close> for every version, with the specification
    \<open>tables_agree\<close> they are checked against, function operands included, and the six lookup
    functions.
  \<^item> \<open>Hermes_Decode\<close>: the instruction decoder of \<open>decompile/decode.rs\<close>, an exact inverse of the
    encoding of typed instructions, over the locale \<open>tagged_codec\<close> of operand codecs.
  \<^item> \<open>Hermes_BTree\<close>: \<open>BTreeSet\<close> and \<open>BTreeMap\<close> as sorted lists, with the locale \<open>ordered_map\<close>.
  \<^item> \<open>Hermes_Cfg\<close>: \<open>Cfg::build\<close> of \<open>decompile/cfg.rs\<close>, step by step. \<open>Hermes_Cfg_Order\<close> has the
    depth-first search, \<open>Hermes_Blocks\<close> the partition of the instructions and what later passes
    keep, \<open>Hermes_Cfg_Facts\<close> the abstract flow of control and \<open>Hermes_Cfg_Correct\<close> the theorems.
  \<^item> \<open>Hermes_Cfg_Oracle\<close> and \<open>Hermes_Cfg_Agree\<close>: the oracle of \<open>decompile/cfg_oracle.rs\<close> and its
    agreement with the graph.
  \<^item> \<open>Hermes_Scanner\<close> and \<open>Hermes_Scan_Facts\<close>: the reference scanner of \<open>scanner.rs\<close>, proved to
    report what the decoder reads.
  \<^item> \<open>Hermes_Literals\<close>: \<open>parse_literal_buffer\<close> (\<open>parser/round_trip.rs\<close>) and \<open>literal_get\<close>. Its outer
    loop is a partial function that is proved to return; the items interpret \<open>tagged_codec\<close>.
  \<^item> \<open>Hermes_Getters\<close>: the other table and debug getters of \<open>HbcFile\<close> on an accepted file.
  \<^item> \<open>Hermes_Ssa\<close> and \<open>Hermes_Ssa_Facts\<close>: \<open>build_ssa\<close> of \<open>decompile/ssa.rs\<close> as steps on the state of
    a builder (a state and error monad), proved to execute each block symbolically, to define every
    variable it reads and to stay bounded by the size of the function.
  \<^item> \<open>Hermes_Optimize\<close> and \<open>Hermes_Optimize_Facts\<close>: of \<open>decompile/optimize.rs\<close> the passes
    \<open>copy_propagation\<close>, \<open>dead_code_elimination\<close> with its rounds, \<open>resolve_bigints\<close> and
    \<open>coalesce_phi_names\<close>, with the purity tables of \<open>decompile/expr.rs\<close>. Copies keep the value of every
    read; the rounds drop nothing that is \<open>live\<close>; and of each register the \<open>joined\<close> versions
    get one \<open>shared_name\<close>.
  \<^item> The theories named \<open>Samples\<close>: concrete inputs at which the properties are applied.

  \<^bold>\<open>Conventions.\<close> A \<open>u8\<close>, \<open>u16\<close> or \<open>u32\<close> is a word; a \<open>u64\<close> or \<open>usize\<close> is a natural number with
  every overflow check of the source written out; an error is the left of a sum. An operation
  that records findings returns them, in order, beside its result. Loops are structural or have
  a measure (the literal loop is partial and proved to return), so no fuel is needed: the bit loops run over the field width, the decoder of
  source locations over its two caps \<open>2^20\<close> and \<open>2^22\<close>. The chase of copies is measured by the keys
  not yet visited; the rounds of dead code elimination take their number (4 in the code) as argument.

  \<^bold>\<open>Parameters.\<close> The crate \<open>droidsaw_common\<close> is not part of the repository. Its count guard is the
  argument \<open>guard\<close> of \<open>parse_inner\<close>, its LEB128 reader the argument \<open>read_sleb128\<close> of the decoder,
  its resource budget and digest the arguments \<open>charge\<close> and \<open>digest\<close> of \<open>parse\<close>, its SSA builder
  (Braun's algorithm) the record \<open>ssa_builder\<close>, whose contract is \<open>braun_contract\<close>.
  Where a property needs the documented behaviour of the guard it says so as a hypothesis.

  \<^bold>\<open>Not modelled.\<close> The diagnostic dumps (they print). Of \<open>optimize.rs\<close>: constant folding, which
  computes with doubles, and the passes that build JavaScript text (naming, buffer resolution,
  spread and template sugar, pattern rewriting); for this reason \<open>optimize\<close> itself is not composed.
  The back end of the decompiler (structuring over the regions of \<open>droidsaw_common\<close>, expressions,
  sugar, emission), the inter-procedural pass and the checks on statement trees, whose statements
  are mostly about text. The getters of \<open>HbcFile\<close> that only return a field.
\<close>

end
